(* ===== verification/Prelude.thy ===== *)
theory Prelude
  imports Main "HOL-Library.AList"
begin

text \<open>
  What every component of the development shares: the signed machine integers of Go, the
  parts of its standard library the controllers use (\<open>strings.ToLower\<close>,
  \<open>strings.Replace\<close>, \<open>strconv.Itoa\<close>, \<open>strconv.Atoi\<close>), string maps that read
  as the empty string where a key is missing, Go maps as association lists (the order of the
  list is the order of one iteration, which Go leaves open), and the history of calls to the
  outside world.
\<close>

named_theorems go_simps \<open>reading of Go primitives\<close>
named_theorems hist_simps \<open>operations extend the call history\<close>

subsection \<open>Signed machine integers\<close>

text \<open>
  Go's \<open>int32\<close> and \<open>int64\<close> are integers kept in range by wrapping around. Every
  arithmetic step of the code on such a value goes through \<open>i32\<close> or \<open>i64\<close>.
\<close>

definition i32 :: "int \<Rightarrow> int" where
  "i32 x = (x + 2 ^ 31) mod 2 ^ 32 - 2 ^ 31"

definition i64 :: "int \<Rightarrow> int" where
  "i64 x = (x + 2 ^ 63) mod 2 ^ 64 - 2 ^ 63"

definition in32 :: "int \<Rightarrow> bool" where
  "in32 x \<longleftrightarrow> - (2 ^ 31) \<le> x \<and> x < 2 ^ 31"

definition in64 :: "int \<Rightarrow> bool" where
  "in64 x \<longleftrightarrow> - (2 ^ 63) \<le> x \<and> x < 2 ^ 63"

lemma i32_id: "in32 x \<Longrightarrow> i32 x = x"
  by (simp add: i32_def in32_def)

lemma i64_id: "in64 x \<Longrightarrow> i64 x = x"
  by (simp add: i64_def in64_def)

lemma in32_i32 [simp]: "in32 (i32 x)"
proof -
  have "0 \<le> (x + 2 ^ 31) mod 2 ^ 32" and "(x + 2 ^ 31) mod 2 ^ 32 < 2 ^ 32" by simp_all
  then show ?thesis by (simp add: i32_def in32_def)
qed

lemma i32_idem [simp]: "i32 (i32 x) = i32 x"
  by (rule i32_id) simp

lemma i32_add_left [simp]: "i32 (i32 x + y) = i32 (x + y)"
proof -
  have "(i32 x + y + 2 ^ 31) mod 2 ^ 32 = ((x + 2 ^ 31) mod 2 ^ 32 + y) mod 2 ^ 32"
    by (simp add: i32_def)
  also have "\<dots> = (x + y + 2 ^ 31) mod 2 ^ 32"
    by (simp only: mod_add_left_eq) (simp add: algebra_simps)
  finally show ?thesis by (simp add: i32_def)
qed

lemma i32_add_right [simp]: "i32 (x + i32 y) = i32 (x + y)"
  using i32_add_left [of y x] by (simp add: add.commute)

lemma i32_zero [simp]: "i32 0 = 0"
  by (simp add: i32_def)

lemma i32_one [simp]: "i32 1 = 1"
  by (simp add: i32_def)

text \<open>Go's integer division truncates towards zero.\<close>

definition go_div :: "int \<Rightarrow> int \<Rightarrow> int" where
  "go_div a b = sgn a * sgn b * (\<bar>a\<bar> div \<bar>b\<bar>)"

lemma go_div_nonneg: "0 \<le> a \<Longrightarrow> 0 < b \<Longrightarrow> go_div a b = a div b"
  by (cases "a = 0") (simp_all add: go_div_def)

subsection \<open>Strings\<close>

definition lower_char :: "char \<Rightarrow> char" where
  "lower_char c =
     (if 65 \<le> (of_char c :: nat) \<and> (of_char c :: nat) \<le> 90
      then char_of ((of_char c :: nat) + 32) else c)"

definition ToLower :: "string \<Rightarrow> string" where
  "ToLower s = map lower_char s"

lemma lower_char_idem [simp]: "lower_char (lower_char c) = lower_char c"
proof (cases "65 \<le> (of_char c :: nat) \<and> (of_char c :: nat) \<le> 90")
  case True
  then have "(of_char (lower_char c) :: nat) = of_char c + 32"
    by (simp add: lower_char_def of_char_of)
  with True show ?thesis by (simp add: lower_char_def [of "lower_char c"])
next
  case False
  then have "lower_char c = c" by (simp only: lower_char_def if_False)
  then show ?thesis by simp
qed

lemma ToLower_idem [simp]: "ToLower (ToLower s) = ToLower s"
  by (simp add: ToLower_def)

text \<open>\<open>strings.Replace(s, "/", "-", -1)\<close>\<close>

definition slash_to_dash :: "string \<Rightarrow> string" where
  "slash_to_dash s = map (\<lambda>c. if c = CHR ''/'' then CHR ''-'' else c) s"

lemma slash_to_dash_append [simp]: "slash_to_dash (a @ b) = slash_to_dash a @ slash_to_dash b"
  by (simp add: slash_to_dash_def)

lemma slash_to_dash_no_slash: "CHR ''/'' \<notin> set (slash_to_dash s)"
  by (auto simp: slash_to_dash_def)

lemma slash_to_dash_id: "CHR ''/'' \<notin> set s \<Longrightarrow> slash_to_dash s = s"
  by (induction s) (auto simp: slash_to_dash_def)

subsubsection \<open>Decimal numbers\<close>

definition digit_char :: "nat \<Rightarrow> char" where
  "digit_char d = char_of (48 + d)"

definition digit_val :: "char \<Rightarrow> nat option" where
  "digit_val c =
     (if 48 \<le> (of_char c :: nat) \<and> (of_char c :: nat) \<le> 57 then Some (of_char c - 48) else None)"

fun nat_dec :: "nat \<Rightarrow> string" where
  "nat_dec n = (if n < 10 then [digit_char n] else nat_dec (n div 10) @ [digit_char (n mod 10)])"

declare nat_dec.simps [simp del]

fun parse_digits :: "nat \<Rightarrow> string \<Rightarrow> nat option" where
  "parse_digits acc [] = Some acc"
| "parse_digits acc (c # cs) =
     (case digit_val c of None \<Rightarrow> None | Some d \<Rightarrow> parse_digits (acc * 10 + d) cs)"

text \<open>\<open>strconv.Itoa\<close> and \<open>strconv.FormatInt(_, 10)\<close>\<close>

definition Itoa :: "int \<Rightarrow> string" where
  "Itoa i = (if i < 0 then CHR ''-'' # nat_dec (nat (- i)) else nat_dec (nat i))"

text \<open>
  \<open>strconv.Atoi\<close> on a 64-bit platform, which is \<open>strconv.ParseInt(_, 10, 64)\<close>: an
  optional sign, at least one digit, only digits, and a value in the range of
  \<open>int64\<close>; anything else is an error (\<open>None\<close>).
\<close>

definition parse_unsigned :: "string \<Rightarrow> nat option" where
  "parse_unsigned s = (if s = [] then None else parse_digits 0 s)"

definition check64 :: "int \<Rightarrow> int option" where
  "check64 x = (if in64 x then Some x else None)"

definition Atoi :: "string \<Rightarrow> int option" where
  "Atoi s =
     (case s of
        [] \<Rightarrow> None
      | c # cs \<Rightarrow>
          (if c = CHR ''-'' then Option.bind (parse_unsigned cs) (\<lambda>n. check64 (- int n))
           else if c = CHR ''+'' then Option.bind (parse_unsigned cs) (\<lambda>n. check64 (int n))
           else Option.bind (parse_unsigned s) (\<lambda>n. check64 (int n))))"

lemma digit_val_digit_char [simp]: "d < 10 \<Longrightarrow> digit_val (digit_char d) = Some d"
  by (simp add: digit_val_def digit_char_def of_char_of)

lemma parse_digits_append:
  "parse_digits acc (xs @ ys) = Option.bind (parse_digits acc xs) (\<lambda>a. parse_digits a ys)"
  by (induction acc xs rule: parse_digits.induct) (auto split: option.splits)

lemma parse_digits_nat_dec: "parse_digits 0 (nat_dec n) = Some n"
proof (induction n rule: nat_dec.induct)
  case (1 n)
  show ?case
  proof (cases "n < 10")
    case True
    then show ?thesis by (simp add: nat_dec.simps [of n])
  next
    case False
    with 1 show ?thesis by (simp add: nat_dec.simps [of n] parse_digits_append)
  qed
qed

lemma nat_dec_nonempty [simp]: "nat_dec n \<noteq> []"
  by (subst nat_dec.simps) simp

lemma digit_char_plain: "d < 10 \<Longrightarrow> digit_char d \<noteq> CHR ''-'' \<and> digit_char d \<noteq> CHR ''+''"
proof -
  assume "d < 10"
  then have "(of_char (digit_char d) :: nat) = 48 + d" by (simp add: digit_char_def of_char_of)
  then show ?thesis by auto
qed

lemma nat_dec_hd_plain: "hd (nat_dec n) \<noteq> CHR ''-'' \<and> hd (nat_dec n) \<noteq> CHR ''+''"
proof (induction n rule: nat_dec.induct)
  case (1 n)
  then show ?case by (subst (1 2) nat_dec.simps) (auto simp: digit_char_plain)
qed

lemma Atoi_nat_dec: "in64 (int n) \<Longrightarrow> Atoi (nat_dec n) = Some (int n)"
proof -
  assume n: "in64 (int n)"
  obtain c cs where s: "nat_dec n = c # cs" by (cases "nat_dec n") auto
  have "c \<noteq> CHR ''-''" and "c \<noteq> CHR ''+''" using nat_dec_hd_plain [of n] s by auto
  moreover have "parse_unsigned (c # cs) = Some n"
    using parse_digits_nat_dec [of n] s by (simp add: parse_unsigned_def)
  ultimately show ?thesis using n by (simp add: s Atoi_def check64_def)
qed

lemma Atoi_Itoa: "in64 i \<Longrightarrow> Atoi (Itoa i) = Some i"
proof (cases "i < 0")
  case True
  assume "in64 i"
  with True show ?thesis
    by (simp add: Itoa_def Atoi_def parse_unsigned_def parse_digits_nat_dec check64_def)
next
  case False
  assume "in64 i"
  with False show ?thesis by (simp add: Itoa_def Atoi_nat_dec)
qed

lemma Itoa_inject: "in64 i \<Longrightarrow> in64 j \<Longrightarrow> Itoa i = Itoa j \<Longrightarrow> i = j"
  by (metis Atoi_Itoa option.inject)

subsection \<open>Maps\<close>

text \<open>
  A Go \<open>map[string]string\<close> read with \<open>m[k]\<close> gives the empty string for a missing
  key; a nil map reads as an empty one.
\<close>

type_synonym smap = "string \<Rightarrow> string option"

definition sget :: "smap \<Rightarrow> string \<Rightarrow> string" where
  "sget m k = (case m k of None \<Rightarrow> [] | Some v \<Rightarrow> v)"

lemma sget_upd [simp]: "sget (m(k \<mapsto> v)) j = (if j = k then v else sget m j)"
  by (simp add: sget_def)

lemma sget_empty [simp]: "sget Map.empty k = []"
  by (simp add: sget_def)

text \<open>
  A Go map that the code ranges over is an association list with distinct keys. Assignment
  \<open>m[k] = v\<close> is \<open>AList.update\<close>.
\<close>

abbreviation keys :: "('k \<times> 'v) list \<Rightarrow> 'k list" where
  "keys m \<equiv> map fst m"

lemma map_of_update [simp]: "map_of (AList.update k v m) j = (if j = k then Some v else map_of m j)"
  by (simp add: update_conv')

lemma map_of_perm:
  assumes "distinct (keys xs)" "distinct (keys ys)" "set xs = set ys"
  shows "map_of xs = map_of ys"
  using assms by (metis map_of_inject_set)

subsection \<open>The outside world\<close>

text \<open>
  Calls to code outside the repository (the API server client, the expectation cache, the
  rate limited queue, the event recorder) are recorded in a history; the answer to a call is
  a function of the history before it, so that the outside world may react to and interleave
  with everything the controller did. Operations return the extended history.
\<close>

definition extends :: "'c list \<Rightarrow> 'c list \<Rightarrow> bool" where
  "extends h h' \<longleftrightarrow> (\<exists>cs. h' = h @ cs)"

lemma extends_refl [simp, intro]: "extends h h"
  by (simp add: extends_def)

lemma extends_snoc [simp, intro]: "extends h (h @ cs)"
  by (simp add: extends_def)

lemma extends_trans: "extends h1 h2 \<Longrightarrow> extends h2 h3 \<Longrightarrow> extends h1 h3"
  by (auto simp: extends_def)

lemma extends_snocI: "extends h h' \<Longrightarrow> extends h (h' @ cs)"
  by (auto simp: extends_def)

end
