(* ===== verification/Api_Types.thy ===== *)
theory Api_Types
  imports Prelude
begin

text \<open>
  The data of the job API (\<open>pkg/job_controller/api/v1/types.go\<close> and
  \<open>constants.go\<close>) and the fields of the Kubernetes objects that the controllers read
  or write. A pointer that may be nil is an \<open>option\<close>; a Go map the code ranges over is
  an association list; a label or annotation map is a partial function. Times are
  nanoseconds; the zero value of a string is the empty list.
\<close>

subsection \<open>Kubernetes objects\<close>

type_synonym time = int

datatype pod_phase =
  PodPending | PodRunning | PodSucceeded | PodFailed | PodUnknown | PodPhaseOther string

datatype cond_status = ConditionTrue | ConditionFalse | ConditionUnknown

text \<open>
  A container status: its name, the exit code when the container is in the terminated state,
  whether it is in the running state, and the restart count.
\<close>

record container_status =
  cs_Name :: string
  cs_Terminated :: "int option"
  cs_Running :: bool
  cs_RestartCount :: int

record container_port =
  cp_Name :: string
  cp_HostPort :: int
  cp_ContainerPort :: int

text \<open>
  A resource list maps resource names to quantities; a quantity is a number with three decimal
  places (as its documentation has it), here in thousandths.
\<close>

type_synonym quantity = int
type_synonym resource_list = "(string \<times> quantity) list"

text \<open>
  The value of an environment variable: a literal, a reference to a field of the pod, or, in an object
  the server rejects, both. Volumes are claims, directories in memory or on disk with an optional size
  limit, files of a config map or of a secret, a path of the node, or a path of an NFS server.
\<close>

datatype env_value = EnvValue string | EnvFieldRef string | EnvValueAndRef string string

datatype volume_source =
    PVCSource string
  | EmptyDirSource bool "int option"
  | ConfigMapSource string "(string \<times> int) list"
  | SecretSource string "(string \<times> string) list"
  | HostPathSource string
  | NFSSource string string

record volume_mount =
  vm_Name :: string
  vm_MountPath :: string
  vm_SubPath :: string

record container =
  ct_Name :: string
  ct_Ports :: "container_port list"
  ct_Env :: "(string \<times> env_value) list"
  ct_VolumeMounts :: "volume_mount list"
  ct_Requests :: resource_list
  ct_Limits :: resource_list
  ct_Image :: string
  ct_Command :: "string list"
  ct_Args :: "string list"
  ct_WorkingDir :: string
  ct_ImagePullPolicy :: string
  ct_TerminationMessagePolicy :: string

record owner_ref =
  or_APIVersion :: string
  or_Kind :: string
  or_Name :: string
  or_UID :: string
  or_Controller :: "bool option"
  or_BlockOwnerDeletion :: "bool option"

record pod_spec =
  ps_NodeName :: string
  ps_Containers :: "container list"
  ps_HostNetwork :: bool
  ps_DNSPolicy :: string
  ps_RestartPolicy :: string
  ps_SchedulerName :: string
  ps_PriorityClassName :: string
  ps_Volumes :: "(string \<times> volume_source) list"
  ps_InitContainers :: "container list"
  ps_Overhead :: "resource_list option"

record pod_template =
  pt_Name :: string
  pt_GenerateName :: string
  pt_Labels :: smap
  pt_Annotations :: smap
  pt_Finalizers :: "string list"
  pt_OwnerReferences :: "owner_ref list"
  pt_Spec :: pod_spec

record pod =
  pod_Name :: string
  pod_GenerateName :: string
  pod_Namespace :: string
  pod_UID :: string
  pod_Labels :: smap
  pod_Annotations :: smap
  pod_Finalizers :: "string list"
  pod_OwnerReferences :: "owner_ref list"
  pod_DeletionTimestamp :: "time option"
  pod_ResourceVersion :: string
  pod_Spec :: pod_spec
  pod_Phase :: pod_phase
  pod_Reason :: string
  pod_StartTime :: "time option"
  pod_ContainerStatuses :: "container_status list"
  pod_InitContainerStatuses :: "container_status list"

record service_port =
  sp_Name :: string
  sp_Port :: int
  sp_TargetPort :: int

record service =
  svc_Name :: string
  svc_Namespace :: string
  svc_UID :: string
  svc_Labels :: smap
  svc_OwnerReferences :: "owner_ref list"
  svc_DeletionTimestamp :: "time option"
  svc_ResourceVersion :: string
  svc_ClusterIP :: string
  svc_Selector :: smap
  svc_Ports :: "service_port list"

text \<open>
  The metadata of a job object that the generic controller reads through
  \<open>client.Object\<close>.
\<close>

record job_meta =
  jm_APIVersion :: string
  jm_Kind :: string
  jm_Name :: string
  jm_Namespace :: string
  jm_UID :: string
  jm_Generation :: int
  jm_Annotations :: smap
  jm_DeletionTimestamp :: "time option"

text \<open>
  \<open>metav1.GetControllerOf\<close>: the first owner reference whose \<open>Controller\<close> is
  true.
\<close>

fun GetControllerOf :: "owner_ref list \<Rightarrow> owner_ref option" where
  "GetControllerOf [] = None"
| "GetControllerOf (r # rs) = (if or_Controller r = Some True then Some r else GetControllerOf rs)"

subsection \<open>Errors\<close>

text \<open>
  Error values: the status errors of the API server that the code distinguishes, any other
  error, and the panics of the Go runtime (nil dereference, index out of range, failed type
  assertion).
\<close>

datatype go_error =
    NotFound | AlreadyExists | Conflict | Timeout | Invalid
  | Err string
  | Panic string

subsection \<open>The job API\<close>

datatype JobConditionType =
  JobCreated | JobQueuing | JobRunning | JobRestarting | JobSucceeded | JobFailed

record JobCondition =
  jc_Type :: JobConditionType
  jc_Status :: cond_status
  jc_Reason :: string
  jc_Message :: string
  jc_LastUpdateTime :: time
  jc_LastTransitionTime :: time

record ReplicaStatus =
  Active :: int
  Succeeded :: int
  Failed :: int
  Evicted :: int

type_synonym ReplicaType = string

record JobStatus =
  Conditions :: "JobCondition list"
  ReplicaStatuses :: "(ReplicaType \<times> ReplicaStatus) list"
  StartTime :: "time option"
  CompletionTime :: "time option"
  LastReconcileTime :: "time option"
  ModelVersionName :: string
  CacheBackendName :: string

record SpotReplicaSpec =
  SpotReplicaNumber :: int
  spot_PriorityClassName :: string
  spot_Labels :: "(string \<times> string) list"

record DAGCondition =
  Upstream :: ReplicaType
  OnPhase :: pod_phase

record ReplicaSpec =
  Replicas :: "int option"
  Spot :: "SpotReplicaSpec option"
  Template :: pod_template
  RestartPolicy :: string
  DependOn :: "DAGCondition list"

type_synonym replica_specs = "(ReplicaType \<times> ReplicaSpec) list"

datatype CleanPodPolicy =
  CleanPodPolicyUndefined | CleanPodPolicyAll | CleanPodPolicyRunning | CleanPodPolicyNone

datatype SuccessPolicy = SuccessPolicyDefault | SuccessPolicyAllWorkers

datatype ConcurrencyPolicy =
  ConcurrencyUnset | AllowConcurrent | ForbidConcurrent | ReplaceConcurrent

record CronPolicy =
  cp_Schedule :: string
  cp_ConcurrencyPolicy :: ConcurrencyPolicy
  cp_Suspend :: "bool option"
  cp_Deadline :: "time option"
  cp_HistoryLimit :: "int option"

record SchedulingPolicy =
  MinAvailable :: "int option"
  Priority :: "int option"
  sched_PriorityClassName :: string
  sched_Queue :: string

record RunPolicy =
  rp_CleanPodPolicy :: "CleanPodPolicy option"
  rp_TTLSecondsAfterFinished :: "int option"
  rp_ActiveDeadlineSeconds :: "int option"
  rp_BackoffLimit :: "int option"
  rp_SchedulingPolicy :: "SchedulingPolicy option"
  rp_CronPolicy :: "CronPolicy option"

definition RestartPolicyAlways :: string where "RestartPolicyAlways = ''Always''"
definition RestartPolicyOnFailure :: string where "RestartPolicyOnFailure = ''OnFailure''"
definition RestartPolicyNever :: string where "RestartPolicyNever = ''Never''"
definition RestartPolicyExitCode :: string where "RestartPolicyExitCode = ''ExitCode''"

lemmas restart_policy_defs =
  RestartPolicyAlways_def RestartPolicyOnFailure_def RestartPolicyNever_def RestartPolicyExitCode_def

definition ReplicaIndexLabel :: string where "ReplicaIndexLabel = ''replica-index''"
definition ReplicaTypeLabel :: string where "ReplicaTypeLabel = ''replica-type''"
definition GroupNameLabel :: string where "GroupNameLabel = ''group-name''"
definition JobNameLabel :: string where "JobNameLabel = ''job-name''"
definition JobRoleLabel :: string where "JobRoleLabel = ''job-role''"
definition LabelGeneration :: string where "LabelGeneration = ''kubedl.io/job-generation''"
definition LabelGangSchedulingJobName :: string where
  "LabelGangSchedulingJobName = ''kubedl.io/gang-job-name''"
definition LabelCronName :: string where "LabelCronName = ''kubedl.io/cron-name''"
definition AnnotationNetworkMode :: string where "AnnotationNetworkMode = ''kubedl.io/network-mode''"
definition HostNetworkMode :: string where "HostNetworkMode = ''host''"
definition FinalizerPreemptProtector :: string where
  "FinalizerPreemptProtector = ''kubedl.io/preempt-protector''"
definition JobReplicaTypeAIMaster :: ReplicaType where "JobReplicaTypeAIMaster = ''AIMaster''"

lemmas label_defs =
  ReplicaIndexLabel_def ReplicaTypeLabel_def GroupNameLabel_def JobNameLabel_def JobRoleLabel_def
  LabelGeneration_def LabelGangSchedulingJobName_def LabelCronName_def

lemma label_keys_distinct [simp]:
  "ReplicaIndexLabel \<noteq> ReplicaTypeLabel" "ReplicaTypeLabel \<noteq> ReplicaIndexLabel"
  "JobRoleLabel \<noteq> ReplicaTypeLabel" "JobRoleLabel \<noteq> ReplicaIndexLabel"
  "ReplicaTypeLabel \<noteq> JobRoleLabel" "ReplicaIndexLabel \<noteq> JobRoleLabel"
  "LabelGeneration \<noteq> ReplicaTypeLabel" "LabelGeneration \<noteq> ReplicaIndexLabel"
  "ReplicaTypeLabel \<noteq> LabelGeneration" "ReplicaIndexLabel \<noteq> LabelGeneration"
  "GroupNameLabel \<noteq> ReplicaTypeLabel" "GroupNameLabel \<noteq> ReplicaIndexLabel"
  "ReplicaTypeLabel \<noteq> GroupNameLabel" "ReplicaIndexLabel \<noteq> GroupNameLabel"
  "JobNameLabel \<noteq> ReplicaTypeLabel" "JobNameLabel \<noteq> ReplicaIndexLabel"
  "ReplicaTypeLabel \<noteq> JobNameLabel" "ReplicaIndexLabel \<noteq> JobNameLabel"
  by (simp_all add: label_defs)

text \<open>Reading a replica status map: a missing entry is a nil pointer.\<close>

definition rstatus :: "JobStatus \<Rightarrow> ReplicaType \<Rightarrow> ReplicaStatus option" where
  "rstatus st r = map_of (ReplicaStatuses st) r"

definition zero_status :: ReplicaStatus where
  "zero_status = \<lparr>Active = 0, Succeeded = 0, Failed = 0, Evicted = 0\<rparr>"

text \<open>
  \<open>reflect.DeepEqual\<close> on two job statuses: the replica status maps are compared as maps.
\<close>

definition same_map :: "('k \<times> 'v) list \<Rightarrow> ('k \<times> 'v) list \<Rightarrow> bool" where
  "same_map xs ys \<longleftrightarrow> list_all (\<lambda>k. map_of xs k = map_of ys k) (keys xs @ keys ys)"

lemma same_map_iff: "same_map xs ys \<longleftrightarrow> map_of xs = map_of ys"
proof
  assume *: "same_map xs ys"
  show "map_of xs = map_of ys"
  proof
    fix k
    show "map_of xs k = map_of ys k"
    proof (cases "k \<in> set (keys xs) \<or> k \<in> set (keys ys)")
      case True
      with * show ?thesis by (auto simp: same_map_def list_all_iff)
    next
      case False
      then show ?thesis by (metis list.set_map map_of_eq_None_iff)
    qed
  qed
qed (simp add: same_map_def list_all_iff)

definition DeepEqual_status :: "JobStatus \<Rightarrow> JobStatus \<Rightarrow> bool" where
  "DeepEqual_status a b \<longleftrightarrow>
     Conditions a = Conditions b \<and> same_map (ReplicaStatuses a) (ReplicaStatuses b) \<and>
     StartTime a = StartTime b \<and> CompletionTime a = CompletionTime b \<and>
     LastReconcileTime a = LastReconcileTime b \<and>
     ModelVersionName a = ModelVersionName b \<and> CacheBackendName a = CacheBackendName b"

lemma DeepEqual_status_refl [simp]: "DeepEqual_status a a"
  by (simp add: DeepEqual_status_def same_map_iff)

end
