(* ===== verification/K8s_Util.thy ===== *)
theory K8s_Util
  imports Api_Types
begin

text \<open>
  The counting and classification helpers of \<open>pkg/util/k8sutil/k8sutil.go\<close> and
  \<open>pkg/util/train/train_util.go\<close>, and the replica counters of
  \<open>pkg/job_controller/status.go\<close>.
\<close>

subsection \<open>Pods\<close>

fun HasFinalizer :: "string list \<Rightarrow> string \<Rightarrow> bool" where
  "HasFinalizer [] target = False"
| "HasFinalizer (f # fs) target = (if f = target then True else HasFinalizer fs target)"

definition IsPodActive :: "pod \<Rightarrow> bool" where
  "IsPodActive p \<longleftrightarrow>
     PodSucceeded \<noteq> pod_Phase p \<and> PodFailed \<noteq> pod_Phase p \<and> pod_DeletionTimestamp p = None"

fun FilterActivePods :: "pod list \<Rightarrow> pod list" where
  "FilterActivePods [] = []"
| "FilterActivePods (p # ps) =
     (if IsPodActive p then p # FilterActivePods ps else FilterActivePods ps)"

definition IsStalePod :: "pod \<Rightarrow> int \<Rightarrow> bool" where
  "IsStalePod p generation =
     (let gen = sget (pod_Labels p) LabelGeneration in
      if gen = [] then True
      else case Atoi gen of None \<Rightarrow> False | Some current \<Rightarrow> current < generation)"

fun stale_loop :: "pod list \<Rightarrow> int \<Rightarrow> string list \<Rightarrow> int \<Rightarrow> (string \<Rightarrow> pod list) \<Rightarrow> int \<times> (string \<Rightarrow> pod list)"
where
  "stale_loop [] generation excludes n result = (n, result)"
| "stale_loop (p # ps) generation excludes n result =
     (let rt = sget (pod_Labels p) ReplicaTypeLabel in
      if IsStalePod p generation \<and> rt \<notin> set excludes
      then stale_loop ps generation excludes (n + 1) (result(rt := result rt @ [p]))
      else stale_loop ps generation excludes n result)"

definition FilterStalePodsByReplicaType ::
    "pod list \<Rightarrow> int \<Rightarrow> string list \<Rightarrow> int \<times> (string \<Rightarrow> pod list)" where
  "FilterStalePodsByReplicaType pods generation excludes = stale_loop pods generation excludes 0 (\<lambda>_. [])"

definition IsPodStartedBefore :: "pod \<Rightarrow> time \<Rightarrow> bool" where
  "IsPodStartedBefore p ts = (case pod_StartTime p of None \<Rightarrow> False | Some t \<Rightarrow> t < ts)"

fun count_loop :: "('a \<Rightarrow> bool) \<Rightarrow> int \<Rightarrow> 'a list \<Rightarrow> int" where
  "count_loop P n [] = n"
| "count_loop P n (x # xs) = count_loop P (if P x then i32 (n + 1) else n) xs"

definition GetNumReplicasForLatestGeneration :: "pod list \<Rightarrow> int \<Rightarrow> int" where
  "GetNumReplicasForLatestGeneration pods generation =
     count_loop (\<lambda>p. sget (pod_Labels p) LabelGeneration = Itoa generation) 0 pods"

definition IsVictimCandidatePod :: "pod \<Rightarrow> bool" where
  "IsVictimCandidatePod p \<longleftrightarrow>
     pod_DeletionTimestamp p \<noteq> None \<and> HasFinalizer (pod_Finalizers p) FinalizerPreemptProtector"

definition FilterPodCount :: "pod list \<Rightarrow> pod_phase \<Rightarrow> int" where
  "FilterPodCount pods phase = count_loop (\<lambda>p. phase = pod_Phase p) 0 pods"

definition ResolveDependentOwner :: "owner_ref list \<Rightarrow> string \<times> string" where
  "ResolveDependentOwner refs =
     (case GetControllerOf refs of None \<Rightarrow> ([], []) | Some r \<Rightarrow> (or_UID r, or_Name r))"

definition GetReplicaType :: "pod \<Rightarrow> string option" where
  "GetReplicaType p = pod_Labels p ReplicaTypeLabel"

subsection \<open>Replica totals\<close>

text \<open>
  A loop over the replica specs adds up \<open>*r.Replicas\<close>; a nil pointer there is a panic.
\<close>

fun sum_replicas :: "int \<Rightarrow> replica_specs \<Rightarrow> go_error + int" where
  "sum_replicas acc [] = Inr acc"
| "sum_replicas acc ((t, r) # rs) =
     (case Replicas r of
        None \<Rightarrow> Inl (Panic ''nil Replicas'')
      | Some n \<Rightarrow> sum_replicas (i32 (acc + n)) rs)"

definition GetTotalReplicas :: "replica_specs \<Rightarrow> go_error + int" where
  "GetTotalReplicas specs = sum_replicas 0 specs"

definition GetTotalExcludedReplicas :: "replica_specs \<Rightarrow> ReplicaType list \<Rightarrow> go_error + int" where
  "GetTotalExcludedReplicas specs excludes =
     sum_replicas 0 (filter (\<lambda>(t, r). t \<notin> set excludes) specs)"

fun sum_statuses :: "(ReplicaStatus \<Rightarrow> int) \<Rightarrow> int \<Rightarrow> (ReplicaType \<times> ReplicaStatus) list \<Rightarrow> int" where
  "sum_statuses f acc [] = acc"
| "sum_statuses f acc ((t, s) # ss) = sum_statuses f (i32 (acc + f s)) ss"

definition GetTotalFailedReplicas :: "(ReplicaType \<times> ReplicaStatus) list \<Rightarrow> int" where
  "GetTotalFailedReplicas sts = sum_statuses Failed 0 sts"

definition GetTotalAvtiveReplicas :: "(ReplicaType \<times> ReplicaStatus) list \<Rightarrow> int" where
  "GetTotalAvtiveReplicas sts = sum_statuses Active 0 sts"

subsection \<open>Retryable failures\<close>

definition IsRetryableExitCode :: "int \<Rightarrow> bool" where
  "IsRetryableExitCode exitCode =
     (if exitCode = 1 \<or> exitCode = 2 \<or> exitCode = 126 \<or> exitCode = 127 \<or> exitCode = 128 \<or> exitCode = 139
      then False
      else if exitCode = 130 \<or> exitCode = 137 \<or> exitCode = 143 then True
      else if exitCode = 138 then True
      else False)"

definition IsRetryablePodFailedReason :: "string \<Rightarrow> bool" where
  "IsRetryablePodFailedReason reason \<longleftrightarrow>
     reason \<in> set [''OOMKilled'', ''Killed'', ''Evicted'', ''UnexpectedAdmissionError'']"

subsection \<open>Replica counters\<close>

definition initializeReplicaStatuses :: "JobStatus \<Rightarrow> ReplicaType \<Rightarrow> JobStatus" where
  "initializeReplicaStatuses st rtype =
     st\<lparr>ReplicaStatuses := AList.update rtype zero_status (ReplicaStatuses st)\<rparr>"

fun init_containers_passed :: "container_status list \<Rightarrow> bool" where
  "init_containers_passed [] = True"
| "init_containers_passed (c # cs) =
     (if \<not> (cs_Terminated c \<noteq> None \<or> cs_Running c) then False else init_containers_passed cs)"

definition allInitContainersPassed :: "pod \<Rightarrow> bool" where
  "allInitContainersPassed p = init_containers_passed (pod_InitContainerStatuses p)"

text \<open>
  \<open>jobStatus.ReplicaStatuses[rtype].Active++\<close> and its siblings dereference the entry; a
  missing entry is a nil pointer.
\<close>

definition bump_status ::
    "JobStatus \<Rightarrow> ReplicaType \<Rightarrow> (ReplicaStatus \<Rightarrow> ReplicaStatus) \<Rightarrow> go_error + JobStatus" where
  "bump_status st rtype f =
     (case rstatus st rtype of
        None \<Rightarrow> Inl (Panic ''nil ReplicaStatus'')
      | Some s \<Rightarrow> Inr (st\<lparr>ReplicaStatuses := AList.update rtype (f s) (ReplicaStatuses st)\<rparr>))"

definition updateJobReplicaStatuses :: "JobStatus \<Rightarrow> ReplicaType \<Rightarrow> pod \<Rightarrow> go_error + JobStatus" where
  "updateJobReplicaStatuses st rtype p =
     (case pod_Phase p of
        PodPending \<Rightarrow>
          (if ps_NodeName (pod_Spec p) \<noteq> [] \<and> allInitContainersPassed p
           then bump_status st rtype (\<lambda>s. s\<lparr>Active := i32 (Active s + 1)\<rparr>) else Inr st)
      | PodRunning \<Rightarrow> bump_status st rtype (\<lambda>s. s\<lparr>Active := i32 (Active s + 1)\<rparr>)
      | PodSucceeded \<Rightarrow> bump_status st rtype (\<lambda>s. s\<lparr>Succeeded := i32 (Succeeded s + 1)\<rparr>)
      | PodFailed \<Rightarrow> bump_status st rtype (\<lambda>s. s\<lparr>Failed := i32 (Failed s + 1)\<rparr>)
      | _ \<Rightarrow> Inr st)"

subsection \<open>What the loops compute\<close>

lemma HasFinalizer_iff [simp]: "HasFinalizer fs t \<longleftrightarrow> t \<in> set fs"
  by (induction fs t rule: HasFinalizer.induct) auto

lemma FilterActivePods_eq [simp]: "FilterActivePods ps = filter IsPodActive ps"
  by (induction ps) auto

lemma allInitContainersPassed_iff:
  "allInitContainersPassed p \<longleftrightarrow>
   (\<forall>c \<in> set (pod_InitContainerStatuses p). cs_Terminated c \<noteq> None \<or> cs_Running c)"
proof -
  have "init_containers_passed cs \<longleftrightarrow> (\<forall>c \<in> set cs. cs_Terminated c \<noteq> None \<or> cs_Running c)" for cs
    by (induction cs rule: init_containers_passed.induct) auto
  then show ?thesis by (simp add: allInitContainersPassed_def)
qed

lemma count_loop_eq: "count_loop P (i32 n) xs = i32 (n + int (length (filter P xs)))"
proof (induction xs arbitrary: n)
  case Nil
  then show ?case by simp
next
  case (Cons x xs)
  from Cons [of "n + 1"] Cons [of n] show ?case by (simp add: algebra_simps)
qed

lemma count_loop_0: "count_loop P 0 xs = i32 (int (length (filter P xs)))"
  using count_loop_eq [of P 0 xs] by simp

lemma FilterPodCount_eq: "FilterPodCount pods phase = i32 (int (length (filter (\<lambda>p. pod_Phase p = phase) pods)))"
  by (simp add: FilterPodCount_def count_loop_0 eq_commute [of phase])

text \<open>The totals do not depend on the order in which Go ranges over the map.\<close>

lemma sum_replicas_eq:
  "sum_replicas (i32 a) specs =
   (if \<forall>(t, r) \<in> set specs. Replicas r \<noteq> None
    then Inr (i32 (a + sum_list (map (\<lambda>(t, r). the (Replicas r)) specs)))
    else Inl (Panic ''nil Replicas''))"
proof (induction specs arbitrary: a)
  case Nil
  then show ?case by simp
next
  case (Cons x specs)
  obtain t r where [simp]: "x = (t, r)" by force
  show ?case
  proof (cases "Replicas r")
    case None
    then show ?thesis by simp
  next
    case (Some n)
    with Cons [of "a + n"] show ?thesis by (auto simp: algebra_simps)
  qed
qed

lemma GetTotalReplicas_eq:
  "GetTotalReplicas specs =
   (if \<forall>(t, r) \<in> set specs. Replicas r \<noteq> None
    then Inr (i32 (sum_list (map (\<lambda>(t, r). the (Replicas r)) specs)))
    else Inl (Panic ''nil Replicas''))"
  using sum_replicas_eq [of 0 specs] by (simp add: GetTotalReplicas_def)

lemma sum_statuses_eq: "sum_statuses f (i32 a) sts = i32 (a + sum_list (map (f \<circ> snd) sts))"
proof (induction sts arbitrary: a)
  case Nil
  then show ?case by simp
next
  case (Cons x sts)
  obtain t s where [simp]: "x = (t, s)" by force
  from Cons [of "a + f s"] show ?case by (simp add: algebra_simps)
qed

lemma stale_loop_eq:
  "stale_loop ps g excludes n result =
   (n + int (length (filter (\<lambda>p. IsStalePod p g \<and> sget (pod_Labels p) ReplicaTypeLabel \<notin> set excludes) ps)),
    \<lambda>rt. result rt @
      filter (\<lambda>p. IsStalePod p g \<and> sget (pod_Labels p) ReplicaTypeLabel = rt \<and> rt \<notin> set excludes) ps)"
proof (induction ps arbitrary: n result)
  case Nil
  then show ?case by simp
next
  case (Cons p ps)
  show ?case by (simp add: Cons Let_def) (auto simp: fun_eq_iff)
qed

lemma IsRetryableExitCode_iff: "IsRetryableExitCode c \<longleftrightarrow> c \<in> {130, 137, 138, 143}"
  by (auto simp: IsRetryableExitCode_def)

lemma bump_status_Some:
  "rstatus st r = Some s \<Longrightarrow>
   bump_status st r f = Inr (st\<lparr>ReplicaStatuses := AList.update r (f s) (ReplicaStatuses st)\<rparr>)"
  by (simp add: bump_status_def)

lemma rstatus_upd [simp]:
  "rstatus (st\<lparr>ReplicaStatuses := AList.update r s (ReplicaStatuses st)\<rparr>) q =
   (if q = r then Some s else rstatus st q)"
  by (simp add: rstatus_def)

lemma rstatus_init [simp]:
  "rstatus (initializeReplicaStatuses st r) q = (if q = r then Some zero_status else rstatus st q)"
  by (simp add: initializeReplicaStatuses_def)

lemma init_frame [simp]:
  "Conditions (initializeReplicaStatuses st r) = Conditions st"
  "StartTime (initializeReplicaStatuses st r) = StartTime st"
  "CompletionTime (initializeReplicaStatuses st r) = CompletionTime st"
  by (simp_all add: initializeReplicaStatuses_def)

text \<open>How one pod counts.\<close>

definition counts_active :: "pod \<Rightarrow> bool" where
  "counts_active p \<longleftrightarrow> pod_Phase p = PodRunning \<or>
     (pod_Phase p = PodPending \<and> ps_NodeName (pod_Spec p) \<noteq> [] \<and> allInitContainersPassed p)"

definition add_pod :: "ReplicaStatus \<Rightarrow> pod \<Rightarrow> ReplicaStatus" where
  "add_pod s p =
     s\<lparr>Active := (if counts_active p then i32 (Active s + 1) else Active s),
       Succeeded := (if pod_Phase p = PodSucceeded then i32 (Succeeded s + 1) else Succeeded s),
       Failed := (if pod_Phase p = PodFailed then i32 (Failed s + 1) else Failed s)\<rparr>"

lemma update_replica_status:
  assumes "rstatus st r = Some s"
  shows "\<exists>st'. updateJobReplicaStatuses st r p = Inr st' \<and> rstatus st' r = Some (add_pod s p) \<and>
    (\<forall>q. q \<noteq> r \<longrightarrow> rstatus st' q = rstatus st q) \<and>
    Conditions st' = Conditions st \<and> StartTime st' = StartTime st \<and> CompletionTime st' = CompletionTime st"
  using assms
  by (cases "pod_Phase p")
    (auto simp: updateJobReplicaStatuses_def bump_status_Some add_pod_def counts_active_def)

lemma update_no_entry_panics:
  "rstatus st r = None \<Longrightarrow> pod_Phase p = PodRunning \<Longrightarrow>
   updateJobReplicaStatuses st r p = Inl (Panic ''nil ReplicaStatus'')"
  by (simp add: updateJobReplicaStatuses_def bump_status_def)

lemma foldl_add_pod_counts:
  "foldl add_pod s ps =
   s\<lparr>Active := (if filter counts_active ps = [] then Active s
                else i32 (Active s + int (length (filter counts_active ps)))),
     Succeeded := (if filter (\<lambda>p. pod_Phase p = PodSucceeded) ps = [] then Succeeded s
                else i32 (Succeeded s + int (length (filter (\<lambda>p. pod_Phase p = PodSucceeded) ps)))),
     Failed := (if filter (\<lambda>p. pod_Phase p = PodFailed) ps = [] then Failed s
                else i32 (Failed s + int (length (filter (\<lambda>p. pod_Phase p = PodFailed) ps))))\<rparr>"
proof (induction ps arbitrary: s)
  case Nil
  then show ?case by simp
next
  case (Cons p ps)
  show ?case
    by (simp only: foldl.simps Cons, rule ReplicaStatus.equality) (auto simp: add_pod_def algebra_simps)
qed

lemma foldl_add_pod_zero:
  "foldl add_pod zero_status ps =
   \<lparr>Active = i32 (int (length (filter counts_active ps))),
    Succeeded = i32 (int (length (filter (\<lambda>p. pod_Phase p = PodSucceeded) ps))),
    Failed = i32 (int (length (filter (\<lambda>p. pod_Phase p = PodFailed) ps))), Evicted = 0\<rparr>"
  by (simp add: foldl_add_pod_counts zero_status_def)

end
