(* ===== verification/Cluster.thy ===== *)
theory Cluster
  imports K8s_Util
begin

text \<open>
  The outside world of the job controller: the calls it makes on the API server client, the
  event recorder, the expectation cache and the backoff queue (all outside the repository),
  and the answers, which are parameters of the model. An answer is a function of the history
  of calls made before, so nothing is assumed about what other actors do in between. Reads of the in-process caches
  (expectations, retry counts, informers) are answered but not recorded.
\<close>

record pod_group =
  pg_Name :: string
  pg_Namespace :: string
  pg_Labels :: smap
  pg_OwnerReferences :: "owner_ref list"
  pg_MinMember :: int
  pg_Queue :: string
  pg_PriorityClassName :: string
  pg_APIVersion :: string
  pg_Kind :: string
  pg_UID :: string
  pg_MinResources :: "resource_list option"

text \<open>What a gang scheduler hands around as a \<open>runtime.Object\<close>.\<close>

datatype gang_entity = PodGroupList "pod_group list" | SinglePodGroup pod_group | OtherEntity

datatype crr_phase = CRRFailed | CRRCompleted | CRRSucceeded | CRROther

text \<open>A container recreate request of OpenKruise.\<close>

record crr =
  crr_Name :: string
  crr_Namespace :: string
  crr_Labels :: smap
  crr_OwnerReferences :: "owner_ref list"
  crr_Containers :: "string list"
  crr_Phase :: crr_phase

text \<open>
  Cache backends, of which the dataset and the engine are present or not; model versions with the
  node of a local storage, if they have one; and the cron objects that run a job on a schedule,
  with the encoded workload.
\<close>

record CacheBackendSpec =
  CacheBackendName_spec :: string
  cbs_MountPath :: string
  cbs_Dataset :: "string option"
  cbs_CacheEngine :: "string option"

record cache_backend =
  cb_Name :: string
  cb_Namespace :: string
  cb_Spec :: CacheBackendSpec
  cb_CacheStatus :: string
  cb_UsedBy :: "string list"

record model_version =
  mv_Name :: string
  mv_Namespace :: string
  mv_CreatedBy :: string
  mv_ModelName :: string
  mv_LocalNode :: "string option"

record cron_spec =
  crs_Policy :: CronPolicy
  crs_Kind :: string
  crs_APIVersion :: string
  crs_Workload :: string

record cron_object =
  cro_Name :: string
  cro_Namespace :: string
  cro_Spec :: cron_spec

text \<open>A resource quota of a namespace: what it allows and what is in use.\<close>

record resource_quota =
  rq_Name :: string
  rq_Hard :: resource_list
  rq_Used :: resource_list

text \<open>A config map with its data.\<close>

record config_map =
  cm_Name :: string
  cm_Namespace :: string
  cm_Labels :: "(string \<times> string) list"
  cm_OwnerReferences :: "owner_ref list"
  cm_Data :: "(string \<times> string) list"

text \<open>An ingress with the rules of one host: path, whether it is matched as a prefix, service and port.\<close>

record ingress =
  in_Name :: string
  in_Namespace :: string
  in_Labels :: smap
  in_Annotations :: smap
  in_OwnerReferences :: "owner_ref list"
  in_Host :: string
  in_Paths :: "(string \<times> bool \<times> string \<times> int) list"

datatype call =
    GetPod string string
  | CreatePodCall pod
  | DeletePodCall pod
  | RemoveFinalizerCall pod string
  | PatchPodData string string string
  | GetService string string
  | CreateServiceCall service
  | DeleteServiceCall service
  | PatchServiceCall service service
  | PatchServiceData string string string
  | PatchJobAnnotations job_meta "(string \<times> string) list"
  | DeleteJobCall job_meta
  | UpdateStatusCall job_meta JobStatus
  | GetPodGroup string string
  | CreatePodGroupCall pod_group
  | DeletePodGroupCall pod_group
  | ListPodGroups string string
  | GetCRR string string
  | CreateCRRCall crr
  | DeleteCRRCall crr
  | GetCache string string
  | CreateCacheCall cache_backend
  | UpdateCacheStatus cache_backend
  | GetPVC string string
  | GetModelVersion string string
  | CreateModelVersionCall model_version
  | GetCron string string
  | CreateCronCall cron_object
  | PatchCronCall cron_object cron_object
  | Event string string
  | ExpectCreations string int
  | CreationObserved string
  | DeletionObserved string
  | DeleteExpectationsCall string
  | AddRateLimited string
  | ForgetKey string
  | RandRange int int
  | PatchStatusCall job_meta JobStatus
  | WorkqueueAdd string string string
  | ListQuotas string
  | GetJobStatus string string
  | GetPriorityClass string
  | PatchPodMeta pod "(string \<times> string) list" "(string \<times> string) list"
  | UpdateJobCall job_meta replica_specs
  | ListPodsCall string smap
  | GetConfigMap string string
  | CreateConfigMapCall config_map
  | GetJobCall string string
  | ListServicesCall string smap
  | GetIngress string string
  | ListIngressesCall string smap
  | CreateIngressCall ingress
  | DeleteIngressCall ingress
  | PatchWebAddresses job_meta "string list"

type_synonym hist = "call list"

text \<open>
  The arithmetic of resource lists and quantities (\<open>k8s.io/apiserver/pkg/quota/v1\<close> and
  \<open>resource.Quantity\<close>).
\<close>

record quota_lib =
  ql_Add :: "resource_list \<Rightarrow> resource_list \<Rightarrow> resource_list"
  ql_Max :: "resource_list \<Rightarrow> resource_list \<Rightarrow> resource_list"
  ql_Subtract :: "resource_list \<Rightarrow> resource_list \<Rightarrow> resource_list"
  ql_SubtractNonNegative :: "resource_list \<Rightarrow> resource_list \<Rightarrow> resource_list"
  ql_Mask :: "resource_list \<Rightarrow> string list \<Rightarrow> resource_list"
  ql_Intersection :: "string list \<Rightarrow> string list \<Rightarrow> string list"
  ql_ResourceNames :: "resource_list \<Rightarrow> string list"
  ql_Value :: "quantity \<Rightarrow> int"
  ql_Set :: "int \<Rightarrow> quantity"

record outside =
  out_get_pod :: "hist \<Rightarrow> string \<Rightarrow> string \<Rightarrow> go_error + pod"
  out_get_service :: "hist \<Rightarrow> string \<Rightarrow> string \<Rightarrow> go_error + service"
  out_get_pod_group :: "hist \<Rightarrow> string \<Rightarrow> string \<Rightarrow> go_error + pod_group"
  out_list_pod_groups :: "hist \<Rightarrow> string \<Rightarrow> string \<Rightarrow> go_error + pod_group list"
  out_get_crr :: "hist \<Rightarrow> string \<Rightarrow> string \<Rightarrow> go_error + crr"
  out_get_cache :: "hist \<Rightarrow> string \<Rightarrow> string \<Rightarrow> go_error + cache_backend"
  out_get_pvc :: "hist \<Rightarrow> string \<Rightarrow> string \<Rightarrow> go_error option"
  out_get_model_version :: "hist \<Rightarrow> string \<Rightarrow> string \<Rightarrow> go_error option"
  out_get_config_map :: "hist \<Rightarrow> string \<Rightarrow> string \<Rightarrow> go_error option"
  out_get_cron :: "hist \<Rightarrow> string \<Rightarrow> string \<Rightarrow> go_error + cron_object"
  out_encode :: "job_meta \<Rightarrow> go_error + string"
  out_list_quotas :: "hist \<Rightarrow> string \<Rightarrow> go_error + resource_quota list"
  out_job_status :: "hist \<Rightarrow> string \<Rightarrow> string \<Rightarrow> go_error + JobStatus"
  out_priority_class :: "hist \<Rightarrow> string \<Rightarrow> go_error + int"
  out_write :: "hist \<Rightarrow> call \<Rightarrow> go_error option"
  out_patch_pod :: "hist \<Rightarrow> pod \<Rightarrow> string \<Rightarrow> go_error + pod"
  out_patch_pod_meta :: "hist \<Rightarrow> pod \<Rightarrow> (string \<times> string) list \<Rightarrow> (string \<times> string) list \<Rightarrow> go_error + pod"
  out_update_job :: "hist \<Rightarrow> job_meta \<Rightarrow> replica_specs \<Rightarrow> go_error + (job_meta \<times> replica_specs)"
  out_list_services :: "hist \<Rightarrow> string \<Rightarrow> smap \<Rightarrow> go_error + service list"
  out_get_ingress :: "hist \<Rightarrow> string \<Rightarrow> string \<Rightarrow> go_error + ingress"
  out_list_ingresses :: "hist \<Rightarrow> string \<Rightarrow> smap \<Rightarrow> go_error + string list"
  out_list_pods :: "hist \<Rightarrow> string \<Rightarrow> smap \<Rightarrow> go_error + pod list"
  out_patch_job :: "hist \<Rightarrow> job_meta \<Rightarrow> (string \<times> string) list \<Rightarrow> go_error + job_meta"
  out_go_order :: "hist \<Rightarrow> pod list \<Rightarrow> pod list"
  out_satisfied :: "hist \<Rightarrow> string \<Rightarrow> bool"
  out_requeues :: "hist \<Rightarrow> string \<Rightarrow> int"
  out_rand :: "hist \<Rightarrow> int \<Rightarrow> int \<Rightarrow> int"
  out_selector :: "smap \<Rightarrow> go_error + (smap \<Rightarrow> bool)"
  out_set_selector :: "smap \<Rightarrow> smap \<Rightarrow> bool"
  out_quota :: quota_lib
  out_key :: "job_meta \<Rightarrow> go_error + string"
  out_now :: "hist \<Rightarrow> time"
  out_format_time :: "time \<Rightarrow> string"
  out_parse_time :: "string \<Rightarrow> go_error + time"
  out_restart_list :: "string \<Rightarrow> (string \<times> int list) list option"

text \<open>
  A patch of a pod (which removes a finalizer or sets annotations and labels) or of the job and an
  update of the job answer with the object as the
  server has it afterwards, which the client stores back into the object. \<open>out_go_order\<close> is the order in which the goroutines of
  one loop get to run. The last fields read the clock, write and read an RFC 3339 time (which depends on the time
  zone of the process) and decode the JSON object of the pods to restart; \<open>out_encode\<close> is
  the codec that turns the object of a job into the raw workload of a cron object.
\<close>

text \<open>A mutating call: its answer is an error or nil, and it is recorded.\<close>

definition api_write :: "outside \<Rightarrow> call \<Rightarrow> hist \<Rightarrow> go_error option \<times> hist" where
  "api_write W c h = (out_write W h c, h @ [c])"

definition emit :: "call \<Rightarrow> hist \<Rightarrow> hist" where
  "emit c h = h @ [c]"

definition remove_finalizer :: "outside \<Rightarrow> pod \<Rightarrow> string \<Rightarrow> hist \<Rightarrow> (go_error + pod) \<times> hist" where
  "remove_finalizer W p f h = (out_patch_pod W h p f, h @ [RemoveFinalizerCall p f])"

definition patch_job :: "outside \<Rightarrow> job_meta \<Rightarrow> (string \<times> string) list \<Rightarrow> hist \<Rightarrow>
    (go_error + job_meta) \<times> hist" where
  "patch_job W job annotations h =
     (out_patch_job W h job annotations, h @ [PatchJobAnnotations job annotations])"

definition patch_pod_meta ::
    "outside \<Rightarrow> pod \<Rightarrow> (string \<times> string) list \<Rightarrow> (string \<times> string) list \<Rightarrow> hist \<Rightarrow> (go_error + pod) \<times> hist" where
  "patch_pod_meta W p annotations labels h =
     (out_patch_pod_meta W h p annotations labels, h @ [PatchPodMeta p annotations labels])"

definition update_job :: "outside \<Rightarrow> job_meta \<Rightarrow> replica_specs \<Rightarrow> hist \<Rightarrow>
    (go_error + (job_meta \<times> replica_specs)) \<times> hist" where
  "update_job W job specs h = (out_update_job W h job specs, h @ [UpdateJobCall job specs])"

lemma extends_patch_job [hist_simps]: "extends h (snd (patch_job W job as h))"
  by (simp add: patch_job_def)

lemma extends_api_write [hist_simps]: "extends h (snd (api_write W c h))"
  by (simp add: api_write_def)

lemma extends_emit [hist_simps]: "extends h (emit c h)"
  by (simp add: emit_def)

subsection \<open>Operations that fail\<close>

text \<open>
  An operation of the controller gives a value or an error, and the calls made so far.
  \<open>andThen\<close> stops at the first error, as the early returns of the code do;
  \<open>guarded\<close> does so after a call that returns only an error.
\<close>

type_synonym 'a res = "(go_error + 'a) \<times> hist"

definition andThen ::
    "(go_error + 'a) \<times> 'h \<Rightarrow> ('a \<Rightarrow> 'h \<Rightarrow> (go_error + 'b) \<times> 'h) \<Rightarrow> (go_error + 'b) \<times> 'h" where
  "andThen m k = (case fst m of Inl e \<Rightarrow> (Inl e, snd m) | Inr x \<Rightarrow> k x (snd m))"

definition guarded ::
    "go_error option \<times> 'h \<Rightarrow> ('h \<Rightarrow> (go_error + 'b) \<times> 'h) \<Rightarrow> (go_error + 'b) \<times> 'h" where
  "guarded m k = (case fst m of Some e \<Rightarrow> (Inl e, snd m) | None \<Rightarrow> k (snd m))"

definition lift_sum :: "go_error + 'a \<Rightarrow> hist \<Rightarrow> 'a res" where
  "lift_sum r h = (r, h)"

lemma andThen_simps [simp]:
  "andThen (Inl e, h) k = (Inl e, h)" "andThen (Inr x, h) k = k x h"
  by (simp_all add: andThen_def)

lemma guarded_simps [simp]:
  "guarded (Some e, h) k' = (Inl e, h)" "guarded (None, h) k' = k' h"
  by (simp_all add: guarded_def)

lemma lift_sum_simps [simp]: "lift_sum r h = (r, h)"
  by (simp add: lift_sum_def)

lemma andThen_eq_Inr: "andThen m k = (Inr y, h') \<longleftrightarrow> (\<exists>x h1. m = (Inr x, h1) \<and> k x h1 = (Inr y, h'))"
  by (cases m; cases "fst m") auto

lemma guarded_eq_Inr: "guarded m k = (Inr y, h') \<longleftrightarrow> (\<exists>h1. m = (None, h1) \<and> k h1 = (Inr y, h'))"
  by (cases m; cases "fst m") auto

lemma extends_andThen [hist_simps]:
  assumes "extends h (snd m)" "\<And>x h'. extends h' (snd (k x h'))"
  shows "extends h (snd (andThen m k))"
  using assms by (auto simp: andThen_def split: sum.splits intro: extends_trans)

lemma extends_guarded [hist_simps]:
  assumes "extends h (snd m)" "\<And>h'. extends h' (snd (k h'))"
  shows "extends h (snd (guarded m k))"
  using assms by (auto simp: guarded_def split: option.splits intro: extends_trans)

text \<open>
  The documented reading of a label selector built from one required label: it selects the
  label sets that carry this value.
\<close>

definition replica_selector :: "outside \<Rightarrow> string \<Rightarrow> bool" where
  "replica_selector W rt \<longleftrightarrow>
     out_selector W [ReplicaTypeLabel \<mapsto> rt] = Inr (\<lambda>ls. ls ReplicaTypeLabel = Some rt)"

text \<open>\<open>errors.IsNotFound\<close>, \<open>errors.IsAlreadyExists\<close>, \<open>errors.IsTimeout\<close> on an error value.\<close>

abbreviation IsNotFound :: "go_error \<Rightarrow> bool" where "IsNotFound e \<equiv> e = NotFound"
abbreviation IsAlreadyExists :: "go_error \<Rightarrow> bool" where "IsAlreadyExists e \<equiv> e = AlreadyExists"
abbreviation IsTimeout :: "go_error \<Rightarrow> bool" where "IsTimeout e \<equiv> e = Timeout"
abbreviation IsConflict :: "go_error \<Rightarrow> bool" where "IsConflict e \<equiv> e = Conflict"
abbreviation IsInvalid :: "go_error \<Rightarrow> bool" where "IsInvalid e \<equiv> e = Invalid"

end
