(* ===== verification/Replica_Slices.thy ===== *)
theory Replica_Slices
  imports Cluster
begin

text \<open>
  Grouping the pods and services of a job by replica index: \<open>FilterPodsForReplicaType\<close>
  and \<open>GetPodSlices\<close> of \<open>pod.go\<close>, \<open>FilterServicesForReplicaType\<close> and
  \<open>GetServiceSlices\<close> of \<open>service.go\<close>. The two collectors share a contract, the
  locale \<open>slice_collector\<close>: the slice of an index in range holds exactly the objects
  with this index, in order.
\<close>

subsection \<open>Filtering by replica type\<close>

text \<open>
  The selector is rebuilt for every object of the loop; converting it fails for every object or
  for none, so with no object there is no error.
\<close>

fun FilterPodsForReplicaType :: "outside \<Rightarrow> pod list \<Rightarrow> string \<Rightarrow> go_error + pod list" where
  "FilterPodsForReplicaType W [] rt = Inr []"
| "FilterPodsForReplicaType W (p # ps) rt =
     (case out_selector W [ReplicaTypeLabel \<mapsto> rt] of
        Inl e \<Rightarrow> Inl e
      | Inr matches \<Rightarrow>
          (case FilterPodsForReplicaType W ps rt of
             Inl e \<Rightarrow> Inl e
           | Inr result \<Rightarrow> Inr (if matches (pod_Labels p) then p # result else result)))"

fun FilterServicesForReplicaType :: "outside \<Rightarrow> service list \<Rightarrow> string \<Rightarrow> go_error + service list" where
  "FilterServicesForReplicaType W [] rt = Inr []"
| "FilterServicesForReplicaType W (s # ss) rt =
     (case out_selector W [ReplicaTypeLabel \<mapsto> rt] of
        Inl e \<Rightarrow> Inl e
      | Inr matches \<Rightarrow>
          (case FilterServicesForReplicaType W ss rt of
             Inl e \<Rightarrow> Inl e
           | Inr result \<Rightarrow> Inr (if matches (svc_Labels s) then s # result else result)))"

subsection \<open>Slices by index\<close>

text \<open>
  \<open>make\<close> followed by \<open>copy\<close>: a list of length \<open>n\<close> that starts with the old
  entries that fit. \<open>make\<close> panics on a negative length.
\<close>

definition resize :: "nat \<Rightarrow> 'a list list \<Rightarrow> 'a list list" where
  "resize n xs = take n xs @ replicate (n - length xs) []"

definition put_slice :: "'a list list \<Rightarrow> int \<Rightarrow> 'a \<Rightarrow> 'a list list" where
  "put_slice S index x = S[nat index := S ! nat index @ [x]]"

definition makeslice_panic :: go_error where "makeslice_panic = Panic ''makeslice: len out of range''"

definition index_panic :: go_error where "index_panic = Panic ''index out of range''"

text \<open>
  The index label read by \<open>strconv.Atoi\<close>; the loops skip an object whose label is missing
  or does not parse.
\<close>

definition index_label :: "smap \<Rightarrow> int option" where
  "index_label ls = (case ls ReplicaIndexLabel of None \<Rightarrow> None | Some s \<Rightarrow> Atoi s)"

fun pod_slices_loop :: "pod list \<Rightarrow> int \<Rightarrow> pod list list \<Rightarrow> go_error + pod list list" where
  "pod_slices_loop [] replicas S = Inr S"
| "pod_slices_loop (p # ps) replicas S =
     (case index_label (pod_Labels p) of
        None \<Rightarrow> pod_slices_loop ps replicas S
      | Some index \<Rightarrow>
          (if index < 0 then pod_slices_loop ps replicas S
           else if index \<ge> replicas then
             (if i64 (index + 1) < 0 then Inl makeslice_panic
              else pod_slices_loop ps replicas (put_slice (resize (nat (index + 1)) S) index p))
           else pod_slices_loop ps replicas (put_slice S index p)))"

definition GetPodSlices :: "pod list \<Rightarrow> int \<Rightarrow> go_error + pod list list" where
  "GetPodSlices pods replicas =
     (if replicas < 0 then Inl makeslice_panic
      else pod_slices_loop pods replicas (replicate (nat replicas) []))"

text \<open>In the service loop a negative index is only logged; the assignment then panics.\<close>

fun service_slices_loop :: "service list \<Rightarrow> int \<Rightarrow> service list list \<Rightarrow> go_error + service list list" where
  "service_slices_loop [] replicas S = Inr S"
| "service_slices_loop (s # ss) replicas S =
     (case index_label (svc_Labels s) of
        None \<Rightarrow> service_slices_loop ss replicas S
      | Some index \<Rightarrow>
          (if index < 0 then Inl index_panic
           else if index \<ge> replicas then
             (if i64 (index + 1) < 0 then Inl makeslice_panic
              else service_slices_loop ss replicas (put_slice (resize (nat (index + 1)) S) index s))
           else service_slices_loop ss replicas (put_slice S index s)))"

definition GetServiceSlices :: "service list \<Rightarrow> int \<Rightarrow> go_error + service list list" where
  "GetServiceSlices services replicas =
     (if replicas < 0 then Inl makeslice_panic
      else service_slices_loop services replicas (replicate (nat replicas) []))"

subsection \<open>Lemmas on filtering\<close>

lemma filter_pods:
  assumes "replica_selector W rt"
  shows "FilterPodsForReplicaType W ps rt = Inr (filter (\<lambda>p. pod_Labels p ReplicaTypeLabel = Some rt) ps)"
  using assms by (induction W ps rt rule: FilterPodsForReplicaType.induct) (auto simp: replica_selector_def)

lemma filter_services:
  assumes "replica_selector W rt"
  shows "FilterServicesForReplicaType W ss rt =
    Inr (filter (\<lambda>s. svc_Labels s ReplicaTypeLabel = Some rt) ss)"
  using assms by (induction W ss rt rule: FilterServicesForReplicaType.induct) (auto simp: replica_selector_def)

lemma FilterPods_subset: "FilterPodsForReplicaType W ps rt = Inr qs \<Longrightarrow> set qs \<subseteq> set ps"
  by (induction W ps rt arbitrary: qs rule: FilterPodsForReplicaType.induct)
    (fastforce split: sum.splits if_splits)+

subsection \<open>The contract of a collector\<close>

lemma length_resize [simp]: "length (resize n S) = n"
  by (simp add: resize_def)

lemma nth_resize: "i < n \<Longrightarrow> i < length S \<Longrightarrow> resize n S ! i = S ! i"
  by (simp add: resize_def nth_append)

lemma length_put_slice [simp]: "length (put_slice S i x) = length S"
  by (simp add: put_slice_def)

lemma nth_put_slice:
  "j < length S \<Longrightarrow> 0 \<le> i \<Longrightarrow> put_slice S i x ! j = (if int j = i then S ! j @ [x] else S ! j)"
  by (auto simp: put_slice_def nth_list_update)

locale slice_collector =
  fixes labels_of :: "'o \<Rightarrow> smap"
    and loop :: "'o list \<Rightarrow> int \<Rightarrow> 'o list list \<Rightarrow> go_error + 'o list list"
  assumes loop_Nil: "loop [] r S = Inr S"
    and loop_skip: "index_label (labels_of x) = None \<Longrightarrow> loop (x # xs) r S = loop xs r S"
    and loop_in: "index_label (labels_of x) = Some i \<Longrightarrow> 0 \<le> i \<Longrightarrow> i < r \<Longrightarrow>
      loop (x # xs) r S = loop xs r (put_slice S i x)"
    and loop_out: "index_label (labels_of x) = Some i \<Longrightarrow> 0 \<le> i \<Longrightarrow> r \<le> i \<Longrightarrow> i < 2 ^ 63 - 1 \<Longrightarrow>
      loop (x # xs) r S = loop xs r (put_slice (resize (nat (i + 1)) S) i x)"
begin

definition regular :: "'o \<Rightarrow> bool" where
  "regular x \<longleftrightarrow> (case index_label (labels_of x) of None \<Rightarrow> True | Some i \<Rightarrow> 0 \<le> i \<and> i < 2 ^ 63 - 1)"

lemma loop_slices:
  assumes "\<forall>x \<in> set xs. regular x" "0 \<le> r" "nat r \<le> length S"
  shows "\<exists>S'. loop xs r S = Inr S' \<and> nat r \<le> length S' \<and>
    (\<forall>j < nat r. S' ! j = S ! j @ filter (\<lambda>x. index_label (labels_of x) = Some (int j)) xs)"
  using assms
proof (induction xs arbitrary: S)
  case Nil
  then show ?case by (simp add: loop_Nil)
next
  case (Cons x xs)
  note IH = Cons.IH [OF _ Cons.prems(2)]
  consider (none) "index_label (labels_of x) = None"
    | (inr) i where "index_label (labels_of x) = Some i" "0 \<le> i" "i < r"
    | (out) i where "index_label (labels_of x) = Some i" "0 \<le> i" "r \<le> i" "i < 2 ^ 63 - 1"
    using Cons.prems(1) by (cases "index_label (labels_of x)") (force simp: regular_def)+
  then show ?case
  proof cases
    case none
    with IH [of S] Cons.prems show ?thesis by (simp add: loop_skip)
  next
    case (inr i)
    with IH [of "put_slice S i x"] Cons.prems show ?thesis
      by (fastforce simp: loop_in nth_put_slice)
  next
    case (out i)
    let ?S = "put_slice (resize (nat (i + 1)) S) i x"
    have "?S ! j = S ! j" if "j < nat r" for j
      using that out Cons.prems by (simp add: nth_put_slice nth_resize)
    with IH [of ?S] Cons.prems out show ?thesis by (fastforce simp: loop_out)
  qed
qed

lemma collect_slices:
  assumes "\<forall>x \<in> set xs. regular x" "0 \<le> r"
  shows "\<exists>S. loop xs r (replicate (nat r) []) = Inr S \<and> nat r \<le> length S \<and>
    (\<forall>j < nat r. S ! j = filter (\<lambda>x. index_label (labels_of x) = Some (int j)) xs)"
  using loop_slices [OF assms, of "replicate (nat r) []"] by simp

end

lemma i64_succ: "0 \<le> i \<Longrightarrow> i < 2 ^ 63 - 1 \<Longrightarrow> i64 (i + 1) = i + 1"
  by (simp add: i64_id in64_def)

interpretation pod_slices: slice_collector pod_Labels pod_slices_loop
  by unfold_locales (auto simp: i64_succ)

interpretation service_slices: slice_collector svc_Labels service_slices_loop
  by unfold_locales (auto simp: i64_succ)

text \<open>
  Pods with a negative index are skipped, so for pods the condition on indices can be weakened to
  the largest one, which overflows the length.
\<close>

definition small_index :: "smap \<Rightarrow> bool" where
  "small_index ls \<longleftrightarrow> index_label ls \<noteq> Some (2 ^ 63 - 1)"

lemma Atoi_range: "Atoi s = Some i \<Longrightarrow> in64 i"
  by (auto simp: Atoi_def check64_def bind_eq_Some_conv split: list.splits if_splits)

lemma index_label_range: "index_label ls = Some i \<Longrightarrow> in64 i"
  by (auto simp: index_label_def Atoi_range split: option.splits)

definition nonneg_index :: "smap \<Rightarrow> bool" where
  "nonneg_index ls \<longleftrightarrow> (case index_label ls of None \<Rightarrow> True | Some i \<Rightarrow> 0 \<le> i)"

lemma pod_slices_skip_negative:
  "pod_slices_loop ps r S = pod_slices_loop (filter (\<lambda>p. nonneg_index (pod_Labels p)) ps) r S"
  by (induction ps r S rule: pod_slices_loop.induct) (auto simp: nonneg_index_def split: option.splits)

lemma small_regular:
  assumes "small_index ls" "nonneg_index ls"
  shows "case index_label ls of None \<Rightarrow> True | Some i \<Rightarrow> 0 \<le> i \<and> i < 2 ^ 63 - 1"
proof (cases "index_label ls")
  case None
  then show ?thesis by simp
next
  case (Some i)
  with assms index_label_range [OF Some] show ?thesis by (simp add: small_index_def nonneg_index_def in64_def)
qed

lemma pod_slices_ok:
  assumes "\<forall>p \<in> set pods. small_index (pod_Labels p)" "0 \<le> r"
  shows "\<exists>S. GetPodSlices pods r = Inr S \<and> nat r \<le> length S \<and>
    (\<forall>j < nat r. S ! j = filter (\<lambda>p. index_label (pod_Labels p) = Some (int j)) pods)"
proof -
  let ?ps = "filter (\<lambda>p. nonneg_index (pod_Labels p)) pods"
  have "\<forall>p \<in> set ?ps. pod_slices.regular p"
    using assms(1) by (auto simp: pod_slices.regular_def intro: small_regular)
  from pod_slices.collect_slices [OF this assms(2)] obtain S where
    "pod_slices_loop ?ps r (replicate (nat r) []) = Inr S" "nat r \<le> length S"
    "\<forall>j < nat r. S ! j = filter (\<lambda>p. index_label (pod_Labels p) = Some (int j)) ?ps" by blast
  moreover have "filter (\<lambda>p. index_label (pod_Labels p) = Some (int j)) ?ps =
      filter (\<lambda>p. index_label (pod_Labels p) = Some (int j)) pods" for j
    by (auto simp: nonneg_index_def intro!: filter_cong)
  ultimately show ?thesis
    using assms(2) pod_slices_skip_negative [of pods r] by (simp add: GetPodSlices_def)
qed

lemma service_slices_ok:
  assumes "\<forall>s \<in> set ss. small_index (svc_Labels s) \<and> nonneg_index (svc_Labels s)" "0 \<le> r"
  shows "\<exists>S. GetServiceSlices ss r = Inr S \<and> nat r \<le> length S \<and>
    (\<forall>j < nat r. S ! j = filter (\<lambda>s. index_label (svc_Labels s) = Some (int j)) ss)"
proof -
  have "\<forall>s \<in> set ss. service_slices.regular s"
    using assms(1) by (auto simp: service_slices.regular_def intro: small_regular)
  from service_slices.collect_slices [OF this assms(2)] assms(2) show ?thesis
    by (simp add: GetServiceSlices_def)
qed

end
