(* ===== verification/Controls.thy ===== *)
theory Controls
  imports Cluster
begin

text \<open>
  Pod and service control (\<open>pod_control.go\<close>, \<open>service_control.go\<close>): how pods and
  services are built from templates, created and deleted. Every operation returns the error (or
  nil) and the extended call history.
\<close>

subsection \<open>Owner references\<close>

definition validateControllerRef :: "owner_ref option \<Rightarrow> go_error option" where
  "validateControllerRef ref =
     (case ref of
        None \<Rightarrow> Some (Err ''controllerRef is nil'')
      | Some r \<Rightarrow>
          (if or_APIVersion r = [] then Some (Err ''controllerRef has empty APIVersion'')
           else if or_Kind r = [] then Some (Err ''controllerRef has empty Kind'')
           else if or_Controller r \<noteq> Some True then Some (Err ''controllerRef.Controller is not set to true'')
           else if or_BlockOwnerDeletion r \<noteq> Some True
           then Some (Err ''controllerRef.BlockOwnerDeletion is not set'')
           else None))"

subsection \<open>Pods\<close>

text \<open>
  The pod of a template: labels, annotations, finalizers, owner references and spec of the
  template are copied, the controller reference is appended.
\<close>

definition GetPodFromTemplate :: "pod_template \<Rightarrow> owner_ref option \<Rightarrow> pod" where
  "GetPodFromTemplate t ref =
     \<lparr>pod_Name = pt_Name t, pod_GenerateName = pt_GenerateName t, pod_Namespace = [], pod_UID = [],
      pod_Labels = pt_Labels t, pod_Annotations = pt_Annotations t,
      pod_Finalizers = pt_Finalizers t,
      pod_OwnerReferences =
        (case ref of None \<Rightarrow> pt_OwnerReferences t | Some r \<Rightarrow> pt_OwnerReferences t @ [r]),
      pod_DeletionTimestamp = None, pod_ResourceVersion = [],
      pod_Spec = pt_Spec t, pod_Phase = PodPhaseOther [], pod_Reason = [], pod_StartTime = None,
      pod_ContainerStatuses = [], pod_InitContainerStatuses = []\<rparr>"

definition createPods ::
    "outside \<Rightarrow> string \<Rightarrow> string \<Rightarrow> pod_template \<Rightarrow> owner_ref option \<Rightarrow> hist \<Rightarrow> go_error option \<times> hist"
where
  "createPods W nodeName namespace template ref h =
     (let pod = GetPodFromTemplate template ref;
          pod = (if nodeName \<noteq> [] then pod\<lparr>pod_Spec := (pod_Spec pod)\<lparr>ps_NodeName := nodeName\<rparr>\<rparr> else pod);
          pod = pod\<lparr>pod_Namespace := namespace\<rparr>
      in if pod_Labels pod = Map.empty then (Some (Err ''unable to create pods, no labels''), h)
         else case api_write W (CreatePodCall pod) h of
                (Some e, h1) \<Rightarrow> (Some e, emit (Event ''Warning'' ''FailedCreatePod'') h1)
              | (None, h1) \<Rightarrow> (None, emit (Event ''Normal'' ''SuccessfulCreatePod'') h1))"

definition CreatePods ::
    "outside \<Rightarrow> string \<Rightarrow> pod_template \<Rightarrow> owner_ref option \<Rightarrow> hist \<Rightarrow> go_error option \<times> hist" where
  "CreatePods W namespace template ref h = createPods W [] namespace template ref h"

definition CreatePodsWithControllerRef ::
    "outside \<Rightarrow> string \<Rightarrow> pod_template \<Rightarrow> owner_ref option \<Rightarrow> hist \<Rightarrow> go_error option \<times> hist" where
  "CreatePodsWithControllerRef W namespace template ref h =
     (case validateControllerRef ref of
        Some e \<Rightarrow> (Some e, h)
      | None \<Rightarrow> createPods W [] namespace template ref h)"

definition CreatePodsOnNode ::
    "outside \<Rightarrow> string \<Rightarrow> string \<Rightarrow> pod_template \<Rightarrow> owner_ref option \<Rightarrow> hist \<Rightarrow> go_error option \<times> hist" where
  "CreatePodsOnNode W nodeName namespace template ref h =
     (case validateControllerRef ref of
        Some e \<Rightarrow> (Some e, h)
      | None \<Rightarrow> createPods W nodeName namespace template ref h)"

definition CreatePodsWithGenerateName ::
    "outside \<Rightarrow> string \<Rightarrow> pod_template \<Rightarrow> owner_ref option \<Rightarrow> string \<Rightarrow> hist \<Rightarrow> go_error option \<times> hist" where
  "CreatePodsWithGenerateName W namespace template ref generateName h =
     (case validateControllerRef ref of
        Some e \<Rightarrow> (Some e, h)
      | None \<Rightarrow>
          createPods W [] namespace (template\<lparr>pt_Name := [], pt_GenerateName := generateName\<rparr>) ref h)"

text \<open>
  \<open>DeletePod\<close>: read the pod, drop the preempt-protector finalizer if it is there, skip a pod
  that is already terminating, delete it otherwise.
\<close>

definition DeletePod :: "outside \<Rightarrow> string \<Rightarrow> string \<Rightarrow> hist \<Rightarrow> go_error option \<times> hist" where
  "DeletePod W namespace name h =
     (case out_get_pod W h namespace name of
        Inl e \<Rightarrow> (Some e, emit (GetPod namespace name) h)
      | Inr p \<Rightarrow>
          (let h1 = emit (GetPod namespace name) h;
               (patched, h2) =
                 (if HasFinalizer (pod_Finalizers p) FinalizerPreemptProtector
                  then remove_finalizer W p FinalizerPreemptProtector h1
                  else (Inr p, h1))
           in case patched of
                Inl e \<Rightarrow> (Some e, h2)
              | Inr q \<Rightarrow>
                  (if pod_DeletionTimestamp q \<noteq> None then (None, h2)
                   else case api_write W (DeletePodCall q) h2 of
                          (Some e, h3) \<Rightarrow>
                            (Some (Err ''unable to delete pods''), emit (Event ''Warning'' ''FailedDeletePod'') h3)
                        | (None, h3) \<Rightarrow> (None, emit (Event ''Normal'' ''SuccessfulDeletePod'') h3))))"

definition PatchPod :: "outside \<Rightarrow> string \<Rightarrow> string \<Rightarrow> string \<Rightarrow> hist \<Rightarrow> go_error option \<times> hist" where
  "PatchPod W namespace name data h =
     (case out_get_pod W h namespace name of
        Inl e \<Rightarrow> (Some e, emit (GetPod namespace name) h)
      | Inr p \<Rightarrow> api_write W (PatchPodData namespace name data) (emit (GetPod namespace name) h))"

subsection \<open>Services\<close>

definition getServiceFromTemplate :: "service \<Rightarrow> owner_ref option \<Rightarrow> service" where
  "getServiceFromTemplate t ref =
     (case ref of None \<Rightarrow> t | Some r \<Rightarrow> t\<lparr>svc_OwnerReferences := svc_OwnerReferences t @ [r]\<rparr>)"

definition createServices ::
    "outside \<Rightarrow> string \<Rightarrow> service \<Rightarrow> owner_ref option \<Rightarrow> hist \<Rightarrow> go_error option \<times> hist" where
  "createServices W namespace svc ref h =
     (if svc_Labels svc = Map.empty then (Some (Err ''unable to create Services, no labels''), h)
      else
        (let s = (getServiceFromTemplate svc ref)\<lparr>svc_Namespace := namespace\<rparr>
         in case api_write W (CreateServiceCall s) h of
              (Some e, h1) \<Rightarrow>
                (Some (Err ''unable to create services''), emit (Event ''Warning'' ''FailedCreateService'') h1)
            | (None, h1) \<Rightarrow> (None, emit (Event ''Normal'' ''SuccessfulCreateService'') h1)))"

definition CreateServices :: "outside \<Rightarrow> string \<Rightarrow> service \<Rightarrow> hist \<Rightarrow> go_error option \<times> hist" where
  "CreateServices W namespace svc h = createServices W namespace svc None h"

definition CreateServicesWithControllerRef ::
    "outside \<Rightarrow> string \<Rightarrow> service \<Rightarrow> owner_ref option \<Rightarrow> hist \<Rightarrow> go_error option \<times> hist" where
  "CreateServicesWithControllerRef W namespace svc ref h =
     (case validateControllerRef ref of
        Some e \<Rightarrow> (Some e, h)
      | None \<Rightarrow> createServices W namespace svc ref h)"

definition PatchService :: "outside \<Rightarrow> string \<Rightarrow> string \<Rightarrow> string \<Rightarrow> hist \<Rightarrow> go_error option \<times> hist" where
  "PatchService W namespace name data h =
     (case out_get_service W h namespace name of
        Inl e \<Rightarrow> (Some e, emit (GetService namespace name) h)
      | Inr s \<Rightarrow> api_write W (PatchServiceData namespace name data) (emit (GetService namespace name) h))"

definition DeleteService :: "outside \<Rightarrow> string \<Rightarrow> string \<Rightarrow> hist \<Rightarrow> go_error option \<times> hist" where
  "DeleteService W namespace name h =
     (case out_get_service W h namespace name of
        Inl e \<Rightarrow> (Some e, emit (GetService namespace name) h)
      | Inr s \<Rightarrow>
          (let h1 = emit (GetService namespace name) h in
           if svc_DeletionTimestamp s \<noteq> None then (None, h1)
           else case api_write W (DeleteServiceCall s) h1 of
                  (Some e, h2) \<Rightarrow>
                    (Some (Err ''unable to delete service''), emit (Event ''Warning'' ''FailedDeleteService'') h2)
                | (None, h2) \<Rightarrow> (None, emit (Event ''Normal'' ''SuccessfulDeleteService'') h2)))"

subsection \<open>Frame lemmas\<close>

lemma createPods_extends [hist_simps]: "extends h (snd (createPods W n ns t r h))"
  by (simp add: createPods_def api_write_def emit_def Let_def extends_def split: option.splits)

lemma DeletePod_extends [hist_simps]: "extends h (snd (DeletePod W ns n h))"
  by (simp add: DeletePod_def api_write_def remove_finalizer_def emit_def Let_def extends_def split: option.splits sum.splits)

lemma createServices_extends [hist_simps]: "extends h (snd (createServices W ns s r h))"
  by (simp add: createServices_def api_write_def emit_def Let_def extends_def split: option.splits)

lemma DeleteService_extends [hist_simps]: "extends h (snd (DeleteService W ns n h))"
  by (simp add: DeleteService_def api_write_def emit_def Let_def extends_def split: option.splits sum.splits)

text \<open>A pod built by the controller carries the controller reference, so the API finds its owner.\<close>

lemma GetControllerOf_append:
  "GetControllerOf (xs @ ys) = (case GetControllerOf xs of None \<Rightarrow> GetControllerOf ys | Some r \<Rightarrow> Some r)"
  by (induction xs) auto

text \<open>
  A version of a pod: as read under a name, or as answered to the removal of the finalizer of a
  pod that was read under the name.
\<close>

definition pod_version :: "outside \<Rightarrow> string \<Rightarrow> string \<Rightarrow> pod \<Rightarrow> bool" where
  "pod_version W ns n q \<longleftrightarrow>
     (\<exists>h. out_get_pod W h ns n = Inr q) \<or>
     (\<exists>h h' p. out_get_pod W h ns n = Inr p \<and> out_patch_pod W h' p FinalizerPreemptProtector = Inr q)"

lemma createServices_never_timeout: "fst (createServices W ns s r h) \<noteq> Some Timeout"
  by (simp add: createServices_def api_write_def Let_def split: option.splits)

end
