(* ===== verification/Job_Conditions.thy ===== *)
theory Job_Conditions
  imports Api_Types
begin

text \<open>
  The condition machine of \<open>pkg/util/status.go\<close>: \<open>UpdateJobConditions\<close> and the
  predicates every controller decides with. A job condition list records the last transition
  of each condition type. Time readings (\<open>metav1.Now()\<close>) are arguments.
\<close>

definition JobCreatedReason :: string where "JobCreatedReason = ''JobCreated''"
definition JobSucceededReason :: string where "JobSucceededReason = ''JobSucceeded''"
definition JobRunningReason :: string where "JobRunningReason = ''JobRunning''"
definition JobFailedReason :: string where "JobFailedReason = ''JobFailed''"
definition JobRestartingReason :: string where "JobRestartingReason = ''JobRestarting''"
definition JobEnqueuedReason :: string where "JobEnqueuedReason = ''JobEnqueued''"
definition JobDequeuedReason :: string where "JobDequeuedReason = ''JobDequeued''"
definition JobEvictedReason :: string where "JobEvictedReason = ''JobEvicted''"

lemmas reason_defs =
  JobCreatedReason_def JobSucceededReason_def JobRunningReason_def JobFailedReason_def
  JobRestartingReason_def JobEnqueuedReason_def JobDequeuedReason_def JobEvictedReason_def

subsection \<open>Reading conditions\<close>

fun find_condition :: "JobCondition list \<Rightarrow> JobConditionType \<Rightarrow> JobCondition option" where
  "find_condition [] ty = None"
| "find_condition (c # cs) ty = (if jc_Type c = ty then Some c else find_condition cs ty)"

definition GetCondition :: "JobStatus \<Rightarrow> JobConditionType \<Rightarrow> JobCondition option" where
  "GetCondition st ty = find_condition (Conditions st) ty"

definition HasCondition :: "JobStatus \<Rightarrow> JobConditionType \<Rightarrow> bool" where
  "HasCondition st ty \<longleftrightarrow>
     list_ex (\<lambda>c. jc_Type c = ty \<and> jc_Status c = ConditionTrue) (Conditions st)"

definition IsSucceeded :: "JobStatus \<Rightarrow> bool" where "IsSucceeded st = HasCondition st JobSucceeded"
definition IsFailed :: "JobStatus \<Rightarrow> bool" where "IsFailed st = HasCondition st JobFailed"
definition IsRunning :: "JobStatus \<Rightarrow> bool" where "IsRunning st = HasCondition st JobRunning"
definition IsCreated :: "JobStatus \<Rightarrow> bool" where "IsCreated st = HasCondition st JobCreated"
definition IsRestarting :: "JobStatus \<Rightarrow> bool" where "IsRestarting st = HasCondition st JobRestarting"

definition IsEvicted :: "JobStatus \<Rightarrow> bool" where
  "IsEvicted st =
     (case GetCondition st JobFailed of None \<Rightarrow> False | Some c \<Rightarrow> jc_Reason c = JobEvictedReason)"

definition GetLastCondition :: "JobStatus \<Rightarrow> JobConditionType \<Rightarrow> JobCondition option" where
  "GetLastCondition st ty =
     (if Conditions st = [] then None
      else if jc_Type (last (Conditions st)) = ty then Some (last (Conditions st)) else None)"

definition IsEnqueued :: "JobStatus \<Rightarrow> bool" where
  "IsEnqueued st =
     (case GetLastCondition st JobQueuing of None \<Rightarrow> False | Some c \<Rightarrow> jc_Reason c = JobEnqueuedReason)"

definition IsDequeued :: "JobStatus \<Rightarrow> bool" where
  "IsDequeued st =
     (case GetLastCondition st JobQueuing of None \<Rightarrow> False | Some c \<Rightarrow> jc_Reason c = JobDequeuedReason)"

definition IsJustCreated :: "JobStatus \<Rightarrow> bool" where
  "IsJustCreated st \<longleftrightarrow> GetLastCondition st JobCreated \<noteq> None"

definition NeedEnqueueToCoordinator :: "JobStatus \<Rightarrow> bool" where
  "NeedEnqueueToCoordinator st \<longleftrightarrow> Conditions st = [] \<or> IsJustCreated st \<or> IsEnqueued st"

subsection \<open>Writing conditions\<close>

definition newCondition :: "time \<Rightarrow> JobConditionType \<Rightarrow> string \<Rightarrow> string \<Rightarrow> JobCondition" where
  "newCondition now ty reason message =
     \<lparr>jc_Type = ty, jc_Status = ConditionTrue, jc_Reason = reason, jc_Message = message,
      jc_LastUpdateTime = now, jc_LastTransitionTime = now\<rparr>"

fun filterOutCondition :: "JobCondition list \<Rightarrow> JobConditionType \<Rightarrow> JobCondition list" where
  "filterOutCondition [] ty = []"
| "filterOutCondition (c # cs) ty =
     (if ty = JobRestarting \<and> jc_Type c = JobRunning then filterOutCondition cs ty
      else if ty = JobRunning \<and> jc_Type c = JobRestarting then filterOutCondition cs ty
      else if jc_Type c = ty then filterOutCondition cs ty
      else if (ty = JobFailed \<or> ty = JobSucceeded) \<and> jc_Type c = JobRunning
      then c\<lparr>jc_Status := ConditionFalse\<rparr> # filterOutCondition cs ty
      else c # filterOutCondition cs ty)"

definition setCondition :: "JobStatus \<Rightarrow> JobCondition \<Rightarrow> JobStatus" where
  "setCondition st cond =
     (if IsFailed st \<or> IsSucceeded st then st
      else
        (let cur = GetCondition st (jc_Type cond) in
         case cur of
           None \<Rightarrow> st\<lparr>Conditions := filterOutCondition (Conditions st) (jc_Type cond) @ [cond]\<rparr>
         | Some c \<Rightarrow>
             (if jc_Status c = jc_Status cond \<and> jc_Reason c = jc_Reason cond then st
              else
                (let cond' = (if jc_Status c = jc_Status cond
                              then cond\<lparr>jc_LastTransitionTime := jc_LastTransitionTime c\<rparr> else cond)
                 in st\<lparr>Conditions := filterOutCondition (Conditions st) (jc_Type cond') @ [cond']\<rparr>))))"

text \<open>\<open>UpdateJobConditions\<close> always returns a nil error; the model returns the new status.\<close>

definition UpdateJobConditions ::
    "time \<Rightarrow> JobStatus \<Rightarrow> JobConditionType \<Rightarrow> string \<Rightarrow> string \<Rightarrow> JobStatus" where
  "UpdateJobConditions now st ty reason message = setCondition st (newCondition now ty reason message)"

subsection \<open>What the code promises of a condition list\<close>

text \<open>
  Well-formedness: one entry per type, never both a Running and a Restarting entry, never both
  Succeeded and Failed, and no true Running entry beside a terminal condition.
\<close>

definition is_terminal :: "JobStatus \<Rightarrow> bool" where
  "is_terminal st \<longleftrightarrow> IsFailed st \<or> IsSucceeded st"

definition cond_types :: "JobStatus \<Rightarrow> JobConditionType list" where
  "cond_types st = map jc_Type (Conditions st)"

definition conditions_wf :: "JobStatus \<Rightarrow> bool" where
  "conditions_wf st \<longleftrightarrow>
     distinct (cond_types st) \<and>
     \<not> (JobRunning \<in> set (cond_types st) \<and> JobRestarting \<in> set (cond_types st)) \<and>
     \<not> (IsSucceeded st \<and> IsFailed st) \<and>
     (is_terminal st \<longrightarrow> \<not> IsRunning st)"

text \<open>
  The abstract machine: the set of condition types that are true. A terminal set never
  changes; Running and Restarting replace each other; a terminal condition ends Running.
\<close>

definition true_types :: "JobStatus \<Rightarrow> JobConditionType set" where
  "true_types st = {ty. HasCondition st ty}"

definition cond_step :: "JobConditionType set \<Rightarrow> JobConditionType \<Rightarrow> JobConditionType set" where
  "cond_step T ty =
     (if JobFailed \<in> T \<or> JobSucceeded \<in> T then T
      else if ty = JobRunning then insert JobRunning (T - {JobRestarting})
      else if ty \<in> {JobRestarting, JobFailed, JobSucceeded} then insert ty (T - {JobRunning})
      else insert ty T)"

definition kept :: "JobConditionType \<Rightarrow> JobConditionType \<Rightarrow> bool" where
  "kept ty t \<longleftrightarrow> t \<noteq> ty \<and> \<not> (ty = JobRestarting \<and> t = JobRunning) \<and>
     \<not> (ty = JobRunning \<and> t = JobRestarting)"

lemma types_filterOut: "map jc_Type (filterOutCondition cs ty) = filter (kept ty) (map jc_Type cs)"
  by (induction cs ty rule: filterOutCondition.induct) (auto simp: kept_def)

lemma true_filterOut:
  "list_ex (\<lambda>c. jc_Type c = t \<and> jc_Status c = ConditionTrue) (filterOutCondition cs ty) \<longleftrightarrow>
   kept ty t \<and> \<not> ((ty = JobFailed \<or> ty = JobSucceeded) \<and> t = JobRunning) \<and>
   list_ex (\<lambda>c. jc_Type c = t \<and> jc_Status c = ConditionTrue) cs"
  by (induction cs ty rule: filterOutCondition.induct) (auto simp: kept_def)

lemma find_condition_None_iff: "find_condition cs ty = None \<longleftrightarrow> ty \<notin> set (map jc_Type cs)"
  by (induction cs ty rule: find_condition.induct) auto

lemma find_condition_type: "find_condition cs ty = Some c \<Longrightarrow> c \<in> set cs \<and> jc_Type c = ty"
  by (induction cs ty rule: find_condition.induct) (auto split: if_splits)

lemma find_condition_true:
  "distinct (map jc_Type cs) \<Longrightarrow> find_condition cs ty = Some c \<Longrightarrow>
   list_ex (\<lambda>c. jc_Type c = ty \<and> jc_Status c = ConditionTrue) cs \<longleftrightarrow> jc_Status c = ConditionTrue"
  by (induction cs ty rule: find_condition.induct)
    (force simp: list_ex_iff image_iff split: if_splits dest: find_condition_type)+

lemma has_in_types: "HasCondition st t \<Longrightarrow> t \<in> set (cond_types st)"
  by (auto simp: HasCondition_def cond_types_def list_ex_iff)

lemmas is_defs = IsSucceeded_def IsFailed_def IsRunning_def IsCreated_def IsRestarting_def

lemma terminal_fixed: "is_terminal st \<Longrightarrow> UpdateJobConditions now st ty reason message = st"
  by (simp add: UpdateJobConditions_def setCondition_def is_terminal_def)

text \<open>What \<open>UpdateJobConditions\<close> does to a status that is not terminal.\<close>

lemma update_cases:
  assumes "\<not> is_terminal st"
  obtains (same) c where "GetCondition st ty = Some c" "jc_Status c = ConditionTrue"
      "jc_Reason c = reason" "UpdateJobConditions now st ty reason message = st"
  | (new) c where "jc_Type c = ty" "jc_Status c = ConditionTrue" "jc_Reason c = reason"
      "UpdateJobConditions now st ty reason message =
         st\<lparr>Conditions := filterOutCondition (Conditions st) ty @ [c]\<rparr>"
proof (cases "GetCondition st ty")
  case None
  with assms show ?thesis
    by (intro new [of "newCondition now ty reason message"])
      (simp_all add: UpdateJobConditions_def setCondition_def newCondition_def is_terminal_def)
next
  case (Some c)
  show ?thesis
  proof (cases "jc_Status c = ConditionTrue \<and> jc_Reason c = reason")
    case True
    with Some assms show ?thesis
      by (intro same [of c])
        (simp_all add: UpdateJobConditions_def setCondition_def newCondition_def is_terminal_def)
  next
    case False
    let ?n = "newCondition now ty reason message"
    show ?thesis
    proof (rule new)
      show "UpdateJobConditions now st ty reason message =
          st\<lparr>Conditions := filterOutCondition (Conditions st) ty @
            [if jc_Status c = ConditionTrue
             then ?n\<lparr>jc_LastTransitionTime := jc_LastTransitionTime c\<rparr> else ?n]\<rparr>"
        using Some False assms
        by (auto simp: UpdateJobConditions_def setCondition_def newCondition_def is_terminal_def)
    qed (simp_all add: newCondition_def)
  qed
qed

lemma update_frame [simp]:
  "ReplicaStatuses (UpdateJobConditions now st ty reason message) = ReplicaStatuses st"
  "StartTime (UpdateJobConditions now st ty reason message) = StartTime st"
  "CompletionTime (UpdateJobConditions now st ty reason message) = CompletionTime st"
  by (simp_all add: UpdateJobConditions_def setCondition_def Let_def split: option.splits)

lemma HasCondition_update:
  assumes "\<not> is_terminal st" and "conditions_wf st"
  shows "HasCondition (UpdateJobConditions now st ty reason message) t \<longleftrightarrow>
    t = ty \<or> (kept ty t \<and> \<not> ((ty = JobFailed \<or> ty = JobSucceeded) \<and> t = JobRunning) \<and> HasCondition st t)"
  using assms(1)
proof (cases rule: update_cases [of st ty reason now message])
  case (same c)
  have true: "HasCondition st ty"
    using same find_condition_type [of "Conditions st" ty c]
    by (auto simp: GetCondition_def HasCondition_def list_ex_iff)
  have "\<not> (ty = JobFailed \<or> ty = JobSucceeded)"
    using true assms(1) by (auto simp: is_terminal_def is_defs)
  moreover have "HasCondition st t \<Longrightarrow> t = ty \<or> kept ty t"
    using has_in_types [OF true] has_in_types [of st t] assms(2)
    by (auto simp: conditions_wf_def kept_def)
  ultimately show ?thesis using true same by auto
next
  case (new c)
  then show ?thesis
    by (auto simp: HasCondition_def true_filterOut)
qed

lemma not_terminal_has:
  "\<not> is_terminal st \<Longrightarrow> \<not> HasCondition st JobFailed \<and> \<not> HasCondition st JobSucceeded"
  by (simp add: is_terminal_def is_defs)

lemma update_wf:
  assumes "conditions_wf st"
  shows "conditions_wf (UpdateJobConditions now st ty reason message)"
proof (cases "is_terminal st")
  case True
  with assms show ?thesis by (simp add: terminal_fixed)
next
  case False
  let ?st = "UpdateJobConditions now st ty reason message"
  note has = HasCondition_update [OF False assms, of now ty reason message]
  note nt = not_terminal_has [OF False]
  have types: "cond_types ?st = cond_types st \<or> cond_types ?st = filter (kept ty) (cond_types st) @ [ty]"
    using False
    by (cases rule: update_cases [of st ty reason now message]) (auto simp: cond_types_def types_filterOut)
  have "distinct (cond_types ?st)"
    using types assms by (auto simp: conditions_wf_def kept_def)
  moreover have "\<not> (JobRunning \<in> set (cond_types ?st) \<and> JobRestarting \<in> set (cond_types ?st))"
    using types assms by (auto simp: conditions_wf_def kept_def)
  moreover have "\<not> (IsSucceeded ?st \<and> IsFailed ?st)"
    using nt by (auto simp: is_defs has)
  moreover have "is_terminal ?st \<longrightarrow> \<not> IsRunning ?st"
    using nt by (auto simp: is_terminal_def is_defs has)
  ultimately show ?thesis by (simp add: conditions_wf_def)
qed

lemma update_refines:
  assumes "conditions_wf st"
  shows "true_types (UpdateJobConditions now st ty reason message) = cond_step (true_types st) ty"
proof (cases "is_terminal st")
  case True
  then show ?thesis by (simp add: terminal_fixed cond_step_def true_types_def is_terminal_def is_defs)
next
  case False
  show ?thesis
    using not_terminal_has [OF False]
    by (cases ty) (auto simp: true_types_def cond_step_def HasCondition_update [OF False assms] kept_def)
qed

text \<open>
  A run of the machine: the statuses that arise from an empty condition list by any sequence
  of condition updates.
\<close>

inductive cond_reachable :: "JobStatus \<Rightarrow> bool" where
  start: "Conditions st = [] \<Longrightarrow> cond_reachable st"
| update: "cond_reachable st \<Longrightarrow> cond_reachable (UpdateJobConditions now st ty reason message)"

lemma empty_wf: "Conditions st = [] \<Longrightarrow> conditions_wf st"
  by (simp add: conditions_wf_def cond_types_def is_terminal_def is_defs HasCondition_def)

lemma reachable_wf: "cond_reachable st \<Longrightarrow> conditions_wf st"
  by (induction rule: cond_reachable.induct) (simp_all add: empty_wf update_wf)

subsection \<open>Properties\<close>

text \<open>
  C6. Every status that arises from an empty condition list by any sequence of
  \<open>UpdateJobConditions\<close> calls has at most one condition per type, never a Running and a
  Restarting condition together, never both a true Succeeded and a true Failed condition, and no
  true Running condition once it is terminal.
\<close>

theorem conditions_always_wf:
  assumes "cond_reachable st"
  shows "distinct (map jc_Type (Conditions st)) \<and>
    \<not> (JobRunning \<in> jc_Type ` set (Conditions st) \<and> JobRestarting \<in> jc_Type ` set (Conditions st)) \<and>
    \<not> (IsSucceeded st \<and> IsFailed st) \<and>
    ((IsFailed st \<or> IsSucceeded st) \<longrightarrow> \<not> IsRunning st)"
  using reachable_wf [OF assms] by (simp add: conditions_wf_def cond_types_def is_terminal_def)

definition status0 :: JobStatus where
  "status0 = \<lparr>Conditions = [], ReplicaStatuses = [], StartTime = None, CompletionTime = None,
     LastReconcileTime = None, ModelVersionName = [], CacheBackendName = []\<rparr>"

lemmas cond_eval =
  UpdateJobConditions_def setCondition_def newCondition_def GetCondition_def HasCondition_def
  is_defs status0_def reason_defs

theorem conditions_always_wf_witness:
  "cond_reachable (UpdateJobConditions 9 (UpdateJobConditions 5 status0 JobRunning JobRunningReason [])
       JobFailed JobFailedReason []) \<and>
   \<not> IsRunning (UpdateJobConditions 9 (UpdateJobConditions 5 status0 JobRunning JobRunningReason [])
       JobFailed JobFailedReason [])"
proof -
  have "cond_reachable status0" by (rule cond_reachable.start) (simp add: status0_def)
  then have r: "cond_reachable (UpdateJobConditions 9
      (UpdateJobConditions 5 status0 JobRunning JobRunningReason []) JobFailed JobFailedReason [])"
    (is "cond_reachable ?st") by (intro cond_reachable.update)
  have "IsFailed ?st" by (simp add: cond_eval)
  with conditions_always_wf [OF r] r show ?thesis by blast
qed

text \<open>The updates of one or many reconciliations, in the order they are made.\<close>

fun run_updates :: "JobStatus \<Rightarrow> (time \<times> JobConditionType \<times> string \<times> string) list \<Rightarrow> JobStatus" where
  "run_updates st [] = st"
| "run_updates st ((now, ty, reason, message) # us) =
     run_updates (UpdateJobConditions now st ty reason message) us"

lemma run_updates_refines:
  "conditions_wf st \<Longrightarrow>
   true_types (run_updates st us) = foldl cond_step (true_types st) (map (fst \<circ> snd) us)"
  by (induction st us rule: run_updates.induct) (simp_all add: update_wf update_refines)

text \<open>
  C5. Refinement: whatever reasons, messages and times are passed, the set of true condition
  types of a well-formed status follows the abstract machine \<open>cond_step\<close> over any sequence
  of updates: a terminal set is absorbing, Running and Restarting displace each other, a terminal
  condition displaces Running, and every other update only adds its type.
\<close>

theorem conditions_refine_machine:
  assumes "conditions_wf st"
  shows "true_types (run_updates st us) = foldl cond_step (true_types st) (map (fst \<circ> snd) us)"
  using assms by (rule run_updates_refines)

theorem conditions_refine_machine_witness:
  "conditions_wf status0 \<and>
   true_types (run_updates status0 [(1, JobCreated, JobCreatedReason, []), (2, JobRunning, JobRunningReason, []),
     (3, JobRestarting, JobRestartingReason, []), (4, JobSucceeded, JobSucceededReason, []),
     (5, JobFailed, JobFailedReason, [])]) = {JobCreated, JobRestarting, JobSucceeded}"
proof -
  have wf: "conditions_wf status0" by (rule empty_wf) (simp add: status0_def)
  moreover have "true_types status0 = {}" by (simp add: true_types_def cond_eval)
  ultimately show ?thesis
    using conditions_refine_machine [OF wf, of "[(1, JobCreated, JobCreatedReason, []),
       (2, JobRunning, JobRunningReason, []), (3, JobRestarting, JobRestartingReason, []),
       (4, JobSucceeded, JobSucceededReason, []), (5, JobFailed, JobFailedReason, [])]"]
    by (simp add: cond_step_def) auto
qed

text \<open>
  A condition keeps the time of its last transition when only its reason changes: if a status
  that is not terminal already carries a true condition of the type, the condition stored by
  \<open>UpdateJobConditions\<close> has the old transition time, the new reason, and the current time as
  its update time.
\<close>

theorem update_keeps_transition_time:
  assumes "\<not> IsFailed st" and "\<not> IsSucceeded st"
    and "GetCondition st ty = Some c" and "jc_Status c = ConditionTrue" and "jc_Reason c \<noteq> reason"
  shows "last (Conditions (UpdateJobConditions now st ty reason message)) =
    \<lparr>jc_Type = ty, jc_Status = ConditionTrue, jc_Reason = reason, jc_Message = message,
     jc_LastUpdateTime = now, jc_LastTransitionTime = jc_LastTransitionTime c\<rparr>"
  using assms by (simp add: UpdateJobConditions_def setCondition_def newCondition_def)

theorem update_keeps_transition_time_witness:
  "last (Conditions (UpdateJobConditions 9
     (UpdateJobConditions 5 status0 JobQueuing JobEnqueuedReason []) JobQueuing JobDequeuedReason [])) =
   \<lparr>jc_Type = JobQueuing, jc_Status = ConditionTrue, jc_Reason = JobDequeuedReason, jc_Message = [],
    jc_LastUpdateTime = 9, jc_LastTransitionTime = 5\<rparr>"
  using update_keeps_transition_time [of "UpdateJobConditions 5 status0 JobQueuing JobEnqueuedReason []"
      JobQueuing "newCondition 5 JobQueuing JobEnqueuedReason []" JobDequeuedReason 9 "[]"]
  by (simp add: cond_eval)

end
