(* ===== verification/Controller_Env.thy ===== *)
theory Controller_Env
  imports Replica_Slices Controls Job_Conditions
begin

text \<open>
  What the generic job controller is built from: the workload interface
  (\<open>ControllerInterface\<close> of \<open>api/v1/interface.go\<close>) and the gang scheduler
  interface as records of operations, the configuration, and the naming helpers of
  \<open>pkg/util/util.go\<close>, \<open>job_controller/util.go\<close> and
  \<open>job_controller.go\<close>.
\<close>

type_synonym host_ports = "string \<Rightarrow> int option"

record gang_scheduler =
  gs_PluginName :: string
  gs_SchedulerName :: string
  gs_CreateGang :: "job_meta \<Rightarrow> replica_specs \<Rightarrow> SchedulingPolicy option \<Rightarrow> hist \<Rightarrow> gang_entity res"
  gs_BindPodToGang :: "job_meta \<Rightarrow> pod_template \<Rightarrow> gang_entity \<Rightarrow> string \<Rightarrow> go_error + pod_template"
  gs_GetGang :: "string \<Rightarrow> string \<Rightarrow> hist \<Rightarrow> gang_entity res"
  gs_DeleteGang :: "string \<Rightarrow> string \<Rightarrow> hist \<Rightarrow> go_error option \<times> hist"

record controller =
  ci_ControllerName :: string
  ci_Kind :: string
  ci_APIVersion :: string
  ci_GroupName :: string
  ci_ContainerName :: string
  ci_PortName :: string
  ci_Orders :: "ReplicaType list"
  ci_IsMasterRole :: "replica_specs \<Rightarrow> ReplicaType \<Rightarrow> int \<Rightarrow> bool"
  ci_GetJob :: "hist \<Rightarrow> string \<Rightarrow> string \<Rightarrow> go_error + job_meta"
  ci_GetPods :: "job_meta \<Rightarrow> hist \<Rightarrow> pod list res"
  ci_GetServices :: "job_meta \<Rightarrow> hist \<Rightarrow> service list res"
  ci_SetClusterSpec :: "replica_specs \<Rightarrow> host_ports \<Rightarrow> job_meta \<Rightarrow> pod_template \<Rightarrow> string \<Rightarrow> string \<Rightarrow> hist \<Rightarrow> pod_template res"
  ci_UpdateJobStatus :: "job_meta \<Rightarrow> replica_specs \<Rightarrow> JobStatus \<Rightarrow> bool \<Rightarrow> hist \<Rightarrow> JobStatus res"
  ci_EnableElasticScaling :: "job_meta \<Rightarrow> RunPolicy \<Rightarrow> bool"
  ci_CheckpointIfNecessary :: "job_meta \<Rightarrow> replica_specs \<Rightarrow> pod list \<Rightarrow> hist \<Rightarrow> (bool \<times> job_meta \<times> replica_specs) res"
  ci_ScaleOut :: "job_meta \<Rightarrow> replica_specs \<Rightarrow> pod list \<Rightarrow> service list \<Rightarrow> hist \<Rightarrow> (job_meta \<times> pod list) res"
  ci_ScaleIn :: "job_meta \<Rightarrow> replica_specs \<Rightarrow> pod list \<Rightarrow> service list \<Rightarrow> hist \<Rightarrow> (job_meta \<times> pod list) res"

record config =
  EnableGangScheduling :: bool
  PortBase :: int
  PortSize :: int
  gate_DAGScheduling :: bool
  gate_HostNetWithHeadlessSvc :: bool
  gate_PyTorchLocalMasterAddr :: bool

text \<open>
  The parts of \<open>JobController\<close> that its methods use. The storage provider of a model
  version (\<open>storage.GetStorageProvider\<close>) and the code-sync injection are interfaces too.
\<close>

record storage_provider =
  GetModelMountPath :: string
  AddModelVolumeToPodSpec :: "pod_template \<Rightarrow> pod_template"

record JobController =
  Controller :: controller
  Config :: config
  GangScheduler :: gang_scheduler
  World :: outside
  InjectCodeSync :: "job_meta \<Rightarrow> replica_specs \<Rightarrow> go_error + replica_specs"

subsection \<open>Names and labels\<close>

definition GenGeneralName :: "string \<Rightarrow> string \<Rightarrow> string \<Rightarrow> string" where
  "GenGeneralName jobName rtype index = slash_to_dash (jobName @ ''-'' @ rtype @ ''-'' @ index)"

definition MergeMap :: "smap \<Rightarrow> smap \<Rightarrow> smap" where
  "MergeMap a b = a ++ b"

definition GenOwnerReference :: "JobController \<Rightarrow> job_meta \<Rightarrow> owner_ref" where
  "GenOwnerReference jc obj =
     \<lparr>or_APIVersion = ci_APIVersion (Controller jc), or_Kind = ci_Kind (Controller jc),
      or_Name = jm_Name obj, or_UID = jm_UID obj,
      or_Controller = Some True, or_BlockOwnerDeletion = Some True\<rparr>"

definition GenLabels :: "JobController \<Rightarrow> string \<Rightarrow> smap" where
  "GenLabels jc jobName =
     [GroupNameLabel \<mapsto> ci_GroupName (Controller jc), JobNameLabel \<mapsto> slash_to_dash jobName]"

definition ContainsReplicaType :: "replica_specs \<Rightarrow> ReplicaType list \<Rightarrow> bool" where
  "ContainsReplicaType rspecs rtypes = list_ex (\<lambda>rtype. map_of rspecs rtype \<noteq> None) rtypes"

definition ReplicaTypes :: "replica_specs \<Rightarrow> ReplicaType list" where
  "ReplicaTypes specs = keys specs"

definition GenExpectationPodsKey :: "string \<Rightarrow> string \<Rightarrow> string" where
  "GenExpectationPodsKey jobKey replicaType = jobKey @ ''/'' @ ToLower replicaType @ ''/pods''"

definition GenExpectationServicesKey :: "string \<Rightarrow> string \<Rightarrow> string" where
  "GenExpectationServicesKey jobKey replicaType = jobKey @ ''/'' @ ToLower replicaType @ ''/services''"

text \<open>
  The port lookups of \<open>util.go\<close> and \<open>service.go\<close> go on to the next container
  when a container with the right name has no port of the right name.
\<close>

fun find_port :: "container_port list \<Rightarrow> string \<Rightarrow> int option" where
  "find_port [] name = None"
| "find_port (p # ps) name = (if cp_Name p = name then Some (cp_ContainerPort p) else find_port ps name)"

fun find_container_port :: "container list \<Rightarrow> string \<Rightarrow> string \<Rightarrow> int option" where
  "find_container_port [] container name = None"
| "find_container_port (c # cs) container name =
     (if ct_Name c = container
      then (case find_port (ct_Ports c) name of
              Some n \<Rightarrow> Some n
            | None \<Rightarrow> find_container_port cs container name)
      else find_container_port cs container name)"

definition GetPortFromJob :: "JobController \<Rightarrow> ReplicaSpec \<Rightarrow> go_error + int" where
  "GetPortFromJob jc spec =
     (case find_container_port (ps_Containers (pt_Spec (Template spec)))
             (ci_ContainerName (Controller jc)) (ci_PortName (Controller jc)) of
        Some n \<Rightarrow> Inr n
      | None \<Rightarrow> Inl (Err ''failed to find the port''))"

definition GetPortFromSpecs :: "replica_specs \<Rightarrow> ReplicaType \<Rightarrow> string \<Rightarrow> string \<Rightarrow> go_error + int" where
  "GetPortFromSpecs spec rtype containerName portName =
     (case map_of spec rtype of
        None \<Rightarrow> Inl (Panic ''nil ReplicaSpec'')
      | Some s \<Rightarrow>
          (case find_container_port (ps_Containers (pt_Spec (Template s))) containerName portName of
             Some n \<Rightarrow> Inr n
           | None \<Rightarrow> Inl (Err ''failed to found the port'')))"

subsection \<open>Owners\<close>

definition resolveControllerRef :: "JobController \<Rightarrow> string \<Rightarrow> owner_ref \<Rightarrow> hist \<Rightarrow> job_meta option" where
  "resolveControllerRef jc namespace ref h =
     (if or_Kind ref \<noteq> ci_Kind (Controller jc) then None
      else case ci_GetJob (Controller jc) h namespace (or_Name ref) of
             Inl e \<Rightarrow> None
           | Inr job \<Rightarrow> if jm_UID job \<noteq> or_UID ref then None else Some job)"

text \<open>
  The re-check before an adoption: the live object is read again, has to have the same UID and
  must not be terminating.
\<close>

definition RecheckDeletionTimestamp :: "go_error + job_meta \<Rightarrow> go_error option" where
  "RecheckDeletionTimestamp fresh =
     (case fresh of
        Inl e \<Rightarrow> Some (Err ''can't recheck DeletionTimestamp'')
      | Inr obj \<Rightarrow>
          if jm_DeletionTimestamp obj \<noteq> None then Some (Err ''has just been deleted'') else None)"

definition CreateGang ::
    "JobController \<Rightarrow> job_meta \<Rightarrow> replica_specs \<Rightarrow> SchedulingPolicy option \<Rightarrow> hist \<Rightarrow> gang_entity res" where
  "CreateGang jc job replicas policy h = gs_CreateGang (GangScheduler jc) job replicas policy h"

definition DeleteGang :: "JobController \<Rightarrow> job_meta \<Rightarrow> hist \<Rightarrow> go_error option \<times> hist" where
  "DeleteGang jc job h = gs_DeleteGang (GangScheduler jc) (jm_Namespace job) (jm_Name job) h"

subsection \<open>Names are unambiguous\<close>

lemma digit_char_not_sep: "d < 10 \<Longrightarrow> CHR ''-'' \<noteq> digit_char d \<and> CHR ''/'' \<noteq> digit_char d"
proof -
  assume "d < 10"
  then have "(of_char (digit_char d) :: nat) = 48 + d" by (simp add: digit_char_def of_char_of)
  then have "digit_char d \<noteq> CHR ''-''" "digit_char d \<noteq> CHR ''/''" by auto
  then show ?thesis by metis
qed

lemma nat_dec_chars: "CHR ''-'' \<notin> set (nat_dec n) \<and> CHR ''/'' \<notin> set (nat_dec n)"
proof (induction n rule: nat_dec.induct)
  case (1 n)
  then show ?case
    by (cases "n < 10") (auto simp: nat_dec.simps [of n] digit_char_not_sep)
qed

lemma dash_suffix:
  assumes "CHR ''-'' \<notin> set i" "CHR ''-'' \<notin> set j" "a @ CHR ''-'' # i = b @ CHR ''-'' # j"
  shows "a = b \<and> i = j"
proof -
  have tail: "takeWhile (\<lambda>c. c \<noteq> CHR ''-'') (rev (x @ CHR ''-'' # k)) = rev k"
    if "CHR ''-'' \<notin> set k" for x k
  proof -
    from that have "takeWhile (\<lambda>c. c \<noteq> CHR ''-'') (rev k @ CHR ''-'' # rev x) =
        rev k @ takeWhile (\<lambda>c. c \<noteq> CHR ''-'') (CHR ''-'' # rev x)"
      by (intro takeWhile_append2) auto
    then show ?thesis by simp
  qed
  from assms(3) have "rev i = rev j" using tail [OF assms(1), of a] tail [OF assms(2), of b] by simp
  with assms(3) show ?thesis by simp
qed

lemma Itoa_nonneg_chars: "0 \<le> i \<Longrightarrow> CHR ''-'' \<notin> set (Itoa i) \<and> CHR ''/'' \<notin> set (Itoa i)"
  by (simp add: Itoa_def nat_dec_chars)

lemma GenGeneralName_inject:
  assumes "0 \<le> i" "0 \<le> j" "in64 i" "in64 j" "CHR ''/'' \<notin> set rt" "CHR ''/'' \<notin> set rt'"
    and eq: "GenGeneralName job rt (Itoa i) = GenGeneralName job rt' (Itoa j)"
  shows "rt = rt' \<and> i = j"
proof -
  have "(slash_to_dash job @ ''-'' @ rt) @ CHR ''-'' # Itoa i =
      (slash_to_dash job @ ''-'' @ rt') @ CHR ''-'' # Itoa j"
    using eq assms Itoa_nonneg_chars [of i] Itoa_nonneg_chars [of j]
    by (simp add: GenGeneralName_def slash_to_dash_id slash_to_dash_def [of "''-''"])
  from dash_suffix [OF _ _ this] Itoa_nonneg_chars assms Itoa_inject [of i j] show ?thesis by auto
qed

text \<open>The keys of the expectation cache tell the replica types of a job apart.\<close>

lemma expectation_keys_distinct:
  "GenExpectationPodsKey k r = GenExpectationPodsKey k r' \<longleftrightarrow> ToLower r = ToLower r'"
  "GenExpectationServicesKey k r = GenExpectationServicesKey k r' \<longleftrightarrow> ToLower r = ToLower r'"
  by (simp_all add: GenExpectationPodsKey_def GenExpectationServicesKey_def)

lemma pods_key_ne_services_key: "GenExpectationPodsKey k r \<noteq> GenExpectationServicesKey k r'"
proof
  assume "GenExpectationPodsKey k r = GenExpectationServicesKey k r'"
  then have "rev (ToLower r @ ''/pods'') = rev (ToLower r' @ ''/services'')"
    by (simp add: GenExpectationPodsKey_def GenExpectationServicesKey_def)
  then show False by simp
qed

lemma GenLabels_no_replica [simp]:
  "GenLabels jc n ReplicaTypeLabel = None" "GenLabels jc n ReplicaIndexLabel = None"
  by (simp_all add: GenLabels_def)

subsection \<open>A sample world\<close>

text \<open>
  Concrete objects for the witnesses: a server that accepts every write and has none of the
  objects asked for, a job, its pods and replica specs.
\<close>

definition merge_lists :: "(int \<Rightarrow> int \<Rightarrow> int) \<Rightarrow> (int \<Rightarrow> int) \<Rightarrow> resource_list \<Rightarrow> resource_list \<Rightarrow> resource_list" where
  "merge_lists f g a b =
     map (\<lambda>(k, x). (k, case map_of b k of None \<Rightarrow> x | Some y \<Rightarrow> f x y)) a @
     map (\<lambda>(k, y). (k, g y)) (filter (\<lambda>(k, y). map_of a k = None) b)"

definition quota0 :: quota_lib where
  "quota0 =
     \<lparr>ql_Add = merge_lists (+) id, ql_Max = merge_lists max id, ql_Subtract = merge_lists (-) uminus,
      ql_SubtractNonNegative = (\<lambda>a b. map (\<lambda>(k, x). (k, max 0 x)) (merge_lists (-) uminus a b)),
      ql_Mask = (\<lambda>rs ns. filter (\<lambda>(k, x). k \<in> set ns) rs),
      ql_Intersection = (\<lambda>ms ns. filter (\<lambda>k. k \<in> set ns) ms), ql_ResourceNames = map fst,
      ql_Value = (\<lambda>q. - ((- q) div 1000)), ql_Set = (\<lambda>n. 1000 * n)\<rparr>"

definition quiet_world :: outside where
  "quiet_world =
     \<lparr>out_get_pod = (\<lambda>h ns n. Inl NotFound), out_get_service = (\<lambda>h ns n. Inl NotFound),
      out_get_pod_group = (\<lambda>h ns n. Inl NotFound), out_list_pod_groups = (\<lambda>h ns n. Inr []),
      out_get_crr = (\<lambda>h ns n. Inl NotFound), out_get_cache = (\<lambda>h ns n. Inl NotFound),
      out_get_pvc = (\<lambda>h ns n. Some NotFound), out_get_model_version = (\<lambda>h ns n. Some NotFound),
      out_get_config_map = (\<lambda>h ns n. Some NotFound), out_get_cron = (\<lambda>h ns n. Inl NotFound), out_encode = (\<lambda>job. Inr (jm_Kind job)), out_list_quotas = (\<lambda>h ns. Inr []),
      out_job_status = (\<lambda>h ns n. Inl NotFound), out_priority_class = (\<lambda>h n. Inl NotFound), out_write = (\<lambda>h c. None),
      out_patch_pod = (\<lambda>h p f. Inr (p\<lparr>pod_Finalizers := removeAll f (pod_Finalizers p)\<rparr>)),
      out_patch_pod_meta = (\<lambda>h p as ls. Inr (p\<lparr>pod_Annotations := pod_Annotations p ++ map_of as,
        pod_Labels := pod_Labels p ++ map_of ls\<rparr>)),
      out_update_job = (\<lambda>h job specs. Inr (job\<lparr>jm_Generation := jm_Generation job + 1\<rparr>, specs)),
      out_list_services = (\<lambda>h ns ls. Inr []), out_get_ingress = (\<lambda>h ns n. Inl NotFound),
      out_list_ingresses = (\<lambda>h ns ls. Inr []), out_list_pods = (\<lambda>h ns ls. Inr []),
      out_patch_job = (\<lambda>h job as. Inr (job\<lparr>jm_Annotations := jm_Annotations job ++ map_of as\<rparr>)),
      out_go_order = (\<lambda>h ps. ps), out_satisfied = (\<lambda>h k. True), out_requeues = (\<lambda>h k. 0),
      out_rand = (\<lambda>h lo hi. lo),
      out_selector = (\<lambda>m. Inr (\<lambda>ls. ls ReplicaTypeLabel = m ReplicaTypeLabel)),
      out_set_selector = (\<lambda>m ls. m \<subseteq>\<^sub>m ls), out_quota = quota0,
      out_key = (\<lambda>job. Inr (jm_Namespace job @ ''/'' @ jm_Name job)), out_now = (\<lambda>h. int (length h)),
      out_format_time = Itoa,
      out_parse_time = (\<lambda>s. case Atoi s of None \<Rightarrow> Inl (Err ''parse'') | Some t \<Rightarrow> Inr t),
      out_restart_list = (\<lambda>s. None)\<rparr>"

definition job0 :: job_meta where
  "job0 = \<lparr>jm_APIVersion = ''training.kubedl.io/v1alpha1'', jm_Kind = ''TFJob'', jm_Name = ''mnist'',
     jm_Namespace = ''default'', jm_UID = ''u1'', jm_Generation = 1, jm_Annotations = Map.empty,
     jm_DeletionTimestamp = None\<rparr>"

definition pod0 :: "string \<Rightarrow> string \<Rightarrow> pod_phase \<Rightarrow> pod" where
  "pod0 rt index phase =
     \<lparr>pod_Name = GenGeneralName ''mnist'' rt index, pod_GenerateName = [], pod_Namespace = ''default'', pod_UID = ''p'',
      pod_Labels = [ReplicaTypeLabel \<mapsto> rt, ReplicaIndexLabel \<mapsto> index], pod_Annotations = Map.empty,
      pod_Finalizers = [], pod_OwnerReferences = [], pod_DeletionTimestamp = None, pod_ResourceVersion = [],
      pod_Spec = \<lparr>ps_NodeName = ''n1'', ps_Containers = [], ps_HostNetwork = False, ps_DNSPolicy = [],
        ps_RestartPolicy = [], ps_SchedulerName = [], ps_PriorityClassName = [], ps_Volumes = [],
        ps_InitContainers = [], ps_Overhead = None\<rparr>,
      pod_Phase = phase, pod_Reason = [], pod_StartTime = Some 0, pod_ContainerStatuses = [],
      pod_InitContainerStatuses = []\<rparr>"

definition dag_spec :: "int \<Rightarrow> DAGCondition list \<Rightarrow> ReplicaSpec" where
  "dag_spec n deps =
     \<lparr>Replicas = Some n, Spot = None,
      Template = \<lparr>pt_Name = [], pt_GenerateName = [], pt_Labels = Map.empty, pt_Annotations = Map.empty,
        pt_Finalizers = [], pt_OwnerReferences = [],
        pt_Spec = \<lparr>ps_NodeName = [], ps_Containers = [], ps_HostNetwork = False, ps_DNSPolicy = [],
          ps_RestartPolicy = [], ps_SchedulerName = [], ps_PriorityClassName = [], ps_Volumes = [],
        ps_InitContainers = [], ps_Overhead = None\<rparr>\<rparr>,
      RestartPolicy = RestartPolicyNever, DependOn = deps\<rparr>"

definition gang0 :: gang_scheduler where
  "gang0 = \<lparr>gs_PluginName = ''none'', gs_SchedulerName = [],
     gs_CreateGang = (\<lambda>job specs policy h. (Inr OtherEntity, h)),
     gs_BindPodToGang = (\<lambda>job t e rt. Inr t), gs_GetGang = (\<lambda>ns n h. (Inr OtherEntity, h)),
     gs_DeleteGang = (\<lambda>ns n h. (None, h))\<rparr>"

definition controller0 :: controller where
  "controller0 = \<lparr>ci_ControllerName = ''TFController'', ci_Kind = ''TFJob'',
     ci_APIVersion = ''training.kubedl.io/v1alpha1'', ci_GroupName = ''kubedl.io'',
     ci_ContainerName = ''tensorflow'', ci_PortName = ''tfjob-port'', ci_Orders = [''PS'', ''Worker''],
     ci_IsMasterRole = (\<lambda>specs rt i. False),
     ci_GetJob = (\<lambda>h ns n. if n = ''mnist'' then Inr job0 else Inl NotFound),
     ci_GetPods = (\<lambda>job h. (Inr [], h)), ci_GetServices = (\<lambda>job h. (Inr [], h)),
     ci_SetClusterSpec = (\<lambda>specs ports job t rt i h. (Inr t, h)),
     ci_UpdateJobStatus = (\<lambda>job specs st restart h. (Inr st, h)),
     ci_EnableElasticScaling = (\<lambda>job rp. False),
     ci_CheckpointIfNecessary = (\<lambda>job specs pods h. (Inr (True, job, specs), h)),
     ci_ScaleOut = (\<lambda>job specs pods svcs h. (Inr (job, pods), h)),
     ci_ScaleIn = (\<lambda>job specs pods svcs h. (Inr (job, pods), h))\<rparr>"

definition jc0 :: JobController where
  "jc0 = \<lparr>Controller = controller0,
     Config = \<lparr>EnableGangScheduling = False, PortBase = 20000, PortSize = 10000,
       gate_DAGScheduling = True, gate_HostNetWithHeadlessSvc = False,
       gate_PyTorchLocalMasterAddr = True\<rparr>,
     GangScheduler = gang0, World = quiet_world, InjectCodeSync = (\<lambda>job specs. Inr specs)\<rparr>"

definition run_policy0 :: RunPolicy where
  "run_policy0 = \<lparr>rp_CleanPodPolicy = Some CleanPodPolicyRunning, rp_TTLSecondsAfterFinished = None,
     rp_ActiveDeadlineSeconds = None, rp_BackoffLimit = None, rp_SchedulingPolicy = None, rp_CronPolicy = None\<rparr>"

lemma sample_strings:
  "ToLower ''Worker'' = ''worker''" "ToLower ''worker'' = ''worker''" "ToLower ''PS'' = ''ps''"
  "Itoa 0 = ''0''" "Itoa 1 = ''1''" "Atoi ''0'' = Some 0" "Atoi ''1'' = Some 1"
  by code_simp+

lemmas sample_defs = quiet_world_def job0_def pod0_def gang0_def controller0_def jc0_def

lemma jc0_simps [simp]:
  "Controller jc0 = controller0" "GangScheduler jc0 = gang0" "World jc0 = quiet_world"
  "InjectCodeSync jc0 job specs = Inr specs"
  "EnableGangScheduling (Config jc0) = False" "PortBase (Config jc0) = 20000" "PortSize (Config jc0) = 10000"
  "gate_DAGScheduling (Config jc0)" "\<not> gate_HostNetWithHeadlessSvc (Config jc0)"
  by (simp_all add: jc0_def)

lemma controller0_simps [simp]:
  "ci_ControllerName controller0 = ''TFController''" "ci_Kind controller0 = ''TFJob''"
  "ci_GroupName controller0 = ''kubedl.io''" "ci_ContainerName controller0 = ''tensorflow''"
  "ci_APIVersion controller0 = ''training.kubedl.io/v1alpha1''"
  "ci_PortName controller0 = ''tfjob-port''" "ci_Orders controller0 = [''PS'', ''Worker'']"
  "ci_IsMasterRole controller0 specs rt i = False"
  "ci_GetJob controller0 h ns n = (if n = ''mnist'' then Inr job0 else Inl NotFound)"
  "ci_GetPods controller0 job h = (Inr [], h)" "ci_GetServices controller0 job h = (Inr [], h)"
  "ci_SetClusterSpec controller0 specs ports job t rt idx h = (Inr t, h)"
  "ci_UpdateJobStatus controller0 job specs st restart h = (Inr st, h)"
  "ci_EnableElasticScaling controller0 job rp = False"
  by (simp_all add: controller0_def)

lemma gang0_simps [simp]: "gs_GetGang gang0 ns n h = (Inr OtherEntity, h)" "gs_DeleteGang gang0 ns n h = (None, h)"
  by (simp_all add: gang0_def)

lemma quiet_simps [simp]:
  "out_get_pod quiet_world h ns n = Inl NotFound" "out_get_service quiet_world h ns n = Inl NotFound"
  "out_write quiet_world h c = None" "out_satisfied quiet_world h k" "out_requeues quiet_world h k = 0"
  "out_key quiet_world job = Inr (jm_Namespace job @ ''/'' @ jm_Name job)"
  "out_selector quiet_world m = Inr (\<lambda>ls. ls ReplicaTypeLabel = m ReplicaTypeLabel)"
  "out_now quiet_world h = int (length h)" "out_go_order quiet_world h ps = ps"
  by (simp_all add: quiet_world_def)

lemma job0_simps [simp]:
  "jm_Kind job0 = ''TFJob''" "jm_Name job0 = ''mnist''" "jm_Namespace job0 = ''default''" "jm_UID job0 = ''u1''"
  "jm_Generation job0 = 1" "jm_Annotations job0 = Map.empty" "jm_DeletionTimestamp job0 = None"
  by (simp_all add: job0_def)

lemma pod0_simps [simp]:
  "pod_Name (pod0 rt i ph) = GenGeneralName ''mnist'' rt i" "pod_Namespace (pod0 rt i ph) = ''default''"
  "pod_Labels (pod0 rt i ph) = [ReplicaTypeLabel \<mapsto> rt, ReplicaIndexLabel \<mapsto> i]"
  "pod_Phase (pod0 rt i ph) = ph" "pod_ContainerStatuses (pod0 rt i ph) = []"
  "pod_InitContainerStatuses (pod0 rt i ph) = []" "pod_DeletionTimestamp (pod0 rt i ph) = None"
  "pod_OwnerReferences (pod0 rt i ph) = []" "pod_Finalizers (pod0 rt i ph) = []" "pod_Reason (pod0 rt i ph) = []"
  "ps_NodeName (pod_Spec (pod0 rt i ph)) = ''n1''" "ps_Containers (pod_Spec (pod0 rt i ph)) = []"
  by (simp_all add: pod0_def)

lemma dag_spec_simps [simp]:
  "Replicas (dag_spec n deps) = Some n" "Spot (dag_spec n deps) = None" "DependOn (dag_spec n deps) = deps"
  "RestartPolicy (dag_spec n deps) = RestartPolicyNever" "pt_Labels (Template (dag_spec n deps)) = Map.empty"
  "ps_RestartPolicy (pt_Spec (Template (dag_spec n deps))) = []"
  by (simp_all add: dag_spec_def)

lemma quiet_replica_selector [simp]: "replica_selector quiet_world rt"
  by (simp add: replica_selector_def quiet_world_def)

end
