(* ===== verification/Event_Handlers.thy ===== *)
theory Event_Handlers
  imports Controller_Env
begin

text \<open>
  The expectation cache of the job controller (\<open>expectations.go\<close>) and the event handlers
  of pods and services (\<open>OnPodCreateFunc\<close> and the others of \<open>pod.go\<close> and
  \<open>service.go\<close>). A handler returns whether the event wakes up the job, and the calls made.
\<close>

subsection \<open>Expectations\<close>

fun pods_satisfied :: "outside \<Rightarrow> hist \<Rightarrow> string \<Rightarrow> bool \<Rightarrow> ReplicaType list \<Rightarrow> bool" where
  "pods_satisfied W h key satisfied [] = satisfied"
| "pods_satisfied W h key satisfied (rt # rts) =
     pods_satisfied W h key (satisfied \<and> out_satisfied W h (GenExpectationPodsKey key rt)) rts"

fun services_satisfied :: "outside \<Rightarrow> hist \<Rightarrow> string \<Rightarrow> bool \<Rightarrow> ReplicaType list \<Rightarrow> bool" where
  "services_satisfied W h key satisfied [] = satisfied"
| "services_satisfied W h key satisfied (rt # rts) =
     services_satisfied W h key (satisfied \<or> out_satisfied W h (GenExpectationServicesKey key rt)) rts"

definition SatisfyExpectations :: "outside \<Rightarrow> hist \<Rightarrow> job_meta \<Rightarrow> replica_specs \<Rightarrow> bool" where
  "SatisfyExpectations W h job specs =
     (case out_key W job of
        Inl e \<Rightarrow> False
      | Inr key \<Rightarrow> services_satisfied W h key (pods_satisfied W h key True (keys specs)) (keys specs))"

fun delete_expectations_loop :: "string \<Rightarrow> ReplicaType list \<Rightarrow> hist \<Rightarrow> hist" where
  "delete_expectations_loop key [] h = h"
| "delete_expectations_loop key (rt # rts) h =
     delete_expectations_loop key rts
       (emit (DeleteExpectationsCall (GenExpectationServicesKey key rt))
         (emit (DeleteExpectationsCall (GenExpectationPodsKey key rt)) h))"

definition DeleteExpectations :: "outside \<Rightarrow> job_meta \<Rightarrow> replica_specs \<Rightarrow> hist \<Rightarrow> hist" where
  "DeleteExpectations W job specs h =
     (case out_key W job of
        Inl e \<Rightarrow> h
      | Inr key \<Rightarrow> delete_expectations_loop key (keys specs) h)"

subsection \<open>Pod events\<close>

definition drop_protector :: "outside \<Rightarrow> pod \<Rightarrow> hist \<Rightarrow> pod \<times> hist" where
  "drop_protector W p h =
     (if HasFinalizer (pod_Finalizers p) FinalizerPreemptProtector
      then (case remove_finalizer W p FinalizerPreemptProtector h of
              (Inl e, h1) \<Rightarrow> (p, h1)
            | (Inr q, h1) \<Rightarrow> (q, h1))
      else (p, h))"

definition OnPodCreateFunc :: "JobController \<Rightarrow> pod \<Rightarrow> hist \<Rightarrow> bool \<times> hist" where
  "OnPodCreateFunc jc p h =
     (if pod_DeletionTimestamp p \<noteq> None then (False, snd (drop_protector (World jc) p h))
      else case GetControllerOf (pod_OwnerReferences p) of
             None \<Rightarrow> (False, h)
           | Some ref \<Rightarrow>
               (case resolveControllerRef jc (pod_Namespace p) ref h of
                  None \<Rightarrow> (False, h)
                | Some job \<Rightarrow>
                    (case out_key (World jc) job of
                       Inl e \<Rightarrow> (False, h)
                     | Inr jobKey \<Rightarrow>
                         (case pod_Labels p ReplicaTypeLabel of
                            None \<Rightarrow> (False, h)
                          | Some rtype \<Rightarrow> (True, emit (CreationObserved (GenExpectationPodsKey jobKey rtype)) h)))))"

definition OnPodUpdateFunc :: "JobController \<Rightarrow> pod \<Rightarrow> pod \<Rightarrow> hist \<Rightarrow> bool" where
  "OnPodUpdateFunc jc newPod oldPod h =
     (if pod_ResourceVersion newPod = pod_ResourceVersion oldPod then False
      else
        (let newRef = GetControllerOf (pod_OwnerReferences newPod);
             oldRef = GetControllerOf (pod_OwnerReferences oldPod) in
         if newRef \<noteq> oldRef \<and>
            (case oldRef of None \<Rightarrow> False | Some r \<Rightarrow> resolveControllerRef jc (pod_Namespace oldPod) r h \<noteq> None)
         then True
         else case newRef of
                None \<Rightarrow> False
              | Some r \<Rightarrow> resolveControllerRef jc (pod_Namespace newPod) r h \<noteq> None))"

definition OnPodDeleteFunc :: "JobController \<Rightarrow> pod \<Rightarrow> hist \<Rightarrow> bool \<times> hist" where
  "OnPodDeleteFunc jc p0 h =
     (case drop_protector (World jc) p0 h of (p, h1) \<Rightarrow>
      case GetControllerOf (pod_OwnerReferences p) of
        None \<Rightarrow> (False, h1)
      | Some ref \<Rightarrow>
          (case resolveControllerRef jc (pod_Namespace p) ref h1 of
             None \<Rightarrow> (False, h1)
           | Some job \<Rightarrow>
               (case out_key (World jc) job of
                  Inl e \<Rightarrow> (False, h1)
                | Inr jobKey \<Rightarrow>
                    (case pod_Labels p ReplicaTypeLabel of
                       None \<Rightarrow> (False, h1)
                     | Some rtype \<Rightarrow> (True, emit (DeletionObserved (GenExpectationPodsKey jobKey rtype)) h1)))))"

subsection \<open>Service events\<close>

definition OnServiceCreateFunc :: "JobController \<Rightarrow> service \<Rightarrow> hist \<Rightarrow> bool \<times> hist" where
  "OnServiceCreateFunc jc s h =
     (if svc_DeletionTimestamp s \<noteq> None then (False, h)
      else case GetControllerOf (svc_OwnerReferences s) of
             None \<Rightarrow> (False, h)
           | Some ref \<Rightarrow>
               (case resolveControllerRef jc (svc_Namespace s) ref h of
                  None \<Rightarrow> (False, h)
                | Some job \<Rightarrow>
                    (case out_key (World jc) job of
                       Inl e \<Rightarrow> (False, h)
                     | Inr jobKey \<Rightarrow>
                         (case svc_Labels s ReplicaTypeLabel of
                            None \<Rightarrow> (False, h)
                          | Some rtype \<Rightarrow> (True, emit (CreationObserved (GenExpectationServicesKey jobKey rtype)) h)))))"

definition OnServiceUpdateFunc :: "JobController \<Rightarrow> service \<Rightarrow> service \<Rightarrow> hist \<Rightarrow> bool" where
  "OnServiceUpdateFunc jc newService oldService h =
     (if svc_ResourceVersion newService = svc_ResourceVersion oldService then False
      else
        (let newRef = GetControllerOf (svc_OwnerReferences newService);
             oldRef = GetControllerOf (svc_OwnerReferences oldService) in
         if newRef \<noteq> oldRef \<and>
            (case oldRef of None \<Rightarrow> False | Some r \<Rightarrow> resolveControllerRef jc (svc_Namespace oldService) r h \<noteq> None)
         then True
         else case newRef of
                None \<Rightarrow> False
              | Some r \<Rightarrow> resolveControllerRef jc (svc_Namespace newService) r h \<noteq> None))"

definition OnServiceDeleteFunc :: "JobController \<Rightarrow> service \<Rightarrow> hist \<Rightarrow> bool \<times> hist" where
  "OnServiceDeleteFunc jc s h =
     (case GetControllerOf (svc_OwnerReferences s) of
        None \<Rightarrow> (False, h)
      | Some ref \<Rightarrow>
          (case resolveControllerRef jc (svc_Namespace s) ref h of
             None \<Rightarrow> (False, h)
           | Some job \<Rightarrow>
               (case out_key (World jc) job of
                  Inl e \<Rightarrow> (False, h)
                | Inr jobKey \<Rightarrow>
                    (case svc_Labels s ReplicaTypeLabel of
                       None \<Rightarrow> (False, h)
                     | Some rtype \<Rightarrow> (True, emit (DeletionObserved (GenExpectationServicesKey jobKey rtype)) h)))))"

subsection \<open>What the expectation test decides\<close>

lemma pods_satisfied_iff:
  "pods_satisfied W h k b rts \<longleftrightarrow> b \<and> (\<forall>rt \<in> set rts. out_satisfied W h (GenExpectationPodsKey k rt))"
  by (induction W h k b rts rule: pods_satisfied.induct) auto

lemma services_satisfied_iff:
  "services_satisfied W h k b rts \<longleftrightarrow> b \<or> (\<exists>rt \<in> set rts. out_satisfied W h (GenExpectationServicesKey k rt))"
  by (induction W h k b rts rule: services_satisfied.induct) auto

lemma satisfy_expectations_iff:
  "SatisfyExpectations W h job specs \<longleftrightarrow>
   (\<exists>key. out_key W job = Inr key \<and>
     ((\<forall>rt \<in> set (keys specs). out_satisfied W h (GenExpectationPodsKey key rt)) \<or>
      (\<exists>rt \<in> set (keys specs). out_satisfied W h (GenExpectationServicesKey key rt))))"
  by (auto simp: SatisfyExpectations_def pods_satisfied_iff services_satisfied_iff split: sum.splits)

lemma resolveControllerRef_Some:
  "resolveControllerRef jc ns ref h = Some job \<Longrightarrow>
   or_Kind ref = ci_Kind (Controller jc) \<and> jm_UID job = or_UID ref \<and>
   ci_GetJob (Controller jc) h ns (or_Name ref) = Inr job"
  by (auto simp: resolveControllerRef_def split: if_splits sum.splits)

text \<open>
  A pending pod creation does not hold a job back as soon as one of its service expectations is
  satisfied. The expectation cache counts a key it has never seen as satisfied, so for a job whose
  replicas get no service the pod expectations are never waited for.
\<close>

theorem service_expectation_masks_pods:
  assumes "out_key W job = Inr key" "rt \<in> set (keys specs)"
    and "out_satisfied W h (GenExpectationServicesKey key rt)"
  shows "SatisfyExpectations W h job specs"
  using assms by (auto simp: satisfy_expectations_iff)

theorem service_expectation_masks_pods_witness:
  "SatisfyExpectations (quiet_world\<lparr>out_satisfied := \<lambda>h k. k \<noteq> ''default/mnist/worker/pods''\<rparr>) [] job0
     [(''Worker'', dag_spec 1 [])] \<and>
   GenExpectationPodsKey ''default/mnist'' ''Worker'' = ''default/mnist/worker/pods''"
proof -
  have lower: "ToLower ''Worker'' = ''worker''"
    by code_simp
  show ?thesis
    using service_expectation_masks_pods
      [of "quiet_world\<lparr>out_satisfied := \<lambda>h k. k \<noteq> ''default/mnist/worker/pods''\<rparr>" job0 "''default/mnist''"
        "''Worker''" "[(''Worker'', dag_spec 1 [])]" "[]"]
    by (simp add: quiet_world_def job0_def GenExpectationServicesKey_def GenExpectationPodsKey_def lower)
qed

text \<open>
  A pod event wakes up a job only when the controller owner reference of the pod names a job of
  this kind, which the informer knows under the same UID, and the pod carries a replica type; the
  observation recorded is for that job and replica type, and every other pod leaves the
  expectations untouched.
\<close>

theorem pod_create_event:
  assumes "OnPodCreateFunc jc p h = (woken, h')"
  shows "(woken \<longleftrightarrow>
      pod_DeletionTimestamp p = None \<and>
      (\<exists>ref job key rt. GetControllerOf (pod_OwnerReferences p) = Some ref \<and>
        resolveControllerRef jc (pod_Namespace p) ref h = Some job \<and> out_key (World jc) job = Inr key \<and>
        pod_Labels p ReplicaTypeLabel = Some rt \<and> h' = h @ [CreationObserved (GenExpectationPodsKey key rt)])) \<and>
    (\<not> woken \<longrightarrow> h' = h \<or> h' = h @ [RemoveFinalizerCall p FinalizerPreemptProtector])"
  using assms
  by (auto simp: OnPodCreateFunc_def drop_protector_def remove_finalizer_def emit_def api_write_def
      split: option.splits sum.splits if_splits)

theorem pod_create_event_witness:
  "fst (OnPodCreateFunc jc0 ((pod0 ''worker'' ''0'' PodRunning)\<lparr>pod_OwnerReferences := [GenOwnerReference jc0 job0]\<rparr>) [])"
proof -
  let ?p = "(pod0 ''worker'' ''0'' PodRunning)\<lparr>pod_OwnerReferences := [GenOwnerReference jc0 job0]\<rparr>"
  have "OnPodCreateFunc jc0 ?p [] = (True, [CreationObserved (GenExpectationPodsKey ''default/mnist'' ''worker'')])"
    by (simp add: OnPodCreateFunc_def resolveControllerRef_def GenOwnerReference_def sample_defs emit_def)
  from pod_create_event [OF this] this show ?thesis by simp
qed

end
