(* ===== verification/Host_Network.thy ===== *)
theory Host_Network
  imports Controller_Env
begin

text \<open>
  Host network mode (\<open>pkg/job_controller/hostnetwork.go\<close>): a random host port is written
  into the pod template, remembered in the context of the reconciliation and read back from
  existing pods.
\<close>

definition EnableHostNetwork :: "job_meta \<Rightarrow> bool" where
  "EnableHostNetwork job \<longleftrightarrow> sget (jm_Annotations job) AnnotationNetworkMode = HostNetworkMode"

text \<open>
  The port table that \<open>ReconcileJobs\<close> puts into the context is passed as an argument.
\<close>

definition GetHostNetworkPortFromContext :: "host_ports \<Rightarrow> string \<Rightarrow> string \<Rightarrow> int option" where
  "GetHostNetworkPortFromContext ports rtype index = ports (rtype @ ''-'' @ index)"

definition storeHostNetworkPortToContext :: "host_ports \<Rightarrow> string \<Rightarrow> string \<Rightarrow> int \<Rightarrow> host_ports" where
  "storeHostNetworkPortToContext ports rtype index port = ports(rtype @ ''-'' @ index \<mapsto> port)"

text \<open>
  The index of the default container: the loops start at index 1, index 0 is the fallback.
\<close>

definition container_index :: "container list \<Rightarrow> string \<Rightarrow> nat" where
  "container_index cs name =
     (case find (\<lambda>i. ct_Name (cs ! i) = name) [1..<length cs] of None \<Rightarrow> 0 | Some i \<Rightarrow> i)"

definition set_port :: "container \<Rightarrow> string \<Rightarrow> int \<Rightarrow> container" where
  "set_port c name port =
     (case find (\<lambda>i. cp_Name (ct_Ports c ! i) = name) [0..<length (ct_Ports c)] of
        None \<Rightarrow> c\<lparr>ct_Ports := ct_Ports c @ [\<lparr>cp_Name = name, cp_HostPort = port, cp_ContainerPort = port\<rparr>]\<rparr>
      | Some i \<Rightarrow> c\<lparr>ct_Ports := (ct_Ports c)[i := (ct_Ports c ! i)\<lparr>cp_ContainerPort := port, cp_HostPort := port\<rparr>]\<rparr>)"

definition setupContainerHostNetworkPort :: "pod_spec \<Rightarrow> string \<Rightarrow> string \<Rightarrow> int \<Rightarrow> pod_spec" where
  "setupContainerHostNetworkPort spec container name port =
     (let cs = ps_Containers spec in
      if cs = [] then spec
      else (let ci = container_index cs container in
            spec\<lparr>ps_Containers := cs[ci := set_port (cs ! ci) name port]\<rparr>))"

text \<open>
  Reading the port back: the loop over the ports starts at index 1 but compares the name of the
  port at the running position \<open>pi\<close>, which is 0 until the loop ends.
\<close>

definition read_port_index :: "container_port list \<Rightarrow> string \<Rightarrow> nat" where
  "read_port_index ports name =
     (case find (\<lambda>i. cp_Name (ports ! 0) = name) [1..<length ports] of None \<Rightarrow> 0 | Some i \<Rightarrow> i)"

definition getContainerHostNetworkPort :: "pod_spec \<Rightarrow> string \<Rightarrow> string \<Rightarrow> go_error + int" where
  "getContainerHostNetworkPort spec container name =
     (let cs = ps_Containers spec in
      if cs = [] then Inr (-1)
      else (let ports = ct_Ports (cs ! container_index cs container);
                pi = read_port_index ports name in
            if pi < length ports then Inr (cp_ContainerPort (ports ! pi)) else Inl index_panic))"

text \<open>\<open>setupHostNetwork\<close> of \<open>pod.go\<close>\<close>

definition setupHostNetwork ::
    "JobController \<Rightarrow> host_ports \<Rightarrow> pod_template \<Rightarrow> string \<Rightarrow> string \<Rightarrow> hist \<Rightarrow> (pod_template \<times> host_ports) res" where
  "setupHostNetwork jc ports t rtype index h =
     (let lo = PortBase (Config jc); hi = PortBase (Config jc) + PortSize (Config jc) - 1 in
      if hi \<le> lo then (Inl (Panic ''invalid argument to Intn''), h)
      else (let port = i32 (out_rand (World jc) h lo hi);
                h1 = emit (RandRange lo hi) h;
                spec = (pt_Spec t)\<lparr>ps_HostNetwork := True, ps_DNSPolicy := ''ClusterFirstWithHostNet''\<rparr>;
                spec = setupContainerHostNetworkPort spec (ci_ContainerName (Controller jc))
                         (ci_PortName (Controller jc)) port
            in (Inr (t\<lparr>pt_Spec := spec\<rparr>, storeHostNetworkPortToContext ports rtype index port), h1)))"

subsection \<open>Writing and reading the port\<close>

lemma find_const: "find (\<lambda>i. b) xs = (if b \<and> xs \<noteq> [] then Some (hd xs) else None)"
  by (induction xs) auto

lemma read_port_index_eq:
  "read_port_index ports name = (if 2 \<le> length ports \<and> cp_Name (ports ! 0) = name then 1 else 0)"
  by (auto simp: read_port_index_def find_const split: option.splits if_splits)

lemma container_index_lt: "cs \<noteq> [] \<Longrightarrow> container_index cs name < length cs"
  by (auto simp: container_index_def find_Some_iff split: option.splits)

lemma container_index_names:
  "map ct_Name cs = map ct_Name ds \<Longrightarrow> container_index cs name = container_index ds name"
proof -
  assume *: "map ct_Name cs = map ct_Name ds"
  then have len: "length cs = length ds" by (rule map_eq_imp_length_eq)
  have "find (\<lambda>i. ct_Name (cs ! i) = name) [1..<length cs] = find (\<lambda>i. ct_Name (ds ! i) = name) [1..<length cs]"
    using * len by (intro find_cong) (auto simp: list_eq_iff_nth_eq)
  with len show ?thesis by (simp add: container_index_def)
qed

lemma ct_Name_set_port [simp]: "ct_Name (set_port c n p) = ct_Name c"
  by (simp add: set_port_def split: option.splits)

lemma find_port_snoc: "\<forall>p \<in> set ps. cp_Name p \<noteq> name \<Longrightarrow> find_port (ps @ [q]) name = find_port [q] name"
  by (induction ps) auto

lemma set_port_find: "find_port (ct_Ports (set_port c name port)) name = Some port"
proof (cases "find (\<lambda>i. cp_Name (ct_Ports c ! i) = name) [0..<length (ct_Ports c)]")
  case None
  then have "\<forall>p \<in> set (ct_Ports c). cp_Name p \<noteq> name"
    by (auto simp: find_None_iff in_set_conv_nth)
  then have "find_port (ct_Ports c @ [\<lparr>cp_Name = name, cp_HostPort = port, cp_ContainerPort = port\<rparr>]) name = Some port"
    by (simp add: find_port_snoc)
  with None show ?thesis by (simp add: set_port_def)
next
  case (Some i)
  then have i: "i < length (ct_Ports c)" "cp_Name (ct_Ports c ! i) = name"
    and before: "\<forall>j < i. cp_Name (ct_Ports c ! j) \<noteq> name"
    by (auto simp: find_Some_iff)
  have "find_port (ps[i := (ps ! i)\<lparr>cp_ContainerPort := port, cp_HostPort := port\<rparr>]) name = Some port"
    if "i < length ps" "cp_Name (ps ! i) = name" "\<forall>j < i. cp_Name (ps ! j) \<noteq> name" for i ps
    using that
  proof (induction ps arbitrary: i)
    case (Cons p ps)
    show ?case
    proof (cases i)
      case 0
      with Cons.prems show ?thesis by simp
    next
      case (Suc k)
      then have "cp_Name p \<noteq> name" "\<forall>j < k. cp_Name (ps ! j) \<noteq> name" using Cons.prems(3) by force+
      with Suc Cons show ?thesis by simp
    qed
  qed simp
  from this [OF i before] Some show ?thesis by (simp add: set_port_def)
qed

text \<open>The port that is read back, by the ports of the container in the template.\<close>

definition port_read_back :: "container_port list \<Rightarrow> string \<Rightarrow> int \<Rightarrow> int" where
  "port_read_back ports name port =
     (case ports of
        [] \<Rightarrow> port
      | p # ps \<Rightarrow>
          if cp_Name p \<noteq> name then cp_ContainerPort p
          else (case ps of [] \<Rightarrow> port | q # qs \<Rightarrow> cp_ContainerPort q))"

lemma read_after_set:
  assumes "ct_Ports (set_port c name port) = ps'"
  shows "read_port_index ps' name < length ps'"
    "cp_ContainerPort (ps' ! read_port_index ps' name) = port_read_back (ct_Ports c) name port"
proof -
  have "read_port_index ps' name < length ps' \<and>
    cp_ContainerPort (ps' ! read_port_index ps' name) = port_read_back (ct_Ports c) name port"
  proof (cases "ct_Ports c")
    case Nil
    with assms show ?thesis by (auto simp: set_port_def port_read_back_def read_port_index_eq)
  next
    case (Cons p ps)
    have up: "[0..<length (p # ps)] = 0 # [1..<length (p # ps)]" by (simp add: upt_conv_Cons del: upt_Suc)
    show ?thesis
    proof (cases "cp_Name p = name")
      case True
      with Cons up have "set_port c name port = c\<lparr>ct_Ports := p\<lparr>cp_ContainerPort := port, cp_HostPort := port\<rparr> # ps\<rparr>"
        by (simp add: set_port_def del: upt_Suc)
      with assms Cons True show ?thesis
        by (auto simp: port_read_back_def read_port_index_eq split: list.split)
    next
      case False
      have "ps' \<noteq> [] \<and> ps' ! 0 = p"
      proof (cases "find (\<lambda>i. cp_Name (ct_Ports c ! i) = name) [0..<length (ct_Ports c)]")
        case None
        then have "ps' = ct_Ports c @ [\<lparr>cp_Name = name, cp_HostPort = port, cp_ContainerPort = port\<rparr>]"
          using assms by (simp add: set_port_def)
        with Cons show ?thesis by simp
      next
        case (Some i)
        then have i: "cp_Name (ct_Ports c ! i) = name" by (auto simp: find_Some_iff)
        have "ps' = (ct_Ports c)[i := (ct_Ports c ! i)\<lparr>cp_ContainerPort := port, cp_HostPort := port\<rparr>]"
          using assms Some by (simp add: set_port_def)
        moreover have "i \<noteq> 0" using i Cons False by (cases i) auto
        ultimately show ?thesis using Cons by (cases i) auto
      qed
      with Cons False show ?thesis by (auto simp: port_read_back_def read_port_index_eq)
    qed
  qed
  then show "read_port_index ps' name < length ps'"
    "cp_ContainerPort (ps' ! read_port_index ps' name) = port_read_back (ct_Ports c) name port" by simp_all
qed

lemma setup_container:
  assumes "ps_Containers spec = cs" "cs \<noteq> []"
  shows "container_index (ps_Containers (setupContainerHostNetworkPort spec container name port)) container = container_index cs container"
    "ps_Containers (setupContainerHostNetworkPort spec container name port) ! container_index cs container =
       set_port (cs ! container_index cs container) name port"
    "ps_Containers (setupContainerHostNetworkPort spec container name port) \<noteq> []"
proof -
  let ?ci = "container_index cs container"
  let ?cs = "cs[?ci := set_port (cs ! ?ci) name port]"
  have lt: "?ci < length cs" using assms(2) by (rule container_index_lt)
  have "map ct_Name ?cs = map ct_Name cs"
    using lt by (metis ct_Name_set_port list_update_id map_update)
  then have "container_index ?cs container = ?ci" by (rule container_index_names)
  then show "container_index (ps_Containers (setupContainerHostNetworkPort spec container name port)) container = ?ci"
    "ps_Containers (setupContainerHostNetworkPort spec container name port) ! ?ci = set_port (cs ! ?ci) name port"
    "ps_Containers (setupContainerHostNetworkPort spec container name port) \<noteq> []"
    using assms lt by (simp_all add: setupContainerHostNetworkPort_def Let_def)
qed

text \<open>
  C15. Writing and reading the host port. The port set up for a new pod is the one of the default port
  name in its default container. What is read back from the pod is that port if the container declared
  no port or only the default one; if its first port has another name, that port is read, and if the
  default port is the first of several, the second one is.
\<close>

theorem host_port_roundtrip:
  assumes "ps_Containers spec \<noteq> []"
    and "ct_Ports (ps_Containers spec ! container_index (ps_Containers spec) container) = ps"
    and "setupContainerHostNetworkPort spec container name port = spec'"
  shows "find_port (ct_Ports (ps_Containers spec' ! container_index (ps_Containers spec') container)) name = Some port \<and>
    getContainerHostNetworkPort spec' container name =
      Inr (case ps of
             [] \<Rightarrow> port
           | [p] \<Rightarrow> if cp_Name p = name then port else cp_ContainerPort p
           | p # q # qs \<Rightarrow> if cp_Name p = name then cp_ContainerPort q else cp_ContainerPort p)"
proof -
  note c = setup_container [OF refl assms(1), of container name port, unfolded assms(3)]
  let ?c = "ps_Containers spec ! container_index (ps_Containers spec) container"
  have "getContainerHostNetworkPort spec' container name = Inr (port_read_back ps name port)"
    using read_after_set [OF refl, of ?c name port] c assms(2) by (simp add: getContainerHostNetworkPort_def Let_def)
  moreover have "port_read_back ps name port =
      (case ps of
         [] \<Rightarrow> port
       | [p] \<Rightarrow> if cp_Name p = name then port else cp_ContainerPort p
       | p # q # qs \<Rightarrow> if cp_Name p = name then cp_ContainerPort q else cp_ContainerPort p)"
    by (simp add: port_read_back_def split: list.split)
  ultimately show ?thesis using c set_port_find [of ?c name port] by simp
qed

definition one_container :: "container_port list \<Rightarrow> pod_spec" where
  "one_container ports =
     \<lparr>ps_NodeName = [],
      ps_Containers = [\<lparr>ct_Name = ''tensorflow'', ct_Ports = ports, ct_Env = [], ct_VolumeMounts = [], ct_Requests = [], ct_Limits = [],
         ct_Image = [], ct_Command = [], ct_Args = [], ct_WorkingDir = [], ct_ImagePullPolicy = [], ct_TerminationMessagePolicy = []\<rparr>],
      ps_HostNetwork = True, ps_DNSPolicy = [], ps_RestartPolicy = [], ps_SchedulerName = [],
      ps_PriorityClassName = [], ps_Volumes = [],
        ps_InitContainers = [], ps_Overhead = None\<rparr>"

theorem host_port_roundtrip_witness:
  "getContainerHostNetworkPort (setupContainerHostNetworkPort (one_container [\<lparr>cp_Name = ''tfjob-port'',
     cp_HostPort = 0, cp_ContainerPort = 2222\<rparr>]) ''tensorflow'' ''tfjob-port'' 20001) ''tensorflow'' ''tfjob-port'' =
   Inr 20001"
  using host_port_roundtrip [of "one_container [\<lparr>cp_Name = ''tfjob-port'', cp_HostPort = 0, cp_ContainerPort = 2222\<rparr>]"
      "''tensorflow''" _ "''tfjob-port''" 20001, OF _ refl refl]
  by (simp add: one_container_def container_index_def)

text \<open>
  With more ports the read is wrong: when the default port is the first of at least two ports,
  what is read back is the second port of the container, whatever host port was set up.
\<close>

theorem host_port_misread:
  assumes "ps_Containers spec = [c]" "ct_Ports c = p # q # ps" "cp_Name p = name"
  shows "getContainerHostNetworkPort (setupContainerHostNetworkPort spec container name port) container name =
    Inr (cp_ContainerPort q)"
proof -
  have "set_port c name port = c\<lparr>ct_Ports := p\<lparr>cp_ContainerPort := port, cp_HostPort := port\<rparr> # q # ps\<rparr>"
  proof -
    have "[0..<length (p # q # ps)] = 0 # [1..<length (p # q # ps)]" by (simp add: upt_conv_Cons del: upt_Suc)
    then show ?thesis using assms(2,3) by (simp add: set_port_def del: upt_Suc)
  qed
  with assms show ?thesis
    by (simp add: getContainerHostNetworkPort_def setupContainerHostNetworkPort_def container_index_def
        read_port_index_eq Let_def)
qed

theorem host_port_misread_witness:
  "getContainerHostNetworkPort (setupContainerHostNetworkPort (one_container
     [\<lparr>cp_Name = ''tfjob-port'', cp_HostPort = 0, cp_ContainerPort = 2222\<rparr>,
      \<lparr>cp_Name = ''metrics'', cp_HostPort = 0, cp_ContainerPort = 9090\<rparr>])
     ''tensorflow'' ''tfjob-port'' 20001) ''tensorflow'' ''tfjob-port'' = Inr 9090"
  using host_port_misread [of "one_container
     [\<lparr>cp_Name = ''tfjob-port'', cp_HostPort = 0, cp_ContainerPort = 2222\<rparr>,
      \<lparr>cp_Name = ''metrics'', cp_HostPort = 0, cp_ContainerPort = 9090\<rparr>]" _ _ _ "[]" "''tfjob-port''" "''tensorflow''" 20001]
  by (simp add: one_container_def)

end
