(* ===== verification/Semaphore.thy ===== *)
theory Semaphore
  imports Prelude "HOL-Library.Multiset"
begin

text \<open>
  The bounded fan-out of \<open>pkg/util/concurrent\<close>, as \<open>RecreatePods\<close> and
  \<open>RestartPods\<close> use it: the main goroutine takes a ticket and starts a goroutine per item,
  then waits for all of them. The step relation interleaves the main goroutine with the workers
  and splits \<open>Acquire\<close> and \<open>Release\<close> into their channel and wait-group parts.
\<close>

text \<open>
  Where the main goroutine is: at the loop head with the items still to start, between the
  channel send and \<open>wg.Add\<close> of \<open>Acquire\<close>, about to start the goroutine, waiting,
  or past \<open>Wait\<close>.
\<close>

datatype 'a main_pc = LoopHead "'a list" | Sent 'a "'a list" | Added 'a "'a list" | Waiting | Finished

text \<open>A worker is working on its item, or has given the ticket back but not called \<open>wg.Done\<close>.\<close>

datatype 'a worker = Working 'a | Released 'a

record 'a pool =
  main :: "'a main_pc"
  workers :: "'a worker multiset"
  buffer :: nat
  wg :: nat
  finished :: "'a multiset"

definition NewSemaphore :: "'a list \<Rightarrow> 'a pool" where
  "NewSemaphore items = \<lparr>main = LoopHead items, workers = {#}, buffer = 0, wg = 0, finished = {#}\<rparr>"

text \<open>\<open>limit\<close> is the capacity of the channel.\<close>

inductive sem_step :: "nat \<Rightarrow> 'a pool \<Rightarrow> 'a pool \<Rightarrow> bool" for limit where
  send: "main s = LoopHead (x # xs) \<Longrightarrow> buffer s < limit \<Longrightarrow>
    sem_step limit s (s\<lparr>main := Sent x xs, buffer := buffer s + 1\<rparr>)"
| add: "main s = Sent x xs \<Longrightarrow> sem_step limit s (s\<lparr>main := Added x xs, wg := wg s + 1\<rparr>)"
| go: "main s = Added x xs \<Longrightarrow>
    sem_step limit s (s\<lparr>main := LoopHead xs, workers := add_mset (Working x) (workers s)\<rparr>)"
| receive: "Working x \<in># workers s \<Longrightarrow> 0 < buffer s \<Longrightarrow>
    sem_step limit s (s\<lparr>workers := add_mset (Released x) (workers s - {#Working x#}), buffer := buffer s - 1\<rparr>)"
| wg_done: "Released x \<in># workers s \<Longrightarrow>
    sem_step limit s (s\<lparr>workers := workers s - {#Released x#}, wg := wg s - 1, finished := add_mset x (finished s)\<rparr>)"
| wait: "main s = LoopHead [] \<Longrightarrow> sem_step limit s (s\<lparr>main := Waiting\<rparr>)"
| close: "main s = Waiting \<Longrightarrow> wg s = 0 \<Longrightarrow> sem_step limit s (s\<lparr>main := Finished\<rparr>)"

inductive_cases sem_stepE: "sem_step limit s t"

inductive sem_reachable :: "nat \<Rightarrow> 'a list \<Rightarrow> 'a pool \<Rightarrow> bool" for limit items where
  init: "sem_reachable limit items (NewSemaphore items)"
| step: "sem_reachable limit items s \<Longrightarrow> sem_step limit s t \<Longrightarrow> sem_reachable limit items t"

subsection \<open>Invariant\<close>

fun pending :: "'a main_pc \<Rightarrow> 'a multiset" where
  "pending (LoopHead xs) = mset xs"
| "pending (Sent x xs) = add_mset x (mset xs)"
| "pending (Added x xs) = add_mset x (mset xs)"
| "pending Waiting = {#}"
| "pending Finished = {#}"

fun item :: "'a worker \<Rightarrow> 'a" where
  "item (Working x) = x"
| "item (Released x) = x"

fun is_working :: "'a worker \<Rightarrow> bool" where
  "is_working (Working x) = True"
| "is_working (Released x) = False"

definition working :: "'a pool \<Rightarrow> nat" where
  "working s = size (filter_mset is_working (workers s))"

fun holds_ticket :: "'a main_pc \<Rightarrow> nat" where
  "holds_ticket (Sent x xs) = 1"
| "holds_ticket (Added x xs) = 1"
| "holds_ticket _ = 0"

fun counted :: "'a main_pc \<Rightarrow> nat" where
  "counted (Added x xs) = 1"
| "counted _ = 0"

definition sem_inv :: "nat \<Rightarrow> 'a list \<Rightarrow> 'a pool \<Rightarrow> bool" where
  "sem_inv limit items s \<longleftrightarrow>
     buffer s = working s + holds_ticket (main s) \<and> buffer s \<le> limit \<and>
     wg s = size (workers s) + counted (main s) \<and>
     mset items = pending (main s) + image_mset item (workers s) + finished s \<and>
     (main s = Finished \<longrightarrow> workers s = {#})"

lemma sem_inv_init: "sem_inv limit items (NewSemaphore items)"
  by (simp add: sem_inv_def NewSemaphore_def working_def)

lemma size_remove: "x \<in># M \<Longrightarrow> size M = Suc (size (M - {#x#}))"
  by (metis insert_DiffM size_add_mset)

lemma sem_inv_step: "sem_step limit s t \<Longrightarrow> sem_inv limit items s \<Longrightarrow> sem_inv limit items t"
proof (induction rule: sem_step.cases)
  case (receive x s)
  from receive(3) obtain M where "workers s = add_mset (Working x) M" by (metis insert_DiffM)
  with receive show ?case by (auto simp: sem_inv_def working_def)
next
  case (wg_done x s)
  from wg_done(3) obtain M where "workers s = add_mset (Released x) M" by (metis insert_DiffM)
  with wg_done show ?case by (auto simp: sem_inv_def working_def)
qed (auto simp: sem_inv_def working_def)

lemma sem_inv_reachable: "sem_reachable limit items s \<Longrightarrow> sem_inv limit items s"
  by (induction rule: sem_reachable.induct) (auto intro: sem_inv_init sem_inv_step)

subsection \<open>Progress\<close>

text \<open>A measure that every step decreases: the fan-out ends.\<close>

fun main_weight :: "'a main_pc \<Rightarrow> nat" where
  "main_weight (LoopHead xs) = 2 + 5 * length xs"
| "main_weight (Sent x xs) = 2 + 5 * length xs + 4"
| "main_weight (Added x xs) = 2 + 5 * length xs + 3"
| "main_weight Waiting = 1"
| "main_weight Finished = 0"

fun worker_weight :: "'a worker \<Rightarrow> nat" where
  "worker_weight (Working x) = 2"
| "worker_weight (Released x) = 1"

definition pool_weight :: "'a pool \<Rightarrow> nat" where
  "pool_weight s = main_weight (main s) + sum_mset (image_mset worker_weight (workers s))"

lemma sem_step_weight: "sem_step limit s t \<Longrightarrow> pool_weight t < pool_weight s"
proof (induction rule: sem_step.cases)
  case (receive x s)
  from receive(3) obtain M where "workers s = add_mset (Working x) M" by (metis insert_DiffM)
  with receive show ?case by (auto simp: pool_weight_def)
next
  case (wg_done x s)
  from wg_done(3) obtain M where "workers s = add_mset (Released x) M" by (metis insert_DiffM)
  with wg_done show ?case by (auto simp: pool_weight_def)
qed (auto simp: pool_weight_def)

lemma sem_progress:
  assumes inv: "sem_inv limit items s" and lim: "items = [] \<or> 0 < limit" and "main s \<noteq> Finished"
  shows "\<exists>t. sem_step limit s t"
proof (cases "workers s = {#}")
  case False
  then obtain w where w: "w \<in># workers s" by blast
  show ?thesis
  proof (cases w)
    case (Working x)
    with w obtain M where "workers s = add_mset (Working x) M" by (metis insert_DiffM)
    with inv have "0 < buffer s" by (simp add: sem_inv_def working_def)
    with w Working show ?thesis by (blast intro: sem_step.receive)
  next
    case (Released x)
    with w show ?thesis by (blast intro: sem_step.wg_done)
  qed
next
  case True
  show ?thesis
  proof (cases "main s")
    case (LoopHead xs)
    show ?thesis
    proof (cases xs)
      case Nil
      with LoopHead show ?thesis by (blast intro: sem_step.wait)
    next
      case (Cons x ys)
      with inv LoopHead have "items \<noteq> []" by (auto simp: sem_inv_def)
      with lim have "buffer s < limit" using inv True LoopHead by (simp add: sem_inv_def working_def)
      with LoopHead Cons show ?thesis by (blast intro: sem_step.send)
    qed
  next
    case Waiting
    with inv True have "wg s = 0" by (simp add: sem_inv_def)
    with Waiting show ?thesis by (blast intro: sem_step.close)
  qed (use assms in \<open>auto intro: sem_step.intros\<close>)
qed

text \<open>
  The number of tickets both callers choose: 50, or the number of pods if it is smaller.
\<close>

definition tickets_for :: "'a list \<Rightarrow> nat" where
  "tickets_for items = (if length items < 50 then length items else 50)"

lemma tickets_positive: "items = [] \<or> 0 < tickets_for items"
  by (auto simp: tickets_for_def)

text \<open>
  C11. The fan-out over the pods of a fail-over is bounded, complete and free of deadlock: in every
  interleaving at most 50 pods are worked on at a time, a state in which nothing can move is one
  where \<open>Wait\<close> has returned, every step brings the end nearer, and when \<open>Wait\<close> has
  returned each pod has been handled exactly once.
\<close>

theorem fan_out_correct:
  assumes "sem_reachable (tickets_for items) items s"
  shows "working s \<le> 50 \<and>
    ((\<nexists>t. sem_step (tickets_for items) s t) \<longrightarrow> main s = Finished) \<and>
    (\<forall>t. sem_step (tickets_for items) s t \<longrightarrow> pool_weight t < pool_weight s) \<and>
    (main s = Finished \<longrightarrow> finished s = mset items \<and> workers s = {#})"
proof -
  note inv = sem_inv_reachable [OF assms]
  have "tickets_for items \<le> 50" by (simp add: tickets_for_def)
  with inv have "working s \<le> 50" by (simp add: sem_inv_def)
  moreover have "(\<nexists>t. sem_step (tickets_for items) s t) \<longrightarrow> main s = Finished"
    using sem_progress [OF inv tickets_positive] by blast
  moreover have "main s = Finished \<longrightarrow> finished s = mset items \<and> workers s = {#}"
    using inv by (auto simp: sem_inv_def)
  ultimately show ?thesis using sem_step_weight by blast
qed

lemma sem_first: "sem_reachable 2 [1, 2 :: nat]
    \<lparr>main = Sent 1 [2], workers = {#}, buffer = 1, wg = 0, finished = {#}\<rparr>"
proof -
  have "sem_step 2 (NewSemaphore [1, 2 :: nat])
      ((NewSemaphore [1, 2])\<lparr>main := Sent 1 [2], buffer := buffer (NewSemaphore [1, 2 :: nat]) + 1\<rparr>)"
    by (rule sem_step.send) (simp_all add: NewSemaphore_def)
  from sem_reachable.step [OF sem_reachable.init this] show ?thesis by (simp add: NewSemaphore_def)
qed

theorem fan_out_correct_witness:
  "working \<lparr>main = Sent 1 [2 :: nat], workers = {#}, buffer = 1, wg = 0, finished = {#}\<rparr> \<le> 50 \<and>
   (\<exists>t. sem_step 2 \<lparr>main = Sent 1 [2 :: nat], workers = {#}, buffer = 1, wg = 0, finished = {#}\<rparr> t)"
proof -
  have "tickets_for [1, 2 :: nat] = 2" by (simp add: tickets_for_def)
  then show ?thesis using fan_out_correct [of "[1, 2 :: nat]"] sem_first by fastforce
qed

end
