(* ===== verification/Failover.thy ===== *)
theory Failover
  imports Controller_Env Semaphore
begin

text \<open>
  Fail-over of failed pods (\<open>pkg/job_controller/failover.go\<close>): which pods are failed over,
  recreating them, restarting their containers in place, and the restart list of the AIMaster.
\<close>

definition KubeDLPrefix :: string where "KubeDLPrefix = ''kubedl.io''"
definition AnnotationAIMasterEnableErrorMonitoring :: string where
  "AnnotationAIMasterEnableErrorMonitoring = ''pai.ai/enable-error-monitoring''"
definition AnnotationLastFailoverTimestamp :: string where
  "AnnotationLastFailoverTimestamp = KubeDLPrefix @ ''/last-failover-timestamp''"
definition AnnotationImmediatelyStartWorker :: string where
  "AnnotationImmediatelyStartWorker = KubeDLPrefix @ ''/immediately-start-worker''"
definition AnnotationImmediatelyRestartPod :: string where
  "AnnotationImmediatelyRestartPod = KubeDLPrefix @ ''/immediately-restart-pod''"

datatype FailOverAction = FailOverInPlaceRestart | FailOverRecreate | FailOverOther string

definition ShouldPodFailOver :: "ReplicaSpec \<Rightarrow> pod \<Rightarrow> int \<Rightarrow> bool" where
  "ShouldPodFailOver rspec p exitCode =
     (if RestartPolicy rspec \<noteq> RestartPolicyExitCode then False
      else IsRetryableExitCode exitCode \<or> IsRetryablePodFailedReason (pod_Reason p))"

subsection \<open>Recreating pods\<close>

text \<open>
  The goroutines delete one pod each; an error is only logged. They run in the order the
  scheduler picks (the theory \<open>Semaphore\<close> treats their interleaving), each deletion as one
  block of calls.
\<close>

fun delete_each :: "outside \<Rightarrow> pod list \<Rightarrow> hist \<Rightarrow> hist" where
  "delete_each W [] h = h"
| "delete_each W (p # ps) h = delete_each W ps (snd (DeletePod W (pod_Namespace p) (pod_Name p) h))"

definition RecreatePods :: "outside \<Rightarrow> pod list \<Rightarrow> hist \<Rightarrow> go_error option \<times> hist" where
  "RecreatePods W pods h = (None, delete_each W (out_go_order W h pods) h)"

subsection \<open>Restarting in place\<close>

definition inplaceRecreatePodContainers ::
    "outside \<Rightarrow> job_meta \<Rightarrow> pod \<Rightarrow> string \<Rightarrow> hist \<Rightarrow> go_error option \<times> hist" where
  "inplaceRecreatePodContainers W job p expectedGeneration h =
     api_write W (CreateCRRCall
       \<lparr>crr_Name = pod_Name p, crr_Namespace = pod_Namespace p,
        crr_Labels = [JobNameLabel \<mapsto> jm_Name job, LabelGeneration \<mapsto> expectedGeneration],
        crr_OwnerReferences =
          [\<lparr>or_APIVersion = ''v1'', or_Kind = ''Pod'', or_Name = pod_Name p, or_UID = pod_UID p,
            or_Controller = Some False, or_BlockOwnerDeletion = Some True\<rparr>,
           \<lparr>or_APIVersion = jm_APIVersion job, or_Kind = jm_Kind job, or_Name = jm_Name job, or_UID = jm_UID job,
            or_Controller = Some True, or_BlockOwnerDeletion = Some True\<rparr>],
        crr_Containers = map ct_Name (ps_Containers (pod_Spec p)), crr_Phase = CRROther\<rparr>) h"

text \<open>The result is \<open>completed\<close>, or the error.\<close>

definition RestartPod :: "outside \<Rightarrow> job_meta \<Rightarrow> pod \<Rightarrow> hist \<Rightarrow> bool res" where
  "RestartPod W job p h =
     (let expectedGeneration = Itoa (jm_Generation job);
          h1 = emit (GetCRR (pod_Namespace p) (pod_Name p)) h
      in case out_get_crr W h (pod_Namespace p) (pod_Name p) of
           Inl e \<Rightarrow>
             (if IsNotFound e
              then guarded (inplaceRecreatePodContainers W job p expectedGeneration h1) (\<lambda>h2. (Inr False, h2))
              else (Inl e, h1))
         | Inr c \<Rightarrow>
             (if sget (crr_Labels c) LabelGeneration \<noteq> expectedGeneration
              then guarded (api_write W (DeleteCRRCall c) h1)
                     (\<lambda>h2. guarded (inplaceRecreatePodContainers W job p expectedGeneration h2)
                       (\<lambda>h3. (Inr False, h3)))
              else if crr_Phase c = CRRFailed
              then guarded (api_write W (DeletePodCall p) (emit (Event ''Warning'' ''FailedRestartContainer'') h1))
                     (\<lambda>h2. (Inr True, h2))
              else if \<not> (crr_Phase c = CRRCompleted \<or> crr_Phase c = CRRSucceeded) then (Inr False, h1)
              else (Inr True,
                    snd (api_write W (DeleteCRRCall c) (emit (Event ''Normal'' ''ContainerRecreateSucceed'') h1)))))"

fun restart_each :: "outside \<Rightarrow> job_meta \<Rightarrow> pod list \<Rightarrow> hist \<Rightarrow> hist" where
  "restart_each W job [] h = h"
| "restart_each W job (p # ps) h = restart_each W job ps (snd (RestartPod W job p h))"

definition RestartPods :: "outside \<Rightarrow> job_meta \<Rightarrow> pod list \<Rightarrow> hist \<Rightarrow> go_error option \<times> hist" where
  "RestartPods W job pods h = (None, restart_each W job (out_go_order W h (filter IsPodActive pods)) h)"

subsection \<open>Fail-over\<close>

definition DoFailOverByAction ::
    "outside \<Rightarrow> job_meta \<Rightarrow> pod list \<Rightarrow> FailOverAction \<Rightarrow> hist \<Rightarrow> go_error option \<times> hist" where
  "DoFailOverByAction W job pods action h =
     (case action of
        FailOverRecreate \<Rightarrow> RecreatePods W pods h
      | FailOverInPlaceRestart \<Rightarrow> RestartPods W job pods h
      | FailOverOther s \<Rightarrow> (None, h))"

definition DoFailOver :: "outside \<Rightarrow> job_meta \<Rightarrow> pod list \<Rightarrow> hist \<Rightarrow> job_meta res" where
  "DoFailOver W job podsToFailover h =
     guarded (DoFailOverByAction W job podsToFailover FailOverRecreate h)
       (\<lambda>h1. (let h2 = emit (Event ''Normal'' ''FailOverSucceeded'') h1 in
              patch_job W job [(AnnotationLastFailoverTimestamp, out_format_time W (out_now W h2))] h2))"

definition EnableErrorMonitoring :: "job_meta \<Rightarrow> bool" where
  "EnableErrorMonitoring job \<longleftrightarrow> sget (jm_Annotations job) AnnotationAIMasterEnableErrorMonitoring = ''true''"

definition getToBeRestartedPods :: "outside \<Rightarrow> job_meta \<Rightarrow> string list" where
  "getToBeRestartedPods W job =
     (let raw = sget (jm_Annotations job) AnnotationImmediatelyRestartPod in
      if raw = [] then []
      else case out_restart_list W raw of
             None \<Rightarrow> []
           | Some pods \<Rightarrow>
               concat (map (\<lambda>(rtype, indexes). map (\<lambda>i. GenGeneralName (jm_Name job) rtype (Itoa i)) indexes) pods))"

definition filterPodsStartedBeforeFailOverTime :: "pod list \<Rightarrow> time \<Rightarrow> pod list" where
  "filterPodsStartedBeforeFailOverTime pods foTime = filter (\<lambda>p. IsPodStartedBefore p foTime) pods"

subsection \<open>The AIMaster\<close>

fun delete_names :: "outside \<Rightarrow> string \<Rightarrow> string list \<Rightarrow> hist \<Rightarrow> go_error option \<times> hist" where
  "delete_names W ns [] h = (None, h)"
| "delete_names W ns (n # names) h =
     (case DeletePod W ns n h of
        (Some e, h1) \<Rightarrow> (Some e, h1)
      | (None, h1) \<Rightarrow> delete_names W ns names h1)"

text \<open>
  The job is the object in memory, which the client replaces by the answer to a patch. The
  result carries the job beside the error, since the caller goes on after an error.
\<close>

definition patch_memory ::
    "outside \<Rightarrow> job_meta \<Rightarrow> (string \<times> string) list \<Rightarrow> hist \<Rightarrow> (go_error option \<times> job_meta) \<times> hist" where
  "patch_memory W job annotations h =
     (case patch_job W job annotations h of
        (Inl e, h1) \<Rightarrow> ((Some e, job), h1)
      | (Inr job1, h1) \<Rightarrow> ((None, job1), h1))"

definition start_all_workers :: "outside \<Rightarrow> job_meta \<Rightarrow> hist \<Rightarrow> (go_error option \<times> job_meta) \<times> hist" where
  "start_all_workers W job h =
     (if sget (jm_Annotations job) AnnotationImmediatelyStartWorker = ''true''
      then patch_memory W job
             [(AnnotationLastFailoverTimestamp, out_format_time W (out_now W h)),
              (AnnotationImmediatelyStartWorker, ''false'')]
             (emit (Event ''Normal'' ''RestartAllPods'') h)
      else ((None, job), h))"

definition failover_by_timestamp :: "outside \<Rightarrow> job_meta \<Rightarrow> pod list \<Rightarrow> hist \<Rightarrow> go_error option \<times> hist" where
  "failover_by_timestamp W job pods h =
     (let tsRaw = sget (jm_Annotations job) AnnotationLastFailoverTimestamp in
      if tsRaw = [] then (None, h)
      else case out_parse_time W tsRaw of
             Inl e \<Rightarrow> (Some e, h)
           | Inr t \<Rightarrow>
               DoFailOverByAction W job (filterPodsStartedBeforeFailOverTime pods t) FailOverRecreate h)"

definition restart_listed ::
    "outside \<Rightarrow> job_meta \<Rightarrow> string list \<Rightarrow> hist \<Rightarrow> (go_error option \<times> job_meta) \<times> hist" where
  "restart_listed W job restartList h =
     (case delete_names W (jm_Namespace job) restartList h of
        (Some e, h1) \<Rightarrow> ((Some e, job), h1)
      | (None, h1) \<Rightarrow>
          (case patch_memory W job [(AnnotationImmediatelyRestartPod, [])] h1 of
             ((Some e, job1), h2) \<Rightarrow> ((Some e, job1), h2)
           | ((None, job1), h2) \<Rightarrow> ((None, job1), emit (Event ''Normal'' ''SucceedRestartPods'') h2)))"

definition reactForAIMasterErrorAnalyzeResult ::
    "outside \<Rightarrow> job_meta \<Rightarrow> ReplicaType \<Rightarrow> pod list \<Rightarrow> hist \<Rightarrow> (go_error option \<times> job_meta) \<times> hist" where
  "reactForAIMasterErrorAnalyzeResult W job rtype pods h =
     (if rtype = JobReplicaTypeAIMaster then ((None, job), h)
      else
        (let restartList = getToBeRestartedPods W job in
         if restartList \<noteq> [] then restart_listed W job restartList h
         else case start_all_workers W job h of
                ((Some e, job1), h1) \<Rightarrow> ((Some e, job1), h1)
              | ((None, job1), h1) \<Rightarrow>
                  (case failover_by_timestamp W job1 pods h1 of (err, h2) \<Rightarrow> ((err, job1), h2))))"

subsection \<open>Lemmas\<close>

lemma delete_names_extends [hist_simps]: "extends h (snd (delete_names W ns names h))"
proof (induction names arbitrary: h)
  case (Cons n names)
  obtain e h1 where D: "DeletePod W ns n h = (e, h1)" by force
  with DeletePod_extends [of h W ns n] have "extends h h1" by simp
  with D Cons [of h1] show ?case by (auto split: option.splits intro: extends_trans)
qed simp

lemma delete_each_extends [hist_simps]: "extends h (delete_each W ps h)"
proof (induction ps arbitrary: h)
  case (Cons p ps)
  then show ?case using DeletePod_extends extends_trans by (metis delete_each.simps(2))
qed simp

lemma DeletePod_reads: "GetPod ns n \<in> set (snd (DeletePod W ns n h))"
  by (auto simp: DeletePod_def emit_def api_write_def remove_finalizer_def Let_def split: sum.splits option.splits)

lemma extends_set: "extends h h' \<Longrightarrow> set h \<subseteq> set h'"
  by (auto simp: extends_def)

lemma delete_each_reads: "p \<in> set ps \<Longrightarrow> GetPod (pod_Namespace p) (pod_Name p) \<in> set (delete_each W ps h)"
proof (induction ps arbitrary: h)
  case (Cons q ps)
  show ?case
  proof (cases "p = q")
    case True
    have "extends (snd (DeletePod W (pod_Namespace q) (pod_Name q) h)) (delete_each W (q # ps) h)"
      by (simp add: delete_each_extends)
    with True DeletePod_reads show ?thesis using extends_set by blast
  next
    case False
    with Cons show ?thesis by simp
  qed
qed simp

text \<open>What one deletion may do to the cluster: touch the pod that was read under this name.\<close>

lemma DeletePod_writes:
  assumes "c \<in> set (snd (DeletePod W ns n h)) - set h"
  shows "c = GetPod ns n \<or> (\<exists>t r. c = Event t r) \<or>
    (\<exists>q. pod_version W ns n q \<and>
      (c = RemoveFinalizerCall q FinalizerPreemptProtector \<or> (c = DeletePodCall q \<and> pod_DeletionTimestamp q = None)))"
  using assms unfolding pod_version_def
  by (fastforce simp: DeletePod_def emit_def api_write_def remove_finalizer_def Let_def
      split: sum.splits option.splits if_splits)

text \<open>A pod that is not terminating and has no finalizer is deleted by one delete call.\<close>

lemma DeletePod_plain:
  assumes "out_get_pod W h ns n = Inr q" "pod_DeletionTimestamp q = None"
    "FinalizerPreemptProtector \<notin> set (pod_Finalizers q)" "out_write W (h @ [GetPod ns n]) (DeletePodCall q) = None"
  shows "DeletePod W ns n h =
    (None, h @ [GetPod ns n, DeletePodCall q, Event ''Normal'' ''SuccessfulDeletePod''])"
  using assms by (simp add: DeletePod_def api_write_def emit_def)

subsection \<open>Properties\<close>

text \<open>
  Only replicas with the ExitCode policy are failed over, and of these exactly the pods that
  ended with one of the exit codes 130, 137, 138 and 143, or whose failure reason is one of
  OOMKilled, Killed, Evicted and UnexpectedAdmissionError; so exit codes 0 and 1 alone never
  lead to a fail-over.
\<close>

theorem failover_decision:
  "ShouldPodFailOver rspec p exitCode \<longleftrightarrow>
     RestartPolicy rspec = ''ExitCode'' \<and>
     (exitCode \<in> {130, 137, 138, 143} \<or>
      pod_Reason p \<in> {''OOMKilled'', ''Killed'', ''Evicted'', ''UnexpectedAdmissionError''})"
  by (simp add: ShouldPodFailOver_def IsRetryableExitCode_iff IsRetryablePodFailedReason_def RestartPolicyExitCode_def)

text \<open>
  Restarting the containers of a pod in place follows the container recreate request: none
  yet, a new one is created for the current generation; one that is still in progress, nothing is
  written; completed or succeeded, the request is removed and the restart reported complete,
  whether or not the removal works.
\<close>

theorem restart_in_place:
  assumes get: "out_get_crr W h (pod_Namespace p) (pod_Name p) = r"
    and h1: "h1 = h @ [GetCRR (pod_Namespace p) (pod_Name p)]"
  shows "(r = Inl NotFound \<longrightarrow>
      (\<exists>c. snd (RestartPod W job p h) = h1 @ [CreateCRRCall c] \<and>
           crr_Labels c LabelGeneration = Some (Itoa (jm_Generation job)) \<and>
           crr_Containers c = map ct_Name (ps_Containers (pod_Spec p)))) \<and>
    (\<forall>c. r = Inr c \<and> crr_Labels c LabelGeneration = Some (Itoa (jm_Generation job)) \<longrightarrow>
      (crr_Phase c = CRROther \<longrightarrow> RestartPod W job p h = (Inr False, h1)) \<and>
      (crr_Phase c = CRRCompleted \<or> crr_Phase c = CRRSucceeded \<longrightarrow>
        RestartPod W job p h =
          (Inr True, h1 @ [Event ''Normal'' ''ContainerRecreateSucceed'', DeleteCRRCall c])))"
proof -
  have "fst (x :: go_error option \<times> hist) = None \<or> (\<exists>e. fst x = Some e)" for x by (cases "fst x") auto
  then have snd_guarded: "snd (guarded x (\<lambda>h. (Inr b, h))) = snd x" for x and b :: bool
    by (auto simp: guarded_def split: option.splits)
  show ?thesis
    using get h1
    by (auto simp: RestartPod_def Let_def emit_def snd_guarded inplaceRecreatePodContainers_def
        api_write_def sget_def label_defs)
qed

theorem restart_in_place_witness:
  "\<exists>c. snd (RestartPod quiet_world job0 (pod0 ''worker'' ''0'' PodRunning) []) =
     [GetCRR ''default'' ''mnist-worker-0'', CreateCRRCall c] \<and>
     crr_Labels c LabelGeneration = Some (Itoa 1)"
  using restart_in_place [of quiet_world "[]" "pod0 ''worker'' ''0'' PodRunning" "Inl NotFound" _ job0, OF _ refl]
  by (auto simp: quiet_world_def pod0_def job0_def GenGeneralName_def slash_to_dash_def)

text \<open>
  Recreating pods never stops half-way: whatever errors the deletions meet, every pod that was
  to be failed over is looked up for deletion, the call reports success, and nothing but pods
  read under one of these names is deleted.
\<close>

theorem recreate_pods_complete:
  assumes "set (out_go_order W h pods) = set pods"
  shows "fst (RecreatePods W pods h) = None \<and>
    (\<forall>p \<in> set pods. GetPod (pod_Namespace p) (pod_Name p) \<in> set (snd (RecreatePods W pods h))) \<and>
    (\<forall>q. DeletePodCall q \<in> set (snd (RecreatePods W pods h)) \<longrightarrow> DeletePodCall q \<in> set h \<or>
      (\<exists>p \<in> set pods. pod_version W (pod_Namespace p) (pod_Name p) q))"
proof -
  have "DeletePodCall q \<in> set h \<or> (\<exists>p \<in> set ps. pod_version W (pod_Namespace p) (pod_Name p) q)"
    if "DeletePodCall q \<in> set (delete_each W ps h)" for q ps h
    using that
  proof (induction ps arbitrary: h)
    case (Cons p ps)
    let ?h = "snd (DeletePod W (pod_Namespace p) (pod_Name p) h)"
    from Cons.prems Cons.IH [of ?h]
    consider "DeletePodCall q \<in> set ?h"
      | "\<exists>p \<in> set ps. pod_version W (pod_Namespace p) (pod_Name p) q" by auto
    then show ?case
    proof cases
      case 1
      with DeletePod_writes [of "DeletePodCall q" W "pod_Namespace p" "pod_Name p" h] show ?thesis by fastforce
    qed auto
  qed simp
  with assms show ?thesis by (fastforce simp: RecreatePods_def intro: delete_each_reads)
qed

theorem recreate_pods_complete_witness:
  "GetPod ''default'' ''mnist-worker-0'' \<in>
     set (snd (RecreatePods quiet_world [pod0 ''worker'' ''0'' PodFailed] []))"
  using recreate_pods_complete [of quiet_world "[]" "[pod0 ''worker'' ''0'' PodFailed]"]
  by (simp add: quiet_world_def pod0_def GenGeneralName_def slash_to_dash_def)

end
