(* ===== verification/Pod_Reconcile.thy ===== *)
theory Pod_Reconcile
  imports Host_Network Failover
begin

text \<open>
  Reconciling the pods of one replica type (\<open>ReconcilePods\<close>, \<open>reconcileOnePod\<close>,
  \<open>createNewPod\<close>, \<open>CreatePod\<close> and their helpers in \<open>pod.go\<close>): every
  missing index gets a pod, every pod out of range is deleted, every other pod is counted in the
  replica status and checked for fail-over.
\<close>

subsection \<open>Creating a pod\<close>

definition setRestartPolicy :: "pod_template \<Rightarrow> ReplicaSpec \<Rightarrow> pod_template" where
  "setRestartPolicy t spec =
     t\<lparr>pt_Spec := (pt_Spec t)\<lparr>ps_RestartPolicy :=
        (if RestartPolicy spec = RestartPolicyExitCode then ''Never'' else RestartPolicy spec)\<rparr>\<rparr>"

fun insert_labels :: "(string \<times> string) list \<Rightarrow> smap \<Rightarrow> smap" where
  "insert_labels [] m = m"
| "insert_labels ((k, v) # kvs) m = insert_labels kvs (m(k \<mapsto> v))"

definition applySpotReplicaSpec :: "pod_template \<Rightarrow> SpotReplicaSpec \<Rightarrow> pod_template" where
  "applySpotReplicaSpec t spot =
     t\<lparr>pt_Spec := (pt_Spec t)\<lparr>ps_PriorityClassName := spot_PriorityClassName spot\<rparr>,
       pt_Labels := insert_labels (spot_Labels spot) (pt_Labels t)\<rparr>"

definition CreatePod ::
    "JobController \<Rightarrow> job_meta \<Rightarrow> string \<Rightarrow> string \<Rightarrow> pod_template \<Rightarrow> bool \<Rightarrow> hist \<Rightarrow> go_error option \<times> hist" where
  "CreatePod jc job rt index t masterRole h =
     (case out_key (World jc) job of
        Inl e \<Rightarrow> (Some e, h)
      | Inr jobKey \<Rightarrow>
          (case api_write (World jc) (ExpectCreations (GenExpectationPodsKey jobKey rt) 1) h of
             (Some e, h1) \<Rightarrow> (Some e, h1)
           | (None, h1) \<Rightarrow>
               (let name = GenGeneralName (jm_Name job) rt index;
                    name = (if ci_ControllerName (Controller jc) = ''ElasticDLController'' \<and> masterRole
                            then ''elasticdl-'' @ jm_Name job @ ''-master'' else name)
                in case CreatePods (World jc) (jm_Namespace job) (t\<lparr>pt_Name := name\<rparr>)
                          (Some (GenOwnerReference jc job)) h1 of
                     (Some e, h2) \<Rightarrow> (if IsTimeout e then None else Some e, h2)
                   | (None, h2) \<Rightarrow> (None, h2))))"

text \<open>The labels the controller gives to the pod of a replica.\<close>

definition replica_labels ::
    "JobController \<Rightarrow> job_meta \<Rightarrow> string \<Rightarrow> string \<Rightarrow> bool \<Rightarrow> bool \<Rightarrow> smap" where
  "replica_labels jc job rt index masterRole elastic =
     (let m = (GenLabels jc (jm_Name job))(ReplicaTypeLabel \<mapsto> rt, ReplicaIndexLabel \<mapsto> index);
          m = (if masterRole then m(JobRoleLabel \<mapsto> ''master'') else m)
      in if elastic then m(LabelGeneration \<mapsto> Itoa (jm_Generation job)) else m)"

definition bind_gang :: "JobController \<Rightarrow> job_meta \<Rightarrow> pod_template \<Rightarrow> string \<Rightarrow> hist \<Rightarrow> pod_template res" where
  "bind_gang jc job t rt h =
     (if EnableGangScheduling (Config jc)
      then andThen (gs_GetGang (GangScheduler jc) (jm_Namespace job) (jm_Name job) h)
             (\<lambda>entity h1. andThen (lift_sum (gs_BindPodToGang (GangScheduler jc) job t entity rt) h1)
               (\<lambda>t1 h2. (Inr (if ps_SchedulerName (pt_Spec t1) = []
                              then t1\<lparr>pt_Spec := (pt_Spec t1)\<lparr>ps_SchedulerName := gs_SchedulerName (GangScheduler jc)\<rparr>\<rparr>
                              else t1), h2)))
      else (Inr t, h))"

definition spot_replica :: "ReplicaSpec \<Rightarrow> string \<Rightarrow> pod_template \<Rightarrow> go_error + pod_template" where
  "spot_replica spec index t =
     (case Spot spec of
        None \<Rightarrow> Inr t
      | Some spot \<Rightarrow>
          (case Replicas spec of
             None \<Rightarrow> Inl (Panic ''nil Replicas'')
           | Some n \<Rightarrow>
               (let i = (case Atoi index of None \<Rightarrow> 0 | Some i \<Rightarrow> i) in
                Inr (if i \<ge> n - SpotReplicaNumber spot then applySpotReplicaSpec t spot else t))))"

definition host_network_step ::
    "JobController \<Rightarrow> host_ports \<Rightarrow> job_meta \<Rightarrow> pod_template \<Rightarrow> string \<Rightarrow> string \<Rightarrow> hist \<Rightarrow>
     (pod_template \<times> host_ports) res" where
  "host_network_step jc ports job t rt index h =
     (if EnableHostNetwork job then setupHostNetwork jc ports t rt index h else (Inr (t, ports), h))"

text \<open>
  The template before the framework sees it: labels merged over those of the user, the restart
  policy of the replica (with a warning event if the template sets one).
\<close>

definition label_and_policy ::
    "pod_template \<Rightarrow> smap \<Rightarrow> ReplicaSpec \<Rightarrow> hist \<Rightarrow> pod_template \<times> hist" where
  "label_and_policy t labels spec h =
     (let t1 = t\<lparr>pt_Labels := MergeMap (pt_Labels t) labels\<rparr>;
          h1 = (if ps_RestartPolicy (pt_Spec t1) \<noteq> []
                then emit (Event ''Warning'' ''SettedPodTemplateRestartPolicy'') h else h)
      in (setRestartPolicy t1 spec, h1))"

text \<open>
  The workload finds the replica specs of the job in the job object; here they are an argument of their
  own. They are the specs that \<open>ReconcilePods\<close> gets, the same map in memory.
\<close>

definition createNewPod ::
    "JobController \<Rightarrow> replica_specs \<Rightarrow> host_ports \<Rightarrow> job_meta \<Rightarrow> string \<Rightarrow> string \<Rightarrow> ReplicaSpec \<Rightarrow> bool \<Rightarrow> RunPolicy \<Rightarrow> hist \<Rightarrow>
     host_ports res" where
  "createNewPod jc specs ports job rt index spec masterRole runPolicy h =
     (let elastic = ci_EnableElasticScaling (Controller jc) job runPolicy;
          labels = replica_labels jc job rt index masterRole elastic;
          t = (if elastic
               then (Template spec)\<lparr>pt_Finalizers := pt_Finalizers (Template spec) @ [FinalizerPreemptProtector]\<rparr>
               else Template spec)
      in andThen (host_network_step jc ports job t rt index h)
           (\<lambda>(t1, ports1) h1.
              (case label_and_policy t1 labels spec h1 of (t2, h2) \<Rightarrow>
                 andThen (ci_SetClusterSpec (Controller jc) specs ports1 job t2 rt index h2)
                   (\<lambda>t3 h3. andThen (bind_gang jc job t3 rt h3)
                     (\<lambda>t4 h4. andThen (lift_sum (spot_replica spec index t4) h4)
                       (\<lambda>t5 h5. guarded (CreatePod jc job rt index t5 masterRole h5)
                         (\<lambda>h6. (Inr ports1, h6))))))))"

subsection \<open>One existing pod\<close>

definition initialExitCode :: int where "initialExitCode = 0xbeef"

fun main_exit_code :: "container_status list \<Rightarrow> string \<Rightarrow> int option" where
  "main_exit_code [] name = None"
| "main_exit_code (s # ss) name =
     (case cs_Terminated s of
        Some code \<Rightarrow> if cs_Name s = name then Some code else main_exit_code ss name
      | None \<Rightarrow> main_exit_code ss name)"

text \<open>
  The verdict on a pod: whether it is failed over, its exit code, the error of a deletion, and
  the status and port table after it.
\<close>

record verdict =
  failOver :: bool
  exitCode :: int
  verdict_err :: "go_error option"
  verdict_status :: JobStatus
  verdict_ports :: host_ports

definition store_port_step ::
    "JobController \<Rightarrow> host_ports \<Rightarrow> job_meta \<Rightarrow> pod \<Rightarrow> int \<Rightarrow> ReplicaType \<Rightarrow> go_error + host_ports" where
  "store_port_step jc ports job p index rtype =
     (if EnableHostNetwork job
      then (case getContainerHostNetworkPort (pod_Spec p) (ci_ContainerName (Controller jc))
                   (ci_PortName (Controller jc)) of
              Inl e \<Rightarrow> Inl e
            | Inr port \<Rightarrow> Inr (storeHostNetworkPortToContext ports (ToLower rtype) (Itoa index) port))
      else Inr ports)"

definition reconcileOnePod ::
    "JobController \<Rightarrow> host_ports \<Rightarrow> job_meta \<Rightarrow> JobStatus \<Rightarrow> ReplicaSpec \<Rightarrow> pod \<Rightarrow> int \<Rightarrow> int \<Rightarrow> ReplicaType \<Rightarrow> hist \<Rightarrow>
     verdict res" where
  "reconcileOnePod jc ports job st spec p index numReplicas rtype h =
     (if index < 0 \<or> index \<ge> numReplicas then
        (case DeletePod (World jc) (pod_Namespace p) (pod_Name p) h of
           (err, h1) \<Rightarrow>
             (Inr \<lparr>failOver = False, exitCode = initialExitCode, verdict_err = err,
                   verdict_status = st, verdict_ports = ports\<rparr>, h1))
      else
        (let found = main_exit_code (pod_ContainerStatuses p) (ci_ContainerName (Controller jc));
             code = (case found of None \<Rightarrow> initialExitCode | Some c \<Rightarrow> c);
             h1 = (if found = None then h else emit (Event ''Normal'' ''ExitedWithCode'') h)
         in andThen (lift_sum (store_port_step jc ports job p index rtype) h1)
              (\<lambda>ports1 h2. andThen (lift_sum (updateJobReplicaStatuses st rtype p) h2)
                (\<lambda>st1 h3.
                  (Inr \<lparr>failOver = (pod_Phase p = PodFailed \<or> code \<noteq> initialExitCode) \<and> ShouldPodFailOver spec p code,
                        exitCode = code, verdict_err = None, verdict_status = st1, verdict_ports = ports1\<rparr>, h3)))))"

subsection \<open>All pods of a replica type\<close>

record pods_state =
  rp_status :: JobStatus
  rp_ports :: host_ports
  rp_restart :: bool
  rp_failover :: "pod list"
  rp_failed :: "pod list"

text \<open>
  When the server answers that the pod exists already, the expectation just raised is lowered
  again; the error ends the reconciliation either way.
\<close>

definition already_exists_calls :: "JobController \<Rightarrow> job_meta \<Rightarrow> string \<Rightarrow> go_error \<Rightarrow> hist \<Rightarrow> hist" where
  "already_exists_calls jc job rt e h =
     (if IsAlreadyExists e
      then (case out_key (World jc) job of
              Inl _ \<Rightarrow> h
            | Inr jobKey \<Rightarrow>
                emit (CreationObserved (GenExpectationServicesKey jobKey rt))
                  (emit (CreationObserved (GenExpectationPodsKey jobKey rt)) h))
      else h)"

definition create_missing ::
    "JobController \<Rightarrow> job_meta \<Rightarrow> ReplicaType \<Rightarrow> ReplicaSpec \<Rightarrow> replica_specs \<Rightarrow> RunPolicy \<Rightarrow> int \<Rightarrow> int \<Rightarrow>
     pods_state \<Rightarrow> hist \<Rightarrow> pods_state res" where
  "create_missing jc job rtype spec replicas runPolicy numReplicas index s h =
     (if index \<ge> numReplicas then (Inr s, h)
      else case createNewPod jc replicas (rp_ports s) job (ToLower rtype) (Itoa index) spec
                  (ci_IsMasterRole (Controller jc) replicas rtype index) runPolicy h of
             (Inl e, h1) \<Rightarrow> (Inl e, already_exists_calls jc job (ToLower rtype) e h1)
           | (Inr ports, h1) \<Rightarrow> (Inr (s\<lparr>rp_ports := ports\<rparr>), h1))"

definition check_existing ::
    "JobController \<Rightarrow> job_meta \<Rightarrow> ReplicaType \<Rightarrow> ReplicaSpec \<Rightarrow> int \<Rightarrow> int \<Rightarrow> pod \<Rightarrow> pods_state \<Rightarrow> hist \<Rightarrow> pods_state res" where
  "check_existing jc job rtype spec numReplicas index p s h =
     andThen (reconcileOnePod jc (rp_ports s) job (rp_status s) spec p index numReplicas rtype h)
       (\<lambda>v h1. (Inr (s\<lparr>rp_status := verdict_status v, rp_ports := verdict_ports v,
                      rp_restart := rp_restart s \<or> failOver v,
                      rp_failover := (if failOver v then rp_failover s @ [p] else rp_failover s),
                      rp_failed := (if \<not> failOver v \<and> pod_Phase p = PodFailed then rp_failed s @ [p] else rp_failed s)\<rparr>),
                h1))"

fun slices_loop ::
    "JobController \<Rightarrow> job_meta \<Rightarrow> ReplicaType \<Rightarrow> ReplicaSpec \<Rightarrow> replica_specs \<Rightarrow> RunPolicy \<Rightarrow> int \<Rightarrow> int \<Rightarrow>
     pod list list \<Rightarrow> pods_state \<Rightarrow> hist \<Rightarrow> pods_state res" where
  "slices_loop jc job rtype spec replicas runPolicy numReplicas index [] s h = (Inr s, h)"
| "slices_loop jc job rtype spec replicas runPolicy numReplicas index (slice # slices) s h =
     andThen
       (case slice of
          [] \<Rightarrow> create_missing jc job rtype spec replicas runPolicy numReplicas index s h
        | [p] \<Rightarrow> check_existing jc job rtype spec numReplicas index p s h
        | _ \<Rightarrow> (Inr s, h))
       (\<lambda>s1 h1. slices_loop jc job rtype spec replicas runPolicy numReplicas (index + 1) slices s1 h1)"

text \<open>
  After the loop: the reaction to the AIMaster, the event about failed pods and the fail-over.
  Their errors are collected and dropped. The job is the object in memory.
\<close>

definition aimaster_step ::
    "JobController \<Rightarrow> job_meta \<Rightarrow> ReplicaType \<Rightarrow> pod list \<Rightarrow> replica_specs \<Rightarrow> pods_state \<Rightarrow> hist \<Rightarrow>
     job_meta \<times> pods_state \<times> hist" where
  "aimaster_step jc job rtype pods replicas s h =
     (if ContainsReplicaType replicas [JobReplicaTypeAIMaster] \<and> EnableErrorMonitoring job
      then (case reactForAIMasterErrorAnalyzeResult (World jc) job rtype pods h of
              ((err, job1), h1) \<Rightarrow>
                (job1, s\<lparr>rp_failover := [],
                         rp_restart := (if rtype \<noteq> JobReplicaTypeAIMaster then True else rp_restart s)\<rparr>, h1))
      else (job, s, h))"

definition finish_pods ::
    "JobController \<Rightarrow> job_meta \<Rightarrow> pods_state \<Rightarrow> hist \<Rightarrow> job_meta \<times> hist" where
  "finish_pods jc job s h =
     (let h1 = (if rp_failed s \<noteq> [] then emit (Event ''Warning'' ''PodFailed'') h else h) in
      if rp_restart s \<and> rp_failover s \<noteq> []
      then (case DoFailOver (World jc) job (rp_failover s) h1 of
              (Inl e, h2) \<Rightarrow> (job, h2)
            | (Inr job1, h2) \<Rightarrow> (job1, h2))
      else (job, h1))"

definition ReconcilePods ::
    "JobController \<Rightarrow> host_ports \<Rightarrow> job_meta \<Rightarrow> JobStatus \<Rightarrow> pod list \<Rightarrow> ReplicaType \<Rightarrow> ReplicaSpec \<Rightarrow> replica_specs \<Rightarrow>
     RunPolicy \<Rightarrow> bool \<Rightarrow> hist \<Rightarrow> (job_meta \<times> JobStatus \<times> host_ports \<times> bool) res" where
  "ReconcilePods jc ports job st pods rtype spec replicas runPolicy restart h =
     andThen (lift_sum (FilterPodsForReplicaType (World jc) pods (ToLower rtype)) h)
       (\<lambda>pods1 h1.
          (case Replicas spec of
             None \<Rightarrow> (Inl (Panic ''nil Replicas''), h1)
           | Some numReplicas \<Rightarrow>
               andThen (lift_sum (GetPodSlices pods1 numReplicas) h1)
                 (\<lambda>slices h2.
                    andThen (slices_loop jc job rtype spec replicas runPolicy numReplicas 0 slices
                        \<lparr>rp_status = initializeReplicaStatuses st rtype, rp_ports = ports, rp_restart = restart,
                         rp_failover = [], rp_failed = []\<rparr> h2)
                      (\<lambda>s h3.
                         (case aimaster_step jc job rtype pods1 replicas s h3 of (job1, s1, h4) \<Rightarrow>
                            (case finish_pods jc job1 s1 h4 of (job2, h5) \<Rightarrow>
                               (Inr (job2, rp_status s1, rp_ports s1, rp_restart s1), h5)))))))"

subsection \<open>Which pods are created\<close>

text \<open>The names of the pods that a call history creates, in order.\<close>

definition created :: "hist \<Rightarrow> string list" where
  "created h = concat (map (\<lambda>c. case c of CreatePodCall p \<Rightarrow> [pod_Name p] | _ \<Rightarrow> []) h)"

lemma created_append [simp]: "created (h @ h') = created h @ created h'"
  by (simp add: created_def)

lemma created_Nil [simp]: "created [] = []"
  by (simp add: created_def)

lemma created_Cons [simp]: "created (c # cs) = (case c of CreatePodCall p \<Rightarrow> pod_Name p # created cs | _ \<Rightarrow> created cs)"
  by (simp add: created_def split: call.splits)

lemma created_DeletePod [simp]: "created (snd (DeletePod W ns n h)) = created h"
  by (simp add: DeletePod_def emit_def api_write_def remove_finalizer_def Let_def split: sum.splits option.splits)

lemma created_DeletePod_eq: "DeletePod W ns n h = (e, h') \<Longrightarrow> created h' = created h"
  by (metis created_DeletePod snd_conv)

lemma created_delete_each [simp]: "created (delete_each W ps h) = created h"
  by (induction ps arbitrary: h) simp_all

lemma created_delete_names [simp]: "created (snd (delete_names W ns names h)) = created h"
proof (induction names arbitrary: h)
  case (Cons n names)
  obtain e h1 where D: "DeletePod W ns n h = (e, h1)" by force
  with created_DeletePod [of W ns n h] Cons [of h1] show ?case by (auto split: option.splits)
qed simp

lemma created_failover [simp]:
  "created (snd (DoFailOver W job ps h)) = created h"
  "created (snd (failover_by_timestamp W job ps h)) = created h"
  by (simp_all add: DoFailOver_def DoFailOverByAction_def RecreatePods_def patch_job_def emit_def
      failover_by_timestamp_def Let_def split: sum.splits)

lemma created_patch_memory [simp]: "created (snd (patch_memory W job as h)) = created h"
  by (simp add: patch_memory_def patch_job_def split: sum.splits prod.splits)

lemma created_start_all [simp]: "created (snd (start_all_workers W job h)) = created h"
  by (simp add: start_all_workers_def emit_def)

lemma created_restart_listed [simp]: "created (snd (restart_listed W job ns h)) = created h"
proof -
  obtain e h1 where D: "delete_names W (jm_Namespace job) ns h = (e, h1)" by force
  obtain e2 j2 h2 where P: "patch_memory W job [(AnnotationImmediatelyRestartPod, [])] h1 = ((e2, j2), h2)"
    by (metis surj_pair)
  show ?thesis
    using created_delete_names [of W "jm_Namespace job" ns h]
      created_patch_memory [of W job "[(AnnotationImmediatelyRestartPod, [])]" h1] D P
    by (simp add: restart_listed_def emit_def split: option.splits)
qed

lemma created_react [simp]: "created (snd (reactForAIMasterErrorAnalyzeResult W job rtype ps h)) = created h"
proof -
  obtain e1 j1 h1 where S: "start_all_workers W job h = ((e1, j1), h1)" by (metis surj_pair)
  obtain e2 h2 where F: "failover_by_timestamp W j1 ps h1 = (e2, h2)" by force
  show ?thesis
    using created_start_all [of W job h] created_failover(2) [of W j1 ps h1] S F
    by (simp add: reactForAIMasterErrorAnalyzeResult_def Let_def split: option.splits)
qed

lemma created_reconcileOnePod:
  "reconcileOnePod jc ports job st spec p i n rtype h = (r, h') \<Longrightarrow> created h' = created h"
  by (auto simp: reconcileOnePod_def Let_def emit_def andThen_def created_DeletePod_eq
      split: prod.splits sum.splits if_splits)

text \<open>The name of the pod of a replica: the master of an ElasticDL job has a name of its own.\<close>

definition pod_name :: "JobController \<Rightarrow> job_meta \<Rightarrow> string \<Rightarrow> string \<Rightarrow> bool \<Rightarrow> string" where
  "pod_name jc job rt index masterRole =
     (if ci_ControllerName (Controller jc) = ''ElasticDLController'' \<and> masterRole
      then ''elasticdl-'' @ jm_Name job @ ''-master'' else GenGeneralName (jm_Name job) rt index)"

lemma CreatePod_created:
  assumes "CreatePod jc job rt index t master h = (None, h')"
  shows "created h' = created h @ [pod_name jc job rt index master]"
  using assms
  by (auto simp: CreatePod_def pod_name_def CreatePods_def createPods_def GetPodFromTemplate_def api_write_def emit_def Let_def
      split: sum.splits option.splits if_splits)

text \<open>
  What is required of the workload interface and the gang scheduler here: they create no pods of
  their own.
\<close>

definition creates_no_pods :: "JobController \<Rightarrow> bool" where
  "creates_no_pods jc \<longleftrightarrow>
     (\<forall>specs ports job t rt i h r h'. ci_SetClusterSpec (Controller jc) specs ports job t rt i h = (r, h') \<longrightarrow> created h' = created h) \<and>
     (\<forall>ns n h r h'. gs_GetGang (GangScheduler jc) ns n h = (r, h') \<longrightarrow> created h' = created h)"

lemma created_host_network:
  "host_network_step jc ports job t rt i h = (Inr x, h') \<Longrightarrow> created h' = created h"
  by (auto simp: host_network_step_def setupHostNetwork_def emit_def Let_def split: if_splits)

lemma created_label_and_policy: "label_and_policy t ls spec h = (t', h') \<Longrightarrow> created h' = created h"
  by (auto simp: label_and_policy_def emit_def Let_def split: if_splits)

lemma created_bind_gang:
  assumes "bind_gang jc job t rt h = (Inr t', h')" "creates_no_pods jc"
  shows "created h' = created h"
proof (cases "EnableGangScheduling (Config jc)")
  case True
  obtain r h1 where G: "gs_GetGang (GangScheduler jc) (jm_Namespace job) (jm_Name job) h = (r, h1)" by force
  with assms(2) have "created h1 = created h" unfolding creates_no_pods_def by blast
  with assms(1) True G show ?thesis
    by (cases r) (auto simp: bind_gang_def andThen_def split: sum.splits)
next
  case False
  with assms show ?thesis by (simp add: bind_gang_def)
qed

lemma createNewPod_created:
  assumes "createNewPod jc specs ports job rt index spec master rp h = (Inr ports', h')"
    and quiet: "creates_no_pods jc"
  shows "created h' = created h @ [pod_name jc job rt index master]"
proof -
  let ?el = "ci_EnableElasticScaling (Controller jc) job rp"
  let ?t = "if ?el then (Template spec)\<lparr>pt_Finalizers := pt_Finalizers (Template spec) @ [FinalizerPreemptProtector]\<rparr>
            else Template spec"
  let ?ls = "replica_labels jc job rt index master ?el"
  from assms(1) obtain t1 p1 h1 t2 h2 t3 h3 t4 h4 t5 where
    A: "host_network_step jc ports job ?t rt index h = (Inr (t1, p1), h1)"
    and B: "label_and_policy t1 ?ls spec h1 = (t2, h2)"
    and C: "ci_SetClusterSpec (Controller jc) specs p1 job t2 rt index h2 = (Inr t3, h3)"
    and D: "bind_gang jc job t3 rt h3 = (Inr t4, h4)"
    and E: "spot_replica spec index t4 = Inr t5"
    and F: "CreatePod jc job rt index t5 master h4 = (None, h')"
    by (auto simp: createNewPod_def Let_def andThen_def guarded_def split: sum.splits prod.splits option.splits)
      (metis prod.collapse)+
  from C quiet have "created h3 = created h2" unfolding creates_no_pods_def by blast
  with created_host_network [OF A] created_label_and_policy [OF B] created_bind_gang [OF D quiet]
    CreatePod_created [OF F] show ?thesis by simp
qed

subsection \<open>The loop over the slices\<close>

text \<open>
  The indices without a pod that are in range, and the pods that are counted: those that are alone
  at an index in range.
\<close>

fun missing :: "int \<Rightarrow> int \<Rightarrow> pod list list \<Rightarrow> int list" where
  "missing n k [] = []"
| "missing n k (slice # S) = (if slice = [] \<and> k < n then k # missing n (k + 1) S else missing n (k + 1) S)"

fun only :: "'a list \<Rightarrow> 'a list" where
  "only [x] = [x]"
| "only _ = []"

fun counted_pods :: "int \<Rightarrow> int \<Rightarrow> pod list list \<Rightarrow> pod list" where
  "counted_pods n k [] = []"
| "counted_pods n k (slice # S) = (if k < n then only slice else []) @ counted_pods n (k + 1) S"

definition fails_over :: "JobController \<Rightarrow> ReplicaSpec \<Rightarrow> pod \<Rightarrow> bool" where
  "fails_over jc spec p \<longleftrightarrow>
     (let code = (case main_exit_code (pod_ContainerStatuses p) (ci_ContainerName (Controller jc)) of
                    None \<Rightarrow> initialExitCode | Some c \<Rightarrow> c) in
      (pod_Phase p = PodFailed \<or> code \<noteq> initialExitCode) \<and> ShouldPodFailOver spec p code)"

lemma check_existing_out:
  assumes "check_existing jc job rtype spec n k p s h = (Inr s', h')" "n \<le> k"
  shows "rp_status s' = rp_status s \<and> rp_restart s' = rp_restart s"
  using assms
  by (auto simp: check_existing_def reconcileOnePod_def andThen_def split: prod.splits)

lemma check_existing_in:
  assumes "check_existing jc job rtype spec n k p s h = (Inr s', h')" "0 \<le> k" "k < n"
    and "rstatus (rp_status s) rtype = Some a"
  shows "rstatus (rp_status s') rtype = Some (add_pod a p) \<and>
    (\<forall>q. q \<noteq> rtype \<longrightarrow> rstatus (rp_status s') q = rstatus (rp_status s) q) \<and>
    Conditions (rp_status s') = Conditions (rp_status s) \<and>
    rp_restart s' = (rp_restart s \<or> fails_over jc spec p)"
proof -
  from update_replica_status [OF assms(4), of p] obtain st1 where
    "updateJobReplicaStatuses (rp_status s) rtype p = Inr st1"
    "rstatus st1 rtype = Some (add_pod a p)" "\<forall>q. q \<noteq> rtype \<longrightarrow> rstatus st1 q = rstatus (rp_status s) q"
    "Conditions st1 = Conditions (rp_status s)" by blast
  with assms(1-3) show ?thesis
    by (auto simp: check_existing_def reconcileOnePod_def andThen_def Let_def fails_over_def
        split: sum.splits if_splits)
qed

lemma check_existing_created:
  "check_existing jc job rtype spec n k p s h = (Inr s', h') \<Longrightarrow> created h' = created h"
  by (auto simp: check_existing_def andThen_def split: sum.splits dest: created_reconcileOnePod)
     (metis created_reconcileOnePod prod.collapse)

lemma create_missing_state:
  "create_missing jc job rtype spec specs rp n k s h = (Inr s', h') \<Longrightarrow>
   rp_status s' = rp_status s \<and> rp_restart s' = rp_restart s"
  by (auto simp: create_missing_def split: if_splits sum.splits prod.splits)

lemma slices_loop_status:
  assumes "slices_loop jc job rtype spec specs rp n k S s h = (Inr s', h')" "0 \<le> k"
    and "rstatus (rp_status s) rtype = Some a"
  shows "rstatus (rp_status s') rtype = Some (foldl add_pod a (counted_pods n k S)) \<and>
    (\<forall>q. q \<noteq> rtype \<longrightarrow> rstatus (rp_status s') q = rstatus (rp_status s) q) \<and>
    Conditions (rp_status s') = Conditions (rp_status s) \<and>
    rp_restart s' = (rp_restart s \<or> list_ex (fails_over jc spec) (counted_pods n k S))"
  using assms
proof (induction S arbitrary: k s h a)
  case Nil
  then show ?case by simp
next
  case (Cons slice S)
  from Cons.prems(1) obtain s1 h1 where
    step: "(case slice of [] \<Rightarrow> create_missing jc job rtype spec specs rp n k s h
        | [p] \<Rightarrow> check_existing jc job rtype spec n k p s h | _ \<Rightarrow> (Inr s, h)) = (Inr s1, h1)"
    and rest: "slices_loop jc job rtype spec specs rp n (k + 1) S s1 h1 = (Inr s', h')"
    by (auto simp: andThen_def split: sum.splits) (metis prod.collapse)
  consider (empty) "slice = []" | (one) p where "slice = [p]" | (many) p q ps where "slice = p # q # ps"
    by (metis list.exhaust)
  then show ?case
  proof cases
    case empty
    with step create_missing_state have "rp_status s1 = rp_status s" "rp_restart s1 = rp_restart s" by fastforce+
    with Cons.IH [OF rest] Cons.prems empty show ?thesis by simp
  next
    case many
    with step Cons.IH [OF rest] Cons.prems show ?thesis by auto
  next
    case (one p)
    with step have chk: "check_existing jc job rtype spec n k p s h = (Inr s1, h1)" by simp
    show ?thesis
    proof (cases "k < n")
      case True
      from check_existing_in [OF chk Cons.prems(2) True Cons.prems(3)] Cons.IH [OF rest, of "add_pod a p"]
        Cons.prems(2) one True show ?thesis by simp
    next
      case False
      with check_existing_out [OF chk] Cons.IH [OF rest] Cons.prems one show ?thesis by simp
    qed
  qed
qed

lemma slices_loop_created:
  assumes "slices_loop jc job rtype spec specs rp n k S s h = (Inr s', h')"
    and "creates_no_pods jc"
  shows "created h' = created h @
    map (\<lambda>i. pod_name jc job (ToLower rtype) (Itoa i) (ci_IsMasterRole (Controller jc) specs rtype i)) (missing n k S)"
  using assms(1)
proof (induction S arbitrary: k s h)
  case Nil
  then show ?case by simp
next
  case (Cons slice S)
  from Cons.prems(1) obtain s1 h1 where
    step: "(case slice of [] \<Rightarrow> create_missing jc job rtype spec specs rp n k s h
        | [p] \<Rightarrow> check_existing jc job rtype spec n k p s h | _ \<Rightarrow> (Inr s, h)) = (Inr s1, h1)"
    and rest: "slices_loop jc job rtype spec specs rp n (k + 1) S s1 h1 = (Inr s', h')"
    by (auto simp: andThen_def split: sum.splits) (metis prod.collapse)
  consider (empty) "slice = []" | (one) p where "slice = [p]" | (many) p q ps where "slice = p # q # ps"
    by (metis list.exhaust)
  then show ?case
  proof cases
    case empty
    with step have cm: "create_missing jc job rtype spec specs rp n k s h = (Inr s1, h1)" by simp
    show ?thesis
    proof (cases "k < n")
      case True
      with cm obtain ports where "createNewPod jc specs (rp_ports s) job (ToLower rtype) (Itoa k) spec
          (ci_IsMasterRole (Controller jc) specs rtype k) rp h = (Inr ports, h1)"
        by (auto simp: create_missing_def split: sum.splits prod.splits)
      from createNewPod_created [OF this assms(2)] Cons.IH [OF rest] empty True show ?thesis by simp
    next
      case False
      with cm have "h1 = h" by (auto simp: create_missing_def split: if_splits)
      with Cons.IH [OF rest] empty False show ?thesis by simp
    qed
  next
    case (one p)
    with step check_existing_created have "created h1 = created h" by fastforce
    with Cons.IH [OF rest] one show ?thesis by simp
  next
    case many
    with step Cons.IH [OF rest] show ?thesis by auto
  qed
qed

text \<open>The loop lemmas in terms of the indices in range.\<close>

lemma counted_pods_eq:
  "0 \<le> k \<Longrightarrow> counted_pods n k S = concat (map (\<lambda>j. if k + int j < n then only (S ! j) else []) [0..<length S])"
proof (induction S arbitrary: k)
  case (Cons slice S)
  have "[0..<length (slice # S)] = 0 # map Suc [0..<length S]"
    by (simp add: upt_conv_Cons map_Suc_upt del: upt_Suc)
  with Cons show ?case by (simp add: o_def algebra_simps cong: if_cong)
qed simp

lemma missing_eq:
  "0 \<le> k \<Longrightarrow> missing n k S = map (\<lambda>j. k + int j) (filter (\<lambda>j. k + int j < n \<and> S ! j = []) [0..<length S])"
proof (induction S arbitrary: k)
  case (Cons slice S)
  have "[0..<length (slice # S)] = 0 # map Suc [0..<length S]"
    by (simp add: upt_conv_Cons map_Suc_upt del: upt_Suc)
  with Cons show ?case by (simp add: o_def algebra_simps filter_map)
qed simp

lemma upt_split_at: "m \<le> l \<Longrightarrow> [0..<l] = [0..<m] @ [m..<l]"
  by (metis le_add_diff_inverse upt_add_eq_append zero_le)

lemma concat_map_cong_Nil: "(\<And>x. x \<in> set xs \<Longrightarrow> f x = []) \<Longrightarrow> concat (map f xs) = []"
  by (induction xs) auto

definition replica_pods :: "pod list \<Rightarrow> string \<Rightarrow> int \<Rightarrow> pod list" where
  "replica_pods pods rt i =
     filter (\<lambda>p. pod_Labels p ReplicaTypeLabel = Some rt \<and> index_label (pod_Labels p) = Some i) pods"

text \<open>
  The pods of a replica type that count, and the indices that have no pod, by the labels of the
  pods alone.
\<close>

definition live_pods :: "pod list \<Rightarrow> string \<Rightarrow> int \<Rightarrow> pod list" where
  "live_pods pods rt n = concat (map (\<lambda>i. only (replica_pods pods rt (int i))) [0..<nat n])"

definition absent_indices :: "pod list \<Rightarrow> string \<Rightarrow> int \<Rightarrow> int list" where
  "absent_indices pods rt n = map int (filter (\<lambda>i. replica_pods pods rt (int i) = []) [0..<nat n])"

lemma slices_by_label:
  assumes "0 \<le> n" "nat n \<le> length S"
    and S: "\<forall>j < nat n. S ! j = replica_pods pods rt (int j)"
  shows "counted_pods n 0 S = live_pods pods rt n" "missing n 0 S = absent_indices pods rt n"
proof -
  have up: "[0..<length S] = [0..<nat n] @ [nat n..<length S]" using assms(2) by (rule upt_split_at)
  have "concat (map (\<lambda>j. if int j < n then only (S ! j) else []) [0..<nat n]) = live_pods pods rt n"
    unfolding live_pods_def using S assms(1) by (intro arg_cong [where f = concat] map_cong) auto
  moreover have "concat (map (\<lambda>j. if int j < n then only (S ! j) else []) [nat n..<length S]) = []"
    by (rule concat_map_cong_Nil) auto
  ultimately show "counted_pods n 0 S = live_pods pods rt n" by (simp add: counted_pods_eq up)
  have "filter (\<lambda>j. int j < n \<and> S ! j = []) [0..<nat n] = filter (\<lambda>i. replica_pods pods rt (int i) = []) [0..<nat n]"
    using S assms(1) by (intro filter_cong) auto
  moreover have "filter (\<lambda>j. int j < n \<and> S ! j = []) [nat n..<length S] = []" by (auto simp: filter_empty_conv)
  ultimately show "missing n 0 S = absent_indices pods rt n" by (simp add: missing_eq up absent_indices_def)
qed

subsection \<open>ReconcilePods as a whole\<close>

text \<open>The steps of a run of \<open>ReconcilePods\<close> that succeeds.\<close>

lemma ReconcilePods_run:
  assumes run: "ReconcilePods jc ports job st pods rtype spec specs rp restart h = (Inr (job', st', ports', restart'), h')"
    and sel: "replica_selector (World jc) (ToLower rtype)"
    and small: "\<forall>p \<in> set pods. small_index (pod_Labels p)"
    and n: "Replicas spec = Some n" "0 \<le> n"
  obtains S s h1 job1 s1 h2 where
    "nat n \<le> length S" "\<forall>j < nat n. S ! j = replica_pods pods (ToLower rtype) (int j)"
    "slices_loop jc job rtype spec specs rp n 0 S
       \<lparr>rp_status = initializeReplicaStatuses st rtype, rp_ports = ports, rp_restart = restart,
        rp_failover = [], rp_failed = []\<rparr> h = (Inr s, h1)"
    "aimaster_step jc job rtype (filter (\<lambda>p. pod_Labels p ReplicaTypeLabel = Some (ToLower rtype)) pods) specs s h1
       = (job1, s1, h2)"
    "finish_pods jc job1 s1 h2 = (job', h')" "st' = rp_status s1" "restart' = rp_restart s1"
proof -
  let ?ps = "filter (\<lambda>p. pod_Labels p ReplicaTypeLabel = Some (ToLower rtype)) pods"
  from small have "\<forall>p \<in> set ?ps. small_index (pod_Labels p)" by simp
  from pod_slices_ok [OF this n(2)] obtain S where
    S: "GetPodSlices ?ps n = Inr S" "nat n \<le> length S"
      "\<forall>j < nat n. S ! j = filter (\<lambda>p. index_label (pod_Labels p) = Some (int j)) ?ps" by blast
  then have byl: "\<forall>j < nat n. S ! j = replica_pods pods (ToLower rtype) (int j)"
    by (simp add: replica_pods_def conj_commute)
  let ?s0 = "\<lparr>rp_status = initializeReplicaStatuses st rtype, rp_ports = ports, rp_restart = restart,
        rp_failover = [], rp_failed = []\<rparr>"
  obtain r h1 where L: "slices_loop jc job rtype spec specs rp n 0 S ?s0 h = (r, h1)" by force
  from run S n L filter_pods [OF sel] obtain s where r: "r = Inr s"
    by (cases r) (auto simp: ReconcilePods_def)
  obtain job1 s1 h2 where A: "aimaster_step jc job rtype ?ps specs s h1 = (job1, s1, h2)" by (metis prod_cases3)
  obtain job2 h3 where F: "finish_pods jc job1 s1 h2 = (job2, h3)" by force
  from run S n L r A F filter_pods [OF sel] have "job2 = job'" "h3 = h'" "st' = rp_status s1" "restart' = rp_restart s1"
    by (auto simp: ReconcilePods_def)
  with that [OF S(2) byl] L r A F show thesis by simp
qed

lemma aimaster_status: "aimaster_step jc job rtype ps specs s h = (job1, s1, h1) \<Longrightarrow> rp_status s1 = rp_status s"
  by (auto simp: aimaster_step_def split: if_splits prod.splits)

lemma aimaster_restart:
  "aimaster_step jc job rtype ps specs s h = (job1, s1, h1) \<Longrightarrow>
   rp_restart s1 = (rp_restart s \<or> (ContainsReplicaType specs [JobReplicaTypeAIMaster] \<and>
     EnableErrorMonitoring job \<and> rtype \<noteq> JobReplicaTypeAIMaster))"
  by (auto simp: aimaster_step_def split: if_splits prod.splits)

lemma aimaster_created: "aimaster_step jc job rtype ps specs s h = (job1, s1, h1) \<Longrightarrow> created h1 = created h"
  using created_react [of "World jc" job rtype ps h]
  by (auto simp: aimaster_step_def simp del: created_react split: if_splits prod.splits)

lemma finish_created:
  assumes "finish_pods jc job s h = (job1, h1)"
  shows "created h1 = created h"
proof -
  define h0 where "h0 = (if rp_failed s \<noteq> [] then emit (Event ''Warning'' ''PodFailed'') h else h)"
  obtain r h2 where D: "DoFailOver (World jc) job (rp_failover s) h0 = (r, h2)" by force
  have "created h2 = created h0" using created_failover(1) [of "World jc" job "rp_failover s" h0] D by simp
  moreover have "created h0 = created h" by (simp add: emit_def h0_def)
  moreover have "finish_pods jc job s h =
      (if rp_restart s \<and> rp_failover s \<noteq> []
       then (case (r, h2) of (Inl e, h2) \<Rightarrow> (job, h2) | (Inr job1, h2) \<Rightarrow> (job1, h2)) else (job, h0))"
    by (simp only: finish_pods_def Let_def h0_def [symmetric] D)
  with assms have "h1 = h2 \<or> h1 = h0" by (cases r) (simp_all split: if_splits)
  ultimately show ?thesis by metis
qed

text \<open>A sample run: two workers, one of which is running.\<close>

lemma sample_run:
  "\<exists>job' st' ports' restart' h'. ReconcilePods jc0 Map.empty job0 status0 [pod0 ''worker'' ''0'' PodRunning]
     ''Worker'' (dag_spec 2 []) [(''Worker'', dag_spec 2 [])] run_policy0 False [] =
   (Inr (job', st', ports', restart'), h')"
  by (simp add: ReconcilePods_def sample_strings GetPodSlices_def index_label_def
      put_slice_def check_existing_def reconcileOnePod_def store_port_step_def EnableHostNetwork_def
      HostNetworkMode_def updateJobReplicaStatuses_def bump_status_def create_missing_def createNewPod_def
      host_network_step_def label_and_policy_def bind_gang_def spot_replica_def CreatePod_def api_write_def
      CreatePods_def createPods_def GetPodFromTemplate_def MergeMap_def replica_labels_def setRestartPolicy_def
      aimaster_step_def ContainsReplicaType_def JobReplicaTypeAIMaster_def finish_pods_def Let_def numeral_2_eq_2) blast

text \<open>
  C8. The replica status that \<open>ReconcilePods\<close> leaves counts exactly the pods in range: for a
  replica type with \<open>n\<close> replicas, Active, Succeeded and Failed are the numbers of pods that are
  the only one at their index below \<open>n\<close> and are active (running, or pending on a node with all
  init containers passed), succeeded or failed. Pods of other types, out of range, without an
  index or doubled do not count, earlier counts are forgotten, the other replica types and the
  conditions are untouched.
\<close>

theorem reconcile_pods_status:
  assumes "ReconcilePods jc ports job st pods rtype spec specs rp restart h = (Inr (job', st', ports', restart'), h')"
    and "replica_selector (World jc) (ToLower rtype)"
    and "\<forall>p \<in> set pods. small_index (pod_Labels p)"
    and "Replicas spec = Some n" "0 \<le> n"
    and L: "live_pods pods (ToLower rtype) n = L"
  shows "rstatus st' rtype = Some
      \<lparr>Active = i32 (int (length (filter counts_active L))),
       Succeeded = i32 (int (length (filter (\<lambda>p. pod_Phase p = PodSucceeded) L))),
       Failed = i32 (int (length (filter (\<lambda>p. pod_Phase p = PodFailed) L))), Evicted = 0\<rparr> \<and>
    (\<forall>q. q \<noteq> rtype \<longrightarrow> rstatus st' q = rstatus st q) \<and> Conditions st' = Conditions st"
proof -
  from assms(1-5) obtain S s h1 job1 s1 h2 where
    S: "nat n \<le> length S" "\<forall>j < nat n. S ! j = replica_pods pods (ToLower rtype) (int j)"
    and loop: "slices_loop jc job rtype spec specs rp n 0 S
       \<lparr>rp_status = initializeReplicaStatuses st rtype, rp_ports = ports, rp_restart = restart,
        rp_failover = [], rp_failed = []\<rparr> h = (Inr s, h1)"
    and ai: "aimaster_step jc job rtype (filter (\<lambda>p. pod_Labels p ReplicaTypeLabel = Some (ToLower rtype)) pods) specs s h1
       = (job1, s1, h2)"
    and st': "st' = rp_status s1" by (rule ReconcilePods_run) blast
  from slices_loop_status [OF loop, of zero_status] aimaster_status [OF ai] st'
    slices_by_label(1) [OF assms(5) S] L show ?thesis
    by (simp add: foldl_add_pod_zero)
qed

lemma sample_live:
  "live_pods [pod0 ''worker'' ''0'' PodRunning] ''worker'' 2 = [pod0 ''worker'' ''0'' PodRunning]"
  "absent_indices [pod0 ''worker'' ''0'' PodRunning] ''worker'' 2 = [1]"
  by (simp_all add: live_pods_def absent_indices_def replica_pods_def index_label_def sample_strings numeral_2_eq_2)

lemma sample_small: "\<forall>p \<in> set [pod0 ''worker'' ''0'' PodRunning]. small_index (pod_Labels p)"
  by (simp add: small_index_def index_label_def sample_strings)

theorem reconcile_pods_status_witness:
  "\<exists>job' st' ports' restart' h'. ReconcilePods jc0 Map.empty job0 status0 [pod0 ''worker'' ''0'' PodRunning]
     ''Worker'' (dag_spec 2 []) [(''Worker'', dag_spec 2 [])] run_policy0 False [] =
       (Inr (job', st', ports', restart'), h') \<and>
     rstatus st' ''Worker'' = Some \<lparr>Active = 1, Succeeded = 0, Failed = 0, Evicted = 0\<rparr>"
proof -
  from sample_run obtain job' st' ports' restart' h' where
    run: "ReconcilePods jc0 Map.empty job0 status0 [pod0 ''worker'' ''0'' PodRunning]
     ''Worker'' (dag_spec 2 []) [(''Worker'', dag_spec 2 [])] run_policy0 False [] =
       (Inr (job', st', ports', restart'), h')" by blast
  from reconcile_pods_status [OF run, of 2 "[pod0 ''worker'' ''0'' PodRunning]"] sample_small run show ?thesis
    by (simp add: sample_strings sample_live counts_active_def)
qed

text \<open>What a successful run creates: one pod per index that has none.\<close>

lemma ReconcilePods_created:
  assumes "ReconcilePods jc ports job st pods rtype spec specs rp restart h = (Inr (job', st', ports', restart'), h')"
    and "replica_selector (World jc) (ToLower rtype)"
    and "\<forall>p \<in> set pods. small_index (pod_Labels p)"
    and "Replicas spec = Some n" "0 \<le> n"
    and "creates_no_pods jc"
  shows "created h' = created h @
    map (\<lambda>i. pod_name jc job (ToLower rtype) (Itoa i) (ci_IsMasterRole (Controller jc) specs rtype i))
      (absent_indices pods (ToLower rtype) n)"
proof -
  from assms(1-5) obtain S s h1 job1 s1 h2 where
    S: "nat n \<le> length S" "\<forall>j < nat n. S ! j = replica_pods pods (ToLower rtype) (int j)"
    and loop: "slices_loop jc job rtype spec specs rp n 0 S
       \<lparr>rp_status = initializeReplicaStatuses st rtype, rp_ports = ports, rp_restart = restart,
        rp_failover = [], rp_failed = []\<rparr> h = (Inr s, h1)"
    and ai: "aimaster_step jc job rtype (filter (\<lambda>p. pod_Labels p ReplicaTypeLabel = Some (ToLower rtype)) pods) specs s h1
       = (job1, s1, h2)"
    and fin: "finish_pods jc job1 s1 h2 = (job', h')" by (rule ReconcilePods_run) blast
  from slices_loop_created [OF loop assms(6)] aimaster_created [OF ai] finish_created [OF fin]
    slices_by_label(2) [OF assms(5) S] show ?thesis by simp
qed

text \<open>
  The restart flag that the status update receives is raised exactly when some counted pod
  is to be failed over, or the job runs under the error monitoring of an AIMaster.
\<close>

theorem reconcile_pods_restart:
  assumes "ReconcilePods jc ports job st pods rtype spec specs rp restart h = (Inr (job', st', ports', restart'), h')"
    and "replica_selector (World jc) (ToLower rtype)"
    and "\<forall>p \<in> set pods. small_index (pod_Labels p)"
    and "Replicas spec = Some n" "0 \<le> n"
  shows "restart' \<longleftrightarrow> restart \<or> list_ex (fails_over jc spec) (live_pods pods (ToLower rtype) n) \<or>
    (ContainsReplicaType specs [JobReplicaTypeAIMaster] \<and> EnableErrorMonitoring job \<and>
     rtype \<noteq> JobReplicaTypeAIMaster)"
proof -
  from assms(1-5) obtain S s h1 job1 s1 h2 where
    S: "nat n \<le> length S" "\<forall>j < nat n. S ! j = replica_pods pods (ToLower rtype) (int j)"
    and loop: "slices_loop jc job rtype spec specs rp n 0 S
       \<lparr>rp_status = initializeReplicaStatuses st rtype, rp_ports = ports, rp_restart = restart,
        rp_failover = [], rp_failed = []\<rparr> h = (Inr s, h1)"
    and ai: "aimaster_step jc job rtype (filter (\<lambda>p. pod_Labels p ReplicaTypeLabel = Some (ToLower rtype)) pods) specs s h1
       = (job1, s1, h2)"
    and r': "restart' = rp_restart s1" by (rule ReconcilePods_run) blast
  from slices_loop_status [OF loop, of zero_status] aimaster_restart [OF ai] r'
    slices_by_label(1) [OF assms(5) S] show ?thesis by simp
qed

theorem reconcile_pods_restart_witness:
  "\<exists>job' st' ports' h'. ReconcilePods jc0 Map.empty job0 status0 [pod0 ''worker'' ''0'' PodRunning]
     ''Worker'' (dag_spec 2 []) [(''Worker'', dag_spec 2 [])] run_policy0 False [] =
       (Inr (job', st', ports', False), h')"
proof -
  from sample_run obtain job' st' ports' restart' h' where
    run: "ReconcilePods jc0 Map.empty job0 status0 [pod0 ''worker'' ''0'' PodRunning]
     ''Worker'' (dag_spec 2 []) [(''Worker'', dag_spec 2 [])] run_policy0 False [] =
       (Inr (job', st', ports', restart'), h')" by blast
  from reconcile_pods_restart [OF run, of 2] sample_small have "\<not> restart'"
    by (simp add: sample_strings sample_live fails_over_def ShouldPodFailOver_def restart_policy_defs
        ContainsReplicaType_def JobReplicaTypeAIMaster_def)
  with run show ?thesis by auto
qed

end
