(* ===== verification/Service_Reconcile.thy ===== *)
theory Service_Reconcile
  imports Host_Network
begin

text \<open>
  Reconciling the services of one replica type (\<open>ReconcileServices\<close>,
  \<open>CreateNewService\<close>, \<open>CreateService\<close> of \<open>service.go\<close>) and claiming
  services by owner reference (\<open>service_ref_manager.go\<close>).
\<close>

subsection \<open>Creating a service\<close>

definition CreateService ::
    "JobController \<Rightarrow> job_meta \<Rightarrow> ReplicaType \<Rightarrow> service \<Rightarrow> string \<Rightarrow> hist \<Rightarrow> go_error option \<times> hist" where
  "CreateService jc job rtype svc index h =
     (case out_key (World jc) job of
        Inl e \<Rightarrow> (Some e, h)
      | Inr jobKey \<Rightarrow>
          (let rt = ToLower rtype in
           case api_write (World jc) (ExpectCreations (GenExpectationServicesKey jobKey rt) 1) h of
             (Some e, h1) \<Rightarrow> (Some e, h1)
           | (None, h1) \<Rightarrow>
               (case CreateServicesWithControllerRef (World jc) (jm_Namespace job)
                       (svc\<lparr>svc_Name := GenGeneralName (jm_Name job) rt index\<rparr>)
                       (Some (GenOwnerReference jc job)) h1 of
                  (Some e, h2) \<Rightarrow> (if IsTimeout e then None else Some e, h2)
                | (None, h2) \<Rightarrow> (None, h2))))"

definition service_labels :: "JobController \<Rightarrow> job_meta \<Rightarrow> string \<Rightarrow> string \<Rightarrow> smap" where
  "service_labels jc job rt index =
     (GenLabels jc (jm_Name job))(ReplicaTypeLabel \<mapsto> rt, ReplicaIndexLabel \<mapsto> index)"

text \<open>
  A headless service by default; with host network (and unless the feature gate keeps services
  headless) a normal one whose target port is the host port of the replica, when it is known.
\<close>

definition CreateNewService ::
    "JobController \<Rightarrow> host_ports \<Rightarrow> job_meta \<Rightarrow> ReplicaType \<Rightarrow> ReplicaSpec \<Rightarrow> string \<Rightarrow> hist \<Rightarrow> go_error option \<times> hist" where
  "CreateNewService jc ports job rtype spec index h =
     (let rt = ToLower rtype; labels = service_labels jc job rt index in
      case GetPortFromJob jc spec of
        Inl e \<Rightarrow> (Some e, h)
      | Inr svcPort \<Rightarrow>
          (let hostnet = (\<not> gate_HostNetWithHeadlessSvc (Config jc) \<and> EnableHostNetwork job);
               clusterIP = (if hostnet then [] else ''None'');
               targetPort = (if hostnet
                             then (case GetHostNetworkPortFromContext ports rt index of None \<Rightarrow> svcPort | Some p \<Rightarrow> p)
                             else svcPort);
               svc = \<lparr>svc_Name = [], svc_Namespace = [], svc_UID = [],
                      svc_Labels = MergeMap Map.empty labels, svc_OwnerReferences = [],
                      svc_DeletionTimestamp = None, svc_ResourceVersion = [], svc_ClusterIP = clusterIP,
                      svc_Selector = labels,
                      svc_Ports = [\<lparr>sp_Name = ci_PortName (Controller jc), sp_Port = svcPort, sp_TargetPort = targetPort\<rparr>]\<rparr>
           in CreateService jc job rtype svc index h))"

subsection \<open>One existing service\<close>

definition retarget_service ::
    "JobController \<Rightarrow> host_ports \<Rightarrow> job_meta \<Rightarrow> string \<Rightarrow> int \<Rightarrow> service \<Rightarrow> hist \<Rightarrow> go_error option \<times> hist" where
  "retarget_service jc ports job rt index svc h =
     (if EnableHostNetwork job
      then (case (GetHostNetworkPortFromContext ports rt (Itoa index), svc_Ports svc) of
              (Some hostPort, sp # sps) \<Rightarrow>
                (if sp_TargetPort sp \<noteq> hostPort
                 then api_write (World jc)
                        (PatchServiceCall svc (svc\<lparr>svc_Ports := sp\<lparr>sp_TargetPort := hostPort\<rparr> # sps\<rparr>)) h
                 else (None, h))
            | _ \<Rightarrow> (None, h))
      else (None, h))"

definition drop_out_of_range ::
    "JobController \<Rightarrow> int \<Rightarrow> int \<Rightarrow> service \<Rightarrow> hist \<Rightarrow> go_error option \<times> hist" where
  "drop_out_of_range jc index replicas svc h =
     (if index \<ge> replicas \<and> svc_DeletionTimestamp svc = None
      then DeleteService (World jc) (svc_Namespace svc) (svc_Name svc) (emit (Event ''Normal'' ''DeleteService'') h)
      else (None, h))"

definition reconcile_service_slice ::
    "JobController \<Rightarrow> host_ports \<Rightarrow> job_meta \<Rightarrow> ReplicaType \<Rightarrow> ReplicaSpec \<Rightarrow> int \<Rightarrow> int \<Rightarrow> service list \<Rightarrow> hist \<Rightarrow>
     go_error option \<times> hist" where
  "reconcile_service_slice jc ports job rtype spec replicas index slice h =
     (case slice of
        [] \<Rightarrow> CreateNewService jc ports job rtype spec (Itoa index) h
      | [svc] \<Rightarrow>
          (case drop_out_of_range jc index replicas svc h of
             (Some e, h1) \<Rightarrow> (Some e, h1)
           | (None, h1) \<Rightarrow> retarget_service jc ports job (ToLower rtype) index svc h1)
      | _ \<Rightarrow> (None, h))"

fun service_loop ::
    "JobController \<Rightarrow> host_ports \<Rightarrow> job_meta \<Rightarrow> ReplicaType \<Rightarrow> ReplicaSpec \<Rightarrow> int \<Rightarrow> int \<Rightarrow> service list list \<Rightarrow> hist \<Rightarrow>
     go_error option \<times> hist" where
  "service_loop jc ports job rtype spec replicas index [] h = (None, h)"
| "service_loop jc ports job rtype spec replicas index (slice # slices) h =
     (case reconcile_service_slice jc ports job rtype spec replicas index slice h of
        (Some e, h1) \<Rightarrow> (Some e, h1)
      | (None, h1) \<Rightarrow> service_loop jc ports job rtype spec replicas (index + 1) slices h1)"

definition ReconcileServices ::
    "JobController \<Rightarrow> host_ports \<Rightarrow> job_meta \<Rightarrow> service list \<Rightarrow> ReplicaType \<Rightarrow> ReplicaSpec \<Rightarrow> hist \<Rightarrow> go_error option \<times> hist" where
  "ReconcileServices jc ports job services rtype spec h =
     (case Replicas spec of
        None \<Rightarrow> (Some (Panic ''nil Replicas''), h)
      | Some replicas \<Rightarrow>
          (case FilterServicesForReplicaType (World jc) services (ToLower rtype) of
             Inl e \<Rightarrow> (Some e, h)
           | Inr svcs \<Rightarrow>
               (case GetServiceSlices svcs replicas of
                  Inl e \<Rightarrow> (Some e, h)
                | Inr slices \<Rightarrow> service_loop jc ports job rtype spec replicas 0 slices h)))"

subsection \<open>Claiming services\<close>

text \<open>
  \<open>ClaimObject\<close> belongs to Kubernetes' controller library and is a parameter: given the
  match predicate and the adopt and release actions it says whether the object is claimed.
\<close>

type_synonym action = "service \<Rightarrow> hist \<Rightarrow> go_error option \<times> hist"
type_synonym claim_object = "(service \<Rightarrow> bool) \<Rightarrow> action \<Rightarrow> action \<Rightarrow> service \<Rightarrow> hist \<Rightarrow> bool res"

definition AdoptService :: "JobController \<Rightarrow> job_meta \<Rightarrow> go_error option \<Rightarrow> action" where
  "AdoptService jc job canAdopt svc h =
     (case canAdopt of
        Some e \<Rightarrow> (Some (Err ''can't adopt Service''), h)
      | None \<Rightarrow>
          PatchService (World jc) (svc_Namespace svc) (svc_Name svc)
            (''{\"metadata\":{\"ownerReferences\":[{\"apiVersion\":\"'' @ ci_APIVersion (Controller jc) @
             ''\",\"kind\":\"'' @ ci_Kind (Controller jc) @ ''\",\"name\":\"'' @ jm_Name job @
             ''\",\"uid\":\"'' @ jm_UID job @ ''\",\"controller\":true,\"blockOwnerDeletion\":true}],\"uid\":\"'' @
             svc_UID svc @ ''\"}}'') h)"

definition ReleaseService :: "JobController \<Rightarrow> job_meta \<Rightarrow> action" where
  "ReleaseService jc job svc h =
     (case PatchService (World jc) (svc_Namespace svc) (svc_Name svc)
             (''{\"metadata\":{\"ownerReferences\":[{\"$patch\":\"delete\",\"uid\":\"'' @ jm_UID job @
              ''\"}],\"uid\":\"'' @ svc_UID svc @ ''\"}}'') h of
        (Some e, h1) \<Rightarrow> (if IsNotFound e \<or> IsInvalid e then None else Some e, h1)
      | (None, h1) \<Rightarrow> (None, h1))"

fun claim_loop ::
    "claim_object \<Rightarrow> (service \<Rightarrow> bool) \<Rightarrow> action \<Rightarrow> action \<Rightarrow> service list \<Rightarrow> service list \<Rightarrow> go_error list \<Rightarrow> hist \<Rightarrow>
     (service list \<times> go_error list) \<times> hist" where
  "claim_loop claim match adopt release [] claimed errs h = ((claimed, errs), h)"
| "claim_loop claim match adopt release (s # ss) claimed errs h =
     (case claim match adopt release s h of
        (Inl e, h1) \<Rightarrow> claim_loop claim match adopt release ss claimed (errs @ [e]) h1
      | (Inr ok, h1) \<Rightarrow>
          claim_loop claim match adopt release ss (if ok then claimed @ [s] else claimed) errs h1)"

definition ClaimServices ::
    "claim_object \<Rightarrow> JobController \<Rightarrow> job_meta \<Rightarrow> (smap \<Rightarrow> bool) \<Rightarrow> go_error option \<Rightarrow> service list \<Rightarrow>
     (service \<Rightarrow> bool) list \<Rightarrow> hist \<Rightarrow> (service list \<times> go_error list) \<times> hist" where
  "ClaimServices claim jc job selector canAdopt services filters h =
     claim_loop claim
       (\<lambda>s. if \<not> selector (svc_Labels s) then False else list_all (\<lambda>f. f s) filters)
       (AdoptService jc job canAdopt) (ReleaseService jc job) services [] [] h"

text \<open>
  \<open>AdoptAndClaimServices\<close>: select by the labels of the job; before an adoption the live job is
  read again and compared by UID.
\<close>

definition recheck_job :: "JobController \<Rightarrow> job_meta \<Rightarrow> go_error + job_meta \<Rightarrow> go_error option" where
  "recheck_job jc job live =
     RecheckDeletionTimestamp
       (case live of
          Inl e \<Rightarrow> Inl e
        | Inr fresh \<Rightarrow> if jm_UID fresh \<noteq> jm_UID job then Inl (Err ''original Job is gone'') else Inr fresh)"

definition AdoptAndClaimServices ::
    "claim_object \<Rightarrow> JobController \<Rightarrow> job_meta \<Rightarrow> go_error + job_meta \<Rightarrow> service list \<Rightarrow> hist \<Rightarrow>
     (service list \<times> go_error list) res" where
  "AdoptAndClaimServices claim jc job live services h =
     (case out_selector (World jc) (GenLabels jc (jm_Name job)) of
        Inl e \<Rightarrow> (Inl e, h)
      | Inr matches \<Rightarrow>
          (case ClaimServices claim jc job matches (recheck_job jc job live) services [] h of
             (r, h1) \<Rightarrow> (Inr r, h1)))"

subsection \<open>Which services are created\<close>

definition created_services :: "hist \<Rightarrow> service list" where
  "created_services h = concat (map (\<lambda>c. case c of CreateServiceCall s \<Rightarrow> [s] | _ \<Rightarrow> []) h)"

lemma created_services_append [simp]: "created_services (h @ h') = created_services h @ created_services h'"
  by (simp add: created_services_def)

lemma created_services_Nil [simp]: "created_services [] = []"
  by (simp add: created_services_def)

lemma created_services_Cons [simp]:
  "created_services (c # cs) = (case c of CreateServiceCall s \<Rightarrow> s # created_services cs | _ \<Rightarrow> created_services cs)"
  by (simp add: created_services_def split: call.splits)

lemma created_services_DeleteService:
  "DeleteService W ns n h = (r, h') \<Longrightarrow> created_services h' = created_services h"
  by (auto simp: DeleteService_def emit_def api_write_def Let_def split: sum.splits if_splits option.splits)

lemma existing_service_creates_none:
  assumes "reconcile_service_slice jc ports job rtype spec replicas index [svc] h = (r, h')"
  shows "created_services h' = created_services h"
proof -
  obtain e h1 where D: "drop_out_of_range jc index replicas svc h = (e, h1)" by force
  then have "created_services h1 = created_services h"
    by (auto simp: drop_out_of_range_def emit_def dest: created_services_DeleteService split: if_splits)
  moreover have "created_services h2 = created_services h1"
    if "retarget_service jc ports job rt index svc h1 = (r2, h2)" for rt r2 h2
    using that by (auto simp: retarget_service_def api_write_def split: option.splits list.splits if_splits)
  ultimately show ?thesis using assms D by (auto simp: reconcile_service_slice_def split: option.splits)
qed

text \<open>The service a replica gets: its port, its target port and whether it is headless.\<close>

definition replica_service :: "JobController \<Rightarrow> host_ports \<Rightarrow> job_meta \<Rightarrow> string \<Rightarrow> int \<Rightarrow> int \<Rightarrow> service \<Rightarrow> bool" where
  "replica_service jc ports job rt port i svc \<longleftrightarrow>
     svc_Name svc = GenGeneralName (jm_Name job) rt (Itoa i) \<and>
     svc_Namespace svc = jm_Namespace job \<and>
     svc_Selector svc = service_labels jc job rt (Itoa i) \<and> svc_Labels svc = service_labels jc job rt (Itoa i) \<and>
     GetControllerOf (svc_OwnerReferences svc) = Some (GenOwnerReference jc job) \<and>
     map sp_Port (svc_Ports svc) = [port] \<and>
     (if EnableHostNetwork job \<and> \<not> gate_HostNetWithHeadlessSvc (Config jc)
      then svc_ClusterIP svc = [] \<and>
           map sp_TargetPort (svc_Ports svc) = [case ports (rt @ ''-'' @ Itoa i) of None \<Rightarrow> port | Some p \<Rightarrow> p]
      else svc_ClusterIP svc = ''None'' \<and> map sp_TargetPort (svc_Ports svc) = [port])"

lemma new_service_created:
  assumes "CreateNewService jc ports job rtype spec (Itoa i) h = (None, h')" "GetPortFromJob jc spec = Inr port"
  shows "\<exists>svc. created_services h' = created_services h @ [svc] \<and> replica_service jc ports job (ToLower rtype) port i svc"
  using assms
  by (auto simp: CreateNewService_def CreateService_def CreateServicesWithControllerRef_def validateControllerRef_def
      createServices_def getServiceFromTemplate_def api_write_def emit_def Let_def MergeMap_def
      GenOwnerReference_def replica_service_def GetHostNetworkPortFromContext_def
      split: sum.splits option.splits if_splits)

lemma service_loop_created:
  assumes "service_loop jc ports job rtype spec n k S h = (None, h')" "GetPortFromJob jc spec = Inr port" "0 \<le> k"
  shows "\<exists>svcs. created_services h' = created_services h @ svcs \<and>
    list_all2 (replica_service jc ports job (ToLower rtype) port)
      (map (\<lambda>j. k + int j) (filter (\<lambda>j. S ! j = []) [0..<length S])) svcs"
  using assms(1,3)
proof (induction S arbitrary: k h)
  case Nil
  then show ?case by simp
next
  case (Cons slice S)
  from Cons.prems(1) obtain h1 where
    step: "reconcile_service_slice jc ports job rtype spec n k slice h = (None, h1)"
    and rest: "service_loop jc ports job rtype spec n (k + 1) S h1 = (None, h')"
    by (auto split: prod.splits option.splits)
  from Cons.IH [OF rest] Cons.prems(2) obtain svcs where
    IH: "created_services h' = created_services h1 @ svcs"
      "list_all2 (replica_service jc ports job (ToLower rtype) port)
        (map (\<lambda>j. k + 1 + int j) (filter (\<lambda>j. S ! j = []) [0..<length S])) svcs" by auto
  have up: "[0..<length (slice # S)] = 0 # map Suc [0..<length S]"
    by (simp add: upt_conv_Cons map_Suc_upt del: upt_Suc)
  have shift: "map (\<lambda>j. k + int j) (filter (\<lambda>j. (slice # S) ! j = []) (map Suc [0..<length S])) =
      map (\<lambda>j. k + 1 + int j) (filter (\<lambda>j. S ! j = []) [0..<length S])"
    by (simp add: filter_map o_def algebra_simps)
  consider (empty) "slice = []" | (one) s where "slice = [s]" | (many) s t ss where "slice = s # t # ss"
    by (metis list.exhaust)
  then show ?case
  proof cases
    case empty
    with step have "CreateNewService jc ports job rtype spec (Itoa k) h = (None, h1)"
      by (simp add: reconcile_service_slice_def)
    from new_service_created [OF this assms(2)] obtain svc where
      "created_services h1 = created_services h @ [svc]" "replica_service jc ports job (ToLower rtype) port k svc" by blast
    with IH empty shift up show ?thesis by (intro exI [of _ "svc # svcs"]) (simp del: upt_Suc)
  next
    case (one s)
    with step existing_service_creates_none have "created_services h1 = created_services h" by blast
    with IH one shift up show ?thesis by (intro exI [of _ svcs]) (simp del: upt_Suc)
  next
    case many
    with step have "h1 = h" by (simp add: reconcile_service_slice_def)
    with IH many shift up show ?thesis by (intro exI [of _ svcs]) (simp del: upt_Suc)
  qed
qed

definition replica_services :: "service list \<Rightarrow> string \<Rightarrow> int \<Rightarrow> service list" where
  "replica_services svcs rt i =
     filter (\<lambda>s. svc_Labels s ReplicaTypeLabel = Some rt \<and> index_label (svc_Labels s) = Some i) svcs"

definition tf_spec :: "int \<Rightarrow> ReplicaSpec" where
  "tf_spec n = (dag_spec n [])\<lparr>Template := (Template (dag_spec n []))\<lparr>pt_Spec :=
     (pt_Spec (Template (dag_spec n [])))\<lparr>ps_Containers :=
       [\<lparr>ct_Name = ''tensorflow'', ct_Ports = [\<lparr>cp_Name = ''tfjob-port'', cp_HostPort = 0, cp_ContainerPort = 2222\<rparr>],
         ct_Env = [], ct_VolumeMounts = [], ct_Requests = [], ct_Limits = [],
         ct_Image = [], ct_Command = [], ct_Args = [], ct_WorkingDir = [], ct_ImagePullPolicy = [], ct_TerminationMessagePolicy = []\<rparr>]\<rparr>\<rparr>\<rparr>"

definition svc0 :: "string \<Rightarrow> string \<Rightarrow> service" where
  "svc0 rt i = \<lparr>svc_Name = GenGeneralName ''mnist'' rt i, svc_Namespace = ''default'', svc_UID = ''s'',
     svc_Labels = [ReplicaTypeLabel \<mapsto> rt, ReplicaIndexLabel \<mapsto> i], svc_OwnerReferences = [],
     svc_DeletionTimestamp = Some 0, svc_ResourceVersion = [], svc_ClusterIP = ''None'', svc_Selector = Map.empty,
     svc_Ports = []\<rparr>"

lemma tf_spec_port: "GetPortFromJob jc0 (tf_spec n) = Inr 2222"
  by (simp add: GetPortFromJob_def tf_spec_def)

lemma tf_spec_replicas [simp]: "Replicas (tf_spec n) = Some n"
  by (simp add: tf_spec_def)

lemma svc0_simps [simp]:
  "svc_Labels (svc0 rt i) = [ReplicaTypeLabel \<mapsto> rt, ReplicaIndexLabel \<mapsto> i]"
  "svc_DeletionTimestamp (svc0 rt i) = Some 0" "svc_Ports (svc0 rt i) = []"
  by (simp_all add: svc0_def)

text \<open>
  C13. Reconciling the services of a replica type gives every index in range without a service one,
  with the labels, selector and owner that tie it to the pod of that replica, on the port of the
  job; without host network it is headless and targets that port, with host network it targets
  the host port the pod of this replica was given in the same reconciliation. An index in range
  that has a service gets none.
\<close>

theorem reconcile_services_creates:
  assumes "ReconcileServices jc ports job services rtype spec h = (None, h')"
    and "replica_selector (World jc) (ToLower rtype)" "GetPortFromJob jc spec = Inr port"
    and "\<forall>s \<in> set services. small_index (svc_Labels s) \<and> nonneg_index (svc_Labels s)"
    and "Replicas spec = Some n" "0 \<le> n"
  shows "\<exists>indices svcs. created_services h' = created_services h @ svcs \<and>
    list_all2 (replica_service jc ports job (ToLower rtype) port) indices svcs \<and> distinct indices \<and>
    (\<forall>i. 0 \<le> i \<and> i < n \<longrightarrow> (i \<in> set indices \<longleftrightarrow> replica_services services (ToLower rtype) i = []))"
proof -
  let ?ss = "filter (\<lambda>s. svc_Labels s ReplicaTypeLabel = Some (ToLower rtype)) services"
  have "\<forall>s \<in> set ?ss. small_index (svc_Labels s) \<and> nonneg_index (svc_Labels s)" using assms(4) by simp
  from service_slices_ok [OF this assms(6)] obtain S where
    S: "GetServiceSlices ?ss n = Inr S" "nat n \<le> length S"
      "\<forall>j < nat n. S ! j = filter (\<lambda>s. index_label (svc_Labels s) = Some (int j)) ?ss" by blast
  with assms filter_services [OF assms(2)] have "service_loop jc ports job rtype spec n 0 S h = (None, h')"
    by (simp add: ReconcileServices_def)
  from service_loop_created [OF this assms(3)] obtain svcs where
    svcs: "created_services h' = created_services h @ svcs"
      "list_all2 (replica_service jc ports job (ToLower rtype) port) (map int (filter (\<lambda>j. S ! j = []) [0..<length S])) svcs"
    by auto
  let ?I = "map int (filter (\<lambda>j. S ! j = []) [0..<length S])"
  have "i \<in> set ?I \<longleftrightarrow> replica_services services (ToLower rtype) i = []" if "0 \<le> i" "i < n" for i
  proof -
    have "S ! nat i = replica_services services (ToLower rtype) i"
      using S(3) that by (simp add: replica_services_def conj_commute)
    moreover have "i \<in> set ?I \<longleftrightarrow> nat i < length S \<and> S ! nat i = []" using that by (auto simp: image_iff)
    ultimately show ?thesis using S(2) that by auto
  qed
  moreover have "distinct ?I" by (simp add: distinct_map)
  ultimately show ?thesis using svcs by blast
qed

lemma sample_services:
  "\<exists>h'. ReconcileServices jc0 Map.empty job0 [] ''Worker'' (tf_spec 1) [] = (None, h')"
  by (simp add: ReconcileServices_def GetServiceSlices_def reconcile_service_slice_def CreateNewService_def
      tf_spec_port CreateService_def CreateServicesWithControllerRef_def validateControllerRef_def createServices_def
      getServiceFromTemplate_def GenOwnerReference_def api_write_def MergeMap_def service_labels_def
      EnableHostNetwork_def Let_def sample_strings)

theorem reconcile_services_creates_witness:
  "\<exists>h' svc. ReconcileServices jc0 Map.empty job0 [] ''Worker'' (tf_spec 1) [] = (None, h') \<and>
     svc \<in> set (created_services h') \<and> svc_Name svc = ''mnist-worker-0'' \<and> map sp_TargetPort (svc_Ports svc) = [2222]"
proof -
  from sample_services obtain h' where
    run: "ReconcileServices jc0 Map.empty job0 [] ''Worker'' (tf_spec 1) [] = (None, h')" by blast
  from reconcile_services_creates [OF run, of 2222 1] obtain indices svcs where
    S: "created_services h' = svcs"
      "list_all2 (replica_service jc0 Map.empty job0 ''worker'' 2222) indices svcs"
      "\<forall>i. 0 \<le> i \<and> i < 1 \<longrightarrow> (i \<in> set indices \<longleftrightarrow> replica_services [] ''worker'' i = [])"
    by (auto simp: tf_spec_port sample_strings)
  from S(3) have "0 \<in> set indices" by (simp add: replica_services_def)
  then obtain k where k: "k < length indices" "indices ! k = 0" by (auto simp: in_set_conv_nth)
  with S(2) have r: "replica_service jc0 Map.empty job0 ''worker'' 2222 0 (svcs ! k)" and "k < length svcs"
    by (auto simp: list_all2_conv_all_nth)
  then have "svcs ! k \<in> set (created_services h')" using S(1) by simp
  moreover from r have "svc_Name (svcs ! k) = ''mnist-worker-0''" "map sp_TargetPort (svc_Ports (svcs ! k)) = [2222]"
    by (simp_all add: replica_service_def sample_strings GenGeneralName_def slash_to_dash_def EnableHostNetwork_def
        HostNetworkMode_def)
  ultimately show ?thesis using run by (intro exI [of _ h'] exI [of _ "svcs ! k"] conjI)
qed

text \<open>
  After a scale-in that leaves a gap the services are not only removed: when one replica is
  expected and the services of the indices 0 and 2 exist, a new service is created for index 1,
  which is out of range.
\<close>

theorem service_created_out_of_range:
  "\<exists>h' svc. ReconcileServices jc0 Map.empty job0 [svc0 ''worker'' ''0'', svc0 ''worker'' ''2''] ''Worker'' (tf_spec 1) []
      = (None, h') \<and> svc \<in> set (created_services h') \<and> svc_Labels svc ReplicaIndexLabel = Some ''1''"
proof -
  let ?ss = "[svc0 ''worker'' ''0'', svc0 ''worker'' ''2'']"
  have two: "Atoi ''2'' = Some 2" "i64 3 = 3" by code_simp+
  have "GetServiceSlices ?ss 1 = Inr [[svc0 ''worker'' ''0''], [], [svc0 ''worker'' ''2'']]"
    by (simp add: GetServiceSlices_def index_label_def sample_strings two put_slice_def resize_def numeral_3_eq_3 numeral_2_eq_2)
  then show ?thesis
    by (simp add: ReconcileServices_def sample_strings reconcile_service_slice_def drop_out_of_range_def
        retarget_service_def EnableHostNetwork_def HostNetworkMode_def CreateNewService_def tf_spec_port
        CreateService_def CreateServicesWithControllerRef_def validateControllerRef_def createServices_def
        getServiceFromTemplate_def GenOwnerReference_def api_write_def emit_def MergeMap_def service_labels_def Let_def)
qed

text \<open>
  A negative replica index on a single service stops the reconciliation of every service of the
  replica type with a panic, where the pod loop skips such a pod.
\<close>

theorem negative_service_index_panics:
  assumes "s \<in> set services" "svc_Labels s ReplicaTypeLabel = Some (ToLower rtype)"
    "index_label (svc_Labels s) = Some i" "i < 0"
    and "replica_selector (World jc) (ToLower rtype)" "Replicas spec = Some n"
  shows "\<exists>msg. ReconcileServices jc ports job services rtype spec h = (Some (Panic msg), h)"
proof -
  let ?ss = "filter (\<lambda>s. svc_Labels s ReplicaTypeLabel = Some (ToLower rtype)) services"
  have "\<exists>msg. service_slices_loop ss n S = Inl (Panic msg)" if "s \<in> set ss" for ss S
    using that
  proof (induction ss n S rule: service_slices_loop.induct)
    case (2 t ss n S)
    then show ?case
      using assms(3,4) by (auto simp: index_panic_def makeslice_panic_def split: option.splits)
  qed simp
  then have "\<exists>msg. GetServiceSlices ?ss n = Inl (Panic msg)"
    using assms(1,2) by (auto simp: GetServiceSlices_def makeslice_panic_def)
  with assms(6) filter_services [OF assms(5)] show ?thesis by (auto simp: ReconcileServices_def)
qed

theorem negative_service_index_panics_witness:
  "\<exists>msg. ReconcileServices jc0 Map.empty job0 [svc0 ''worker'' ''0'', svc0 ''worker'' ''-1''] ''Worker'' (tf_spec 1) []
     = (Some (Panic msg), [])"
proof -
  have "Atoi ''-1'' = Some (-1)" by code_simp
  then show ?thesis
    by (intro negative_service_index_panics [where s = "svc0 ''worker'' ''-1''" and n = 1 and i = "-1"])
      (simp_all add: index_label_def sample_strings)
qed

end
