(* ===== verification/Job_Resources.thy ===== *)
theory Job_Resources
  imports Controller_Env
begin

text \<open>
  The other objects a job owns: its cache backend (\<open>checkCache\<close>,
  \<open>addCachePathToContainer\<close>, \<open>updateCacheUsedStatus\<close> of
  \<open>job_controller.go\<close>), the model version it produces and the cron object of a scheduled job
  (\<open>job.go\<close>).
\<close>

subsection \<open>Environment variables and volumes\<close>

definition add_env :: "string \<Rightarrow> string \<Rightarrow> container \<Rightarrow> container" where
  "add_env name value c =
     (if list_ex (\<lambda>(n, v). n = name) (ct_Env c) then c else c\<lparr>ct_Env := ct_Env c @ [(name, EnvValue value)]\<rparr>)"

definition map_containers :: "(container \<Rightarrow> container) \<Rightarrow> pod_template \<Rightarrow> pod_template" where
  "map_containers f t = t\<lparr>pt_Spec := (pt_Spec t)\<lparr>ps_Containers := map f (ps_Containers (pt_Spec t))\<rparr>\<rparr>"

definition map_templates :: "(pod_template \<Rightarrow> pod_template) \<Rightarrow> replica_specs \<Rightarrow> replica_specs" where
  "map_templates f specs = map (\<lambda>(t, s). (t, s\<lparr>Template := f (Template s)\<rparr>)) specs"

definition KubeDLModelPath :: string where "KubeDLModelPath = ''KUBEDL_MODEL_PATH''"
definition KUBEDL_CACHE_NAME :: string where "KUBEDL_CACHE_NAME = ''KUBEDL_CACHE_NAME''"

definition addModelPathEnv :: "storage_provider option \<Rightarrow> replica_specs \<Rightarrow> replica_specs" where
  "addModelPathEnv provider specs =
     (case provider of
        None \<Rightarrow> specs
      | Some p \<Rightarrow>
          map_templates (\<lambda>t. AddModelVolumeToPodSpec p (map_containers (add_env KubeDLModelPath (GetModelMountPath p)) t))
            specs)"

definition addCacheVolumeToPodSpec :: "string \<Rightarrow> string \<Rightarrow> pod_template \<Rightarrow> pod_template" where
  "addCacheVolumeToPodSpec pvcName mountPath t =
     (let t1 = t\<lparr>pt_Spec := (pt_Spec t)\<lparr>ps_Volumes := ps_Volumes (pt_Spec t) @ [(''cachevolume'', PVCSource pvcName)]\<rparr>\<rparr> in
      map_containers (\<lambda>c. c\<lparr>ct_VolumeMounts := ct_VolumeMounts c @ [\<lparr>vm_Name = ''cachevolume'', vm_MountPath = mountPath, vm_SubPath = []\<rparr>]\<rparr>) t1)"

subsection \<open>The cache backend\<close>

definition createCache :: "outside \<Rightarrow> string \<Rightarrow> string \<Rightarrow> CacheBackendSpec \<Rightarrow> hist \<Rightarrow> go_error option \<times> hist" where
  "createCache W name namespace spec h =
     api_write W (CreateCacheCall \<lparr>cb_Name = name, cb_Namespace = namespace, cb_Spec = spec,
       cb_CacheStatus = ''CacheCreating'', cb_UsedBy = [name]\<rparr>) h"

definition checkCache :: "outside \<Rightarrow> job_meta \<Rightarrow> CacheBackendSpec \<Rightarrow> hist \<Rightarrow> go_error option \<times> hist" where
  "checkCache W job spec h =
     (let name = CacheBackendName_spec spec; ns = jm_Namespace job; h1 = emit (GetCache ns name) h in
      case out_get_cache W h ns name of
        Inr cb \<Rightarrow>
          (if jm_Name job \<in> set (cb_UsedBy cb) then (None, h1)
           else api_write W (UpdateCacheStatus (cb\<lparr>cb_UsedBy := cb_UsedBy cb @ [jm_Name job]\<rparr>)) h1)
      | Inl e \<Rightarrow>
          (if IsNotFound e
           then (if cbs_Dataset spec = None \<or> cbs_CacheEngine spec = None then (Some e, h1)
                 else createCache W name ns spec h1)
           else (Some e, h1)))"

definition addCachePathToContainer ::
    "outside \<Rightarrow> job_meta \<Rightarrow> CacheBackendSpec \<Rightarrow> replica_specs \<Rightarrow> hist \<Rightarrow> replica_specs res" where
  "addCachePathToContainer W job cache specs h =
     (let name = CacheBackendName_spec cache; ns = jm_Namespace job;
          h1 = emit (GetCache ns name) h; h2 = emit (GetPVC ns name) h1 in
      case out_get_pvc W h1 ns name of
        None \<Rightarrow>
          (Inr (map_templates
             (\<lambda>t. addCacheVolumeToPodSpec name (cbs_MountPath cache) (map_containers (add_env KUBEDL_CACHE_NAME name) t))
             specs), h2)
      | Some e \<Rightarrow> (Inl e, h2))"

text \<open>
  \<open>slices.Index\<close> finds the first entry of the job; \<open>append\<close> of the parts before and
  after it removes this one entry.
\<close>

fun remove_first :: "string \<Rightarrow> string list \<Rightarrow> string list" where
  "remove_first x [] = []"
| "remove_first x (y # ys) = (if y = x then ys else y # remove_first x ys)"

definition updateCacheUsedStatus :: "outside \<Rightarrow> job_meta \<Rightarrow> CacheBackendSpec \<Rightarrow> hist \<Rightarrow> go_error option \<times> hist" where
  "updateCacheUsedStatus W job spec h =
     (let name = CacheBackendName_spec spec; ns = jm_Namespace job; h1 = emit (GetCache ns name) h in
      case out_get_cache W h ns name of
        Inl e \<Rightarrow> (Some e, h1)
      | Inr cb \<Rightarrow>
          (if jm_Name job \<in> set (cb_UsedBy cb)
           then api_write W (UpdateCacheStatus (cb\<lparr>cb_UsedBy := remove_first (jm_Name job) (cb_UsedBy cb)\<rparr>)) h1
           else (None, h1)))"

subsection \<open>The model version\<close>

definition GetJobModelVersionName :: "job_meta \<Rightarrow> go_error + string" where
  "GetJobModelVersionName job =
     (if length (jm_UID job) < 5 then Inl (Panic ''slice bounds out of range'')
      else Inr (''mv-'' @ jm_Name job @ ''-'' @ take 5 (jm_UID job)))"

text \<open>
  \<open>createModelVersion\<close>: an existing version of this name is kept; a new one records the job,
  and the node of a local storage that names a node is replaced by the node the pods wrote the
  model on (\<open>node\<close>, the answer of \<open>GetNodeForModelOutput\<close>).
\<close>

text \<open>The node of the model is asked for only if the version names a node.\<close>

definition model_node :: "string option \<Rightarrow> go_error + string \<Rightarrow> go_error + string option" where
  "model_node local node =
     (case local of
        None \<Rightarrow> Inr None
      | Some n \<Rightarrow> if n \<noteq> [] then (case node of Inl e \<Rightarrow> Inl e | Inr m \<Rightarrow> Inr (Some m)) else Inr (Some n))"

definition createModelVersion ::
    "outside \<Rightarrow> job_meta \<Rightarrow> model_version \<Rightarrow> go_error + string \<Rightarrow> JobStatus \<Rightarrow> hist \<Rightarrow> JobStatus res" where
  "createModelVersion W job mv node st h =
     (case GetJobModelVersionName job of
        Inl e \<Rightarrow> (Inl e, h)
      | Inr name \<Rightarrow>
          (let h1 = emit (GetModelVersion (jm_Namespace job) name) h in
           case out_get_model_version W h (jm_Namespace job) name of
             None \<Rightarrow> (Inr st, h1)
           | Some e \<Rightarrow>
               (if \<not> IsNotFound e then (Inl e, h1)
                else case model_node (mv_LocalNode mv) node of
                       Inl e1 \<Rightarrow> (Inl e1, h1)
                     | Inr local \<Rightarrow>
                         (let mv1 = mv\<lparr>mv_Namespace := jm_Namespace job, mv_Name := name, mv_CreatedBy := jm_Name job,
                                       mv_LocalNode := local\<rparr>
                          in guarded (api_write W (CreateModelVersionCall mv1) h1)
                               (\<lambda>h2. (Inr (st\<lparr>ModelVersionName := name\<rparr>), h2))))))"

subsection \<open>Scheduled jobs\<close>

definition resetNonInheritableMetaFields :: "job_meta \<Rightarrow> job_meta" where
  "resetNonInheritableMetaFields m = m\<lparr>jm_Name := [], jm_Namespace := [], jm_UID := [], jm_Generation := 0\<rparr>"

definition createCronInstance :: "outside \<Rightarrow> job_meta \<Rightarrow> CronPolicy \<Rightarrow> go_error + cron_object" where
  "createCronInstance W job policy =
     (case out_encode W (resetNonInheritableMetaFields job) of
        Inl e \<Rightarrow> Inl e
      | Inr raw \<Rightarrow>
          Inr \<lparr>cro_Name = jm_Name job, cro_Namespace = jm_Namespace job,
               cro_Spec = \<lparr>crs_Policy = policy, crs_Kind = jm_Kind job, crs_APIVersion = jm_APIVersion job,
                           crs_Workload = raw\<rparr>\<rparr>)"

definition updateCronJob :: "outside \<Rightarrow> cron_object \<Rightarrow> cron_object \<Rightarrow> hist \<Rightarrow> go_error option \<times> hist" where
  "updateCronJob W newInstance old h =
     (if cro_Spec old \<noteq> cro_Spec newInstance
      then api_write W (PatchCronCall old (old\<lparr>cro_Spec := cro_Spec newInstance\<rparr>)) h
      else (None, h))"

definition ReconcileCron :: "outside \<Rightarrow> job_meta \<Rightarrow> RunPolicy \<Rightarrow> hist \<Rightarrow> go_error option \<times> hist" where
  "ReconcileCron W job rp h =
     (case rp_CronPolicy rp of
        None \<Rightarrow> (None, h)
      | Some policy \<Rightarrow>
          (let h1 = emit (GetCron (jm_Namespace job) (jm_Name job)) h in
           case out_get_cron W h (jm_Namespace job) (jm_Name job) of
             Inl e \<Rightarrow>
               (if IsNotFound e
                then (case createCronInstance W job policy of
                        Inl e1 \<Rightarrow> (Some e1, h1)
                      | Inr instance_cron \<Rightarrow> api_write W (CreateCronCall instance_cron) h1)
                else (Some e, h1))
           | Inr old \<Rightarrow>
               (case createCronInstance W job policy of
                  Inl e1 \<Rightarrow> (Some e1, h1)
                | Inr instance_cron \<Rightarrow> updateCronJob W instance_cron old h1)))"

subsection \<open>Properties\<close>

lemma remove_first_count: "count_list (remove_first x xs) x = count_list xs x - 1"
  by (induction xs) auto

lemma remove_first_snoc: "x \<notin> set xs \<Longrightarrow> remove_first x (xs @ [x]) = xs"
  by (induction xs) auto

lemma add_env_idem: "add_env n v (add_env n v' c) = add_env n v' c"
  by (auto simp: add_env_def list_ex_iff)

text \<open>
  Injecting the model path is idempotent as far as the environment goes: a second
  reconciliation adds no second variable, and a variable set by the user is kept.
\<close>

theorem model_env_idempotent:
  "map_containers (add_env KubeDLModelPath q) (map_containers (add_env KubeDLModelPath p) t) =
   map_containers (add_env KubeDLModelPath p) t"
  by (simp add: map_containers_def add_env_idem)

text \<open>
  A job is entered once into the users of a cache backend that exists, and what
  \<open>updateCacheUsedStatus\<close> writes when the job ends is the list before the job was entered.
\<close>

theorem cache_use_roundtrip:
  assumes "out_get_cache W h (jm_Namespace job) name = Inr cb" "jm_Name job \<notin> set (cb_UsedBy cb)"
    and "CacheBackendName_spec spec = name"
    and "cb1 = cb\<lparr>cb_UsedBy := cb_UsedBy cb @ [jm_Name job]\<rparr>"
    and "out_get_cache W h2 (jm_Namespace job) name = Inr cb1"
  shows "snd (checkCache W job spec h) = h @ [GetCache (jm_Namespace job) name, UpdateCacheStatus cb1] \<and>
    snd (checkCache W job spec h2) = h2 @ [GetCache (jm_Namespace job) name] \<and>
    snd (updateCacheUsedStatus W job spec h2) = h2 @ [GetCache (jm_Namespace job) name, UpdateCacheStatus cb]"
  using assms
  by (simp add: checkCache_def updateCacheUsedStatus_def Let_def emit_def api_write_def remove_first_snoc)

definition cache0 :: cache_backend where
  "cache0 = \<lparr>cb_Name = ''c'', cb_Namespace = ''default'',
     cb_Spec = \<lparr>CacheBackendName_spec = ''c'', cbs_MountPath = ''/data'', cbs_Dataset = None, cbs_CacheEngine = None\<rparr>,
     cb_CacheStatus = [], cb_UsedBy = [''other'']\<rparr>"

theorem cache_use_roundtrip_witness:
  "snd (updateCacheUsedStatus (quiet_world\<lparr>out_get_cache := \<lambda>h ns n.
      Inr (if h = [] then cache0 else cache0\<lparr>cb_UsedBy := [''other'', ''mnist'']\<rparr>)\<rparr>) job0 (cb_Spec cache0)
      [GetCache ''default'' ''c'']) =
   [GetCache ''default'' ''c'', GetCache ''default'' ''c'', UpdateCacheStatus cache0]"
  using cache_use_roundtrip [of "quiet_world\<lparr>out_get_cache := \<lambda>h ns n.
      Inr (if h = [] then cache0 else cache0\<lparr>cb_UsedBy := [''other'', ''mnist'']\<rparr>)\<rparr>" "[]" job0 "''c''" cache0
      "cb_Spec cache0" "cache0\<lparr>cb_UsedBy := [''other'', ''mnist'']\<rparr>" "[GetCache ''default'' ''c'']"]
  by (simp add: cache0_def)

text \<open>
  A cache backend that \<open>checkCache\<close> creates for a job does not list the job among its
  users but the backend itself, unless both have the same name; so ending the job leaves that
  entry in place.
\<close>

theorem created_cache_lists_itself:
  assumes "out_get_cache W h (jm_Namespace job) (CacheBackendName_spec spec) = Inl NotFound"
    and "cbs_Dataset spec = Some d" "cbs_CacheEngine spec = Some e"
    and "jm_Name job \<noteq> CacheBackendName_spec spec"
  shows "\<exists>cb. CreateCacheCall cb \<in> set (snd (checkCache W job spec h)) \<and>
    cb_UsedBy cb = [CacheBackendName_spec spec] \<and> jm_Name job \<notin> set (cb_UsedBy cb) \<and>
    (\<forall>h2. out_get_cache W h2 (jm_Namespace job) (CacheBackendName_spec spec) = Inr cb \<longrightarrow>
      updateCacheUsedStatus W job spec h2 = (None, h2 @ [GetCache (jm_Namespace job) (CacheBackendName_spec spec)]))"
  using assms
  by (auto simp: checkCache_def createCache_def updateCacheUsedStatus_def Let_def emit_def api_write_def)

theorem created_cache_lists_itself_witness:
  "\<exists>cb. CreateCacheCall cb \<in> set (snd (checkCache quiet_world job0
      ((cb_Spec cache0)\<lparr>cbs_Dataset := Some [], cbs_CacheEngine := Some []\<rparr>) [])) \<and> cb_UsedBy cb = [''c'']"
  using created_cache_lists_itself [of quiet_world "[]" job0 "(cb_Spec cache0)\<lparr>cbs_Dataset := Some [], cbs_CacheEngine := Some []\<rparr>" "[]" "[]"]
  by (auto simp: cache0_def quiet_world_def)

text \<open>
  The cron object of a scheduled job follows the job: a missing one is created with the policy
  of the job, an existing one with another specification is patched to exactly that, and one that
  agrees is left alone, so reconciling twice writes once.
\<close>

theorem cron_follows_job:
  assumes "rp_CronPolicy rp = Some policy" "createCronInstance W job policy = Inr want"
    and "out_get_cron W h (jm_Namespace job) (jm_Name job) = r"
  shows "crs_Policy (cro_Spec want) = policy \<and>
    snd (ReconcileCron W job rp h) = h @ [GetCron (jm_Namespace job) (jm_Name job)] @
      (case r of
         Inl e \<Rightarrow> if e = NotFound then [CreateCronCall want] else []
       | Inr old \<Rightarrow> if cro_Spec old = cro_Spec want then [] else [PatchCronCall old (old\<lparr>cro_Spec := cro_Spec want\<rparr>)])"
  using assms
  by (auto simp: ReconcileCron_def updateCronJob_def createCronInstance_def Let_def emit_def api_write_def
      split: sum.splits)

theorem cron_follows_job_witness:
  "\<exists>want. snd (ReconcileCron quiet_world job0 (run_policy0\<lparr>rp_CronPolicy := Some
      \<lparr>cp_Schedule = ''@daily'', cp_ConcurrencyPolicy = AllowConcurrent, cp_Suspend = None, cp_Deadline = None,
       cp_HistoryLimit = None\<rparr>\<rparr>) []) = [GetCron ''default'' ''mnist'', CreateCronCall want]"
  using cron_follows_job [of "run_policy0\<lparr>rp_CronPolicy := Some
      \<lparr>cp_Schedule = ''@daily'', cp_ConcurrencyPolicy = AllowConcurrent, cp_Suspend = None, cp_Deadline = None,
       cp_HistoryLimit = None\<rparr>\<rparr>" _ quiet_world job0 _ "[]" "Inl NotFound"]
  by (simp add: createCronInstance_def quiet_world_def resetNonInheritableMetaFields_def)

end
