(* ===== verification/Job_Policies.thy ===== *)
theory Job_Policies
  imports Controller_Env
begin

text \<open>
  The run policy of a job (\<open>job.go\<close>): cleaning up pods and services, the active deadline,
  the backoff limit, removal after the time to live, and which replicas get a service.
\<close>

record Result =
  Requeue :: bool
  RequeueAfter :: int

definition no_result :: Result where "no_result = \<lparr>Requeue = False, RequeueAfter = 0\<rparr>"

definition second :: int where "second = 10 ^ 9"

text \<open>\<open>time.Time.Sub\<close> saturates at the range of a duration.\<close>

definition sat64 :: "int \<Rightarrow> int" where
  "sat64 x = (if x < - (2 ^ 63) then - (2 ^ 63) else if x \<ge> 2 ^ 63 then 2 ^ 63 - 1 else x)"

subsection \<open>Cleaning up\<close>

fun delete_loop :: "outside \<Rightarrow> CleanPodPolicy \<Rightarrow> pod list \<Rightarrow> hist \<Rightarrow> go_error option \<times> hist" where
  "delete_loop W policy [] h = (None, h)"
| "delete_loop W policy (p # ps) h =
     (if policy = CleanPodPolicyRunning \<and> pod_Phase p \<noteq> PodRunning then delete_loop W policy ps h
      else case DeletePod W (pod_Namespace p) (pod_Name p) h of
             (Some e, h1) \<Rightarrow> (Some e, h1)
           | (None, h1) \<Rightarrow>
               (case DeleteService W (pod_Namespace p) (pod_Name p) h1 of
                  (Some e, h2) \<Rightarrow> (Some e, h2)
                | (None, h2) \<Rightarrow> delete_loop W policy ps h2))"

definition deletePodsAndServices :: "outside \<Rightarrow> RunPolicy \<Rightarrow> pod list \<Rightarrow> hist \<Rightarrow> go_error option \<times> hist" where
  "deletePodsAndServices W rp pods h =
     (if pods = [] then (None, h)
      else case rp_CleanPodPolicy rp of
             None \<Rightarrow> (Some (Panic ''nil CleanPodPolicy''), h)
           | Some policy \<Rightarrow>
               if policy = CleanPodPolicyNone then (None, h) else delete_loop W policy pods h)"

subsection \<open>Limits\<close>

definition pastActiveDeadline :: "RunPolicy \<Rightarrow> JobStatus \<Rightarrow> time \<Rightarrow> bool" where
  "pastActiveDeadline rp st now =
     (case (rp_ActiveDeadlineSeconds rp, StartTime st) of
        (Some secs, Some start) \<Rightarrow> sat64 (now - start) \<ge> i64 (secs * second)
      | _ \<Rightarrow> False)"

fun add_restarts :: "int \<Rightarrow> container_status list \<Rightarrow> int" where
  "add_restarts result [] = result"
| "add_restarts result (s # ss) = add_restarts (i32 (result + cs_RestartCount s)) ss"

fun pod_restarts :: "int \<Rightarrow> pod list \<Rightarrow> int" where
  "pod_restarts result [] = result"
| "pod_restarts result (p # ps) =
     (if pod_Phase p \<noteq> PodRunning then pod_restarts result ps
      else pod_restarts (add_restarts (add_restarts result (pod_InitContainerStatuses p)) (pod_ContainerStatuses p)) ps)"

fun type_restarts :: "outside \<Rightarrow> pod list \<Rightarrow> int \<Rightarrow> replica_specs \<Rightarrow> go_error + int" where
  "type_restarts W pods result [] = Inr result"
| "type_restarts W pods result ((rtype, spec) # specs) =
     (if RestartPolicy spec \<noteq> RestartPolicyOnFailure \<and> RestartPolicy spec \<noteq> RestartPolicyAlways
      then type_restarts W pods result specs
      else case FilterPodsForReplicaType W pods (ToLower rtype) of
             Inl e \<Rightarrow> Inl e
           | Inr ps \<Rightarrow> type_restarts W pods (pod_restarts result ps) specs)"

definition pastBackoffLimit :: "outside \<Rightarrow> RunPolicy \<Rightarrow> replica_specs \<Rightarrow> pod list \<Rightarrow> go_error + bool" where
  "pastBackoffLimit W rp specs pods =
     (case rp_BackoffLimit rp of
        None \<Rightarrow> Inr False
      | Some limit \<Rightarrow>
          (case type_restarts W pods 0 specs of
             Inl e \<Rightarrow> Inl e
           | Inr result \<Rightarrow> Inr (if limit = 0 then result > 0 else result \<ge> limit)))"

subsection \<open>Time to live\<close>

text \<open>The workloads delete a job in the same way.\<close>

definition DeleteJob :: "outside \<Rightarrow> job_meta \<Rightarrow> hist \<Rightarrow> go_error option \<times> hist" where
  "DeleteJob W job h =
     (case api_write W (DeleteJobCall job) h of
        (Some e, h1) \<Rightarrow> (Some e, emit (Event ''Warning'' ''FailedDeleteJob'') h1)
      | (None, h1) \<Rightarrow> (None, emit (Event ''Normal'' ''SuccessfulDeleteJob'') h1))"

definition cleanupJob ::
    "outside \<Rightarrow> RunPolicy \<Rightarrow> JobStatus \<Rightarrow> job_meta \<Rightarrow> hist \<Rightarrow> (Result \<times> go_error option) \<times> hist" where
  "cleanupJob W rp st job h =
     (let currentTime = out_now W h in
      case rp_TTLSecondsAfterFinished rp of
        None \<Rightarrow> ((no_result, None), h)
      | Some ttl \<Rightarrow>
          (case CompletionTime st of
             None \<Rightarrow> ((no_result, Some (Err ''cleanup Job, but job has CompletionTime not set'')), h)
           | Some completed \<Rightarrow>
               (let deleteTime = completed + i64 (second * ttl) in
                if currentTime > deleteTime
                then (case api_write W (DeleteJobCall job) h of
                        (err, h1) \<Rightarrow> ((no_result, err), h1))
                else ((\<lparr>Requeue = True, RequeueAfter = sat64 (deleteTime - currentTime)\<rparr>, None), h))))"

subsection \<open>Services\<close>

definition shouldCreateService :: "string \<Rightarrow> ReplicaType \<Rightarrow> bool" where
  "shouldCreateService kind rtype =
     (if (kind = ''PyTorchJob'' \<and> rtype \<noteq> ''Master'') \<or> kind = ''MPIJob'' \<or> kind = ''ElasticDLJob'' \<or>
         kind = ''ElasticBatchJob''
      then False else True)"

subsection \<open>The restart count\<close>

definition restart_counts :: "pod \<Rightarrow> int" where
  "restart_counts p = sum_list (map cs_RestartCount (pod_InitContainerStatuses p @ pod_ContainerStatuses p))"

lemma add_restarts_eq: "add_restarts (i32 a) ss = i32 (a + sum_list (map cs_RestartCount ss))"
proof (induction ss arbitrary: a)
  case (Cons s ss)
  from Cons [of "a + cs_RestartCount s"] show ?case by (simp add: algebra_simps)
qed simp

lemma pod_restarts_eq:
  "pod_restarts (i32 a) ps = i32 (a + sum_list (map restart_counts (filter (\<lambda>p. pod_Phase p = PodRunning) ps)))"
proof (induction ps arbitrary: a)
  case (Cons p ps)
  from Cons [of "a + restart_counts p"] Cons [of a] show ?case
    by (simp add: add_restarts_eq restart_counts_def algebra_simps)
qed simp

definition restarting_type :: "ReplicaSpec \<Rightarrow> bool" where
  "restarting_type spec \<longleftrightarrow> RestartPolicy spec = RestartPolicyOnFailure \<or> RestartPolicy spec = RestartPolicyAlways"

text \<open>
  The restarts that count against the backoff limit: those of the containers of running pods
  whose replica type restarts on failure or always.
\<close>

definition counted_restarts :: "pod list \<Rightarrow> replica_specs \<Rightarrow> int" where
  "counted_restarts pods specs =
     sum_list (map (\<lambda>(rtype, spec). if restarting_type spec
         then sum_list (map restart_counts (filter (\<lambda>p. pod_Labels p ReplicaTypeLabel = Some (ToLower rtype) \<and>
           pod_Phase p = PodRunning) pods)) else 0) specs)"

definition selects :: "outside \<Rightarrow> replica_specs \<Rightarrow> bool" where
  "selects W specs \<longleftrightarrow> list_all (\<lambda>(rtype, spec). replica_selector W (ToLower rtype)) specs"

lemma type_restarts_eq:
  "selects W specs \<Longrightarrow> type_restarts W pods (i32 a) specs = Inr (i32 (a + counted_restarts pods specs))"
proof (induction specs arbitrary: a)
  case Nil
  then show ?case by (simp add: counted_restarts_def)
next
  case (Cons x specs)
  obtain rtype spec where x [simp]: "x = (rtype, spec)" by force
  let ?ps = "filter (\<lambda>p. pod_Labels p ReplicaTypeLabel = Some (ToLower rtype)) pods"
  from Cons.prems have sel: "replica_selector W (ToLower rtype)" and rest: "selects W specs"
    by (simp_all add: selects_def)
  show ?case
    using Cons.IH [OF rest, of a]
      Cons.IH [OF rest, of "a + sum_list (map restart_counts (filter (\<lambda>p. pod_Phase p = PodRunning) ?ps))"]
    by (simp add: filter_pods [OF sel] pod_restarts_eq restarting_type_def counted_restarts_def algebra_simps)
qed

text \<open>
  C14. A job without a backoff limit never passes it. With one it passes exactly when the containers of
  the running pods of replica types that restart on failure or always have restarted at least as often as
  the limit says (reaching the limit is enough), and for limit 0 at least once, whatever the order of
  the replica types; restarts of pods that are not running and of other replica types do not count. The
  server selects the pods of a type by its label, and the number of restarts fits into 32 bits.
\<close>

theorem backoff_limit_iff:
  assumes "selects W specs" "in32 (counted_restarts pods specs)"
  shows "pastBackoffLimit W rp specs pods =
    Inr (case rp_BackoffLimit rp of
           None \<Rightarrow> False
         | Some limit \<Rightarrow> if limit = 0 then 0 < counted_restarts pods specs else limit \<le> counted_restarts pods specs)"
  using assms type_restarts_eq [OF assms(1), of pods 0] i32_id [OF assms(2)]
  by (simp add: pastBackoffLimit_def split: option.split)

definition restarted_pod :: "int \<Rightarrow> pod" where
  "restarted_pod n = (pod0 ''worker'' ''0'' PodRunning)\<lparr>pod_ContainerStatuses :=
     [\<lparr>cs_Name = ''tensorflow'', cs_Terminated = None, cs_Running = True, cs_RestartCount = n\<rparr>]\<rparr>"

theorem backoff_limit_iff_witness:
  "pastBackoffLimit quiet_world (run_policy0\<lparr>rp_BackoffLimit := Some 3\<rparr>)
     [(''Worker'', (dag_spec 1 [])\<lparr>RestartPolicy := ''OnFailure''\<rparr>)] [restarted_pod 3] = Inr True"
proof -
  have "counted_restarts [restarted_pod 3] [(''Worker'', (dag_spec 1 [])\<lparr>RestartPolicy := ''OnFailure''\<rparr>)] = 3"
    by (simp add: counted_restarts_def restarting_type_def restart_policy_defs restarted_pod_def restart_counts_def
        sample_strings)
  then show ?thesis
    using backoff_limit_iff [of quiet_world "[(''Worker'', (dag_spec 1 [])\<lparr>RestartPolicy := ''OnFailure''\<rparr>)]" "[restarted_pod 3]"
        "run_policy0\<lparr>rp_BackoffLimit := Some 3\<rparr>"]
    by (simp add: selects_def in32_def)
qed

subsection \<open>Which pods are cleaned up\<close>

definition cleaned :: "CleanPodPolicy \<Rightarrow> pod \<Rightarrow> bool" where
  "cleaned policy p \<longleftrightarrow> \<not> (policy = CleanPodPolicyRunning \<and> pod_Phase p \<noteq> PodRunning)"

lemma extends_DeletePod_eq: "DeletePod W ns n h = (e, h') \<Longrightarrow> extends h h'"
  by (metis DeletePod_extends snd_conv)

lemma extends_DeleteService_eq: "DeleteService W ns n h = (e, h') \<Longrightarrow> extends h h'"
  by (metis DeleteService_extends snd_conv)

lemma delete_loop_extends: "delete_loop W policy ps h = (e, h') \<Longrightarrow> extends h h'"
proof (induction W policy ps h arbitrary: e h' rule: delete_loop.induct)
  case (2 W policy p ps h)
  show ?case
  proof (cases "policy = CleanPodPolicyRunning \<and> pod_Phase p \<noteq> PodRunning")
    case True
    with 2(1) [OF True, of e h'] 2(3) show ?thesis by simp
  next
    case False
    obtain e1 h1 where D: "DeletePod W (pod_Namespace p) (pod_Name p) h = (e1, h1)" by force
    obtain e2 h2 where S: "DeleteService W (pod_Namespace p) (pod_Name p) h1 = (e2, h2)" by force
    from 2(2) [OF False D [symmetric]] 2(3) False D S show ?thesis
      by (auto split: option.splits dest!: extends_DeletePod_eq extends_DeleteService_eq intro: extends_trans)
  qed
qed simp

lemma DeletePod_first: "\<exists>cs. snd (DeletePod W ns n h) = h @ GetPod ns n # cs"
  by (auto simp: DeletePod_def emit_def api_write_def remove_finalizer_def Let_def
      split: sum.splits option.splits)

lemma DeleteService_first: "\<exists>cs. snd (DeleteService W ns n h) = h @ GetService ns n # cs"
  by (auto simp: DeleteService_def emit_def api_write_def Let_def split: sum.splits option.splits)

lemma delete_loop_all:
  assumes "delete_loop W policy ps h = (None, h')" "p \<in> set ps" "cleaned policy p"
  shows "GetPod (pod_Namespace p) (pod_Name p) \<in> set h' \<and> GetService (pod_Namespace p) (pod_Name p) \<in> set h'"
  using assms
proof (induction ps arbitrary: h)
  case (Cons q ps)
  show ?case
  proof (cases "cleaned policy q")
    case False
    with Cons show ?thesis by (auto simp: cleaned_def)
  next
    case True
    with Cons.prems(1) obtain h1 h2 where
      D: "DeletePod W (pod_Namespace q) (pod_Name q) h = (None, h1)"
      and S: "DeleteService W (pod_Namespace q) (pod_Name q) h1 = (None, h2)"
      and rest: "delete_loop W policy ps h2 = (None, h')"
      by (auto simp: cleaned_def split: prod.splits option.splits)
    show ?thesis
    proof (cases "p = q")
      case True
      from DeletePod_first [of W "pod_Namespace q" "pod_Name q" h] D
      have "GetPod (pod_Namespace p) (pod_Name p) \<in> set h1" using True by auto
      moreover from DeleteService_first [of W "pod_Namespace q" "pod_Name q" h1] S
      have "GetService (pod_Namespace p) (pod_Name p) \<in> set h2" using True by auto
      ultimately show ?thesis
        using extends_DeleteService_eq [OF S] delete_loop_extends [OF rest] by (auto simp: extends_def)
    next
      case False
      with Cons rest show ?thesis by simp
    qed
  qed
qed simp

text \<open>
  Cleaning up a finished job obeys the clean-pod policy: None touches nothing; when the cleanup
  succeeds, every pod (for policy Running: every running pod) has been looked up for deletion
  together with the service of the same name.
\<close>

theorem cleanup_policy:
  assumes "rp_CleanPodPolicy rp = Some policy"
  shows "(policy = CleanPodPolicyNone \<longrightarrow> deletePodsAndServices W rp pods h = (None, h)) \<and>
    (\<forall>h' p. deletePodsAndServices W rp pods h = (None, h') \<and> policy \<noteq> CleanPodPolicyNone \<and> p \<in> set pods \<and>
       (policy = CleanPodPolicyRunning \<longrightarrow> pod_Phase p = PodRunning) \<longrightarrow>
       GetPod (pod_Namespace p) (pod_Name p) \<in> set h' \<and> GetService (pod_Namespace p) (pod_Name p) \<in> set h')"
  using assms delete_loop_all [of W policy pods h]
  by (auto simp: deletePodsAndServices_def cleaned_def split: if_splits)

theorem cleanup_policy_witness:
  "deletePodsAndServices quiet_world (run_policy0\<lparr>rp_CleanPodPolicy := Some CleanPodPolicyNone\<rparr>)
     [pod0 ''worker'' ''0'' PodRunning] [] = (None, [])"
  using cleanup_policy [of "run_policy0\<lparr>rp_CleanPodPolicy := Some CleanPodPolicyNone\<rparr>" CleanPodPolicyNone
      quiet_world "[pod0 ''worker'' ''0'' PodRunning]" "[]"]
  by simp

text \<open>
  A job whose replicas have no services is not cleaned up in one pass: after the first pod to be
  cleaned is deleted, the missing service of the same name is an error, and the remaining pods
  are not touched.
\<close>

theorem cleanup_stops_without_service:
  assumes "rp_CleanPodPolicy rp = Some policy" "policy \<noteq> CleanPodPolicyNone" "cleaned policy p"
    and "DeletePod W (pod_Namespace p) (pod_Name p) h = (None, h1)"
    and "out_get_service W h1 (pod_Namespace p) (pod_Name p) = Inl NotFound"
  shows "deletePodsAndServices W rp (p # ps) h =
    (Some NotFound, h1 @ [GetService (pod_Namespace p) (pod_Name p)])"
  using assms by (auto simp: deletePodsAndServices_def cleaned_def DeleteService_def emit_def)

theorem cleanup_stops_without_service_witness:
  "\<exists>h'. deletePodsAndServices (quiet_world\<lparr>out_get_pod := \<lambda>h ns n. Inr (pod0 ''worker'' ''0'' PodRunning)\<rparr>)
     run_policy0 [pod0 ''worker'' ''0'' PodRunning, pod0 ''worker'' ''1'' PodRunning] [] = (Some NotFound, h')"
  using cleanup_stops_without_service [of run_policy0 CleanPodPolicyRunning "pod0 ''worker'' ''0'' PodRunning"
      "quiet_world\<lparr>out_get_pod := \<lambda>h ns n. Inr (pod0 ''worker'' ''0'' PodRunning)\<rparr>" "[]" _
      "[pod0 ''worker'' ''1'' PodRunning]"]
  by (simp add: run_policy0_def cleaned_def DeletePod_def api_write_def emit_def)

text \<open>
  A finished job with a time to live is deleted once that time has passed since its completion,
  not before: until then the reconciliation asks to be called again exactly when it ends, and
  without a completion time the cleanup is an error.
\<close>

theorem ttl_cleanup:
  assumes "rp_TTLSecondsAfterFinished rp = Some ttl" "in32 ttl" "cleanupJob W rp st job h = ((res, err), h')"
  shows "(CompletionTime st = None \<longrightarrow> (\<exists>msg. err = Some (Err msg)) \<and> h' = h) \<and>
    (\<forall>t. CompletionTime st = Some t \<longrightarrow>
      (DeleteJobCall job \<in> set h' - set h \<longrightarrow> out_now W h > t + ttl * second) \<and>
      (out_now W h \<le> t + ttl * second \<and> t + ttl * second - out_now W h < 2 ^ 63 \<longrightarrow>
        err = None \<and> h' = h \<and> Requeue res \<and> out_now W h + RequeueAfter res = t + ttl * second) \<and>
      (out_now W h > t + ttl * second \<longrightarrow> err = out_write W h (DeleteJobCall job) \<and>
        h' = h @ [DeleteJobCall job]))"
proof -
  have "in64 (second * ttl)" using assms(2) by (simp add: in64_def in32_def second_def)
  then have "i64 (second * ttl) = ttl * second" by (simp add: i64_id mult.commute)
  with assms(1,3) show ?thesis
    by (auto simp: cleanupJob_def Let_def api_write_def sat64_def split: option.splits if_splits)
qed

theorem ttl_cleanup_witness:
  "\<exists>res. cleanupJob quiet_world (run_policy0\<lparr>rp_TTLSecondsAfterFinished := Some 60\<rparr>)
     (status0\<lparr>CompletionTime := Some 0\<rparr>) job0 [] = ((res, None), []) \<and> RequeueAfter res = 60 * 10 ^ 9"
proof -
  obtain res err h' where c: "cleanupJob quiet_world (run_policy0\<lparr>rp_TTLSecondsAfterFinished := Some 60\<rparr>)
     (status0\<lparr>CompletionTime := Some 0\<rparr>) job0 [] = ((res, err), h')" by (metis surj_pair)
  from ttl_cleanup [OF _ _ this, of 60] have "err = None" "h' = []" "RequeueAfter res = 60 * 10 ^ 9"
    by (auto simp: in32_def second_def)
  with c show ?thesis by simp
qed

end
