(* ===== verification/Dag_Sched.thy ===== *)
theory Dag_Sched
  imports Controller_Env
begin

text \<open>
  DAG scheduling (\<open>pkg/job_controller/dag_sched.go\<close>): a replica type waits until every
  upstream replica type has all its pods in the required phase.
\<close>

text \<open>
  \<open>SortPodsByReplicaType\<close>: the collectors are a map from the lower-cased type to the type
  it stands for (a later type overwrites an earlier one with the same lower-cased name); a pod is
  collected under the type its label names.
\<close>

fun collectors :: "ReplicaType list \<Rightarrow> (string \<Rightarrow> ReplicaType option) \<Rightarrow> string \<Rightarrow> ReplicaType option" where
  "collectors [] m = m"
| "collectors (rt # rts) m = collectors rts (m(ToLower rt \<mapsto> rt))"

fun sort_pods_loop ::
    "(string \<Rightarrow> ReplicaType option) \<Rightarrow> pod list \<Rightarrow> (ReplicaType \<Rightarrow> pod list) \<Rightarrow> ReplicaType \<Rightarrow> pod list" where
  "sort_pods_loop cs [] sorted_pods = sorted_pods"
| "sort_pods_loop cs (p # ps) sorted_pods =
     (case cs (sget (pod_Labels p) ReplicaTypeLabel) of
        None \<Rightarrow> sort_pods_loop cs ps sorted_pods
      | Some rt \<Rightarrow> sort_pods_loop cs ps (sorted_pods(rt := sorted_pods rt @ [p])))"

definition SortPodsByReplicaType :: "pod list \<Rightarrow> ReplicaType list \<Rightarrow> ReplicaType \<Rightarrow> pod list" where
  "SortPodsByReplicaType pods rtypes = sort_pods_loop (collectors rtypes Map.empty) pods (\<lambda>_. [])"

text \<open>\<open>phaseCodes\<close>; a phase that is not in the map reads as 0.\<close>

fun phaseCodes :: "pod_phase \<Rightarrow> int" where
  "phaseCodes PodPending = 0"
| "phaseCodes PodRunning = 1"
| "phaseCodes PodSucceeded = 2"
| "phaseCodes PodFailed = 2"
| "phaseCodes PodUnknown = -1"
| "phaseCodes (PodPhaseOther s) = 0"

definition phaseComparator :: "pod_phase \<Rightarrow> pod_phase \<Rightarrow> int" where
  "phaseComparator p1 p2 = phaseCodes p1 - phaseCodes p2"

fun all_reached :: "pod list \<Rightarrow> pod_phase \<Rightarrow> bool" where
  "all_reached [] phase = True"
| "all_reached (p # ps) phase =
     (if phaseComparator (pod_Phase p) phase < 0 then False else all_reached ps phase)"

definition upstreamReplicasReady ::
    "(ReplicaType \<Rightarrow> pod list) \<Rightarrow> replica_specs \<Rightarrow> DAGCondition \<Rightarrow> go_error + bool" where
  "upstreamReplicasReady replicaPods specs cond =
     (case map_of specs (Upstream cond) of
        None \<Rightarrow> Inr True
      | Some spec \<Rightarrow>
          (case Replicas spec of
             None \<Rightarrow> Inl (Panic ''nil Replicas'')
           | Some replicas \<Rightarrow>
               (let pods = replicaPods (Upstream cond) in
                if int (length pods) < replicas then Inr False
                else Inr (all_reached pods (OnPhase cond)))))"

fun dag_loop :: "(ReplicaType \<Rightarrow> pod list) \<Rightarrow> replica_specs \<Rightarrow> DAGCondition list \<Rightarrow> go_error + bool" where
  "dag_loop replicaPods specs [] = Inr True"
| "dag_loop replicaPods specs (c # cs) =
     (case upstreamReplicasReady replicaPods specs c of
        Inl e \<Rightarrow> Inl e
      | Inr False \<Rightarrow> Inr False
      | Inr True \<Rightarrow> dag_loop replicaPods specs cs)"

definition dagConditionsReady :: "replica_specs \<Rightarrow> pod list \<Rightarrow> DAGCondition list \<Rightarrow> go_error + bool" where
  "dagConditionsReady specs pods conds =
     (if conds = [] then Inr True
      else dag_loop (SortPodsByReplicaType pods (ReplicaTypes specs)) specs conds)"

subsection \<open>What readiness means\<close>

lemma collectors_miss:
  "ToLower rt \<notin> ToLower ` set rts \<Longrightarrow> collectors rts m (ToLower rt) = m (ToLower rt)"
  by (induction rts m rule: collectors.induct) auto

lemma collectors_hit:
  "inj_on ToLower (set rts) \<Longrightarrow> distinct rts \<Longrightarrow> rt \<in> set rts \<Longrightarrow> collectors rts m (ToLower rt) = Some rt"
proof (induction rts arbitrary: m)
  case (Cons r rts)
  show ?case
  proof (cases "rt = r")
    case True
    with Cons.prems have "ToLower r \<notin> ToLower ` set rts" by (auto simp: inj_on_def)
    with True show ?thesis by (simp add: collectors_miss)
  next
    case False
    with Cons show ?thesis by simp
  qed
qed simp

lemma collectors_sound: "collectors rts m s = Some rt \<Longrightarrow> m s = Some rt \<or> (rt \<in> set rts \<and> s = ToLower rt)"
  by (induction rts m rule: collectors.induct) (auto split: if_splits)

lemma sort_pods_loop_eq:
  "sort_pods_loop cs ps S rt = S rt @ filter (\<lambda>p. cs (sget (pod_Labels p) ReplicaTypeLabel) = Some rt) ps"
  by (induction ps arbitrary: S) (simp_all split: option.splits)

lemma SortPodsByReplicaType_eq:
  assumes "inj_on ToLower (set rts)" "distinct rts" "rt \<in> set rts"
  shows "SortPodsByReplicaType pods rts rt =
    filter (\<lambda>p. sget (pod_Labels p) ReplicaTypeLabel = ToLower rt) pods"
proof -
  have "collectors rts Map.empty s = Some rt \<longleftrightarrow> s = ToLower rt" for s
    using collectors_sound [of rts Map.empty s rt] collectors_hit [OF assms] by auto
  then show ?thesis by (simp add: SortPodsByReplicaType_def sort_pods_loop_eq)
qed

lemma all_reached_iff: "all_reached ps phase \<longleftrightarrow> (\<forall>p \<in> set ps. phaseCodes phase \<le> phaseCodes (pod_Phase p))"
  by (induction ps phase rule: all_reached.induct) (auto simp: phaseComparator_def)

text \<open>The abstract condition of one edge of the DAG.\<close>

definition edge_ready :: "replica_specs \<Rightarrow> pod list \<Rightarrow> DAGCondition \<Rightarrow> bool" where
  "edge_ready specs pods cond =
     (case map_of specs (Upstream cond) of
        None \<Rightarrow> True
      | Some spec \<Rightarrow>
          (let ups = filter (\<lambda>p. sget (pod_Labels p) ReplicaTypeLabel = ToLower (Upstream cond)) pods in
           the (Replicas spec) \<le> int (length ups) \<and>
           list_all (\<lambda>p. phaseCodes (OnPhase cond) \<le> phaseCodes (pod_Phase p)) ups))"

definition replicas_set :: "replica_specs \<Rightarrow> bool" where
  "replicas_set specs \<longleftrightarrow> list_all (\<lambda>(t, s). Replicas s \<noteq> None) specs"

lemma replicas_set_lookup: "replicas_set specs \<Longrightarrow> map_of specs t = Some s \<Longrightarrow> \<exists>n. Replicas s = Some n"
  by (auto simp: replicas_set_def list_all_iff dest: map_of_SomeD)

lemma edge_ready_step:
  assumes "replicas_set specs" "distinct (keys specs)" "inj_on ToLower (set (keys specs))"
  shows "upstreamReplicasReady (SortPodsByReplicaType pods (ReplicaTypes specs)) specs c =
    Inr (edge_ready specs pods c)"
proof (cases "map_of specs (Upstream c)")
  case None
  then show ?thesis by (simp add: upstreamReplicasReady_def edge_ready_def)
next
  case (Some spec)
  then have "Upstream c \<in> set (keys specs)" by (force dest: map_of_SomeD)
  then have S: "SortPodsByReplicaType pods (ReplicaTypes specs) (Upstream c) =
      filter (\<lambda>p. sget (pod_Labels p) ReplicaTypeLabel = ToLower (Upstream c)) pods"
    using SortPodsByReplicaType_eq assms(2,3) by (simp add: ReplicaTypes_def)
  from Some replicas_set_lookup [OF assms(1)] obtain n where "Replicas spec = Some n" by blast
  with Some S show ?thesis
    by (auto simp: upstreamReplicasReady_def edge_ready_def Let_def all_reached_iff list_all_iff)
qed

lemma dag_loop_iff:
  assumes "replicas_set specs" "distinct (keys specs)" "inj_on ToLower (set (keys specs))"
  shows "dag_loop (SortPodsByReplicaType pods (ReplicaTypes specs)) specs conds =
    Inr (list_all (edge_ready specs pods) conds)"
  by (induction conds) (simp_all add: edge_ready_step [OF assms] split: bool.splits)

text \<open>
  C12. A replica type with upstream conditions is let through exactly when every condition holds:
  the upstream type is not part of the job, or it has at least its number of replicas as pods and
  each of them has reached the required phase; the order in which the replica map is ranged over
  plays no role.
\<close>

theorem dag_ready_iff:
  assumes "replicas_set specs" "distinct (keys specs)" "inj_on ToLower (set (keys specs))"
  shows "dagConditionsReady specs pods conds = Inr (list_all (edge_ready specs pods) conds)"
  using dag_loop_iff [OF assms] by (simp add: dagConditionsReady_def)

text \<open>A worker that waits for one running parameter server: not ready without a pod.\<close>

theorem dag_ready_iff_witness:
  "dagConditionsReady [(''PS'', dag_spec 1 []), (''Worker'', dag_spec 2 [])] []
     [\<lparr>Upstream = ''PS'', OnPhase = PodRunning\<rparr>] = Inr False"
  using dag_ready_iff [of "[(''PS'', dag_spec 1 []), (''Worker'', dag_spec 2 [])]" "[]"
      "[\<lparr>Upstream = ''PS'', OnPhase = PodRunning\<rparr>]"]
  by (simp add: replicas_set_def dag_spec_def inj_on_def ToLower_def edge_ready_def)

end
