(* ===== verification/Job_Reconcile.thy ===== *)
theory Job_Reconcile
  imports Pod_Reconcile Service_Reconcile Job_Resources Job_Policies Dag_Sched
begin

text \<open>
  The reconciliation of a job as a whole: \<open>ReconcileJobs\<close> of \<open>job.go\<close>, in the phases
  of the code. A panic of a phase is an error value; clock readings are answers of the outside
  world.
\<close>

text \<open>
  The arguments besides the controller: replica specs, run policy, the model version with its
  storage provider and the node its model is written on, and the cache backend.
\<close>

record job_args =
  ja_RunPolicy :: RunPolicy
  ja_ModelVersion :: "(model_version \<times> storage_provider) option"
  ja_ModelNode :: "pod list \<Rightarrow> go_error + string"
  ja_Cache :: "CacheBackendSpec option"

type_synonym outcome = "Result \<times> go_error option"

definition requeue_result :: Result where "requeue_result = \<lparr>Requeue = True, RequeueAfter = 0\<rparr>"

subsection \<open>Cache\<close>

definition cache_phase ::
    "JobController \<Rightarrow> job_meta \<Rightarrow> replica_specs \<Rightarrow> JobStatus \<Rightarrow> job_args \<Rightarrow> hist \<Rightarrow> (replica_specs \<times> JobStatus) res" where
  "cache_phase jc job specs st args h =
     (case ja_Cache args of
        None \<Rightarrow> (Inr (specs, st), h)
      | Some cache \<Rightarrow>
          (if CacheBackendName st = [] \<and> \<not> IsSucceeded st
           then guarded (checkCache (World jc) job cache h)
                  (\<lambda>h1. andThen (addCachePathToContainer (World jc) job cache specs h1)
                    (\<lambda>specs1 h2. (Inr (specs1, st\<lparr>CacheBackendName := CacheBackendName_spec cache\<rparr>), h2)))
           else (Inr (specs, st), h)))"

subsection \<open>Limits\<close>

definition exceeds_backoff :: "int \<Rightarrow> int \<Rightarrow> int \<Rightarrow> int \<Rightarrow> int \<Rightarrow> int \<Rightarrow> bool" where
  "exceeds_backoff failed prevFailed active total_replicas previousRetry limit \<longleftrightarrow>
     failed > prevFailed \<and> active \<noteq> total_replicas \<and> i32 (i32 previousRetry + 1) > limit"

text \<open>
  Whether the job exceeds a limit, with the failure message, and the status (the deadline sets
  the completion time).
\<close>

definition limits_phase ::
    "JobController \<Rightarrow> job_meta \<Rightarrow> string \<Rightarrow> replica_specs \<Rightarrow> JobStatus \<Rightarrow> job_args \<Rightarrow> pod list \<Rightarrow> hist \<Rightarrow>
     go_error + (string option \<times> JobStatus)" where
  "limits_phase jc job jobKey specs st args pods h =
     (case GetTotalReplicas specs of
        Inl e \<Rightarrow> Inl e
      | Inr total_replicas \<Rightarrow>
          (let W = World jc; rp = ja_RunPolicy args;
               active = i32 (int (length (FilterActivePods pods)));
               failed = FilterPodCount pods PodFailed;
               prevFailed = GetTotalFailedReplicas (ReplicaStatuses st);
               exceeds = (case rp_BackoffLimit rp of
                            None \<Rightarrow> False
                          | Some limit \<Rightarrow>
                              exceeds_backoff failed prevFailed active total_replicas (out_requeues W h jobKey) limit)
           in case pastBackoffLimit W rp specs pods of
                Inl e \<Rightarrow> Inl e
              | Inr past \<Rightarrow>
                  Inr (if exceeds \<or> past
                       then (Some (''Job '' @ jm_Name job @ '' has failed because it has reached the specified backoff limit''), st)
                       else if pastActiveDeadline rp st (out_now W h)
                       then (Some (''Job '' @ jm_Name job @ '' has failed because it was active longer than specified deadline''),
                             st\<lparr>CompletionTime := Some (out_now W h)\<rparr>)
                       else (None, st))))"

subsection \<open>Terminated jobs\<close>

definition settle_replicas :: "JobStatus \<Rightarrow> JobStatus" where
  "settle_replicas st =
     st\<lparr>ReplicaStatuses :=
        map (\<lambda>(t, s). (t, s\<lparr>Succeeded := i32 (Succeeded s + Active s), Active := 0\<rparr>)) (ReplicaStatuses st)\<rparr>"

definition gang_cleanup :: "JobController \<Rightarrow> job_meta \<Rightarrow> hist \<Rightarrow> go_error option \<times> hist" where
  "gang_cleanup jc job h =
     (if EnableGangScheduling (Config jc)
      then (case DeleteGang jc job (emit (Event ''Normal'' ''JobTerminated'') h) of
              (Some e, h1) \<Rightarrow> (Some e, emit (Event ''Warning'' ''FailedDeletePodGroup'') h1)
            | (None, h1) \<Rightarrow> (None, emit (Event ''Normal'' ''SuccessfulDeletePodGroup'') h1))
      else (None, h))"

definition fail_job :: "outside \<Rightarrow> JobStatus \<Rightarrow> string option \<Rightarrow> hist \<Rightarrow> JobStatus \<times> hist" where
  "fail_job W st failure h =
     (case failure of
        None \<Rightarrow> (st, h)
      | Some message \<Rightarrow>
          (let h1 = emit (Event ''Normal'' JobFailedReason) h;
               st1 = (if CompletionTime st = None then st\<lparr>CompletionTime := Some (out_now W h1)\<rparr> else st)
           in (UpdateJobConditions (out_now W h1) st1 JobFailed JobFailedReason message, h1)))"

definition model_phase ::
    "JobController \<Rightarrow> job_meta \<Rightarrow> job_args \<Rightarrow> pod list \<Rightarrow> JobStatus \<Rightarrow> hist \<Rightarrow> JobStatus res" where
  "model_phase jc job args pods st h =
     (if IsSucceeded st
      then (case ja_ModelVersion args of
              None \<Rightarrow> (Inr (settle_replicas st), h)
            | Some (mv, provider) \<Rightarrow>
                createModelVersion (World jc) job mv (ja_ModelNode args pods) (settle_replicas st) h)
      else (Inr st, h))"

definition write_status :: "JobController \<Rightarrow> job_meta \<Rightarrow> JobStatus \<Rightarrow> JobStatus \<Rightarrow> hist \<Rightarrow> go_error option \<times> hist" where
  "write_status jc job old st h =
     (if \<not> DeepEqual_status old st then api_write (World jc) (UpdateStatusCall job st) h else (None, h))"

definition terminate ::
    "JobController \<Rightarrow> job_meta \<Rightarrow> job_args \<Rightarrow> JobStatus \<Rightarrow> JobStatus \<Rightarrow> string option \<Rightarrow> pod list \<Rightarrow> hist \<Rightarrow> outcome \<times> hist" where
  "terminate jc job args oldStatus st failure pods h =
     (case deletePodsAndServices (World jc) (ja_RunPolicy args) pods h of
        (Some e, h1) \<Rightarrow> ((no_result, Some e), h1)
      | (None, h1) \<Rightarrow>
          (case cleanupJob (World jc) (ja_RunPolicy args) st job h1 of
             ((result, Some e), h2) \<Rightarrow> ((result, Some e), h2)
           | ((result, None), h2) \<Rightarrow>
               (case gang_cleanup jc job h2 of
                  (Some e, h3) \<Rightarrow> ((result, Some e), h3)
                | (None, h3) \<Rightarrow>
                    (case fail_job (World jc) st failure h3 of
                       (st1, h4) \<Rightarrow>
                         (case model_phase jc job args pods st1 h4 of
                            (Inl e, h5) \<Rightarrow> ((requeue_result, Some e), h5)
                          | (Inr st2, h5) \<Rightarrow>
                              (case (case ja_Cache args of
                                       None \<Rightarrow> (None, h5)
                                     | Some cache \<Rightarrow> updateCacheUsedStatus (World jc) job cache h5) of
                                 (Some e, h6) \<Rightarrow> ((result, Some e), h6)
                               | (None, h6) \<Rightarrow>
                                   (case write_status jc job oldStatus st2 h6 of
                                      (err, h7) \<Rightarrow> ((result, err), h7))))))))"

subsection \<open>Running jobs\<close>

definition gang_phase :: "JobController \<Rightarrow> job_meta \<Rightarrow> replica_specs \<Rightarrow> job_args \<Rightarrow> hist \<Rightarrow> unit res" where
  "gang_phase jc job specs args h =
     (if EnableGangScheduling (Config jc)
      then andThen (CreateGang jc job specs (rp_SchedulingPolicy (ja_RunPolicy args)) h) (\<lambda>_ h1. (Inr (), h1))
      else (Inr (), h))"

text \<open>
  The checkpoint and the scaling work on the job object, its replica specs and the pods in memory,
  which the answers of the server overwrite; the later phases see the new values.
\<close>

definition elastic_phase ::
    "JobController \<Rightarrow> job_meta \<Rightarrow> replica_specs \<Rightarrow> job_args \<Rightarrow> JobStatus \<Rightarrow> pod list \<Rightarrow> service list \<Rightarrow> hist \<Rightarrow>
     (job_meta \<times> replica_specs \<times> pod list) res" where
  "elastic_phase jc job specs args oldStatus pods services h =
     (if IsRunning oldStatus \<and> ci_EnableElasticScaling (Controller jc) job (ja_RunPolicy args)
      then andThen (ci_CheckpointIfNecessary (Controller jc) job specs pods h)
             (\<lambda>(checkpointed, job1, specs1) h1.
                if checkpointed \<and> jm_Generation job1 > 1
                then andThen (lift_sum (GetTotalReplicas specs) h1)
                       (\<lambda>total_replicas h2.
                          (let latest = GetNumReplicasForLatestGeneration pods (jm_Generation job1) in
                           andThen
                             (if total_replicas > latest then ci_ScaleOut (Controller jc) job1 specs1 pods services h2
                              else if total_replicas < latest then ci_ScaleIn (Controller jc) job1 specs1 pods services h2
                              else (Inr (job1, pods), h2))
                             (\<lambda>(job2, pods2) h3. (Inr (job2, specs1, pods2), h3))))
                else (Inr (job1, specs1, pods), h1))
      else (Inr (job, specs, pods), h))"

record run_state =
  rs_job :: job_meta
  rs_status :: JobStatus
  rs_ports :: host_ports
  rs_restart :: bool
  rs_frozen :: bool

definition aimaster_frozen :: "job_meta \<Rightarrow> replica_specs \<Rightarrow> ReplicaType \<Rightarrow> bool" where
  "aimaster_frozen job specs rtype \<longleftrightarrow>
     ContainsReplicaType specs [JobReplicaTypeAIMaster] \<and> rtype \<noteq> JobReplicaTypeAIMaster \<and>
     sget (jm_Annotations job) ''aimaster'' \<noteq> ''ready''"

definition dag_wait :: "JobController \<Rightarrow> replica_specs \<Rightarrow> pod list \<Rightarrow> ReplicaSpec \<Rightarrow> go_error + bool" where
  "dag_wait jc specs pods spec =
     (if gate_DAGScheduling (Config jc) \<and> DependOn spec \<noteq> []
      then (case dagConditionsReady specs pods (DependOn spec) of Inl e \<Rightarrow> Inl e | Inr ready \<Rightarrow> Inr (\<not> ready))
      else Inr False)"

definition replica_step ::
    "JobController \<Rightarrow> replica_specs \<Rightarrow> job_args \<Rightarrow> pod list \<Rightarrow> service list \<Rightarrow> ReplicaType \<Rightarrow> ReplicaSpec \<Rightarrow>
     run_state \<Rightarrow> hist \<Rightarrow> run_state res" where
  "replica_step jc specs args pods services rtype spec s h =
     andThen (ReconcilePods jc (rs_ports s) (rs_job s) (rs_status s) pods rtype spec specs (ja_RunPolicy args) (rs_restart s) h)
       (\<lambda>(job1, st1, ports1, restart1) h1.
          (let s1 = s\<lparr>rs_job := job1, rs_status := st1, rs_ports := ports1, rs_restart := restart1\<rparr> in
           if \<not> shouldCreateService (ci_Kind (Controller jc)) rtype then (Inr s1, h1)
           else guarded (ReconcileServices jc ports1 job1 services rtype spec h1) (\<lambda>h2. (Inr s1, h2))))"

text \<open>
  The loop over the reconcile orders; it stops for good when the AIMaster is not ready yet
  (\<open>rs_frozen\<close>), and skips a type whose upstream conditions do not hold.
\<close>

fun replicas_loop ::
    "JobController \<Rightarrow> replica_specs \<Rightarrow> job_args \<Rightarrow> pod list \<Rightarrow> service list \<Rightarrow> ReplicaType list \<Rightarrow> run_state \<Rightarrow> hist \<Rightarrow>
     run_state res" where
  "replicas_loop jc specs args pods services [] s h = (Inr s, h)"
| "replicas_loop jc specs args pods services (rtype # rtypes) s h =
     (case map_of specs rtype of
        None \<Rightarrow> replicas_loop jc specs args pods services rtypes s h
      | Some spec \<Rightarrow>
          (if aimaster_frozen (rs_job s) specs rtype then (Inr (s\<lparr>rs_frozen := True\<rparr>), h)
           else andThen (lift_sum (dag_wait jc specs pods spec) h)
                  (\<lambda>waiting h1.
                     if waiting then replicas_loop jc specs args pods services rtypes s h1
                     else andThen (replica_step jc specs args pods services rtype spec s h1)
                            (\<lambda>s1 h2. replicas_loop jc specs args pods services rtypes s1 h2))))"

definition final_write ::
    "JobController \<Rightarrow> job_meta \<Rightarrow> JobStatus \<Rightarrow> JobStatus \<Rightarrow> hist \<Rightarrow> outcome \<times> hist" where
  "final_write jc job oldStatus st h =
     (case write_status jc job oldStatus st h of
        (Some e, h1) \<Rightarrow> if IsConflict e then ((requeue_result, None), h1) else ((no_result, Some e), h1)
      | (None, h1) \<Rightarrow> ((no_result, None), h1))"

definition run_phase ::
    "JobController \<Rightarrow> job_meta \<Rightarrow> replica_specs \<Rightarrow> job_args \<Rightarrow> JobStatus \<Rightarrow> JobStatus \<Rightarrow> pod list \<Rightarrow> service list \<Rightarrow> hist \<Rightarrow>
     outcome \<times> hist" where
  "run_phase jc job specs args oldStatus st pods services h =
     (case andThen (gang_phase jc job specs args h)
             (\<lambda>_ h1. andThen (elastic_phase jc job specs args oldStatus pods services h1)
               (\<lambda>(job1, specs0, pods1) h2.
                  (let specs1 = addModelPathEnv (map_option snd (ja_ModelVersion args)) specs0 in
                   andThen (replicas_loop jc specs1 args pods1 services (ci_Orders (Controller jc))
                       \<lparr>rs_job = job1, rs_status = st, rs_ports = Map.empty, rs_restart = False, rs_frozen = False\<rparr> h2)
                     (\<lambda>s h3.
                        if rs_frozen s then (Inr s, h3)
                        else andThen (ci_UpdateJobStatus (Controller jc) (rs_job s) specs1 (rs_status s) (rs_restart s) h3)
                               (\<lambda>st1 h4. (Inr (s\<lparr>rs_status := st1\<rparr>), h4)))))) of
        (Inl e, h4) \<Rightarrow> ((no_result, Some e), h4)
      | (Inr s, h4) \<Rightarrow>
          (if rs_frozen s then ((no_result, None), h4)
           else final_write jc (rs_job s) oldStatus (rs_status s) h4))"

subsection \<open>The whole\<close>

definition gather ::
    "JobController \<Rightarrow> job_meta \<Rightarrow> hist \<Rightarrow> (pod list \<times> service list) res" where
  "gather jc job h =
     andThen (ci_GetPods (Controller jc) job h)
       (\<lambda>pods h1. andThen (ci_GetServices (Controller jc) job h1) (\<lambda>services h2. (Inr (pods, services), h2)))"

definition reconcile_body ::
    "JobController \<Rightarrow> job_meta \<Rightarrow> string \<Rightarrow> replica_specs \<Rightarrow> JobStatus \<Rightarrow> job_args \<Rightarrow> hist \<Rightarrow> outcome \<times> hist" where
  "reconcile_body jc job jobKey specs0 st0 args h =
     (case InjectCodeSync jc job specs0 of
        Inl e \<Rightarrow> ((no_result, Some e), h)
      | Inr specs1 \<Rightarrow>
          (case cache_phase jc job specs1 st0 args h of
             (Inl e, h1) \<Rightarrow> ((requeue_result, Some e), h1)
           | (Inr (specs, st), h1) \<Rightarrow>
               (case gather jc job h1 of
                  (Inl e, h2) \<Rightarrow> ((no_result, Some e), h2)
                | (Inr (pods, services), h2) \<Rightarrow>
                    (case limits_phase jc job jobKey specs st args pods h2 of
                       Inl e \<Rightarrow> ((no_result, Some e), h2)
                     | Inr (failure, st1) \<Rightarrow>
                         (if IsSucceeded st1 \<or> IsFailed st1 \<or> failure \<noteq> None
                          then terminate jc job args st0 st1 failure pods h2
                          else run_phase jc job specs args st0 st1 pods services h2)))))"

text \<open>
  The deferred function: a reconciliation that asks to be repeated or fails counts as a retry,
  any other clears the retries.
\<close>

definition backoff_update :: "string \<Rightarrow> outcome \<times> hist \<Rightarrow> outcome \<times> hist" where
  "backoff_update jobKey r =
     (case r of ((result, err), h) \<Rightarrow>
        ((result, err), emit (if Requeue result \<or> err \<noteq> None then AddRateLimited jobKey else ForgetKey jobKey) h))"

definition ReconcileJobs ::
    "JobController \<Rightarrow> job_meta \<Rightarrow> replica_specs \<Rightarrow> JobStatus \<Rightarrow> job_args \<Rightarrow> hist \<Rightarrow> outcome \<times> hist" where
  "ReconcileJobs jc job specs st args h =
     (case out_key (World jc) job of
        Inl e \<Rightarrow> ((no_result, Some e), h)
      | Inr jobKey \<Rightarrow>
          (case ReconcileCron (World jc) job (ja_RunPolicy args) h of
             (Some e, h1) \<Rightarrow> ((no_result, Some e), h1)
           | (None, h1) \<Rightarrow> backoff_update jobKey (reconcile_body jc job jobKey specs st args h1)))"

subsection \<open>Where the status is written\<close>

text \<open>
  The statuses that a call history writes to the server. Everything but \<open>write_status\<close> adds
  calls of other kinds: the relation \<open>silent\<close>.
\<close>

definition status_writes :: "hist \<Rightarrow> JobStatus list" where
  "status_writes h = concat (map (\<lambda>c. case c of UpdateStatusCall job st \<Rightarrow> [st] | _ \<Rightarrow> []) h)"

definition silent :: "hist \<Rightarrow> hist \<Rightarrow> bool" where
  "silent h h' \<longleftrightarrow> (\<exists>cs. h' = h @ cs \<and> status_writes cs = [])"

lemma status_writes_append [simp]: "status_writes (h @ h') = status_writes h @ status_writes h'"
  by (simp add: status_writes_def)

lemma status_writes_Nil [simp]: "status_writes [] = []"
  by (simp add: status_writes_def)

lemma status_writes_Cons [simp]:
  "status_writes (c # cs) = (case c of UpdateStatusCall job st \<Rightarrow> st # status_writes cs | _ \<Rightarrow> status_writes cs)"
  by (simp add: status_writes_def split: call.splits)

lemma silent_refl [simp, intro]: "silent h h"
  by (simp add: silent_def)

lemma silent_trans [trans]: "silent h1 h2 \<Longrightarrow> silent h2 h3 \<Longrightarrow> silent h1 h3"
  by (auto simp: silent_def)

lemma silent_writes: "silent h h' \<Longrightarrow> status_writes h' = status_writes h"
  by (auto simp: silent_def)

lemma silent_emit: "silent h h' \<Longrightarrow> (\<forall>job st. c \<noteq> UpdateStatusCall job st) \<Longrightarrow> silent h (emit c h')"
  by (auto simp: silent_def emit_def split: call.splits)

lemma silent_write: "api_write W c h = (e, h') \<Longrightarrow> (\<forall>job st. c \<noteq> UpdateStatusCall job st) \<Longrightarrow> silent h h'"
  by (auto simp: silent_def api_write_def split: call.splits)

lemma silent_andThen:
  assumes "andThen m k = (r, h')" "\<And>x h1. m = (x, h1) \<Longrightarrow> silent h h1"
    "\<And>x h1 r h2. k x h1 = (r, h2) \<Longrightarrow> silent h1 h2"
  shows "silent h h'"
proof -
  obtain x h1 where m: "m = (x, h1)" by (cases m)
  with assms(1) have "h' = h1 \<or> (\<exists>y. k y h1 = (r, h'))" by (cases x) auto
  with assms(2) [OF m] assms(3) show ?thesis by (auto intro: silent_trans)
qed

lemma silent_guarded:
  assumes "guarded m k = (r, h')" "\<And>x h1. m = (x, h1) \<Longrightarrow> silent h h1"
    "\<And>h1 r h2. k h1 = (r, h2) \<Longrightarrow> silent h1 h2"
  shows "silent h h'"
proof -
  obtain x h1 where m: "m = (x, h1)" by (cases m)
  with assms(1) have "h' = h1 \<or> k h1 = (r, h')" by (cases x) auto
  with assms(2) [OF m] assms(3) show ?thesis by (auto intro: silent_trans)
qed

subsubsection \<open>Pods, services and fail-over\<close>

lemma silent_DeletePod: "DeletePod W ns n h = (e, h') \<Longrightarrow> silent h h'"
  by (auto simp: DeletePod_def emit_def api_write_def remove_finalizer_def Let_def silent_def
      split: sum.splits option.splits if_splits)

lemma silent_DeleteService: "DeleteService W ns n h = (e, h') \<Longrightarrow> silent h h'"
  by (auto simp: DeleteService_def emit_def api_write_def Let_def silent_def split: sum.splits option.splits if_splits)

lemma silent_delete_each: "silent h (delete_each W ps h)"
proof (induction ps arbitrary: h)
  case (Cons p ps)
  obtain e h1 where "DeletePod W (pod_Namespace p) (pod_Name p) h = (e, h1)" by force
  with silent_trans [OF silent_DeletePod [OF this] Cons [of h1]] show ?case by simp
qed simp

lemma silent_delete_names: "delete_names W ns names h = (e, h') \<Longrightarrow> silent h h'"
proof (induction names arbitrary: h)
  case (Cons n names)
  then show ?case
    by (auto split: prod.splits option.splits dest!: silent_DeletePod intro: silent_trans)
qed simp

lemma silent_patch_memory: "patch_memory W job as h = (r, h') \<Longrightarrow> silent h h'"
  by (auto simp: patch_memory_def patch_job_def silent_def split: sum.splits prod.splits)

lemma silent_DoFailOver: "DoFailOver W job ps h = (r, h') \<Longrightarrow> silent h h'"
proof -
  assume "DoFailOver W job ps h = (r, h')"
  then have "h' = delete_each W (out_go_order W h ps) h @ [Event ''Normal'' ''FailOverSucceeded'',
      PatchJobAnnotations job [(AnnotationLastFailoverTimestamp, out_format_time W (out_now W
        (emit (Event ''Normal'' ''FailOverSucceeded'') (delete_each W (out_go_order W h ps) h))))]]"
    by (auto simp: DoFailOver_def DoFailOverByAction_def RecreatePods_def patch_job_def emit_def Let_def)
  moreover have "silent (delete_each W (out_go_order W h ps) h) \<dots>" by (simp add: silent_def)
  ultimately show ?thesis using silent_delete_each silent_trans by metis
qed

lemma silent_failover_ts: "failover_by_timestamp W job ps h = (r, h') \<Longrightarrow> silent h h'"
  using silent_delete_each
  by (auto simp: failover_by_timestamp_def DoFailOverByAction_def RecreatePods_def Let_def
      split: if_splits sum.splits)

lemma silent_start_all: "start_all_workers W job h = (r, h') \<Longrightarrow> silent h h'"
  by (auto simp: start_all_workers_def split: if_splits
      dest!: silent_patch_memory intro: silent_trans [OF silent_emit [OF silent_refl]])

lemma silent_restart_listed:
  assumes "restart_listed W job ns h = (r, h')"
  shows "silent h h'"
proof -
  obtain e h1 where D: "delete_names W (jm_Namespace job) ns h = (e, h1)" by force
  obtain x h2 where P: "patch_memory W job [(AnnotationImmediatelyRestartPod, [])] h1 = (x, h2)"
    by (cases "patch_memory W job [(AnnotationImmediatelyRestartPod, [])] h1")
  have "silent h h1" "silent h1 h2" using silent_delete_names [OF D] silent_patch_memory [OF P] .
  with assms D P show ?thesis
    by (cases x) (auto simp: restart_listed_def split: option.splits intro: silent_emit silent_trans)
qed

lemma silent_react:
  assumes "reactForAIMasterErrorAnalyzeResult W job rt ps h = (r, h')"
  shows "silent h h'"
proof -
  obtain x h1 where S: "start_all_workers W job h = (x, h1)" by (cases "start_all_workers W job h")
  obtain y h2 where F: "failover_by_timestamp W (snd x) ps h1 = (y, h2)" by force
  from assms show ?thesis
    using S F silent_start_all [OF S] silent_failover_ts [OF F] silent_restart_listed
    by (cases x) (auto simp: reactForAIMasterErrorAnalyzeResult_def Let_def split: if_splits option.splits
        intro: silent_trans)
qed

lemma silent_CreatePod: "CreatePod jc job rt i t m h = (e, h') \<Longrightarrow> silent h h'"
  by (auto simp: CreatePod_def CreatePods_def createPods_def api_write_def emit_def Let_def silent_def
      split: sum.splits option.splits if_splits)

lemma silent_CreateNewService: "CreateNewService jc ports job rt spec i h = (e, h') \<Longrightarrow> silent h h'"
  by (auto simp: CreateNewService_def CreateService_def CreateServicesWithControllerRef_def validateControllerRef_def
      createServices_def api_write_def emit_def Let_def silent_def split: sum.splits option.splits if_splits)

lemma silent_service_slice:
  assumes "reconcile_service_slice jc ports job rtype spec n i slice h = (e, h')"
  shows "silent h h'"
proof -
  have drop: "silent h h1" if "drop_out_of_range jc i n svc h = (r, h1)" for svc r h1
    using that by (auto simp: drop_out_of_range_def split: if_splits
        dest!: silent_DeleteService intro: silent_trans [OF silent_emit [OF silent_refl]])
  have ret: "silent h1 h2" if "retarget_service jc ports job rt i svc h1 = (r, h2)" for rt svc r h1 h2
    using that by (auto simp: retarget_service_def split: if_splits option.splits list.splits dest!: silent_write)
  show ?thesis
    using assms
    by (auto simp: reconcile_service_slice_def split: list.splits prod.splits option.splits
        dest: silent_CreateNewService drop ret intro: silent_trans)
qed

lemma silent_service_loop: "service_loop jc ports job rt spec n i S h = (e, h') \<Longrightarrow> silent h h'"
proof (induction S arbitrary: h i)
  case (Cons slice S)
  then show ?case by (auto split: prod.splits option.splits dest!: silent_service_slice intro: silent_trans)
qed simp

lemma silent_ReconcileServices: "ReconcileServices jc ports job svcs rt spec h = (e, h') \<Longrightarrow> silent h h'"
  by (auto simp: ReconcileServices_def split: option.splits sum.splits dest: silent_service_loop)

text \<open>
  What is required of the workload interface and the gang scheduler: they write no job status of
  their own.
\<close>

definition silent_interface :: "JobController \<Rightarrow> bool" where
  "silent_interface jc \<longleftrightarrow>
     (\<forall>specs ports job t rt i h r h'. ci_SetClusterSpec (Controller jc) specs ports job t rt i h = (r, h') \<longrightarrow> silent h h') \<and>
     (\<forall>job h r h'. ci_GetPods (Controller jc) job h = (r, h') \<longrightarrow> silent h h') \<and>
     (\<forall>job h r h'. ci_GetServices (Controller jc) job h = (r, h') \<longrightarrow> silent h h') \<and>
     (\<forall>job specs st re h r h'. ci_UpdateJobStatus (Controller jc) job specs st re h = (r, h') \<longrightarrow> silent h h') \<and>
     (\<forall>job specs pods h r h'. ci_CheckpointIfNecessary (Controller jc) job specs pods h = (r, h') \<longrightarrow> silent h h') \<and>
     (\<forall>job specs pods svcs h r h'. ci_ScaleOut (Controller jc) job specs pods svcs h = (r, h') \<longrightarrow> silent h h') \<and>
     (\<forall>job specs pods svcs h r h'. ci_ScaleIn (Controller jc) job specs pods svcs h = (r, h') \<longrightarrow> silent h h') \<and>
     (\<forall>ns n h r h'. gs_GetGang (GangScheduler jc) ns n h = (r, h') \<longrightarrow> silent h h') \<and>
     (\<forall>job specs pol h r h'. gs_CreateGang (GangScheduler jc) job specs pol h = (r, h') \<longrightarrow> silent h h') \<and>
     (\<forall>ns n h r h'. gs_DeleteGang (GangScheduler jc) ns n h = (r, h') \<longrightarrow> silent h h')"

lemma silent_interfaceD:
  assumes "silent_interface jc"
  shows "ci_SetClusterSpec (Controller jc) specs ports job t rt i h = (r1, h') \<Longrightarrow> silent h h'"
    "ci_GetPods (Controller jc) job h = (r2, h') \<Longrightarrow> silent h h'"
    "ci_GetServices (Controller jc) job h = (r3, h') \<Longrightarrow> silent h h'"
    "ci_UpdateJobStatus (Controller jc) job specs st re h = (r4, h') \<Longrightarrow> silent h h'"
    "ci_CheckpointIfNecessary (Controller jc) job specs pods h = (r5, h') \<Longrightarrow> silent h h'"
    "ci_ScaleOut (Controller jc) job specs pods svcs h = (r8, h') \<Longrightarrow> silent h h'"
    "ci_ScaleIn (Controller jc) job specs pods svcs h = (r8, h') \<Longrightarrow> silent h h'"
    "gs_GetGang (GangScheduler jc) ns n h = (r7, h') \<Longrightarrow> silent h h'"
    "gs_CreateGang (GangScheduler jc) job specs pol h = (r7, h') \<Longrightarrow> silent h h'"
    "gs_DeleteGang (GangScheduler jc) ns n h = (r6, h') \<Longrightarrow> silent h h'"
  using assms unfolding silent_interface_def by - (elim conjE; metis)+

lemma silent_host_network: "host_network_step jc ports job t rt i h = (r, h') \<Longrightarrow> silent h h'"
  by (auto simp: host_network_step_def setupHostNetwork_def emit_def Let_def silent_def split: if_splits)

lemma silent_label: "label_and_policy t ls spec h = (t', h') \<Longrightarrow> silent h h'"
  by (auto simp: label_and_policy_def emit_def Let_def silent_def split: if_splits)

lemma silent_bind_gang: "silent_interface jc \<Longrightarrow> bind_gang jc job t rt h = (r, h') \<Longrightarrow> silent h h'"
  unfolding bind_gang_def
  by (auto split: if_splits elim!: silent_andThen dest: silent_interfaceD(8))

lemma silent_createNewPod:
  assumes "silent_interface jc" "createNewPod jc specs ports job rt i spec m rp h = (r, h')"
  shows "silent h h'"
proof -
  have tail: "silent h1 h2"
    if "andThen (bind_gang jc job t3 rt h1) (\<lambda>t4 h4. andThen (lift_sum (spot_replica spec i t4) h4)
        (\<lambda>t5 h5. guarded (CreatePod jc job rt i t5 m h5) (\<lambda>h6. (Inr p, h6)))) = (r, h2)" for t3 p r h1 h2
    using that
    by (rule silent_andThen)
      (auto elim!: silent_andThen silent_guarded dest: silent_bind_gang [OF assms(1)] silent_CreatePod)
  show ?thesis
    using assms(2) unfolding createNewPod_def Let_def
  proof (rule silent_andThen)
    fix x h1 r h2
    assume "(case x of (t1, ports1) \<Rightarrow> \<lambda>h1.
        case label_and_policy t1 (replica_labels jc job rt i m (ci_EnableElasticScaling (Controller jc) job rp)) spec h1 of
        (t2, h2) \<Rightarrow> andThen (ci_SetClusterSpec (Controller jc) specs ports1 job t2 rt i h2)
          (\<lambda>t3 h3. andThen (bind_gang jc job t3 rt h3) (\<lambda>t4 h4. andThen (lift_sum (spot_replica spec i t4) h4)
            (\<lambda>t5 h5. guarded (CreatePod jc job rt i t5 m h5) (\<lambda>h6. (Inr ports1, h6)))))) h1 = (r, h2)"
    then obtain t1 p1 t2 h3 where
      L: "label_and_policy t1 (replica_labels jc job rt i m (ci_EnableElasticScaling (Controller jc) job rp)) spec h1 = (t2, h3)"
      and R: "andThen (ci_SetClusterSpec (Controller jc) specs p1 job t2 rt i h3)
          (\<lambda>t3 h3. andThen (bind_gang jc job t3 rt h3) (\<lambda>t4 h4. andThen (lift_sum (spot_replica spec i t4) h4)
            (\<lambda>t5 h5. guarded (CreatePod jc job rt i t5 m h5) (\<lambda>h6. (Inr p1, h6))))) = (r, h2)"
      by (auto split: prod.splits)
    from R have "silent h3 h2"
      by (rule silent_andThen) (erule silent_interfaceD(1) [OF assms(1)], erule tail)
    with silent_label [OF L] show "silent h1 h2" by (rule silent_trans)
  qed (rule silent_host_network)
qed

lemma silent_reconcileOnePod: "reconcileOnePod jc ports job st spec p i n rt h = (r, h') \<Longrightarrow> silent h h'"
  by (auto simp: reconcileOnePod_def Let_def andThen_def split: prod.splits sum.splits if_splits
      dest: silent_DeletePod intro: silent_emit)

lemma silent_slices_loop:
  assumes "silent_interface jc"
  shows "slices_loop jc job rt spec specs rp n i S s h = (r, h') \<Longrightarrow> silent h h'"
proof (induction S arbitrary: i s h r h')
  case (Cons slice S)
  have miss: "silent h h1" if "create_missing jc job rt spec specs rp n i s h = (x, h1)" for x h1
    using that
    by (auto simp: create_missing_def already_exists_calls_def split: if_splits sum.splits prod.splits
        dest!: silent_createNewPod [OF assms] intro!: silent_emit)
  have exi: "silent h h1" if "check_existing jc job rt spec n i p s h = (x, h1)" for p x h1
    using that by (auto simp: check_existing_def elim!: silent_andThen dest: silent_reconcileOnePod)
  from Cons.prems show ?case
    unfolding slices_loop.simps
    by (rule silent_andThen) (auto split: list.splits dest: miss exi Cons.IH)
qed simp

lemma silent_aimaster: "aimaster_step jc job rt ps specs s h = (j, s', h') \<Longrightarrow> silent h h'"
  by (auto simp: aimaster_step_def split: if_splits prod.splits dest: silent_react)

lemma silent_finish: "finish_pods jc job s h = (j, h') \<Longrightarrow> silent h h'"
proof -
  assume f: "finish_pods jc job s h = (j, h')"
  define h0 where "h0 = (if rp_failed s \<noteq> [] then emit (Event ''Warning'' ''PodFailed'') h else h)"
  obtain r h2 where D: "DoFailOver (World jc) job (rp_failover s) h0 = (r, h2)" by force
  have "silent h h0" by (simp add: h0_def silent_emit)
  moreover have "silent h0 h2" using silent_DoFailOver [OF D] .
  moreover have "finish_pods jc job s h =
      (if rp_restart s \<and> rp_failover s \<noteq> []
       then (case (r, h2) of (Inl e, h2) \<Rightarrow> (job, h2) | (Inr job1, h2) \<Rightarrow> (job1, h2)) else (job, h0))"
    by (simp only: finish_pods_def Let_def h0_def [symmetric] D)
  with f have "h' = h2 \<or> h' = h0" by (cases r) (simp_all split: if_splits)
  ultimately show ?thesis by (auto intro: silent_trans)
qed

lemma silent_ReconcilePods:
  assumes "silent_interface jc" "ReconcilePods jc ports job st pods rt spec specs rp restart h = (r, h')"
  shows "silent h h'"
  using assms(2) unfolding ReconcilePods_def
  by (auto split: option.splits prod.splits elim!: silent_andThen)
    (erule silent_slices_loop [OF assms(1)], erule (1) silent_trans [OF silent_aimaster silent_finish])

end
