(* ===== verification/Status_Contract.thy ===== *)
theory Status_Contract
  imports Controller_Env
begin

text \<open>
  What the job controller relies on when it hands the status of a job to a workload
  (\<open>UpdateJobStatus\<close> of \<open>ControllerInterface\<close>): the workload changes it only by
  condition updates and by setting the start and completion times. The locale
  \<open>status_updater\<close> states this contract; the workloads interpret it.
\<close>

inductive status_steps :: "JobStatus \<Rightarrow> JobStatus \<Rightarrow> bool" where
  stop: "status_steps s s"
| condition: "status_steps s t \<Longrightarrow> status_steps s (UpdateJobConditions now t ty reason message)"
| start: "status_steps s t \<Longrightarrow> status_steps s (t\<lparr>StartTime := Some now\<rparr>)"
| completion: "status_steps s t \<Longrightarrow> status_steps s (t\<lparr>CompletionTime := Some now\<rparr>)"

inductive_cases status_stepsE: "status_steps s t"

lemma cond_time_irrelevant [simp]:
  "HasCondition (t\<lparr>StartTime := x\<rparr>) ty = HasCondition t ty"
  "HasCondition (t\<lparr>CompletionTime := x\<rparr>) ty = HasCondition t ty"
  "cond_types (t\<lparr>StartTime := x\<rparr>) = cond_types t"
  "cond_types (t\<lparr>CompletionTime := x\<rparr>) = cond_types t"
  by (simp_all add: HasCondition_def cond_types_def)

lemma terminal_time [simp]:
  "is_terminal (t\<lparr>StartTime := x\<rparr>) = is_terminal t" "is_terminal (t\<lparr>CompletionTime := x\<rparr>) = is_terminal t"
  by (simp_all add: is_terminal_def is_defs)

lemma wf_time [simp]:
  "conditions_wf (t\<lparr>StartTime := x\<rparr>) = conditions_wf t" "conditions_wf (t\<lparr>CompletionTime := x\<rparr>) = conditions_wf t"
  by (simp_all add: conditions_wf_def is_defs)

lemma steps_wf: "status_steps s t \<Longrightarrow> conditions_wf s \<Longrightarrow> conditions_wf t"
  by (induction rule: status_steps.induct) (simp_all add: update_wf)

lemma steps_terminal: "status_steps s t \<Longrightarrow> is_terminal s \<Longrightarrow> Conditions t = Conditions s \<and> is_terminal t"
  by (induction rule: status_steps.induct) (simp_all add: terminal_fixed)

lemma steps_replicas: "status_steps s t \<Longrightarrow> ReplicaStatuses t = ReplicaStatuses s"
  by (induction rule: status_steps.induct) simp_all

lemma steps_trans: "status_steps t u \<Longrightarrow> status_steps s t \<Longrightarrow> status_steps s u"
  by (induction rule: status_steps.induct) (auto intro: status_steps.intros)

lemma steps_rstatus: "status_steps s t \<Longrightarrow> rstatus t r = rstatus s r"
  by (simp add: rstatus_def steps_replicas)

lemma completion_mono: "status_steps s t \<Longrightarrow> CompletionTime s \<noteq> None \<Longrightarrow> CompletionTime t \<noteq> None"
  by (induction rule: status_steps.induct) simp_all

text \<open>
  Statuses that finished properly: a terminal status has a completion time.
\<close>

definition completed_ok :: "JobStatus \<Rightarrow> bool" where
  "completed_ok st \<longleftrightarrow> (is_terminal st \<longrightarrow> CompletionTime st \<noteq> None)"

definition no_evictions :: "JobStatus \<Rightarrow> bool" where
  "no_evictions st \<longleftrightarrow>
     list_all (\<lambda>t. case rstatus st t of None \<Rightarrow> True | Some s \<Rightarrow> Evicted s = 0) (keys (ReplicaStatuses st))"

lemma no_evictions_iff: "no_evictions st \<longleftrightarrow> (\<forall>r s. rstatus st r = Some s \<longrightarrow> Evicted s = 0)"
proof
  assume n: "no_evictions st"
  show "\<forall>r s. rstatus st r = Some s \<longrightarrow> Evicted s = 0"
  proof (intro allI impI)
    fix r s assume r: "rstatus st r = Some s"
    then have "r \<in> set (keys (ReplicaStatuses st))" by (force simp: rstatus_def dest: map_of_SomeD)
    with n r show "Evicted s = 0" by (auto simp: no_evictions_def list_all_iff split: option.splits)
  qed
qed (auto simp: no_evictions_def list_all_iff split: option.splits)

locale status_updater =
  fixes update :: "time \<Rightarrow> replica_specs \<Rightarrow> JobStatus \<Rightarrow> bool \<Rightarrow> go_error + JobStatus"
  assumes update_steps: "update now specs st restart = Inr st' \<Longrightarrow> status_steps st st'"
    and update_completes: "update now specs st restart = Inr st' \<Longrightarrow> completed_ok st \<Longrightarrow> no_evictions st \<Longrightarrow>
      completed_ok st'"
begin

lemma keeps_wf: "update now specs st restart = Inr st' \<Longrightarrow> conditions_wf st \<Longrightarrow> conditions_wf st'"
  using update_steps steps_wf by blast

lemma keeps_terminal:
  "update now specs st restart = Inr st' \<Longrightarrow> is_terminal st \<Longrightarrow> Conditions st' = Conditions st \<and> is_terminal st'"
  using update_steps steps_terminal by blast

lemma keeps_replicas: "update now specs st restart = Inr st' \<Longrightarrow> ReplicaStatuses st' = ReplicaStatuses st"
  using update_steps steps_replicas by blast

end

subsection \<open>Building blocks of the workloads\<close>

definition set_start :: "time \<Rightarrow> JobStatus \<Rightarrow> JobStatus" where
  "set_start now st = (if StartTime st = None then st\<lparr>StartTime := Some now\<rparr> else st)"

definition set_completion :: "time \<Rightarrow> JobStatus \<Rightarrow> JobStatus" where
  "set_completion now st = (if CompletionTime st = None then st\<lparr>CompletionTime := Some now\<rparr> else st)"

definition complete :: "time \<Rightarrow> JobStatus \<Rightarrow> JobConditionType \<Rightarrow> string \<Rightarrow> string \<Rightarrow> JobStatus" where
  "complete now st ty reason message = UpdateJobConditions now (set_completion now st) ty reason message"

lemma steps_set_start [intro]: "status_steps s t \<Longrightarrow> status_steps s (set_start now t)"
  by (simp add: set_start_def status_steps.start)

lemma steps_set_completion [intro]: "status_steps s t \<Longrightarrow> status_steps s (set_completion now t)"
  by (simp add: set_completion_def status_steps.completion)

lemma steps_complete [intro]: "status_steps s t \<Longrightarrow> status_steps s (complete now t ty reason message)"
  by (simp add: complete_def status_steps.condition steps_set_completion)

lemma ok_set_start [intro]: "completed_ok t \<Longrightarrow> completed_ok (set_start now t)"
  by (simp add: completed_ok_def set_start_def)

lemma ok_complete [intro]: "completed_ok (complete now t ty reason message)"
proof -
  have "CompletionTime (set_completion now t) \<noteq> None" by (simp add: set_completion_def)
  then show ?thesis by (simp add: completed_ok_def complete_def)
qed

text \<open>A condition that is not terminal cannot make the job terminal.\<close>

lemma not_terminal_update:
  assumes "ty \<noteq> JobFailed" "ty \<noteq> JobSucceeded" "is_terminal (UpdateJobConditions now t ty reason message)"
  shows "is_terminal t"
proof (rule ccontr)
  assume nt: "\<not> is_terminal t"
  then show False
  proof (cases rule: update_cases [of t ty reason now message])
    case (same c)
    with nt assms(3) show ?thesis by simp
  next
    case (new c)
    with nt assms show ?thesis by (auto simp: is_terminal_def is_defs HasCondition_def true_filterOut)
  qed
qed

lemma ok_running [intro]:
  "completed_ok t \<Longrightarrow> ty \<noteq> JobFailed \<Longrightarrow> ty \<noteq> JobSucceeded \<Longrightarrow>
   completed_ok (UpdateJobConditions now t ty reason message)"
  using not_terminal_update by (auto simp: completed_ok_def)

end
