(* ===== verification/Framework_Status.thy ===== *)
theory Framework_Status
  imports Status_Contract
begin

text \<open>
  The status rules of the workloads: \<open>updateGeneralJobStatus\<close> of TensorFlow, PyTorch, XDL,
  Mars, ElasticDL and ElasticBatch (\<open>controllers/*/status.go\<close>) and \<open>UpdateJobStatus\<close> of
  XGBoost and MPI (\<open>controllers/*/job.go\<close>). Each takes one reading of the clock, ranges over
  the replica specs in the order of the list, and returns the new status; its events and
  metrics are not part of the model. Every one of them satisfies the contract
  \<open>status_updater\<close>.
\<close>

definition running_msg :: "string \<Rightarrow> string \<Rightarrow> string" where
  "running_msg kind name = kind @ '' '' @ name @ '' is running.''"

text \<open>
  The common tail of the loops for a type with failed replicas: Restarting when the failure is
  being failed over, Failed otherwise.
\<close>

definition report_failure ::
    "string \<Rightarrow> string \<Rightarrow> time \<Rightarrow> ReplicaType \<Rightarrow> int \<Rightarrow> bool \<Rightarrow> JobStatus \<Rightarrow> JobStatus" where
  "report_failure kind name now rtype failed restarting st =
     (if failed > 0
      then (if restarting
            then UpdateJobConditions now st JobRestarting JobRestartingReason
                   (kind @ '' '' @ name @ '' is restarting because '' @ Itoa failed @ '' '' @ rtype @ '' replica(s) failed.'')
            else complete now st JobFailed JobFailedReason
                   (kind @ '' '' @ name @ '' is failed because '' @ Itoa failed @ '' '' @ rtype @ '' replica(s) failed.''))
      else st)"

definition nil_replicas :: go_error where "nil_replicas = Panic ''nil Replicas''"

lemma steps_report [intro]: "status_steps s t \<Longrightarrow> status_steps s (report_failure k n now rt f r t)"
  by (auto simp: report_failure_def intro: status_steps.condition)

lemma ok_report [intro]: "completed_ok t \<Longrightarrow> completed_ok (report_failure k n now rt f r t)"
  by (auto simp: report_failure_def)

text \<open>How many workers have succeeded, compared with how many there are.\<close>

definition all_workers_succeed :: "ReplicaType \<Rightarrow> replica_specs \<Rightarrow> JobStatus \<Rightarrow> go_error + bool" where
  "all_workers_succeed worker specs st =
     (case map_of specs worker of
        None \<Rightarrow> Inr False
      | Some w \<Rightarrow>
          (case Replicas w of
             None \<Rightarrow> Inl nil_replicas
           | Some n \<Rightarrow> Inr (n = (case rstatus st worker of None \<Rightarrow> 0 | Some s \<Rightarrow> Succeeded s))))"

subsection \<open>TensorFlow\<close>

definition TFReplicaTypeWorker :: ReplicaType where "TFReplicaTypeWorker = ''Worker''"
definition TFReplicaTypeChief :: ReplicaType where "TFReplicaTypeChief = ''Chief''"
definition TFReplicaTypeMaster :: ReplicaType where "TFReplicaTypeMaster = ''Master''"

definition IsTFJobChieforMaster :: "ReplicaType \<Rightarrow> bool" where
  "IsTFJobChieforMaster t \<longleftrightarrow> t = TFReplicaTypeChief \<or> t = TFReplicaTypeMaster \<or> t = JobReplicaTypeAIMaster"

fun tf_exit_code :: "container_status list \<Rightarrow> int" where
  "tf_exit_code [] = 0xbeef"
| "tf_exit_code (s # ss) =
     (case cs_Terminated s of
        Some code \<Rightarrow> if cs_Name s = ''tensorflow'' then code else tf_exit_code ss
      | None \<Rightarrow> tf_exit_code ss)"

fun worker0_completed :: "pod list \<Rightarrow> bool" where
  "worker0_completed [] = False"
| "worker0_completed (p # ps) =
     (case Atoi (sget (pod_Labels p) ReplicaIndexLabel) of
        None \<Rightarrow> worker0_completed ps
      | Some i \<Rightarrow>
          (if i = 0 then tf_exit_code (pod_ContainerStatuses p) = 0 \<and> pod_Phase p = PodSucceeded
           else worker0_completed ps))"

definition tf_success_msg :: "string \<Rightarrow> string" where
  "tf_success_msg name = ''TFJob '' @ name @ '' successfully completed.''"

text \<open>One chief, master or AIMaster entry.\<close>

definition tf_master_step ::
    "string \<Rightarrow> SuccessPolicy option \<Rightarrow> bool \<Rightarrow> bool \<Rightarrow> time \<Rightarrow> ReplicaType \<Rightarrow> int \<Rightarrow> int \<Rightarrow> JobStatus \<Rightarrow> JobStatus" where
  "tf_master_step name policy workerFound allWorkers now rtype expected running st =
     (let st1 = (if running > 0 then UpdateJobConditions now st JobRunning JobRunningReason (running_msg ''TFJob'' name) else st);
          succeed = (expected = 0) \<and>
            (rtype \<noteq> JobReplicaTypeAIMaster \<and> workerFound \<and> policy = Some SuccessPolicyAllWorkers \<longrightarrow> allWorkers)
      in if succeed then complete now st1 JobSucceeded JobSucceededReason (tf_success_msg name) else st1)"

text \<open>The worker entry of a job without chief: the success policy is dereferenced only when worker 0 is done.\<close>

definition tf_worker_step ::
    "string \<Rightarrow> SuccessPolicy option \<Rightarrow> bool \<Rightarrow> time \<Rightarrow> int \<Rightarrow> int \<Rightarrow> JobStatus \<Rightarrow> go_error + JobStatus" where
  "tf_worker_step name policy worker0Completed now expected running st =
     (let done_st = complete now st JobSucceeded JobSucceededReason (tf_success_msg name);
          else_st = (if running > 0 then UpdateJobConditions now st JobRunning JobRunningReason (running_msg ''TFJob'' name) else st)
      in if expected = 0 then Inr done_st
         else if worker0Completed
         then (case policy of
                 None \<Rightarrow> Inl (Panic ''nil SuccessPolicy'')
               | Some p \<Rightarrow> Inr (if p \<noteq> SuccessPolicyAllWorkers then done_st else else_st))
         else Inr else_st)"

definition tf_type_step ::
    "string \<Rightarrow> SuccessPolicy option \<Rightarrow> bool \<Rightarrow> bool \<Rightarrow> bool \<Rightarrow> bool \<Rightarrow> time \<Rightarrow> bool \<Rightarrow> ReplicaType \<Rightarrow> int \<Rightarrow> int \<Rightarrow>
     JobStatus \<Rightarrow> go_error + JobStatus" where
  "tf_type_step name policy hasMaster workerFound allWorkers worker0Completed now restart rtype expected running st =
     (if hasMaster
      then Inr (if IsTFJobChieforMaster rtype
                then tf_master_step name policy workerFound allWorkers now rtype expected running st else st)
      else if rtype = TFReplicaTypeWorker then tf_worker_step name policy worker0Completed now expected running st
      else Inr st)"

fun tf_loop ::
    "string \<Rightarrow> SuccessPolicy option \<Rightarrow> bool \<Rightarrow> bool \<Rightarrow> bool \<Rightarrow> bool \<Rightarrow> time \<Rightarrow> bool \<Rightarrow> replica_specs \<Rightarrow> JobStatus \<Rightarrow>
     go_error + JobStatus" where
  "tf_loop name policy hasMaster workerFound allWorkers worker0Completed now restart [] st = Inr st"
| "tf_loop name policy hasMaster workerFound allWorkers worker0Completed now restart ((rtype, spec) # specs) st =
     (case Replicas spec of
        None \<Rightarrow> Inl nil_replicas
      | Some replicas \<Rightarrow>
          (case rstatus st rtype of
             None \<Rightarrow> tf_loop name policy hasMaster workerFound allWorkers worker0Completed now restart specs st
           | Some status \<Rightarrow>
               (case tf_type_step name policy hasMaster workerFound allWorkers worker0Completed now restart rtype
                       (i32 (replicas - Succeeded status)) (Active status) st of
                  Inl e \<Rightarrow> Inl e
                | Inr st1 \<Rightarrow>
                    tf_loop name policy hasMaster workerFound allWorkers worker0Completed now restart specs
                      (report_failure ''TFJob'' name now rtype (Failed status)
                        (restart \<and> rtype \<noteq> JobReplicaTypeAIMaster) st1))))"

text \<open>
  \<open>pods\<close> is the answer of \<open>GetPodsForJob\<close>, filtered to the workers.
\<close>

definition tf_updateGeneralJobStatus ::
    "outside \<Rightarrow> string \<Rightarrow> SuccessPolicy option \<Rightarrow> go_error + pod list \<Rightarrow> time \<Rightarrow> replica_specs \<Rightarrow> JobStatus \<Rightarrow> bool \<Rightarrow>
     go_error + JobStatus" where
  "tf_updateGeneralJobStatus W name policy pods now specs st restart =
     (case all_workers_succeed TFReplicaTypeWorker specs st of
        Inl e \<Rightarrow> Inl e
      | Inr allWorkers \<Rightarrow>
          (case pods of
             Inl e \<Rightarrow> Inl e
           | Inr all_pods \<Rightarrow>
               (case FilterPodsForReplicaType W all_pods (ToLower TFReplicaTypeWorker) of
                  Inl e \<Rightarrow> Inl e
                | Inr workers \<Rightarrow>
                    tf_loop name policy
                      (ContainsReplicaType specs [TFReplicaTypeChief, TFReplicaTypeMaster, JobReplicaTypeAIMaster])
                      (map_of specs TFReplicaTypeWorker \<noteq> None) allWorkers (worker0_completed workers)
                      now restart specs (set_start now st))))"

subsection \<open>PyTorch\<close>

definition pt_type_step ::
    "string \<Rightarrow> bool \<Rightarrow> bool \<Rightarrow> time \<Rightarrow> ReplicaType \<Rightarrow> int \<Rightarrow> int \<Rightarrow> int \<Rightarrow> JobStatus \<Rightarrow> JobStatus" where
  "pt_type_step name workerFound allWorkers now rtype replicas expected running st =
     (if rtype = ''Master'' \<or> rtype = JobReplicaTypeAIMaster
      then (let st1 = (if running > 0
                       then UpdateJobConditions now st JobRunning JobRunningReason (running_msg ''PyTorchJob'' name) else st);
                succeed = replicas > 0 \<and> expected = 0 \<and>
                  (rtype \<noteq> JobReplicaTypeAIMaster \<and> workerFound \<longrightarrow> allWorkers)
            in if succeed
               then complete now st1 JobSucceeded JobSucceededReason
                      (''PyTorchJob '' @ name @ '' is successfully completed.'')
               else st1)
      else st)"

fun pt_loop ::
    "string \<Rightarrow> bool \<Rightarrow> bool \<Rightarrow> bool \<Rightarrow> time \<Rightarrow> bool \<Rightarrow> replica_specs \<Rightarrow> JobStatus \<Rightarrow> go_error + JobStatus" where
  "pt_loop name hasMaster workerFound allWorkers now restart [] st = Inr st"
| "pt_loop name hasMaster workerFound allWorkers now restart ((rtype, spec) # specs) st =
     (case Replicas spec of
        None \<Rightarrow> Inl nil_replicas
      | Some replicas \<Rightarrow>
          (case rstatus st rtype of
             None \<Rightarrow> pt_loop name hasMaster workerFound allWorkers now restart specs st
           | Some status \<Rightarrow>
               (if \<not> hasMaster then Inl (Err ''invalid config: Job must contain master replica spec'')
                else pt_loop name hasMaster workerFound allWorkers now restart specs
                       (report_failure ''PyTorchJob'' name now rtype (Failed status)
                         (restart \<and> rtype \<noteq> JobReplicaTypeAIMaster)
                         (pt_type_step name workerFound allWorkers now rtype replicas
                           (i32 (replicas - Succeeded status)) (Active status) st)))))"

definition pt_updateGeneralJobStatus ::
    "string \<Rightarrow> time \<Rightarrow> replica_specs \<Rightarrow> JobStatus \<Rightarrow> bool \<Rightarrow> go_error + JobStatus" where
  "pt_updateGeneralJobStatus name now specs st restart =
     (let st1 = set_start now st in
      case all_workers_succeed ''Worker'' specs st1 of
        Inl e \<Rightarrow> Inl e
      | Inr allWorkers \<Rightarrow>
          pt_loop name (ContainsReplicaType specs [''Master'', JobReplicaTypeAIMaster])
            (map_of specs ''Worker'' \<noteq> None) allWorkers now restart specs st1)"

subsection \<open>XGBoost\<close>

text \<open>
  The Failed branch tests the completion time of the job object (\<open>jobCompletion\<close>), not of the
  status being built.
\<close>

definition xgb_failure ::
    "string \<Rightarrow> time option \<Rightarrow> time \<Rightarrow> ReplicaType \<Rightarrow> int \<Rightarrow> bool \<Rightarrow> JobStatus \<Rightarrow> JobStatus" where
  "xgb_failure name jobCompletion now rtype failed restart st =
     (if failed > 0
      then (if restart
            then UpdateJobConditions now st JobRestarting JobRestartingReason
                   (''XGBoostJob '' @ name @ '' is restarting because '' @ Itoa failed @ '' '' @ rtype @ '' replica(s) failed.'')
            else UpdateJobConditions now
                   (if jobCompletion = None then st\<lparr>CompletionTime := Some now\<rparr> else st) JobFailed JobFailedReason
                   (''XGBoostJob '' @ name @ '' is failed because '' @ Itoa failed @ '' '' @ rtype @ '' replica(s) failed.''))
      else st)"

fun xgb_loop ::
    "string \<Rightarrow> time option \<Rightarrow> time \<Rightarrow> bool \<Rightarrow> replica_specs \<Rightarrow> JobStatus \<Rightarrow> go_error + JobStatus" where
  "xgb_loop name jobCompletion now restart [] st =
     Inr (UpdateJobConditions now st JobRunning JobRunningReason (running_msg ''XGBoostJob'' name))"
| "xgb_loop name jobCompletion now restart ((rtype, spec) # specs) st =
     (case rstatus st rtype of
        None \<Rightarrow> xgb_loop name jobCompletion now restart specs st
      | Some status \<Rightarrow>
          (case Replicas spec of
             None \<Rightarrow> Inl nil_replicas
           | Some replicas \<Rightarrow>
               (let expected = i32 (replicas - Succeeded status);
                    st1 = (if Active status = replicas then set_start now st else st);
                    st2 = (if rtype = ''Master'' \<and> Active status > 0
                           then UpdateJobConditions now st1 JobRunning JobRunningReason (running_msg ''XGBoostJob'' name) else st1)
                in if rtype = ''Master'' \<and> expected = 0
                   then Inr (complete now st2 JobSucceeded JobSucceededReason
                          (''XGBoostJob '' @ name @ '' is successfully completed.''))
                   else xgb_loop name jobCompletion now restart specs
                          (xgb_failure name jobCompletion now rtype (Failed status) restart st2))))"

definition xgb_UpdateJobStatus ::
    "string \<Rightarrow> time \<Rightarrow> replica_specs \<Rightarrow> JobStatus \<Rightarrow> bool \<Rightarrow> go_error + JobStatus" where
  "xgb_UpdateJobStatus name now specs st restart = xgb_loop name (CompletionTime st) now restart specs st"

subsection \<open>XDL\<close>

text \<open>
  \<open>int32(math.Ceil(float64(a) / 100))\<close>: the product is an \<open>int32\<close>, so the quotient is
  an integer exactly or at least 0.01 away from one and the ceiling is exact.
\<close>

definition calculateMinFinish :: "int option \<Rightarrow> int option \<Rightarrow> int \<Rightarrow> int" where
  "calculateMinFinish percentage minNum workersNum =
     (case percentage of
        Some p \<Rightarrow> - ((- i32 (workersNum * p)) div 100)
      | None \<Rightarrow> (case minNum of Some n \<Rightarrow> n | None \<Rightarrow> workersNum))"

definition xdl_finish ::
    "string \<Rightarrow> int option \<Rightarrow> int option \<Rightarrow> time \<Rightarrow> int \<Rightarrow> int \<Rightarrow> JobStatus \<Rightarrow> JobStatus" where
  "xdl_finish name percentage minNum now workerNum workerSucceeded st =
     (if workerSucceeded \<ge> calculateMinFinish percentage minNum workerNum
      then complete now st JobSucceeded JobSucceededReason (''XDLJob '' @ name @ '' is successfully completed.'')
      else UpdateJobConditions now st JobRunning JobRunningReason (running_msg ''XDLJob'' name))"

fun xdl_loop ::
    "string \<Rightarrow> int option \<Rightarrow> int option \<Rightarrow> time \<Rightarrow> bool \<Rightarrow> replica_specs \<Rightarrow> int \<Rightarrow> int \<Rightarrow> JobStatus \<Rightarrow> go_error + JobStatus" where
  "xdl_loop name percentage minNum now restart [] workerNum workerSucceeded st =
     Inr (xdl_finish name percentage minNum now workerNum workerSucceeded st)"
| "xdl_loop name percentage minNum now restart ((rtype, spec) # specs) workerNum workerSucceeded st =
     (case Replicas spec of
        None \<Rightarrow> Inl nil_replicas
      | Some replicas \<Rightarrow>
          (case rstatus st rtype of
             None \<Rightarrow> xdl_loop name percentage minNum now restart specs workerNum workerSucceeded st
           | Some status \<Rightarrow>
               (let is_worker = (rtype = ''Worker'' \<or> rtype = ''ExtendRole'');
                    num1 = (if is_worker then i32 (workerNum + replicas) else workerNum);
                    suc1 = (if is_worker then i32 (workerSucceeded + Succeeded status) else workerSucceeded);
                    st1 = (if Active status = replicas then set_start now st else st)
                in if Failed status > 0
                   then Inr (report_failure ''XDLJob'' name now rtype (Failed status) restart st1)
                   else xdl_loop name percentage minNum now restart specs num1 suc1 st1)))"

definition xdl_updateGeneralJobStatus ::
    "string \<Rightarrow> int option \<Rightarrow> int option \<Rightarrow> time \<Rightarrow> replica_specs \<Rightarrow> JobStatus \<Rightarrow> bool \<Rightarrow> go_error + JobStatus" where
  "xdl_updateGeneralJobStatus name percentage minNum now specs st restart =
     xdl_loop name percentage minNum now restart specs 0 0 st"

subsection \<open>MPI\<close>

definition mpi_launcher :: "string \<Rightarrow> bool \<Rightarrow> time \<Rightarrow> ReplicaStatus \<Rightarrow> JobStatus \<Rightarrow> JobStatus" where
  "mpi_launcher name jobEvicted now launcher st =
     (let msg = ''MPIJob '' @ name @ '' is failed because '' @ Itoa (Failed launcher) @ '' Launcher replica(s) failed'' in
      if Evicted launcher > 0 then UpdateJobConditions now st JobFailed JobEvictedReason msg
      else UpdateJobConditions now (if \<not> jobEvicted then set_completion now st else st) JobFailed JobFailedReason msg)"

definition mpi_workers ::
    "string \<Rightarrow> time \<Rightarrow> replica_specs \<Rightarrow> ReplicaStatus option \<Rightarrow> ReplicaStatus \<Rightarrow> bool \<Rightarrow> JobStatus \<Rightarrow> go_error + JobStatus" where
  "mpi_workers name now specs launcher worker restart st =
     (case Option.bind (map_of specs ''Worker'') Replicas of
        None \<Rightarrow> Inl nil_replicas
      | Some workerReplicas \<Rightarrow>
          (let st1 = (if Evicted worker > 0
                      then UpdateJobConditions now st JobFailed JobEvictedReason
                             (Itoa (Evicted worker) @ ''/'' @ Itoa workerReplicas @ '' workers are evicted.'')
                      else st)
           in Inr (if Failed worker > 0 \<and> restart
                   then UpdateJobConditions now st1 JobRestarting JobRestartingReason
                          (''MPIJob '' @ name @ '' is restarting because '' @ Itoa workerReplicas @ '' Worker replica(s) failed'')
                   else if (case launcher of None \<Rightarrow> False | Some l \<Rightarrow> Active l > 0) \<and> Active worker = workerReplicas
                   then UpdateJobConditions now st1 JobRunning JobRunningReason (running_msg ''MPIJob'' name)
                   else st1)))"

text \<open>\<open>jobEvicted\<close> is \<open>IsEvicted\<close> of the status in the job object.\<close>

definition mpi_UpdateJobStatus ::
    "string \<Rightarrow> bool \<Rightarrow> time \<Rightarrow> replica_specs \<Rightarrow> JobStatus \<Rightarrow> bool \<Rightarrow> go_error + JobStatus" where
  "mpi_UpdateJobStatus name jobEvicted now specs st restart =
     (let launcher = rstatus st ''Launcher''; worker = rstatus st ''Worker'';
          after = (\<lambda>st1. case worker of None \<Rightarrow> Inr st1 | Some w \<Rightarrow> mpi_workers name now specs launcher w restart st1)
      in case launcher of
           None \<Rightarrow> after st
         | Some l \<Rightarrow>
             (if Succeeded l > 0
              then Inr (complete now st JobSucceeded JobSucceededReason (''MPIJob '' @ name @ '' has successfully completed.''))
              else if Failed l > 0 then after (mpi_launcher name jobEvicted now l st)
              else after st))"

subsection \<open>Mars\<close>

fun mars_loop :: "string \<Rightarrow> time \<Rightarrow> bool \<Rightarrow> replica_specs \<Rightarrow> int \<Rightarrow> JobStatus \<Rightarrow> go_error + JobStatus" where
  "mars_loop name now restart [] runningWorkers st =
     Inr (if runningWorkers > 0
          then UpdateJobConditions now st JobRunning JobRunningReason (running_msg ''MarsJob'' name) else st)"
| "mars_loop name now restart ((rtype, spec) # specs) runningWorkers st =
     (case rstatus st rtype of
        None \<Rightarrow> mars_loop name now restart specs runningWorkers st
      | Some status \<Rightarrow>
          (case Replicas spec of
             None \<Rightarrow> Inl nil_replicas
           | Some replicas \<Rightarrow>
               (let running1 = (if rtype = ''Worker'' then Active status else runningWorkers) in
                if Failed status > 0
                then Inr (if rtype = ''Scheduler''
                          then complete now st JobFailed ''MarsJobFailed''
                                 (''MarsJob '' @ name @ '' is failed because '' @ Itoa (Failed status) @ '' '' @ rtype @
                                  '' replica(s) failed'')
                          else if restart
                          then UpdateJobConditions now st JobRestarting ''MarsJobRestarting''
                                 (''MarsJob '' @ name @ '' is restarting because '' @ Itoa (Failed status) @ '' '' @ rtype @
                                  '' replica(s) failed'')
                          else st)
                else if rtype = ''Scheduler'' \<and> Succeeded status = replicas
                then Inr (complete now st JobSucceeded JobSucceededReason
                       (''MarsJob '' @ name @ '' has successfully completed.''))
                else mars_loop name now restart specs running1 st)))"

definition mars_updateGeneralJobStatus ::
    "string \<Rightarrow> time \<Rightarrow> replica_specs \<Rightarrow> JobStatus \<Rightarrow> bool \<Rightarrow> go_error + JobStatus" where
  "mars_updateGeneralJobStatus name now specs st restart =
     mars_loop name now restart specs 0 (set_start now st)"

subsection \<open>ElasticDL\<close>

definition edl_updateGeneralJobStatus ::
    "string \<Rightarrow> time \<Rightarrow> replica_specs \<Rightarrow> JobStatus \<Rightarrow> bool \<Rightarrow> go_error + JobStatus" where
  "edl_updateGeneralJobStatus name now specs st restart =
     (let st0 = set_start now st in
      case map_of specs ''Master'' of
        None \<Rightarrow> Inl (Err ''invalid config: Job must contain master replica spec'')
      | Some spec \<Rightarrow>
          (case (Replicas spec, rstatus st0 ''Master'') of
             (Some replicas, Some status) \<Rightarrow>
               (let st1 = (if Active status > 0
                           then UpdateJobConditions now st0 JobRunning JobRunningReason (running_msg ''ElasticDLJob'' name) else st0);
                    st2 = (if i32 (replicas - Succeeded status) = 0
                           then complete now st1 JobSucceeded JobSucceededReason
                                  (''ElasticDLJob '' @ name @ '' is successfully completed.'')
                           else st1)
                in Inr (report_failure ''ElasticDLJob'' name now ''Master'' (Failed status) restart st2))
           | _ \<Rightarrow> Inl (Panic ''nil pointer'')))"

subsection \<open>ElasticBatch\<close>

definition ebatch_type_step ::
    "string \<Rightarrow> SuccessPolicy option \<Rightarrow> bool \<Rightarrow> bool \<Rightarrow> time \<Rightarrow> ReplicaType \<Rightarrow> int \<Rightarrow> int \<Rightarrow> JobStatus \<Rightarrow> JobStatus" where
  "ebatch_type_step name policy workerFound allWorkers now rtype expected running st =
     (let st1 = (if running > 0
                 then UpdateJobConditions now st JobRunning JobRunningReason (running_msg ''ElasticBatchJob'' name) else st);
          succeed = expected = 0 \<and>
            (rtype \<noteq> JobReplicaTypeAIMaster \<and> workerFound \<and> policy = Some SuccessPolicyAllWorkers \<longrightarrow> allWorkers)
      in if succeed
         then complete now st1 JobSucceeded JobSucceededReason (''ElasticBatchJob '' @ name @ '' successfully completed.'')
         else st1)"

fun ebatch_loop ::
    "string \<Rightarrow> SuccessPolicy option \<Rightarrow> bool \<Rightarrow> bool \<Rightarrow> bool \<Rightarrow> time \<Rightarrow> bool \<Rightarrow> replica_specs \<Rightarrow> JobStatus \<Rightarrow>
     go_error + JobStatus" where
  "ebatch_loop name policy hasAIMaster workerFound allWorkers now restart [] st = Inr st"
| "ebatch_loop name policy hasAIMaster workerFound allWorkers now restart ((rtype, spec) # specs) st =
     (case Replicas spec of
        None \<Rightarrow> Inl nil_replicas
      | Some replicas \<Rightarrow>
          (case rstatus st rtype of
             None \<Rightarrow> ebatch_loop name policy hasAIMaster workerFound allWorkers now restart specs st
           | Some status \<Rightarrow>
               (if \<not> hasAIMaster then Inl (Err ''invalid config: Job must contain AIMaster replica spec'')
                else ebatch_loop name policy hasAIMaster workerFound allWorkers now restart specs
                       (report_failure ''ElasticBatchJob'' name now rtype (Failed status)
                         (restart \<and> rtype \<noteq> JobReplicaTypeAIMaster)
                         (ebatch_type_step name policy workerFound allWorkers now rtype
                           (i32 (replicas - Succeeded status)) (Active status) st)))))"

definition ebatch_updateGeneralJobStatus ::
    "string \<Rightarrow> SuccessPolicy option \<Rightarrow> time \<Rightarrow> replica_specs \<Rightarrow> JobStatus \<Rightarrow> bool \<Rightarrow> go_error + JobStatus" where
  "ebatch_updateGeneralJobStatus name policy now specs st restart =
     (let st1 = set_start now st in
      case all_workers_succeed ''Worker'' specs st1 of
        Inl e \<Rightarrow> Inl e
      | Inr allWorkers \<Rightarrow>
          ebatch_loop name policy (ContainsReplicaType specs [JobReplicaTypeAIMaster])
            (map_of specs ''Worker'' \<noteq> None) allWorkers now restart specs st1)"

subsection \<open>The workloads satisfy the contract\<close>

lemmas status_intros = status_steps.stop status_steps.condition

lemma tf_master_steps: "status_steps s t \<Longrightarrow> status_steps s (tf_master_step nm pol wo aw now rt ex ru t)"
  by (auto simp: tf_master_step_def Let_def intro: status_steps.condition)

lemma tf_master_ok: "completed_ok t \<Longrightarrow> completed_ok (tf_master_step nm pol wo aw now rt ex ru t)"
  by (auto simp: tf_master_step_def Let_def)

lemma tf_worker_steps: "tf_worker_step nm pol w0 now ex ru t = Inr t' \<Longrightarrow> status_steps s t \<Longrightarrow> status_steps s t'"
  by (auto simp: tf_worker_step_def Let_def split: if_splits option.splits intro: status_steps.condition)

lemma tf_worker_ok: "tf_worker_step nm pol w0 now ex ru t = Inr t' \<Longrightarrow> completed_ok t \<Longrightarrow> completed_ok t'"
  by (auto simp: tf_worker_step_def Let_def split: if_splits option.splits)

lemma tf_type_steps:
  "tf_type_step nm pol hm wo aw w0 now re rt ex ru t = Inr t' \<Longrightarrow> status_steps s t \<Longrightarrow> status_steps s t'"
  by (auto simp: tf_type_step_def split: if_splits intro: tf_master_steps tf_worker_steps)

lemma tf_type_ok:
  "tf_type_step nm pol hm wo aw w0 now re rt ex ru t = Inr t' \<Longrightarrow> completed_ok t \<Longrightarrow> completed_ok t'"
  by (auto simp: tf_type_step_def split: if_splits intro: tf_master_ok tf_worker_ok)

lemma tf_loop_steps: "tf_loop nm pol hm wo aw w0 now re specs t = Inr t' \<Longrightarrow> status_steps s t \<Longrightarrow> status_steps s t'"
proof (induction specs arbitrary: t)
  case (Cons x specs)
  obtain rtype spec where "x = (rtype, spec)" by force
  with Cons show ?case by (auto split: option.splits sum.splits intro: tf_type_steps)
qed simp

lemma tf_loop_ok: "tf_loop nm pol hm wo aw w0 now re specs t = Inr t' \<Longrightarrow> completed_ok t \<Longrightarrow> completed_ok t'"
proof (induction specs arbitrary: t)
  case (Cons x specs)
  obtain rtype spec where "x = (rtype, spec)" by force
  with Cons show ?case by (auto split: option.splits sum.splits intro: tf_type_ok)
qed simp

interpretation tf: status_updater "tf_updateGeneralJobStatus W name policy pods" for W name policy pods
  by unfold_locales
    (auto simp: tf_updateGeneralJobStatus_def split: sum.splits
      intro: tf_loop_steps [OF _ steps_set_start] tf_loop_ok [OF _ ok_set_start] status_steps.stop)

lemma pt_type_steps: "status_steps s t \<Longrightarrow> status_steps s (pt_type_step nm wo aw now rt n ex ru t)"
  by (auto simp: pt_type_step_def Let_def intro: status_steps.condition)

lemma pt_type_ok: "completed_ok t \<Longrightarrow> completed_ok (pt_type_step nm wo aw now rt n ex ru t)"
  by (auto simp: pt_type_step_def Let_def)

lemma pt_loop_steps: "pt_loop nm hm wo aw now re specs t = Inr t' \<Longrightarrow> status_steps s t \<Longrightarrow> status_steps s t'"
proof (induction specs arbitrary: t)
  case (Cons x specs)
  obtain rtype spec where "x = (rtype, spec)" by force
  with Cons show ?case by (auto split: option.splits sum.splits if_splits intro: pt_type_steps)
qed simp

lemma pt_loop_ok: "pt_loop nm hm wo aw now re specs t = Inr t' \<Longrightarrow> completed_ok t \<Longrightarrow> completed_ok t'"
proof (induction specs arbitrary: t)
  case (Cons x specs)
  obtain rtype spec where "x = (rtype, spec)" by force
  with Cons show ?case by (auto split: option.splits sum.splits if_splits intro: pt_type_ok)
qed simp

interpretation pytorch: status_updater "pt_updateGeneralJobStatus name" for name
  by unfold_locales
    (auto simp: pt_updateGeneralJobStatus_def Let_def split: sum.splits
      intro: pt_loop_steps [OF _ steps_set_start] pt_loop_ok [OF _ ok_set_start] status_steps.stop)

lemma xgb_failure_steps: "status_steps s t \<Longrightarrow> status_steps s (xgb_failure nm jc now rt f re t)"
  by (auto simp: xgb_failure_def intro: status_steps.condition status_steps.completion)

lemma xgb_failure_ok:
  "completed_ok t \<Longrightarrow> jc \<noteq> None \<longrightarrow> CompletionTime t \<noteq> None \<Longrightarrow> completed_ok (xgb_failure nm jc now rt f re t)"
  by (auto simp: xgb_failure_def completed_ok_def dest: not_terminal_update [rotated 2])

lemma xgb_loop_steps: "xgb_loop nm jc now re specs t = Inr t' \<Longrightarrow> status_steps s t \<Longrightarrow> status_steps s t'"
proof (induction specs arbitrary: t)
  case Nil
  then show ?case by (auto intro: status_steps.condition)
next
  case (Cons x specs)
  obtain rtype spec where "x = (rtype, spec)" by force
  with Cons show ?case
    by (auto simp: Let_def split: option.splits if_splits intro!: status_steps.condition xgb_failure_steps)
qed

lemma xgb_completion:
  "CompletionTime t \<noteq> None \<Longrightarrow> CompletionTime (xgb_failure nm jc now rt f re (UpdateJobConditions now' (set_start now t) ty r m)) \<noteq> None"
  "CompletionTime t \<noteq> None \<Longrightarrow> CompletionTime (xgb_failure nm jc now rt f re (UpdateJobConditions now' t ty r m)) \<noteq> None"
  "CompletionTime t \<noteq> None \<Longrightarrow> CompletionTime (xgb_failure nm jc now rt f re (set_start now t)) \<noteq> None"
  "CompletionTime t \<noteq> None \<Longrightarrow> CompletionTime (xgb_failure nm jc now rt f re t) \<noteq> None"
  by (auto simp: xgb_failure_def set_start_def)

lemma xgb_loop_ok:
  "xgb_loop nm jc now re specs t = Inr t' \<Longrightarrow> completed_ok t \<Longrightarrow> jc \<noteq> None \<longrightarrow> CompletionTime t \<noteq> None \<Longrightarrow>
   completed_ok t'"
proof (induction specs arbitrary: t)
  case Nil
  then show ?case by auto
next
  case (Cons x specs)
  obtain rtype spec where [simp]: "x = (rtype, spec)" by force
  show ?case
  proof (cases "rstatus t rtype")
    case None
    with Cons show ?thesis by simp
  next
    case (Some status)
    with Cons.prems(1) obtain n where n: "Replicas spec = Some n" by (auto split: option.splits)
    define t1 where "t1 = (if Active status = n then set_start now t else t)"
    define t2 where "t2 = (if rtype = ''Master'' \<and> Active status > 0
        then UpdateJobConditions now t1 JobRunning JobRunningReason (running_msg ''XGBoostJob'' nm) else t1)"
    have ok: "completed_ok t2" using Cons.prems(2) by (auto simp: t1_def t2_def)
    have ct: "jc \<noteq> None \<longrightarrow> CompletionTime t2 \<noteq> None" using Cons.prems(3) by (auto simp: t1_def t2_def set_start_def)
    have ct': "jc \<noteq> None \<longrightarrow> CompletionTime (xgb_failure nm jc now rtype (Failed status) re t2) \<noteq> None"
      using ct xgb_completion(4) by blast
    have "t' = complete now t2 JobSucceeded JobSucceededReason (''XGBoostJob '' @ nm @ '' is successfully completed.'') \<or>
        xgb_loop nm jc now re specs (xgb_failure nm jc now rtype (Failed status) re t2) = Inr t'"
      using Cons.prems(1) Some n by (auto simp: t1_def t2_def Let_def split: if_splits)
    then show ?thesis using Cons.IH [OF _ xgb_failure_ok [OF ok ct] ct'] by auto
  qed
qed

interpretation xgboost: status_updater "xgb_UpdateJobStatus name" for name
  by unfold_locales (auto simp: xgb_UpdateJobStatus_def intro: xgb_loop_steps [OF _ status_steps.stop] xgb_loop_ok)

lemma xdl_finish_steps: "status_steps s t \<Longrightarrow> status_steps s (xdl_finish nm pc mn now wn ws t)"
  by (auto simp: xdl_finish_def intro: status_steps.condition)

lemma xdl_finish_ok: "completed_ok t \<Longrightarrow> completed_ok (xdl_finish nm pc mn now wn ws t)"
  by (auto simp: xdl_finish_def)

lemma xdl_loop_steps: "xdl_loop nm pc mn now re specs wn ws t = Inr t' \<Longrightarrow> status_steps s t \<Longrightarrow> status_steps s t'"
proof (induction specs arbitrary: t wn ws)
  case (Cons x specs)
  obtain rtype spec where "x = (rtype, spec)" by force
  with Cons show ?case by (auto simp: Let_def split: option.splits if_splits)
qed (auto intro: xdl_finish_steps)

lemma xdl_loop_ok: "xdl_loop nm pc mn now re specs wn ws t = Inr t' \<Longrightarrow> completed_ok t \<Longrightarrow> completed_ok t'"
proof (induction specs arbitrary: t wn ws)
  case (Cons x specs)
  obtain rtype spec where "x = (rtype, spec)" by force
  with Cons show ?case by (auto simp: Let_def split: option.splits if_splits)
qed (auto intro: xdl_finish_ok)

interpretation xdl: status_updater "xdl_updateGeneralJobStatus name percentage minNum" for name percentage minNum
  by unfold_locales
    (auto simp: xdl_updateGeneralJobStatus_def intro: xdl_loop_steps [OF _ status_steps.stop] xdl_loop_ok)

lemma no_evictions_status: "no_evictions st \<Longrightarrow> rstatus st r = Some s \<Longrightarrow> Evicted s = 0"
  by (simp add: no_evictions_iff)

lemma mpi_launcher_steps: "status_steps s t \<Longrightarrow> status_steps s (mpi_launcher nm je now l t)"
  by (auto simp: mpi_launcher_def Let_def intro: status_steps.condition)

lemma mpi_launcher_ok: "Evicted l = 0 \<Longrightarrow> completed_ok (mpi_launcher nm False now l t)"
  using ok_complete by (auto simp: mpi_launcher_def Let_def complete_def)

lemma mpi_workers_steps: "mpi_workers nm now specs l w re t = Inr t' \<Longrightarrow> status_steps s t \<Longrightarrow> status_steps s t'"
  by (auto simp: mpi_workers_def Let_def split: option.splits if_splits intro!: status_steps.condition)

lemma mpi_workers_ok:
  "mpi_workers nm now specs l w re t = Inr t' \<Longrightarrow> Evicted w = 0 \<Longrightarrow> completed_ok t \<Longrightarrow> completed_ok t'"
  by (auto simp: mpi_workers_def Let_def split: option.splits if_splits)

lemma mpi_steps:
  assumes "mpi_UpdateJobStatus nm je now specs st re = Inr st'"
  shows "status_steps st st'"
proof -
  note l = mpi_launcher_steps [OF status_steps.stop [of st]]
  from assms show ?thesis
    by (auto simp: mpi_UpdateJobStatus_def Let_def split: option.splits if_splits
        intro: status_steps.stop steps_complete l mpi_workers_steps [OF _ l] mpi_workers_steps [OF _ status_steps.stop])
qed

lemma mpi_ok:
  assumes "mpi_UpdateJobStatus nm False now specs st re = Inr st'" "completed_ok st" "no_evictions st"
  shows "completed_ok st'"
proof -
  have ev: "Evicted s = 0" if "rstatus st r = Some s" for r s using no_evictions_status [OF assms(3) that] .
  from assms(1,2) show ?thesis
    by (auto simp: mpi_UpdateJobStatus_def Let_def ev split: option.splits if_splits
        intro: mpi_launcher_ok mpi_workers_ok [OF _ ev] mpi_workers_ok [OF _ ev mpi_launcher_ok [OF ev]] ok_complete)
qed

interpretation mpi: status_updater "mpi_UpdateJobStatus name False" for name
  by unfold_locales (auto intro: mpi_steps mpi_ok)

lemma mars_loop_steps: "mars_loop nm now re specs rw t = Inr t' \<Longrightarrow> status_steps s t \<Longrightarrow> status_steps s t'"
proof (induction specs arbitrary: rw)
  case (Cons x specs)
  obtain rtype spec where "x = (rtype, spec)" by force
  with Cons show ?case by (auto simp: Let_def split: option.splits if_splits intro: status_steps.condition)
qed (auto intro: status_steps.condition)

lemma mars_loop_ok: "mars_loop nm now re specs rw t = Inr t' \<Longrightarrow> completed_ok t \<Longrightarrow> completed_ok t'"
proof (induction specs arbitrary: rw)
  case (Cons x specs)
  obtain rtype spec where "x = (rtype, spec)" by force
  with Cons show ?case by (auto simp: Let_def split: option.splits if_splits)
qed auto

interpretation mars: status_updater "mars_updateGeneralJobStatus name" for name
  by unfold_locales
    (auto simp: mars_updateGeneralJobStatus_def
      intro: mars_loop_steps [OF _ steps_set_start] mars_loop_ok [OF _ ok_set_start] status_steps.stop)

interpretation elasticdl: status_updater "edl_updateGeneralJobStatus name" for name
  by unfold_locales
    (auto simp: edl_updateGeneralJobStatus_def Let_def split: option.splits if_splits
      intro!: steps_report ok_report steps_complete status_steps.condition status_steps.stop)

lemma ebatch_type_steps: "status_steps s t \<Longrightarrow> status_steps s (ebatch_type_step nm pol wo aw now rt ex ru t)"
  by (auto simp: ebatch_type_step_def Let_def intro: status_steps.condition)

lemma ebatch_type_ok: "completed_ok t \<Longrightarrow> completed_ok (ebatch_type_step nm pol wo aw now rt ex ru t)"
  by (auto simp: ebatch_type_step_def Let_def)

lemma ebatch_loop_steps: "ebatch_loop nm pol ha wo aw now re specs t = Inr t' \<Longrightarrow> status_steps s t \<Longrightarrow> status_steps s t'"
proof (induction specs arbitrary: t)
  case (Cons x specs)
  obtain rtype spec where "x = (rtype, spec)" by force
  with Cons show ?case by (auto split: option.splits if_splits intro: ebatch_type_steps)
qed simp

lemma ebatch_loop_ok: "ebatch_loop nm pol ha wo aw now re specs t = Inr t' \<Longrightarrow> completed_ok t \<Longrightarrow> completed_ok t'"
proof (induction specs arbitrary: t)
  case (Cons x specs)
  obtain rtype spec where "x = (rtype, spec)" by force
  with Cons show ?case by (auto split: option.splits if_splits intro: ebatch_type_ok)
qed simp

interpretation elasticbatch: status_updater "ebatch_updateGeneralJobStatus name policy" for name policy
  by unfold_locales
    (auto simp: ebatch_updateGeneralJobStatus_def Let_def split: sum.splits
      intro: ebatch_loop_steps [OF _ steps_set_start] ebatch_loop_ok [OF _ ok_set_start] status_steps.stop)

end
