(* ===== verification/Reconcile_Safety.thy ===== *)
theory Reconcile_Safety
  imports Job_Reconcile Framework_Status
begin

text \<open>
  Safety of the reconciliation of a job: which statuses it writes, for every workload that
  satisfies the contract \<open>status_updater\<close>, and what happens to jobs that are finished or
  exceed a limit.
\<close>

subsection \<open>How a status may evolve\<close>

definition evolves :: "JobStatus \<Rightarrow> JobStatus \<Rightarrow> bool" where
  "evolves st st' \<longleftrightarrow>
     (conditions_wf st \<longrightarrow> conditions_wf st') \<and> (is_terminal st \<longrightarrow> Conditions st' = Conditions st)"

lemma has_cong: "Conditions a = Conditions b \<Longrightarrow> HasCondition a ty = HasCondition b ty"
  by (simp add: HasCondition_def)

lemma terminal_cong: "Conditions a = Conditions b \<Longrightarrow> is_terminal a = is_terminal b"
  by (simp add: is_terminal_def is_defs has_cong [of a b])

lemma wf_cong: "Conditions a = Conditions b \<Longrightarrow> conditions_wf a = conditions_wf b"
  by (simp add: conditions_wf_def cond_types_def is_defs has_cong [of a b] terminal_cong [of a b])

lemma evolves_same: "Conditions a = Conditions b \<Longrightarrow> evolves a b"
  using wf_cong [of a b] by (simp add: evolves_def)

lemma evolves_trans: "evolves a b \<Longrightarrow> evolves b c \<Longrightarrow> evolves a c"
  using terminal_cong [of b a] by (auto simp: evolves_def)

lemma evolves_update: "evolves st (UpdateJobConditions now st ty reason message)"
  by (simp add: evolves_def update_wf terminal_fixed)

lemma evolves_steps: "status_steps st st' \<Longrightarrow> evolves st st'"
  using steps_wf steps_terminal by (auto simp: evolves_def)

lemma ReconcilePods_conditions:
  assumes "ReconcilePods jc ports job st pods rt spec specs rp restart h = (Inr (job', st', ports', restart'), h')"
  shows "Conditions st' = Conditions st \<and> (no_evictions st \<longrightarrow> no_evictions st')"
proof -
  from assms obtain n S s h1 job1 h2 s1 where
    loop: "slices_loop jc job rt spec specs rp n 0 S
       \<lparr>rp_status = initializeReplicaStatuses st rt, rp_ports = ports, rp_restart = restart,
        rp_failover = [], rp_failed = []\<rparr> h = (Inr s, h1)"
    and ai: "aimaster_step jc job rt (job1 :: pod list) specs s h1 = (h2, s1)" and "st' = rp_status (fst s1)"
    unfolding ReconcilePods_def
    by (auto simp: andThen_def split: sum.splits option.splits prod.splits) (metis prod.collapse)+
  moreover have "rp_status (fst s1) = rp_status s"
    using ai by (cases s1) (auto dest: aimaster_status)
  moreover from slices_loop_status [OF loop, of zero_status]
  have "Conditions (rp_status s) = Conditions st"
    and own: "rstatus (rp_status s) rt = Some (foldl add_pod zero_status (counted_pods n 0 S))"
    and other: "\<forall>q. q \<noteq> rt \<longrightarrow> rstatus (rp_status s) q = rstatus st q" by simp_all
  moreover have "no_evictions st \<longrightarrow> no_evictions (rp_status s)"
    unfolding no_evictions_iff
  proof (intro impI allI)
    fix r x assume ne: "\<forall>r s. rstatus st r = Some s \<longrightarrow> Evicted s = 0" and x: "rstatus (rp_status s) r = Some x"
    show "Evicted x = 0"
    proof (cases "r = rt")
      case True
      with own x show ?thesis by (auto simp: foldl_add_pod_zero)
    next
      case False
      with other x ne show ?thesis by simp
    qed
  qed
  ultimately show ?thesis by simp
qed

lemma replica_step_conditions:
  "replica_step jc specs args pods svcs rt spec s h = (Inr s', h') \<Longrightarrow>
   Conditions (rs_status s') = Conditions (rs_status s) \<and> (no_evictions (rs_status s) \<longrightarrow> no_evictions (rs_status s'))"
  by (auto simp: replica_step_def andThen_def guarded_def Let_def
      split: sum.splits prod.splits option.splits if_splits)
    (metis ReconcilePods_conditions prod.collapse)+

lemma replicas_loop_conditions:
  "replicas_loop jc specs args pods svcs rts s h = (Inr s', h') \<Longrightarrow>
   Conditions (rs_status s') = Conditions (rs_status s) \<and> (no_evictions (rs_status s) \<longrightarrow> no_evictions (rs_status s'))"
proof (induction rts arbitrary: s h)
  case (Cons rt rts)
  show ?case
  proof (cases "map_of specs rt")
    case None
    with Cons show ?thesis by simp
  next
    case (Some spec)
    show ?thesis
    proof (cases "aimaster_frozen (rs_job s) specs rt")
      case True
      with Some Cons.prems show ?thesis by auto
    next
      case False
      with Some Cons.prems obtain b where b: "dag_wait jc specs pods spec = Inr b"
        by (cases "dag_wait jc specs pods spec") auto
      show ?thesis
      proof (cases b)
        case True
        with Some False b Cons show ?thesis by simp
      next
        case nb: False
        with Some False b Cons.prems obtain s1 h1 where
          "replica_step jc specs args pods svcs rt spec s h = (Inr s1, h1)"
          "replicas_loop jc specs args pods svcs rts s1 h1 = (Inr s', h')"
          by (cases "replica_step jc specs args pods svcs rt spec s h";
              cases "fst (replica_step jc specs args pods svcs rt spec s h)") auto
        with replica_step_conditions Cons.IH show ?thesis by metis
      qed
    qed
  qed
qed simp

subsection \<open>Silence of the phases\<close>

text \<open>The calls between two points of a run and the statuses they write.\<close>

definition wrote :: "hist \<Rightarrow> hist \<Rightarrow> JobStatus list \<Rightarrow> bool" where
  "wrote h h' ws \<longleftrightarrow> (\<exists>cs. h' = h @ cs \<and> status_writes cs = ws)"

lemma wrote_Nil: "wrote h h' [] \<longleftrightarrow> silent h h'"
  by (simp add: wrote_def silent_def)

lemma silent_wrote: "silent h h1 \<Longrightarrow> wrote h1 h2 ws \<Longrightarrow> wrote h h2 ws"
  by (auto simp: wrote_def silent_def)

lemma wrote_silent: "wrote h h1 ws \<Longrightarrow> silent h1 h2 \<Longrightarrow> wrote h h2 ws"
  by (auto simp: wrote_def silent_def)

lemma wroteD: "wrote h h' ws \<Longrightarrow> status_writes h' = status_writes h @ ws"
  by (auto simp: wrote_def)

lemma silent_cache_phase: "cache_phase jc job specs st args h = (r, h') \<Longrightarrow> silent h h'"
proof -
  have chk: "silent h h1" if "checkCache W job c h = (x, h1)" for W c x h h1
    using that by (auto simp: checkCache_def createCache_def api_write_def emit_def Let_def silent_def
        split: sum.splits if_splits)
  have add: "silent h h1" if "addCachePathToContainer W job c sp h = (x, h1)" for W c sp x h h1
    using that by (auto simp: addCachePathToContainer_def emit_def Let_def silent_def split: option.splits)
  show "cache_phase jc job specs st args h = (r, h') \<Longrightarrow> silent h h'"
    unfolding cache_phase_def
    by (auto split: option.splits if_splits elim!: silent_guarded silent_andThen) (erule chk, erule add)
qed

lemma silent_gather: "silent_interface jc \<Longrightarrow> gather jc job h = (r, h') \<Longrightarrow> silent h h'"
  unfolding gather_def
  by (auto elim!: silent_andThen) (erule (1) silent_interfaceD(2), erule (1) silent_interfaceD(3))

lemma silent_delete_loop: "delete_loop W policy ps h = (e, h') \<Longrightarrow> silent h h'"
proof (induction ps arbitrary: h)
  case (Cons p ps)
  then show ?case
    by (auto split: if_splits prod.splits option.splits dest!: silent_DeletePod silent_DeleteService intro: silent_trans)
qed simp

lemma silent_deletePodsAndServices: "deletePodsAndServices W rp ps h = (e, h') \<Longrightarrow> silent h h'"
  by (auto simp: deletePodsAndServices_def split: if_splits option.splits dest: silent_delete_loop)

lemma silent_cleanupJob: "cleanupJob W rp st job h = (r, h') \<Longrightarrow> silent h h'"
  by (auto simp: cleanupJob_def api_write_def Let_def silent_def split: option.splits if_splits)

lemma silent_gang_cleanup:
  assumes "silent_interface jc" "gang_cleanup jc job h = (r, h')"
  shows "silent h h'"
proof (cases "EnableGangScheduling (Config jc)")
  case True
  obtain e h1 where D: "DeleteGang jc job (emit (Event ''Normal'' ''JobTerminated'') h) = (e, h1)" by force
  then have "silent (emit (Event ''Normal'' ''JobTerminated'') h) h1"
    using silent_interfaceD(10) [OF assms(1)] by (simp add: DeleteGang_def)
  then have "silent h h1" by (rule silent_trans [OF silent_emit [OF silent_refl], rotated]) simp
  with assms(2) True D show ?thesis
    by (auto simp: gang_cleanup_def split: option.splits intro: silent_emit)
next
  case False
  with assms(2) show ?thesis by (simp add: gang_cleanup_def)
qed

lemma fail_job_facts:
  assumes "fail_job W st failure h = (st', h')"
  shows "silent h h'" "evolves st st'"
    "failure \<noteq> None \<Longrightarrow> \<not> is_terminal st \<Longrightarrow> conditions_wf st \<Longrightarrow> IsFailed st' \<and> CompletionTime st' \<noteq> None"
proof -
  show "silent h h'"
    using assms by (auto simp: fail_job_def Let_def split: option.splits intro: silent_emit)
  show "evolves st st'"
  proof (cases failure)
    case None
    with assms show ?thesis by (auto simp: fail_job_def intro: evolves_same)
  next
    case (Some m)
    let ?st = "if CompletionTime st = None then st\<lparr>CompletionTime := Some (out_now W h')\<rparr> else st"
    have "evolves st ?st" by (rule evolves_same) simp
    from evolves_trans [OF this evolves_update] Some assms show ?thesis by (auto simp: fail_job_def Let_def)
  qed
  show "failure \<noteq> None \<Longrightarrow> \<not> is_terminal st \<Longrightarrow> conditions_wf st \<Longrightarrow> IsFailed st' \<and> CompletionTime st' \<noteq> None"
    using assms by (auto simp: fail_job_def Let_def is_defs HasCondition_update split: option.splits)
qed

lemma createModelVersion_facts:
  assumes "createModelVersion W job mv node st h = (r, h')"
  shows "silent h h'" "r = Inr st' \<Longrightarrow> Conditions st' = Conditions st \<and> CompletionTime st' = CompletionTime st"
  using assms
  by (auto simp: createModelVersion_def guarded_def api_write_def emit_def Let_def silent_def
      split: sum.splits option.splits if_splits)

lemma settle_facts [simp]:
  "Conditions (settle_replicas st) = Conditions st" "CompletionTime (settle_replicas st) = CompletionTime st"
  by (simp_all add: settle_replicas_def)

lemma model_phase_facts:
  assumes "model_phase jc job args pods st h = (r, h')"
  shows "silent h h'" "r = Inr st' \<Longrightarrow> Conditions st' = Conditions st \<and> CompletionTime st' = CompletionTime st"
  using assms createModelVersion_facts [of "World jc" job _ "ja_ModelNode args pods" "settle_replicas st" h r h']
  by (auto simp: model_phase_def split: if_splits option.splits)

lemma silent_cache_end: "updateCacheUsedStatus W job c h = (r, h') \<Longrightarrow> silent h h'"
  by (auto simp: updateCacheUsedStatus_def api_write_def emit_def Let_def silent_def split: sum.splits if_splits)

lemma write_status_facts:
  "write_status jc job old st h = (r, h') \<Longrightarrow> wrote h h' (if DeepEqual_status old st then [] else [st])"
  by (auto simp: write_status_def api_write_def wrote_def split: if_splits)

subsection \<open>Terminated jobs\<close>

lemma terminate_writes:
  assumes sil: "silent_interface jc" and run: "terminate jc job args old st failure pods h = ((res, err), h')"
  shows "\<exists>ws. wrote h h' ws \<and> length ws \<le> 1 \<and>
    (\<forall>w \<in> set ws. evolves st w \<and> \<not> DeepEqual_status old w \<and>
      (failure \<noteq> None \<and> \<not> is_terminal st \<and> conditions_wf st \<longrightarrow> IsFailed w \<and> CompletionTime w \<noteq> None))"
proof -
  obtain e1 h1 where A: "deletePodsAndServices (World jc) (ja_RunPolicy args) pods h = (e1, h1)" by force
  obtain r2 e2 h2 where B: "cleanupJob (World jc) (ja_RunPolicy args) st job h1 = ((r2, e2), h2)" by (metis surj_pair)
  obtain e3 h3 where C: "gang_cleanup jc job h2 = (e3, h3)" by force
  obtain st4 h4 where D: "fail_job (World jc) st failure h3 = (st4, h4)" by force
  obtain r5 h5 where E: "model_phase jc job args pods st4 h4 = (r5, h5)" by (cases "model_phase jc job args pods st4 h4")
  obtain e6 h6 where F: "(case ja_Cache args of None \<Rightarrow> (None, h5)
      | Some cache \<Rightarrow> updateCacheUsedStatus (World jc) job cache h5) = (e6, h6)"
    by (cases "case ja_Cache args of None \<Rightarrow> (None, h5) | Some cache \<Rightarrow> updateCacheUsedStatus (World jc) job cache h5")
  have s12: "silent h h2" using silent_trans [OF silent_deletePodsAndServices [OF A] silent_cleanupJob [OF B]] .
  have s3: "silent h h3" using silent_trans [OF s12 silent_gang_cleanup [OF sil C]] .
  have s5: "silent h h5" using silent_trans [OF silent_trans [OF s3 fail_job_facts(1) [OF D]] model_phase_facts(1) [OF E]] .
  have s6: "silent h h6"
    using F s5 by (auto split: option.splits dest: silent_cache_end intro: silent_trans)
  have s1: "silent h h1" by (rule silent_deletePodsAndServices [OF A])
  show ?thesis
  proof (cases "silent h h'")
    case True
    then show ?thesis by (intro exI [of _ "[]"]) (simp add: wrote_Nil)
  next
    case False
    then have "h' \<noteq> h1" "h' \<noteq> h2" "h' \<noteq> h3" "h' \<noteq> h5" "h' \<noteq> h6" using s1 s12 s3 s5 s6 by blast+
    with run A B C D E F obtain st5 where r5: "r5 = Inr st5" and w: "write_status jc job old st5 h6 = (err, h')"
      by (auto simp: terminate_def split: option.splits sum.splits prod.splits)
    note m = model_phase_facts(2) [OF E r5]
    have "evolves st st5"
      using evolves_trans [OF fail_job_facts(2) [OF D] evolves_same [of st4 st5]] m by simp
    moreover have "failure \<noteq> None \<and> \<not> is_terminal st \<and> conditions_wf st \<longrightarrow> IsFailed st5 \<and> CompletionTime st5 \<noteq> None"
      using fail_job_facts(3) [OF D] m has_cong [of st5 st4] by (auto simp: IsFailed_def)
    ultimately show ?thesis
      using silent_wrote [OF s6 write_status_facts [OF w]]
      by (intro exI [of _ "if DeepEqual_status old st5 then [] else [st5]"]) simp
  qed
qed

subsection \<open>Running jobs\<close>

definition steps_interface :: "JobController \<Rightarrow> bool" where
  "steps_interface jc \<longleftrightarrow>
     (\<forall>job specs st restart h st' h'.
        ci_UpdateJobStatus (Controller jc) job specs st restart h = (Inr st', h') \<longrightarrow> status_steps st st')"

lemma steps_interfaceD:
  "steps_interface jc \<Longrightarrow> ci_UpdateJobStatus (Controller jc) job specs st restart h = (Inr st', h') \<Longrightarrow> status_steps st st'"
  unfolding steps_interface_def by metis

lemma silent_gang_phase: "silent_interface jc \<Longrightarrow> gang_phase jc job specs args h = (r, h') \<Longrightarrow> silent h h'"
  unfolding gang_phase_def CreateGang_def
  by (auto split: if_splits elim!: silent_andThen) (erule (1) silent_interfaceD(9))

lemma silent_elastic_phase:
  assumes "silent_interface jc" "elastic_phase jc job specs args old pods svcs h = (r, h')"
  shows "silent h h'"
  using assms(2) unfolding elastic_phase_def Let_def
  by (auto split: if_splits elim!: silent_andThen silent_guarded)
    (erule silent_interfaceD [OF assms(1)])+

lemma silent_replica_step:
  assumes "silent_interface jc" "replica_step jc specs args pods svcs rt spec s h = (r, h')"
  shows "silent h h'"
  using assms(2) unfolding replica_step_def Let_def
  by (auto split: if_splits elim!: silent_andThen silent_guarded)
    (erule silent_ReconcilePods [OF assms(1)] silent_ReconcileServices)+

lemma silent_replicas_loop:
  assumes "silent_interface jc"
  shows "replicas_loop jc specs args pods svcs rts s h = (r, h') \<Longrightarrow> silent h h'"
proof (induction rts arbitrary: s h r h')
  case (Cons rt rts)
  show ?case
  proof (cases "map_of specs rt")
    case None
    with Cons show ?thesis by simp
  next
    case (Some spec)
    have step: "silent h1 h2"
      if "(if waiting then replicas_loop jc specs args pods svcs rts s h1
           else andThen (replica_step jc specs args pods svcs rt spec s h1)
                  (\<lambda>s1 h2. replicas_loop jc specs args pods svcs rts s1 h2)) = (r, h2)" for waiting h1 r h2
      using that
      by (auto split: if_splits elim!: silent_andThen)
        (erule Cons.IH silent_replica_step [OF assms])+
    from Cons.prems Some show ?thesis
      by (auto split: if_splits elim!: silent_andThen) (erule Cons.IH silent_replica_step [OF assms])+
  qed
qed simp

lemma run_phase_writes:
  assumes sil: "silent_interface jc"
    and upd: "steps_interface jc"
    and run: "run_phase jc job specs args old st pods svcs h = ((res, err), h')"
  shows "\<exists>ws. wrote h h' ws \<and> length ws \<le> 1 \<and>
    (\<forall>w \<in> set ws. evolves st w \<and> \<not> DeepEqual_status old w)"
proof -
  let ?specs = "\<lambda>specs. addModelPathEnv (map_option snd (ja_ModelVersion args)) specs"
  let ?s0 = "\<lambda>job. \<lparr>rs_job = job, rs_status = st, rs_ports = Map.empty, rs_restart = False, rs_frozen = False\<rparr>"
  define main where "main = andThen (gang_phase jc job specs args h)
      (\<lambda>_ h1. andThen (elastic_phase jc job specs args old pods svcs h1)
        (\<lambda>(job1, specs0, pods1) h2. andThen (replicas_loop jc (?specs specs0) args pods1 svcs (ci_Orders (Controller jc)) (?s0 job1) h2)
          (\<lambda>s h3. if rs_frozen s then (Inr s, h3)
             else andThen (ci_UpdateJobStatus (Controller jc) (rs_job s) (?specs specs0) (rs_status s) (rs_restart s) h3)
               (\<lambda>st1 h4. (Inr (s\<lparr>rs_status := st1\<rparr>), h4)))))"
  obtain r h4 where m: "main = (r, h4)" by (cases main)
  have s4: "silent h h4"
    using m unfolding main_def
    by (auto split: if_splits elim!: silent_andThen)
      (erule silent_gang_phase [OF sil] silent_elastic_phase [OF sil] silent_replicas_loop [OF sil]
        silent_interfaceD(4) [OF sil])+
  have body: "run_phase jc job specs args old st pods svcs h =
      (case main of (Inl e, h4) \<Rightarrow> ((no_result, Some e), h4)
       | (Inr s, h4) \<Rightarrow> if rs_frozen s then ((no_result, None), h4) else final_write jc (rs_job s) old (rs_status s) h4)"
    by (simp only: run_phase_def main_def Let_def)
  show ?thesis
  proof (cases "\<exists>s. r = Inr s \<and> \<not> rs_frozen s")
    case False
    with run body m have "h' = h4" by (cases r) auto
    with s4 show ?thesis by (intro exI [of _ "[]"]) (simp add: wrote_Nil)
  next
    case True
    then obtain s where s: "r = Inr s" "\<not> rs_frozen s" by blast
    with m obtain job1 specs0 pods1 s1 h2 h3 st1 where
      loop: "replicas_loop jc (?specs specs0) args pods1 svcs (ci_Orders (Controller jc)) (?s0 job1) h2 = (Inr s1, h3)"
      and fin: "ci_UpdateJobStatus (Controller jc) (rs_job s1) (?specs specs0) (rs_status s1) (rs_restart s1) h3 = (Inr st1, h4)"
      and s': "s = s1\<lparr>rs_status := st1\<rparr>"
      unfolding main_def by (auto simp: andThen_eq_Inr split: if_splits)
    have "evolves st (rs_status s1)"
      using replicas_loop_conditions [OF loop] by (intro evolves_same) simp
    from evolves_trans [OF this evolves_steps [OF steps_interfaceD [OF upd fin]]] s' have ev: "evolves st (rs_status s)" by simp
    obtain e5 h5 where w: "write_status jc (rs_job s) old (rs_status s) h4 = (e5, h5)"
      by (cases "write_status jc (rs_job s) old (rs_status s) h4")
    with run body m s have "h' = h5" by (cases e5) (auto simp: final_write_def split: if_splits)
    with silent_wrote [OF s4 write_status_facts [OF w]] ev show ?thesis
      by (intro exI [of _ "if DeepEqual_status old (rs_status s) then [] else [rs_status s]"]) simp
  qed
qed

subsection \<open>The whole reconciliation\<close>

lemma cache_phase_conditions:
  "cache_phase jc job specs st args h = (Inr (specs', st'), h') \<Longrightarrow>
   Conditions st' = Conditions st \<and> CompletionTime st' = CompletionTime st \<and> StartTime st' = StartTime st"
  by (auto simp: cache_phase_def andThen_eq_Inr guarded_eq_Inr split: option.splits if_splits)

lemma limits_phase_conditions:
  "limits_phase jc job key specs st args pods h = Inr (failure, st') \<Longrightarrow> Conditions st' = Conditions st"
  by (auto simp: limits_phase_def Let_def split: sum.splits if_splits)

lemma reconcile_body_writes:
  assumes sil: "silent_interface jc"
    and upd: "steps_interface jc"
    and run: "reconcile_body jc job key specs st args h = ((res, err), h')"
  shows "\<exists>ws. wrote h h' ws \<and> length ws \<le> 1 \<and>
    (\<forall>w \<in> set ws. evolves st w \<and> \<not> DeepEqual_status st w)"
proof (cases "silent h h'")
  case True
  then show ?thesis by (intro exI [of _ "[]"]) (simp add: wrote_Nil)
next
  case False
  from run False obtain specs1 where inj: "InjectCodeSync jc job specs = Inr specs1"
    by (auto simp: reconcile_body_def split: sum.splits)
  obtain c h1 where C: "cache_phase jc job specs1 st args h = (c, h1)" by (cases "cache_phase jc job specs1 st args h")
  note s1 = silent_cache_phase [OF C]
  from run False inj C s1 obtain specs2 st2 where c: "c = Inr (specs2, st2)"
    by (cases c) (auto simp: reconcile_body_def)
  obtain g h2 where G: "gather jc job h1 = (g, h2)" by (cases "gather jc job h1")
  have s2: "silent h h2" using silent_trans [OF s1 silent_gather [OF sil G]] .
  from run False inj C c G s2 obtain pods svcs where g: "g = Inr (pods, svcs)"
    by (cases g) (auto simp: reconcile_body_def)
  from run False inj C c G g s2 obtain failure st3 where
    L: "limits_phase jc job key specs2 st2 args pods h2 = Inr (failure, st3)"
    by (cases "limits_phase jc job key specs2 st2 args pods h2") (auto simp: reconcile_body_def)
  have ev: "evolves st st3"
    using cache_phase_conditions [OF C [unfolded c]] limits_phase_conditions [OF L] by (intro evolves_same) simp
  show ?thesis
  proof (cases "IsSucceeded st3 \<or> IsFailed st3 \<or> failure \<noteq> None")
    case True
    with run inj C c G g L have "terminate jc job args st st3 failure pods h2 = ((res, err), h')"
      by (auto simp: reconcile_body_def)
    from terminate_writes [OF sil this] show ?thesis
      by (auto intro: evolves_trans [OF ev] silent_wrote [OF s2])
  next
    case no: False
    with run inj C c G g L have "run_phase jc job specs2 args st st3 pods svcs h2 = ((res, err), h')"
      by (auto simp: reconcile_body_def)
    from run_phase_writes [OF sil upd this] show ?thesis
      by (auto intro: evolves_trans [OF ev] silent_wrote [OF s2])
  qed
qed

lemma silent_ReconcileCron: "ReconcileCron W job rp h = (e, h') \<Longrightarrow> silent h h'"
  by (auto simp: ReconcileCron_def updateCronJob_def api_write_def emit_def Let_def silent_def
      split: option.splits sum.splits if_splits)

lemma ReconcileJobs_writes:
  assumes sil: "silent_interface jc"
    and upd: "steps_interface jc"
    and run: "ReconcileJobs jc job specs st args h = ((res, err), h')"
  shows "\<exists>ws. wrote h h' ws \<and> length ws \<le> 1 \<and>
    (\<forall>w \<in> set ws. evolves st w \<and> \<not> DeepEqual_status st w)"
proof (cases "out_key (World jc) job")
  case (Inl e)
  with run show ?thesis by (intro exI [of _ "[]"]) (auto simp: ReconcileJobs_def wrote_Nil)
next
  case (Inr key)
  obtain e1 h1 where C: "ReconcileCron (World jc) job (ja_RunPolicy args) h = (e1, h1)" by force
  note s1 = silent_ReconcileCron [OF C]
  show ?thesis
  proof (cases e1)
    case (Some e)
    with Inr C run s1 show ?thesis by (intro exI [of _ "[]"]) (auto simp: ReconcileJobs_def wrote_Nil)
  next
    case None
    obtain r2 e2 h2 where B: "reconcile_body jc job key specs st args h1 = ((r2, e2), h2)" by (metis surj_pair)
    with Inr C None run have "h' = emit (if Requeue r2 \<or> e2 \<noteq> None then AddRateLimited key else ForgetKey key) h2"
      by (auto simp: ReconcileJobs_def backoff_update_def)
    then have "silent h2 h'" by (auto intro: silent_emit)
    with reconcile_body_writes [OF sil upd B] show ?thesis by (blast intro: silent_wrote [OF s1] wrote_silent)
  qed
qed







text \<open>The arguments of a job without limits, for the witnesses.\<close>

definition args0 :: job_args where
  "args0 = \<lparr>ja_RunPolicy = run_policy0, ja_ModelVersion = None, ja_ModelNode = (\<lambda>ps. Inr []), ja_Cache = None\<rparr>"

end
