(* ===== verification/Job_Termination.thy ===== *)
theory Job_Termination
  imports Reconcile_Safety
begin

text \<open>
  What the reconciliation of \<open>job.go\<close> does with a job that exceeds a limit or is finished:
  it is marked as failed, unless the cleanup policy stands in the way, and it starts no pod and no
  service any more.
\<close>

subsection \<open>Calls that start something\<close>

fun launches :: "call \<Rightarrow> bool" where
  "launches (CreatePodCall p) = True"
| "launches (CreateServiceCall s) = True"
| "launches _ = False"

definition launched :: "hist \<Rightarrow> call list" where
  "launched h = filter launches h"

lemma launched_append [simp]: "launched (h @ h') = launched h @ launched h'"
  by (simp add: launched_def)

lemma launched_Nil [simp]: "launched [] = []"
  by (simp add: launched_def)

lemma launched_Cons [simp]: "launched (c # h) = (if launches c then c # launched h else launched h)"
  by (simp add: launched_def)

lemma launched_emit [simp]: "\<not> launches c \<Longrightarrow> launched (emit c h) = launched h"
  by (simp add: emit_def)

definition reads_launch_nothing :: "JobController \<Rightarrow> bool" where
  "reads_launch_nothing jc \<longleftrightarrow>
     (\<forall>job h. launched (snd (ci_GetPods (Controller jc) job h)) = launched h) \<and>
     (\<forall>job h. launched (snd (ci_GetServices (Controller jc) job h)) = launched h) \<and>
     (\<forall>ns n h. launched (snd (gs_DeleteGang (GangScheduler jc) ns n h)) = launched h)"

lemma reads_launch_nothingD:
  assumes "reads_launch_nothing jc"
  shows "ci_GetPods (Controller jc) job h = (r1, h') \<Longrightarrow> launched h' = launched h"
    "ci_GetServices (Controller jc) job h = (r2, h') \<Longrightarrow> launched h' = launched h"
    "gs_DeleteGang (GangScheduler jc) ns n h = (r3, h') \<Longrightarrow> launched h' = launched h"
  using assms unfolding reads_launch_nothing_def by (metis snd_conv)+

lemma launched_DeletePod: "DeletePod W ns n h = (e, h') \<Longrightarrow> launched h' = launched h"
  by (auto simp: DeletePod_def remove_finalizer_def api_write_def emit_def Let_def split: sum.splits prod.splits option.splits if_splits)

lemma launched_DeleteService: "DeleteService W ns n h = (e, h') \<Longrightarrow> launched h' = launched h"
  by (auto simp: DeleteService_def api_write_def emit_def Let_def split: sum.splits prod.splits option.splits if_splits)

lemma launched_delete_loop: "delete_loop W policy ps h = (e, h') \<Longrightarrow> launched h' = launched h"
  by (induction ps arbitrary: h)
    (auto split: if_splits prod.splits option.splits dest!: launched_DeletePod launched_DeleteService)

lemma launched_deletePodsAndServices: "deletePodsAndServices W rp ps h = (e, h') \<Longrightarrow> launched h' = launched h"
  by (auto simp: deletePodsAndServices_def split: if_splits option.splits dest: launched_delete_loop)

lemma launched_cleanupJob: "cleanupJob W rp st job h = (r, h') \<Longrightarrow> launched h' = launched h"
  by (auto simp: cleanupJob_def api_write_def Let_def split: option.splits if_splits)

lemma launched_gang_cleanup:
  assumes "reads_launch_nothing jc" "gang_cleanup jc job h = (r, h')"
  shows "launched h' = launched h"
  using assms(2) reads_launch_nothingD(3) [OF assms(1)]
  by (force simp: gang_cleanup_def DeleteGang_def split: if_splits prod.splits option.splits)

lemma launched_fail_job: "fail_job W st failure h = (st', h') \<Longrightarrow> launched h' = launched h"
  by (auto simp: fail_job_def Let_def split: option.splits)

lemma launched_model_phase: "model_phase jc job args pods st h = (r, h') \<Longrightarrow> launched h' = launched h"
  by (auto simp: model_phase_def createModelVersion_def guarded_def api_write_def emit_def Let_def
      split: sum.splits option.splits if_splits)

lemma launched_cache_end: "updateCacheUsedStatus W job c h = (r, h') \<Longrightarrow> launched h' = launched h"
  by (auto simp: updateCacheUsedStatus_def api_write_def emit_def Let_def split: sum.splits if_splits)

lemma launched_write_status: "write_status jc job old st h = (r, h') \<Longrightarrow> launched h' = launched h"
  by (auto simp: write_status_def api_write_def split: if_splits)

lemma launched_terminate:
  assumes q: "reads_launch_nothing jc" and run: "terminate jc job args old st failure pods h = (r, h')"
  shows "launched h' = launched h"
proof -
  obtain e1 h1 where A: "deletePodsAndServices (World jc) (ja_RunPolicy args) pods h = (e1, h1)" by force
  obtain r2 e2 h2 where B: "cleanupJob (World jc) (ja_RunPolicy args) st job h1 = ((r2, e2), h2)" by (metis surj_pair)
  obtain e3 h3 where C: "gang_cleanup jc job h2 = (e3, h3)" by force
  obtain st4 h4 where D: "fail_job (World jc) st failure h3 = (st4, h4)" by force
  obtain r5 h5 where E: "model_phase jc job args pods st4 h4 = (r5, h5)" by (cases "model_phase jc job args pods st4 h4")
  note l = launched_deletePodsAndServices [OF A] launched_cleanupJob [OF B] launched_gang_cleanup [OF q C]
    launched_fail_job [OF D] launched_model_phase [OF E]
  from run A B C D E l show ?thesis
    by (auto simp: terminate_def split: option.splits sum.splits prod.splits
        dest!: launched_cache_end launched_write_status)
qed

lemma launched_cache_phase: "cache_phase jc job specs st args h = (r, h') \<Longrightarrow> launched h' = launched h"
  by (auto simp: cache_phase_def guarded_def andThen_def checkCache_def createCache_def addCachePathToContainer_def
      api_write_def emit_def Let_def split: option.splits sum.splits if_splits)

lemma launched_gather:
  assumes "reads_launch_nothing jc" "gather jc job h = (r, h')"
  shows "launched h' = launched h"
proof -
  obtain ps h1 where P: "ci_GetPods (Controller jc) job h = (ps, h1)" by force
  note p = reads_launch_nothingD(1) [OF assms(1) P]
  show ?thesis
  proof (cases ps)
    case (Inl e)
    with assms(2) P p show ?thesis by (simp add: gather_def)
  next
    case (Inr pods)
    obtain ss h2 where S: "ci_GetServices (Controller jc) job h1 = (ss, h2)" by force
    with assms(2) P Inr p reads_launch_nothingD(2) [OF assms(1) S] show ?thesis by (cases ss) (auto simp: gather_def)
  qed
qed

lemma launched_ReconcileCron: "ReconcileCron W job rp h = (e, h') \<Longrightarrow> launched h' = launched h"
  by (auto simp: ReconcileCron_def updateCronJob_def api_write_def emit_def Let_def
      split: option.splits sum.splits if_splits)

subsection \<open>Finished jobs\<close>

lemma reconcile_body_finished:
  assumes q: "reads_launch_nothing jc" and fin: "is_terminal st"
    and run: "reconcile_body jc job key specs st args h = (r, h')"
  shows "launched h' = launched h"
proof (cases "InjectCodeSync jc job specs")
  case (Inl e)
  with run show ?thesis by (simp add: reconcile_body_def)
next
  case inj: (Inr specs1)
  obtain c h1 where C: "cache_phase jc job specs1 st args h = (c, h1)" by (cases "cache_phase jc job specs1 st args h")
  note l1 = launched_cache_phase [OF C]
  show ?thesis
  proof (cases c)
    case (Inl e)
    with run inj C l1 show ?thesis by (simp add: reconcile_body_def)
  next
    case (Inr x)
    then obtain specs2 st2 where c: "c = Inr (specs2, st2)" by (cases x) auto
    obtain g h2 where G: "gather jc job h1 = (g, h2)" by (cases "gather jc job h1")
    note l2 = launched_gather [OF q G]
    show ?thesis
    proof (cases "\<exists>pods svcs f st3. g = Inr (pods, svcs) \<and> limits_phase jc job key specs2 st2 args pods h2 = Inr (f, st3)")
      case False
      with run inj C c G l1 l2 show ?thesis
        by (auto simp: reconcile_body_def split: sum.splits prod.splits)
    next
      case True
      then obtain pods svcs f st3 where g: "g = Inr (pods, svcs)"
        and L: "limits_phase jc job key specs2 st2 args pods h2 = Inr (f, st3)" by blast
      have "Conditions st3 = Conditions st"
        using cache_phase_conditions [OF C [unfolded c]] limits_phase_conditions [OF L] by simp
      then have "IsSucceeded st3 \<or> IsFailed st3" using terminal_cong [of st3 st] fin by (auto simp: is_terminal_def)
      with run inj C c G g L have "terminate jc job args st st3 f pods h2 = (r, h')"
        by (auto simp: reconcile_body_def)
      from launched_terminate [OF q this] l1 l2 show ?thesis by simp
    qed
  qed
qed

lemma finished_launch:
  assumes "reads_launch_nothing jc" "is_terminal st" "ReconcileJobs jc job specs st args h = (r, h')"
  shows "launched h' = launched h"
proof (cases "out_key (World jc) job")
  case (Inl e)
  with assms(3) show ?thesis by (auto simp: ReconcileJobs_def)
next
  case (Inr key)
  obtain e1 h1 where C: "ReconcileCron (World jc) job (ja_RunPolicy args) h = (e1, h1)" by force
  note l1 = launched_ReconcileCron [OF C]
  show ?thesis
  proof (cases e1)
    case (Some e)
    with Inr C l1 assms(3) show ?thesis by (auto simp: ReconcileJobs_def)
  next
    case None
    obtain r2 e2 h2 where B: "reconcile_body jc job key specs st args h1 = ((r2, e2), h2)" by (metis surj_pair)
    with Inr C None assms(3) have "h' = emit (if Requeue r2 \<or> e2 \<noteq> None then AddRateLimited key else ForgetKey key) h2"
      by (auto simp: ReconcileJobs_def backoff_update_def)
    with reconcile_body_finished [OF assms(1,2) B] l1 show ?thesis by simp
  qed
qed

text \<open>
  C10. A finished job starts nothing: reconciling a job that succeeded or failed asks the server for
  no new pod and no new service, whatever the replica specs, the pods that exist and the answers
  of the server are (the reads of the workload and of the gang scheduler do not create either).
\<close>

theorem finished_job_starts_nothing:
  assumes "reads_launch_nothing jc" "is_terminal st" "ReconcileJobs jc job specs st args h = (r, h')"
  shows "launched h' = launched h"
  by (rule finished_launch [OF assms])

definition failed_status :: JobStatus where
  "failed_status = UpdateJobConditions 5 status0 JobFailed JobFailedReason ''boom''"

theorem finished_job_starts_nothing_witness:
  "launched (snd (ReconcileJobs jc0 job0 [(''Worker'', dag_spec 3 [])] failed_status args0 [])) = []"
proof -
  have "reads_launch_nothing jc0"
    by (simp add: reads_launch_nothing_def)
  moreover have "is_terminal failed_status" unfolding failed_status_def by code_simp
  ultimately show ?thesis
    using finished_job_starts_nothing [of jc0 failed_status job0 "[(''Worker'', dag_spec 3 [])]" args0 "[]"]
    by (cases "ReconcileJobs jc0 job0 [(''Worker'', dag_spec 3 [])] failed_status args0 []") simp
qed

subsection \<open>Jobs that exceed a limit\<close>

lemma fail_job_fails:
  assumes "fail_job W st (Some message) h = (st', h')" "\<not> is_terminal st" "conditions_wf st"
  shows "IsFailed st' \<and> \<not> IsSucceeded st' \<and> \<not> IsRunning st' \<and> CompletionTime st' \<noteq> None"
proof -
  have "HasCondition st' t \<longleftrightarrow> t = JobFailed \<or> (kept JobFailed t \<and> t \<noteq> JobRunning \<and> HasCondition st t)" for t
    using assms by (cases "CompletionTime st") (auto simp: fail_job_def Let_def HasCondition_update)
  moreover have "\<not> HasCondition st JobSucceeded" using assms(2) by (simp add: is_terminal_def is_defs)
  moreover have "CompletionTime st' \<noteq> None"
    using assms(1) by (auto simp: fail_job_def Let_def)
  ultimately show ?thesis by (simp add: is_defs)
qed

lemma DeepEqual_conditions: "DeepEqual_status a b \<Longrightarrow> Conditions a = Conditions b"
  by (simp add: DeepEqual_status_def)

text \<open>
  The end of a job that exceeded a limit: at most one status, a failed one with a completion time, and an
  error if there is none. A time to live without a completion time stands in its way; if there is no time
  to live and the cleanup meets no error, the status is sent.
\<close>

definition failed_completely :: "JobStatus \<Rightarrow> bool" where
  "failed_completely w \<longleftrightarrow> IsFailed w \<and> \<not> IsSucceeded w \<and> \<not> IsRunning w \<and> CompletionTime w \<noteq> None"

definition cleans_up :: "JobController \<Rightarrow> job_meta \<Rightarrow> job_args \<Rightarrow> pod list \<Rightarrow> hist \<Rightarrow> bool" where
  "cleans_up jc job args pods h \<longleftrightarrow>
     (case deletePodsAndServices (World jc) (ja_RunPolicy args) pods h of
        (e, h1) \<Rightarrow> e = None \<and> fst (gang_cleanup jc job h1) = None)"

lemma terminate_failed:
  assumes sil: "silent_interface jc" and run: "terminate jc job args old st (Some message) pods h = ((res, err), h')"
    and live: "\<not> is_terminal st" "conditions_wf st" "\<not> is_terminal old"
  shows "\<exists>ws. wrote h h' ws \<and> length ws \<le> 1 \<and> (\<forall>w \<in> set ws. failed_completely w) \<and> (ws = [] \<longrightarrow> err \<noteq> None) \<and>
    (rp_TTLSecondsAfterFinished (ja_RunPolicy args) \<noteq> None \<and> CompletionTime st = None \<longrightarrow> ws = []) \<and>
    (rp_TTLSecondsAfterFinished (ja_RunPolicy args) = None \<and> ja_Cache args = None \<and> cleans_up jc job args pods h \<longrightarrow> ws \<noteq> [])"
proof -
  let ?ttl = "rp_TTLSecondsAfterFinished (ja_RunPolicy args)"
  obtain e1 h1 where A: "deletePodsAndServices (World jc) (ja_RunPolicy args) pods h = (e1, h1)" by force
  obtain r2 e2 h2 where B: "cleanupJob (World jc) (ja_RunPolicy args) st job h1 = ((r2, e2), h2)" by (metis surj_pair)
  obtain e3 h3 where C: "gang_cleanup jc job h2 = (e3, h3)" by force
  obtain st4 h4 where D: "fail_job (World jc) st (Some message) h3 = (st4, h4)" by force
  obtain e6 h6 where F: "(case ja_Cache args of None \<Rightarrow> (None, h4)
      | Some cache \<Rightarrow> updateCacheUsedStatus (World jc) job cache h4) = (e6, h6)"
    by (cases "case ja_Cache args of None \<Rightarrow> (None, h4) | Some cache \<Rightarrow> updateCacheUsedStatus (World jc) job cache h4")
  obtain e7 h7 where W: "write_status jc job old st4 h6 = (e7, h7)" by (cases "write_status jc job old st4 h6")
  note f = fail_job_fails [OF D live(1,2)]
  have M: "model_phase jc job args pods st4 h4 = (Inr st4, h4)" using f by (simp add: model_phase_def)
  have s1: "silent h h1" by (rule silent_deletePodsAndServices [OF A])
  have s2: "silent h h2" by (rule silent_trans [OF s1 silent_cleanupJob [OF B]])
  have s3: "silent h h3" by (rule silent_trans [OF s2 silent_gang_cleanup [OF sil C]])
  have s4: "silent h h4" by (rule silent_trans [OF s3 fail_job_facts(1) [OF D]])
  have s6: "silent h h6" using F s4 by (auto split: option.splits dest: silent_cache_end intro: silent_trans)
  have ne: "\<not> DeepEqual_status old st4"
    using f live(3) terminal_cong [of st4 old] DeepEqual_conditions [of old st4] by (auto simp: is_terminal_def)
  have w: "wrote h h7 [st4]" using silent_wrote [OF s6 write_status_facts [OF W]] ne by simp
  show ?thesis
  proof (cases "e1 = None \<and> e2 = None \<and> e3 = None \<and> e6 = None")
    case True
    with run A B C D F M W have "h' = h7" by (simp add: terminate_def)
    moreover have "\<not> (?ttl \<noteq> None \<and> CompletionTime st = None)" using True B by (auto simp: cleanupJob_def Let_def split: option.splits)
    ultimately show ?thesis using w f by (intro exI [of _ "[st4]"]) (auto simp: failed_completely_def)
  next
    case False
    with run A B C D F M have err: "err \<noteq> None" and "h' = h1 \<or> h' = h2 \<or> h' = h3 \<or> h' = h6"
      by (auto simp: terminate_def split: option.splits)
    then have "silent h h'" using s1 s2 s3 s6 by blast
    moreover have "\<not> (?ttl = None \<and> ja_Cache args = None \<and> cleans_up jc job args pods h)"
    proof
      assume a: "?ttl = None \<and> ja_Cache args = None \<and> cleans_up jc job args pods h"
      with B have "e2 = None" "h2 = h1" by (auto simp: cleanupJob_def)
      with a A C F False show False by (auto simp: cleans_up_def)
    qed
    ultimately show ?thesis using err by (intro exI [of _ "[]"]) (simp add: wrote_Nil)
  qed
qed

text \<open>A job whose worker has restarted once, under a backoff limit of one, for the witnesses.\<close>

definition restarted0 :: pod where
  "restarted0 = (pod0 ''worker'' ''0'' PodRunning)\<lparr>pod_ContainerStatuses :=
     [\<lparr>cs_Name = ''tensorflow'', cs_Terminated = None, cs_Running = True, cs_RestartCount = 1\<rparr>]\<rparr>"

definition jc2 :: JobController where
  "jc2 = jc0\<lparr>Controller := controller0\<lparr>ci_GetPods := (\<lambda>job h. (Inr [restarted0], h))\<rparr>\<rparr>"

definition spec0 :: ReplicaSpec where
  "spec0 = (dag_spec 1 [])\<lparr>RestartPolicy := RestartPolicyAlways\<rparr>"

definition limited_args :: "int option \<Rightarrow> job_args" where
  "limited_args ttl = args0\<lparr>ja_RunPolicy := run_policy0\<lparr>rp_CleanPodPolicy := Some CleanPodPolicyNone,
     rp_BackoffLimit := Some 1, rp_TTLSecondsAfterFinished := ttl\<rparr>\<rparr>"

lemma jc2_silent: "silent_interface jc2"
  by (simp add: silent_interface_def jc2_def controller0_def gang0_def)

lemma jc2_gather: "gather jc2 job0 [] = (Inr ([restarted0], []), [])"
  by (simp add: gather_def jc2_def)

lemma jc2_limits:
  "limits_phase jc2 job0 ''default/mnist'' [(''Worker'', spec0)] status0 (limited_args ttl) [restarted0] [] =
     Inr (Some (''Job '' @ ''mnist'' @ '' has failed because it has reached the specified backoff limit''), status0)"
  by (simp add: limits_phase_def jc2_def spec0_def limited_args_def args0_def run_policy0_def restarted0_def
      GetTotalReplicas_def pastBackoffLimit_def sample_strings restart_policy_defs i32_def)

text \<open>
  A job with a time to live cannot fail by a backoff limit: when a limit is exceeded, the time
  to live is set and the status has no completion time yet, the reconciliation stops with the
  error of \<open>cleanupJob\<close> before the failure is recorded. It writes no status, so the next
  reconciliation meets the same state.
\<close>

theorem ttl_blocks_failure:
  assumes "silent_interface jc" "InjectCodeSync jc job specs0 = Inr specs" "ja_Cache args = None"
    and "gather jc job h = (Inr (pods, services), h1)"
    and "limits_phase jc job key specs st args pods h1 = Inr (Some message, st1)"
    and "rp_TTLSecondsAfterFinished (ja_RunPolicy args) = Some ttl" "CompletionTime st1 = None"
  shows "\<exists>res e h'. reconcile_body jc job key specs0 st args h = ((res, Some e), h') \<and>
    status_writes h' = status_writes h"
proof -
  obtain err h2 where D: "deletePodsAndServices (World jc) (ja_RunPolicy args) pods h1 = (err, h2)" by force
  have "silent h h2"
    using silent_trans [OF silent_gather [OF assms(1,4)] silent_deletePodsAndServices [OF D]] .
  moreover have "\<exists>res e. reconcile_body jc job key specs0 st args h = ((res, Some e), h2)"
    using assms(2-7) D by (cases err) (auto simp: reconcile_body_def cache_phase_def terminate_def cleanupJob_def)
  ultimately show ?thesis using silent_writes by blast
qed

theorem ttl_blocks_failure_witness:
  "\<exists>res e h'. reconcile_body jc2 job0 ''default/mnist'' [(''Worker'', spec0)] status0 (limited_args (Some 60)) [] =
     ((res, Some e), h') \<and> status_writes h' = []"
proof -
  have "InjectCodeSync jc2 job0 [(''Worker'', spec0)] = Inr [(''Worker'', spec0)]"
    "ja_Cache (limited_args (Some 60)) = None"
    "rp_TTLSecondsAfterFinished (ja_RunPolicy (limited_args (Some 60))) = Some 60" "CompletionTime status0 = None"
    by (simp_all add: jc2_def limited_args_def args0_def status0_def)
  from ttl_blocks_failure [OF jc2_silent this(1,2) jc2_gather jc2_limits this(3,4)] show ?thesis by simp
qed

end
