(* ===== verification/Resource_Utils.thy ===== *)
theory Resource_Utils
  imports Controller_Env
begin

text \<open>
  Resource requests of pods, replicas and jobs (\<open>pkg/util/resource_utils/resources.go\<close>).
  Sums, maxima and differences of resource lists and the integer value of a quantity belong to
  Kubernetes: they are the parameter \<open>quota_lib\<close>, whose documented behaviour is
  \<open>quota_laws\<close>.
\<close>

definition amount :: "resource_list \<Rightarrow> string \<Rightarrow> int" where
  "amount rs k = (case map_of rs k of None \<Rightarrow> 0 | Some q \<Rightarrow> q)"

definition combined :: "(int \<Rightarrow> int \<Rightarrow> int) \<Rightarrow> (int \<Rightarrow> int) \<Rightarrow> int option \<Rightarrow> int option \<Rightarrow> int option" where
  "combined f g x y =
     (case x of None \<Rightarrow> map_option g y | Some a \<Rightarrow> (case y of None \<Rightarrow> Some a | Some b \<Rightarrow> Some (f a b)))"

definition quota_laws :: "quota_lib \<Rightarrow> bool" where
  "quota_laws Q \<longleftrightarrow>
     (\<forall>a b k. map_of (ql_Add Q a b) k = combined (+) id (map_of a k) (map_of b k)) \<and>
     (\<forall>a b k. map_of (ql_Max Q a b) k = combined max id (map_of a k) (map_of b k)) \<and>
     (\<forall>a b k. map_of (ql_Subtract Q a b) k = combined (-) uminus (map_of a k) (map_of b k)) \<and>
     (\<forall>a b k. map_of (ql_SubtractNonNegative Q a b) k =
        (if map_of a k = None \<and> map_of b k = None then None else Some (max 0 (amount a k - amount b k)))) \<and>
     (\<forall>rs ns k. map_of (ql_Mask Q rs ns) k = (if k \<in> set ns then map_of rs k else None)) \<and>
     (\<forall>ms ns. set (ql_Intersection Q ms ns) = set ms \<inter> set ns) \<and>
     (\<forall>rs. set (ql_ResourceNames Q rs) = set (keys rs)) \<and>
     (\<forall>n. ql_Set Q n = 1000 * n) \<and>
     (\<forall>q. 0 \<le> q \<longrightarrow> ql_Value Q q = (q + 999) div 1000)"

lemma quota_lawsD:
  assumes "quota_laws Q"
  shows "map_of (ql_Add Q a b) k = combined (+) id (map_of a k) (map_of b k)"
    "map_of (ql_Max Q a b) k = combined max id (map_of a k) (map_of b k)"
    "map_of (ql_Subtract Q a b) k = combined (-) uminus (map_of a k) (map_of b k)"
    "map_of (ql_SubtractNonNegative Q a b) k =
       (if map_of a k = None \<and> map_of b k = None then None else Some (max 0 (amount a k - amount b k)))"
    "map_of (ql_Mask Q rs ns) k = (if k \<in> set ns then map_of rs k else None)"
    "set (ql_Intersection Q ms ns) = set ms \<inter> set ns" "set (ql_ResourceNames Q rs) = set (keys rs)"
    "ql_Set Q n = 1000 * n" "0 \<le> q \<Longrightarrow> ql_Value Q q = (q + 999) div 1000"
  using assms unfolding quota_laws_def by - (elim conjE; metis)+

lemma amount_Add: "quota_laws Q \<Longrightarrow> amount (ql_Add Q a b) k = amount a k + amount b k"
  by (simp add: amount_def quota_lawsD combined_def split: option.splits)

lemma amount_SubtractNonNegative:
  "quota_laws Q \<Longrightarrow> amount (ql_SubtractNonNegative Q a b) k = max 0 (amount a k - amount b k)"
  by (auto simp: amount_def quota_lawsD split: option.splits)

lemma amount_Subtract: "quota_laws Q \<Longrightarrow> amount (ql_Subtract Q a b) k = amount a k - amount b k"
  by (simp add: amount_def quota_lawsD combined_def split: option.splits)

lemma amount_Nil [simp]: "amount [] k = 0"
  by (simp add: amount_def)

subsection \<open>The functions\<close>

definition SumUpContainersResources :: "quota_lib \<Rightarrow> container list \<Rightarrow> resource_list \<times> resource_list" where
  "SumUpContainersResources Q containers =
     foldl (\<lambda>(requests, limits) c. (ql_Add Q requests (ct_Requests c), ql_Add Q limits (ct_Limits c))) ([], []) containers"

definition MaximumContainersResources :: "quota_lib \<Rightarrow> container list \<Rightarrow> resource_list \<times> resource_list" where
  "MaximumContainersResources Q containers =
     foldl (\<lambda>(requests, limits) c. (ql_Max Q requests (ct_Requests c), ql_Max Q limits (ct_Limits c))) ([], []) containers"

definition ComputePodSpecResourceRequest :: "quota_lib \<Rightarrow> pod_spec \<Rightarrow> resource_list" where
  "ComputePodSpecResourceRequest Q spec =
     (let r1 = foldl (\<lambda>r c. ql_Add Q r (ct_Requests c)) [] (ps_Containers spec);
          r2 = foldl (\<lambda>r c. ql_Max Q r (ct_Requests c)) r1 (ps_InitContainers spec)
      in case ps_Overhead spec of None \<Rightarrow> r2 | Some overhead \<Rightarrow> ql_Add Q r2 overhead)"

definition ComputePodResourceRequest :: "quota_lib \<Rightarrow> pod \<Rightarrow> resource_list" where
  "ComputePodResourceRequest Q p = ComputePodSpecResourceRequest Q (pod_Spec p)"

definition Multiply :: "quota_lib \<Rightarrow> int \<Rightarrow> resource_list \<Rightarrow> resource_list" where
  "Multiply Q factor res = map (\<lambda>(key, value). (key, ql_Set Q (i64 (factor * ql_Value Q value)))) res"

text \<open>One entry of the loop: the normal replicas and the spot replicas of a type, an \<open>int32\<close> each.\<close>

definition replica_split :: "ReplicaSpec \<Rightarrow> int \<times> int" where
  "replica_split rspec =
     (let replicas = (case Replicas rspec of None \<Rightarrow> 1 | Some n \<Rightarrow> n) in
      case Spot rspec of
        None \<Rightarrow> (replicas, 0)
      | Some spot \<Rightarrow>
          (if SpotReplicaNumber spot > 0
           then (let rest = i32 (replicas - SpotReplicaNumber spot) in (if rest < 0 then 0 else rest, SpotReplicaNumber spot))
           else (replicas, 0)))"

fun job_requests_loop :: "quota_lib \<Rightarrow> replica_specs \<Rightarrow> resource_list \<Rightarrow> resource_list \<Rightarrow> resource_list \<times> resource_list" where
  "job_requests_loop Q [] normal spot = (normal, spot)"
| "job_requests_loop Q ((rtype, rspec) # specs) normal spot =
     (let resources = ComputePodSpecResourceRequest Q (pt_Spec (Template rspec));
          (n, s) = replica_split rspec;
          spot1 = (if s > 0 then ql_Add Q spot (Multiply Q s resources) else spot)
      in job_requests_loop Q specs (ql_Add Q normal (Multiply Q n resources)) spot1)"

definition JobResourceRequests :: "quota_lib \<Rightarrow> replica_specs \<Rightarrow> resource_list \<times> resource_list" where
  "JobResourceRequests Q replicas = job_requests_loop Q replicas [] []"

definition ReplicaResourceRequests :: "quota_lib \<Rightarrow> ReplicaSpec \<Rightarrow> resource_list" where
  "ReplicaResourceRequests Q rspec =
     Multiply Q (case Replicas rspec of None \<Rightarrow> 1 | Some n \<Rightarrow> n)
       (ComputePodSpecResourceRequest Q (pt_Spec (Template rspec)))"

definition Min_quantity :: "quantity \<Rightarrow> quantity \<Rightarrow> quantity" where
  "Min_quantity a b = (if a < b then a else b)"

definition ResourceNvidiaGPU :: string where "ResourceNvidiaGPU = ''nvidia.com/gpu''"

definition containsResourceGPU :: "resource_list \<Rightarrow> bool" where
  "containsResourceGPU req \<longleftrightarrow> map_of req ResourceNvidiaGPU \<noteq> None"

definition PodRequestsForGPU :: "pod \<Rightarrow> bool" where
  "PodRequestsForGPU p = list_ex (\<lambda>c. containsResourceGPU (ct_Requests c)) (ps_Containers (pod_Spec p))"

definition ReplicaRequestsForGPU :: "ReplicaSpec \<Rightarrow> bool" where
  "ReplicaRequestsForGPU spec =
     list_ex (\<lambda>c. containsResourceGPU (ct_Requests c) \<or> containsResourceGPU (ct_Limits c))
       (ps_Containers (pt_Spec (Template spec)))"

definition JobRequestsForGPU :: "replica_specs \<Rightarrow> bool" where
  "JobRequestsForGPU specs = list_ex (\<lambda>(rtype, spec). ReplicaRequestsForGPU spec) specs"

definition GetGpuResource :: "resource_list \<Rightarrow> quantity" where
  "GetGpuResource rs = (case map_of rs ResourceNvidiaGPU of Some q \<Rightarrow> q | None \<Rightarrow> 0)"

text \<open>The names come in the order of the loop over the second map.\<close>

definition AnyLessThanOrEqual :: "resource_list \<Rightarrow> resource_list \<Rightarrow> bool \<times> string list" where
  "AnyLessThanOrEqual a b =
     (let names = map fst (filter (\<lambda>(key, value). case map_of a key of None \<Rightarrow> False | Some other \<Rightarrow> other < value) b)
      in (names \<noteq> [], names))"

subsection \<open>What a job requests\<close>

text \<open>The whole units of a resource that one pod of a replica type requests.\<close>

definition pod_units :: "quota_lib \<Rightarrow> ReplicaSpec \<Rightarrow> string \<Rightarrow> int" where
  "pod_units Q rspec k =
     (case map_of (ComputePodSpecResourceRequest Q (pt_Spec (Template rspec))) k of None \<Rightarrow> 0 | Some q \<Rightarrow> ql_Value Q q)"

lemma map_of_Multiply:
  "map_of (Multiply Q n rs) k = map_option (\<lambda>q. ql_Set Q (i64 (n * ql_Value Q q))) (map_of rs k)"
  by (induction rs) (auto simp: Multiply_def)

lemma amount_Multiply:
  "quota_laws Q \<Longrightarrow>
   amount (Multiply Q n (ComputePodSpecResourceRequest Q (pt_Spec (Template rspec)))) k = 1000 * i64 (n * pod_units Q rspec k)"
  by (auto simp: amount_def map_of_Multiply pod_units_def quota_lawsD i64_def split: option.splits)

lemma job_requests_acc:
  assumes "quota_laws Q" "job_requests_loop Q specs normal spot = (normal', spot')"
  shows "amount normal' k = amount normal k +
      1000 * (\<Sum>(t, r)\<leftarrow>specs. i64 (fst (replica_split r) * pod_units Q r k))"
    "amount spot' k = amount spot k +
      1000 * (\<Sum>(t, r)\<leftarrow>specs. if snd (replica_split r) > 0 then i64 (snd (replica_split r) * pod_units Q r k) else 0)"
  using assms(2)
  by (induction specs arbitrary: normal spot)
    (auto simp: amount_Add [OF assms(1)] amount_Multiply [OF assms(1)] Let_def algebra_simps split: prod.splits)

text \<open>Replica specs whose counts and requests are in range and which ask for no more spot replicas than replicas.\<close>

definition spot_ok :: "quota_lib \<Rightarrow> ReplicaSpec \<Rightarrow> string \<Rightarrow> bool" where
  "spot_ok Q r k \<longleftrightarrow>
     (case Replicas r of
        None \<Rightarrow> False
      | Some n \<Rightarrow> 0 \<le> n \<and> in32 n \<and> (case Spot r of None \<Rightarrow> True | Some s \<Rightarrow> in32 (SpotReplicaNumber s) \<and> SpotReplicaNumber s \<le> n) \<and>
          0 \<le> pod_units Q r k \<and> n * pod_units Q r k < 2 ^ 63)"

lemma split_conserves:
  assumes "spot_ok Q r k" "Replicas r = Some n"
  shows "i64 (fst (replica_split r) * pod_units Q r k) +
      (if snd (replica_split r) > 0 then i64 (snd (replica_split r) * pod_units Q r k) else 0) = n * pod_units Q r k"
proof -
  let ?u = "pod_units Q r k"
  have n: "0 \<le> n" "in32 n" "0 \<le> ?u" "n * ?u < 2 ^ 63" using assms by (auto simp: spot_ok_def)
  have exact: "i64 (m * ?u) = m * ?u" if "0 \<le> m" "m \<le> n" for m
  proof -
    have "0 \<le> m * ?u" "m * ?u \<le> n * ?u" using that n by (auto intro: mult_right_mono)
    then show ?thesis using n(4) by (intro i64_id) (simp add: in64_def)
  qed
  show ?thesis
  proof (cases "\<exists>s. Spot r = Some s \<and> SpotReplicaNumber s > 0")
    case False
    then have "replica_split r = (n, 0)"
      using assms(2) by (auto simp: replica_split_def Let_def split: option.splits)
    with exact [of n] n show ?thesis by simp
  next
    case True
    then obtain s where s: "Spot r = Some s" "SpotReplicaNumber s > 0" by blast
    let ?m = "SpotReplicaNumber s"
    have m: "?m \<le> n" using assms s by (auto simp: spot_ok_def)
    have "i32 (n - ?m) = n - ?m" using n(2) s m by (intro i32_id) (simp add: in32_def)
    then have "replica_split r = (n - ?m, ?m)"
      using assms(2) s m by (simp add: replica_split_def Let_def)
    with exact [of "n - ?m"] exact [of ?m] s m n show ?thesis by (simp add: algebra_simps)
  qed
qed

text \<open>
  The requests of a job are split without loss: as long as a replica type has no more spot
  replicas than replicas and the products fit into 64 bits, the normal and the spot requests of a
  job for a resource add up to the whole units its pods request, over all replicas.
\<close>

theorem job_requests_conserved:
  assumes "quota_laws Q" "\<forall>(t, r) \<in> set specs. spot_ok Q r k"
    and "JobResourceRequests Q specs = (normal, spot)"
  shows "amount normal k + amount spot k = 1000 * (\<Sum>(t, r)\<leftarrow>specs. the (Replicas r) * pod_units Q r k)"
proof -
  let ?n = "\<lambda>(t, r). i64 (fst (replica_split r) * pod_units Q r k)"
  let ?s = "\<lambda>(t :: string, r). if snd (replica_split r) > 0 then i64 (snd (replica_split r) * pod_units Q r k) else 0"
  have each: "?n x + ?s x = (case x of (t, r) \<Rightarrow> the (Replicas r) * pod_units Q r k)" if "x \<in> set specs" for x
  proof -
    obtain t r where x: "x = (t, r)" by (cases x)
    with assms(2) that have ok: "spot_ok Q r k" by auto
    then obtain n where "Replicas r = Some n" by (auto simp: spot_ok_def split: option.splits)
    with split_conserves [OF ok this] x show ?thesis by simp
  qed
  have "sum_list (map ?n specs) + sum_list (map ?s specs) = (\<Sum>x\<leftarrow>specs. ?n x + ?s x)"
    by (simp only: sum_list_addf)
  also have "\<dots> = (\<Sum>(t, r)\<leftarrow>specs. the (Replicas r) * pod_units Q r k)"
    using each by (intro arg_cong [where f = sum_list] map_cong) auto
  finally show ?thesis
    using job_requests_acc [OF assms(1) assms(3) [unfolded JobResourceRequests_def], of k] by simp
qed

text \<open>A worker that requests two and a half CPUs: three whole units, for the witnesses.\<close>

definition cpu_spec :: "int \<Rightarrow> int \<Rightarrow> int \<Rightarrow> ReplicaSpec" where
  "cpu_spec n spot cpu = (dag_spec n [])\<lparr>
     Spot := Some \<lparr>SpotReplicaNumber = spot, spot_PriorityClassName = [], spot_Labels = []\<rparr>,
     Template := (Template (dag_spec n []))\<lparr>pt_Spec := (pt_Spec (Template (dag_spec n [])))\<lparr>
       ps_Containers := [\<lparr>ct_Name = ''tensorflow'', ct_Ports = [], ct_Env = [], ct_VolumeMounts = [],
         ct_Requests = [(''cpu'', cpu)], ct_Limits = [],
         ct_Image = [], ct_Command = [], ct_Args = [], ct_WorkingDir = [], ct_ImagePullPolicy = [], ct_TerminationMessagePolicy = []\<rparr>]\<rparr>\<rparr>\<rparr>"

lemma cpu_spec_simps [simp]:
  "Replicas (cpu_spec n spot cpu) = Some n"
  "Spot (cpu_spec n spot cpu) = Some \<lparr>SpotReplicaNumber = spot, spot_PriorityClassName = [], spot_Labels = []\<rparr>"
  by (simp_all add: cpu_spec_def)

lemma map_of_map_value: "map_of (map (\<lambda>(k, x). (k, F k x)) a) k = map_option (F k) (map_of a k)"
  by (induction a) auto

lemma map_of_filter_key: "map_of (filter (\<lambda>(k, x). P k) a) k = (if P k then map_of a k else None)"
  by (induction a) auto

lemma quota0_laws: "quota_laws quota0"
proof -
  have merge: "map_of (merge_lists f g a b) k = combined f g (map_of a k) (map_of b k)" for f g a b k
    by (cases "map_of a k"; cases "map_of b k")
      (simp_all add: merge_lists_def combined_def map_of_map_value map_of_filter_key map_add_def)
  have mask: "map_of (filter (\<lambda>(k, x). k \<in> set ns) rs) k = (if k \<in> set ns then map_of rs k else None)"
    for ns k and rs :: resource_list
    by (rule map_of_filter_key)
  have "- ((- q) div 1000) = (q + 999) div 1000" for q :: int by linarith
  moreover have "map_of (map (\<lambda>(k, x). (k, max 0 x)) (merge_lists (-) uminus a b)) k =
      (if map_of a k = None \<and> map_of b k = None then None else Some (max 0 (amount a k - amount b k)))" for a b k
    by (auto simp: map_of_map_value merge combined_def amount_def split: option.splits)
  ultimately show ?thesis unfolding quota_laws_def quota0_def by (auto simp: merge mask)
qed

theorem job_requests_conserved_witness:
  "amount (fst (JobResourceRequests quota0 [(''Worker'', cpu_spec 5 2 2500)])) ''cpu'' +
   amount (snd (JobResourceRequests quota0 [(''Worker'', cpu_spec 5 2 2500)])) ''cpu'' = 15000"
proof -
  have units: "pod_units quota0 (cpu_spec 5 2 2500) ''cpu'' = 3" by code_simp
  have ok: "spot_ok quota0 (cpu_spec 5 2 2500) ''cpu''"
    by (simp add: spot_ok_def units in32_def)
  show ?thesis
    using job_requests_conserved [OF quota0_laws, of "[(''Worker'', cpu_spec 5 2 2500)]" "''cpu''"] ok
    by (cases "JobResourceRequests quota0 [(''Worker'', cpu_spec 5 2 2500)]") (simp add: units)
qed

end
