(* ===== verification/Gang_Sched.thy ===== *)
theory Gang_Sched
  imports Resource_Utils
begin

text \<open>
  The three gang schedulers behind the interface \<open>GangScheduler\<close>: the coscheduling plugin,
  Volcano and kube-batch (\<open>pkg/gang_schedule\<close>), and their registry. The pod groups are
  objects of the API server; the annotation key of Volcano and kube-batch and the label selectors
  belong to other packages and are parameters. With the feature gate \<open>DAGScheduling\<close> a gang
  is made for every replica type, without it for the job.
\<close>

definition LabelPodGroupIdentity :: string where
  "LabelPodGroupIdentity = ''pod-group.scheduling.sigs.k8s.io''"
definition LabelPodGroupName :: string where
  "LabelPodGroupName = ''pod-group.scheduling.sigs.k8s.io/name''"
definition LabelPodGroupMinAvailable :: string where
  "LabelPodGroupMinAvailable = ''pod-group.scheduling.sigs.k8s.io/min-available''"

lemmas gang_label_defs = LabelPodGroupIdentity_def LabelPodGroupName_def LabelPodGroupMinAvailable_def

subsection \<open>Owner references\<close>

definition ownerReferenceEquals :: "owner_ref \<Rightarrow> owner_ref \<Rightarrow> bool" where
  "ownerReferenceEquals ref1 ref2 \<longleftrightarrow>
     \<not> (or_APIVersion ref1 \<noteq> or_APIVersion ref2 \<or> or_Kind ref1 \<noteq> or_Kind ref2 \<or> or_UID ref1 \<noteq> or_UID ref2)"

definition AppendOwnerReference :: "owner_ref list \<Rightarrow> owner_ref \<Rightarrow> owner_ref list" where
  "AppendOwnerReference refs newReference =
     (if list_ex (\<lambda>reference. ownerReferenceEquals reference newReference) refs then refs else refs @ [newReference])"

definition job_owner :: "job_meta \<Rightarrow> owner_ref" where
  "job_owner job = \<lparr>or_APIVersion = jm_APIVersion job, or_Kind = jm_Kind job, or_Name = jm_Name job,
     or_UID = jm_UID job, or_Controller = Some True, or_BlockOwnerDeletion = Some True\<rparr>"

definition group_owner :: "pod_group \<Rightarrow> owner_ref" where
  "group_owner pg = \<lparr>or_APIVersion = pg_APIVersion pg, or_Kind = pg_Kind pg, or_Name = pg_Name pg,
     or_UID = pg_UID pg, or_Controller = Some False, or_BlockOwnerDeletion = Some True\<rparr>"

subsection \<open>The pod groups of a job\<close>

definition new_group :: "job_meta \<Rightarrow> string \<Rightarrow> smap \<Rightarrow> int \<Rightarrow> resource_list option \<Rightarrow> pod_group" where
  "new_group job name labels minMember resources =
     \<lparr>pg_Name = name, pg_Namespace = jm_Namespace job, pg_Labels = labels, pg_OwnerReferences = [job_owner job],
      pg_MinMember = minMember, pg_Queue = [], pg_PriorityClassName = [], pg_APIVersion = [], pg_Kind = [],
      pg_UID = [], pg_MinResources = resources\<rparr>"

text \<open>The labels of the group of a replica type.\<close>

definition role_labels :: "job_meta \<Rightarrow> string \<Rightarrow> smap" where
  "role_labels job rt = [LabelGangSchedulingJobName \<mapsto> jm_Name job, ReplicaTypeLabel \<mapsto> rt]"

text \<open>
  \<open>replicas[AIMaster]\<close> is subtracted from the members and its requests from the resources; a
  positive \<open>MinAvailable\<close> replaces the number of members.
\<close>

definition without_aimaster :: "quota_lib \<Rightarrow> replica_specs \<Rightarrow> int \<Rightarrow> resource_list \<Rightarrow> int \<times> resource_list" where
  "without_aimaster Q replicas minMember jobResource =
     (case map_of replicas JobReplicaTypeAIMaster of
        None \<Rightarrow> (minMember, jobResource)
      | Some aimaster \<Rightarrow>
          (case Replicas aimaster of
             None \<Rightarrow> (minMember, jobResource)
           | Some n \<Rightarrow>
               (if n > 0
                then (i32 (minMember - n),
                      ql_SubtractNonNegative Q jobResource (Multiply Q n (ReplicaResourceRequests Q aimaster)))
                else (minMember, jobResource))))"

definition min_available :: "SchedulingPolicy option \<Rightarrow> int \<Rightarrow> int" where
  "min_available policy minMember =
     (case policy of
        None \<Rightarrow> minMember
      | Some p \<Rightarrow> (case MinAvailable p of None \<Rightarrow> minMember | Some n \<Rightarrow> if n > 0 then n else minMember))"

definition cosched_generateGangByJobUnit ::
    "quota_lib \<Rightarrow> job_meta \<Rightarrow> replica_specs \<Rightarrow> SchedulingPolicy option \<Rightarrow> go_error + pod_group list" where
  "cosched_generateGangByJobUnit Q job replicas policy =
     (case GetTotalReplicas replicas of
        Inl e \<Rightarrow> Inl e
      | Inr all_replicas \<Rightarrow>
          (let (minMember, jobResource) = without_aimaster Q replicas all_replicas (fst (JobResourceRequests Q replicas))
           in Inr [new_group job (jm_Name job) [LabelGangSchedulingJobName \<mapsto> jm_Name job]
                     (min_available policy minMember) (Some jobResource)]))"

fun cosched_generateGangByRoleUnit ::
    "quota_lib \<Rightarrow> job_meta \<Rightarrow> replica_specs \<Rightarrow> go_error + pod_group list" where
  "cosched_generateGangByRoleUnit Q job [] = Inr []"
| "cosched_generateGangByRoleUnit Q job ((rtype, spec) # specs) =
     (if rtype = JobReplicaTypeAIMaster then cosched_generateGangByRoleUnit Q job specs
      else (case Replicas spec of
              None \<Rightarrow> Inl (Panic ''nil Replicas'')
            | Some n \<Rightarrow>
                (case cosched_generateGangByRoleUnit Q job specs of
                   Inl e \<Rightarrow> Inl e
                 | Inr pgs \<Rightarrow>
                     (let rt = ToLower rtype
                      in Inr (new_group job (jm_Name job @ ''-'' @ rt)
                                (role_labels job rt) n
                                (Some (ReplicaResourceRequests Q spec)) # pgs)))))"

definition volcano_generateGangByJobUnit ::
    "quota_lib \<Rightarrow> job_meta \<Rightarrow> replica_specs \<Rightarrow> SchedulingPolicy option \<Rightarrow> go_error + pod_group list" where
  "volcano_generateGangByJobUnit = cosched_generateGangByJobUnit"

definition volcano_generateGangByRoleUnit :: "quota_lib \<Rightarrow> job_meta \<Rightarrow> replica_specs \<Rightarrow> go_error + pod_group list" where
  "volcano_generateGangByRoleUnit = cosched_generateGangByRoleUnit"

text \<open>A pod group is created only if the server does not have it; the first error ends the loop.\<close>

fun create_groups :: "outside \<Rightarrow> pod_group list \<Rightarrow> hist \<Rightarrow> go_error option \<times> hist" where
  "create_groups W [] h = (None, h)"
| "create_groups W (pg # pgs) h =
     (let h1 = emit (GetPodGroup (pg_Namespace pg) (pg_Name pg)) h in
      case out_get_pod_group W h (pg_Namespace pg) (pg_Name pg) of
        Inr existing \<Rightarrow> create_groups W pgs h1
      | Inl e \<Rightarrow>
          (if IsNotFound e
           then (case api_write W (CreatePodGroupCall pg) h1 of
                   (Some e', h2) \<Rightarrow> (Some e', h2)
                 | (None, h2) \<Rightarrow> create_groups W pgs h2)
           else (Some e, h1)))"

fun delete_groups :: "outside \<Rightarrow> pod_group list \<Rightarrow> hist \<Rightarrow> go_error option \<times> hist" where
  "delete_groups W [] h = (None, h)"
| "delete_groups W (pg # pgs) h =
     (case api_write W (DeletePodGroupCall pg) h of
        (Some e, h1) \<Rightarrow> (Some e, h1)
      | (None, h1) \<Rightarrow> delete_groups W pgs h1)"

definition list_groups :: "outside \<Rightarrow> string \<Rightarrow> string \<Rightarrow> hist \<Rightarrow> gang_entity res" where
  "list_groups W ns name h =
     (case out_list_pod_groups W h ns name of Inl e \<Rightarrow> Inl e | Inr pgs \<Rightarrow> Inr (PodGroupList pgs),
      emit (ListPodGroups ns name) h)"

text \<open>The labels that select the group of a pod.\<close>

definition match_labels :: "bool \<Rightarrow> job_meta \<Rightarrow> string \<Rightarrow> smap" where
  "match_labels dag job rtype =
     (if dag then role_labels job rtype
      else [LabelGangSchedulingJobName \<mapsto> jm_Name job])"

subsection \<open>Coscheduling\<close>

definition cosched_CreateGang ::
    "outside \<Rightarrow> bool \<Rightarrow> job_meta \<Rightarrow> replica_specs \<Rightarrow> SchedulingPolicy option \<Rightarrow> hist \<Rightarrow> gang_entity res" where
  "cosched_CreateGang W dag job replicas policy h =
     (case (if dag then cosched_generateGangByRoleUnit (out_quota W) job replicas
            else cosched_generateGangByJobUnit (out_quota W) job replicas policy) of
        Inl e \<Rightarrow> (Inl e, h)
      | Inr podGroups \<Rightarrow> guarded (create_groups W podGroups h) (\<lambda>h1. (Inr (PodGroupList podGroups), h1)))"

definition cosched_BindPodToGang ::
    "outside \<Rightarrow> bool \<Rightarrow> job_meta \<Rightarrow> pod_template \<Rightarrow> gang_entity \<Rightarrow> string \<Rightarrow> go_error + pod_template" where
  "cosched_BindPodToGang W dag job t entity rtype =
     (if rtype = ToLower JobReplicaTypeAIMaster
      then Inr (t\<lparr>pt_Spec := (pt_Spec t)\<lparr>ps_SchedulerName := ''default-scheduler''\<rparr>\<rparr>)
      else (case entity of
              PodGroupList [] \<Rightarrow> Inl (Err ''unexpected empty gang entity list'')
            | PodGroupList pgs \<Rightarrow>
                (case find (\<lambda>pg. out_set_selector W (match_labels dag job rtype) (pg_Labels pg)) pgs of
                   None \<Rightarrow> Inr t
                 | Some pg \<Rightarrow>
                     Inr (t\<lparr>pt_OwnerReferences := AppendOwnerReference (pt_OwnerReferences t) (group_owner pg),
                            pt_Labels := (pt_Labels t)(LabelPodGroupIdentity \<mapsto> pg_Name pg, LabelPodGroupName \<mapsto> pg_Name pg,
                              LabelPodGroupMinAvailable \<mapsto> Itoa (pg_MinMember pg))\<rparr>))
            | _ \<Rightarrow> Inr t))"

definition cosched_GetGang :: "outside \<Rightarrow> string \<Rightarrow> string \<Rightarrow> hist \<Rightarrow> gang_entity res" where
  "cosched_GetGang W ns name h = list_groups W ns name h"

text \<open>The deletion of the groups of a listing, shared by coscheduling and Volcano.\<close>

definition cosched_DeleteGang :: "outside \<Rightarrow> string \<Rightarrow> string \<Rightarrow> hist \<Rightarrow> go_error option \<times> hist" where
  "cosched_DeleteGang W ns name h =
     (case cosched_GetGang W ns name h of
        (Inl e, h1) \<Rightarrow> (Some e, h1)
      | (Inr (PodGroupList pgs), h1) \<Rightarrow> delete_groups W pgs h1
      | (Inr _, h1) \<Rightarrow> (Some (Panic ''interface conversion''), h1))"

definition kubeCoscheduler :: "outside \<Rightarrow> bool \<Rightarrow> gang_scheduler" where
  "kubeCoscheduler W dag =
     \<lparr>gs_PluginName = ''kube-coscheduler'', gs_SchedulerName = ''default-scheduler'',
      gs_CreateGang = cosched_CreateGang W dag, gs_BindPodToGang = cosched_BindPodToGang W dag,
      gs_GetGang = cosched_GetGang W, gs_DeleteGang = cosched_DeleteGang W\<rparr>"

subsection \<open>Volcano\<close>

definition set_queue :: "SchedulingPolicy option \<Rightarrow> pod_group \<Rightarrow> pod_group" where
  "set_queue policy pg =
     (case policy of
        None \<Rightarrow> pg\<lparr>pg_Queue := [], pg_PriorityClassName := []\<rparr>
      | Some p \<Rightarrow> pg\<lparr>pg_Queue := sched_Queue p, pg_PriorityClassName := sched_PriorityClassName p\<rparr>)"

definition volcano_CreateGang ::
    "outside \<Rightarrow> bool \<Rightarrow> job_meta \<Rightarrow> replica_specs \<Rightarrow> SchedulingPolicy option \<Rightarrow> hist \<Rightarrow> gang_entity res" where
  "volcano_CreateGang W dag job replicas policy h =
     (case (if dag then volcano_generateGangByRoleUnit (out_quota W) job replicas
            else volcano_generateGangByJobUnit (out_quota W) job replicas policy) of
        Inl e \<Rightarrow> (Inl e, h)
      | Inr podGroups \<Rightarrow>
          (let pgs = map (set_queue policy) podGroups in
           guarded (create_groups W pgs h) (\<lambda>h1. (Inr (PodGroupList pgs), h1))))"

definition volcano_BindPodToGang ::
    "outside \<Rightarrow> string \<Rightarrow> bool \<Rightarrow> job_meta \<Rightarrow> pod_template \<Rightarrow> gang_entity \<Rightarrow> string \<Rightarrow> go_error + pod_template" where
  "volcano_BindPodToGang W groupKey dag job t entity rtype =
     (if rtype = ToLower JobReplicaTypeAIMaster
      then Inr (t\<lparr>pt_Spec := (pt_Spec t)\<lparr>ps_SchedulerName := ''default-scheduler''\<rparr>\<rparr>)
      else (case entity of
              PodGroupList [] \<Rightarrow> Inl (Err ''unexpected empty podgrpoups entity list'')
            | PodGroupList pgs \<Rightarrow>
                (case find (\<lambda>pg. out_set_selector W (match_labels dag job rtype) (pg_Labels pg)) pgs of
                   None \<Rightarrow>
                     Inr (t\<lparr>pt_Annotations := (pt_Annotations t)
                              (groupKey \<mapsto> if dag then jm_Name job @ ''-'' @ rtype else jm_Name job)\<rparr>)
                 | Some pg \<Rightarrow>
                     Inr (t\<lparr>pt_OwnerReferences := AppendOwnerReference (pt_OwnerReferences t) (group_owner pg),
                            pt_Annotations := (pt_Annotations t)(groupKey \<mapsto> pg_Name pg)\<rparr>))
            | _ \<Rightarrow> Inr t))"

definition volcano_GetGang :: "outside \<Rightarrow> string \<Rightarrow> string \<Rightarrow> hist \<Rightarrow> gang_entity res" where
  "volcano_GetGang W ns name h = list_groups W ns name h"

definition volcano_DeleteGang :: "outside \<Rightarrow> string \<Rightarrow> string \<Rightarrow> hist \<Rightarrow> go_error option \<times> hist" where
  "volcano_DeleteGang W ns name h =
     (case volcano_GetGang W ns name h of
        (Inl e, h1) \<Rightarrow> (Some e, h1)
      | (Inr (PodGroupList pgs), h1) \<Rightarrow> delete_groups W pgs h1
      | (Inr _, h1) \<Rightarrow> (Some (Panic ''interface conversion''), h1))"

definition volcanoScheduler :: "outside \<Rightarrow> string \<Rightarrow> bool \<Rightarrow> gang_scheduler" where
  "volcanoScheduler W groupKey dag =
     \<lparr>gs_PluginName = ''volcano'', gs_SchedulerName = ''volcano'',
      gs_CreateGang = volcano_CreateGang W dag, gs_BindPodToGang = volcano_BindPodToGang W groupKey dag,
      gs_GetGang = volcano_GetGang W, gs_DeleteGang = volcano_DeleteGang W\<rparr>"

subsection \<open>kube-batch\<close>

definition batch_CreateGang ::
    "outside \<Rightarrow> job_meta \<Rightarrow> replica_specs \<Rightarrow> SchedulingPolicy option \<Rightarrow> hist \<Rightarrow> gang_entity res" where
  "batch_CreateGang W job replicas policy h =
     (case GetTotalReplicas replicas of
        Inl e \<Rightarrow> (Inl e, h)
      | Inr minMember \<Rightarrow>
          (let pg = (new_group job (jm_Name job) Map.empty minMember None)
                      \<lparr>pg_OwnerReferences := AppendOwnerReference [] (job_owner job)\<rparr>
           in guarded (api_write W (CreatePodGroupCall pg) h) (\<lambda>h1. (Inr (SinglePodGroup pg), h1))))"

definition batch_BindPodToGang ::
    "string \<Rightarrow> job_meta \<Rightarrow> pod_template \<Rightarrow> gang_entity \<Rightarrow> string \<Rightarrow> go_error + pod_template" where
  "batch_BindPodToGang groupKey job t entity rtype =
     (case entity of
        SinglePodGroup pg \<Rightarrow> Inr (t\<lparr>pt_Annotations := (pt_Annotations t)(groupKey \<mapsto> pg_Name pg)\<rparr>)
      | _ \<Rightarrow> Inl (Panic ''interface conversion''))"

definition batch_GetGang :: "outside \<Rightarrow> string \<Rightarrow> string \<Rightarrow> hist \<Rightarrow> gang_entity res" where
  "batch_GetGang W ns name h =
     (case out_get_pod_group W h ns name of Inl e \<Rightarrow> Inl e | Inr pg \<Rightarrow> Inr (PodGroupList [pg]),
      emit (GetPodGroup ns name) h)"

fun batch_delete_groups :: "outside \<Rightarrow> pod_group list \<Rightarrow> hist \<Rightarrow> go_error option \<times> hist" where
  "batch_delete_groups W [] h = (None, h)"
| "batch_delete_groups W (pg # pgs) h =
     (case api_write W (DeletePodGroupCall pg) h of
        (Some e, h1) \<Rightarrow> if IsNotFound e then batch_delete_groups W pgs h1 else (Some e, h1)
      | (None, h1) \<Rightarrow> batch_delete_groups W pgs h1)"

definition batch_DeleteGang :: "outside \<Rightarrow> string \<Rightarrow> string \<Rightarrow> hist \<Rightarrow> go_error option \<times> hist" where
  "batch_DeleteGang W ns name h =
     (case batch_GetGang W ns name h of
        (Inl e, h1) \<Rightarrow> (Some e, h1)
      | (Inr (PodGroupList pgs), h1) \<Rightarrow> batch_delete_groups W pgs h1
      | (Inr _, h1) \<Rightarrow> (Some (Panic ''interface conversion''), h1))"

definition kubeBatchScheduler :: "outside \<Rightarrow> string \<Rightarrow> gang_scheduler" where
  "kubeBatchScheduler W groupKey =
     \<lparr>gs_PluginName = ''kube-batch'', gs_SchedulerName = ''kube-batch'',
      gs_CreateGang = batch_CreateGang W, gs_BindPodToGang = batch_BindPodToGang groupKey,
      gs_GetGang = batch_GetGang W, gs_DeleteGang = batch_DeleteGang W\<rparr>"

subsection \<open>The registry\<close>

type_synonym registry = "string \<Rightarrow> gang_scheduler option"

definition Registry_Add :: "registry \<Rightarrow> gang_scheduler \<Rightarrow> registry" where
  "Registry_Add r scheduler = r(gs_PluginName scheduler \<mapsto> scheduler)"

definition Registry_Get :: "registry \<Rightarrow> string \<Rightarrow> gang_scheduler option" where
  "Registry_Get r name = r name"

definition Registry_Remove :: "registry \<Rightarrow> string \<Rightarrow> registry" where
  "Registry_Remove r name = r(name := None)"

definition RegisterGangSchedulers :: "gang_scheduler list \<Rightarrow> registry \<Rightarrow> registry" where
  "RegisterGangSchedulers newers r = foldl Registry_Add r newers"

lemma registered:
  assumes "distinct (map gs_PluginName newers)" "s \<in> set newers"
  shows "Registry_Get (RegisterGangSchedulers newers r) (gs_PluginName s) = Some s"
proof -
  have keep: "gs_PluginName s \<notin> gs_PluginName ` set ss \<Longrightarrow> foldl Registry_Add r ss (gs_PluginName s) = r (gs_PluginName s)" for ss r
    by (induction ss arbitrary: r) (auto simp: Registry_Add_def)
  show ?thesis
    using assms unfolding RegisterGangSchedulers_def Registry_Get_def
  proof (induction newers arbitrary: r)
    case (Cons x xs)
    have "Registry_Add r s (gs_PluginName s) = Some s" by (simp add: Registry_Add_def)
    with Cons keep [of xs "Registry_Add r x"] show ?case by (cases "x = s") simp_all
  qed simp
qed

subsection \<open>The gang of a job\<close>

text \<open>\<open>SelectorFromSet\<close> selects the label sets that contain the given one.\<close>

definition set_selector_law :: "outside \<Rightarrow> bool" where
  "set_selector_law W \<longleftrightarrow> (\<forall>m ls. out_set_selector W m ls = (m \<subseteq>\<^sub>m ls))"

lemma sum_list_without:
  fixes f :: "'a \<times> 'b \<Rightarrow> int"
  assumes "distinct (map fst xs)" "map_of xs k = Some v"
  shows "sum_list (map f xs) = f (k, v) + sum_list (map f (filter (\<lambda>x. fst x \<noteq> k) xs))"
  using assms
proof (induction xs)
  case (Cons x xs)
  show ?case
  proof (cases "fst x = k")
    case True
    with Cons.prems have "filter (\<lambda>x. fst x \<noteq> k) xs = xs" by (auto simp: filter_id_conv rev_image_eqI)
    with True Cons.prems show ?thesis by (cases x) auto
  next
    case False
    with Cons show ?thesis by (cases x) auto
  qed
qed simp

lemma sum_list_absent:
  "map_of xs k = None \<Longrightarrow> filter (\<lambda>x. fst x \<noteq> k) xs = xs"
  by (auto simp: filter_id_conv map_of_eq_None_iff)

text \<open>
  The gang of a job has as many members as the job has replicas, the AIMaster excepted: without
  a positive \<open>MinAvailable\<close> the coscheduling pod group of a job asks for exactly the sum of
  the replicas of all other types, also when an intermediate 32-bit sum wraps around, and a
  positive \<open>MinAvailable\<close> replaces it.
\<close>

theorem job_gang_min_member:
  assumes "distinct (map fst specs)" "\<forall>(t, r) \<in> set specs. \<exists>n \<ge> 0. Replicas r = Some n"
    and "in32 (\<Sum>(t, r)\<leftarrow>filter (\<lambda>x. fst x \<noteq> JobReplicaTypeAIMaster) specs. the (Replicas r))"
  shows "\<exists>pg. cosched_generateGangByJobUnit Q job specs policy = Inr [pg] \<and>
    pg_MinMember pg = (case policy of
       Some p \<Rightarrow> (case MinAvailable p of
                    Some m \<Rightarrow> if m > 0 then m
                      else (\<Sum>(t, r)\<leftarrow>filter (\<lambda>x. fst x \<noteq> JobReplicaTypeAIMaster) specs. the (Replicas r))
                  | None \<Rightarrow> (\<Sum>(t, r)\<leftarrow>filter (\<lambda>x. fst x \<noteq> JobReplicaTypeAIMaster) specs. the (Replicas r)))
     | None \<Rightarrow> (\<Sum>(t, r)\<leftarrow>filter (\<lambda>x. fst x \<noteq> JobReplicaTypeAIMaster) specs. the (Replicas r)))"
proof -
  let ?f = "\<lambda>(t, r). the (Replicas r)"
  let ?rest = "\<Sum>(t, r)\<leftarrow>filter (\<lambda>x. fst x \<noteq> JobReplicaTypeAIMaster) specs. the (Replicas r)"
  let ?res = "fst (JobResourceRequests Q specs)"
  have total: "GetTotalReplicas specs = Inr (i32 (sum_list (map ?f specs)))"
    using assms(2) by (auto simp: GetTotalReplicas_eq)
  have rest: "fst (without_aimaster Q specs (i32 (sum_list (map ?f specs))) ?res) = ?rest"
  proof (cases "map_of specs JobReplicaTypeAIMaster")
    case None
    then show ?thesis using sum_list_absent [OF None] i32_id [OF assms(3)] by (simp add: without_aimaster_def)
  next
    case (Some a)
    then obtain n where n: "Replicas a = Some n" "n \<ge> 0" using assms(2) map_of_SomeD [OF Some] by fastforce
    have "sum_list (map ?f specs) = n + ?rest" using sum_list_without [OF assms(1) Some, of ?f] n by simp
    moreover have "i32 (i32 (n + ?rest) - n) = ?rest"
      using i32_add_left [of "n + ?rest" "- n"] i32_id [OF assms(3)] by simp
    ultimately show ?thesis using Some n i32_id [OF assms(3)] by (auto simp: without_aimaster_def)
  qed
  obtain m r where w: "without_aimaster Q specs (i32 (sum_list (map ?f specs))) ?res = (m, r)" by force
  with rest have "m = ?rest" by simp
  with total w show ?thesis
    by (auto simp: cosched_generateGangByJobUnit_def new_group_def min_available_def split: option.splits)
qed

theorem job_gang_min_member_witness:
  "\<exists>pg. cosched_generateGangByJobUnit quota0 job0
     [(JobReplicaTypeAIMaster, dag_spec 1 []), (''PS'', dag_spec 2 []), (''Worker'', dag_spec 4 [])] None = Inr [pg] \<and>
     pg_MinMember pg = 6"
  using job_gang_min_member [of "[(JobReplicaTypeAIMaster, dag_spec 1 []), (''PS'', dag_spec 2 []), (''Worker'', dag_spec 4 [])]"
      quota0 job0 None]
  by (simp add: JobReplicaTypeAIMaster_def in32_def)

lemma role_unit_find:
  assumes "cosched_generateGangByRoleUnit Q job specs = Inr pgs" "set_selector_law W"
    and "map_of specs rtype = Some spec" "rtype \<noteq> JobReplicaTypeAIMaster"
    and "\<forall>(t, r) \<in> set specs. ToLower t = ToLower rtype \<longrightarrow> t = rtype"
  shows "\<exists>n. Replicas spec = Some n \<and>
    find (\<lambda>pg. out_set_selector W (match_labels True job (ToLower rtype)) (pg_Labels pg)) pgs =
      Some (new_group job (jm_Name job @ ''-'' @ ToLower rtype)
        (role_labels job (ToLower rtype)) n
        (Some (ReplicaResourceRequests Q spec)))"
  using assms
proof (induction specs arbitrary: pgs)
  case (Cons x specs)
  obtain t r where x [simp]: "x = (t, r)" by (cases x)
  show ?case
  proof (cases "t = JobReplicaTypeAIMaster")
    case True
    with Cons show ?thesis by auto
  next
    case False
    with Cons.prems(1) obtain n pgs' where n: "Replicas r = Some n"
      and rest: "cosched_generateGangByRoleUnit Q job specs = Inr pgs'"
      and pgs: "pgs = new_group job (jm_Name job @ ''-'' @ ToLower t)
        (role_labels job (ToLower t)) n
        (Some (ReplicaResourceRequests Q r)) # pgs'"
      by (auto simp: Let_def split: option.splits sum.splits)
    show ?thesis
    proof (cases "t = rtype")
      case True
      with Cons.prems n pgs show ?thesis
        by (simp add: set_selector_law_def match_labels_def new_group_def)
    next
      case False
      with Cons.prems(5) have "ToLower t \<noteq> ToLower rtype" by auto
      moreover have "ReplicaTypeLabel \<noteq> LabelGangSchedulingJobName"
        by (simp add: ReplicaTypeLabel_def LabelGangSchedulingJobName_def)
      ultimately have "\<not> match_labels True job (ToLower rtype) \<subseteq>\<^sub>m
          (role_labels job (ToLower t))"
        by (auto simp: match_labels_def role_labels_def map_le_def)
      with Cons.IH [OF rest Cons.prems(2)] Cons.prems(3-5) False pgs show ?thesis
        using Cons.prems(2) by (simp add: set_selector_law_def new_group_def)
    qed
  qed
qed simp

text \<open>
  Every replica joins the gang of its own type: with DAG scheduling, binding the pod of a
  replica type other than the AIMaster to the groups that \<open>CreateGang\<close> made for the job
  labels it with the group of this type and with the number of replicas of this type as the
  minimum.
\<close>

theorem role_gang_bound:
  assumes "set_selector_law W" "map_of specs rtype = Some spec"
    and "\<forall>(t, r) \<in> set specs. ToLower t = ToLower rtype \<longrightarrow> t = rtype"
    and "ToLower rtype \<noteq> ToLower JobReplicaTypeAIMaster"
    and "cosched_CreateGang W True job specs policy h = (Inr entity, h')"
  shows "\<exists>t' n. cosched_BindPodToGang W True job t entity (ToLower rtype) = Inr t' \<and> Replicas spec = Some n \<and>
    pt_Labels t' LabelPodGroupName = Some (jm_Name job @ ''-'' @ ToLower rtype) \<and>
    pt_Labels t' LabelPodGroupMinAvailable = Some (Itoa n)"
proof -
  from assms(5) obtain pgs where g: "cosched_generateGangByRoleUnit (out_quota W) job specs = Inr pgs"
    and e: "entity = PodGroupList pgs"
    by (auto simp: cosched_CreateGang_def guarded_eq_Inr split: sum.splits)
  have "rtype \<noteq> JobReplicaTypeAIMaster" using assms(4) by auto
  from role_unit_find [OF g assms(1,2) this assms(3)] obtain n where n: "Replicas spec = Some n"
    and f: "find (\<lambda>pg. out_set_selector W (match_labels True job (ToLower rtype)) (pg_Labels pg)) pgs =
      Some (new_group job (jm_Name job @ ''-'' @ ToLower rtype)
        (role_labels job (ToLower rtype)) n
        (Some (ReplicaResourceRequests (out_quota W) spec)))" by blast
  then obtain pg pgs' where "pgs = pg # pgs'" by (cases pgs) auto
  with f e n assms(4) show ?thesis
    by (auto simp: cosched_BindPodToGang_def new_group_def gang_label_defs)
qed

theorem role_gang_bound_witness:
  "\<exists>t' n. cosched_BindPodToGang quiet_world True job0 (Template (dag_spec 4 []))
      (PodGroupList [new_group job0 ''mnist-worker''
        (role_labels job0 ''worker'') 4 (Some [])]) ''worker'' = Inr t' \<and>
     pt_Labels t' LabelPodGroupName = Some ''mnist-worker''"
proof -
  have "set_selector_law quiet_world" by (simp add: set_selector_law_def quiet_world_def)
  moreover have "ToLower ''Worker'' \<noteq> ToLower JobReplicaTypeAIMaster" unfolding JobReplicaTypeAIMaster_def by code_simp
  moreover have "ReplicaResourceRequests quota0 (dag_spec 4 []) = []" by code_simp
  then have "\<exists>h'. cosched_CreateGang quiet_world True job0 [(''Worker'', dag_spec 4 [])] None [] =
      (Inr (PodGroupList [new_group job0 ''mnist-worker''
        (role_labels job0 ''worker'') 4 (Some [])]), h')"
    by (simp add: cosched_CreateGang_def sample_strings JobReplicaTypeAIMaster_def api_write_def quiet_world_def Let_def)
  ultimately show ?thesis
    using role_gang_bound [of quiet_world "[(''Worker'', dag_spec 4 [])]" "''Worker''" "dag_spec 4 []" job0 None "[]"]
    by (fastforce simp: sample_strings)
qed

end
