(* ===== verification/Gang_Contract.thy ===== *)
theory Gang_Contract
  imports Job_Termination Gang_Sched
begin

text \<open>
  What the job controller relies on in a gang scheduler, as the locale \<open>quiet_gang\<close>: its
  operations write no job status and create no pod and no service. The locale \<open>group_gang\<close> says more,
  that they work on the pod groups of the job alone. The three schedulers of the repository satisfy it,
  so the safety of the reconciliation holds with each of them; but the pods of a job are never bound to
  the groups of kube-batch.
\<close>

definition unobtrusive :: "hist \<Rightarrow> hist \<Rightarrow> bool" where
  "unobtrusive h h' \<longleftrightarrow> silent h h' \<and> launched h' = launched h"

lemma unobtrusive_refl [simp, intro]: "unobtrusive h h"
  by (simp add: unobtrusive_def)

lemma unobtrusive_trans: "unobtrusive h1 h2 \<Longrightarrow> unobtrusive h2 h3 \<Longrightarrow> unobtrusive h1 h3"
  by (auto simp: unobtrusive_def intro: silent_trans)

lemma unobtrusive_emit:
  "\<not> launches c \<Longrightarrow> (\<forall>job st. c \<noteq> UpdateStatusCall job st) \<Longrightarrow> unobtrusive h (emit c h)"
  by (auto simp: unobtrusive_def intro: silent_emit)

lemma unobtrusive_write:
  "api_write W c h = (e, h') \<Longrightarrow> \<not> launches c \<Longrightarrow> (\<forall>job st. c \<noteq> UpdateStatusCall job st) \<Longrightarrow> unobtrusive h h'"
  by (auto simp: api_write_def unobtrusive_def silent_def split: call.splits)

locale quiet_gang =
  fixes G :: gang_scheduler
  assumes create_quiet: "gs_CreateGang G job specs policy h = (r, h') \<Longrightarrow> unobtrusive h h'"
    and get_quiet: "gs_GetGang G ns name h = (r, h') \<Longrightarrow> unobtrusive h h'"
    and delete_quiet: "gs_DeleteGang G ns name h = (e, h') \<Longrightarrow> unobtrusive h h'"
begin

lemma silent_with:
  assumes "silent_interface jc"
  shows "silent_interface (jc\<lparr>GangScheduler := G\<rparr>)"
  using assms create_quiet get_quiet delete_quiet unfolding silent_interface_def unobtrusive_def
  by simp

lemma launch_with:
  assumes "reads_launch_nothing jc"
  shows "reads_launch_nothing (jc\<lparr>GangScheduler := G\<rparr>)"
proof -
  have "launched (snd (gs_DeleteGang G ns n h)) = launched h" for ns n h
    using delete_quiet [of ns n h] by (cases "gs_DeleteGang G ns n h") (auto simp: unobtrusive_def)
  with assms show ?thesis by (simp add: reads_launch_nothing_def)
qed

end

subsection \<open>Schedulers of pod groups\<close>

text \<open>
  The groups of a job are in its namespace and have the job as their controlling owner. Creating a gang
  looks for such groups and creates them, a gang is read with one call, and deleting it deletes groups.
\<close>

definition group_of :: "job_meta \<Rightarrow> pod_group \<Rightarrow> bool" where
  "group_of job pg \<longleftrightarrow> pg_Namespace pg = jm_Namespace job \<and> pg_OwnerReferences pg = [job_owner job]"

definition makes_group :: "job_meta \<Rightarrow> call \<Rightarrow> bool" where
  "makes_group job c \<longleftrightarrow>
     (case c of GetPodGroup ns name \<Rightarrow> ns = jm_Namespace job | CreatePodGroupCall pg \<Rightarrow> group_of job pg | _ \<Rightarrow> False)"

definition reads_group :: "string \<Rightarrow> string \<Rightarrow> call \<Rightarrow> bool" where
  "reads_group ns name c \<longleftrightarrow> c = GetPodGroup ns name \<or> c = ListPodGroups ns name"

definition entity_groups :: "gang_entity \<Rightarrow> pod_group list" where
  "entity_groups entity = (case entity of PodGroupList pgs \<Rightarrow> pgs | SinglePodGroup pg \<Rightarrow> [pg] | OtherEntity \<Rightarrow> [])"

text \<open>A group the server has: it answered a read of it.\<close>

definition group_found :: "outside \<Rightarrow> pod_group \<Rightarrow> bool" where
  "group_found W pg \<longleftrightarrow> (\<exists>h existing. out_get_pod_group W h (pg_Namespace pg) (pg_Name pg) = Inr existing)"

lemma makes_group_unobtrusive: "list_all (makes_group job) cs \<Longrightarrow> unobtrusive h (h @ cs)"
proof (induction cs arbitrary: h)
  case (Cons c cs)
  have "unobtrusive h (h @ [c])"
    using Cons.prems by (auto simp: makes_group_def unobtrusive_def silent_def split: call.splits)
  with Cons.IH [of "h @ [c]"] Cons.prems show ?case by (auto intro: unobtrusive_trans)
qed simp

lemma deletes_unobtrusive: "unobtrusive h (h @ map DeletePodGroupCall pgs)"
proof (induction pgs arbitrary: h)
  case (Cons pg pgs)
  have "unobtrusive h (h @ [DeletePodGroupCall pg])" by (simp add: unobtrusive_def silent_def)
  with Cons [of "h @ [DeletePodGroupCall pg]"] show ?case by (auto intro: unobtrusive_trans)
qed simp

locale group_gang =
  fixes W :: outside and G :: gang_scheduler
  assumes create_groups_of: "gs_CreateGang G job specs policy h = (r, h') \<Longrightarrow>
      \<exists>cs. h' = h @ cs \<and> list_all (makes_group job) cs \<and>
        (\<forall>entity. r = Inr entity \<longrightarrow> (\<forall>pg \<in> set (entity_groups entity). CreatePodGroupCall pg \<in> set cs \<or> group_found W pg))"
    and get_reads: "gs_GetGang G ns name h = (r, h') \<Longrightarrow> \<exists>c. h' = h @ [c] \<and> reads_group ns name c"
    and delete_listed: "gs_GetGang G ns name h = (r, h1) \<Longrightarrow> gs_DeleteGang G ns name h = (e, h') \<Longrightarrow>
      (case r of Inl e' \<Rightarrow> e = Some e' \<and> h' = h1
       | Inr entity \<Rightarrow> \<exists>ds rest. entity_groups entity = ds @ rest \<and> h' = h1 @ map DeletePodGroupCall ds \<and> (e = None \<longrightarrow> rest = []))"
begin

lemma get_unobtrusive: "gs_GetGang G ns name h = (r, h') \<Longrightarrow> unobtrusive h h'"
  using get_reads [of ns name h r h'] by (auto simp: reads_group_def unobtrusive_def silent_def)

lemma delete_unobtrusive:
  assumes "gs_DeleteGang G ns name h = (e, h')"
  shows "unobtrusive h h'"
proof -
  obtain r h1 where g: "gs_GetGang G ns name h = (r, h1)" by (cases "gs_GetGang G ns name h")
  from delete_listed [OF g assms] get_unobtrusive [OF g] show ?thesis
    by (auto split: sum.splits intro: unobtrusive_trans deletes_unobtrusive)
qed

end

sublocale group_gang \<subseteq> quiet_gang G
proof
  fix job specs policy h r h' assume "gs_CreateGang G job specs policy h = (r, h')"
  from create_groups_of [OF this] show "unobtrusive h h'" by (auto intro: makes_group_unobtrusive)
qed (rule get_unobtrusive delete_unobtrusive; assumption)+

subsection \<open>The three schedulers\<close>

lemma create_groups_calls:
  assumes "\<forall>pg \<in> set pgs. group_of job pg" "create_groups W pgs h = (e, h')"
  shows "\<exists>cs. h' = h @ cs \<and> list_all (makes_group job) cs \<and>
    (e = None \<longrightarrow> (\<forall>pg \<in> set pgs. CreatePodGroupCall pg \<in> set cs \<or> group_found W pg))"
  using assms
proof (induction pgs arbitrary: h)
  case (Cons pg pgs)
  let ?get = "GetPodGroup (pg_Namespace pg) (pg_Name pg)"
  have own: "makes_group job ?get" "makes_group job (CreatePodGroupCall pg)"
    using Cons.prems(1) by (simp_all add: makes_group_def group_of_def)
  show ?case
  proof (cases "out_get_pod_group W h (pg_Namespace pg) (pg_Name pg)")
    case (Inr existing)
    then have "group_found W pg" by (auto simp: group_found_def)
    with Cons.IH [of "h @ [?get]"] Cons.prems Inr own obtain cs where
      "h' = h @ ?get # cs" "list_all (makes_group job) cs"
      "e = None \<longrightarrow> (\<forall>pg \<in> set pgs. CreatePodGroupCall pg \<in> set cs \<or> group_found W pg)"
      by (auto simp: emit_def)
    with own \<open>group_found W pg\<close> show ?thesis by (intro exI [of _ "?get # cs"]) auto
  next
    case (Inl err)
    let ?h2 = "h @ [?get, CreatePodGroupCall pg]"
    show ?thesis
    proof (cases "err = NotFound \<and> out_write W (h @ [?get]) (CreatePodGroupCall pg) = None")
      case True
      with Cons.IH [of ?h2] Cons.prems Inl own obtain cs where
        "h' = ?h2 @ cs" "list_all (makes_group job) cs"
        "e = None \<longrightarrow> (\<forall>pg \<in> set pgs. CreatePodGroupCall pg \<in> set cs \<or> group_found W pg)"
        by (auto simp: emit_def api_write_def)
      with own show ?thesis by (intro exI [of _ "?get # CreatePodGroupCall pg # cs"]) auto
    next
      case False
      then consider (other) "err \<noteq> NotFound"
        | (refused) e1 where "err = NotFound" "out_write W (h @ [?get]) (CreatePodGroupCall pg) = Some e1" by auto
      then have "e \<noteq> None \<and> (h' = h @ [?get] \<or> h' = ?h2)"
      proof cases
        case other
        with Cons.prems(2) Inl have "(Some err, h @ [?get]) = (e, h')" by (simp add: emit_def)
        then show ?thesis by auto
      next
        case refused
        with Cons.prems(2) Inl have "(Some e1, ?h2) = (e, h')" by (simp add: emit_def api_write_def)
        then show ?thesis by auto
      qed
      with own show ?thesis by auto
    qed
  qed
qed simp

lemma delete_groups_calls:
  "delete_groups W pgs h = (e, h') \<Longrightarrow>
   \<exists>ds rest. pgs = ds @ rest \<and> h' = h @ map DeletePodGroupCall ds \<and> (e = None \<longrightarrow> rest = [])"
proof (induction pgs arbitrary: h)
  case (Cons pg pgs)
  show ?case
  proof (cases "out_write W h (DeletePodGroupCall pg)")
    case None
    with Cons.IH [of "h @ [DeletePodGroupCall pg]"] Cons.prems obtain ds rest where
      "pgs = ds @ rest" "h' = h @ map DeletePodGroupCall (pg # ds)" "e = None \<longrightarrow> rest = []"
      by (auto simp: api_write_def)
    then show ?thesis by (intro exI [of _ "pg # ds"] exI [of _ rest]) auto
  next
    case (Some err)
    with Cons.prems show ?thesis by (intro exI [of _ "[pg]"] exI [of _ pgs]) (auto simp: api_write_def)
  qed
qed simp

lemma batch_delete_groups_calls:
  "batch_delete_groups W pgs h = (e, h') \<Longrightarrow>
   \<exists>ds rest. pgs = ds @ rest \<and> h' = h @ map DeletePodGroupCall ds \<and> (e = None \<longrightarrow> rest = [])"
proof (induction pgs arbitrary: h)
  case (Cons pg pgs)
  let ?h1 = "h @ [DeletePodGroupCall pg]"
  show ?case
  proof (cases "batch_delete_groups W pgs ?h1 = (e, h')")
    case True
    from Cons.IH [OF this] obtain ds rest where
      "pgs = ds @ rest" "h' = ?h1 @ map DeletePodGroupCall ds" "e = None \<longrightarrow> rest = []" by blast
    then show ?thesis by (intro exI [of _ "pg # ds"] exI [of _ rest]) auto
  next
    case False
    with Cons.prems obtain e1 where w: "out_write W h (DeletePodGroupCall pg) = Some e1" "e1 \<noteq> NotFound"
      by (cases "out_write W h (DeletePodGroupCall pg)") (auto simp: api_write_def split: if_splits)
    with Cons.prems have "(Some e1, ?h1) = (e, h')" by (simp add: api_write_def)
    then have "e \<noteq> None \<and> h' = ?h1" by auto
    then show ?thesis by (intro exI [of _ "[pg]"] exI [of _ pgs]) auto
  qed
qed simp

lemma job_unit_groups: "cosched_generateGangByJobUnit Q job specs policy = Inr pgs \<Longrightarrow> \<forall>pg \<in> set pgs. group_of job pg"
  by (auto simp: cosched_generateGangByJobUnit_def group_of_def new_group_def split: sum.splits prod.splits)

lemma role_unit_groups: "cosched_generateGangByRoleUnit Q job specs = Inr pgs \<Longrightarrow> \<forall>pg \<in> set pgs. group_of job pg"
proof (induction specs arbitrary: pgs)
  case (Cons x specs)
  obtain rtype spec where "x = (rtype, spec)" by force
  with Cons show ?case
    by (auto simp: group_of_def new_group_def Let_def split: if_splits option.splits sum.splits)
qed simp

lemma queue_groups: "\<forall>pg \<in> set pgs. group_of job pg \<Longrightarrow> \<forall>pg \<in> set (map (set_queue policy) pgs). group_of job pg"
  by (auto simp: group_of_def set_queue_def split: option.splits)

lemma created_gang_calls:
  assumes "\<forall>pg \<in> set pgs. group_of job pg"
    and "guarded (create_groups W pgs h) (\<lambda>h1. (Inr (PodGroupList pgs), h1)) = (r, h')"
  shows "\<exists>cs. h' = h @ cs \<and> list_all (makes_group job) cs \<and>
    (\<forall>entity. r = Inr entity \<longrightarrow> (\<forall>pg \<in> set (entity_groups entity). CreatePodGroupCall pg \<in> set cs \<or> group_found W pg))"
proof -
  obtain e h1 where c: "create_groups W pgs h = (e, h1)" by force
  from create_groups_calls [OF assms(1) c] obtain cs where
    "h1 = h @ cs" "list_all (makes_group job) cs"
    "e = None \<longrightarrow> (\<forall>pg \<in> set pgs. CreatePodGroupCall pg \<in> set cs \<or> group_found W pg)" by blast
  with assms(2) c show ?thesis by (cases e) (auto simp: entity_groups_def)
qed

text \<open>Coscheduling and Volcano list the groups of a job and delete what they listed.\<close>

lemma delete_listed_groups:
  assumes "list_groups W ns name h = (r, h1)"
    and "(case list_groups W ns name h of (Inl e, h1) \<Rightarrow> (Some e, h1)
      | (Inr (PodGroupList pgs), h1) \<Rightarrow> delete_groups W pgs h1
      | (Inr _, h1) \<Rightarrow> (Some (Panic ''interface conversion''), h1)) = (e, h')"
  shows "case r of Inl e' \<Rightarrow> e = Some e' \<and> h' = h1
    | Inr entity \<Rightarrow> \<exists>ds rest. entity_groups entity = ds @ rest \<and> h' = h1 @ map DeletePodGroupCall ds \<and> (e = None \<longrightarrow> rest = [])"
proof (cases r)
  case (Inl e')
  with assms show ?thesis by simp
next
  case (Inr entity)
  with assms(1) obtain pgs where "entity = PodGroupList pgs" by (auto simp: list_groups_def split: sum.splits)
  with assms Inr delete_groups_calls [of W pgs h1 e h'] show ?thesis by (simp add: entity_groups_def)
qed

interpretation cosched: group_gang W "kubeCoscheduler W dag" for W dag
proof
  fix job specs policy h r h'
  assume "gs_CreateGang (kubeCoscheduler W dag) job specs policy h = (r, h')"
  then show "\<exists>cs. h' = h @ cs \<and> list_all (makes_group job) cs \<and>
    (\<forall>entity. r = Inr entity \<longrightarrow> (\<forall>pg \<in> set (entity_groups entity). CreatePodGroupCall pg \<in> set cs \<or> group_found W pg))"
    unfolding kubeCoscheduler_def cosched_CreateGang_def
    by (auto split: sum.splits if_splits elim!: created_gang_calls [rotated] dest: role_unit_groups job_unit_groups)
next
  fix ns name h r h' assume "gs_GetGang (kubeCoscheduler W dag) ns name h = (r, h')"
  then show "\<exists>c. h' = h @ [c] \<and> reads_group ns name c"
    by (auto simp: kubeCoscheduler_def cosched_GetGang_def reads_group_def list_groups_def emit_def)
next
  fix ns name h r h1 e h'
  assume "gs_GetGang (kubeCoscheduler W dag) ns name h = (r, h1)" and d: "gs_DeleteGang (kubeCoscheduler W dag) ns name h = (e, h')"
  then have "list_groups W ns name h = (r, h1)" by (simp add: kubeCoscheduler_def cosched_GetGang_def)
  from delete_listed_groups [OF this d [unfolded kubeCoscheduler_def gang_scheduler.simps cosched_DeleteGang_def cosched_GetGang_def]] show "case r of Inl e' \<Rightarrow> e = Some e' \<and> h' = h1
    | Inr entity \<Rightarrow> \<exists>ds rest. entity_groups entity = ds @ rest \<and> h' = h1 @ map DeletePodGroupCall ds \<and> (e = None \<longrightarrow> rest = [])"
    .
qed

interpretation volcano: group_gang W "volcanoScheduler W groupKey dag" for W groupKey dag
proof
  fix job specs policy h r h'
  assume "gs_CreateGang (volcanoScheduler W groupKey dag) job specs policy h = (r, h')"
  then show "\<exists>cs. h' = h @ cs \<and> list_all (makes_group job) cs \<and>
    (\<forall>entity. r = Inr entity \<longrightarrow> (\<forall>pg \<in> set (entity_groups entity). CreatePodGroupCall pg \<in> set cs \<or> group_found W pg))"
    unfolding volcanoScheduler_def volcano_CreateGang_def volcano_generateGangByRoleUnit_def
      volcano_generateGangByJobUnit_def Let_def
    by (auto split: sum.splits if_splits elim!: created_gang_calls [OF queue_groups, rotated]
        dest: role_unit_groups job_unit_groups)
next
  fix ns name h r h' assume "gs_GetGang (volcanoScheduler W groupKey dag) ns name h = (r, h')"
  then show "\<exists>c. h' = h @ [c] \<and> reads_group ns name c"
    by (auto simp: volcanoScheduler_def volcano_GetGang_def reads_group_def list_groups_def emit_def)
next
  fix ns name h r h1 e h'
  assume "gs_GetGang (volcanoScheduler W groupKey dag) ns name h = (r, h1)" and d: "gs_DeleteGang (volcanoScheduler W groupKey dag) ns name h = (e, h')"
  then have "list_groups W ns name h = (r, h1)" by (simp add: volcanoScheduler_def volcano_GetGang_def)
  from delete_listed_groups [OF this d [unfolded volcanoScheduler_def gang_scheduler.simps volcano_DeleteGang_def volcano_GetGang_def]] show "case r of Inl e' \<Rightarrow> e = Some e' \<and> h' = h1
    | Inr entity \<Rightarrow> \<exists>ds rest. entity_groups entity = ds @ rest \<and> h' = h1 @ map DeletePodGroupCall ds \<and> (e = None \<longrightarrow> rest = [])"
    .
qed

interpretation kubebatch: group_gang W "kubeBatchScheduler W groupKey" for W groupKey
proof
  fix job specs policy h r h'
  assume a: "gs_CreateGang (kubeBatchScheduler W groupKey) job specs policy h = (r, h')"
  show "\<exists>cs. h' = h @ cs \<and> list_all (makes_group job) cs \<and>
    (\<forall>entity. r = Inr entity \<longrightarrow> (\<forall>pg \<in> set (entity_groups entity). CreatePodGroupCall pg \<in> set cs \<or> group_found W pg))"
  proof (cases "GetTotalReplicas specs")
    case (Inl e)
    with a show ?thesis by (auto simp: kubeBatchScheduler_def batch_CreateGang_def)
  next
    case (Inr n)
    let ?pg = "(new_group job (jm_Name job) Map.empty n None)\<lparr>pg_OwnerReferences := AppendOwnerReference [] (job_owner job)\<rparr>"
    have "group_of job ?pg" by (simp add: group_of_def new_group_def AppendOwnerReference_def)
    moreover from a Inr have "h' = h @ [CreatePodGroupCall ?pg]" "r = Inr entity \<Longrightarrow> entity = SinglePodGroup ?pg" for entity
      by (auto simp: kubeBatchScheduler_def batch_CreateGang_def guarded_def api_write_def Let_def split: option.splits)
    ultimately show ?thesis by (auto simp: makes_group_def entity_groups_def)
  qed
next
  fix ns name h r h' assume "gs_GetGang (kubeBatchScheduler W groupKey) ns name h = (r, h')"
  then show "\<exists>c. h' = h @ [c] \<and> reads_group ns name c"
    by (auto simp: kubeBatchScheduler_def batch_GetGang_def reads_group_def emit_def)
next
  fix ns name h r h1 e h'
  assume g: "gs_GetGang (kubeBatchScheduler W groupKey) ns name h = (r, h1)"
    and d: "gs_DeleteGang (kubeBatchScheduler W groupKey) ns name h = (e, h')"
  show "case r of Inl e' \<Rightarrow> e = Some e' \<and> h' = h1
    | Inr entity \<Rightarrow> \<exists>ds rest. entity_groups entity = ds @ rest \<and> h' = h1 @ map DeletePodGroupCall ds \<and> (e = None \<longrightarrow> rest = [])"
  proof (cases "out_get_pod_group W h ns name")
    case (Inl e')
    with g d show ?thesis by (auto simp: kubeBatchScheduler_def batch_DeleteGang_def batch_GetGang_def)
  next
    case (Inr pg)
    then have b: "batch_GetGang W ns name h = (Inr (PodGroupList [pg]), emit (GetPodGroup ns name) h)"
      by (simp add: batch_GetGang_def)
    from g have "(r, h1) = (Inr (PodGroupList [pg]), emit (GetPodGroup ns name) h)"
      by (simp only: kubeBatchScheduler_def gang_scheduler.simps b)
    moreover from d have "batch_delete_groups W [pg] (emit (GetPodGroup ns name) h) = (e, h')"
      by (simp only: kubeBatchScheduler_def gang_scheduler.simps batch_DeleteGang_def b prod.case sum.case gang_entity.case)
    ultimately have "r = Inr (PodGroupList [pg])" "batch_delete_groups W [pg] h1 = (e, h')" by blast+
    with batch_delete_groups_calls [of W "[pg]" h1 e h'] show ?thesis by (simp add: entity_groups_def)
  qed
qed

text \<open>The schedulers that \<open>registry\<close> registers.\<close>

inductive gang_implementation :: "outside \<Rightarrow> gang_scheduler \<Rightarrow> bool" where
  "gang_implementation W (kubeCoscheduler W dag)"
| "gang_implementation W (volcanoScheduler W groupKey dag)"
| "gang_implementation W (kubeBatchScheduler W groupKey)"

lemma gang_implementation_groups: "gang_implementation W G \<Longrightarrow> group_gang W G"
  by (induction rule: gang_implementation.induct)
    (rule cosched.group_gang_axioms volcano.group_gang_axioms kubebatch.group_gang_axioms)+

lemma gang_implementation_quiet: "gang_implementation W G \<Longrightarrow> quiet_gang G"
  by (induction rule: gang_implementation.induct)
    (rule cosched.quiet_gang_axioms volcano.quiet_gang_axioms kubebatch.quiet_gang_axioms)+

text \<open>
  C17. The three gang schedulers write pod groups and nothing else. Creating the gang of a job makes no
  calls but looking for groups in the namespace of the job and creating groups there that the job owns
  and controls; when it succeeds, each group of the gang was found or has been created. Looking a gang up
  is one read. Deleting it deletes only groups that this read returned, and all of them when it
  succeeds. A job under gang scheduling whose gang cannot be created starts nothing in this
  reconciliation, and each scheduler is silent enough for the safety of the reconciliation.
\<close>

theorem gang_scheduling_safe:
  assumes "gang_implementation W G"
  shows "(gs_CreateGang G job specs policy h = (r, h1) \<longrightarrow>
      (\<exists>cs. h1 = h @ cs \<and> list_all (makes_group job) cs \<and>
        (\<forall>entity. r = Inr entity \<longrightarrow> (\<forall>pg \<in> set (entity_groups entity). CreatePodGroupCall pg \<in> set cs \<or> group_found W pg)))) \<and>
    (gs_GetGang G ns name h = (r, h1) \<longrightarrow> (\<exists>c. h1 = h @ [c] \<and> reads_group ns name c)) \<and>
    (gs_GetGang G ns name h = (r, h1) \<and> gs_DeleteGang G ns name h = (e, h2) \<longrightarrow>
      (case r of Inl e' \<Rightarrow> e = Some e' \<and> h2 = h1
       | Inr entity \<Rightarrow> \<exists>ds rest. entity_groups entity = ds @ rest \<and> h2 = h1 @ map DeletePodGroupCall ds \<and>
           (e = None \<longrightarrow> rest = []))) \<and>
    (GangScheduler jc = G \<and> EnableGangScheduling (Config jc) \<and> policy = rp_SchedulingPolicy (ja_RunPolicy args) \<and>
      gs_CreateGang G job specs policy h = (Inl err, h1) \<longrightarrow>
      run_phase jc job specs args old st pods svcs h = ((no_result, Some err), h1)) \<and>
    quiet_gang G"
proof -
  note g = gang_implementation_groups [OF assms]
  have "run_phase jc job specs args old st pods svcs h = ((no_result, Some err), h1)"
    if "GangScheduler jc = G" "EnableGangScheduling (Config jc)"
      "gs_CreateGang G job specs (rp_SchedulingPolicy (ja_RunPolicy args)) h = (Inl err, h1)"
    using that by (simp add: run_phase_def gang_phase_def CreateGang_def)
  then have r: "GangScheduler jc = G \<and> EnableGangScheduling (Config jc) \<and> policy = rp_SchedulingPolicy (ja_RunPolicy args) \<and>
      gs_CreateGang G job specs policy h = (Inl err, h1) \<longrightarrow>
      run_phase jc job specs args old st pods svcs h = ((no_result, Some err), h1)" by blast
  show ?thesis
    by (intro conjI impI r gang_implementation_quiet [OF assms] group_gang.create_groups_of [OF g]
        group_gang.get_reads [OF g]) (assumption | erule conjE, erule (1) group_gang.delete_listed [OF g])+
qed

text \<open>Volcano makes the group of a job with four workers.\<close>

theorem gang_scheduling_safe_witness:
  "\<exists>pg h'. gs_CreateGang (volcanoScheduler quiet_world ''g'' False) job0 [(''Worker'', dag_spec 4 [])] None [] =
      (Inr (PodGroupList [pg]), h') \<and> pg_MinMember pg = 4 \<and> CreatePodGroupCall pg \<in> set h' \<and> list_all (makes_group job0) h'"
proof -
  let ?G = "volcanoScheduler quiet_world ''g'' False"
  have "GetTotalReplicas [(''Worker'', dag_spec 4 [])] = Inr 4" by (simp add: GetTotalReplicas_def i32_def)
  then obtain pg h' where r: "gs_CreateGang ?G job0 [(''Worker'', dag_spec 4 [])] None [] = (Inr (PodGroupList [pg]), h')"
    and n: "pg_MinMember pg = 4"
    by (simp add: volcanoScheduler_def volcano_CreateGang_def volcano_generateGangByJobUnit_def
        cosched_generateGangByJobUnit_def without_aimaster_def min_available_def JobReplicaTypeAIMaster_def Let_def
        api_write_def quiet_world_def new_group_def set_queue_def)
  have "\<not> group_found quiet_world pg" by (simp add: group_found_def quiet_world_def)
  with gang_scheduling_safe [OF gang_implementation.intros(2), of quiet_world "''g''" False job0
      "[(''Worker'', dag_spec 4 [])]" None "[]" "Inr (PodGroupList [pg])" h'] r
  have "CreatePodGroupCall pg \<in> set h'" "list_all (makes_group job0) h'" by (auto simp: entity_groups_def)
  with r n show ?thesis by blast
qed

subsection \<open>Pods of kube-batch\<close>

text \<open>
  With kube-batch no pod is ever created: \<open>GetGang\<close> answers with a list of pod groups,
  while \<open>BindPodToGang\<close> expects a single one without checking the type, so creating the pod
  of a replica under kube-batch gang scheduling ends with an error or a panic and asks the server
  for no pod.
\<close>

theorem kube_batch_creates_no_pod:
  assumes "EnableGangScheduling (Config jc)" "GangScheduler jc = kubeBatchScheduler W groupKey"
    and "\<forall>specs ports job t rt i h. created (snd (ci_SetClusterSpec (Controller jc) specs ports job t rt i h)) = created h"
    and "createNewPod jc specs ports job rt index spec master rp h = (r, h')"
  shows "(\<exists>e. r = Inl e) \<and> created h' = created h"
proof -
  let ?el = "ci_EnableElasticScaling (Controller jc) job rp"
  let ?t = "if ?el then (Template spec)\<lparr>pt_Finalizers := pt_Finalizers (Template spec) @ [FinalizerPreemptProtector]\<rparr>
            else Template spec"
  let ?ls = "replica_labels jc job rt index master ?el"
  have bind: "(\<exists>e. fst (bind_gang jc job t rt h) = Inl e) \<and> created (snd (bind_gang jc job t rt h)) = created h" for t h
    using assms(1,2)
    by (auto simp: bind_gang_def kubeBatchScheduler_def batch_GetGang_def batch_BindPodToGang_def andThen_def emit_def
        split: sum.splits)
  obtain x h1 where A: "host_network_step jc ports job ?t rt index h = (x, h1)" by (cases "host_network_step jc ports job ?t rt index h")
  have a: "created h1 = created h"
    using A by (auto simp: host_network_step_def setupHostNetwork_def emit_def Let_def split: if_splits)
  show ?thesis
  proof (cases x)
    case (Inl e)
    with assms(4) A a show ?thesis by (auto simp: createNewPod_def Let_def)
  next
    case (Inr q)
    obtain t1 p1 where x: "x = Inr (t1, p1)" using Inr by (cases q) simp
    obtain t2 h2 where B: "label_and_policy t1 ?ls spec h1 = (t2, h2)" by force
    obtain y h3 where C: "ci_SetClusterSpec (Controller jc) specs p1 job t2 rt index h2 = (y, h3)" by force
    have c: "created h3 = created h" using assms(3) C a created_label_and_policy [OF B] by (metis snd_conv)
    show ?thesis
    proof (cases y)
      case (Inl e)
      with assms(4) A x B C c show ?thesis by (auto simp: createNewPod_def Let_def)
    next
      case t3: (Inr t3)
      obtain z h4 where D: "bind_gang jc job t3 rt h3 = (z, h4)" by (cases "bind_gang jc job t3 rt h3")
      with bind [of t3 h3] obtain e where "z = Inl e" "created h4 = created h3" by auto
      with assms(4) A x B C t3 D c show ?thesis by (auto simp: createNewPod_def Let_def)
    qed
  qed
qed

theorem kube_batch_creates_no_pod_witness:
  "\<exists>e h'. createNewPod (jc0\<lparr>Config := (Config jc0)\<lparr>EnableGangScheduling := True\<rparr>,
        GangScheduler := kubeBatchScheduler quiet_world ''g''\<rparr>)
      [] Map.empty job0 ''worker'' ''0'' (dag_spec 1 []) False run_policy0 [] = (Inl e, h') \<and> created h' = []"
proof -
  let ?jc = "jc0\<lparr>Config := (Config jc0)\<lparr>EnableGangScheduling := True\<rparr>, GangScheduler := kubeBatchScheduler quiet_world ''g''\<rparr>"
  obtain r h' where r: "createNewPod ?jc [] Map.empty job0 ''worker'' ''0'' (dag_spec 1 []) False run_policy0 [] = (r, h')"
    by (metis surj_pair)
  with kube_batch_creates_no_pod [of ?jc quiet_world "''g''", OF _ _ _ r] show ?thesis by auto
qed

end
