(* ===== verification/Coord_Queue.thy ===== *)
theory Coord_Queue
  imports Resource_Utils "HOL-Library.AList" "HOL-Library.Multiset"
begin

text \<open>
  The data of the job coordinator (\<open>pkg/jobcoordinator\<close>): queue units, the queues of the
  tenants (\<open>core/queue.go\<close>) and the round-robin selection of the next queue
  (\<open>core/next_queue_selector.go\<close>). Go maps are association lists; where the code ranges over
  a map, the order is an argument.
\<close>

subsection \<open>Queue units\<close>

text \<open>\<open>qu_Owner\<close> names the work queue of the controller, once it is known.\<close>

record queue_unit =
  qu_Tenant :: string
  qu_Priority :: "int option"
  qu_Object :: job_meta
  qu_SchedPolicy :: "SchedulingPolicy option"
  qu_Specs :: replica_specs
  qu_Status :: JobStatus
  qu_Resources :: resource_list
  qu_SpotResources :: resource_list
  qu_Owner :: "string option"

definition Key :: "queue_unit \<Rightarrow> string" where
  "Key qu = jm_Kind (qu_Object qu) @ ''/'' @ jm_Namespace (qu_Object qu) @ ''/'' @ jm_Name (qu_Object qu)"

definition SpotQueueUnit :: "queue_unit \<Rightarrow> queue_unit" where
  "SpotQueueUnit qu = qu\<lparr>qu_Resources := qu_SpotResources qu, qu_SpotResources := []\<rparr>"

definition ToQueueUnit ::
    "quota_lib \<Rightarrow> job_meta \<Rightarrow> replica_specs \<Rightarrow> JobStatus \<Rightarrow> SchedulingPolicy option \<Rightarrow> queue_unit" where
  "ToQueueUnit Q job replicas st policy =
     (let (resources, spot) = JobResourceRequests Q replicas in
      \<lparr>qu_Tenant = [], qu_Priority = Option.bind policy Priority, qu_Object = job, qu_SchedPolicy = policy,
       qu_Specs = replicas, qu_Status = st, qu_Resources = resources, qu_SpotResources = spot, qu_Owner = None\<rparr>)"

abbreviation unit_uid :: "queue_unit \<Rightarrow> string" where "unit_uid qu \<equiv> jm_UID (qu_Object qu)"

subsection \<open>Queues\<close>

record queue =
  q_name :: string
  q_created :: time
  q_units :: "(string \<times> queue_unit) list"

definition newQueue :: "string \<Rightarrow> time \<Rightarrow> queue" where
  "newQueue name now = \<lparr>q_name = name, q_created = now, q_units = []\<rparr>"

definition q_exists :: "queue \<Rightarrow> string \<Rightarrow> bool" where
  "q_exists q uid \<longleftrightarrow> map_of (q_units q) uid \<noteq> None"

definition q_update :: "queue \<Rightarrow> queue_unit \<Rightarrow> queue" where
  "q_update q qu = (if \<not> q_exists q (unit_uid qu) then q else q\<lparr>q_units := AList.update (unit_uid qu) qu (q_units q)\<rparr>)"

definition q_add :: "queue \<Rightarrow> queue_unit \<Rightarrow> queue" where
  "q_add q qu =
     (if q_exists q (unit_uid qu) then q_update q qu else q\<lparr>q_units := AList.update (unit_uid qu) qu (q_units q)\<rparr>)"

definition q_remove :: "queue \<Rightarrow> string \<Rightarrow> queue" where
  "q_remove q uid = (if \<not> q_exists q uid then q else q\<lparr>q_units := AList.delete uid (q_units q)\<rparr>)"

definition q_get :: "queue \<Rightarrow> string \<Rightarrow> queue_unit option" where
  "q_get q uid = map_of (q_units q) uid"

definition q_size :: "queue \<Rightarrow> nat" where
  "q_size q = length (q_units q)"

text \<open>A queue is well formed if every unit is stored once, under its own identity.\<close>

definition q_wf :: "queue \<Rightarrow> bool" where
  "q_wf q \<longleftrightarrow> distinct (keys (q_units q)) \<and> list_all (\<lambda>(uid, qu). unit_uid qu = uid) (q_units q)"

lemma q_wf_new [simp]: "q_wf (newQueue name now)"
  by (simp add: q_wf_def newQueue_def)

lemma q_get_exists: "q_exists q uid \<longleftrightarrow> (\<exists>qu. q_get q uid = Some qu)"
  by (auto simp: q_exists_def q_get_def)

lemma q_get_add [simp]: "q_get (q_add q qu) uid = (if uid = unit_uid qu then Some qu else q_get q uid)"
  by (simp add: q_get_def q_add_def q_update_def update_conv')

lemma q_get_update:
  "q_get (q_update q qu) uid = (if uid = unit_uid qu \<and> q_exists q uid then Some qu else q_get q uid)"
  by (auto simp: q_get_def q_update_def update_conv' q_exists_def)

lemma q_get_remove [simp]: "q_get (q_remove q uid) uid' = (if uid' = uid then None else q_get q uid')"
  by (auto simp: q_get_def q_remove_def q_exists_def delete_conv')

lemma q_get_new [simp]: "q_get (newQueue name now) uid = None"
  by (simp add: q_get_def newQueue_def)

lemma q_wf_get: "q_wf q \<Longrightarrow> q_get q uid = Some qu \<Longrightarrow> unit_uid qu = uid"
  by (auto simp: q_wf_def q_get_def list_all_iff dest: map_of_SomeD)

lemma update_entries: "set (AList.update k v xs) \<subseteq> insert (k, v) (set xs)"
  by (induction xs) auto

lemma q_wf_store:
  assumes "q_wf q"
  shows "q_wf (q\<lparr>q_units := AList.update (unit_uid qu) qu (q_units q)\<rparr>)"
  using assms update_entries [of "unit_uid qu" qu "q_units q"] distinct_update [of "q_units q"]
  by (fastforce simp: q_wf_def list_all_iff)

lemma q_wf_update [simp]: "q_wf q \<Longrightarrow> q_wf (q_update q qu)"
  by (simp add: q_update_def q_wf_store)

lemma q_wf_add [simp]: "q_wf q \<Longrightarrow> q_wf (q_add q qu)"
  by (simp add: q_add_def q_wf_store)

lemma delete_entries: "set (AList.delete k xs) \<subseteq> set xs"
  by (induction xs) auto

lemma q_wf_remove [simp]: "q_wf q \<Longrightarrow> q_wf (q_remove q uid)"
  using delete_entries [of uid "q_units q"] by (auto simp: q_remove_def q_wf_def list_all_iff distinct_delete)

subsection \<open>Snapshots\<close>

text \<open>
  A snapshot lists the units in the order of the iteration over the map; the iterator walks
  through it once.
\<close>

definition snapshot_of :: "queue \<Rightarrow> queue_unit list \<Rightarrow> bool" where
  "snapshot_of q view \<longleftrightarrow> mset view = mset (map snd (q_units q))"

record queueIterator =
  it_q :: "queue_unit list"
  it_pivot :: nat

definition iter :: "queue_unit list \<Rightarrow> queueIterator" where
  "iter view = \<lparr>it_q = view, it_pivot = 0\<rparr>"

definition HasNext :: "queueIterator \<Rightarrow> bool" where
  "HasNext qi \<longleftrightarrow> it_pivot qi < length (it_q qi)"

definition Next :: "queueIterator \<Rightarrow> queue_unit option \<times> queueIterator" where
  "Next qi = (if \<not> HasNext qi then (None, qi) else (Some (it_q qi ! it_pivot qi), qi\<lparr>it_pivot := it_pivot qi + 1\<rparr>))"

function drain :: "queueIterator \<Rightarrow> queue_unit list" where
  "drain qi = (if HasNext qi then (case Next qi of (Some qu, qi') \<Rightarrow> qu # drain qi' | (None, qi') \<Rightarrow> []) else [])"
  by pat_completeness auto
termination
  by (relation "measure (\<lambda>qi. length (it_q qi) - it_pivot qi)") (auto simp: HasNext_def Next_def split: if_splits)

declare drain.simps [simp del]

lemma drain_drop: "drain qi = drop (it_pivot qi) (it_q qi)"
proof (induction qi rule: drain.induct)
  case (1 qi)
  show ?case
  proof (cases "HasNext qi")
    case True
    then have "Next qi = (Some (it_q qi ! it_pivot qi), qi\<lparr>it_pivot := it_pivot qi + 1\<rparr>)" by (simp add: Next_def)
    with True 1 [OF True this [symmetric]] show ?thesis
      by (simp add: drain.simps [of qi] HasNext_def Cons_nth_drop_Suc)
  next
    case False
    then show ?thesis by (simp add: drain.simps [of qi] HasNext_def)
  qed
qed

lemma drain_iter: "drain (iter view) = view"
  by (simp add: drain_drop iter_def)

subsection \<open>Round robin\<close>

record roundRobinSelector =
  queueNames :: "string list"
  lastSelectedIndex :: int

definition NewRoundRobinSelector :: roundRobinSelector where
  "NewRoundRobinSelector = \<lparr>queueNames = [], lastSelectedIndex = -1\<rparr>"

definition queuesChanged :: "roundRobinSelector \<Rightarrow> (string \<times> queue) list \<Rightarrow> bool" where
  "queuesChanged wrr queues \<longleftrightarrow> queueNames wrr = [] \<or> length (queueNames wrr) \<noteq> length queues"

text \<open>
  \<open>order\<close> is the order in which the loop meets the names of the queues. The index counts the selections
  since the start and is unbounded; the \<open>int\<close> of the code would wrap after \<open>2 ^ 63\<close> of them.
\<close>

definition appendNewQueues :: "roundRobinSelector \<Rightarrow> string list \<Rightarrow> roundRobinSelector" where
  "appendNewQueues wrr order =
     wrr\<lparr>queueNames := queueNames wrr @ filter (\<lambda>name. name \<notin> set (queueNames wrr)) order\<rparr>"

definition selector_Next ::
    "roundRobinSelector \<Rightarrow> (string \<times> queue) list \<Rightarrow> string list \<Rightarrow> (string \<times> queue option) \<times> roundRobinSelector" where
  "selector_Next wrr queues order =
     (let wrr1 = (if queuesChanged wrr queues then appendNewQueues wrr order else wrr) in
      if queueNames wrr1 = [] then (([], None), wrr1)
      else (let index = (lastSelectedIndex wrr1 + 1) mod int (length (queueNames wrr1));
                name = queueNames wrr1 ! nat index
            in ((name, map_of queues name), wrr1\<lparr>lastSelectedIndex := lastSelectedIndex wrr1 + 1\<rparr>)))"

text \<open>
  Queues are never dropped, so the selector knows a duplicate-free part of the names. A call
  whose iteration meets every queue completes it, and later calls keep it.
\<close>

definition selector_ok :: "roundRobinSelector \<Rightarrow> (string \<times> queue) list \<Rightarrow> bool" where
  "selector_ok wrr queues \<longleftrightarrow>
     distinct (queueNames wrr) \<and> set (queueNames wrr) \<subseteq> set (map fst queues) \<and> -1 \<le> lastSelectedIndex wrr"

definition selector_full :: "roundRobinSelector \<Rightarrow> (string \<times> queue) list \<Rightarrow> bool" where
  "selector_full wrr queues \<longleftrightarrow>
     distinct (queueNames wrr) \<and> set (queueNames wrr) = set (map fst queues) \<and> -1 \<le> lastSelectedIndex wrr"

definition refresh :: "roundRobinSelector \<Rightarrow> (string \<times> queue) list \<Rightarrow> string list \<Rightarrow> roundRobinSelector" where
  "refresh wrr queues order = (if queuesChanged wrr queues then appendNewQueues wrr order else wrr)"

lemma selector_ok_new [simp]: "selector_ok NewRoundRobinSelector queues"
  by (simp add: selector_ok_def NewRoundRobinSelector_def)

lemma selector_full_ok: "selector_full wrr queues \<Longrightarrow> selector_ok wrr queues"
  by (simp add: selector_ok_def selector_full_def)

lemma selector_ok_mono:
  "selector_ok wrr queues \<Longrightarrow> set (map fst queues) \<subseteq> set (map fst queues') \<Longrightarrow> selector_ok wrr queues'"
  by (auto simp: selector_ok_def)

lemma same_length_full:
  assumes "selector_ok wrr queues" "distinct (map fst queues)" "length (queueNames wrr) = length queues"
  shows "selector_full wrr queues"
proof -
  have "card (set (queueNames wrr)) = card (set (map fst queues))"
    using assms by (simp add: selector_ok_def distinct_card del: set_map)
  with assms show ?thesis by (simp add: selector_ok_def selector_full_def card_subset_eq del: set_map)
qed

lemma refresh_full:
  assumes "selector_ok wrr queues" "distinct (map fst queues)" "distinct order" "set order = set (map fst queues)"
  shows "selector_full (refresh wrr queues order) queues"
proof (cases "queuesChanged wrr queues")
  case True
  with assms show ?thesis
    by (auto simp: refresh_def appendNewQueues_def selector_ok_def selector_full_def)
next
  case False
  with same_length_full [OF assms(1,2)] show ?thesis by (simp add: refresh_def queuesChanged_def)
qed

lemma full_length:
  assumes "selector_full wrr queues" "distinct (map fst queues)"
  shows "length (queueNames wrr) = length queues"
proof -
  have "length (queueNames wrr) = card (set (map fst queues))"
    using assms by (metis selector_full_def distinct_card)
  with assms show ?thesis by (simp add: distinct_card del: set_map)
qed

lemma full_names_nil:
  "selector_full wrr queues \<Longrightarrow> queueNames wrr = [] \<longleftrightarrow> queues = []"
  by (metis list.map_disc_iff selector_full_def set_empty)

lemma refresh_keeps:
  assumes "selector_full wrr queues" "distinct (map fst queues)" "set order = set (map fst queues)"
  shows "refresh wrr queues order = wrr"
  using assms by (auto simp: refresh_def queuesChanged_def full_length full_names_nil appendNewQueues_def selector_full_def)

lemma refresh_empty:
  assumes "selector_full wrr queues" "queues = []"
  shows "queueNames wrr = []"
  using assms full_names_nil by blast

lemma selector_Next_refresh:
  "selector_Next wrr queues order =
     (let wrr1 = refresh wrr queues order in
      if queueNames wrr1 = [] then (([], None), wrr1)
      else (let name = queueNames wrr1 ! nat ((lastSelectedIndex wrr1 + 1) mod int (length (queueNames wrr1)))
            in ((name, map_of queues name), wrr1\<lparr>lastSelectedIndex := lastSelectedIndex wrr1 + 1\<rparr>)))"
  by (simp add: selector_Next_def refresh_def Let_def)

lemma selector_Next_full:
  assumes "selector_ok wrr queues" "distinct (map fst queues)" "distinct order" "set order = set (map fst queues)"
  shows "selector_full (snd (selector_Next wrr queues order)) queues"
  using refresh_full [OF assms] by (auto simp: selector_Next_refresh Let_def selector_full_def)

fun selections ::
    "(string \<times> queue) list \<Rightarrow> string list list \<Rightarrow> roundRobinSelector \<Rightarrow> (string \<times> queue option) list" where
  "selections queues [] wrr = []"
| "selections queues (order # orders) wrr =
     (let (choice, wrr1) = selector_Next wrr queues order in choice # selections queues orders wrr1)"

lemma selections_full:
  assumes "selector_full wrr queues" "distinct (map fst queues)" "queues \<noteq> []"
    and "\<forall>order \<in> set orders. set order = set (map fst queues)"
  shows "selections queues orders wrr =
           map (\<lambda>i. let name = queueNames wrr ! ((nat (lastSelectedIndex wrr + 1) + i) mod length (queueNames wrr))
                     in (name, map_of queues name)) [0..<length orders]"
  using assms
proof (induction orders arbitrary: wrr)
  case (Cons order orders)
  let ?w = "wrr\<lparr>lastSelectedIndex := lastSelectedIndex wrr + 1\<rparr>"
  have last: "0 \<le> lastSelectedIndex wrr + 1" using Cons.prems(1) by (simp add: selector_full_def)
  have shift: "nat (lastSelectedIndex wrr + 2) = Suc (nat (lastSelectedIndex wrr + 1))" using last by simp
  have step: "selector_Next wrr queues order =
      ((let name = queueNames wrr ! (nat (lastSelectedIndex wrr + 1) mod length (queueNames wrr))
        in (name, map_of queues name)), ?w)"
    using Cons.prems last
    by (simp add: selector_Next_refresh refresh_keeps full_names_nil Let_def nat_mod_distrib)
  have "selector_full ?w queues" using Cons.prems(1) by (auto simp: selector_full_def)
  from Cons.IH [OF this Cons.prems(2,3)] Cons.prems(4)
  have "selections queues orders ?w =
      map (\<lambda>i. let name = queueNames wrr ! ((nat (lastSelectedIndex wrr + 1) + Suc i) mod length (queueNames wrr))
                in (name, map_of queues name)) [0..<length orders]"
    by (simp add: shift add.commute)
  then show ?case by (simp add: step Let_def upt_conv_Cons map_Suc_upt [symmetric] o_def del: upt_Suc)
qed simp

lemma selections_rotate:
  assumes "selector_full wrr queues" "distinct (map fst queues)" "length orders = length queues"
    and "\<forall>order \<in> set orders. set order = set (map fst queues)"
  shows "selections queues orders wrr =
           map (\<lambda>name. (name, map_of queues name)) (rotate (nat (lastSelectedIndex wrr + 1)) (queueNames wrr))"
proof (cases "queues = []")
  case True
  with assms show ?thesis by (simp add: full_names_nil)
next
  case False
  show ?thesis
    by (rule nth_equalityI)
      (simp_all add: selections_full [OF assms(1,2) False assms(4)] assms(3) full_length [OF assms(1,2)] nth_rotate Let_def)
qed

lemma selections_refresh:
  assumes "selector_ok wrr queues" "distinct (map fst queues)" "distinct order" "set order = set (map fst queues)"
  shows "selections queues (order # orders) wrr = selections queues (order # orders) (refresh wrr queues order)"
  by (simp add: selector_Next_refresh refresh_keeps [OF refresh_full [OF assms] assms(2,4)])

text \<open>
  C16. Round robin is fair: as many consecutive selections as there are queues return every queue
  exactly once, whatever the state of the selector and the iteration orders of the map.
\<close>

theorem round_robin_fair:
  assumes "selector_ok wrr queues" "distinct (map fst queues)" "length orders = length queues"
    and "\<forall>order \<in> set orders. distinct order \<and> set order = set (map fst queues)"
  shows "distinct (map fst (selections queues orders wrr)) \<and>
         set (selections queues orders wrr) = (\<lambda>(name, q). (name, Some q)) ` set queues"
proof (cases orders)
  case Nil
  with assms(3) show ?thesis by simp
next
  case (Cons order rest)
  let ?w = "refresh wrr queues order"
  have full: "selector_full ?w queues" using refresh_full [OF assms(1,2)] assms(4) Cons by simp
  have "selections queues orders wrr = selections queues orders ?w"
    using selections_refresh [OF assms(1,2)] assms(4) Cons by simp
  also have "\<dots> = map (\<lambda>name. (name, map_of queues name)) (rotate (nat (lastSelectedIndex ?w + 1)) (queueNames ?w))"
    using selections_rotate [OF full assms(2,3)] assms(4) by simp
  finally have sel: "selections queues orders wrr = \<dots>" .
  have names: "set (queueNames ?w) = fst ` set queues" "distinct (queueNames ?w)" using full by (auto simp: selector_full_def)
  have "set (selections queues orders wrr) = (\<lambda>name. (name, map_of queues name)) ` fst ` set queues"
    by (simp add: sel names(1))
  also have "\<dots> = (\<lambda>(name, q). (name, Some q)) ` set queues"
    unfolding image_image using assms(2) by (intro image_cong) auto
  finally show ?thesis using names(2) by (simp add: sel o_def)
qed

definition two_queues :: "(string \<times> queue) list" where
  "two_queues = [(''a'', newQueue ''a'' 0), (''b'', newQueue ''b'' 5)]"

theorem round_robin_fair_witness:
  "distinct (map fst (selections two_queues [[''b'', ''a''], [''a'', ''b'']] NewRoundRobinSelector)) \<and>
   set (selections two_queues [[''b'', ''a''], [''a'', ''b'']] NewRoundRobinSelector) =
     (\<lambda>(name, q). (name, Some q)) ` set two_queues"
  by (rule round_robin_fair) (auto simp: two_queues_def)

end
