(* ===== verification/Coord_Plugins.thy ===== *)
theory Coord_Plugins
  imports Coord_Queue
begin

text \<open>
  The plugins of the job coordinator: the statuses they answer with
  (\<open>pkg/jobcoordinator/types.go\<close>), the quota plugin with its assumed quotas
  (\<open>plugins/quota/quota.go\<close>) and the priority plugin (\<open>plugins/priority/priority.go\<close>).
  The texts of messages, which go to logs and events, are shortened.
\<close>

subsection \<open>Statuses\<close>

datatype Code = Success | Error | Unschedulable | Wait | Skip

record status_data =
  sd_code :: Code
  sd_reasons :: "string list"
  sd_err :: "go_error option"

text \<open>A nil status counts as a success.\<close>

type_synonym status = "status_data option"

definition status_Code :: "status \<Rightarrow> Code" where
  "status_Code s = (case s of None \<Rightarrow> Success | Some d \<Rightarrow> sd_code d)"

definition join_reasons :: "string list \<Rightarrow> string" where
  "join_reasons reasons = concat (case reasons of [] \<Rightarrow> [] | r # rs \<Rightarrow> r # map (\<lambda>x. '', '' @ x) rs)"

definition Message :: "status \<Rightarrow> string" where
  "Message s = (case s of None \<Rightarrow> [] | Some d \<Rightarrow> join_reasons (sd_reasons d))"

definition Reasons :: "status \<Rightarrow> go_error + string list" where
  "Reasons s = (case s of None \<Rightarrow> Inl (Panic ''nil status'') | Some d \<Rightarrow> Inr (sd_reasons d))"

definition AppendReason :: "status \<Rightarrow> string \<Rightarrow> go_error + status" where
  "AppendReason s reason =
     (case s of None \<Rightarrow> Inl (Panic ''nil status'') | Some d \<Rightarrow> Inr (Some (d\<lparr>sd_reasons := sd_reasons d @ [reason]\<rparr>)))"

definition IsSuccess :: "status \<Rightarrow> bool" where
  "IsSuccess s \<longleftrightarrow> status_Code s = Success"

definition IsUnschedulable :: "status \<Rightarrow> bool" where
  "IsUnschedulable s \<longleftrightarrow> status_Code s = Unschedulable"

definition AsError :: "status \<Rightarrow> go_error option" where
  "AsError s =
     (if IsSuccess s then None
      else (case s of
              None \<Rightarrow> None
            | Some d \<Rightarrow> (case sd_err d of Some e \<Rightarrow> Some e | None \<Rightarrow> Some (Err (Message s)))))"

definition NewStatus :: "Code \<Rightarrow> string list \<Rightarrow> status" where
  "NewStatus code reasons =
     (let s = \<lparr>sd_code = code, sd_reasons = reasons, sd_err = None\<rparr> in
      Some (if code = Error then s\<lparr>sd_err := Some (Err (Message (Some s)))\<rparr> else s))"

lemma NewStatus_code [simp]: "status_Code (NewStatus code reasons) = code"
  by (simp add: NewStatus_def status_Code_def Let_def)

lemma NewStatus_success [simp]: "IsSuccess (NewStatus code reasons) \<longleftrightarrow> code = Success"
  by (simp add: IsSuccess_def)

subsection \<open>Assumed quotas\<close>

record assumedQuota =
  aq_unit :: queue_unit
  aq_timestamp :: time

text \<open>The assumed units of a tenant, by their key.\<close>

type_synonym assumed = "string \<Rightarrow> (string \<times> assumedQuota) list"

definition assume_timeout :: time where
  "assume_timeout = 60 * 10 ^ 9"

definition assume_quota :: "outside \<Rightarrow> assumed \<Rightarrow> string \<Rightarrow> queue_unit \<Rightarrow> hist \<Rightarrow> assumed" where
  "assume_quota W aqs quotaName qu h =
     aqs(quotaName := AList.update (Key qu) \<lparr>aq_unit = qu, aq_timestamp = out_now W h\<rparr> (aqs quotaName))"

text \<open>\<open>Get\<close> of the job and the decoding of its status.\<close>

definition retrieveLatestStatus :: "outside \<Rightarrow> queue_unit \<Rightarrow> hist \<Rightarrow> JobStatus res" where
  "retrieveLatestStatus W qu h =
     (out_job_status W h (jm_Namespace (qu_Object qu)) (jm_Name (qu_Object qu)),
      emit (GetJobStatus (jm_Namespace (qu_Object qu)) (jm_Name (qu_Object qu))) h)"

definition expired :: "outside \<Rightarrow> assumedQuota \<Rightarrow> hist \<Rightarrow> bool \<times> hist" where
  "expired W aq h =
     (if out_now W h - aq_timestamp aq > assume_timeout then (True, h)
      else (case retrieveLatestStatus W (aq_unit aq) h of
              (Inl e, h1) \<Rightarrow> (IsNotFound e, h1)
            | (Inr st, h1) \<Rightarrow> (IsRunning st \<or> IsFailed st \<or> IsSucceeded st, h1)))"

fun invalidate_loop :: "outside \<Rightarrow> (string \<times> assumedQuota) list \<Rightarrow> hist \<Rightarrow> (string \<times> assumedQuota) list \<times> hist" where
  "invalidate_loop W [] h = ([], h)"
| "invalidate_loop W ((key, aq) # aqs) h =
     (let (gone, h1) = expired W aq h; (rest, h2) = invalidate_loop W aqs h1
      in (if gone then rest else (key, aq) # rest, h2))"

definition invalidateAssumedQuotas :: "outside \<Rightarrow> assumed \<Rightarrow> string \<Rightarrow> hist \<Rightarrow> assumed \<times> hist" where
  "invalidateAssumedQuotas W aqs quotaName h =
     (let (rest, h1) = invalidate_loop W (aqs quotaName) h in (aqs(quotaName := rest), h1))"

text \<open>Without assumed units the result is the nil resource list.\<close>

definition sum_assumed :: "quota_lib \<Rightarrow> (string \<times> assumedQuota) list \<Rightarrow> resource_list option" where
  "sum_assumed Q aqs =
     (if aqs = [] then None else Some (foldl (\<lambda>result (key, aq). ql_Add Q result (qu_Resources (aq_unit aq))) [] aqs))"

definition accumulateAssumedQuota :: "outside \<Rightarrow> assumed \<Rightarrow> string \<Rightarrow> hist \<Rightarrow> resource_list option \<times> assumed \<times> hist" where
  "accumulateAssumedQuota W aqs name h =
     (let (aqs1, h1) = invalidateAssumedQuotas W aqs name h in (sum_assumed (out_quota W) (aqs1 name), aqs1, h1))"

subsection \<open>The quota plugin\<close>

definition TenantName :: "queue_unit \<Rightarrow> string \<times> queue_unit" where
  "TenantName qu =
     (let qu1 = (case qu_SchedPolicy qu of
                   None \<Rightarrow> qu
                 | Some p \<Rightarrow> if sched_Queue p \<noteq> [] \<and> qu_Tenant qu = [] then qu\<lparr>qu_Tenant := sched_Queue p\<rparr> else qu)
      in (if qu_Tenant qu1 \<noteq> [] then qu_Tenant qu1 else jm_Namespace (qu_Object qu1), qu1))"

definition availableQuota :: "quota_lib \<Rightarrow> resource_quota \<Rightarrow> resource_list \<times> bool" where
  "availableQuota Q q =
     (let requested = ql_Mask Q (rq_Used q)
            (ql_Intersection Q (ql_ResourceNames Q (rq_Used q)) (ql_ResourceNames Q (rq_Hard q)))
      in (ql_Subtract Q (rq_Hard q) requested, fst (AnyLessThanOrEqual (rq_Hard q) requested)))"

fun filter_quotas :: "outside \<Rightarrow> queue_unit \<Rightarrow> resource_quota list \<Rightarrow> assumed \<Rightarrow> hist \<Rightarrow> status \<times> assumed \<times> hist" where
  "filter_quotas W qu [] aqs h = (NewStatus Success [], aqs, h)"
| "filter_quotas W qu (rq # rqs) aqs h =
     (let (available, exceed) = availableQuota (out_quota W) rq in
      if exceed then (NewStatus Wait [''queue '' @ rq_Name rq @ '' guaranteed quota has exceed''], aqs, h)
      else
        (let (assumed, aqs1, h1) = accumulateAssumedQuota W aqs (qu_Tenant qu) h;
             available1 = (case assumed of None \<Rightarrow> available | Some a \<Rightarrow> ql_SubtractNonNegative (out_quota W) available a)
         in if fst (AnyLessThanOrEqual available1 (qu_Resources qu))
            then (NewStatus Wait [''resource request exceeds available quota''], aqs1,
                  emit (Event ''Normal'' ''QuotaNotSatisfied'') h1)
            else filter_quotas W qu rqs aqs1 h1))"

definition quota_Filter :: "outside \<Rightarrow> queue_unit \<Rightarrow> assumed \<Rightarrow> hist \<Rightarrow> status \<times> assumed \<times> hist" where
  "quota_Filter W qu aqs h =
     (let h1 = emit (ListQuotas (jm_Namespace (qu_Object qu))) h in
      case out_list_quotas W h (jm_Namespace (qu_Object qu)) of
        Inl e \<Rightarrow> (NewStatus Error [''list quotas''], aqs, h1)
      | Inr rqs \<Rightarrow> filter_quotas W qu rqs aqs h1)"

definition quota_PreDequeue :: "outside \<Rightarrow> queue_unit \<Rightarrow> assumed \<Rightarrow> hist \<Rightarrow> status \<times> assumed \<times> hist" where
  "quota_PreDequeue W qu aqs h = (NewStatus Success [], assume_quota W aqs (qu_Tenant qu) qu h, h)"

subsection \<open>The priority plugin\<close>

definition PopulatePriorityValue :: "outside \<Rightarrow> queue_unit \<Rightarrow> hist \<Rightarrow> queue_unit \<times> hist" where
  "PopulatePriorityValue W qu h =
     (case (qu_Priority qu, qu_SchedPolicy qu) of
        (None, Some p) \<Rightarrow>
          (if sched_PriorityClassName p \<noteq> []
           then (case out_priority_class W h (sched_PriorityClassName p) of
                   Inl e \<Rightarrow> (qu, emit (GetPriorityClass (sched_PriorityClassName p)) h)
                 | Inr v \<Rightarrow> (qu\<lparr>qu_Priority := Some v\<rparr>, emit (GetPriorityClass (sched_PriorityClassName p)) h))
           else (qu, h))
      | _ \<Rightarrow> (qu, h))"

definition priority_Score :: "outside \<Rightarrow> queue_unit \<Rightarrow> hist \<Rightarrow> (int \<times> status) \<times> queue_unit \<times> hist" where
  "priority_Score W qu h =
     (let (qu1, h1) = (case (qu_Priority qu, qu_SchedPolicy qu) of
                         (None, Some p) \<Rightarrow>
                           (case Priority p of
                              Some v \<Rightarrow> (qu\<lparr>qu_Priority := Some v\<rparr>, h)
                            | None \<Rightarrow> PopulatePriorityValue W qu h)
                       | _ \<Rightarrow> (qu, h));
          value = (case qu_Priority qu1 of None \<Rightarrow> 0 | Some v \<Rightarrow> v)
      in ((value, NewStatus Success []), qu1, h1))"

subsection \<open>What the quota plugin guarantees\<close>

definition assumed_amount :: "(string \<times> assumedQuota) list \<Rightarrow> string \<Rightarrow> int" where
  "assumed_amount aqs k = (\<Sum>(key, aq)\<leftarrow>aqs. amount (qu_Resources (aq_unit aq)) k)"

definition nonneg_assumed :: "(string \<times> assumedQuota) list \<Rightarrow> bool" where
  "nonneg_assumed aqs \<longleftrightarrow> (\<forall>(key, aq) \<in> set aqs. \<forall>k. 0 \<le> amount (qu_Resources (aq_unit aq)) k)"

lemma AnyLess_iff:
  "fst (AnyLessThanOrEqual a b) \<longleftrightarrow> (\<exists>(k, v) \<in> set b. \<exists>x. map_of a k = Some x \<and> x < v)"
  by (auto simp: AnyLessThanOrEqual_def Let_def filter_empty_conv split: option.splits) fastforce+

lemma amount_foldl:
  "quota_laws Q \<Longrightarrow> amount (foldl (\<lambda>r (key, aq). ql_Add Q r (qu_Resources (aq_unit aq))) r0 aqs) k =
     amount r0 k + assumed_amount aqs k"
  by (induction aqs arbitrary: r0) (auto simp: assumed_amount_def amount_Add)

lemma amount_sum_assumed:
  "quota_laws Q \<Longrightarrow> sum_assumed Q aqs = Some a \<Longrightarrow> amount a k = assumed_amount aqs k"
  by (auto simp: sum_assumed_def amount_foldl split: if_splits)

lemma sum_assumed_None: "sum_assumed Q aqs = None \<Longrightarrow> aqs = []"
  by (simp add: sum_assumed_def split: if_splits)

lemma invalidate_subseq:
  "invalidate_loop W aqs h = (rest, h') \<Longrightarrow>
     set rest \<subseteq> set aqs \<and> (nonneg_assumed aqs \<longrightarrow> 0 \<le> assumed_amount rest k \<and> assumed_amount rest k \<le> assumed_amount aqs k)"
proof (induction W aqs h arbitrary: rest h' rule: invalidate_loop.induct)
  case (2 W key aq aqs h)
  obtain gone h1 where e: "expired W aq h = (gone, h1)" by fastforce
  obtain rest1 h2 where r: "invalidate_loop W aqs h1 = (rest1, h2)" by fastforce
  from 2(1) [OF e [symmetric] refl r] have IH: "set rest1 \<subseteq> set aqs"
    "nonneg_assumed aqs \<longrightarrow> 0 \<le> assumed_amount rest1 k \<and> assumed_amount rest1 k \<le> assumed_amount aqs k" by auto
  from 2(2) have "rest = (if gone then rest1 else (key, aq) # rest1)" by (simp add: e r)
  moreover have "0 \<le> amount (qu_Resources (aq_unit aq)) k" if "nonneg_assumed ((key, aq) # aqs)"
    using that by (simp add: nonneg_assumed_def)
  ultimately show ?case using IH by (cases gone) (auto simp: nonneg_assumed_def assumed_amount_def intro: add_increasing)
qed (simp add: assumed_amount_def)

lemma accumulate_effect:
  assumes "accumulateAssumedQuota W aqs name h = (a, aqs1, h1)"
  shows "a = sum_assumed (out_quota W) (aqs1 name)" "set (aqs1 name) \<subseteq> set (aqs name)"
    "nonneg_assumed (aqs name) \<Longrightarrow> 0 \<le> assumed_amount (aqs1 name) k \<and> assumed_amount (aqs1 name) k \<le> assumed_amount (aqs name) k"
    "name' \<noteq> name \<Longrightarrow> aqs1 name' = aqs name'"
proof -
  obtain rest h2 where r: "invalidate_loop W (aqs name) h = (rest, h2)" by fastforce
  with assms have "a = sum_assumed (out_quota W) rest" "aqs1 = aqs(name := rest)"
    by (auto simp: accumulateAssumedQuota_def invalidateAssumedQuotas_def Let_def)
  with invalidate_subseq [OF r, of k] show "a = sum_assumed (out_quota W) (aqs1 name)" "set (aqs1 name) \<subseteq> set (aqs name)"
    "nonneg_assumed (aqs name) \<Longrightarrow> 0 \<le> assumed_amount (aqs1 name) k \<and> assumed_amount (aqs1 name) k \<le> assumed_amount (aqs name) k"
    "name' \<noteq> name \<Longrightarrow> aqs1 name' = aqs name'" by auto
qed

lemma nonneg_subset: "nonneg_assumed aqs \<Longrightarrow> set aqs' \<subseteq> set aqs \<Longrightarrow> nonneg_assumed aqs'"
  by (auto simp: nonneg_assumed_def)

lemma available_amount:
  assumes "quota_laws Q" "availableQuota Q rq = (available, exceed)" "map_of (rq_Hard rq) k = Some hard"
  shows "map_of available k = Some (hard - amount (rq_Used rq) k)"
proof -
  have "k \<in> set (keys (rq_Hard rq))" using assms(3) by (metis domI dom_map_of_conv_image_fst set_map)
  moreover have "map_of (rq_Used rq) k = None" if "k \<notin> set (keys (rq_Used rq))"
    using that by (simp add: map_of_eq_None_iff)
  ultimately show ?thesis
    using assms by (auto simp: availableQuota_def Let_def quota_lawsD combined_def amount_def simp del: set_map split: option.splits)
qed

lemma filter_quotas_shrinks:
  "filter_quotas W qu rqs aqs h = (st, aqs', h') \<Longrightarrow> nonneg_assumed (aqs (qu_Tenant qu)) \<Longrightarrow>
     assumed_amount (aqs' (qu_Tenant qu)) k \<le> assumed_amount (aqs (qu_Tenant qu)) k"
proof (induction W qu rqs aqs h arbitrary: st aqs' h' rule: filter_quotas.induct)
  case (2 W qu rq rqs aqs h)
  obtain available exceed where av: "availableQuota (out_quota W) rq = (available, exceed)" by fastforce
  obtain a aqs1 h1 where acc: "accumulateAssumedQuota W aqs (qu_Tenant qu) h = (a, aqs1, h1)" by (metis surj_pair)
  note eff = accumulate_effect [OF acc]
  let ?av = "case a of None \<Rightarrow> available | Some a \<Rightarrow> ql_SubtractNonNegative (out_quota W) available a"
  show ?case
  proof (cases "exceed \<or> fst (AnyLessThanOrEqual ?av (qu_Resources qu))")
    case True
    with 2(2,3) eff(3) [of k] show ?thesis by (auto simp: av acc Let_def split: if_splits)
  next
    case False
    then have "filter_quotas W qu rqs aqs1 h1 = (st, aqs', h')" using 2(2) by (simp add: av acc Let_def)
    with False have "assumed_amount (aqs' (qu_Tenant qu)) k \<le> assumed_amount (aqs1 (qu_Tenant qu)) k"
      using 2(1) [OF av [symmetric] refl _ acc [symmetric] refl refl refl _ _ nonneg_subset [OF 2(3) eff(2)]] by blast
    with eff(3) [OF 2(3), of k] show ?thesis by linarith
  qed
qed simp

text \<open>
  One round of the loop leaves room for the request, on top of what is in use and what is
  assumed at that moment.
\<close>

lemma quota_room:
  assumes "quota_laws Q" "availableQuota Q rq = (available, exceed)" "map_of (rq_Hard rq) k = Some hard"
    and "\<not> fst (AnyLessThanOrEqual
           (case sum_assumed Q aqs of None \<Rightarrow> available | Some a \<Rightarrow> ql_SubtractNonNegative Q available a) requests)"
    and "(k, request) \<in> set requests" "0 < request"
  shows "amount (rq_Used rq) k + assumed_amount aqs k + request \<le> hard"
proof -
  have av: "map_of available k = Some (hard - amount (rq_Used rq) k)" using available_amount [OF assms(1-3)] .
  show ?thesis
  proof (cases "sum_assumed Q aqs")
    case None
    with assms(4,5) av have "request \<le> hard - amount (rq_Used rq) k" by (fastforce simp: AnyLess_iff)
    with sum_assumed_None [OF None] show ?thesis by (simp add: assumed_amount_def)
  next
    case (Some a)
    have "map_of (ql_SubtractNonNegative Q available a) k = Some (max 0 (amount available k - amount a k))"
      using av by (simp add: quota_lawsD [OF assms(1)])
    with assms(4,5) Some have "request \<le> max 0 (amount available k - amount a k)" by (fastforce simp: AnyLess_iff)
    with assms(6) av amount_sum_assumed [OF assms(1) Some, of k] show ?thesis by (simp add: amount_def)
  qed
qed

lemma filter_quotas_sound:
  assumes "quota_laws (out_quota W)"
  shows "filter_quotas W qu rqs aqs h = (st, aqs', h') \<Longrightarrow> nonneg_assumed (aqs (qu_Tenant qu)) \<Longrightarrow> IsSuccess st \<Longrightarrow>
     rq \<in> set rqs \<Longrightarrow> (k, request) \<in> set (qu_Resources qu) \<Longrightarrow> 0 < request \<Longrightarrow> map_of (rq_Hard rq) k = Some hard \<Longrightarrow>
     amount (rq_Used rq) k + assumed_amount (aqs' (qu_Tenant qu)) k + request \<le> hard"
proof (induction rqs arbitrary: aqs h)
  case (Cons r rqs)
  obtain available exceed where av: "availableQuota (out_quota W) r = (available, exceed)" by fastforce
  obtain a aqs1 h1 where acc: "accumulateAssumedQuota W aqs (qu_Tenant qu) h = (a, aqs1, h1)" by (metis surj_pair)
  note eff = accumulate_effect [OF acc]
  let ?av = "case a of None \<Rightarrow> available | Some a \<Rightarrow> ql_SubtractNonNegative (out_quota W) available a"
  have ok: "\<not> exceed" "\<not> fst (AnyLessThanOrEqual ?av (qu_Resources qu))"
    "filter_quotas W qu rqs aqs1 h1 = (st, aqs', h')"
    using Cons.prems(1,3) by (auto simp: av acc Let_def split: if_splits)
  have nonneg: "nonneg_assumed (aqs1 (qu_Tenant qu))" using nonneg_subset [OF Cons.prems(2) eff(2)] .
  show ?case
  proof (cases "rq = r")
    case True
    have "amount (rq_Used r) k + assumed_amount (aqs1 (qu_Tenant qu)) k + request \<le> hard"
      using quota_room [OF assms av _ _ Cons.prems(5,6)] ok(2) Cons.prems(7) True eff(1) by blast
    with filter_quotas_shrinks [OF ok(3) nonneg, of k] True show ?thesis by simp
  next
    case False
    with Cons.IH [OF ok(3) nonneg Cons.prems(3)] Cons.prems(4-7) show ?thesis by simp
  qed
qed simp

lemma filter_success:
  assumes "quota_Filter W qu aqs h = (st, aqs', h')" "IsSuccess st"
  obtains rqs where "out_list_quotas W h (jm_Namespace (qu_Object qu)) = Inr rqs"
    "filter_quotas W qu rqs aqs (emit (ListQuotas (jm_Namespace (qu_Object qu))) h) = (st, aqs', h')"
  using assms by (auto simp: quota_Filter_def Let_def split: sum.splits)

text \<open>
  The quota filter never overcommits a quota: when it lets a unit pass, every quota of the
  namespace that limits a requested resource has room for the request on top of what is in use
  and of everything that is assumed for the tenant.
\<close>

theorem quota_filter_sound:
  assumes "quota_laws (out_quota W)" "nonneg_assumed (aqs (qu_Tenant qu))"
    and "quota_Filter W qu aqs h = (st, aqs', h')" "IsSuccess st"
    and "out_list_quotas W h (jm_Namespace (qu_Object qu)) = Inr rqs" "rq \<in> set rqs"
    and "(k, request) \<in> set (qu_Resources qu)" "0 < request" "map_of (rq_Hard rq) k = Some hard"
  shows "amount (rq_Used rq) k + assumed_amount (aqs' (qu_Tenant qu)) k + request \<le> hard"
proof -
  obtain rqs' where "out_list_quotas W h (jm_Namespace (qu_Object qu)) = Inr rqs'"
    and f: "filter_quotas W qu rqs' aqs (emit (ListQuotas (jm_Namespace (qu_Object qu))) h) = (st, aqs', h')"
    using filter_success [OF assms(3,4)] by blast
  with assms(5) have "rqs' = rqs" by simp
  with filter_quotas_sound [OF assms(1) f assms(2,4) _ assms(7-9)] assms(6) show ?thesis by simp
qed

subsection \<open>Reservations\<close>

text \<open>An entry that is not expired, whenever it is looked at.\<close>

definition pending :: "outside \<Rightarrow> assumedQuota \<Rightarrow> bool" where
  "pending W aq \<longleftrightarrow> (\<forall>h. \<not> fst (expired W aq h))"

lemma invalidate_keeps:
  "(key, aq) \<in> set aqs \<Longrightarrow> pending W aq \<Longrightarrow> (key, aq) \<in> set (fst (invalidate_loop W aqs h))"
proof (induction aqs arbitrary: h)
  case (Cons x aqs)
  obtain key' aq' where x: "x = (key', aq')" by (cases x)
  obtain gone h1 where e: "expired W aq' h = (gone, h1)" by fastforce
  with Cons.prems(2) have "aq' = aq \<Longrightarrow> \<not> gone" by (metis fst_conv pending_def)
  moreover have "(key, aq) \<in> set aqs \<Longrightarrow> (key, aq) \<in> set (fst (invalidate_loop W aqs h1))"
    using Cons.IH Cons.prems(2) by blast
  ultimately show ?case using Cons.prems(1) x e by (cases "invalidate_loop W aqs h1") auto
qed simp

lemma accumulate_keeps:
  assumes "accumulateAssumedQuota W aqs name h = (a, aqs1, h1)" "(key, aq) \<in> set (aqs name)" "pending W aq"
  shows "(key, aq) \<in> set (aqs1 name)"
  using assms(1) invalidate_keeps [OF assms(2,3), of h]
  by (auto simp: accumulateAssumedQuota_def invalidateAssumedQuotas_def Let_def split: prod.splits)

lemma filter_quotas_keeps:
  "filter_quotas W qu rqs aqs h = (st, aqs', h') \<Longrightarrow> (key, aq) \<in> set (aqs (qu_Tenant qu)) \<Longrightarrow> pending W aq \<Longrightarrow>
     (key, aq) \<in> set (aqs' (qu_Tenant qu)) \<and> (nonneg_assumed (aqs (qu_Tenant qu)) \<longrightarrow> nonneg_assumed (aqs' (qu_Tenant qu)))"
proof (induction rqs arbitrary: aqs h)
  case (Cons r rqs)
  obtain available exceed where av: "availableQuota (out_quota W) r = (available, exceed)" by fastforce
  obtain a aqs1 h1 where acc: "accumulateAssumedQuota W aqs (qu_Tenant qu) h = (a, aqs1, h1)" by (metis surj_pair)
  have keep: "(key, aq) \<in> set (aqs1 (qu_Tenant qu))" using accumulate_keeps [OF acc Cons.prems(2,3)] .
  have nonneg: "nonneg_assumed (aqs (qu_Tenant qu)) \<Longrightarrow> nonneg_assumed (aqs1 (qu_Tenant qu))"
    using nonneg_subset accumulate_effect(2) [OF acc] by blast
  from Cons.prems(1) consider "aqs' = aqs" | "aqs' = aqs1" | "filter_quotas W qu rqs aqs1 h1 = (st, aqs', h')"
    by (auto simp: av acc Let_def split: if_splits)
  then show ?case
  proof cases
    case 3
    from Cons.IH [OF this keep Cons.prems(3)] nonneg show ?thesis by blast
  qed (use Cons.prems keep nonneg in simp_all)
qed simp

lemma member_assumed:
  assumes "(key, aq) \<in> set aqs" "nonneg_assumed aqs"
  shows "amount (qu_Resources (aq_unit aq)) k \<le> assumed_amount aqs k"
proof -
  let ?f = "\<lambda>(key, aq). amount (qu_Resources (aq_unit aq)) k"
  have "?f (key, aq) \<le> (\<Sum>x\<leftarrow>aqs. ?f x)"
    using assms by (intro member_le_sum_list) (auto simp: nonneg_assumed_def)
  then show ?thesis by (simp add: assumed_amount_def)
qed

lemma update_member: "(k, v) \<in> set (AList.update k v xs)"
  by (induction xs) auto

text \<open>
  A reservation is honoured: after \<open>PreDequeue\<close> of one unit, another unit of the same
  tenant passes the filter only if the quota has room for both, as long as the first one has
  neither started nor timed out.
\<close>

theorem quota_no_double_spend:
  assumes "quota_laws (out_quota W)" "nonneg_assumed (aqs (qu_Tenant first))" "\<forall>k. 0 \<le> amount (qu_Resources first) k"
    and "quota_PreDequeue W first aqs h = (st1, aqs1, h1)" "pending W \<lparr>aq_unit = first, aq_timestamp = out_now W h\<rparr>"
    and "qu_Tenant second = qu_Tenant first"
    and "quota_Filter W second aqs1 h2 = (st2, aqs2, h3)" "IsSuccess st2"
    and "out_list_quotas W h2 (jm_Namespace (qu_Object second)) = Inr rqs" "rq \<in> set rqs"
    and "(k, request) \<in> set (qu_Resources second)" "0 < request" "map_of (rq_Hard rq) k = Some hard"
  shows "amount (rq_Used rq) k + amount (qu_Resources first) k + request \<le> hard"
proof -
  let ?aq = "\<lparr>aq_unit = first, aq_timestamp = out_now W h\<rparr>" and ?t = "qu_Tenant second"
  have aqs1: "aqs1 ?t = AList.update (Key first) ?aq (aqs ?t)"
    using assms(4,6) by (auto simp: quota_PreDequeue_def assume_quota_def)
  then have mem: "(Key first, ?aq) \<in> set (aqs1 ?t)" by (simp add: update_member)
  have nonneg: "nonneg_assumed (aqs1 ?t)"
    using update_entries [of "Key first" ?aq "aqs ?t"] assms(2,3,6) unfolding aqs1 nonneg_assumed_def by fastforce
  obtain rqs' where r: "out_list_quotas W h2 (jm_Namespace (qu_Object second)) = Inr rqs'"
    and f: "filter_quotas W second rqs' aqs1 (emit (ListQuotas (jm_Namespace (qu_Object second))) h2) = (st2, aqs2, h3)"
    using filter_success [OF assms(7,8)] by blast
  from filter_quotas_keeps [OF f mem assms(5)] nonneg have "amount (qu_Resources first) k \<le> assumed_amount (aqs2 ?t) k"
    using member_assumed [of "Key first" ?aq "aqs2 ?t" k] by auto
  moreover have "amount (rq_Used rq) k + assumed_amount (aqs2 ?t) k + request \<le> hard"
    using filter_quotas_sound [OF assms(1) f nonneg assms(8) _ assms(11-13)] r assms(9,10) by simp
  ultimately show ?thesis by linarith
qed

lemma combined_None [simp]: "combined f g x y = None \<longleftrightarrow> x = None \<and> y = None"
  by (cases x; cases y) (simp_all add: combined_def)

lemma foldl_Add_None:
  assumes "quota_laws Q"
  shows "map_of (foldl (\<lambda>r (key, aq). ql_Add Q r (qu_Resources (aq_unit aq))) r0 aqs) k = None \<longleftrightarrow>
     map_of r0 k = None \<and> (\<forall>(key, aq) \<in> set aqs. map_of (qu_Resources (aq_unit aq)) k = None)"
proof (induction aqs arbitrary: r0)
  case (Cons x aqs)
  show ?case by (cases x) (simp add: Cons.IH quota_lawsD(1) [OF assms] conj_assoc)
qed simp

lemma unlimited_available:
  assumes "quota_laws Q" "availableQuota Q rq = (available, exceed)" "map_of (rq_Hard rq) k = None"
  shows "map_of available k = None"
proof -
  have "k \<notin> set (keys (rq_Hard rq))" using assms(3) by (simp add: map_of_eq_None_iff)
  then show ?thesis
    using assms by (auto simp: availableQuota_def Let_def quota_lawsD combined_def simp del: set_map)
qed

text \<open>
  A resource without limit becomes unavailable once it is assumed: if a reserved unit of the
  tenant requests a resource that the first quota of the namespace does not limit, every further
  unit that requests this resource has to wait.
\<close>

theorem assumed_resource_blocks:
  assumes "quota_laws (out_quota W)" "nonneg_assumed (aqs (qu_Tenant qu))"
    and "out_list_quotas W h (jm_Namespace (qu_Object qu)) = Inr (rq # rqs)" "map_of (rq_Hard rq) k = None"
    and "(key, aq) \<in> set (aqs (qu_Tenant qu))" "pending W aq" "map_of (qu_Resources (aq_unit aq)) k \<noteq> None"
    and "(k, request) \<in> set (qu_Resources qu)" "0 < request"
    and "quota_Filter W qu aqs h = (st, aqs', h')"
  shows "status_Code st = Wait"
proof -
  let ?Q = "out_quota W" and ?h = "emit (ListQuotas (jm_Namespace (qu_Object qu))) h"
  obtain available exceed where av: "availableQuota ?Q rq = (available, exceed)" by fastforce
  obtain a aqs1 h1 where acc: "accumulateAssumedQuota W aqs (qu_Tenant qu) ?h = (a, aqs1, h1)" by (metis surj_pair)
  note eff = accumulate_effect [OF acc]
  have mem: "(key, aq) \<in> set (aqs1 (qu_Tenant qu))" using accumulate_keeps [OF acc assms(5,6)] .
  then have "a \<noteq> None" using eff(1) sum_assumed_None by fastforce
  then obtain a' where a': "a = Some a'" by blast
  have "amount a' k = assumed_amount (aqs1 (qu_Tenant qu)) k"
    using amount_sum_assumed [OF assms(1)] eff(1) a' by simp
  then have "0 \<le> amount a' k" using eff(3) [OF assms(2), of k] by simp
  moreover have "map_of a' k \<noteq> None"
    using eff(1) a' mem assms(7) foldl_Add_None [OF assms(1), of "[]" "aqs1 (qu_Tenant qu)" k]
    by (auto simp: sum_assumed_def split: if_splits)
  ultimately have "map_of (ql_SubtractNonNegative ?Q available a') k = Some 0"
    using unlimited_available [OF assms(1) av assms(4)] by (simp add: quota_lawsD [OF assms(1)] amount_def)
  with assms(8,9) have "fst (AnyLessThanOrEqual (ql_SubtractNonNegative ?Q available a') (qu_Resources qu))"
    by (fastforce simp: AnyLess_iff)
  with assms(3,10) show ?thesis by (auto simp: quota_Filter_def Let_def av acc a' split: if_splits)
qed

subsection \<open>Concrete quotas\<close>

definition unit_of :: "string \<Rightarrow> resource_list \<Rightarrow> queue_unit" where
  "unit_of name rs =
     \<lparr>qu_Tenant = ''team'', qu_Priority = None, qu_Object = job0\<lparr>jm_Name := name, jm_UID := name\<rparr>, qu_SchedPolicy = None,
      qu_Specs = [], qu_Status = status0, qu_Resources = rs, qu_SpotResources = [], qu_Owner = Some ''tf''\<rparr>"

definition cpu_quota :: resource_quota where
  "cpu_quota = \<lparr>rq_Name = ''compute'', rq_Hard = [(''cpu'', 10000)], rq_Used = [(''cpu'', 4000)]\<rparr>"

text \<open>A server with this quota, on which the assumed jobs have not started yet.\<close>

definition quota_world :: outside where
  "quota_world = quiet_world\<lparr>out_list_quotas := \<lambda>h ns. Inr [cpu_quota], out_job_status := \<lambda>h ns n. Inr status0,
     out_now := \<lambda>h. 0\<rparr>"

lemma quota_world_simps [simp]:
  "out_quota quota_world = quota0" "out_list_quotas quota_world h ns = Inr [cpu_quota]"
  "out_job_status quota_world h ns n = Inr status0" "out_now quota_world h = 0"
  by (simp_all add: quota_world_def quiet_world_def)

lemma status0_not_started: "\<not> IsRunning status0" "\<not> IsFailed status0" "\<not> IsSucceeded status0"
  by (simp_all add: cond_eval)

lemma quota_world_pending: "pending quota_world \<lparr>aq_unit = qu, aq_timestamp = 0\<rparr>"
  by (simp add: pending_def expired_def retrieveLatestStatus_def assume_timeout_def status0_not_started)

lemma invalidate_pending:
  assumes "\<forall>(key, aq) \<in> set aqs. pending W aq"
  shows "fst (invalidate_loop W aqs h) = aqs"
  using assms
proof (induction aqs arbitrary: h)
  case (Cons x aqs)
  obtain key aq where x: "x = (key, aq)" by (cases x)
  obtain gone h1 where e: "expired W aq h = (gone, h1)" by fastforce
  with Cons.prems x have "\<not> gone" by (auto simp: pending_def dest: spec [of _ h])
  with Cons.IH [of h1] Cons.prems x e show ?case by (cases "invalidate_loop W aqs h1") auto
qed simp

lemma cpu_quota_available: "availableQuota quota0 cpu_quota = ([(''cpu'', 6000)], False)"
  by code_simp

lemma quota_world_Filter:
  assumes "\<forall>(key, aq) \<in> set (aqs (qu_Tenant qu)). \<exists>unit. aq = \<lparr>aq_unit = unit, aq_timestamp = 0\<rparr>"
  shows "fst (quota_Filter quota_world qu aqs h) =
    (if fst (AnyLessThanOrEqual
          (case sum_assumed quota0 (aqs (qu_Tenant qu)) of
             None \<Rightarrow> [(''cpu'', 6000)] | Some a \<Rightarrow> ql_SubtractNonNegative quota0 [(''cpu'', 6000)] a) (qu_Resources qu))
     then NewStatus Wait [''resource request exceeds available quota''] else NewStatus Success [])"
proof -
  let ?h = "emit (ListQuotas (jm_Namespace (qu_Object qu))) h"
  have "\<forall>(key, aq) \<in> set (aqs (qu_Tenant qu)). pending quota_world aq"
    using assms quota_world_pending by fastforce
  from invalidate_pending [OF this, of ?h]
  obtain h1 where "invalidate_loop quota_world (aqs (qu_Tenant qu)) ?h = (aqs (qu_Tenant qu), h1)"
    by (metis prod.collapse)
  then have "accumulateAssumedQuota quota_world aqs (qu_Tenant qu) ?h = (sum_assumed quota0 (aqs (qu_Tenant qu)), aqs, h1)"
    by (simp add: accumulateAssumedQuota_def invalidateAssumedQuotas_def)
  then show ?thesis
    by (cases "sum_assumed quota0 (aqs (qu_Tenant qu))") (simp_all add: quota_Filter_def cpu_quota_available)
qed

definition assumed0 :: "queue_unit \<Rightarrow> assumed" where
  "assumed0 qu = (\<lambda>t. if t = ''team'' then [(Key qu, \<lparr>aq_unit = qu, aq_timestamp = 0\<rparr>)] else [])"

lemma assumed0_simps [simp]: "assumed0 qu ''team'' = [(Key qu, \<lparr>aq_unit = qu, aq_timestamp = 0\<rparr>)]"
  by (simp add: assumed0_def)

lemma unit_of_simps [simp]:
  "qu_Tenant (unit_of name rs) = ''team''" "qu_Resources (unit_of name rs) = rs"
  "jm_Namespace (qu_Object (unit_of name rs)) = ''default''"
  by (simp_all add: unit_of_def job0_def)

lemma assumed0_nonneg: "(\<And>k. 0 \<le> amount (qu_Resources qu) k) \<Longrightarrow> nonneg_assumed (assumed0 qu ''team'')"
  by (simp add: nonneg_assumed_def)

lemma amount_single: "amount [(k, v)] k' = (if k' = k then v else 0)"
  by (simp add: amount_def)

abbreviation unit_a :: queue_unit where "unit_a \<equiv> unit_of ''a'' [(''cpu'', 2000)]"
abbreviation unit_b :: queue_unit where "unit_b \<equiv> unit_of ''b'' [(''cpu'', 3000)]"

lemma unit_b_passes: "IsSuccess (fst (quota_Filter quota_world unit_b (assumed0 unit_a) h))"
proof -
  have "\<not> fst (AnyLessThanOrEqual (ql_SubtractNonNegative quota0 [(''cpu'', 6000)] (ql_Add quota0 [] [(''cpu'', 2000)]))
      [(''cpu'', 3000)])" by code_simp
  then show ?thesis by (simp add: quota_world_Filter sum_assumed_def)
qed

lemma unit_a_nonneg: "nonneg_assumed (assumed0 unit_a ''team'')"
  by (rule assumed0_nonneg) (simp add: amount_single)

lemma cpu_quota_simps [simp]: "rq_Hard cpu_quota = [(''cpu'', 10000)]" "rq_Used cpu_quota = [(''cpu'', 4000)]"
  by (simp_all add: cpu_quota_def)

theorem quota_filter_sound_witness:
  "IsSuccess (fst (quota_Filter quota_world unit_b (assumed0 unit_a) [])) \<and>
   4000 + assumed_amount (fst (snd (quota_Filter quota_world unit_b (assumed0 unit_a) [])) ''team'') ''cpu'' + 3000 \<le> 10000"
proof -
  obtain st aqs' h' where f: "quota_Filter quota_world unit_b (assumed0 unit_a) [] = (st, aqs', h')" by (metis surj_pair)
  with unit_b_passes [of "[]"] have "IsSuccess st" by simp
  from quota_filter_sound [OF _ _ f this, of "[cpu_quota]" cpu_quota "''cpu''" 3000 10000]
  have "4000 + assumed_amount (aqs' ''team'') ''cpu'' + 3000 \<le> 10000"
    using quota0_laws unit_a_nonneg by (simp add: amount_single)
  with f \<open>IsSuccess st\<close> show ?thesis by simp
qed

theorem quota_no_double_spend_witness:
  "IsSuccess (fst (quota_Filter quota_world unit_b (fst (snd (quota_PreDequeue quota_world unit_a (\<lambda>t. []) []))) [])) \<and>
   4000 + 2000 + 3000 \<le> (10000 :: int)"
proof -
  have pre: "quota_PreDequeue quota_world unit_a (\<lambda>t. []) [] = (NewStatus Success [], assumed0 unit_a, [])"
    by (auto simp: quota_PreDequeue_def assume_quota_def assumed0_def)
  obtain st aqs' h' where f: "quota_Filter quota_world unit_b (assumed0 unit_a) [] = (st, aqs', h')" by (metis surj_pair)
  with unit_b_passes [of "[]"] have "IsSuccess st" by simp
  from quota_no_double_spend [OF _ _ _ pre _ _ f this, of "[cpu_quota]" cpu_quota "''cpu''" 3000 10000]
  have "4000 + 2000 + 3000 \<le> (10000 :: int)"
    using quota0_laws quota_world_pending by (simp add: amount_single nonneg_assumed_def)
  with f pre \<open>IsSuccess st\<close> show ?thesis by simp
qed

theorem assumed_resource_blocks_witness:
  "status_Code (fst (quota_Filter quota_world (unit_of ''c'' [(''memory'', 1000)])
     (assumed0 (unit_of ''d'' [(''memory'', 1000)])) [])) = Wait"
proof -
  let ?c = "unit_of ''c'' [(''memory'', 1000)]" and ?d = "unit_of ''d'' [(''memory'', 1000)]"
  obtain st aqs' h' where f: "quota_Filter quota_world ?c (assumed0 ?d) [] = (st, aqs', h')" by (metis surj_pair)
  have "nonneg_assumed (assumed0 ?d ''team'')" by (rule assumed0_nonneg) (simp add: amount_single)
  with assumed_resource_blocks [OF _ _ _ _ _ _ _ _ _ f, of cpu_quota "[]" "''memory''" "Key ?d"
      "\<lparr>aq_unit = ?d, aq_timestamp = 0\<rparr>" 1000] quota0_laws quota_world_pending
  have "status_Code st = Wait" by simp
  with f show ?thesis by simp
qed

end
