(* ===== verification/Coordinator.thy ===== *)
theory Coordinator
  imports Coord_Plugins
begin

text \<open>
  The job coordinator (\<open>pkg/jobcoordinator/core/coordinator.go\<close>): its state, the operations on
  waiting jobs and one scheduling cycle. Every operation is one step of the model; the critical
  sections of \<open>EnqueueOrUpdate\<close> are its helpers. The order in which a loop meets the queues
  and the units of a queue is an argument.
\<close>

subsection \<open>Plugins\<close>

type_synonym unit_check = "queue_unit \<Rightarrow> assumed \<Rightarrow> hist \<Rightarrow> status \<times> assumed \<times> hist"

record plugins =
  pl_Tenant :: "queue_unit \<Rightarrow> string \<times> queue_unit"
  pl_PreFilter :: "unit_check list"
  pl_Filter :: "unit_check list"
  pl_Score :: "(queue_unit \<Rightarrow> hist \<Rightarrow> (int \<times> status) \<times> queue_unit \<times> hist) list"
  pl_PreDequeue :: "unit_check list"

text \<open>
  The configuration names the plugins of each extension point; the registry knows the two plugins
  of the repository and which interfaces they have.
\<close>

datatype plugin = QuotaPlugin | PriorityPlugin

datatype extension_point = TenantPoint | PreFilterPoint | FilterPoint | ScorePoint | PreDequeuePoint

definition implements :: "plugin \<Rightarrow> extension_point \<Rightarrow> bool" where
  "implements pg point \<longleftrightarrow>
     (case pg of QuotaPlugin \<Rightarrow> point \<in> {TenantPoint, FilterPoint, PreDequeuePoint} | PriorityPlugin \<Rightarrow> point = ScorePoint)"

record CoordinatorConfiguration =
  TenantPlugin :: string
  PreFilterPlugins :: "string list"
  FilterPlugins :: "string list"
  ScorePlugins :: "string list"
  PreDequeuePlugins :: "string list"

definition NewCoordinatorConfiguration :: CoordinatorConfiguration where
  "NewCoordinatorConfiguration =
     \<lparr>TenantPlugin = ''Quota'', PreFilterPlugins = [], FilterPlugins = [''Quota''], ScorePlugins = [''Priority''],
      PreDequeuePlugins = [''Quota'']\<rparr>"

type_synonym plugin_registry = "(string \<times> plugin) list"

definition NewPluginsRegistry :: plugin_registry where
  "NewPluginsRegistry = [(''Priority'', PriorityPlugin), (''Quota'', QuotaPlugin)]"

text \<open>An error ends the loop; the plugins appended before it stay in the list.\<close>

fun updatePluginList ::
    "plugin_registry \<Rightarrow> extension_point \<Rightarrow> string list \<Rightarrow> string list \<Rightarrow> plugin list \<Rightarrow> go_error option \<times> plugin list" where
  "updatePluginList registry point [] seen plugins = (None, plugins)"
| "updatePluginList registry point (ep # eps) seen plugins =
     (case map_of registry ep of
        None \<Rightarrow> (Some (Err (ep @ '' does not exist'')), plugins)
      | Some pg \<Rightarrow>
          (if \<not> implements pg point then (Some (Err (''plugin '' @ ep @ '' does not extend the plugin interface'')), plugins)
           else if ep \<in> set seen then (Some (Err (''plugin '' @ ep @ '' already registered'')), plugins)
           else updatePluginList registry point eps (ep # seen) (plugins @ [pg])))"

definition newTenantPlugin :: "plugin_registry \<Rightarrow> string \<Rightarrow> go_error + plugin" where
  "newTenantPlugin registry enablePlugin =
     (case map_of registry enablePlugin of
        None \<Rightarrow> Inl (Err (enablePlugin @ '' does not exist''))
      | Some pg \<Rightarrow>
          if implements pg TenantPoint then Inr pg
          else Inl (Err (''plugin '' @ enablePlugin @ '' does not extend TenantPlugin plugin'')))"

text \<open>What the two plugins do at an extension point.\<close>

definition check_of :: "outside \<Rightarrow> extension_point \<Rightarrow> plugin \<Rightarrow> unit_check list" where
  "check_of W point pg =
     (case (pg, point) of
        (QuotaPlugin, FilterPoint) \<Rightarrow> [quota_Filter W]
      | (QuotaPlugin, PreDequeuePoint) \<Rightarrow> [quota_PreDequeue W]
      | _ \<Rightarrow> [])"

definition score_of :: "outside \<Rightarrow> plugin \<Rightarrow> (queue_unit \<Rightarrow> hist \<Rightarrow> (int \<times> status) \<times> queue_unit \<times> hist) list" where
  "score_of W pg = (case pg of PriorityPlugin \<Rightarrow> [priority_Score W] | QuotaPlugin \<Rightarrow> [])"

text \<open>
  The tenant plugin is the quota plugin, also when the configured one cannot be created
  (\<open>setDefaultCoordinatorPlugins\<close>); it is the only one with this interface.
\<close>

definition configure :: "outside \<Rightarrow> plugin_registry \<Rightarrow> CoordinatorConfiguration \<Rightarrow> plugins" where
  "configure W registry cfg =
     \<lparr>pl_Tenant = TenantName,
      pl_PreFilter = concat (map (check_of W PreFilterPoint) (snd (updatePluginList registry PreFilterPoint (PreFilterPlugins cfg) [] []))),
      pl_Filter = concat (map (check_of W FilterPoint) (snd (updatePluginList registry FilterPoint (FilterPlugins cfg) [] []))),
      pl_Score = concat (map (score_of W) (snd (updatePluginList registry ScorePoint (ScorePlugins cfg) [] []))),
      pl_PreDequeue = concat (map (check_of W PreDequeuePoint) (snd (updatePluginList registry PreDequeuePoint (PreDequeuePlugins cfg) [] [])))\<rparr>"

subsection \<open>State\<close>

record coordinator =
  co_queues :: "(string \<times> queue) list"
  co_index :: "string \<Rightarrow> string option"
  co_selector :: roundRobinSelector
  co_assumed :: assumed

definition NewCoordinator :: coordinator where
  "NewCoordinator = \<lparr>co_queues = [], co_index = Map.empty, co_selector = NewRoundRobinSelector, co_assumed = (\<lambda>t. [])\<rparr>"

definition index_lookup :: "(string \<Rightarrow> string option) \<Rightarrow> string \<Rightarrow> string option" where
  "index_lookup qi uid = qi uid"

definition index_insert :: "(string \<Rightarrow> string option) \<Rightarrow> string \<Rightarrow> string \<Rightarrow> (string \<Rightarrow> string option)" where
  "index_insert qi uid tenant = qi(uid \<mapsto> tenant)"

definition index_remove :: "(string \<Rightarrow> string option) \<Rightarrow> string \<Rightarrow> (string \<Rightarrow> string option)" where
  "index_remove qi uid = qi(uid := None)"

lemmas index_defs = index_lookup_def index_insert_def index_remove_def

definition set_queue_of :: "string \<Rightarrow> queue \<Rightarrow> coordinator \<Rightarrow> coordinator" where
  "set_queue_of tenant q co = co\<lparr>co_queues := AList.update tenant q (co_queues co)\<rparr>"

subsection \<open>Waiting jobs\<close>

definition queue_msg :: "queue_unit \<Rightarrow> string \<Rightarrow> string" where
  "queue_msg qu reason =
     (if reason = JobDequeuedReason then ''Job '' @ Key qu @ '' is being dequeued and waiting for reconciling.''
      else ''Job '' @ Key qu @ '' is queuing and waiting for being scheduled.'')"

definition QueueStateMarker :: "outside \<Rightarrow> queue_unit \<Rightarrow> string \<Rightarrow> hist \<Rightarrow> go_error option \<times> queue_unit \<times> hist" where
  "QueueStateMarker W qu reason h =
     (let qu1 = qu\<lparr>qu_Status := UpdateJobConditions (out_now W h) (qu_Status qu) JobQueuing reason (queue_msg qu reason)\<rparr>;
          h1 = emit (Event ''Normal'' reason) h;
          (err, h2) = api_write W (PatchStatusCall (qu_Object qu1) (qu_Status qu1)) h1
      in (err, qu1, h2))"

definition initializeNewQueue :: "outside \<Rightarrow> queue_unit \<Rightarrow> coordinator \<Rightarrow> hist \<Rightarrow> coordinator" where
  "initializeNewQueue W qu co h =
     (let co1 = (case map_of (co_queues co) (qu_Tenant qu) of
                   None \<Rightarrow> set_queue_of (qu_Tenant qu) (newQueue (qu_Tenant qu) (out_now W h)) co
                 | Some q \<Rightarrow> co)
      in co1\<lparr>co_index := index_insert (co_index co1) (unit_uid qu) (qu_Tenant qu)\<rparr>)"

definition addNewQueueUnit :: "string \<Rightarrow> queue_unit \<Rightarrow> coordinator \<Rightarrow> go_error + coordinator" where
  "addNewQueueUnit tenant qu co =
     (case map_of (co_queues co) tenant of
        None \<Rightarrow> Inl (Panic ''nil queue'')
      | Some q \<Rightarrow> Inr (set_queue_of tenant (q_add q qu) co))"

definition EnqueueOrUpdate :: "plugins \<Rightarrow> outside \<Rightarrow> queue_unit \<Rightarrow> coordinator \<Rightarrow> hist \<Rightarrow> coordinator res" where
  "EnqueueOrUpdate P W qu co h =
     (let (tenant, qu1) = pl_Tenant P qu;
          qu2 = qu1\<lparr>qu_Tenant := tenant\<rparr>;
          co1 = initializeNewQueue W qu2 co h;
          (err, qu3, h1) = QueueStateMarker W qu2 JobEnqueuedReason h
      in (addNewQueueUnit (qu_Tenant qu3) qu3 co1, h1))"

definition popQueueUnitFromQueue :: "string \<Rightarrow> coordinator \<Rightarrow> go_error + (queue_unit option \<times> coordinator)" where
  "popQueueUnitFromQueue uid co =
     (case index_lookup (co_index co) uid of
        None \<Rightarrow> Inr (None, co)
      | Some tenant \<Rightarrow>
          (case map_of (co_queues co) tenant of
             None \<Rightarrow> Inl (Panic ''nil queue'')
           | Some q \<Rightarrow>
               Inr (q_get q uid,
                    (set_queue_of tenant (q_remove q uid) co)\<lparr>co_index := index_remove (co_index co) uid\<rparr>)))"

definition Dequeue :: "outside \<Rightarrow> string \<Rightarrow> coordinator \<Rightarrow> hist \<Rightarrow> coordinator res" where
  "Dequeue W uid co h =
     (case popQueueUnitFromQueue uid co of
        Inl e \<Rightarrow> (Inl e, h)
      | Inr (None, co1) \<Rightarrow> (Inr co1, h)
      | Inr (Some qu, co1) \<Rightarrow>
          (case qu_Owner qu of
             None \<Rightarrow> (Inl (Panic ''nil Owner''), h)
           | Some owner \<Rightarrow>
               (let h1 = emit (WorkqueueAdd owner (jm_Namespace (qu_Object qu)) (jm_Name (qu_Object qu))) h;
                    (err, qu1, h2) = QueueStateMarker W qu JobDequeuedReason h1
                in (Inr co1, h2))))"

definition SetQueueUnitOwner :: "string \<Rightarrow> string \<Rightarrow> coordinator \<Rightarrow> go_error + coordinator" where
  "SetQueueUnitOwner uid owner co =
     (case index_lookup (co_index co) uid of
        None \<Rightarrow> Inr co
      | Some tenant \<Rightarrow>
          (case map_of (co_queues co) tenant of
             None \<Rightarrow> Inl (Panic ''nil queue'')
           | Some q \<Rightarrow>
               (case q_get q uid of
                  None \<Rightarrow> Inl (Panic ''nil queue unit'')
                | Some qu \<Rightarrow> Inr (set_queue_of tenant (q_update q (qu\<lparr>qu_Owner := Some owner\<rparr>)) co))))"

definition IsQueuing :: "string \<Rightarrow> coordinator \<Rightarrow> go_error + bool" where
  "IsQueuing uid co =
     (case index_lookup (co_index co) uid of
        None \<Rightarrow> Inr False
      | Some tenant \<Rightarrow>
          (case map_of (co_queues co) tenant of
             None \<Rightarrow> Inl (Panic ''nil queue'')
           | Some q \<Rightarrow> Inr (q_exists q uid)))"

subsection \<open>One scheduling cycle\<close>

text \<open>A plugin that answers \<open>Skip\<close> is ignored, any other failure makes the unit infeasible.\<close>

fun run_checks :: "unit_check list \<Rightarrow> queue_unit \<Rightarrow> bool \<Rightarrow> assumed \<Rightarrow> hist \<Rightarrow> bool \<times> assumed \<times> hist" where
  "run_checks [] qu feasible aqs h = (feasible, aqs, h)"
| "run_checks (fp # fps) qu feasible aqs h =
     (let (st, aqs1, h1) = fp qu aqs h
      in run_checks fps qu (if \<not> IsSuccess st \<and> status_Code st \<noteq> Skip then False else feasible) aqs1 h1)"

definition isQueueUnitAcceptable :: "plugins \<Rightarrow> queue_unit \<Rightarrow> assumed \<Rightarrow> hist \<Rightarrow> bool \<times> assumed \<times> hist" where
  "isQueueUnitAcceptable P qu aqs h =
     (if pl_Filter P = [] then (True, aqs, h)
      else
        (let (feasible, aqs1, h1) = run_checks (pl_PreFilter P) qu True aqs h in
         if \<not> feasible then (False, aqs1, h1) else run_checks (pl_Filter P) qu feasible aqs1 h1))"

fun run_scores ::
    "(queue_unit \<Rightarrow> hist \<Rightarrow> (int \<times> status) \<times> queue_unit \<times> hist) list \<Rightarrow> queue_unit \<Rightarrow> int \<Rightarrow> hist \<Rightarrow>
     (queue_unit \<times> int) \<times> hist" where
  "run_scores [] qu score h = ((qu, score), h)"
| "run_scores (sp # sps) qu score h =
     (let ((s, st), qu1, h1) = sp qu h
      in run_scores sps qu1 (if \<not> IsSuccess st then score else i64 (score + s)) h1)"

definition prioritizeQueueUnit :: "plugins \<Rightarrow> queue_unit \<Rightarrow> hist \<Rightarrow> (queue_unit \<times> int) \<times> hist" where
  "prioritizeQueueUnit P qu h = run_scores (pl_Score P) qu 0 h"

fun select_loop ::
    "outside \<Rightarrow> (queue_unit \<times> int) list \<Rightarrow> nat \<Rightarrow> int \<Rightarrow> nat \<Rightarrow> int \<Rightarrow> hist \<Rightarrow> nat \<times> hist" where
  "select_loop W [] index maxScore selected cnt h = (selected, h)"
| "select_loop W (ns # rest) index maxScore selected cnt h =
     (if snd ns > maxScore then select_loop W rest (index + 1) (snd ns) index 1 h
      else if snd ns = maxScore
      then select_loop W rest (index + 1) maxScore (if out_rand W h 0 (cnt + 1) = 0 then index else selected) (cnt + 1)
             (emit (RandRange 0 (cnt + 1)) h)
      else select_loop W rest (index + 1) maxScore selected cnt h)"

definition selectQueueUnit :: "outside \<Rightarrow> (queue_unit \<times> int) list \<Rightarrow> hist \<Rightarrow> (queue_unit \<times> int) res" where
  "selectQueueUnit W candidates h =
     (case candidates of
        [] \<Rightarrow> (Inl (Panic ''index out of range''), h)
      | c # cs \<Rightarrow>
          (let (selectedIndex, h1) = select_loop W cs 1 (snd c) 0 1 h in (Inr (candidates ! selectedIndex), h1)))"

text \<open>A unit of a snapshot is a copy that shares its status with the unit in the queue.\<close>

definition share_status :: "string \<Rightarrow> queue_unit \<Rightarrow> coordinator \<Rightarrow> coordinator" where
  "share_status tenant qu co =
     (case map_of (co_queues co) tenant of
        None \<Rightarrow> co
      | Some q \<Rightarrow>
          (case q_get q (unit_uid qu) of
             None \<Rightarrow> co
           | Some stored \<Rightarrow> set_queue_of tenant (q_update q (stored\<lparr>qu_Status := qu_Status qu\<rparr>)) co))"

definition mark_enqueued :: "outside \<Rightarrow> string \<Rightarrow> queue_unit \<Rightarrow> coordinator \<Rightarrow> hist \<Rightarrow> queue_unit \<times> coordinator \<times> hist" where
  "mark_enqueued W tenant qu co h =
     (if \<not> IsEnqueued (qu_Status qu)
      then (let (err, qu1, h1) = QueueStateMarker W qu JobEnqueuedReason h in (qu1, share_status tenant qu1 co, h1))
      else (qu, co, h))"

fun schedule_loop ::
    "plugins \<Rightarrow> outside \<Rightarrow> string \<Rightarrow> queue_unit list \<Rightarrow> (queue_unit \<times> int) list \<Rightarrow> coordinator \<Rightarrow> hist \<Rightarrow>
     (queue_unit \<times> int) list \<times> coordinator \<times> hist" where
  "schedule_loop P W tenant [] candidates co h = (candidates, co, h)"
| "schedule_loop P W tenant (qu # view) candidates co h =
     (if qu_Owner qu = None then schedule_loop P W tenant view candidates co h
      else
        (let (qu1, co1, h1) = mark_enqueued W tenant qu co h;
             (ok, aqs2, h2) = isQueueUnitAcceptable P qu1 (co_assumed co1) h1;
             co2 = co1\<lparr>co_assumed := aqs2\<rparr>
         in if ok
            then (let (quScore, h3) = prioritizeQueueUnit P qu1 h2
                  in schedule_loop P W tenant view (candidates @ [quScore]) co2 h3)
            else schedule_loop P W tenant view candidates co2 h2))"

fun run_pre_dequeue :: "unit_check list \<Rightarrow> queue_unit \<Rightarrow> assumed \<Rightarrow> hist \<Rightarrow> assumed \<times> hist" where
  "run_pre_dequeue [] qu aqs h = (aqs, h)"
| "run_pre_dequeue (pg # pgs) qu aqs h = (let (st, aqs1, h1) = pg qu aqs h in run_pre_dequeue pgs qu aqs1 h1)"

definition nextQueueToSchedule :: "coordinator \<Rightarrow> string list \<Rightarrow> (string \<times> queue option) \<times> coordinator" where
  "nextQueueToSchedule co order =
     (let (choice, selector) = selector_Next (co_selector co) (co_queues co) order in (choice, co\<lparr>co_selector := selector\<rparr>))"

definition schedule ::
    "plugins \<Rightarrow> outside \<Rightarrow> string list \<Rightarrow> (queue \<Rightarrow> queue_unit list) \<Rightarrow> coordinator \<Rightarrow> hist \<Rightarrow> coordinator res" where
  "schedule P W order snapshot co h =
     (case nextQueueToSchedule co order of
        ((tenant, None), co1) \<Rightarrow> (Inr co1, h)
      | ((tenant, Some q), co1) \<Rightarrow>
          (let (candidates, co2, h2) = schedule_loop P W tenant (drain (iter (snapshot q))) [] co1 h in
           if candidates = [] then (Inr co2, h2)
           else andThen (selectQueueUnit W candidates h2)
                  (\<lambda>selected h3.
                     let (aqs, h4) = run_pre_dequeue (pl_PreDequeue P) (fst selected) (co_assumed co2) h3
                     in Dequeue W (unit_uid (fst selected)) (co2\<lparr>co_assumed := aqs\<rparr>) h4)))"

subsection \<open>The invariant\<close>

text \<open>
  Every queue stores its units under their identities, every indexed unit is in the queue the
  index names, and the selector knows only existing queues.
\<close>

definition co_inv :: "coordinator \<Rightarrow> bool" where
  "co_inv co \<longleftrightarrow>
     distinct (keys (co_queues co)) \<and> (\<forall>(t, q) \<in> set (co_queues co). q_wf q) \<and>
     (\<forall>uid t. co_index co uid = Some t \<longrightarrow> (\<exists>q. map_of (co_queues co) t = Some q \<and> q_exists q uid)) \<and>
     selector_ok (co_selector co) (co_queues co)"

lemma co_inv_new: "co_inv NewCoordinator"
  by (simp add: co_inv_def NewCoordinator_def)

lemma co_inv_queue: "co_inv co \<Longrightarrow> map_of (co_queues co) t = Some q \<Longrightarrow> q_wf q"
  by (auto simp: co_inv_def dest!: map_of_SomeD)

lemma co_inv_lookup:
  "co_inv co \<Longrightarrow> co_index co uid = Some t \<Longrightarrow> \<exists>q. map_of (co_queues co) t = Some q \<and> q_exists q uid"
  unfolding co_inv_def by blast

lemma co_inv_indexed:
  assumes "co_inv co" "co_index co uid = Some t"
  obtains q qu where "map_of (co_queues co) t = Some q" "q_get q uid = Some qu" "unit_uid qu = uid" "q_wf q"
proof -
  obtain q where q: "map_of (co_queues co) t = Some q" "q_exists q uid" using co_inv_lookup [OF assms] by blast
  then obtain qu where "q_get q uid = Some qu" by (auto simp: q_get_exists)
  with q co_inv_queue [OF assms(1) q(1)] q_wf_get that show thesis by blast
qed

text \<open>Replacing a queue keeps the invariant if the new queue holds what the index says.\<close>

lemma co_inv_set_queue:
  assumes "co_inv co" "q_wf q'"
    and "\<And>uid t. index' uid = Some t \<Longrightarrow>
      if t = tenant then q_exists q' uid else \<exists>q. map_of (co_queues co) t = Some q \<and> q_exists q uid"
  shows "co_inv ((set_queue_of tenant q' co)\<lparr>co_index := index'\<rparr>)"
proof -
  have entries: "set (AList.update tenant q' (co_queues co)) \<subseteq> insert (tenant, q') (set (co_queues co))"
    by (rule update_entries)
  have "fst ` set (co_queues co) \<subseteq> fst ` set (AList.update tenant q' (co_queues co))" by (auto simp: dom_update)
  then have mono: "set (keys (co_queues co)) \<subseteq> set (keys (AList.update tenant q' (co_queues co)))"
    by (simp only: set_map)
  have sel: "selector_ok (co_selector co) (AList.update tenant q' (co_queues co))"
    using assms(1) mono selector_ok_mono unfolding co_inv_def by blast
  have wf: "\<forall>(t, q) \<in> set (AList.update tenant q' (co_queues co)). q_wf q"
  proof clarify
    fix t q assume "(t, q) \<in> set (AList.update tenant q' (co_queues co))"
    with entries have "(t, q) = (tenant, q') \<or> (t, q) \<in> set (co_queues co)" by blast
    with assms(1,2) show "q_wf q" unfolding co_inv_def by auto
  qed
  have idx: "\<exists>q. map_of (AList.update tenant q' (co_queues co)) t = Some q \<and> q_exists q uid" if "index' uid = Some t" for uid t
    using assms(3) [OF that] by (cases "t = tenant") simp_all
  have "distinct (keys (AList.update tenant q' (co_queues co)))"
    using assms(1) by (simp add: co_inv_def distinct_update)
  with sel wf idx show ?thesis unfolding co_inv_def set_queue_of_def by simp
qed

lemma co_inv_same_index:
  assumes "co_inv co" "map_of (co_queues co) tenant = Some q" "q_wf q'" "\<And>uid. q_exists q uid \<Longrightarrow> q_exists q' uid"
  shows "co_inv (set_queue_of tenant q' co)"
proof -
  have "co_inv ((set_queue_of tenant q' co)\<lparr>co_index := co_index co\<rparr>)"
  proof (rule co_inv_set_queue [OF assms(1,3)])
    fix uid t assume "co_index co uid = Some t"
    from co_inv_lookup [OF assms(1) this] assms(2,4)
    show "if t = tenant then q_exists q' uid else \<exists>q. map_of (co_queues co) t = Some q \<and> q_exists q uid" by auto
  qed
  then show ?thesis by (simp add: set_queue_of_def)
qed

lemma set_queue_simps [simp]:
  "co_index (set_queue_of t q co) = co_index co" "co_selector (set_queue_of t q co) = co_selector co"
  "co_assumed (set_queue_of t q co) = co_assumed co"
  "map_of (co_queues (set_queue_of t q co)) t' = (if t' = t then Some q else map_of (co_queues co) t')"
  by (simp_all add: set_queue_of_def)

lemma q_exists_add [simp]: "q_exists (q_add q qu) uid \<longleftrightarrow> uid = unit_uid qu \<or> q_exists q uid"
  by (simp add: q_get_exists)

lemma q_exists_update [simp]: "q_exists (q_update q qu) uid \<longleftrightarrow> q_exists q uid"
  by (auto simp: q_get_exists q_get_update)

lemma q_exists_remove [simp]: "q_exists (q_remove q uid) uid' \<longleftrightarrow> uid' \<noteq> uid \<and> q_exists q uid'"
  by (simp add: q_get_exists)

lemma marker_keeps:
  assumes "QueueStateMarker W qu reason h = (err, qu', h')"
  shows "unit_uid qu' = unit_uid qu" "qu_Tenant qu' = qu_Tenant qu" "qu_Owner qu' = qu_Owner qu"
    "qu_Object qu' = qu_Object qu" "qu_Resources qu' = qu_Resources qu" "qu_Priority qu' = qu_Priority qu"
    "qu_SchedPolicy qu' = qu_SchedPolicy qu"
  using assms by (auto simp: QueueStateMarker_def Let_def split: prod.splits)

text \<open>The unit the index finds for an identity.\<close>

definition queued_unit :: "coordinator \<Rightarrow> string \<Rightarrow> queue_unit option" where
  "queued_unit co uid = Option.bind (co_index co uid) (\<lambda>t. Option.bind (map_of (co_queues co) t) (\<lambda>q. q_get q uid))"

text \<open>Changing the entries of one identity leaves the units of the others.\<close>

lemma queued_unit_elsewhere:
  assumes "\<And>u. u \<noteq> uid \<Longrightarrow> q_get q' u = Option.bind (map_of (co_queues co) tenant) (\<lambda>q. q_get q u)"
    and "\<And>u. u \<noteq> uid \<Longrightarrow> index' u = co_index co u" "u \<noteq> uid"
  shows "queued_unit ((set_queue_of tenant q' co)\<lparr>co_index := index'\<rparr>) u = queued_unit co u"
  using assms by (cases "co_index co u") (simp_all add: queued_unit_def)

lemma enqueue_effect:
  assumes "co_inv co" "unit_uid (snd (pl_Tenant P qu)) = unit_uid qu"
  shows "\<exists>co' h' qu'. EnqueueOrUpdate P W qu co h = (Inr co', h') \<and> co_inv co' \<and>
    co_index co' = (co_index co)(unit_uid qu \<mapsto> fst (pl_Tenant P qu)) \<and>
    (\<exists>q. map_of (co_queues co') (fst (pl_Tenant P qu)) = Some q \<and> q_get q (unit_uid qu) = Some qu' \<and>
      qu_Owner qu' = qu_Owner (snd (pl_Tenant P qu)))"
proof -
  obtain tenant qu1 where t: "pl_Tenant P qu = (tenant, qu1)" by fastforce
  let ?qu = "qu1\<lparr>qu_Tenant := tenant\<rparr>"
  obtain err qu3 h1 where m: "QueueStateMarker W ?qu JobEnqueuedReason h = (err, qu3, h1)" by (metis surj_pair)
  note keeps = marker_keeps [OF m]
  define q where "q = (case map_of (co_queues co) tenant of None \<Rightarrow> newQueue tenant (out_now W h) | Some q \<Rightarrow> q)"
  have wf: "q_wf q" using co_inv_queue [OF assms(1)] by (auto simp: q_def split: option.splits)
  let ?co = "(set_queue_of tenant (q_add q qu3) co)\<lparr>co_index := (co_index co)(unit_uid qu \<mapsto> tenant)\<rparr>"
  have "AList.update tenant (q_add q qu3) (AList.update tenant q (co_queues co)) =
      AList.update tenant (q_add q qu3) (co_queues co)" by (rule update_last) 
  then have e: "EnqueueOrUpdate P W qu co h = (Inr ?co, h1)"
    using keeps assms(2) t
    by (auto simp: EnqueueOrUpdate_def m initializeNewQueue_def Let_def addNewQueueUnit_def q_def index_defs
        set_queue_of_def split: option.splits)
  have "co_inv ?co"
  proof (rule co_inv_set_queue [OF assms(1)])
    fix uid t assume "((co_index co)(unit_uid qu \<mapsto> tenant)) uid = Some t"
    then show "if t = tenant then q_exists (q_add q qu3) uid else \<exists>q. map_of (co_queues co) t = Some q \<and> q_exists q uid"
      using assms(2) keeps t co_inv_lookup [OF assms(1), of uid t] unfolding q_def by (cases "uid = unit_uid qu") auto
  qed (use wf in simp)
  with e keeps assms(2) t show ?thesis by auto
qed

text \<open>The unit that is stored, with the job and the owner it came with.\<close>

lemma enqueue_units:
  assumes "EnqueueOrUpdate P W qu co h = (Inr co', h')" "unit_uid (snd (pl_Tenant P qu)) = unit_uid qu"
  shows "\<exists>qu'. queued_unit co' = (queued_unit co)(unit_uid qu \<mapsto> qu') \<and>
    qu_Owner qu' = qu_Owner (snd (pl_Tenant P qu)) \<and> qu_Object qu' = qu_Object (snd (pl_Tenant P qu))"
proof -
  obtain tenant qu1 where t: "pl_Tenant P qu = (tenant, qu1)" by fastforce
  let ?qu = "qu1\<lparr>qu_Tenant := tenant\<rparr>"
  obtain err qu3 h1 where m: "QueueStateMarker W ?qu JobEnqueuedReason h = (err, qu3, h1)" by (metis surj_pair)
  note keeps = marker_keeps [OF m]
  define q where "q = (case map_of (co_queues co) tenant of None \<Rightarrow> newQueue tenant (out_now W h) | Some q \<Rightarrow> q)"
  let ?co = "(set_queue_of tenant (q_add q qu3) co)\<lparr>co_index := (co_index co)(unit_uid qu \<mapsto> tenant)\<rparr>"
  have "AList.update tenant (q_add q qu3) (AList.update tenant q (co_queues co)) =
      AList.update tenant (q_add q qu3) (co_queues co)" by (rule update_last)
  then have co': "co' = ?co"
    using assms keeps t
    by (auto simp: EnqueueOrUpdate_def m initializeNewQueue_def Let_def addNewQueueUnit_def q_def index_defs
        set_queue_of_def split: option.splits)
  have uid: "unit_uid qu3 = unit_uid qu" using keeps(1) assms(2) t by simp
  have "queued_unit ?co u = ((queued_unit co)(unit_uid qu \<mapsto> qu3)) u" for u
  proof (cases "u = unit_uid qu")
    case True
    with uid show ?thesis by (simp add: queued_unit_def)
  next
    case False
    have "q_get q u = Option.bind (map_of (co_queues co) tenant) (\<lambda>q. q_get q u)" for u
      by (cases "map_of (co_queues co) tenant") (simp_all add: q_def newQueue_def q_get_def)
    then have "queued_unit ?co u = queued_unit co u"
      by (intro queued_unit_elsewhere [OF _ _ False]) (simp_all add: uid)
    with False show ?thesis by simp
  qed
  with co' keeps t show ?thesis by (intro exI [of _ qu3]) auto
qed

lemma pop_effect:
  assumes "co_inv co"
  shows "\<exists>co'. popQueueUnitFromQueue uid co = Inr (queued_unit co uid, co') \<and>
    co_inv co' \<and> co_index co' = (co_index co)(uid := None) \<and> co_assumed co' = co_assumed co \<and>
    (\<forall>u. u \<noteq> uid \<longrightarrow> queued_unit co' u = queued_unit co u)"
proof (cases "co_index co uid")
  case None
  with assms show ?thesis by (simp add: popQueueUnitFromQueue_def index_defs fun_upd_idem queued_unit_def)
next
  case (Some t)
  then obtain q qu where q: "map_of (co_queues co) t = Some q" "q_get q uid = Some qu" "q_wf q"
    using co_inv_indexed [OF assms] by metis
  have "co_inv ((set_queue_of t (q_remove q uid) co)\<lparr>co_index := (co_index co)(uid := None)\<rparr>)"
  proof (rule co_inv_set_queue [OF assms])
    fix uid' t' assume "((co_index co)(uid := None)) uid' = Some t'"
    then have "uid' \<noteq> uid" "co_index co uid' = Some t'" by (auto split: if_splits)
    with co_inv_lookup [OF assms this(2)] q(1)
    show "if t' = t then q_exists (q_remove q uid) uid' else \<exists>q. map_of (co_queues co) t' = Some q \<and> q_exists q uid'" by auto
  qed (use q in simp)
  moreover have "queued_unit ((set_queue_of t (q_remove q uid) co)\<lparr>co_index := (co_index co)(uid := None)\<rparr>) u = queued_unit co u"
    if "u \<noteq> uid" for u
    by (rule queued_unit_elsewhere [OF _ _ that]) (use q in simp_all)
  ultimately show ?thesis using Some q by (simp add: popQueueUnitFromQueue_def index_defs queued_unit_def)
qed

definition woken :: "hist \<Rightarrow> (string \<times> string \<times> string) list" where
  "woken h = concat (map (\<lambda>c. case c of WorkqueueAdd owner ns n \<Rightarrow> [(owner, ns, n)] | _ \<Rightarrow> []) h)"

lemma woken_simps [simp]:
  "woken [] = []" "woken (h @ h') = woken h @ woken h'"
  "woken (emit (WorkqueueAdd owner ns n) h) = woken h @ [(owner, ns, n)]"
  "woken (emit (Event ty r) h) = woken h" "woken (emit (RandRange lo hi) h) = woken h"
  "woken (emit (ListQuotas ns) h) = woken h" "woken (emit (GetJobStatus ns n) h) = woken h"
  "woken (emit (GetPriorityClass n) h) = woken h"
  "woken (snd (api_write W (PatchStatusCall job st) h)) = woken h"
  by (simp_all add: woken_def emit_def api_write_def)

lemma marker_woken: "QueueStateMarker W qu reason h = (err, qu', h') \<Longrightarrow> woken h' = woken h"
  by (auto simp: QueueStateMarker_def Let_def api_write_def woken_def emit_def)

lemma enqueue_woken: "woken (snd (EnqueueOrUpdate P W qu co h)) = woken h"
  by (auto simp: EnqueueOrUpdate_def Let_def dest: marker_woken split: prod.splits)

definition request_of :: "string \<Rightarrow> queue_unit \<Rightarrow> string \<times> string \<times> string" where
  "request_of owner qu = (owner, jm_Namespace (qu_Object qu), jm_Name (qu_Object qu))"

lemma queued_unit_indexed:
  assumes "co_inv co"
  shows "queued_unit co uid = None \<longleftrightarrow> co_index co uid = None"
proof (cases "co_index co uid")
  case (Some t)
  then obtain q qu where "map_of (co_queues co) t = Some q" "q_get q uid = Some qu"
    using co_inv_indexed [OF assms] by metis
  with Some show ?thesis by (simp add: queued_unit_def)
qed (simp add: queued_unit_def)

lemma dequeue_effect:
  assumes "co_inv co"
  shows "case queued_unit co uid of
      None \<Rightarrow> Dequeue W uid co h = (Inr co, h)
    | Some qu \<Rightarrow>
        (case qu_Owner qu of
           None \<Rightarrow> Dequeue W uid co h = (Inl (Panic ''nil Owner''), h)
         | Some owner \<Rightarrow>
             (\<exists>co' h'. Dequeue W uid co h = (Inr co', h') \<and> co_inv co' \<and> co_index co' = (co_index co)(uid := None) \<and>
               co_assumed co' = co_assumed co \<and> woken h' = woken h @ [request_of owner qu] \<and>
               (\<forall>u. u \<noteq> uid \<longrightarrow> queued_unit co' u = queued_unit co u)))"
proof -
  obtain co' where pop: "popQueueUnitFromQueue uid co = Inr (queued_unit co uid, co')"
    "co_inv co'" "co_index co' = (co_index co)(uid := None)" "co_assumed co' = co_assumed co"
    "\<forall>u. u \<noteq> uid \<longrightarrow> queued_unit co' u = queued_unit co u"
    using pop_effect [OF assms, of uid] by blast
  show ?thesis
  proof (cases "queued_unit co uid")
    case None
    then have "co_index co uid = None" using queued_unit_indexed [OF assms] by simp
    then have "popQueueUnitFromQueue uid co = Inr (None, co)" by (simp add: popQueueUnitFromQueue_def index_defs)
    with None show ?thesis by (simp add: Dequeue_def)
  next
    case (Some qu)
    show ?thesis
    proof (cases "qu_Owner qu")
      case (Some owner)
      let ?h = "emit (WorkqueueAdd owner (jm_Namespace (qu_Object qu)) (jm_Name (qu_Object qu))) h"
      obtain err qu1 h2 where m: "QueueStateMarker W qu JobDequeuedReason ?h = (err, qu1, h2)" by (metis surj_pair)
      from marker_woken [OF m] show ?thesis
        using \<open>queued_unit co uid = Some qu\<close> Some pop by (simp add: Dequeue_def m request_of_def)
    qed (use Some pop in \<open>simp add: Dequeue_def\<close>)
  qed
qed

lemma set_owner_effect:
  assumes "co_inv co"
  shows "\<exists>co'. SetQueueUnitOwner uid owner co = Inr co' \<and> co_inv co' \<and> co_index co' = co_index co \<and>
    (\<forall>qu. queued_unit co uid = Some qu \<longrightarrow> queued_unit co' uid = Some (qu\<lparr>qu_Owner := Some owner\<rparr>)) \<and>
    (\<forall>u. u \<noteq> uid \<longrightarrow> queued_unit co' u = queued_unit co u)"
proof (cases "co_index co uid")
  case None
  with assms show ?thesis by (simp add: SetQueueUnitOwner_def index_defs queued_unit_def)
next
  case (Some t)
  then obtain q qu where q: "map_of (co_queues co) t = Some q" "q_get q uid = Some qu" "unit_uid qu = uid" "q_wf q"
    using co_inv_indexed [OF assms] by metis
  then have "q_exists q uid" by (simp add: q_get_exists)
  moreover have "co_inv (set_queue_of t (q_update q (qu\<lparr>qu_Owner := Some owner\<rparr>)) co)"
    using q by (intro co_inv_same_index [OF assms q(1)]) simp_all
  moreover have "queued_unit (set_queue_of t (q_update q (qu\<lparr>qu_Owner := Some owner\<rparr>)) co) u = queued_unit co u"
    if "u \<noteq> uid" for u
    using q that by (cases "co_index co u") (auto simp: queued_unit_def q_get_update)
  ultimately show ?thesis using Some q by (simp add: SetQueueUnitOwner_def index_defs queued_unit_def q_get_update)
qed

lemma is_queuing:
  assumes "co_inv co"
  shows "IsQueuing uid co = Inr (co_index co uid \<noteq> None)"
  using co_inv_lookup [OF assms, of uid] by (cases "co_index co uid") (auto simp: IsQueuing_def index_defs)

subsection \<open>Selection\<close>

lemma select_loop_max:
  "select_loop W rest index maxScore sel cnt h = (i, h') \<Longrightarrow> index = length pre \<Longrightarrow> sel < index \<Longrightarrow>
     snd (pre ! sel) = maxScore \<Longrightarrow> \<forall>c \<in> set pre. snd c \<le> maxScore \<Longrightarrow>
     i < length (pre @ rest) \<and> (\<forall>c \<in> set (pre @ rest). snd c \<le> snd ((pre @ rest) ! i)) \<and> woken h' = woken h"
proof (induction W rest index maxScore sel cnt h arbitrary: pre rule: select_loop.induct)
  case (2 W ns rest index maxScore sel cnt h)
  have len: "index + 1 = length (pre @ [ns])" using 2(5) by simp
  consider "snd ns > maxScore" | "snd ns = maxScore" | "snd ns < maxScore" by linarith
  then show ?case
  proof cases
    case 1
    with 2(4) have "select_loop W rest (index + 1) (snd ns) index 1 h = (i, h')" by simp
    moreover have "\<forall>c \<in> set (pre @ [ns]). snd c \<le> snd ns" using 1 2(8) by auto
    ultimately show ?thesis using 2(1) [OF 1 _ len] 2(5) by simp
  next
    case tie: 2
    with 2(4) have "select_loop W rest (index + 1) maxScore (if out_rand W h 0 (cnt + 1) = 0 then index else sel) (cnt + 1)
        (emit (RandRange 0 (cnt + 1)) h) = (i, h')" by simp
    from 2(2) [OF _ tie this len] tie 2(5-8) show ?thesis by (auto simp: nth_append split: if_splits)
  next
    case 3
    with 2(4) have "select_loop W rest (index + 1) maxScore sel cnt h = (i, h')" by simp
    from 2(3) [OF _ _ this len] 3 2(5-8) show ?thesis by (auto simp: nth_append)
  qed
qed simp

lemma select_max:
  assumes "candidates \<noteq> []"
  shows "\<exists>c h'. selectQueueUnit W candidates h = (Inr c, h') \<and> c \<in> set candidates \<and>
    (\<forall>c' \<in> set candidates. snd c' \<le> snd c) \<and> woken h' = woken h"
proof -
  obtain c cs where c: "candidates = c # cs" using assms by (cases candidates) auto
  obtain i h' where l: "select_loop W cs 1 (snd c) 0 1 h = (i, h')" by fastforce
  from select_loop_max [OF l, of "[c]"] have "i < length candidates" "\<forall>x \<in> set candidates. snd x \<le> snd (candidates ! i)"
    "woken h' = woken h" by (auto simp: c)
  moreover have "selectQueueUnit W candidates h = (Inr (candidates ! i), h')" using c l by (simp add: selectQueueUnit_def)
  ultimately show ?thesis by (blast intro: nth_mem)
qed

text \<open>What a scheduling cycle leaves alone before it dequeues a unit.\<close>

definition same_jobs :: "coordinator \<Rightarrow> coordinator \<Rightarrow> bool" where
  "same_jobs co co' \<longleftrightarrow>
     co_index co' = co_index co \<and>
     (\<forall>uid. map_option (\<lambda>qu. (qu_Owner qu, qu_Object qu)) (queued_unit co' uid) =
            map_option (\<lambda>qu. (qu_Owner qu, qu_Object qu)) (queued_unit co uid))"

text \<open>The other jobs stay what they are when a job leaves.\<close>

definition same_others :: "string \<Rightarrow> coordinator \<Rightarrow> coordinator \<Rightarrow> bool" where
  "same_others uid co co' \<longleftrightarrow>
     (\<forall>u. u \<noteq> uid \<longrightarrow> map_option (\<lambda>qu. (qu_Owner qu, qu_Object qu)) (queued_unit co' u) =
        map_option (\<lambda>qu. (qu_Owner qu, qu_Object qu)) (queued_unit co u))"

lemma same_jobs_refl [simp]: "same_jobs co co"
  by (simp add: same_jobs_def)

lemma same_jobs_trans: "same_jobs co co1 \<Longrightarrow> same_jobs co1 co2 \<Longrightarrow> same_jobs co co2"
  by (simp add: same_jobs_def)

lemma co_inv_assumed [simp]: "co_inv (co\<lparr>co_assumed := aqs\<rparr>) \<longleftrightarrow> co_inv co"
  by (simp add: co_inv_def)

lemma queued_unit_simps [simp]:
  "queued_unit (co\<lparr>co_assumed := aqs\<rparr>) uid = queued_unit co uid"
  "queued_unit (co\<lparr>co_selector := sel\<rparr>) uid = queued_unit co uid"
  by (simp_all add: queued_unit_def)

lemma same_jobs_simps [simp]:
  "same_jobs co (co'\<lparr>co_assumed := aqs\<rparr>) \<longleftrightarrow> same_jobs co co'"
  "same_jobs co (co'\<lparr>co_selector := sel\<rparr>) \<longleftrightarrow> same_jobs co co'"
  by (simp_all add: same_jobs_def)

lemma share_status_effect:
  assumes "co_inv co"
  shows "co_inv (share_status tenant qu co) \<and> same_jobs co (share_status tenant qu co)"
proof (cases "Option.bind (map_of (co_queues co) tenant) (\<lambda>q. q_get q (unit_uid qu))")
  case None
  then have "share_status tenant qu co = co"
    by (cases "map_of (co_queues co) tenant") (simp_all add: share_status_def)
  with assms show ?thesis by simp
next
  case (Some stored)
  then obtain q where q: "map_of (co_queues co) tenant = Some q" "q_get q (unit_uid qu) = Some stored"
    by (cases "map_of (co_queues co) tenant") auto
  have wf: "q_wf q" using co_inv_queue [OF assms q(1)] .
  have uid: "unit_uid stored = unit_uid qu" using q_wf_get [OF wf q(2)] .
  let ?q = "q_update q (stored\<lparr>qu_Status := qu_Status qu\<rparr>)"
  have e: "share_status tenant qu co = set_queue_of tenant ?q co" by (simp add: share_status_def q)
  have "co_inv (set_queue_of tenant ?q co)" using wf by (intro co_inv_same_index [OF assms q(1)]) simp_all
  moreover have "same_jobs co (set_queue_of tenant ?q co)"
    unfolding same_jobs_def queued_unit_def
  proof (intro conjI allI)
    fix uid' show "map_option (\<lambda>qu. (qu_Owner qu, qu_Object qu))
        (Option.bind (co_index (set_queue_of tenant ?q co) uid')
          (\<lambda>t. Option.bind (map_of (co_queues (set_queue_of tenant ?q co)) t) (\<lambda>q. q_get q uid'))) =
      map_option (\<lambda>qu. (qu_Owner qu, qu_Object qu))
        (Option.bind (co_index co uid') (\<lambda>t. Option.bind (map_of (co_queues co) t) (\<lambda>q. q_get q uid')))"
      using q uid by (cases "co_index co uid'") (auto simp: q_get_update q_get_exists)
  qed simp
  ultimately show ?thesis by (simp add: e)
qed

lemma mark_enqueued_effect:
  assumes "co_inv co" "mark_enqueued W tenant qu co h = (qu', co', h')"
  shows "co_inv co' \<and> same_jobs co co' \<and> woken h' = woken h \<and> qu_Object qu' = qu_Object qu"
  using assms share_status_effect [OF assms(1)] marker_woken marker_keeps
  by (auto simp: mark_enqueued_def split: if_splits prod.splits)

text \<open>An order in which a loop over the map of queues may run.\<close>

definition queue_order :: "coordinator \<Rightarrow> string list \<Rightarrow> bool" where
  "queue_order co order \<longleftrightarrow> distinct order \<and> set order = set (keys (co_queues co))"

lemma next_queue_effect:
  assumes "co_inv co" "queue_order co order" "nextQueueToSchedule co order = ((t, qo), co1)"
  shows "co_inv co1" "same_jobs co co1" "co_queues co1 = co_queues co" "qo = Some q \<Longrightarrow> map_of (co_queues co) t = Some q"
proof -
  obtain sel where sel: "selector_Next (co_selector co) (co_queues co) order = ((t, qo), sel)"
    and co1: "co1 = co\<lparr>co_selector := sel\<rparr>"
    using assms(3) by (cases "selector_Next (co_selector co) (co_queues co) order") (auto simp: nextQueueToSchedule_def)
  have "selector_full sel (co_queues co)"
    using selector_Next_full [of "co_selector co" "co_queues co" order] assms(1,2) sel
    by (simp add: co_inv_def queue_order_def)
  then have "selector_ok sel (co_queues co)" by (rule selector_full_ok)
  with assms(1) show "co_inv co1" unfolding co1 co_inv_def by (simp del: map_of_eq_Some_iff)
  show "same_jobs co co1" "co_queues co1 = co_queues co" by (simp_all add: co1)
  assume "qo = Some q"
  with sel show "map_of (co_queues co) t = Some q" by (auto simp: selector_Next_refresh Let_def split: if_splits)
qed

text \<open>The candidates of the cycle: the units of the selected queue that pass the filters, with their scores.\<close>

definition candidates_of ::
    "plugins \<Rightarrow> outside \<Rightarrow> string list \<Rightarrow> (queue \<Rightarrow> queue_unit list) \<Rightarrow> coordinator \<Rightarrow> hist \<Rightarrow> (queue_unit \<times> int) list" where
  "candidates_of P W order snapshot co h =
     (case nextQueueToSchedule co order of
        ((tenant, None), co1) \<Rightarrow> []
      | ((tenant, Some q), co1) \<Rightarrow> fst (schedule_loop P W tenant (drain (iter (snapshot q))) [] co1 h))"

text \<open>The effect of dequeuing the unit with a given identity.\<close>

definition releases :: "coordinator \<Rightarrow> string \<Rightarrow> hist \<Rightarrow> coordinator res \<Rightarrow> bool" where
  "releases co uid h r \<longleftrightarrow>
     (case queued_unit co uid of
        None \<Rightarrow> \<exists>co'. fst r = Inr co' \<and> co_inv co' \<and> same_jobs co co' \<and> woken (snd r) = woken h
      | Some qu \<Rightarrow>
          (case qu_Owner qu of
             None \<Rightarrow> fst r = Inl (Panic ''nil Owner'') \<and> woken (snd r) = woken h
           | Some owner \<Rightarrow>
               \<exists>co'. fst r = Inr co' \<and> co_inv co' \<and> co_index co' = (co_index co)(uid := None) \<and>
                 woken (snd r) = woken h @ [request_of owner qu] \<and> same_others uid co co'))"

lemma dequeue_releases:
  assumes "co_inv co1" "same_jobs co co1" "woken h1 = woken h"
  shows "releases co uid h (Dequeue W uid co1 h1)"
proof -
  from assms(2) have same: "map_option (\<lambda>qu. (qu_Owner qu, qu_Object qu)) (queued_unit co1 uid) =
      map_option (\<lambda>qu. (qu_Owner qu, qu_Object qu)) (queued_unit co uid)" and idx: "co_index co1 = co_index co"
    by (simp_all add: same_jobs_def)
  show ?thesis
  proof (cases "queued_unit co1 uid")
    case None
    with same have "queued_unit co uid = None" by (cases "queued_unit co uid") simp_all
    with dequeue_effect [OF assms(1), where uid = uid and W = W and h = h1] None assms show ?thesis by (simp add: releases_def)
  next
    case (Some qu1)
    with same obtain qu where qu: "queued_unit co uid = Some qu" "qu_Owner qu = qu_Owner qu1" "qu_Object qu = qu_Object qu1"
      by (cases "queued_unit co uid") auto
    show ?thesis
    proof (cases "qu_Owner qu1")
      case None
      with dequeue_effect [OF assms(1), where uid = uid and W = W and h = h1] Some qu assms show ?thesis by (simp add: releases_def)
    next
      case (Some owner)
      with dequeue_effect [OF assms(1), where uid = uid and W = W and h = h1] \<open>queued_unit co1 uid = Some qu1\<close>
      obtain co' h' where "Dequeue W uid co1 h1 = (Inr co', h')" "co_inv co'" "co_index co' = (co_index co1)(uid := None)"
        "woken h' = woken h1 @ [request_of owner qu1]" "\<forall>u. u \<noteq> uid \<longrightarrow> queued_unit co' u = queued_unit co1 u" by auto
      moreover from this(5) assms(2) have "same_others uid co co'" by (simp add: same_others_def same_jobs_def)
      ultimately show ?thesis using qu Some idx assms(3) by (simp add: releases_def request_of_def)
    qed
  qed
qed

subsection \<open>What the coordinator needs of its plugins\<close>

text \<open>
  Plugins put no request on a work queue, and they never exchange the job of a unit or the work
  queue that owns it.
\<close>

locale quiet_plugins =
  fixes P :: plugins
  assumes tenant_object: "qu_Object (snd (pl_Tenant P qu)) = qu_Object qu"
    and prefilter_quiet: "f \<in> set (pl_PreFilter P) \<Longrightarrow> woken (snd (snd (f qu aqs h))) = woken h"
    and filter_quiet: "f \<in> set (pl_Filter P) \<Longrightarrow> woken (snd (snd (f qu aqs h))) = woken h"
    and pre_dequeue_quiet: "f \<in> set (pl_PreDequeue P) \<Longrightarrow> woken (snd (snd (f qu aqs h))) = woken h"
    and score_quiet: "f' \<in> set (pl_Score P) \<Longrightarrow> woken (snd (snd (f' qu h))) = woken h"
    and score_object: "f' \<in> set (pl_Score P) \<Longrightarrow> qu_Object (fst (snd (f' qu h))) = qu_Object qu"
begin

lemma run_checks_woken:
  assumes "\<And>f qu aqs h. f \<in> set fs \<Longrightarrow> woken (snd (snd (f qu aqs h))) = woken h"
  shows "woken (snd (snd (run_checks fs qu b aqs h))) = woken h"
  using assms
proof (induction fs arbitrary: b aqs h)
  case (Cons f fs)
  obtain st aqs1 h1 where f: "f qu aqs h = (st, aqs1, h1)" by (metis surj_pair)
  from Cons.prems [of f qu aqs h] have "woken h1 = woken h" by (simp add: f)
  with Cons.IH [of _ aqs1 h1] Cons.prems show ?case by (simp add: f)
qed simp

lemma acceptable_woken: "woken (snd (snd (isQueueUnitAcceptable P qu aqs h))) = woken h"
proof -
  obtain b aqs1 h1 where r: "run_checks (pl_PreFilter P) qu True aqs h = (b, aqs1, h1)" by (metis surj_pair)
  from run_checks_woken [of "pl_PreFilter P" qu True aqs h] prefilter_quiet have "woken h1 = woken h" by (simp add: r)
  with run_checks_woken [of "pl_Filter P"] filter_quiet show ?thesis by (simp add: isQueueUnitAcceptable_def r)
qed

lemma run_scores_keep:
  "set fs \<subseteq> set (pl_Score P) \<Longrightarrow> run_scores fs qu s h = ((qu', s'), h') \<Longrightarrow>
     woken h' = woken h \<and> qu_Object qu' = qu_Object qu"
proof (induction fs arbitrary: qu s h)
  case (Cons f fs)
  obtain sc st qu1 h1 where f: "f qu h = ((sc, st), qu1, h1)" by (metis surj_pair)
  have "woken h1 = woken h" "qu_Object qu1 = qu_Object qu"
    using score_quiet [of f qu h] score_object [of f qu h] Cons.prems(1) by (simp_all add: f)
  with Cons.IH [of qu1 _ h1] Cons.prems show ?case by (simp add: f)
qed simp

lemma run_pre_dequeue_woken:
  "set fs \<subseteq> set (pl_PreDequeue P) \<Longrightarrow> woken (snd (run_pre_dequeue fs qu aqs h)) = woken h"
proof (induction fs arbitrary: aqs h)
  case (Cons f fs)
  obtain st aqs1 h1 where f: "f qu aqs h = (st, aqs1, h1)" by (metis surj_pair)
  have "woken h1 = woken h" using pre_dequeue_quiet [of f qu aqs h] Cons.prems by (simp add: f)
  with Cons.IH [of aqs1 h1] Cons.prems show ?case by (simp add: f)
qed simp

lemma loop_effect:
  "co_inv co \<Longrightarrow> schedule_loop P W tenant view cands co h = (cands', co', h') \<Longrightarrow>
     co_inv co' \<and> same_jobs co co' \<and> woken h' = woken h \<and>
     (\<forall>c \<in> set cands'. c \<in> set cands \<or> (\<exists>qu \<in> set view. qu_Object (fst c) = qu_Object qu \<and> qu_Owner qu \<noteq> None))"
proof (induction view arbitrary: cands co h)
  case (Cons qu view)
  show ?case
  proof (cases "qu_Owner qu = None")
    case True
    with Cons.IH [OF Cons.prems(1)] Cons.prems(2) show ?thesis by auto
  next
    case False
    obtain qu1 co1 h1 where m: "mark_enqueued W tenant qu co h = (qu1, co1, h1)" by (metis surj_pair)
    note m' = mark_enqueued_effect [OF Cons.prems(1) m]
    obtain ok aqs2 h2 where a: "isQueueUnitAcceptable P qu1 (co_assumed co1) h1 = (ok, aqs2, h2)" by (metis surj_pair)
    have h2: "woken h2 = woken h" using acceptable_woken [of qu1 "co_assumed co1" h1] m' by (simp add: a)
    have inv2: "co_inv (co1\<lparr>co_assumed := aqs2\<rparr>)" and same2: "same_jobs co (co1\<lparr>co_assumed := aqs2\<rparr>)"
      using m' by simp_all
    show ?thesis
    proof (cases ok)
      case True
      obtain qu3 s h3 where p: "prioritizeQueueUnit P qu1 h2 = ((qu3, s), h3)" by (metis surj_pair)
      have p': "woken h3 = woken h" "qu_Object qu3 = qu_Object qu"
        using run_scores_keep [of "pl_Score P" qu1 0 h2] m' h2 p by (auto simp: prioritizeQueueUnit_def)
      have "schedule_loop P W tenant view (cands @ [(qu3, s)]) (co1\<lparr>co_assumed := aqs2\<rparr>) h3 = (cands', co', h')"
        using Cons.prems(2) False True by (simp add: m a p)
      from Cons.IH [OF inv2 this] same_jobs_trans [OF same2] p' False show ?thesis by auto
    next
      case not_ok: False
      have "schedule_loop P W tenant view cands (co1\<lparr>co_assumed := aqs2\<rparr>) h2 = (cands', co', h')"
        using Cons.prems(2) False not_ok by (simp add: m a)
      from Cons.IH [OF inv2 this] same_jobs_trans [OF same2] h2 show ?thesis by auto
    qed
  qed
qed simp

lemma schedule_effect:
  assumes "co_inv co" "queue_order co order"
  shows "if candidates_of P W order snapshot co h = []
    then \<exists>co' h'. schedule P W order snapshot co h = (Inr co', h') \<and> co_inv co' \<and> same_jobs co co' \<and> woken h' = woken h
    else \<exists>c \<in> set (candidates_of P W order snapshot co h).
      (\<forall>c' \<in> set (candidates_of P W order snapshot co h). snd c' \<le> snd c) \<and>
      releases co (unit_uid (fst c)) h (schedule P W order snapshot co h)"
proof -
  obtain t qo co1 where n: "nextQueueToSchedule co order = ((t, qo), co1)" by (metis surj_pair)
  note n' = next_queue_effect [OF assms n]
  show ?thesis
  proof (cases qo)
    case None
    with n n' show ?thesis by (simp add: candidates_of_def schedule_def)
  next
    case (Some q)
    obtain cands co2 h2 where l: "schedule_loop P W t (drain (iter (snapshot q))) [] co1 h = (cands, co2, h2)"
      by (metis surj_pair)
    note l' = loop_effect [OF n'(1) l]
    have c: "candidates_of P W order snapshot co h = cands" by (simp add: candidates_of_def n Some l)
    have same: "same_jobs co co2" using l' n'(2) same_jobs_trans by blast
    show ?thesis
    proof (cases "cands = []")
      case True
      with l' same show ?thesis by (simp add: c schedule_def n Some l)
    next
      case False
      then obtain x h3 where x: "selectQueueUnit W cands h2 = (Inr x, h3)" "x \<in> set cands"
        "\<forall>c' \<in> set cands. snd c' \<le> snd x" "woken h3 = woken h2" using select_max by blast
      obtain aqs h4 where d: "run_pre_dequeue (pl_PreDequeue P) (fst x) (co_assumed co2) h3 = (aqs, h4)" by fastforce
      have "woken h4 = woken h" using run_pre_dequeue_woken [of "pl_PreDequeue P" "fst x" "co_assumed co2" h3] x l' by (simp add: d)
      then have "releases co (unit_uid (fst x)) h (Dequeue W (unit_uid (fst x)) (co2\<lparr>co_assumed := aqs\<rparr>) h4)"
        using l' same by (intro dequeue_releases) simp_all
      moreover have "schedule P W order snapshot co h = Dequeue W (unit_uid (fst x)) (co2\<lparr>co_assumed := aqs\<rparr>) h4"
        by (simp add: schedule_def n Some l False x d)
      ultimately show ?thesis using x False by (auto simp: c)
    qed
  qed
qed

lemma candidates_origin:
  assumes "co_inv co" "queue_order co order" "c \<in> set (candidates_of P W order snapshot co h)"
  shows "\<exists>t q qu. map_of (co_queues co) t = Some q \<and> qu \<in> set (snapshot q) \<and> qu_Object (fst c) = qu_Object qu \<and> qu_Owner qu \<noteq> None"
proof -
  obtain t qo co1 where n: "nextQueueToSchedule co order = ((t, qo), co1)" by (metis surj_pair)
  note n' = next_queue_effect [OF assms(1,2) n]
  from assms(3) n obtain q where qo: "qo = Some q" by (cases qo) (auto simp: candidates_of_def)
  obtain cands co2 h2 where l: "schedule_loop P W t (drain (iter (snapshot q))) [] co1 h = (cands, co2, h2)" by (metis surj_pair)
  have "candidates_of P W order snapshot co h = cands" by (simp add: candidates_of_def n qo l)
  with loop_effect [OF n'(1) l] assms(3) n'(4) [OF qo] show ?thesis by (fastforce simp: drain_iter)
qed

end

subsection \<open>The plugins of the repository\<close>

lemma expired_woken: "woken (snd (expired W aq h)) = woken h"
  by (auto simp: expired_def retrieveLatestStatus_def split: sum.splits)

lemma invalidate_woken: "woken (snd (invalidate_loop W aqs h)) = woken h"
proof (induction aqs arbitrary: h)
  case (Cons x aqs)
  obtain key aq where x: "x = (key, aq)" by (cases x)
  obtain gone h1 where e: "expired W aq h = (gone, h1)" by fastforce
  with expired_woken [of W aq h] have "woken h1 = woken h" by simp
  with Cons.IH [of h1] show ?case by (cases "invalidate_loop W aqs h1") (simp add: x e)
qed simp

lemma filter_quotas_woken: "woken (snd (snd (filter_quotas W qu rqs aqs h))) = woken h"
proof (induction W qu rqs aqs h rule: filter_quotas.induct)
  case (2 W qu rq rqs aqs h)
  obtain available exceed where av: "availableQuota (out_quota W) rq = (available, exceed)" by fastforce
  obtain a aqs1 h1 where acc: "accumulateAssumedQuota W aqs (qu_Tenant qu) h = (a, aqs1, h1)" by (metis surj_pair)
  have "woken h1 = woken h" using invalidate_woken [of W "aqs (qu_Tenant qu)" h] acc
    by (auto simp: accumulateAssumedQuota_def invalidateAssumedQuotas_def Let_def split: prod.splits)
  with 2 [OF av [symmetric] refl _ acc [symmetric] refl refl] show ?case by (simp add: av acc Let_def)
qed simp

lemma quota_Filter_woken: "woken (snd (snd (quota_Filter W qu aqs h))) = woken h"
  by (simp add: quota_Filter_def filter_quotas_woken Let_def split: sum.split)

lemma priority_Score_keeps:
  "woken (snd (snd (priority_Score W qu h))) = woken h \<and> qu_Object (fst (snd (priority_Score W qu h))) = qu_Object qu"
  by (auto simp: priority_Score_def PopulatePriorityValue_def Let_def split: option.splits sum.splits prod.splits)

lemma check_of_woken: "f \<in> set (check_of W point pg) \<Longrightarrow> woken (snd (snd (f qu aqs h))) = woken h"
  by (auto simp: check_of_def quota_Filter_woken quota_PreDequeue_def split: plugin.splits extension_point.splits)

interpretation configured: quiet_plugins "configure W registry cfg"
proof
  show "qu_Object (snd (pl_Tenant (configure W registry cfg) qu)) = qu_Object qu" for qu
    by (simp add: configure_def TenantName_def Let_def split: option.splits)
  show "woken (snd (snd (f qu h))) = woken h" "qu_Object (fst (snd (f qu h))) = qu_Object qu"
    if "f \<in> set (pl_Score (configure W registry cfg))" for f qu h
    using that priority_Score_keeps by (auto simp: configure_def score_of_def split: plugin.splits)
qed (auto simp: configure_def dest: check_of_woken)

end
