(* ===== verification/Coord_Events.thy ===== *)
theory Coord_Events
  imports Coordinator Event_Handlers
begin

text \<open>
  How jobs reach the coordinator: the predicates of the job watch
  (\<open>pkg/job_controller/eventhandler_helpers.go\<close>) and the event handler that keeps the events
  of waiting jobs from the work queue (\<open>pkg/jobcoordinator/eventhandler/eventhandler.go\<close>). The
  flag \<open>enabled\<close> says that the feature gate is on and a coordinator is set.
\<close>

subsection \<open>The event handler\<close>

definition add_request :: "string \<Rightarrow> job_meta \<Rightarrow> hist \<Rightarrow> hist" where
  "add_request owner job h = emit (WorkqueueAdd owner (jm_Namespace job) (jm_Name job)) h"

definition shouldSetOwnerQueueAndBreak :: "bool \<Rightarrow> string \<Rightarrow> coordinator \<Rightarrow> go_error + bool" where
  "shouldSetOwnerQueueAndBreak enabled uid co = (if enabled then IsQueuing uid co else Inr False)"

definition handle_Create :: "bool \<Rightarrow> job_meta option \<Rightarrow> string \<Rightarrow> coordinator \<Rightarrow> hist \<Rightarrow> coordinator res" where
  "handle_Create enabled obj owner co h =
     (case obj of
        None \<Rightarrow> (Inr co, h)
      | Some job \<Rightarrow>
          (case shouldSetOwnerQueueAndBreak enabled (jm_UID job) co of
             Inl e \<Rightarrow> (Inl e, h)
           | Inr b \<Rightarrow>
               if b then (SetQueueUnitOwner (jm_UID job) owner co, h) else (Inr co, add_request owner job h)))"

definition handle_Update :: "bool \<Rightarrow> job_meta option \<Rightarrow> string \<Rightarrow> coordinator \<Rightarrow> hist \<Rightarrow> coordinator res" where
  "handle_Update enabled objNew owner co h =
     (case objNew of
        None \<Rightarrow> (Inr co, h)
      | Some job \<Rightarrow>
          (case shouldSetOwnerQueueAndBreak enabled (jm_UID job) co of
             Inl e \<Rightarrow> (Inl e, h)
           | Inr b \<Rightarrow>
               if b then (SetQueueUnitOwner (jm_UID job) owner co, h) else (Inr co, add_request owner job h)))"

definition handle_Delete :: "outside \<Rightarrow> bool \<Rightarrow> job_meta option \<Rightarrow> string \<Rightarrow> coordinator \<Rightarrow> hist \<Rightarrow> coordinator res" where
  "handle_Delete W enabled obj owner co h =
     (case obj of
        None \<Rightarrow> (Inr co, h)
      | Some job \<Rightarrow>
          andThen (if enabled then Dequeue W (jm_UID job) co h else (Inr co, h))
            (\<lambda>co1 h1. (Inr co1, add_request owner job h1)))"

definition handle_Generic :: "outside \<Rightarrow> bool \<Rightarrow> job_meta option \<Rightarrow> string \<Rightarrow> coordinator \<Rightarrow> hist \<Rightarrow> coordinator res" where
  "handle_Generic W enabled obj owner co h =
     (case obj of
        None \<Rightarrow> (Inr co, h)
      | Some job \<Rightarrow>
          andThen
            (if enabled
             then (case IsQueuing (jm_UID job) co of
                     Inl e \<Rightarrow> (Inl e, h)
                   | Inr b \<Rightarrow> if b then (SetQueueUnitOwner (jm_UID job) owner co, h) else Dequeue W (jm_UID job) co h)
             else (Inr co, h))
            (\<lambda>co1 h1. (Inr co1, add_request owner job h1)))"

subsection \<open>The predicates of the job watch\<close>

text \<open>
  What \<open>fieldExtractFunc\<close> takes from a job. \<open>dflt\<close> is \<open>scheme.Default\<close>, which
  fills in missing fields. The predicates always return true.
\<close>

record job_fields =
  jf_Meta :: job_meta
  jf_Replicas :: replica_specs
  jf_Status :: JobStatus
  jf_Policy :: "SchedulingPolicy option"

definition to_unit :: "outside \<Rightarrow> job_fields \<Rightarrow> queue_unit" where
  "to_unit W jf = ToQueueUnit (out_quota W) (jf_Meta jf) (jf_Replicas jf) (jf_Status jf) (jf_Policy jf)"

definition OnOwnerCreateFunc ::
    "plugins \<Rightarrow> outside \<Rightarrow> (job_fields \<Rightarrow> job_fields) \<Rightarrow> bool \<Rightarrow> job_fields \<Rightarrow> coordinator \<Rightarrow> hist \<Rightarrow>
     (bool \<times> job_fields \<times> coordinator) res" where
  "OnOwnerCreateFunc P W dflt enabled obj co h =
     (let jf = dflt obj;
          msg = ''Job '' @ jm_Kind (jf_Meta jf) @ ''/'' @ jm_Name (jf_Meta jf) @ '' is created.'';
          st = UpdateJobConditions (out_now W h) (jf_Status jf) JobCreated JobCreatedReason msg;
          jf1 = jf\<lparr>jf_Status := st\<rparr>
      in if enabled \<and> NeedEnqueueToCoordinator st
         then andThen (EnqueueOrUpdate P W (to_unit W jf1) co h) (\<lambda>co1 h1. (Inr (True, jf1, co1), h1))
         else (Inr (True, jf1, co), h))"

definition OnOwnerUpdateFunc ::
    "plugins \<Rightarrow> outside \<Rightarrow> (job_fields \<Rightarrow> job_fields) \<Rightarrow> bool \<Rightarrow> job_fields \<Rightarrow> job_fields \<Rightarrow> coordinator \<Rightarrow> hist \<Rightarrow>
     (bool \<times> coordinator) res" where
  "OnOwnerUpdateFunc P W dflt enabled objOld objNew co h =
     (let old = dflt objOld; new = dflt objNew in
      if \<not> enabled then (Inr (True, co), h)
      else if NeedEnqueueToCoordinator (jf_Status new)
      then (if map_of (jf_Replicas old) \<noteq> map_of (jf_Replicas new) \<or> jf_Policy old \<noteq> jf_Policy new
            then andThen (EnqueueOrUpdate P W (to_unit W new) co h) (\<lambda>co1 h1. (Inr (True, co1), h1))
            else (Inr (True, co), h))
      else (case IsQueuing (jm_UID (jf_Meta new)) co of
              Inl e \<Rightarrow> (Inl e, h)
            | Inr b \<Rightarrow>
                if b then andThen (Dequeue W (jm_UID (jf_Meta new)) co h) (\<lambda>co1 h1. (Inr (True, co1), h1))
                else (Inr (True, co), h)))"

definition OnOwnerDeleteFunc :: "outside \<Rightarrow> job_fields \<Rightarrow> hist \<Rightarrow> bool \<times> hist" where
  "OnOwnerDeleteFunc W jf h = (True, DeleteExpectations W (jf_Meta jf) (jf_Replicas jf) h)"

subsection \<open>What the handlers do\<close>

lemma handle_waiting:
  assumes "co_inv co" "co_index co (jm_UID job) \<noteq> None"
  shows "\<exists>co' qu. handle_Create True (Some job) owner co h = (Inr co', h) \<and> handle_Update True (Some job) owner co h = (Inr co', h) \<and>
    co_inv co' \<and> co_index co' = co_index co \<and> queued_unit co' (jm_UID job) = Some qu \<and> qu_Owner qu = Some owner"
proof -
  obtain co' where co': "SetQueueUnitOwner (jm_UID job) owner co = Inr co'" "co_inv co'" "co_index co' = co_index co"
    "\<forall>qu. queued_unit co (jm_UID job) = Some qu \<longrightarrow> queued_unit co' (jm_UID job) = Some (qu\<lparr>qu_Owner := Some owner\<rparr>)"
    using set_owner_effect [OF assms(1)] by blast
  obtain qu where "queued_unit co (jm_UID job) = Some qu"
    using queued_unit_indexed [OF assms(1), of "jm_UID job"] assms(2) by auto
  with co' assms show ?thesis
    by (simp add: handle_Create_def handle_Update_def shouldSetOwnerQueueAndBreak_def is_queuing)
qed

lemma new_job_enqueued:
  "Conditions st = [] \<Longrightarrow> NeedEnqueueToCoordinator (UpdateJobConditions now st JobCreated reason msg)"
  by (simp add: NeedEnqueueToCoordinator_def IsJustCreated_def GetLastCondition_def UpdateJobConditions_def setCondition_def
      is_defs HasCondition_def GetCondition_def newCondition_def)

end
