(* ===== verification/Coord_Contract.thy ===== *)
theory Coord_Contract
  imports Coord_Events
begin

text \<open>
  What the job coordinator promises: seen from outside it is a set of waiting jobs, every job
  leaves it through exactly one request on its work queue, and each scheduling cycle releases the
  best candidate of one queue.
\<close>

subsection \<open>Simulation\<close>

fun run_ops :: "('op \<Rightarrow> 's \<Rightarrow> 's option) \<Rightarrow> 'op list \<Rightarrow> 's \<Rightarrow> 's option" where
  "run_ops step [] s = Some s"
| "run_ops step (op # ops) s = (case step op s of None \<Rightarrow> None | Some s' \<Rightarrow> run_ops step ops s')"

fun abstract_run :: "('op \<Rightarrow> 'a \<Rightarrow> 'a \<Rightarrow> bool) \<Rightarrow> 'op list \<Rightarrow> 'a \<Rightarrow> 'a \<Rightarrow> bool" where
  "abstract_run astep [] a a' \<longleftrightarrow> a' = a"
| "abstract_run astep (op # ops) a a' \<longleftrightarrow> (\<exists>b. astep op a b \<and> abstract_run astep ops b a')"

locale simulation =
  fixes inv :: "'s \<Rightarrow> bool" and abs :: "'s \<Rightarrow> 'a" and step :: "'op \<Rightarrow> 's \<Rightarrow> 's option"
    and astep :: "'op \<Rightarrow> 'a \<Rightarrow> 'a \<Rightarrow> bool"
  assumes simulates: "inv s \<Longrightarrow> step op s = Some s' \<Longrightarrow> inv s' \<and> astep op (abs s) (abs s')"
begin

lemma run_simulates:
  "inv s \<Longrightarrow> run_ops step ops s = Some s' \<Longrightarrow> inv s' \<and> abstract_run astep ops (abs s) (abs s')"
proof (induction ops arbitrary: s)
  case (Cons op ops)
  then obtain s1 where s1: "step op s = Some s1" "run_ops step ops s1 = Some s'" by (auto split: option.splits)
  with Cons.IH simulates [OF Cons.prems(1)] show ?case by fastforce
qed simp

end

subsection \<open>The waiting set\<close>

datatype co_op =
    Op_Enqueue queue_unit
  | Op_Dequeue string
  | Op_SetOwner string string
  | Op_Schedule "string list" "queue \<Rightarrow> queue_unit list"

definition succeeded_with :: "coordinator res \<Rightarrow> (coordinator \<times> hist) option" where
  "succeeded_with r = (case fst r of Inl e \<Rightarrow> None | Inr co \<Rightarrow> Some (co, snd r))"

text \<open>A step has no successor if the process panics, or if the given order is none of the map.\<close>

fun co_step :: "plugins \<Rightarrow> outside \<Rightarrow> co_op \<Rightarrow> coordinator \<times> hist \<Rightarrow> (coordinator \<times> hist) option" where
  "co_step P W (Op_Enqueue qu) (co, h) = succeeded_with (EnqueueOrUpdate P W qu co h)"
| "co_step P W (Op_Dequeue uid) (co, h) = succeeded_with (Dequeue W uid co h)"
| "co_step P W (Op_SetOwner uid owner) (co, h) = succeeded_with (SetQueueUnitOwner uid owner co, h)"
| "co_step P W (Op_Schedule order snapshot) (co, h) =
     (if queue_order co order then succeeded_with (schedule P W order snapshot co h) else None)"

text \<open>
  The abstract state: the jobs that wait, by their identity, with the work queue that owns each of them,
  if it is known yet, and the namespace and name of the job; and the requests put on work queues so far.
\<close>

type_synonym waiting_job = "string option \<times> string \<times> string"

type_synonym waiting_room = "(string \<Rightarrow> waiting_job option) \<times> (string \<times> string \<times> string) list"

definition job_of :: "queue_unit \<Rightarrow> waiting_job" where
  "job_of qu = (qu_Owner qu, jm_Namespace (qu_Object qu), jm_Name (qu_Object qu))"

text \<open>A job leaves with one request for it on the work queue that owns it.\<close>

definition leaves :: "string \<Rightarrow> waiting_room \<Rightarrow> waiting_room \<Rightarrow> bool" where
  "leaves uid a b \<longleftrightarrow>
     (case fst a uid of
        None \<Rightarrow> b = a
      | Some (None, ns, name) \<Rightarrow> False
      | Some (Some owner, ns, name) \<Rightarrow> b = ((fst a)(uid := None), snd a @ [(owner, ns, name)]))"

fun wait_step :: "co_op \<Rightarrow> waiting_room \<Rightarrow> waiting_room \<Rightarrow> bool" where
  "wait_step (Op_Enqueue qu) a b \<longleftrightarrow> b = ((fst a)(unit_uid qu \<mapsto> job_of qu), snd a)"
| "wait_step (Op_Dequeue uid) a b \<longleftrightarrow> leaves uid a b"
| "wait_step (Op_SetOwner uid owner) a b \<longleftrightarrow>
     b = (case fst a uid of None \<Rightarrow> fst a | Some (_, job) \<Rightarrow> (fst a)(uid \<mapsto> (Some owner, job)), snd a)"
| "wait_step (Op_Schedule order snapshot) a b \<longleftrightarrow> b = a \<or> (\<exists>uid. leaves uid a b)"

definition waiting_jobs :: "coordinator \<Rightarrow> string \<Rightarrow> waiting_job option" where
  "waiting_jobs co uid = map_option job_of (queued_unit co uid)"

fun waiting_of :: "coordinator \<times> hist \<Rightarrow> waiting_room" where
  "waiting_of (co, h) = (waiting_jobs co, woken h)"

lemma succeeded_withD: "succeeded_with r = Some (co', h') \<Longrightarrow> r = (Inr co', h')"
  by (cases r) (auto simp: succeeded_with_def split: sum.splits)

lemma job_of_same:
  assumes "map_option (\<lambda>qu. (qu_Owner qu, qu_Object qu)) x = map_option (\<lambda>qu. (qu_Owner qu, qu_Object qu)) y"
  shows "map_option job_of x = map_option job_of y"
proof -
  have "map_option job_of z = map_option (\<lambda>(owner, job). (owner, jm_Namespace job, jm_Name job))
      (map_option (\<lambda>qu. (qu_Owner qu, qu_Object qu)) z)" for z
    by (simp add: option.map_comp o_def job_of_def [abs_def])
  with assms show ?thesis by simp
qed

lemma same_jobs_waiting: "same_jobs co co' \<Longrightarrow> waiting_jobs co' = waiting_jobs co"
  by (rule ext) (auto simp: waiting_jobs_def same_jobs_def intro: job_of_same)

lemma same_others_waiting: "same_others uid co co' \<Longrightarrow> u \<noteq> uid \<Longrightarrow> waiting_jobs co' u = waiting_jobs co u"
  by (auto simp: waiting_jobs_def same_others_def intro: job_of_same)

lemma releases_wait:
  assumes "co_inv co" "releases co uid h (Inr co', h')"
  shows "co_inv co' \<and> leaves uid (waiting_of (co, h)) (waiting_of (co', h'))"
proof (cases "queued_unit co uid")
  case None
  with assms(2) have "co_inv co'" "same_jobs co co'" "woken h' = woken h" by (auto simp: releases_def)
  with None same_jobs_waiting show ?thesis by (simp add: leaves_def waiting_jobs_def [of co uid])
next
  case (Some qu)
  then obtain owner where owner: "qu_Owner qu = Some owner" using assms(2) by (cases "qu_Owner qu") (auto simp: releases_def)
  with Some assms(2) have r: "co_inv co'" "co_index co' = (co_index co)(uid := None)"
    "woken h' = woken h @ [request_of owner qu]" "same_others uid co co'" by (auto simp: releases_def)
  have "waiting_jobs co' = (waiting_jobs co)(uid := None)"
    using same_others_waiting [OF r(4)] queued_unit_indexed [OF r(1), of uid] r(2)
    by (auto simp: waiting_jobs_def [of co' uid] intro!: ext)
  with Some owner r show ?thesis
    by (simp add: leaves_def job_of_def request_of_def waiting_jobs_def [of co uid])
qed

lemma dequeue_wait:
  assumes "co_inv co" "Dequeue W uid co h = (Inr co', h')"
  shows "co_inv co' \<and> leaves uid (waiting_of (co, h)) (waiting_of (co', h'))"
  using releases_wait [OF assms(1)] dequeue_releases [OF assms(1) same_jobs_refl refl] assms(2) by metis

text \<open>A job cannot be dequeued, that is, the process panics, as long as no work queue owns it.\<close>

lemma dequeue_panics:
  assumes "co_inv co"
  shows "isl (fst (Dequeue W uid co h)) \<longleftrightarrow> (\<exists>ns name. waiting_jobs co uid = Some (None, ns, name))"
  using dequeue_effect [OF assms, where uid = uid and W = W and h = h]
  by (cases "queued_unit co uid") (auto simp: waiting_jobs_def job_of_def split: option.splits)

lemma schedule_wait:
  assumes "co_inv co" "queue_order co order" "schedule (configure W registry cfg) W order snapshot co h = (Inr co', h')"
  shows "co_inv co' \<and> wait_step (Op_Schedule order snapshot) (waiting_of (co, h)) (waiting_of (co', h'))"
proof (cases "candidates_of (configure W registry cfg) W order snapshot co h = []")
  case True
  with configured.schedule_effect [OF assms(1,2), of W registry cfg W snapshot h] assms
  show ?thesis by (auto dest: same_jobs_waiting)
next
  case False
  then obtain uid where "releases co uid h (Inr co', h')"
    using configured.schedule_effect [OF assms(1,2), of W registry cfg W snapshot h] assms(3) by auto
  from releases_wait [OF assms(1) this] show ?thesis by auto
qed

lemma waiting_queuing: "co_inv co \<Longrightarrow> IsQueuing uid co = Inr (waiting_jobs co uid \<noteq> None)"
  using queued_unit_indexed [of co uid] by (auto simp: is_queuing waiting_jobs_def)

interpretation waiting: simulation "\<lambda>(co, h). co_inv co" waiting_of "co_step (configure W registry cfg) W" wait_step
proof
  fix s op s'
  assume inv: "case s of (co, h) \<Rightarrow> co_inv co" and step: "co_step (configure W registry cfg) W op s = Some s'"
  obtain co h co' h' where s: "s = (co, h)" "s' = (co', h')" by (metis surj_pair)
  with inv have i: "co_inv co" by simp
  have "co_inv co' \<and> wait_step op (waiting_of (co, h)) (waiting_of (co', h'))"
  proof (cases op)
    case (Op_Enqueue qu)
    then have e: "EnqueueOrUpdate (configure W registry cfg) W qu co h = (Inr co', h')"
      using step succeeded_withD by (simp add: s)
    have keep: "unit_uid (snd (pl_Tenant (configure W registry cfg) qu)) = unit_uid qu" by (simp add: configured.tenant_object)
    have owner: "qu_Owner (snd (pl_Tenant (configure W registry cfg) qu)) = qu_Owner qu"
      by (simp add: configure_def TenantName_def Let_def split: option.split)
    from enqueue_effect [where W = W and h = h, OF i keep] e have inv': "co_inv co'" by auto
    from enqueue_units [OF e keep] owner obtain qu' where q: "queued_unit co' = (queued_unit co)(unit_uid qu \<mapsto> qu')"
      "job_of qu' = job_of qu" by (auto simp: job_of_def configured.tenant_object)
    have "waiting_jobs co' = (waiting_jobs co)(unit_uid qu \<mapsto> job_of qu)"
      by (rule ext) (simp add: waiting_jobs_def q)
    moreover have "woken h' = woken h" using enqueue_woken [of "configure W registry cfg" W qu co h] e by simp
    ultimately show ?thesis using inv' Op_Enqueue by simp
  next
    case (Op_Dequeue uid)
    then have "Dequeue W uid co h = (Inr co', h')" using step succeeded_withD by (simp add: s)
    with dequeue_wait [OF i] Op_Dequeue show ?thesis by simp
  next
    case (Op_SetOwner uid owner)
    then have o: "SetQueueUnitOwner uid owner co = Inr co'" "h' = h" using step succeeded_withD by (fastforce simp: s)+
    from set_owner_effect [OF i, of uid owner] o have inv': "co_inv co'"
      and q: "\<forall>qu. queued_unit co uid = Some qu \<longrightarrow> queued_unit co' uid = Some (qu\<lparr>qu_Owner := Some owner\<rparr>)"
        "\<forall>u. u \<noteq> uid \<longrightarrow> queued_unit co' u = queued_unit co u" and idx: "co_index co' = co_index co" by auto
    have "waiting_jobs co' = (case waiting_jobs co uid of None \<Rightarrow> waiting_jobs co
        | Some (_, job) \<Rightarrow> (waiting_jobs co)(uid \<mapsto> (Some owner, job)))"
    proof (cases "queued_unit co uid")
      case None
      then have "queued_unit co' uid = None" using queued_unit_indexed [OF i] queued_unit_indexed [OF inv'] idx by simp
      with q(2) None have "queued_unit co' = queued_unit co" by (intro ext) metis
      with None show ?thesis by (simp add: waiting_jobs_def fun_eq_iff)
    next
      case (Some qu)
      with q show ?thesis by (auto simp: waiting_jobs_def job_of_def fun_eq_iff)
    qed
    with inv' o(2) Op_SetOwner show ?thesis by (simp split: option.split)
  next
    case (Op_Schedule order snapshot)
    then have "queue_order co order" "schedule (configure W registry cfg) W order snapshot co h = (Inr co', h')"
      using step succeeded_withD by (auto simp: s split: if_splits)
    with schedule_wait [OF i] Op_Schedule show ?thesis by simp
  qed
  with s show "(case s' of (co, h) \<Rightarrow> co_inv co) \<and> wait_step op (waiting_of s) (waiting_of s')" by simp
qed

text \<open>
  C18. The coordinator implements a set of waiting jobs: however its operations are interleaved,
  enqueuing adds a job, naming its work queue changes only that, and dequeuing and scheduling let at
  most one job leave, with exactly one request for it, by its namespace and name, on the work queue that
  owns it; all other jobs stay as they are. Asking whether a job waits answers by this set. Runs in which
  an operation panics are not covered; in a state that is reached, dequeuing panics exactly for a waiting
  job that no work queue owns.
\<close>

theorem coordinator_refines_waiting_set:
  assumes "run_ops (co_step (configure W registry cfg) W) ops (NewCoordinator, []) = Some (co, h)"
  shows "abstract_run wait_step ops (\<lambda>uid. None, []) (waiting_jobs co, woken h) \<and>
    (\<forall>uid. IsQueuing uid co = Inr (waiting_jobs co uid \<noteq> None)) \<and>
    (\<forall>uid. isl (fst (Dequeue W uid co h)) \<longleftrightarrow> (\<exists>ns name. waiting_jobs co uid = Some (None, ns, name)))"
proof -
  have "waiting_of (NewCoordinator, []) = (\<lambda>uid. None, [])"
    by (simp add: waiting_jobs_def queued_unit_def NewCoordinator_def fun_eq_iff)
  moreover from waiting.run_simulates [OF _ assms] co_inv_new
  have "co_inv co" "abstract_run wait_step ops (waiting_of (NewCoordinator, [])) (waiting_jobs co, woken h)" by auto
  ultimately show ?thesis using waiting_queuing dequeue_panics by simp
qed

subsection \<open>One cycle\<close>

text \<open>
  C19. A scheduling cycle releases the best candidate: without a candidate nothing changes for the
  waiting jobs; otherwise the cycle chooses a candidate of maximal score and, if the coordinator
  has a unit of this job, takes it out, wakes up the job with one request on its work queue and
  leaves all other jobs waiting. It panics exactly if that unit has no work queue.
\<close>

theorem schedule_picks_best:
  assumes "co_inv co" "queue_order co order"
    and "P = configure W registry cfg" "cands = candidates_of P W order snapshot co h"
    and "schedule P W order snapshot co h = (r, h')"
  shows "if cands = [] then \<exists>co'. r = Inr co' \<and> co_inv co' \<and> co_index co' = co_index co \<and> woken h' = woken h
    else \<exists>qu score. (qu, score) \<in> set cands \<and> (\<forall>c \<in> set cands. snd c \<le> score) \<and>
      (case queued_unit co (unit_uid qu) of
         None \<Rightarrow> \<exists>co'. r = Inr co' \<and> co_inv co' \<and> co_index co' = co_index co \<and> woken h' = woken h
       | Some stored \<Rightarrow>
           (case qu_Owner stored of
              None \<Rightarrow> r = Inl (Panic ''nil Owner'')
            | Some owner \<Rightarrow>
                \<exists>co'. r = Inr co' \<and> co_inv co' \<and> co_index co' = (co_index co)(unit_uid qu := None) \<and>
                  woken h' = woken h @ [(owner, jm_Namespace (qu_Object stored), jm_Name (qu_Object stored))]))"
proof (cases "cands = []")
  case True
  with configured.schedule_effect [OF assms(1,2), of W registry cfg W snapshot h] assms(3-5)
  show ?thesis by (auto simp: same_jobs_def)
next
  case False
  with configured.schedule_effect [OF assms(1,2), of W registry cfg W snapshot h] assms(3-5)
  obtain qu score where c: "(qu, score) \<in> set cands" "\<forall>c \<in> set cands. snd c \<le> score"
    and rel: "releases co (unit_uid qu) h (r, h')" by fastforce
  have "case queued_unit co (unit_uid qu) of
         None \<Rightarrow> \<exists>co'. r = Inr co' \<and> co_inv co' \<and> co_index co' = co_index co \<and> woken h' = woken h
       | Some stored \<Rightarrow>
           (case qu_Owner stored of
              None \<Rightarrow> r = Inl (Panic ''nil Owner'')
            | Some owner \<Rightarrow>
                \<exists>co'. r = Inr co' \<and> co_inv co' \<and> co_index co' = (co_index co)(unit_uid qu := None) \<and>
                  woken h' = woken h @ [(owner, jm_Namespace (qu_Object stored), jm_Name (qu_Object stored))])"
    using rel by (auto simp: releases_def request_of_def same_jobs_def split: option.splits)
  with False c show ?thesis by (simp only: if_False) blast
qed

text \<open>Every unit in a queue is known to the index, as long as no job has changed its tenant.\<close>

definition co_tight :: "coordinator \<Rightarrow> bool" where
  "co_tight co \<longleftrightarrow>
     (\<forall>(t, q) \<in> set (co_queues co). \<forall>(uid, qu) \<in> set (q_units q). co_index co uid = Some t)"

lemma snapshot_unit:
  assumes "co_inv co" "co_tight co" "map_of (co_queues co) t = Some q" "snapshot_of q view" "qu \<in> set view"
  shows "queued_unit co (unit_uid qu) = Some qu"
proof -
  have wf: "q_wf q" using co_inv_queue [OF assms(1,3)] .
  have "qu \<in> snd ` set (q_units q)" using assms(4,5) by (metis image_set set_mset_mset snapshot_of_def)
  then obtain uid where u: "(uid, qu) \<in> set (q_units q)" by auto
  with wf have uid: "unit_uid qu = uid" by (auto simp: q_wf_def list_all_iff)
  have "co_index co uid = Some t" using assms(2) map_of_SomeD [OF assms(3)] u by (auto simp: co_tight_def)
  moreover have "q_get q uid = Some qu" using wf u by (simp add: q_get_def q_wf_def)
  ultimately show ?thesis using assms(3) uid by (simp add: queued_unit_def)
qed

text \<open>
  A cycle makes progress: if no job has changed its tenant, a cycle with a candidate always
  takes exactly one waiting job out of the queues and wakes it up, and it never panics.
\<close>

theorem schedule_progress:
  assumes "co_inv co" "co_tight co" "queue_order co order" "\<forall>(t, q) \<in> set (co_queues co). snapshot_of q (snapshot q)"
    and "P = configure W registry cfg" "candidates_of P W order snapshot co h \<noteq> []"
  shows "\<exists>uid co' h' owner ns name. schedule P W order snapshot co h = (Inr co', h') \<and> co_inv co' \<and>
    IsQueuing uid co = Inr True \<and> IsQueuing uid co' = Inr False \<and> (\<forall>uid'. uid' \<noteq> uid \<longrightarrow> IsQueuing uid' co' = IsQueuing uid' co) \<and>
    woken h' = woken h @ [(owner, ns, name)]"
proof -
  let ?c = "candidates_of P W order snapshot co h"
  obtain r h' where s: "schedule P W order snapshot co h = (r, h')" by fastforce
  from configured.schedule_effect [OF assms(1,3), of W registry cfg W snapshot h] assms(5,6) s
  obtain c where c: "c \<in> set ?c" "releases co (unit_uid (fst c)) h (r, h')" by auto
  obtain t q qu where q: "map_of (co_queues co) t = Some q" "qu \<in> set (snapshot q)" "qu_Object (fst c) = qu_Object qu" "qu_Owner qu \<noteq> None"
    using configured.candidates_origin [OF assms(1,3)] c(1) assms(5) by blast
  have "snapshot_of q (snapshot q)" using assms(4) map_of_SomeD [OF q(1)] by blast
  from snapshot_unit [OF assms(1,2) q(1) this q(2)] q(3) have qu: "queued_unit co (unit_uid (fst c)) = Some qu" by simp
  then have idx: "co_index co (unit_uid (fst c)) \<noteq> None" using queued_unit_indexed [OF assms(1), of "unit_uid (fst c)"] by simp
  obtain owner where "qu_Owner qu = Some owner" using q(4) by blast
  with c(2) qu obtain co' where "r = Inr co'" "co_inv co'" "co_index co' = (co_index co)(unit_uid (fst c) := None)"
    "woken h' = woken h @ [request_of owner qu]" by (auto simp: releases_def)
  with s idx assms(1) show ?thesis
    by (intro exI [of _ "unit_uid (fst c)"] exI [of _ co'] exI [of _ h'] exI [of _ owner] exI [of _ "jm_Namespace (qu_Object qu)"]
        exI [of _ "jm_Name (qu_Object qu)"]) (auto simp: is_queuing request_of_def)
qed

text \<open>
  A unit that the index does not know blocks its queue: when every best candidate is such a
  unit, left behind by a job that has changed its tenant, the cycle wakes up no job and the jobs
  of the queue stay where they are.
\<close>

theorem stale_unit_blocks_queue:
  assumes "co_inv co" "queue_order co order" "P = configure W registry cfg" "cands = candidates_of P W order snapshot co h"
    and "cands \<noteq> []"
    and "\<forall>(qu, score) \<in> set cands. (\<forall>c \<in> set cands. snd c \<le> score) \<longrightarrow> IsQueuing (unit_uid qu) co = Inr False"
    and "schedule P W order snapshot co h = (r, h')"
  shows "\<exists>co'. r = Inr co' \<and> woken h' = woken h \<and> (\<forall>uid. IsQueuing uid co' = IsQueuing uid co)"
proof -
  from configured.schedule_effect [OF assms(1,2), of W registry cfg W snapshot h] assms(3-5,7)
  obtain c where c: "c \<in> set cands" "\<forall>c' \<in> set cands. snd c' \<le> snd c" "releases co (unit_uid (fst c)) h (r, h')" by auto
  obtain qu score where qs: "c = (qu, score)" by (cases c)
  have "(\<forall>c \<in> set cands. snd c \<le> score) \<longrightarrow> IsQueuing (unit_uid qu) co = Inr False"
    using assms(6) c(1) qs by blast
  with c(2) qs have "IsQueuing (unit_uid qu) co = Inr False" by simp
  then have "queued_unit co (unit_uid qu) = None"
    using queued_unit_indexed [OF assms(1), of "unit_uid qu"] by (simp add: is_queuing [OF assms(1)])
  with c(3) qs obtain co' where "r = Inr co'" "co_inv co'" "same_jobs co co'" "woken h' = woken h" by (auto simp: releases_def)
  with assms(1) show ?thesis by (auto simp: is_queuing same_jobs_def)
qed

subsection \<open>Concrete cycles\<close>

text \<open>A server with one quota that can be evaluated.\<close>

definition plain_world :: outside where
  "plain_world =
     \<lparr>out_get_pod = (\<lambda>h ns n. Inl NotFound), out_get_service = (\<lambda>h ns n. Inl NotFound),
      out_get_pod_group = (\<lambda>h ns n. Inl NotFound), out_list_pod_groups = (\<lambda>h ns n. Inr []),
      out_get_crr = (\<lambda>h ns n. Inl NotFound), out_get_cache = (\<lambda>h ns n. Inl NotFound),
      out_get_pvc = (\<lambda>h ns n. Some NotFound), out_get_model_version = (\<lambda>h ns n. Some NotFound),
      out_get_config_map = (\<lambda>h ns n. Some NotFound), out_get_cron = (\<lambda>h ns n. Inl NotFound), out_encode = (\<lambda>job. Inr []), out_list_quotas = (\<lambda>h ns. Inr [cpu_quota]),
      out_job_status = (\<lambda>h ns n. Inr status0), out_priority_class = (\<lambda>h n. Inl NotFound), out_write = (\<lambda>h c. None),
      out_patch_pod = (\<lambda>h p f. Inr p), out_patch_pod_meta = (\<lambda>h p as ls. Inr p), out_update_job = (\<lambda>h job specs. Inr (job, specs)),
      out_list_services = (\<lambda>h ns ls. Inr []), out_get_ingress = (\<lambda>h ns n. Inl NotFound),
      out_list_ingresses = (\<lambda>h ns ls. Inr []), out_list_pods = (\<lambda>h ns ls. Inr []), out_patch_job = (\<lambda>h job as. Inr job),
      out_go_order = (\<lambda>h ps. ps), out_satisfied = (\<lambda>h k. True), out_requeues = (\<lambda>h k. 0), out_rand = (\<lambda>h lo hi. lo),
      out_selector = (\<lambda>m. Inl Invalid), out_set_selector = (\<lambda>m ls. False), out_quota = quota0,
      out_key = (\<lambda>job. Inr (jm_Name job)), out_now = (\<lambda>h. 0), out_format_time = (\<lambda>t. []),
      out_parse_time = (\<lambda>s. Inr 0), out_restart_list = (\<lambda>s. None)\<rparr>"

definition ranked :: "int \<Rightarrow> queue_unit \<Rightarrow> queue_unit" where
  "ranked n qu = qu\<lparr>qu_Priority := Some n\<rparr>"

definition team_queue :: "queue_unit list \<Rightarrow> queue" where
  "team_queue us = \<lparr>q_name = ''team'', q_created = 0, q_units = map (\<lambda>u. (unit_uid u, u)) us\<rparr>"

definition co_of :: "queue_unit list \<Rightarrow> (string \<Rightarrow> string option) \<Rightarrow> coordinator" where
  "co_of us index =
     \<lparr>co_queues = [(''team'', team_queue us)], co_index = index, co_selector = NewRoundRobinSelector, co_assumed = (\<lambda>t. [])\<rparr>"

definition plain_plugins :: plugins where
  "plain_plugins = configure plain_world NewPluginsRegistry NewCoordinatorConfiguration"

abbreviation in_order :: "queue \<Rightarrow> queue_unit list" where
  "in_order q \<equiv> map snd (q_units q)"

definition index_ab :: "string \<Rightarrow> string option" where
  "index_ab uid = (if uid = ''a'' \<or> uid = ''b'' then Some ''team'' else None)"

definition co_ab :: coordinator where
  "co_ab = co_of [ranked 1 unit_a, ranked 5 unit_b] index_ab"

lemma cands_ab:
  "map (\<lambda>(qu, s). (unit_uid qu, s)) (candidates_of plain_plugins plain_world [''team''] in_order co_ab []) = [(''a'', 1), (''b'', 5)]"
  by code_simp

lemma co_of_inv:
  assumes "distinct (map unit_uid us)" "\<And>uid t. index uid = Some t \<Longrightarrow> t = ''team'' \<and> uid \<in> set (map unit_uid us)"
  shows "co_inv (co_of us index)" "queue_order (co_of us index) [''team'']"
    "\<forall>(t, q) \<in> set (co_queues (co_of us index)). snapshot_of q (in_order q)"
proof -
  have keys: "keys (map (\<lambda>u. (unit_uid u, u)) us) = map unit_uid us" by (simp add: o_def)
  have "q_wf (team_queue us)" using assms(1) keys by (auto simp: q_wf_def team_queue_def list_all_iff o_def)
  moreover have "q_exists (team_queue us) uid" if "uid \<in> set (map unit_uid us)" for uid
    using that by (force simp: q_exists_def team_queue_def map_of_eq_None_iff)
  ultimately show "co_inv (co_of us index)" using assms(2) by (auto simp: co_inv_def co_of_def)
  show "queue_order (co_of us index) [''team'']" by (simp add: queue_order_def co_of_def)
  show "\<forall>(t, q) \<in> set (co_queues (co_of us index)). snapshot_of q (in_order q)" by (simp add: snapshot_of_def)
qed

lemma unit_uid_simps [simp]: "unit_uid (unit_of name rs) = name" "unit_uid (ranked n qu) = unit_uid qu"
  by (simp_all add: unit_of_def job0_def ranked_def)

lemma co_ab_ok:
  "co_inv co_ab" "queue_order co_ab [''team'']" "\<forall>(t, q) \<in> set (co_queues co_ab). snapshot_of q (in_order q)"
  unfolding co_ab_def by (rule co_of_inv; auto simp: index_ab_def split: if_splits)+

lemma best_id:
  assumes "map (\<lambda>(qu, s). (unit_uid qu, s)) cands = ids" "(qu, score) \<in> set cands" "\<forall>c \<in> set cands. snd c \<le> score"
  shows "(unit_uid qu, score) \<in> set ids \<and> (\<forall>x \<in> set ids. snd x \<le> score)"
proof -
  have "set ids = (\<lambda>(qu, s). (unit_uid qu, s)) ` set cands" using assms(1) by auto
  with assms(2,3) show ?thesis by force
qed

theorem schedule_picks_best_witness:
  "\<exists>co'. fst (schedule plain_plugins plain_world [''team''] in_order co_ab []) = Inr co' \<and> IsQueuing ''b'' co' = Inr False \<and>
     woken (snd (schedule plain_plugins plain_world [''team''] in_order co_ab [])) = [(''tf'', ''default'', ''b'')]"
proof -
  let ?c = "candidates_of plain_plugins plain_world [''team''] in_order co_ab []"
  obtain r h' where s: "schedule plain_plugins plain_world [''team''] in_order co_ab [] = (r, h')" by fastforce
  have ne: "?c \<noteq> []" using cands_ab by auto
  note picks = schedule_picks_best [OF co_ab_ok(1,2) plain_plugins_def refl s, unfolded if_not_P [OF ne]]
  then obtain qu score where qs: "(qu, score) \<in> set ?c" "\<forall>c \<in> set ?c. snd c \<le> score"
    and eff: "case queued_unit co_ab (unit_uid qu) of
         None \<Rightarrow> \<exists>co'. r = Inr co' \<and> co_inv co' \<and> co_index co' = co_index co_ab \<and> woken h' = woken []
       | Some stored \<Rightarrow>
           (case qu_Owner stored of
              None \<Rightarrow> r = Inl (Panic ''nil Owner'')
            | Some owner \<Rightarrow>
                \<exists>co'. r = Inr co' \<and> co_inv co' \<and> co_index co' = (co_index co_ab)(unit_uid qu := None) \<and>
                  woken h' = woken [] @ [(owner, jm_Namespace (qu_Object stored), jm_Name (qu_Object stored))])" by blast
  have "unit_uid qu = ''b''" using best_id [OF cands_ab qs] by auto
  moreover have "queued_unit co_ab ''b'' = Some (ranked 5 unit_b)"
    by (simp add: queued_unit_def co_ab_def co_of_def index_ab_def team_queue_def q_get_def)
  ultimately obtain co' where "r = Inr co'" "co_inv co'" "co_index co' = (co_index co_ab)(''b'' := None)"
    "woken h' = [(''tf'', ''default'', ''b'')]"
    using eff by (auto simp: ranked_def unit_of_def job0_def)
  with s show ?thesis by (simp add: is_queuing)
qed

theorem schedule_progress_witness:
  "\<exists>uid co' h'. schedule plain_plugins plain_world [''team''] in_order co_ab [] = (Inr co', h') \<and>
     IsQueuing uid co_ab = Inr True \<and> IsQueuing uid co' = Inr False"
proof -
  have "co_tight co_ab" by (auto simp: co_tight_def co_ab_def co_of_def team_queue_def index_ab_def)
  have "candidates_of plain_plugins plain_world [''team''] in_order co_ab [] \<noteq> []" using cands_ab by auto
  from schedule_progress [OF co_ab_ok(1) \<open>co_tight co_ab\<close> co_ab_ok(2,3) plain_plugins_def this] show ?thesis by blast
qed

text \<open>
  A job with high priority that moved from one queue to another and was released there has left a
  unit behind; the other job of the old queue waits.
\<close>

definition co_stale :: coordinator where
  "co_stale = co_of [ranked 9 unit_a, ranked 5 unit_b] (\<lambda>uid. if uid = ''b'' then Some ''team'' else None)"

lemma cands_stale:
  "map (\<lambda>(qu, s). (unit_uid qu, s)) (candidates_of plain_plugins plain_world [''team''] in_order co_stale []) = [(''a'', 9), (''b'', 5)]"
  by code_simp

text \<open>Such a state is reachable, and the job behind the leftover unit is not released by the cycles of the queue.\<close>

lemma moved_job_starves_queue:
  "map_option (\<lambda>(co, h). (woken h, IsQueuing ''b'' co))
     (run_ops (co_step plain_plugins plain_world)
       [Op_Enqueue (ranked 9 unit_a), Op_Enqueue (ranked 5 unit_b), Op_Enqueue ((ranked 9 unit_a)\<lparr>qu_Tenant := ''other''\<rparr>),
        Op_Dequeue ''a'', Op_Schedule [''team'', ''other''] in_order, Op_Schedule [''team'', ''other''] in_order,
        Op_Schedule [''team'', ''other''] in_order] (NewCoordinator, [])) =
   Some ([(''tf'', ''default'', ''a'')], Inr True)"
  by code_simp

theorem stale_unit_blocks_queue_witness:
  "\<exists>co'. fst (schedule plain_plugins plain_world [''team''] in_order co_stale []) = Inr co' \<and> IsQueuing ''b'' co' = Inr True \<and>
     woken (snd (schedule plain_plugins plain_world [''team''] in_order co_stale [])) = []"
proof -
  let ?c = "candidates_of plain_plugins plain_world [''team''] in_order co_stale []"
  obtain r h' where s: "schedule plain_plugins plain_world [''team''] in_order co_stale [] = (r, h')" by fastforce
  have inv: "co_inv co_stale" "queue_order co_stale [''team'']"
    unfolding co_stale_def by (rule co_of_inv; auto split: if_splits)+
  have ne: "?c \<noteq> []" using cands_stale by auto
  have q: "IsQueuing ''a'' co_stale = Inr False" "IsQueuing ''b'' co_stale = Inr True"
    by (simp_all add: is_queuing [OF inv(1)]) (simp_all add: co_stale_def co_of_def)
  have "IsQueuing (unit_uid qu) co_stale = Inr False"
    if "(qu, score) \<in> set ?c" "\<forall>c \<in> set ?c. snd c \<le> score" for qu score
  proof -
    have "unit_uid qu = ''a''" using best_id [OF cands_stale that] by auto
    with q show ?thesis by simp
  qed
  then have "\<forall>(qu, score) \<in> set ?c. (\<forall>c \<in> set ?c. snd c \<le> score) \<longrightarrow> IsQueuing (unit_uid qu) co_stale = Inr False" by blast
  from stale_unit_blocks_queue [OF inv plain_plugins_def refl ne this s] q s show ?thesis by auto
qed

theorem coordinator_refines_waiting_set_witness:
  "\<exists>co h. run_ops (co_step plain_plugins plain_world)
      [Op_Enqueue unit_a, Op_Enqueue unit_b, Op_SetOwner ''a'' ''tf'', Op_Dequeue ''a''] (NewCoordinator, []) = Some (co, h) \<and>
     abstract_run wait_step [Op_Enqueue unit_a, Op_Enqueue unit_b, Op_SetOwner ''a'' ''tf'', Op_Dequeue ''a''] (\<lambda>uid. None, [])
       (waiting_jobs co, woken h) \<and> woken h = [(''tf'', ''default'', ''a'')]"
proof -
  let ?ops = "[Op_Enqueue unit_a, Op_Enqueue unit_b, Op_SetOwner ''a'' ''tf'', Op_Dequeue ''a'']"
  have w: "map_option (\<lambda>(co, h). woken h) (run_ops (co_step plain_plugins plain_world) ?ops (NewCoordinator, [])) =
      Some [(''tf'', ''default'', ''a'')]"
    by code_simp
  then obtain co h where r: "run_ops (co_step plain_plugins plain_world) ?ops (NewCoordinator, []) = Some (co, h)" by auto
  with w have "woken h = [(''tf'', ''default'', ''a'')]" by simp
  with coordinator_refines_waiting_set [OF r [unfolded plain_plugins_def]] r show ?thesis by blast
qed

subsection \<open>Events\<close>

text \<open>
  A new job waits: with the coordinator on, the creation event of a job without conditions
  makes the job wait in the queue of its tenant, its work queue becomes the owner of the unit, and
  no request reaches the work queue.
\<close>

theorem created_job_waits:
  assumes "co_inv co" "Conditions (jf_Status (dflt obj)) = []"
  shows "\<exists>jf co1 h1 co2 h2. OnOwnerCreateFunc (configure W registry cfg) W dflt True obj co h = (Inr (True, jf, co1), h1) \<and>
    handle_Create True (Some (jf_Meta jf)) owner co1 h1 = (Inr co2, h2) \<and> co_inv co2 \<and>
    IsQueuing (jm_UID (jf_Meta jf)) co2 = Inr True \<and>
    map_option qu_Owner (queued_unit co2 (jm_UID (jf_Meta jf))) = Some (Some owner) \<and> woken h2 = woken h"
proof -
  let ?P = "configure W registry cfg"
  let ?jf = "dflt obj"
  define st where "st = UpdateJobConditions (out_now W h) (jf_Status ?jf) JobCreated JobCreatedReason
      (''Job '' @ jm_Kind (jf_Meta ?jf) @ ''/'' @ jm_Name (jf_Meta ?jf) @ '' is created.'')"
  let ?jf1 = "?jf\<lparr>jf_Status := st\<rparr>"
  let ?qu = "to_unit W ?jf1"
  have uid: "unit_uid ?qu = jm_UID (jf_Meta ?jf)" by (simp add: to_unit_def ToQueueUnit_def split: prod.splits)
  have keep: "unit_uid (snd (pl_Tenant ?P ?qu)) = unit_uid ?qu" by (simp add: configured.tenant_object)
  obtain co1 h1 where e: "EnqueueOrUpdate ?P W ?qu co h = (Inr co1, h1)" "co_inv co1" "co_index co1 (unit_uid ?qu) \<noteq> None"
    using enqueue_effect [where W = W and h = h, OF assms(1) keep] by auto
  have woken1: "woken h1 = woken h" using enqueue_woken [of ?P W ?qu co h] e(1) by simp
  have pred: "OnOwnerCreateFunc ?P W dflt True obj co h = (Inr (True, ?jf1, co1), h1)"
    using new_job_enqueued [OF assms(2)] e(1) by (simp add: OnOwnerCreateFunc_def Let_def st_def)
  obtain co2 qu where "handle_Create True (Some (jf_Meta ?jf1)) owner co1 h1 = (Inr co2, h1)" "co_inv co2"
    "co_index co2 = co_index co1" "queued_unit co2 (jm_UID (jf_Meta ?jf1)) = Some qu" "qu_Owner qu = Some owner"
    using handle_waiting [OF e(2), of "jf_Meta ?jf1" owner h1] e(3) uid by auto
  with pred woken1 e(3) uid show ?thesis by (force simp: is_queuing)
qed

text \<open>
  Events of a waiting job do not start it: creation and update events of a job that waits in
  the coordinator put nothing on the work queue and leave it waiting.
\<close>

theorem waiting_job_not_reconciled:
  assumes "co_inv co" "IsQueuing (jm_UID job) co = Inr True"
    and "handle_Create True (Some job) owner co h = (r, h') \<or> handle_Update True (Some job) owner co h = (r, h')"
  shows "\<exists>co'. r = Inr co' \<and> h' = h \<and> co_inv co' \<and> (\<forall>uid. IsQueuing uid co' = IsQueuing uid co)"
proof -
  have "co_index co (jm_UID job) \<noteq> None" using assms(1,2) by (simp add: is_queuing)
  from handle_waiting [OF assms(1) this, of owner h] assms(3) assms(1) show ?thesis by (auto simp: is_queuing)
qed

text \<open>
  A generic event starts a waiting job: the handler names the work queue the owner of the
  unit and then adds the request to the work queue nevertheless, while the job keeps waiting.
\<close>

theorem generic_event_bypasses_queue:
  assumes "co_inv co" "IsQueuing (jm_UID job) co = Inr True"
  shows "\<exists>co' h'. handle_Generic W True (Some job) owner co h = (Inr co', h') \<and>
    woken h' = woken h @ [(owner, jm_Namespace job, jm_Name job)] \<and> IsQueuing (jm_UID job) co' = Inr True"
proof -
  obtain co' where "SetQueueUnitOwner (jm_UID job) owner co = Inr co'" "co_inv co'" "co_index co' = co_index co"
    using set_owner_effect [OF assms(1)] by blast
  with assms show ?thesis by (simp add: handle_Generic_def is_queuing add_request_def)
qed

theorem created_job_waits_witness:
  "\<exists>jf co1 h1 co2 h2. OnOwnerCreateFunc (configure plain_world NewPluginsRegistry NewCoordinatorConfiguration) plain_world id True
      \<lparr>jf_Meta = job0, jf_Replicas = [], jf_Status = status0, jf_Policy = None\<rparr> NewCoordinator [] = (Inr (True, jf, co1), h1) \<and>
    handle_Create True (Some (jf_Meta jf)) ''tf'' co1 h1 = (Inr co2, h2) \<and> IsQueuing (jm_UID (jf_Meta jf)) co2 = Inr True \<and> woken h2 = []"
  using created_job_waits [OF co_inv_new, of id "\<lparr>jf_Meta = job0, jf_Replicas = [], jf_Status = status0, jf_Policy = None\<rparr>"
      plain_world NewPluginsRegistry NewCoordinatorConfiguration "[]" "''tf''"]
  by (simp add: status0_def) blast

theorem waiting_job_not_reconciled_witness:
  "\<exists>co'. handle_Create True (Some (qu_Object unit_a)) ''tf'' co_ab [] = (Inr co', []) \<and>
     (\<forall>uid. IsQueuing uid co' = IsQueuing uid co_ab)"
proof -
  have q: "IsQueuing (jm_UID (qu_Object unit_a)) co_ab = Inr True"
    by (simp add: is_queuing [OF co_ab_ok(1)]) (simp add: co_ab_def co_of_def index_ab_def)
  obtain r h' where c: "handle_Create True (Some (qu_Object unit_a)) ''tf'' co_ab [] = (r, h')" by fastforce
  from waiting_job_not_reconciled [OF co_ab_ok(1) q disjI1, OF c] c show ?thesis by auto
qed

theorem generic_event_bypasses_queue_witness:
  "woken (snd (handle_Generic plain_world True (Some (qu_Object unit_a)) ''tf'' co_ab [])) = [(''tf'', ''default'', ''a'')]"
proof -
  have q: "IsQueuing (jm_UID (qu_Object unit_a)) co_ab = Inr True"
    by (simp add: is_queuing [OF co_ab_ok(1)]) (simp add: co_ab_def co_of_def index_ab_def)
  have "jm_Name (qu_Object unit_a) = ''a''" by (simp add: unit_of_def job0_def)
  with generic_event_bypasses_queue [OF co_ab_ok(1) q, of plain_world "''tf''" "[]"] show ?thesis by auto
qed

end
