(* ===== verification/Cron_Time.thy ===== *)
theory Cron_Time
  imports Job_Policies
begin

text \<open>
  The schedule times of a cron (\<open>controllers/apps/cron_utils.go\<close>). A parsed schedule belongs
  to the cron library: it is a function that gives the next activation after a time. Times are
  nanoseconds, \<open>Unix\<close> is the second a time lies in.
\<close>

type_synonym schedule = "time \<Rightarrow> time"

definition Unix :: "time \<Rightarrow> int" where
  "Unix t = t div second"

definition nextScheduleDelta :: int where
  "nextScheduleDelta = 100 * 10 ^ 6"

definition nextScheduledTimeDuration :: "schedule \<Rightarrow> time \<Rightarrow> int" where
  "nextScheduledTimeDuration sched now = sat64 (sched now + nextScheduleDelta - now)"

text \<open>\<open>Round(time.Second)\<close> rounds half away from zero, \<open>int64(d.Seconds())\<close> truncates.\<close>

definition round_seconds :: "int \<Rightarrow> int" where
  "round_seconds d = sgn d * ((2 * \<bar>d\<bar> + second) div (2 * second))"

definition whole_seconds :: "int \<Rightarrow> int" where
  "whole_seconds d = go_div d second"

text \<open>The loop over the missed times; without an end it has no value.\<close>

partial_function (option) skip_missed :: "schedule \<Rightarrow> time \<Rightarrow> time \<Rightarrow> time option" where
  "skip_missed sched now t2 = (if t2 > now then Some t2 else skip_missed sched now (sched t2))"

definition getMostRecentScheduleTime ::
    "time \<Rightarrow> time \<Rightarrow> schedule \<Rightarrow> (go_error + (time option \<times> int)) option" where
  "getMostRecentScheduleTime earliestTime now sched =
     (let t1 = sched earliestTime; t2 = sched t1 in
      if now < t1 then Some (Inr (None, 0))
      else if now < t2 then Some (Inr (Some t1, 1))
      else
        (let scheduleDelta = round_seconds (sat64 (t2 - t1)) in
         if scheduleDelta < 1 then Some (Inl (Err ''time difference between two schedules less than 1 second''))
         else
           (case skip_missed sched now t2 of
              None \<Rightarrow> None
            | Some t2' \<Rightarrow>
                (let timeElapsed = whole_seconds (sat64 (now - t1));
                     missed = go_div timeElapsed scheduleDelta + 1
                 in Some (Inr (Some ((Unix t1 + (missed - 1) * scheduleDelta) * second), missed))))))"

subsection \<open>Termination\<close>

lemma skip_missed_ends:
  assumes "\<And>t. t < sched t"
  shows "\<exists>t'. skip_missed sched now t = Some t' \<and> now < t'"
proof (induction "nat (now + 1 - t)" arbitrary: t rule: less_induct)
  case less
  show ?case
  proof (cases "t > now")
    case True
    then show ?thesis by (simp add: skip_missed.simps [of sched now t])
  next
    case False
    then have "nat (now + 1 - sched t) < nat (now + 1 - t)" using assms [of t] by simp
    from less [OF this] False show ?thesis by (simp add: skip_missed.simps [of sched now t])
  qed
qed

text \<open>
  C22. The search for missed activations ends for every schedule whose next activation is later
  than the time it is asked for, with a result or with the error of a schedule that is too fast.
\<close>

theorem schedule_search_terminates:
  assumes "\<And>t. t < sched t"
  shows "\<exists>r. getMostRecentScheduleTime earliestTime now sched = Some r"
proof -
  obtain t' where "skip_missed sched now (sched (sched earliestTime)) = Some t'"
    using skip_missed_ends [OF assms] by blast
  then show ?thesis by (simp add: getMostRecentScheduleTime_def Let_def)
qed

subsection \<open>Periodic schedules\<close>

text \<open>The schedule that fires at \<open>a\<close> plus every multiple of the period \<open>d\<close>.\<close>

definition periodic :: "time \<Rightarrow> int \<Rightarrow> schedule" where
  "periodic a d t = a + ((t - a) div d + 1) * d"

text \<open>The last activation in the interval after \<open>earliest\<close> up to \<open>now\<close>, and how many there are.\<close>

definition latest_activation :: "time \<Rightarrow> int \<Rightarrow> time \<Rightarrow> time \<Rightarrow> time option \<times> int" where
  "latest_activation a d earliest now =
     (let n = (now - a) div d - (earliest - a) div d
      in (if n = 0 then None else Some (a + (now - a) div d * d), n))"

lemma periodic_later:
  assumes "0 < d"
  shows "t < periodic a d t"
proof -
  have "t - a = (t - a) div d * d + (t - a) mod d" by simp
  moreover have "(t - a) mod d < d" using assms by simp
  moreover have "((t - a) div d + 1) * d = (t - a) div d * d + d" by (simp add: distrib_right)
  ultimately show ?thesis unfolding periodic_def by linarith
qed

lemma periodic_next: "0 < d \<Longrightarrow> periodic a d (a + k * d) = a + (k + 1) * d"
  by (simp add: periodic_def)

lemma round_seconds_whole: "0 \<le> d \<Longrightarrow> round_seconds (second * d) = d"
proof -
  assume d: "0 \<le> d"
  have "(2 * (second * d) + second) div (2 * second) = d" by (simp add: second_def)
  then show ?thesis using d by (cases "d = 0") (simp_all add: round_seconds_def abs_mult sgn_mult second_def)
qed

lemma activation_index:
  assumes "0 < (d :: int)" "t1 = a + k * d" "t1 \<le> now"
  shows "(now - a) div d = k + (now - t1) div d"
proof -
  have "now - a = (now - t1) + k * d" using assms(2) by linarith
  then have "(now - a) div d = ((now - t1) + k * d) div d" by (rule arg_cong)
  then show ?thesis using assms(1) by simp
qed

lemma div_less_bound:
  assumes "0 < (d :: int)" "x < k * d"
  shows "x div d < k"
proof (rule ccontr)
  assume "\<not> x div d < k"
  then have "k * d \<le> x div d * d" using assms(1) by (intro mult_right_mono) simp_all
  moreover have "x div d * d + x mod d = x" "0 \<le> x mod d" using assms(1) by simp_all
  ultimately show False using assms(2) by linarith
qed

lemma seconds_div:
  assumes "0 \<le> x" "0 < e" "in64 x"
  shows "go_div (whole_seconds (sat64 x)) e = x div (second * e)"
proof -
  have "sat64 x = x" using assms(3) by (simp add: sat64_def in64_def)
  moreover have "0 \<le> x div second" using assms(1) by (simp add: second_def pos_imp_zdiv_nonneg_iff)
  ultimately show ?thesis
    using assms by (simp add: whole_seconds_def go_div_nonneg second_def zdiv_zmult2_eq)
qed

lemma periodic_search:
  assumes "0 < e" "d = second * e" "a = second * b" "earliest \<le> now" "in64 d" "in64 (now - earliest)"
  shows "getMostRecentScheduleTime earliest now (periodic a d) = Some (Inr (latest_activation a d earliest now))"
proof -
  define k where "k = (earliest - a) div d + 1"
  define t1 where "t1 = a + k * d"
  have d: "0 < d" using assms(1,2) by (simp add: second_def)
  have t1: "periodic a d earliest = t1" by (simp add: periodic_def k_def t1_def)
  have t2: "periodic a d t1 = t1 + d" using periodic_next [OF d, of a k] by (simp add: t1_def distrib_right)
  have later: "earliest < t1" using periodic_later [OF d, of earliest a] t1 by simp
  have mono: "k - 1 \<le> (now - a) div d" using assms(4) d by (simp add: k_def zdiv_mono1)
  consider "now < t1" | "t1 \<le> now" "now < t1 + d" | "t1 + d \<le> now" by linarith
  then show ?thesis
  proof cases
    case 1
    then have "(now - a) div d < k" using d by (intro div_less_bound) (simp_all add: t1_def)
    with mono 1 show ?thesis by (simp add: getMostRecentScheduleTime_def t1 t2 latest_activation_def k_def)
  next
    case 2
    then have "(now - t1) div d = 0" by simp
    with activation_index [OF d t1_def 2(1)] have "latest_activation a d earliest now = (Some t1, 1)"
      by (simp add: latest_activation_def k_def t1_def)
    with 2 show ?thesis by (simp add: getMostRecentScheduleTime_def t1 t2)
  next
    case 3
    define n where "n = (now - t1) div d"
    have delta: "round_seconds (sat64 d) = e"
      using assms(1,2,5) round_seconds_whole [of e] by (simp add: sat64_def in64_def)
    have idx: "(now - a) div d = k + n" using activation_index [OF d t1_def] 3 d by (simp add: n_def)
    have n: "go_div (whole_seconds (sat64 (now - t1))) e = n"
      using seconds_div [of "now - t1" e] assms 3 d later by (simp add: n_def in64_def)
    have before: "(earliest - a) div d = k - 1" by (simp add: k_def)
    have "0 \<le> n" using 3 d by (simp add: n_def pos_imp_zdiv_nonneg_iff)
    obtain t' where "skip_missed (periodic a d) now (t1 + d) = Some t'"
      using skip_missed_ends [of "periodic a d", OF periodic_later [OF d]] by blast
    moreover have "Unix t1 = b + k * e" using assms(2,3) by (simp add: Unix_def t1_def second_def)
    moreover have "(b + k * e + n * e) * second = a + (k + n) * d"
      using assms(2,3) by (simp add: algebra_simps)
    ultimately show ?thesis
      using 3 d assms(1) \<open>0 \<le> n\<close>
      by (simp add: getMostRecentScheduleTime_def t1 t2 delta n idx latest_activation_def before Let_def)
  qed
qed

text \<open>
  C21. For a schedule with a fixed period of whole seconds the search finds exactly the last
  activation between the last scheduling and now, and the number of activations in between.
\<close>

theorem schedule_search_exact:
  assumes "0 < e" "d = second * e" "a = second * b" "earliest \<le> now" "in64 d" "in64 (now - earliest)"
  shows "getMostRecentScheduleTime earliest now (periodic a d) = Some (Inr (latest_activation a d earliest now))"
  using assms by (rule periodic_search)

definition hourly :: schedule where
  "hourly = periodic 0 (second * 3600)"

theorem schedule_search_exact_witness:
  "getMostRecentScheduleTime (second * 100) (second * 10900) hourly = Some (Inr (Some (second * 10800), 3))"
proof -
  have "getMostRecentScheduleTime (second * 100) (second * 10900) (periodic 0 (second * 3600)) =
      Some (Inr (latest_activation 0 (second * 3600) (second * 100) (second * 10900)))"
    by (rule schedule_search_exact [where e = 3600 and b = 0]) (simp_all add: second_def in64_def)
  then show ?thesis by (simp add: hourly_def latest_activation_def second_def)
qed

theorem schedule_search_terminates_witness:
  "\<exists>r. getMostRecentScheduleTime 0 (second * 10900) hourly = Some r"
proof (rule schedule_search_terminates)
  fix t :: time
  show "t < hourly t" using periodic_later [of "second * 3600" t 0] by (simp add: hourly_def second_def)
qed

subsection \<open>Other schedules\<close>

text \<open>
  For a schedule without a fixed period the search invents activations: if after two missed
  activations the schedule pauses until after now, the time found lies in the pause.
\<close>

theorem schedule_search_invents_times:
  assumes "\<And>t. t < sched t" "t1 = sched earliest" "sched t1 = t1 + d" "now < sched (t1 + d)" "t1 + d + d \<le> now"
    and "0 < e" "d = second * e" "t1 = second * b" "in64 d" "in64 (now - t1)"
  shows "\<exists>t n. getMostRecentScheduleTime earliest now sched = Some (Inr (Some t, n)) \<and> t1 + d < t \<and> t \<le> now \<and> now < sched (t1 + d)"
proof -
  define n where "n = (now - t1) div d"
  have d: "0 < d" using assms(6,7) by (simp add: second_def)
  have delta: "round_seconds (sat64 d) = e"
    using assms(6,7,9) round_seconds_whole [of e] by (simp add: sat64_def in64_def)
  have n: "go_div (whole_seconds (sat64 (now - t1))) e = n"
    using seconds_div [of "now - t1" e] assms(5,6,7,10) d by (simp add: n_def)
  obtain t' where "skip_missed sched now (t1 + d) = Some t'" using skip_missed_ends [OF assms(1)] by blast
  moreover have "(b + n * e) * second = t1 + n * d" "Unix t1 = b" using assms(7,8) by (simp_all add: algebra_simps Unix_def second_def)
  ultimately have r: "getMostRecentScheduleTime earliest now sched = Some (Inr (Some (t1 + n * d), n + 1))"
    using assms(3,5,6) d by (simp add: getMostRecentScheduleTime_def assms(2) [symmetric] delta n Let_def)
  have "now - t1 = n * d + (now - t1) mod d" "0 \<le> (now - t1) mod d" using d by (simp_all add: n_def)
  moreover have "2 \<le> n"
  proof -
    have "(2 * d) div d \<le> (now - t1) div d" using assms(5) d by (intro zdiv_mono1) simp_all
    then show ?thesis using d by (simp add: n_def)
  qed
  then have "2 * d \<le> n * d" using d by (intro mult_right_mono) simp_all
  ultimately have "t1 + d < t1 + n * d" "t1 + n * d \<le> now" using d by linarith+
  with r assms(4) show ?thesis by blast
qed

text \<open>A schedule with a break: daily for two days, then nothing for three days.\<close>

definition with_break :: schedule where
  "with_break t = (if t < 0 then 0 else if t < second * 86400 then second * 86400
     else periodic 0 (second * 345600) t)"

theorem schedule_search_invents_times_witness:
  "\<exists>t n. getMostRecentScheduleTime (- 1) (second * 180000) with_break = Some (Inr (Some t, n)) \<and>
     second * 86400 < t \<and> t \<le> second * 180000 \<and> second * 180000 < with_break (second * 86400)"
proof -
  have later: "t < with_break t" for t
    using periodic_later [of "second * 345600" t 0] by (simp add: with_break_def second_def)
  have wb: "with_break 0 = 0 + second * 86400" "with_break (0 + second * 86400) = second * 345600"
    "with_break (second * 86400) = second * 345600"
    by (simp_all add: with_break_def second_def periodic_def)
  have "0 = with_break (- 1)" by (simp add: with_break_def)
  from schedule_search_invents_times [OF later this, of "second * 86400" "second * 180000" 86400 0]
  show ?thesis unfolding wb by (simp add: second_def in64_def)
qed

end
