(* ===== verification/Cron_Controller.thy ===== *)
theory Cron_Controller
  imports Cron_Time "HOL-Library.List_Lexorder" "HOL-Library.Char_ord"
begin

text \<open>
  The cron controller (\<open>controllers/apps/cron_controller.go\<close>, \<open>cron_utils.go\<close>,
  \<open>cron_event_filters.go\<close>). It has a world of its own: crons, the workloads they start, the
  schedule parser, the codec of workload templates and the scheme. A result \<open>None\<close> means
  that the search for missed activations does not end. \<open>cw_reference\<close> is the reference to a
  workload, with the identity the server has given it.
\<close>

record obj_ref =
  ref_APIVersion :: string
  ref_Kind :: string
  ref_Namespace :: string
  ref_Name :: string
  ref_UID :: string

text \<open>A workload; its status is present unless it cannot be read as a job status.\<close>

record workload =
  wl_Name :: string
  wl_GenerateName :: string
  wl_Namespace :: string
  wl_UID :: string
  wl_Labels :: smap
  wl_OwnerReferences :: "owner_ref list"
  wl_Created :: time
  wl_Status :: "JobStatus option"

text \<open>The embedded template: raw bytes or an object.\<close>

record raw_extension =
  re_Raw :: "string option"
  re_Object :: "workload option"

record CronHistory =
  ch_APIGroup :: string
  ch_Kind :: string
  ch_Name :: string
  ch_Status :: "JobConditionType option"
  ch_Created :: "time option"
  ch_Finished :: "time option"

record Cron =
  cn_Name :: string
  cn_Namespace :: string
  cn_UID :: string
  cn_Created :: time
  cn_DeletionTimestamp :: "time option"
  cn_Policy :: CronPolicy
  cn_APIVersion :: string
  cn_Kind :: string
  cn_Workload :: "raw_extension option"
  cn_Active :: "obj_ref list"
  cn_History :: "CronHistory list"
  cn_LastScheduleTime :: "time option"

datatype cron_call =
    GetCronCall string string
  | GetWorkloadCall obj_ref
  | ReadWorkloadCall obj_ref
  | CreateWorkloadCall workload
  | DeleteWorkloadCall obj_ref
  | UpdateCronStatus Cron
  | CronEvent string string

type_synonym cron_hist = "cron_call list"
type_synonym 'a cron_res = "(go_error + 'a) \<times> cron_hist"

record cron_world =
  cw_get_cron :: "cron_hist \<Rightarrow> string \<Rightarrow> string \<Rightarrow> go_error + Cron"
  cw_get :: "cron_hist \<Rightarrow> obj_ref \<Rightarrow> go_error + workload"
  cw_read :: "cron_hist \<Rightarrow> obj_ref \<Rightarrow> go_error option"
  cw_write :: "cron_hist \<Rightarrow> cron_call \<Rightarrow> go_error option"
  cw_new :: "string \<Rightarrow> string \<Rightarrow> string \<Rightarrow> go_error option"
  cw_parse :: "string \<Rightarrow> go_error + schedule"
  cw_reference :: "cron_hist \<Rightarrow> workload \<Rightarrow> go_error + obj_ref"
  cw_encode :: "workload \<Rightarrow> go_error + string"
  cw_decode :: "string \<Rightarrow> go_error + workload"
  cw_now :: "cron_hist \<Rightarrow> time"

definition cron_write :: "cron_world \<Rightarrow> cron_call \<Rightarrow> cron_hist \<Rightarrow> go_error option \<times> cron_hist" where
  "cron_write W c h = (cw_write W h c, h @ [c])"

subsection \<open>Active workloads\<close>

definition inActiveList :: "obj_ref list \<Rightarrow> workload \<Rightarrow> bool" where
  "inActiveList active wl = list_ex (\<lambda>ref. ref_UID ref = wl_UID wl) active"

text \<open>
  A slice is a backing array and a length. Deletion shifts the elements inside the array, which a
  loop over the old slice observes.
\<close>

type_synonym slice = "obj_ref list \<times> nat"

definition contents :: "slice \<Rightarrow> obj_ref list" where
  "contents s = take (snd s) (fst s)"

fun uid_index :: "obj_ref list \<Rightarrow> string \<Rightarrow> nat \<Rightarrow> nat option" where
  "uid_index [] uid i = None"
| "uid_index (r # rs) uid i = (if ref_UID r = uid then Some i else uid_index rs uid (i + 1))"

definition deleteFromActiveList :: "slice \<Rightarrow> string \<Rightarrow> slice" where
  "deleteFromActiveList s uid =
     (case uid_index (contents s) uid 0 of
        None \<Rightarrow> s
      | Some i \<Rightarrow>
          (take i (fst s) @ drop (i + 1) (take (snd s) (fst s)) @ drop (snd s - 1) (fst s), snd s - 1))"

definition IsWorkloadFinished :: "workload \<Rightarrow> JobConditionType option \<times> bool" where
  "IsWorkloadFinished wl =
     (case wl_Status wl of
        None \<Rightarrow> (None, False)
      | Some st \<Rightarrow>
          (if Conditions st = [] then None else Some (jc_Type (last (Conditions st))), IsFailed st \<or> IsSucceeded st))"

text \<open>\<open>strings.Split(s, "/")\<close>\<close>

fun split_slash :: "string \<Rightarrow> string list" where
  "split_slash [] = [[]]"
| "split_slash (c # cs) =
     (if c = CHR ''/'' then [] # split_slash cs
      else (case split_slash cs of [] \<Rightarrow> [[c]] | w # ws \<Rightarrow> (c # w) # ws))"

definition newEmptyWorkload :: "cron_world \<Rightarrow> string \<Rightarrow> string \<Rightarrow> go_error option" where
  "newEmptyWorkload W apiVersion kind =
     (case split_slash apiVersion of
        [grp, version] \<Rightarrow> cw_new W grp version kind
      | _ \<Rightarrow> Some (Err ''unexpected length of apiVersion after split''))"

fun list_active_loop :: "cron_world \<Rightarrow> obj_ref list \<Rightarrow> workload list \<Rightarrow> cron_hist \<Rightarrow> workload list cron_res" where
  "list_active_loop W [] workloads h = (Inr workloads, h)"
| "list_active_loop W (ref # refs) workloads h =
     (case newEmptyWorkload W (ref_APIVersion ref) (ref_Kind ref) of
        Some e \<Rightarrow> list_active_loop W refs workloads h
      | None \<Rightarrow>
          (let h1 = h @ [GetWorkloadCall ref] in
           case cw_get W h ref of
             Inl e \<Rightarrow> if IsNotFound e then list_active_loop W refs workloads h1 else (Inl e, h1)
           | Inr wl \<Rightarrow> list_active_loop W refs (workloads @ [wl]) h1))"

definition listActiveWorkloads :: "cron_world \<Rightarrow> Cron \<Rightarrow> cron_hist \<Rightarrow> workload list cron_res" where
  "listActiveWorkloads W cron h = list_active_loop W (cn_Active cron) [] h"

text \<open>
  The first loop of the trimming. The code continues with the latest cron in place of its
  argument once it has found a workload there, so what it deletes from then on is not seen by the
  caller: the state is the slice of the current cron and whether it is still the caller's.
\<close>

record trim_state =
  ts_slice :: slice
  ts_caller :: "slice option"

fun trim_workloads ::
    "cron_world \<Rightarrow> Cron \<Rightarrow> workload list \<Rightarrow> trim_state \<Rightarrow> cron_hist \<Rightarrow> trim_state cron_res" where
  "trim_workloads W cron [] s h = (Inr s, h)"
| "trim_workloads W cron (wl # wls) s h =
     (let found = inActiveList (contents (ts_slice s)) wl;
          finished = snd (IsWorkloadFinished wl)
      in if \<not> found \<and> \<not> finished
         then
           (let h1 = h @ [GetCronCall (cn_Namespace cron) (cn_Name cron)] in
            case cw_get_cron W h (cn_Namespace cron) (cn_Name cron) of
              Inl e \<Rightarrow> (Inl e, h1)
            | Inr latest \<Rightarrow>
                (if inActiveList (cn_Active latest) wl
                 then trim_workloads W cron wls
                        \<lparr>ts_slice = (cn_Active latest, length (cn_Active latest)),
                         ts_caller = (case ts_caller s of None \<Rightarrow> Some (ts_slice s) | Some c \<Rightarrow> Some c)\<rparr> h1
                 else trim_workloads W cron wls s (h1 @ [CronEvent ''Warning'' ''ExpectedWorkload''])))
         else if found \<and> finished
         then trim_workloads W cron wls (s\<lparr>ts_slice := deleteFromActiveList (ts_slice s) (wl_UID wl)\<rparr>)
                (h @ [CronEvent ''Normal'' ''SawCompletedWorkload''])
         else trim_workloads W cron wls s h)"

text \<open>The second loop ranges over the slice while it deletes from it.\<close>

fun trim_missing ::
    "cron_world \<Rightarrow> string list \<Rightarrow> nat list \<Rightarrow> slice \<Rightarrow> cron_hist \<Rightarrow> slice cron_res" where
  "trim_missing W known [] s h = (Inr s, h)"
| "trim_missing W known (i # is) s h =
     (let ac = fst s ! i in
      if ref_UID ac \<in> set known then trim_missing W known is s h
      else (case newEmptyWorkload W (ref_APIVersion ac) (ref_Kind ac) of
              Some e \<Rightarrow> trim_missing W known is s h
            | None \<Rightarrow>
                (let h1 = h @ [ReadWorkloadCall ac] in
                 case cw_read W h ac of
                   None \<Rightarrow> trim_missing W known is s h1
                 | Some e \<Rightarrow>
                     (if IsNotFound e
                      then trim_missing W known is (deleteFromActiveList s (ref_UID ac))
                             (h1 @ [CronEvent ''Normal'' ''MissingWorkload''])
                      else (Inl e, h1)))))"

definition trimFinishedWorkloadsFromActiveList ::
    "cron_world \<Rightarrow> Cron \<Rightarrow> workload list \<Rightarrow> cron_hist \<Rightarrow> Cron cron_res" where
  "trimFinishedWorkloadsFromActiveList W cron workloads h =
     andThen (trim_workloads W cron workloads \<lparr>ts_slice = (cn_Active cron, length (cn_Active cron)), ts_caller = None\<rparr> h)
       (\<lambda>s h1.
          andThen (trim_missing W (map wl_UID workloads) [0..<snd (ts_slice s)] (ts_slice s) h1)
            (\<lambda>slice h2.
               (Inr (cron\<lparr>cn_Active := contents (case ts_caller s of None \<Rightarrow> slice | Some c \<Rightarrow> c)\<rparr>), h2)))"

subsection \<open>Scheduling\<close>

definition getNextScheduleTime ::
    "Cron \<Rightarrow> time \<Rightarrow> schedule \<Rightarrow> cron_hist \<Rightarrow> (time option cron_res) option" where
  "getNextScheduleTime cron now sched h =
     (let earliestTime = (case cn_LastScheduleTime cron of Some t \<Rightarrow> t | None \<Rightarrow> cn_Created cron) in
      if earliestTime > now then Some (Inr None, h)
      else (case getMostRecentScheduleTime earliestTime now sched of
              None \<Rightarrow> None
            | Some (Inl e) \<Rightarrow> Some (Inl e, h)
            | Some (Inr (t, missed)) \<Rightarrow>
                Some (Inr t, if missed > 100 then h @ [CronEvent ''Warning'' ''TooManyMissedTimes''] else h)))"

definition getDefaultJobName :: "Cron \<Rightarrow> time \<Rightarrow> string" where
  "getDefaultJobName c scheduledTime = cn_Name c @ ''-'' @ Itoa (Unix scheduledTime)"

definition cron_owner :: "Cron \<Rightarrow> owner_ref" where
  "cron_owner cron =
     \<lparr>or_APIVersion = ''apps.kubedl.io/v1alpha1'', or_Kind = ''Cron'', or_Name = cn_Name cron, or_UID = cn_UID cron,
      or_Controller = Some True, or_BlockOwnerDeletion = Some True\<rparr>"

definition template_bytes :: "cron_world \<Rightarrow> raw_extension \<Rightarrow> go_error + string" where
  "template_bytes W raw =
     (case (re_Raw raw, re_Object raw) of
        (Some bytes, _) \<Rightarrow> Inr bytes
      | (None, Some obj) \<Rightarrow> cw_encode W obj
      | (None, None) \<Rightarrow> Inl (Err ''invalid cron template''))"

definition DecodeRaw :: "cron_world \<Rightarrow> string \<Rightarrow> go_error + workload" where
  "DecodeRaw W bytes = (if bytes = [] then Inl (Err ''there is no content to decode'') else cw_decode W bytes)"

text \<open>The new workload and the cron, whose policy a fixed workload name changes in memory.\<close>

definition newWorkloadFromTemplate :: "cron_world \<Rightarrow> Cron \<Rightarrow> time \<Rightarrow> cron_hist \<Rightarrow> (workload \<times> Cron) cron_res" where
  "newWorkloadFromTemplate W cron scheduledTime h =
     (case cn_Workload cron of
        None \<Rightarrow> (Inl (Err ''invalid cron template''), h)
      | Some raw \<Rightarrow>
          (if re_Object raw = None \<and> re_Raw raw = None then (Inl (Err ''invalid cron template''), h)
           else (case newEmptyWorkload W (cn_APIVersion cron) (cn_Kind cron) of
                   Some e \<Rightarrow> (Inl e, h)
                 | None \<Rightarrow>
                     (case template_bytes W raw of
                        Inl e \<Rightarrow> (Inl e, h)
                      | Inr bytes \<Rightarrow>
                          (case DecodeRaw W bytes of
                             Inl e \<Rightarrow> (Inl e, h)
                           | Inr wl \<Rightarrow>
                               (let named = (wl_Name wl \<noteq> []);
                                    wl1 = wl\<lparr>wl_GenerateName := [],
                                      wl_Name := (if named then wl_Name wl else getDefaultJobName cron scheduledTime),
                                      wl_Labels := (wl_Labels wl)(LabelCronName \<mapsto> cn_Name cron),
                                      wl_Namespace := cn_Namespace cron,
                                      wl_OwnerReferences := wl_OwnerReferences wl @ [cron_owner cron]\<rparr>
                                in (Inr (wl1, if named
                                              then cron\<lparr>cn_Policy := (cn_Policy cron)\<lparr>cp_ConcurrencyPolicy := ForbidConcurrent\<rparr>\<rparr>
                                              else cron),
                                    if named then h @ [CronEvent ''Normal'' ''OverridePolicy''] else h)))))))"

definition deleteWorkload :: "cron_world \<Rightarrow> slice \<Rightarrow> obj_ref \<Rightarrow> cron_hist \<Rightarrow> slice cron_res" where
  "deleteWorkload W s ref h =
     (case newEmptyWorkload W (ref_APIVersion ref) (ref_Kind ref) of
        Some e \<Rightarrow> (Inl e, h)
      | None \<Rightarrow>
          (let h1 = h @ [GetWorkloadCall ref] in
           case cw_get W h ref of
             Inl e \<Rightarrow> if IsNotFound e then (Inr (deleteFromActiveList s (ref_UID ref)), h1) else (Inl e, h1)
           | Inr wl \<Rightarrow>
               (Inr (deleteFromActiveList s (ref_UID ref)), h1 @ [CronEvent ''Normal'' ''SuccessfulDelete''])))"

text \<open>The loop that replaces the active workloads, over the slice it deletes from.\<close>

fun replace_loop :: "cron_world \<Rightarrow> nat list \<Rightarrow> slice \<Rightarrow> cron_hist \<Rightarrow> slice cron_res" where
  "replace_loop W [] s h = (Inr s, h)"
| "replace_loop W (i # is) s h = andThen (deleteWorkload W s (fst s ! i) h) (\<lambda>s1 h1. replace_loop W is s1 h1)"

definition replace_active :: "cron_world \<Rightarrow> Cron \<Rightarrow> cron_hist \<Rightarrow> Cron cron_res" where
  "replace_active W cron h =
     (if cp_ConcurrencyPolicy (cn_Policy cron) = ReplaceConcurrent
      then andThen (replace_loop W [0..<length (cn_Active cron)] (cn_Active cron, length (cn_Active cron)) h)
             (\<lambda>s h1. (Inr (cron\<lparr>cn_Active := contents s\<rparr>), h1))
      else (Inr cron, h))"

definition create_workload :: "cron_world \<Rightarrow> Cron \<Rightarrow> time \<Rightarrow> cron_hist \<Rightarrow> Cron cron_res" where
  "create_workload W cron0 scheduledTime h0 =
     andThen (newWorkloadFromTemplate W cron0 scheduledTime h0)
       (\<lambda>(wl, cron) h.
          (case cron_write W (CreateWorkloadCall wl) h of
             (err, h1) \<Rightarrow>
               (if err = Some AlreadyExists \<and> inActiveList (cn_Active cron) wl then (Inl AlreadyExists, h1)
                else if err \<noteq> None \<and> err \<noteq> Some AlreadyExists
                then (Inl (the err), h1 @ [CronEvent ''Warning'' ''FailedCreate''])
                else (case cw_reference W h1 wl of
                        Inl e \<Rightarrow> (Inl e, h1)
                      | Inr ref \<Rightarrow>
                          (let h2 = h1 @ [CronEvent ''Normal'' ''SuccessfulCreate''];
                               cron1 = cron\<lparr>cn_Active := cn_Active cron @ [ref], cn_LastScheduleTime := Some scheduledTime\<rparr>
                           in guarded (cron_write W (UpdateCronStatus cron1) h2) (\<lambda>h3. (Inr cron1, h3)))))))"

text \<open>The delay until the next activation, if there is one, and the cron as it was last written.\<close>

definition scheduleNextIfPossible ::
    "cron_world \<Rightarrow> Cron \<Rightarrow> time \<Rightarrow> cron_hist \<Rightarrow> ((int option \<times> Cron) cron_res) option" where
  "scheduleNextIfPossible W cron now h =
     (case cw_parse W (cp_Schedule (cn_Policy cron)) of
        Inl e \<Rightarrow> Some (Inr (None, cron), h @ [CronEvent ''Warning'' ''InvalidSchedule''])
      | Inr sched \<Rightarrow>
          (case getNextScheduleTime cron now sched h of
             None \<Rightarrow> None
           | Some (Inl e, h1) \<Rightarrow> Some (Inl e, h1 @ [CronEvent ''Warning'' ''InvalidSchedule''])
           | Some (Inr None, h1) \<Rightarrow> Some (Inr (Some (nextScheduledTimeDuration sched now), cron), h1)
           | Some (Inr (Some scheduledTime), h1) \<Rightarrow>
               (if cn_LastScheduleTime cron = Some scheduledTime
                then Some (Inr (Some (nextScheduledTimeDuration sched now), cron), h1)
                else if cp_ConcurrencyPolicy (cn_Policy cron) = ForbidConcurrent \<and> cn_Active cron \<noteq> []
                then Some (Inr (Some (nextScheduledTimeDuration sched now), cron), h1 @ [CronEvent ''Normal'' ''AlreadyActive''])
                else
                  Some (andThen (replace_active W cron h1)
                          (\<lambda>cron1 h2. andThen (create_workload W cron1 scheduledTime h2)
                             (\<lambda>cron2 h3. (Inr (Some (nextScheduledTimeDuration sched now), cron2), h3)))))))"

definition syncCron :: "cron_world \<Rightarrow> Cron \<Rightarrow> workload list \<Rightarrow> cron_hist \<Rightarrow> ((int option \<times> Cron) cron_res) option" where
  "syncCron W cron0 workloads h =
     (let now = cw_now W h in
      case trimFinishedWorkloadsFromActiveList W cron0 workloads h of
        (Inl e, h1) \<Rightarrow> Some (Inl e, h1)
      | (Inr cron, h1) \<Rightarrow>
          (case cron_write W (UpdateCronStatus cron) h1 of
             (Some e, h2) \<Rightarrow> Some (Inl e, h2)
           | (None, h2) \<Rightarrow>
               (if cn_DeletionTimestamp cron \<noteq> None then Some (Inr (None, cron), h2)
                else if cp_Suspend (cn_Policy cron) = Some True then Some (Inr (None, cron), h2)
                else (case cp_Deadline (cn_Policy cron) of
                        Some deadline \<Rightarrow>
                          if now > deadline then Some (Inr (None, cron), h2 @ [CronEvent ''Normal'' ''Deadline''])
                          else scheduleNextIfPossible W cron now h2
                      | None \<Rightarrow> scheduleNextIfPossible W cron now h2))))"

subsection \<open>History\<close>

definition workloadToHistory :: "workload \<Rightarrow> string \<Rightarrow> string \<Rightarrow> time \<Rightarrow> CronHistory" where
  "workloadToHistory wl apiGroup kind now =
     (let (status, finished) = IsWorkloadFinished wl in
      \<lparr>ch_APIGroup = apiGroup, ch_Kind = kind, ch_Name = wl_Name wl, ch_Status = status, ch_Created = Some (wl_Created wl),
       ch_Finished = (if finished then Some now else None)\<rparr>)"

definition Less :: "CronHistory \<Rightarrow> CronHistory \<Rightarrow> bool" where
  "Less a b =
     (case (ch_Created a, ch_Created b) of
        (None, Some t) \<Rightarrow> False
      | (Some t, None) \<Rightarrow> True
      | (None, None) \<Rightarrow> ch_Name a < ch_Name b
      | (Some t, Some t') \<Rightarrow> if t = t' then ch_Name a < ch_Name b else t < t')"

fun insert_history :: "CronHistory \<Rightarrow> CronHistory list \<Rightarrow> CronHistory list" where
  "insert_history x [] = [x]"
| "insert_history x (y # ys) = (if Less y x then y # insert_history x ys else x # y # ys)"

definition sort_history :: "CronHistory list \<Rightarrow> CronHistory list" where
  "sort_history hs = foldr insert_history hs []"

text \<open>The key of an entry; an entry without creation time has none.\<close>

definition history_key :: "CronHistory \<Rightarrow> string option" where
  "history_key ch = map_option (\<lambda>t. ch_Name ch @ ''-'' @ Itoa (Unix t)) (ch_Created ch)"

fun index_history :: "CronHistory list \<Rightarrow> nat \<Rightarrow> (string \<Rightarrow> nat option) \<Rightarrow> go_error + (string \<Rightarrow> nat option)" where
  "index_history [] i m = Inr m"
| "index_history (ch # chs) i m =
     (case history_key ch of
        None \<Rightarrow> Inl (Panic ''nil Created'')
      | Some k \<Rightarrow> index_history chs (i + 1) (m(k \<mapsto> i)))"

fun merge_history ::
    "Cron \<Rightarrow> (string \<Rightarrow> nat option) \<Rightarrow> time \<Rightarrow> workload list \<Rightarrow> CronHistory list \<Rightarrow> CronHistory list" where
  "merge_history cron m now [] hs = hs"
| "merge_history cron m now (wl # wls) hs =
     (let new = workloadToHistory wl (cn_APIVersion cron) (cn_Kind cron) now in
      case m (the (history_key new)) of
        Some i \<Rightarrow>
          merge_history cron m now wls
            (hs[i := (hs ! i)\<lparr>ch_Status := ch_Status new,
                  ch_Finished := (if ch_Finished new \<noteq> None then ch_Finished new else ch_Finished (hs ! i))\<rparr>])
      | None \<Rightarrow> merge_history cron m now wls (hs @ [new]))"

definition truncate_history :: "int option \<Rightarrow> CronHistory list \<Rightarrow> go_error + CronHistory list" where
  "truncate_history limit hs =
     (case limit of
        None \<Rightarrow> Inr hs
      | Some l \<Rightarrow>
          (if int (length hs) > l
           then (if l < 0 then Inl (Panic ''slice bounds out of range'') else Inr (drop (length hs - nat l) hs))
           else Inr hs))"

definition refreshCronHistory :: "cron_world \<Rightarrow> Cron \<Rightarrow> workload list \<Rightarrow> cron_hist \<Rightarrow> Cron cron_res" where
  "refreshCronHistory W cron workloads h =
     (case index_history (cn_History cron) 0 Map.empty of
        Inl e \<Rightarrow> (Inl e, h)
      | Inr m \<Rightarrow>
          (case truncate_history (cp_HistoryLimit (cn_Policy cron))
                  (sort_history (merge_history cron m (cw_now W h) workloads (cn_History cron))) of
             Inl e \<Rightarrow> (Inl e, h)
           | Inr hs \<Rightarrow>
               (let cron1 = cron\<lparr>cn_History := hs\<rparr> in
                guarded (cron_write W (UpdateCronStatus cron1) h) (\<lambda>h1. (Inr cron1, h1)))))"

subsection \<open>Reconciliation\<close>

definition cron_Reconcile :: "cron_world \<Rightarrow> string \<Rightarrow> string \<Rightarrow> cron_hist \<Rightarrow> (int option cron_res) option" where
  "cron_Reconcile W ns name h =
     (let h0 = h @ [GetCronCall ns name] in
      case cw_get_cron W h ns name of
        Inl e \<Rightarrow> Some (if IsNotFound e then (Inr None, h0) else (Inl e, h0))
      | Inr cron \<Rightarrow>
          (case listActiveWorkloads W cron h0 of
             (Inl e, h1) \<Rightarrow> Some (Inl e, h1)
           | (Inr actives, h1) \<Rightarrow>
               (case refreshCronHistory W cron actives h1 of
                  (Inl e, h2) \<Rightarrow> Some (Inl e, h2)
                | (Inr cron1, h2) \<Rightarrow>
                    map_option (\<lambda>r. andThen r (\<lambda>x h3. (Inr (fst x), h3))) (syncCron W cron1 actives h2))))"

text \<open>The filters of workload events.\<close>

definition isControlledByCronTask :: "owner_ref list \<Rightarrow> bool" where
  "isControlledByCronTask refs = list_ex (\<lambda>r. or_Kind r = ''Cron'' \<and> or_Controller r = Some True) refs"

definition onCronWorkloadCreate :: "workload \<Rightarrow> bool" where
  "onCronWorkloadCreate wl = isControlledByCronTask (wl_OwnerReferences wl)"

definition onCronWorkloadUpdate :: "workload \<Rightarrow> bool" where
  "onCronWorkloadUpdate wlNew = isControlledByCronTask (wl_OwnerReferences wlNew)"

definition onCronWorkloadDelete :: "workload \<Rightarrow> bool" where
  "onCronWorkloadDelete wl = isControlledByCronTask (wl_OwnerReferences wl)"

end
