(* ===== verification/Cron_Contract.thy ===== *)
theory Cron_Contract
  imports Cron_Controller "HOL-Library.Multiset"
begin

text \<open>
  What the cron controller promises: when a workload is started and that an activation starts at
  most one, what the active list and the history hold, and where replacing active workloads fails.
\<close>

subsection \<open>The active list\<close>

lemma uid_index_Some:
  "uid_index rs uid i = Some j \<Longrightarrow> i \<le> j \<and> j - i < length rs \<and> ref_UID (rs ! (j - i)) = uid \<and>
     take (j - i) rs @ drop (j - i + 1) rs = remove1 (rs ! (j - i)) rs"
proof (induction rs uid i rule: uid_index.induct)
  case (2 r rs uid i)
  show ?case
  proof (cases "ref_UID r = uid")
    case False
    with 2 have IH: "i + 1 \<le> j" "j - (i + 1) < length rs" "ref_UID (rs ! (j - (i + 1))) = uid"
      "take (j - (i + 1)) rs @ drop (j - (i + 1) + 1) rs = remove1 (rs ! (j - (i + 1))) rs" by simp_all
    obtain k where k: "j = i + 1 + k" using IH(1) le_Suc_ex by blast
    from IH False show ?thesis by (auto simp: k)
  qed (use 2 in auto)
qed simp

lemma uid_index_None: "uid_index rs uid i = None \<longleftrightarrow> uid \<notin> ref_UID ` set rs"
  by (induction rs uid i rule: uid_index.induct) auto

definition slice_ok :: "slice \<Rightarrow> bool" where
  "slice_ok s \<longleftrightarrow> snd s \<le> length (fst s)"

lemma remove_by_key:
  "distinct (map f xs) \<Longrightarrow> x \<in> set xs \<Longrightarrow> remove1 x xs = filter (\<lambda>y. f y \<noteq> f x) xs"
proof (induction xs)
  case (Cons a xs)
  show ?case
  proof (cases "a = x")
    case True
    with Cons.prems(1) have "f x \<notin> f ` set xs" by simp
    then have "\<forall>y \<in> set xs. f y \<noteq> f x" by (metis imageI)
    with True show ?thesis by (simp add: filter_id_conv)
  next
    case False
    with Cons.prems have "x \<in> set xs" "f a \<noteq> f x" by auto
    with False Cons show ?thesis by simp
  qed
qed simp

lemma delete_contents:
  assumes "slice_ok s" "distinct (map ref_UID (contents s))"
  shows "slice_ok (deleteFromActiveList s uid)"
    "contents (deleteFromActiveList s uid) = filter (\<lambda>r. ref_UID r \<noteq> uid) (contents s)"
    "length (fst (deleteFromActiveList s uid)) = length (fst s)"
proof -
  obtain arr n where s: "s = (arr, n)" by (cases s)
  have n: "n \<le> length arr" using assms(1) by (simp add: slice_ok_def s)
  have "slice_ok (deleteFromActiveList s uid) \<and>
    contents (deleteFromActiveList s uid) = filter (\<lambda>r. ref_UID r \<noteq> uid) (contents s) \<and>
    length (fst (deleteFromActiveList s uid)) = length (fst s)"
  proof (cases "uid_index (contents s) uid 0")
    case None
    then have "\<forall>r \<in> set (contents s). ref_UID r \<noteq> uid" by (auto simp: uid_index_None)
    with None assms(1) show ?thesis by (simp add: deleteFromActiveList_def filter_id_conv)
  next
    case (Some j)
    from uid_index_Some [OF Some] have j: "j < length (contents s)" "ref_UID (contents s ! j) = uid"
      "take j (contents s) @ drop (j + 1) (contents s) = remove1 (contents s ! j) (contents s)" by simp_all
    have c: "contents s = take n arr" by (simp add: contents_def s)
    have jn: "j < n" using j(1) n by (simp add: c)
    define xs where "xs = take j arr @ drop (j + 1) (take n arr)"
    have del: "deleteFromActiveList s uid = (xs @ drop (n - 1) arr, n - 1)"
      using Some by (simp add: deleteFromActiveList_def s xs_def)
    have len: "length xs = n - 1" using jn n by (simp add: xs_def)
    then have take: "take (n - 1) (xs @ drop (n - 1) arr) = xs" by (metis append_eq_conv_conj)
    have "xs = take j (contents s) @ drop (j + 1) (contents s)" using jn by (simp add: xs_def c min_def)
    also have "\<dots> = filter (\<lambda>r. ref_UID r \<noteq> uid) (contents s)"
      using j(3) remove_by_key [OF assms(2), of "contents s ! j"] j(1,2) by simp
    finally have "contents (deleteFromActiveList s uid) = filter (\<lambda>r. ref_UID r \<noteq> uid) (contents s)"
      using take by (simp only: contents_def del fst_conv snd_conv)
    moreover have "length (xs @ drop (n - 1) arr) = length arr" using len jn n by simp
    moreover have "slice_ok (deleteFromActiveList s uid)" using len by (simp add: slice_ok_def del)
    ultimately show ?thesis using del s by simp
  qed
  then show "slice_ok (deleteFromActiveList s uid)"
    "contents (deleteFromActiveList s uid) = filter (\<lambda>r. ref_UID r \<noteq> uid) (contents s)"
    "length (fst (deleteFromActiveList s uid)) = length (fst s)" by blast+
qed

definition finished_uids :: "workload list \<Rightarrow> string set" where
  "finished_uids wls = wl_UID ` {wl \<in> set wls. snd (IsWorkloadFinished wl)}"

lemma trim_workloads_effect:
  "slice_ok (ts_slice s) \<Longrightarrow> distinct (map ref_UID (contents (ts_slice s))) \<Longrightarrow>
     wl_UID ` set wls \<subseteq> ref_UID ` set (contents (ts_slice s)) \<Longrightarrow> distinct (map wl_UID wls) \<Longrightarrow>
     \<exists>s' h'. trim_workloads W cron wls s h = (Inr s', h') \<and> ts_caller s' = ts_caller s \<and> slice_ok (ts_slice s') \<and>
      contents (ts_slice s') = filter (\<lambda>ref. ref_UID ref \<notin> finished_uids wls) (contents (ts_slice s))"
proof (induction wls arbitrary: s h)
  case Nil
  then show ?case by (simp add: finished_uids_def)
next
  case (Cons wl wls)
  have "wl_UID wl \<in> ref_UID ` set (contents (ts_slice s))" using Cons.prems(3) by simp
  then have found: "inActiveList (contents (ts_slice s)) wl" by (auto simp: inActiveList_def list_ex_iff)
  show ?case
  proof (cases "snd (IsWorkloadFinished wl)")
    case True
    let ?s = "s\<lparr>ts_slice := deleteFromActiveList (ts_slice s) (wl_UID wl)\<rparr>"
    note d = delete_contents [OF Cons.prems(1,2), of "wl_UID wl"]
    have img: "ref_UID ` set (contents (ts_slice ?s)) = ref_UID ` set (contents (ts_slice s)) - {wl_UID wl}" using d(2) by auto
    have "wl_UID wl \<notin> wl_UID ` set wls" using Cons.prems(4) by simp
    moreover have "insert (wl_UID wl) (wl_UID ` set wls) \<subseteq> ref_UID ` set (contents (ts_slice s))" using Cons.prems(3) by simp
    ultimately have sub: "wl_UID ` set wls \<subseteq> ref_UID ` set (contents (ts_slice ?s))" unfolding img by blast
    have prems: "slice_ok (ts_slice ?s)" "distinct (map ref_UID (contents (ts_slice ?s)))" "distinct (map wl_UID wls)"
      using d Cons.prems by (simp_all add: distinct_map_filter)
    have fin: "finished_uids (wl # wls) = insert (wl_UID wl) (finished_uids wls)" using True by (auto simp: finished_uids_def)
    obtain s' h' where "trim_workloads W cron wls ?s (h @ [CronEvent ''Normal'' ''SawCompletedWorkload'']) = (Inr s', h')"
      "ts_caller s' = ts_caller s" "slice_ok (ts_slice s')"
      "contents (ts_slice s') = filter (\<lambda>ref. ref_UID ref \<notin> finished_uids wls) (contents (ts_slice ?s))"
      using Cons.IH [OF prems(1,2) sub prems(3), of "h @ [CronEvent ''Normal'' ''SawCompletedWorkload'']"] by auto
    with found True d(2) fin show ?thesis by (auto simp: Let_def conj_commute)
  next
    case False
    have fin: "finished_uids (wl # wls) = finished_uids wls" using False by (auto simp: finished_uids_def)
    from Cons.IH [of s h] Cons.prems found False fin show ?thesis by (auto simp: Let_def)
  qed
qed

lemma trim_missing_known:
  "\<forall>i \<in> set is. ref_UID (fst s ! i) \<in> set known \<Longrightarrow> trim_missing W known is s h = (Inr s, h)"
  by (induction "is") (simp_all add: Let_def)

lemma finished_uids_Cons:
  "finished_uids (wl # wls) = (if snd (IsWorkloadFinished wl) then insert (wl_UID wl) (finished_uids wls) else finished_uids wls)"
  by (auto simp: finished_uids_def)

text \<open>
  Finished workloads leave the active list and running ones stay: if the controller finds all
  listed workloads in the active list, trimming removes exactly the entries of finished workloads,
  as long as every entry belongs to a listed workload.
\<close>

theorem cron_trims_finished:
  assumes "distinct (map ref_UID (cn_Active cron))" "ref_UID ` set (cn_Active cron) = wl_UID ` set workloads"
    and "distinct (map wl_UID workloads)"
    and "trimFinishedWorkloadsFromActiveList W cron workloads h = (r, h')"
  shows "\<exists>cron'. r = Inr cron' \<and>
    cn_Active cron' = filter (\<lambda>ref. ref_UID ref \<notin> finished_uids workloads) (cn_Active cron)"
proof -
  let ?s0 = "\<lparr>ts_slice = (cn_Active cron, length (cn_Active cron)), ts_caller = None\<rparr>"
  obtain s' h1 where t: "trim_workloads W cron workloads ?s0 h = (Inr s', h1)" "ts_caller s' = None" "slice_ok (ts_slice s')"
    "contents (ts_slice s') = filter (\<lambda>ref. ref_UID ref \<notin> finished_uids workloads) (cn_Active cron)"
    using trim_workloads_effect [of ?s0 workloads W cron h] assms(1-3) by (fastforce simp: slice_ok_def contents_def)
  have "ref_UID (fst (ts_slice s') ! i) \<in> set (map wl_UID workloads)" if "i < snd (ts_slice s')" for i
  proof -
    have "fst (ts_slice s') ! i \<in> set (contents (ts_slice s'))"
      using that t(3) by (auto simp: contents_def slice_ok_def in_set_conv_nth)
    then have "fst (ts_slice s') ! i \<in> set (cn_Active cron)" using t(4) by simp
    then show ?thesis using assms(2) by auto
  qed
  then have "trim_missing W (map wl_UID workloads) [0..<snd (ts_slice s')] (ts_slice s') h1 = (Inr (ts_slice s'), h1)"
    by (intro trim_missing_known) simp
  with t assms(4) have "r = Inr (cron\<lparr>cn_Active := filter (\<lambda>ref. ref_UID ref \<notin> finished_uids workloads) (cn_Active cron)\<rparr>)"
    by (simp add: trimFinishedWorkloadsFromActiveList_def)
  then show ?thesis by simp
qed

subsection \<open>Starting workloads\<close>

definition started :: "cron_hist \<Rightarrow> workload list" where
  "started h = concat (map (\<lambda>c. case c of CreateWorkloadCall wl \<Rightarrow> [wl] | _ \<Rightarrow> []) h)"

definition deletions :: "cron_hist \<Rightarrow> obj_ref list" where
  "deletions h = concat (map (\<lambda>c. case c of DeleteWorkloadCall ref \<Rightarrow> [ref] | _ \<Rightarrow> []) h)"

lemma started_simps [simp]:
  "started [] = []" "started (h @ h') = started h @ started h'" "started (CronEvent ty r # h) = started h"
  "started (GetWorkloadCall ref # h) = started h" "started (UpdateCronStatus c # h) = started h"
  "started (CreateWorkloadCall wl # h) = wl # started h"
  by (simp_all add: started_def)

lemma deletions_simps [simp]:
  "deletions [] = []" "deletions (h @ h') = deletions h @ deletions h'" "deletions (CronEvent ty r # h) = deletions h"
  "deletions (GetWorkloadCall ref # h) = deletions h"
  by (simp_all add: deletions_def)

lemma delete_workload_quiet:
  "deleteWorkload W s ref h = (r, h') \<Longrightarrow> started h' = started h \<and> deletions h' = deletions h"
  by (auto simp: deleteWorkload_def Let_def split: option.splits sum.splits if_splits)

lemma replace_loop_quiet:
  "replace_loop W is s h = (r, h') \<Longrightarrow> started h' = started h \<and> deletions h' = deletions h"
proof (induction W "is" s h arbitrary: r h' rule: replace_loop.induct)
  case (2 W i "is" s h)
  obtain x h1 where d: "deleteWorkload W s (fst s ! i) h = (x, h1)" by fastforce
  note q = delete_workload_quiet [OF d]
  show ?case
  proof (cases x)
    case (Inl e)
    with 2(2) d q show ?thesis by simp
  next
    case (Inr s1)
    with 2(2) d have "replace_loop W is s1 h1 = (r, h')" by simp
    from 2(1) [OF this] q show ?thesis by simp
  qed
qed simp

lemma replace_active_quiet:
  assumes "replace_active W cron h = (r, h')"
  shows "started h' = started h" "deletions h' = deletions h"
    "r = Inr cron' \<Longrightarrow> cn_Policy cron' = cn_Policy cron \<and> cn_LastScheduleTime cron' = cn_LastScheduleTime cron"
proof -
  let ?s = "(cn_Active cron, length (cn_Active cron))"
  obtain x h1 where l: "replace_loop W [0..<length (cn_Active cron)] ?s h = (x, h1)" by fastforce
  from replace_loop_quiet [OF l] assms show "started h' = started h" "deletions h' = deletions h"
    by (cases x; simp add: replace_active_def l split: if_splits)+
  assume "r = Inr cron'"
  with assms l show "cn_Policy cron' = cn_Policy cron \<and> cn_LastScheduleTime cron' = cn_LastScheduleTime cron"
    by (cases x) (auto simp: replace_active_def split: if_splits)
qed

lemma new_workload_shape:
  assumes "newWorkloadFromTemplate W cron t h = (Inr (wl, cron'), h')"
  shows "started h' = started h" "wl_Namespace wl = cn_Namespace cron" "cron_owner cron \<in> set (wl_OwnerReferences wl)"
    "cp_Schedule (cn_Policy cron') = cp_Schedule (cn_Policy cron)"
  using assms by (auto simp: newWorkloadFromTemplate_def Let_def split: option.splits sum.splits if_splits)

lemma create_workload_success:
  assumes "create_workload W cron t h = (Inr cron', h')"
  shows "\<exists>wl. started h' = started h @ [wl] \<and> wl_Namespace wl = cn_Namespace cron \<and> cron_owner cron \<in> set (wl_OwnerReferences wl) \<and>
    cn_LastScheduleTime cron' = Some t \<and> cp_Schedule (cn_Policy cron') = cp_Schedule (cn_Policy cron)"
proof -
  obtain x h1 where n: "newWorkloadFromTemplate W cron t h = (x, h1)" by fastforce
  with assms obtain wl cron1 where x: "x = Inr (wl, cron1)" by (cases x) (auto simp: create_workload_def)
  note shape = new_workload_shape [OF n [unfolded x]]
  from assms n x show ?thesis
    by (auto simp: create_workload_def cron_write_def Let_def guarded_def shape split: sum.splits if_splits option.splits)
qed

lemma create_workload_at_most_one:
  assumes "create_workload W cron t h = (r, h')"
  shows "length (started h') \<le> length (started h) + 1"
proof -
  obtain x h1 where n: "newWorkloadFromTemplate W cron t h = (x, h1)" by fastforce
  have "started h1 = started h" using n
    by (auto simp: newWorkloadFromTemplate_def Let_def split: option.splits sum.splits if_splits)
  with assms n show ?thesis
    by (cases x) (auto simp: create_workload_def cron_write_def Let_def guarded_def split: sum.splits if_splits option.splits)
qed

text \<open>When a cron may start a workload now, and for which activation.\<close>

definition due :: "cron_world \<Rightarrow> Cron \<Rightarrow> time \<Rightarrow> time option" where
  "due W cron now =
     (case cw_parse W (cp_Schedule (cn_Policy cron)) of
        Inl e \<Rightarrow> None
      | Inr sched \<Rightarrow>
          (case getNextScheduleTime cron now sched [] of
             Some (Inr (Some t), h) \<Rightarrow>
               if cn_LastScheduleTime cron = Some t \<or> cp_ConcurrencyPolicy (cn_Policy cron) = ForbidConcurrent \<and> cn_Active cron \<noteq> []
               then None else Some t
           | _ \<Rightarrow> None))"

lemma next_time_hist:
  "getNextScheduleTime cron now sched h =
     map_option (\<lambda>(r, h'). (r, h @ h')) (getNextScheduleTime cron now sched [])"
  by (simp add: getNextScheduleTime_def Let_def split: option.splits sum.splits prod.splits if_splits)

lemma next_time_quiet: "getNextScheduleTime cron now sched h = Some (r, h') \<Longrightarrow> started h' = started h"
  by (auto simp: getNextScheduleTime_def Let_def split: option.splits sum.splits prod.splits if_splits)

lemma step_starts_when_due:
  assumes "scheduleNextIfPossible W cron now h = Some (r, h')"
  shows "length (started h') \<le> length (started h) + 1 \<and>
    (due W cron now = None \<longrightarrow> started h' = started h) \<and>
    (\<forall>t d cron'. due W cron now = Some t \<and> r = Inr (d, cron') \<longrightarrow>
       (\<exists>wl. started h' = started h @ [wl] \<and> wl_Namespace wl = cn_Namespace cron \<and>
          cron_owner cron \<in> set (wl_OwnerReferences wl) \<and> cn_LastScheduleTime cron' = Some t))"
proof (cases "cw_parse W (cp_Schedule (cn_Policy cron))")
  case (Inl e)
  with assms show ?thesis by (auto simp: scheduleNextIfPossible_def due_def)
next
  case (Inr sched)
  obtain x h1 where n: "getNextScheduleTime cron now sched h = Some (x, h1)"
    using assms Inr by (auto simp: scheduleNextIfPossible_def split: option.splits)
  then obtain h0 where n0: "getNextScheduleTime cron now sched [] = Some (x, h0)"
    by (auto simp: next_time_hist [of cron now sched h])
  note q = next_time_quiet [OF n]
  show ?thesis
  proof (cases "due W cron now")
    case None
    with assms Inr n n0 q show ?thesis
      by (auto simp: scheduleNextIfPossible_def due_def split: sum.splits option.splits if_splits)
  next
    case (Some t)
    then have x: "x = Inr (Some t)" and c: "cn_LastScheduleTime cron \<noteq> Some t"
      "\<not> (cp_ConcurrencyPolicy (cn_Policy cron) = ForbidConcurrent \<and> cn_Active cron \<noteq> [])"
      using Inr n0 by (auto simp: due_def split: sum.splits option.splits if_splits)
    obtain y h2 where ra: "replace_active W cron h1 = (y, h2)" by fastforce
    note raq = replace_active_quiet [OF ra]
    show ?thesis
    proof (cases y)
      case (Inl e)
      with assms Inr n x c ra raq(1) q Some show ?thesis by (auto simp: scheduleNextIfPossible_def)
    next
      case (Inr cron1)
      have ns: "cn_Namespace cron1 = cn_Namespace cron" "cron_owner cron1 = cron_owner cron" using ra Inr
        by (auto simp: replace_active_def andThen_def cron_owner_def split: if_splits sum.splits prod.splits)
      obtain z h3 where cw: "create_workload W cron1 t h2 = (z, h3)" by fastforce
      have res: "Some (r, h') = Some (andThen (z, h3) (\<lambda>cron2 h3. (Inr (Some (nextScheduledTimeDuration sched now), cron2), h3)))"
        using assms \<open>cw_parse W (cp_Schedule (cn_Policy cron)) = Inr sched\<close> n x c ra Inr cw
        by (auto simp: scheduleNextIfPossible_def)
      then have h3: "h' = h3" by (cases z) simp_all
      have "length (started h') \<le> length (started h) + 1"
        using create_workload_at_most_one [OF cw] raq(1) q h3 by simp
      moreover have "\<exists>wl. started h' = started h @ [wl] \<and> wl_Namespace wl = cn_Namespace cron \<and>
          cron_owner cron \<in> set (wl_OwnerReferences wl) \<and> cn_LastScheduleTime cron' = Some t"
        if "r = Inr (d, cron')" for d cron'
      proof -
        from res that have "z = Inr cron'" by (cases z) auto
        from create_workload_success [OF cw [unfolded this]] raq(1) q h3 ns show ?thesis by auto
      qed
      ultimately show ?thesis using Some by simp
    qed
  qed
qed

text \<open>
  A workload is started only when it is due: a scheduling step starts at most one workload,
  none if no activation is due, in particular none beside an active workload under the policy
  Forbid; a step that succeeds with a due activation has started exactly one workload, in the
  namespace of the cron and owned by it, and has recorded the activation.
\<close>

theorem cron_starts_when_due:
  assumes "scheduleNextIfPossible W cron now h = Some (r, h')"
  shows "length (started h') \<le> length (started h) + 1 \<and>
    (due W cron now = None \<longrightarrow> started h' = started h) \<and>
    (\<forall>t d cron'. due W cron now = Some t \<and> r = Inr (d, cron') \<longrightarrow>
       (\<exists>wl. started h' = started h @ [wl] \<and> wl_Namespace wl = cn_Namespace cron \<and>
          cron_owner cron \<in> set (wl_OwnerReferences wl) \<and> cn_LastScheduleTime cron' = Some t))"
  using assms by (rule step_starts_when_due)

lemma exact_after_latest:
  assumes "0 < e" "d = second * e" "a = second * b" "t \<le> now" "in64 d" "in64 (now - t)"
    and "(now - a) div d = (t - a) div d"
  shows "getMostRecentScheduleTime t now (periodic a d) = Some (Inr (None, 0))"
  using periodic_search [OF assms(1-6)] assms(7) by (simp add: latest_activation_def)

text \<open>
  C20. An activation starts one workload: after a step that has started a workload, a step before
  the next activation of a periodic schedule starts none, whatever the server has done in between.
\<close>

theorem cron_starts_once:
  assumes "cw_parse W (cp_Schedule (cn_Policy cron)) = Inr (periodic a d)" "0 < e" "d = second * e" "a = second * b" "in64 d"
    and "cn_LastScheduleTime cron = None \<longrightarrow> cn_Created cron \<le> now \<and> in64 (now - cn_Created cron)"
    and "\<forall>t. cn_LastScheduleTime cron = Some t \<longrightarrow> t \<le> now \<and> in64 (now - t)"
    and "scheduleNextIfPossible W cron now h = Some (Inr (delay, cron'), h')" "started h' \<noteq> started h"
    and "cw_parse W2 (cp_Schedule (cn_Policy cron')) = Inr (periodic a d)" "now \<le> now2" "now2 < periodic a d now"
  shows "\<exists>r h2'. scheduleNextIfPossible W2 cron' now2 h2 = Some (r, h2') \<and> started h2' = started h2"
proof -
  let ?earliest = "case cn_LastScheduleTime cron of Some t \<Rightarrow> t | None \<Rightarrow> cn_Created cron"
  have early: "?earliest \<le> now" "in64 (now - ?earliest)" using assms(6,7) by (auto split: option.splits)
  have d: "0 < d" using assms(2,3) by (simp add: second_def)
  note starts = step_starts_when_due [OF assms(8)]
  then obtain t where t: "due W cron now = Some t" using assms(9) by (cases "due W cron now") auto
  with starts have last: "cn_LastScheduleTime cron' = Some t" by auto
  have "fst (latest_activation a d ?earliest now) = Some t"
    using t assms(1) early periodic_search [OF assms(2,3,4) early(1) assms(5) early(2)]
    by (auto simp: due_def getNextScheduleTime_def Let_def split: option.splits if_splits prod.splits)
  then have tv: "t = a + (now - a) div d * d" by (simp add: latest_activation_def Let_def split: if_splits)
  have mod: "(now - a) div d * d + (now - a) mod d = now - a" "0 \<le> (now - a) mod d" "(now - a) mod d < d" using d by simp_all
  have "now2 - a < ((now - a) div d + 1) * d" using assms(12) by (simp add: periodic_def)
  then have "(now2 - a) div d < (now - a) div d + 1" by (rule div_less_bound [OF d])
  moreover have "(now - a) div d \<le> (now2 - a) div d" using assms(11) d by (simp add: zdiv_mono1)
  moreover have "(t - a) div d = (now - a) div d" using d tv by simp
  ultimately have idx: "(now2 - a) div d = (t - a) div d" by simp
  have "t \<le> now2" using tv mod assms(11) by linarith
  moreover have "now2 - t < d" using tv \<open>now2 - a < ((now - a) div d + 1) * d\<close> by (simp add: distrib_right)
  ultimately have n: "getMostRecentScheduleTime t now2 (periodic a d) = Some (Inr (None, 0))" "t \<le> now2"
    using exact_after_latest [OF assms(2,3,4) _ assms(5) _ idx] assms(5) by (simp_all add: in64_def)
  then have "due W2 cron' now2 = None" by (simp add: due_def assms(10) getNextScheduleTime_def last)
  moreover obtain r h2' where s: "scheduleNextIfPossible W2 cron' now2 h2 = Some (r, h2')"
    using n by (simp add: scheduleNextIfPossible_def assms(10) getNextScheduleTime_def last)
  ultimately show ?thesis using step_starts_when_due [OF s] by blast
qed

subsection \<open>Replacing workloads\<close>

text \<open>
  The policy Replace stops no workload: no deletion is sent to the server, and of three active
  workloads that are still there the second one stays in the active list, because the loop ranges
  over the slice it shifts.
\<close>

theorem replace_leaves_workload_running:
  assumes "cp_ConcurrencyPolicy (cn_Policy cron) = ReplaceConcurrent" "cn_Active cron = [x, y, z]"
    and "distinct [ref_UID x, ref_UID y, ref_UID z]"
    and "\<forall>ref \<in> {x, y, z}. newEmptyWorkload W (ref_APIVersion ref) (ref_Kind ref) = None \<and> (\<forall>h. \<exists>wl. cw_get W h ref = Inr wl)"
  shows "\<exists>h'. replace_active W cron h = (Inr (cron\<lparr>cn_Active := [y]\<rparr>), h') \<and> deletions h' = deletions h"
proof -
  have del: "deleteWorkload W s ref h = (Inr (deleteFromActiveList s (ref_UID ref)),
      h @ [GetWorkloadCall ref] @ [CronEvent ''Normal'' ''SuccessfulDelete''])" if "ref \<in> {x, y, z}" for s ref h
  proof -
    note ref = bspec [OF assms(4) that]
    then obtain wl where "cw_get W h ref = Inr wl" by blast
    with ref show ?thesis by (simp add: deleteWorkload_def)
  qed
  have s1: "deleteFromActiveList ([x, y, z], 3) (ref_UID x) = ([y, z, z], 2)"
    and s2: "deleteFromActiveList ([y, z, z], 2) (ref_UID z) = ([y, z, z], 1)"
    and s3: "deleteFromActiveList ([y, z, z], 1) (ref_UID z) = ([y, z, z], 1)"
    using assms(3) by (simp_all add: deleteFromActiveList_def contents_def numeral_3_eq_3 numeral_2_eq_2)
  have idx: "[0..<3] = [0, 1, 2]" by (simp add: upt_rec)
  have nth: "[x, y, z] ! 0 = x" "[y, z, z] ! 1 = z" "[y, z, z] ! 2 = z" by simp_all
  have "\<exists>h'. replace_loop W [0, 1, 2] ([x, y, z], 3) h = (Inr ([y, z, z], 1), h')"
    by (simp only: replace_loop.simps fst_conv nth del s1 s2 s3 insertI1 insertI2 andThen_simps) blast
  then obtain h1 where l: "replace_loop W [0, 1, 2] ([x, y, z], 3) h = (Inr ([y, z, z], 1), h1)" by blast
  have len: "length (cn_Active cron) = 3" by (simp add: assms(2))
  have "replace_active W cron h = (Inr (cron\<lparr>cn_Active := [y]\<rparr>), h1)"
    unfolding replace_active_def idx len if_P [OF assms(1)] using l by (simp add: assms(2) contents_def del: replace_loop.simps)
  then have "\<exists>h'. replace_active W cron h = (Inr (cron\<lparr>cn_Active := [y]\<rparr>), h')" by blast
  with replace_active_quiet(2) show ?thesis by metis
qed

subsection \<open>History\<close>

lemma Less_trans: "Less a b \<Longrightarrow> Less b c \<Longrightarrow> Less a c"
  by (auto simp: Less_def split: option.splits if_splits)

lemma Less_irrefl: "\<not> Less a a"
  by (simp add: Less_def split: option.splits)

lemma Less_asym: "Less a b \<Longrightarrow> \<not> Less b a"
  using Less_trans Less_irrefl by blast

lemma not_Less_trans: "\<not> Less b a \<Longrightarrow> \<not> Less c b \<Longrightarrow> \<not> Less c a"
  by (auto simp: Less_def split: option.splits if_splits)

definition in_time_order :: "CronHistory list \<Rightarrow> bool" where
  "in_time_order hs \<longleftrightarrow> sorted_wrt (\<lambda>a b. \<not> Less b a) hs"

lemma insert_history_set: "set (insert_history x ys) = insert x (set ys)"
  by (induction ys) auto

lemma insert_history_sorted: "in_time_order ys \<Longrightarrow> in_time_order (insert_history x ys)"
proof (induction ys)
  case (Cons y ys)
  show ?case
  proof (cases "Less y x")
    case True
    with Cons Less_asym show ?thesis by (auto simp: in_time_order_def insert_history_set)
  next
    case False
    with Cons.prems not_Less_trans show ?thesis by (auto simp: in_time_order_def)
  qed
qed (simp add: in_time_order_def)

lemma insert_history_mset: "mset (insert_history x ys) = add_mset x (mset ys)"
  by (induction ys) auto

lemma sort_history_ok: "in_time_order (sort_history hs) \<and> mset (sort_history hs) = mset hs"
  by (induction hs) (simp_all add: sort_history_def insert_history_sorted insert_history_mset, simp add: in_time_order_def)

lemma truncate_ok: "0 \<le> l \<Longrightarrow> \<exists>hs'. truncate_history (Some l) hs = Inr hs'"
  by (simp add: truncate_history_def)

text \<open>
  The history is bounded and ordered: what is written keeps at most \<open>HistoryLimit\<close> entries,
  sorted by creation time, namely the latest ones of all entries.
\<close>

theorem cron_history_bounded:
  assumes "refreshCronHistory W cron workloads h = (Inr cron', h')" "cp_HistoryLimit (cn_Policy cron) = Some limit"
  shows "int (length (cn_History cron')) \<le> limit \<and> in_time_order (cn_History cron') \<and>
    h' = h @ [UpdateCronStatus cron'] \<and>
    (\<exists>m old. index_history (cn_History cron) 0 Map.empty = Inr m \<and>
       mset old + mset (cn_History cron') = mset (merge_history cron m (cw_now W h) workloads (cn_History cron)) \<and>
       (\<forall>o' \<in> set old. \<forall>n \<in> set (cn_History cron'). \<not> Less n o'))"
proof -
  obtain m where m: "index_history (cn_History cron) 0 Map.empty = Inr m"
    using assms(1) by (auto simp: refreshCronHistory_def split: sum.splits)
  let ?all = "merge_history cron m (cw_now W h) workloads (cn_History cron)"
  let ?hs = "sort_history ?all"
  note sorted = sort_history_ok [of ?all]
  obtain hs where t: "truncate_history (Some limit) ?hs = Inr hs" and c: "cron' = cron\<lparr>cn_History := hs\<rparr>" "h' = h @ [UpdateCronStatus cron']"
    using assms m by (auto simp: refreshCronHistory_def cron_write_def guarded_def Let_def split: sum.splits option.splits)
  define n where "n = (if int (length ?hs) > limit then length ?hs - nat limit else 0)"
  have hs: "hs = drop n ?hs" "int (length hs) \<le> limit"
    using t by (auto simp: truncate_history_def n_def split: if_splits)
  have "mset (take n ?hs) + mset hs = mset ?all" using sorted hs(1) by (metis append_take_drop_id mset_append)
  moreover have "in_time_order hs \<and> (\<forall>o' \<in> set (take n ?hs). \<forall>x \<in> set hs. \<not> Less x o')"
    using sorted hs(1) append_take_drop_id [of n ?hs] unfolding in_time_order_def
    by (metis sorted_wrt_append)
  ultimately show ?thesis using m c hs(2) by auto
qed

subsection \<open>Concrete crons\<close>

definition ref_of :: "string \<Rightarrow> obj_ref" where
  "ref_of name = \<lparr>ref_APIVersion = ''training.kubedl.io/v1alpha1'', ref_Kind = ''TFJob'', ref_Namespace = ''default'',
     ref_Name = name, ref_UID = name\<rparr>"

definition workload_of :: "string \<Rightarrow> JobStatus \<Rightarrow> workload" where
  "workload_of name st = \<lparr>wl_Name = name, wl_GenerateName = [], wl_Namespace = ''default'', wl_UID = name, wl_Labels = Map.empty,
     wl_OwnerReferences = [], wl_Created = 0, wl_Status = Some st\<rparr>"

definition cron0 :: Cron where
  "cron0 = \<lparr>cn_Name = ''nightly'', cn_Namespace = ''default'', cn_UID = ''c1'', cn_Created = 0, cn_DeletionTimestamp = None,
     cn_Policy = \<lparr>cp_Schedule = ''@hourly'', cp_ConcurrencyPolicy = ReplaceConcurrent, cp_Suspend = None, cp_Deadline = None,
       cp_HistoryLimit = Some 1\<rparr>,
     cn_APIVersion = ''training.kubedl.io/v1alpha1'', cn_Kind = ''TFJob'',
     cn_Workload = Some \<lparr>re_Raw = Some ''raw'', re_Object = None\<rparr>, cn_Active = [], cn_History = [], cn_LastScheduleTime = None\<rparr>"

definition cron_world0 :: cron_world where
  "cron_world0 = \<lparr>cw_get_cron = (\<lambda>h ns n. Inl NotFound), cw_get = (\<lambda>h ref. Inr (workload_of (ref_Name ref) status0)),
     cw_read = (\<lambda>h ref. None), cw_write = (\<lambda>h c. None), cw_new = (\<lambda>g v k. None), cw_parse = (\<lambda>s. Inr hourly),
     cw_reference = (\<lambda>h wl. Inr (ref_of (wl_Name wl))), cw_encode = (\<lambda>wl. Inr ''raw''),
     cw_decode = (\<lambda>s. Inr (workload_of [] status0)), cw_now = (\<lambda>h. 0)\<rparr>"

lemma cron_world0_simps [simp]:
  "cw_parse cron_world0 s = Inr hourly" "cw_write cron_world0 h c = None" "cw_now cron_world0 h = 0"
  "cw_reference cron_world0 h wl = Inr (ref_of (wl_Name wl))" "cw_decode cron_world0 bytes = Inr (workload_of [] status0)"
  "cw_get cron_world0 h ref = Inr (workload_of (ref_Name ref) status0)" "cw_new cron_world0 g v k = None"
  by (simp_all add: cron_world0_def)

lemma api_version_splits [simp]: "split_slash ''training.kubedl.io/v1alpha1'' = [''training.kubedl.io'', ''v1alpha1'']"
  by simp

lemma new_empty0 [simp]: "newEmptyWorkload cron_world0 ''training.kubedl.io/v1alpha1'' kind = None"
  by (simp add: newEmptyWorkload_def)

lemma cron0_simps [simp]:
  "cn_Active cron0 = []" "cn_History cron0 = []" "cn_LastScheduleTime cron0 = None" "cn_Created cron0 = 0"
  "cp_ConcurrencyPolicy (cn_Policy cron0) = ReplaceConcurrent" "cp_HistoryLimit (cn_Policy cron0) = Some 1"
  "cn_APIVersion cron0 = ''training.kubedl.io/v1alpha1''" "cn_Kind cron0 = ''TFJob''" "cn_Namespace cron0 = ''default''"
  "cn_Workload cron0 = Some \<lparr>re_Raw = Some ''raw'', re_Object = None\<rparr>"
  by (simp_all add: cron0_def)

definition now0 :: time where "now0 = second * 4000"

lemma hourly_search: "getMostRecentScheduleTime 0 now0 hourly = Some (Inr (Some (second * 3600), 1))"
  by (simp add: getMostRecentScheduleTime_def hourly_def periodic_def second_def now0_def Let_def)

lemma now0_bounds: "0 \<le> now0" "in64 now0"
  by (simp_all add: now0_def second_def in64_def)

lemma cron0_next: "getNextScheduleTime cron0 now0 hourly h = Some (Inr (Some (second * 3600)), h)"
  using now0_bounds(1) by (simp add: getNextScheduleTime_def hourly_search)

lemma cron0_due: "due cron_world0 cron0 now0 = Some (second * 3600)"
  by (simp add: due_def cron0_next)

lemma cron0_starts:
  "\<exists>delay cron' h'. scheduleNextIfPossible cron_world0 cron0 now0 [] = Some (Inr (delay, cron'), h') \<and> length (started h') = 1"
proof -
  have r: "replace_active cron_world0 cron0 [] = (Inr cron0, [])"
    by (simp add: replace_active_def contents_def)
  obtain cron' h' where c: "create_workload cron_world0 cron0 (second * 3600) [] = (Inr cron', h')"
    by (simp add: create_workload_def newWorkloadFromTemplate_def template_bytes_def DecodeRaw_def cron_write_def guarded_def
        workload_of_def Let_def)
  have "length (started h') = 1" using create_workload_success [OF c] by auto
  with r c show ?thesis by (simp add: scheduleNextIfPossible_def cron0_next)
qed

theorem cron_starts_when_due_witness:
  "\<exists>delay cron' h' wl. scheduleNextIfPossible cron_world0 cron0 now0 [] = Some (Inr (delay, cron'), h') \<and> started h' = [wl] \<and>
     wl_Namespace wl = ''default'' \<and> cn_LastScheduleTime cron' = Some (second * 3600)"
proof -
  obtain delay cron' h' where s: "scheduleNextIfPossible cron_world0 cron0 now0 [] = Some (Inr (delay, cron'), h')"
    using cron0_starts by blast
  from cron_starts_when_due [OF s] cron0_due
  obtain wl where "started h' = started [] @ [wl]" "wl_Namespace wl = cn_Namespace cron0"
    "cn_LastScheduleTime cron' = Some (second * 3600)" by blast
  with s show ?thesis by simp
qed

theorem cron_starts_once_witness:
  "\<exists>delay cron' h' r h2. scheduleNextIfPossible cron_world0 cron0 now0 [] = Some (Inr (delay, cron'), h') \<and>
     scheduleNextIfPossible cron_world0 cron' (second * 7000) h' = Some (r, h2) \<and> started h2 = started h'"
proof -
  obtain delay cron' h' where s: "scheduleNextIfPossible cron_world0 cron0 now0 [] = Some (Inr (delay, cron'), h')"
    "length (started h') = 1" using cron0_starts by blast
  then have ne: "started h' \<noteq> started []" by auto
  have parse: "cw_parse cron_world0 x = Inr (periodic 0 (second * 3600))" for x by (simp add: hourly_def)
  have num: "(0 :: int) < 3600" "second * 3600 = second * (3600 :: int)" "(0 :: int) = second * 0" "in64 (second * 3600)"
    "now0 \<le> second * 7000" "second * 7000 < periodic 0 (second * 3600) now0"
    by (simp_all add: second_def in64_def now0_def periodic_def)
  have c1: "cn_LastScheduleTime cron0 = None \<longrightarrow> cn_Created cron0 \<le> now0 \<and> in64 (now0 - cn_Created cron0)"
    and c2: "\<forall>t. cn_LastScheduleTime cron0 = Some t \<longrightarrow> t \<le> now0 \<and> in64 (now0 - t)"
    using now0_bounds by simp_all
  from cron_starts_once [OF parse num(1-4) c1 c2 s(1) ne parse num(5,6), of h'] s(1) show ?thesis by blast
qed

theorem replace_leaves_workload_running_witness:
  "\<exists>h'. replace_active cron_world0 (cron0\<lparr>cn_Active := [ref_of ''a'', ref_of ''b'', ref_of ''c'']\<rparr>) [] =
     (Inr (cron0\<lparr>cn_Active := [ref_of ''b'']\<rparr>), h') \<and> deletions h' = []"
  using replace_leaves_workload_running [of "cron0\<lparr>cn_Active := [ref_of ''a'', ref_of ''b'', ref_of ''c'']\<rparr>" "ref_of ''a''" "ref_of ''b''"
      "ref_of ''c''" cron_world0 "[]"]
  by (simp add: ref_of_def)

definition old_entry :: CronHistory where
  "old_entry = \<lparr>ch_APIGroup = ''training.kubedl.io/v1alpha1'', ch_Kind = ''TFJob'', ch_Name = ''nightly-0'', ch_Status = Some JobSucceeded,
     ch_Created = Some (- second), ch_Finished = Some 0\<rparr>"

theorem cron_history_bounded_witness:
  "\<exists>cron' h'. refreshCronHistory cron_world0 (cron0\<lparr>cn_History := [old_entry]\<rparr>) [workload_of ''nightly-1'' status0] [] = (Inr cron', h') \<and>
     length (cn_History cron') \<le> 1 \<and> in_time_order (cn_History cron')"
proof -
  let ?c = "cron0\<lparr>cn_History := [old_entry]\<rparr>" and ?w = "[workload_of ''nightly-1'' status0]"
  have lim: "cp_HistoryLimit (cn_Policy ?c) = Some 1" by simp
  obtain m where "index_history (cn_History ?c) 0 Map.empty = Inr m" by (simp add: old_entry_def history_key_def)
  moreover obtain hs where "truncate_history (Some 1)
      (sort_history (merge_history ?c m (cw_now cron_world0 []) ?w (cn_History ?c))) = Inr hs" using truncate_ok by fastforce
  ultimately obtain cron' h' where r: "refreshCronHistory cron_world0 ?c ?w [] = (Inr cron', h')"
    by (simp add: refreshCronHistory_def cron_write_def guarded_def Let_def lim del: merge_history.simps index_history.simps)
  from cron_history_bounded [OF r lim] r show ?thesis by auto
qed

definition done_status :: JobStatus where
  "done_status = UpdateJobConditions 0 status0 JobSucceeded JobSucceededReason []"

theorem cron_trims_finished_witness:
  "\<exists>cron'. fst (trimFinishedWorkloadsFromActiveList cron_world0 (cron0\<lparr>cn_Active := [ref_of ''a'', ref_of ''b'']\<rparr>)
       [workload_of ''a'' done_status, workload_of ''b'' status0] []) = Inr cron' \<and> cn_Active cron' = [ref_of ''b'']"
proof -
  let ?c = "cron0\<lparr>cn_Active := [ref_of ''a'', ref_of ''b'']\<rparr>" and ?w = "[workload_of ''a'' done_status, workload_of ''b'' status0]"
  obtain r h' where t: "trimFinishedWorkloadsFromActiveList cron_world0 ?c ?w [] = (r, h')" by fastforce
  have fin: "snd (IsWorkloadFinished (workload_of ''a'' done_status))" "\<not> snd (IsWorkloadFinished (workload_of ''b'' status0))"
    by (simp_all add: IsWorkloadFinished_def workload_of_def done_status_def cond_eval)
  have "finished_uids ?w = {wl_UID (workload_of ''a'' done_status)}" by (simp add: finished_uids_Cons fin) (simp add: finished_uids_def)
  then have "finished_uids ?w = {''a''}" by (simp add: workload_of_def)
  with cron_trims_finished [OF _ _ _ t] t show ?thesis by (simp add: ref_of_def workload_of_def)
qed

end
