(* ===== verification/Error_Fanout.thy ===== *)
theory Error_Fanout
  imports Semaphore
begin

text \<open>
  The fan-out of \<open>cleanupVictimPods\<close> (\<open>controllers/pytorch/elastic_scale.go\<close>), which extends the
  bounded fan-out of theory \<open>Semaphore\<close> by a buffered error channel that nobody reads before
  \<open>Wait\<close> returns: a goroutine whose deletion failed sends the error before it gives its ticket back.
\<close>

text \<open>A goroutine is working on its item, has sent its error, or has given its ticket back.\<close>

datatype 'a job_state = Deleting 'a | Reported 'a | Leaving 'a

record 'a fan =
  fan_main :: "'a main_pc"
  fan_workers :: "'a job_state multiset"
  tickets :: nat
  fan_wg :: nat
  errs :: nat
  handled :: "'a multiset"

definition fan_init :: "'a list \<Rightarrow> 'a fan" where
  "fan_init items = \<lparr>fan_main = LoopHead items, fan_workers = {#}, tickets = 0, fan_wg = 0, errs = 0, handled = {#}\<rparr>"

text \<open>
  \<open>limit\<close> is the number of tickets, \<open>cap\<close> the capacity of the error channel and \<open>fails\<close> tells for
  which items the deletion fails.
\<close>

inductive fan_step :: "nat \<Rightarrow> nat \<Rightarrow> ('a \<Rightarrow> bool) \<Rightarrow> 'a fan \<Rightarrow> 'a fan \<Rightarrow> bool" for limit cap fails where
  acquire: "fan_main s = LoopHead (x # xs) \<Longrightarrow> tickets s < limit \<Longrightarrow>
    fan_step limit cap fails s (s\<lparr>fan_main := Sent x xs, tickets := tickets s + 1\<rparr>)"
| add: "fan_main s = Sent x xs \<Longrightarrow> fan_step limit cap fails s (s\<lparr>fan_main := Added x xs, fan_wg := fan_wg s + 1\<rparr>)"
| go: "fan_main s = Added x xs \<Longrightarrow>
    fan_step limit cap fails s (s\<lparr>fan_main := LoopHead xs, fan_workers := add_mset (Deleting x) (fan_workers s)\<rparr>)"
| report: "Deleting x \<in># fan_workers s \<Longrightarrow> fails x \<Longrightarrow> errs s < cap \<Longrightarrow>
    fan_step limit cap fails s
      (s\<lparr>fan_workers := add_mset (Reported x) (fan_workers s - {#Deleting x#}), errs := errs s + 1\<rparr>)"
| release_ok: "Deleting x \<in># fan_workers s \<Longrightarrow> \<not> fails x \<Longrightarrow> 0 < tickets s \<Longrightarrow>
    fan_step limit cap fails s
      (s\<lparr>fan_workers := add_mset (Leaving x) (fan_workers s - {#Deleting x#}), tickets := tickets s - 1\<rparr>)"
| release_err: "Reported x \<in># fan_workers s \<Longrightarrow> 0 < tickets s \<Longrightarrow>
    fan_step limit cap fails s
      (s\<lparr>fan_workers := add_mset (Leaving x) (fan_workers s - {#Reported x#}), tickets := tickets s - 1\<rparr>)"
| leave: "Leaving x \<in># fan_workers s \<Longrightarrow>
    fan_step limit cap fails s
      (s\<lparr>fan_workers := fan_workers s - {#Leaving x#}, fan_wg := fan_wg s - 1, handled := add_mset x (handled s)\<rparr>)"
| wait: "fan_main s = LoopHead [] \<Longrightarrow> fan_step limit cap fails s (s\<lparr>fan_main := Waiting\<rparr>)"
| close: "fan_main s = Waiting \<Longrightarrow> fan_wg s = 0 \<Longrightarrow> fan_step limit cap fails s (s\<lparr>fan_main := Finished\<rparr>)"

inductive fan_reachable :: "nat \<Rightarrow> nat \<Rightarrow> ('a \<Rightarrow> bool) \<Rightarrow> 'a list \<Rightarrow> 'a fan \<Rightarrow> bool" for limit cap fails items where
  init: "fan_reachable limit cap fails items (fan_init items)"
| step: "fan_reachable limit cap fails items s \<Longrightarrow> fan_step limit cap fails s t \<Longrightarrow> fan_reachable limit cap fails items t"

subsection \<open>Invariant\<close>

fun job_item :: "'a job_state \<Rightarrow> 'a" where
  "job_item (Deleting x) = x"
| "job_item (Reported x) = x"
| "job_item (Leaving x) = x"

fun has_ticket :: "'a job_state \<Rightarrow> bool" where
  "has_ticket (Leaving x) = False"
| "has_ticket _ = True"

fun sent_error :: "('a \<Rightarrow> bool) \<Rightarrow> 'a job_state \<Rightarrow> bool" where
  "sent_error fails (Deleting x) = False"
| "sent_error fails (Reported x) = True"
| "sent_error fails (Leaving x) = fails x"

definition fan_inv :: "nat \<Rightarrow> nat \<Rightarrow> ('a \<Rightarrow> bool) \<Rightarrow> 'a list \<Rightarrow> 'a fan \<Rightarrow> bool" where
  "fan_inv limit cap fails items s \<longleftrightarrow>
     tickets s = size (filter_mset has_ticket (fan_workers s)) + holds_ticket (fan_main s) \<and>
     fan_wg s = size (fan_workers s) + counted (fan_main s) \<and>
     mset items = pending (fan_main s) + image_mset job_item (fan_workers s) + handled s \<and>
     errs s = size (filter_mset (sent_error fails) (fan_workers s)) + size (filter_mset fails (handled s)) \<and>
     errs s \<le> cap \<and> (\<forall>x. Reported x \<in># fan_workers s \<longrightarrow> fails x) \<and>
     (fan_main s = Finished \<longrightarrow> fan_workers s = {#})"

lemma fan_inv_init: "fan_inv limit cap fails items (fan_init items)"
  by (simp add: fan_inv_def fan_init_def)

lemma fan_inv_step: "fan_step limit cap fails s t \<Longrightarrow> fan_inv limit cap fails items s \<Longrightarrow> fan_inv limit cap fails items t"
proof (induction rule: fan_step.cases)
  case (report x s)
  from report(3) obtain M where "fan_workers s = add_mset (Deleting x) M" by (metis insert_DiffM)
  with report show ?case by (auto simp: fan_inv_def)
next
  case (release_ok x s)
  from release_ok(3) obtain M where "fan_workers s = add_mset (Deleting x) M" by (metis insert_DiffM)
  with release_ok show ?case by (auto simp: fan_inv_def)
next
  case (release_err x s)
  from release_err(3) obtain M where "fan_workers s = add_mset (Reported x) M" by (metis insert_DiffM)
  with release_err show ?case by (auto simp: fan_inv_def)
next
  case (leave x s)
  from leave(3) obtain M where "fan_workers s = add_mset (Leaving x) M" by (metis insert_DiffM)
  with leave show ?case by (auto simp: fan_inv_def)
qed (auto simp: fan_inv_def)

lemma fan_inv_reachable: "fan_reachable limit cap fails items s \<Longrightarrow> fan_inv limit cap fails items s"
  by (induction rule: fan_reachable.induct) (auto intro: fan_inv_init fan_inv_step)

subsection \<open>Runs end\<close>

fun job_weight :: "'a job_state \<Rightarrow> nat" where
  "job_weight (Deleting x) = 3"
| "job_weight (Reported x) = 2"
| "job_weight (Leaving x) = 1"

fun fan_main_weight :: "'a main_pc \<Rightarrow> nat" where
  "fan_main_weight (LoopHead xs) = 2 + 6 * length xs"
| "fan_main_weight (Sent x xs) = 2 + 6 * length xs + 5"
| "fan_main_weight (Added x xs) = 2 + 6 * length xs + 4"
| "fan_main_weight Waiting = 1"
| "fan_main_weight Finished = 0"

definition fan_weight :: "'a fan \<Rightarrow> nat" where
  "fan_weight s = fan_main_weight (fan_main s) + sum_mset (image_mset job_weight (fan_workers s))"

lemma fan_step_weight: "fan_step limit cap fails s t \<Longrightarrow> fan_weight t < fan_weight s"
proof (induction rule: fan_step.cases)
  case (report x s)
  from report(3) obtain M where "fan_workers s = add_mset (Deleting x) M" by (metis insert_DiffM)
  with report show ?case by (auto simp: fan_weight_def)
next
  case (release_ok x s)
  from release_ok(3) obtain M where "fan_workers s = add_mset (Deleting x) M" by (metis insert_DiffM)
  with release_ok show ?case by (auto simp: fan_weight_def)
next
  case (release_err x s)
  from release_err(3) obtain M where "fan_workers s = add_mset (Reported x) M" by (metis insert_DiffM)
  with release_err show ?case by (auto simp: fan_weight_def)
next
  case (leave x s)
  from leave(3) obtain M where "fan_workers s = add_mset (Leaving x) M" by (metis insert_DiffM)
  with leave show ?case by (auto simp: fan_weight_def)
qed (auto simp: fan_weight_def)

subsection \<open>Where runs end\<close>

definition failures :: "('a \<Rightarrow> bool) \<Rightarrow> 'a list \<Rightarrow> nat" where
  "failures fails items = length (filter fails items)"

lemma failures_mset: "failures fails items = size (filter_mset fails (mset items))"
  by (simp add: failures_def flip: mset_filter size_mset)

lemma pending_worker:
  assumes "fan_inv limit cap fails items s" "Deleting x \<in># fan_workers s" "fails x"
  shows "errs s < failures fails items"
proof -
  have sub: "size (filter_mset (sent_error fails) M) \<le> size (filter_mset fails (image_mset job_item M))"
    if "\<forall>x. Reported x \<in># M \<longrightarrow> fails x" for M
    using that
  proof (induction M)
    case (add w M)
    then show ?case by (cases w) auto
  qed simp
  obtain M where M: "fan_workers s = add_mset (Deleting x) M" using assms(2) by (metis insert_DiffM)
  have "\<forall>x. Reported x \<in># M \<longrightarrow> fails x" using assms(1) M by (simp add: fan_inv_def)
  from sub [OF this] show ?thesis
    using assms(1,3) M by (simp add: fan_inv_def failures_mset)
qed

lemma worker_moves:
  assumes inv: "fan_inv limit cap fails items s" and w: "w \<in># fan_workers s" and "failures fails items \<le> cap"
  shows "\<exists>t. fan_step limit cap fails s t"
proof -
  obtain M where M: "fan_workers s = add_mset w M" using w by (metis insert_DiffM)
  then have t: "has_ticket w \<Longrightarrow> 0 < tickets s" using inv by (simp add: fan_inv_def)
  show ?thesis
  proof (cases w)
    case (Deleting x)
    show ?thesis
    proof (cases "fails x")
      case True
      with pending_worker [OF inv] w Deleting assms(3) have "errs s < cap" by fastforce
      with w Deleting True show ?thesis by (blast intro: fan_step.report)
    next
      case False
      with w Deleting t show ?thesis by (auto intro: fan_step.release_ok)
    qed
  next
    case (Reported x)
    with w t show ?thesis by (auto intro: fan_step.release_err)
  next
    case (Leaving x)
    with w show ?thesis by (auto intro: fan_step.leave)
  qed
qed

lemma fan_progress:
  assumes inv: "fan_inv limit cap fails items s" and "0 < limit" "failures fails items \<le> cap" "fan_main s \<noteq> Finished"
  shows "\<exists>t. fan_step limit cap fails s t"
proof (cases "fan_workers s = {#}")
  case False
  then obtain w where "w \<in># fan_workers s" by blast
  from worker_moves [OF inv this assms(3)] show ?thesis .
next
  case True
  show ?thesis
  proof (cases "fan_main s")
    case (LoopHead xs)
    with inv True have "tickets s < limit" using assms(2) by (simp add: fan_inv_def)
    with LoopHead show ?thesis by (cases xs) (auto intro: fan_step.acquire fan_step.wait)
  next
    case Waiting
    with inv True have "fan_wg s = 0" by (simp add: fan_inv_def)
    with Waiting show ?thesis by (blast intro: fan_step.close)
  qed (use assms(4) in \<open>auto intro: fan_step.intros\<close>)
qed

text \<open>The tickets and the capacity of the error channel in the code.\<close>

definition victim_tickets :: nat where "victim_tickets = 10"
definition victim_errs :: nat where "victim_errs = 10"

text \<open>
  Cleaning up victim pods blocks forever after more than ten failed deletions: every interleaving
  ends, since each step decreases a weight, and where it ends \<open>Wait\<close> has returned if and only if at
  most ten of the deletions fail; then every victim has been handled exactly once.
\<close>

theorem victim_cleanup_blocks:
  assumes "fan_reachable victim_tickets victim_errs fails items s"
  shows "(\<forall>t. fan_step victim_tickets victim_errs fails s t \<longrightarrow> fan_weight t < fan_weight s) \<and>
    ((\<nexists>t. fan_step victim_tickets victim_errs fails s t) \<longrightarrow>
       (fan_main s = Finished \<longleftrightarrow> failures fails items \<le> 10) \<and>
       (failures fails items \<le> 10 \<longrightarrow> handled s = mset items))"
proof -
  note inv = fan_inv_reachable [OF assms]
  have stuck: "fan_main s = Finished" if "\<nexists>t. fan_step victim_tickets victim_errs fails s t" "failures fails items \<le> 10"
    using fan_progress [OF inv] that by (auto simp: victim_tickets_def victim_errs_def)
  have all: "handled s = mset items" if "fan_main s = Finished"
    using inv that by (simp add: fan_inv_def)
  have "failures fails items \<le> 10" if "fan_main s = Finished"
    using inv all [OF that] that by (simp add: fan_inv_def failures_mset victim_errs_def)
  with stuck all fan_step_weight show ?thesis by blast
qed

text \<open>One item whose deletion fails, handled before the next one is started.\<close>

lemma fan_item:
  assumes "fan_reachable limit cap fails items
      \<lparr>fan_main = LoopHead (x # xs), fan_workers = {#}, tickets = 0, fan_wg = 0, errs = e, handled = H\<rparr>"
    and "fails x" "e < cap" "0 < limit"
  shows "fan_reachable limit cap fails items
      \<lparr>fan_main = LoopHead xs, fan_workers = {#}, tickets = 0, fan_wg = 0, errs = e + 1, handled = add_mset x H\<rparr>"
proof -
  note step = fan_reachable.step [where limit = limit and cap = cap and fails = fails and items = items]
  note 1 = step [OF assms(1) fan_step.acquire [where x = x and xs = xs]]
  note 2 = step [OF 1 fan_step.add [where x = x and xs = xs]]
  note 3 = step [OF 2 fan_step.go [where x = x and xs = xs]]
  note 4 = step [OF 3 fan_step.report [where x = x]]
  note 5 = step [OF 4 fan_step.release_err [where x = x]]
  note 6 = step [OF 5 fan_step.leave [where x = x]]
  show ?thesis using 6 assms by simp
qed

lemma fan_items:
  assumes "0 < limit"
  shows "fan_reachable limit cap fails items
      \<lparr>fan_main = LoopHead (ys @ zs), fan_workers = {#}, tickets = 0, fan_wg = 0, errs = e, handled = H\<rparr> \<Longrightarrow>
    \<forall>y \<in> set ys. fails y \<Longrightarrow> e + length ys \<le> cap \<Longrightarrow>
    fan_reachable limit cap fails items
      \<lparr>fan_main = LoopHead zs, fan_workers = {#}, tickets = 0, fan_wg = 0, errs = e + length ys, handled = mset ys + H\<rparr>"
proof (induction ys arbitrary: e H)
  case (Cons y ys)
  from fan_item [of limit cap fails items y "ys @ zs"] Cons.prems assms
  have "fan_reachable limit cap fails items
      \<lparr>fan_main = LoopHead (ys @ zs), fan_workers = {#}, tickets = 0, fan_wg = 0, errs = e + 1, handled = add_mset y H\<rparr>"
    by simp
  from Cons.IH [OF this] Cons.prems show ?case by simp
qed simp

text \<open>The eleventh worker cannot send its error, and the main routine waits for it.\<close>

definition blocked_fan :: "nat fan" where
  "blocked_fan = \<lparr>fan_main = Waiting, fan_workers = {#Deleting 11#}, tickets = 1, fan_wg = 1, errs = 10, handled = mset [1..<11]\<rparr>"

lemma blocked_reachable: "fan_reachable victim_tickets victim_errs (\<lambda>_. True) [1..<12] blocked_fan"
proof -
  have split: "[1 ..< 12 :: nat] = [1..<11] @ [11]" by (simp add: upt_rec)
  note step = fan_reachable.step [where limit = victim_tickets and cap = victim_errs and fails = "\<lambda>_. True" and items = "[1..<12]"]
  have 0: "fan_reachable victim_tickets victim_errs (\<lambda>_. True) [1..<12]
      \<lparr>fan_main = LoopHead [11], fan_workers = {#}, tickets = 0, fan_wg = 0, errs = 10, handled = mset [1..<11]\<rparr>"
    using fan_items [of victim_tickets victim_errs "\<lambda>_. True" "[1..<12]" "[1..<11]" "[11]" 0 "{#}"]
      fan_reachable.init [of victim_tickets victim_errs "\<lambda>_. True" "[1..<12]"]
    unfolding fan_init_def split by (simp add: victim_tickets_def victim_errs_def del: upt_Suc)
  note 1 = step [OF 0 fan_step.acquire [where x = 11 and xs = "[]"]]
  note 2 = step [OF 1 fan_step.add [where x = 11 and xs = "[]"]]
  note 3 = step [OF 2 fan_step.go [where x = 11 and xs = "[]"]]
  note 4 = step [OF 3 fan_step.wait]
  show ?thesis using 4 by (simp add: blocked_fan_def victim_tickets_def)
qed

theorem victim_cleanup_blocks_witness:
  "fan_reachable victim_tickets victim_errs (\<lambda>_. True) [1..<12] blocked_fan \<and>
   (\<nexists>t. fan_step victim_tickets victim_errs (\<lambda>_. True) blocked_fan t) \<and> fan_main blocked_fan \<noteq> Finished"
proof -
  have "\<nexists>t. fan_step victim_tickets victim_errs (\<lambda>_. True) blocked_fan t"
    by (auto simp: blocked_fan_def victim_errs_def elim: fan_step.cases)
  moreover have "\<not> failures (\<lambda>_. True) [1 ..< 12 :: nat] \<le> 10" by (simp add: failures_def)
  ultimately show ?thesis using victim_cleanup_blocks [OF blocked_reachable] blocked_reachable by blast
qed

end
