(* ===== verification/Elastic_Scale.thy ===== *)
theory Elastic_Scale
  imports Failover Error_Fanout Job_Reconcile
begin

text \<open>
  Elastic scaling of PyTorch jobs (\<open>controllers/pytorch/elastic_scale.go\<close>): the checkpoint protocol
  between the controller and the AIMaster, and the rounds in which stale pods are brought to the
  latest generation of the job. The JSON codec of a checkpoint version and the template of the init
  container are outside code, fields of \<open>elastic_env\<close>; so is the number of decrements of the shared
  counter of refreshed workers that get lost, since the goroutines decrement it without
  synchronisation.
\<close>

definition AnnotationCheckpointRequestedVersion :: string where
  "AnnotationCheckpointRequestedVersion = KubeDLPrefix @ ''/ckpt-requested-version''"
definition AnnotationCheckpointCompletedVersion :: string where
  "AnnotationCheckpointCompletedVersion = KubeDLPrefix @ ''/ckpt-completed-version''"
definition AnnotationReadyToStartWorker :: string where
  "AnnotationReadyToStartWorker = KubeDLPrefix @ ''/ready-to-start-worker''"
definition AnnotationWorldSize :: string where "AnnotationWorldSize = KubeDLPrefix @ ''/world-size''"
definition AnnotationEnableElasticTraining :: string where
  "AnnotationEnableElasticTraining = KubeDLPrefix @ ''/enable-elastic-training''"
definition AnnotationElasticScaleState :: string where
  "AnnotationElasticScaleState = KubeDLPrefix @ ''/scale-state''"
definition GenerationToIncrease :: string where "GenerationToIncrease = KubeDLPrefix @ ''/generation-to-increase''"

definition checkpointInProgress :: string where "checkpointInProgress = ''InProgress''"
definition checkpointSucceeded :: string where "checkpointSucceeded = ''Succeeded''"

definition PyTorchReplicaTypeMaster :: ReplicaType where "PyTorchReplicaTypeMaster = ''Master''"
definition PyTorchReplicaTypeWorker :: ReplicaType where "PyTorchReplicaTypeWorker = ''Worker''"

record ckptVersion =
  cv_Version :: int
  cv_Status :: string
  cv_Context :: string
  cv_Timestamp :: time

record elastic_env =
  ee_decode :: "string \<Rightarrow> go_error + ckptVersion"
  ee_encode :: "ckptVersion \<Rightarrow> go_error + string"
  ee_render_waiter :: "string \<Rightarrow> string \<Rightarrow> go_error + container list"
  ee_lost :: "hist \<Rightarrow> nat"

definition EnableElasticScaling :: "job_meta \<Rightarrow> RunPolicy \<Rightarrow> bool" where
  "EnableElasticScaling job runPolicy \<longleftrightarrow> sget (jm_Annotations job) AnnotationEnableElasticTraining = ''true''"

subsection \<open>Checkpoints\<close>

definition getCheckpointVersion :: "elastic_env \<Rightarrow> smap \<Rightarrow> string \<Rightarrow> go_error + ckptVersion option" where
  "getCheckpointVersion E anno key =
     (let cvBytes = sget anno key in
      if cvBytes = [] then Inr None
      else case ee_decode E cvBytes of Inl e \<Rightarrow> Inl e | Inr cv \<Rightarrow> Inr (Some cv))"

text \<open>An encoding error is dropped, the annotations stay as they are.\<close>

definition setCheckpointVersion :: "elastic_env \<Rightarrow> smap \<Rightarrow> string \<Rightarrow> ckptVersion \<Rightarrow> smap" where
  "setCheckpointVersion E anno key version =
     (case ee_encode E version of Inl e \<Rightarrow> anno | Inr cvBytes \<Rightarrow> anno(key \<mapsto> cvBytes))"

definition filterVictimPods :: "pod list \<Rightarrow> pod list" where
  "filterVictimPods activePods = filter IsVictimCandidatePod activePods"

definition triggerJobCheckpoint :: "outside \<Rightarrow> elastic_env \<Rightarrow> job_meta \<Rightarrow> hist \<Rightarrow> job_meta res" where
  "triggerJobCheckpoint W E job h =
     (case ee_encode E \<lparr>cv_Version = i32 (jm_Generation job), cv_Status = checkpointInProgress,
             cv_Context = ''pytorch job starts to request for checkpoint'', cv_Timestamp = out_now W h\<rparr> of
        Inl e \<Rightarrow> (Inl e, h)
      | Inr versionStr \<Rightarrow> patch_job W job [(AnnotationCheckpointRequestedVersion, versionStr)] h)"

text \<open>
  The deletions run concurrently, each one as a block, in the order the scheduler picks. Once twenty
  of them have failed, ten errors fill the channel and ten goroutines hold all tickets, so that no
  further deletion starts.
\<close>

fun cleanup_loop :: "outside \<Rightarrow> pod list \<Rightarrow> nat \<Rightarrow> hist \<Rightarrow> nat \<times> hist" where
  "cleanup_loop W [] n h = (n, h)"
| "cleanup_loop W (p # ps) n h =
     (if n = victim_errs + victim_tickets then (n, h)
      else case DeletePod W (pod_Namespace p) (pod_Name p) h of
             (None, h1) \<Rightarrow> cleanup_loop W ps n h1
           | (Some e, h1) \<Rightarrow> cleanup_loop W ps (n + 1) h1)"

text \<open>
  More errors than the channel holds block the reconciliation forever (theory \<open>Error_Fanout\<close>);
  nothing of it happens any more, as after a panic.
\<close>

definition cleanupVictimPods :: "outside \<Rightarrow> pod list \<Rightarrow> hist \<Rightarrow> go_error option \<times> hist" where
  "cleanupVictimPods W victims h =
     (case cleanup_loop W (out_go_order W h victims) 0 h of
        (n, h1) \<Rightarrow>
          (if n = 0 then None else if n \<le> victim_errs then Some (Err ''cleanup'') else Some (Panic ''blocked''), h1))"

text \<open>The job and its specs in memory are changed before the update, also if it fails.\<close>

definition increaseGenerationAndMarkAsSucceeded ::
    "outside \<Rightarrow> elastic_env \<Rightarrow> job_meta \<Rightarrow> replica_specs \<Rightarrow> ckptVersion option \<Rightarrow> hist \<Rightarrow>
     (go_error option \<times> job_meta \<times> replica_specs) \<times> hist" where
  "increaseGenerationAndMarkAsSucceeded W E job specs reqVersion h =
     (let anno = (case reqVersion of
                    None \<Rightarrow> jm_Annotations job
                  | Some v \<Rightarrow> setCheckpointVersion E (jm_Annotations job) AnnotationCheckpointRequestedVersion
                                (v\<lparr>cv_Status := checkpointSucceeded\<rparr>));
          job1 = job\<lparr>jm_Annotations := anno(AnnotationReadyToStartWorker \<mapsto> ''true'')\<rparr>;
          rtype = (if map_of specs PyTorchReplicaTypeMaster \<noteq> None then PyTorchReplicaTypeMaster else PyTorchReplicaTypeWorker)
      in case map_of specs rtype of
           None \<Rightarrow> ((Some (Panic ''nil ReplicaSpec''), job1, specs), h)
         | Some spec \<Rightarrow>
             (let t = Template spec;
                  t1 = t\<lparr>pt_Annotations := (pt_Annotations t)(GenerationToIncrease \<mapsto> Itoa (i64 (jm_Generation job + 1)))\<rparr>;
                  specs1 = AList.update rtype (spec\<lparr>Template := t1\<rparr>) specs
              in case update_job W job1 specs1 h of
                   (Inl e, h1) \<Rightarrow> ((Some e, job1, specs1), h1)
                 | (Inr (job2, specs2), h1) \<Rightarrow> ((None, job2, specs2), h1)))"

text \<open>Whether no checkpoint is open, with the job and its specs in memory.\<close>

definition CheckpointIfNecessary ::
    "outside \<Rightarrow> elastic_env \<Rightarrow> job_meta \<Rightarrow> replica_specs \<Rightarrow> pod list \<Rightarrow> hist \<Rightarrow> (bool \<times> job_meta \<times> replica_specs) res" where
  "CheckpointIfNecessary W E job specs activePods h =
     (let victims = filterVictimPods activePods in
      case getCheckpointVersion E (jm_Annotations job) AnnotationCheckpointRequestedVersion of
        Inl e \<Rightarrow> (Inl e, h)
      | Inr req \<Rightarrow>
          (case getCheckpointVersion E (jm_Annotations job) AnnotationCheckpointCompletedVersion of
             Inl e \<Rightarrow> (Inl e, h)
           | Inr completed \<Rightarrow>
               (let syncCheckpoint = (req = None \<or> (completed \<noteq> None \<and> cv_Version (the req) = cv_Version (the completed))) in
                if syncCheckpoint \<and> (req = None \<or> cv_Status (the req) = checkpointSucceeded)
                then (if victims = [] then (Inr (True, job, specs), h)
                      else andThen (triggerJobCheckpoint W E job (emit (Event ''Normal'' ''CheckpointStarted'') h))
                             (\<lambda>job1 h1. (Inr (False, job1, specs), h1)))
                else if syncCheckpoint \<and> cv_Status (the req) = checkpointInProgress
                then guarded (cleanupVictimPods W victims h)
                       (\<lambda>h1. case increaseGenerationAndMarkAsSucceeded W E job specs req h1 of
                          ((Some (Panic p), job1, specs1), h2) \<Rightarrow> (Inl (Panic p), h2)
                        | ((Some e, job1, specs1), h2) \<Rightarrow> (Inr (False, job1, specs1), h2)
                        | ((None, job1, specs1), h2) \<Rightarrow>
                            (Inr (True, job1, specs1), emit (Event ''Normal'' ''CheckpointSucceeded'') h2))
                else (Inr (False, job, specs), h))))"

subsection \<open>Refreshing stale objects\<close>

definition filterMasterService :: "outside \<Rightarrow> service list \<Rightarrow> service option" where
  "filterMasterService W services =
     (case out_selector W [ReplicaTypeLabel \<mapsto> ToLower PyTorchReplicaTypeMaster] of
        Inl e \<Rightarrow> None
      | Inr sel \<Rightarrow> find (\<lambda>svc. sel (svc_Labels svc)) services)"

definition refreshStaleService :: "outside \<Rightarrow> service \<Rightarrow> int \<Rightarrow> hist \<Rightarrow> go_error option \<times> hist" where
  "refreshStaleService W svc generation h =
     (let expected = Itoa generation in
      if sget (svc_Labels svc) LabelGeneration = expected \<and> sget (svc_Selector svc) LabelGeneration = expected
      then (None, h)
      else (let svcCpy = svc\<lparr>svc_Labels := (svc_Labels svc)(LabelGeneration \<mapsto> expected),
                             svc_Selector := (svc_Selector svc)(LabelGeneration \<mapsto> expected)\<rparr>
            in case api_write W (PatchServiceCall svc svcCpy) h of
                 (Some e, h1) \<Rightarrow> (Some e, h1)
               | (None, h1) \<Rightarrow> (None, emit (Event ''Normal'' ''RefreshServiceSucceed'') h1)))"

definition recreatePodContainers ::
    "outside \<Rightarrow> job_meta \<Rightarrow> pod \<Rightarrow> string \<Rightarrow> hist \<Rightarrow> go_error option \<times> hist" where
  "recreatePodContainers W job p generation h =
     api_write W (CreateCRRCall
       \<lparr>crr_Name = pod_Name p, crr_Namespace = pod_Namespace p, crr_Labels = [LabelGeneration \<mapsto> generation],
        crr_OwnerReferences =
          [\<lparr>or_APIVersion = ''v1'', or_Kind = ''Pod'', or_Name = pod_Name p, or_UID = pod_UID p,
            or_Controller = Some False, or_BlockOwnerDeletion = Some True\<rparr>,
           \<lparr>or_APIVersion = jm_APIVersion job, or_Kind = jm_Kind job, or_Name = jm_Name job, or_UID = jm_UID job,
            or_Controller = Some False, or_BlockOwnerDeletion = Some True\<rparr>],
        crr_Containers = map ct_Name (ps_Containers (pod_Spec p)), crr_Phase = CRROther\<rparr>) h"

text \<open>
  The result of a restart: whether it is completed, or the error, with the pod in memory, which the
  answer to a patch overwrites.
\<close>

type_synonym restart_result = "(go_error + bool) \<times> pod"

definition restartPodInKruiseProtocol ::
    "outside \<Rightarrow> job_meta \<Rightarrow> pod \<Rightarrow> string \<Rightarrow> string \<Rightarrow> hist \<Rightarrow> restart_result \<times> hist" where
  "restartPodInKruiseProtocol W job p expectedWorldSize expectedGeneration h =
     (if pod_Annotations p AnnotationWorldSize \<noteq> Some expectedWorldSize
      then (case patch_pod_meta W p [(AnnotationWorldSize, expectedWorldSize)] [] h of
              (Inl e, h1) \<Rightarrow> ((Inl e, p), h1)
            | (Inr p1, h1) \<Rightarrow> ((Inr False, p1), h1))
      else
        (let h1 = emit (GetCRR (pod_Namespace p) (pod_Name p)) h;
             finish = (\<lambda>b (err, h'). ((case err of None \<Rightarrow> Inr b | Some e \<Rightarrow> Inl e, p), h'))
         in case out_get_crr W h (pod_Namespace p) (pod_Name p) of
              Inl e \<Rightarrow>
                (if IsNotFound e then finish False (recreatePodContainers W job p expectedGeneration h1) else ((Inl e, p), h1))
            | Inr c \<Rightarrow>
                (if sget (crr_Labels c) LabelGeneration \<noteq> expectedGeneration
                 then (case api_write W (DeleteCRRCall c) h1 of
                         (Some e, h2) \<Rightarrow> ((Inl e, p), h2)
                       | (None, h2) \<Rightarrow> finish False (recreatePodContainers W job p expectedGeneration h2))
                 else if crr_Phase c = CRRFailed
                 then finish True (api_write W (DeletePodCall p) (emit (Event ''Warning'' ''FailedRestartContainer'') h1))
                 else if \<not> (crr_Phase c = CRRCompleted \<or> crr_Phase c = CRRSucceeded) then ((Inr False, p), h1)
                 else ((Inr True, p),
                       snd (api_write W (DeleteCRRCall c) (emit (Event ''Normal'' ''ContainerRecreateSucceed'') h1))))))"

definition restartStalePod :: "outside \<Rightarrow> job_meta \<Rightarrow> pod \<Rightarrow> int \<Rightarrow> int \<Rightarrow> hist \<Rightarrow> restart_result \<times> hist" where
  "restartStalePod W job p worldSize generation h =
     (let expectedWorldSize = Itoa worldSize; expectedGeneration = Itoa generation in
      if sget (jm_Annotations job) AnnotationImmediatelyStartWorker = ''true'' \<and> \<not> IsPodActive p
      then (case api_write W (DeletePodCall p) h of
              (None, h1) \<Rightarrow> ((Inr True, p), h1)
            | (Some e, h1) \<Rightarrow> ((Inl e, p), h1))
      else if sget (pod_Labels p) LabelGeneration = expectedGeneration then ((Inr True, p), h)
      else case restartPodInKruiseProtocol W job p expectedWorldSize expectedGeneration h of
             ((Inr True, p1), h1) \<Rightarrow>
               (case patch_pod_meta W p1 [] [(LabelGeneration, expectedGeneration)] h1 of
                  (Inl e, h2) \<Rightarrow> ((Inl e, p1), h2)
                | (Inr p2, h2) \<Rightarrow> ((Inr True, p2), emit (Event ''Normal'' ''RefreshPodSucceed'') h2))
           | (other, h1) \<Rightarrow> (other, h1))"

subsection \<open>Scaling\<close>

text \<open>
  The pods of the reconciliation are shared pointers: what a restart changes is written back to
  the pod of the same namespace and name.
\<close>

definition write_back :: "pod \<Rightarrow> pod \<Rightarrow> pod list \<Rightarrow> pod list" where
  "write_back p p1 pods = map (\<lambda>q. if pod_Namespace q = pod_Namespace p \<and> pod_Name q = pod_Name p then p1 else q) pods"

text \<open>The masters are restarted one after the other; all of them have to be completed.\<close>

fun restart_masters ::
    "outside \<Rightarrow> job_meta \<Rightarrow> int \<Rightarrow> pod list \<Rightarrow> bool \<Rightarrow> pod list \<Rightarrow> hist \<Rightarrow> (bool \<times> pod list) res" where
  "restart_masters W job worldSize [] ok pods h = (Inr (ok, pods), h)"
| "restart_masters W job worldSize (p # ps) ok pods h =
     (case restartStalePod W job p worldSize (jm_Generation job) h of
        ((Inl e, p1), h1) \<Rightarrow> (Inl e, h1)
      | ((Inr completed, p1), h1) \<Rightarrow> restart_masters W job worldSize ps (ok \<and> completed) (write_back p p1 pods) h1)"

text \<open>The workers are restarted by concurrent goroutines; their errors are logged.\<close>

fun restart_workers ::
    "outside \<Rightarrow> job_meta \<Rightarrow> int \<Rightarrow> pod list \<Rightarrow> nat \<Rightarrow> pod list \<Rightarrow> hist \<Rightarrow> (nat \<times> pod list) \<times> hist" where
  "restart_workers W job worldSize [] done pods h = ((done, pods), h)"
| "restart_workers W job worldSize (p # ps) done pods h =
     (case restartStalePod W job p worldSize (jm_Generation job) h of
        ((r, p1), h1) \<Rightarrow>
          restart_workers W job worldSize ps (if r = Inr True then done + 1 else done) (write_back p p1 pods) h1)"

definition scale_finished_patch :: "job_meta \<Rightarrow> (string \<times> string) list" where
  "scale_finished_patch job =
     [(AnnotationReadyToStartWorker, ''false''), (AnnotationElasticScaleState, ''done'')] @
     (if sget (jm_Annotations job) AnnotationImmediatelyStartWorker = ''true''
      then [(AnnotationImmediatelyStartWorker, ''false'')] else [])"

text \<open>Restarting the stale pods and, when none is left, ending the round.\<close>

definition restart_round ::
    "outside \<Rightarrow> elastic_env \<Rightarrow> job_meta \<Rightarrow> int \<Rightarrow> pod list \<Rightarrow> pod list \<Rightarrow> hist \<Rightarrow> (bool \<times> job_meta \<times> pod list) res" where
  "restart_round W E job totalReplicas activePods pods h =
     (let (total, stalePods) = FilterStalePodsByReplicaType activePods (jm_Generation job) [ToLower JobReplicaTypeAIMaster];
          staleWorkers = stalePods (ToLower PyTorchReplicaTypeWorker);
          staleMasters = stalePods (ToLower PyTorchReplicaTypeMaster)
      in andThen (restart_masters W job totalReplicas staleMasters True pods h)
           (\<lambda>(masterCompleted, pods1) h1.
              if \<not> masterCompleted then (Inr (False, job, pods1), h1)
              else case restart_workers W job totalReplicas (out_go_order W h1 staleWorkers) 0 pods1 h1 of
                ((completed, pods2), h2) \<Rightarrow>
                  (if total = 0 \<or> total - int (length staleMasters) - int (completed - ee_lost E h2) = 0
                   then andThen (patch_job W job (scale_finished_patch job) h2)
                          (\<lambda>job1 h3. (Inr (True, job1, pods2), emit (Event ''Normal'' ''ScaleSucceed'') h3))
                   else (Inr (False, job, pods2), h2))))"

definition scale ::
    "outside \<Rightarrow> elastic_env \<Rightarrow> job_meta \<Rightarrow> replica_specs \<Rightarrow> pod list \<Rightarrow> service list \<Rightarrow> pod list \<Rightarrow> hist \<Rightarrow>
     (bool \<times> job_meta \<times> pod list) res" where
  "scale W E job specs activePods activeServices pods h =
     guarded (case filterMasterService W activeServices of
                None \<Rightarrow> (None, h)
              | Some svc \<Rightarrow> refreshStaleService W svc (jm_Generation job) h)
       (\<lambda>h1.
          if sget (jm_Annotations job) AnnotationReadyToStartWorker \<noteq> ''true'' \<and>
             sget (jm_Annotations job) AnnotationImmediatelyStartWorker \<noteq> ''true''
          then (Inr (False, job, pods), h1)
          else andThen (if sget (jm_Annotations job) AnnotationElasticScaleState \<noteq> ''inflight''
                        then patch_job W job [(AnnotationElasticScaleState, ''inflight'')] h1
                        else (Inr job, h1))
                 (\<lambda>job1 h2.
                    andThen (lift_sum (GetTotalExcludedReplicas specs [JobReplicaTypeAIMaster]) h2)
                      (\<lambda>totalReplicas h3. restart_round W E job1 totalReplicas activePods pods h3)))"

definition ScaleOut ::
    "outside \<Rightarrow> elastic_env \<Rightarrow> job_meta \<Rightarrow> replica_specs \<Rightarrow> pod list \<Rightarrow> service list \<Rightarrow> hist \<Rightarrow> (job_meta \<times> pod list) res" where
  "ScaleOut W E job specs activePods activeServices h =
     andThen (scale W E job specs activePods activeServices activePods h) (\<lambda>(_, job1, pods1) h1. (Inr (job1, pods1), h1))"

fun replicas_counts :: "replica_specs \<Rightarrow> (string \<Rightarrow> int) \<Rightarrow> go_error + (string \<Rightarrow> int)" where
  "replicas_counts [] counts = Inr counts"
| "replicas_counts ((rtype, rspec) # specs) counts =
     (case Replicas rspec of
        None \<Rightarrow> Inl (Panic ''nil Replicas'')
      | Some n \<Rightarrow> replicas_counts specs (counts(ToLower rtype := n)))"

definition isIndexOutOfRange :: "smap \<Rightarrow> int \<Rightarrow> bool" where
  "isIndexOutOfRange labels replicas =
     (let index = sget labels ReplicaIndexLabel; rtype = sget labels ReplicaTypeLabel in
      if rtype = [] \<or> index = [] then False
      else case Atoi index of None \<Rightarrow> False | Some indexNum \<Rightarrow> indexNum \<ge> replicas)"

definition ScaleIn ::
    "outside \<Rightarrow> elastic_env \<Rightarrow> job_meta \<Rightarrow> replica_specs \<Rightarrow> pod list \<Rightarrow> service list \<Rightarrow> hist \<Rightarrow> (job_meta \<times> pod list) res" where
  "ScaleIn W E job specs activePods activeServices h =
     andThen (lift_sum (replicas_counts specs (\<lambda>_. 0)) h)
       (\<lambda>counts h1.
          (let in_range = (\<lambda>labels. \<not> isIndexOutOfRange labels (counts (sget labels ReplicaTypeLabel)));
               filteredPods = filter (\<lambda>p. in_range (pod_Labels p)) activePods;
               filteredServices = filter (\<lambda>svc. in_range (svc_Labels svc)) activeServices
           in andThen (scale W E job specs filteredPods filteredServices activePods h1)
                (\<lambda>(_, job1, pods1) h2. (Inr (job1, pods1), h2))))"

end
