(* ===== verification/Elastic_Contract.thy ===== *)
theory Elastic_Contract
  imports Elastic_Scale
begin

text \<open>
  What elastic scaling promises: the checkpoint protocol with the AIMaster, the order in which a
  scaling round touches the pods, and that a round is declared done only when every stale pod has
  been refreshed.
\<close>

subsection \<open>Calls that change a pod\<close>

definition pod_key :: "pod \<Rightarrow> string \<times> string" where
  "pod_key p = (pod_Namespace p, pod_Name p)"

fun touches :: "call \<Rightarrow> (string \<times> string) option" where
  "touches (PatchPodMeta p annotations labels) = Some (pod_key p)"
| "touches (DeletePodCall p) = Some (pod_key p)"
| "touches (RemoveFinalizerCall p f) = Some (pod_key p)"
| "touches (CreateCRRCall c) = Some (crr_Namespace c, crr_Name c)"
| "touches _ = None"

definition touched :: "hist \<Rightarrow> (string \<times> string) set" where
  "touched cs = {k. \<exists>c \<in> set cs. touches c = Some k}"

lemma touched_simps [simp]:
  "touched [] = {}" "touched (cs @ ds) = touched cs \<union> touched ds"
  "touched (c # cs) = (case touches c of None \<Rightarrow> touched cs | Some k \<Rightarrow> insert k (touched cs))"
  by (auto simp: touched_def split: option.splits)

text \<open>A pod is refreshed: it is deleted, or the label of its generation is set.\<close>

definition refreshed :: "pod \<Rightarrow> int \<Rightarrow> hist \<Rightarrow> bool" where
  "refreshed p generation cs \<longleftrightarrow>
     DeletePodCall p \<in> set cs \<or> PatchPodMeta p [] [(LabelGeneration, Itoa generation)] \<in> set cs"

lemma refreshed_append [simp]: "refreshed p g (cs @ ds) \<longleftrightarrow> refreshed p g cs \<or> refreshed p g ds"
  by (auto simp: refreshed_def)

lemma kruise_effect:
  assumes "restartPodInKruiseProtocol W job p ws g h = ((r, p1), h')"
  shows "\<exists>cs. h' = h @ cs \<and> touched cs \<subseteq> {pod_key p}" "r = Inr True \<Longrightarrow> p1 = p"
  using assms
  by (auto simp: restartPodInKruiseProtocol_def recreatePodContainers_def patch_pod_meta_def api_write_def emit_def
      pod_key_def Let_def split: if_splits sum.splits option.splits)

lemma restart_effect:
  assumes "restartStalePod W job p ws g h = ((r, p1), h')"
  shows "\<exists>cs. h' = h @ cs \<and> touched cs \<subseteq> {pod_key p} \<and>
    (r = Inr True \<and> sget (pod_Labels p) LabelGeneration \<noteq> Itoa g \<longrightarrow> refreshed p g cs)"
proof -
  obtain r0 p0 h0 where k: "restartPodInKruiseProtocol W job p (Itoa ws) (Itoa g) h = ((r0, p0), h0)"
    by (metis surj_pair)
  from kruise_effect(1) [OF k] obtain cs0 where cs0: "h0 = h @ cs0" "touched cs0 \<subseteq> {pod_key p}" by blast
  show ?thesis
  proof (cases "r0 = Inr True")
    case True
    with kruise_effect(2) [OF k] k cs0 assms show ?thesis
      by (auto simp: restartStalePod_def patch_pod_meta_def api_write_def emit_def refreshed_def pod_key_def Let_def
          split: if_splits sum.splits option.splits)
  next
    case False
    then have "\<exists>e. r0 = Inl e \<or> r0 = Inr False" by (cases r0) auto
    with k cs0 assms show ?thesis
      by (auto simp: restartStalePod_def api_write_def refreshed_def pod_key_def Let_def
          split: if_splits sum.splits option.splits)
  qed
qed

subsection \<open>The loops\<close>

lemma masters_effect:
  assumes "restart_masters W job ws ps ok pods h = (r, h')"
  shows "\<exists>cs. h' = h @ cs \<and> touched cs \<subseteq> pod_key ` set ps \<and>
    (\<forall>pods'. r = Inr (True, pods') \<longrightarrow>
       (\<forall>p \<in> set ps. sget (pod_Labels p) LabelGeneration \<noteq> Itoa (jm_Generation job) \<longrightarrow> refreshed p (jm_Generation job) cs))"
  using assms
proof (induction ps arbitrary: ok pods h)
  case (Cons p ps)
  obtain r1 p1 h1 where s: "restartStalePod W job p ws (jm_Generation job) h = ((r1, p1), h1)" by (metis surj_pair)
  from restart_effect [OF s] obtain cs1 where cs1: "h1 = h @ cs1" "touched cs1 \<subseteq> {pod_key p}"
    "r1 = Inr True \<and> sget (pod_Labels p) LabelGeneration \<noteq> Itoa (jm_Generation job) \<longrightarrow> refreshed p (jm_Generation job) cs1" by blast
  show ?case
  proof (cases r1)
    case (Inl e)
    with Cons.prems s cs1 show ?thesis by auto
  next
    case (Inr b)
    with Cons.prems s have rec: "restart_masters W job ws ps (ok \<and> b) (write_back p p1 pods) h1 = (r, h')" by simp
    from Cons.IH [OF rec] obtain cs2 where cs2: "h' = h1 @ cs2" "touched cs2 \<subseteq> pod_key ` set ps"
      "\<forall>pods'. r = Inr (True, pods') \<longrightarrow> (\<forall>p \<in> set ps. sget (pod_Labels p) LabelGeneration \<noteq> Itoa (jm_Generation job) \<longrightarrow>
         refreshed p (jm_Generation job) cs2)" by blast
    have "b" if "r = Inr (True, pods')" for pods'
    proof -
      have "ok' " if "restart_masters W job ws ps ok' qs h0 = (Inr (True, pods'), h3)" for ok' qs h0 h3
        using that by (induction ps arbitrary: ok' qs h0) (auto split: prod.splits sum.splits)
      from this [OF rec [unfolded that]] show ?thesis by simp
    qed
    with cs1 cs2 Inr show ?thesis by (intro exI [of _ "cs1 @ cs2"]) auto
  qed
qed auto

lemma workers_effect:
  assumes "restart_workers W job ws ps n pods h = ((m, pods'), h')"
  shows "\<exists>cs. h' = h @ cs \<and> touched cs \<subseteq> pod_key ` set ps \<and> m \<le> n + length ps \<and>
    (m = n + length ps \<longrightarrow>
       (\<forall>p \<in> set ps. sget (pod_Labels p) LabelGeneration \<noteq> Itoa (jm_Generation job) \<longrightarrow> refreshed p (jm_Generation job) cs))"
  using assms
proof (induction ps arbitrary: n pods h)
  case (Cons p ps)
  obtain r1 p1 h1 where s: "restartStalePod W job p ws (jm_Generation job) h = ((r1, p1), h1)" by (metis surj_pair)
  from restart_effect [OF s] obtain cs1 where cs1: "h1 = h @ cs1" "touched cs1 \<subseteq> {pod_key p}"
    "r1 = Inr True \<and> sget (pod_Labels p) LabelGeneration \<noteq> Itoa (jm_Generation job) \<longrightarrow> refreshed p (jm_Generation job) cs1" by blast
  let ?n = "if r1 = Inr True then n + 1 else n"
  from Cons.prems s have "restart_workers W job ws ps ?n (write_back p p1 pods) h1 = ((m, pods'), h')" by simp
  from Cons.IH [OF this] obtain cs2 where cs2: "h' = h1 @ cs2" "touched cs2 \<subseteq> pod_key ` set ps" "m \<le> ?n + length ps"
    "m = ?n + length ps \<longrightarrow> (\<forall>p \<in> set ps. sget (pod_Labels p) LabelGeneration \<noteq> Itoa (jm_Generation job) \<longrightarrow>
       refreshed p (jm_Generation job) cs2)" by blast
  then have "m = n + length (p # ps) \<longrightarrow> r1 = Inr True" by (auto split: if_splits)
  with cs1 cs2 show ?case by (intro exI [of _ "cs1 @ cs2"]) (auto split: if_splits)
qed auto

subsection \<open>A scaling round\<close>

text \<open>The stale pods of a replica type.\<close>

definition stale :: "pod list \<Rightarrow> int \<Rightarrow> string \<Rightarrow> pod list" where
  "stale pods generation rt =
     filter (\<lambda>p. IsStalePod p generation \<and> sget (pod_Labels p) ReplicaTypeLabel = rt) pods"

text \<open>All stale pods of the job but those of the AIMaster.\<close>

definition all_stale :: "pod list \<Rightarrow> int \<Rightarrow> pod list" where
  "all_stale pods generation =
     filter (\<lambda>p. IsStalePod p generation \<and> sget (pod_Labels p) ReplicaTypeLabel \<noteq> ''aimaster'') pods"

lemma type_names [simp]:
  "ToLower JobReplicaTypeAIMaster = ''aimaster''" "ToLower PyTorchReplicaTypeWorker = ''worker''"
  "ToLower PyTorchReplicaTypeMaster = ''master''"
  by code_simp+

lemma stale_split:
  assumes "FilterStalePodsByReplicaType pods g [''aimaster''] = (tot, m)"
  shows "tot = int (length (all_stale pods g))" "m ''worker'' = stale pods g ''worker''" "m ''master'' = stale pods g ''master''"
  using assms by (auto simp: FilterStalePodsByReplicaType_def stale_loop_eq all_stale_def stale_def)

lemma Itoa_nonempty [simp]: "Itoa i \<noteq> []"
  by (simp add: Itoa_def)

lemma stale_label: "in64 g \<Longrightarrow> IsStalePod p g \<Longrightarrow> sget (pod_Labels p) LabelGeneration \<noteq> Itoa g"
  by (metis (no_types, lifting) Atoi_Itoa IsStalePod_def Itoa_nonempty less_irrefl option.simps(5))

lemma parts_length:
  "length (stale pods g ''master'') + length (stale pods g ''worker'') \<le> length (all_stale pods g)"
  "length (stale pods g ''master'') + length (stale pods g ''worker'') = length (all_stale pods g) \<Longrightarrow>
   set (all_stale pods g) = set (stale pods g ''master'') \<union> set (stale pods g ''worker'')"
proof -
  have le: "length (stale pods g ''master'') + length (stale pods g ''worker'') \<le> length (all_stale pods g) \<and>
    (length (stale pods g ''master'') + length (stale pods g ''worker'') = length (all_stale pods g) \<longrightarrow>
     set (all_stale pods g) = set (stale pods g ''master'') \<union> set (stale pods g ''worker''))"
    by (induction pods) (auto simp: stale_def all_stale_def)
  then show "length (stale pods g ''master'') + length (stale pods g ''worker'') \<le> length (all_stale pods g)"
    "length (stale pods g ''master'') + length (stale pods g ''worker'') = length (all_stale pods g) \<Longrightarrow>
     set (all_stale pods g) = set (stale pods g ''master'') \<union> set (stale pods g ''worker'')"
    by simp_all
qed

definition go_order_law :: "outside \<Rightarrow> bool" where
  "go_order_law W \<longleftrightarrow> (\<forall>h ps. set (out_go_order W h ps) = set ps \<and> length (out_go_order W h ps) = length ps)"

lemma round_effect:
  assumes "restart_round W E job ws pods all h = (r, h')" and law: "go_order_law W" and g: "in64 (jm_Generation job)"
  shows "\<exists>cs1 cs2. h' = h @ cs1 @ cs2 \<and>
    touched cs1 \<subseteq> pod_key ` set (stale pods (jm_Generation job) ''master'') \<and>
    touched cs2 \<subseteq> pod_key ` set (stale pods (jm_Generation job) ''worker'') \<and>
    (cs2 \<noteq> [] \<longrightarrow> (\<forall>p \<in> set (stale pods (jm_Generation job) ''master''). refreshed p (jm_Generation job) cs1)) \<and>
    (\<forall>job' pods'. r = Inr (True, job', pods') \<longrightarrow>
       (\<forall>p \<in> set (all_stale pods (jm_Generation job)). refreshed p (jm_Generation job) (cs1 @ cs2)))"
proof -
  let ?g = "jm_Generation job"
  let ?M = "stale pods ?g ''master''" and ?W = "stale pods ?g ''worker''"
  obtain tot m where f: "FilterStalePodsByReplicaType pods ?g [''aimaster''] = (tot, m)" by fastforce
  note split = stale_split [OF f]
  have lab: "sget (pod_Labels p) LabelGeneration \<noteq> Itoa ?g" if "p \<in> set ?M \<union> set ?W" for p
    using that stale_label [OF g] by (auto simp: stale_def)
  obtain x h1 where m1: "restart_masters W job ws ?M True all h = (x, h1)" by fastforce
  from masters_effect [OF m1] obtain cs1 where cs1: "h1 = h @ cs1" "touched cs1 \<subseteq> pod_key ` set ?M"
    and r1: "\<forall>pods'. x = Inr (True, pods') \<longrightarrow>
       (\<forall>p \<in> set ?M. sget (pod_Labels p) LabelGeneration \<noteq> Itoa ?g \<longrightarrow> refreshed p ?g cs1)" by blast
  have ref1: "\<forall>p \<in> set ?M. refreshed p ?g cs1" if "x = Inr (True, pods')" for pods'
    using r1 that lab by simp
  show ?thesis
  proof (cases "\<exists>pods1. x = Inr (True, pods1)")
    case False
    with assms(1) f m1 split have "h' = h1 \<and> (\<forall>job' pods'. r \<noteq> Inr (True, job', pods'))"
      by (cases x) (auto simp: restart_round_def split: prod.splits)
    with cs1 show ?thesis by (intro exI [of _ cs1] exI [of _ "[]"]) auto
  next
    case True
    then obtain pods1 where x: "x = Inr (True, pods1)" by blast
    let ?ps = "out_go_order W h1 ?W"
    have ps: "set ?ps = set ?W" "length ?ps = length ?W" using law by (auto simp: go_order_law_def)
    obtain c pods2 h2 where w: "restart_workers W job ws ?ps 0 pods1 h1 = ((c, pods2), h2)" by (metis surj_pair)
    from workers_effect [OF w] obtain cs2 where cs2: "h2 = h1 @ cs2" "touched cs2 \<subseteq> pod_key ` set ?W" "c \<le> length ?W"
      and r2: "c = length ?W \<longrightarrow>
        (\<forall>p \<in> set ?W. sget (pod_Labels p) LabelGeneration \<noteq> Itoa ?g \<longrightarrow> refreshed p ?g cs2)"
      unfolding ps by auto
    have ref2: "\<forall>p \<in> set ?W. refreshed p ?g cs2" if "c = length ?W" using r2 that lab by simp
    have body: "restart_round W E job ws pods all h =
       (if tot = 0 \<or> tot - int (length ?M) - int (c - ee_lost E h2) = 0
        then andThen (patch_job W job (scale_finished_patch job) h2)
               (\<lambda>job1 h3. (Inr (True, job1, pods2), emit (Event ''Normal'' ''ScaleSucceed'') h3))
        else (Inr (False, job, pods2), h2))"
      by (simp add: restart_round_def f split m1 x w)
    obtain cs3 where cs3: "h' = h2 @ cs3" "touched cs3 = {}"
      using assms(1) unfolding body by (auto simp: patch_job_def andThen_def emit_def split: if_splits sum.splits)
    have all: "\<forall>p \<in> set (all_stale pods ?g). refreshed p ?g (cs1 @ cs2)" if "r = Inr (True, job', pods')" for job' pods'
    proof -
      from that assms(1) have "tot = 0 \<or> tot - int (length ?M) - int (c - ee_lost E h2) = 0"
        unfolding body by (auto split: if_splits)
      then consider "all_stale pods ?g = []" | "length ?M + length ?W = length (all_stale pods ?g)" "c = length ?W"
        using split(1) parts_length(1) [of pods ?g] cs2(3) by fastforce
      then show ?thesis
        using parts_length(2) [of pods ?g] ref1 [OF x] ref2 by cases auto
    qed
    have h': "h' = h @ cs1 @ cs2 @ cs3" using cs1 cs2 cs3 by simp
    show ?thesis
      using h' cs1(2) cs2(2) cs3(2) ref1 [OF x] all
      by (intro exI [of _ cs1] exI [of _ "cs2 @ cs3"]) auto
  qed
qed

text \<open>The job in memory while pods are restarted: the answer to the patch that marks the scaling as inflight.\<close>

definition inflight_job :: "outside \<Rightarrow> service list \<Rightarrow> job_meta \<Rightarrow> hist \<Rightarrow> job_meta" where
  "inflight_job W svcs job h =
     (let h1 = snd (case filterMasterService W svcs of
                      None \<Rightarrow> (None, h) | Some svc \<Rightarrow> refreshStaleService W svc (jm_Generation job) h)
      in if sget (jm_Annotations job) AnnotationElasticScaleState \<noteq> ''inflight''
         then (case out_patch_job W h1 job [(AnnotationElasticScaleState, ''inflight'')] of Inl e \<Rightarrow> job | Inr job1 \<Rightarrow> job1)
         else job)"

definition start_requested :: "job_meta \<Rightarrow> bool" where
  "start_requested job \<longleftrightarrow> sget (jm_Annotations job) AnnotationReadyToStartWorker = ''true'' \<or>
     sget (jm_Annotations job) AnnotationImmediatelyStartWorker = ''true''"

lemma refresh_service_effect:
  "refreshStaleService W svc g h = (e, h') \<Longrightarrow> \<exists>cs. h' = h @ cs \<and> touched cs = {}"
  by (auto simp: refreshStaleService_def api_write_def emit_def Let_def split: if_splits option.splits)

lemma scale_split:
  assumes "scale W E job specs pods svcs all h = (r, h')"
  obtains cs where "h' = h @ cs" "touched cs = {}" "\<forall>job' pods'. r \<noteq> Inr (True, job', pods')"
  | cs ws where "start_requested job" "touched cs = {}"
      "restart_round W E (inflight_job W svcs job h) ws pods all (h @ cs) = (r, h')"
proof -
  obtain e h1 where f: "(case filterMasterService W svcs of None \<Rightarrow> (None, h)
      | Some svc \<Rightarrow> refreshStaleService W svc (jm_Generation job) h) = (e, h1)" by fastforce
  then obtain cs1 where cs1: "h1 = h @ cs1" "touched cs1 = {}"
    using refresh_service_effect by (fastforce split: option.splits)
  show ?thesis
  proof (cases "e = None \<and> start_requested job")
    case False
    with assms f have "h' = h1 \<and> (\<forall>job' pods'. r \<noteq> Inr (True, job', pods'))"
      by (cases e) (auto simp: scale_def start_requested_def)
    with cs1 show ?thesis by (intro that(1)) auto
  next
    case True
    let ?p = "[(AnnotationElasticScaleState, ''inflight'')]"
    let ?patch = "sget (jm_Annotations job) AnnotationElasticScaleState \<noteq> ''inflight''"
    define cs2 where "cs2 = (if ?patch then cs1 @ [PatchJobAnnotations job ?p] else cs1)"
    have cs2: "touched cs2 = {}" using cs1 by (simp add: cs2_def)
    have job: "inflight_job W svcs job h = (if ?patch then (case out_patch_job W h1 job ?p of Inl e \<Rightarrow> job | Inr j \<Rightarrow> j) else job)"
      by (simp only: inflight_job_def f Let_def snd_conv)
    have body: "scale W E job specs pods svcs all h =
      andThen (if ?patch then patch_job W job ?p h1 else (Inr job, h1))
        (\<lambda>job1 h2. andThen (lift_sum (GetTotalExcludedReplicas specs [JobReplicaTypeAIMaster]) h2)
          (\<lambda>totalReplicas h3. restart_round W E job1 totalReplicas pods all h3))"
      using True unfolding scale_def f start_requested_def by (auto simp only: guarded_simps if_False if_True simp_thms)
    show ?thesis
    proof (cases "\<exists>e. (?patch \<and> out_patch_job W h1 job ?p = Inl e) \<or> GetTotalExcludedReplicas specs [JobReplicaTypeAIMaster] = Inl e")
      case True
      then have "h' = h @ cs2 \<and> (\<forall>job' pods'. r \<noteq> Inr (True, job', pods'))"
        using assms unfolding body cs2_def cs1(1)
        by (cases "out_patch_job W h1 job ?p") (auto simp: patch_job_def cs1(1) split: if_splits)
      with cs2 show ?thesis by (intro that(1)) auto
    next
      case False
      then obtain ws where "GetTotalExcludedReplicas specs [JobReplicaTypeAIMaster] = Inr ws"
        by (cases "GetTotalExcludedReplicas specs [JobReplicaTypeAIMaster]") auto
      with False have "restart_round W E (inflight_job W svcs job h) ws pods all (h @ cs2) = (r, h')"
        using assms unfolding body job cs2_def cs1(1)
        by (cases "out_patch_job W h1 job ?p") (auto simp: patch_job_def cs1(1) split: if_splits)
      with True cs2 show ?thesis by (intro that(2)) auto
    qed
  qed
qed

text \<open>
  C23. Scaling restarts the master before the workers: no pod is touched before the AIMaster or the
  user allowed it; then only stale masters and workers are, and a worker only after every stale
  master has been refreshed to the generation of the job.
\<close>

theorem scale_masters_first:
  assumes "scale W E job specs pods svcs all h = (r, h')" "go_order_law W"
    and "g = jm_Generation (inflight_job W svcs job h)" "in64 g"
  shows "\<exists>cs1 cs2. h' = h @ cs1 @ cs2 \<and>
    touched cs1 \<subseteq> pod_key ` set (stale pods g ''master'') \<and> touched cs2 \<subseteq> pod_key ` set (stale pods g ''worker'') \<and>
    (touched cs2 \<noteq> {} \<longrightarrow> (\<forall>p \<in> set (stale pods g ''master''). refreshed p g cs1)) \<and>
    (touched (cs1 @ cs2) \<noteq> {} \<longrightarrow> start_requested job)"
  using assms(1)
proof (cases rule: scale_split)
  case (1 cs)
  then show ?thesis by (intro exI [of _ cs] exI [of _ "[]"]) auto
next
  case (2 cs ws)
  from round_effect [OF 2(3) assms(2) assms(4) [unfolded assms(3)]] obtain cs1 cs2 where
    "h' = (h @ cs) @ cs1 @ cs2" "touched cs1 \<subseteq> pod_key ` set (stale pods g ''master'')"
    "touched cs2 \<subseteq> pod_key ` set (stale pods g ''worker'')"
    "cs2 \<noteq> [] \<longrightarrow> (\<forall>p \<in> set (stale pods g ''master''). refreshed p g cs1)" unfolding assms(3) by blast
  with 2 show ?thesis by (intro exI [of _ "cs @ cs1"] exI [of _ cs2]) auto
qed

text \<open>
  A scaling round that is declared done has refreshed every stale pod of the job but the AIMaster:
  each of them was deleted or carries the label of the new generation, also if decrements of the
  shared counter get lost.
\<close>

theorem scale_done_complete:
  assumes "scale W E job specs pods svcs all h = (Inr (True, job', pods'), h')" "go_order_law W"
    and "g = jm_Generation (inflight_job W svcs job h)" "in64 g"
  shows "\<exists>cs. h' = h @ cs \<and> (\<forall>p \<in> set (all_stale pods g). refreshed p g cs)"
  using assms(1)
proof (cases rule: scale_split)
  case (1 cs)
  then show ?thesis by blast
next
  case (2 cs ws)
  from round_effect [OF 2(3) assms(2) assms(4) [unfolded assms(3)]] obtain cs1 cs2 where
    "h' = (h @ cs) @ cs1 @ cs2" "\<forall>p \<in> set (all_stale pods g). refreshed p g (cs1 @ cs2)"
    unfolding assms(3) [symmetric] by metis
  then show ?thesis by (intro exI [of _ "cs @ cs1 @ cs2"]) auto
qed

subsection \<open>The checkpoint protocol\<close>

text \<open>
  The phases of a checkpoint as the annotations of the job tell them: none is open, one was
  requested, or the AIMaster has completed the requested one.
\<close>

datatype ckpt_phase = CkptIdle | CkptRequested | CkptCompleted

definition ckpt_phase_of :: "elastic_env \<Rightarrow> smap \<Rightarrow> go_error + ckpt_phase" where
  "ckpt_phase_of E anno =
     (case getCheckpointVersion E anno AnnotationCheckpointRequestedVersion of
        Inl e \<Rightarrow> Inl e
      | Inr req \<Rightarrow>
          (case getCheckpointVersion E anno AnnotationCheckpointCompletedVersion of
             Inl e \<Rightarrow> Inl e
           | Inr completed \<Rightarrow>
               (case req of
                  None \<Rightarrow> Inr CkptIdle
                | Some v \<Rightarrow>
                    (if map_option cv_Version completed \<noteq> Some (cv_Version v) then Inr CkptRequested
                     else if cv_Status v = checkpointSucceeded then Inr CkptIdle
                     else if cv_Status v = checkpointInProgress then Inr CkptCompleted
                     else Inr CkptRequested))))"

lemma status_distinct [simp]: "checkpointSucceeded \<noteq> checkpointInProgress" "checkpointInProgress \<noteq> checkpointSucceeded"
  by (simp_all add: checkpointSucceeded_def checkpointInProgress_def)

lemma checkpoint_by_phase:
  "CheckpointIfNecessary W E job specs pods h =
     (case ckpt_phase_of E (jm_Annotations job) of
        Inl e \<Rightarrow> (Inl e, h)
      | Inr CkptIdle \<Rightarrow>
          (if filterVictimPods pods = [] then (Inr (True, job, specs), h)
           else andThen (triggerJobCheckpoint W E job (emit (Event ''Normal'' ''CheckpointStarted'') h))
                  (\<lambda>job1 h1. (Inr (False, job1, specs), h1)))
      | Inr CkptRequested \<Rightarrow> (Inr (False, job, specs), h)
      | Inr CkptCompleted \<Rightarrow>
          guarded (cleanupVictimPods W (filterVictimPods pods) h)
            (\<lambda>h1. case increaseGenerationAndMarkAsSucceeded W E job specs
                     (case getCheckpointVersion E (jm_Annotations job) AnnotationCheckpointRequestedVersion of
                        Inr req \<Rightarrow> req | Inl e \<Rightarrow> None) h1 of
               ((Some (Panic p), job1, specs1), h2) \<Rightarrow> (Inl (Panic p), h2)
             | ((Some e, job1, specs1), h2) \<Rightarrow> (Inr (False, job1, specs1), h2)
             | ((None, job1, specs1), h2) \<Rightarrow>
                 (Inr (True, job1, specs1), emit (Event ''Normal'' ''CheckpointSucceeded'') h2)))"
  by (auto simp: CheckpointIfNecessary_def ckpt_phase_of_def Let_def split: sum.splits option.splits)

definition requests :: "hist \<Rightarrow> string list" where
  "requests cs = concat (map (\<lambda>c. case c of
     PatchJobAnnotations job as \<Rightarrow> map snd (filter (\<lambda>(k, v). k = AnnotationCheckpointRequestedVersion) as) | _ \<Rightarrow> []) cs)"

lemma requests_simps [simp]:
  "requests [] = []" "requests (cs @ ds) = requests cs @ requests ds"
  by (simp_all add: requests_def)

lemma requests_other: "(\<forall>job as. c \<noteq> PatchJobAnnotations job as) \<Longrightarrow> requests (c # cs) = requests cs"
  by (cases c) (simp_all add: requests_def)

lemma delete_pod_requests: "DeletePod W ns n h = (e, h') \<Longrightarrow> \<exists>cs. h' = h @ cs \<and> requests cs = []"
  by (auto simp: DeletePod_def emit_def api_write_def remove_finalizer_def Let_def requests_other
      split: sum.splits option.splits if_splits)

lemma cleanup_requests: "cleanup_loop W ps n h = (m, h') \<Longrightarrow> \<exists>cs. h' = h @ cs \<and> requests cs = []"
proof (induction W ps n h rule: cleanup_loop.induct)
  case (2 W p ps n h)
  show ?case
  proof (cases "n = victim_errs + victim_tickets")
    case True
    with 2(3) show ?thesis by simp
  next
    case False
    obtain e h1 where d: "DeletePod W (pod_Namespace p) (pod_Name p) h = (e, h1)" by fastforce
    from delete_pod_requests [OF d] obtain cs1 where cs1: "h1 = h @ cs1" "requests cs1 = []" by blast
    from 2 False d have "\<exists>cs. h' = h1 @ cs \<and> requests cs = []" by (cases e) auto
    with cs1 show ?thesis by auto
  qed
qed simp

lemma increase_effect:
  assumes "increaseGenerationAndMarkAsSucceeded W E job specs req h = (x, h')"
  shows "\<exists>cs. h' = h @ cs \<and> touched cs = {} \<and> requests cs = []"
  using assms by (auto simp: increaseGenerationAndMarkAsSucceeded_def update_job_def Let_def requests_other
      split: option.splits sum.splits)

text \<open>
  C24. Victim pods wait for their checkpoint: pods about to be preempted are only touched after the
  AIMaster has completed the requested checkpoint, and a new checkpoint is only requested when none
  is open and there is a victim.
\<close>

theorem victims_wait_for_checkpoint:
  assumes "CheckpointIfNecessary W E job specs pods h = (r, h')"
  shows "\<exists>cs. h' = h @ cs \<and>
    (touched cs \<noteq> {} \<longrightarrow> ckpt_phase_of E (jm_Annotations job) = Inr CkptCompleted) \<and>
    (requests cs \<noteq> [] \<longrightarrow> ckpt_phase_of E (jm_Annotations job) = Inr CkptIdle \<and> filterVictimPods pods \<noteq> [])"
proof (cases "ckpt_phase_of E (jm_Annotations job)")
  case (Inl e)
  with assms show ?thesis by (simp add: checkpoint_by_phase)
next
  case (Inr ph)
  note phase = this
  show ?thesis
  proof (cases ph)
    case CkptIdle
    have "\<exists>cs. h' = h @ cs \<and> touched cs = {} \<and> (requests cs \<noteq> [] \<longrightarrow> filterVictimPods pods \<noteq> [])"
      using assms phase CkptIdle
      by (auto simp: checkpoint_by_phase triggerJobCheckpoint_def patch_job_def andThen_def emit_def requests_other
          split: sum.splits if_splits)
    with phase CkptIdle show ?thesis by auto
  next
    case CkptRequested
    with assms phase show ?thesis by (simp add: checkpoint_by_phase)
  next
    case CkptCompleted
    let ?req = "case getCheckpointVersion E (jm_Annotations job) AnnotationCheckpointRequestedVersion of
        Inr req \<Rightarrow> req | Inl e \<Rightarrow> None"
    obtain n h1 where c: "cleanup_loop W (out_go_order W h (filterVictimPods pods)) 0 h = (n, h1)" by fastforce
    obtain x h2 where i: "increaseGenerationAndMarkAsSucceeded W E job specs ?req h1 = (x, h2)" by fastforce
    from cleanup_requests [OF c] increase_effect [OF i] obtain cs1 cs2 where
      cs: "h1 = h @ cs1" "requests cs1 = []" "h2 = h1 @ cs2" "requests cs2 = []" by blast
    have "h' = h1 \<or> h' = h2 \<or> h' = h2 @ [Event ''Normal'' ''CheckpointSucceeded'']"
      using assms phase CkptCompleted c i
      by (auto simp: checkpoint_by_phase cleanupVictimPods_def emit_def
          split: option.splits prod.splits go_error.splits if_splits)
    then show ?thesis using cs phase CkptCompleted by (auto simp: requests_other)
  qed
qed

text \<open>
  What the protocol relies on. A checkpoint version of an instant in the years 0 to 9999 can be encoded
  and decoded again; the number survives, and so does a status of ASCII characters, while the instant is
  cut to whole seconds. A decoded number is an int32. The answer to a patch carries the patched
  annotations, and the answer to an update those that were sent, since the server refuses an update of an
  outdated object.
\<close>

definition json_time :: "time \<Rightarrow> bool" where
  "json_time t \<longleftrightarrow> - 62167219200 * second \<le> t \<and> t < 253402300800 * second"

definition ascii :: "string \<Rightarrow> bool" where
  "ascii s \<longleftrightarrow> list_all (\<lambda>c. of_char c < (128 :: nat)) s"

definition ckpt_codec :: "elastic_env \<Rightarrow> bool" where
  "ckpt_codec E \<longleftrightarrow>
     (\<forall>v. in32 (cv_Version v) \<and> json_time (cv_Timestamp v) \<longrightarrow>
       (\<exists>s v'. ee_encode E v = Inr s \<and> s \<noteq> [] \<and> ee_decode E s = Inr v' \<and> cv_Version v' = cv_Version v \<and>
          (ascii (cv_Status v) \<longrightarrow> cv_Status v' = cv_Status v) \<and>
          cv_Timestamp v' = second * (cv_Timestamp v div second))) \<and>
     (\<forall>s v. ee_decode E s = Inr v \<longrightarrow> in32 (cv_Version v))"

definition keeps_annotations :: "outside \<Rightarrow> bool" where
  "keeps_annotations W \<longleftrightarrow>
     (\<forall>h job as job'. out_patch_job W h job as = Inr job' \<longrightarrow> map_of as \<subseteq>\<^sub>m jm_Annotations job') \<and>
     (\<forall>h job specs job' specs'. out_update_job W h job specs = Inr (job', specs') \<longrightarrow> jm_Annotations job \<subseteq>\<^sub>m jm_Annotations job')"

lemma keeps_annotationsD:
  assumes "keeps_annotations W"
  shows "out_patch_job W h job [(k, v)] = Inr job' \<Longrightarrow> jm_Annotations job' k = Some v"
    "out_update_job W h job specs = Inr (job', specs') \<Longrightarrow> jm_Annotations job k = Some v \<Longrightarrow> jm_Annotations job' k = Some v"
proof -
  assume "out_patch_job W h job [(k, v)] = Inr job'"
  with assms have "map_of [(k, v)] \<subseteq>\<^sub>m jm_Annotations job'" unfolding keeps_annotations_def by metis
  then show "jm_Annotations job' k = Some v" by (simp add: map_le_def)
next
  assume "out_update_job W h job specs = Inr (job', specs')" and k: "jm_Annotations job k = Some v"
  with assms have "jm_Annotations job \<subseteq>\<^sub>m jm_Annotations job'" unfolding keeps_annotations_def by metis
  with k show "jm_Annotations job' k = Some v" unfolding map_le_def by (metis domI)
qed

lemma ckpt_ascii [simp]: "ascii checkpointInProgress" "ascii checkpointSucceeded"
  unfolding checkpointInProgress_def checkpointSucceeded_def by code_simp+

lemma get_encoded:
  assumes "ckpt_codec E" "in32 (cv_Version v)" "json_time (cv_Timestamp v)" "ascii (cv_Status v)"
  obtains s v' where "ee_encode E v = Inr s" "cv_Version v' = cv_Version v" "cv_Status v' = cv_Status v"
    "\<And>anno k. anno k = Some s \<Longrightarrow> getCheckpointVersion E anno k = Inr (Some v')"
proof -
  from assms obtain s v' where "ee_encode E v = Inr s" "s \<noteq> []" "ee_decode E s = Inr v'"
    "cv_Version v' = cv_Version v" "cv_Status v' = cv_Status v" unfolding ckpt_codec_def by metis
  with that show thesis by (simp add: getCheckpointVersion_def sget_def)
qed

lemma read_version_in32:
  "ckpt_codec E \<Longrightarrow> getCheckpointVersion E anno k = Inr (Some v) \<Longrightarrow> in32 (cv_Version v)"
  by (auto simp: ckpt_codec_def getCheckpointVersion_def Let_def split: if_splits sum.splits)

lemma read_version_cong:
  "getCheckpointVersion E anno k = Inr (Some v) \<Longrightarrow> anno' k = anno k \<Longrightarrow> getCheckpointVersion E anno' k = Inr (Some v)"
  by (simp add: getCheckpointVersion_def sget_def)

lemma read_version_key: "getCheckpointVersion E anno k = Inr (Some v) \<Longrightarrow> \<exists>s. anno k = Some s"
  by (cases "anno k") (auto simp: getCheckpointVersion_def sget_def)

lemma annotation_keys [simp]:
  "AnnotationCheckpointRequestedVersion \<noteq> AnnotationReadyToStartWorker"
  "AnnotationCheckpointCompletedVersion \<noteq> AnnotationReadyToStartWorker"
  "AnnotationCheckpointCompletedVersion \<noteq> AnnotationCheckpointRequestedVersion"
  by (simp_all add: AnnotationCheckpointRequestedVersion_def AnnotationReadyToStartWorker_def
      AnnotationCheckpointCompletedVersion_def)

lemma completed_phase:
  assumes "ckpt_phase_of E anno = Inr CkptCompleted"
  obtains v c where "getCheckpointVersion E anno AnnotationCheckpointRequestedVersion = Inr (Some v)"
    "getCheckpointVersion E anno AnnotationCheckpointCompletedVersion = Inr (Some c)" "cv_Version c = cv_Version v"
proof -
  from assms obtain v comp where
    v: "getCheckpointVersion E anno AnnotationCheckpointRequestedVersion = Inr (Some v)"
    and c: "getCheckpointVersion E anno AnnotationCheckpointCompletedVersion = Inr comp"
    and "map_option cv_Version comp = Some (cv_Version v)"
    by (auto simp: ckpt_phase_of_def split: sum.splits option.splits if_splits)
  with that show thesis by (cases comp) auto
qed

text \<open>The annotations that close a checkpoint: the request is marked, and the workers may start.\<close>

definition closes_checkpoint :: "elastic_env \<Rightarrow> smap \<Rightarrow> bool" where
  "closes_checkpoint E anno \<longleftrightarrow>
     ckpt_phase_of E anno = Inr CkptIdle \<and> sget anno AnnotationReadyToStartWorker = ''true''"

lemma succeed_phase:
  assumes codec: "ckpt_codec E" and phase: "ckpt_phase_of E anno = Inr CkptCompleted"
    and v: "getCheckpointVersion E anno AnnotationCheckpointRequestedVersion = Inr (Some v)" "json_time (cv_Timestamp v)"
    and anno': "(setCheckpointVersion E anno AnnotationCheckpointRequestedVersion (v\<lparr>cv_Status := checkpointSucceeded\<rparr>))
      (AnnotationReadyToStartWorker \<mapsto> ''true'') \<subseteq>\<^sub>m anno'"
  shows "closes_checkpoint E anno'"
proof -
  let ?v = "v\<lparr>cv_Status := checkpointSucceeded\<rparr>"
  have "in32 (cv_Version ?v)" "json_time (cv_Timestamp ?v)" "ascii (cv_Status ?v)"
    using read_version_in32 [OF codec v(1)] v(2) by simp_all
  from get_encoded [OF codec this] obtain s v' where s: "ee_encode E ?v = Inr s"
    and v': "cv_Version v' = cv_Version v" "cv_Status v' = checkpointSucceeded"
    and rd: "\<And>anno k. anno k = Some s \<Longrightarrow> getCheckpointVersion E anno k = Inr (Some v')" by auto
  from completed_phase [OF phase] v(1) obtain c where
    c: "getCheckpointVersion E anno AnnotationCheckpointCompletedVersion = Inr (Some c)" "cv_Version c = cv_Version v" by force
  from read_version_key [OF c(1)] obtain t where t: "anno AnnotationCheckpointCompletedVersion = Some t" by blast
  have le: "anno(AnnotationCheckpointRequestedVersion \<mapsto> s, AnnotationReadyToStartWorker \<mapsto> ''true'') \<subseteq>\<^sub>m anno'"
    using anno' s by (simp add: setCheckpointVersion_def)
  have at: "anno' k = (anno(AnnotationCheckpointRequestedVersion \<mapsto> s, AnnotationReadyToStartWorker \<mapsto> ''true'')) k"
    if "k \<in> {AnnotationCheckpointRequestedVersion, AnnotationReadyToStartWorker, AnnotationCheckpointCompletedVersion}" for k
  proof -
    have "k \<in> dom (anno(AnnotationCheckpointRequestedVersion \<mapsto> s, AnnotationReadyToStartWorker \<mapsto> ''true''))"
      using that t by auto
    with le show ?thesis unfolding map_le_def by metis
  qed
  have "anno' AnnotationCheckpointRequestedVersion = Some s" "anno' AnnotationReadyToStartWorker = Some ''true''"
    "anno' AnnotationCheckpointCompletedVersion = anno AnnotationCheckpointCompletedVersion"
    using at by simp_all
  with rd read_version_cong [OF c(1)] c(2) v' show ?thesis
    by (auto simp: closes_checkpoint_def ckpt_phase_of_def sget_def)
qed

text \<open>A victim is drained: its deletion was asked for between two points of the run and met no error.\<close>

definition drained :: "outside \<Rightarrow> pod \<Rightarrow> hist \<Rightarrow> hist \<Rightarrow> bool" where
  "drained W p h h' \<longleftrightarrow>
     (\<exists>h0 h1. extends h h0 \<and> DeletePod W (pod_Namespace p) (pod_Name p) h0 = (None, h1) \<and> extends h1 h')"

lemma drained_mono: "drained W p h1 h2 \<Longrightarrow> extends h h1 \<Longrightarrow> extends h2 h' \<Longrightarrow> drained W p h h'"
  unfolding drained_def by (meson extends_trans)

lemma cleanup_loop_extends: "cleanup_loop W ps n h = (m, h') \<Longrightarrow> extends h h' \<and> n \<le> m"
proof (induction W ps n h rule: cleanup_loop.induct)
  case (2 W p ps n h)
  show ?case
  proof (cases "n = victim_errs + victim_tickets")
    case True
    with 2(3) show ?thesis by simp
  next
    case False
    obtain e h1 where d: "DeletePod W (pod_Namespace p) (pod_Name p) h = (e, h1)" by fastforce
    have x: "extends h h1" using DeletePod_extends [of h W "pod_Namespace p" "pod_Name p"] d by simp
    have "extends h1 h' \<and> n \<le> m"
    proof (cases e)
      case None
      with 2(1) [OF False d [symmetric] None] 2(3) False d show ?thesis by simp
    next
      case (Some err)
      with 2(2) [OF False d [symmetric] Some] 2(3) False d show ?thesis by simp
    qed
    with x show ?thesis by (auto intro: extends_trans)
  qed
qed simp

lemma cleanup_drains: "cleanup_loop W ps 0 h = (0, h') \<Longrightarrow> p \<in> set ps \<Longrightarrow> drained W p h h'"
proof (induction ps arbitrary: h)
  case (Cons q ps)
  obtain e h1 where d: "DeletePod W (pod_Namespace q) (pod_Name q) h = (e, h1)" by fastforce
  have x: "extends h h1" using DeletePod_extends [of h W "pod_Namespace q" "pod_Name q"] d by simp
  have e: "e = None" and rest: "cleanup_loop W ps 0 h1 = (0, h')"
    using Cons.prems(1) d by (auto simp: victim_errs_def split: option.splits dest: cleanup_loop_extends)
  show ?case
  proof (cases "p = q")
    case True
    with d e cleanup_loop_extends [OF rest] x show ?thesis
      unfolding drained_def by (intro exI [of _ h] exI [of _ h1]) simp
  next
    case False
    with Cons.IH [OF rest] Cons.prems(2) x show ?thesis by (auto intro: drained_mono)
  qed
qed simp

text \<open>The update that ends a checkpoint, as it was sent: the job and its specs.\<close>

lemma increase_update:
  assumes "increaseGenerationAndMarkAsSucceeded W E job specs (Some v) h = ((e, job', specs'), h')"
    and "\<forall>p. e \<noteq> Some (Panic p)"
  obtains job1 specs1 where "h' = h @ [UpdateJobCall job1 specs1]"
    "jm_Annotations job1 = (setCheckpointVersion E (jm_Annotations job) AnnotationCheckpointRequestedVersion
       (v\<lparr>cv_Status := checkpointSucceeded\<rparr>)) (AnnotationReadyToStartWorker \<mapsto> ''true'')"
    "\<exists>rtype spec. map_of specs1 rtype = Some spec \<and>
       pt_Annotations (Template spec) GenerationToIncrease = Some (Itoa (i64 (jm_Generation job + 1)))"
    "e = None \<Longrightarrow> out_update_job W h job1 specs1 = Inr (job', specs')"
    "e \<noteq> None \<Longrightarrow> \<exists>err. out_update_job W h job1 specs1 = Inl err"
proof -
  let ?job1 = "job\<lparr>jm_Annotations := (setCheckpointVersion E (jm_Annotations job) AnnotationCheckpointRequestedVersion
       (v\<lparr>cv_Status := checkpointSucceeded\<rparr>)) (AnnotationReadyToStartWorker \<mapsto> ''true'')\<rparr>"
  let ?rtype = "if map_of specs PyTorchReplicaTypeMaster \<noteq> None then PyTorchReplicaTypeMaster else PyTorchReplicaTypeWorker"
  from assms obtain spec where s: "map_of specs ?rtype = Some spec"
    by (cases "map_of specs ?rtype") (auto simp: increaseGenerationAndMarkAsSucceeded_def Let_def)
  define spec1 where "spec1 = spec\<lparr>Template := (Template spec)\<lparr>pt_Annotations :=
      (pt_Annotations (Template spec))(GenerationToIncrease \<mapsto> Itoa (i64 (jm_Generation job + 1)))\<rparr>\<rparr>"
  let ?specs1 = "AList.update ?rtype spec1 specs"
  have "increaseGenerationAndMarkAsSucceeded W E job specs (Some v) h = (case update_job W ?job1 ?specs1 h of
      (Inl e, h1) \<Rightarrow> ((Some e, ?job1, ?specs1), h1) | (Inr (job2, specs2), h1) \<Rightarrow> ((None, job2, specs2), h1))"
    by (simp only: increaseGenerationAndMarkAsSucceeded_def Let_def option.case s spec1_def)
  with assms(1) have run: "((e, job', specs'), h') = (case update_job W ?job1 ?specs1 h of
      (Inl e, h1) \<Rightarrow> ((Some e, ?job1, ?specs1), h1) | (Inr (job2, specs2), h1) \<Rightarrow> ((None, job2, specs2), h1))" by (rule trans [OF sym])
  have g: "map_of ?specs1 ?rtype = Some spec1 \<and>
      pt_Annotations (Template spec1) GenerationToIncrease = Some (Itoa (i64 (jm_Generation job + 1)))"
    by (simp add: update_conv' spec1_def)
  show thesis
  proof (rule that [of ?job1 ?specs1])
    show "\<exists>rtype spec. map_of ?specs1 rtype = Some spec \<and>
        pt_Annotations (Template spec) GenerationToIncrease = Some (Itoa (i64 (jm_Generation job + 1)))" using g by blast
  qed (use run in \<open>auto simp: update_job_def split: sum.splits prod.splits\<close>)
qed

text \<open>
  C25. The controller plays its part of the checkpoint protocol. Without victims nothing happens and
  scaling may go on; with victims it patches the job with a request for a checkpoint of its generation.
  While the request is open it does nothing and holds the scaling back. Once the AIMaster has completed
  the checkpoint it deletes every victim, and then sends one update of the job that closes the checkpoint,
  allows the workers to start and asks for the next generation. Scaling goes on exactly if the server
  accepts this update, and then the stored job has the checkpoint closed. A run that meets an error before
  is not covered.
\<close>

theorem checkpoint_protocol:
  assumes "ckpt_codec E" "keeps_annotations W" "go_order_law W" "\<forall>h. json_time (out_now W h)"
    and "\<forall>v. getCheckpointVersion E (jm_Annotations job) AnnotationCheckpointRequestedVersion = Inr (Some v) \<longrightarrow>
      json_time (cv_Timestamp v)"
    and "ckpt_phase_of E (jm_Annotations job) = Inr ph"
    and "CheckpointIfNecessary W E job specs pods h = (Inr (completed, job', specs'), h')"
  shows "case ph of
      CkptIdle \<Rightarrow>
        (if filterVictimPods pods = [] then completed \<and> job' = job \<and> specs' = specs \<and> h' = h
         else \<not> completed \<and>
           (\<exists>s v. h' = h @ [Event ''Normal'' ''CheckpointStarted'', PatchJobAnnotations job [(AnnotationCheckpointRequestedVersion, s)]] \<and>
              getCheckpointVersion E (jm_Annotations job') AnnotationCheckpointRequestedVersion = Inr (Some v) \<and>
              cv_Version v = i32 (jm_Generation job) \<and> cv_Status v = checkpointInProgress))
    | CkptRequested \<Rightarrow> \<not> completed \<and> job' = job \<and> specs' = specs \<and> h' = h
    | CkptCompleted \<Rightarrow>
        (\<exists>h1 job1 specs1. (\<forall>p \<in> set (filterVictimPods pods). drained W p h h1) \<and>
           extends (h1 @ [UpdateJobCall job1 specs1]) h' \<and> closes_checkpoint E (jm_Annotations job1) \<and>
           (\<exists>rtype spec. map_of specs1 rtype = Some spec \<and>
              pt_Annotations (Template spec) GenerationToIncrease = Some (Itoa (i64 (jm_Generation job + 1)))) \<and>
           (if completed then out_update_job W h1 job1 specs1 = Inr (job', specs') \<and> closes_checkpoint E (jm_Annotations job')
            else \<exists>e. out_update_job W h1 job1 specs1 = Inl e))"
proof (cases ph)
  case CkptIdle
  show ?thesis
  proof (cases "filterVictimPods pods = []")
    case True
    with assms(6,7) CkptIdle show ?thesis by (simp add: checkpoint_by_phase)
  next
    case False
    let ?h = "emit (Event ''Normal'' ''CheckpointStarted'') h"
    let ?v = "\<lparr>cv_Version = i32 (jm_Generation job), cv_Status = checkpointInProgress,
      cv_Context = ''pytorch job starts to request for checkpoint'', cv_Timestamp = out_now W ?h\<rparr>"
    have "in32 (cv_Version ?v)" "json_time (cv_Timestamp ?v)" "ascii (cv_Status ?v)" using assms(4) by simp_all
    from get_encoded [OF assms(1) this] obtain s v' where s: "ee_encode E ?v = Inr s"
      and v': "cv_Version v' = i32 (jm_Generation job)" "cv_Status v' = checkpointInProgress"
      and rd: "\<And>anno k. anno k = Some s \<Longrightarrow> getCheckpointVersion E anno k = Inr (Some v')" by auto
    from s assms(6,7) CkptIdle False have "\<not> completed"
      and p: "out_patch_job W ?h job [(AnnotationCheckpointRequestedVersion, s)] = Inr job'"
      and "h' = ?h @ [PatchJobAnnotations job [(AnnotationCheckpointRequestedVersion, s)]]"
      by (auto simp: checkpoint_by_phase triggerJobCheckpoint_def patch_job_def andThen_def split: sum.splits)
    with rd [of "jm_Annotations job'", OF keeps_annotationsD(1) [OF assms(2) p]] v' False CkptIdle show ?thesis
      by (auto simp: emit_def)
  qed
next
  case CkptRequested
  with assms(6,7) show ?thesis by (simp add: checkpoint_by_phase)
next
  case CkptCompleted
  note phase = assms(6) [unfolded CkptCompleted]
  from completed_phase [OF phase] obtain v where
    v: "getCheckpointVersion E (jm_Annotations job) AnnotationCheckpointRequestedVersion = Inr (Some v)" by blast
  with assms(5) have jt: "json_time (cv_Timestamp v)" by simp
  obtain n h1 where c: "cleanup_loop W (out_go_order W h (filterVictimPods pods)) 0 h = (n, h1)" by fastforce
  obtain e job2 specs2 h2 where i: "increaseGenerationAndMarkAsSucceeded W E job specs (Some v) h1 = ((e, job2, specs2), h2)"
    by (metis surj_pair)
  have n: "n = 0" using assms(7) phase c
    by (auto simp: checkpoint_by_phase cleanupVictimPods_def split: if_splits)
  have np: "\<forall>p. e \<noteq> Some (Panic p)" using assms(7) phase c n v i by (auto simp: checkpoint_by_phase cleanupVictimPods_def)
  have res: "completed = (e = None)" "job' = job2" "specs' = specs2"
      "h' = (if e = None then emit (Event ''Normal'' ''CheckpointSucceeded'') h2 else h2)"
    using assms(7) phase c n v i np by (cases e; auto simp: checkpoint_by_phase cleanupVictimPods_def split: go_error.splits)+
  from increase_update [OF i np] obtain job1 specs1 where u: "h2 = h1 @ [UpdateJobCall job1 specs1]"
    "jm_Annotations job1 = (setCheckpointVersion E (jm_Annotations job) AnnotationCheckpointRequestedVersion
       (v\<lparr>cv_Status := checkpointSucceeded\<rparr>)) (AnnotationReadyToStartWorker \<mapsto> ''true'')"
    "\<exists>rtype spec. map_of specs1 rtype = Some spec \<and>
       pt_Annotations (Template spec) GenerationToIncrease = Some (Itoa (i64 (jm_Generation job + 1)))"
    "e = None \<Longrightarrow> out_update_job W h1 job1 specs1 = Inr (job2, specs2)"
    "e \<noteq> None \<Longrightarrow> \<exists>err. out_update_job W h1 job1 specs1 = Inl err" by blast
  have "set (out_go_order W h (filterVictimPods pods)) = set (filterVictimPods pods)"
    using assms(3) by (simp add: go_order_law_def)
  then have "\<forall>p \<in> set (filterVictimPods pods). drained W p h h1" using cleanup_drains [OF c [unfolded n]] by simp
  moreover have "extends (h1 @ [UpdateJobCall job1 specs1]) h'" using res(4) u(1) by (simp add: emit_def extends_def)
  moreover have "closes_checkpoint E (jm_Annotations job1)"
    by (rule succeed_phase [OF assms(1) phase v jt]) (simp add: u(2))
  moreover have "closes_checkpoint E (jm_Annotations job')" if "e = None"
  proof (rule succeed_phase [OF assms(1) phase v jt])
    have "jm_Annotations job1 \<subseteq>\<^sub>m jm_Annotations job'"
      using assms(2) u(4) [OF that] res(2) unfolding keeps_annotations_def by metis
    then show "(setCheckpointVersion E (jm_Annotations job) AnnotationCheckpointRequestedVersion
       (v\<lparr>cv_Status := checkpointSucceeded\<rparr>)) (AnnotationReadyToStartWorker \<mapsto> ''true'') \<subseteq>\<^sub>m jm_Annotations job'"
      by (simp add: u(2))
  qed
  ultimately show ?thesis
    unfolding CkptCompleted ckpt_phase.case using u(3-5) res(1-3)
    by (intro exI [of _ h1] exI [of _ job1] exI [of _ specs1]) auto
qed

subsection \<open>Concrete runs\<close>

text \<open>A codec for checkpoint versions: every field is a sequence of marked characters with an end mark.\<close>

fun put :: "string \<Rightarrow> string" where
  "put [] = ''.''"
| "put (c # cs) = CHR ''#'' # c # put cs"

fun get :: "string \<Rightarrow> (string \<times> string) option" where
  "get (c # rest) =
     (if c = CHR ''.'' then Some ([], rest)
      else case rest of [] \<Rightarrow> None | d # rest1 \<Rightarrow> map_option (\<lambda>(s, r). (d # s, r)) (get rest1))"
| "get [] = None"

definition put_int :: "int \<Rightarrow> string" where
  "put_int i = put (if i < 0 then CHR ''-'' # nat_dec (nat (- i)) else nat_dec (nat i))"

definition get_int :: "string \<Rightarrow> (int \<times> string) option" where
  "get_int s =
     (case get s of
        None \<Rightarrow> None
      | Some (t, r) \<Rightarrow>
          (case t of
             [] \<Rightarrow> None
           | c # cs \<Rightarrow>
               if c = CHR ''-'' then map_option (\<lambda>n. (- int n, r)) (parse_digits 0 cs)
               else map_option (\<lambda>n. (int n, r)) (parse_digits 0 t)))"

lemma get_put: "get (put s @ r) = Some (s, r)"
  by (induction s) auto

lemma get_put_int: "get_int (put_int i @ r) = Some (i, r)"
proof (cases "i < 0")
  case True
  then show ?thesis by (simp add: get_int_def put_int_def get_put parse_digits_nat_dec)
next
  case False
  obtain c cs where n: "nat_dec (nat i) = c # cs" by (cases "nat_dec (nat i)") auto
  with nat_dec_hd_plain [of "nat i"] have "c \<noteq> CHR ''-''" by simp
  with False n parse_digits_nat_dec [of "nat i"] show ?thesis
    by (simp add: get_int_def put_int_def get_put)
qed

definition codec_encode :: "ckptVersion \<Rightarrow> go_error + string" where
  "codec_encode v = Inr (put_int (cv_Version v) @ put (cv_Status v) @ put (cv_Context v) @ put_int (cv_Timestamp v div second))"

definition codec_decode :: "string \<Rightarrow> go_error + ckptVersion" where
  "codec_decode s =
     (case get_int s of
        None \<Rightarrow> Inl (Err ''json'')
      | Some (v, r1) \<Rightarrow>
          (case get r1 of
             None \<Rightarrow> Inl (Err ''json'')
           | Some (st, r2) \<Rightarrow>
               (case get r2 of
                  None \<Rightarrow> Inl (Err ''json'')
                | Some (ctx, r3) \<Rightarrow>
                    (case get_int r3 of
                       None \<Rightarrow> Inl (Err ''json'')
                     | Some (ts, r4) \<Rightarrow>
                         if in32 v then Inr \<lparr>cv_Version = v, cv_Status = st, cv_Context = ctx, cv_Timestamp = second * ts\<rparr>
                         else Inl (Err ''json'')))))"

definition elastic0 :: elastic_env where
  "elastic0 = \<lparr>ee_decode = codec_decode, ee_encode = codec_encode, ee_render_waiter = (\<lambda>a i. Inr []), ee_lost = (\<lambda>h. 0)\<rparr>"

lemma elastic0_simps [simp]: "ee_decode elastic0 = codec_decode" "ee_encode elastic0 = codec_encode" "ee_lost elastic0 h = 0"
  by (simp_all add: elastic0_def)

lemma put_nonempty: "put s \<noteq> []"
  by (cases s) auto

lemma put_int_nonempty: "put_int i \<noteq> []"
  by (simp add: put_int_def put_nonempty)

lemma elastic0_codec: "ckpt_codec elastic0"
proof -
  have "get_int (put_int i) = Some (i, [])" for i using get_put_int [of i "[]"] by simp
  then show ?thesis
    by (auto simp: ckpt_codec_def codec_encode_def codec_decode_def get_put get_put_int put_nonempty
        put_int_nonempty split: option.splits prod.splits if_splits)
qed

lemma quiet_annotations: "keeps_annotations quiet_world"
  by (auto simp: keeps_annotations_def quiet_world_def)

text \<open>The sample world at the beginning of the epoch.\<close>

definition early_world :: outside where
  "early_world = quiet_world\<lparr>out_now := \<lambda>h. 0\<rparr>"


definition elastic_job :: job_meta where
  "elastic_job = job0\<lparr>jm_Generation := 2, jm_Annotations := [AnnotationImmediatelyStartWorker \<mapsto> ''true'']\<rparr>"

definition victim :: pod where
  "victim = (pod0 ''worker'' ''0'' PodRunning)\<lparr>pod_DeletionTimestamp := Some 0, pod_Finalizers := [FinalizerPreemptProtector]\<rparr>"

definition elastic_specs :: replica_specs where
  "elastic_specs = [(PyTorchReplicaTypeWorker, dag_spec 1 [])]"

lemma elastic_keys [simp]:
  "AnnotationImmediatelyStartWorker \<noteq> AnnotationElasticScaleState" "AnnotationReadyToStartWorker \<noteq> AnnotationElasticScaleState"
  "AnnotationElasticScaleState \<noteq> AnnotationImmediatelyStartWorker" "AnnotationElasticScaleState \<noteq> AnnotationReadyToStartWorker"
  "AnnotationImmediatelyStartWorker \<noteq> AnnotationReadyToStartWorker" "AnnotationReadyToStartWorker \<noteq> AnnotationImmediatelyStartWorker"
  "AnnotationImmediatelyStartWorker \<noteq> AnnotationCheckpointRequestedVersion"
  "AnnotationImmediatelyStartWorker \<noteq> AnnotationCheckpointCompletedVersion"
  "AnnotationCheckpointRequestedVersion \<noteq> AnnotationImmediatelyStartWorker"
  "AnnotationCheckpointCompletedVersion \<noteq> AnnotationImmediatelyStartWorker"
  by (simp_all add: AnnotationImmediatelyStartWorker_def AnnotationElasticScaleState_def AnnotationReadyToStartWorker_def
      AnnotationCheckpointRequestedVersion_def AnnotationCheckpointCompletedVersion_def)

lemma quiet_patches [simp]:
  "out_patch_job quiet_world h job as = Inr (job\<lparr>jm_Annotations := jm_Annotations job ++ map_of as\<rparr>)"
  by (simp add: quiet_world_def)

lemma quiet_order: "go_order_law quiet_world"
  by (simp add: go_order_law_def)

lemma victim_stale: "IsStalePod victim 2" "\<not> IsPodActive victim" "sget (pod_Labels victim) ReplicaTypeLabel = ''worker''"
  "sget (pod_Labels victim) LabelGeneration = []" "IsVictimCandidatePod victim"
  by (simp_all add: IsStalePod_def victim_def IsPodActive_def IsVictimCandidatePod_def sget_def)

lemma elastic_job_simps [simp]:
  "jm_Generation elastic_job = 2" "jm_Annotations elastic_job = [AnnotationImmediatelyStartWorker \<mapsto> ''true'']"
  by (simp_all add: elastic_job_def)

lemma elastic_total: "GetTotalExcludedReplicas elastic_specs [JobReplicaTypeAIMaster] = Inr 1"
  by (simp add: GetTotalExcludedReplicas_def elastic_specs_def JobReplicaTypeAIMaster_def PyTorchReplicaTypeWorker_def)

lemma elastic_inflight:
  "inflight_job quiet_world [] elastic_job [] =
     elastic_job\<lparr>jm_Annotations := (jm_Annotations elastic_job)(AnnotationElasticScaleState \<mapsto> ''inflight'')\<rparr>"
  by (simp add: inflight_job_def filterMasterService_def)

lemma elastic_generation: "2 = jm_Generation (inflight_job quiet_world [] elastic_job [])" "in64 2"
  by (simp_all add: elastic_inflight in64_def)

lemma scale_run:
  "\<exists>job' cs. scale quiet_world elastic0 elastic_job elastic_specs [victim] [] [victim] [] = (Inr (True, job', [victim]), cs) \<and>
     DeletePodCall victim \<in> set cs"
proof -
  have f: "FilterStalePodsByReplicaType [victim] 2 [''aimaster''] = (1, (\<lambda>rt. if rt = ''worker'' then [victim] else []))"
    using victim_stale by (auto simp: FilterStalePodsByReplicaType_def)
  show ?thesis
    using victim_stale
    by (simp add: scale_def filterMasterService_def patch_job_def elastic_total restart_round_def f restartStalePod_def api_write_def emit_def
        write_back_def)
qed

theorem scale_masters_first_witness:
  "\<exists>cs1 cs2 r. scale quiet_world elastic0 elastic_job elastic_specs [victim] [] [victim] [] = (r, cs1 @ cs2) \<and>
     touched cs1 = {} \<and> touched cs2 \<subseteq> {pod_key victim} \<and> start_requested elastic_job"
proof -
  obtain job' cs where r: "scale quiet_world elastic0 elastic_job elastic_specs [victim] [] [victim] [] = (Inr (True, job', [victim]), cs)"
    using scale_run by blast
  have "stale [victim] 2 ''master'' = []" "stale [victim] 2 ''worker'' = [victim]" using victim_stale by (simp_all add: stale_def)
  with scale_masters_first [OF r quiet_order elastic_generation] r show ?thesis
    by (force simp: start_requested_def)
qed

theorem scale_done_complete_witness:
  "\<exists>job' cs. scale quiet_world elastic0 elastic_job elastic_specs [victim] [] [victim] [] = (Inr (True, job', [victim]), cs) \<and>
     refreshed victim 2 cs"
proof -
  obtain job' cs where r: "scale quiet_world elastic0 elastic_job elastic_specs [victim] [] [victim] [] = (Inr (True, job', [victim]), cs)"
    using scale_run by blast
  have "victim \<in> set (all_stale [victim] 2)" using victim_stale by (simp add: all_stale_def)
  with scale_done_complete [OF r quiet_order elastic_generation] r show ?thesis by auto
qed

lemma elastic_idle: "ckpt_phase_of elastic0 (jm_Annotations elastic_job) = Inr CkptIdle"
  by (simp add: ckpt_phase_of_def getCheckpointVersion_def)

lemma checkpoint_run:
  "\<exists>job' cs. CheckpointIfNecessary quiet_world elastic0 elastic_job elastic_specs [victim] [] = (Inr (False, job', elastic_specs), cs) \<and>
     requests cs \<noteq> []"
  using victim_stale
  by (simp add: checkpoint_by_phase elastic_idle [simplified] filterVictimPods_def triggerJobCheckpoint_def codec_encode_def
      patch_job_def emit_def requests_def)

lemma early_laws:
  shows early_annotations: "keeps_annotations early_world" and early_order: "go_order_law early_world"
  using quiet_annotations quiet_order by (simp_all add: early_world_def keeps_annotations_def go_order_law_def)

lemma early_run:
  "\<exists>job' cs. CheckpointIfNecessary early_world elastic0 elastic_job elastic_specs [victim] [] = (Inr (False, job', elastic_specs), cs)"
  using victim_stale
  by (simp add: checkpoint_by_phase elastic_idle [simplified] filterVictimPods_def triggerJobCheckpoint_def codec_encode_def
      patch_job_def emit_def early_world_def)

theorem victims_wait_for_checkpoint_witness:
  "\<exists>r cs. CheckpointIfNecessary quiet_world elastic0 elastic_job elastic_specs [victim] [] = (r, cs) \<and> touched cs = {} \<and> requests cs \<noteq> []"
proof -
  obtain job' cs where r: "CheckpointIfNecessary quiet_world elastic0 elastic_job elastic_specs [victim] [] = (Inr (False, job', elastic_specs), cs)"
    "requests cs \<noteq> []" using checkpoint_run by blast
  from victims_wait_for_checkpoint [OF r(1)] r show ?thesis by (auto simp: elastic_idle [simplified])
qed

theorem checkpoint_protocol_witness:
  "\<exists>job' cs v. CheckpointIfNecessary early_world elastic0 elastic_job elastic_specs [victim] [] = (Inr (False, job', elastic_specs), cs) \<and>
     getCheckpointVersion elastic0 (jm_Annotations job') AnnotationCheckpointRequestedVersion = Inr (Some v) \<and>
     cv_Version v = 2 \<and> cv_Status v = checkpointInProgress"
proof -
  obtain job' cs where r: "CheckpointIfNecessary early_world elastic0 elastic_job elastic_specs [victim] [] = (Inr (False, job', elastic_specs), cs)"
    using early_run by blast
  have v: "filterVictimPods [victim] \<noteq> []" using victim_stale by (simp add: filterVictimPods_def)
  have t: "\<forall>h. json_time (out_now early_world h)" by (simp add: early_world_def json_time_def second_def)
  have n: "\<forall>v. getCheckpointVersion elastic0 (jm_Annotations elastic_job) AnnotationCheckpointRequestedVersion = Inr (Some v) \<longrightarrow>
      json_time (cv_Timestamp v)" by (simp add: getCheckpointVersion_def)
  from checkpoint_protocol [OF elastic0_codec early_annotations early_order t n elastic_idle r] v r show ?thesis
    by (auto simp: i32_def)
qed

end
