(* ===== verification/Job_Defaults.thy ===== *)
theory Job_Defaults
  imports Dag_Sched
begin

text \<open>
  The defaults of the training jobs (\<open>apis/training/v1alpha1/*_defaults.go\<close>, \<open>common.go\<close>): every
  reconciliation starts by completing the job object. The loops over replica types range over Go
  maps; the order of the association list is the order of the iteration. Replica types are written
  in ASCII, for which \<open>strings.EqualFold\<close> compares the lower case forms.
\<close>

subsection \<open>Job objects\<close>

record job_object =
  tj_Kind :: string
  tj_APIVersion :: string
  tj_Specs :: replica_specs
  tj_RunPolicy :: RunPolicy

type_synonym PyTorchJob = job_object
type_synonym XGBoostJob = job_object

record TFJob = job_object +
  tf_SuccessPolicy :: "SuccessPolicy option"

record XDLJob = job_object +
  MinFinishWorkerNum :: "int option"
  MinFinishWorkerPercentage :: "int option"

record MarsWorkerMemoryTuningPolicy =
  PlasmaStore :: "string option"
  LockFreeFileIO :: "bool option"
  SpillDirs :: "string list option"
  WorkerCachePercentage :: "int option"
  WorkerCacheSize :: "quantity option"

record MarsJob = job_object +
  WorkerMemoryTuningPolicy :: "MarsWorkerMemoryTuningPolicy option"
  WebHost :: "string option"
  WebServiceAddresses :: "string list"

text \<open>
  The legacy fields of an MPI job embed a run policy by pointer. A selector \<open>CleanPodPolicy\<close> on the
  spec of the job reaches the embedded one, since the other run policy is a named field.
\<close>

record LegacyV1Alpha1 =
  DeprecatedGPUs :: "int option"
  GPUsPerNode :: "int option"
  ProcessingUnits :: "int option"
  ProcessingUnitsPerNode :: "int option"
  ProcessingResourceType :: string
  LauncherOnMaster :: bool
  leg_Replicas :: "int option"
  leg_Template :: pod_template

record LegacyV1Alpha2 =
  MPIDistribution :: "string option"

record MPIJobLegacySpec =
  leg_RunPolicy :: "RunPolicy option"
  leg_V1Alpha1 :: "LegacyV1Alpha1 option"
  leg_V1Alpha2 :: "LegacyV1Alpha2 option"

record MPIJob = job_object +
  SlotsPerWorker :: "int option"
  MainContainer :: string
  mpi_Legacy :: "MPIJobLegacySpec option"

definition GroupVersion :: string where "GroupVersion = ''training.kubedl.io/v1alpha1''"

definition set_kind :: "string \<Rightarrow> 'a job_object_scheme \<Rightarrow> 'a job_object_scheme" where
  "set_kind kind job =
     (let job1 = (if tj_Kind job = [] then job\<lparr>tj_Kind := kind\<rparr> else job)
      in if tj_APIVersion job1 = [] then job1\<lparr>tj_APIVersion := GroupVersion\<rparr> else job1)"

subsection \<open>Shared steps\<close>

text \<open>
  The rename loop has the same body for every workload: the first key that differs from the name of
  the type only in case is replaced.
\<close>

definition rename_type :: "replica_specs \<Rightarrow> ReplicaType \<Rightarrow> replica_specs" where
  "rename_type specs typ =
     (case find (\<lambda>t. ToLower t = ToLower typ \<and> t \<noteq> typ) (keys specs) of
        None \<Rightarrow> specs
      | Some t \<Rightarrow>
          (case map_of specs t of
             None \<Rightarrow> specs
           | Some spec \<Rightarrow> AList.update typ spec (AList.delete t specs)))"

definition rename_types :: "ReplicaType list \<Rightarrow> replica_specs \<Rightarrow> replica_specs" where
  "rename_types types specs = foldl rename_type specs types"

text \<open>The container that gets the port: the first one with the default name, if there is one.\<close>

definition named_container :: "container list \<Rightarrow> string \<Rightarrow> nat option" where
  "named_container cs name = find (\<lambda>i. ct_Name (cs ! i) = name) [0..<length cs]"

definition add_port :: "nat \<Rightarrow> string \<Rightarrow> int \<Rightarrow> pod_spec \<Rightarrow> go_error + pod_spec" where
  "add_port index portName port spec =
     (let cs = ps_Containers spec in
      if index \<ge> length cs then Inl index_panic
      else if list_ex (\<lambda>p. cp_Name p = portName) (ct_Ports (cs ! index)) then Inr spec
      else Inr (spec\<lparr>ps_Containers := cs[index := (cs ! index)\<lparr>ct_Ports := ct_Ports (cs ! index) @
             [\<lparr>cp_Name = portName, cp_HostPort = 0, cp_ContainerPort = port\<rparr>]\<rparr>]\<rparr>))"

text \<open>Without a container of the default name the first container gets the port.\<close>

definition default_port :: "string \<Rightarrow> string \<Rightarrow> int \<Rightarrow> pod_spec \<Rightarrow> go_error + pod_spec" where
  "default_port container portName port spec =
     add_port (case named_container (ps_Containers spec) container of None \<Rightarrow> 0 | Some i \<Rightarrow> i) portName port spec"

definition enableFallbackToLogsOnErrorTerminationMessagePolicy :: "pod_spec \<Rightarrow> pod_spec" where
  "enableFallbackToLogsOnErrorTerminationMessagePolicy spec =
     spec\<lparr>ps_Containers := map (\<lambda>c. if ct_TerminationMessagePolicy c = []
        then c\<lparr>ct_TerminationMessagePolicy := ''FallbackToLogsOnError''\<rparr> else c) (ps_Containers spec)\<rparr>"

definition default_replicas :: "ReplicaSpec \<Rightarrow> ReplicaSpec" where
  "default_replicas spec = (if Replicas spec = None then spec\<lparr>Replicas := Some 1\<rparr> else spec)"

definition default_restart :: "string \<Rightarrow> ReplicaSpec \<Rightarrow> ReplicaSpec" where
  "default_restart policy spec = (if RestartPolicy spec = [] then spec\<lparr>RestartPolicy := policy\<rparr> else spec)"

definition on_pod_spec :: "(pod_spec \<Rightarrow> pod_spec) \<Rightarrow> ReplicaSpec \<Rightarrow> ReplicaSpec" where
  "on_pod_spec f spec = spec\<lparr>Template := (Template spec)\<lparr>pt_Spec := f (pt_Spec (Template spec))\<rparr>\<rparr>"

definition with_pod_spec :: "(pod_spec \<Rightarrow> go_error + pod_spec) \<Rightarrow> ReplicaSpec \<Rightarrow> go_error + ReplicaSpec" where
  "with_pod_spec f spec =
     (case f (pt_Spec (Template spec)) of
        Inl e \<Rightarrow> Inl e
      | Inr ps \<Rightarrow> Inr (spec\<lparr>Template := (Template spec)\<lparr>pt_Spec := ps\<rparr>\<rparr>))"

text \<open>A loop over the replica specs stops at the first panic.\<close>

fun each_spec :: "(ReplicaType \<Rightarrow> ReplicaSpec \<Rightarrow> go_error + ReplicaSpec) \<Rightarrow> replica_specs \<Rightarrow> go_error + replica_specs" where
  "each_spec f [] = Inr []"
| "each_spec f ((t, s) # specs) =
     (case f t s of
        Inl e \<Rightarrow> Inl e
      | Inr s1 \<Rightarrow> (case each_spec f specs of Inl e \<Rightarrow> Inl e | Inr rest \<Rightarrow> Inr ((t, s1) # rest)))"

text \<open>A dependency is set when both types are there.\<close>

definition depends :: "ReplicaType \<Rightarrow> ReplicaType \<Rightarrow> replica_specs \<Rightarrow> replica_specs" where
  "depends rtype upstream specs =
     (case (map_of specs rtype, map_of specs upstream) of
        (Some spec, Some up) \<Rightarrow>
          AList.update rtype (spec\<lparr>DependOn := [\<lparr>Upstream = upstream, OnPhase = PodRunning\<rparr>]\<rparr>) specs
      | _ \<Rightarrow> specs)"

definition default_clean :: "CleanPodPolicy \<Rightarrow> RunPolicy \<Rightarrow> RunPolicy" where
  "default_clean policy rp = (if rp_CleanPodPolicy rp = None then rp\<lparr>rp_CleanPodPolicy := Some policy\<rparr> else rp)"

subsection \<open>TensorFlow\<close>

definition setTypeNames_TFJob :: "replica_specs \<Rightarrow> replica_specs" where
  "setTypeNames_TFJob specs = rename_types [''PS'', ''Worker'', ''Chief'', ''Master'', ''Evaluator''] specs"

definition setDefaultTFDAGCondition :: "replica_specs \<Rightarrow> replica_specs" where
  "setDefaultTFDAGCondition specs =
     depends ''Master'' ''PS'' (depends ''Chief'' ''PS'' (depends ''Worker'' ''PS'' specs))"

definition setDefaults_TFJobPort :: "pod_spec \<Rightarrow> go_error + pod_spec" where
  "setDefaults_TFJobPort spec = default_port ''tensorflow'' ''tfjob-port'' 2222 spec"

definition setDefaults_TFJobReplicas :: "ReplicaSpec \<Rightarrow> ReplicaSpec" where
  "setDefaults_TFJobReplicas spec = default_restart RestartPolicyExitCode (default_replicas spec)"

definition tf_spec :: "ReplicaType \<Rightarrow> ReplicaSpec \<Rightarrow> go_error + ReplicaSpec" where
  "tf_spec rtype spec =
     with_pod_spec setDefaults_TFJobPort
       (setDefaults_TFJobReplicas (on_pod_spec enableFallbackToLogsOnErrorTerminationMessagePolicy spec))"

definition SetDefaults_TFJob :: "bool \<Rightarrow> TFJob \<Rightarrow> go_error + TFJob" where
  "SetDefaults_TFJob dag job =
     (let specs = setTypeNames_TFJob (tj_Specs job);
          specs1 = (if dag then setDefaultTFDAGCondition specs else specs)
      in case each_spec tf_spec specs1 of
           Inl e \<Rightarrow> Inl e
         | Inr specs2 \<Rightarrow>
             Inr (set_kind ''TFJob''
               (job\<lparr>tj_RunPolicy := default_clean CleanPodPolicyRunning (tj_RunPolicy job),
                    tf_SuccessPolicy := (if tf_SuccessPolicy job = None then Some SuccessPolicyDefault else tf_SuccessPolicy job),
                    tj_Specs := specs2\<rparr>)))"

subsection \<open>PyTorch\<close>

definition setTypeNames_PyTorchJob :: "replica_specs \<Rightarrow> replica_specs" where
  "setTypeNames_PyTorchJob specs = rename_types [''Master'', ''Worker''] specs"

definition setDefaultPyTorchDAGConditions :: "replica_specs \<Rightarrow> replica_specs" where
  "setDefaultPyTorchDAGConditions specs =
     depends ''Worker'' ''Master'' (depends ''Master'' JobReplicaTypeAIMaster specs)"

text \<open>Unlike the other workloads, a pod without a container of the default name gets no port.\<close>

definition setDefaults_PyTorchJobPort :: "pod_spec \<Rightarrow> go_error + pod_spec" where
  "setDefaults_PyTorchJobPort spec =
     (case named_container (ps_Containers spec) ''pytorch'' of
        None \<Rightarrow> Inr spec
      | Some i \<Rightarrow> add_port i ''pytorchjob-port'' 23456 spec)"

definition setDefaults_PyTorchJobMasterReplicas :: "ReplicaSpec \<Rightarrow> ReplicaSpec" where
  "setDefaults_PyTorchJobMasterReplicas spec = default_restart RestartPolicyExitCode (default_replicas spec)"

definition setDefaults_PyTorchJobWorkerReplicas :: "ReplicaSpec \<Rightarrow> ReplicaSpec" where
  "setDefaults_PyTorchJobWorkerReplicas spec = default_restart RestartPolicyOnFailure (default_replicas spec)"

definition pt_spec :: "ReplicaType \<Rightarrow> ReplicaSpec \<Rightarrow> go_error + ReplicaSpec" where
  "pt_spec rtype spec =
     (let spec1 = (if rtype = ''Worker'' then setDefaults_PyTorchJobWorkerReplicas spec else spec) in
      case (if rtype = ''Master''
            then with_pod_spec setDefaults_PyTorchJobPort (setDefaults_PyTorchJobMasterReplicas spec1) else Inr spec1) of
        Inl e \<Rightarrow> Inl e
      | Inr spec2 \<Rightarrow> Inr (on_pod_spec enableFallbackToLogsOnErrorTerminationMessagePolicy spec2))"

definition SetDefaults_PyTorchJob :: "bool \<Rightarrow> PyTorchJob \<Rightarrow> go_error + PyTorchJob" where
  "SetDefaults_PyTorchJob dag job =
     (let specs = setTypeNames_PyTorchJob (tj_Specs job);
          specs1 = (if dag then setDefaultPyTorchDAGConditions specs else specs)
      in case each_spec pt_spec specs1 of
           Inl e \<Rightarrow> Inl e
         | Inr specs2 \<Rightarrow>
             Inr (set_kind ''PyTorchJob''
               (job\<lparr>tj_RunPolicy := default_clean CleanPodPolicyNone (tj_RunPolicy job), tj_Specs := specs2\<rparr>)))"

subsection \<open>XDL\<close>

definition setDefaults_XDLJobSpec :: "XDLJob \<Rightarrow> XDLJob" where
  "setDefaults_XDLJobSpec job =
     (let rp = default_clean CleanPodPolicyRunning (tj_RunPolicy job);
          rp1 = (if rp_BackoffLimit rp = None then rp\<lparr>rp_BackoffLimit := Some 20\<rparr> else rp)
      in job\<lparr>tj_RunPolicy := rp1,
             MinFinishWorkerPercentage :=
               (if MinFinishWorkerNum job = None \<and> MinFinishWorkerPercentage job = None then Some 90
                else MinFinishWorkerPercentage job)\<rparr>)"

definition setTypeNames_XDLJob :: "replica_specs \<Rightarrow> replica_specs" where
  "setTypeNames_XDLJob specs = rename_types [''Worker'', ''PS'', ''Scheduler'', ''ExtendRole''] specs"

definition setDefaults_XDLJobPort :: "pod_spec \<Rightarrow> go_error + pod_spec" where
  "setDefaults_XDLJobPort spec = default_port ''xdl'' ''xdljob-port'' 2222 spec"

definition setDefaults_XDLJobReplicas :: "ReplicaSpec \<Rightarrow> ReplicaSpec" where
  "setDefaults_XDLJobReplicas spec = default_restart RestartPolicyNever (default_replicas spec)"

definition xdl_spec :: "ReplicaType \<Rightarrow> ReplicaSpec \<Rightarrow> go_error + ReplicaSpec" where
  "xdl_spec rtype spec =
     with_pod_spec setDefaults_XDLJobPort
       (setDefaults_XDLJobReplicas (on_pod_spec enableFallbackToLogsOnErrorTerminationMessagePolicy spec))"

definition SetDefaults_XDLJob :: "XDLJob \<Rightarrow> go_error + XDLJob" where
  "SetDefaults_XDLJob job =
     (let job1 = setDefaults_XDLJobSpec job in
      case each_spec xdl_spec (setTypeNames_XDLJob (tj_Specs job1)) of
        Inl e \<Rightarrow> Inl e
      | Inr specs \<Rightarrow> Inr (set_kind ''XDLJob'' (job1\<lparr>tj_Specs := specs\<rparr>)))"

subsection \<open>XGBoost\<close>

definition XGBoostJobDefaultTTLseconds :: int where "XGBoostJobDefaultTTLseconds = 100"

definition setDefaults_XGBoostJobSpec :: "XGBoostJob \<Rightarrow> XGBoostJob" where
  "setDefaults_XGBoostJobSpec job =
     (let rp = default_clean CleanPodPolicyNone (tj_RunPolicy job) in
      job\<lparr>tj_RunPolicy := (if rp_TTLSecondsAfterFinished rp = None
        then rp\<lparr>rp_TTLSecondsAfterFinished := Some XGBoostJobDefaultTTLseconds\<rparr> else rp)\<rparr>)"

definition setTypeNames_XGBoostJob :: "replica_specs \<Rightarrow> replica_specs" where
  "setTypeNames_XGBoostJob specs = rename_types [''Master'', ''Worker''] specs"

definition setDefaults_XGBoostJobPort :: "pod_spec \<Rightarrow> go_error + pod_spec" where
  "setDefaults_XGBoostJobPort spec = default_port ''xgboostjob'' ''xgboostjob-port'' 9999 spec"

definition setDefaults_XGBoostJobReplicas :: "ReplicaSpec \<Rightarrow> ReplicaSpec" where
  "setDefaults_XGBoostJobReplicas spec = default_replicas spec"

definition setDefaultXGBoostDAGConditions :: "replica_specs \<Rightarrow> replica_specs" where
  "setDefaultXGBoostDAGConditions specs = depends ''Worker'' ''Master'' specs"

definition xgb_spec :: "ReplicaType \<Rightarrow> ReplicaSpec \<Rightarrow> go_error + ReplicaSpec" where
  "xgb_spec rtype spec =
     with_pod_spec setDefaults_XGBoostJobPort
       (setDefaults_XGBoostJobReplicas (on_pod_spec enableFallbackToLogsOnErrorTerminationMessagePolicy spec))"

definition SetDefaults_XGBoostJob :: "bool \<Rightarrow> XGBoostJob \<Rightarrow> go_error + XGBoostJob" where
  "SetDefaults_XGBoostJob dag job =
     (let job1 = setDefaults_XGBoostJobSpec job in
      case each_spec xgb_spec (setTypeNames_XGBoostJob (tj_Specs job1)) of
        Inl e \<Rightarrow> Inl e
      | Inr specs \<Rightarrow>
          Inr (set_kind ''XGBoostJob''
            (job1\<lparr>tj_Specs := (if dag then setDefaultXGBoostDAGConditions specs else specs)\<rparr>)))"

subsection \<open>MPI\<close>

definition setDefaults_MPIJobPort :: "pod_spec \<Rightarrow> go_error + pod_spec" where
  "setDefaults_MPIJobPort spec = default_port ''mpi'' ''mpi-port'' 2222 spec"

text \<open>The launcher and the worker are treated alike, by two functions.\<close>

definition mpi_replica :: "ReplicaSpec \<Rightarrow> go_error + ReplicaSpec" where
  "mpi_replica spec =
     (case with_pod_spec setDefaults_MPIJobPort (default_restart RestartPolicyNever spec) of
        Inl e \<Rightarrow> Inl e
      | Inr spec1 \<Rightarrow> Inr (on_pod_spec enableFallbackToLogsOnErrorTerminationMessagePolicy spec1))"

definition setDefaults_MPIJobLauncherReplica :: "ReplicaSpec \<Rightarrow> go_error + ReplicaSpec" where
  "setDefaults_MPIJobLauncherReplica spec = mpi_replica spec"

definition setDefaults_MPIJobWorkerReplica :: "ReplicaSpec \<Rightarrow> go_error + ReplicaSpec" where
  "setDefaults_MPIJobWorkerReplica spec = mpi_replica spec"

definition setDefaultMPIDAGConditions :: "replica_specs \<Rightarrow> replica_specs" where
  "setDefaultMPIDAGConditions specs = depends ''Launcher'' ''Worker'' specs"

definition default_type ::
    "(ReplicaSpec \<Rightarrow> go_error + ReplicaSpec) \<Rightarrow> ReplicaType \<Rightarrow> replica_specs \<Rightarrow> go_error + replica_specs" where
  "default_type f rtype specs =
     (case map_of specs rtype of
        None \<Rightarrow> Inr specs
      | Some spec \<Rightarrow> (case f spec of Inl e \<Rightarrow> Inl e | Inr spec1 \<Rightarrow> Inr (AList.update rtype spec1 specs)))"

definition empty_run_policy :: RunPolicy where
  "empty_run_policy = \<lparr>rp_CleanPodPolicy = None, rp_TTLSecondsAfterFinished = None, rp_ActiveDeadlineSeconds = None,
     rp_BackoffLimit = None, rp_SchedulingPolicy = None, rp_CronPolicy = None\<rparr>"

definition mpi_legacy_defaults :: "MPIJobLegacySpec option \<Rightarrow> MPIJobLegacySpec option" where
  "mpi_legacy_defaults legacy =
     (case legacy of
        None \<Rightarrow> None
      | Some leg \<Rightarrow>
          Some (leg\<lparr>leg_RunPolicy :=
            Some (default_clean CleanPodPolicyRunning (case leg_RunPolicy leg of None \<Rightarrow> empty_run_policy | Some p \<Rightarrow> p))\<rparr>))"

definition SetDefaults_MPIJob :: "bool \<Rightarrow> MPIJob \<Rightarrow> go_error + MPIJob" where
  "SetDefaults_MPIJob dag job =
     (case default_type setDefaults_MPIJobLauncherReplica ''Launcher'' (tj_Specs job) of
        Inl e \<Rightarrow> Inl e
      | Inr specs \<Rightarrow>
          (case default_type setDefaults_MPIJobWorkerReplica ''Worker'' specs of
             Inl e \<Rightarrow> Inl e
           | Inr specs1 \<Rightarrow>
               Inr (set_kind ''MPIJob''
                 (job\<lparr>mpi_Legacy := mpi_legacy_defaults (mpi_Legacy job),
                      tj_Specs := (if dag then setDefaultMPIDAGConditions specs1 else specs1)\<rparr>))))"

subsection \<open>Mars\<close>

definition setDefaults_MarsJobPort :: "pod_spec \<Rightarrow> go_error + pod_spec" where
  "setDefaults_MarsJobPort spec = default_port ''mars'' ''mars-port'' 11111 spec"

definition setDefaults_MarsJobSchedulerReplicas :: "ReplicaSpec \<Rightarrow> ReplicaSpec" where
  "setDefaults_MarsJobSchedulerReplicas spec = default_restart RestartPolicyNever (default_replicas spec)"

definition setDefaults_MarsJobWorkerReplicas :: "ReplicaSpec \<Rightarrow> ReplicaSpec" where
  "setDefaults_MarsJobWorkerReplicas spec = default_restart RestartPolicyExitCode (default_replicas spec)"

definition setDefaults_MarsJobWebServiceReplicas :: "ReplicaSpec \<Rightarrow> ReplicaSpec" where
  "setDefaults_MarsJobWebServiceReplicas spec = default_restart RestartPolicyAlways (default_replicas spec)"

definition setDefaults_MarsJobWorkerMemTuningPolicy ::
    "MarsWorkerMemoryTuningPolicy option \<Rightarrow> MarsWorkerMemoryTuningPolicy option" where
  "setDefaults_MarsJobWorkerMemTuningPolicy policy =
     (let p = (case policy of
                 None \<Rightarrow> \<lparr>PlasmaStore = None, LockFreeFileIO = None, SpillDirs = None, WorkerCachePercentage = None, WorkerCacheSize = None\<rparr>
               | Some q \<Rightarrow> q);
          p1 = (if PlasmaStore p = None then p\<lparr>PlasmaStore := Some ''/dev/shm''\<rparr> else p)
      in Some (if LockFreeFileIO p1 = None then p1\<lparr>LockFreeFileIO := Some True\<rparr> else p1))"

definition setDefaultMarsDAGConditions :: "replica_specs \<Rightarrow> replica_specs" where
  "setDefaultMarsDAGConditions specs =
     depends ''WebService'' ''Scheduler'' (depends ''Worker'' ''Scheduler'' specs)"

definition setTypeNames_MarsJob :: "replica_specs \<Rightarrow> replica_specs" where
  "setTypeNames_MarsJob specs = rename_types [''Scheduler'', ''Worker'', ''WebService''] specs"

definition mars_spec :: "ReplicaType \<Rightarrow> ReplicaSpec \<Rightarrow> go_error + ReplicaSpec" where
  "mars_spec rtype spec =
     (case with_pod_spec setDefaults_MarsJobPort spec of
        Inl e \<Rightarrow> Inl e
      | Inr spec1 \<Rightarrow>
          (let spec2 = on_pod_spec enableFallbackToLogsOnErrorTerminationMessagePolicy spec1 in
           Inr (if rtype = ''WebService'' then setDefaults_MarsJobWebServiceReplicas spec2
                else if rtype = ''Worker'' then setDefaults_MarsJobWorkerReplicas spec2
                else if rtype = ''Scheduler'' then setDefaults_MarsJobSchedulerReplicas spec2
                else spec2)))"

definition SetDefaults_MarsJob :: "bool \<Rightarrow> MarsJob \<Rightarrow> go_error + MarsJob" where
  "SetDefaults_MarsJob dag job =
     (let specs = setTypeNames_MarsJob (tj_Specs job);
          specs1 = (if dag then setDefaultMarsDAGConditions specs else specs)
      in case each_spec mars_spec specs1 of
           Inl e \<Rightarrow> Inl e
         | Inr specs2 \<Rightarrow>
             Inr (set_kind ''MarsJob''
               (job\<lparr>tj_RunPolicy := default_clean CleanPodPolicyNone (tj_RunPolicy job),
                    WorkerMemoryTuningPolicy :=
                      (if ''Worker'' \<in> set (keys specs1)
                       then setDefaults_MarsJobWorkerMemTuningPolicy (WorkerMemoryTuningPolicy job)
                       else WorkerMemoryTuningPolicy job),
                    tj_Specs := specs2\<rparr>)))"

end
