(* ===== verification/Default_Laws.thy ===== *)
theory Default_Laws
  imports Job_Defaults
begin

text \<open>
  Properties of the defaults: completing a job twice is the same as completing it once, and the
  dependencies that are set by default follow the order in which replica types are reconciled. The
  locale \<open>spec_defaults\<close> states what a loop over the replica specs needs of its body; it is
  interpreted for the five workloads that have such a loop.
\<close>

subsection \<open>Names of replica types\<close>

definition case_distinct :: "replica_specs \<Rightarrow> bool" where
  "case_distinct specs \<longleftrightarrow> distinct (map ToLower (keys specs))"

definition canonical :: "ReplicaType list \<Rightarrow> replica_specs \<Rightarrow> bool" where
  "canonical types specs \<longleftrightarrow> (\<forall>t \<in> set (keys specs). \<forall>ty \<in> set types. ToLower t = ToLower ty \<longrightarrow> t = ty)"

lemma case_distinct_iff: "case_distinct specs \<longleftrightarrow> distinct (keys specs) \<and> inj_on ToLower (set (keys specs))"
  unfolding case_distinct_def by (rule distinct_map)

lemma keys_delete: "keys (AList.delete t specs) = filter (\<lambda>u. u \<noteq> t) (keys specs)"
  by (induction specs) auto

lemma keys_update_new: "k \<notin> set (keys specs) \<Longrightarrow> keys (AList.update k v specs) = keys specs @ [k]"
  by (induction specs) auto

lemma keys_update_old: "k \<in> set (keys specs) \<Longrightarrow> keys (AList.update k v specs) = keys specs"
  by (induction specs) auto

lemma rename_id: "canonical [ty] specs \<Longrightarrow> rename_type specs ty = specs"
  by (auto simp: rename_type_def canonical_def find_None_iff split: option.splits dest!: find_Some_iff [THEN iffD1])

lemma lower_inj:
  "case_distinct specs \<Longrightarrow> t \<in> set (keys specs) \<Longrightarrow> u \<in> set (keys specs) \<Longrightarrow> ToLower t = ToLower u \<Longrightarrow> t = u"
  unfolding case_distinct_iff by (metis inj_onD)

lemma rename_keys:
  assumes "case_distinct specs"
  shows "rename_type specs ty = specs \<and> canonical [ty] specs \<or>
    (\<exists>t. t \<in> set (keys specs) \<and> ToLower t = ToLower ty \<and> ty \<notin> set (keys specs) \<and>
       keys (rename_type specs ty) = filter (\<lambda>u. u \<noteq> t) (keys specs) @ [ty])"
proof (cases "find (\<lambda>t. ToLower t = ToLower ty \<and> t \<noteq> ty) (keys specs)")
  case None
  then have "rename_type specs ty = specs" by (simp add: rename_type_def)
  with None show ?thesis by (auto simp: canonical_def find_None_iff)
next
  case (Some t)
  then have t: "t \<in> set (keys specs)" "ToLower t = ToLower ty" "t \<noteq> ty" by (auto simp: find_Some_iff)
  then have ty: "ty \<notin> set (keys specs)" using lower_inj [OF assms] by blast
  obtain s where "map_of specs t = Some s" using t(1) by (metis map_of_eq_None_iff not_None_eq set_map)
  with Some ty have "keys (rename_type specs ty) = filter (\<lambda>u. u \<noteq> t) (keys specs) @ [ty]"
    by (simp add: rename_type_def keys_update_new keys_delete)
  with t ty show ?thesis by blast
qed

lemma rename_case_distinct: "case_distinct specs \<Longrightarrow> case_distinct (rename_type specs ty)"
proof -
  assume cd: "case_distinct specs"
  show ?thesis
  proof (cases "rename_type specs ty = specs")
    case False
    then obtain t where t: "t \<in> set (keys specs)" "ToLower t = ToLower ty"
      and k: "keys (rename_type specs ty) = filter (\<lambda>u. u \<noteq> t) (keys specs) @ [ty]" using rename_keys [OF cd] by blast
    have "ToLower ty \<notin> ToLower ` set (filter (\<lambda>u. u \<noteq> t) (keys specs))"
    proof
      assume "ToLower ty \<in> ToLower ` set (filter (\<lambda>u. u \<noteq> t) (keys specs))"
      then obtain u where "u \<in> set (keys specs)" "u \<noteq> t" "ToLower u = ToLower ty" by (auto simp del: set_map)
      with lower_inj [OF cd _ t(1)] t(2) show False by metis
    qed
    moreover have "distinct (map ToLower (filter (\<lambda>u. u \<noteq> t) (keys specs)))"
      using cd by (simp only: case_distinct_def distinct_map_filter)
    ultimately show ?thesis unfolding case_distinct_def k map_append by simp
  qed (use cd in simp)
qed

lemma rename_canonical:
  assumes "case_distinct specs"
  shows "canonical [ty] (rename_type specs ty)"
proof (cases "rename_type specs ty = specs \<and> canonical [ty] specs")
  case False
  then obtain t where t: "t \<in> set (keys specs)" "ToLower t = ToLower ty"
    and k: "keys (rename_type specs ty) = filter (\<lambda>u. u \<noteq> t) (keys specs) @ [ty]" using rename_keys [OF assms] by blast
  show ?thesis using lower_inj [OF assms _ t(1)] t(2) unfolding canonical_def k by (auto simp del: set_map)
qed simp

lemma rename_keeps_canonical:
  assumes "case_distinct specs" "canonical types specs" "ToLower ty \<notin> ToLower ` set types"
  shows "canonical types (rename_type specs ty)"
  using rename_keys [OF assms(1), of ty]
proof
  assume "\<exists>t. t \<in> set (keys specs) \<and> ToLower t = ToLower ty \<and> ty \<notin> set (keys specs) \<and>
       keys (rename_type specs ty) = filter (\<lambda>u. u \<noteq> t) (keys specs) @ [ty]"
  then obtain t where "keys (rename_type specs ty) = filter (\<lambda>u. u \<noteq> t) (keys specs) @ [ty]" by blast
  with assms(2,3) show ?thesis by (auto simp: canonical_def)
qed (use assms in auto)

lemma canonical_Cons: "canonical (ty # types) specs \<longleftrightarrow> canonical [ty] specs \<and> canonical types specs"
  by (auto simp: canonical_def)

lemma rename_types_canonical:
  "case_distinct specs \<Longrightarrow> distinct (map ToLower types) \<Longrightarrow>
   canonical types (rename_types types specs) \<and> case_distinct (rename_types types specs)"
  unfolding rename_types_def
proof (induction types rule: rev_induct)
  case (snoc ty types)
  then have "canonical types (rename_type (foldl rename_type specs types) ty)"
    by (intro rename_keeps_canonical) auto
  moreover have "canonical [ty] (rename_type (foldl rename_type specs types) ty)"
    using snoc by (intro rename_canonical) auto
  ultimately show ?case using snoc by (auto simp: canonical_def intro: rename_case_distinct)
qed (simp add: canonical_def)

lemma rename_types_id: "canonical types specs \<Longrightarrow> rename_types types specs = specs"
  unfolding rename_types_def
proof (induction types)
  case (Cons ty types)
  then have "canonical [ty] specs" "canonical types specs" by (simp_all add: canonical_def)
  with Cons.IH show ?case by (simp add: rename_id)
qed simp

lemma canonical_keys: "set (keys specs') = set (keys specs) \<Longrightarrow> canonical types specs' = canonical types specs"
  by (simp add: canonical_def)

subsection \<open>Dependencies\<close>

definition dep_stable :: "ReplicaType \<Rightarrow> ReplicaType \<Rightarrow> replica_specs \<Rightarrow> bool" where
  "dep_stable rtype upstream specs \<longleftrightarrow>
     (\<forall>s. map_of specs rtype = Some s \<and> map_of specs upstream \<noteq> None \<longrightarrow>
        DependOn s = [\<lparr>Upstream = upstream, OnPhase = PodRunning\<rparr>])"

lemma update_same: "map_of specs k = Some v \<Longrightarrow> AList.update k v specs = specs"
  by (induction specs) auto

lemma depends_keys [simp]: "keys (depends r u specs) = keys specs"
proof -
  have "r \<in> set (keys specs)" if "map_of specs r = Some s" for s using that by (metis domI dom_map_of_conv_image_fst set_map)
  then show ?thesis by (auto simp: depends_def keys_update_old split: option.splits)
qed

lemma depends_stable_id: "dep_stable r u specs \<Longrightarrow> depends r u specs = specs"
  by (auto simp: depends_def dep_stable_def update_same split: option.splits)

lemma depends_stable [simp]: "dep_stable r u (depends r u specs)"
  by (auto simp: depends_def dep_stable_def split: option.splits if_splits)

lemma depends_keeps_stable: "dep_stable r u specs \<Longrightarrow> r \<noteq> r' \<Longrightarrow> dep_stable r u (depends r' u' specs)"
  by (auto simp: depends_def dep_stable_def split: option.splits if_splits)

lemma depends_map_of:
  "map_of (depends r u specs) t =
     (case map_of specs t of
        None \<Rightarrow> None
      | Some s \<Rightarrow> Some (if t = r \<and> map_of specs u \<noteq> None
                        then s\<lparr>DependOn := [\<lparr>Upstream = u, OnPhase = PodRunning\<rparr>]\<rparr> else s))"
  by (auto simp: depends_def split: option.splits)

definition set_edges :: "(ReplicaType \<times> ReplicaType) list \<Rightarrow> replica_specs \<Rightarrow> replica_specs" where
  "set_edges edges specs = foldl (\<lambda>ss (r, u). depends r u ss) specs edges"

lemma set_edges_simps [simp]:
  "set_edges [] specs = specs" "set_edges ((r, u) # edges) specs = set_edges edges (depends r u specs)"
  by (simp_all add: set_edges_def)

lemma set_edges_keys [simp]: "keys (set_edges edges specs) = keys specs"
  by (induction edges arbitrary: specs) auto

lemma set_edges_id: "(\<And>r u. (r, u) \<in> set edges \<Longrightarrow> dep_stable r u specs) \<Longrightarrow> set_edges edges specs = specs"
  by (induction edges) (auto simp: depends_stable_id)

lemma set_edges_keeps_stable: "dep_stable r u specs \<Longrightarrow> r \<notin> fst ` set edges \<Longrightarrow> dep_stable r u (set_edges edges specs)"
  by (induction edges arbitrary: specs) (auto simp: depends_keeps_stable)

lemma set_edges_stable: "distinct (map fst edges) \<Longrightarrow> (r, u) \<in> set edges \<Longrightarrow> dep_stable r u (set_edges edges specs)"
proof (induction edges arbitrary: specs)
  case (Cons e edges)
  then show ?case
  proof (cases "e = (r, u)")
    case True
    with Cons.prems(1) show ?thesis by (auto intro!: set_edges_keeps_stable)
  next
    case False
    with Cons show ?thesis by (cases e) auto
  qed
qed simp

subsection \<open>Loops over the replica specs\<close>

text \<open>
  What a loop needs of its body \<open>f\<close>: completing a spec twice is completing it once, and the
  dependencies of the spec are carried along unread.
\<close>

locale spec_defaults =
  fixes f :: "ReplicaType \<Rightarrow> ReplicaSpec \<Rightarrow> go_error + ReplicaSpec"
  assumes idem: "f t s = Inr s' \<Longrightarrow> f t s' = Inr s'"
    and deps: "f t (s\<lparr>DependOn := d\<rparr>) = map_sum id (DependOn_update (\<lambda>_. d)) (f t s)"
begin

definition complete :: "ReplicaType \<Rightarrow> ReplicaSpec \<Rightarrow> bool" where
  "complete t s \<longleftrightarrow> f t s = Inr s"

lemma completes: "f t s = Inr s' \<Longrightarrow> complete t s'"
  by (simp add: complete_def idem)

lemma keeps_deps: "f t s = Inr s' \<Longrightarrow> DependOn s' = DependOn s"
proof -
  assume a: "f t s = Inr s'"
  have "s\<lparr>DependOn := DependOn s\<rparr> = s" by simp
  with deps [where t = t and s = s and d = "DependOn s"] a have "s' = s'\<lparr>DependOn := DependOn s\<rparr>" by simp
  then have "DependOn s' = DependOn (s'\<lparr>DependOn := DependOn s\<rparr>)" by (rule arg_cong)
  then show ?thesis by simp
qed

lemma fixed: "complete t s \<Longrightarrow> f t s = Inr s"
  by (simp add: complete_def)

lemma deps_irrelevant: "complete t s \<Longrightarrow> complete t (s\<lparr>DependOn := d\<rparr>)"
  by (simp add: complete_def deps)

definition all_complete :: "replica_specs \<Rightarrow> bool" where
  "all_complete specs \<longleftrightarrow> (\<forall>(t, s) \<in> set specs. complete t s)"

lemma all_complete_simps [simp]:
  "all_complete []" "all_complete ((t, s) # specs) \<longleftrightarrow> complete t s \<and> all_complete specs"
  by (auto simp: all_complete_def)

lemma each_Cons:
  assumes "each_spec f (p # specs) = Inr specs'"
  obtains s1 rest where "f (fst p) (snd p) = Inr s1" "each_spec f specs = Inr rest" "specs' = (fst p, s1) # rest"
  using assms by (cases p) (auto split: sum.splits)

lemma each_complete: "each_spec f specs = Inr specs' \<Longrightarrow> all_complete specs'"
proof (induction specs arbitrary: specs')
  case (Cons p specs)
  then show ?case by (elim each_Cons) (simp add: completes)
qed simp

lemma each_keys: "each_spec f specs = Inr specs' \<Longrightarrow> keys specs' = keys specs"
  by (induction specs arbitrary: specs') (auto split: sum.splits)

lemma each_fixed: "all_complete specs \<Longrightarrow> each_spec f specs = Inr specs"
  by (induction specs) (auto simp: fixed)

lemma each_map_of:
  "each_spec f specs = Inr specs' \<Longrightarrow> map_of specs' t = Some s' \<Longrightarrow> \<exists>s. map_of specs t = Some s \<and> DependOn s' = DependOn s"
proof (induction specs arbitrary: specs')
  case (Cons p specs)
  from Cons.prems(1) show ?case
  proof (rule each_Cons)
    fix s1 rest
    assume a: "f (fst p) (snd p) = Inr s1" "each_spec f specs = Inr rest" "specs' = (fst p, s1) # rest"
    show ?thesis
    proof (cases "fst p = t")
      case True
      with a(3) Cons.prems(2) have "s' = s1" by simp
      with True keeps_deps [OF a(1)] show ?thesis by (cases p) simp
    next
      case False
      with a Cons.prems(2) Cons.IH show ?thesis by (cases p) auto
    qed
  qed
qed simp

lemma each_stable:
  assumes "each_spec f specs = Inr specs'" "dep_stable r u specs"
  shows "dep_stable r u specs'"
proof -
  have "map_of specs u \<noteq> None" if "map_of specs' u \<noteq> None" using each_map_of [OF assms(1)] that by blast
  with each_map_of [OF assms(1), of r] assms(2) show ?thesis unfolding dep_stable_def by metis
qed

lemma update_complete: "all_complete specs \<Longrightarrow> complete r v \<Longrightarrow> all_complete (AList.update r v specs)"
  by (induction specs) auto

lemma depends_complete: "all_complete specs \<Longrightarrow> all_complete (depends r u specs)"
proof -
  assume a: "all_complete specs"
  have "complete r s" if "map_of specs r = Some s" for s
    using a map_of_SomeD [OF that] by (auto simp: all_complete_def)
  then show ?thesis using a update_complete [OF a] deps_irrelevant by (simp add: depends_def split: option.splits)
qed

lemma set_edges_complete: "all_complete specs \<Longrightarrow> all_complete (set_edges edges specs)"
  by (induction edges arbitrary: specs) (auto simp: depends_complete)

lemma each_set:
  "each_spec f specs = Inr specs' \<Longrightarrow> (t, s') \<in> set specs' \<Longrightarrow> \<exists>s. (t, s) \<in> set specs \<and> f t s = Inr s' \<and> DependOn s' = DependOn s"
proof (induction specs arbitrary: specs')
  case (Cons p specs)
  from Cons.prems(1) obtain s1 rest where a: "f (fst p) (snd p) = Inr s1" "each_spec f specs = Inr rest"
    "specs' = (fst p, s1) # rest" by (rule each_Cons)
  show ?case
  proof (cases "(t, s') = (fst p, s1)")
    case True
    with a(1) keeps_deps [OF a(1)] show ?thesis by (cases p) auto
  next
    case False
    with a(3) Cons.prems(2) have "(t, s') \<in> set rest" by auto
    from Cons.IH [OF a(2) this] show ?thesis by auto
  qed
qed simp

text \<open>The workloads that set the dependencies before the loop, and the one that sets them after it.\<close>

lemma edges_first:
  assumes "case_distinct specs" "distinct (map ToLower types)" "distinct (map fst edges)"
    and e: "each_spec f (set_edges edges (rename_types types specs)) = Inr specs'"
  shows "each_spec f (set_edges edges (rename_types types specs')) = Inr specs'"
proof -
  have "canonical types specs'"
    using rename_types_canonical [OF assms(1,2)] canonical_keys [of specs' "rename_types types specs" types] each_keys [OF e]
    by simp
  moreover have "dep_stable r u specs'" if "(r, u) \<in> set edges" for r u
    using each_stable [OF e] set_edges_stable [OF assms(3) that] by blast
  ultimately show ?thesis using each_fixed [OF each_complete [OF e]] by (simp add: rename_types_id set_edges_id)
qed

lemma edges_last:
  assumes "case_distinct specs" "distinct (map ToLower types)" "distinct (map fst edges)"
    and e: "each_spec f (rename_types types specs) = Inr specs1"
  shows "each_spec f (rename_types types (set_edges edges specs1)) = Inr (set_edges edges specs1)"
    and "set_edges edges (set_edges edges specs1) = set_edges edges specs1"
proof -
  have "canonical types (set_edges edges specs1)"
    using rename_types_canonical [OF assms(1,2)] canonical_keys [of "set_edges edges specs1" "rename_types types specs" types]
      each_keys [OF e] by simp
  then show "each_spec f (rename_types types (set_edges edges specs1)) = Inr (set_edges edges specs1)"
    using each_fixed [OF set_edges_complete [OF each_complete [OF e]]] by (simp add: rename_types_id)
  show "set_edges edges (set_edges edges specs1) = set_edges edges specs1"
    using set_edges_stable [OF assms(3)] by (intro set_edges_id) blast
qed

end

subsection \<open>Ports and messages\<close>

definition fallback_done :: "pod_spec \<Rightarrow> bool" where
  "fallback_done ps \<longleftrightarrow> list_all (\<lambda>c. ct_TerminationMessagePolicy c \<noteq> []) (ps_Containers ps)"

lemma fallback_id: "fallback_done ps \<Longrightarrow> enableFallbackToLogsOnErrorTerminationMessagePolicy ps = ps"
  unfolding enableFallbackToLogsOnErrorTerminationMessagePolicy_def fallback_done_def
  by (cases ps) (auto simp: list_all_iff intro!: map_idI)

lemma fallback_done [simp]: "fallback_done (enableFallbackToLogsOnErrorTerminationMessagePolicy ps)"
  by (auto simp: enableFallbackToLogsOnErrorTerminationMessagePolicy_def fallback_done_def list_all_iff)

lemma fallback_nth:
  "i < length (ps_Containers ps) \<Longrightarrow>
   ct_Ports (ps_Containers (enableFallbackToLogsOnErrorTerminationMessagePolicy ps) ! i) = ct_Ports (ps_Containers ps ! i) \<and>
   ct_Name (ps_Containers (enableFallbackToLogsOnErrorTerminationMessagePolicy ps) ! i) = ct_Name (ps_Containers ps ! i)"
  by (simp add: enableFallbackToLogsOnErrorTerminationMessagePolicy_def)

lemma fallback_length [simp]:
  "length (ps_Containers (enableFallbackToLogsOnErrorTerminationMessagePolicy ps)) = length (ps_Containers ps)"
  by (simp add: enableFallbackToLogsOnErrorTerminationMessagePolicy_def)

lemma add_port_idem: "add_port i n p ps = Inr ps' \<Longrightarrow> add_port i n p ps' = Inr ps'"
  by (auto simp: add_port_def Let_def split: if_splits)

lemma add_port_names:
  "add_port i n p ps = Inr ps' \<Longrightarrow> map ct_Name (ps_Containers ps') = map ct_Name (ps_Containers ps)"
  by (auto simp: add_port_def Let_def map_update list_update_same_conv split: if_splits)

lemma add_port_fallback: "fallback_done ps \<Longrightarrow> add_port i n p ps = Inr ps' \<Longrightarrow> fallback_done ps'"
  by (auto simp: add_port_def Let_def fallback_done_def list_all_length nth_list_update split: if_splits)

lemma fallback_add_port:
  "add_port i n p ps = Inr ps \<Longrightarrow>
   add_port i n p (enableFallbackToLogsOnErrorTerminationMessagePolicy ps) =
     Inr (enableFallbackToLogsOnErrorTerminationMessagePolicy ps)"
proof -
  assume a: "add_port i n p ps = Inr ps"
  then have i: "i < length (ps_Containers ps)" by (auto simp: add_port_def Let_def split: if_splits)
  have "list_ex (\<lambda>q. cp_Name q = n) (ct_Ports (ps_Containers ps ! i))"
    using add_port_idem [OF a] a i by (auto simp: add_port_def Let_def split: if_splits dest!: arg_cong [where f = "\<lambda>q. length (ct_Ports (ps_Containers q ! i))"])
  with i show ?thesis by (simp add: add_port_def Let_def fallback_nth)
qed

lemma named_container_cong: "map ct_Name cs = map ct_Name cs' \<Longrightarrow> named_container cs n = named_container cs' n"
proof -
  assume m: "map ct_Name cs = map ct_Name cs'"
  then have l: "length cs = length cs'" by (rule map_eq_imp_length_eq)
  have "ct_Name (cs ! i) = ct_Name (cs' ! i)" if "i < length cs'" for i
    using m that l by (metis nth_map)
  then show ?thesis unfolding named_container_def l by (intro find_cong) auto
qed

lemma fallback_names [simp]:
  "map ct_Name (ps_Containers (enableFallbackToLogsOnErrorTerminationMessagePolicy ps)) = map ct_Name (ps_Containers ps)"
  by (simp add: enableFallbackToLogsOnErrorTerminationMessagePolicy_def)

text \<open>What completing a pod spec by its port needs, and how it works together with the message policy.\<close>

locale port_defaults =
  fixes g :: "pod_spec \<Rightarrow> go_error + pod_spec"
  assumes port_idem: "g ps = Inr ps' \<Longrightarrow> g ps' = Inr ps'"
    and port_fallback: "fallback_done ps \<Longrightarrow> g ps = Inr ps' \<Longrightarrow> fallback_done ps'"
    and fallback_port: "g ps = Inr ps \<Longrightarrow>
          g (enableFallbackToLogsOnErrorTerminationMessagePolicy ps) = Inr (enableFallbackToLogsOnErrorTerminationMessagePolicy ps)"
begin

lemma fallback_first:
  assumes "g (enableFallbackToLogsOnErrorTerminationMessagePolicy ps) = Inr ps'"
  shows "enableFallbackToLogsOnErrorTerminationMessagePolicy ps' = ps' \<and> g ps' = Inr ps'"
  using port_fallback [OF fallback_done assms] port_idem [OF assms] by (simp add: fallback_id)

lemma fallback_last:
  assumes "g ps = Inr ps'"
  shows "g (enableFallbackToLogsOnErrorTerminationMessagePolicy ps') = Inr (enableFallbackToLogsOnErrorTerminationMessagePolicy ps')"
  using fallback_port [OF port_idem [OF assms]] .

lemma first_idem:
  assumes "with_pod_spec g (on_pod_spec enableFallbackToLogsOnErrorTerminationMessagePolicy s) = Inr s'"
  shows "with_pod_spec g (on_pod_spec enableFallbackToLogsOnErrorTerminationMessagePolicy s') = Inr s'"
proof -
  obtain ps where ps: "g (enableFallbackToLogsOnErrorTerminationMessagePolicy (pt_Spec (Template s))) = Inr ps"
    and s': "s' = s\<lparr>Template := (Template s)\<lparr>pt_Spec := ps\<rparr>\<rparr>"
    using assms by (auto simp: with_pod_spec_def on_pod_spec_def split: sum.splits)
  show ?thesis using fallback_first [OF ps] by (simp add: s' with_pod_spec_def on_pod_spec_def)
qed

lemma last_idem:
  assumes "with_pod_spec g s = Inr s1"
  shows "with_pod_spec g (on_pod_spec enableFallbackToLogsOnErrorTerminationMessagePolicy s1) =
           Inr (on_pod_spec enableFallbackToLogsOnErrorTerminationMessagePolicy s1)"
proof -
  obtain ps where ps: "g (pt_Spec (Template s)) = Inr ps" and s1: "s1 = s\<lparr>Template := (Template s)\<lparr>pt_Spec := ps\<rparr>\<rparr>"
    using assms by (auto simp: with_pod_spec_def split: sum.splits)
  show ?thesis using fallback_last [OF ps] by (simp add: s1 with_pod_spec_def on_pod_spec_def)
qed

end

text \<open>A step on the replicas and the restart policy reads neither the template nor the dependencies.\<close>

definition replica_step :: "(ReplicaSpec \<Rightarrow> ReplicaSpec) \<Rightarrow> bool" where
  "replica_step h \<longleftrightarrow>
     (\<forall>s t. h (s\<lparr>Template := t\<rparr>) = (h s)\<lparr>Template := t\<rparr>) \<and> (\<forall>s d. h (s\<lparr>DependOn := d\<rparr>) = (h s)\<lparr>DependOn := d\<rparr>) \<and>
     (\<forall>s. h (h s) = h s) \<and> (\<forall>s. Template (h s) = Template s)"

lemma replica_step_simps:
  assumes "replica_step h"
  shows "with_pod_spec g (h s) = map_sum id h (with_pod_spec g s)"
    and "on_pod_spec k (h s) = h (on_pod_spec k s)"
    and "h (s\<lparr>DependOn := d\<rparr>) = (h s)\<lparr>DependOn := d\<rparr>"
    and "h (h s) = h s"
  using assms by (auto simp: replica_step_def with_pod_spec_def on_pod_spec_def split: sum.splits)

lemma replica_step_comp:
  "replica_step h \<Longrightarrow> replica_step k \<Longrightarrow> (\<And>s. h (k s) = k (h s)) \<Longrightarrow> replica_step (\<lambda>s. h (k s))"
  by (simp add: replica_step_def)

lemma replica_step_replicas: "replica_step default_replicas"
  by (simp add: replica_step_def default_replicas_def)

lemma replica_step_restart: "policy \<noteq> [] \<Longrightarrow> replica_step (default_restart policy)"
  by (simp add: replica_step_def default_restart_def)

lemma replica_step_both: "policy \<noteq> [] \<Longrightarrow> replica_step (\<lambda>s. default_restart policy (default_replicas s))"
  by (rule replica_step_comp [OF replica_step_restart replica_step_replicas]) (simp_all add: default_restart_def default_replicas_def)

lemma with_deps: "with_pod_spec g (s\<lparr>DependOn := d\<rparr>) = map_sum id (DependOn_update (\<lambda>_. d)) (with_pod_spec g s)"
  by (auto simp: with_pod_spec_def split: sum.splits)

lemma on_deps: "on_pod_spec k (s\<lparr>DependOn := d\<rparr>) = (on_pod_spec k s)\<lparr>DependOn := d\<rparr>"
  by (simp add: on_pod_spec_def)

lemma on_fallback_idem:
  "on_pod_spec enableFallbackToLogsOnErrorTerminationMessagePolicy (on_pod_spec enableFallbackToLogsOnErrorTerminationMessagePolicy s) =
   on_pod_spec enableFallbackToLogsOnErrorTerminationMessagePolicy s"
  by (simp add: on_pod_spec_def fallback_id)

text \<open>The two forms that a loop body has.\<close>

lemma spec_defaults_first:
  assumes "port_defaults g" "replica_step h"
  shows "spec_defaults (\<lambda>t s. with_pod_spec g (h (on_pod_spec enableFallbackToLogsOnErrorTerminationMessagePolicy s)))"
    (is "spec_defaults (\<lambda>t s. ?f s)")
proof
  show "?f s' = Inr s'" if f: "?f s = Inr s'" for s s'
  proof -
    obtain s1 where s1: "with_pod_spec g (on_pod_spec enableFallbackToLogsOnErrorTerminationMessagePolicy s) = Inr s1" "s' = h s1"
      using f by (cases "with_pod_spec g (on_pod_spec enableFallbackToLogsOnErrorTerminationMessagePolicy s)")
        (auto simp: replica_step_simps(1) [OF assms(2)])
    show ?thesis using port_defaults.first_idem [OF assms(1) s1(1)] by (simp add: s1(2) replica_step_simps [OF assms(2)])
  qed
  show "?f (s\<lparr>DependOn := d\<rparr>) = map_sum id (DependOn_update (\<lambda>_. d)) (?f s)" for s d
    by (simp add: replica_step_simps [OF assms(2)] with_deps on_deps)
qed

lemma spec_defaults_last:
  assumes "\<And>t. port_defaults (g t)" "\<And>t. replica_step (h t)"
  shows "spec_defaults (\<lambda>t s. map_sum id (\<lambda>s1. h t (on_pod_spec enableFallbackToLogsOnErrorTerminationMessagePolicy s1))
                                (with_pod_spec (g t) s))"
    (is "spec_defaults ?f")
proof
  show "?f t s' = Inr s'" if f: "?f t s = Inr s'" for t s s'
  proof -
    obtain s1 where s1: "with_pod_spec (g t) s = Inr s1" "s' = h t (on_pod_spec enableFallbackToLogsOnErrorTerminationMessagePolicy s1)"
      using f by (cases "with_pod_spec (g t) s") auto
    show ?thesis
      using port_defaults.last_idem [OF assms(1) s1(1)] by (simp add: s1(2) replica_step_simps [OF assms(2)] on_fallback_idem)
  qed
  show "?f t (s\<lparr>DependOn := d\<rparr>) = map_sum id (DependOn_update (\<lambda>_. d)) (?f t s)" for t s d
    by (cases "with_pod_spec (g t) s") (simp_all add: replica_step_simps [OF assms(2)] with_deps on_deps)
qed

lemma default_port_lawful: "port_defaults (default_port c n p)"
proof
  fix ps ps'
  assume a: "default_port c n p ps = Inr ps'"
  have "named_container (ps_Containers ps') c = named_container (ps_Containers ps) c"
    using a unfolding default_port_def by (intro named_container_cong add_port_names)
  then show "default_port c n p ps' = Inr ps'" using a by (simp add: default_port_def add_port_idem)
next
  fix ps ps'
  assume "fallback_done ps" "default_port c n p ps = Inr ps'"
  then show "fallback_done ps'" by (simp add: default_port_def add_port_fallback)
next
  fix ps
  assume a: "default_port c n p ps = Inr ps"
  have "named_container (ps_Containers (enableFallbackToLogsOnErrorTerminationMessagePolicy ps)) c =
      named_container (ps_Containers ps) c" by (rule named_container_cong) simp
  then show "default_port c n p (enableFallbackToLogsOnErrorTerminationMessagePolicy ps) =
      Inr (enableFallbackToLogsOnErrorTerminationMessagePolicy ps)"
    using a by (simp add: default_port_def fallback_add_port)
qed

interpretation tf_port: port_defaults setDefaults_TFJobPort
  unfolding setDefaults_TFJobPort_def [abs_def] by (rule default_port_lawful)

interpretation xdl_port: port_defaults setDefaults_XDLJobPort
  unfolding setDefaults_XDLJobPort_def [abs_def] by (rule default_port_lawful)

interpretation xgb_port: port_defaults setDefaults_XGBoostJobPort
  unfolding setDefaults_XGBoostJobPort_def [abs_def] by (rule default_port_lawful)

interpretation mpi_port: port_defaults setDefaults_MPIJobPort
  unfolding setDefaults_MPIJobPort_def [abs_def] by (rule default_port_lawful)

interpretation mars_port: port_defaults setDefaults_MarsJobPort
  unfolding setDefaults_MarsJobPort_def [abs_def] by (rule default_port_lawful)

interpretation pt_port: port_defaults setDefaults_PyTorchJobPort
proof
  fix ps ps'
  assume a: "setDefaults_PyTorchJobPort ps = Inr ps'"
  have "named_container (ps_Containers ps') ''pytorch'' = named_container (ps_Containers ps) ''pytorch''"
    using a unfolding setDefaults_PyTorchJobPort_def
    by (intro named_container_cong) (auto split: option.splits dest: add_port_names)
  then show "setDefaults_PyTorchJobPort ps' = Inr ps'"
    using a by (auto simp: setDefaults_PyTorchJobPort_def add_port_idem split: option.splits)
next
  fix ps ps'
  assume "fallback_done ps" "setDefaults_PyTorchJobPort ps = Inr ps'"
  then show "fallback_done ps'"
    by (auto simp: setDefaults_PyTorchJobPort_def split: option.splits dest: add_port_fallback)
next
  fix ps
  assume a: "setDefaults_PyTorchJobPort ps = Inr ps"
  have "named_container (ps_Containers (enableFallbackToLogsOnErrorTerminationMessagePolicy ps)) ''pytorch'' =
      named_container (ps_Containers ps) ''pytorch''" by (rule named_container_cong) simp
  then show "setDefaults_PyTorchJobPort (enableFallbackToLogsOnErrorTerminationMessagePolicy ps) =
      Inr (enableFallbackToLogsOnErrorTerminationMessagePolicy ps)"
    using a by (auto simp: setDefaults_PyTorchJobPort_def fallback_add_port split: option.splits)
qed

lemma no_port_lawful: "port_defaults Inr"
  by unfold_locales auto

interpretation tf: spec_defaults tf_spec
  unfolding tf_spec_def [abs_def] setDefaults_TFJobReplicas_def
  by (intro spec_defaults_first tf_port.port_defaults_axioms replica_step_both) (simp add: RestartPolicyExitCode_def)

interpretation xdl: spec_defaults xdl_spec
  unfolding xdl_spec_def [abs_def] setDefaults_XDLJobReplicas_def
  by (intro spec_defaults_first xdl_port.port_defaults_axioms replica_step_both) (simp add: RestartPolicyNever_def)

interpretation xgb: spec_defaults xgb_spec
  unfolding xgb_spec_def [abs_def] setDefaults_XGBoostJobReplicas_def
  by (intro spec_defaults_first xgb_port.port_defaults_axioms replica_step_replicas)

definition pt_step :: "ReplicaType \<Rightarrow> ReplicaSpec \<Rightarrow> ReplicaSpec" where
  "pt_step t = (if t = ''Worker'' then setDefaults_PyTorchJobWorkerReplicas
                else if t = ''Master'' then setDefaults_PyTorchJobMasterReplicas else id)"

definition mars_step :: "ReplicaType \<Rightarrow> ReplicaSpec \<Rightarrow> ReplicaSpec" where
  "mars_step t = (if t = ''WebService'' then setDefaults_MarsJobWebServiceReplicas
                  else if t = ''Worker'' then setDefaults_MarsJobWorkerReplicas
                  else if t = ''Scheduler'' then setDefaults_MarsJobSchedulerReplicas else id)"

lemma step_lawful:
  "replica_step id" "replica_step setDefaults_PyTorchJobWorkerReplicas" "replica_step setDefaults_PyTorchJobMasterReplicas"
  "replica_step setDefaults_MarsJobWebServiceReplicas" "replica_step setDefaults_MarsJobWorkerReplicas"
  "replica_step setDefaults_MarsJobSchedulerReplicas"
  unfolding setDefaults_PyTorchJobWorkerReplicas_def [abs_def] setDefaults_PyTorchJobMasterReplicas_def [abs_def]
    setDefaults_MarsJobWebServiceReplicas_def [abs_def] setDefaults_MarsJobWorkerReplicas_def [abs_def]
    setDefaults_MarsJobSchedulerReplicas_def [abs_def]
      apply (simp add: replica_step_def)
  by (rule replica_step_both, simp add: RestartPolicyOnFailure_def RestartPolicyExitCode_def RestartPolicyAlways_def RestartPolicyNever_def)+

lemma pt_step_lawful: "replica_step (pt_step t)"
  by (simp add: pt_step_def step_lawful)

lemma mars_step_lawful: "replica_step (mars_step t)"
  by (simp add: mars_step_def step_lawful)

lemma pt_spec_form:
  "pt_spec t s = map_sum id (\<lambda>s1. pt_step t (on_pod_spec enableFallbackToLogsOnErrorTerminationMessagePolicy s1))
                   (with_pod_spec (if t = ''Master'' then setDefaults_PyTorchJobPort else Inr) s)"
proof (cases "t = ''Master''")
  case True
  then show ?thesis
    by (cases "with_pod_spec setDefaults_PyTorchJobPort s")
      (simp_all add: pt_spec_def pt_step_def replica_step_simps [OF step_lawful(3)])
next
  case False
  have "with_pod_spec Inr s = Inr s" by (simp add: with_pod_spec_def)
  with False show ?thesis by (simp add: pt_spec_def pt_step_def replica_step_simps [OF step_lawful(2)])
qed

lemma mars_spec_form:
  "mars_spec t s = map_sum id (\<lambda>s1. mars_step t (on_pod_spec enableFallbackToLogsOnErrorTerminationMessagePolicy s1))
                     (with_pod_spec setDefaults_MarsJobPort s)"
  by (auto simp: mars_spec_def mars_step_def Let_def split: sum.splits)

lemma mpi_replica_form:
  "mpi_replica s = map_sum id (\<lambda>s1. default_restart RestartPolicyNever (on_pod_spec enableFallbackToLogsOnErrorTerminationMessagePolicy s1))
                     (with_pod_spec setDefaults_MPIJobPort s)"
  using replica_step_simps [OF replica_step_restart [of RestartPolicyNever]]
  by (cases "with_pod_spec setDefaults_MPIJobPort s") (simp_all add: mpi_replica_def RestartPolicyNever_def)

interpretation pt: spec_defaults pt_spec
proof -
  have "port_defaults (if t = ''Master'' then setDefaults_PyTorchJobPort else Inr)" for t :: ReplicaType
    using pt_port.port_defaults_axioms no_port_lawful by simp
  from spec_defaults_last [OF this pt_step_lawful]
  show "spec_defaults pt_spec" by (simp add: pt_spec_form [abs_def])
qed

interpretation mars: spec_defaults mars_spec
  unfolding mars_spec_form [abs_def] by (rule spec_defaults_last [OF mars_port.port_defaults_axioms mars_step_lawful])

interpretation mpi: spec_defaults "\<lambda>t. mpi_replica"
  unfolding mpi_replica_form [abs_def]
  by (rule spec_defaults_last [OF mpi_port.port_defaults_axioms replica_step_restart]) (simp add: RestartPolicyNever_def)

subsection \<open>Jobs\<close>

lemma set_kind_simps [simp]:
  "tj_Specs (set_kind k job) = tj_Specs job" "tj_RunPolicy (set_kind k job) = tj_RunPolicy job"
  "tf_SuccessPolicy (set_kind k tf) = tf_SuccessPolicy tf"
  "MinFinishWorkerNum (set_kind k xdl) = MinFinishWorkerNum xdl"
  "MinFinishWorkerPercentage (set_kind k xdl) = MinFinishWorkerPercentage xdl"
  "WorkerMemoryTuningPolicy (set_kind k mars) = WorkerMemoryTuningPolicy mars"
  "mpi_Legacy (set_kind k mpi) = mpi_Legacy mpi"
  by (simp_all add: set_kind_def Let_def)

lemma set_kind_idem: "k \<noteq> [] \<Longrightarrow> set_kind k (set_kind k job) = set_kind k job"
  by (simp add: set_kind_def Let_def GroupVersion_def)

lemma default_clean_idem [simp]: "default_clean p (default_clean p rp) = default_clean p rp"
  by (simp add: default_clean_def)

lemma set_kind_update [simp]:
  "tj_Specs_update f (set_kind k job) = set_kind k (tj_Specs_update f job)"
  "tj_RunPolicy_update h (set_kind k job) = set_kind k (tj_RunPolicy_update h job)"
  "tf_SuccessPolicy_update sp (set_kind k tf) = set_kind k (tf_SuccessPolicy_update sp tf)"
  "MinFinishWorkerPercentage_update pc (set_kind k xdl) = set_kind k (MinFinishWorkerPercentage_update pc xdl)"
  "WorkerMemoryTuningPolicy_update wp (set_kind k mars) = set_kind k (WorkerMemoryTuningPolicy_update wp mars)"
  "mpi_Legacy_update lg (set_kind k mpi) = set_kind k (mpi_Legacy_update lg mpi)"
  by (simp_all add: set_kind_def Let_def)

lemma tf_edges:
  "(if dag then setDefaultTFDAGCondition specs else specs) =
   set_edges (if dag then [(''Worker'', ''PS''), (''Chief'', ''PS''), (''Master'', ''PS'')] else []) specs"
  by (simp add: setDefaultTFDAGCondition_def)

lemma pt_edges:
  "(if dag then setDefaultPyTorchDAGConditions specs else specs) =
   set_edges (if dag then [(''Master'', JobReplicaTypeAIMaster), (''Worker'', ''Master'')] else []) specs"
  by (simp add: setDefaultPyTorchDAGConditions_def)

lemma mars_edges:
  "(if dag then setDefaultMarsDAGConditions specs else specs) =
   set_edges (if dag then [(''Worker'', ''Scheduler''), (''WebService'', ''Scheduler'')] else []) specs"
  by (simp add: setDefaultMarsDAGConditions_def)

lemma xgb_edges:
  "(if dag then setDefaultXGBoostDAGConditions specs else specs) =
   set_edges (if dag then [(''Worker'', ''Master'')] else []) specs"
  by (simp add: setDefaultXGBoostDAGConditions_def)

lemma type_names_distinct:
  "distinct (map ToLower [''PS'', ''Worker'', ''Chief'', ''Master'', ''Evaluator''])"
  "distinct (map ToLower [''Master'', ''Worker''])"
  "distinct (map ToLower [''Worker'', ''PS'', ''Scheduler'', ''ExtendRole''])"
  "distinct (map ToLower [''Scheduler'', ''Worker'', ''WebService''])"
  by code_simp+

lemma tf_idem:
  assumes "case_distinct (tj_Specs job)" "SetDefaults_TFJob dag job = Inr job'"
  shows "SetDefaults_TFJob dag job' = Inr job'"
proof -
  note u = SetDefaults_TFJob_def setTypeNames_TFJob_def Let_def tf_edges
  define edges where "edges = (if dag then [(''Worker'', ''PS''), (''Chief'', ''PS''), (''Master'', ''PS'')] else [])"
  have "distinct (map fst edges)" by (simp add: edges_def)
  note again = tf.edges_first [OF assms(1) type_names_distinct(1) this]
  obtain specs where e: "each_spec tf_spec (set_edges edges (rename_types [''PS'', ''Worker'', ''Chief'', ''Master'', ''Evaluator''] (tj_Specs job))) = Inr specs"
    using assms(2) unfolding u edges_def by (fastforce split: sum.splits)
  from assms(2) again [OF e] show ?thesis
    unfolding u edges_def [symmetric] e sum.case by (cases job) (auto simp: set_kind_idem split: if_splits)
qed

lemma pt_idem:
  assumes "case_distinct (tj_Specs job)" "SetDefaults_PyTorchJob dag job = Inr job'"
  shows "SetDefaults_PyTorchJob dag job' = Inr job'"
proof -
  note u = SetDefaults_PyTorchJob_def setTypeNames_PyTorchJob_def Let_def pt_edges
  define edges where "edges = (if dag then [(''Master'', JobReplicaTypeAIMaster), (''Worker'', ''Master'')] else [])"
  have "distinct (map fst edges)" by (simp add: edges_def)
  note again = pt.edges_first [OF assms(1) type_names_distinct(2) this]
  obtain specs where e: "each_spec pt_spec (set_edges edges (rename_types [''Master'', ''Worker''] (tj_Specs job))) = Inr specs"
    using assms(2) unfolding u edges_def by (fastforce split: sum.splits)
  from assms(2) again [OF e] show ?thesis
    unfolding u edges_def [symmetric] e sum.case by (auto simp: set_kind_idem)
qed

lemma mem_policy_idem [simp]:
  "setDefaults_MarsJobWorkerMemTuningPolicy (setDefaults_MarsJobWorkerMemTuningPolicy p) = setDefaults_MarsJobWorkerMemTuningPolicy p"
  by (auto simp: setDefaults_MarsJobWorkerMemTuningPolicy_def Let_def split: option.splits)

lemma mars_idem:
  assumes "case_distinct (tj_Specs job)" "SetDefaults_MarsJob dag job = Inr job'"
  shows "SetDefaults_MarsJob dag job' = Inr job'"
proof -
  note u = SetDefaults_MarsJob_def setTypeNames_MarsJob_def Let_def mars_edges
  define edges where "edges = (if dag then [(''Worker'', ''Scheduler''), (''WebService'', ''Scheduler'')] else [])"
  have "distinct (map fst edges)" by (simp add: edges_def)
  note again = mars.edges_first [OF assms(1) type_names_distinct(4) this]
  obtain specs where e: "each_spec mars_spec (set_edges edges (rename_types [''Scheduler'', ''Worker'', ''WebService''] (tj_Specs job))) = Inr specs"
    using assms(2) unfolding u edges_def by (fastforce split: sum.splits)
  have k: "keys specs = keys (rename_types [''Scheduler'', ''Worker'', ''WebService''] (tj_Specs job))"
    using mars.each_keys [OF e] by simp
  have k': "keys (set_edges edges (rename_types [''Scheduler'', ''Worker'', ''WebService''] specs)) = keys specs"
    using mars.each_keys [OF again [OF e]] by simp
  from assms(2) again [OF e] k k' show ?thesis
    unfolding u edges_def [symmetric] e sum.case
    by (auto simp: set_kind_idem mem_policy_idem simp del: set_map split: if_splits)
qed

lemma xdl_idem:
  assumes "case_distinct (tj_Specs job)" "SetDefaults_XDLJob job = Inr job'"
  shows "SetDefaults_XDLJob job' = Inr job'"
proof -
  note again = xdl.edges_first [OF assms(1) type_names_distinct(3), of "[]", simplified]
  have fixed: "setDefaults_XDLJobSpec (setDefaults_XDLJobSpec job\<lparr>tj_Specs := ss\<rparr>) = setDefaults_XDLJobSpec job\<lparr>tj_Specs := ss\<rparr>" for ss
    by (simp add: setDefaults_XDLJobSpec_def Let_def default_clean_def)
  have k: "setDefaults_XDLJobSpec (set_kind n j) = set_kind n (setDefaults_XDLJobSpec j)" for n j
    by (simp add: setDefaults_XDLJobSpec_def Let_def)
  have t: "tj_Specs (setDefaults_XDLJobSpec j) = tj_Specs j" for j by (simp add: setDefaults_XDLJobSpec_def Let_def)
  show ?thesis
    using assms(2) again unfolding SetDefaults_XDLJob_def setTypeNames_XDLJob_def Let_def
    by (auto simp: t k fixed set_kind_idem split: sum.splits)
qed

lemma xgb_idem:
  assumes "case_distinct (tj_Specs job)" "SetDefaults_XGBoostJob dag job = Inr job'"
  shows "SetDefaults_XGBoostJob dag job' = Inr job'"
proof -
  note u = SetDefaults_XGBoostJob_def setTypeNames_XGBoostJob_def Let_def xgb_edges
  define edges where "edges = (if dag then [(''Worker'', ''Master'')] else [])"
  have "distinct (map fst edges)" by (simp add: edges_def)
  note again = xgb.edges_last [OF assms(1) type_names_distinct(2) this]
  have fixed: "setDefaults_XGBoostJobSpec (setDefaults_XGBoostJobSpec job\<lparr>tj_Specs := ss\<rparr>) = setDefaults_XGBoostJobSpec job\<lparr>tj_Specs := ss\<rparr>" for ss
    by (simp add: setDefaults_XGBoostJobSpec_def Let_def default_clean_def)
  have k: "setDefaults_XGBoostJobSpec (set_kind n j) = set_kind n (setDefaults_XGBoostJobSpec j)" for n and j :: XGBoostJob
    by (simp add: setDefaults_XGBoostJobSpec_def Let_def)
  have t: "tj_Specs (setDefaults_XGBoostJobSpec j) = tj_Specs j" for j by (simp add: setDefaults_XGBoostJobSpec_def Let_def)
  obtain specs where e: "each_spec xgb_spec (rename_types [''Master'', ''Worker''] (tj_Specs job)) = Inr specs"
    using assms(2) unfolding u t by (fastforce split: sum.splits)
  from assms(2) again [OF e] show ?thesis
    unfolding u edges_def [symmetric] t e sum.case by (auto simp: t k fixed set_kind_idem)
qed

text \<open>The MPI job has no loop: its two types are completed one after the other.\<close>

definition mpi_done :: "ReplicaType \<Rightarrow> replica_specs \<Rightarrow> bool" where
  "mpi_done r specs \<longleftrightarrow> (case map_of specs r of None \<Rightarrow> True | Some s \<Rightarrow> mpi_replica s = Inr s)"

lemma default_type_done: "default_type mpi_replica r specs = Inr specs' \<Longrightarrow> mpi_done r specs'"
  by (auto simp: default_type_def mpi_done_def mpi.idem split: option.splits sum.splits)

lemma default_type_keeps: "default_type mpi_replica r specs = Inr specs' \<Longrightarrow> r \<noteq> q \<Longrightarrow> mpi_done q specs \<Longrightarrow> mpi_done q specs'"
  by (auto simp: default_type_def mpi_done_def split: option.splits sum.splits)

lemma default_type_id: "mpi_done r specs \<Longrightarrow> default_type mpi_replica r specs = Inr specs"
  by (auto simp: default_type_def mpi_done_def update_same split: option.splits)

lemma depends_mpi_done: "mpi_done q specs \<Longrightarrow> mpi_done q (depends r u specs)"
  by (auto simp: mpi_done_def depends_map_of mpi.deps split: option.splits)

lemma mpi_idem:
  assumes "SetDefaults_MPIJob dag job = Inr job'"
  shows "SetDefaults_MPIJob dag job' = Inr job'"
proof -
  note u = SetDefaults_MPIJob_def setDefaults_MPIJobLauncherReplica_def [abs_def] setDefaults_MPIJobWorkerReplica_def [abs_def]
  define deps where "deps = (if dag then setDefaultMPIDAGConditions else id)"
  obtain s1 s2 where s1: "default_type mpi_replica ''Launcher'' (tj_Specs job) = Inr s1"
    and s2: "default_type mpi_replica ''Worker'' s1 = Inr s2"
    using assms unfolding u by (fastforce split: sum.splits)
  have "mpi_done ''Launcher'' s2" "mpi_done ''Worker'' s2"
    using default_type_keeps [OF s2 _ default_type_done [OF s1]] default_type_done [OF s2] by simp_all
  then have "mpi_done ''Launcher'' (deps s2)" "mpi_done ''Worker'' (deps s2)"
    by (simp_all add: deps_def setDefaultMPIDAGConditions_def depends_mpi_done)
  then have d: "default_type mpi_replica ''Launcher'' (deps s2) = Inr (deps s2)"
      "default_type mpi_replica ''Worker'' (deps s2) = Inr (deps s2)" by (simp_all add: default_type_id)
  have dd: "deps (deps s2) = deps s2" by (simp add: deps_def setDefaultMPIDAGConditions_def depends_stable_id)
  have legacy: "mpi_legacy_defaults (mpi_legacy_defaults l) = mpi_legacy_defaults l" for l
    by (simp add: mpi_legacy_defaults_def split: option.splits)
  have e: "(if dag then setDefaultMPIDAGConditions ss else ss) = deps ss" for ss by (simp add: deps_def)
  show ?thesis using assms d dd unfolding u e s1 s2 sum.case by (auto simp: s2 legacy set_kind_idem)
qed

text \<open>
  C26. Completing a job object is idempotent for TensorFlow, PyTorch, XDL, XGBoost, Mars and MPI jobs:
  when completing succeeds and, except for MPI, no two replica types of the job differ in case only,
  completing the result succeeds and changes nothing. So the reconciler, which completes the object at
  the start of every round, sees the same job in every round. Two types that differ in case only are
  renamed to the same one, in an order that is not determined. The seventh workload with defaults is
  \<open>ElasticBatchJob\<close>, whose defaults add a dependency and environment variables in every round.
\<close>

theorem defaults_idempotent:
  "(case_distinct (tj_Specs tf) \<and> SetDefaults_TFJob dag tf = Inr tf' \<longrightarrow> SetDefaults_TFJob dag tf' = Inr tf') \<and>
   (case_distinct (tj_Specs pt) \<and> SetDefaults_PyTorchJob dag pt = Inr pt' \<longrightarrow> SetDefaults_PyTorchJob dag pt' = Inr pt') \<and>
   (case_distinct (tj_Specs xdl) \<and> SetDefaults_XDLJob xdl = Inr xdl' \<longrightarrow> SetDefaults_XDLJob xdl' = Inr xdl') \<and>
   (case_distinct (tj_Specs xgb) \<and> SetDefaults_XGBoostJob dag xgb = Inr xgb' \<longrightarrow> SetDefaults_XGBoostJob dag xgb' = Inr xgb') \<and>
   (case_distinct (tj_Specs mars) \<and> SetDefaults_MarsJob dag mars = Inr mars' \<longrightarrow> SetDefaults_MarsJob dag mars' = Inr mars') \<and>
   (SetDefaults_MPIJob dag mpi = Inr mpi' \<longrightarrow> SetDefaults_MPIJob dag mpi' = Inr mpi')"
  using tf_idem pt_idem xdl_idem xgb_idem mars_idem mpi_idem by blast

text \<open>A job of one type with one container that has nothing set.\<close>

definition bare_spec :: ReplicaSpec where
  "bare_spec = (dag_spec 2 [])\<lparr>Replicas := None, RestartPolicy := [],
     Template := (Template (dag_spec 2 []))\<lparr>pt_Spec := (pt_Spec (Template (dag_spec 2 [])))\<lparr>ps_Containers :=
       [\<lparr>ct_Name = ''main'', ct_Ports = [], ct_Env = [], ct_VolumeMounts = [], ct_Requests = [], ct_Limits = [],
         ct_Image = ''img'', ct_Command = [], ct_Args = [], ct_WorkingDir = [], ct_ImagePullPolicy = [], ct_TerminationMessagePolicy = []\<rparr>]\<rparr>\<rparr>\<rparr>"

definition bare_job :: "ReplicaType list \<Rightarrow> job_object" where
  "bare_job types = \<lparr>tj_Kind = [], tj_APIVersion = [], tj_Specs = map (\<lambda>t. (t, bare_spec)) types, tj_RunPolicy = empty_run_policy\<rparr>"

lemma completed_iff: "\<not> isl r \<Longrightarrow> r = Inr (projr r)"
  by (cases r) auto

definition bare_tf :: TFJob where
  "bare_tf = job_object.extend (bare_job [''ps'', ''worker'', ''Evaluator'']) (TFJob.fields None)"

definition bare_xdl :: XDLJob where
  "bare_xdl = job_object.extend (bare_job [''ps'', ''Worker'']) (XDLJob.fields None None)"

definition bare_mars :: MarsJob where
  "bare_mars = job_object.extend (bare_job [''scheduler'', ''worker'']) (MarsJob.fields None None [])"

definition bare_mpi :: MPIJob where
  "bare_mpi = job_object.extend (bare_job [''Worker'', ''Launcher'']) (MPIJob.fields None [] (Some (MPIJobLegacySpec.make None None None)))"

lemmas bare_defs = bare_job_def bare_spec_def bare_tf_def bare_xdl_def bare_mars_def bare_mpi_def dag_spec_def
  job_object.defs TFJob.defs XDLJob.defs MarsJob.defs MPIJob.defs MPIJobLegacySpec.defs

text \<open>Keys in lower case, as a manifest may have them, are renamed once.\<close>

theorem defaults_idempotent_witness:
  "(let tf = projr (SetDefaults_TFJob True bare_tf); pt = projr (SetDefaults_PyTorchJob True (bare_job [''master'', ''Worker'']));
        xdl = projr (SetDefaults_XDLJob bare_xdl); xgb = projr (SetDefaults_XGBoostJob True (bare_job [''master'', ''Worker'']));
        mars = projr (SetDefaults_MarsJob True bare_mars); mpi = projr (SetDefaults_MPIJob True bare_mpi)
    in SetDefaults_TFJob True tf = Inr tf \<and> SetDefaults_PyTorchJob True pt = Inr pt \<and> SetDefaults_XDLJob xdl = Inr xdl \<and>
       SetDefaults_XGBoostJob True xgb = Inr xgb \<and> SetDefaults_MarsJob True mars = Inr mars \<and> SetDefaults_MPIJob True mpi = Inr mpi)"
proof -
  have c: "case_distinct (tj_Specs bare_tf)" "case_distinct (tj_Specs (bare_job [''master'', ''Worker'']))"
    "case_distinct (tj_Specs bare_xdl)" "case_distinct (tj_Specs bare_mars)"
    unfolding bare_defs by code_simp+
  have r: "\<not> isl (SetDefaults_TFJob True bare_tf)" "\<not> isl (SetDefaults_PyTorchJob True (bare_job [''master'', ''Worker'']))"
    "\<not> isl (SetDefaults_XDLJob bare_xdl)" "\<not> isl (SetDefaults_XGBoostJob True (bare_job [''master'', ''Worker'']))"
    "\<not> isl (SetDefaults_MarsJob True bare_mars)" "\<not> isl (SetDefaults_MPIJob True bare_mpi)"
    unfolding bare_defs by code_simp+
  note d = r [THEN completed_iff]
  show ?thesis
    using defaults_idempotent [where dag = True and tf = bare_tf and tf' = "projr (SetDefaults_TFJob True bare_tf)"
      and pt = "bare_job [''master'', ''Worker'']" and pt' = "projr (SetDefaults_PyTorchJob True (bare_job [''master'', ''Worker'']))"
      and xdl = bare_xdl and xdl' = "projr (SetDefaults_XDLJob bare_xdl)"
      and xgb = "bare_job [''master'', ''Worker'']" and xgb' = "projr (SetDefaults_XGBoostJob True (bare_job [''master'', ''Worker'']))"
      and mars = bare_mars and mars' = "projr (SetDefaults_MarsJob True bare_mars)"
      and mpi = bare_mpi and mpi' = "projr (SetDefaults_MPIJob True bare_mpi)"]
    unfolding Let_def using c d by simp
qed

subsection \<open>Dependencies and the order of reconciliation\<close>

text \<open>The order in which the controllers reconcile the types of a job.\<close>

definition GetReconcileOrders_TFJob :: "ReplicaType list" where
  "GetReconcileOrders_TFJob = [''PS'', ''Master'', ''Chief'', ''Worker'']"

definition GetReconcileOrders_PyTorchJob :: "ReplicaType list" where
  "GetReconcileOrders_PyTorchJob = [JobReplicaTypeAIMaster, ''Master'', ''Worker'']"

definition GetReconcileOrders_XGBoostJob :: "ReplicaType list" where
  "GetReconcileOrders_XGBoostJob = [''Master'', ''Worker'']"

definition GetReconcileOrders_MPIJob :: "ReplicaType list" where
  "GetReconcileOrders_MPIJob = [''Worker'', ''Launcher'']"

definition GetReconcileOrders_MarsJob :: "ReplicaType list" where
  "GetReconcileOrders_MarsJob = [''Scheduler'', ''WebService'', ''Worker'']"

definition in_order :: "ReplicaType list \<Rightarrow> replica_specs \<Rightarrow> bool" where
  "in_order order specs \<longleftrightarrow>
     list_all (\<lambda>(t, s). list_all (\<lambda>d. t \<in> set order \<and> Upstream d \<in> set (takeWhile (\<lambda>r. r \<noteq> t) order) \<and>
       Upstream d \<in> set (keys specs)) (DependOn s)) specs"

definition no_deps :: "replica_specs \<Rightarrow> bool" where
  "no_deps specs \<longleftrightarrow> list_all (\<lambda>(t, s). DependOn s = []) specs"

definition edges_ok :: "ReplicaType list \<Rightarrow> (ReplicaType \<times> ReplicaType) list \<Rightarrow> bool" where
  "edges_ok order edges \<longleftrightarrow> list_all (\<lambda>(t, u). t \<in> set order \<and> u \<in> set (takeWhile (\<lambda>r. r \<noteq> t) order)) edges"

lemma update_set: "set (AList.update k v specs) \<subseteq> insert (k, v) (set specs)"
  by (induction specs) auto

lemma delete_set: "set (AList.delete k specs) \<subseteq> set specs"
  by (induction specs) auto

lemma rename_no_deps: "no_deps specs \<Longrightarrow> no_deps (rename_type specs ty)"
proof -
  assume n: "no_deps specs"
  have "no_deps (AList.update ty s (AList.delete t specs))" if "map_of specs t = Some s" for t s
    using n map_of_SomeD [OF that] update_set [of ty s "AList.delete t specs"] delete_set [of t specs]
    unfolding no_deps_def list_all_iff by fastforce
  with n show ?thesis by (simp add: rename_type_def split: option.splits)
qed

lemma renames_no_deps: "no_deps specs \<Longrightarrow> no_deps (rename_types types specs)"
  unfolding rename_types_def by (induction types arbitrary: specs) (auto simp: rename_no_deps)

lemma no_deps_in_order: "no_deps specs \<Longrightarrow> in_order order specs"
  by (auto simp: in_order_def no_deps_def list_all_iff)

lemma depends_in_order:
  assumes "in_order order specs" "edges_ok order [(r, u)]"
  shows "in_order order (depends r u specs)"
proof (cases "map_of specs r = None \<or> map_of specs u = None")
  case True
  then show ?thesis using assms by (auto simp: depends_def split: option.splits)
next
  case False
  then obtain s v where s: "map_of specs r = Some s" and v: "map_of specs u = Some v" by auto
  then have "u \<in> set (keys specs)" by (force dest: map_of_SomeD)
  moreover have "depends r u specs = AList.update r (s\<lparr>DependOn := [\<lparr>Upstream = u, OnPhase = PodRunning\<rparr>]\<rparr>) specs"
    using s v by (simp add: depends_def)
  ultimately show ?thesis
    using assms depends_keys [of r u specs] update_set [of r "s\<lparr>DependOn := [\<lparr>Upstream = u, OnPhase = PodRunning\<rparr>]\<rparr>" specs]
    unfolding in_order_def edges_ok_def list_all_iff by (fastforce simp del: set_map)
qed

lemma edges_in_order: "in_order order specs \<Longrightarrow> edges_ok order edges \<Longrightarrow> in_order order (set_edges edges specs)"
proof (induction edges arbitrary: specs)
  case (Cons e edges)
  then show ?case using depends_in_order [of order specs "fst e" "snd e"] by (cases e) (auto simp: edges_ok_def)
qed simp

context spec_defaults
begin

lemma each_in_order:
  assumes e: "each_spec f specs = Inr specs'" and o: "in_order order specs"
  shows "in_order order specs'"
  using each_set [OF e] o each_keys [OF e] unfolding in_order_def list_all_iff by (fastforce simp del: set_map)

lemma first_in_order:
  assumes "each_spec f (set_edges edges (rename_types types specs)) = Inr specs'" "no_deps specs" "edges_ok order edges"
  shows "in_order order specs'"
  using each_in_order [OF assms(1)] edges_in_order [OF no_deps_in_order [OF renames_no_deps [OF assms(2)]] assms(3)] by blast

end

lemma tf_in_order:
  assumes "no_deps (tj_Specs job)" "SetDefaults_TFJob dag job = Inr job'"
  shows "in_order GetReconcileOrders_TFJob (tj_Specs job')"
proof -
  have o: "edges_ok GetReconcileOrders_TFJob (if dag then [(''Worker'', ''PS''), (''Chief'', ''PS''), (''Master'', ''PS'')] else [])"
    by (simp add: edges_ok_def GetReconcileOrders_TFJob_def)
  show ?thesis
    using assms(2) tf.first_in_order [OF _ assms(1) o]
    unfolding SetDefaults_TFJob_def setTypeNames_TFJob_def Let_def tf_edges by (auto split: sum.splits)
qed

lemma pt_in_order:
  assumes "no_deps (tj_Specs job)" "SetDefaults_PyTorchJob dag job = Inr job'"
  shows "in_order GetReconcileOrders_PyTorchJob (tj_Specs job')"
proof -
  have o: "edges_ok GetReconcileOrders_PyTorchJob (if dag then [(''Master'', JobReplicaTypeAIMaster), (''Worker'', ''Master'')] else [])"
    by (simp add: edges_ok_def GetReconcileOrders_PyTorchJob_def JobReplicaTypeAIMaster_def)
  show ?thesis
    using assms(2) pt.first_in_order [OF _ assms(1) o]
    unfolding SetDefaults_PyTorchJob_def setTypeNames_PyTorchJob_def Let_def pt_edges by (auto split: sum.splits)
qed

lemma mars_in_order:
  assumes "no_deps (tj_Specs job)" "SetDefaults_MarsJob dag job = Inr job'"
  shows "in_order GetReconcileOrders_MarsJob (tj_Specs job')"
proof -
  have o: "edges_ok GetReconcileOrders_MarsJob (if dag then [(''Worker'', ''Scheduler''), (''WebService'', ''Scheduler'')] else [])"
    by (simp add: edges_ok_def GetReconcileOrders_MarsJob_def)
  show ?thesis
    using assms(2) mars.first_in_order [OF _ assms(1) o]
    unfolding SetDefaults_MarsJob_def setTypeNames_MarsJob_def Let_def mars_edges by (auto split: sum.splits)
qed

lemma xgb_in_order:
  assumes "no_deps (tj_Specs job)" "SetDefaults_XGBoostJob dag job = Inr job'"
  shows "in_order GetReconcileOrders_XGBoostJob (tj_Specs job')"
proof -
  have t: "tj_Specs (setDefaults_XGBoostJobSpec job) = tj_Specs job" by (simp add: setDefaults_XGBoostJobSpec_def Let_def)
  obtain specs where e: "each_spec xgb_spec (rename_types [''Master'', ''Worker''] (tj_Specs job)) = Inr specs"
    and s: "tj_Specs job' = set_edges (if dag then [(''Worker'', ''Master'')] else []) specs"
    using assms(2) unfolding SetDefaults_XGBoostJob_def setTypeNames_XGBoostJob_def Let_def xgb_edges t
    by (auto split: sum.splits)
  have "in_order GetReconcileOrders_XGBoostJob specs"
    using xgb.each_in_order [OF e no_deps_in_order [OF renames_no_deps [OF assms(1)]]] .
  then show ?thesis unfolding s by (rule edges_in_order) (simp add: edges_ok_def GetReconcileOrders_XGBoostJob_def)
qed

lemma default_type_no_deps: "no_deps specs \<Longrightarrow> default_type mpi_replica r specs = Inr specs' \<Longrightarrow> no_deps specs'"
proof -
  assume n: "no_deps specs" and e: "default_type mpi_replica r specs = Inr specs'"
  show ?thesis
  proof (cases "map_of specs r")
    case None
    with n e show ?thesis by (simp add: default_type_def)
  next
    case (Some s)
    with e obtain s1 where s1: "mpi_replica s = Inr s1" "specs' = AList.update r s1 specs"
      by (auto simp: default_type_def split: sum.splits)
    have "DependOn s1 = []" using mpi.keeps_deps [OF s1(1)] n map_of_SomeD [OF Some] by (auto simp: no_deps_def list_all_iff)
    with n s1(2) update_set [of r s1 specs] show ?thesis unfolding no_deps_def list_all_iff by fastforce
  qed
qed

lemma mpi_in_order:
  assumes "no_deps (tj_Specs job)" "SetDefaults_MPIJob dag job = Inr job'"
  shows "in_order GetReconcileOrders_MPIJob (tj_Specs job')"
proof -
  note u = SetDefaults_MPIJob_def setDefaults_MPIJobLauncherReplica_def [abs_def] setDefaults_MPIJobWorkerReplica_def [abs_def]
  obtain s1 s2 where s1: "default_type mpi_replica ''Launcher'' (tj_Specs job) = Inr s1"
    and s2: "default_type mpi_replica ''Worker'' s1 = Inr s2"
    and s: "tj_Specs job' = (if dag then setDefaultMPIDAGConditions s2 else s2)"
    using assms(2) unfolding u by (auto split: sum.splits)
  have "in_order GetReconcileOrders_MPIJob s2"
    using no_deps_in_order [OF default_type_no_deps [OF default_type_no_deps [OF assms(1) s1] s2]] .
  then show ?thesis unfolding s
    using depends_in_order [of GetReconcileOrders_MPIJob s2 "''Launcher''" "''Worker''"]
    by (simp add: setDefaultMPIDAGConditions_def edges_ok_def GetReconcileOrders_MPIJob_def)
qed

text \<open>
  The dependencies that the defaults set agree with the order in which the controllers reconcile
  the types of a job: for a job without dependencies of its own, a type of the completed job depends
  only on types that the job has and that are reconciled before it, so that no cycle arises and the
  pods of an upstream type are created first.
\<close>

theorem default_dag_in_order:
  "(no_deps (tj_Specs tf) \<and> SetDefaults_TFJob dag tf = Inr tf' \<longrightarrow> in_order GetReconcileOrders_TFJob (tj_Specs tf')) \<and>
   (no_deps (tj_Specs pt) \<and> SetDefaults_PyTorchJob dag pt = Inr pt' \<longrightarrow> in_order GetReconcileOrders_PyTorchJob (tj_Specs pt')) \<and>
   (no_deps (tj_Specs xgb) \<and> SetDefaults_XGBoostJob dag xgb = Inr xgb' \<longrightarrow> in_order GetReconcileOrders_XGBoostJob (tj_Specs xgb')) \<and>
   (no_deps (tj_Specs mars) \<and> SetDefaults_MarsJob dag mars = Inr mars' \<longrightarrow> in_order GetReconcileOrders_MarsJob (tj_Specs mars')) \<and>
   (no_deps (tj_Specs mpi) \<and> SetDefaults_MPIJob dag mpi = Inr mpi' \<longrightarrow> in_order GetReconcileOrders_MPIJob (tj_Specs mpi'))"
  using tf_in_order pt_in_order xgb_in_order mars_in_order mpi_in_order by blast

text \<open>Each of the five sample jobs gets a dependency, which is in order.\<close>

theorem default_dag_in_order_witness:
  "(let tf = projr (SetDefaults_TFJob True bare_tf); pt = projr (SetDefaults_PyTorchJob True (bare_job [''master'', ''Worker'']));
        xgb = projr (SetDefaults_XGBoostJob True (bare_job [''master'', ''Worker'']));
        mars = projr (SetDefaults_MarsJob True bare_mars); mpi = projr (SetDefaults_MPIJob True bare_mpi)
    in in_order GetReconcileOrders_TFJob (tj_Specs tf) \<and> in_order GetReconcileOrders_PyTorchJob (tj_Specs pt) \<and>
       in_order GetReconcileOrders_XGBoostJob (tj_Specs xgb) \<and> in_order GetReconcileOrders_MarsJob (tj_Specs mars) \<and>
       in_order GetReconcileOrders_MPIJob (tj_Specs mpi) \<and>
       \<not> no_deps (tj_Specs tf) \<and> \<not> no_deps (tj_Specs pt) \<and> \<not> no_deps (tj_Specs xgb) \<and> \<not> no_deps (tj_Specs mars) \<and>
       \<not> no_deps (tj_Specs mpi))"
proof -
  have c: "no_deps (tj_Specs bare_tf)" "no_deps (tj_Specs (bare_job [''master'', ''Worker'']))"
    "no_deps (tj_Specs bare_mars)" "no_deps (tj_Specs bare_mpi)"
    unfolding bare_defs by code_simp+
  have r: "\<not> isl (SetDefaults_TFJob True bare_tf)" "\<not> isl (SetDefaults_PyTorchJob True (bare_job [''master'', ''Worker'']))"
    "\<not> isl (SetDefaults_XGBoostJob True (bare_job [''master'', ''Worker'']))"
    "\<not> isl (SetDefaults_MarsJob True bare_mars)" "\<not> isl (SetDefaults_MPIJob True bare_mpi)"
    unfolding bare_defs by code_simp+
  have n: "\<not> no_deps (tj_Specs (projr (SetDefaults_TFJob True bare_tf)))"
    "\<not> no_deps (tj_Specs (projr (SetDefaults_PyTorchJob True (bare_job [''master'', ''Worker'']))))"
    "\<not> no_deps (tj_Specs (projr (SetDefaults_XGBoostJob True (bare_job [''master'', ''Worker'']))))"
    "\<not> no_deps (tj_Specs (projr (SetDefaults_MarsJob True bare_mars)))"
    "\<not> no_deps (tj_Specs (projr (SetDefaults_MPIJob True bare_mpi)))"
    unfolding bare_defs by code_simp+
  note d = r [THEN completed_iff]
  show ?thesis
    using default_dag_in_order [where dag = True and tf = bare_tf and tf' = "projr (SetDefaults_TFJob True bare_tf)"
      and pt = "bare_job [''master'', ''Worker'']" and pt' = "projr (SetDefaults_PyTorchJob True (bare_job [''master'', ''Worker'']))"
      and xgb = "bare_job [''master'', ''Worker'']" and xgb' = "projr (SetDefaults_XGBoostJob True (bare_job [''master'', ''Worker'']))"
      and mars = bare_mars and mars' = "projr (SetDefaults_MarsJob True bare_mars)"
      and mpi = bare_mpi and mpi' = "projr (SetDefaults_MPIJob True bare_mpi)"]
    unfolding Let_def using c d n by simp
qed

subsection \<open>Completed replica specs\<close>

definition has_port :: "string \<Rightarrow> ReplicaSpec \<Rightarrow> bool" where
  "has_port n s \<longleftrightarrow> list_ex (\<lambda>c. list_ex (\<lambda>p. cp_Name p = n) (ct_Ports c)) (ps_Containers (pt_Spec (Template s)))"

definition spec_formed :: "string \<Rightarrow> ReplicaSpec \<Rightarrow> bool" where
  "spec_formed port s \<longleftrightarrow> Replicas s \<noteq> None \<and> RestartPolicy s \<noteq> [] \<and> fallback_done (pt_Spec (Template s)) \<and> has_port port s"

lemma add_port_has:
  assumes "add_port i n p ps = Inr ps'"
  shows "list_ex (\<lambda>c. list_ex (\<lambda>q. cp_Name q = n) (ct_Ports c)) (ps_Containers ps')"
proof -
  have "i < length (ps_Containers ps') \<and> list_ex (\<lambda>q. cp_Name q = n) (ct_Ports (ps_Containers ps' ! i))"
    using assms by (auto simp: add_port_def Let_def split: if_splits)
  then show ?thesis by (auto simp: list_ex_length)
qed

lemma with_port_formed:
  assumes "with_pod_spec (default_port c n p) (h (on_pod_spec enableFallbackToLogsOnErrorTerminationMessagePolicy s)) = Inr s'"
    and h: "replica_step h"
  shows "Replicas s' = Replicas (h s) \<and> RestartPolicy s' = RestartPolicy (h s) \<and> fallback_done (pt_Spec (Template s')) \<and> has_port n s'"
proof -
  obtain ps where ps: "default_port c n p (enableFallbackToLogsOnErrorTerminationMessagePolicy (pt_Spec (Template s))) = Inr ps"
    and s': "s' = (h s)\<lparr>Template := (Template s)\<lparr>pt_Spec := ps\<rparr>\<rparr>"
    using assms by (auto simp: replica_step_def with_pod_spec_def on_pod_spec_def split: sum.splits)
  show ?thesis
    using port_defaults.port_fallback [OF default_port_lawful fallback_done ps] add_port_has ps
    by (auto simp: s' has_port_def default_port_def)
qed

lemma dag_no_panic: "replicas_set specs \<Longrightarrow> \<not> isl (dagConditionsReady specs pods conds)"
proof -
  assume r: "replicas_set specs"
  have "\<not> isl (dag_loop m specs cs)" for m cs
  proof (induction cs)
    case (Cons c cs)
    have "\<not> isl (upstreamReplicasReady m specs c)"
    proof (cases "map_of specs (Upstream c)")
      case (Some s)
      with replicas_set_lookup [OF r] obtain n where "Replicas s = Some n" by blast
      with Some show ?thesis by (simp add: upstreamReplicasReady_def Let_def)
    qed (simp add: upstreamReplicasReady_def)
    with Cons show ?case by (auto split: sum.splits bool.splits)
  qed simp
  then show ?thesis by (simp add: dagConditionsReady_def)
qed

lemma tf_formed: "SetDefaults_TFJob dag job = Inr job' \<Longrightarrow> (t, s') \<in> set (tj_Specs job') \<Longrightarrow> spec_formed ''tfjob-port'' s'"
proof -
  assume a: "SetDefaults_TFJob dag job = Inr job'" "(t, s') \<in> set (tj_Specs job')"
  then obtain specs where "each_spec tf_spec specs = Inr (tj_Specs job')"
    by (auto simp: SetDefaults_TFJob_def Let_def split: sum.splits)
  from tf.each_set [OF this a(2)] obtain s where "tf_spec t s = Inr s'" by blast
  then show ?thesis
    using with_port_formed [of _ _ _ "\<lambda>s. default_restart RestartPolicyExitCode (default_replicas s)" s s']
      replica_step_both [of RestartPolicyExitCode]
    by (auto simp: tf_spec_def setDefaults_TFJobPort_def [abs_def] setDefaults_TFJobReplicas_def spec_formed_def
        default_restart_def default_replicas_def RestartPolicyExitCode_def)
qed

lemma xdl_formed: "SetDefaults_XDLJob job = Inr job' \<Longrightarrow> (t, s') \<in> set (tj_Specs job') \<Longrightarrow> spec_formed ''xdljob-port'' s'"
proof -
  assume a: "SetDefaults_XDLJob job = Inr job'" "(t, s') \<in> set (tj_Specs job')"
  then obtain specs where "each_spec xdl_spec specs = Inr (tj_Specs job')"
    by (auto simp: SetDefaults_XDLJob_def Let_def split: sum.splits)
  from xdl.each_set [OF this a(2)] obtain s where "xdl_spec t s = Inr s'" by blast
  then show ?thesis
    using with_port_formed [of _ _ _ "\<lambda>s. default_restart RestartPolicyNever (default_replicas s)" s s']
      replica_step_both [of RestartPolicyNever]
    by (auto simp: xdl_spec_def setDefaults_XDLJobPort_def [abs_def] setDefaults_XDLJobReplicas_def spec_formed_def
        default_restart_def default_replicas_def RestartPolicyNever_def)
qed

text \<open>If a container has a certain name, then one of this name has the port.\<close>

definition named_has_port :: "string \<Rightarrow> string \<Rightarrow> pod_spec \<Rightarrow> bool" where
  "named_has_port n port ps \<longleftrightarrow>
     (list_ex (\<lambda>c. ct_Name c = n) (ps_Containers ps) \<longrightarrow>
      list_ex (\<lambda>c. ct_Name c = n \<and> list_ex (\<lambda>p. cp_Name p = port) (ct_Ports c)) (ps_Containers ps))"

lemma setDefaults_PyTorchJobPort_has:
  assumes "setDefaults_PyTorchJobPort ps = Inr ps'"
  shows "named_has_port ''pytorch'' ''pytorchjob-port'' ps'"
proof (cases "named_container (ps_Containers ps) ''pytorch''")
  case None
  then have "\<not> list_ex (\<lambda>c. ct_Name c = ''pytorch'') (ps_Containers ps)"
    by (auto simp: named_container_def find_None_iff list_ex_length)
  then show ?thesis using None assms by (auto simp: setDefaults_PyTorchJobPort_def named_has_port_def)
next
  case (Some i)
  then have i: "i < length (ps_Containers ps)" "ct_Name (ps_Containers ps ! i) = ''pytorch''"
    by (auto simp: named_container_def find_Some_iff)
  have "add_port i ''pytorchjob-port'' 23456 ps = Inr ps'"
    using Some assms by (simp add: setDefaults_PyTorchJobPort_def)
  then have "i < length (ps_Containers ps') \<and> ct_Name (ps_Containers ps' ! i) = ''pytorch'' \<and>
      list_ex (\<lambda>q. cp_Name q = ''pytorchjob-port'') (ct_Ports (ps_Containers ps' ! i))"
    using i by (auto simp: add_port_def Let_def split: if_splits)
  then show ?thesis by (auto simp: named_has_port_def list_ex_length)
qed

lemma named_has_port_fallback:
  "named_has_port n port ps \<Longrightarrow> named_has_port n port (enableFallbackToLogsOnErrorTerminationMessagePolicy ps)"
proof -
  have "ct_Name (if b then c\<lparr>ct_TerminationMessagePolicy := x\<rparr> else c) = ct_Name c"
    "ct_Ports (if b then c\<lparr>ct_TerminationMessagePolicy := x\<rparr> else c) = ct_Ports c" for b c x by simp_all
  then show "named_has_port n port ps \<Longrightarrow> named_has_port n port (enableFallbackToLogsOnErrorTerminationMessagePolicy ps)"
    by (simp add: named_has_port_def enableFallbackToLogsOnErrorTerminationMessagePolicy_def list_ex_length cong: conj_cong)
qed

lemma pt_formed:
  assumes "SetDefaults_PyTorchJob dag job = Inr job'" "(t, s') \<in> set (tj_Specs job')"
  shows "t = ''Master'' \<Longrightarrow> named_has_port ''pytorch'' ''pytorchjob-port'' (pt_Spec (Template s'))"
    "fallback_done (pt_Spec (Template s'))" "t \<in> {''Master'', ''Worker''} \<Longrightarrow> Replicas s' \<noteq> None \<and> RestartPolicy s' \<noteq> []"
proof -
  from assms(1) obtain specs where "each_spec pt_spec specs = Inr (tj_Specs job')"
    by (auto simp: SetDefaults_PyTorchJob_def Let_def split: sum.splits)
  from pt.each_set [OF this assms(2)] obtain s where "pt_spec t s = Inr s'" by blast
  then obtain s1 where s1: "with_pod_spec (if t = ''Master'' then setDefaults_PyTorchJobPort else Inr) s = Inr s1"
    and s': "s' = pt_step t (on_pod_spec enableFallbackToLogsOnErrorTerminationMessagePolicy s1)"
    unfolding pt_spec_form by (cases "with_pod_spec (if t = ''Master'' then setDefaults_PyTorchJobPort else Inr) s") auto
  have "Template s' = Template (on_pod_spec enableFallbackToLogsOnErrorTerminationMessagePolicy s1)"
    using pt_step_lawful [of t] by (simp add: s' replica_step_def)
  then have tm: "pt_Spec (Template s') = enableFallbackToLogsOnErrorTerminationMessagePolicy (pt_Spec (Template s1))"
    by (simp add: on_pod_spec_def)
  then show "fallback_done (pt_Spec (Template s'))" by simp
  show "named_has_port ''pytorch'' ''pytorchjob-port'' (pt_Spec (Template s'))" if "t = ''Master''"
  proof -
    from that s1 have "setDefaults_PyTorchJobPort (pt_Spec (Template s)) = Inr (pt_Spec (Template s1))"
      by (auto simp: with_pod_spec_def split: sum.splits)
    then show ?thesis unfolding tm by (intro named_has_port_fallback setDefaults_PyTorchJobPort_has)
  qed
  show "Replicas s' \<noteq> None \<and> RestartPolicy s' \<noteq> []" if "t \<in> {''Master'', ''Worker''}"
    using that by (auto simp: s' pt_step_def setDefaults_PyTorchJobWorkerReplicas_def setDefaults_PyTorchJobMasterReplicas_def
        default_restart_def default_replicas_def RestartPolicyOnFailure_def RestartPolicyExitCode_def)
qed

text \<open>
  C27. What a completed job object guarantees to the rest of the reconciler. Every replica spec of a
  completed TensorFlow or XDL job has a number of replicas, a restart policy, a message policy for
  every container and a container with the port of the workload; hence the check of the dependencies
  never dereferences a missing number of replicas. In a completed PyTorch job every spec has the message
  policies, the master and the worker have a number of replicas and a restart policy, and the port
  of the workload is there for the master only, if one of its containers has the name of the framework.
  A spec of any other type, such as the AI master, keeps a missing number of replicas, so that the
  check is safe for jobs without such types.
\<close>

theorem completed_specs_formed:
  "(SetDefaults_TFJob dag tf = Inr tf' \<longrightarrow>
      list_all (\<lambda>(t, s). spec_formed ''tfjob-port'' s) (tj_Specs tf') \<and> \<not> isl (dagConditionsReady (tj_Specs tf') pods conds)) \<and>
   (SetDefaults_XDLJob xdl = Inr xdl' \<longrightarrow>
      list_all (\<lambda>(t, s). spec_formed ''xdljob-port'' s) (tj_Specs xdl') \<and> \<not> isl (dagConditionsReady (tj_Specs xdl') pods conds)) \<and>
   (SetDefaults_PyTorchJob dag pt = Inr pt' \<longrightarrow>
      list_all (\<lambda>(t, s). fallback_done (pt_Spec (Template s)) \<and>
        (t \<in> {''Master'', ''Worker''} \<longrightarrow> Replicas s \<noteq> None \<and> RestartPolicy s \<noteq> []) \<and>
        (t = ''Master'' \<longrightarrow> named_has_port ''pytorch'' ''pytorchjob-port'' (pt_Spec (Template s)))) (tj_Specs pt') \<and>
      (set (keys (tj_Specs pt')) \<subseteq> {''Master'', ''Worker''} \<longrightarrow> \<not> isl (dagConditionsReady (tj_Specs pt') pods conds)))"
proof (intro conjI impI)
  assume a: "SetDefaults_TFJob dag tf = Inr tf'"
  show f: "list_all (\<lambda>(t, s). spec_formed ''tfjob-port'' s) (tj_Specs tf')"
    using tf_formed [OF a] by (auto simp: list_all_iff)
  then have "replicas_set (tj_Specs tf')" by (auto simp: replicas_set_def list_all_iff spec_formed_def)
  then show "\<not> isl (dagConditionsReady (tj_Specs tf') pods conds)" by (rule dag_no_panic)
next
  assume a: "SetDefaults_XDLJob xdl = Inr xdl'"
  show f: "list_all (\<lambda>(t, s). spec_formed ''xdljob-port'' s) (tj_Specs xdl')"
    using xdl_formed [OF a] by (auto simp: list_all_iff)
  then have "replicas_set (tj_Specs xdl')" by (auto simp: replicas_set_def list_all_iff spec_formed_def)
  then show "\<not> isl (dagConditionsReady (tj_Specs xdl') pods conds)" by (rule dag_no_panic)
next
  assume a: "SetDefaults_PyTorchJob dag pt = Inr pt'"
  show f: "list_all (\<lambda>(t, s). fallback_done (pt_Spec (Template s)) \<and>
        (t \<in> {''Master'', ''Worker''} \<longrightarrow> Replicas s \<noteq> None \<and> RestartPolicy s \<noteq> []) \<and>
        (t = ''Master'' \<longrightarrow> named_has_port ''pytorch'' ''pytorchjob-port'' (pt_Spec (Template s)))) (tj_Specs pt')"
    using pt_formed [OF a] by (auto simp: list_all_iff)
  assume "set (keys (tj_Specs pt')) \<subseteq> {''Master'', ''Worker''}"
  with f have "replicas_set (tj_Specs pt')" unfolding replicas_set_def list_all_iff by fastforce
  then show "\<not> isl (dagConditionsReady (tj_Specs pt') pods conds)" by (rule dag_no_panic)
qed

text \<open>The sample jobs: nothing is set in their specs before.\<close>

theorem completed_specs_formed_witness:
  "(let tf = projr (SetDefaults_TFJob True bare_tf); xdl = projr (SetDefaults_XDLJob bare_xdl);
        pt = projr (SetDefaults_PyTorchJob True (bare_job [''master'', ''Worker'']))
    in list_all (\<lambda>(t, s). spec_formed ''tfjob-port'' s) (tj_Specs tf) \<and>
       list_all (\<lambda>(t, s). spec_formed ''xdljob-port'' s) (tj_Specs xdl) \<and>
       \<not> isl (dagConditionsReady (tj_Specs pt) [] [\<lparr>Upstream = ''Master'', OnPhase = PodRunning\<rparr>]))"
proof -
  have r: "\<not> isl (SetDefaults_TFJob True bare_tf)" "\<not> isl (SetDefaults_XDLJob bare_xdl)"
    "\<not> isl (SetDefaults_PyTorchJob True (bare_job [''master'', ''Worker'']))"
    unfolding bare_defs by code_simp+
  have k: "keys (tj_Specs (projr (SetDefaults_PyTorchJob True (bare_job [''master'', ''Worker''])))) = [''Worker'', ''Master'']"
    unfolding bare_defs by code_simp
  note d = r [THEN completed_iff]
  show ?thesis
    using completed_specs_formed [where dag = True and tf = bare_tf and tf' = "projr (SetDefaults_TFJob True bare_tf)"
      and xdl = bare_xdl and xdl' = "projr (SetDefaults_XDLJob bare_xdl)"
      and pt = "bare_job [''master'', ''Worker'']" and pt' = "projr (SetDefaults_PyTorchJob True (bare_job [''master'', ''Worker'']))"
      and pods = "[]" and conds = "[\<lparr>Upstream = ''Master'', OnPhase = PodRunning\<rparr>]"]
    unfolding Let_def k using d by simp
qed

end
