(* ===== verification/Cluster_Specs.thy ===== *)
theory Cluster_Specs
  imports Elastic_Scale Resource_Utils
begin

text \<open>
  How a replica learns about its peers: the environment that the TensorFlow, PyTorch, XGBoost and XDL
  controllers put into the pods (\<open>controllers/tensorflow/tensorflow.go\<close>, \<open>tfjob_controller.go\<close>,
  \<open>controllers/pytorch/pytorchjob_controller.go\<close>, \<open>elastic_scale.go\<close>, \<open>controllers/xgboost/pod.go\<close>,
  \<open>controllers/xdl/xdl.go\<close>, \<open>xdljob_controller.go\<close>). The encoding of the configurations as JSON, the
  rendering of the init container from YAML and the environment of the process are parameters.
\<close>

subsection \<open>Numbers with a base prefix\<close>

text \<open>
  \<open>strconv.ParseInt(s, 0, 32)\<close>: an optional sign, a base prefix, digits with underscores between
  them, and a value in the range of \<open>int32\<close>.
\<close>

definition letter_val :: "char \<Rightarrow> nat option" where
  "letter_val c =
     (case digit_val c of
        Some d \<Rightarrow> Some d
      | None \<Rightarrow>
          (let n = (of_char (lower_char c) :: nat) in if 97 \<le> n \<and> n \<le> 122 then Some (n - 87) else None))"

fun parse_base :: "nat \<Rightarrow> nat \<Rightarrow> string \<Rightarrow> nat option" where
  "parse_base b acc [] = Some acc"
| "parse_base b acc (c # cs) =
     (if c = CHR ''_'' then parse_base b acc cs
      else case letter_val c of
             None \<Rightarrow> None
           | Some d \<Rightarrow> if d < b then parse_base b (acc * b + d) cs else None)"

definition split_base :: "string \<Rightarrow> nat \<times> string" where
  "split_base s =
     (case s of
        CHR ''0'' # c # r # rs \<Rightarrow>
          (if lower_char c = CHR ''b'' then (2, r # rs)
           else if lower_char c = CHR ''o'' then (8, r # rs)
           else if lower_char c = CHR ''x'' then (16, r # rs)
           else (8, c # r # rs))
      | CHR ''0'' # rs \<Rightarrow> (8, rs)
      | _ \<Rightarrow> (10, s))"

text \<open>The state of \<open>underscoreOK\<close> is the class of the last character.\<close>

datatype seen = SeenStart | SeenDigit | SeenUnderscore | SeenOther

fun underscore_loop :: "bool \<Rightarrow> seen \<Rightarrow> string \<Rightarrow> bool" where
  "underscore_loop hex i [] = (i \<noteq> SeenUnderscore)"
| "underscore_loop hex i (c # cs) =
     (if digit_val c \<noteq> None \<or>
         (hex \<and> 97 \<le> (of_char (lower_char c) :: nat) \<and> (of_char (lower_char c) :: nat) \<le> 102)
      then underscore_loop hex SeenDigit cs
      else if c = CHR ''_'' then (if i = SeenDigit then underscore_loop hex SeenUnderscore cs else False)
      else if i = SeenUnderscore then False
      else underscore_loop hex SeenOther cs)"

definition underscoreOK :: "string \<Rightarrow> bool" where
  "underscoreOK s =
     (case s of
        CHR ''0'' # c # rs \<Rightarrow>
          (if lower_char c \<in> {CHR ''b'', CHR ''o'', CHR ''x''}
           then underscore_loop (lower_char c = CHR ''x'') SeenDigit rs
           else underscore_loop False SeenStart s)
      | _ \<Rightarrow> underscore_loop False SeenStart s)"

definition ParseUint0 :: "string \<Rightarrow> nat option" where
  "ParseUint0 s =
     (if s = [] then None
      else case split_base s of
             (b, digits) \<Rightarrow>
               (case parse_base b 0 digits of
                  None \<Rightarrow> None
                | Some n \<Rightarrow> if CHR ''_'' \<in> set digits \<and> \<not> underscoreOK s then None else Some n))"

definition check32 :: "int \<Rightarrow> int option" where
  "check32 x = (if in32 x then Some x else None)"

definition ParseInt0 :: "string \<Rightarrow> int option" where
  "ParseInt0 s =
     (case s of
        [] \<Rightarrow> None
      | c # cs \<Rightarrow>
          (if c = CHR ''-'' then Option.bind (ParseUint0 cs) (\<lambda>n. check32 (- int n))
           else if c = CHR ''+'' then Option.bind (ParseUint0 cs) (\<lambda>n. check32 (int n))
           else Option.bind (ParseUint0 s) (\<lambda>n. check32 (int n))))"

subsection \<open>Data\<close>

type_synonym ClusterSpec = "(string \<times> string list) list"

record TaskSpec =
  ts_Type :: string
  ts_Index :: int

record XDLConfig =
  xc_Cluster :: ClusterSpec
  xc_Task :: TaskSpec

record TFConfig = XDLConfig +
  tc_Environment :: string

record cluster_env =
  ce_ClusterDomain :: string
  ce_marshal_tf :: "TFConfig \<Rightarrow> go_error + string"
  ce_marshal_xdl :: "XDLConfig \<Rightarrow> go_error + string"
  ce_render_waiter :: "string \<Rightarrow> string \<Rightarrow> go_error + container list"

definition append_env :: "(string \<times> env_value) list \<Rightarrow> container \<Rightarrow> container" where
  "append_env es c = c\<lparr>ct_Env := ct_Env c @ es\<rparr>"

definition on_containers :: "(container list \<Rightarrow> container list) \<Rightarrow> pod_template \<Rightarrow> pod_template" where
  "on_containers f t = t\<lparr>pt_Spec := (pt_Spec t)\<lparr>ps_Containers := f (ps_Containers (pt_Spec t))\<rparr>\<rparr>"

fun on_first :: "(container \<Rightarrow> bool) \<Rightarrow> (container \<Rightarrow> container) \<Rightarrow> container list \<Rightarrow> container list" where
  "on_first p f [] = []"
| "on_first p f (c # cs) = (if p c then f c # cs else c # on_first p f cs)"

text \<open>\<open>make([]string, 0, n)\<close> panics for a negative capacity.\<close>

definition replicas_of :: "ReplicaSpec \<Rightarrow> go_error + nat" where
  "replicas_of spec =
     (case Replicas spec of
        None \<Rightarrow> Inl (Panic ''nil Replicas'')
      | Some n \<Rightarrow> if n < 0 then Inl (Panic ''makeslice: cap out of range'') else Inr (nat n))"

subsection \<open>TensorFlow\<close>

definition tf_endpoint ::
    "cluster_env \<Rightarrow> host_ports \<Rightarrow> job_meta \<Rightarrow> string \<Rightarrow> string \<Rightarrow> string \<Rightarrow> int \<Rightarrow> int \<Rightarrow> string" where
  "tf_endpoint E ctx job selfType selfIndex rt port i =
     (let hostName = GenGeneralName (jm_Name job) rt (Itoa i);
          svcName = hostName @ ''.'' @ jm_Namespace job @ ''.svc'';
          svcName1 = (if ce_ClusterDomain E = [] then svcName else svcName @ ''.'' @ ce_ClusterDomain E);
          selfPort = (if EnableHostNetwork job \<and> rt = selfType \<and> Itoa i = selfIndex
                      then (case GetHostNetworkPortFromContext ctx selfType selfIndex of None \<Rightarrow> port | Some p \<Rightarrow> p)
                      else port)
      in svcName1 @ '':'' @ Itoa selfPort)"

fun tf_cluster_loop ::
    "cluster_env \<Rightarrow> host_ports \<Rightarrow> job_meta \<Rightarrow> replica_specs \<Rightarrow> string \<Rightarrow> string \<Rightarrow> replica_specs \<Rightarrow> ClusterSpec \<Rightarrow>
     go_error + ClusterSpec" where
  "tf_cluster_loop E ctx job specs selfType selfIndex [] acc = Inr acc"
| "tf_cluster_loop E ctx job specs selfType selfIndex ((rtype, spec) # rest) acc =
     (if rtype = ''Evaluator'' then tf_cluster_loop E ctx job specs selfType selfIndex rest acc
      else case replicas_of spec of
             Inl e \<Rightarrow> Inl e
           | Inr n \<Rightarrow>
               (case GetPortFromSpecs specs rtype ''tensorflow'' ''tfjob-port'' of
                  Inl e \<Rightarrow> Inl e
                | Inr port \<Rightarrow>
                    (let rt = ToLower rtype;
                         names = map (\<lambda>i. tf_endpoint E ctx job selfType selfIndex rt port (int i)) [0..<n]
                     in tf_cluster_loop E ctx job specs selfType selfIndex rest (AList.update rt names acc))))"

definition tf_genClusterSpec ::
    "cluster_env \<Rightarrow> host_ports \<Rightarrow> job_meta \<Rightarrow> replica_specs \<Rightarrow> string \<Rightarrow> string \<Rightarrow> go_error + ClusterSpec" where
  "tf_genClusterSpec E ctx job specs selfType selfIndex =
     tf_cluster_loop E ctx job specs selfType selfIndex specs []"

definition genTFConfigJSONStr ::
    "cluster_env \<Rightarrow> host_ports \<Rightarrow> job_meta \<Rightarrow> replica_specs \<Rightarrow> string \<Rightarrow> string \<Rightarrow> go_error + string" where
  "genTFConfigJSONStr E ctx job specs rtype index =
     (case ParseInt0 index of
        None \<Rightarrow> Inl (Err ''ParseInt'')
      | Some i \<Rightarrow>
          (case tf_genClusterSpec E ctx job specs rtype index of
             Inl e \<Rightarrow> Inl e
           | Inr cluster \<Rightarrow>
               ce_marshal_tf E \<lparr>xc_Cluster = cluster, xc_Task = \<lparr>ts_Type = rtype, ts_Index = i\<rparr>, tc_Environment = ''cloud''\<rparr>))"

text \<open>The counter is an \<open>int\<close>; a type without a number of replicas counts once.\<close>

definition isDistributed :: "replica_specs \<Rightarrow> bool" where
  "isDistributed specs =
     (foldl (\<lambda>acc ty. case map_of specs ty of
                         None \<Rightarrow> acc
                       | Some s \<Rightarrow> (case Replicas s of None \<Rightarrow> i64 (acc + 1) | Some n \<Rightarrow> i64 (acc + n)))
        0 [''Chief'', ''Evaluator'', ''Master'', ''PS'', ''Worker''] \<noteq> 1)"

definition tf_SetClusterSpec ::
    "cluster_env \<Rightarrow> replica_specs \<Rightarrow> host_ports \<Rightarrow> job_meta \<Rightarrow> pod_template \<Rightarrow> string \<Rightarrow> string \<Rightarrow> go_error + pod_template" where
  "tf_SetClusterSpec E specs ctx job t rt index =
     (if \<not> isDistributed specs then Inr t
      else case genTFConfigJSONStr E ctx job specs rt index of
             Inl e \<Rightarrow> Inl e
           | Inr cfg \<Rightarrow>
               if cfg = [] then Inr t
               else Inr (on_containers
                 (on_first (\<lambda>c. ct_Name c = ''tensorflow'') (append_env [(''TF_CONFIG'', EnvValue cfg)])) t))"

subsection \<open>PyTorch\<close>

definition AddMasterWaiterForWorker :: "cluster_env \<Rightarrow> pod_template \<Rightarrow> string \<Rightarrow> string \<Rightarrow> go_error + pod_template" where
  "AddMasterWaiterForWorker E t masterAddr img =
     (case ce_render_waiter E masterAddr img of
        Inl e \<Rightarrow> Inl e
      | Inr cs \<Rightarrow> Inr (t\<lparr>pt_Spec := (pt_Spec t)\<lparr>ps_InitContainers := ps_InitContainers (pt_Spec t) @ cs\<rparr>\<rparr>))"

definition warmup_container :: "container \<Rightarrow> container" where
  "warmup_container c =
     \<lparr>ct_Name = ''warmup'', ct_Ports = [],
      ct_Env = (if map_of (ct_Requests c) ResourceNvidiaGPU \<noteq> None
                then [(''NVIDIA_VISIBLE_DEVICES'', EnvValue []), (''NVIDIA_DRIVER_CAPABILITIES'', EnvValue ''all'')] else []),
      ct_VolumeMounts = [], ct_Requests = ct_Requests c, ct_Limits = ct_Limits c, ct_Image = ct_Image c,
      ct_Command = [''echo'', ''I do nothing but warmup image of main container''], ct_Args = [], ct_WorkingDir = [],
      ct_ImagePullPolicy = [], ct_TerminationMessagePolicy = []\<rparr>"

definition AddImageWarmupForWorker :: "pod_template \<Rightarrow> string \<Rightarrow> pod_template" where
  "AddImageWarmupForWorker t mainContainerName =
     (case find (\<lambda>c. ct_Name c = mainContainerName) (ps_Containers (pt_Spec t)) of
        None \<Rightarrow> t
      | Some c \<Rightarrow>
          if ct_Image c = [] then t
          else t\<lparr>pt_Spec := (pt_Spec t)\<lparr>ps_InitContainers := ps_InitContainers (pt_Spec t) @ [warmup_container c]\<rparr>\<rparr>)"

definition pt_master_port :: "config \<Rightarrow> host_ports \<Rightarrow> job_meta \<Rightarrow> bool \<Rightarrow> int \<Rightarrow> int" where
  "pt_master_port cfg ctx job masterRole port =
     (case GetHostNetworkPortFromContext ctx ''master'' ''0'' of
        Some p \<Rightarrow> if EnableHostNetwork job \<and> (masterRole \<or> gate_HostNetWithHeadlessSvc cfg) then p else port
      | None \<Rightarrow> port)"

definition pt_master_addr :: "config \<Rightarrow> job_meta \<Rightarrow> bool \<Rightarrow> string" where
  "pt_master_addr cfg job masterRole =
     (if masterRole \<and> gate_PyTorchLocalMasterAddr cfg then ''localhost''
      else GenGeneralName (jm_Name job) ''master'' (Itoa 0))"

text \<open>The environment of one container; the world size is read from an annotation in an elastic job.\<close>

definition pt_env :: "bool \<Rightarrow> int \<Rightarrow> string \<Rightarrow> int \<Rightarrow> int \<Rightarrow> (string \<times> env_value) list" where
  "pt_env elastic masterPort masterAddr rank totalReplicas =
     [(''MASTER_PORT'', EnvValue (Itoa masterPort)), (''MASTER_ADDR'', EnvValue masterAddr), (''RANK'', EnvValue (Itoa rank)),
      (''PYTHONUNBUFFERED'', EnvValue ''0''),
      (''WORLD_SIZE'', if elastic then EnvFieldRef (''metadata.annotations['' @ [CHR 0x27] @ AnnotationWorldSize @ [CHR 0x27] @ '']'')
                       else EnvValue (Itoa totalReplicas))]"

definition pt_elastic_template :: "int \<Rightarrow> pod_template \<Rightarrow> pod_template" where
  "pt_elastic_template totalReplicas t =
     t\<lparr>pt_Annotations := (pt_Annotations t)(AnnotationWorldSize \<mapsto> Itoa totalReplicas),
       pt_Spec := (pt_Spec t)\<lparr>ps_RestartPolicy := RestartPolicyOnFailure\<rparr>\<rparr>"

definition pt_init_containers :: "cluster_env \<Rightarrow> bool \<Rightarrow> string \<Rightarrow> pod_template \<Rightarrow> go_error + pod_template" where
  "pt_init_containers E worker masterAddr t =
     (if worker then AddMasterWaiterForWorker E (AddImageWarmupForWorker t ''pytorch'') masterAddr ''docker.io/alpine:3.10''
      else Inr t)"

definition pt_SetClusterSpec ::
    "config \<Rightarrow> cluster_env \<Rightarrow> replica_specs \<Rightarrow> host_ports \<Rightarrow> job_meta \<Rightarrow> pod_template \<Rightarrow> string \<Rightarrow> string \<Rightarrow>
     go_error + pod_template" where
  "pt_SetClusterSpec cfg E specs ctx job t rtype index =
     (case Atoi index of
        None \<Rightarrow> Inl (Err ''Atoi'')
      | Some rank0 \<Rightarrow>
     (case GetPortFromSpecs specs ''Master'' ''pytorch'' ''pytorchjob-port'' of
        Inl e \<Rightarrow> Inl e
      | Inr port \<Rightarrow>
          (let masterRole = (rtype = ''master''); masterPort = pt_master_port cfg ctx job masterRole port in
           if masterRole \<and> rank0 \<noteq> 0 then Inl (Err ''invalid config: There should be only a single master with index=0'')
           else
             let masterAddr = pt_master_addr cfg job masterRole;
                 rank = (if masterRole then rank0 else i64 (rank0 + 1));
                 t1 = (if EnableErrorMonitoring job then t\<lparr>pt_Finalizers := pt_Finalizers t @ [FinalizerPreemptProtector]\<rparr> else t)
             in case GetTotalExcludedReplicas specs [JobReplicaTypeAIMaster] of
                  Inl e \<Rightarrow> Inl e
                | Inr totalReplicas \<Rightarrow>
                    (let elastic = (sget (jm_Annotations job) AnnotationEnableElasticTraining = ''true'');
                         scaled = (elastic \<and> rtype \<noteq> ''aimaster'')
                     in case pt_init_containers E (scaled \<and> \<not> masterRole) masterAddr t1 of
                          Inl e \<Rightarrow> Inl e
                        | Inr t2 \<Rightarrow>
                            (let t3 = on_containers (map (append_env (pt_env scaled masterPort masterAddr rank totalReplicas))) t2
                             in Inr (if scaled \<and> ps_Containers (pt_Spec t2) \<noteq> [] then pt_elastic_template totalReplicas t3 else t3))))))"

subsection \<open>XGBoost\<close>

definition SetPodEnv :: "replica_specs \<Rightarrow> job_meta \<Rightarrow> pod_template \<Rightarrow> string \<Rightarrow> go_error + pod_template" where
  "SetPodEnv specs job t index =
     (case Atoi index of
        None \<Rightarrow> Inl (Err ''Atoi'')
      | Some rank \<Rightarrow>
          (case GetPortFromSpecs specs ''Master'' ''xgboostjob'' ''xgboostjob-port'' of
             Inl e \<Rightarrow> Inl e
           | Inr masterPort \<Rightarrow>
               (case GetTotalReplicas specs of
                  Inl e \<Rightarrow> Inl e
                | Inr totalReplicas \<Rightarrow>
                    Inr (on_containers (map (append_env
                      [(''MASTER_PORT'', EnvValue (Itoa masterPort)),
                       (''MASTER_ADDR'', EnvValue (GenGeneralName (jm_Name job) ''master'' (Itoa 0))),
                       (''WORLD_SIZE'', EnvValue (Itoa totalReplicas)), (''RANK'', EnvValue (Itoa rank)),
                       (''PYTHONUNBUFFERED'', EnvValue ''0'')])) t))))"

definition xgb_SetClusterSpec ::
    "replica_specs \<Rightarrow> job_meta \<Rightarrow> pod_template \<Rightarrow> string \<Rightarrow> string \<Rightarrow> go_error + pod_template" where
  "xgb_SetClusterSpec specs job t rtype index = SetPodEnv specs job t index"

subsection \<open>XDL\<close>

fun xdl_cluster_loop :: "job_meta \<Rightarrow> replica_specs \<Rightarrow> replica_specs \<Rightarrow> ClusterSpec \<Rightarrow> go_error + ClusterSpec" where
  "xdl_cluster_loop job specs [] acc = Inr acc"
| "xdl_cluster_loop job specs ((rtype, spec) # rest) acc =
     (case replicas_of spec of
        Inl e \<Rightarrow> Inl e
      | Inr n \<Rightarrow>
          (case GetPortFromSpecs specs rtype ''xdl'' ''xdljob-port'' of
             Inl e \<Rightarrow> Inl e
           | Inr port \<Rightarrow>
               (let rt = ToLower rtype;
                    names = map (\<lambda>i. GenGeneralName (jm_Name job) rt (Itoa (int i)) @ '':'' @ Itoa port) [0..<n]
                in xdl_cluster_loop job specs rest (AList.update rt names acc))))"

definition xdl_genClusterSpec :: "job_meta \<Rightarrow> replica_specs \<Rightarrow> go_error + ClusterSpec" where
  "xdl_genClusterSpec job specs = xdl_cluster_loop job specs specs []"

definition genXDLConfigJSON :: "cluster_env \<Rightarrow> job_meta \<Rightarrow> replica_specs \<Rightarrow> string \<Rightarrow> string \<Rightarrow> go_error + string" where
  "genXDLConfigJSON E job specs rtype index =
     (case ParseInt0 index of
        None \<Rightarrow> Inl (Err ''ParseInt'')
      | Some i \<Rightarrow>
          (case xdl_genClusterSpec job specs of
             Inl e \<Rightarrow> Inl e
           | Inr cluster \<Rightarrow> ce_marshal_xdl E \<lparr>xc_Cluster = cluster, xc_Task = \<lparr>ts_Type = rtype, ts_Index = i\<rparr>\<rparr>))"

definition zk_suffix :: "string \<Rightarrow> string \<Rightarrow> string" where
  "zk_suffix uid v = (if v \<noteq> [] \<and> last v = CHR ''/'' then v @ uid else v @ ''/'' @ uid)"

fun zk_addr :: "string \<Rightarrow> string \<times> env_value \<Rightarrow> string \<times> env_value" where
  "zk_addr uid (n, EnvValue v) = (n, EnvValue (if n = ''ZK_ADDR'' then zk_suffix uid v else v))"
| "zk_addr uid (n, EnvFieldRef p) = (n, if n = ''ZK_ADDR'' then EnvValueAndRef (zk_suffix uid []) p else EnvFieldRef p)"
| "zk_addr uid (n, EnvValueAndRef v p) = (n, EnvValueAndRef (if n = ''ZK_ADDR'' then zk_suffix uid v else v) p)"

definition xdl_SetClusterSpec ::
    "cluster_env \<Rightarrow> replica_specs \<Rightarrow> job_meta \<Rightarrow> pod_template \<Rightarrow> string \<Rightarrow> string \<Rightarrow> go_error + pod_template" where
  "xdl_SetClusterSpec E specs job t rtype index =
     (case genXDLConfigJSON E job specs rtype index of
        Inl e \<Rightarrow> Inl e
      | Inr cfg \<Rightarrow>
          if cfg = [] then Inr t
          else Inr (on_containers (map (\<lambda>c.
            append_env ([(''TASK_NAME'', EnvValue (ToLower rtype)), (''TASK_INDEX'', EnvValue index)] @
                        (if ct_Name c = ''xdl'' then [(''XDL_CONFIG'', EnvValue cfg)] else []))
              (c\<lparr>ct_Env := map (zk_addr (jm_UID job)) (ct_Env c)\<rparr>))) t))"

end
