(* ===== verification/Mpi_Job.thy ===== *)
theory Mpi_Job
  imports Job_Defaults Cluster_Specs
begin

text \<open>
  What is particular about MPI jobs: the conversion of the deprecated fields
  (\<open>controllers/mpi/legacy.go\<close>), the config map with the host file and the script that reaches the
  workers (\<open>mpi_config.go\<close>), and the set-up of workers and launcher (\<open>mpijob_controller.go\<close>). The
  conversion of a quantity to a number and the command line flags are parameters.
\<close>

unbundle bit_operations_syntax

record mpi_env =
  me_AsInt64 :: "quantity \<Rightarrow> int"
  me_MustParse :: "string \<Rightarrow> quantity"
  me_kubectlDeliveryImage :: string
  me_launcherRunsWorkload :: bool

subsection \<open>Legacy fields\<close>

text \<open>
  The operator \<open>&\<close> is the bitwise conjunction. Division by zero panics.
\<close>

definition units_per_worker :: "int \<Rightarrow> int \<Rightarrow> go_error + int \<times> int" where
  "units_per_worker totalUnits pusPerNode =
     (if totalUnits < pusPerNode then Inr (1, totalUnits)
      else if totalUnits AND pusPerNode = 0
      then (if pusPerNode = 0 then Inl (Panic ''integer divide by zero'')
            else Inr (i32 (go_div totalUnits pusPerNode), pusPerNode))
      else Inl (Err ''specified #ProcessingUnits(GPUs) must be a multiple of value per node''))"

definition processingUnitsPerWorker :: "mpi_env \<Rightarrow> LegacyV1Alpha1 \<Rightarrow> go_error + int \<times> int" where
  "processingUnitsPerWorker E v =
     (let gpusPerNode = (case GPUsPerNode v of None \<Rightarrow> 1 | Some n \<Rightarrow> n);
          unitsPerNode = (case ProcessingUnitsPerNode v of None \<Rightarrow> 1 | Some n \<Rightarrow> n)
      in case (DeprecatedGPUs v, ProcessingUnits v) of
           (Some g, Some u) \<Rightarrow> Inl (Err ''cannot specify both GPUs and ProcessingUnits at the same time'')
         | (Some g, None) \<Rightarrow> units_per_worker g gpusPerNode
         | (None, Some u) \<Rightarrow> units_per_worker u unitsPerNode
         | (None, None) \<Rightarrow>
             (case (leg_Replicas v, ps_Containers (pt_Spec (leg_Template v))) of
                (Some n, c # cs) \<Rightarrow>
                  Inr (n, if ct_Limits c \<noteq> [] \<and> ProcessingResourceType v \<noteq> []
                          then (case map_of (ct_Limits c) (ProcessingResourceType v) of
                                  None \<Rightarrow> 0
                                | Some q \<Rightarrow> i32 (me_AsInt64 E q))
                          else 0)
              | _ \<Rightarrow> Inr (0, 0)))"

definition blank_spec :: "int \<Rightarrow> pod_template \<Rightarrow> ReplicaSpec" where
  "blank_spec n t = \<lparr>Replicas = Some n, Spot = None, Template = t, RestartPolicy = [], DependOn = []\<rparr>"

definition legacy_worker :: "int \<Rightarrow> pod_template \<Rightarrow> replica_specs \<Rightarrow> replica_specs" where
  "legacy_worker workerReplicas t specs =
     (if workerReplicas > 0
      then (case map_of specs ''Worker'' of
              None \<Rightarrow> AList.update ''Worker'' (blank_spec workerReplicas t) specs
            | Some spec \<Rightarrow>
                if Replicas spec = None
                then AList.update ''Worker'' (spec\<lparr>Replicas := Some workerReplicas, Template := t\<rparr>) specs
                else specs)
      else specs)"

definition legacy_launcher :: "pod_template \<Rightarrow> replica_specs \<Rightarrow> replica_specs" where
  "legacy_launcher t specs =
     (case map_of specs ''Launcher'' of
        None \<Rightarrow> AList.update ''Launcher'' (blank_spec 1 t) specs
      | Some spec \<Rightarrow> specs)"

definition legacy_v1alpha1 :: "mpi_env \<Rightarrow> LegacyV1Alpha1 \<Rightarrow> MPIJob \<Rightarrow> go_error + MPIJob" where
  "legacy_v1alpha1 E v job =
     (case processingUnitsPerWorker E v of
        Inl e \<Rightarrow> Inl e
      | Inr (workerReplicas, unitsPerWorker) \<Rightarrow>
          Inr (job\<lparr>SlotsPerWorker := (if SlotsPerWorker job = None \<and> unitsPerWorker > 0 then Some unitsPerWorker
                                      else SlotsPerWorker job),
                   tj_Specs := legacy_launcher (leg_Template v) (legacy_worker workerReplicas (leg_Template v) (tj_Specs job))\<rparr>))"

text \<open>
  The legacy spec embeds its run policy by pointer; reading a field of it dereferences the pointer.
\<close>

definition LegacyMPIJobToV1MPIJob :: "mpi_env \<Rightarrow> MPIJob \<Rightarrow> go_error + MPIJob" where
  "LegacyMPIJobToV1MPIJob E job =
     (case mpi_Legacy job of
        None \<Rightarrow> Inr job
      | Some leg \<Rightarrow>
          (case leg_RunPolicy leg of
             None \<Rightarrow> Inl (Panic ''nil RunPolicy'')
           | Some rp \<Rightarrow>
               (let job1 = (if rp_CleanPodPolicy rp \<noteq> None
                            then job\<lparr>tj_RunPolicy := (tj_RunPolicy job)\<lparr>rp_CleanPodPolicy := rp_CleanPodPolicy rp\<rparr>\<rparr>
                            else job)
                in case leg_V1Alpha1 leg of None \<Rightarrow> Inr job1 | Some v \<Rightarrow> legacy_v1alpha1 E v job1)))"

subsection \<open>The config map\<close>

definition newline :: string where "newline = [CHR 0x0A]"

definition jobConfigName :: "job_meta \<Rightarrow> string" where
  "jobConfigName job = jm_Name job @ ''-config''"

definition kubexec_script :: "string \<Rightarrow> string" where
  "kubexec_script mainContainer =
     ''#!/bin/sh'' @ newline @ ''set -x'' @ newline @ ''POD_NAME=$1'' @ newline @ ''shift'' @ newline @
     ''/opt/kube/kubectl exec ${POD_NAME}'' @
     (if mainContainer \<noteq> [] then '' --container '' @ mainContainer else []) @
     '' -- /bin/sh -c '' @ [CHR 0x22] @ ''$*'' @ [CHR 0x22]"

definition mpi_distribution :: "MPIJob \<Rightarrow> string option" where
  "mpi_distribution job =
     (case mpi_Legacy job of
        None \<Rightarrow> None
      | Some leg \<Rightarrow> (case leg_V1Alpha2 leg of None \<Rightarrow> None | Some v \<Rightarrow> MPIDistribution v))"

definition colon_format :: "MPIJob \<Rightarrow> bool" where
  "colon_format job \<longleftrightarrow> mpi_distribution job \<in> {Some ''IntelMPI'', Some ''MPICH''}"

definition host_line :: "bool \<Rightarrow> string \<Rightarrow> int \<Rightarrow> string" where
  "host_line colon host slots = host @ (if colon then '':'' else '' slots='') @ Itoa slots @ newline"

definition hostfile :: "mpi_env \<Rightarrow> job_meta \<Rightarrow> MPIJob \<Rightarrow> int \<Rightarrow> string" where
  "hostfile E meta job workerReplicas =
     (let slots = (case SlotsPerWorker job of None \<Rightarrow> 1 | Some n \<Rightarrow> n) in
      (if me_launcherRunsWorkload E then host_line False (jm_Name meta @ ''-launcher-0'') slots else []) @
      concat (map (\<lambda>i. host_line (colon_format job) (jm_Name meta @ ''-worker-'' @ Itoa (int i)) slots) [0..<nat workerReplicas]))"

definition newJobConfigMap :: "mpi_env \<Rightarrow> job_meta \<Rightarrow> MPIJob \<Rightarrow> int \<Rightarrow> config_map" where
  "newJobConfigMap E meta job workerReplicas =
     \<lparr>cm_Name = jobConfigName meta, cm_Namespace = jm_Namespace meta, cm_Labels = [(''app'', jm_Name meta)],
      cm_OwnerReferences = [\<lparr>or_APIVersion = GroupVersion, or_Kind = ''MPIJob'', or_Name = jm_Name meta, or_UID = jm_UID meta,
        or_Controller = Some True, or_BlockOwnerDeletion = Some True\<rparr>],
      cm_Data = [(''hostfile'', hostfile E meta job workerReplicas), (''kubexec.sh'', kubexec_script (MainContainer job))]\<rparr>"

definition getOrCreateJobConfig :: "outside \<Rightarrow> mpi_env \<Rightarrow> job_meta \<Rightarrow> MPIJob \<Rightarrow> int \<Rightarrow> hist \<Rightarrow> go_error option \<times> hist" where
  "getOrCreateJobConfig W E meta job workerReplicas h =
     (let h1 = h @ [GetConfigMap (jm_Namespace meta) (jobConfigName meta)] in
      case out_get_config_map W h (jm_Namespace meta) (jobConfigName meta) of
        None \<Rightarrow> (None, h1)
      | Some e \<Rightarrow>
          if e = NotFound then api_write W (CreateConfigMapCall (newJobConfigMap E meta job workerReplicas)) h1
          else (Some e, h1))"

subsection \<open>Workers and launcher\<close>

definition add_volumes :: "(string \<times> volume_source) list \<Rightarrow> pod_template \<Rightarrow> pod_template" where
  "add_volumes vs t = t\<lparr>pt_Spec := (pt_Spec t)\<lparr>ps_Volumes := ps_Volumes (pt_Spec t) @ vs\<rparr>\<rparr>"

definition add_mounts :: "volume_mount list \<Rightarrow> container \<Rightarrow> container" where
  "add_mounts ms c = c\<lparr>ct_VolumeMounts := ct_VolumeMounts c @ ms\<rparr>"

definition config_mount :: volume_mount where
  "config_mount = \<lparr>vm_Name = ''mpi-config-volume'', vm_MountPath = ''/etc/mpi'', vm_SubPath = []\<rparr>"

definition kubectl_mount :: volume_mount where
  "kubectl_mount = \<lparr>vm_Name = ''kubectl-volume'', vm_MountPath = ''/opt/kube'', vm_SubPath = []\<rparr>"

definition setupMPIWorker :: "job_meta \<Rightarrow> pod_template \<Rightarrow> pod_template" where
  "setupMPIWorker meta t =
     on_containers (map (\<lambda>c. add_mounts [config_mount]
         (if ct_Command c = [] \<and> ct_Args c = [] then c\<lparr>ct_Command := [''sleep''], ct_Args := [''365d'']\<rparr> else c)))
       (add_volumes [(''mpi-config-volume'', ConfigMapSource (jobConfigName meta) [(''kubexec.sh'', 365)])] t)"

definition launcher_env_names :: "MPIJob \<Rightarrow> string \<times> string" where
  "launcher_env_names job =
     (if mpi_distribution job = Some ''IntelMPI'' then (''I_MPI_HYDRA_BOOTSTRAP_EXEC'', ''I_MPI_HYDRA_HOST_FILE'')
      else if mpi_distribution job = Some ''MPICH'' then (''HYDRA_LAUNCHER_EXEC'', ''HYDRA_HOST_FILE'')
      else (''OMPI_MCA_plm_rsh_agent'', ''OMPI_MCA_orte_default_hostfile''))"

definition setupLauncherMainContainers :: "MPIJob \<Rightarrow> container \<Rightarrow> container" where
  "setupLauncherMainContainers job c =
     add_mounts [kubectl_mount, config_mount]
       (append_env [(fst (launcher_env_names job), EnvValue ''/etc/mpi/kubexec.sh''),
                    (snd (launcher_env_names job), EnvValue ''/etc/mpi/hostfile'')] c)"

definition kubectl_delivery :: "mpi_env \<Rightarrow> job_meta \<Rightarrow> container" where
  "kubectl_delivery E meta =
     \<lparr>ct_Name = ''kubectl-delivery'', ct_Ports = [],
      ct_Env = [(''TARGET_DIR'', EnvValue ''/opt/kube''), (''NAMESPACE'', EnvValue (jm_Namespace meta))],
      ct_VolumeMounts = [kubectl_mount, config_mount],
      ct_Requests = [(''cpu'', me_MustParse E ''100m''), (''memory'', me_MustParse E ''128Mi'')], ct_Limits = [],
      ct_Image = me_kubectlDeliveryImage E, ct_Command = [], ct_Args = [], ct_WorkingDir = [],
      ct_ImagePullPolicy = ''IfNotPresent'', ct_TerminationMessagePolicy = []\<rparr>"

text \<open>The file modes 0555 and 0444 are written in decimal.\<close>

definition setupMPILauncher :: "mpi_env \<Rightarrow> job_meta \<Rightarrow> MPIJob \<Rightarrow> pod_template \<Rightarrow> hist \<Rightarrow> pod_template \<times> hist" where
  "setupMPILauncher E meta job t h =
     (if ps_Containers (pt_Spec t) = [] then (t, emit (Event ''Warning'' ''LauncherNotExist'') h)
      else (add_volumes [(''kubectl-volume'', EmptyDirSource False None),
                         (''mpi-config-volume'', ConfigMapSource (jobConfigName meta) [(''kubexec.sh'', 365), (''hostfile'', 292)])]
              (on_containers (map (setupLauncherMainContainers job))
                (t\<lparr>pt_Spec := (pt_Spec t)\<lparr>ps_InitContainers := ps_InitContainers (pt_Spec t) @ [kubectl_delivery E meta]\<rparr>\<rparr>)), h))"

definition mpi_worker_replicas :: "replica_specs \<Rightarrow> int" where
  "mpi_worker_replicas specs =
     (case map_of specs ''Worker'' of
        None \<Rightarrow> 0
      | Some s \<Rightarrow> (case Replicas s of None \<Rightarrow> 0 | Some n \<Rightarrow> n))"

definition mpi_SetClusterSpec ::
    "outside \<Rightarrow> mpi_env \<Rightarrow> MPIJob \<Rightarrow> job_meta \<Rightarrow> pod_template \<Rightarrow> string \<Rightarrow> string \<Rightarrow> hist \<Rightarrow> pod_template res" where
  "mpi_SetClusterSpec W E job meta t rtype index h =
     (let (err, h1) = (if map_of (tj_Specs job) ''Launcher'' \<noteq> None
                       then getOrCreateJobConfig W E meta job (mpi_worker_replicas (tj_Specs job)) h else (None, h))
      in case err of
           Some e \<Rightarrow> (Inl e, h1)
         | None \<Rightarrow>
             if rtype = ''worker'' then (Inr (setupMPIWorker meta t), h1)
             else if rtype = ''launcher'' then (let (t1, h2) = setupMPILauncher E meta job t h1 in (Inr t1, h2))
             else (Inr t, h1))"

end
