(* ===== verification/Cluster_Laws.thy ===== *)
theory Cluster_Laws
  imports Mpi_Job Job_Policies
begin

text \<open>
  Properties of the environment that tells replicas about their peers: the ranks of a PyTorch job form
  a process group, the cluster spec of a TensorFlow job names every replica by its service and agrees
  with the task entry; and what goes wrong for XGBoost ranks and legacy MPI jobs.
\<close>

subsection \<open>Indices survive the round trip through a label\<close>

lemma digit_char_nz: "d < 10 \<Longrightarrow> digit_char d = CHR ''0'' \<longleftrightarrow> d = 0"
proof -
  assume "d < 10"
  then have n: "(of_char (digit_char d) :: nat) = 48 + d" by (simp add: digit_char_def of_char_of)
  show ?thesis
  proof
    assume "digit_char d = CHR ''0''"
    with n show "d = 0" by simp
  next
    assume "d = 0"
    moreover have "digit_char 0 = CHR ''0''" by code_simp
    ultimately show "digit_char d = CHR ''0''" by simp
  qed
qed

lemma nat_dec_digits: "c \<in> set (nat_dec n) \<Longrightarrow> \<exists>d < 10. c = digit_char d"
proof (induction n rule: nat_dec.induct)
  case (1 n)
  show ?case
  proof (cases "c = digit_char (n mod 10)")
    case True
    then show ?thesis by (intro exI [of _ "n mod 10"]) simp
  next
    case False
    with 1 show ?thesis by (cases "n < 10") (auto simp: nat_dec.simps [of n])
  qed
qed

lemma nat_dec_hd: "0 < n \<Longrightarrow> hd (nat_dec n) \<noteq> CHR ''0''"
proof (induction n rule: nat_dec.induct)
  case (1 n)
  then show ?case by (cases "n < 10") (auto simp: nat_dec.simps [of n] digit_char_nz)
qed

lemma digit_not_underscore: "d < 10 \<Longrightarrow> digit_char d \<noteq> CHR ''_''"
proof -
  assume "d < 10"
  then have "(of_char (digit_char d) :: nat) = 48 + d" by (simp add: digit_char_def of_char_of)
  moreover have "(of_char CHR ''_'' :: nat) = 95" by simp
  ultimately show ?thesis using \<open>d < 10\<close> by force
qed

lemma parse_base_digits:
  "(\<And>c. c \<in> set s \<Longrightarrow> \<exists>d < 10. c = digit_char d) \<Longrightarrow> parse_base 10 acc s = parse_digits acc s"
proof (induction s arbitrary: acc)
  case (Cons c s)
  then obtain d where "d < 10" "c = digit_char d" by auto
  with Cons show ?case by (simp add: digit_not_underscore letter_val_def)
qed simp

lemma nat_dec_plain: "CHR ''_'' \<notin> set (nat_dec n)"
  using nat_dec_digits [of "CHR ''_''" n] digit_not_underscore by metis

lemma ParseUint0_nat_dec: "ParseUint0 (nat_dec n) = Some n"
proof (cases "n = 0")
  case True
  have "ParseUint0 (nat_dec 0) = Some 0" by code_simp
  with True show ?thesis by simp
next
  case False
  obtain c cs where s: "nat_dec n = c # cs" by (cases "nat_dec n") auto
  with nat_dec_hd [of n] False have "c \<noteq> CHR ''0''" by simp
  then have b: "split_base (nat_dec n) = (10, nat_dec n)"
    unfolding s split_base_def by (auto split: char.splits list.splits bool.splits)
  have "parse_base 10 0 (nat_dec n) = Some n"
    using parse_base_digits [of "nat_dec n" 0] nat_dec_digits parse_digits_nat_dec by simp
  with b show ?thesis by (simp add: ParseUint0_def nat_dec_plain)
qed

lemma ParseInt0_Itoa: "0 \<le> i \<Longrightarrow> in32 i \<Longrightarrow> ParseInt0 (Itoa i) = Some i"
proof -
  assume i: "0 \<le> i" "in32 i"
  obtain c cs where s: "nat_dec (nat i) = c # cs" by (cases "nat_dec (nat i)") auto
  have "c \<noteq> CHR ''-''" "c \<noteq> CHR ''+''" using nat_dec_hd_plain [of "nat i"] s by auto
  with i ParseUint0_nat_dec [of "nat i"] show ?thesis by (simp add: Itoa_def s ParseInt0_def check32_def)
qed

subsection \<open>PyTorch process groups\<close>

text \<open>What a process reads: of several entries for a variable the last one counts.\<close>

definition getenv :: "container \<Rightarrow> string \<Rightarrow> env_value option" where
  "getenv c n = map_of (rev (ct_Env c)) n"

lemma getenv_append:
  "n \<in> fst ` set es \<Longrightarrow> distinct (map fst es) \<Longrightarrow> getenv (append_env es c) n = map_of es n"
proof -
  assume n: "n \<in> fst ` set es" and d: "distinct (map fst es)"
  have "map_of (rev es) = map_of es" using d by (intro map_of_perm) (simp_all add: rev_map [symmetric])
  with n show ?thesis by (auto simp: getenv_def append_env_def map_add_def split: option.splits dest!: map_of_eq_None_iff [THEN iffD1])
qed

text \<open>The replicas of a job with one master and \<open>n\<close> workers, by type and index label.\<close>

definition process_group :: "nat \<Rightarrow> (string \<times> string) list" where
  "process_group n = (''master'', Itoa 0) # map (\<lambda>i. (''worker'', Itoa (int i))) [0..<n]"

definition one_master :: "nat \<Rightarrow> replica_specs \<Rightarrow> bool" where
  "one_master n specs \<longleftrightarrow>
     distinct (keys specs) \<and> set (keys specs) \<subseteq> {''Master'', ''Worker'', JobReplicaTypeAIMaster} \<and>
     (\<exists>m. map_of specs ''Master'' = Some m \<and> Replicas m = Some 1) \<and>
     (\<exists>w. map_of specs ''Worker'' = Some w \<and> Replicas w = Some (int n))"

lemma two_entries:
  assumes "distinct (keys xs)" "map_of xs a = Some x" "map_of xs b = Some y" "set (keys xs) \<subseteq> {a, b}"
  shows "set xs = {(a, x), (b, y)}"
proof -
  have "p \<in> {(a, x), (b, y)}" if p: "p \<in> set xs" for p
  proof -
    have "map_of xs (fst p) = Some (snd p)" using map_of_is_SomeI [OF assms(1), of "fst p" "snd p"] p by simp
    moreover have "fst p \<in> {a, b}" using assms(4) p by force
    ultimately show ?thesis using assms(2,3) by (cases p) auto
  qed
  with assms(2,3) map_of_SomeD show ?thesis by fastforce
qed

lemma sum_two:
  assumes "distinct (keys xs)" "map_of xs a = Some x" "map_of xs b = Some y" "a \<noteq> b" "set (keys xs) \<subseteq> {a, b}"
  shows "sum_list (map (\<lambda>(t, r). f r) xs) = f x + (f y :: int)"
  using two_entries [OF assms(1,2,3,5)] assms(4) sum_list_distinct_conv_sum_set [of xs "\<lambda>(t, r). f r"] distinct_map [THEN iffD1, OF assms(1)]
  by simp

lemma total_excluded:
  assumes "one_master n specs" "int n + 1 < 2 ^ 31"
  shows "GetTotalExcludedReplicas specs [JobReplicaTypeAIMaster] = Inr (int n + 1)"
proof -
  let ?xs = "filter (\<lambda>(t, r). t \<notin> set [JobReplicaTypeAIMaster]) specs"
  obtain m w where m: "map_of specs ''Master'' = Some m" "Replicas m = Some 1"
    and w: "map_of specs ''Worker'' = Some w" "Replicas w = Some (int n)" using assms by (auto simp: one_master_def)
  have d: "distinct (keys ?xs)" using assms(1) by (simp add: one_master_def distinct_map_filter)
  have k: "set (keys ?xs) \<subseteq> {''Master'', ''Worker''}" using assms(1) by (auto simp: one_master_def image_subset_iff)
  have mm: "map_of ?xs ''Master'' = Some m" and ww: "map_of ?xs ''Worker'' = Some w"
    using map_of_SomeD [OF m(1)] map_of_SomeD [OF w(1)] by (intro map_of_is_SomeI [OF d]; simp add: JobReplicaTypeAIMaster_def)+
  have "\<forall>(t, r) \<in> set ?xs. Replicas r \<noteq> None" unfolding two_entries [OF d mm ww k] using m(2) w(2) by simp
  moreover have "sum_list (map (\<lambda>(t, r). the (Replicas r)) ?xs) = int n + 1"
    using sum_two [OF d mm ww _ k, of "\<lambda>r. the (Replicas r)"] m(2) w(2) by simp
  ultimately show ?thesis
    using sum_replicas_eq [of 0 ?xs] assms(2) i32_id [of "int n + 1"] by (simp add: GetTotalExcludedReplicas_def in32_def)
qed

lemma pt_env_lookup:
  "getenv (append_env (pt_env elastic port addr rank world) c) ''RANK'' = Some (EnvValue (Itoa rank))"
  "getenv (append_env (pt_env elastic port addr rank world) c) ''MASTER_ADDR'' = Some (EnvValue addr)"
  "getenv (append_env (pt_env elastic port addr rank world) c) ''MASTER_PORT'' = Some (EnvValue (Itoa port))"
  "getenv (append_env (pt_env False port addr rank world) c) ''WORLD_SIZE'' = Some (EnvValue (Itoa world))"
  by (subst getenv_append; simp add: pt_env_def)+

lemma process_group_nth:
  "k \<le> n \<Longrightarrow> process_group n ! k = (if k = 0 then (''master'', Itoa 0) else (''worker'', Itoa (int k - 1)))"
  by (cases k) (simp_all add: process_group_def)

text \<open>
  C28. The replicas of a PyTorch job with one master and without elastic training form a process
  group, whatever the template sets: the \<open>k\<close>-th of the \<open>n + 1\<close> replicas (the master first, then the
  workers by index) gets rank \<open>k\<close> and the world size \<open>n + 1\<close> in every container. All rendezvous at the
  name of the pod and service of the master, which the master itself calls \<open>localhost\<close> if the feature
  gate says so, at the port of the specification of the master. If the host port of the master is
  known on the host network, it takes the place of this port for the master, and for the workers if
  the services are headless.
\<close>

theorem pytorch_process_group:
  assumes "one_master n specs" "int n + 1 < 2 ^ 31" "k \<le> n"
    and "GetPortFromSpecs specs ''Master'' ''pytorch'' ''pytorchjob-port'' = Inr port"
    and "sget (jm_Annotations job) AnnotationEnableElasticTraining \<noteq> ''true''"
  shows "\<exists>t'. pt_SetClusterSpec cfg E specs ctx job t (fst (process_group n ! k)) (snd (process_group n ! k)) = Inr t' \<and>
    length (ps_Containers (pt_Spec t')) = length (ps_Containers (pt_Spec t)) \<and>
    (\<forall>c \<in> set (ps_Containers (pt_Spec t')).
       getenv c ''RANK'' = Some (EnvValue (Itoa (int k))) \<and> getenv c ''WORLD_SIZE'' = Some (EnvValue (Itoa (int n + 1))) \<and>
       getenv c ''MASTER_ADDR'' =
         Some (EnvValue (if k = 0 \<and> gate_PyTorchLocalMasterAddr cfg then ''localhost'' else GenGeneralName (jm_Name job) ''master'' ''0'')) \<and>
       getenv c ''MASTER_PORT'' = Some (EnvValue (Itoa (case GetHostNetworkPortFromContext ctx ''master'' ''0'' of
           None \<Rightarrow> port
         | Some p \<Rightarrow> if EnableHostNetwork job \<and> (k = 0 \<or> gate_HostNetWithHeadlessSvc cfg) then p else port))))"
proof -
  have i: "in64 (int k)" "in64 (int k - 1)" using assms(2,3) by (simp_all add: in64_def)
  note total = total_excluded [OF assms(1,2)]
  have z: "Itoa 0 = ''0''" by code_simp
  show ?thesis
  proof (cases "k = 0")
    case True
    have port: "pt_master_port cfg ctx job True port = (case GetHostNetworkPortFromContext ctx ''master'' ''0'' of
        None \<Rightarrow> port | Some p \<Rightarrow> if EnableHostNetwork job \<and> (k = 0 \<or> gate_HostNetWithHeadlessSvc cfg) then p else port)"
      using True by (simp add: pt_master_port_def split: option.split)
    from True show ?thesis
      using total assms(4,5) i Atoi_Itoa [of 0]
      by (simp add: process_group_nth pt_SetClusterSpec_def Let_def pt_init_containers_def on_containers_def pt_env_lookup
          pt_master_addr_def port z)
  next
    case False
    have r: "i64 (int k - 1 + 1) = int k" using i64_id [OF i(1)] by simp
    have port: "pt_master_port cfg ctx job False port = (case GetHostNetworkPortFromContext ctx ''master'' ''0'' of
        None \<Rightarrow> port | Some p \<Rightarrow> if EnableHostNetwork job \<and> (k = 0 \<or> gate_HostNetWithHeadlessSvc cfg) then p else port)"
      using False by (simp add: pt_master_port_def split: option.split)
    from False show ?thesis
      using total assms(3,4,5) Atoi_Itoa [OF i(2)] r
      by (simp add: process_group_nth pt_SetClusterSpec_def Let_def pt_init_containers_def on_containers_def pt_env_lookup
          pt_master_addr_def port z)
  qed
qed

subsection \<open>TensorFlow cluster specs\<close>

definition tf_specs_ok :: "replica_specs \<Rightarrow> bool" where
  "tf_specs_ok specs \<longleftrightarrow>
     distinct (map (ToLower \<circ> fst) specs) \<and>
     (\<forall>(t, s) \<in> set specs. t \<noteq> ''Evaluator'' \<longrightarrow>
        (\<exists>n. Replicas s = Some n \<and> 0 \<le> n \<and> in32 n) \<and> (\<exists>p. GetPortFromSpecs specs t ''tensorflow'' ''tfjob-port'' = Inr p))"

definition tf_endpoints ::
    "cluster_env \<Rightarrow> host_ports \<Rightarrow> job_meta \<Rightarrow> replica_specs \<Rightarrow> string \<Rightarrow> string \<Rightarrow> ReplicaType \<Rightarrow> ReplicaSpec \<Rightarrow> string list" where
  "tf_endpoints E ctx job specs selfType selfIndex t s =
     map (\<lambda>i. tf_endpoint E ctx job selfType selfIndex (ToLower t)
                (projr (GetPortFromSpecs specs t ''tensorflow'' ''tfjob-port'')) (int i)) [0..<nat (the (Replicas s))]"

lemma tf_loop:
  assumes "\<forall>(t, s) \<in> set rest. t \<noteq> ''Evaluator'' \<longrightarrow>
      (\<exists>n. Replicas s = Some n \<and> 0 \<le> n) \<and> (\<exists>p. GetPortFromSpecs specs t ''tensorflow'' ''tfjob-port'' = Inr p)"
    and "distinct (map (ToLower \<circ> fst) rest)"
  shows "\<exists>cluster. tf_cluster_loop E ctx job specs selfType selfIndex rest acc = Inr cluster \<and>
    (\<forall>(t, s) \<in> set rest. t \<noteq> ''Evaluator'' \<longrightarrow>
       map_of cluster (ToLower t) = Some (tf_endpoints E ctx job specs selfType selfIndex t s)) \<and>
    (\<forall>k. k \<notin> (ToLower \<circ> fst) ` {p \<in> set rest. fst p \<noteq> ''Evaluator''} \<longrightarrow> map_of cluster k = map_of acc k)"
  using assms
proof (induction rest arbitrary: acc)
  case (Cons p rest)
  obtain t s where p: "p = (t, s)" by (cases p)
  show ?case
  proof (cases "t = ''Evaluator''")
    case True
    then have same: "{q \<in> set (p # rest). fst q \<noteq> ''Evaluator''} = {q \<in> set rest. fst q \<noteq> ''Evaluator''}" by (auto simp: p)
    have "tf_cluster_loop E ctx job specs selfType selfIndex (p # rest) acc =
        tf_cluster_loop E ctx job specs selfType selfIndex rest acc" using True by (simp add: p)
    with Cons.IH [of acc] Cons.prems True show ?thesis unfolding same by (simp add: p)
  next
    case False
    with Cons.prems(1) obtain n port where n: "Replicas s = Some n" "0 \<le> n"
      and port: "GetPortFromSpecs specs t ''tensorflow'' ''tfjob-port'' = Inr port" unfolding p by auto
    let ?acc = "AList.update (ToLower t) (tf_endpoints E ctx job specs selfType selfIndex t s) acc"
    from Cons.IH [of ?acc] Cons.prems obtain cluster where
      c: "tf_cluster_loop E ctx job specs selfType selfIndex rest ?acc = Inr cluster"
      "\<forall>(t, s) \<in> set rest. t \<noteq> ''Evaluator'' \<longrightarrow> map_of cluster (ToLower t) = Some (tf_endpoints E ctx job specs selfType selfIndex t s)"
      "\<forall>k. k \<notin> (ToLower \<circ> fst) ` {p \<in> set rest. fst p \<noteq> ''Evaluator''} \<longrightarrow> map_of cluster k = map_of ?acc k" by auto
    have "tf_cluster_loop E ctx job specs selfType selfIndex (p # rest) acc = Inr cluster"
      using c(1) False n port by (simp add: p replicas_of_def Let_def tf_endpoints_def)
    moreover have "ToLower t \<notin> (ToLower \<circ> fst) ` {p \<in> set rest. fst p \<noteq> ''Evaluator''}"
      using Cons.prems(2) unfolding p by auto
    then have "map_of cluster (ToLower t) = Some (tf_endpoints E ctx job specs selfType selfIndex t s)" using c(3) by simp
    moreover have split: "{q \<in> set (p # rest). fst q \<noteq> ''Evaluator''} = insert p {q \<in> set rest. fst q \<noteq> ''Evaluator''}"
      using False by (auto simp: p)
    moreover have "map_of cluster k = map_of acc k"
      if "k \<notin> (ToLower \<circ> fst) ` {q \<in> set (p # rest). fst q \<noteq> ''Evaluator''}" for k
      using that c(3) unfolding split by (simp add: p)
    ultimately show ?thesis using c(2) False by (auto simp: p simp del: tf_cluster_loop.simps)
  qed
qed simp

definition tf_host :: "cluster_env \<Rightarrow> job_meta \<Rightarrow> string \<Rightarrow> int \<Rightarrow> string" where
  "tf_host E job rt i = GenGeneralName (jm_Name job) rt (Itoa i) @ ''.'' @ jm_Namespace job @ ''.svc'' @
     (if ce_ClusterDomain E = [] then [] else ''.'' @ ce_ClusterDomain E)"

definition tf_cluster_wired :: "cluster_env \<Rightarrow> host_ports \<Rightarrow> job_meta \<Rightarrow> replica_specs \<Rightarrow> ReplicaType \<Rightarrow> int \<Rightarrow> (string \<times> string list) list \<Rightarrow> bool" where
  "tf_cluster_wired E ctx job specs rt i cluster \<longleftrightarrow>
    (\<forall>(t, s) \<in> set specs. t \<noteq> ''Evaluator'' \<longrightarrow>
       (\<exists>eps port. map_of cluster (ToLower t) = Some eps \<and> GetPortFromSpecs specs t ''tensorflow'' ''tfjob-port'' = Inr port \<and>
          int (length eps) = the (Replicas s) \<and>
          (\<forall>j < length eps. eps ! j = tf_host E job (ToLower t) (int j) @ '':'' @
             Itoa (if EnableHostNetwork job \<and> t = rt \<and> int j = i
                   then (case GetHostNetworkPortFromContext ctx (ToLower rt) (Itoa i) of None \<Rightarrow> port | Some p \<Rightarrow> p)
                   else port)))) \<and>
    (''Evaluator'' \<in> set (keys specs) \<longrightarrow> map_of cluster ''evaluator'' = None)"

text \<open>The first container of the framework gets a configuration, and no other container changes.\<close>

definition tf_configured :: "string \<Rightarrow> container list \<Rightarrow> container list \<Rightarrow> bool" where
  "tf_configured cfg cs cs' \<longleftrightarrow> length cs' = length cs \<and>
     (\<forall>k < length cs. if ct_Name (cs ! k) = ''tensorflow'' \<and> (\<forall>j < k. ct_Name (cs ! j) \<noteq> ''tensorflow'')
        then getenv (cs' ! k) ''TF_CONFIG'' = Some (EnvValue cfg) else cs' ! k = cs ! k)"

lemma on_first_length: "length (on_first p f cs) = length cs"
  by (induction cs) auto

lemma on_first_nth:
  "k < length cs \<Longrightarrow> on_first p f cs ! k = (if p (cs ! k) \<and> (\<forall>j < k. \<not> p (cs ! j)) then f (cs ! k) else cs ! k)"
proof (induction cs arbitrary: k)
  case (Cons c cs)
  then show ?case by (cases k) (auto simp: All_less_Suc2)
qed simp

lemma tf_configured_on_first:
  "tf_configured cfg cs (on_first (\<lambda>c. ct_Name c = ''tensorflow'') (append_env [(''TF_CONFIG'', EnvValue cfg)]) cs)"
  by (auto simp: tf_configured_def on_first_length on_first_nth getenv_append)

lemma tf_config_built:
  assumes ok: "tf_specs_ok specs" and "(rt, spec) \<in> set specs" "0 \<le> i" "in32 i"
  shows "\<exists>cluster. genTFConfigJSONStr E ctx job specs (ToLower rt) (Itoa i) =
      ce_marshal_tf E \<lparr>xc_Cluster = cluster, xc_Task = \<lparr>ts_Type = ToLower rt, ts_Index = i\<rparr>, tc_Environment = ''cloud''\<rparr> \<and>
    tf_cluster_wired E ctx job specs rt i cluster"
proof -
  have d: "distinct (map (ToLower \<circ> fst) specs)" using ok by (simp add: tf_specs_ok_def)
  have same: "t = rt" if "(t, s) \<in> set specs" "ToLower t = ToLower rt" for t s
    using d that assms(2) unfolding distinct_map inj_on_def by (metis comp_apply fst_conv)
  from tf_loop [of specs specs E ctx job "ToLower rt" "Itoa i" "[]"] ok obtain cluster where
    c: "tf_genClusterSpec E ctx job specs (ToLower rt) (Itoa i) = Inr cluster"
    "\<forall>(t, s) \<in> set specs. t \<noteq> ''Evaluator'' \<longrightarrow> map_of cluster (ToLower t) = Some (tf_endpoints E ctx job specs (ToLower rt) (Itoa i) t s)"
    "\<forall>k. k \<notin> (ToLower \<circ> fst) ` {p \<in> set specs. fst p \<noteq> ''Evaluator''} \<longrightarrow> map_of cluster k = None"
    by (fastforce simp: tf_specs_ok_def tf_genClusterSpec_def)
  have i: "in32 i" "in64 i" using assms(4) by (simp_all add: in32_def in64_def)
  have "genTFConfigJSONStr E ctx job specs (ToLower rt) (Itoa i) =
      ce_marshal_tf E \<lparr>xc_Cluster = cluster, xc_Task = \<lparr>ts_Type = ToLower rt, ts_Index = i\<rparr>, tc_Environment = ''cloud''\<rparr>"
    using ParseInt0_Itoa [OF assms(3) i(1)] c(1) by (simp add: genTFConfigJSONStr_def)
  moreover have "\<exists>eps port. map_of cluster (ToLower t) = Some eps \<and> GetPortFromSpecs specs t ''tensorflow'' ''tfjob-port'' = Inr port \<and>
          int (length eps) = the (Replicas s) \<and>
          (\<forall>j < length eps. eps ! j = tf_host E job (ToLower t) (int j) @ '':'' @
             Itoa (if EnableHostNetwork job \<and> t = rt \<and> int j = i
                   then (case GetHostNetworkPortFromContext ctx (ToLower rt) (Itoa i) of None \<Rightarrow> port | Some p \<Rightarrow> p)
                   else port))" if ts: "(t, s) \<in> set specs" "t \<noteq> ''Evaluator''" for t s
  proof -
    from ok ts obtain m port where m: "Replicas s = Some m" "0 \<le> m" "in32 m"
      and port: "GetPortFromSpecs specs t ''tensorflow'' ''tfjob-port'' = Inr port" by (fastforce simp: tf_specs_ok_def)
    have self: "ToLower t = ToLower rt \<and> Itoa (int j) = Itoa i \<longleftrightarrow> t = rt \<and> int j = i" if "j < nat m" for j
    proof -
      have "in64 (int j)" using that m by (simp add: in32_def in64_def)
      then show ?thesis using same [OF ts(1)] Itoa_inject [of "int j" i] i(2) by auto
    qed
    have "tf_endpoints E ctx job specs (ToLower rt) (Itoa i) t s ! j = tf_host E job (ToLower t) (int j) @ '':'' @
             Itoa (if EnableHostNetwork job \<and> t = rt \<and> int j = i
                   then (case GetHostNetworkPortFromContext ctx (ToLower rt) (Itoa i) of None \<Rightarrow> port | Some p \<Rightarrow> p)
                   else port)" if "j < nat m" for j
      using self [OF that] that m(1) port by (simp add: tf_endpoints_def tf_endpoint_def Let_def tf_host_def)
    then show ?thesis using c(2) ts m port by (fastforce simp: tf_endpoints_def)
  qed
  moreover have "map_of cluster ''evaluator'' = None" if "''Evaluator'' \<in> set (keys specs)"
  proof -
    have l: "ToLower ''Evaluator'' = ''evaluator''" by code_simp
    have "''evaluator'' \<notin> (ToLower \<circ> fst) ` {p \<in> set specs. fst p \<noteq> ''Evaluator''}"
      using d that l by (auto simp: distinct_map inj_on_def) (metis fst_conv)
    with c(3) show ?thesis by blast
  qed
  ultimately show ?thesis unfolding tf_cluster_wired_def by (intro exI [of _ cluster]) blast
qed

text \<open>
  C29. What \<open>SetClusterSpec\<close> gives replica \<open>i\<close> of any type of a TensorFlow job, evaluators included. A
  local job, whose replicas of the five standard types add up to one, gets no configuration: its template
  is unchanged. In every other job an error of the encoder is returned, and the first container of the
  framework gets the encoded configuration, unless it is empty; nothing else changes. The configuration
  names every type but the evaluator, which takes no part in the training cluster, with one endpoint per
  replica, at the position of its index, under the name of the service that is created for the replica.
  The port is the one of the job, except that on the host network the replica sees its own host port at
  its own position. The task entry holds the lower case type and the index, so that a process which is
  not an evaluator finds itself in the cluster.
\<close>

theorem tf_cluster_consistent:
  assumes "tf_specs_ok specs" "(rt, spec) \<in> set specs" "0 \<le> i" "in32 i"
  shows "\<exists>cluster. tf_cluster_wired E ctx job specs rt i cluster \<and>
    (if \<not> isDistributed specs then tf_SetClusterSpec E specs ctx job t (ToLower rt) (Itoa i) = Inr t
     else case ce_marshal_tf E \<lparr>xc_Cluster = cluster, xc_Task = \<lparr>ts_Type = ToLower rt, ts_Index = i\<rparr>, tc_Environment = ''cloud''\<rparr> of
       Inl e \<Rightarrow> tf_SetClusterSpec E specs ctx job t (ToLower rt) (Itoa i) = Inl e
     | Inr cfg \<Rightarrow> if cfg = [] then tf_SetClusterSpec E specs ctx job t (ToLower rt) (Itoa i) = Inr t
        else \<exists>cs'. tf_SetClusterSpec E specs ctx job t (ToLower rt) (Itoa i) =
                Inr (t\<lparr>pt_Spec := (pt_Spec t)\<lparr>ps_Containers := cs'\<rparr>\<rparr>) \<and>
              tf_configured cfg (ps_Containers (pt_Spec t)) cs')"
proof -
  obtain cluster where c: "genTFConfigJSONStr E ctx job specs (ToLower rt) (Itoa i) =
      ce_marshal_tf E \<lparr>xc_Cluster = cluster, xc_Task = \<lparr>ts_Type = ToLower rt, ts_Index = i\<rparr>, tc_Environment = ''cloud''\<rparr>"
    and w: "tf_cluster_wired E ctx job specs rt i cluster"
    using tf_config_built [OF assms] by blast
  show ?thesis
    by (intro exI [of _ cluster] conjI w)
      (auto simp: tf_SetClusterSpec_def c on_containers_def split: sum.split intro: tf_configured_on_first)
qed

subsection \<open>XGBoost ranks\<close>

text \<open>
  The ranks of an XGBoost job with one master and \<open>n\<close> workers are not those of a process group: the
  master and the first worker both get rank 0, worker \<open>i\<close> gets rank \<open>i\<close>, and no replica gets rank \<open>n\<close>,
  although the world size is \<open>n + 1\<close>.
\<close>

theorem xgboost_rank_collision:
  assumes "distinct (keys specs)" "set (keys specs) \<subseteq> {''Master'', ''Worker''}"
    and "map_of specs ''Master'' = Some m" "Replicas m = Some 1"
    and "map_of specs ''Worker'' = Some w" "Replicas w = Some (int n)" "int n + 1 < 2 ^ 31" "k \<le> n"
    and "0 < n" and "GetPortFromSpecs specs ''Master'' ''xgboostjob'' ''xgboostjob-port'' = Inr port"
  shows "\<exists>t'. xgb_SetClusterSpec specs job t (fst (process_group n ! k)) (snd (process_group n ! k)) = Inr t' \<and>
    length (ps_Containers (pt_Spec t')) = length (ps_Containers (pt_Spec t)) \<and>
    (\<forall>c \<in> set (ps_Containers (pt_Spec t')).
       getenv c ''RANK'' = Some (EnvValue (Itoa (if k = 0 then 0 else int k - 1))) \<and>
       getenv c ''RANK'' \<noteq> Some (EnvValue (Itoa (int n))) \<and>
       getenv c ''WORLD_SIZE'' = Some (EnvValue (Itoa (int n + 1))))"
proof -
  let ?r = "if k = 0 then 0 else int k - 1"
  have r: "in64 ?r" "in64 (int n)" "?r \<noteq> int n" using assms(7,8,9) by (auto simp: in64_def)
  have pg: "snd (process_group n ! k) = Itoa ?r" using assms(8) by (simp add: process_group_nth)
  have "\<forall>(t, r) \<in> set specs. Replicas r \<noteq> None" unfolding two_entries [OF assms(1,3,5,2)] using assms(4,6) by simp
  moreover have "sum_list (map (\<lambda>(t, r). the (Replicas r)) specs) = int n + 1"
    using sum_two [OF assms(1,3,5) _ assms(2), of "\<lambda>r. the (Replicas r)"] assms(4,6) by simp
  ultimately have total: "GetTotalReplicas specs = Inr (int n + 1)"
    using GetTotalReplicas_eq [of specs] assms(7) i32_id [of "int n + 1"] by (simp add: in32_def)
  have "Itoa ?r \<noteq> Itoa (int n)" using Itoa_inject [OF r(1,2)] r(3) by blast
  then show ?thesis
    unfolding xgb_SetClusterSpec_def pg
    using Atoi_Itoa [OF r(1)] total assms(10)
    by (auto simp: SetPodEnv_def on_containers_def getenv_append)
qed

subsection \<open>MPI\<close>

lemma pow2_and: "(m * 2 ^ j :: int) AND 2 ^ j = 0 \<longleftrightarrow> even m"
proof -
  have "(m * 2 ^ j :: int) = push_bit j m" by (simp add: push_bit_eq_mult)
  then show ?thesis by (simp add: and_exp_eq_0_iff_not_bit bit_push_bit_iff bit_0)
qed

text \<open>
  The number of workers of a legacy MPI job. With \<open>2 ^ j\<close> units per node, \<open>m\<close> full nodes are refused
  as not being a multiple whenever \<open>m\<close> is odd, in particular a single full node; and nine units on nodes
  of four, which are no multiple, are accepted and one of them is lost. The bitwise operator stands where
  a remainder is meant.
\<close>

theorem mpi_units_parity:
  assumes "DeprecatedGPUs v = None" "ProcessingUnits v = Some (m * 2 ^ j)" "ProcessingUnitsPerNode v = Some (2 ^ j)"
    and "0 < m" "m * 2 ^ j < 2 ^ 31"
  shows "(even m \<longrightarrow> processingUnitsPerWorker E v = Inr (m, 2 ^ j)) \<and>
    (odd m \<longrightarrow> (\<exists>msg. processingUnitsPerWorker E v = Inl (Err msg))) \<and>
    processingUnitsPerWorker E (v\<lparr>ProcessingUnits := Some 9, ProcessingUnitsPerNode := Some 4\<rparr>) = Inr (2, 4)"
proof -
  have le: "(2 :: int) ^ j \<le> m * 2 ^ j" using assms(4) by simp
  have "m * 1 \<le> m * 2 ^ j" using assms(4) by (intro mult_left_mono) simp_all
  then have "m < 2 ^ 31" using assms(5) by linarith
  then have "in32 m" using assms(4) by (simp add: in32_def)
  moreover have "go_div (m * 2 ^ j) (2 ^ j) = m" using assms(4) by (subst go_div_nonneg) simp_all
  ultimately have d: "i32 (go_div (m * 2 ^ j) (2 ^ j)) = m" by (simp add: i32_id)
  have main: "units_per_worker (m * 2 ^ j) (2 ^ j) =
      (if even m then Inr (m, 2 ^ j) else Inl (Err ''specified #ProcessingUnits(GPUs) must be a multiple of value per node''))"
    using le d pow2_and [of m j] by (simp add: units_per_worker_def)
  have nine: "units_per_worker 9 4 = Inr (2, 4)" by code_simp
  show ?thesis using assms(1-3) main nine by (simp add: processingUnitsPerWorker_def Let_def)
qed

text \<open>
  The clean pod policy of MPI jobs. A legacy spec without run policy makes the conversion panic. If
  neither the run policy nor the legacy run policy of a job sets a clean pod policy, the run policy of
  the completed job still has none, since the default goes to the legacy policy after the conversion has
  read it; cleaning up after the job then panics as soon as it has a pod.
\<close>

theorem mpi_clean_policy_nil:
  "(mpi_Legacy job = Some leg \<and> leg_RunPolicy leg = None \<longrightarrow> (\<exists>msg. LegacyMPIJobToV1MPIJob E job = Inl (Panic msg))) \<and>
   (LegacyMPIJobToV1MPIJob E job = Inr converted \<and> SetDefaults_MPIJob dag converted = Inr completed \<and>
    rp_CleanPodPolicy (tj_RunPolicy job) = None \<and>
    (case mpi_Legacy job of None \<Rightarrow> True
     | Some l \<Rightarrow> (case leg_RunPolicy l of None \<Rightarrow> True | Some rp \<Rightarrow> rp_CleanPodPolicy rp = None)) \<longrightarrow>
      rp_CleanPodPolicy (tj_RunPolicy completed) = None \<and>
      (\<exists>msg. deletePodsAndServices W (tj_RunPolicy completed) (p # ps) h = (Some (Panic msg), h)))"
proof (intro conjI impI)
  assume "mpi_Legacy job = Some leg \<and> leg_RunPolicy leg = None"
  then show "\<exists>msg. LegacyMPIJobToV1MPIJob E job = Inl (Panic msg)" by (simp add: LegacyMPIJobToV1MPIJob_def)
next
  assume a: "LegacyMPIJobToV1MPIJob E job = Inr converted \<and> SetDefaults_MPIJob dag converted = Inr completed \<and>
    rp_CleanPodPolicy (tj_RunPolicy job) = None \<and>
    (case mpi_Legacy job of None \<Rightarrow> True
     | Some l \<Rightarrow> (case leg_RunPolicy l of None \<Rightarrow> True | Some rp \<Rightarrow> rp_CleanPodPolicy rp = None))"
  have "tj_RunPolicy converted = tj_RunPolicy job"
    using a by (auto simp: LegacyMPIJobToV1MPIJob_def legacy_v1alpha1_def Let_def split: option.splits sum.splits)
  moreover have "tj_RunPolicy completed = tj_RunPolicy converted"
    using a by (auto simp: SetDefaults_MPIJob_def set_kind_def Let_def split: sum.splits)
  ultimately show nil: "rp_CleanPodPolicy (tj_RunPolicy completed) = None" using a by simp
  then show "\<exists>msg. deletePodsAndServices W (tj_RunPolicy completed) (p # ps) h = (Some (Panic msg), h)"
    by (simp add: deletePodsAndServices_def)
qed

subsection \<open>Sample jobs\<close>

definition peer_template :: "string \<Rightarrow> string \<Rightarrow> pod_template" where
  "peer_template name port =
     (Template (dag_spec 1 []))\<lparr>pt_Spec := (pt_Spec (Template (dag_spec 1 [])))\<lparr>ps_Containers :=
       [\<lparr>ct_Name = name, ct_Ports = [\<lparr>cp_Name = port, cp_HostPort = 0, cp_ContainerPort = 2222\<rparr>],
         ct_Env = [(''RANK'', EnvValue ''7'')], ct_VolumeMounts = [], ct_Requests = [], ct_Limits = [], ct_Image = ''img'',
         ct_Command = [], ct_Args = [], ct_WorkingDir = [], ct_ImagePullPolicy = [], ct_TerminationMessagePolicy = []\<rparr>]\<rparr>\<rparr>"

definition peer_spec :: "string \<Rightarrow> string \<Rightarrow> int \<Rightarrow> ReplicaSpec" where
  "peer_spec name port n = (dag_spec n [])\<lparr>Template := peer_template name port\<rparr>"

definition env0 :: cluster_env where
  "env0 = \<lparr>ce_ClusterDomain = [], ce_marshal_tf = (\<lambda>cfg. Inr (concat (map fst (xc_Cluster cfg)))),
     ce_marshal_xdl = (\<lambda>cfg. Inr []), ce_render_waiter = (\<lambda>a i. Inr [])\<rparr>"

lemmas peer_defs = peer_spec_def peer_template_def GetPortFromSpecs_def dag_spec_simps

definition pt_specs :: replica_specs where
  "pt_specs = [(''Worker'', peer_spec ''pytorch'' ''pytorchjob-port'' 2), (''Master'', peer_spec ''pytorch'' ''pytorchjob-port'' 1)]"

text \<open>Worker 1 of two workers is the third process; the rank of its template is overridden.\<close>

theorem pytorch_process_group_witness:
  "\<exists>t'. pt_SetClusterSpec (Config jc0) env0 pt_specs Map.empty job0 (peer_template ''pytorch'' ''pytorchjob-port'') ''worker'' ''1'' = Inr t' \<and>
     map (\<lambda>c. (getenv c ''RANK'', getenv c ''MASTER_PORT'')) (ps_Containers (pt_Spec t')) =
       [(Some (EnvValue ''2''), Some (EnvValue ''2222''))]"
proof -
  have o: "one_master 2 pt_specs" by (auto simp: one_master_def pt_specs_def peer_spec_def)
  have p: "GetPortFromSpecs pt_specs ''Master'' ''pytorch'' ''pytorchjob-port'' = Inr 2222"
    by (simp add: pt_specs_def peer_defs)
  have pg: "process_group 2 ! 2 = (''worker'', ''1'')" by code_simp
  have two: "Itoa (int 2) = ''2''" "Itoa 2222 = ''2222''" by code_simp+
  have ctx: "GetHostNetworkPortFromContext Map.empty ''master'' ''0'' = None" by (simp add: GetHostNetworkPortFromContext_def)
  have a: "sget (jm_Annotations job0) AnnotationEnableElasticTraining \<noteq> ''true''" by simp
  have l: "length (ps_Containers (pt_Spec (peer_template ''pytorch'' ''pytorchjob-port''))) = Suc 0" by (simp add: peer_template_def)
  from pytorch_process_group [OF o _ _ p a, of 2 "Config jc0" env0 Map.empty "peer_template ''pytorch'' ''pytorchjob-port''"]
  obtain t' where t: "pt_SetClusterSpec (Config jc0) env0 pt_specs Map.empty job0 (peer_template ''pytorch'' ''pytorchjob-port'') ''worker'' ''1'' = Inr t'"
    and n: "length (ps_Containers (pt_Spec t')) = Suc 0"
    and c: "\<forall>c \<in> set (ps_Containers (pt_Spec t')). getenv c ''RANK'' = Some (EnvValue ''2'') \<and>
      getenv c ''MASTER_PORT'' = Some (EnvValue ''2222'')"
    unfolding pg two l by (auto simp: ctx two)
  from n c obtain d where "ps_Containers (pt_Spec t') = [d]" "getenv d ''RANK'' = Some (EnvValue ''2'')"
    "getenv d ''MASTER_PORT'' = Some (EnvValue ''2222'')"
    by (auto simp: length_Suc_conv)
  with t show ?thesis by simp
qed

definition tf_specs :: replica_specs where
  "tf_specs = [(''PS'', peer_spec ''tensorflow'' ''tfjob-port'' 1), (''Worker'', peer_spec ''tensorflow'' ''tfjob-port'' 2)]"

lemma env0_marshal: "ce_marshal_tf env0 cfg = Inr (concat (map fst (xc_Cluster cfg)))"
  by (simp add: env0_def)

text \<open>The container of worker 1 of two workers gets the configuration, in which the parameter server is found.\<close>

theorem tf_cluster_consistent_witness:
  "\<exists>cluster cs. tf_SetClusterSpec env0 tf_specs Map.empty job0 (peer_template ''tensorflow'' ''tfjob-port'') ''worker'' ''1'' =
      Inr ((peer_template ''tensorflow'' ''tfjob-port'')\<lparr>pt_Spec := (pt_Spec (peer_template ''tensorflow'' ''tfjob-port''))\<lparr>ps_Containers := cs\<rparr>\<rparr>) \<and>
    map (\<lambda>c. getenv c ''TF_CONFIG'') cs = [Some (EnvValue (concat (map fst cluster)))] \<and>
    map_of cluster ''ps'' = Some [''mnist-ps-0.default.svc:2222'']"
proof -
  let ?t = "peer_template ''tensorflow'' ''tfjob-port''"
  have ok: "tf_specs_ok tf_specs"
    by (auto simp: tf_specs_ok_def tf_specs_def peer_defs in32_def sample_strings)
  have mem: "(''Worker'', peer_spec ''tensorflow'' ''tfjob-port'' 2) \<in> set tf_specs" by (simp add: tf_specs_def)
  have d: "isDistributed tf_specs" unfolding tf_specs_def peer_spec_def by code_simp
  have s: "ToLower ''Worker'' = ''worker''" "Itoa 1 = ''1''" "ToLower ''PS'' = ''ps''" by code_simp+
  have i: "(0 :: int) \<le> 1" "in32 1" by (simp_all add: in32_def)
  from tf_cluster_consistent [OF ok mem i, of env0 Map.empty job0 ?t] obtain cluster where
    w: "tf_cluster_wired env0 Map.empty job0 tf_specs ''Worker'' 1 cluster"
    and r: "if concat (map fst cluster) = [] then tf_SetClusterSpec env0 tf_specs Map.empty job0 ?t ''worker'' ''1'' = Inr ?t
      else \<exists>cs'. tf_SetClusterSpec env0 tf_specs Map.empty job0 ?t ''worker'' ''1'' = Inr (?t\<lparr>pt_Spec := (pt_Spec ?t)\<lparr>ps_Containers := cs'\<rparr>\<rparr>) \<and>
        tf_configured (concat (map fst cluster)) (ps_Containers (pt_Spec ?t)) cs'"
    using d unfolding env0_marshal s by (auto simp: s)
  have p: "GetPortFromSpecs tf_specs ''PS'' ''tensorflow'' ''tfjob-port'' = Inr 2222" by (simp add: tf_specs_def peer_defs)
  have "(''PS'', peer_spec ''tensorflow'' ''tfjob-port'' 1) \<in> set tf_specs" by (simp add: tf_specs_def)
  then have "\<exists>eps. map_of cluster ''ps'' = Some eps \<and> length eps = Suc 0 \<and> eps ! 0 = tf_host env0 job0 ''ps'' 0 @ '':'' @ Itoa 2222"
    using w p unfolding tf_cluster_wired_def by (fastforce simp: peer_spec_def s)
  moreover have "tf_host env0 job0 ''ps'' 0 @ '':'' @ Itoa 2222 = ''mnist-ps-0.default.svc:2222''"
    unfolding tf_host_def env0_def job0_def by code_simp
  ultimately have ps: "map_of cluster ''ps'' = Some [''mnist-ps-0.default.svc:2222'']" by (auto simp: length_Suc_conv)
  then have "(''ps'', [''mnist-ps-0.default.svc:2222'']) \<in> set cluster" by (rule map_of_SomeD)
  then have "concat (map fst cluster) \<noteq> []" by force
  with r have "\<exists>cs. tf_SetClusterSpec env0 tf_specs Map.empty job0 ?t ''worker'' ''1'' = Inr (?t\<lparr>pt_Spec := (pt_Spec ?t)\<lparr>ps_Containers := cs\<rparr>\<rparr>) \<and>
      tf_configured (concat (map fst cluster)) (ps_Containers (pt_Spec ?t)) cs" by (simp only: if_False)
  then obtain cs where c: "tf_SetClusterSpec env0 tf_specs Map.empty job0 ?t ''worker'' ''1'' = Inr (?t\<lparr>pt_Spec := (pt_Spec ?t)\<lparr>ps_Containers := cs\<rparr>\<rparr>)"
    "tf_configured (concat (map fst cluster)) (ps_Containers (pt_Spec ?t)) cs" by blast
  have l: "length (ps_Containers (pt_Spec ?t)) = Suc 0" "ct_Name (ps_Containers (pt_Spec ?t) ! 0) = ''tensorflow''"
    by (simp_all add: peer_template_def)
  have "map (\<lambda>c. getenv c ''TF_CONFIG'') cs = [Some (EnvValue (concat (map fst cluster)))]"
    using c(2) l by (auto simp: tf_configured_def length_Suc_conv)
  with c(1) ps show ?thesis by (intro exI [of _ cluster] exI [of _ cs] conjI)
qed

definition xgb_specs :: replica_specs where
  "xgb_specs = [(''Worker'', peer_spec ''xgboostjob'' ''xgboostjob-port'' 1), (''Master'', peer_spec ''xgboostjob'' ''xgboostjob-port'' 1)]"

text \<open>The master and the only worker both have rank 0 in a world of two.\<close>

theorem xgboost_rank_collision_witness:
  "\<exists>t'. xgb_SetClusterSpec xgb_specs job0 (peer_template ''xgboostjob'' ''xgboostjob-port'') ''worker'' ''0'' = Inr t' \<and>
     map (\<lambda>c. getenv c ''RANK'') (ps_Containers (pt_Spec t')) = [Some (EnvValue ''0'')] \<and>
     map (\<lambda>c. getenv c ''WORLD_SIZE'') (ps_Containers (pt_Spec t')) = [Some (EnvValue ''2'')]"
proof -
  have d: "distinct (keys xgb_specs)" "set (keys xgb_specs) \<subseteq> {''Master'', ''Worker''}" by (simp_all add: xgb_specs_def)
  have m: "map_of xgb_specs ''Master'' = Some (peer_spec ''xgboostjob'' ''xgboostjob-port'' 1)"
    "map_of xgb_specs ''Worker'' = Some (peer_spec ''xgboostjob'' ''xgboostjob-port'' 1)" by (simp_all add: xgb_specs_def)
  have n: "Replicas (peer_spec ''xgboostjob'' ''xgboostjob-port'' 1) = Some 1"
    "Replicas (peer_spec ''xgboostjob'' ''xgboostjob-port'' 1) = Some (int 1)" by (simp_all add: peer_spec_def)
  have p: "GetPortFromSpecs xgb_specs ''Master'' ''xgboostjob'' ''xgboostjob-port'' = Inr 2222" by (simp add: xgb_specs_def peer_defs)
  have pg: "process_group 1 ! 1 = (''worker'', ''0'')" by code_simp
  have s: "Itoa (int 1 - 1) = ''0''" "Itoa (int 1 + 1) = ''2''" by code_simp+
  have l: "length (ps_Containers (pt_Spec (peer_template ''xgboostjob'' ''xgboostjob-port''))) = Suc 0" by (simp add: peer_template_def)
  from xgboost_rank_collision [OF d m(1) n(1) m(2) n(2) _ _ _ p, of 1 job0 "peer_template ''xgboostjob'' ''xgboostjob-port''"]
  obtain t' where t: "xgb_SetClusterSpec xgb_specs job0 (peer_template ''xgboostjob'' ''xgboostjob-port'') ''worker'' ''0'' = Inr t'"
    and n: "length (ps_Containers (pt_Spec t')) = Suc 0"
    and c: "\<forall>c \<in> set (ps_Containers (pt_Spec t')). getenv c ''RANK'' = Some (EnvValue ''0'') \<and> getenv c ''WORLD_SIZE'' = Some (EnvValue ''2'')"
    unfolding pg l s by (auto simp: s sample_strings)
  from n c obtain e where "ps_Containers (pt_Spec t') = [e]" "getenv e ''RANK'' = Some (EnvValue ''0'')"
    "getenv e ''WORLD_SIZE'' = Some (EnvValue ''2'')" by (auto simp: length_Suc_conv)
  with t show ?thesis by simp
qed

definition mpi_env0 :: mpi_env where
  "mpi_env0 = \<lparr>me_AsInt64 = (\<lambda>q. q div 1000), me_MustParse = (\<lambda>s. 0), me_kubectlDeliveryImage = [], me_launcherRunsWorkload = True\<rparr>"

definition legacy0 :: LegacyV1Alpha1 where
  "legacy0 = \<lparr>DeprecatedGPUs = None, GPUsPerNode = None, ProcessingUnits = Some 8, ProcessingUnitsPerNode = Some 8,
     ProcessingResourceType = [], LauncherOnMaster = False, leg_Replicas = None, leg_Template = peer_template ''mpi'' ''mpi-port''\<rparr>"

text \<open>Eight units on one node of eight are refused.\<close>

theorem mpi_units_parity_witness: "\<exists>msg. processingUnitsPerWorker mpi_env0 legacy0 = Inl (Err msg)"
  using mpi_units_parity [of legacy0 1 3 mpi_env0] by (simp add: legacy0_def)

definition mpi_job0 :: MPIJob where
  "mpi_job0 = \<lparr>tj_Kind = [], tj_APIVersion = [], tj_Specs = [(''Worker'', peer_spec ''mpi'' ''mpi-port'' 1)],
     tj_RunPolicy = empty_run_policy, SlotsPerWorker = None, MainContainer = [], mpi_Legacy = None\<rparr>"

theorem mpi_clean_policy_nil_witness:
  "(\<exists>msg. LegacyMPIJobToV1MPIJob mpi_env0 (mpi_job0\<lparr>mpi_Legacy :=
      Some \<lparr>leg_RunPolicy = None, leg_V1Alpha1 = Some legacy0, leg_V1Alpha2 = None\<rparr>\<rparr>) = Inl (Panic msg)) \<and>
   (\<exists>job2 msg. SetDefaults_MPIJob True mpi_job0 = Inr job2 \<and>
      deletePodsAndServices quiet_world (tj_RunPolicy job2) [pod0 ''worker'' ''0'' PodRunning] [] = (Some (Panic msg), []))"
proof -
  have l: "LegacyMPIJobToV1MPIJob mpi_env0 mpi_job0 = Inr mpi_job0" by (simp add: LegacyMPIJobToV1MPIJob_def mpi_job0_def)
  have "\<not> isl (SetDefaults_MPIJob True mpi_job0)" by code_simp
  then obtain job2 where d: "SetDefaults_MPIJob True mpi_job0 = Inr job2" by (cases "SetDefaults_MPIJob True mpi_job0") auto
  have "\<exists>msg. deletePodsAndServices quiet_world (tj_RunPolicy job2) [pod0 ''worker'' ''0'' PodRunning] [] = (Some (Panic msg), [])"
    using mpi_clean_policy_nil [where E = mpi_env0 and job = mpi_job0 and converted = mpi_job0 and dag = True and completed = job2 and
      leg = undefined and W = quiet_world and p = "pod0 ''worker'' ''0'' PodRunning" and ps = "[]" and h = "[]"] l d
    by (simp add: mpi_job0_def empty_run_policy_def)
  with d show ?thesis
    using mpi_clean_policy_nil [where E = mpi_env0 and leg = "\<lparr>leg_RunPolicy = None, leg_V1Alpha1 = Some legacy0, leg_V1Alpha2 = None\<rparr>"
      and job = "mpi_job0\<lparr>mpi_Legacy := Some \<lparr>leg_RunPolicy = None, leg_V1Alpha1 = Some legacy0, leg_V1Alpha2 = None\<rparr>\<rparr>"
      and converted = undefined and dag = True and completed = undefined and W = quiet_world and p = undefined and ps = "[]" and h = "[]"]
    by simp
qed

end
