(* ===== verification/Code_Sync.thy ===== *)
theory Code_Sync
  imports Cluster_Laws
begin

text \<open>
  The injection of source code into the pods of a job (\<open>pkg/code_sync\<close>): an init container checks the
  code out into a shared volume that every container mounts below its working directory. The decoding of
  the configuration from JSON is a parameter.
\<close>

subsection \<open>Strings and paths\<close>

definition trim_slashes :: "string \<Rightarrow> string" where
  "trim_slashes s = rev (dropWhile (\<lambda>c. c = CHR ''/'') (rev (dropWhile (\<lambda>c. c = CHR ''/'') s)))"

fun split_slash :: "string \<Rightarrow> string list" where
  "split_slash [] = [[]]"
| "split_slash (c # cs) =
     (case split_slash cs of
        [] \<Rightarrow> [[c]]
      | p # ps \<Rightarrow> if c = CHR ''/'' then [] # p # ps else (c # p) # ps)"

definition TrimSuffix :: "string \<Rightarrow> string \<Rightarrow> string" where
  "TrimSuffix s suffix =
     (if length suffix \<le> length s \<and> drop (length s - length suffix) s = suffix then take (length s - length suffix) s else s)"

text \<open>
  \<open>path.Join\<close> joins the elements that are not empty and cleans the result: empty and dot elements go, a
  double dot removes the element before it, and is dropped at a root.
\<close>

definition clean_step :: "bool \<Rightarrow> string list \<Rightarrow> string \<Rightarrow> string list" where
  "clean_step rooted stack p =
     (if p = [] \<or> p = ''.'' then stack
      else if p = ''..'' then
        (case stack of
           q # qs \<Rightarrow> if q = ''..'' then p # stack else qs
         | [] \<Rightarrow> if rooted then [] else [p])
      else p # stack)"

fun join_slash :: "string list \<Rightarrow> string" where
  "join_slash [] = []"
| "join_slash [p] = p"
| "join_slash (p # ps) = p @ ''/'' @ join_slash ps"

definition path_Clean :: "string \<Rightarrow> string" where
  "path_Clean s =
     (if s = [] then ''.''
      else let rooted = (hd s = CHR ''/'');
               body = join_slash (rev (foldl (clean_step rooted) [] (split_slash s)))
           in if rooted then ''/'' @ body else if body = [] then ''.'' else body)"

definition path_Join :: "string list \<Rightarrow> string" where
  "path_Join elems =
     (let es = filter (\<lambda>e. e \<noteq> []) elems in if es = [] then [] else path_Clean (join_slash es))"

subsection \<open>Options\<close>

record gitSyncOptions =
  so_Source :: string
  so_Image :: string
  so_RootPath :: string
  so_DestPath :: string
  so_Envs :: "(string \<times> env_value) list"
  so_Branch :: string
  so_Revision :: string
  so_Depth :: string
  so_MaxFailures :: int
  so_SSH :: bool
  so_SSHFile :: string
  so_User :: string
  so_Password :: string

definition AnnotationGitSyncConfig :: string where "AnnotationGitSyncConfig = ''kubedl.io/git-sync-config''"
definition DefaultCodeRootPath :: string where "DefaultCodeRootPath = ''/code''"
definition defaultGitSyncImage :: string where "defaultGitSyncImage = ''kubedl/git-sync:v1''"

definition setDefaultSyncOpts :: "gitSyncOptions \<Rightarrow> gitSyncOptions" where
  "setDefaultSyncOpts opts =
     opts\<lparr>so_RootPath := (if so_RootPath opts = [] then DefaultCodeRootPath else so_RootPath opts),
          so_DestPath := (if so_DestPath opts = [] then TrimSuffix (last (split_slash (trim_slashes (so_Source opts)))) ''.git''
                          else so_DestPath opts),
          so_Image := (if so_Image opts = [] then defaultGitSyncImage else so_Image opts),
          so_MaxFailures := (if so_MaxFailures opts = 0 then 3 else so_MaxFailures opts)\<rparr>"

definition opt_env :: "bool \<Rightarrow> string \<Rightarrow> string \<Rightarrow> (string \<times> env_value) list" where
  "opt_env b n v = (if b then [(n, EnvValue v)] else [])"

definition sync_envs :: "gitSyncOptions \<Rightarrow> (string \<times> env_value) list" where
  "sync_envs opts =
     [(''GIT_SYNC_REPO'', EnvValue (so_Source opts)), (''GIT_SYNC_ONE_TIME'', EnvValue ''true'')] @
     opt_env (so_MaxFailures opts \<ge> 0) ''GIT_SYNC_MAX_SYNC_FAILURES'' (Itoa (so_MaxFailures opts)) @
     opt_env (so_Branch opts \<noteq> []) ''GIT_SYNC_BRANCH'' (so_Branch opts) @
     opt_env (so_Revision opts \<noteq> []) ''GIT_SYNC_REV'' (so_Revision opts) @
     opt_env (so_Depth opts \<noteq> []) ''GIT_SYNC_DEPTH'' (so_Depth opts) @
     opt_env (so_RootPath opts \<noteq> []) ''GIT_SYNC_ROOT'' (so_RootPath opts) @
     opt_env (so_DestPath opts \<noteq> []) ''GIT_SYNC_DEST'' (so_DestPath opts) @
     opt_env (so_SSH opts) ''GIT_SYNC_SSH'' ''true'' @
     opt_env (so_SSH opts \<and> so_SSHFile opts \<noteq> []) ''GIT_SSH_KEY_FILE'' (so_SSHFile opts) @
     opt_env (so_User opts \<noteq> []) ''GIT_SYNC_USERNAME'' (so_User opts) @
     opt_env (so_Password opts \<noteq> []) ''GIT_SYNC_PASSWORD'' (so_Password opts)"

definition setSyncOptsEnvs :: "gitSyncOptions \<Rightarrow> gitSyncOptions" where
  "setSyncOptsEnvs opts = opts\<lparr>so_Envs := so_Envs opts @ sync_envs opts\<rparr>"

subsection \<open>Injection\<close>

definition git_InitContainer :: "(string \<Rightarrow> go_error + gitSyncOptions) \<Rightarrow> string \<Rightarrow> string \<Rightarrow> go_error + container \<times> string" where
  "git_InitContainer unmarshal cfg volume =
     (case unmarshal cfg of
        Inl e \<Rightarrow> Inl e
      | Inr opts0 \<Rightarrow>
          (let opts = setSyncOptsEnvs (setDefaultSyncOpts opts0) in
           Inr (\<lparr>ct_Name = ''git-sync-code'', ct_Ports = [], ct_Env = so_Envs opts,
                 ct_VolumeMounts = [\<lparr>vm_Name = volume, vm_MountPath = so_RootPath opts, vm_SubPath = []\<rparr>],
                 ct_Requests = [], ct_Limits = [], ct_Image = so_Image opts, ct_Command = [], ct_Args = [], ct_WorkingDir = [],
                 ct_ImagePullPolicy = ''IfNotPresent'', ct_TerminationMessagePolicy = []\<rparr>, so_DestPath opts)))"

definition inject_spec :: "container \<Rightarrow> string \<Rightarrow> string \<Rightarrow> ReplicaSpec \<Rightarrow> go_error + ReplicaSpec" where
  "inject_spec ic dest volume spec =
     (let ps = pt_Spec (Template spec) in
      case ps_Containers ps of
        [] \<Rightarrow> Inl index_panic
      | c0 # cs \<Rightarrow>
          Inr (spec\<lparr>Template := (Template spec)\<lparr>pt_Spec := ps\<lparr>
            ps_InitContainers := ps_InitContainers ps @ [ic\<lparr>ct_Requests := ct_Requests c0, ct_Limits := ct_Limits c0\<rparr>],
            ps_Volumes := ps_Volumes ps @ [(volume, EmptyDirSource False None)],
            ps_Containers := map (\<lambda>c. c\<lparr>ct_VolumeMounts := ct_VolumeMounts c @
              [\<lparr>vm_Name = volume, vm_MountPath = path_Join [ct_WorkingDir c, dest], vm_SubPath = dest\<rparr>]\<rparr>) (c0 # cs)\<rparr>\<rparr>\<rparr>))"

fun inject_specs :: "container \<Rightarrow> string \<Rightarrow> string \<Rightarrow> replica_specs \<Rightarrow> go_error + replica_specs" where
  "inject_specs ic dest volume [] = Inr []"
| "inject_specs ic dest volume ((t, s) # specs) =
     (case inject_spec ic dest volume s of
        Inl e \<Rightarrow> Inl e
      | Inr s1 \<Rightarrow> (case inject_specs ic dest volume specs of Inl e \<Rightarrow> Inl e | Inr rest \<Rightarrow> Inr ((t, s1) # rest)))"

definition injectCodeSyncInitContainer ::
    "(string \<Rightarrow> go_error + gitSyncOptions) \<Rightarrow> string \<Rightarrow> replica_specs \<Rightarrow> string \<Rightarrow> go_error + replica_specs" where
  "injectCodeSyncInitContainer unmarshal cfg specs volume =
     (case git_InitContainer unmarshal cfg volume of
        Inl e \<Rightarrow> Inl e
      | Inr (ic, dest) \<Rightarrow> inject_specs ic dest volume specs)"

definition InjectCodeSyncInitContainers ::
    "(string \<Rightarrow> go_error + gitSyncOptions) \<Rightarrow> job_meta \<Rightarrow> replica_specs \<Rightarrow> go_error + replica_specs" where
  "InjectCodeSyncInitContainers unmarshal job specs =
     (case jm_Annotations job AnnotationGitSyncConfig of
        None \<Rightarrow> Inr specs
      | Some cfg \<Rightarrow> injectCodeSyncInitContainer unmarshal cfg specs ''git-sync'')"

subsection \<open>The checked out code is the mounted code\<close>

lemma sync_env_read:
  fixes c opts
  assumes "ct_Env c = us @ sync_envs opts"
  shows "getenv c ''GIT_SYNC_ONE_TIME'' = Some (EnvValue ''true'')"
    and "getenv c ''GIT_SYNC_REPO'' = Some (EnvValue (so_Source opts))"
    and "so_RootPath opts \<noteq> [] \<Longrightarrow> getenv c ''GIT_SYNC_ROOT'' = Some (EnvValue (so_RootPath opts))"
    and "so_DestPath opts \<noteq> [] \<Longrightarrow> getenv c ''GIT_SYNC_DEST'' = Some (EnvValue (so_DestPath opts))"
  using assms by (simp_all add: getenv_def sync_envs_def opt_env_def map_add_def)

lemma inject_specs_nth:
  "inject_specs ic dest vol specs = Inr specs' \<Longrightarrow> length specs' = length specs \<and>
     (\<forall>i < length specs. fst (specs' ! i) = fst (specs ! i) \<and> inject_spec ic dest vol (snd (specs ! i)) = Inr (snd (specs' ! i)))"
proof (induction specs arbitrary: specs')
  case (Cons p specs)
  obtain t s where p: "p = (t, s)" by (cases p)
  from Cons.prems obtain s1 rest where s1: "inject_spec ic dest vol s = Inr s1" "inject_specs ic dest vol specs = Inr rest"
    "specs' = (t, s1) # rest" by (auto simp: p split: sum.splits)
  with Cons.IH [OF s1(2)] show ?case by (auto simp: p nth_Cons split: nat.splits)
qed simp

definition synced :: "gitSyncOptions \<Rightarrow> ReplicaSpec \<Rightarrow> ReplicaSpec \<Rightarrow> bool" where
  "synced opts s s' \<longleftrightarrow>
     (let ps = pt_Spec (Template s); ps' = pt_Spec (Template s'); o1 = setDefaultSyncOpts opts in
      \<exists>ic. ps_InitContainers ps' = ps_InitContainers ps @ [ic] \<and> ct_Requests ic = ct_Requests (hd (ps_Containers ps)) \<and>
        getenv ic ''GIT_SYNC_ONE_TIME'' = Some (EnvValue ''true'') \<and> getenv ic ''GIT_SYNC_REPO'' = Some (EnvValue (so_Source opts)) \<and>
        getenv ic ''GIT_SYNC_ROOT'' = Some (EnvValue (vm_MountPath (hd (ct_VolumeMounts ic)))) \<and>
        (so_DestPath o1 = [] \<or> getenv ic ''GIT_SYNC_DEST'' = Some (EnvValue (so_DestPath o1))) \<and>
        ps_Volumes ps' = ps_Volumes ps @ [(vm_Name (hd (ct_VolumeMounts ic)), EmptyDirSource False None)] \<and>
        ps_Containers ps' = map (\<lambda>c. c\<lparr>ct_VolumeMounts := ct_VolumeMounts c @
          [\<lparr>vm_Name = vm_Name (hd (ct_VolumeMounts ic)), vm_MountPath = path_Join [ct_WorkingDir c, so_DestPath o1],
            vm_SubPath = so_DestPath o1\<rparr>]\<rparr>) (ps_Containers ps))"

lemma inject_synced:
  assumes "git_InitContainer unmarshal cfg vol = Inr (ic, dest)" "unmarshal cfg = Inr opts" "inject_spec ic dest vol s = Inr s'"
  shows "synced opts s s'"
proof -
  let ?o = "setDefaultSyncOpts opts"
  from assms(1,2) have ic: "ct_Env ic = so_Envs ?o @ sync_envs ?o" "dest = so_DestPath ?o"
    "ct_VolumeMounts ic = [\<lparr>vm_Name = vol, vm_MountPath = so_RootPath ?o, vm_SubPath = []\<rparr>]"
    by (auto simp: git_InitContainer_def setSyncOptsEnvs_def Let_def sync_envs_def)
  from assms(3) obtain c0 cs where cs: "ps_Containers (pt_Spec (Template s)) = c0 # cs"
    by (auto simp: inject_spec_def Let_def split: list.splits)
  let ?ic = "ic\<lparr>ct_Requests := ct_Requests c0, ct_Limits := ct_Limits c0\<rparr>"
  have e: "ct_Env ?ic = so_Envs ?o @ sync_envs ?o" using ic by simp
  have root: "so_RootPath ?o \<noteq> []" by (simp add: setDefaultSyncOpts_def DefaultCodeRootPath_def)
  have src: "so_Source ?o = so_Source opts" by (simp add: setDefaultSyncOpts_def)
  note reads = sync_env_read [OF e]
  have "s' = s\<lparr>Template := (Template s)\<lparr>pt_Spec := (pt_Spec (Template s))\<lparr>
      ps_InitContainers := ps_InitContainers (pt_Spec (Template s)) @ [?ic],
      ps_Volumes := ps_Volumes (pt_Spec (Template s)) @ [(vol, EmptyDirSource False None)],
      ps_Containers := map (\<lambda>c. c\<lparr>ct_VolumeMounts := ct_VolumeMounts c @
              [\<lparr>vm_Name = vol, vm_MountPath = path_Join [ct_WorkingDir c, dest], vm_SubPath = dest\<rparr>]\<rparr>) (c0 # cs)\<rparr>\<rparr>\<rparr>"
    using assms(3) by (simp add: inject_spec_def Let_def cs)
  then show ?thesis
    unfolding synced_def Let_def using reads(1,2) reads(3) [OF root] reads(4) ic(2,3) cs src
    by (intro exI [of _ ?ic]) auto
qed

text \<open>
  Code synchronisation, for every configuration that is accepted. Each replica spec keeps its type and
  gets one more init container with the resources of its first container. The init container ends after
  one synchronisation and fetches the configured source, also if the user sets these variables; it checks
  out into the volume that is added to the pod; and every container of the pod mounts exactly the
  checked out directory below its working directory. Without configuration nothing changes.
\<close>

theorem code_sync_mounts:
  "(jm_Annotations job AnnotationGitSyncConfig = None \<longrightarrow> InjectCodeSyncInitContainers unmarshal job specs = Inr specs) \<and>
   (\<forall>cfg opts specs'. jm_Annotations job AnnotationGitSyncConfig = Some cfg \<and> unmarshal cfg = Inr opts \<and>
      InjectCodeSyncInitContainers unmarshal job specs = Inr specs' \<longrightarrow>
      length specs' = length specs \<and>
      (\<forall>i < length specs. fst (specs' ! i) = fst (specs ! i) \<and> synced opts (snd (specs ! i)) (snd (specs' ! i))))"
proof (intro conjI allI impI; (elim conjE)?)
  assume "jm_Annotations job AnnotationGitSyncConfig = None"
  then show "InjectCodeSyncInitContainers unmarshal job specs = Inr specs" by (simp add: InjectCodeSyncInitContainers_def)
next
  fix cfg opts specs'
  assume a: "jm_Annotations job AnnotationGitSyncConfig = Some cfg" "unmarshal cfg = Inr opts"
    "InjectCodeSyncInitContainers unmarshal job specs = Inr specs'"
  then obtain ic dest where g: "git_InitContainer unmarshal cfg ''git-sync'' = Inr (ic, dest)"
    and i: "inject_specs ic dest ''git-sync'' specs = Inr specs'"
    by (auto simp: InjectCodeSyncInitContainers_def injectCodeSyncInitContainer_def split: sum.splits)
  note nth = inject_specs_nth [OF i]
  show "length specs' = length specs" using nth by blast
  show "fst (specs' ! k) = fst (specs ! k)" if "k < length specs" for k using nth that by blast
  show "synced opts (snd (specs ! k)) (snd (specs' ! k))" if "k < length specs" for k
    using inject_synced [OF g a(2)] nth that by blast
qed

definition sync0 :: gitSyncOptions where
  "sync0 = \<lparr>so_Source = ''https://github.com/kubedl-io/kubedl.git/'', so_Image = [], so_RootPath = [], so_DestPath = [],
     so_Envs = [(''GIT_SYNC_ONE_TIME'', EnvValue ''false'')], so_Branch = [], so_Revision = [], so_Depth = [], so_MaxFailures = 0,
     so_SSH = False, so_SSHFile = [], so_User = [], so_Password = []\<rparr>"

text \<open>The directory is named after the repository; the user cannot make the init container run on.\<close>

theorem code_sync_mounts_witness:
  "so_DestPath (setDefaultSyncOpts sync0) = ''kubedl'' \<and>
   (\<exists>specs'. InjectCodeSyncInitContainers (\<lambda>s. Inr sync0) (job0\<lparr>jm_Annotations := [AnnotationGitSyncConfig \<mapsto> ''cfg'']\<rparr>)
       [(''Worker'', peer_spec ''pytorch'' ''p'' 2)] = Inr specs' \<and> length specs' = 1 \<and>
     synced sync0 (peer_spec ''pytorch'' ''p'' 2) (snd (specs' ! 0)))"
proof -
  let ?job = "job0\<lparr>jm_Annotations := [AnnotationGitSyncConfig \<mapsto> ''cfg'']\<rparr>"
  have d: "so_DestPath (setDefaultSyncOpts sync0) = ''kubedl''" by code_simp
  obtain specs' where s: "InjectCodeSyncInitContainers (\<lambda>s. Inr sync0) ?job [(''Worker'', peer_spec ''pytorch'' ''p'' 2)] = Inr specs'"
    by (simp add: InjectCodeSyncInitContainers_def injectCodeSyncInitContainer_def git_InitContainer_def Let_def inject_spec_def
        peer_spec_def peer_template_def)
  then show ?thesis
    using code_sync_mounts [of ?job "\<lambda>s. Inr sync0" "[(''Worker'', peer_spec ''pytorch'' ''p'' 2)]"] d by auto
qed

end
