(* ===== verification/Tensor_Board.thy ===== *)
theory Tensor_Board
  imports Reconcile_Safety Code_Sync
begin

text \<open>
  The TensorBoard that a TensorFlow job may ask for in an annotation (\<open>pkg/tensorboard/tensorboard.go\<close>):
  a pod, a service and an ingress beside the replicas of the job, kept as long as the annotation is
  there and removed a while after the job is finished. The decoding of the annotation is a parameter.
\<close>

definition AnnotationTensorBoardConfig :: string where
  "AnnotationTensorBoardConfig = KubeDLPrefix @ ''/tensorboard-config''"
definition ReplicaTypeTensorBoard :: ReplicaType where "ReplicaTypeTensorBoard = ''TensorBoard''"
definition tbRT :: string where "tbRT = ''tensorboard''"
definition tb_port :: int where "tb_port = 6006"
definition ReplicaNameLabel :: string where "ReplicaNameLabel = ''replica-name''"

record IngressSpec =
  ig_Host :: "string option"
  ig_PathPrefix :: "string option"
  ig_Annotations :: "(string \<times> string) list option"

record TensorBoard =
  tb_LogDir :: string
  tb_TTLSecondsAfterJobFinished :: int
  tb_UpdateTimestamp :: time
  tb_Image :: "string option"
  tb_Ingress :: "IngressSpec option"

text \<open>The zero value, which an object without the annotation is compared with.\<close>

definition zero_TensorBoard :: "time \<Rightarrow> TensorBoard" where
  "zero_TensorBoard t = \<lparr>tb_LogDir = [], tb_TTLSecondsAfterJobFinished = 0, tb_UpdateTimestamp = t, tb_Image = None, tb_Ingress = None\<rparr>"

text \<open>\<open>reflect.DeepEqual\<close>: maps are compared as maps, and a nil map differs from an empty one.\<close>

definition same_ingress :: "IngressSpec option \<Rightarrow> IngressSpec option \<Rightarrow> bool" where
  "same_ingress x y =
     (case (x, y) of
        (None, None) \<Rightarrow> True
      | (Some a, Some b) \<Rightarrow>
          ig_Host a = ig_Host b \<and> ig_PathPrefix a = ig_PathPrefix b \<and>
          (case (ig_Annotations a, ig_Annotations b) of
             (None, None) \<Rightarrow> True
           | (Some p, Some q) \<Rightarrow> same_map p q
           | _ \<Rightarrow> False)
      | _ \<Rightarrow> False)"

definition same_TensorBoard :: "TensorBoard \<Rightarrow> TensorBoard \<Rightarrow> bool" where
  "same_TensorBoard a b \<longleftrightarrow>
     tb_LogDir a = tb_LogDir b \<and> tb_TTLSecondsAfterJobFinished a = tb_TTLSecondsAfterJobFinished b \<and>
     tb_UpdateTimestamp a = tb_UpdateTimestamp b \<and> tb_Image a = tb_Image b \<and> same_ingress (tb_Ingress a) (tb_Ingress b)"

type_synonym tb_decoder = "string \<Rightarrow> go_error + TensorBoard"

definition IsControlledBy :: "owner_ref list \<Rightarrow> job_meta \<Rightarrow> bool" where
  "IsControlledBy refs job =
     (case GetControllerOf refs of None \<Rightarrow> False | Some r \<Rightarrow> or_UID r = jm_UID job)"

definition tb_name :: "job_meta \<Rightarrow> string" where
  "tb_name job = GenGeneralName (jm_Name job) tbRT (Itoa 0)"

text \<open>
  Whether the configuration an object carries differs from the wanted one; the time of the last
  update is not compared.
\<close>

definition config_changed :: "tb_decoder \<Rightarrow> TensorBoard \<Rightarrow> smap \<Rightarrow> go_error + bool" where
  "config_changed decode opts annotations =
     (case annotations AnnotationTensorBoardConfig of
        None \<Rightarrow> Inr (\<not> same_TensorBoard (zero_TensorBoard (tb_UpdateTimestamp opts)) opts)
      | Some oldCfg \<Rightarrow>
          (case decode oldCfg of
             Inl e \<Rightarrow> Inl e
           | Inr old \<Rightarrow> Inr (\<not> same_TensorBoard (old\<lparr>tb_UpdateTimestamp := tb_UpdateTimestamp opts\<rparr>) opts)))"

subsection \<open>Time to live\<close>

definition tb_delete_time :: "TensorBoard \<Rightarrow> time \<Rightarrow> time" where
  "tb_delete_time opts completed =
     (let duration = i64 (second * tb_TTLSecondsAfterJobFinished opts) in
      if completed < tb_UpdateTimestamp opts then tb_UpdateTimestamp opts + duration else completed + duration)"

text \<open>The object is written back as it is in memory, without the annotation.\<close>

definition cleanupAndCheckNeedSync ::
    "outside \<Rightarrow> job_meta \<Rightarrow> replica_specs \<Rightarrow> JobStatus \<Rightarrow> Result \<Rightarrow> TensorBoard \<Rightarrow> hist \<Rightarrow>
     ((go_error + bool) \<times> Result) \<times> hist" where
  "cleanupAndCheckNeedSync W job specs st result opts h =
     (if IsSucceeded st \<or> IsFailed st
      then (case CompletionTime st of
              None \<Rightarrow> ((Inl (Err ''cleanup TensorBoard, but job has CompletionTime not set''), result), h)
            | Some completed \<Rightarrow>
                (let currentTime = out_now W h; deleteTime = tb_delete_time opts completed in
                 if currentTime > deleteTime
                 then (case update_job W (job\<lparr>jm_Annotations := (jm_Annotations job)(AnnotationTensorBoardConfig := None)\<rparr>) specs h of
                         (Inl e, h1) \<Rightarrow> ((Inl e, result), h1)
                       | (Inr x, h1) \<Rightarrow> ((Inr False, result), h1))
                 else (let after = sat64 (deleteTime - currentTime) in
                       ((Inr True,
                         \<lparr>Requeue = True,
                          RequeueAfter = (if RequeueAfter result > after \<or> RequeueAfter result = 0 then after else RequeueAfter result)\<rparr>),
                        h))))
      else ((Inr True, result), h))"

subsection \<open>The pod\<close>

fun set_value :: "string \<Rightarrow> env_value \<Rightarrow> env_value" where
  "set_value v (EnvValue _) = EnvValue v"
| "set_value v (EnvFieldRef p) = EnvValueAndRef v p"
| "set_value v (EnvValueAndRef _ p) = EnvValueAndRef v p"

fun setEnv :: "(string \<times> env_value) list \<Rightarrow> string \<Rightarrow> string \<Rightarrow> (string \<times> env_value) list" where
  "setEnv [] key v = [(key, EnvValue v)]"
| "setEnv ((n, e) # env) key v = (if n = key then (n, set_value v e) # env else (n, e) # setEnv env key v)"

definition tb_path :: "TensorBoard \<Rightarrow> job_meta \<Rightarrow> string" where
  "tb_path opts job =
     path_Join [''/'', (case tb_Ingress opts of None \<Rightarrow> [] | Some i \<Rightarrow> (case ig_PathPrefix i of None \<Rightarrow> [] | Some p \<Rightarrow> p)),
                jm_Namespace job, jm_Name job]"

definition tb_container :: "TensorBoard \<Rightarrow> job_meta \<Rightarrow> container \<Rightarrow> container" where
  "tb_container opts job c =
     c\<lparr>ct_Name := ''tensorboard'', ct_Env := setEnv (ct_Env c) ''NVIDIA_VISIBLE_DEVICES'' [],
       ct_Image := (case tb_Image opts of None \<Rightarrow> ct_Image c | Some i \<Rightarrow> if i = [] then ct_Image c else i),
       ct_Command := [''/bin/sh'', ''-c'',
         ''python -m tensorboard.main --logdir '' @ tb_LogDir opts @ '' --path_prefix '' @ tb_path opts job @ '' --host=`hostname`''],
       ct_Requests := [], ct_Limits := [],
       ct_Ports := [\<lparr>cp_Name = [], cp_HostPort = 0, cp_ContainerPort = tb_port\<rparr>]\<rparr>"

definition tb_template :: "JobController \<Rightarrow> TensorBoard \<Rightarrow> string \<Rightarrow> job_meta \<Rightarrow> pod_template \<Rightarrow> pod_template" where
  "tb_template jc opts cfg job t =
     t\<lparr>pt_Labels := MergeMap (pt_Labels t)
         [ReplicaTypeLabel \<mapsto> tbRT, ReplicaIndexLabel \<mapsto> Itoa 0, ReplicaNameLabel \<mapsto> tb_name job, JobNameLabel \<mapsto> jm_Name job],
       pt_Annotations := (pt_Annotations t)(AnnotationTensorBoardConfig \<mapsto> cfg),
       pt_Spec := (pt_Spec t)\<lparr>ps_RestartPolicy := RestartPolicyAlways,
         ps_Containers := map (\<lambda>c. if ct_Name c = ci_ContainerName (Controller jc) then tb_container opts job c else c)
                            (ps_Containers (pt_Spec t))\<rparr>\<rparr>"

definition create_tb_pod ::
    "JobController \<Rightarrow> job_meta \<Rightarrow> ReplicaSpec option \<Rightarrow> TensorBoard \<Rightarrow> string \<Rightarrow> hist \<Rightarrow> go_error option \<times> hist" where
  "create_tb_pod jc job spec opts cfg h =
     (case spec of
        None \<Rightarrow> (Some (Panic ''nil ReplicaSpec''), h)
      | Some s \<Rightarrow> CreatePod jc job tbRT (Itoa 0) (tb_template jc opts cfg job (Template s)) False h)"

definition syncPod ::
    "tb_decoder \<Rightarrow> JobController \<Rightarrow> job_meta \<Rightarrow> ReplicaSpec option \<Rightarrow> TensorBoard \<Rightarrow> string \<Rightarrow> hist \<Rightarrow> go_error option \<times> hist" where
  "syncPod decode jc job spec opts cfg h =
     (let W = World jc; h1 = emit (GetPod (jm_Namespace job) (tb_name job)) h in
      case out_get_pod W h (jm_Namespace job) (tb_name job) of
        Inr p \<Rightarrow>
          if \<not> IsControlledBy (pod_OwnerReferences p) job then (Some (Err ''sync TensorBoard pod conflict''), h1)
          else (case config_changed decode opts (pod_Annotations p) of
                  Inl e \<Rightarrow> (Some e, h1)
                | Inr False \<Rightarrow> (None, h1)
                | Inr True \<Rightarrow>
                    (case api_write W (DeletePodCall p) h1 of
                       (Some e, h2) \<Rightarrow> (Some e, h2)
                     | (None, h2) \<Rightarrow> create_tb_pod jc job spec opts cfg h2))
      | Inl e \<Rightarrow> if IsNotFound e then create_tb_pod jc job spec opts cfg h1 else (Some e, h1))"

subsection \<open>The service\<close>

definition tb_service :: "job_meta \<Rightarrow> service" where
  "tb_service job =
     (let labels = [ReplicaTypeLabel \<mapsto> tbRT, ReplicaIndexLabel \<mapsto> Itoa 0, ReplicaNameLabel \<mapsto> tb_name job] in
      \<lparr>svc_Name = [], svc_Namespace = [], svc_UID = [], svc_Labels = MergeMap Map.empty labels, svc_OwnerReferences = [],
       svc_DeletionTimestamp = None, svc_ResourceVersion = [], svc_ClusterIP = ''None'', svc_Selector = labels,
       svc_Ports = [\<lparr>sp_Name = ''tensorboard'', sp_Port = tb_port, sp_TargetPort = 0\<rparr>]\<rparr>)"

definition syncService :: "JobController \<Rightarrow> job_meta \<Rightarrow> hist \<Rightarrow> go_error option \<times> hist" where
  "syncService jc job h =
     (let h1 = emit (GetService (jm_Namespace job) (tb_name job)) h in
      case out_get_service (World jc) h (jm_Namespace job) (tb_name job) of
        Inr s \<Rightarrow>
          if \<not> IsControlledBy (svc_OwnerReferences s) job then (Some (Err ''sync TensorBoard service conflict''), h1)
          else (None, h1)
      | Inl e \<Rightarrow>
          if IsNotFound e then CreateService jc job ReplicaTypeTensorBoard (tb_service job) (Itoa 0) h1 else (Some e, h1))"

subsection \<open>The ingress\<close>

definition tb_ingress :: "JobController \<Rightarrow> job_meta \<Rightarrow> TensorBoard \<Rightarrow> IngressSpec \<Rightarrow> string \<Rightarrow> ingress" where
  "tb_ingress jc job opts spec cfg =
     \<lparr>in_Name = tb_name job, in_Namespace = jm_Namespace job,
      in_Labels = (GenLabels jc (jm_Name job))(ReplicaTypeLabel \<mapsto> tbRT, ReplicaIndexLabel \<mapsto> Itoa 0),
      in_Annotations = (case ig_Annotations spec of None \<Rightarrow> Map.empty | Some as \<Rightarrow> map_of as)
        (AnnotationTensorBoardConfig \<mapsto> cfg, ''kubernetes.io/ingress.class'' \<mapsto> ''nginx''),
      in_OwnerReferences = [GenOwnerReference jc job], in_Host = [],
      in_Paths = [(tb_path opts job @ ''/'', True, tb_name job, tb_port)]\<rparr>"

definition syncIngress ::
    "tb_decoder \<Rightarrow> JobController \<Rightarrow> job_meta \<Rightarrow> TensorBoard \<Rightarrow> string \<Rightarrow> hist \<Rightarrow> go_error option \<times> hist" where
  "syncIngress decode jc job opts cfg h =
     (case tb_Ingress opts of
        None \<Rightarrow> (None, h)
      | Some spec \<Rightarrow>
          (let W = World jc; h1 = emit (GetIngress (jm_Namespace job) (tb_name job)) h;
               create = api_write W (CreateIngressCall (tb_ingress jc job opts spec cfg)) in
           case out_get_ingress W h (jm_Namespace job) (tb_name job) of
             Inr i \<Rightarrow>
               if \<not> IsControlledBy (in_OwnerReferences i) job then (Some (Err ''sync TensorBoard ingress conflict''), h1)
               else (case config_changed decode opts (in_Annotations i) of
                       Inl e \<Rightarrow> (Some e, h1)
                     | Inr False \<Rightarrow> (None, h1)
                     | Inr True \<Rightarrow>
                         (case api_write W (DeleteIngressCall i) h1 of
                            (Some e, h2) \<Rightarrow> (Some e, h2)
                          | (None, h2) \<Rightarrow> create h2))
           | Inl e \<Rightarrow> if IsNotFound e then create h1 else (Some e, h1)))"

subsection \<open>Removal\<close>

text \<open>One step of the removal: an object that exists and belongs to the job is deleted.\<close>

definition drop_owned ::
    "outside \<Rightarrow> job_meta \<Rightarrow> call \<Rightarrow> (go_error + 'a) \<Rightarrow> ('a \<Rightarrow> owner_ref list) \<Rightarrow> ('a \<Rightarrow> call) \<Rightarrow> hist \<Rightarrow> go_error option \<times> hist" where
  "drop_owned W job get answer refs del h =
     (let h1 = emit get h in
      case answer of
        Inr x \<Rightarrow> if IsControlledBy (refs x) job then api_write W (del x) h1 else (None, h1)
      | Inl e \<Rightarrow> if IsNotFound e then (None, h1) else (Some e, h1))"

definition deleteTensorBoard :: "JobController \<Rightarrow> job_meta \<Rightarrow> hist \<Rightarrow> go_error option \<times> hist" where
  "deleteTensorBoard jc job h =
     (let W = World jc; ns = jm_Namespace job; name = tb_name job in
      case drop_owned W job (GetIngress ns name) (out_get_ingress W h ns name) in_OwnerReferences DeleteIngressCall h of
        (Some e, h1) \<Rightarrow> (Some e, h1)
      | (None, h1) \<Rightarrow>
          (case drop_owned W job (GetService ns name) (out_get_service W h1 ns name) svc_OwnerReferences DeleteServiceCall h1 of
             (Some e, h2) \<Rightarrow> (Some e, h2)
           | (None, h2) \<Rightarrow>
               drop_owned W job (GetPod ns name) (out_get_pod W h2 ns name) pod_OwnerReferences DeletePodCall h2))"

subsection \<open>The whole\<close>

definition ReconcileTensorBoard ::
    "tb_decoder \<Rightarrow> JobController \<Rightarrow> job_meta \<Rightarrow> replica_specs \<Rightarrow> ReplicaSpec option \<Rightarrow> JobStatus \<Rightarrow> Result \<Rightarrow> hist \<Rightarrow>
     (Result \<times> go_error option) \<times> hist" where
  "ReconcileTensorBoard decode jc job specs spec st result h =
     (case jm_Annotations job AnnotationTensorBoardConfig of
        None \<Rightarrow> (case deleteTensorBoard jc job h of (err, h1) \<Rightarrow> ((result, err), h1))
      | Some cfg \<Rightarrow>
          (case decode cfg of
             Inl e \<Rightarrow> ((result, Some e), h)
           | Inr opts \<Rightarrow>
               (case cleanupAndCheckNeedSync (World jc) job specs st result opts h of
                  ((Inl e, result1), h1) \<Rightarrow> ((result1, Some e), h1)
                | ((Inr False, result1), h1) \<Rightarrow> ((result1, None), h1)
                | ((Inr True, result1), h1) \<Rightarrow>
                    (case syncPod decode jc job spec opts cfg h1 of
                       (Some e, h2) \<Rightarrow> ((result1, Some e), h2)
                     | (None, h2) \<Rightarrow>
                         (case syncService jc job h2 of
                            (Some e, h3) \<Rightarrow> ((result1, Some e), h3)
                          | (None, h3) \<Rightarrow>
                              (case syncIngress decode jc job opts cfg h3 of (err, h4) \<Rightarrow> ((result1, err), h4)))))))"

subsection \<open>What it deletes and creates\<close>

text \<open>
  A call is within the bounds of the TensorBoard of a job if it deletes objects of the job only, creates
  no pod but the one of the TensorBoard and writes no status.
\<close>

definition tb_call :: "job_meta \<Rightarrow> call \<Rightarrow> bool" where
  "tb_call job c =
     (case c of
        DeletePodCall p \<Rightarrow> IsControlledBy (pod_OwnerReferences p) job
      | DeleteServiceCall s \<Rightarrow> IsControlledBy (svc_OwnerReferences s) job
      | DeleteIngressCall i \<Rightarrow> IsControlledBy (in_OwnerReferences i) job
      | CreatePodCall p \<Rightarrow> pod_Name p = tb_name job
      | CreateServiceCall s \<Rightarrow> svc_Name s = tb_name job
      | CreateIngressCall i \<Rightarrow> in_Name i = tb_name job
      | UpdateStatusCall j st \<Rightarrow> False
      | DeleteJobCall j \<Rightarrow> False
      | _ \<Rightarrow> True)"

definition tb_bounded :: "job_meta \<Rightarrow> hist \<Rightarrow> hist \<Rightarrow> bool" where
  "tb_bounded job h h' \<longleftrightarrow> (\<exists>cs. h' = h @ cs \<and> list_all (tb_call job) cs)"

lemma tb_bounded_refl [simp]: "tb_bounded job h h"
  by (simp add: tb_bounded_def)

lemma tb_bounded_trans: "tb_bounded job h h1 \<Longrightarrow> tb_bounded job h1 h2 \<Longrightarrow> tb_bounded job h h2"
  by (auto simp: tb_bounded_def)

lemma tb_bounded_read: "tb_bounded job (emit c h) h' \<Longrightarrow> tb_call job c \<Longrightarrow> tb_bounded job h h'"
  by (auto simp: tb_bounded_def emit_def)

lemma tb_bounded_write: "api_write W c h = (e, h') \<Longrightarrow> tb_call job c \<Longrightarrow> tb_bounded job h h'"
  by (auto simp: tb_bounded_def api_write_def)

lemma ToLower_tb: "ToLower ReplicaTypeTensorBoard = tbRT"
  unfolding ReplicaTypeTensorBoard_def tbRT_def by code_simp

lemma tb_bounded_CreatePod:
  "CreatePod jc job tbRT (Itoa 0) t False h = (e, h') \<Longrightarrow> tb_bounded job h h'"
  by (auto simp: CreatePod_def CreatePods_def createPods_def GetPodFromTemplate_def api_write_def emit_def Let_def
      tb_bounded_def tb_call_def tb_name_def split: sum.splits option.splits if_splits)

lemma tb_bounded_CreateService:
  "CreateService jc job ReplicaTypeTensorBoard s (Itoa 0) h = (e, h') \<Longrightarrow> tb_bounded job h h'"
  by (auto simp: CreateService_def ToLower_tb CreateServicesWithControllerRef_def createServices_def getServiceFromTemplate_def
      validateControllerRef_def api_write_def emit_def Let_def tb_bounded_def tb_call_def tb_name_def
      split: sum.splits option.splits if_splits)

lemma tb_bounded_create_pod: "create_tb_pod jc job spec opts cfg h = (e, h') \<Longrightarrow> tb_bounded job h h'"
  by (auto simp: create_tb_pod_def split: option.splits dest: tb_bounded_CreatePod)

lemma tb_bounded_syncPod:
  assumes "syncPod decode jc job spec opts cfg h = (e, h')"
  shows "tb_bounded job h h'"
proof -
  let ?h1 = "emit (GetPod (jm_Namespace job) (tb_name job)) h"
  have "tb_bounded job ?h1 h'"
    using assms
    by (auto simp: syncPod_def Let_def tb_call_def split: sum.splits if_splits bool.splits prod.splits option.splits
        dest: tb_bounded_create_pod intro: tb_bounded_trans [OF tb_bounded_write] tb_bounded_write)
  then show ?thesis by (rule tb_bounded_read) (simp add: tb_call_def)
qed

lemma tb_bounded_syncService:
  assumes "syncService jc job h = (e, h')"
  shows "tb_bounded job h h'"
proof -
  have "tb_bounded job (emit (GetService (jm_Namespace job) (tb_name job)) h) h'"
    using assms by (auto simp: syncService_def Let_def split: sum.splits if_splits dest: tb_bounded_CreateService)
  then show ?thesis by (rule tb_bounded_read) (simp add: tb_call_def)
qed

lemma tb_bounded_syncIngress: "syncIngress decode jc job opts cfg h = (e, h') \<Longrightarrow> tb_bounded job h h'"
  by (auto simp: syncIngress_def api_write_def emit_def tb_bounded_def tb_call_def tb_ingress_def Let_def
      split: option.splits sum.splits if_splits bool.splits)

lemma tb_bounded_drop:
  assumes "drop_owned W job get answer refs del h = (e, h')" "tb_call job get"
    "\<And>x. IsControlledBy (refs x) job \<Longrightarrow> tb_call job (del x)"
  shows "tb_bounded job h h'"
proof -
  have "tb_bounded job (emit get h) h'"
    using assms(1,3) by (auto simp: drop_owned_def Let_def split: sum.splits if_splits dest: tb_bounded_write)
  then show ?thesis using assms(2) by (rule tb_bounded_read)
qed

lemma tb_bounded_delete:
  assumes "deleteTensorBoard jc job h = (e, h')"
  shows "tb_bounded job h h'"
proof -
  let ?W = "World jc" and ?ns = "jm_Namespace job" and ?n = "tb_name job"
  obtain e1 h1 where A: "drop_owned ?W job (GetIngress ?ns ?n) (out_get_ingress ?W h ?ns ?n) in_OwnerReferences DeleteIngressCall h = (e1, h1)" by force
  obtain e2 h2 where B: "drop_owned ?W job (GetService ?ns ?n) (out_get_service ?W h1 ?ns ?n) svc_OwnerReferences DeleteServiceCall h1 = (e2, h2)" by force
  obtain e3 h3 where C: "drop_owned ?W job (GetPod ?ns ?n) (out_get_pod ?W h2 ?ns ?n) pod_OwnerReferences DeletePodCall h2 = (e3, h3)" by force
  have "tb_bounded job h h1" using A by (rule tb_bounded_drop) (simp_all add: tb_call_def)
  moreover have "tb_bounded job h1 h2" using B by (rule tb_bounded_drop) (simp_all add: tb_call_def)
  moreover have "tb_bounded job h2 h3" using C by (rule tb_bounded_drop) (simp_all add: tb_call_def)
  ultimately show ?thesis
    using assms A B C by (auto simp: deleteTensorBoard_def Let_def split: option.splits intro: tb_bounded_trans)
qed

lemma tb_bounded_cleanup:
  "cleanupAndCheckNeedSync W job specs st result opts h = (r, h') \<Longrightarrow> tb_bounded job h h'"
  by (auto simp: cleanupAndCheckNeedSync_def update_job_def tb_bounded_def tb_call_def Let_def
      split: if_splits option.splits sum.splits)

lemma tb_bounded_reconcile:
  assumes "ReconcileTensorBoard decode jc job specs spec st result h = (r, h')"
  shows "tb_bounded job h h'"
proof (cases "jm_Annotations job AnnotationTensorBoardConfig")
  case None
  with assms show ?thesis by (auto simp: ReconcileTensorBoard_def split: prod.splits dest: tb_bounded_delete)
next
  case (Some cfg)
  show ?thesis
  proof (cases "decode cfg")
    case (Inl e)
    with Some assms show ?thesis by (auto simp: ReconcileTensorBoard_def)
  next
    case (Inr opts)
    obtain need result1 h1 where A: "cleanupAndCheckNeedSync (World jc) job specs st result opts h = ((need, result1), h1)"
      by (metis surj_pair)
    obtain e2 h2 where B: "syncPod decode jc job spec opts cfg h1 = (e2, h2)" by force
    obtain e3 h3 where C: "syncService jc job h2 = (e3, h3)" by force
    obtain e4 h4 where D: "syncIngress decode jc job opts cfg h3 = (e4, h4)" by force
    have steps: "h' \<in> {h1, h2, h3, h4}"
      using assms Some Inr A B C D
      by (auto simp: ReconcileTensorBoard_def split: sum.splits bool.splits option.splits)
    have h1: "tb_bounded job h h1" by (rule tb_bounded_cleanup [OF A])
    have h2: "tb_bounded job h h2" by (rule tb_bounded_trans [OF h1 tb_bounded_syncPod [OF B]])
    have h3: "tb_bounded job h h3" by (rule tb_bounded_trans [OF h2 tb_bounded_syncService [OF C]])
    have "tb_bounded job h h4" by (rule tb_bounded_trans [OF h3 tb_bounded_syncIngress [OF D]])
    with steps h1 h2 h3 show ?thesis by auto
  qed
qed

text \<open>
  C30. Whatever the server answers, reconciling the TensorBoard of a job deletes only pods, services and
  ingresses that the job controls, creates objects under the name of the TensorBoard only, and neither
  writes the status of the job nor deletes it.
\<close>

theorem tensorboard_bounded:
  assumes "ReconcileTensorBoard decode jc job specs spec st result h = (r, h')"
  shows "\<exists>cs. h' = h @ cs \<and> list_all (tb_call job) cs"
  using tb_bounded_reconcile [OF assms] by (simp add: tb_bounded_def)

text \<open>
  The time to live. Once a job is finished its TensorBoard lives for the configured number of seconds,
  counted from the completion of the job or from the last change of the configuration, whichever is
  later. After that time the only call is an update that drops the annotation from the job; before it
  the reconciliation asks to be called again, and no later than at the end of that time.
\<close>

theorem tensorboard_ttl:
  assumes "jm_Annotations job AnnotationTensorBoardConfig = Some cfg" "decode cfg = Inr opts"
    and "IsSucceeded st \<or> IsFailed st" "CompletionTime st = Some completed" "in32 (tb_TTLSecondsAfterJobFinished opts)"
    and "ReconcileTensorBoard decode jc job specs spec st result h = ((result', err), h')"
    and "deadline = max completed (tb_UpdateTimestamp opts) + tb_TTLSecondsAfterJobFinished opts * second"
    and "deadline - out_now (World jc) h < 2 ^ 63" "0 \<le> RequeueAfter result"
  shows "(deadline < out_now (World jc) h \<longrightarrow>
      h' = h @ [UpdateJobCall (job\<lparr>jm_Annotations := (jm_Annotations job)(AnnotationTensorBoardConfig := None)\<rparr>) specs] \<and>
      result' = result) \<and>
    (out_now (World jc) h \<le> deadline \<longrightarrow>
      Requeue result' \<and> out_now (World jc) h + RequeueAfter result' \<le> deadline \<and>
      (RequeueAfter result = 0 \<longrightarrow> out_now (World jc) h + RequeueAfter result' = deadline))"
proof -
  have "in64 (second * tb_TTLSecondsAfterJobFinished opts)" using assms(5) by (simp add: in64_def in32_def second_def)
  then have d: "tb_delete_time opts completed = deadline"
    using assms(7) by (auto simp: tb_delete_time_def i64_id max_def mult.commute Let_def)
  have rt: "ReconcileTensorBoard decode jc job specs spec st result h =
     (case cleanupAndCheckNeedSync (World jc) job specs st result opts h of
        ((Inl e, result1), h1) \<Rightarrow> ((result1, Some e), h1)
      | ((Inr False, result1), h1) \<Rightarrow> ((result1, None), h1)
      | ((Inr True, result1), h1) \<Rightarrow>
          (case syncPod decode jc job spec opts cfg h1 of
             (Some e, h2) \<Rightarrow> ((result1, Some e), h2)
           | (None, h2) \<Rightarrow>
               (case syncService jc job h2 of
                  (Some e, h3) \<Rightarrow> ((result1, Some e), h3)
                | (None, h3) \<Rightarrow>
                    (case syncIngress decode jc job opts cfg h3 of (err, h4) \<Rightarrow> ((result1, err), h4)))))"
    using assms(1,2) by (simp add: ReconcileTensorBoard_def)
  show ?thesis
  proof (cases "deadline < out_now (World jc) h")
    case True
    then have "cleanupAndCheckNeedSync (World jc) job specs st result opts h =
        (case update_job (World jc) (job\<lparr>jm_Annotations := (jm_Annotations job)(AnnotationTensorBoardConfig := None)\<rparr>) specs h of
           (Inl e, h1) \<Rightarrow> ((Inl e, result), h1) | (Inr x, h1) \<Rightarrow> ((Inr False, result), h1))"
      using assms(3,4) d by (simp add: cleanupAndCheckNeedSync_def)
    with rt assms(6) True show ?thesis by (auto simp: update_job_def split: sum.splits)
  next
    case False
    let ?after = "deadline - out_now (World jc) h"
    have "cleanupAndCheckNeedSync (World jc) job specs st result opts h =
        ((Inr True, \<lparr>Requeue = True, RequeueAfter =
           (if RequeueAfter result > ?after \<or> RequeueAfter result = 0 then ?after else RequeueAfter result)\<rparr>), h)"
      using assms(3,4,8) d False by (auto simp: cleanupAndCheckNeedSync_def Let_def sat64_def)
    with rt assms(6) have "result' = \<lparr>Requeue = True, RequeueAfter =
           (if RequeueAfter result > ?after \<or> RequeueAfter result = 0 then ?after else RequeueAfter result)\<rparr>"
      by (auto split: option.splits prod.splits)
    with False show ?thesis by auto
  qed
qed

subsection \<open>Sample runs\<close>

definition tb_job0 :: job_meta where
  "tb_job0 = job0\<lparr>jm_Annotations := [AnnotationTensorBoardConfig \<mapsto> ''cfg'']\<rparr>"

definition tb_opts0 :: TensorBoard where
  "tb_opts0 = (zero_TensorBoard 0)\<lparr>tb_LogDir := ''/logs'', tb_TTLSecondsAfterJobFinished := 60\<rparr>"

text \<open>A running job gets its TensorBoard; the calls are within the bounds.\<close>

theorem tensorboard_bounded_witness:
  "list_all (tb_call tb_job0) (snd (ReconcileTensorBoard (\<lambda>s. Inr tb_opts0) jc0 tb_job0 [] (Some (dag_spec 1 [])) status0 no_result []))"
proof -
  obtain r h' where "ReconcileTensorBoard (\<lambda>s. Inr tb_opts0) jc0 tb_job0 [] (Some (dag_spec 1 [])) status0 no_result [] = (r, h')"
    by (metis surj_pair)
  with tensorboard_bounded [OF this] show ?thesis by auto
qed

text \<open>A job that was completed at time 0 and has 60 seconds left asks to be called in a minute.\<close>

theorem tensorboard_ttl_witness:
  "RequeueAfter (fst (fst (ReconcileTensorBoard (\<lambda>s. Inr tb_opts0) jc0 tb_job0 [] (Some (dag_spec 1 []))
     (UpdateJobConditions 0 (status0\<lparr>CompletionTime := Some 0\<rparr>) JobSucceeded [] []) no_result []))) = 60 * second"
proof -
  let ?st = "UpdateJobConditions 0 (status0\<lparr>CompletionTime := Some 0\<rparr>) JobSucceeded [] []"
  obtain res err h' where r: "ReconcileTensorBoard (\<lambda>s. Inr tb_opts0) jc0 tb_job0 [] (Some (dag_spec 1 [])) ?st no_result [] = ((res, err), h')"
    by (metis surj_pair)
  have s: "IsSucceeded ?st" by code_simp
  have c: "CompletionTime ?st = Some 0" by code_simp
  from tensorboard_ttl [OF _ _ _ c _ r refl, of "''cfg''" tb_opts0] s have "RequeueAfter res = 60 * second"
    by (auto simp: tb_job0_def tb_opts0_def zero_TensorBoard_def in32_def no_result_def second_def)
  with r show ?thesis by simp
qed

end
