(* ===== verification/Elastic_Batch.thy ===== *)
theory Elastic_Batch
  imports Job_Defaults Cluster_Specs
begin

text \<open>
  Elastic batch inference jobs: their defaults (\<open>apis/inference/v1alpha1/defaults.go\<close>) and the
  environment of their pods (\<open>controllers/elasticbatch/elasticbatch.go\<close>,
  \<open>elasticbatchjob_controller.go\<close>). The encoding as JSON is a parameter.
\<close>

record ElasticBatchJob = job_object +
  eb_SuccessPolicy :: "SuccessPolicy option"

subsection \<open>Defaults\<close>

definition eb_setDefaultPort :: "pod_spec \<Rightarrow> go_error + pod_spec" where
  "eb_setDefaultPort = default_port ''elasticbatch'' ''elstcbatch-port'' 23456"

definition setDefaultAIMasterReplicas :: "ReplicaSpec \<Rightarrow> ReplicaSpec" where
  "setDefaultAIMasterReplicas spec = default_restart RestartPolicyNever (spec\<lparr>Replicas := Some 1\<rparr>)"

definition setDefaultWorkerReplicas :: "ReplicaSpec \<Rightarrow> ReplicaSpec" where
  "setDefaultWorkerReplicas spec = default_restart RestartPolicyExitCode (default_replicas spec)"

text \<open>Unlike the other workloads the condition is appended without looking for it.\<close>

definition setDefaultDAGConditions :: "replica_specs \<Rightarrow> replica_specs" where
  "setDefaultDAGConditions specs =
     (if map_of specs JobReplicaTypeAIMaster = None then specs
      else map (\<lambda>(t, s). if t = JobReplicaTypeAIMaster then (t, s)
                          else (t, s\<lparr>DependOn := DependOn s @ [\<lparr>Upstream = JobReplicaTypeAIMaster, OnPhase = PodRunning\<rparr>]\<rparr>)) specs)"

definition setDefaultAIMasterEnv :: "job_meta \<Rightarrow> pod_spec \<Rightarrow> pod_spec" where
  "setDefaultAIMasterEnv job ps =
     ps\<lparr>ps_Containers := on_first (\<lambda>c. ct_Name c = ''elasticbatch'')
        (append_env [(''JOB_NAME'', EnvValue (jm_Name job)), (''NAMESPACE'', EnvValue (jm_Namespace job)),
                     (''JOB_TYPE'', EnvValue ''ELASTICBATCH'')]) (ps_Containers ps)\<rparr>"

definition eb_spec :: "job_meta \<Rightarrow> ReplicaType \<Rightarrow> ReplicaSpec \<Rightarrow> go_error + ReplicaSpec" where
  "eb_spec job t s =
     (let s1 = on_pod_spec enableFallbackToLogsOnErrorTerminationMessagePolicy s in
      if t = ''Worker'' then Inr (setDefaultWorkerReplicas s1)
      else if t = JobReplicaTypeAIMaster
      then with_pod_spec (\<lambda>ps. case eb_setDefaultPort ps of Inl e \<Rightarrow> Inl e | Inr ps1 \<Rightarrow> Inr (setDefaultAIMasterEnv job ps1))
             (setDefaultAIMasterReplicas s1)
      else Inr s1)"

definition SetDefaults_ElasticBatchJob :: "bool \<Rightarrow> job_meta \<Rightarrow> ElasticBatchJob \<Rightarrow> go_error + ElasticBatchJob" where
  "SetDefaults_ElasticBatchJob dag meta job =
     (let job1 = job\<lparr>tj_Kind := (if tj_Kind job = [] then ''ElasticBatchJob'' else tj_Kind job),
                     tj_APIVersion := (if tj_APIVersion job = [] then ''inference.kubedl.io/v1alpha1'' else tj_APIVersion job),
                     tj_RunPolicy := default_clean CleanPodPolicyNone (tj_RunPolicy job),
                     eb_SuccessPolicy := (case eb_SuccessPolicy job of None \<Rightarrow> Some SuccessPolicyAllWorkers | Some p \<Rightarrow> Some p)\<rparr>;
          specs = rename_type (tj_Specs job) ''Worker'';
          specs1 = (if dag then setDefaultDAGConditions specs else specs)
      in case each_spec (eb_spec meta) specs1 of
           Inl e \<Rightarrow> Inl e
         | Inr specs2 \<Rightarrow> Inr (job1\<lparr>tj_Specs := specs2\<rparr>))"

subsection \<open>Environment\<close>

record ElasticBatchConfig =
  ebc_Task :: TaskSpec
  ebc_Environment :: string

definition genElasticBatchConfigJSONStr ::
    "(ElasticBatchConfig \<Rightarrow> go_error + string) \<Rightarrow> string \<Rightarrow> string \<Rightarrow> go_error + string" where
  "genElasticBatchConfigJSONStr marshal rtype index =
     (case ParseInt0 index of
        None \<Rightarrow> Inl (Err ''ParseInt'')
      | Some i \<Rightarrow> marshal \<lparr>ebc_Task = \<lparr>ts_Type = rtype, ts_Index = i\<rparr>, ebc_Environment = ''cloud''\<rparr>)"

definition eb_SetClusterSpec ::
    "(ElasticBatchConfig \<Rightarrow> go_error + string) \<Rightarrow> job_meta \<Rightarrow> pod_template \<Rightarrow> string \<Rightarrow> string \<Rightarrow> go_error + pod_template" where
  "eb_SetClusterSpec marshal job t rtype index =
     (if ToLower rtype = ToLower JobReplicaTypeAIMaster then Inr t
      else
        let t1 = (if EnableErrorMonitoring job then t\<lparr>pt_Finalizers := pt_Finalizers t @ [FinalizerPreemptProtector]\<rparr> else t)
        in case genElasticBatchConfigJSONStr marshal (ToLower rtype) index of
             Inl e \<Rightarrow> Inl e
           | Inr cfg \<Rightarrow>
               if cfg = [] then Inr t1
               else Inr (on_containers
                 (on_first (\<lambda>c. ct_Name c = ''elasticbatch'') (append_env [(''ElASTICBATCH_CONFIG'', EnvValue cfg)])) t1))"

end
