(* ===== verification/Mars_Spec.thy ===== *)
theory Mars_Spec
  imports Mpi_Job Cluster_Laws
begin

text \<open>
  The environment of Mars pods (\<open>controllers/mars/mars.go\<close>, \<open>marsjob_controller.go\<close>,
  \<open>pkg/util/quota/resources.go\<close>): the cluster specification, the resources of a worker and its memory
  tuning. The encoding as JSON and a feature gate of Kubernetes are parameters.
\<close>

record workerResource =
  wr_CPU :: int
  wr_Memory :: int

record mars_task = TaskSpec +
  ts_Resources :: "workerResource option"

record MarsConfig =
  mc_Cluster :: ClusterSpec
  mc_Task :: mars_task

record mars_env =
  ma_marshal :: "MarsConfig \<Rightarrow> go_error + string"
  ma_gate_PodOverhead :: bool
  ma_quota :: quota_lib

subsection \<open>Resources\<close>

definition GetPodResourceRequest :: "mars_env \<Rightarrow> pod_spec \<Rightarrow> resource_list" where
  "GetPodResourceRequest E ps =
     (let Q = ma_quota E;
          sum = foldl (\<lambda>acc c. ql_Add Q acc (ct_Requests c)) [] (ps_Containers ps);
          most = foldl (\<lambda>acc c. ql_Max Q acc (ct_Requests c)) sum (ps_InitContainers ps)
      in case ps_Overhead ps of
           Some o1 \<Rightarrow> if ma_gate_PodOverhead E then ql_Add Q most o1 else most
         | None \<Rightarrow> most)"

text \<open>A missing resource reads as the quantity zero.\<close>

definition quantity_of :: "resource_list \<Rightarrow> string \<Rightarrow> quantity" where
  "quantity_of rs n = (case map_of rs n of None \<Rightarrow> 0 | Some q \<Rightarrow> q)"

definition resourceRequestOrLimits :: "mars_env \<Rightarrow> container \<Rightarrow> string \<Rightarrow> int" where
  "resourceRequestOrLimits E c rname =
     (case map_of (ct_Requests c) rname of
        Some q \<Rightarrow> i64 (ql_Value (ma_quota E) q)
      | None \<Rightarrow> (case map_of (ct_Limits c) rname of Some q \<Rightarrow> i64 (ql_Value (ma_quota E) q) | None \<Rightarrow> 0))"

subsection \<open>Cluster specification\<close>

fun mars_cluster_loop :: "job_meta \<Rightarrow> replica_specs \<Rightarrow> replica_specs \<Rightarrow> ClusterSpec \<Rightarrow> go_error + ClusterSpec" where
  "mars_cluster_loop job specs [] acc = Inr acc"
| "mars_cluster_loop job specs ((rtype, spec) # rest) acc =
     (if rtype = ''Worker'' then mars_cluster_loop job specs rest acc
      else case replicas_of spec of
             Inl e \<Rightarrow> Inl e
           | Inr n \<Rightarrow>
               (case GetPortFromSpecs specs rtype ''mars'' ''mars-port'' of
                  Inl e \<Rightarrow> Inl e
                | Inr port \<Rightarrow>
                    (let rt = ToLower rtype;
                         names = map (\<lambda>i. GenGeneralName (jm_Name job) rt (Itoa (int i)) @ ''.'' @ jm_Namespace job @ ''.svc:'' @ Itoa port)
                                   [0..<n]
                     in mars_cluster_loop job specs rest (AList.update rt names acc))))"

definition mars_genClusterSpec :: "job_meta \<Rightarrow> replica_specs \<Rightarrow> go_error + ClusterSpec" where
  "mars_genClusterSpec job specs = mars_cluster_loop job specs specs []"

definition mars_resources :: "mars_env \<Rightarrow> replica_specs \<Rightarrow> string \<Rightarrow> go_error + workerResource option" where
  "mars_resources E specs rtype =
     (if ToLower rtype = ''worker''
      then (case map_of specs ''Worker'' of
              None \<Rightarrow> Inl (Panic ''nil ReplicaSpec'')
            | Some spec \<Rightarrow>
                (let rs = GetPodResourceRequest E (pt_Spec (Template spec)) in
                 Inr (Some \<lparr>wr_CPU = ql_Value (ma_quota E) (quantity_of rs ''cpu''),
                            wr_Memory = ql_Value (ma_quota E) (quantity_of rs ''memory'')\<rparr>)))
      else Inr None)"

definition marsConfigInJson :: "mars_env \<Rightarrow> job_meta \<Rightarrow> replica_specs \<Rightarrow> string \<Rightarrow> string \<Rightarrow> go_error + string" where
  "marsConfigInJson E job specs rtype index =
     (case ParseInt0 index of
        None \<Rightarrow> Inl (Err ''ParseInt'')
      | Some i \<Rightarrow>
          (case mars_genClusterSpec job specs of
             Inl e \<Rightarrow> Inl e
           | Inr cluster \<Rightarrow>
               (case mars_resources E specs rtype of
                  Inl e \<Rightarrow> Inl e
                | Inr rs \<Rightarrow>
                    ma_marshal E \<lparr>mc_Cluster = cluster, mc_Task = \<lparr>ts_Type = rtype, ts_Index = i, ts_Resources = rs\<rparr>\<rparr>)))"

subsection \<open>Environment variables\<close>

text \<open>
  The index of a name is its last position in the environment before the call.
\<close>

definition env_index :: "(string \<times> env_value) list \<Rightarrow> string \<Rightarrow> nat option" where
  "env_index es n = map_of (rev (zip (map fst es) [0..<length es])) n"

definition appendOrOverrideEnvs :: "container \<Rightarrow> (string \<times> env_value) list \<Rightarrow> container" where
  "appendOrOverrideEnvs c envs =
     (let idx = env_index (ct_Env c) in
      c\<lparr>ct_Env := foldl (\<lambda>es (n, v). case idx n of Some i \<Rightarrow> es[i := (n, v)] | None \<Rightarrow> es @ [(n, v)]) (ct_Env c) envs\<rparr>)"

subsection \<open>Memory tuning\<close>

text \<open>
  The spill directories share the requested ephemeral storage. The pod template and its container are
  updated together.
\<close>

definition spill_limit :: "mars_env \<Rightarrow> container \<Rightarrow> nat \<Rightarrow> int option" where
  "spill_limit E c n =
     (let q = quantity_of (ct_Requests c) ''ephemeral-storage'' in
      if q = 0 then None else Some (1000 * go_div (i64 (ql_Value (ma_quota E) q)) (int n)))"

fun spill_loop ::
    "int option \<Rightarrow> nat \<Rightarrow> string list \<Rightarrow> (string \<times> volume_source) list \<Rightarrow> volume_mount list \<Rightarrow>
     (string \<times> volume_source) list \<times> volume_mount list" where
  "spill_loop limit idx [] vols mounts = (vols, mounts)"
| "spill_loop limit idx (p # ps) vols mounts =
     (let name = ''mars-empty-dir-'' @ Itoa (int idx) in
      if list_ex (\<lambda>m. vm_Name m = name) mounts then spill_loop limit (idx + 1) ps vols mounts
      else spill_loop limit (idx + 1) ps (vols @ [(name, EmptyDirSource False limit)])
             (mounts @ [\<lparr>vm_Name = name, vm_MountPath = p, vm_SubPath = []\<rparr>]))"

definition injectSpillDirsByGivenPaths ::
    "mars_env \<Rightarrow> string list \<Rightarrow> (string \<times> volume_source) list \<Rightarrow> container \<Rightarrow> (string \<times> volume_source) list \<times> container" where
  "injectSpillDirsByGivenPaths E paths vols c =
     (if paths = [] then (vols, c)
      else let (vols1, mounts) = spill_loop (spill_limit E c (length paths)) 0 paths vols (ct_VolumeMounts c)
           in (vols1, c\<lparr>ct_VolumeMounts := mounts\<rparr>))"

definition computeCacheMemSize :: "mars_env \<Rightarrow> int \<Rightarrow> MarsWorkerMemoryTuningPolicy \<Rightarrow> int" where
  "computeCacheMemSize E memLimit policy =
     (case WorkerCacheSize policy of
        Some q \<Rightarrow> i64 (ql_Value (ma_quota E) q)
      | None \<Rightarrow>
          (case WorkerCachePercentage policy of
             Some pc \<Rightarrow> go_div (i64 (memLimit * (if pc > 100 then 100 else pc))) 100
           | None \<Rightarrow> -1))"

text \<open>
  The loop over the volumes assigns to a copy of the element, so that an existing volume of this name is
  left as it is.
\<close>

definition mountSharedCacheToPath ::
    "int \<Rightarrow> string \<Rightarrow> (string \<times> volume_source) list \<Rightarrow> container \<Rightarrow> (string \<times> volume_source) list \<times> container" where
  "mountSharedCacheToPath cacheSize path vols c =
     (if path = [] then (vols, c)
      else let vols1 = (if list_ex (\<lambda>(n, v). n = ''mars-shared-cache'') vols then vols
                        else vols @ [(''mars-shared-cache'', EmptyDirSource True (Some (1000 * cacheSize)))])
           in if list_ex (\<lambda>m. vm_Name m = ''mars-shared-cache'' \<and> vm_MountPath m = path) (ct_VolumeMounts c) then (vols1, c)
              else (vols1, add_mounts [\<lparr>vm_Name = ''mars-shared-cache'', vm_MountPath = path, vm_SubPath = []\<rparr>] c))"

fun join_comma :: "string list \<Rightarrow> string" where
  "join_comma [] = []"
| "join_comma [s] = s"
| "join_comma (s # ss) = s @ '','' @ join_comma ss"

definition mars_base_envs :: "mars_env \<Rightarrow> container \<Rightarrow> string \<Rightarrow> (string \<times> env_value) list" where
  "mars_base_envs E c cfg =
     [(''MARS_CPU_TOTAL'', EnvValue (Itoa (resourceRequestOrLimits E c ''cpu''))),
      (''MARS_MEMORY_TOTAL'', EnvValue (Itoa (resourceRequestOrLimits E c ''memory''))),
      (''MARS_CPU_USE_PROCESS_STAT'', EnvValue ''1''), (''MARS_MEM_USE_CGROUP_STAT'', EnvValue ''1''),
      (''MARS_BIND_PORT'', EnvValue (Itoa 11111)), (''MARS_K8S_GROUP_LABELS'', EnvValue JobNameLabel),
      (''MARS_CONTAINER_IP'', EnvFieldRef ''status.podIP''), (''MARS_K8S_POD_NAME'', EnvFieldRef ''metadata.name''),
      (''MARS_K8S_POD_NAMESPACE'', EnvFieldRef ''metadata.namespace'')] @
     (if cfg \<noteq> [] then [(''MARS_CLUSTER_DETAIL'', EnvValue cfg)] else [])"

definition mars_tuning_envs :: "mars_env \<Rightarrow> int \<Rightarrow> MarsWorkerMemoryTuningPolicy \<Rightarrow> (string \<times> env_value) list" where
  "mars_tuning_envs E memLimit policy =
     (case SpillDirs policy of None \<Rightarrow> [] | Some ds \<Rightarrow> [(''MARS_SPILL_DIRS'', EnvValue (join_comma ds))]) @
     (case PlasmaStore policy of None \<Rightarrow> [] | Some p \<Rightarrow> if p = [] then [] else [(''MARS_PLASMA_DIRS'', EnvValue p)]) @
     (case LockFreeFileIO policy of None \<Rightarrow> [] | Some b \<Rightarrow> [(''MARS_LOCK_FREE_FILEIO'', EnvValue (if b then ''1'' else ''0''))]) @
     (let size = computeCacheMemSize E memLimit policy in
      if size > 0 then [(''MARS_CACHE_MEM_SIZE'', EnvValue (Itoa size))] else [])"

definition mars_tuning_volumes ::
    "mars_env \<Rightarrow> int \<Rightarrow> MarsWorkerMemoryTuningPolicy \<Rightarrow> (string \<times> volume_source) list \<Rightarrow> container \<Rightarrow>
     (string \<times> volume_source) list \<times> container" where
  "mars_tuning_volumes E memLimit policy vols c =
     (let (vols1, c1) = (case SpillDirs policy of None \<Rightarrow> (vols, c) | Some ds \<Rightarrow> injectSpillDirsByGivenPaths E ds vols c);
          size = computeCacheMemSize E memLimit policy
      in if size > 0
         then mountSharedCacheToPath size (case PlasmaStore policy of None \<Rightarrow> ''/dev/shm'' | Some p \<Rightarrow> p) vols1 c1
         else (vols1, c1))"

definition mars_container ::
    "mars_env \<Rightarrow> MarsJob \<Rightarrow> string \<Rightarrow> string \<Rightarrow> (string \<times> volume_source) list \<Rightarrow> container \<Rightarrow>
     (string \<times> volume_source) list \<times> container" where
  "mars_container E job rtype cfg vols c =
     (let memLimit = resourceRequestOrLimits E c ''memory'' in
      case WorkerMemoryTuningPolicy job of
        Some policy \<Rightarrow>
          if ToLower rtype = ''worker''
          then (let (vols1, c1) = mars_tuning_volumes E memLimit policy vols c
                in (vols1, appendOrOverrideEnvs c1 (mars_base_envs E c cfg @ mars_tuning_envs E memLimit policy)))
          else (vols, appendOrOverrideEnvs c (mars_base_envs E c cfg))
      | None \<Rightarrow> (vols, appendOrOverrideEnvs c (mars_base_envs E c cfg)))"

definition mars_SetClusterSpec ::
    "mars_env \<Rightarrow> MarsJob \<Rightarrow> job_meta \<Rightarrow> pod_template \<Rightarrow> string \<Rightarrow> string \<Rightarrow> go_error + pod_template" where
  "mars_SetClusterSpec E job meta t rtype index =
     (case marsConfigInJson E meta (tj_Specs job) rtype index of
        Inl e \<Rightarrow> Inl e
      | Inr cfg \<Rightarrow>
          (let ps = pt_Spec t; cs = ps_Containers ps in
           case find (\<lambda>i. ct_Name (cs ! i) = ''mars'') [0..<length cs] of
             None \<Rightarrow> Inr t
           | Some i \<Rightarrow>
               (let (vols, c) = mars_container E job rtype cfg (ps_Volumes ps) (cs ! i)
                in Inr (t\<lparr>pt_Spec := ps\<lparr>ps_Volumes := vols, ps_Containers := cs[i := c]\<rparr>\<rparr>))))"

subsection \<open>What a container reads after overriding\<close>

lemma env_index_None: "env_index es n = None \<longleftrightarrow> n \<notin> fst ` set es"
proof -
  have "fst ` set (zip (keys es) [0..<length es]) = set (keys es)" by (simp only: set_map [symmetric] map_fst_zip length_map length_upt diff_zero)
  then show ?thesis by (simp add: env_index_def map_of_eq_None_iff)
qed

lemma env_index_snoc:
  "env_index (es @ [(m, v)]) n = (if n = m then Some (length es) else env_index es n)"
  by (simp add: env_index_def zip_append1 del: upt_Suc) (simp add: upt_Suc_append)

lemma env_index_last:
  "env_index es n = Some i \<Longrightarrow> i < length es \<and> fst (es ! i) = n \<and> (\<forall>j. i < j \<and> j < length es \<longrightarrow> fst (es ! j) \<noteq> n)"
proof (induction es rule: rev_induct)
  case (snoc e es)
  obtain m v where e: "e = (m, v)" by (cases e)
  show ?case
  proof (cases "n = m")
    case True
    with snoc.prems show ?thesis by (auto simp: e env_index_snoc)
  next
    case False
    with snoc.prems snoc.IH show ?thesis by (auto simp: e env_index_snoc nth_append less_Suc_eq)
  qed
qed (simp add: env_index_def)

lemma env_update:
  assumes "i < length es" "fst (es ! i) = n" "\<forall>j. i < j \<and> j < length es \<longrightarrow> fst (es ! j) \<noteq> n"
  shows "map_of (rev (es[i := (n, v)])) m = (if m = n then Some v else map_of (rev es) m)"
proof -
  have "n \<notin> fst ` set (drop (Suc i) es)"
    using assms(3) by (auto simp: in_set_conv_nth) (metis Suc_le_eq add_Suc_right fst_conv less_add_Suc1 less_diff_conv add.commute)
  then have none: "map_of (rev (drop (Suc i) es)) n = None" by (auto simp: map_of_eq_None_iff)
  have es: "es = take i es @ (n, snd (es ! i)) # drop (Suc i) es" using id_take_nth_drop [OF assms(1)] assms(2) by (metis prod.collapse)
  have "map_of (rev es) m = map_of (rev (take i es @ (n, snd (es ! i)) # drop (Suc i) es)) m" using es by simp
  then show ?thesis using none by (auto simp: upd_conv_take_nth_drop [OF assms(1)] map_add_def split: option.splits)
qed

lemma override_fold:
  fixes es0 :: "(string \<times> env_value) list"
  defines "step \<equiv> \<lambda>es (n, v). case env_index es0 n of Some i \<Rightarrow> es[i := (n, v)] | None \<Rightarrow> es @ [(n, v)]"
  shows "\<exists>us. foldl step es0 envs = us @ filter (\<lambda>(n, v). n \<notin> fst ` set es0) envs \<and> map fst us = map fst es0 \<and>
    (distinct (map fst envs) \<longrightarrow>
       (\<forall>m. map_of (rev us) m = (case map_of envs m of Some v \<Rightarrow> (if m \<in> fst ` set es0 then Some v else map_of (rev es0) m)
                                  | None \<Rightarrow> map_of (rev es0) m)))"
proof (induction envs rule: rev_induct)
  case (snoc e envs)
  then obtain us where us: "foldl step es0 envs = us @ filter (\<lambda>(n, v). n \<notin> fst ` set es0) envs" "map fst us = map fst es0"
    and sem: "distinct (map fst envs) \<Longrightarrow> \<forall>m. map_of (rev us) m =
      (case map_of envs m of Some v \<Rightarrow> (if m \<in> fst ` set es0 then Some v else map_of (rev es0) m) | None \<Rightarrow> map_of (rev es0) m)"
    by auto
  obtain n v where e: "e = (n, v)" by (cases e)
  show ?case
  proof (cases "env_index es0 n")
    case None
    then have "n \<notin> fst ` set es0" by (simp add: env_index_None)
    then show ?thesis using us sem None by (auto simp: e step_def map_add_def split: option.splits intro!: exI [of _ us])
  next
    case (Some i)
    note l = env_index_last [OF Some]
    have n: "n \<in> fst ` set es0" using env_index_None [of es0 n] Some by auto
    have len: "length us = length es0" using us(2) by (rule map_eq_imp_length_eq)
    have names: "fst (us ! j) = fst (es0 ! j)" if "j < length us" for j using us(2) len that by (metis nth_map)
    have up: "map_of (rev (us[i := (n, v)])) m = (if m = n then Some v else map_of (rev us) m)" for m
      using l names len by (intro env_update) auto
    have "foldl step es0 (envs @ [e]) = us[i := (n, v)] @ filter (\<lambda>(n, v). n \<notin> fst ` set es0) (envs @ [e])"
      using us(1) Some l len n by (simp add: e step_def list_update_append)
    moreover have "map fst (us[i := (n, v)]) = map fst es0"
      using us(2) l len by (simp add: map_update list_update_same_conv)
    moreover have "map_of (rev (us[i := (n, v)])) m = (case map_of (envs @ [e]) m of
        Some v \<Rightarrow> (if m \<in> fst ` set es0 then Some v else map_of (rev es0) m) | None \<Rightarrow> map_of (rev es0) m)"
      if d: "distinct (map fst (envs @ [e]))" for m
    proof -
      have "map_of envs n = None" using d by (auto simp: e map_of_eq_None_iff)
      then show ?thesis using up [of m] sem d n by (auto simp: e map_add_def split: option.splits)
    qed
    ultimately show ?thesis by blast
  qed
qed auto

lemma map_of_filter_out: "map_of (filter (\<lambda>(n, v). n \<notin> A) es) m = (if m \<in> A then None else map_of es m)"
  by (induction es) auto

text \<open>
  What a process of a Mars pod reads after the environment is set up: for every variable of the
  controller the value of the controller, whatever the template sets (also if it sets the variable several
  times), and for every other variable the value of the template.
\<close>

theorem mars_env_effective:
  assumes "distinct (map fst envs)"
  shows "getenv (appendOrOverrideEnvs c envs) m = (case map_of envs m of Some v \<Rightarrow> Some v | None \<Rightarrow> getenv c m)"
proof -
  obtain us where us: "ct_Env (appendOrOverrideEnvs c envs) = us @ filter (\<lambda>(n, v). n \<notin> fst ` set (ct_Env c)) envs"
    and names: "map fst us = map fst (ct_Env c)"
    and sem: "map_of (rev us) m = (case map_of envs m of
        Some v \<Rightarrow> (if m \<in> fst ` set (ct_Env c) then Some v else map_of (rev (ct_Env c)) m) | None \<Rightarrow> map_of (rev (ct_Env c)) m)"
    using override_fold [of "ct_Env c" envs] assms by (auto simp: appendOrOverrideEnvs_def Let_def)
  let ?new = "filter (\<lambda>(n, v). n \<notin> fst ` set (ct_Env c)) envs"
  have "distinct (map fst ?new)" using assms by (rule distinct_map_filter)
  then have "map_of (rev ?new) = map_of ?new" by (intro map_of_perm) (simp_all add: rev_map [symmetric])
  moreover have "map_of ?new m = (if m \<in> fst ` set (ct_Env c) then None else map_of envs m)"
    using map_of_filter_out [of "fst ` set (ct_Env c)" envs m] by simp
  ultimately show ?thesis
    using sem by (simp add: getenv_def us map_add_def split: option.splits if_splits)
qed

text \<open>The bind port of the template is overridden, at its last entry.\<close>

theorem mars_env_effective_witness:
  "getenv (appendOrOverrideEnvs
     ((hd (ps_Containers (pt_Spec (peer_template ''mars'' ''mars-port''))))\<lparr>ct_Env :=
        [(''MARS_BIND_PORT'', EnvValue ''1''), (''A'', EnvValue ''2''), (''MARS_BIND_PORT'', EnvValue ''3'')]\<rparr>)
     [(''MARS_BIND_PORT'', EnvValue ''11111''), (''B'', EnvValue ''4'')]) ''MARS_BIND_PORT'' = Some (EnvValue ''11111'')"
  by (subst mars_env_effective) simp_all

text \<open>The cache never exceeds the memory it is a part of.\<close>

lemma cache_within_memory:
  assumes "WorkerCacheSize policy = None" "WorkerCachePercentage policy = Some pc" "0 \<le> pc" "0 \<le> mem" "mem * 100 < 2 ^ 63"
  shows "0 \<le> computeCacheMemSize E mem policy \<and> computeCacheMemSize E mem policy \<le> mem"
proof -
  let ?pc = "if pc > 100 then 100 else pc"
  have p: "0 \<le> ?pc" "?pc \<le> 100" using assms(3) by auto
  have le: "mem * ?pc \<le> mem * 100" using p assms(4) by (intro mult_left_mono) auto
  have "0 \<le> mem * ?pc" using p assms(4) by (intro mult_nonneg_nonneg) auto
  with le assms(5) have "in64 (mem * ?pc)" unfolding in64_def by linarith
  then have "computeCacheMemSize E mem policy = go_div (mem * ?pc) 100"
    using assms(1,2) by (simp add: computeCacheMemSize_def i64_id)
  also have "\<dots> = (mem * ?pc) div 100" using p assms(4) by (intro go_div_nonneg) auto
  finally show ?thesis using le p assms(4) zdiv_mono1 [OF le, of 100] by (auto simp: pos_imp_zdiv_nonneg_iff)
qed

end
