(* ===== verification/Mars_Ingress.thy ===== *)
theory Mars_Ingress
  imports Mars_Spec Code_Sync
begin

text \<open>
  The ingresses that expose the web services of a Mars job (\<open>controllers/mars/ingress.go\<close>). The type of
  a service read from a list is not filled in by the client, so the owner reference of an ingress
  carries neither kind nor version.
\<close>

definition findDefaultPort :: "string \<Rightarrow> service \<Rightarrow> int" where
  "findDefaultPort portName svc =
     (case svc_Ports svc of
        [] \<Rightarrow> 11111
      | p # ps \<Rightarrow> (case find (\<lambda>q. sp_Name q = portName) ps of None \<Rightarrow> sp_Port p | Some q \<Rightarrow> sp_Port q))"

definition webservice_path :: "service \<Rightarrow> string" where
  "webservice_path svc = path_Join [''/'', ''mars'', svc_Namespace svc, svc_Name svc]"

definition webservice_ingress :: "int \<Rightarrow> service \<Rightarrow> string \<Rightarrow> smap \<Rightarrow> ingress" where
  "webservice_ingress port svc host labels =
     \<lparr>in_Name = svc_Name svc, in_Namespace = svc_Namespace svc, in_Labels = labels,
      in_Annotations = [''nginx.ingress.kubernetes.io/rewrite-target'' \<mapsto> ''/$1''],
      in_OwnerReferences = [\<lparr>or_APIVersion = [], or_Kind = [], or_Name = svc_Name svc, or_UID = svc_UID svc,
        or_Controller = Some True, or_BlockOwnerDeletion = Some True\<rparr>],
      in_Host = host,
      in_Paths = [(path_Join [''/'', ''mars'', svc_Namespace svc, svc_Name svc @ ''/(.*)''], True, svc_Name svc, port),
                  (webservice_path svc, False, svc_Name svc, port)]\<rparr>"

definition createNewIngressForWebservice ::
    "JobController \<Rightarrow> service \<Rightarrow> string \<Rightarrow> smap \<Rightarrow> hist \<Rightarrow> string res" where
  "createNewIngressForWebservice jc svc host labels h =
     guarded (api_write (World jc)
         (CreateIngressCall (webservice_ingress (findDefaultPort (ci_PortName (Controller jc)) svc) svc host labels)) h)
       (\<lambda>h1. (Inr (path_Join [host, webservice_path svc]), h1))"

fun webservice_loop ::
    "JobController \<Rightarrow> string \<Rightarrow> smap \<Rightarrow> string list \<Rightarrow> service list \<Rightarrow> string list \<Rightarrow> hist \<Rightarrow> string list res" where
  "webservice_loop jc host labels ingressSet [] acc h = (Inr acc, h)"
| "webservice_loop jc host labels ingressSet (svc # svcs) acc h =
     (if svc_Name svc \<in> set ingressSet then webservice_loop jc host labels ingressSet svcs acc h
      else andThen (createNewIngressForWebservice jc svc host labels h)
             (\<lambda>addr h1. webservice_loop jc host labels ingressSet svcs (acc @ [addr]) h1))"

definition reconcileIngressForWebservice :: "JobController \<Rightarrow> job_meta \<Rightarrow> MarsJob \<Rightarrow> hist \<Rightarrow> go_error option \<times> hist" where
  "reconcileIngressForWebservice jc meta job h =
     (case WebHost job of
        None \<Rightarrow> (None, h)
      | Some host \<Rightarrow>
          (let W = World jc; ns = jm_Namespace meta;
               labels = (GenLabels jc (jm_Name meta))(ReplicaTypeLabel \<mapsto> ''webservice'');
               h1 = emit (ListServicesCall ns labels) h
           in case out_list_services W h ns labels of
                Inl e \<Rightarrow> (Some e, h1)
              | Inr svcs \<Rightarrow>
                  (let h2 = emit (ListIngressesCall ns labels) h1 in
                   case out_list_ingresses W h1 ns labels of
                     Inl e \<Rightarrow> (Some e, h2)
                   | Inr names \<Rightarrow>
                       (case webservice_loop jc host labels names svcs [] h2 of
                          (Inl e, h3) \<Rightarrow> (Some e, h3)
                        | (Inr addrs, h3) \<Rightarrow> api_write W (PatchWebAddresses meta (WebServiceAddresses job @ addrs)) h3))))"

subsection \<open>Every web service is exposed\<close>

definition created_ingresses :: "hist \<Rightarrow> string list" where
  "created_ingresses h = concat (map (\<lambda>c. case c of CreateIngressCall i \<Rightarrow> [in_Name i] | _ \<Rightarrow> []) h)"

lemma created_ingresses_append [simp]: "created_ingresses (h @ h') = created_ingresses h @ created_ingresses h'"
  by (simp add: created_ingresses_def)

lemma created_ingresses_Nil [simp]: "created_ingresses [] = []"
  by (simp add: created_ingresses_def)

lemma created_ingresses_Cons [simp]:
  "created_ingresses (c # cs) = (case c of CreateIngressCall i \<Rightarrow> in_Name i # created_ingresses cs | _ \<Rightarrow> created_ingresses cs)"
  by (simp add: created_ingresses_def split: call.splits)

lemma webservice_loop_creates:
  "webservice_loop jc host labels names svcs acc h = (Inr addrs, h') \<Longrightarrow>
   created_ingresses h' = created_ingresses h @ filter (\<lambda>n. n \<notin> set names) (map svc_Name svcs) \<and>
   addrs = acc @ map (\<lambda>s. path_Join [host, webservice_path s]) (filter (\<lambda>s. svc_Name s \<notin> set names) svcs)"
proof (induction svcs arbitrary: acc h)
  case (Cons svc svcs)
  show ?case
  proof (cases "svc_Name svc \<in> set names")
    case True
    with Cons show ?thesis by simp
  next
    case False
    with Cons.prems obtain h1 where "createNewIngressForWebservice jc svc host labels h = (Inr (path_Join [host, webservice_path svc]), h1)"
      and r: "webservice_loop jc host labels names svcs (acc @ [path_Join [host, webservice_path svc]]) h1 = (Inr addrs, h')"
      by (auto simp: andThen_eq_Inr createNewIngressForWebservice_def guarded_eq_Inr)
    then have "created_ingresses h1 = created_ingresses h @ [svc_Name svc]"
      by (auto simp: createNewIngressForWebservice_def guarded_eq_Inr api_write_def webservice_ingress_def)
    with Cons.IH [OF r] False show ?thesis by simp
  qed
qed simp

text \<open>
  A successful round creates one ingress for exactly those web services that have none, and appends
  exactly their addresses to the status of the job.
\<close>

theorem mars_webservices_exposed:
  assumes "reconcileIngressForWebservice jc meta job h = (None, h')" "WebHost job = Some host"
  shows "\<exists>labels svcs names. labels = (GenLabels jc (jm_Name meta))(ReplicaTypeLabel \<mapsto> ''webservice'') \<and>
    out_list_services (World jc) h (jm_Namespace meta) labels = Inr svcs \<and>
    out_list_ingresses (World jc) (h @ [ListServicesCall (jm_Namespace meta) labels]) (jm_Namespace meta) labels = Inr names \<and>
    created_ingresses h' = created_ingresses h @ filter (\<lambda>n. n \<notin> set names) (map svc_Name svcs) \<and>
    last h' = PatchWebAddresses meta (WebServiceAddresses job @
      map (\<lambda>s. path_Join [host, webservice_path s]) (filter (\<lambda>s. svc_Name s \<notin> set names) svcs))"
proof -
  let ?ls = "(GenLabels jc (jm_Name meta))(ReplicaTypeLabel \<mapsto> ''webservice'')" and ?ns = "jm_Namespace meta"
  let ?h1 = "emit (ListServicesCall ?ns ?ls) h"
  let ?h2 = "emit (ListIngressesCall ?ns ?ls) ?h1"
  from assms obtain svcs names addrs h3 where
    s: "out_list_services (World jc) h ?ns ?ls = Inr svcs" and n: "out_list_ingresses (World jc) ?h1 ?ns ?ls = Inr names"
    and l: "webservice_loop jc host ?ls names svcs [] ?h2 = (Inr addrs, h3)"
    and w: "h' = h3 @ [PatchWebAddresses meta (WebServiceAddresses job @ addrs)]"
    by (auto simp: reconcileIngressForWebservice_def Let_def api_write_def split: sum.splits prod.splits)
  from webservice_loop_creates [OF l] w s n show ?thesis by (auto simp: emit_def)
qed

definition web0 :: service where
  "web0 = \<lparr>svc_Name = ''web-0'', svc_Namespace = ''default'', svc_UID = ''s'', svc_Labels = Map.empty, svc_OwnerReferences = [],
     svc_DeletionTimestamp = None, svc_ResourceVersion = [], svc_ClusterIP = ''None'', svc_Selector = Map.empty, svc_Ports = []\<rparr>"

definition mars_job1 :: MarsJob where
  "mars_job1 = \<lparr>tj_Kind = ''MarsJob'', tj_APIVersion = [], tj_Specs = [], tj_RunPolicy = run_policy0,
     WorkerMemoryTuningPolicy = None, WebHost = Some ''host'', WebServiceAddresses = []\<rparr>"

text \<open>A web service without ingress gets one.\<close>

theorem mars_webservices_exposed_witness:
  "created_ingresses (snd (reconcileIngressForWebservice
     (jc0\<lparr>World := quiet_world\<lparr>out_list_services := (\<lambda>h ns ls. Inr [web0])\<rparr>\<rparr>) job0 mars_job1 [])) = [''web-0'']"
proof -
  let ?jc = "jc0\<lparr>World := quiet_world\<lparr>out_list_services := (\<lambda>h ns ls. Inr [web0])\<rparr>\<rparr>"
  obtain e h' where r: "reconcileIngressForWebservice ?jc job0 mars_job1 [] = (e, h')" by force
  then have e: "e = None"
    by (auto simp: reconcileIngressForWebservice_def mars_job1_def quiet_world_def createNewIngressForWebservice_def api_write_def Let_def)
  have "WebHost mars_job1 = Some ''host''" by (simp add: mars_job1_def)
  from mars_webservices_exposed [OF r [unfolded e] this] r show ?thesis by (auto simp: quiet_world_def web0_def)
qed

end
