(* ===== verification/Workload_Reconcile.thy ===== *)
theory Workload_Reconcile
  imports Job_Termination Event_Handlers Tensor_Board Mars_Ingress Elastic_Batch Elastic_Contract Mpi_Job
begin

text \<open>
  The eight workload controllers as a whole: each implements the interface of the job controller
  (\<open>tfjob_controller.go\<close> and the corresponding files) and reconciles a request, from reading the job to
  what follows the generic reconciliation. The API server of one kind of job is a parameter, and so is
  the claiming of pods (\<open>PodControllerRefManager\<close> of Kubernetes).
\<close>

subsection \<open>The server of a kind\<close>

text \<open>
  A job object as it is read: its metadata, its own type, its status, and the model version and the
  cache of its spec.
\<close>

record 'j fetched =
  ft_Meta :: job_meta
  ft_Job :: 'j
  ft_Status :: JobStatus
  ft_ModelVersion :: "(model_version \<times> storage_provider) option"
  ft_Cache :: "CacheBackendSpec option"

text \<open>
  Reading a job from the server and from the informer cache, claiming its pods and services, and the
  object in memory once the generic reconciliation is done: its phases change the specs in place, and
  every patch of the object stores the answer of the server back into it.
\<close>

record 'j server =
  sv_get :: "hist \<Rightarrow> string \<Rightarrow> string \<Rightarrow> go_error + 'j fetched"
  sv_cached :: "hist \<Rightarrow> string \<Rightarrow> string \<Rightarrow> go_error + 'j fetched"
  sv_ClaimPods :: "JobController \<Rightarrow> job_meta \<Rightarrow> (smap \<Rightarrow> bool) \<Rightarrow> go_error option \<Rightarrow> pod list \<Rightarrow> hist \<Rightarrow> pod list res"
  sv_claim :: claim_object
  sv_after :: "hist \<Rightarrow> 'j fetched \<Rightarrow> 'j fetched"

text \<open>What lies outside the workloads: encodings, decodings and images.\<close>

record workload_env =
  wl_cluster :: cluster_env
  wl_elastic :: elastic_env
  wl_mpi :: mpi_env
  wl_mars :: mars_env
  wl_marshal_eb :: "ElasticBatchConfig \<Rightarrow> go_error + string"
  wl_decode_tb :: tb_decoder
  wl_decode_git :: "string \<Rightarrow> go_error + gitSyncOptions"

definition fetched_meta :: "go_error + 'j fetched \<Rightarrow> go_error + job_meta" where
  "fetched_meta r = (case r of Inl e \<Rightarrow> Inl e | Inr ft \<Rightarrow> Inr (ft_Meta ft))"

definition GetJobFromInformerCache :: "'j server \<Rightarrow> hist \<Rightarrow> string \<Rightarrow> string \<Rightarrow> go_error + job_meta" where
  "GetJobFromInformerCache S h ns n = fetched_meta (sv_cached S h ns n)"

definition GetJobFromAPIClient :: "'j server \<Rightarrow> hist \<Rightarrow> string \<Rightarrow> string \<Rightarrow> go_error + job_meta" where
  "GetJobFromAPIClient S h ns n = fetched_meta (sv_get S h ns n)"

subsection \<open>Pods and services of a job\<close>

definition AdoptAndClaimPods :: "'j server \<Rightarrow> JobController \<Rightarrow> job_meta \<Rightarrow> pod list \<Rightarrow> hist \<Rightarrow> pod list res" where
  "AdoptAndClaimPods S jc job pods h =
     (case out_selector (World jc) (GenLabels jc (jm_Name job)) of
        Inl e \<Rightarrow> (Inl e, h)
      | Inr matches \<Rightarrow>
          sv_ClaimPods S jc job matches
            (recheck_job jc job (GetJobFromAPIClient S h (jm_Namespace job) (jm_Name job))) pods h)"

text \<open>The pods are listed by label in all namespaces; only the MPI controller asks for one.\<close>

definition list_and_claim :: "'j server \<Rightarrow> JobController \<Rightarrow> string \<Rightarrow> job_meta \<Rightarrow> hist \<Rightarrow> pod list res" where
  "list_and_claim S jc ns job h =
     (let ls = GenLabels jc (jm_Name job); h1 = emit (ListPodsCall ns ls) h in
      case out_list_pods (World jc) h ns ls of
        Inl e \<Rightarrow> (Inl e, h1)
      | Inr pods \<Rightarrow> AdoptAndClaimPods S jc job pods h1)"

definition GetPodsForJob :: "'j server \<Rightarrow> JobController \<Rightarrow> job_meta \<Rightarrow> hist \<Rightarrow> pod list res" where
  "GetPodsForJob S jc job h = list_and_claim S jc [] job h"

definition mpi_GetPodsForJob :: "'j server \<Rightarrow> JobController \<Rightarrow> job_meta \<Rightarrow> hist \<Rightarrow> pod list res" where
  "mpi_GetPodsForJob S jc job h = list_and_claim S jc (jm_Namespace job) job h"

definition GetServicesForJob :: "'j server \<Rightarrow> JobController \<Rightarrow> job_meta \<Rightarrow> hist \<Rightarrow> service list res" where
  "GetServicesForJob S jc job h =
     (let ls = GenLabels jc (jm_Name job); h1 = emit (ListServicesCall [] ls) h in
      case out_list_services (World jc) h [] ls of
        Inl e \<Rightarrow> (Inl e, h1)
      | Inr svcs \<Rightarrow>
          andThen (AdoptAndClaimServices (sv_claim S) jc job (GetJobFromAPIClient S h1 (jm_Namespace job) (jm_Name job)) svcs h1)
            (\<lambda>(claimed, errlist) h2. case errlist of [] \<Rightarrow> (Inr claimed, h2) | e # es \<Rightarrow> (Inl e, h2)))"

text \<open>PyTorch and elastic batch give up before listing when the selector cannot be built.\<close>

definition checked_GetServicesForJob :: "'j server \<Rightarrow> JobController \<Rightarrow> job_meta \<Rightarrow> hist \<Rightarrow> service list res" where
  "checked_GetServicesForJob S jc job h =
     (case out_selector (World jc) (GenLabels jc (jm_Name job)) of
        Inl e \<Rightarrow> (Inl e, h)
      | Inr matches \<Rightarrow> GetServicesForJob S jc job h)"

fun remove_protectors :: "outside \<Rightarrow> pod list \<Rightarrow> hist \<Rightarrow> go_error option \<times> hist" where
  "remove_protectors W [] h = (None, h)"
| "remove_protectors W (p # ps) h =
     (if HasFinalizer (pod_Finalizers p) FinalizerPreemptProtector
      then (case remove_finalizer W p FinalizerPreemptProtector h of
              (Inl e, h1) \<Rightarrow> (Some e, h1)
            | (Inr _, h1) \<Rightarrow> remove_protectors W ps h1)
      else remove_protectors W ps h)"

definition cleanUpPreemptFinalizers :: "JobController \<Rightarrow> string \<Rightarrow> string \<Rightarrow> hist \<Rightarrow> go_error option \<times> hist" where
  "cleanUpPreemptFinalizers jc ns name h =
     (let ls = GenLabels jc name; h1 = emit (ListPodsCall ns ls) h in
      case out_list_pods (World jc) h ns ls of
        Inl e \<Rightarrow> (Some e, h1)
      | Inr pods \<Rightarrow> remove_protectors (World jc) pods h1)"

subsection \<open>Nodes and masters\<close>

text \<open>
  The error of \<open>strconv.Atoi\<close> is dropped: an index that is no number reads as zero, one out of range as
  the nearest number.
\<close>

definition reads_zero :: "string \<Rightarrow> bool" where
  "reads_zero s \<longleftrightarrow>
     (case Atoi s of
        Some i \<Rightarrow> i = 0
      | None \<Rightarrow> parse_unsigned (case s of [] \<Rightarrow> [] | c # cs \<Rightarrow> if c = CHR ''-'' \<or> c = CHR ''+'' then cs else s) = None)"

definition is_replica0 :: "ReplicaType \<Rightarrow> pod \<Rightarrow> bool" where
  "is_replica0 rtype p \<longleftrightarrow>
     sget (pod_Labels p) ReplicaTypeLabel = ToLower rtype \<and> reads_zero (sget (pod_Labels p) ReplicaIndexLabel)"

definition last_node :: "ReplicaType \<Rightarrow> pod list \<Rightarrow> string option" where
  "last_node rtype pods =
     (case filter (is_replica0 rtype) pods of [] \<Rightarrow> None | ps \<Rightarrow> Some (ps_NodeName (pod_Spec (last ps))))"

definition tf_GetNodeForModelOutput :: "pod list \<Rightarrow> go_error + string" where
  "tf_GetNodeForModelOutput pods =
     (let chief = (case last_node ''Chief'' pods of None \<Rightarrow> [] | Some n \<Rightarrow> n);
          master = (case last_node ''Master'' pods of None \<Rightarrow> chief | Some n \<Rightarrow> n)
      in Inr (case last_node ''Worker'' pods of None \<Rightarrow> master | Some n \<Rightarrow> n))"

definition pt_GetNodeForModelOutput :: "pod list \<Rightarrow> go_error + string" where
  "pt_GetNodeForModelOutput pods =
     (case find (is_replica0 ''Master'') pods of
        Some p \<Rightarrow> Inr (ps_NodeName (pod_Spec p))
      | None \<Rightarrow>
          (case pods of [] \<Rightarrow> Inl (Panic ''index out of range'') | p # ps \<Rightarrow> Inr (ps_NodeName (pod_Spec p))))"

definition no_GetNodeForModelOutput :: "pod list \<Rightarrow> go_error + string" where
  "no_GetNodeForModelOutput pods = Inr []"

definition getMasterSpec :: "replica_specs \<Rightarrow> ReplicaType \<times> ReplicaSpec option" where
  "getMasterSpec replicas =
     (case map_of replicas ''Chief'' of
        Some s \<Rightarrow> (''Chief'', Some s)
      | None \<Rightarrow>
          (case map_of replicas ''Master'' of
             Some s \<Rightarrow> (''Master'', Some s)
           | None \<Rightarrow> (''Worker'', map_of replicas ''Worker'')))"

subsection \<open>The interface of the workloads\<close>

text \<open>
  The part that does not depend on the job: names, orders, and the scaling that does nothing
  (\<open>EmptyScaleImpl\<close>).
\<close>

definition empty_scale ::
    "string \<Rightarrow> string \<Rightarrow> string \<Rightarrow> string \<Rightarrow> string \<Rightarrow> ReplicaType list \<Rightarrow> (replica_specs \<Rightarrow> ReplicaType \<Rightarrow> int \<Rightarrow> bool) \<Rightarrow> controller" where
  "empty_scale name kind grp container port orders master =
     \<lparr>ci_ControllerName = name, ci_Kind = kind, ci_APIVersion = grp @ ''/v1alpha1'', ci_GroupName = grp,
      ci_ContainerName = container, ci_PortName = port, ci_Orders = orders, ci_IsMasterRole = master,
      ci_GetJob = (\<lambda>h ns n. Inl NotFound), ci_GetPods = (\<lambda>job h. (Inr [], h)), ci_GetServices = (\<lambda>job h. (Inr [], h)),
      ci_SetClusterSpec = (\<lambda>specs ports job t rt i h. (Inr t, h)), ci_UpdateJobStatus = (\<lambda>job specs st restart h. (Inr st, h)),
      ci_EnableElasticScaling = (\<lambda>job rp. False), ci_CheckpointIfNecessary = (\<lambda>job specs pods h. (Inr (True, job, specs), h)),
      ci_ScaleOut = (\<lambda>job specs pods svcs h. (Inr (job, pods), h)), ci_ScaleIn = (\<lambda>job specs pods svcs h. (Inr (job, pods), h))\<rparr>"

definition master_present :: "replica_specs \<Rightarrow> ReplicaType \<Rightarrow> int \<Rightarrow> bool" where
  "master_present specs rtype index \<longleftrightarrow> map_of specs ''Master'' \<noteq> None \<and> rtype = ''Master''"

definition tf_names :: controller where
  "tf_names = empty_scale ''TensorFlowController'' ''TFJob'' ''training.kubedl.io'' ''tensorflow'' ''tfjob-port''
     [''PS'', ''Master'', ''Chief'', ''Worker''] (\<lambda>specs rtype index. IsTFJobChieforMaster rtype)"

definition pt_names :: controller where
  "pt_names = empty_scale ''PytorchController'' ''PyTorchJob'' ''training.kubedl.io'' ''pytorch'' ''pytorchjob-port''
     [JobReplicaTypeAIMaster, ''Master'', ''Worker''] master_present"

definition xgb_names :: controller where
  "xgb_names = empty_scale ''XGBoostController'' ''XGBoostJob'' ''training.kubedl.io'' ''xgboostjob'' ''xgboostjob-port''
     [''Master'', ''Worker''] master_present"

definition xdl_names :: controller where
  "xdl_names = empty_scale ''XDLController'' ''XDLJob'' ''training.kubedl.io'' ''xdl'' ''xdljob-port''
     [''PS'', ''Scheduler'', ''Worker'', ''ExtendRole''] (\<lambda>specs rtype index. False)"

definition mpi_names :: controller where
  "mpi_names = empty_scale ''MPIController'' ''MPIJob'' ''training.kubedl.io'' ''mpi'' ''mpi-port''
     [''Worker'', ''Launcher''] (\<lambda>specs rtype index. False)"

definition mars_names :: controller where
  "mars_names = empty_scale ''MarsController'' ''MarsJob'' ''training.kubedl.io'' ''mars'' ''mars-port''
     [''Scheduler'', ''WebService'', ''Worker''] (\<lambda>specs rtype index. False)"

definition edl_names :: controller where
  "edl_names = empty_scale ''ElasticDLController'' ''ElasticDLJob'' ''training.kubedl.io'' ''elasticdl'' ''elasticdl-port''
     [''Master''] master_present"

definition eb_names :: controller where
  "eb_names = empty_scale ''ElasticBatchController'' ''ElasticBatchJob'' ''inference.kubedl.io'' ''elasticbatch'' ''elstcbatch-port''
     [JobReplicaTypeAIMaster, ''Worker''] (\<lambda>specs rtype index. False)"

text \<open>
  The controller of one job: the generic one with the names and the operations of the workload. The
  labels and owner references depend on the names alone, so the reads use a controller that has them.
\<close>

definition with_names :: "JobController \<Rightarrow> workload_env \<Rightarrow> controller \<Rightarrow> JobController" where
  "with_names jc E c = jc\<lparr>Controller := c, InjectCodeSync := InjectCodeSyncInitContainers (wl_decode_git E)\<rparr>"

definition tf_UpdateJobStatus ::
    "TFJob server \<Rightarrow> JobController \<Rightarrow> TFJob \<Rightarrow> job_meta \<Rightarrow> replica_specs \<Rightarrow> JobStatus \<Rightarrow> bool \<Rightarrow> hist \<Rightarrow> JobStatus res" where
  "tf_UpdateJobStatus S jc tf job specs st restart h =
     (case all_workers_succeed TFReplicaTypeWorker specs st of
        Inl e \<Rightarrow> (Inl e, h)
      | Inr _ \<Rightarrow>
          (case GetPodsForJob S jc job h of
             (pods, h1) \<Rightarrow>
               (tf_updateGeneralJobStatus (World jc) (jm_Name job) (tf_SuccessPolicy tf) pods (out_now (World jc) h1) specs st restart, h1)))"

definition TFController :: "workload_env \<Rightarrow> JobController \<Rightarrow> TFJob server \<Rightarrow> TFJob \<Rightarrow> JobController" where
  "TFController E jc S tf =
     (let jc1 = with_names jc E tf_names in
      jc1\<lparr>Controller := tf_names\<lparr>
        ci_GetJob := GetJobFromInformerCache S, ci_GetPods := GetPodsForJob S jc1, ci_GetServices := GetServicesForJob S jc1,
        ci_SetClusterSpec := (\<lambda>specs ports job t rt i h. (tf_SetClusterSpec (wl_cluster E) specs ports job t rt i, h)),
        ci_UpdateJobStatus := tf_UpdateJobStatus S jc1 tf\<rparr>\<rparr>)"

definition PyTorchController :: "workload_env \<Rightarrow> JobController \<Rightarrow> PyTorchJob server \<Rightarrow> JobController" where
  "PyTorchController E jc S =
     (let jc1 = with_names jc E pt_names; W = World jc; EE = wl_elastic E in
      jc1\<lparr>Controller := pt_names\<lparr>
        ci_GetJob := GetJobFromInformerCache S, ci_GetPods := GetPodsForJob S jc1, ci_GetServices := checked_GetServicesForJob S jc1,
        ci_SetClusterSpec := (\<lambda>specs ports job t rt i h. (pt_SetClusterSpec (Config jc) (wl_cluster E) specs ports job t rt i, h)),
        ci_UpdateJobStatus := (\<lambda>job specs st restart h. (pt_updateGeneralJobStatus (jm_Name job) (out_now W h) specs st restart, h)),
        ci_EnableElasticScaling := EnableElasticScaling, ci_CheckpointIfNecessary := CheckpointIfNecessary W EE,
        ci_ScaleOut := ScaleOut W EE, ci_ScaleIn := ScaleIn W EE\<rparr>\<rparr>)"

definition XGBoostController :: "workload_env \<Rightarrow> JobController \<Rightarrow> XGBoostJob server \<Rightarrow> JobController" where
  "XGBoostController E jc S =
     (let jc1 = with_names jc E xgb_names in
      jc1\<lparr>Controller := xgb_names\<lparr>
        ci_GetJob := GetJobFromInformerCache S, ci_GetPods := GetPodsForJob S jc1, ci_GetServices := GetServicesForJob S jc1,
        ci_SetClusterSpec := (\<lambda>specs ports job t rt i h. (xgb_SetClusterSpec specs job t rt i, h)),
        ci_UpdateJobStatus := (\<lambda>job specs st restart h. (xgb_UpdateJobStatus (jm_Name job) (out_now (World jc) h) specs st restart, h))\<rparr>\<rparr>)"

definition XDLController :: "workload_env \<Rightarrow> JobController \<Rightarrow> XDLJob server \<Rightarrow> XDLJob \<Rightarrow> JobController" where
  "XDLController E jc S xdl =
     (let jc1 = with_names jc E xdl_names in
      jc1\<lparr>Controller := xdl_names\<lparr>
        ci_GetJob := GetJobFromInformerCache S, ci_GetPods := GetPodsForJob S jc1, ci_GetServices := GetServicesForJob S jc1,
        ci_SetClusterSpec := (\<lambda>specs ports job t rt i h. (xdl_SetClusterSpec (wl_cluster E) specs job t rt i, h)),
        ci_UpdateJobStatus := (\<lambda>job specs st restart h. (xdl_updateGeneralJobStatus (jm_Name job) (MinFinishWorkerPercentage xdl)
          (MinFinishWorkerNum xdl) (out_now (World jc) h) specs st restart, h))\<rparr>\<rparr>)"

definition MPIController :: "workload_env \<Rightarrow> JobController \<Rightarrow> MPIJob server \<Rightarrow> MPIJob \<Rightarrow> JobStatus \<Rightarrow> JobController" where
  "MPIController E jc S mpi old =
     (let jc1 = with_names jc E mpi_names; W = World jc in
      jc1\<lparr>Controller := mpi_names\<lparr>
        ci_GetJob := GetJobFromInformerCache S, ci_GetPods := mpi_GetPodsForJob S jc1,
        ci_SetClusterSpec := (\<lambda>specs ports job t rt i h. mpi_SetClusterSpec W (wl_mpi E) (mpi\<lparr>tj_Specs := specs\<rparr>) job t rt i h),
        ci_UpdateJobStatus := (\<lambda>job specs st restart h.
          (mpi_UpdateJobStatus (jm_Name job) (IsEvicted old) (out_now W h) specs st restart, h))\<rparr>\<rparr>)"

definition MarsController :: "workload_env \<Rightarrow> JobController \<Rightarrow> MarsJob server \<Rightarrow> MarsJob \<Rightarrow> JobController" where
  "MarsController E jc S mars =
     (let jc1 = with_names jc E mars_names in
      jc1\<lparr>Controller := mars_names\<lparr>
        ci_GetJob := GetJobFromInformerCache S, ci_GetPods := GetPodsForJob S jc1, ci_GetServices := GetServicesForJob S jc1,
        ci_SetClusterSpec := (\<lambda>specs ports job t rt i h. (mars_SetClusterSpec (wl_mars E) (mars\<lparr>tj_Specs := specs\<rparr>) job t rt i, h)),
        ci_UpdateJobStatus := (\<lambda>job specs st restart h.
          (mars_updateGeneralJobStatus (jm_Name job) (out_now (World jc) h) specs st restart, h))\<rparr>\<rparr>)"

definition ElasticDLController :: "workload_env \<Rightarrow> JobController \<Rightarrow> job_object server \<Rightarrow> JobController" where
  "ElasticDLController E jc S =
     (let jc1 = with_names jc E edl_names in
      jc1\<lparr>Controller := edl_names\<lparr>
        ci_GetJob := GetJobFromInformerCache S, ci_GetPods := GetPodsForJob S jc1,
        ci_UpdateJobStatus := (\<lambda>job specs st restart h.
          (edl_updateGeneralJobStatus (jm_Name job) (out_now (World jc) h) specs st restart, h))\<rparr>\<rparr>)"

definition ElasticBatchController :: "workload_env \<Rightarrow> JobController \<Rightarrow> ElasticBatchJob server \<Rightarrow> ElasticBatchJob \<Rightarrow> JobController" where
  "ElasticBatchController E jc S eb =
     (let jc1 = with_names jc E eb_names in
      jc1\<lparr>Controller := eb_names\<lparr>
        ci_GetJob := GetJobFromInformerCache S, ci_GetPods := GetPodsForJob S jc1, ci_GetServices := checked_GetServicesForJob S jc1,
        ci_SetClusterSpec := (\<lambda>specs ports job t rt i h. (eb_SetClusterSpec (wl_marshal_eb E) job t rt i, h)),
        ci_UpdateJobStatus := (\<lambda>job specs st restart h.
          (ebatch_updateGeneralJobStatus (jm_Name job) (eb_SuccessPolicy eb) (out_now (World jc) h) specs st restart, h))\<rparr>\<rparr>)"

subsection \<open>Reconciling a request\<close>

text \<open>
  What the \<open>Reconcile\<close> methods share: a job that is gone is left to \<open>gone\<close>, one that is being deleted or
  whose expectations are not met is left alone.
\<close>

definition reconcile_request ::
    "'j server \<Rightarrow> (hist \<Rightarrow> go_error option \<times> hist) \<Rightarrow> ('j fetched \<Rightarrow> hist \<Rightarrow> bool) \<Rightarrow> ('j fetched \<Rightarrow> hist \<Rightarrow> outcome \<times> hist) \<Rightarrow>
     string \<Rightarrow> string \<Rightarrow> hist \<Rightarrow> outcome \<times> hist" where
  "reconcile_request S gone needSync sync ns name h =
     (let h1 = emit (GetJobCall ns name) h in
      case sv_get S h ns name of
        Inl e \<Rightarrow>
          (if IsNotFound e then (case gone h1 of (err, h2) \<Rightarrow> ((no_result, err), h2)) else ((no_result, Some e), h1))
      | Inr ft \<Rightarrow>
          (if \<not> needSync ft h1 \<or> jm_DeletionTimestamp (ft_Meta ft) \<noteq> None then ((no_result, None), h1)
           else sync ft h1))"

definition needs_sync :: "JobController \<Rightarrow> 'a job_object_scheme fetched \<Rightarrow> hist \<Rightarrow> bool" where
  "needs_sync jc ft h = SatisfyExpectations (World jc) h (ft_Meta ft) (tj_Specs (ft_Job ft))"

text \<open>
  The defaults of the scheme, then the generic reconciliation. The kind and version the defaults set are
  those of the object; a workload that has neither model nor cache passes nil for them.
\<close>

definition typed :: "'a job_object_scheme \<Rightarrow> job_meta \<Rightarrow> job_meta" where
  "typed job meta = meta\<lparr>jm_Kind := tj_Kind job, jm_APIVersion := tj_APIVersion job\<rparr>"

definition reconcile_defaulted ::
    "('a job_object_scheme \<Rightarrow> JobController) \<Rightarrow> (pod list \<Rightarrow> go_error + string) \<Rightarrow> bool \<Rightarrow> 'a job_object_scheme fetched \<Rightarrow>
     go_error + 'a job_object_scheme \<Rightarrow>
     (JobController \<Rightarrow> 'a job_object_scheme fetched \<Rightarrow> Result \<Rightarrow> hist \<Rightarrow> outcome \<times> hist) \<Rightarrow> hist \<Rightarrow> outcome \<times> hist" where
  "reconcile_defaulted ctrl node outputs ft defaulted follow h =
     (case defaulted of
        Inl e \<Rightarrow> ((no_result, Some e), h)
      | Inr job \<Rightarrow>
          (let meta = typed job (ft_Meta ft);
               args = \<lparr>ja_RunPolicy = tj_RunPolicy job, ja_ModelVersion = (if outputs then ft_ModelVersion ft else None),
                       ja_ModelNode = node, ja_Cache = (if outputs then ft_Cache ft else None)\<rparr>
           in case ReconcileJobs (ctrl job) meta (tj_Specs job) (ft_Status ft) args h of
                ((result, Some e), h1) \<Rightarrow> ((result, Some e), h1)
              | ((result, None), h1) \<Rightarrow> follow (ctrl job) (ft\<lparr>ft_Meta := meta, ft_Job := job\<rparr>) result h1))"

definition done_after :: "JobController \<Rightarrow> 'j fetched \<Rightarrow> Result \<Rightarrow> hist \<Rightarrow> outcome \<times> hist" where
  "done_after jc ft result h = ((result, None), h)"

definition nothing_left :: "hist \<Rightarrow> go_error option \<times> hist" where
  "nothing_left h = (None, h)"

definition sync_tensorboard :: "workload_env \<Rightarrow> TFJob server \<Rightarrow> JobController \<Rightarrow> TFJob fetched \<Rightarrow> Result \<Rightarrow> hist \<Rightarrow> outcome \<times> hist" where
  "sync_tensorboard E S jc ft result h =
     (let ft1 = sv_after S h ft; specs = tj_Specs (ft_Job ft1) in
      ReconcileTensorBoard (wl_decode_tb E) jc (ft_Meta ft1) specs (snd (getMasterSpec specs)) (ft_Status ft1) result h)"

definition TFJob_Reconcile :: "workload_env \<Rightarrow> JobController \<Rightarrow> TFJob server \<Rightarrow> string \<Rightarrow> string \<Rightarrow> hist \<Rightarrow> outcome \<times> hist" where
  "TFJob_Reconcile E jc S =
     reconcile_request S nothing_left (needs_sync jc)
       (\<lambda>ft. reconcile_defaulted (TFController E jc S) tf_GetNodeForModelOutput True ft
               (SetDefaults_TFJob (gate_DAGScheduling (Config jc)) (ft_Job ft)) (sync_tensorboard E S))"

text \<open>PyTorch jobs that scale elastically are reconciled whether or not the expectations are met.\<close>

definition PyTorchJob_Reconcile :: "workload_env \<Rightarrow> JobController \<Rightarrow> PyTorchJob server \<Rightarrow> string \<Rightarrow> string \<Rightarrow> hist \<Rightarrow> outcome \<times> hist" where
  "PyTorchJob_Reconcile E jc S ns name =
     reconcile_request S (cleanUpPreemptFinalizers (with_names jc E pt_names) ns name)
       (\<lambda>ft h. needs_sync jc ft h \<or> EnableElasticScaling (ft_Meta ft) (tj_RunPolicy (ft_Job ft)))
       (\<lambda>ft. reconcile_defaulted (\<lambda>_. PyTorchController E jc S) pt_GetNodeForModelOutput True ft
               (SetDefaults_PyTorchJob (gate_DAGScheduling (Config jc)) (ft_Job ft)) done_after) ns name"

definition XGBoostJob_Reconcile :: "workload_env \<Rightarrow> JobController \<Rightarrow> XGBoostJob server \<Rightarrow> string \<Rightarrow> string \<Rightarrow> hist \<Rightarrow> outcome \<times> hist" where
  "XGBoostJob_Reconcile E jc S =
     reconcile_request S nothing_left (needs_sync jc)
       (\<lambda>ft. reconcile_defaulted (\<lambda>_. XGBoostController E jc S) no_GetNodeForModelOutput False ft
               (SetDefaults_XGBoostJob (gate_DAGScheduling (Config jc)) (ft_Job ft)) done_after)"

definition XDLJob_Reconcile :: "workload_env \<Rightarrow> JobController \<Rightarrow> XDLJob server \<Rightarrow> string \<Rightarrow> string \<Rightarrow> hist \<Rightarrow> outcome \<times> hist" where
  "XDLJob_Reconcile E jc S =
     reconcile_request S nothing_left (needs_sync jc)
       (\<lambda>ft. reconcile_defaulted (XDLController E jc S) no_GetNodeForModelOutput False ft
               (SetDefaults_XDLJob (ft_Job ft)) done_after)"

text \<open>The legacy fields of an MPI job are converted before the defaults are set.\<close>

definition MPIJob_Reconcile :: "workload_env \<Rightarrow> JobController \<Rightarrow> MPIJob server \<Rightarrow> string \<Rightarrow> string \<Rightarrow> hist \<Rightarrow> outcome \<times> hist" where
  "MPIJob_Reconcile E jc S =
     reconcile_request S nothing_left (needs_sync jc)
       (\<lambda>ft. reconcile_defaulted (\<lambda>job. MPIController E jc S job (ft_Status ft)) no_GetNodeForModelOutput False ft
               (case LegacyMPIJobToV1MPIJob (wl_mpi E) (ft_Job ft) of
                  Inl e \<Rightarrow> Inl e
                | Inr job \<Rightarrow> SetDefaults_MPIJob (gate_DAGScheduling (Config jc)) job) done_after)"

definition sync_ingress :: "MarsJob server \<Rightarrow> JobController \<Rightarrow> MarsJob fetched \<Rightarrow> Result \<Rightarrow> hist \<Rightarrow> outcome \<times> hist" where
  "sync_ingress S jc ft result h =
     (let ft1 = sv_after S h ft in
      case reconcileIngressForWebservice jc (ft_Meta ft1) (ft_Job ft1) h of (err, h1) \<Rightarrow> ((result, err), h1))"

definition MarsJob_Reconcile :: "workload_env \<Rightarrow> JobController \<Rightarrow> MarsJob server \<Rightarrow> string \<Rightarrow> string \<Rightarrow> hist \<Rightarrow> outcome \<times> hist" where
  "MarsJob_Reconcile E jc S =
     reconcile_request S nothing_left (needs_sync jc)
       (\<lambda>ft. reconcile_defaulted (MarsController E jc S) no_GetNodeForModelOutput False ft
               (SetDefaults_MarsJob (gate_DAGScheduling (Config jc)) (ft_Job ft)) (sync_ingress S))"

text \<open>The scheme has no defaults for ElasticDL jobs.\<close>

definition ElasticDLJob_Reconcile :: "workload_env \<Rightarrow> JobController \<Rightarrow> job_object server \<Rightarrow> string \<Rightarrow> string \<Rightarrow> hist \<Rightarrow> outcome \<times> hist" where
  "ElasticDLJob_Reconcile E jc S =
     reconcile_request S nothing_left (needs_sync jc)
       (\<lambda>ft. reconcile_defaulted (\<lambda>_. ElasticDLController E jc S) no_GetNodeForModelOutput False ft (Inr (ft_Job ft)) done_after)"

definition ElasticBatchJob_Reconcile ::
    "workload_env \<Rightarrow> JobController \<Rightarrow> ElasticBatchJob server \<Rightarrow> string \<Rightarrow> string \<Rightarrow> hist \<Rightarrow> outcome \<times> hist" where
  "ElasticBatchJob_Reconcile E jc S ns name =
     reconcile_request S (cleanUpPreemptFinalizers (with_names jc E eb_names) ns name) (needs_sync jc)
       (\<lambda>ft. reconcile_defaulted (ElasticBatchController E jc S) no_GetNodeForModelOutput False ft
               (SetDefaults_ElasticBatchJob (gate_DAGScheduling (Config jc)) (ft_Meta ft) (ft_Job ft)) done_after) ns name"

end
