(* ===== verification/Workload_Contract.thy ===== *)
theory Workload_Contract
  imports Workload_Reconcile Gang_Contract
begin

text \<open>
  What the eight workload controllers promise for a request, as the locales \<open>job_reconciler\<close> and
  \<open>quiet_reconciler\<close>: one request writes the status at most once, in a way that keeps the conditions
  well formed and those of a finished job unchanged. Inside the locale follows what holds along any
  sequence of requests.
\<close>

subsection \<open>What is assumed of the server\<close>

definition lawful_server :: "JobController \<Rightarrow> 'j server \<Rightarrow> bool" where
  "lawful_server jc S \<longleftrightarrow>
     quiet_gang (GangScheduler jc) \<and>
     (\<forall>jc' job m e pods h r h'. sv_ClaimPods S jc' job m e pods h = (r, h') \<longrightarrow> unobtrusive h h') \<and>
     (\<forall>m adopt release s h r h'.
        (\<forall>s h r h'. adopt s h = (r, h') \<longrightarrow> unobtrusive h h') \<and> (\<forall>s h r h'. release s h = (r, h') \<longrightarrow> unobtrusive h h') \<longrightarrow>
        sv_claim S m adopt release s h = (r, h') \<longrightarrow> unobtrusive h h')"

lemma lawfulD:
  assumes "lawful_server jc S"
  shows "quiet_gang (GangScheduler jc)"
    "sv_ClaimPods S jc' job m e pods h = (r, h') \<Longrightarrow> unobtrusive h h'"
    "sv_claim S ma adopt release s h = (b, h') \<Longrightarrow> (\<And>s h r h'. adopt s h = (r, h') \<Longrightarrow> unobtrusive h h') \<Longrightarrow>
     (\<And>s h r h'. release s h = (r, h') \<Longrightarrow> unobtrusive h h') \<Longrightarrow> unobtrusive h h'"
  using assms unfolding lawful_server_def by blast+

lemma unobtrusive_read:
  "unobtrusive (emit c h) h' \<Longrightarrow> \<not> launches c \<Longrightarrow> (\<forall>job st. c \<noteq> UpdateStatusCall job st) \<Longrightarrow> unobtrusive h h'"
  using unobtrusive_trans [OF unobtrusive_emit] by blast

lemma quiet_PatchService: "PatchService W ns n d h = (e, h') \<Longrightarrow> unobtrusive h h'"
  by (rule unobtrusive_read [of "GetService ns n"])
    (auto simp: PatchService_def split: sum.splits intro: unobtrusive_write)

lemma quiet_adopt: "AdoptService jc job c svc h = (e, h') \<Longrightarrow> unobtrusive h h'"
  by (auto simp: AdoptService_def split: option.splits dest: quiet_PatchService)

lemma quiet_release: "ReleaseService jc job svc h = (e, h') \<Longrightarrow> unobtrusive h h'"
  by (auto simp: ReleaseService_def split: prod.splits option.splits if_splits dest: quiet_PatchService)

lemma quiet_claim_loop:
  assumes "lawful_server jc S" "\<And>s h r h'. adopt s h = (r, h') \<Longrightarrow> unobtrusive h h'"
    "\<And>s h r h'. release s h = (r, h') \<Longrightarrow> unobtrusive h h'"
  shows "claim_loop (sv_claim S) m adopt release ss claimed es h = (r, h') \<Longrightarrow> unobtrusive h h'"
proof (induction ss arbitrary: claimed es h)
  case (Cons s ss)
  obtain b h1 where c: "sv_claim S m adopt release s h = (b, h1)" by (cases "sv_claim S m adopt release s h")
  then have "unobtrusive h h1" using lawfulD(3) [OF assms(1) c] assms(2,3) by blast
  with Cons c show ?case by (auto split: sum.splits intro: unobtrusive_trans)
qed simp

lemma quiet_AdoptAndClaimServices:
  "lawful_server jc' S \<Longrightarrow> AdoptAndClaimServices (sv_claim S) jc job live svcs h = (r, h') \<Longrightarrow> unobtrusive h h'"
  by (auto simp: AdoptAndClaimServices_def ClaimServices_def split: sum.splits prod.splits
      dest: quiet_claim_loop [OF _ quiet_adopt quiet_release])

lemma quiet_GetPods:
  assumes "lawful_server jc' S" "list_and_claim S jc ns job h = (r, h')"
  shows "unobtrusive h h'"
proof -
  have e: "unobtrusive h (emit (ListPodsCall ns (GenLabels jc (jm_Name job))) h)" by (rule unobtrusive_emit) simp_all
  show ?thesis
    using assms(2) e
    by (auto simp: list_and_claim_def AdoptAndClaimPods_def Let_def split: sum.splits
        dest: lawfulD(2) [OF assms(1)] intro: unobtrusive_trans)
qed

lemma quiet_GetServices:
  assumes "lawful_server jc' S" "GetServicesForJob S jc job h = (r, h')"
  shows "unobtrusive h h'"
proof -
  let ?h1 = "emit (ListServicesCall [] (GenLabels jc (jm_Name job))) h"
  have e: "unobtrusive h ?h1" by (rule unobtrusive_emit) simp_all
  have "unobtrusive ?h1 h'" if "out_list_services (World jc) h [] (GenLabels jc (jm_Name job)) = Inr svcs" for svcs
  proof -
    obtain x h2 where c: "AdoptAndClaimServices (sv_claim S) jc job (GetJobFromAPIClient S ?h1 (jm_Namespace job) (jm_Name job)) svcs ?h1 = (x, h2)"
      by (cases "AdoptAndClaimServices (sv_claim S) jc job (GetJobFromAPIClient S ?h1 (jm_Namespace job) (jm_Name job)) svcs ?h1")
    with assms(2) that have "h' = h2"
      by (cases x) (auto simp: GetServicesForJob_def Let_def split: prod.splits list.splits)
    with quiet_AdoptAndClaimServices [OF assms(1) c] show ?thesis by simp
  qed
  with assms(2) e show ?thesis
    by (auto simp: GetServicesForJob_def Let_def split: sum.splits intro: unobtrusive_trans)
qed

lemma quiet_checked_GetServices:
  "lawful_server jc' S \<Longrightarrow> checked_GetServicesForJob S jc job h = (r, h') \<Longrightarrow> unobtrusive h h'"
  by (auto simp: checked_GetServicesForJob_def split: sum.splits dest: quiet_GetServices)

lemmas quiet_reads = quiet_GetPods quiet_GetServices quiet_checked_GetServices

lemma quiet_remove_protectors: "remove_protectors W ps h = (e, h') \<Longrightarrow> unobtrusive h h'"
proof (induction ps arbitrary: h)
  case (Cons p ps)
  have "unobtrusive h (h @ [RemoveFinalizerCall p FinalizerPreemptProtector])"
    using unobtrusive_emit [of "RemoveFinalizerCall p FinalizerPreemptProtector" h] by (simp add: emit_def)
  with Cons show ?case
    by (auto simp: remove_finalizer_def split: if_splits sum.splits intro: unobtrusive_trans)
qed simp

lemma quiet_cleanUp: "cleanUpPreemptFinalizers jc ns n h = (e, h') \<Longrightarrow> unobtrusive h h'"
  by (rule unobtrusive_read [of "ListPodsCall ns (GenLabels jc n)"])
    (auto simp: cleanUpPreemptFinalizers_def Let_def split: sum.splits dest: quiet_remove_protectors)

subsection \<open>The scaling of PyTorch jobs writes no status\<close>

lemma silent_restart_stale:
  assumes "restartStalePod W job p n g h = (r, h')"
  shows "silent h h'"
  using assms
  by (auto simp: restartStalePod_def restartPodInKruiseProtocol_def recreatePodContainers_def patch_pod_meta_def
      api_write_def emit_def Let_def silent_def split: if_splits sum.splits option.splits bool.splits prod.splits)

lemma silent_restart_masters: "restart_masters W job n ps ok pods h = (r, h') \<Longrightarrow> silent h h'"
proof (induction ps arbitrary: ok pods h)
  case (Cons p ps)
  then show ?case by (auto split: prod.splits sum.splits dest!: silent_restart_stale intro: silent_trans)
qed simp

lemma silent_restart_workers: "restart_workers W job n ps k pods h = (r, h') \<Longrightarrow> silent h h'"
proof (induction ps arbitrary: k pods h)
  case (Cons p ps)
  then show ?case by (auto split: prod.splits dest!: silent_restart_stale intro: silent_trans)
qed simp

lemma silent_patch_job: "patch_job W job as h = (r, h') \<Longrightarrow> silent h h'"
  by (auto simp: patch_job_def silent_def)

lemma silent_restart_round:
  assumes "restart_round W E job n aps pods h = (r, h')"
  shows "silent h h'"
proof -
  obtain total stalePods where f: "FilterStalePodsByReplicaType aps (jm_Generation job) [ToLower JobReplicaTypeAIMaster] = (total, stalePods)"
    by force
  have fin: "silent h1 h2"
    if "andThen (patch_job W job as h1) (\<lambda>job1 h3. (Inr (True, job1, ps), emit (Event t x) h3)) = (r, h2)" for as t x ps r h1 h2
    using that by (rule silent_andThen) (auto intro: silent_emit dest: silent_patch_job)
  show ?thesis
    using assms unfolding restart_round_def f Let_def prod.case
  proof (rule silent_andThen)
    fix x h1 assume "restart_masters W job n (stalePods (ToLower PyTorchReplicaTypeMaster)) True pods h = (x, h1)"
    then show "silent h h1" by (rule silent_restart_masters)
  next
    fix x h1 r h2
    assume a: "(case x of (masterCompleted, pods1) \<Rightarrow> \<lambda>h1. if \<not> masterCompleted then (Inr (False, job, pods1), h1)
      else case restart_workers W job n (out_go_order W h1 (stalePods (ToLower PyTorchReplicaTypeWorker))) 0 pods1 h1 of
        ((completed, pods2), h2) \<Rightarrow>
          if total = 0 \<or> total - int (length (stalePods (ToLower PyTorchReplicaTypeMaster))) - int (completed - ee_lost E h2) = 0
          then andThen (patch_job W job (scale_finished_patch job) h2)
                 (\<lambda>job1 h3. (Inr (True, job1, pods2), emit (Event ''Normal'' ''ScaleSucceed'') h3))
          else (Inr (False, job, pods2), h2)) h1 = (r, h2)"
    obtain mc pods1 where x: "x = (mc, pods1)" by force
    obtain k pods2 h3 where w: "restart_workers W job n (out_go_order W h1 (stalePods (ToLower PyTorchReplicaTypeWorker))) 0 pods1 h1 = ((k, pods2), h3)"
      by (metis surj_pair)
    from a x w have "h2 = h1 \<or> h2 = h3 \<or> silent h3 h2" by (auto split: if_splits dest: fin)
    with silent_restart_workers [OF w] show "silent h1 h2" by (auto intro: silent_trans)
  qed
qed

lemma silent_scale: "scale W E job specs aps svcs pods h = (r, h') \<Longrightarrow> silent h h'"
proof -
  have svc: "silent h h1" if "refreshStaleService W s g h = (e, h1)" for s g h e h1
    using that by (auto simp: refreshStaleService_def api_write_def emit_def Let_def silent_def split: if_splits option.splits)
  show "scale W E job specs aps svcs pods h = (r, h') \<Longrightarrow> silent h h'"
    unfolding scale_def
    by (auto split: option.splits if_splits elim!: silent_guarded silent_andThen)
      (erule svc silent_patch_job silent_restart_round)+
qed

lemma silent_ScaleOut: "ScaleOut W E job specs aps svcs h = (r, h') \<Longrightarrow> silent h h'"
  unfolding ScaleOut_def by (auto elim!: silent_andThen) (erule silent_scale)

lemma silent_ScaleIn: "ScaleIn W E job specs aps svcs h = (r, h') \<Longrightarrow> silent h h'"
  unfolding ScaleIn_def Let_def by (auto elim!: silent_andThen) (erule silent_scale)

lemma silent_cleanup_loop: "cleanup_loop W ps n h = (m, h') \<Longrightarrow> silent h h'"
proof (induction ps arbitrary: n h)
  case (Cons p ps)
  then show ?case by (auto split: if_splits prod.splits option.splits dest!: silent_DeletePod intro: silent_trans)
qed simp

lemma silent_Checkpoint:
  assumes "CheckpointIfNecessary W E job specs aps h = (r, h')"
  shows "silent h h'"
proof -
  have trig: "silent h h1" if "triggerJobCheckpoint W E job (emit (Event t x) h) = (e, h1)" for t x e h h1
    using that by (auto simp: triggerJobCheckpoint_def patch_job_def emit_def silent_def split: sum.splits)
  have clean: "silent h h1" if "cleanupVictimPods W vs h = (e, h1)" for vs h e h1
    using that by (auto simp: cleanupVictimPods_def split: prod.splits dest: silent_cleanup_loop)
  have inc: "silent h h1" if "increaseGenerationAndMarkAsSucceeded W E job specs v h = (e, h1)" for v h e h1
    using that by (auto simp: increaseGenerationAndMarkAsSucceeded_def update_job_def silent_def Let_def split: option.splits sum.splits)
  show ?thesis
    using assms unfolding CheckpointIfNecessary_def Let_def
    by (auto split: sum.splits if_splits elim!: silent_andThen silent_guarded)
      ((erule trig clean) | (auto split: prod.splits option.splits go_error.splits dest!: inc intro: silent_emit))+
qed

lemma silent_mpi_cluster: "mpi_SetClusterSpec W E job meta t rt i h = (r, h') \<Longrightarrow> silent h h'"
  by (auto simp: mpi_SetClusterSpec_def getOrCreateJobConfig_def setupMPILauncher_def api_write_def emit_def Let_def silent_def
      split: if_splits option.splits prod.splits)

subsection \<open>The controllers keep the interface\<close>

lemma unobtrusiveD: "unobtrusive h h' \<Longrightarrow> silent h h'" "unobtrusive h h' \<Longrightarrow> launched h' = launched h"
  by (simp_all add: unobtrusive_def)

text \<open>A workload controller reads quietly, scales and builds specs silently and steps the status.\<close>

definition sound_controller :: "JobController \<Rightarrow> bool" where
  "sound_controller jc \<longleftrightarrow> silent_interface jc \<and> steps_interface jc \<and> reads_launch_nothing jc"

lemma sound_controllerI:
  assumes "quiet_gang (GangScheduler jc)"
    and "\<And>job h r h'. ci_GetPods (Controller jc) job h = (r, h') \<Longrightarrow> unobtrusive h h'"
    and "\<And>job h r h'. ci_GetServices (Controller jc) job h = (r, h') \<Longrightarrow> unobtrusive h h'"
    and "\<And>specs ports job t rt i h r h'. ci_SetClusterSpec (Controller jc) specs ports job t rt i h = (r, h') \<Longrightarrow> silent h h'"
    and "\<And>job specs st re h r h'. ci_UpdateJobStatus (Controller jc) job specs st re h = (r, h') \<Longrightarrow>
           silent h h' \<and> (\<forall>st'. r = Inr st' \<longrightarrow> status_steps st st')"
    and "\<And>job specs pods h r h'. ci_CheckpointIfNecessary (Controller jc) job specs pods h = (r, h') \<Longrightarrow> silent h h'"
    and "\<And>job specs pods svcs h r h'. ci_ScaleOut (Controller jc) job specs pods svcs h = (r, h') \<Longrightarrow> silent h h'"
    and "\<And>job specs pods svcs h r h'. ci_ScaleIn (Controller jc) job specs pods svcs h = (r, h') \<Longrightarrow> silent h h'"
  shows "sound_controller jc"
proof -
  note g = quiet_gang.create_quiet [OF assms(1)] quiet_gang.get_quiet [OF assms(1)] quiet_gang.delete_quiet [OF assms(1)]
  have "silent_interface jc"
    unfolding silent_interface_def by (intro conjI allI impI) (blast dest: assms(2-8) g unobtrusiveD(1))+
  moreover have "steps_interface jc"
    unfolding steps_interface_def using assms(5) by blast
  moreover have "reads_launch_nothing jc"
    unfolding reads_launch_nothing_def using assms(2,3) g(3) unobtrusiveD(2) by (metis prod.collapse)
  ultimately show ?thesis by (simp add: sound_controller_def)
qed

lemmas names_defs = with_names_def empty_scale_def tf_names_def pt_names_def xgb_names_def xdl_names_def mpi_names_def
  mars_names_def edl_names_def eb_names_def

lemma tf_status_silent:
  assumes "lawful_server jc' S" "tf_UpdateJobStatus S jc tf job specs st restart h = (r, h')"
  shows "silent h h' \<and> (\<forall>st'. r = Inr st' \<longrightarrow> status_steps st st')"
proof -
  obtain pods h1 where g: "GetPodsForJob S jc job h = (pods, h1)" by (cases "GetPodsForJob S jc job h")
  then have "silent h h1" using unobtrusiveD(1) [OF quiet_GetPods [OF assms(1)]] by (simp add: GetPodsForJob_def)
  with assms(2) g show ?thesis
    by (auto simp: tf_UpdateJobStatus_def split: sum.splits dest: tf.update_steps)
qed

lemma sound_TF: "lawful_server jc S \<Longrightarrow> sound_controller (TFController E jc S tf)"
  by (rule sound_controllerI)
    (auto simp: TFController_def names_defs Let_def GetPodsForJob_def dest: quiet_reads tf_status_silent lawfulD(1))

lemma sound_PyTorch: "lawful_server jc S \<Longrightarrow> sound_controller (PyTorchController E jc S)"
  by (rule sound_controllerI)
    (auto simp: PyTorchController_def names_defs Let_def GetPodsForJob_def
      dest: quiet_reads pytorch.update_steps lawfulD(1) silent_ScaleOut silent_ScaleIn silent_Checkpoint)

lemma sound_XGBoost: "lawful_server jc S \<Longrightarrow> sound_controller (XGBoostController E jc S)"
  by (rule sound_controllerI)
    (auto simp: XGBoostController_def names_defs Let_def GetPodsForJob_def dest: quiet_reads xgboost.update_steps lawfulD(1))

lemma sound_XDL: "lawful_server jc S \<Longrightarrow> sound_controller (XDLController E jc S xdl)"
  by (rule sound_controllerI)
    (auto simp: XDLController_def names_defs Let_def GetPodsForJob_def dest: quiet_reads xdl.update_steps lawfulD(1))

lemma sound_MPI: "lawful_server jc S \<Longrightarrow> sound_controller (MPIController E jc S mpi old)"
  by (rule sound_controllerI)
    (auto simp: MPIController_def names_defs Let_def mpi_GetPodsForJob_def
      dest: quiet_reads mpi_steps silent_mpi_cluster lawfulD(1))

lemma sound_Mars: "lawful_server jc S \<Longrightarrow> sound_controller (MarsController E jc S mars)"
  by (rule sound_controllerI)
    (auto simp: MarsController_def names_defs Let_def GetPodsForJob_def dest: quiet_reads mars.update_steps lawfulD(1))

lemma sound_ElasticDL: "lawful_server jc S \<Longrightarrow> sound_controller (ElasticDLController E jc S)"
  by (rule sound_controllerI)
    (auto simp: ElasticDLController_def names_defs Let_def GetPodsForJob_def dest: quiet_reads elasticdl.update_steps lawfulD(1))

lemma sound_ElasticBatch: "lawful_server jc S \<Longrightarrow> sound_controller (ElasticBatchController E jc S eb)"
  by (rule sound_controllerI)
    (auto simp: ElasticBatchController_def names_defs Let_def GetPodsForJob_def
      dest: quiet_reads elasticbatch.update_steps lawfulD(1))

subsection \<open>One request\<close>

definition one_write :: "JobStatus \<Rightarrow> hist \<Rightarrow> hist \<Rightarrow> bool" where
  "one_write st h h' \<longleftrightarrow> (\<exists>ws. wrote h h' ws \<and> length ws \<le> 1 \<and> (\<forall>w \<in> set ws. evolves st w))"

lemma one_write_silent: "silent h h' \<Longrightarrow> one_write st h h'"
  unfolding one_write_def by (rule exI [of _ "[]"]) (simp add: wrote_Nil)

lemma silent_one_write: "silent h h1 \<Longrightarrow> one_write st h1 h2 \<Longrightarrow> one_write st h h2"
  unfolding one_write_def using silent_wrote by blast

lemma one_write_then: "one_write st h h1 \<Longrightarrow> silent h1 h2 \<Longrightarrow> one_write st h h2"
  unfolding one_write_def using wrote_silent by blast

definition read_status :: "'j server \<Rightarrow> hist \<Rightarrow> string \<Rightarrow> string \<Rightarrow> JobStatus option" where
  "read_status S h ns n = (case sv_get S h ns n of Inl e \<Rightarrow> None | Inr ft \<Rightarrow> Some (ft_Status ft))"

lemma defaulted_writes:
  assumes "\<And>job. sound_controller (ctrl job)"
    and "\<And>jc ft result h out h'. follow jc ft result h = (out, h') \<Longrightarrow> silent h h'"
    and "reconcile_defaulted ctrl node outputs ft defaulted follow h = (out, h')"
  shows "one_write (ft_Status ft) h h'"
proof (cases defaulted)
  case (Inl e)
  with assms(3) show ?thesis by (auto simp: reconcile_defaulted_def intro: one_write_silent)
next
  case (Inr job)
  let ?args = "\<lparr>ja_RunPolicy = tj_RunPolicy job, ja_ModelVersion = (if outputs then ft_ModelVersion ft else None),
    ja_ModelNode = node, ja_Cache = (if outputs then ft_Cache ft else None)\<rparr>"
  obtain result err h1 where r: "ReconcileJobs (ctrl job) (typed job (ft_Meta ft)) (tj_Specs job) (ft_Status ft) ?args h = ((result, err), h1)"
    by (metis surj_pair)
  have "silent_interface (ctrl job)" "steps_interface (ctrl job)" using assms(1) by (auto simp: sound_controller_def)
  from ReconcileJobs_writes [OF this r] have w: "one_write (ft_Status ft) h h1" by (auto simp: one_write_def)
  from assms(3) Inr r have "h' = h1 \<or> silent h1 h'"
    by (cases err) (auto simp: reconcile_defaulted_def Let_def dest: assms(2))
  with w show ?thesis by (auto intro: one_write_then)
qed

lemma defaulted_launches:
  assumes "\<And>job. sound_controller (ctrl job)" "is_terminal (ft_Status ft)"
    and "\<And>jc ft result h out h'. follow jc ft result h = (out, h') \<Longrightarrow> launched h' = launched h"
    and "reconcile_defaulted ctrl node outputs ft defaulted follow h = (out, h')"
  shows "launched h' = launched h"
proof (cases defaulted)
  case (Inl e)
  with assms(4) show ?thesis by (auto simp: reconcile_defaulted_def)
next
  case (Inr job)
  let ?args = "\<lparr>ja_RunPolicy = tj_RunPolicy job, ja_ModelVersion = (if outputs then ft_ModelVersion ft else None),
    ja_ModelNode = node, ja_Cache = (if outputs then ft_Cache ft else None)\<rparr>"
  obtain result err h1 where r: "ReconcileJobs (ctrl job) (typed job (ft_Meta ft)) (tj_Specs job) (ft_Status ft) ?args h = ((result, err), h1)"
    by (metis surj_pair)
  have "reads_launch_nothing (ctrl job)" using assms(1) by (simp add: sound_controller_def)
  from finished_launch [OF this assms(2) r] have "launched h1 = launched h" .
  with assms(4) Inr r show ?thesis by (cases err) (auto simp: reconcile_defaulted_def Let_def dest: assms(3))
qed

lemma request_writes:
  assumes "reconcile_request S gone need sync ns n h = (out, h')"
    and "\<And>h e h'. gone h = (e, h') \<Longrightarrow> unobtrusive h h'"
    and "\<And>ft h out h'. sync ft h = (out, h') \<Longrightarrow> one_write (ft_Status ft) h h'"
  shows "case read_status S h ns n of None \<Rightarrow> unobtrusive h h' | Some st \<Rightarrow> one_write st h h'"
proof -
  let ?h1 = "emit (GetJobCall ns n) h"
  have e: "unobtrusive h ?h1" by (rule unobtrusive_emit) simp_all
  show ?thesis
  proof (cases "sv_get S h ns n")
    case (Inl err)
    have "unobtrusive ?h1 h'"
      using assms(1) Inl by (auto simp: reconcile_request_def Let_def split: if_splits prod.splits dest: assms(2))
    with Inl e show ?thesis by (auto simp: read_status_def intro: unobtrusive_trans)
  next
    case (Inr ft)
    have "one_write (ft_Status ft) ?h1 h'"
      using assms(1) Inr by (auto simp: reconcile_request_def Let_def split: if_splits dest: assms(3) intro: one_write_silent)
    with Inr e show ?thesis by (auto simp: read_status_def dest: unobtrusiveD(1) intro: silent_one_write)
  qed
qed

lemma request_launches:
  assumes "reconcile_request S gone need sync ns n h = (out, h')" "read_status S h ns n = Some st" "is_terminal st"
    and "\<And>ft h out h'. is_terminal (ft_Status ft) \<Longrightarrow> sync ft h = (out, h') \<Longrightarrow> launched h' = launched h"
  shows "launched h' = launched h"
  using assms(1-3)
  by (auto simp: reconcile_request_def read_status_def Let_def split: sum.splits if_splits dest: assms(4))

lemma silent_tensorboard: "sync_tensorboard E S jc ft result h = (out, h') \<Longrightarrow> silent h h'"
proof -
  have c: "status_writes cs = []" if "list_all (tb_call job) cs" for job cs
    using that by (induction cs) (auto simp: tb_call_def split: call.splits)
  assume "sync_tensorboard E S jc ft result h = (out, h')"
  then have "\<exists>job. tb_bounded job h h'"
    by (auto simp: sync_tensorboard_def Let_def dest: tb_bounded_reconcile)
  with c show "silent h h'" by (auto simp: tb_bounded_def silent_def)
qed

lemma quiet_webservice_loop: "webservice_loop jc host ls names svcs acc h = (r, h') \<Longrightarrow> unobtrusive h h'"
proof (induction svcs arbitrary: acc h)
  case (Cons svc svcs)
  have q: "unobtrusive h h1" if "createNewIngressForWebservice jc svc host ls h = (x, h1)" for x h1
    using that by (auto simp: createNewIngressForWebservice_def guarded_def api_write_def unobtrusive_def silent_def split: option.splits)
  obtain x h1 where c: "createNewIngressForWebservice jc svc host ls h = (x, h1)"
    by (cases "createNewIngressForWebservice jc svc host ls h")
  from Cons q [OF c] c show ?case by (cases x) (auto split: if_splits intro: unobtrusive_trans)
qed simp

lemma quiet_ingress: "sync_ingress S jc ft result h = (out, h') \<Longrightarrow> unobtrusive h h'"
proof -
  have "unobtrusive h h'" if "reconcileIngressForWebservice jc meta job h = (e, h')" for meta job e
  proof (cases "WebHost job")
    case (Some host)
    let ?ls = "(GenLabels jc (jm_Name meta))(ReplicaTypeLabel \<mapsto> ''webservice'')" and ?ns = "jm_Namespace meta"
    let ?h1 = "emit (ListServicesCall ?ns ?ls) h"
    let ?h2 = "emit (ListIngressesCall ?ns ?ls) ?h1"
    have e: "unobtrusive h ?h1" "unobtrusive ?h1 ?h2" by (rule unobtrusive_emit; simp)+
    from that Some have "h' = ?h1 \<or> h' = ?h2 \<or> unobtrusive ?h2 h'"
      by (auto simp: reconcileIngressForWebservice_def Let_def split: sum.splits prod.splits
          dest!: quiet_webservice_loop intro: unobtrusive_trans [OF _ unobtrusive_write])
    with e show ?thesis by (auto intro: unobtrusive_trans)
  qed (use that in \<open>simp add: reconcileIngressForWebservice_def\<close>)
  then show "sync_ingress S jc ft result h = (out, h') \<Longrightarrow> unobtrusive h h'"
    by (auto simp: sync_ingress_def Let_def split: prod.splits)
qed

subsection \<open>The contract\<close>

text \<open>
  A run is any sequence of requests for one job, in between which others may do anything but write its
  status. The server stores one of the statuses it was sent last, or keeps the old one: a write may be
  refused, or take effect although the answer is lost.
\<close>

inductive job_run :: "(hist \<Rightarrow> outcome \<times> hist) \<Rightarrow> hist \<Rightarrow> hist \<Rightarrow> bool" for R where
  start: "job_run R h h"
| request: "job_run R h h1 \<Longrightarrow> R h1 = (out, h2) \<Longrightarrow> job_run R h h2"
| others: "job_run R h h1 \<Longrightarrow> silent h1 h2 \<Longrightarrow> job_run R h h2"

definition status_store :: "(hist \<Rightarrow> JobStatus) \<Rightarrow> bool" where
  "status_store stored \<longleftrightarrow> (\<forall>h cs. stored (h @ cs) = stored h \<or> stored (h @ cs) \<in> set (status_writes cs))"

lemma store_silent: "status_store stored \<Longrightarrow> silent h h' \<Longrightarrow> stored h' = stored h"
  by (auto simp: status_store_def silent_def) (metis empty_iff empty_set)

lemma store_one_write:
  assumes "status_store stored" "one_write (stored h) h h'"
  shows "evolves (stored h) (stored h')"
proof -
  from assms(2) obtain cs where "h' = h @ cs" and ev: "\<forall>w \<in> set (status_writes cs). evolves (stored h) w"
    by (auto simp: one_write_def wrote_def)
  moreover from assms(1) have "stored (h @ cs) = stored h \<or> stored (h @ cs) \<in> set (status_writes cs)"
    by (simp add: status_store_def)
  ultimately show ?thesis by (auto intro: evolves_same)
qed

locale job_reconciler =
  fixes Reconcile :: "string \<Rightarrow> string \<Rightarrow> hist \<Rightarrow> outcome \<times> hist"
    and status_of :: "hist \<Rightarrow> string \<Rightarrow> string \<Rightarrow> JobStatus option"
    and lawful :: bool
  assumes gone_request: "lawful \<Longrightarrow> status_of h ns n = None \<Longrightarrow> Reconcile ns n h = (out, h') \<Longrightarrow> unobtrusive h h'"
    and live_request: "lawful \<Longrightarrow> status_of h ns n = Some st \<Longrightarrow> Reconcile ns n h = (out, h') \<Longrightarrow> one_write st h h'"
begin

lemma run_evolves:
  assumes "lawful" "status_store stored" "\<And>h st. status_of h ns n = Some st \<Longrightarrow> st = stored h"
    and "job_run (Reconcile ns n) h h'"
  shows "evolves (stored h) (stored h')"
  using assms(4)
proof (induction rule: job_run.induct)
  case start
  show ?case by (rule evolves_same) simp
next
  case (request h h1 out h2)
  have "evolves (stored h1) (stored h2)"
  proof (cases "status_of h1 ns n")
    case None
    from store_silent [OF assms(2) unobtrusiveD(1) [OF gone_request [OF assms(1) None request.hyps(2)]]]
    show ?thesis by (intro evolves_same) simp
  next
    case (Some st)
    with live_request [OF assms(1) Some request.hyps(2)] assms(3) show ?thesis
      by (intro store_one_write [OF assms(2)]) simp
  qed
  with request.IH show ?case by (rule evolves_trans)
next
  case (others h h1 h2)
  from store_silent [OF assms(2) others.hyps(2)] have "evolves (stored h1) (stored h2)" by (intro evolves_same) simp
  with others.IH show ?case by (rule evolves_trans)
qed

end

text \<open>A workload that has no companion objects of its own starts nothing for a finished job.\<close>

locale quiet_reconciler = job_reconciler +
  assumes finished_request:
    "lawful \<Longrightarrow> status_of h ns n = Some st \<Longrightarrow> is_terminal st \<Longrightarrow> Reconcile ns n h = (out, h') \<Longrightarrow> launched h' = launched h"
begin

text \<open>Nor does it over a run, from the point on where its status is terminal.\<close>

lemma finished_run_starts_nothing:
  assumes "lawful" "status_store stored" "\<And>h st. status_of h ns n = Some st \<Longrightarrow> st = stored h"
    and "is_terminal (stored h)" "job_run (Reconcile ns n) h h1" "Reconcile ns n h1 = (out, h2)"
  shows "launched h2 = launched h1"
proof (cases "status_of h1 ns n")
  case None
  from unobtrusiveD(2) [OF gone_request [OF assms(1) None assms(6)]] show ?thesis .
next
  case (Some st)
  have "Conditions (stored h1) = Conditions (stored h)"
    using run_evolves [OF assms(1-3,5)] assms(4) by (simp add: evolves_def)
  then have "is_terminal (stored h1)" using terminal_cong assms(4) by blast
  with finished_request [OF assms(1) Some _ assms(6)] assms(3) [OF Some] show ?thesis by simp
qed

end

subsection \<open>The eight workloads satisfy it\<close>

text \<open>The steps before and after the generic reconciliation.\<close>

definition quiet_gone :: "(hist \<Rightarrow> go_error option \<times> hist) \<Rightarrow> bool" where
  "quiet_gone gone \<longleftrightarrow> (\<forall>h e h'. gone h = (e, h') \<longrightarrow> unobtrusive h h')"

definition silent_next :: "(JobController \<Rightarrow> 'j fetched \<Rightarrow> Result \<Rightarrow> hist \<Rightarrow> outcome \<times> hist) \<Rightarrow> bool" where
  "silent_next follow \<longleftrightarrow> (\<forall>jc ft result h out h'. follow jc ft result h = (out, h') \<longrightarrow> silent h h')"

definition quiet_next :: "(JobController \<Rightarrow> 'j fetched \<Rightarrow> Result \<Rightarrow> hist \<Rightarrow> outcome \<times> hist) \<Rightarrow> bool" where
  "quiet_next follow \<longleftrightarrow> (\<forall>jc ft result h out h'. follow jc ft result h = (out, h') \<longrightarrow> unobtrusive h h')"

lemma quiet_next_silent: "quiet_next follow \<Longrightarrow> silent_next follow"
  unfolding quiet_next_def silent_next_def using unobtrusiveD(1) by blast

lemma gone_nothing: "quiet_gone nothing_left"
  by (simp add: quiet_gone_def nothing_left_def)

lemma gone_cleanUp: "quiet_gone (cleanUpPreemptFinalizers jc ns n)"
  using quiet_cleanUp unfolding quiet_gone_def by blast

lemma next_done: "quiet_next done_after"
  by (simp add: quiet_next_def done_after_def)

lemma next_ingress: "quiet_next (sync_ingress S)"
  using quiet_ingress unfolding quiet_next_def by blast

lemma next_tensorboard: "silent_next (sync_tensorboard E S)"
  using silent_tensorboard unfolding silent_next_def by blast

text \<open>The shape all of them have.\<close>

lemma reconciler_laws:
  assumes "quiet_gone gone" "\<And>ft job. sound_controller (ctrl ft job)" "silent_next follow"
    and r: "reconcile_request S gone need (\<lambda>ft. reconcile_defaulted (ctrl ft) node outputs ft (defaulted ft) follow) ns n h = (out, h')"
  shows "read_status S h ns n = None \<Longrightarrow> unobtrusive h h'"
    and "read_status S h ns n = Some st \<Longrightarrow> one_write st h h'"
    and "read_status S h ns n = Some st \<Longrightarrow> is_terminal st \<Longrightarrow> quiet_next follow \<Longrightarrow> launched h' = launched h"
proof -
  have g: "gone h1 = (e, h2) \<Longrightarrow> unobtrusive h1 h2" for h1 e h2
    using assms(1) by (simp add: quiet_gone_def)
  have nx: "follow jc ft result h1 = (o1, h2) \<Longrightarrow> silent h1 h2" for jc ft result h1 o1 h2
    using assms(3) unfolding silent_next_def by blast
  have w: "reconcile_defaulted (ctrl ft) node outputs ft (defaulted ft) follow h1 = (o1, h2) \<Longrightarrow> one_write (ft_Status ft) h1 h2"
    for ft h1 o1 h2
    by (rule defaulted_writes [where ctrl = "ctrl ft" and follow = follow]) (rule assms(2), erule nx, assumption)
  have "case read_status S h ns n of None \<Rightarrow> unobtrusive h h' | Some st \<Rightarrow> one_write st h h'"
    by (rule request_writes [OF r]) (erule g w)+
  then show "read_status S h ns n = None \<Longrightarrow> unobtrusive h h'" "read_status S h ns n = Some st \<Longrightarrow> one_write st h h'"
    by auto
  assume t: "read_status S h ns n = Some st" "is_terminal st" and q: "quiet_next follow"
  have ql: "follow jc ft result h1 = (o1, h2) \<Longrightarrow> launched h2 = launched h1" for jc ft result h1 o1 h2
    using q unobtrusiveD(2) unfolding quiet_next_def by blast
  have l: "is_terminal (ft_Status ft) \<Longrightarrow> reconcile_defaulted (ctrl ft) node outputs ft (defaulted ft) follow h1 = (o1, h2) \<Longrightarrow>
      launched h2 = launched h1" for ft h1 o1 h2
    by (rule defaulted_launches [where ctrl = "ctrl ft" and follow = follow and ft = ft]) (rule assms(2), assumption, erule ql, assumption)
  show "launched h' = launched h" by (rule request_launches [OF r t]) (erule (1) l)
qed

interpretation tf_jobs: job_reconciler "TFJob_Reconcile E jc S" "read_status S" "lawful_server jc S" for E jc S
proof unfold_locales
  fix h ns n out h' assume l: "lawful_server jc S" and r: "TFJob_Reconcile E jc S ns n h = (out, h')"
  note laws = reconciler_laws [OF gone_nothing sound_TF [OF l] next_tensorboard r [unfolded TFJob_Reconcile_def]]
  show "read_status S h ns n = None \<Longrightarrow> unobtrusive h h'" by (rule laws(1))
  show "read_status S h ns n = Some st \<Longrightarrow> one_write st h h'" for st by (rule laws(2))
qed

text \<open>The others create nothing after the generic reconciliation.\<close>

interpretation pytorch_jobs: quiet_reconciler "PyTorchJob_Reconcile E jc S" "read_status S" "lawful_server jc S" for E jc S
proof unfold_locales
  fix h ns n out h' assume l: "lawful_server jc S" and r: "PyTorchJob_Reconcile E jc S ns n h = (out, h')"
  note laws = reconciler_laws [OF gone_cleanUp sound_PyTorch [OF l] quiet_next_silent [OF next_done] r [unfolded PyTorchJob_Reconcile_def]]
  show "read_status S h ns n = None \<Longrightarrow> unobtrusive h h'" by (rule laws(1))
  show "read_status S h ns n = Some st \<Longrightarrow> one_write st h h'" for st by (rule laws(2))
  show "read_status S h ns n = Some st \<Longrightarrow> is_terminal st \<Longrightarrow> launched h' = launched h" for st by (rule laws(3) [OF _ _ next_done])
qed

interpretation xgboost_jobs: quiet_reconciler "XGBoostJob_Reconcile E jc S" "read_status S" "lawful_server jc S" for E jc S
proof unfold_locales
  fix h ns n out h' assume l: "lawful_server jc S" and r: "XGBoostJob_Reconcile E jc S ns n h = (out, h')"
  note laws = reconciler_laws [OF gone_nothing sound_XGBoost [OF l] quiet_next_silent [OF next_done] r [unfolded XGBoostJob_Reconcile_def]]
  show "read_status S h ns n = None \<Longrightarrow> unobtrusive h h'" by (rule laws(1))
  show "read_status S h ns n = Some st \<Longrightarrow> one_write st h h'" for st by (rule laws(2))
  show "read_status S h ns n = Some st \<Longrightarrow> is_terminal st \<Longrightarrow> launched h' = launched h" for st by (rule laws(3) [OF _ _ next_done])
qed

interpretation xdl_jobs: quiet_reconciler "XDLJob_Reconcile E jc S" "read_status S" "lawful_server jc S" for E jc S
proof unfold_locales
  fix h ns n out h' assume l: "lawful_server jc S" and r: "XDLJob_Reconcile E jc S ns n h = (out, h')"
  note laws = reconciler_laws [OF gone_nothing sound_XDL [OF l] quiet_next_silent [OF next_done] r [unfolded XDLJob_Reconcile_def]]
  show "read_status S h ns n = None \<Longrightarrow> unobtrusive h h'" by (rule laws(1))
  show "read_status S h ns n = Some st \<Longrightarrow> one_write st h h'" for st by (rule laws(2))
  show "read_status S h ns n = Some st \<Longrightarrow> is_terminal st \<Longrightarrow> launched h' = launched h" for st by (rule laws(3) [OF _ _ next_done])
qed

interpretation mpi_jobs: quiet_reconciler "MPIJob_Reconcile E jc S" "read_status S" "lawful_server jc S" for E jc S
proof unfold_locales
  fix h ns n out h' assume l: "lawful_server jc S" and r: "MPIJob_Reconcile E jc S ns n h = (out, h')"
  note laws = reconciler_laws [OF gone_nothing sound_MPI [OF l] quiet_next_silent [OF next_done] r [unfolded MPIJob_Reconcile_def]]
  show "read_status S h ns n = None \<Longrightarrow> unobtrusive h h'" by (rule laws(1))
  show "read_status S h ns n = Some st \<Longrightarrow> one_write st h h'" for st by (rule laws(2))
  show "read_status S h ns n = Some st \<Longrightarrow> is_terminal st \<Longrightarrow> launched h' = launched h" for st by (rule laws(3) [OF _ _ next_done])
qed

interpretation mars_jobs: quiet_reconciler "MarsJob_Reconcile E jc S" "read_status S" "lawful_server jc S" for E jc S
proof unfold_locales
  fix h ns n out h' assume l: "lawful_server jc S" and r: "MarsJob_Reconcile E jc S ns n h = (out, h')"
  note laws = reconciler_laws [OF gone_nothing sound_Mars [OF l] quiet_next_silent [OF next_ingress] r [unfolded MarsJob_Reconcile_def]]
  show "read_status S h ns n = None \<Longrightarrow> unobtrusive h h'" by (rule laws(1))
  show "read_status S h ns n = Some st \<Longrightarrow> one_write st h h'" for st by (rule laws(2))
  show "read_status S h ns n = Some st \<Longrightarrow> is_terminal st \<Longrightarrow> launched h' = launched h" for st by (rule laws(3) [OF _ _ next_ingress])
qed

interpretation elasticdl_jobs: quiet_reconciler "ElasticDLJob_Reconcile E jc S" "read_status S" "lawful_server jc S" for E jc S
proof unfold_locales
  fix h ns n out h' assume l: "lawful_server jc S" and r: "ElasticDLJob_Reconcile E jc S ns n h = (out, h')"
  note laws = reconciler_laws [OF gone_nothing sound_ElasticDL [OF l] quiet_next_silent [OF next_done] r [unfolded ElasticDLJob_Reconcile_def]]
  show "read_status S h ns n = None \<Longrightarrow> unobtrusive h h'" by (rule laws(1))
  show "read_status S h ns n = Some st \<Longrightarrow> one_write st h h'" for st by (rule laws(2))
  show "read_status S h ns n = Some st \<Longrightarrow> is_terminal st \<Longrightarrow> launched h' = launched h" for st by (rule laws(3) [OF _ _ next_done])
qed

interpretation elasticbatch_jobs: quiet_reconciler "ElasticBatchJob_Reconcile E jc S" "read_status S" "lawful_server jc S" for E jc S
proof unfold_locales
  fix h ns n out h' assume l: "lawful_server jc S" and r: "ElasticBatchJob_Reconcile E jc S ns n h = (out, h')"
  note laws = reconciler_laws [OF gone_cleanUp sound_ElasticBatch [OF l] quiet_next_silent [OF next_done] r [unfolded ElasticBatchJob_Reconcile_def]]
  show "read_status S h ns n = None \<Longrightarrow> unobtrusive h h'" by (rule laws(1))
  show "read_status S h ns n = Some st \<Longrightarrow> one_write st h h'" for st by (rule laws(2))
  show "read_status S h ns n = Some st \<Longrightarrow> is_terminal st \<Longrightarrow> launched h' = launched h" for st by (rule laws(3) [OF _ _ next_done])
qed

subsection \<open>The life of a job\<close>

text \<open>The controllers of the repository, with any lawful server, and how each reads the status of a job.\<close>

inductive quiet_controller ::
    "(string \<Rightarrow> string \<Rightarrow> hist \<Rightarrow> outcome \<times> hist) \<Rightarrow> (hist \<Rightarrow> string \<Rightarrow> string \<Rightarrow> JobStatus option) \<Rightarrow> bool" where
  "lawful_server jc S \<Longrightarrow> quiet_controller (PyTorchJob_Reconcile E jc S) (read_status S)"
| "lawful_server jc S \<Longrightarrow> quiet_controller (XGBoostJob_Reconcile E jc S) (read_status S)"
| "lawful_server jc S \<Longrightarrow> quiet_controller (XDLJob_Reconcile E jc S) (read_status S)"
| "lawful_server jc S \<Longrightarrow> quiet_controller (MPIJob_Reconcile E jc S) (read_status S)"
| "lawful_server jc S \<Longrightarrow> quiet_controller (MarsJob_Reconcile E jc S) (read_status S)"
| "lawful_server jc S \<Longrightarrow> quiet_controller (ElasticDLJob_Reconcile E jc S) (read_status S)"
| "lawful_server jc S \<Longrightarrow> quiet_controller (ElasticBatchJob_Reconcile E jc S) (read_status S)"

inductive kubedl_controller ::
    "(string \<Rightarrow> string \<Rightarrow> hist \<Rightarrow> outcome \<times> hist) \<Rightarrow> (hist \<Rightarrow> string \<Rightarrow> string \<Rightarrow> JobStatus option) \<Rightarrow> bool" where
  "quiet_controller R read \<Longrightarrow> kubedl_controller R read"
| "lawful_server jc S \<Longrightarrow> kubedl_controller (TFJob_Reconcile E jc S) (read_status S)"

lemma quiet_controller_contract: "quiet_controller R read \<Longrightarrow> quiet_reconciler R read True"
proof (induction rule: quiet_controller.induct)
  case (1 jc S E)
  then show ?case using pytorch_jobs.quiet_reconciler_axioms [of E jc S] by simp
next
  case (2 jc S E)
  then show ?case using xgboost_jobs.quiet_reconciler_axioms [of E jc S] by simp
next
  case (3 jc S E)
  then show ?case using xdl_jobs.quiet_reconciler_axioms [of E jc S] by simp
next
  case (4 jc S E)
  then show ?case using mpi_jobs.quiet_reconciler_axioms [of E jc S] by simp
next
  case (5 jc S E)
  then show ?case using mars_jobs.quiet_reconciler_axioms [of E jc S] by simp
next
  case (6 jc S E)
  then show ?case using elasticdl_jobs.quiet_reconciler_axioms [of E jc S] by simp
next
  case (7 jc S E)
  then show ?case using elasticbatch_jobs.quiet_reconciler_axioms [of E jc S] by simp
qed

lemma kubedl_controller_contract: "kubedl_controller R read \<Longrightarrow> job_reconciler R read True"
proof (induction rule: kubedl_controller.induct)
  case (1 R read)
  then show ?case by (rule quiet_reconciler.axioms(1) [OF quiet_controller_contract])
next
  case (2 jc S E)
  then show ?case using tf_jobs.job_reconciler_axioms [of E jc S] by simp
qed

text \<open>
  C1. The life of a job. Under any sequence of requests to the controller of any workload, interleaved
  with anything others do that does not write the status, the stored status keeps well-formed conditions,
  and once the job has succeeded or failed its conditions never change again. This holds for every
  answer of the server, for refused status writes and for writes whose answer is lost.
\<close>

theorem job_lifecycle:
  assumes "kubedl_controller R read" "status_store stored" "\<forall>h st. read h ns n = Some st \<longrightarrow> st = stored h"
    and "job_run (R ns n) h h'"
  shows "(conditions_wf (stored h) \<longrightarrow> conditions_wf (stored h')) \<and>
    (is_terminal (stored h) \<longrightarrow> Conditions (stored h') = Conditions (stored h))"
proof -
  have "st = stored h" if "read h ns n = Some st" for h st using assms(3) that by blast
  from job_reconciler.run_evolves [OF kubedl_controller_contract [OF assms(1)] TrueI assms(2) this assms(4)]
  show ?thesis by (simp add: evolves_def)
qed

text \<open>
  C2. A finished job stays at rest. From the point on where its stored status is terminal, no request to
  the controllers other than TensorFlow's, which keeps a TensorBoard, ever creates a pod or a service.
\<close>

theorem finished_job_at_rest:
  assumes "quiet_controller R read" "status_store stored" "\<forall>h st. read h ns n = Some st \<longrightarrow> st = stored h"
    and "is_terminal (stored h)" "job_run (R ns n) h h1" "R ns n h1 = (out, h2)"
  shows "launched h2 = launched h1"
proof -
  have "st = stored h" if "read h ns n = Some st" for h st using assms(3) that by blast
  from quiet_reconciler.finished_run_starts_nothing [OF quiet_controller_contract [OF assms(1)] TrueI assms(2) this assms(4-6)]
  show ?thesis .
qed

text \<open>A server that keeps the last status it was sent, with one Mars job, and claims what it is asked to.\<close>

definition last_status :: "JobStatus \<Rightarrow> hist \<Rightarrow> JobStatus" where
  "last_status st h = last (st # status_writes h)"

definition mars_server :: "JobStatus \<Rightarrow> MarsJob server" where
  "mars_server st =
     (let get = (\<lambda>h ns n. Inr \<lparr>ft_Meta = job0, ft_Job = mars_job1, ft_Status = last_status st h, ft_ModelVersion = None, ft_Cache = None\<rparr>)
      in \<lparr>sv_get = get, sv_cached = get, sv_ClaimPods = (\<lambda>jc job m e pods h. (Inr pods, h)),
          sv_claim = (\<lambda>m adopt release s h. (Inr True, h)), sv_after = (\<lambda>h ft. ft)\<rparr>)"

definition jc3 :: JobController where
  "jc3 = jc0\<lparr>GangScheduler := kubeBatchScheduler quiet_world ''g''\<rparr>"

lemma last_status_store: "status_store (last_status st)"
  by (auto simp: status_store_def last_status_def last_append)

lemma mars_server_lawful: "lawful_server jc3 (mars_server st)"
  using gang_implementation_quiet [OF gang_implementation.intros(3)]
  by (simp add: lawful_server_def jc3_def mars_server_def Let_def)

lemma mars_server_status: "read_status (mars_server st) h ns n = Some (last_status st h)"
  by (simp add: read_status_def mars_server_def Let_def)

text \<open>Two requests for a new Mars job, and one for a failed one.\<close>

definition workload_env0 :: workload_env where
  "workload_env0 =
     \<lparr>wl_cluster = \<lparr>ce_ClusterDomain = [], ce_marshal_tf = (\<lambda>c. Inr ''{}''), ce_marshal_xdl = (\<lambda>c. Inr ''{}''), ce_render_waiter = (\<lambda>i a. Inr [])\<rparr>,
      wl_elastic = elastic0,
      wl_mpi = \<lparr>me_AsInt64 = (\<lambda>q. q), me_MustParse = (\<lambda>s. 0), me_kubectlDeliveryImage = [], me_launcherRunsWorkload = False\<rparr>,
      wl_mars = \<lparr>ma_marshal = (\<lambda>c. Inr ''{}''), ma_gate_PodOverhead = False, ma_quota = quota0\<rparr>,
      wl_marshal_eb = (\<lambda>c. Inr ''{}''), wl_decode_tb = (\<lambda>s. Inl (Err ''json'')), wl_decode_git = (\<lambda>s. Inl (Err ''json''))\<rparr>"

theorem job_lifecycle_witness:
  "conditions_wf (last_status status0 (snd (MarsJob_Reconcile workload_env0 jc3 (mars_server status0) ''default'' ''mnist''
     (snd (MarsJob_Reconcile workload_env0 jc3 (mars_server status0) ''default'' ''mnist'' [])))))"
proof -
  let ?R = "MarsJob_Reconcile workload_env0 jc3 (mars_server status0) ''default'' ''mnist''"
  have "job_run ?R [] (snd (?R (snd (?R []))))"
    by (rule job_run.request [OF job_run.request [OF job_run.start]]) (rule prod.collapse [symmetric])+
  from job_lifecycle [OF kubedl_controller.intros(1) [OF quiet_controller.intros(5) [OF mars_server_lawful]] last_status_store _ this]
  have "conditions_wf (last_status status0 []) \<longrightarrow> conditions_wf (last_status status0 (snd (?R (snd (?R [])))))"
    by (auto simp: mars_server_status)
  moreover have "conditions_wf (last_status status0 [])" using empty_wf by (simp add: last_status_def status0_def)
  ultimately show ?thesis by simp
qed

theorem finished_job_at_rest_witness:
  "launched (snd (MarsJob_Reconcile workload_env0 jc3 (mars_server failed_status) ''default'' ''mnist'' [])) = []"
proof -
  let ?R = "MarsJob_Reconcile workload_env0 jc3 (mars_server failed_status) ''default'' ''mnist''"
  have t: "is_terminal (last_status failed_status [])"
    unfolding last_status_def failed_status_def by code_simp
  obtain out h' where r: "?R [] = (out, h')" by (cases "?R []")
  from finished_job_at_rest [OF quiet_controller.intros(5) [OF mars_server_lawful] last_status_store _ t job_run.start r]
  have "launched h' = launched []" by (auto simp: mars_server_status)
  with r show ?thesis by simp
qed

end
