(* ===== verification/Workload_Safety.thy ===== *)
theory Workload_Safety
  imports Workload_Contract
begin

text \<open>
  The reconciliation of \<open>job.go\<close> and \<open>pod.go\<close> under the eight controllers of the repository: which
  statuses it writes, which pods it creates, and how a job ends that exceeds a limit. What these results
  need of a workload was proved of each of them in \<open>Workload_Contract\<close>.
\<close>

subsection \<open>The eight controllers\<close>

inductive workload_controller :: "JobController \<Rightarrow> bool" where
  "lawful_server jc S \<Longrightarrow> workload_controller (TFController E jc S tf)"
| "lawful_server jc S \<Longrightarrow> workload_controller (PyTorchController E jc S)"
| "lawful_server jc S \<Longrightarrow> workload_controller (XGBoostController E jc S)"
| "lawful_server jc S \<Longrightarrow> workload_controller (XDLController E jc S xdl)"
| "lawful_server jc S \<Longrightarrow> workload_controller (MPIController E jc S mpi old)"
| "lawful_server jc S \<Longrightarrow> workload_controller (MarsController E jc S mars)"
| "lawful_server jc S \<Longrightarrow> workload_controller (ElasticDLController E jc S)"
| "lawful_server jc S \<Longrightarrow> workload_controller (ElasticBatchController E jc S eb)"

lemma workload_sound: "workload_controller jc \<Longrightarrow> sound_controller jc"
  by (induction rule: workload_controller.induct)
    (erule sound_TF sound_PyTorch sound_XGBoost sound_XDL sound_MPI sound_Mars sound_ElasticDL sound_ElasticBatch)+

lemma created_launched: "created h = created (launched h)"
proof (induction h)
  case (Cons c h)
  then show ?case by (cases c) simp_all
qed simp

lemma unobtrusive_created: "unobtrusive h h' \<Longrightarrow> created h' = created h"
  by (metis created_launched unobtrusiveD(2))

lemma created_mpi_cluster: "mpi_SetClusterSpec W E job meta t rt i h = (r, h') \<Longrightarrow> created h' = created h"
  by (auto simp: mpi_SetClusterSpec_def getOrCreateJobConfig_def setupMPILauncher_def api_write_def emit_def Let_def
      split: if_splits option.splits prod.splits)

lemma creates_no_podsI:
  assumes "quiet_gang (GangScheduler jc)"
    and "\<And>specs ports job t rt i h r h'. ci_SetClusterSpec (Controller jc) specs ports job t rt i h = (r, h') \<Longrightarrow> created h' = created h"
  shows "creates_no_pods jc"
  using assms(2) unobtrusive_created [OF quiet_gang.get_quiet [OF assms(1)]]
  unfolding creates_no_pods_def by blast

lemma workload_creates_no_pods: "workload_controller jc \<Longrightarrow> creates_no_pods jc"
  by (induction rule: workload_controller.induct)
    (rule creates_no_podsI,
      auto simp: TFController_def PyTorchController_def XGBoostController_def XDLController_def MPIController_def
        MarsController_def ElasticDLController_def ElasticBatchController_def names_defs Let_def
        dest: lawfulD(1) created_mpi_cluster)+

subsection \<open>Which statuses are written\<close>

text \<open>
  C3. One reconciliation writes the status of the job at most once, and only when it changed. The
  written status has a well-formed condition list if the job had one, and the conditions of a
  finished job are written back unchanged: a job that succeeded or failed stays so for every
  workload and under every behaviour of the server, as long as claiming pods and services writes no status.
\<close>

theorem reconcile_status_safe:
  assumes "workload_controller jc" "ReconcileJobs jc job specs st args h = ((res, err), h')"
  shows "\<exists>ws. status_writes h' = status_writes h @ ws \<and> length ws \<le> 1 \<and>
    (\<forall>w \<in> set ws. \<not> DeepEqual_status st w \<and> (conditions_wf st \<longrightarrow> conditions_wf w) \<and>
      (is_terminal st \<longrightarrow> Conditions w = Conditions st))"
proof -
  have "silent_interface jc" "steps_interface jc"
    using workload_sound [OF assms(1)] by (simp_all add: sound_controller_def)
  from ReconcileJobs_writes [OF this assms(2)] show ?thesis by (auto simp: evolves_def dest: wroteD)
qed

subsection \<open>Which pods are created\<close>

text \<open>
  C7. Reconciling creates exactly what is missing: a run of \<open>ReconcilePods\<close> that succeeds, under
  the controller of any workload, asks the server for one pod per index below the number of replicas at
  which there is no pod, in the order of the indices and under the name of this replica (the master of an
  ElasticDL job has a name of its own), and for no other pod.
\<close>

theorem reconcile_pods_creates:
  assumes "workload_controller jc"
    and "ReconcilePods jc ports job st pods rtype spec specs rp restart h = (Inr (job', st', ports', restart'), h')"
    and "replica_selector (World jc) (ToLower rtype)"
    and "\<forall>p \<in> set pods. small_index (pod_Labels p)"
    and "Replicas spec = Some n" "0 \<le> n"
  shows "created h' = created h @
    map (\<lambda>i. if ci_ControllerName (Controller jc) = ''ElasticDLController'' \<and> ci_IsMasterRole (Controller jc) specs rtype i
             then ''elasticdl-'' @ jm_Name job @ ''-master''
             else GenGeneralName (jm_Name job) (ToLower rtype) (Itoa i))
      (absent_indices pods (ToLower rtype) n)"
  using ReconcilePods_created [OF assms(2-6) workload_creates_no_pods [OF assms(1)]] by (simp add: pod_name_def)

subsection \<open>Jobs that exceed a limit\<close>

text \<open>
  C9. A job that exceeds a limit fails, or the reconciliation ends with an error: when the backoff or
  the deadline limit of a job that is not finished is exceeded, at most one status is written, in which
  the job is failed, neither succeeded nor running, and has a completion time; if none is written, there
  is an error. If the run policy has no time to live, the job no cache, and cleaning up the pods and the
  gang meets no error, the status is written. If it has a time to live and the deadline did not set a
  completion time, the cleanup stands in the way: no status is written, and the job never fails.
\<close>

theorem limit_fails_job:
  assumes "workload_controller jc" "InjectCodeSync jc job specs0 = Inr specs1"
    and "cache_phase jc job specs1 st args h = (Inr (specs, st0), h0)"
    and "gather jc job h0 = (Inr (pods, services), h1)"
    and "limits_phase jc job key specs st0 args pods h1 = Inr (Some message, st1)"
    and "\<not> is_terminal st" "conditions_wf st"
    and "reconcile_body jc job key specs0 st args h = ((result, err), h')"
  shows "\<exists>ws. status_writes h' = status_writes h @ ws \<and> length ws \<le> 1 \<and>
    (\<forall>w \<in> set ws. IsFailed w \<and> \<not> IsSucceeded w \<and> \<not> IsRunning w \<and> CompletionTime w \<noteq> None) \<and>
    (ws = [] \<longrightarrow> err \<noteq> None) \<and>
    (rp_TTLSecondsAfterFinished (ja_RunPolicy args) = None \<and> ja_Cache args = None \<and> cleans_up jc job args pods h1 \<longrightarrow> ws \<noteq> []) \<and>
    (rp_TTLSecondsAfterFinished (ja_RunPolicy args) \<noteq> None \<and> CompletionTime st1 = None \<longrightarrow> ws = [])"
proof -
  have sil: "silent_interface jc" using workload_sound [OF assms(1)] by (simp add: sound_controller_def)
  have "Conditions st1 = Conditions st"
    using limits_phase_conditions [OF assms(5)] cache_phase_conditions [OF assms(3)] by simp
  then have st1: "\<not> is_terminal st1" "conditions_wf st1"
    using assms(6,7) terminal_cong [of st1 st] wf_cong [of st1 st] by simp_all
  have "terminate jc job args st st1 (Some message) pods h1 = ((result, err), h')"
    using assms(2-5,8) by (simp add: reconcile_body_def)
  from terminate_failed [OF sil this st1 assms(6)] obtain ws where ws: "wrote h1 h' ws" "length ws \<le> 1"
    "\<forall>w \<in> set ws. failed_completely w" "ws = [] \<longrightarrow> err \<noteq> None"
    "rp_TTLSecondsAfterFinished (ja_RunPolicy args) \<noteq> None \<and> CompletionTime st1 = None \<longrightarrow> ws = []"
    "rp_TTLSecondsAfterFinished (ja_RunPolicy args) = None \<and> ja_Cache args = None \<and> cleans_up jc job args pods h1 \<longrightarrow> ws \<noteq> []"
    by blast
  have "silent h h1" by (rule silent_trans [OF silent_cache_phase [OF assms(3)] silent_gather [OF sil assms(4)]])
  from wroteD [OF silent_wrote [OF this ws(1)]] ws(2-6) show ?thesis
    unfolding failed_completely_def by blast
qed

subsection \<open>Samples\<close>

text \<open>
  A server whose reads find the given pods and that claims what it is asked to; and an XGBoost job and
  an ElasticDL job on it, with the gang scheduler of kube-batch.
\<close>

definition pods_world :: "pod list \<Rightarrow> outside" where
  "pods_world pods = quiet_world\<lparr>out_list_pods := (\<lambda>h ns ls. Inr pods)\<rparr>"

definition claiming_server :: "'j server" where
  "claiming_server =
     \<lparr>sv_get = (\<lambda>h ns n. Inl NotFound), sv_cached = (\<lambda>h ns n. Inl NotFound), sv_ClaimPods = (\<lambda>jc job m e pods h. (Inr pods, h)),
      sv_claim = (\<lambda>m adopt release s h. (Inr True, h)), sv_after = (\<lambda>h ft. ft)\<rparr>"

definition pods_jc :: "pod list \<Rightarrow> JobController" where
  "pods_jc pods = jc0\<lparr>World := pods_world pods, GangScheduler := kubeBatchScheduler (pods_world pods) ''g''\<rparr>"

definition xgb_jc :: "pod list \<Rightarrow> JobController" where
  "xgb_jc pods = XGBoostController workload_env0 (pods_jc pods) claiming_server"

definition edl_jc :: "pod list \<Rightarrow> JobController" where
  "edl_jc pods = ElasticDLController workload_env0 (pods_jc pods) claiming_server"

lemma claiming_lawful: "lawful_server (pods_jc pods) claiming_server"
  using gang_implementation_quiet [OF gang_implementation.intros(3)]
  by (simp add: lawful_server_def pods_jc_def claiming_server_def)

lemma sample_controllers: "workload_controller (xgb_jc pods)" "workload_controller (edl_jc pods)"
  unfolding xgb_jc_def edl_jc_def using claiming_lawful by (blast intro: workload_controller.intros)+

lemma world_kept [simp]:
  "World (xgb_jc pods) = pods_world pods" "World (edl_jc pods) = pods_world pods"
  "EnableGangScheduling (Config (xgb_jc pods)) = False" "EnableGangScheduling (Config (edl_jc pods)) = False"
  by (simp_all add: xgb_jc_def edl_jc_def XGBoostController_def ElasticDLController_def with_names_def pods_jc_def jc0_def Let_def)

lemma no_code_sync: "InjectCodeSync (xgb_jc pods) job0 specs = Inr specs"
  by (simp add: xgb_jc_def XGBoostController_def with_names_def InjectCodeSyncInitContainers_def job0_def Let_def)

lemma xgb_gather: "\<exists>h1. gather (xgb_jc pods) job0 h = (Inr (pods, []), h1)"
  by (simp add: gather_def xgb_jc_def XGBoostController_def GetPodsForJob_def list_and_claim_def GetServicesForJob_def
      AdoptAndClaimPods_def AdoptAndClaimServices_def ClaimServices_def claiming_server_def with_names_def pods_jc_def pods_world_def quiet_world_def jc0_def Let_def)

lemma xgb_limits:
  "\<exists>m. limits_phase (xgb_jc [restarted0]) job0 key [(''Worker'', spec0)] status0 (limited_args ttl) [restarted0] h = Inr (Some m, status0)"
  by (simp add: limits_phase_def pods_world_def quiet_world_def spec0_def limited_args_def args0_def run_policy0_def restarted0_def
      GetTotalReplicas_def pastBackoffLimit_def sample_strings restart_policy_defs i32_def)

lemma sample_status: "\<not> is_terminal status0" "conditions_wf status0"
  using empty_wf [of status0] by (simp_all add: status0_def is_terminal_def is_defs HasCondition_def)

lemma xgb_clean: "cleans_up (xgb_jc pods) job0 (limited_args None) ps h"
  by (simp add: cleans_up_def limited_args_def deletePodsAndServices_def gang_cleanup_def)

text \<open>A worker has restarted as often as the limit allows: the job fails, in one write of the status.\<close>

theorem limit_fails_job_witness:
  "\<exists>w. status_writes (snd (reconcile_body (xgb_jc [restarted0]) job0 ''default/mnist'' [(''Worker'', spec0)] status0 (limited_args None) [])) = [w] \<and>
     IsFailed w \<and> CompletionTime w \<noteq> None"
proof -
  let ?jc = "xgb_jc [restarted0]" and ?specs = "[(''Worker'', spec0)]" and ?args = "limited_args None"
  obtain h1 m where g: "gather ?jc job0 [] = (Inr ([restarted0], []), h1)"
    and l: "limits_phase ?jc job0 ''default/mnist'' ?specs status0 ?args [restarted0] h1 = Inr (Some m, status0)"
    using xgb_gather xgb_limits by metis
  have c: "cache_phase ?jc job0 ?specs status0 ?args [] = (Inr (?specs, status0), [])"
    and a: "rp_TTLSecondsAfterFinished (ja_RunPolicy ?args) = None" "ja_Cache ?args = None"
    by (simp_all add: cache_phase_def limited_args_def args0_def run_policy0_def)
  obtain res err h' where r: "reconcile_body ?jc job0 ''default/mnist'' ?specs status0 ?args [] = ((res, err), h')"
    by (metis surj_pair)
  from limit_fails_job [OF sample_controllers(1) no_code_sync c g l sample_status r] obtain ws where
    "status_writes h' = ws" "length ws \<le> 1" "\<forall>w \<in> set ws. IsFailed w \<and> CompletionTime w \<noteq> None" "ws \<noteq> []"
    using a xgb_clean by auto
  then show ?thesis unfolding r by (cases ws) auto
qed

lemma xgb_fails:
  "\<exists>w. status_writes (snd (ReconcileJobs (xgb_jc [restarted0]) job0 [(''Worker'', spec0)] status0 (limited_args None) [])) = [w]"
proof -
  let ?jc = "xgb_jc [restarted0]" and ?specs = "[(''Worker'', spec0)]" and ?args = "limited_args None"
  obtain h1 m where g: "gather ?jc job0 [] = (Inr ([restarted0], []), h1)"
    and l: "limits_phase ?jc job0 ''default/mnist'' ?specs status0 ?args [restarted0] h1 = Inr (Some m, status0)"
    using xgb_gather xgb_limits by metis
  obtain res err h' where t: "terminate ?jc job0 ?args status0 status0 (Some m) [restarted0] h1 = ((res, err), h')"
    by (metis surj_pair)
  have sil: "silent_interface ?jc" using workload_sound [OF sample_controllers(1)] by (simp add: sound_controller_def)
  from terminate_failed [OF sil t sample_status sample_status(1)] xgb_clean obtain w where w1: "wrote h1 h' [w]"
    by (auto simp: limited_args_def args0_def run_policy0_def le_Suc_eq length_Suc_conv)
  have w: "status_writes h' = [w]" using wroteD [OF silent_wrote [OF silent_gather [OF sil g] w1]] by simp
  have "reconcile_body ?jc job0 ''default/mnist'' ?specs status0 ?args [] = ((res, err), h')"
    using g l t by (simp add: reconcile_body_def no_code_sync cache_phase_def limited_args_def args0_def)
  moreover have "out_key (pods_world [restarted0]) job0 = Inr ''default/mnist''"
    by (simp add: pods_world_def quiet_world_def job0_def)
  moreover have "ReconcileCron (pods_world [restarted0]) job0 (ja_RunPolicy ?args) [] = (None, [])"
    by (simp add: ReconcileCron_def limited_args_def args0_def run_policy0_def)
  ultimately show ?thesis using w by (simp add: ReconcileJobs_def backoff_update_def emit_def)
qed

theorem reconcile_status_safe_witness:
  "\<exists>w. status_writes (snd (ReconcileJobs (xgb_jc [restarted0]) job0 [(''Worker'', spec0)] status0 (limited_args None) [])) = [w] \<and>
     conditions_wf w \<and> \<not> DeepEqual_status status0 w"
proof -
  let ?run = "ReconcileJobs (xgb_jc [restarted0]) job0 [(''Worker'', spec0)] status0 (limited_args None) []"
  obtain w where w: "status_writes (snd ?run) = [w]" using xgb_fails by blast
  obtain res err h' where r: "?run = ((res, err), h')" by (metis surj_pair)
  from reconcile_status_safe [OF sample_controllers(1) r] w sample_status(2) show ?thesis unfolding r by auto
qed

text \<open>An ElasticDL job without pods: its master is created, under its own name.\<close>

lemma edl_run:
  "\<exists>r h'. ReconcilePods (edl_jc []) Map.empty job0 status0 [] ''Master'' (dag_spec 1 []) [(''Master'', dag_spec 1 [])] run_policy0 False [] = (Inr r, h')"
proof -
  have n: "ToLower ''Master'' = ''master''" "ToLower ''AIMaster'' = ''aimaster''" by code_simp+
  show ?thesis
    by (simp add: ReconcilePods_def n sample_strings GetPodSlices_def create_missing_def createNewPod_def
      host_network_step_def label_and_policy_def bind_gang_def spot_replica_def CreatePod_def api_write_def
      CreatePods_def createPods_def GetPodFromTemplate_def MergeMap_def replica_labels_def setRestartPolicy_def
      aimaster_step_def ContainsReplicaType_def JobReplicaTypeAIMaster_def finish_pods_def Let_def
      EnableHostNetwork_def HostNetworkMode_def store_port_step_def
      edl_jc_def ElasticDLController_def with_names_def pods_jc_def pods_world_def jc0_def edl_names_def empty_scale_def master_present_def
      quiet_world_def job0_def) blast
qed

theorem reconcile_pods_creates_witness:
  "created (snd (ReconcilePods (edl_jc []) Map.empty job0 status0 [] ''Master'' (dag_spec 1 []) [(''Master'', dag_spec 1 [])] run_policy0 False [])) =
     [''elasticdl-mnist-master'']"
proof -
  obtain job' st' ports' restart' h' where
    r: "ReconcilePods (edl_jc []) Map.empty job0 status0 [] ''Master'' (dag_spec 1 []) [(''Master'', dag_spec 1 [])] run_policy0 False [] =
      (Inr (job', st', ports', restart'), h')" using edl_run by (metis surj_pair)
  have n: "ToLower ''Master'' = ''master''" by code_simp
  have sel: "replica_selector (World (edl_jc [])) (ToLower ''Master'')"
    by (simp add: n replica_selector_def pods_world_def quiet_world_def)
  have absent: "absent_indices [] ''master'' 1 = [0]"
    by (simp add: absent_indices_def replica_pods_def)
  have edl: "ci_ControllerName (Controller (edl_jc [])) = ''ElasticDLController''"
    "ci_IsMasterRole (Controller (edl_jc [])) [(''Master'', dag_spec 1 [])] ''Master'' 0"
    by (simp_all add: edl_jc_def ElasticDLController_def edl_names_def empty_scale_def master_present_def Let_def)
  have name: "''elasticdl-'' @ jm_Name job0 @ ''-master'' = ''elasticdl-mnist-master''" by (simp add: job0_def)
  show ?thesis
    using reconcile_pods_creates [OF sample_controllers(2) r sel, of 1] unfolding r n absent
    by (simp add: edl name)
qed

end
