(* ===== verification/Model_Storage.thy ===== *)
theory Model_Storage
  imports Job_Resources
begin

text \<open>
  The storage of a model version and its providers (\<open>apis/model/v1alpha1/modelversion_types.go\<close>,
  \<open>controllers/model/storage\<close>). A provider makes the persistent volume of a model version and mounts the
  storage into the pods of a job. A result \<open>Inl\<close> is a panic. The operations of the local provider
  are those the job controller uses through \<open>storage_provider\<close>.
\<close>

subsection \<open>Storage of a model version\<close>

record NFS =
  nfs_Server :: string
  nfs_Path :: string
  nfs_MountPath :: string

record LocalStorage =
  ls_Path :: string
  ls_MountPath :: string
  ls_NodeName :: string

record AWSEfs =
  efs_VolumeHandle :: string
  efs_Attributes :: smap

record Storage =
  sto_NFS :: "NFS option"
  sto_LocalStorage :: "LocalStorage option"
  sto_AWSEfs :: "AWSEfs option"

text \<open>
  Persistent volumes and claims. The affinity of a volume is one requirement: a node label and the
  values it may have.
\<close>

datatype pv_source =
    LocalVolumeSource string
  | NFSVolumeSource string string
  | CSIVolumeSource string string smap

record persistent_volume =
  pv_Name :: string
  pv_OwnerReferences :: "owner_ref list"
  pv_AccessModes :: "string list"
  pv_ReclaimPolicy :: string
  pv_Source :: pv_source
  pv_Capacity :: resource_list
  pv_StorageClassName :: string
  pv_NodeAffinity :: "(string \<times> string list) option"

record volume_claim =
  pvc_Name :: string
  pvc_Namespace :: string
  pvc_OwnerReferences :: "owner_ref list"
  pvc_VolumeName :: string
  pvc_AccessModes :: "string list"
  pvc_Requests :: resource_list
  pvc_StorageClassName :: "string option"
  pvc_Phase :: string

subsection \<open>Providers\<close>

record StorageProvider =
  CreatePersistentVolume :: "Storage \<Rightarrow> string \<Rightarrow> go_error + persistent_volume"
  AddModelVolume :: "Storage \<Rightarrow> pod_template \<Rightarrow> go_error + pod_template"
  ModelMountPath :: "Storage \<Rightarrow> go_error + string"

definition nil_deref :: go_error where "nil_deref = Panic ''nil pointer dereference''"

definition mebi :: quantity where "mebi = 1000 * 2 ^ 20"

definition add_volume :: "string \<Rightarrow> volume_source \<Rightarrow> pod_template \<Rightarrow> pod_template" where
  "add_volume name src t = t\<lparr>pt_Spec := (pt_Spec t)\<lparr>ps_Volumes := ps_Volumes (pt_Spec t) @ [(name, src)]\<rparr>\<rparr>"

definition add_mount :: "string \<Rightarrow> string \<Rightarrow> container \<Rightarrow> container" where
  "add_mount name path c =
     c\<lparr>ct_VolumeMounts := ct_VolumeMounts c @ [\<lparr>vm_Name = name, vm_MountPath = path, vm_SubPath = []\<rparr>]\<rparr>"

definition local_volume :: "LocalStorage \<Rightarrow> pod_template \<Rightarrow> pod_template" where
  "local_volume ls t =
     map_containers (add_mount ''modelvolume'' (ls_MountPath ls)) (add_volume ''modelvolume'' (HostPathSource (ls_Path ls)) t)"

definition LocalStorageProvider :: StorageProvider where
  "LocalStorageProvider =
     \<lparr>CreatePersistentVolume = (\<lambda>s pvName.
        (case sto_LocalStorage s of
           None \<Rightarrow> Inl nil_deref
         | Some ls \<Rightarrow>
             Inr \<lparr>pv_Name = pvName, pv_OwnerReferences = [], pv_AccessModes = [''ReadWriteMany''],
                  pv_ReclaimPolicy = ''Retain'', pv_Source = LocalVolumeSource (ls_Path ls),
                  pv_Capacity = [(''storage'', 500 * mebi)], pv_StorageClassName = [],
                  pv_NodeAffinity = Some (''kubernetes.io/hostname'', [ls_NodeName ls])\<rparr>)),
      AddModelVolume = (\<lambda>s t. (case sto_LocalStorage s of None \<Rightarrow> Inl nil_deref | Some ls \<Rightarrow> Inr (local_volume ls t))),
      ModelMountPath = (\<lambda>s. (case sto_LocalStorage s of None \<Rightarrow> Inl nil_deref | Some ls \<Rightarrow> Inr (ls_MountPath ls)))\<rparr>"

text \<open>
  The loop over the containers appends to a copy of each container, so the template keeps its
  containers, but it reads the mount path of the local storage.
\<close>

definition NFSProvider :: StorageProvider where
  "NFSProvider =
     \<lparr>CreatePersistentVolume = (\<lambda>s pvName.
        (case sto_NFS s of
           None \<Rightarrow> Inl nil_deref
         | Some nfs \<Rightarrow>
             Inr \<lparr>pv_Name = pvName, pv_OwnerReferences = [], pv_AccessModes = [''ReadWriteMany''],
                  pv_ReclaimPolicy = ''Retain'', pv_Source = NFSVolumeSource (nfs_Server nfs) (nfs_Path nfs),
                  pv_Capacity = [(''storage'', 1024 * mebi)], pv_StorageClassName = [], pv_NodeAffinity = None\<rparr>)),
      AddModelVolume = (\<lambda>s t.
        (case sto_NFS s of
           None \<Rightarrow> Inl nil_deref
         | Some nfs \<Rightarrow>
             (if ps_Containers (pt_Spec t) \<noteq> [] \<and> sto_LocalStorage s = None then Inl nil_deref
              else Inr (add_volume ''modelvolume'' (NFSSource (nfs_Server nfs) (nfs_Path nfs)) t)))),
      ModelMountPath = (\<lambda>s. (case sto_LocalStorage s of None \<Rightarrow> Inl nil_deref | Some ls \<Rightarrow> Inr (ls_MountPath ls)))\<rparr>"

definition AWSEfsProvider :: StorageProvider where
  "AWSEfsProvider =
     \<lparr>CreatePersistentVolume = (\<lambda>s pvName.
        (case sto_AWSEfs s of
           None \<Rightarrow> Inl nil_deref
         | Some efs \<Rightarrow>
             Inr \<lparr>pv_Name = pvName, pv_OwnerReferences = [], pv_AccessModes = [''ReadWriteMany''],
                  pv_ReclaimPolicy = ''Retain'',
                  pv_Source = CSIVolumeSource ''efs.csi.aws.com'' (efs_VolumeHandle efs) (efs_Attributes efs),
                  pv_Capacity = [(''storage'', 1024 * mebi)], pv_StorageClassName = [], pv_NodeAffinity = None\<rparr>)),
      AddModelVolume = (\<lambda>s t. Inl (Panic ''implement me'')),
      ModelMountPath = (\<lambda>s. Inl (Panic ''implement me''))\<rparr>"

definition GetStorageProvider :: "Storage \<Rightarrow> StorageProvider option" where
  "GetStorageProvider s =
     (if sto_NFS s \<noteq> None then Some NFSProvider
      else if sto_LocalStorage s \<noteq> None then Some LocalStorageProvider
      else if sto_AWSEfs s \<noteq> None then Some AWSEfsProvider
      else None)"

subsection \<open>What the job controller relies on\<close>

text \<open>
  One round of \<open>addModelPathEnv\<close>: the path is asked for at every container that has no model path yet,
  then the volume is added.
\<close>

fun add_model_env :: "go_error + string \<Rightarrow> container list \<Rightarrow> go_error + container list" where
  "add_model_env path [] = Inr []"
| "add_model_env path (c # cs) =
     (if list_ex (\<lambda>(n, v). n = KubeDLModelPath) (ct_Env c) then map_sum id (Cons c) (add_model_env path cs)
      else case path of
             Inl e \<Rightarrow> Inl e
           | Inr p \<Rightarrow> map_sum id (Cons (add_env KubeDLModelPath p c)) (add_model_env path cs))"

definition mount_model :: "Storage \<Rightarrow> pod_template \<Rightarrow> go_error + pod_template" where
  "mount_model s t =
     (case GetStorageProvider s of
        None \<Rightarrow> Inl nil_deref
      | Some p \<Rightarrow>
          (case add_model_env (ModelMountPath p s) (ps_Containers (pt_Spec t)) of
             Inl e \<Rightarrow> Inl e
           | Inr cs \<Rightarrow> AddModelVolume p s (t\<lparr>pt_Spec := (pt_Spec t)\<lparr>ps_Containers := cs\<rparr>\<rparr>)))"

definition local_provider :: "LocalStorage \<Rightarrow> storage_provider" where
  "local_provider ls = \<lparr>GetModelMountPath = ls_MountPath ls, AddModelVolumeToPodSpec = local_volume ls\<rparr>"

lemma add_model_env_path: "add_model_env (Inr p) cs = Inr (map (add_env KubeDLModelPath p) cs)"
  by (induction cs) (simp_all add: add_env_def)

lemma add_model_env_length: "add_model_env path cs = Inr cs' \<Longrightarrow> cs' = [] \<longleftrightarrow> cs = []"
  by (cases cs) (auto split: if_splits sum.splits simp: map_sum_def)

text \<open>The local provider never panics and is the one the job controller works with.\<close>

lemma mount_model_local:
  assumes "sto_NFS s = None" "sto_LocalStorage s = Some ls"
  shows "mount_model s t =
    Inr (AddModelVolumeToPodSpec (local_provider ls)
          (map_containers (add_env KubeDLModelPath (GetModelMountPath (local_provider ls))) t))"
  using assms
  by (simp add: mount_model_def GetStorageProvider_def LocalStorageProvider_def local_provider_def
      add_model_env_path map_containers_def)

lemma mount_model_remote:
  assumes "sto_LocalStorage s = None" "ps_Containers (pt_Spec t) \<noteq> []"
  shows "isl (mount_model s t)"
proof (cases "GetStorageProvider s")
  case (Some p)
  show ?thesis
  proof (cases "add_model_env (ModelMountPath p s) (ps_Containers (pt_Spec t))")
    case (Inr cs)
    then have "cs \<noteq> []" using assms(2) by (simp add: add_model_env_length)
    with Some Inr assms(1) show ?thesis
      by (auto simp: mount_model_def GetStorageProvider_def NFSProvider_def AWSEfsProvider_def
          split: if_splits option.splits)
  qed (simp add: mount_model_def Some)
qed (simp add: mount_model_def)

text \<open>
  Model storage works for local directories only. With local storage alone every container of a template is
  told the model path and mounts the volume there; with NFS or EFS storage alone the controller panics on
  every template that has containers.
\<close>

theorem model_storage_local_only:
  assumes "ps_Containers (pt_Spec t) \<noteq> []" "sto_LocalStorage s = None \<or> sto_NFS s = None"
  shows "case sto_LocalStorage s of
      None \<Rightarrow> isl (mount_model s t)
    | Some ls \<Rightarrow>
        (let path = ls_MountPath ls;
             t1 = add_volume ''modelvolume'' (HostPathSource (ls_Path ls)) t in
         mount_model s t = Inr (map_containers (\<lambda>c. add_mount ''modelvolume'' path (add_env KubeDLModelPath path c)) t1))"
proof (cases "sto_LocalStorage s")
  case None
  then show ?thesis using assms(1) by (simp add: mount_model_remote)
next
  case (Some ls)
  then have "sto_NFS s = None" using assms(2) by simp
  from mount_model_local [OF this Some] Some show ?thesis
    by (simp add: local_provider_def local_volume_def map_containers_def add_volume_def o_def)
qed

subsection \<open>Witness\<close>

definition plain_template :: "string \<Rightarrow> pod_template" where
  "plain_template name =
     \<lparr>pt_Name = [], pt_GenerateName = [], pt_Labels = Map.empty, pt_Annotations = Map.empty, pt_Finalizers = [], pt_OwnerReferences = [],
      pt_Spec = \<lparr>ps_NodeName = [],
        ps_Containers = [\<lparr>ct_Name = name, ct_Ports = [], ct_Env = [], ct_VolumeMounts = [], ct_Requests = [], ct_Limits = [],
          ct_Image = [], ct_Command = [], ct_Args = [], ct_WorkingDir = [], ct_ImagePullPolicy = [], ct_TerminationMessagePolicy = []\<rparr>],
        ps_HostNetwork = False, ps_DNSPolicy = [], ps_RestartPolicy = [], ps_SchedulerName = [], ps_PriorityClassName = [],
        ps_Volumes = [], ps_InitContainers = [], ps_Overhead = None\<rparr>\<rparr>"

theorem model_storage_local_only_witness:
  "isl (mount_model \<lparr>sto_NFS = Some \<lparr>nfs_Server = ''nas'', nfs_Path = ''/models'', nfs_MountPath = ''/mnt''\<rparr>,
     sto_LocalStorage = None, sto_AWSEfs = None\<rparr> (plain_template ''tensorflow''))"
  using model_storage_local_only [of "plain_template ''tensorflow''"
      "\<lparr>sto_NFS = Some \<lparr>nfs_Server = ''nas'', nfs_Path = ''/models'', nfs_MountPath = ''/mnt''\<rparr>,
        sto_LocalStorage = None, sto_AWSEfs = None\<rparr>"]
  by (simp add: plain_template_def)

end
