(* ===== verification/Model_Version.thy ===== *)
theory Model_Version
  imports Model_Storage Job_Policies Job_Reconcile
begin

text \<open>
  The model version controller (\<open>controllers/model/modelversion_controller.go\<close>, \<open>utils.go\<close>). It makes the
  volume of a model version, starts one pod that builds an image of the model and records how the build ends.
  The API server, the clock and the configured builder image are fields of \<open>mv_world\<close>; the answer to a call
  depends on the calls made before.
\<close>

subsection \<open>Models and their versions\<close>

record VersionInfo =
  vi_ModelVersion :: string
  vi_ImageName :: string

record Model =
  mo_APIVersion :: string
  mo_Kind :: string
  mo_Name :: string
  mo_Namespace :: string
  mo_UID :: string
  mo_LatestVersion :: "VersionInfo option"

datatype ImageBuildPhase = ImageBuildUnset | ImageBuilding | ImageBuildFailed | ImageBuildSucceeded | ImageBuildOther string

record ModelVersionStatus =
  mvs_Image :: string
  mvs_ImageBuildPhase :: ImageBuildPhase
  mvs_FinishTime :: "time option"
  mvs_Message :: string

record ModelVersion =
  mvo_APIVersion :: string
  mvo_Kind :: string
  mvo_Name :: string
  mvo_Namespace :: string
  mvo_UID :: string
  mvo_OwnerReferences :: "owner_ref list"
  mvo_Labels :: smap
  mvo_Annotations :: smap
  mvo_ModelName :: string
  mvo_CreatedBy :: string
  mvo_Storage :: "Storage option"
  mvo_ImageRepo :: string
  mvo_ImageTag :: string
  mvo_Status :: ModelVersionStatus

definition empty_Model :: Model where
  "empty_Model = \<lparr>mo_APIVersion = [], mo_Kind = [], mo_Name = [], mo_Namespace = [], mo_UID = [], mo_LatestVersion = None\<rparr>"

definition empty_claim :: volume_claim where
  "empty_claim = \<lparr>pvc_Name = [], pvc_Namespace = [], pvc_OwnerReferences = [], pvc_VolumeName = [], pvc_AccessModes = [],
     pvc_Requests = [], pvc_StorageClassName = None, pvc_Phase = []\<rparr>"

datatype mv_call =
    GetVersion string string
  | GetModel string string
  | CreateModel Model
  | GetPV string
  | CreatePV persistent_volume
  | GetClaim string string
  | CreateClaim volume_claim
  | GetBuildPod string string
  | GetDockerfile string
  | CreateDockerfile config_map
  | CreateBuildPod pod
  | UpdateVersion ModelVersion
  | UpdateModelStatus Model

type_synonym mv_hist = "mv_call list"
type_synonym 'a mv_res = "(go_error + 'a) \<times> mv_hist"

record mv_world =
  mw_version :: "mv_hist \<Rightarrow> string \<Rightarrow> string \<Rightarrow> go_error + ModelVersion"
  mw_model :: "mv_hist \<Rightarrow> string \<Rightarrow> string \<Rightarrow> go_error + Model"
  mw_pv :: "mv_hist \<Rightarrow> string \<Rightarrow> go_error + persistent_volume"
  mw_claim :: "mv_hist \<Rightarrow> string \<Rightarrow> string \<Rightarrow> go_error + volume_claim"
  mw_pod :: "mv_hist \<Rightarrow> string \<Rightarrow> string \<Rightarrow> go_error + pod"
  mw_dockerfile :: "mv_hist \<Rightarrow> string \<Rightarrow> go_error option"
  mw_write :: "mv_hist \<Rightarrow> mv_call \<Rightarrow> go_error option"
  mw_now :: "mv_hist \<Rightarrow> time"
  mw_builder :: string

definition mv_write :: "mv_world \<Rightarrow> mv_call \<Rightarrow> mv_hist \<Rightarrow> go_error option \<times> mv_hist" where
  "mv_write W c h = (mw_write W h c, h @ [c])"

subsection \<open>Names\<close>

definition GetModelVersionPVName :: "string \<Rightarrow> string" where
  "GetModelVersionPVName name = ''mv-pv-'' @ name"

definition GetModelVersionPVClaimName :: "string \<Rightarrow> string" where
  "GetModelVersionPVClaimName name = ''mv-pvc-'' @ name"

definition GetModelVersionPVNameByNode :: "string \<Rightarrow> string \<Rightarrow> string" where
  "GetModelVersionPVNameByNode name node = ''mv-pv-'' @ name @ ''-'' @ node"

definition GetModelVersionPVClaimNameByNode :: "string \<Rightarrow> string \<Rightarrow> string" where
  "GetModelVersionPVClaimNameByNode name node = ''mv-pvc-'' @ name @ ''-'' @ node"

definition GetBuildImagePodName :: "string \<Rightarrow> string \<Rightarrow> string" where
  "GetBuildImagePodName name versionId = ''image-build-'' @ name @ ''-'' @ versionId"

subsection \<open>Volume and claim\<close>

definition version_owner :: "ModelVersion \<Rightarrow> owner_ref" where
  "version_owner mv = \<lparr>or_APIVersion = mvo_APIVersion mv, or_Kind = mvo_Kind mv, or_Name = mvo_Name mv,
     or_UID = mvo_UID mv, or_Controller = None, or_BlockOwnerDeletion = None\<rparr>"

definition createPVC :: "persistent_volume \<Rightarrow> string \<Rightarrow> string \<Rightarrow> volume_claim" where
  "createPVC pv name namespace =
     \<lparr>pvc_Name = name, pvc_Namespace = namespace, pvc_OwnerReferences = [], pvc_VolumeName = pv_Name pv,
      pvc_AccessModes = [''ReadWriteMany''], pvc_Requests = [(''storage'', 50 * mebi)], pvc_StorageClassName = Some [],
      pvc_Phase = []\<rparr>"

text \<open>
  The function assigns new objects to its pointer parameters, so the caller sees the claim only when
  the server had it; a claim that has just been created is empty for the caller.
\<close>

definition ensure_pv :: "mv_world \<Rightarrow> ModelVersion \<Rightarrow> Storage \<Rightarrow> string \<Rightarrow> mv_hist \<Rightarrow> persistent_volume mv_res" where
  "ensure_pv W mv s pvName h =
     (let h1 = h @ [GetPV pvName] in
      case mw_pv W h pvName of
        Inr pv \<Rightarrow> (Inr pv, h1)
      | Inl e \<Rightarrow>
          (if \<not> IsNotFound e then (Inl e, h1)
           else case GetStorageProvider s of
                  None \<Rightarrow> (Inl nil_deref, h1)
                | Some provider \<Rightarrow>
                    (case CreatePersistentVolume provider s pvName of
                       Inl p \<Rightarrow> (Inl p, h1)
                     | Inr pv \<Rightarrow>
                         (let pv1 = pv\<lparr>pv_OwnerReferences := pv_OwnerReferences pv @ [version_owner mv]\<rparr> in
                          guarded (mv_write W (CreatePV pv1) h1) (\<lambda>h2. (Inr pv1, h2))))))"

definition ensure_claim :: "mv_world \<Rightarrow> ModelVersion \<Rightarrow> persistent_volume \<Rightarrow> string \<Rightarrow> mv_hist \<Rightarrow> volume_claim mv_res" where
  "ensure_claim W mv pv pvcName h =
     (let h1 = h @ [GetClaim (mvo_Namespace mv) pvcName] in
      case mw_claim W h (mvo_Namespace mv) pvcName of
        Inr pvc \<Rightarrow> (Inr pvc, h1)
      | Inl e \<Rightarrow>
          (if \<not> IsNotFound e then (Inl e, h1)
           else guarded
                  (mv_write W (CreateClaim ((createPVC pv pvcName (mvo_Namespace mv))\<lparr>pvc_OwnerReferences := [version_owner mv]\<rparr>)) h1)
                  (\<lambda>h2. (Inr empty_claim, h2))))"

definition createPVAndPVCForModelVersion :: "mv_world \<Rightarrow> ModelVersion \<Rightarrow> Storage \<Rightarrow> mv_hist \<Rightarrow> volume_claim mv_res" where
  "createPVAndPVCForModelVersion W mv s h =
     (case sto_LocalStorage s of
        Some ls \<Rightarrow>
          (if ls_NodeName ls = [] then (Inl (Err ''modelVersion has no nodeName set for local storage''), h)
           else andThen (ensure_pv W mv s (GetModelVersionPVNameByNode (mvo_Name mv) (ls_NodeName ls)) h)
                  (\<lambda>pv. ensure_claim W mv pv (GetModelVersionPVClaimNameByNode (mvo_Name mv) (ls_NodeName ls))))
      | None \<Rightarrow>
          andThen (ensure_pv W mv s (GetModelVersionPVName (mvo_Name mv)) h)
            (\<lambda>pv. ensure_claim W mv pv (GetModelVersionPVClaimName (mvo_Name mv))))"

subsection \<open>The model\<close>

definition addModelToModelVersionOwnerReference :: "ModelVersion \<Rightarrow> Model \<Rightarrow> ModelVersion" where
  "addModelToModelVersionOwnerReference mv m =
     (if list_ex (\<lambda>r. or_Kind r = ''Model'' \<and> or_UID r = mo_UID m) (mvo_OwnerReferences mv) then mv
      else mv\<lparr>mvo_OwnerReferences := mvo_OwnerReferences mv @
             [\<lparr>or_APIVersion = mo_APIVersion m, or_Kind = mo_Kind m, or_Name = mo_Name m, or_UID = mo_UID m,
               or_Controller = None, or_BlockOwnerDeletion = None\<rparr>]\<rparr>)"

text \<open>
  A model that does not exist is created in a variable of the inner block; the model the rest of
  the function works with stays empty. The owner reference is taken before the server has given the
  model an identity.
\<close>

definition ensure_model :: "mv_world \<Rightarrow> ModelVersion \<Rightarrow> mv_hist \<Rightarrow> ((outcome + ModelVersion \<times> Model) \<times> mv_hist)" where
  "ensure_model W mv h =
     (let h1 = h @ [GetModel (mvo_Namespace mv) (mvo_ModelName mv)] in
      case mw_model W h (mvo_Namespace mv) (mvo_ModelName mv) of
        Inr m \<Rightarrow> (Inr (addModelToModelVersionOwnerReference mv m, m), h1)
      | Inl e \<Rightarrow>
          (if \<not> IsNotFound e then (Inl (no_result, Some e), h1)
           else let m = empty_Model\<lparr>mo_Namespace := mvo_Namespace mv, mo_Name := mvo_ModelName mv,
                          mo_LatestVersion := Some \<lparr>vi_ModelVersion = mvo_Name mv, vi_ImageName = []\<rparr>\<rparr> in
                case mv_write W (CreateModel m) h1 of
                  (Some e', h2) \<Rightarrow> (Inl (no_result\<lparr>Requeue := True\<rparr>, Some e'), h2)
                | (None, h2) \<Rightarrow> (Inr (addModelToModelVersionOwnerReference mv m, empty_Model), h2)))"

subsection \<open>The image build\<close>

definition createImageBuildDockerfile :: "string \<Rightarrow> config_map" where
  "createImageBuildDockerfile ns =
     \<lparr>cm_Name = ''dockerfile'', cm_Namespace = ns, cm_Labels = [], cm_OwnerReferences = [],
      cm_Data = [(''dockerfile'', ''FROM busybox'' @ [CHR 0x0A] @ ''    COPY build/ /kubedl-model'')]\<rparr>"

definition createDockerfileIfNotExists :: "mv_world \<Rightarrow> Model \<Rightarrow> ModelVersion \<Rightarrow> mv_hist \<Rightarrow> go_error option \<times> mv_hist" where
  "createDockerfileIfNotExists W m mv h =
     (let h1 = h @ [GetDockerfile (mo_Namespace m)] in
      case mw_dockerfile W h (mo_Namespace m) of
        None \<Rightarrow> (None, h1)
      | Some e \<Rightarrow>
          (if IsNotFound e then mv_write W (CreateDockerfile (createImageBuildDockerfile (mvo_Namespace mv))) h1
           else (Some e, h1)))"

definition createImgBuildPod :: "string \<Rightarrow> ModelVersion \<Rightarrow> volume_claim \<Rightarrow> string \<Rightarrow> string \<Rightarrow> pod" where
  "createImgBuildPod builder mv pvc imgBuildPodName newImage =
     \<lparr>pod_Name = imgBuildPodName, pod_GenerateName = [], pod_Namespace = mvo_Namespace mv, pod_UID = [],
      pod_Labels = Map.empty, pod_Annotations = Map.empty, pod_Finalizers = [], pod_OwnerReferences = [version_owner mv],
      pod_DeletionTimestamp = None, pod_ResourceVersion = [],
      pod_Spec =
        \<lparr>ps_NodeName = [],
         ps_Containers =
           [\<lparr>ct_Name = imgBuildPodName, ct_Ports = [], ct_Env = [],
             ct_VolumeMounts =
               [\<lparr>vm_Name = ''kaniko-secret'', vm_MountPath = ''/kaniko/.docker'', vm_SubPath = []\<rparr>,
                \<lparr>vm_Name = ''build-source'', vm_MountPath = ''/workspace/build'', vm_SubPath = []\<rparr>,
                \<lparr>vm_Name = ''dockerfile'', vm_MountPath = ''/workspace/'', vm_SubPath = []\<rparr>],
             ct_Requests = [], ct_Limits = [], ct_Image = builder, ct_Command = [],
             ct_Args = [''--skip-tls-verify=true'', ''--dockerfile=/workspace/dockerfile'', ''--context=dir:///workspace/'',
                        ''--destination='' @ newImage],
             ct_WorkingDir = [], ct_ImagePullPolicy = [], ct_TerminationMessagePolicy = []\<rparr>],
         ps_HostNetwork = False, ps_DNSPolicy = [], ps_RestartPolicy = ''Never'', ps_SchedulerName = [],
         ps_PriorityClassName = [],
         ps_Volumes =
           [(''kaniko-secret'', SecretSource ''regcred'' [(''.dockerconfigjson'', ''config.json'')]),
            (''build-source'', PVCSource (pvc_Name pvc)),
            (''dockerfile'', ConfigMapSource ''dockerfile'' [])],
         ps_InitContainers = [], ps_Overhead = None\<rparr>,
      pod_Phase = PodPhaseOther [], pod_Reason = [], pod_StartTime = None, pod_ContainerStatuses = [],
      pod_InitContainerStatuses = []\<rparr>"

definition LabelModelName :: string where "LabelModelName = ''model.kubedl.io/model-name''"
definition AnnotationImgBuildPodName :: string where "AnnotationImgBuildPodName = ''model.kubedl.io/img-build-pod-name''"

text \<open>The first five characters of the UID are cut off even when the version has a tag.\<close>

definition version_id :: "ModelVersion \<Rightarrow> string" where
  "version_id mv = (if mvo_ImageTag mv \<noteq> [] then mvo_ImageTag mv else take 5 (mvo_UID mv))"

definition version_image :: "ModelVersion \<Rightarrow> string" where
  "version_image mv = mvo_ImageRepo mv @ '':'' @ version_id mv"

definition start_build ::
    "mv_world \<Rightarrow> ModelVersion \<Rightarrow> Model \<Rightarrow> volume_claim \<Rightarrow> string \<Rightarrow> mv_hist \<Rightarrow> (go_error + unit) \<times> mv_hist" where
  "start_build W mv m pvc podName h =
     (let st = (mvo_Status mv)\<lparr>mvs_Image := version_image mv, mvs_ImageBuildPhase := ImageBuilding,
                  mvs_Message := ''Image building started.''\<rparr>;
          mv1 = mv\<lparr>mvo_Labels := (mvo_Labels mv)(LabelModelName \<mapsto> mo_Name m),
                   mvo_Annotations := (mvo_Annotations mv)(AnnotationImgBuildPodName \<mapsto> podName), mvo_Status := st\<rparr>;
          m1 = m\<lparr>mo_LatestVersion := Some \<lparr>vi_ModelVersion = mvo_Name mv, vi_ImageName = mvs_Image st\<rparr>\<rparr> in
      guarded (createDockerfileIfNotExists W m mv h) (\<lambda>h1.
      guarded (mv_write W (CreateBuildPod (createImgBuildPod (mw_builder W) mv pvc podName (mvs_Image st))) h1) (\<lambda>h2.
      guarded (mv_write W (UpdateVersion mv1) h2) (\<lambda>h3.
      guarded (mv_write W (UpdateModelStatus m1) h3) (\<lambda>h4. (Inr (), h4))))))"

definition finish_build :: "mv_world \<Rightarrow> ModelVersion \<Rightarrow> ImageBuildPhase \<Rightarrow> string \<Rightarrow> mv_hist \<Rightarrow> outcome \<times> mv_hist" where
  "finish_build W mv phase message h =
     (let st = (mvo_Status mv)\<lparr>mvs_ImageBuildPhase := phase, mvs_Message := message, mvs_FinishTime := Some (mw_now W h)\<rparr> in
      case mv_write W (UpdateVersion (mv\<lparr>mvo_Status := st\<rparr>)) h of
        (Some e, h1) \<Rightarrow> ((no_result, Some e), h1)
      | (None, h1) \<Rightarrow> ((no_result, None), h1))"

definition build_image :: "mv_world \<Rightarrow> ModelVersion \<Rightarrow> Model \<Rightarrow> volume_claim \<Rightarrow> mv_hist \<Rightarrow> outcome \<times> mv_hist" where
  "build_image W mv m pvc h =
     (if length (mvo_UID mv) < 5 then ((no_result, Some (Panic ''slice bounds out of range'')), h)
      else let podName = GetBuildImagePodName (mo_Name m) (version_id mv);
               h1 = h @ [GetBuildPod (mo_Namespace m) podName] in
           case mw_pod W h (mo_Namespace m) podName of
             Inl e \<Rightarrow>
               (if IsNotFound e
                then (case start_build W mv m pvc podName h1 of
                        (Inl e', h2) \<Rightarrow> ((no_result, Some e'), h2)
                      | (Inr x, h2) \<Rightarrow> ((\<lparr>Requeue = False, RequeueAfter = 3 * second\<rparr>, None), h2))
                else ((no_result, Some e), h1))
           | Inr p \<Rightarrow>
               (case pod_Phase p of
                  PodSucceeded \<Rightarrow> finish_build W mv ImageBuildSucceeded ''Image build succeeded.'' h1
                | PodFailed \<Rightarrow> finish_build W mv ImageBuildFailed ''Image build failed.'' h1
                | _ \<Rightarrow> ((\<lparr>Requeue = False, RequeueAfter = 3 * second\<rparr>, None), h1)))"

definition build_finished :: "ModelVersionStatus \<Rightarrow> bool" where
  "build_finished st \<longleftrightarrow> mvs_ImageBuildPhase st = ImageBuildSucceeded \<or> mvs_ImageBuildPhase st = ImageBuildFailed"

definition ModelVersion_Reconcile :: "mv_world \<Rightarrow> string \<Rightarrow> string \<Rightarrow> mv_hist \<Rightarrow> outcome \<times> mv_hist" where
  "ModelVersion_Reconcile W ns n h =
     (let h1 = h @ [GetVersion ns n] in
      case mw_version W h ns n of
        Inl e \<Rightarrow> ((no_result, if IsNotFound e then None else Some e), h1)
      | Inr mv \<Rightarrow>
          (if build_finished (mvo_Status mv) then ((no_result, None), h1)
           else case ensure_model W mv h1 of
                  (Inl out, h2) \<Rightarrow> (out, h2)
                | (Inr (mv1, m), h2) \<Rightarrow>
                    (case mvo_Storage mv1 of
                       None \<Rightarrow> ((no_result, None), h2)
                     | Some s \<Rightarrow>
                         (case createPVAndPVCForModelVersion W mv1 s h2 of
                            (Inl e, h3) \<Rightarrow> ((no_result\<lparr>Requeue := True\<rparr>, Some e), h3)
                          | (Inr pvc, h3) \<Rightarrow>
                              (if pvc_Phase pvc \<noteq> ''Bound''
                               then ((\<lparr>Requeue = True, RequeueAfter = second\<rparr>, None), h3)
                               else build_image W mv1 m pvc h3)))))"

subsection \<open>The build as a state machine\<close>

text \<open>The updates of model versions and the build pods in a history.\<close>

definition version_updates :: "mv_hist \<Rightarrow> ModelVersion list" where
  "version_updates h = concat (map (\<lambda>c. case c of UpdateVersion v \<Rightarrow> [v] | _ \<Rightarrow> []) h)"

definition build_pods :: "mv_hist \<Rightarrow> pod list" where
  "build_pods h = concat (map (\<lambda>c. case c of CreateBuildPod p \<Rightarrow> [p] | _ \<Rightarrow> []) h)"

lemma version_updates_simps [simp]:
  "version_updates [] = []"
  "version_updates (c # h) = (case c of UpdateVersion v \<Rightarrow> [v] | _ \<Rightarrow> []) @ version_updates h"
  "version_updates (h @ h') = version_updates h @ version_updates h'"
  by (simp_all add: version_updates_def)

lemma build_pods_simps [simp]:
  "build_pods [] = []"
  "build_pods (c # h) = (case c of CreateBuildPod p \<Rightarrow> [p] | _ \<Rightarrow> []) @ build_pods h"
  "build_pods (h @ h') = build_pods h @ build_pods h'"
  by (simp_all add: build_pods_def)

definition building_status :: "ModelVersion \<Rightarrow> ModelVersionStatus" where
  "building_status mv = (mvo_Status mv)\<lparr>mvs_Image := version_image mv, mvs_ImageBuildPhase := ImageBuilding,
     mvs_Message := ''Image building started.''\<rparr>"

definition finished_status :: "ModelVersion \<Rightarrow> bool \<Rightarrow> time \<Rightarrow> ModelVersionStatus" where
  "finished_status mv ok t = (mvo_Status mv)\<lparr>
     mvs_ImageBuildPhase := (if ok then ImageBuildSucceeded else ImageBuildFailed),
     mvs_Message := (if ok then ''Image build succeeded.'' else ''Image build failed.''), mvs_FinishTime := Some t\<rparr>"

text \<open>The model as the first read returned it; it is empty when there was none.\<close>

definition model_read :: "mv_world \<Rightarrow> ModelVersion \<Rightarrow> mv_hist \<Rightarrow> Model" where
  "model_read W mv h = (case mw_model W h (mvo_Namespace mv) (mvo_ModelName mv) of Inr m \<Rightarrow> m | Inl e \<Rightarrow> empty_Model)"

text \<open>The claim of a version has the name of the node in it when the storage is local.\<close>

definition version_claim :: "ModelVersion \<Rightarrow> string" where
  "version_claim mv =
     (case mvo_Storage mv of
        None \<Rightarrow> []
      | Some s \<Rightarrow>
          (case sto_LocalStorage s of
             Some ls \<Rightarrow> GetModelVersionPVClaimNameByNode (mvo_Name mv) (ls_NodeName ls)
           | None \<Rightarrow> GetModelVersionPVClaimName (mvo_Name mv)))"

text \<open>
  Calls after \<open>h\<close> that end with a read of the claim of the version, which is bound; and calls among which
  there is such a read, which found no claim or one that is not bound. Neither has anything to do with the build.
\<close>

definition claim_bound :: "mv_world \<Rightarrow> ModelVersion \<Rightarrow> mv_hist \<Rightarrow> mv_call list \<Rightarrow> volume_claim \<Rightarrow> bool" where
  "claim_bound W mv h cs pvc \<longleftrightarrow> (\<exists>a. cs = a @ [GetClaim (mvo_Namespace mv) (version_claim mv)] \<and>
     version_updates a = [] \<and> build_pods a = [] \<and>
     mw_claim W (h @ a) (mvo_Namespace mv) (version_claim mv) = Inr pvc \<and> pvc_Phase pvc = ''Bound'')"

definition claim_unbound :: "mv_world \<Rightarrow> ModelVersion \<Rightarrow> mv_hist \<Rightarrow> mv_call list \<Rightarrow> bool" where
  "claim_unbound W mv h cs \<longleftrightarrow> (\<exists>a b. cs = a @ GetClaim (mvo_Namespace mv) (version_claim mv) # b \<and>
     version_updates cs = [] \<and> build_pods cs = [] \<and>
     (case mw_claim W (h @ a) (mvo_Namespace mv) (version_claim mv) of Inr pvc \<Rightarrow> pvc_Phase pvc \<noteq> ''Bound'' | Inl e \<Rightarrow> IsNotFound e))"

definition build_name :: "mv_world \<Rightarrow> ModelVersion \<Rightarrow> mv_hist \<Rightarrow> string" where
  "build_name W mv h = GetBuildImagePodName (mo_Name (model_read W mv h)) (version_id mv)"

definition build_read :: "mv_world \<Rightarrow> ModelVersion \<Rightarrow> mv_hist \<Rightarrow> mv_call list \<Rightarrow> go_error + pod" where
  "build_read W mv h cs = mw_pod W (h @ cs) (mo_Namespace (model_read W mv h)) (build_name W mv h)"

abbreviation build_call :: "mv_world \<Rightarrow> ModelVersion \<Rightarrow> mv_hist \<Rightarrow> mv_call" where
  "build_call W mv h \<equiv> GetBuildPod (mo_Namespace (model_read W mv h)) (build_name W mv h)"

text \<open>
  One request on a version, by the calls after the version was read: the build is finished; there is no
  storage; something fails before a pod is made; the claim is not bound yet; there is no build pod, and
  one is made on the claim of the version; it is there and runs; it has ended.
\<close>

inductive build_step :: "mv_world \<Rightarrow> ModelVersion \<Rightarrow> mv_hist \<Rightarrow> outcome \<Rightarrow> mv_call list \<Rightarrow> bool" for W mv h where
  over: "build_finished (mvo_Status mv) \<Longrightarrow> build_step W mv h (no_result, None) []"
| no_storage: "\<not> build_finished (mvo_Status mv) \<Longrightarrow> mvo_Storage mv = None \<Longrightarrow>
    version_updates cs = [] \<Longrightarrow> build_pods cs = [] \<Longrightarrow> build_step W mv h (no_result, None) cs"
| failed: "\<not> build_finished (mvo_Status mv) \<Longrightarrow> snd out \<noteq> None \<Longrightarrow>
    version_updates cs = [] \<Longrightarrow> build_pods cs = [] \<Longrightarrow> build_step W mv h out cs"
| unbound: "\<not> build_finished (mvo_Status mv) \<Longrightarrow> claim_unbound W mv h cs \<Longrightarrow>
    build_step W mv h (\<lparr>Requeue = True, RequeueAfter = second\<rparr>, None) cs"
| started: "\<not> build_finished (mvo_Status mv) \<Longrightarrow> claim_bound W mv h cs pvc \<Longrightarrow>
    build_read W mv h cs = Inl e \<Longrightarrow> IsNotFound e \<Longrightarrow>
    build_pods cs' = [createImgBuildPod (mw_builder W) mv pvc (build_name W mv h) (version_image mv)] \<Longrightarrow>
    map mvo_Status (version_updates cs') = [building_status mv] \<or> version_updates cs' = [] \<and> snd out \<noteq> None \<Longrightarrow>
    build_step W mv h out (cs @ build_call W mv h # cs')"
| running: "\<not> build_finished (mvo_Status mv) \<Longrightarrow> claim_bound W mv h cs pvc \<Longrightarrow>
    build_read W mv h cs = Inr p \<Longrightarrow> pod_Phase p \<notin> {PodSucceeded, PodFailed} \<Longrightarrow>
    build_step W mv h (\<lparr>Requeue = False, RequeueAfter = 3 * second\<rparr>, None) (cs @ [build_call W mv h])"
| ended: "\<not> build_finished (mvo_Status mv) \<Longrightarrow> claim_bound W mv h cs pvc \<Longrightarrow>
    build_read W mv h cs = Inr p \<Longrightarrow> pod_Phase p = (if ok then PodSucceeded else PodFailed) \<Longrightarrow>
    mvo_Status mv' = finished_status mv ok (mw_now W (h @ cs @ [build_call W mv h])) \<Longrightarrow>
    build_step W mv h out (cs @ [build_call W mv h, UpdateVersion mv'])"

definition no_build :: "mv_hist \<Rightarrow> mv_hist \<Rightarrow> bool" where
  "no_build h h' \<longleftrightarrow> (\<exists>cs. h' = h @ cs \<and> version_updates cs = [] \<and> build_pods cs = [])"

lemma no_build_call [simp, intro]: "version_updates cs = [] \<Longrightarrow> build_pods cs = [] \<Longrightarrow> no_build h (h @ cs)"
  by (auto simp: no_build_def)

lemma no_build_refl [simp]: "no_build h h"
  using no_build_call [of "[]" h] by simp

lemma no_build_trans: "no_build h h1 \<Longrightarrow> no_build h1 h2 \<Longrightarrow> no_build h h2"
  by (force simp: no_build_def)

lemma ensure_pv_no_build: "ensure_pv W mv s name h = (r, h') \<Longrightarrow> no_build h h'"
  by (auto simp: ensure_pv_def Let_def guarded_def mv_write_def split: sum.splits if_splits option.splits)

lemma ensure_claim_effect:
  assumes "ensure_claim W mv pv (version_claim mv) h = (r, h')"
  shows "\<exists>cs. h' = h @ cs \<and> version_updates cs = [] \<and> build_pods cs = [] \<and>
    (\<forall>pvc. r = Inr pvc \<longrightarrow>
       (if pvc_Phase pvc = ''Bound'' then claim_bound W mv h cs pvc else claim_unbound W mv h cs))"
proof -
  let ?c = "GetClaim (mvo_Namespace mv) (version_claim mv)"
  have bound: "claim_bound W mv h [?c] pvc"
    if "mw_claim W h (mvo_Namespace mv) (version_claim mv) = Inr pvc" "pvc_Phase pvc = ''Bound''" for pvc
    using that unfolding claim_bound_def by (intro exI [of _ "[]"]) simp
  have unbound: "claim_unbound W mv h (?c # b)"
    if "version_updates b = []" "build_pods b = []"
      "case mw_claim W h (mvo_Namespace mv) (version_claim mv) of Inr pvc \<Rightarrow> pvc_Phase pvc \<noteq> ''Bound'' | Inl e \<Rightarrow> IsNotFound e" for b
    using that unfolding claim_unbound_def by (intro exI [of _ "[]"] exI [of _ b]) simp
  have empty: "pvc_Phase empty_claim \<noteq> ''Bound''" by (simp add: empty_claim_def)
  show ?thesis
  proof (cases "mw_claim W h (mvo_Namespace mv) (version_claim mv)")
    case (Inr pvc)
    with assms have "r = Inr pvc \<and> h' = h @ [?c]" by (auto simp: ensure_claim_def Let_def)
    with Inr bound unbound [of "[]"] show ?thesis by (intro exI [of _ "[?c]"]) simp
  next
    case (Inl e)
    with assms show ?thesis
      by (auto simp: ensure_claim_def Let_def guarded_def mv_write_def empty intro!: unbound split: if_splits option.splits)
  qed
qed

lemma claim_prefix:
  assumes "version_updates a = []" "build_pods a = []"
  shows "claim_bound W mv (h @ a) cs pvc \<Longrightarrow> claim_bound W mv h (a @ cs) pvc"
    "claim_unbound W mv (h @ a) cs \<Longrightarrow> claim_unbound W mv h (a @ cs)"
proof -
  assume "claim_bound W mv (h @ a) cs pvc"
  then obtain b where "cs = b @ [GetClaim (mvo_Namespace mv) (version_claim mv)]" "version_updates b = []" "build_pods b = []"
    "mw_claim W ((h @ a) @ b) (mvo_Namespace mv) (version_claim mv) = Inr pvc" "pvc_Phase pvc = ''Bound''"
    unfolding claim_bound_def by blast
  with assms show "claim_bound W mv h (a @ cs) pvc"
    unfolding claim_bound_def by (intro exI [of _ "a @ b"]) simp
next
  assume "claim_unbound W mv (h @ a) cs"
  then obtain b d where "cs = b @ GetClaim (mvo_Namespace mv) (version_claim mv) # d" "version_updates cs = []" "build_pods cs = []"
    "case mw_claim W ((h @ a) @ b) (mvo_Namespace mv) (version_claim mv) of Inr pvc \<Rightarrow> pvc_Phase pvc \<noteq> ''Bound'' | Inl e \<Rightarrow> IsNotFound e"
    unfolding claim_unbound_def by blast
  with assms show "claim_unbound W mv h (a @ cs)"
    unfolding claim_unbound_def by (intro exI [of _ "a @ b"] exI [of _ d]) simp
qed

lemma volume_effect:
  assumes "createPVAndPVCForModelVersion W mv s h = (r, h')" "mvo_Storage mv = Some s"
  shows "\<exists>cs. h' = h @ cs \<and> version_updates cs = [] \<and> build_pods cs = [] \<and>
    (\<forall>pvc. r = Inr pvc \<longrightarrow>
       (if pvc_Phase pvc = ''Bound'' then claim_bound W mv h cs pvc else claim_unbound W mv h cs))"
proof (cases "\<exists>ls. sto_LocalStorage s = Some ls \<and> ls_NodeName ls = []")
  case True
  with assms(1) show ?thesis by (auto simp: createPVAndPVCForModelVersion_def)
next
  case False
  with assms obtain name where run: "andThen (ensure_pv W mv s name h) (\<lambda>pv. ensure_claim W mv pv (version_claim mv)) = (r, h')"
    by (auto simp: createPVAndPVCForModelVersion_def version_claim_def split: option.splits)
  obtain x h1 where pv: "ensure_pv W mv s name h = (x, h1)" by (cases "ensure_pv W mv s name h")
  from ensure_pv_no_build [OF this] obtain a where a: "h1 = h @ a" "version_updates a = []" "build_pods a = []"
    by (auto simp: no_build_def)
  show ?thesis
  proof (cases x)
    case (Inl e)
    with pv run a show ?thesis by auto
  next
    case (Inr v)
    with pv run have "ensure_claim W mv v (version_claim mv) (h @ a) = (r, h')" by (simp add: a(1))
    from ensure_claim_effect [OF this] obtain cs where cs: "h' = (h @ a) @ cs" "version_updates cs = []" "build_pods cs = []"
      "\<And>pvc. r = Inr pvc \<Longrightarrow>
        if pvc_Phase pvc = ''Bound'' then claim_bound W mv (h @ a) cs pvc else claim_unbound W mv (h @ a) cs" by blast
    have "if pvc_Phase pvc = ''Bound'' then claim_bound W mv h (a @ cs) pvc else claim_unbound W mv h (a @ cs)"
      if "r = Inr pvc" for pvc
      using cs(4) [OF that] claim_prefix [OF a(2,3)] by (simp split: if_splits)
    with a cs(1-3) show ?thesis by (intro exI [of _ "a @ cs"]) simp
  qed
qed

lemma ensure_model_effect:
  "ensure_model W mv h = (r, h') \<Longrightarrow> no_build h h' \<and> (\<forall>out. r = Inl out \<longrightarrow> snd out \<noteq> None) \<and>
    (\<forall>mv1 m. r = Inr (mv1, m) \<longrightarrow> m = model_read W mv h \<and> (\<exists>refs. mv1 = mv\<lparr>mvo_OwnerReferences := refs\<rparr>))"
  by (auto simp: ensure_model_def Let_def mv_write_def addModelToModelVersionOwnerReference_def model_read_def
      split: sum.splits if_splits option.splits intro: exI [where x = "mvo_OwnerReferences mv"])

text \<open>The owner references of a version play no role in its build.\<close>

lemma owner_irrelevant [simp]:
  "version_image (mv\<lparr>mvo_OwnerReferences := refs\<rparr>) = version_image mv"
  "version_id (mv\<lparr>mvo_OwnerReferences := refs\<rparr>) = version_id mv"
  "version_owner (mv\<lparr>mvo_OwnerReferences := refs\<rparr>) = version_owner mv"
  "building_status (mv\<lparr>mvo_OwnerReferences := refs\<rparr>) = building_status mv"
  "createImgBuildPod b (mv\<lparr>mvo_OwnerReferences := refs\<rparr>) pvc name img = createImgBuildPod b mv pvc name img"
  "finished_status (mv\<lparr>mvo_OwnerReferences := refs\<rparr>) ok t = finished_status mv ok t"
  "version_claim (mv\<lparr>mvo_OwnerReferences := refs\<rparr>) = version_claim mv"
  "model_read W (mv\<lparr>mvo_OwnerReferences := refs\<rparr>) h = model_read W mv h"
  "build_name W (mv\<lparr>mvo_OwnerReferences := refs\<rparr>) h = build_name W mv h"
  "claim_bound W (mv\<lparr>mvo_OwnerReferences := refs\<rparr>) h cs pvc = claim_bound W mv h cs pvc"
  "claim_unbound W (mv\<lparr>mvo_OwnerReferences := refs\<rparr>) h cs = claim_unbound W mv h cs"
  "build_read W (mv\<lparr>mvo_OwnerReferences := refs\<rparr>) h cs = build_read W mv h cs"
  by (simp_all add: version_image_def version_id_def version_owner_def building_status_def createImgBuildPod_def
      finished_status_def version_claim_def model_read_def build_name_def claim_bound_def claim_unbound_def build_read_def
      split: option.splits)

lemma dockerfile_no_build: "createDockerfileIfNotExists W m mv h = (r, h') \<Longrightarrow> no_build h h'"
  by (auto simp: createDockerfileIfNotExists_def Let_def mv_write_def split: option.splits if_splits)

lemma start_build_effect:
  assumes "start_build W mv m pvc podName h = (r, h')"
  shows "\<exists>cs. h' = h @ cs \<and>
    (build_pods cs = [] \<and> version_updates cs = [] \<and> isl r \<or>
     build_pods cs = [createImgBuildPod (mw_builder W) mv pvc podName (version_image mv)] \<and>
       (map mvo_Status (version_updates cs) = [building_status mv] \<or> version_updates cs = [] \<and> isl r))"
proof (cases "createDockerfileIfNotExists W m mv h")
  case (Pair x h1)
  then obtain ds where "h1 = h @ ds" "version_updates ds = []" "build_pods ds = []"
    using dockerfile_no_build by (fastforce simp: no_build_def)
  with Pair assms show ?thesis
    by (auto simp: start_build_def Let_def guarded_def mv_write_def building_status_def split: option.splits)
qed

lemma finish_build_effect:
  assumes "finish_build W mv phase message h = (r, h')"
  shows "\<exists>mv'. h' = h @ [UpdateVersion mv'] \<and> mvo_Status mv' =
    (mvo_Status mv)\<lparr>mvs_ImageBuildPhase := phase, mvs_Message := message, mvs_FinishTime := Some (mw_now W h)\<rparr>"
  using assms by (auto simp: finish_build_def Let_def mv_write_def split: option.splits)

lemma build_image_step:
  assumes "build_image W mv (model_read W mv h) pvc (h @ cs) = (out, h')" "claim_bound W mv h cs pvc"
    and "\<not> build_finished (mvo_Status mv)"
  shows "\<exists>ds. h' = h @ ds \<and> build_step W mv h out ds"
proof (cases "length (mvo_UID mv) < 5")
  case True
  with assms have "h' = h @ cs" "snd out \<noteq> None" "version_updates cs = []" "build_pods cs = []"
    by (auto simp: build_image_def claim_bound_def)
  with assms(3) show ?thesis by (auto intro: build_step.failed)
next
  case False
  let ?c = "build_call W mv h" and ?h = "(h @ cs) @ [build_call W mv h]"
  have quiet: "version_updates cs = []" "build_pods cs = []" using assms(2) by (auto simp: claim_bound_def)
  note run = assms(1) [unfolded build_image_def Let_def, folded build_name_def, folded build_read_def]
  show ?thesis
  proof (cases "build_read W mv h cs")
    case (Inl e)
    show ?thesis
    proof (cases "IsNotFound e")
      case True
      obtain r where s: "start_build W mv (model_read W mv h) pvc (build_name W mv h) ?h = (r, h')"
        and out: "snd out = None \<longleftrightarrow> \<not> isl r"
        using run False Inl True by (auto split: prod.splits sum.splits)
      from start_build_effect [OF s] obtain ds where alt: "h' = ?h @ ds \<and> (
        build_pods ds = [] \<and> version_updates ds = [] \<and> isl r \<or>
         build_pods ds = [createImgBuildPod (mw_builder W) mv pvc (build_name W mv h) (version_image mv)] \<and>
           (map mvo_Status (version_updates ds) = [building_status mv] \<or> version_updates ds = [] \<and> isl r))"
        by (rule exE)
      then have ds: "h' = ?h @ ds" by (rule conjunct1)
      from alt [THEN conjunct2] consider "build_pods ds = []" "version_updates ds = []" "isl r"
        | "build_pods ds = [createImgBuildPod (mw_builder W) mv pvc (build_name W mv h) (version_image mv)]"
            "map mvo_Status (version_updates ds) = [building_status mv] \<or> version_updates ds = [] \<and> snd out \<noteq> None"
        using out by blast
      then show ?thesis
      proof cases
        case 1
        then have "build_step W mv h out (cs @ ?c # ds)"
          using assms(3) out quiet by (intro build_step.failed) simp_all
        with ds show ?thesis by auto
      next
        case 2
        from build_step.started [OF assms(3,2) Inl True this] ds show ?thesis by auto
      qed
    next
      case no: False
      with run False Inl have "h' = ?h" "snd out \<noteq> None" by auto
      moreover from this have "build_step W mv h out (cs @ [?c])" using assms(3) quiet by (intro build_step.failed) simp_all
      ultimately show ?thesis by auto
    qed
  next
    case (Inr p)
    have ended: ?thesis if "finish_build W mv (if ok then ImageBuildSucceeded else ImageBuildFailed)
        (if ok then ''Image build succeeded.'' else ''Image build failed.'') ?h = (out, h')"
      and "pod_Phase p = (if ok then PodSucceeded else PodFailed)" for ok
    proof -
      from finish_build_effect [OF that(1)] obtain mv' where mv': "h' = ?h @ [UpdateVersion mv']"
        and "mvo_Status mv' = finished_status mv ok (mw_now W (h @ cs @ [?c]))"
        by (auto simp: finished_status_def)
      from build_step.ended [OF assms(3,2) Inr that(2) this(2)] mv' show ?thesis by auto
    qed
    have running: ?thesis if "pod_Phase p \<notin> {PodSucceeded, PodFailed}" "(out, h') = ((\<lparr>Requeue = False, RequeueAfter = 3 * second\<rparr>, None), ?h)"
      using build_step.running [OF assms(3,2) Inr that(1)] that(2) by auto
    show ?thesis
    proof (cases "pod_Phase p = PodSucceeded \<or> pod_Phase p = PodFailed")
      case True
      with run False Inr ended [of True] ended [of False] show ?thesis by auto
    next
      case no: False
      then have "(out, h') = ((\<lparr>Requeue = False, RequeueAfter = 3 * second\<rparr>, None), ?h)"
        using run False Inr by (auto split: pod_phase.splits)
      with no running show ?thesis by auto
    qed
  qed
qed

lemma build_step_owner [simp]: "build_step W (mv\<lparr>mvo_OwnerReferences := refs\<rparr>) h out cs = build_step W mv h out cs"
  by (simp add: build_step.simps)

lemma model_read_prefix: "claim_bound W mv h cs pvc \<Longrightarrow> version_updates cs = [] \<and> build_pods cs = []"
  by (auto simp: claim_bound_def)

lemma reconcile_build_step:
  assumes "mw_version W h ns n = Inr mv" "ModelVersion_Reconcile W ns n h = (out, h')"
  shows "\<exists>cs. h' = h @ GetVersion ns n # cs \<and> build_step W mv (h @ [GetVersion ns n]) out cs"
proof (cases "build_finished (mvo_Status mv)")
  case True
  with assms show ?thesis by (auto simp: ModelVersion_Reconcile_def intro: build_step.over)
next
  case False
  let ?h = "h @ [GetVersion ns n]"
  have failed: ?thesis if "h' = ?h @ cs" "snd out \<noteq> None" "version_updates cs = []" "build_pods cs = []" for cs
    using that False by (auto intro: build_step.failed)
  obtain r h2 where m: "ensure_model W mv ?h = (r, h2)" by (cases "ensure_model W mv ?h")
  note model = ensure_model_effect [OF m]
  from model obtain a where a: "h2 = ?h @ a" "version_updates a = []" "build_pods a = []" by (auto simp: no_build_def)
  show ?thesis
  proof (cases r)
    case (Inl out')
    with assms m False have "(out, h') = (out', h2)" by (simp add: ModelVersion_Reconcile_def)
    with model Inl a failed [of a] show ?thesis by auto
  next
    case (Inr x)
    obtain mv1 m' where x: "x = (mv1, m')" by (cases x)
    with model Inr obtain refs where mv1: "mv1 = mv\<lparr>mvo_OwnerReferences := refs\<rparr>" and m': "m' = model_read W mv ?h" by auto
    show ?thesis
    proof (cases "mvo_Storage mv")
      case None
      with assms m False Inr x mv1 have "(out, h') = ((no_result, None), h2)" by (simp add: ModelVersion_Reconcile_def)
      then show ?thesis using build_step.no_storage [OF False None a(2,3)] a(1) by auto
    next
      case (Some s)
      obtain v h3 where v: "createPVAndPVCForModelVersion W mv1 s h2 = (v, h3)"
        by (cases "createPVAndPVCForModelVersion W mv1 s h2")
      have "mvo_Storage mv1 = Some s" using Some by (simp add: mv1)
      from volume_effect [OF v this, unfolded mv1 owner_irrelevant] obtain cs where cs: "h3 = h2 @ cs" "version_updates cs = []" "build_pods cs = []"
        and c: "\<And>pvc. v = Inr pvc \<Longrightarrow>
          if pvc_Phase pvc = ''Bound'' then claim_bound W mv h2 cs pvc else claim_unbound W mv h2 cs"
        by blast
      note run = assms m False Inr x Some v
      show ?thesis
      proof (cases v)
        case (Inl e)
        with run have "out = (no_result\<lparr>Requeue := True\<rparr>, Some e)" "h' = h3" by (auto simp: ModelVersion_Reconcile_def mv1)
        with failed [of "a @ cs"] a cs show ?thesis by simp
      next
        case (Inr pvc)
        show ?thesis
        proof (cases "pvc_Phase pvc = ''Bound''")
          case bound: True
          have "claim_bound W mv ?h (a @ cs) pvc" using c [OF Inr] bound claim_prefix(1) [OF a(2,3)] by (simp add: a(1))
          moreover have "build_image W mv1 (model_read W mv1 ?h) pvc (?h @ a @ cs) = (out, h')"
            using run Inr bound a(1) cs(1) m' by (simp add: ModelVersion_Reconcile_def mv1)
          ultimately obtain ds where "h' = ?h @ ds" "build_step W mv1 ?h out ds"
            using build_image_step [of W mv1 ?h pvc "a @ cs" out h'] False by (auto simp: mv1)
          then show ?thesis by (auto simp: mv1)
        next
          case unbound: False
          with run Inr have "out = (\<lparr>Requeue = True, RequeueAfter = second\<rparr>, None)" "h' = h3"
            by (auto simp: ModelVersion_Reconcile_def mv1)
          moreover have "claim_unbound W mv ?h (a @ cs)" using c [OF Inr] unbound claim_prefix(2) [OF a(2,3)] by (simp add: a(1))
          ultimately show ?thesis using build_step.unbound [OF False] a(1) cs(1) by auto
        qed
      qed
    qed
  qed
qed

subsection \<open>The life of a model version\<close>

text \<open>
  A server keeps a status unless an update of the version changes it, and then has the status of
  one of the updates.
\<close>

definition version_store :: "(mv_hist \<Rightarrow> ModelVersionStatus) \<Rightarrow> bool" where
  "version_store stored \<longleftrightarrow>
     (\<forall>h cs. stored (h @ cs) = stored h \<or> stored (h @ cs) \<in> set (map mvo_Status (version_updates cs)))"

inductive version_run :: "mv_world \<Rightarrow> string \<Rightarrow> string \<Rightarrow> mv_hist \<Rightarrow> mv_hist \<Rightarrow> bool" for W ns n h where
  start: "version_run W ns n h h"
| request: "version_run W ns n h h1 \<Longrightarrow> ModelVersion_Reconcile W ns n h1 = (out, h2) \<Longrightarrow> version_run W ns n h h2"

definition build_rank :: "ModelVersionStatus \<Rightarrow> nat" where
  "build_rank st = (if build_finished st then 2 else if mvs_ImageBuildPhase st = ImageBuilding then 1 else 0)"

definition version_evolves :: "ModelVersionStatus \<Rightarrow> ModelVersionStatus \<Rightarrow> bool" where
  "version_evolves st st' \<longleftrightarrow> st' = st \<or>
     \<not> build_finished st \<and> (mvs_ImageBuildPhase st' = ImageBuilding \<or> build_finished st' \<and> mvs_FinishTime st' \<noteq> None)"

lemma step_evolves:
  "build_step W mv h out cs \<Longrightarrow> st \<in> set (map mvo_Status (version_updates cs)) \<Longrightarrow>
    \<not> build_finished (mvo_Status mv) \<and> (mvs_ImageBuildPhase st = ImageBuilding \<or> build_finished st \<and> mvs_FinishTime st \<noteq> None)"
proof (induction rule: build_step.induct)
  case (started cs pvc e cs' out)
  then have "st \<in> set (map mvo_Status (version_updates cs'))" using model_read_prefix by simp
  with started(1,6) show ?case by (auto simp: building_status_def)
next
  case (ended cs pvc p ok mv' out)
  then show ?case using model_read_prefix by (simp add: finished_status_def build_finished_def)
qed (auto simp: claim_unbound_def dest: model_read_prefix)

lemma step_over: "build_step W mv h out cs \<Longrightarrow> build_finished (mvo_Status mv) \<Longrightarrow> cs = []"
  by (induction rule: build_step.induct) simp_all

lemma request_evolves:
  assumes "version_store stored" "\<forall>mv. mw_version W h ns n = Inr mv \<longrightarrow> mvo_Status mv = stored h"
    and "ModelVersion_Reconcile W ns n h = (out, h')"
  shows "version_evolves (stored h) (stored h') \<and> (build_finished (stored h) \<longrightarrow> h' = h @ [GetVersion ns n])"
    and "\<exists>cs. h' = h @ cs"
proof -
  have "(version_evolves (stored h) (stored h') \<and> (build_finished (stored h) \<longrightarrow> h' = h @ [GetVersion ns n])) \<and>
    (\<exists>cs. h' = h @ cs)"
  proof (cases "mw_version W h ns n")
    case (Inl e)
    with assms(3) have "h' = h @ [GetVersion ns n]" by (auto simp: ModelVersion_Reconcile_def)
    moreover have "stored (h @ [GetVersion ns n]) = stored h"
      using assms(1) [unfolded version_store_def, rule_format, of h "[GetVersion ns n]"] by simp
    ultimately show ?thesis by (simp add: version_evolves_def)
  next
    case (Inr mv)
    with assms(2) have st: "mvo_Status mv = stored h" by simp
    from reconcile_build_step [OF Inr assms(3)] obtain cs where cs: "h' = h @ GetVersion ns n # cs"
      "build_step W mv (h @ [GetVersion ns n]) out cs" by blast
    have over: "build_finished (stored h) \<Longrightarrow> cs = []" using step_over [OF cs(2)] st by simp
    have mem: "stored h' = stored h \<or> stored h' \<in> set (map mvo_Status (version_updates cs))"
      using assms(1) [unfolded version_store_def, rule_format, of h "GetVersion ns n # cs"] cs(1) by simp
    have "version_evolves (stored h) (stored h')"
    proof (cases "stored h' = stored h")
      case False
      with mem have "stored h' \<in> set (map mvo_Status (version_updates cs))" by blast
      from step_evolves [OF cs(2) this] st show ?thesis by (simp add: version_evolves_def)
    qed (simp add: version_evolves_def)
    with cs(1) over show ?thesis by blast
  qed
  then show "version_evolves (stored h) (stored h') \<and> (build_finished (stored h) \<longrightarrow> h' = h @ [GetVersion ns n])"
    "\<exists>cs. h' = h @ cs" by blast+
qed

lemma evolves_rank: "version_evolves st st' \<Longrightarrow> build_rank st \<le> build_rank st'"
  by (auto simp: version_evolves_def build_rank_def build_finished_def)

text \<open>
  C32. What a request does to the version it has read, from the calls that it makes: nothing if the build
  is finished or there is no storage; no write to the version and no pod if it fails before the pod or the
  claim of the version is not bound. When the claim is bound, it asks for the build pod of the model and
  the version: if there is none, it makes exactly one, on the claim of the version and for the image that
  the status then names, and without an error the status is updated; if the pod runs, it comes back
  later; if the pod has ended, it writes the result the pod shows and the finish time. The model is
  the one that the first read returned; a model that it creates itself counts as empty.
\<close>

theorem model_version_step:
  assumes "mw_version W h ns n = Inr mv" "ModelVersion_Reconcile W ns n h = (out, h')"
  shows "\<exists>cs. h' = h @ GetVersion ns n # cs \<and> build_step W mv (h @ [GetVersion ns n]) out cs"
  by (rule reconcile_build_step [OF assms])

text \<open>
  C31. The build of a model version moves forward only. Over any number of requests the stored phase never
  falls back from building to unset or from finished to building; a build that ends gets its finish time;
  and once it has ended the controller does nothing but read the version.
\<close>

theorem model_version_lifecycle:
  assumes "version_store stored" "\<forall>h mv. mw_version W h ns n = Inr mv \<longrightarrow> mvo_Status mv = stored h"
    and "version_run W ns n h h'"
  shows "build_rank (stored h) \<le> build_rank (stored h') \<and>
    (\<not> build_finished (stored h) \<and> build_finished (stored h') \<longrightarrow> mvs_FinishTime (stored h') \<noteq> None) \<and>
    (build_finished (stored h) \<longrightarrow> stored h' = stored h \<and> set (drop (length h) h') \<subseteq> {GetVersion ns n}) \<and>
    (\<exists>cs. h' = h @ cs)"
  using assms(3)
proof induction
  case (request h1 out h2)
  have st: "\<forall>mv. mw_version W h1 ns n = Inr mv \<longrightarrow> mvo_Status mv = stored h1" using assms(2) by blast
  note evolves = request_evolves [OF assms(1) st request(2)]
  from request.IH obtain cs where cs: "h1 = h @ cs" by blast
  have "mvs_FinishTime (stored h2) \<noteq> None" if "\<not> build_finished (stored h)" "build_finished (stored h2)"
    using that request.IH evolves(1) by (auto simp: version_evolves_def build_finished_def)
  moreover have "stored h2 = stored h \<and> set (drop (length h) h2) \<subseteq> {GetVersion ns n}" if "build_finished (stored h)"
  proof -
    from that request.IH have "stored h1 = stored h" "set cs \<subseteq> {GetVersion ns n}" by (auto simp: cs)
    with that evolves(1) show ?thesis by (auto simp: version_evolves_def cs)
  qed
  moreover have "build_rank (stored h) \<le> build_rank (stored h2)"
    using request.IH evolves_rank [OF evolves(1) [THEN conjunct1]] by simp
  moreover have "\<exists>cs. h2 = h @ cs" using evolves(2) cs by auto
  ultimately show ?case by blast
qed auto

subsection \<open>Witnesses\<close>

text \<open>A server with one version whose status is the last one it was sent, a bound claim and a build pod that has succeeded.\<close>

definition mv_start :: ModelVersionStatus where
  "mv_start = \<lparr>mvs_Image = ''hub:12345'', mvs_ImageBuildPhase = ImageBuilding, mvs_FinishTime = None, mvs_Message = []\<rparr>"

definition mv_stored :: "mv_hist \<Rightarrow> ModelVersionStatus" where
  "mv_stored h = last (mv_start # map mvo_Status (version_updates h))"

definition mv_object :: "ModelVersionStatus \<Rightarrow> ModelVersion" where
  "mv_object st = \<lparr>mvo_APIVersion = [], mvo_Kind = ''ModelVersion'', mvo_Name = ''mv'', mvo_Namespace = ''default'', mvo_UID = ''12345'',
     mvo_OwnerReferences = [], mvo_Labels = Map.empty, mvo_Annotations = Map.empty, mvo_ModelName = ''mnist'', mvo_CreatedBy = [],
     mvo_Storage = Some \<lparr>sto_NFS = None, sto_LocalStorage = Some \<lparr>ls_Path = ''/m'', ls_MountPath = ''/m'', ls_NodeName = ''n''\<rparr>,
       sto_AWSEfs = None\<rparr>,
     mvo_ImageRepo = ''hub'', mvo_ImageTag = [], mvo_Status = st\<rparr>"

definition mv_world0 :: "pod_phase \<Rightarrow> mv_world" where
  "mv_world0 phase = \<lparr>mw_version = (\<lambda>h ns n. Inr (mv_object (mv_stored h))),
     mw_model = (\<lambda>h ns n. Inr (empty_Model\<lparr>mo_Name := ''mnist'', mo_Namespace := ''default'', mo_UID := ''u''\<rparr>)),
     mw_pv = (\<lambda>h n. Inl NotFound), mw_claim = (\<lambda>h ns n. Inr (empty_claim\<lparr>pvc_Name := n, pvc_Phase := ''Bound''\<rparr>)),
     mw_pod = (\<lambda>h ns n. Inr ((createImgBuildPod [] (mv_object mv_start) empty_claim [] [])\<lparr>pod_Phase := phase\<rparr>)),
     mw_dockerfile = (\<lambda>h ns. None), mw_write = (\<lambda>h c. None), mw_now = (\<lambda>h. int (length h)), mw_builder = ''kaniko''\<rparr>"

lemma mv_stored_store: "version_store mv_stored"
proof -
  have "mv_stored (h @ cs) = mv_stored h \<or> mv_stored (h @ cs) \<in> set (map mvo_Status (version_updates cs))" for h cs
  proof (cases "version_updates cs = []")
    case False
    then have "last (map mvo_Status (version_updates cs)) \<in> set (map mvo_Status (version_updates cs))" by (intro last_in_set) simp
    moreover have "mv_stored (h @ cs) = last (map mvo_Status (version_updates cs))" using False by (simp add: mv_stored_def)
    ultimately show ?thesis by (intro disjI2) (simp only:)
  qed (simp add: mv_stored_def)
  then show ?thesis by (simp add: version_store_def)
qed

text \<open>The same server before the build pod is made: the request makes it, on the claim of the version.\<close>

definition mv_world1 :: mv_world where
  "mv_world1 = (mv_world0 PodFailed)\<lparr>mw_pod := (\<lambda>h ns n. Inl NotFound)\<rparr>"

theorem model_version_step_witness:
  "\<exists>cs p. snd (ModelVersion_Reconcile mv_world1 ''default'' ''mv'' []) = GetVersion ''default'' ''mv'' # cs \<and>
     build_pods cs = [p] \<and> pod_Name p = ''image-build-mnist-12345'' \<and>
     map fst (ps_Volumes (pod_Spec p)) = [''kaniko-secret'', ''build-source'', ''dockerfile''] \<and>
     map_of (ps_Volumes (pod_Spec p)) ''build-source'' = Some (PVCSource ''mv-pvc-mv-n'')"
proof -
  let ?mv = "mv_object (mv_stored [])" and ?h = "[GetVersion ''default'' ''mv'']"
  have r: "mw_version mv_world1 [] ''default'' ''mv'' = Inr ?mv" by (simp add: mv_world1_def mv_world0_def)
  have e: "snd (fst (ModelVersion_Reconcile mv_world1 ''default'' ''mv'' [])) = None" by code_simp
  from model_version_step [OF r prod.collapse [symmetric]] obtain cs where
    cs: "snd (ModelVersion_Reconcile mv_world1 ''default'' ''mv'' []) = GetVersion ''default'' ''mv'' # cs"
    and s: "build_step mv_world1 ?mv ?h (fst (ModelVersion_Reconcile mv_world1 ''default'' ''mv'' [])) cs" by auto
  have claim: "version_claim ?mv = ''mv-pvc-mv-n''" by code_simp
  have open_build: "\<not> build_finished (mvo_Status ?mv)" "mvo_Storage ?mv \<noteq> None" by code_simp+
  have no_pod: "build_read mv_world1 ?mv ?h ds = Inl NotFound" for ds
    by (simp add: build_read_def mv_world1_def)
  have name: "build_name mv_world1 ?mv ?h = ''image-build-mnist-12345''" by code_simp
  have bound: "\<not> claim_unbound mv_world1 ?mv ?h ds" for ds
    by (auto simp: claim_unbound_def mv_world1_def mv_world0_def)
  from s show ?thesis
  proof (cases rule: build_step.cases)
    case (started ds pvc f es)
    then have "pvc_Name pvc = ''mv-pvc-mv-n''" "build_pods ds = []"
      by (auto simp: claim_bound_def claim mv_world1_def mv_world0_def)
    then show ?thesis using cs started(1,6) name
      by (auto simp: createImgBuildPod_def)
  qed (use open_build e no_pod bound in auto)
qed

theorem model_version_lifecycle_witness:
  "1 \<le> build_rank (mv_stored (snd (ModelVersion_Reconcile (mv_world0 PodSucceeded) ''default'' ''mv''
     (snd (ModelVersion_Reconcile (mv_world0 PodSucceeded) ''default'' ''mv'' [])))))"
proof -
  let ?R = "ModelVersion_Reconcile (mv_world0 PodSucceeded) ''default'' ''mv''"
  have "version_run (mv_world0 PodSucceeded) ''default'' ''mv'' [] (snd (?R (snd (?R []))))"
    by (rule version_run.request [OF version_run.request [OF version_run.start]]) (rule prod.collapse [symmetric])+
  moreover have "\<forall>h mv. mw_version (mv_world0 PodSucceeded) h ''default'' ''mv'' = Inr mv \<longrightarrow> mvo_Status mv = mv_stored h"
    by (auto simp: mv_world0_def mv_object_def)
  ultimately have "build_rank (mv_stored []) \<le> build_rank (mv_stored (snd (?R (snd (?R [])))))"
    using model_version_lifecycle [OF mv_stored_store] by blast
  then show ?thesis by (simp add: mv_stored_def mv_start_def build_rank_def build_finished_def)
qed

end
