(* ===== verification/Inference.thy ===== *)
theory Inference
  imports Model_Version Code_Sync
begin

text \<open>
  The inference controller (\<open>controllers/serving\<close>, \<open>apis/serving/v1alpha1\<close>). An inference serves one model per
  predictor: a deployment with a service in front of it, and for several predictors a virtual service
  that distributes the traffic. The API server and \<open>SetControllerReference\<close> are fields of \<open>inf_world\<close>.
\<close>

subsection \<open>Objects\<close>

record PredictorSpec =
  pr_Name :: string
  pr_ModelVersion :: string
  pr_ModelPath :: "string option"
  pr_Replicas :: "int option"
  pr_TrafficWeight :: "int option"
  pr_Template :: pod_template

record PredictorStatus =
  pst_Name :: string
  pst_Replicas :: int
  pst_ReadyReplicas :: int
  pst_TrafficPercent :: "int option"
  pst_Endpoint :: string

datatype FrameworkType = FrameworkTFServing | FrameworkTriton | FrameworkOther string

record Inference =
  inf_Name :: string
  inf_Namespace :: string
  inf_Framework :: FrameworkType
  inf_Predictors :: "PredictorSpec list"
  inf_InferenceEndpoint :: string
  inf_PredictorStatuses :: "PredictorStatus list"

record named_port =
  np_Name :: string
  np_Protocol :: string
  np_Port :: int
  np_TargetPort :: int
  np_NodePort :: int

record entry_service =
  es_Name :: string
  es_Namespace :: string
  es_Labels :: "(string \<times> string) list"
  es_OwnerReferences :: "owner_ref list"
  es_Selector :: "(string \<times> string) list"
  es_Type :: string
  es_Ports :: "named_port list"

record deployment =
  dp_Name :: string
  dp_Namespace :: string
  dp_Labels :: "(string \<times> string) list"
  dp_OwnerReferences :: "owner_ref list"
  dp_Replicas :: "int option"
  dp_Selector :: "(string \<times> string) list"
  dp_Template :: pod_template
  dp_Strategy :: string
  dp_StatusReplicas :: int
  dp_StatusReadyReplicas :: int

text \<open>A route has a name and destinations, each a host and a weight.\<close>

record virtual_service =
  vs_Name :: string
  vs_Namespace :: string
  vs_Hosts :: "string list"
  vs_Gateways :: "string list"
  vs_Http :: "(string \<times> (string \<times> int) list) list"

datatype inf_call =
    GetInference string string
  | GetEntry string string
  | CreateEntry entry_service
  | UpdateEntry entry_service
  | GetModelVersionOf string string
  | GetDeploy string string
  | CreateDeploy deployment
  | GetVirtual string string
  | CreateVirtual virtual_service
  | UpdateVirtual virtual_service
  | UpdateInferenceStatus Inference
  | InferenceEvent string

type_synonym inf_hist = "inf_call list"
type_synonym 'a inf_res = "(go_error + 'a) \<times> inf_hist"

record inf_world =
  iw_inference :: "inf_hist \<Rightarrow> string \<Rightarrow> string \<Rightarrow> go_error + Inference"
  iw_service :: "inf_hist \<Rightarrow> string \<Rightarrow> string \<Rightarrow> go_error + entry_service"
  iw_version :: "inf_hist \<Rightarrow> string \<Rightarrow> string \<Rightarrow> go_error + ModelVersion"
  iw_deploy :: "inf_hist \<Rightarrow> string \<Rightarrow> string \<Rightarrow> go_error + deployment"
  iw_virtual :: "inf_hist \<Rightarrow> string \<Rightarrow> string \<Rightarrow> go_error + virtual_service"
  iw_create_deploy :: "inf_hist \<Rightarrow> deployment \<Rightarrow> go_error + deployment"
  iw_write :: "inf_hist \<Rightarrow> inf_call \<Rightarrow> go_error option"
  iw_set_owner :: "Inference \<Rightarrow> owner_ref list \<Rightarrow> go_error + owner_ref list"

definition inf_write :: "inf_world \<Rightarrow> inf_call \<Rightarrow> inf_hist \<Rightarrow> go_error option \<times> inf_hist" where
  "inf_write W c h = (iw_write W h c, h @ [c])"

subsection \<open>Defaults\<close>

definition DefaultPredictorContainerName :: string where "DefaultPredictorContainerName = ''predictor''"
definition DefaultPredictorContainerHttpPortName :: string where
  "DefaultPredictorContainerHttpPortName = ''predictor-http-port''"
definition DefaultPredictorContainerGrpcPortName :: string where
  "DefaultPredictorContainerGrpcPortName = ''predictor-grpc-port''"
definition DefaultPredictorContainerHttpPort :: int where "DefaultPredictorContainerHttpPort = 8080"
definition DefaultPredictorContainerGrpcPort :: int where "DefaultPredictorContainerGrpcPort = 9000"

fun predictor_index :: "container list \<Rightarrow> nat \<Rightarrow> nat" where
  "predictor_index [] i = 0"
| "predictor_index (c # cs) i = (if ct_Name c = DefaultPredictorContainerName then i else predictor_index cs (i + 1))"

definition setDefaults_predictor :: "PredictorSpec \<Rightarrow> go_error + PredictorSpec" where
  "setDefaults_predictor p =
     (let p1 = (if pr_Replicas p = None then p\<lparr>pr_Replicas := Some 1\<rparr> else p);
          cs = ps_Containers (pt_Spec (pr_Template p1)); i = predictor_index cs 0 in
      if i \<ge> length cs then Inl (Panic ''index out of range'')
      else if list_ex (\<lambda>q. cp_Name q = DefaultPredictorContainerHttpPortName) (ct_Ports (cs ! i)) then Inr p1
      else let c = (cs ! i)\<lparr>ct_Ports := ct_Ports (cs ! i) @
                     [\<lparr>cp_Name = DefaultPredictorContainerHttpPortName, cp_HostPort = 0,
                       cp_ContainerPort = DefaultPredictorContainerHttpPort\<rparr>]\<rparr> in
           Inr (p1\<lparr>pr_Template := (pr_Template p1)\<lparr>pt_Spec := (pt_Spec (pr_Template p1))\<lparr>ps_Containers := cs[i := c]\<rparr>\<rparr>\<rparr>))"

fun default_predictors :: "PredictorSpec list \<Rightarrow> go_error + PredictorSpec list" where
  "default_predictors [] = Inr []"
| "default_predictors (p # ps) =
     (case setDefaults_predictor p of
        Inl e \<Rightarrow> Inl e
      | Inr q \<Rightarrow> map_sum id (Cons q) (default_predictors ps))"

definition SetDefaults_Inference :: "Inference \<Rightarrow> go_error + Inference" where
  "SetDefaults_Inference obj = map_sum id (\<lambda>ps. obj\<lparr>inf_Predictors := ps\<rparr>) (default_predictors (inf_Predictors obj))"

subsection \<open>Names and labels\<close>

definition genPredictorName :: "Inference \<Rightarrow> PredictorSpec \<Rightarrow> string" where
  "genPredictorName obj p = inf_Name obj @ ''-'' @ pr_Name p"

definition svcHostForInference :: "Inference \<Rightarrow> string" where
  "svcHostForInference obj = inf_Name obj @ ''.'' @ inf_Namespace obj"

definition svcHostForPredictor :: "Inference \<Rightarrow> PredictorSpec \<Rightarrow> string" where
  "svcHostForPredictor obj p = genPredictorName obj p @ ''.'' @ inf_Namespace obj @ ''.svc''"

definition LabelInferenceName :: string where "LabelInferenceName = KubeDLPrefix @ ''/inference-name''"
definition LabelPredictorName :: string where "LabelPredictorName = KubeDLPrefix @ ''/predictor-name''"
definition LabelModelVersion :: string where "LabelModelVersion = KubeDLPrefix @ ''/model-version''"

definition predictor_labels :: "Inference \<Rightarrow> PredictorSpec \<Rightarrow> (string \<times> string) list" where
  "predictor_labels obj p =
     [(LabelInferenceName, inf_Name obj), (LabelPredictorName, pr_Name p), (LabelModelVersion, pr_ModelVersion p)]"

text \<open>\<open>insertLabelsForPredictor\<close> on the labels of a template; on nil it makes \<open>predictor_labels\<close>.\<close>

definition insertLabelsForPredictor :: "smap \<Rightarrow> Inference \<Rightarrow> PredictorSpec \<Rightarrow> smap" where
  "insertLabelsForPredictor labels obj p =
     labels(LabelInferenceName \<mapsto> inf_Name obj, LabelPredictorName \<mapsto> pr_Name p, LabelModelVersion \<mapsto> pr_ModelVersion p)"

subsection \<open>The template of a predictor\<close>

definition DefaultModelPathInImage :: string where "DefaultModelPathInImage = ''/kubedl-model''"

definition buildModelLoaderInitContainer :: "ModelVersion \<Rightarrow> string \<Rightarrow> string \<Rightarrow> container" where
  "buildModelLoaderInitContainer mv sharedVolumeName destModelPath =
     \<lparr>ct_Name = ''kubedl-model-loader'', ct_Ports = [], ct_Env = [],
      ct_VolumeMounts = [\<lparr>vm_Name = sharedVolumeName, vm_MountPath = destModelPath, vm_SubPath = []\<rparr>],
      ct_Requests = [], ct_Limits = [], ct_Image = mvs_Image (mvo_Status mv),
      ct_Command = [''/bin/sh'', ''-c'', ''cp -r '' @ DefaultModelPathInImage @ ''/* '' @ destModelPath], ct_Args = [],
      ct_WorkingDir = [], ct_ImagePullPolicy = [], ct_TerminationMessagePolicy = []\<rparr>"

definition model_mount_path :: "ModelVersion option \<Rightarrow> PredictorSpec \<Rightarrow> string" where
  "model_mount_path version p =
     (case version of
        None \<Rightarrow> []
      | Some mv \<Rightarrow>
          (case pr_ModelPath p of
             Some path \<Rightarrow> if path \<noteq> [] then path else DefaultModelPathInImage @ ''/'' @ mvo_Name mv
           | None \<Rightarrow> DefaultModelPathInImage @ ''/'' @ mvo_Name mv))"

definition load_model :: "ModelVersion option \<Rightarrow> PredictorSpec \<Rightarrow> pod_template" where
  "load_model version p =
     (case version of
        None \<Rightarrow> pr_Template p
      | Some mv \<Rightarrow>
          (let path = model_mount_path version p; t = add_volume ''kubedl-model-loader'' (EmptyDirSource False None) (pr_Template p);
               t1 = t\<lparr>pt_Spec := (pt_Spec t)\<lparr>ps_InitContainers := ps_InitContainers (pt_Spec t) @
                      [buildModelLoaderInitContainer mv ''kubedl-model-loader'' ''/mnt/kubedl-model/'']\<rparr>\<rparr> in
           map_containers (\<lambda>c. append_env [(KubeDLModelPath, EnvValue path)] (add_mount ''kubedl-model-loader'' path c)) t1))"

text \<open>\<open>filepath.Dir\<close>: the path up to its last slash, cleaned.\<close>

definition filepath_Dir :: "string \<Rightarrow> string" where
  "filepath_Dir path = path_Clean (rev (dropWhile (\<lambda>c. c \<noteq> CHR ''/'') (rev path)))"

definition tfServingSetter :: "ModelVersion option \<Rightarrow> string \<Rightarrow> pod_template \<Rightarrow> pod_template" where
  "tfServingSetter version modelPath t =
     map_containers (\<lambda>c.
       (let c1 = append_env [(''MODEL_BASE_PATH'', EnvValue (filepath_Dir modelPath)), (KubeDLModelPath, EnvValue modelPath)] c in
        case version of None \<Rightarrow> c1 | Some mv \<Rightarrow> append_env [(''MODEL_NAME'', EnvValue (mvo_ModelName mv))] c1)) t"

definition Setters :: "FrameworkType \<Rightarrow> (ModelVersion option \<Rightarrow> string \<Rightarrow> pod_template \<Rightarrow> pod_template) option" where
  "Setters fw = (case fw of FrameworkTFServing \<Rightarrow> Some tfServingSetter | _ \<Rightarrow> None)"

definition predictor_template :: "Inference \<Rightarrow> ModelVersion option \<Rightarrow> PredictorSpec \<Rightarrow> pod_template" where
  "predictor_template obj version p =
     (case Setters (inf_Framework obj) of
        None \<Rightarrow> load_model version p
      | Some set_spec \<Rightarrow> set_spec version (model_mount_path version p) (load_model version p))"

subsection \<open>Service and deployment of a predictor\<close>

fun find_port :: "container_port list \<Rightarrow> string \<Rightarrow> int option" where
  "find_port [] name = None"
| "find_port (q # qs) name = (if cp_Name q = name then Some (cp_ContainerPort q) else find_port qs name)"

fun getContainerPort :: "container list \<Rightarrow> string \<Rightarrow> int \<Rightarrow> int" where
  "getContainerPort [] portName defaultVal = defaultVal"
| "getContainerPort (c # cs) portName defaultVal =
     (case find_port (ct_Ports c) portName of Some q \<Rightarrow> q | None \<Rightarrow> getContainerPort cs portName defaultVal)"

definition tcp_port :: "string \<Rightarrow> int \<Rightarrow> int \<Rightarrow> named_port" where
  "tcp_port name port target = \<lparr>np_Name = name, np_Protocol = ''TCP'', np_Port = port, np_TargetPort = target, np_NodePort = 0\<rparr>"

definition createServiceForPredictor :: "inf_world \<Rightarrow> Inference \<Rightarrow> PredictorSpec \<Rightarrow> inf_hist \<Rightarrow> go_error option \<times> inf_hist" where
  "createServiceForPredictor W obj p h =
     (let name = genPredictorName obj p; h1 = h @ [GetEntry (inf_Namespace obj) name] in
      case iw_service W h (inf_Namespace obj) name of
        Inr svc \<Rightarrow> (None, h1)
      | Inl e \<Rightarrow>
          (if \<not> IsNotFound e then (Some e, h1)
           else let cs = ps_Containers (pt_Spec (pr_Template p));
                    httpPort = getContainerPort cs DefaultPredictorContainerHttpPortName DefaultPredictorContainerHttpPort;
                    grpcPort = getContainerPort cs DefaultPredictorContainerGrpcPortName DefaultPredictorContainerGrpcPort in
                case iw_set_owner W obj [] of
                  Inl e' \<Rightarrow> (Some e', h1)
                | Inr owners \<Rightarrow>
                    inf_write W (CreateEntry
                      \<lparr>es_Name = name, es_Namespace = inf_Namespace obj, es_Labels = [], es_OwnerReferences = owners,
                       es_Selector = predictor_labels obj p, es_Type = ''ClusterIP'',
                       es_Ports = [tcp_port ''http'' DefaultPredictorContainerHttpPort httpPort,
                                   tcp_port ''grpc'' DefaultPredictorContainerGrpcPort grpcPort]\<rparr>) h1))"

text \<open>
  The template of the predictor is changed in place; the result carries it. The server answers with the
  deployment as it has it; the event that reports the deployment dereferences its number of replicas.
\<close>

definition createNewPredictorDeploy ::
    "inf_world \<Rightarrow> Inference \<Rightarrow> ModelVersion option \<Rightarrow> PredictorSpec \<Rightarrow> inf_hist \<Rightarrow> (deployment \<times> PredictorSpec) inf_res" where
  "createNewPredictorDeploy W obj version p h =
     (case iw_set_owner W obj [] of
        Inl e \<Rightarrow> (Inl e, h)
      | Inr owners \<Rightarrow>
          (let p1 = p\<lparr>pr_Template := predictor_template obj version p\<rparr>;
               deploy = \<lparr>dp_Name = genPredictorName obj p, dp_Namespace = inf_Namespace obj, dp_Labels = predictor_labels obj p,
                         dp_OwnerReferences = owners, dp_Replicas = pr_Replicas p, dp_Selector = predictor_labels obj p,
                         dp_Template = (pr_Template p1)\<lparr>pt_Labels := insertLabelsForPredictor (pt_Labels (pr_Template p1)) obj p\<rparr>,
                         dp_Strategy = ''RollingUpdate'', dp_StatusReplicas = 0, dp_StatusReadyReplicas = 0\<rparr> in
           guarded (createServiceForPredictor W obj p1 h) (\<lambda>h1.
           andThen (iw_create_deploy W h1 deploy, h1 @ [CreateDeploy deploy]) (\<lambda>created h2.
             (case dp_Replicas created of
                None \<Rightarrow> (Inl nil_deref, h2)
              | Some n \<Rightarrow> (Inr (created, p1), h2 @ [InferenceEvent ''PredictorDeploymentCreated'']))))))"

subsection \<open>Predictors\<close>

text \<open>The entry of a predictor in the status: appended, or updated at its index, which may be out of range.\<close>

definition set_predictor_status :: "nat \<Rightarrow> PredictorStatus \<Rightarrow> PredictorStatus list \<Rightarrow> go_error + PredictorStatus list" where
  "set_predictor_status i ps statuses =
     (if length statuses = 0 \<or> length statuses < i then Inr (take (i + 1) (statuses @ [ps]))
      else if i < length statuses
      then Inr (take (i + 1) (statuses[i := ps\<lparr>pst_TrafficPercent := pst_TrafficPercent (statuses ! i)\<rparr>]))
      else Inl (Panic ''index out of range''))"

text \<open>The version of a predictor: none is named, it is not built yet, or it is ready.\<close>

definition predictor_version :: "inf_world \<Rightarrow> Inference \<Rightarrow> PredictorSpec \<Rightarrow> inf_hist \<Rightarrow> ModelVersion option option inf_res" where
  "predictor_version W obj p h =
     (if pr_ModelVersion p = [] then (Inr (Some None), h)
      else let h1 = h @ [GetModelVersionOf (inf_Namespace obj) (pr_ModelVersion p)] in
           case iw_version W h (inf_Namespace obj) (pr_ModelVersion p) of
             Inl e \<Rightarrow> (Inl e, h1)
           | Inr mv \<Rightarrow>
               (if mvs_ImageBuildPhase (mvo_Status mv) \<noteq> ImageBuildSucceeded then (Inr None, h1)
                else (Inr (Some (if mvo_Name mv = [] then None else Some mv)), h1)))"

definition ensure_deploy ::
    "inf_world \<Rightarrow> Inference \<Rightarrow> ModelVersion option \<Rightarrow> PredictorSpec \<Rightarrow> inf_hist \<Rightarrow> (deployment \<times> PredictorSpec) inf_res" where
  "ensure_deploy W obj version p h =
     (let name = genPredictorName obj p; h1 = h @ [GetDeploy (inf_Namespace obj) name] in
      case iw_deploy W h (inf_Namespace obj) name of
        Inr d \<Rightarrow> (Inr (d, p), h1)
      | Inl e \<Rightarrow> (if IsNotFound e then createNewPredictorDeploy W obj version p h1 else (Inl e, h1)))"

text \<open>\<open>Requeue\<close> of the result is set for a predictor whose model is not built.\<close>

definition syncPredictor :: "inf_world \<Rightarrow> Inference \<Rightarrow> nat \<Rightarrow> PredictorSpec \<Rightarrow> inf_hist \<Rightarrow> (Result \<times> Inference) inf_res" where
  "syncPredictor W obj i p h =
     andThen (predictor_version W obj p h) (\<lambda>v h1.
       (case v of
          None \<Rightarrow> (Inr (no_result\<lparr>Requeue := True\<rparr>, obj), h1)
        | Some version \<Rightarrow>
            andThen (ensure_deploy W obj version p h1) (\<lambda>(d, p1) h2.
              (case set_predictor_status i
                      \<lparr>pst_Name = pr_Name p, pst_Replicas = dp_StatusReplicas d, pst_ReadyReplicas = dp_StatusReadyReplicas d,
                       pst_TrafficPercent = None, pst_Endpoint = svcHostForPredictor obj p\<rparr> (inf_PredictorStatuses obj) of
                 Inl e \<Rightarrow> (Inl e, h2)
               | Inr statuses \<Rightarrow>
                   (Inr (no_result, obj\<lparr>inf_Predictors := (inf_Predictors obj)[i := p1], inf_PredictorStatuses := statuses\<rparr>), h2)))))"

text \<open>The loop over the predictors keeps only the errors of \<open>syncPredictor\<close>; its result is dropped.\<close>

fun sync_predictors :: "inf_world \<Rightarrow> Inference \<Rightarrow> nat \<Rightarrow> PredictorSpec list \<Rightarrow> inf_hist \<Rightarrow> Inference inf_res" where
  "sync_predictors W obj i [] h = (Inr obj, h)"
| "sync_predictors W obj i (p # ps) h =
     andThen (syncPredictor W obj i p h) (\<lambda>(result, obj1). sync_predictors W obj1 (i + 1) ps)"

subsection \<open>Traffic\<close>

fun weigh :: "PredictorSpec list \<Rightarrow> int \<Rightarrow> (string \<times> int) list \<Rightarrow> int \<times> (string \<times> int) list" where
  "weigh [] acc ratios = (acc, ratios)"
| "weigh (p # ps) acc ratios =
     (let percentage = (case pr_TrafficWeight p of Some w \<Rightarrow> w | None \<Rightarrow> 100) in
      weigh ps (i32 (acc + percentage)) (AList.update (pr_Name p) percentage ratios))"

definition computePredictorTrafficRatios :: "PredictorSpec list \<Rightarrow> go_error + (string \<times> int) list" where
  "computePredictorTrafficRatios ps =
     (let (acc, ratios) = weigh ps 0 [] in
      if ratios \<noteq> [] \<and> acc = 0 then Inl (Panic ''integer divide by zero'')
      else Inr (map (\<lambda>(name, percent). (name, i32 (go_div (i32 (percent * 100)) acc))) ratios))"

definition ratio_of :: "(string \<times> int) list \<Rightarrow> string \<Rightarrow> int" where
  "ratio_of ratios name = (case map_of ratios name of Some r \<Rightarrow> r | None \<Rightarrow> 0)"

definition defaultIstioGatewayName :: string where "defaultIstioGatewayName = ''kubedl-serving-gateway''"

definition inference_routes :: "Inference \<Rightarrow> (string \<times> int) list \<Rightarrow> virtual_service" where
  "inference_routes obj ratios =
     \<lparr>vs_Name = inf_Name obj, vs_Namespace = inf_Namespace obj, vs_Hosts = [inf_Name obj @ ''.*''],
      vs_Gateways = [defaultIstioGatewayName],
      vs_Http = map (\<lambda>p. (pr_Name p, [(svcHostForPredictor obj p, ratio_of ratios (pr_Name p))])) (inf_Predictors obj)\<rparr>"

definition syncTrafficDistribution :: "inf_world \<Rightarrow> Inference \<Rightarrow> inf_hist \<Rightarrow> Inference inf_res" where
  "syncTrafficDistribution W obj h =
     (let h1 = h @ [GetVirtual (inf_Namespace obj) (inf_Name obj)]; found = iw_virtual W h (inf_Namespace obj) (inf_Name obj) in
      case found of
        Inl e \<Rightarrow>
          (if \<not> IsNotFound e then (Inl e, h1)
           else andThen (computePredictorTrafficRatios (inf_Predictors obj), h1) (\<lambda>ratios h1.
                  guarded (inf_write W (CreateVirtual (inference_routes obj ratios)) h1) (\<lambda>h2. (Inr obj, h2))))
      | Inr old \<Rightarrow>
          andThen (computePredictorTrafficRatios (inf_Predictors obj), h1) (\<lambda>ratios h1.
            (let new = inference_routes obj ratios in
             if vs_Hosts old \<noteq> vs_Hosts new \<or> vs_Gateways old \<noteq> vs_Gateways new \<or> vs_Http old \<noteq> vs_Http new
             then guarded (inf_write W (UpdateVirtual (old\<lparr>vs_Hosts := vs_Hosts new, vs_Gateways := vs_Gateways new, vs_Http := vs_Http new\<rparr>)) h1)
                    (\<lambda>h2. (Inr obj, h2))
             else (Inr (obj\<lparr>inf_PredictorStatuses :=
                          map (\<lambda>ps. ps\<lparr>pst_TrafficPercent := Some (ratio_of ratios (pst_Name ps))\<rparr>) (inf_PredictorStatuses obj)\<rparr>), h1))))"

subsection \<open>The entry service\<close>

definition inference_entry :: "Inference \<Rightarrow> entry_service" where
  "inference_entry obj =
     (let sel = [(LabelInferenceName, inf_Name obj)] in
      \<lparr>es_Name = inf_Name obj, es_Namespace = inf_Namespace obj, es_Labels = sel, es_OwnerReferences = [], es_Selector = sel,
       es_Type = ''ClusterIP'',
       es_Ports = [tcp_port ''http'' DefaultPredictorContainerHttpPort DefaultPredictorContainerHttpPort,
                   tcp_port ''grpc'' DefaultPredictorContainerGrpcPort DefaultPredictorContainerGrpcPort]\<rparr>)"

definition syncServiceForInference :: "inf_world \<Rightarrow> Inference \<Rightarrow> inf_hist \<Rightarrow> Inference inf_res" where
  "syncServiceForInference W obj h =
     (let h1 = h @ [GetEntry (inf_Namespace obj) (inf_Name obj)]; svc = inference_entry obj in
      case iw_service W h (inf_Namespace obj) (inf_Name obj) of
        Inl e \<Rightarrow>
          (if IsNotFound e then guarded (inf_write W (CreateEntry svc) h1) (\<lambda>h2. (Inr obj, h2)) else (Inl e, h1))
      | Inr old \<Rightarrow>
          (if \<not> (same_map (es_Selector svc) (es_Selector old) \<and> es_Type svc = es_Type old \<and> es_Ports svc = es_Ports old)
           then guarded (inf_write W (UpdateEntry (old\<lparr>es_Selector := es_Selector svc, es_Type := es_Type svc, es_Ports := es_Ports svc\<rparr>)) h1)
                  (\<lambda>h2. (Inr obj, h2))
           else (Inr (obj\<lparr>inf_InferenceEndpoint := svcHostForInference obj\<rparr>), h1)))"

subsection \<open>Reconciliation\<close>

text \<open>
  \<open>Inl\<close> is an error and \<open>Inr\<close> whether the request is to be repeated. The results of \<open>syncPredictor\<close>
  that come with an error are empty.
\<close>

definition Inference_Reconcile :: "inf_world \<Rightarrow> string \<Rightarrow> string \<Rightarrow> inf_hist \<Rightarrow> bool inf_res" where
  "Inference_Reconcile W ns n h =
     (let h1 = h @ [GetInference ns n] in
      case iw_inference W h ns n of
        Inl e \<Rightarrow> (if IsNotFound e then (Inr False, h1) else (Inl e, h1))
      | Inr obj \<Rightarrow>
          andThen (syncServiceForInference W obj h1) (\<lambda>obj1 h2.
          andThen (sync_predictors W obj1 0 (inf_Predictors obj1) h2) (\<lambda>obj2 h3.
          andThen (if length (inf_Predictors obj2) > 1 then syncTrafficDistribution W obj2 h3 else (Inr obj2, h3)) (\<lambda>obj3 h4.
            (if inf_InferenceEndpoint obj = inf_InferenceEndpoint obj3 \<and> inf_PredictorStatuses obj = inf_PredictorStatuses obj3
             then (Inr False, h4)
             else case inf_write W (UpdateInferenceStatus obj3) h4 of
                    (None, h5) \<Rightarrow> (Inr False, h5)
                  | (Some e, h5) \<Rightarrow> (if e = Conflict then (Inr True, h5) else (Inl e, h5)))))))"

subsection \<open>Ratios\<close>

definition weight :: "PredictorSpec \<Rightarrow> int" where
  "weight p = (case pr_TrafficWeight p of Some w \<Rightarrow> w | None \<Rightarrow> 100)"

definition weight_sum :: "PredictorSpec list \<Rightarrow> int" where
  "weight_sum ps = sum_list (map weight ps)"

lemma update_new: "k \<notin> set (map fst xs) \<Longrightarrow> AList.update k v xs = xs @ [(k, v)]"
  by (induction xs) auto

lemma weigh_eq:
  assumes "distinct (map pr_Name ps)" "set (map fst acc) \<inter> set (map pr_Name ps) = {}" "list_all (\<lambda>p. weight p > 0) ps"
    and "0 \<le> s" "s + weight_sum ps < 2 ^ 31"
  shows "weigh ps s acc = (s + weight_sum ps, acc @ map (\<lambda>p. (pr_Name p, weight p)) ps)"
  using assms
proof (induction ps arbitrary: s acc)
  case (Cons p ps)
  have "0 \<le> weight_sum ps"
    using Cons.prems(3) unfolding weight_sum_def by (intro sum_list_nonneg) (auto simp: list_all_iff)
  with Cons.prems have i: "i32 (s + weight p) = s + weight p"
    by (intro i32_id) (auto simp: weight_sum_def in32_def)
  have "weigh (p # ps) s acc = weigh ps (s + weight p) (acc @ [(pr_Name p, weight p)])"
    using Cons.prems(2) i update_new [of "pr_Name p" acc "weight p"] by (simp add: weight_def Let_def)
  also have "\<dots> = (s + weight p + weight_sum ps, (acc @ [(pr_Name p, weight p)]) @ map (\<lambda>p. (pr_Name p, weight p)) ps)"
    using Cons.prems by (intro Cons.IH) (auto simp: weight_sum_def)
  finally show ?case by (simp add: weight_sum_def)
qed (simp add: weight_sum_def)

lemma sum_of_floors:
  fixes ws :: "int list"
  assumes "T > 0" "list_all (\<lambda>w. w \<ge> 0) ws"
  shows "T * sum_list (map (\<lambda>w. w * 100 div T) ws) \<le> 100 * sum_list ws"
    and "T * sum_list (map (\<lambda>w. w * 100 div T) ws) \<ge> 100 * sum_list ws - int (length ws) * (T - 1)"
proof -
  have floor: "T * (w * 100 div T) \<le> 100 * w" "T * (w * 100 div T) \<ge> 100 * w - (T - 1)" for w
  proof -
    have "w * 100 = T * (w * 100 div T) + w * 100 mod T" by simp
    moreover have "0 \<le> w * 100 mod T" "w * 100 mod T < T" using assms(1) by simp_all
    ultimately show "T * (w * 100 div T) \<le> 100 * w" "T * (w * 100 div T) \<ge> 100 * w - (T - 1)" by linarith+
  qed
  show "T * sum_list (map (\<lambda>w. w * 100 div T) ws) \<le> 100 * sum_list ws"
    by (induction ws) (use floor(1) in \<open>auto simp: distrib_left intro: add_mono\<close>)
  show "T * sum_list (map (\<lambda>w. w * 100 div T) ws) \<ge> 100 * sum_list ws - int (length ws) * (T - 1)"
  proof (induction ws)
    case (Cons w ws)
    then show ?case using floor(2) [of w] by (simp add: algebra_simps)
  qed simp
qed

text \<open>
  C33. Traffic is distributed by weight. For predictors with distinct names and positive weights (100 by default) whose
  sum is small enough for the arithmetic of \<open>int32\<close>, every predictor gets its share in percent rounded down; the shares
  add up to at most 100 and miss it by less than the number of predictors.
\<close>

theorem traffic_ratios:
  assumes "ps \<noteq> []" "distinct (map pr_Name ps)" "list_all (\<lambda>p. weight p > 0) ps" "weight_sum ps * 100 < 2 ^ 31"
  shows "computePredictorTrafficRatios ps = Inr (map (\<lambda>p. (pr_Name p, weight p * 100 div weight_sum ps)) ps) \<and>
    sum_list (map (\<lambda>p. weight p * 100 div weight_sum ps) ps) \<in> {100 - int (length ps) <.. 100}"
proof -
  let ?T = "weight_sum ps"
  have le: "weight p \<le> ?T" if "p \<in> set ps" for p
  proof -
    have "weight p \<le> sum_list (map weight ps)"
      using that assms(3) by (intro member_le_sum_list) (auto simp: list_all_iff)
    then show ?thesis by (simp add: weight_sum_def)
  qed
  obtain p where "p \<in> set ps" using assms(1) by (cases ps) auto
  with assms(3) le [of p] have T: "?T > 0" by (auto simp: list_all_iff)
  have w: "weigh ps 0 [] = (?T, map (\<lambda>p. (pr_Name p, weight p)) ps)"
    using weigh_eq [of ps "[]" 0] assms T by simp
  have "i32 (go_div (i32 (weight p * 100)) ?T) = weight p * 100 div ?T" if "p \<in> set ps" for p
  proof -
    from that assms(3) have pos: "weight p > 0" by (simp add: list_all_iff)
    with le [OF that] assms(4) have "i32 (weight p * 100) = weight p * 100"
      by (intro i32_id) (auto simp: in32_def)
    moreover from T pos have "weight p * 100 div ?T \<le> weight p * 100"
      using zdiv_mono2 [of "weight p * 100" 1 ?T] by simp
    moreover have "0 \<le> weight p * 100 div ?T" using T pos by (simp add: pos_imp_zdiv_nonneg_iff)
    ultimately show ?thesis
      using pos T le [OF that] assms(4) by (simp add: go_div_nonneg i32_id in32_def)
  qed
  with w T assms(1) have "computePredictorTrafficRatios ps = Inr (map (\<lambda>p. (pr_Name p, weight p * 100 div ?T)) ps)"
    by (auto simp: computePredictorTrafficRatios_def)
  moreover have "sum_list (map (\<lambda>p. weight p * 100 div ?T) ps) \<in> {100 - int (length ps) <.. 100}"
  proof -
    let ?S = "sum_list (map (\<lambda>p. weight p * 100 div ?T) ps)"
    have ws: "list_all (\<lambda>w. w \<ge> 0) (map weight ps)" using assms(3) by (auto simp: list_all_iff)
    from sum_of_floors [OF T ws] have b: "?T * ?S \<le> 100 * ?T" "?T * ?S \<ge> 100 * ?T - int (length ps) * (?T - 1)"
      by (simp_all add: weight_sum_def o_def)
    from b(1) T have "?S \<le> 100" by (simp add: mult.commute)
    moreover have "?T * (100 - int (length ps)) < ?T * ?S"
      using b(2) assms(1) by (simp add: algebra_simps) (metis length_greater_0_conv less_le_trans of_nat_0_less_iff less_add_same_cancel1 add.commute)
    then have "100 - int (length ps) < ?S" using T by (simp add: mult_less_cancel_left)
    ultimately show ?thesis by simp
  qed
  ultimately show ?thesis by blast
qed

subsection \<open>Several predictors\<close>

text \<open>A predictor is ready to be served when it names no model version or its version is built.\<close>

definition predictor_ready :: "inf_world \<Rightarrow> Inference \<Rightarrow> PredictorSpec \<Rightarrow> bool" where
  "predictor_ready W obj p \<longleftrightarrow> pr_ModelVersion p = [] \<or>
     (\<forall>h mv. iw_version W h (inf_Namespace obj) (pr_ModelVersion p) = Inr mv \<longrightarrow>
        mvs_ImageBuildPhase (mvo_Status mv) = ImageBuildSucceeded)"

lemma sync_ready:
  assumes "syncPredictor W obj i p h = (Inr (res, obj'), h')" "predictor_ready W obj p"
  shows "\<exists>st sts p'. set_predictor_status i st (inf_PredictorStatuses obj) = Inr sts \<and>
    obj' = obj\<lparr>inf_Predictors := (inf_Predictors obj)[i := p'], inf_PredictorStatuses := sts\<rparr>"
proof -
  obtain v h1 where v: "predictor_version W obj p h = (Inr v, h1)"
    using assms(1) by (auto simp: syncPredictor_def andThen_eq_Inr)
  then have "v \<noteq> None"
    using assms(2) by (auto simp: predictor_version_def predictor_ready_def Let_def split: if_splits sum.splits)
  then obtain version where "v = Some version" by blast
  with assms(1) v show ?thesis
    by (auto simp: syncPredictor_def andThen_eq_Inr split: sum.splits)
      (metis sum.exhaust)
qed

lemma first_status: "set_predictor_status 0 st sts = Inr sts' \<Longrightarrow> length sts' = 1"
  by (cases sts) (auto simp: set_predictor_status_def)

lemma second_status: "length sts = 1 \<Longrightarrow> set_predictor_status 1 st sts = Inl (Panic ''index out of range'')"
  by (simp add: set_predictor_status_def)

lemma second_predictor_fails:
  assumes "predictor_ready W obj p" "predictor_ready W obj q"
  shows "isl (fst (sync_predictors W obj 0 (p # q # ps) h))"
proof (rule ccontr)
  assume "\<not> ?thesis"
  then obtain r h' where "sync_predictors W obj 0 (p # q # ps) h = (Inr r, h')"
    by (metis isl_def prod.collapse sum.collapse(2))
  then obtain res1 obj1 h1 res2 obj2 h2 where
      s: "syncPredictor W obj 0 p h = (Inr (res1, obj1), h1)" "syncPredictor W obj1 1 q h1 = (Inr (res2, obj2), h2)"
    by (auto simp: andThen_eq_Inr split: prod.splits)
  from sync_ready [OF s(1) assms(1)] have one: "length (inf_PredictorStatuses obj1) = 1"
    and "inf_Namespace obj1 = inf_Namespace obj" by (auto dest: first_status)
  then have "predictor_ready W obj1 q" using assms(2) by (simp add: predictor_ready_def)
  from sync_ready [OF s(2) this] second_status [OF one] show False by auto
qed

lemma service_sync_keeps:
  "syncServiceForInference W obj h = (Inr obj', h') \<Longrightarrow>
    inf_Predictors obj' = inf_Predictors obj \<and> inf_Namespace obj' = inf_Namespace obj"
  by (auto simp: syncServiceForInference_def Let_def guarded_eq_Inr split: sum.splits if_splits)

text \<open>
  C35. An inference with several predictors is never served in full. When its first two predictors are ready
  to be served, every reconciliation ends with an error: the status of the second predictor is written beyond the end of the
  list, so the traffic is never distributed and the status is never updated.
\<close>

theorem second_predictor_never_synced:
  assumes "iw_inference W h ns n = Inr obj" "inf_Predictors obj = p # q # ps" "predictor_ready W obj p" "predictor_ready W obj q"
    and "Inference_Reconcile W ns n h = (r, h')"
  shows "isl r"
proof (cases "syncServiceForInference W obj (h @ [GetInference ns n])")
  case (Pair x h1)
  show ?thesis
  proof (cases x)
    case (Inl e)
    with Pair assms(1,5) show ?thesis by (auto simp: Inference_Reconcile_def)
  next
    case (Inr obj1)
    with Pair have keep: "inf_Predictors obj1 = inf_Predictors obj" "inf_Namespace obj1 = inf_Namespace obj"
      by (auto dest: service_sync_keeps)
    then have "isl (fst (sync_predictors W obj1 0 (inf_Predictors obj1) h1))"
      using assms(2-4) second_predictor_fails [of W obj1 p q ps h1] by (simp add: predictor_ready_def)
    then obtain e h2 where "sync_predictors W obj1 0 (inf_Predictors obj1) h1 = (Inl e, h2)"
      by (metis isl_def prod.collapse)
    with Pair Inr assms(1,5) show ?thesis by (auto simp: Inference_Reconcile_def)
  qed
qed

subsection \<open>A served model\<close>

text \<open>Every container of the template finds the model of the version under the path it is told.\<close>

definition serves_model :: "ModelVersion \<Rightarrow> string \<Rightarrow> pod_template \<Rightarrow> bool" where
  "serves_model mv path t \<longleftrightarrow>
     (\<exists>loader \<in> set (ps_InitContainers (pt_Spec t)). ct_Image loader = mvs_Image (mvo_Status mv) \<and>
        map vm_Name (ct_VolumeMounts loader) = [''kubedl-model-loader'']) \<and>
     (''kubedl-model-loader'', EmptyDirSource False None) \<in> set (ps_Volumes (pt_Spec t)) \<and>
     list_all (\<lambda>c. (KubeDLModelPath, EnvValue path) \<in> set (ct_Env c) \<and>
        \<lparr>vm_Name = ''kubedl-model-loader'', vm_MountPath = path, vm_SubPath = []\<rparr> \<in> set (ct_VolumeMounts c))
       (ps_Containers (pt_Spec t))"

lemma load_model_serves: "serves_model mv (model_mount_path (Some mv) p) (load_model (Some mv) p)"
  by (simp add: serves_model_def load_model_def buildModelLoaderInitContainer_def map_containers_def add_volume_def
      append_env_def add_mount_def Let_def list_all_iff)

lemma setter_keeps_model: "serves_model mv path t \<Longrightarrow> serves_model mv path (tfServingSetter version path' t)"
  by (auto simp: serves_model_def tfServingSetter_def map_containers_def append_env_def Let_def list_all_iff split: option.splits)

lemma template_serves: "serves_model mv (model_mount_path (Some mv) p) (predictor_template obj (Some mv) p)"
  using load_model_serves setter_keeps_model
  by (auto simp: predictor_template_def Setters_def split: FrameworkType.splits)

text \<open>Before the deployment is made, the service is there: the server has one of its name, or has just accepted one.\<close>

definition entry_there :: "inf_world \<Rightarrow> string \<Rightarrow> string \<Rightarrow> (string \<times> string) list \<Rightarrow> inf_hist \<Rightarrow> inf_hist \<Rightarrow> bool" where
  "entry_there W ns name labels h h' \<longleftrightarrow>
     (case iw_service W h ns name of
        Inr svc \<Rightarrow> h' = h @ [GetEntry ns name]
      | Inl e \<Rightarrow> IsNotFound e \<and> (\<exists>svc. h' = h @ [GetEntry ns name, CreateEntry svc] \<and>
          iw_write W (h @ [GetEntry ns name]) (CreateEntry svc) = None \<and>
          es_Name svc = name \<and> es_Namespace svc = ns \<and> es_Selector svc = labels))"

lemma created_entry:
  assumes "createServiceForPredictor W obj p h = (r, h')"
  shows "r = None \<Longrightarrow> entry_there W (inf_Namespace obj) (genPredictorName obj p) (predictor_labels obj p) h h'"
    and "\<exists>cs. h' = h @ cs \<and> (\<forall>d. CreateDeploy d \<notin> set cs)"
  using assms by (auto simp: createServiceForPredictor_def entry_there_def inf_write_def Let_def split: sum.splits if_splits)

lemma serves_labels [simp]: "serves_model mv path (t\<lparr>pt_Labels := l\<rparr>) = serves_model mv path t"
  by (simp add: serves_model_def)

lemma predictor_labels_insert: "(k, v) \<in> set (predictor_labels obj p) \<Longrightarrow> insertLabelsForPredictor l obj p k = Some v"
  by (auto simp: predictor_labels_def insertLabelsForPredictor_def LabelInferenceName_def LabelPredictorName_def
      LabelModelVersion_def)

lemma predictor_labels_same [simp]: "predictor_labels obj (p\<lparr>pr_Template := t\<rparr>) = predictor_labels obj p"
  "genPredictorName obj (p\<lparr>pr_Template := t\<rparr>) = genPredictorName obj p"
  by (simp_all add: predictor_labels_def genPredictorName_def)

text \<open>
  C34. A deployment that is created for a predictor is reachable and has its model. Before it, a service
  of its name is looked up in its namespace: one that is there is taken as it is, whatever it selects;
  if there is none, one is created that selects exactly the labels the deployment selects, and the
  deployment is only created when the server has accepted it. The status announces the predictor under
  the name of this service, and the pods of the deployment carry the labels. With a model version every
  container mounts the model, loaded from the image of the version, at the path it is told.
\<close>

theorem predictor_deploy_wired:
  assumes "createNewPredictorDeploy W obj version p h = (r, h')" "CreateDeploy d \<in> set (drop (length h) h')"
  shows "list_all (\<lambda>(k, v). pt_Labels (dp_Template d) k = Some v) (dp_Selector d) \<and>
    svcHostForPredictor obj p = dp_Name d @ ''.'' @ dp_Namespace d @ ''.svc'' \<and>
    (\<exists>h1 rest. h' = h1 @ CreateDeploy d # rest \<and> entry_there W (dp_Namespace d) (dp_Name d) (dp_Selector d) h h1) \<and>
    (case version of None \<Rightarrow> True | Some mv \<Rightarrow> serves_model mv (model_mount_path version p) (dp_Template d))"
proof (cases "iw_set_owner W obj []")
  case (Inl e)
  with assms show ?thesis by (simp add: createNewPredictorDeploy_def)
next
  case (Inr owners)
  let ?p1 = "p\<lparr>pr_Template := predictor_template obj version p\<rparr>"
  obtain x h1 where c: "createServiceForPredictor W obj ?p1 h = (x, h1)" by (cases "createServiceForPredictor W obj ?p1 h")
  from created_entry(2) [OF c] obtain cs where cs: "h1 = h @ cs" "\<forall>d. CreateDeploy d \<notin> set cs" by auto
  have x: "x = None" using assms Inr c cs by (cases x) (auto simp: createNewPredictorDeploy_def guarded_def Let_def)
  have d: "dp_Name d = genPredictorName obj p \<and> dp_Namespace d = inf_Namespace obj \<and> dp_Selector d = predictor_labels obj p \<and>
      dp_Template d = (predictor_template obj version p)\<lparr>pt_Labels :=
        insertLabelsForPredictor (pt_Labels (predictor_template obj version p)) obj p\<rparr>"
    and h': "\<exists>rest. h' = h1 @ CreateDeploy d # rest"
    using assms Inr c cs x
    by (auto simp: createNewPredictorDeploy_def andThen_def Let_def guarded_def insertLabelsForPredictor_def
        split: option.splits sum.splits)
  have "entry_there W (dp_Namespace d) (dp_Name d) (dp_Selector d) h h1"
    using created_entry(1) [OF c x] d by simp
  then show ?thesis
    using d h' predictor_labels_insert template_serves
    by (auto simp: list_all_iff svcHostForPredictor_def split: option.split)
qed

subsection \<open>Witnesses\<close>

text \<open>A faultless server that has an inference and nothing else yet.\<close>

definition predictor0 :: "string \<Rightarrow> PredictorSpec" where
  "predictor0 name = \<lparr>pr_Name = name, pr_ModelVersion = [], pr_ModelPath = None, pr_Replicas = Some 1, pr_TrafficWeight = None,
     pr_Template = plain_template ''predictor''\<rparr>"

definition inference0 :: Inference where
  "inference0 = \<lparr>inf_Name = ''mnist'', inf_Namespace = ''default'', inf_Framework = FrameworkTFServing,
     inf_Predictors = [predictor0 ''a'', predictor0 ''b''], inf_InferenceEndpoint = [], inf_PredictorStatuses = []\<rparr>"

definition inf_world0 :: inf_world where
  "inf_world0 = \<lparr>iw_inference = (\<lambda>h ns n. Inr inference0), iw_service = (\<lambda>h ns n. Inl NotFound), iw_version = (\<lambda>h ns n. Inl NotFound),
     iw_deploy = (\<lambda>h ns n. Inl NotFound), iw_virtual = (\<lambda>h ns n. Inl NotFound), iw_create_deploy = (\<lambda>h d. Inr d), iw_write = (\<lambda>h c. None),
     iw_set_owner = (\<lambda>obj refs. Inr refs)\<rparr>"

definition version0 :: ModelVersion where
  "version0 = \<lparr>mvo_APIVersion = [], mvo_Kind = ''ModelVersion'', mvo_Name = ''mv'', mvo_Namespace = ''default'', mvo_UID = ''12345'',
     mvo_OwnerReferences = [], mvo_Labels = Map.empty, mvo_Annotations = Map.empty, mvo_ModelName = ''mnist'', mvo_CreatedBy = [],
     mvo_Storage = None, mvo_ImageRepo = ''hub'', mvo_ImageTag = [],
     mvo_Status = \<lparr>mvs_Image = ''hub:12345'', mvs_ImageBuildPhase = ImageBuildSucceeded, mvs_FinishTime = None, mvs_Message = []\<rparr>\<rparr>"

theorem traffic_ratios_witness:
  "computePredictorTrafficRatios (map predictor0 [''a'', ''b'', ''c'']) = Inr [(''a'', 33), (''b'', 33), (''c'', 33)]"
  using traffic_ratios [of "map predictor0 [''a'', ''b'', ''c'']"]
  by (simp add: weight_sum_def weight_def predictor0_def)

theorem second_predictor_never_synced_witness:
  "isl (fst (Inference_Reconcile inf_world0 ''default'' ''mnist'' []))"
  using second_predictor_never_synced [of inf_world0 "[]" "''default''" "''mnist''" inference0 "predictor0 ''a''" "predictor0 ''b''" "[]"
      "fst (Inference_Reconcile inf_world0 ''default'' ''mnist'' [])" "snd (Inference_Reconcile inf_world0 ''default'' ''mnist'' [])"]
  by (simp add: inf_world0_def inference0_def predictor_ready_def predictor0_def)

text \<open>The server has no service yet: one is created, and then the deployment, which serves the model.\<close>

theorem predictor_deploy_wired_witness:
  "\<exists>d svc h1 rest. snd (createNewPredictorDeploy inf_world0 inference0 (Some version0) (predictor0 ''a'') []) =
       h1 @ CreateDeploy d # rest \<and> h1 = [GetEntry ''default'' ''mnist-a'', CreateEntry svc] \<and>
     es_Name svc = ''mnist-a'' \<and> es_Selector svc = dp_Selector d \<and> serves_model version0 ''/kubedl-model/mv'' (dp_Template d)"
proof -
  let ?run = "createNewPredictorDeploy inf_world0 inference0 (Some version0) (predictor0 ''a'') []"
  obtain d where d: "CreateDeploy d \<in> set (snd ?run)" "dp_Name d = ''mnist-a''" "dp_Namespace d = ''default''"
    by (simp add: createNewPredictorDeploy_def createServiceForPredictor_def inf_world0_def inf_write_def Let_def predictor0_def
        inference0_def genPredictorName_def)
  have "model_mount_path (Some version0) (predictor0 ''a'') = ''/kubedl-model/mv''"
    by (simp add: model_mount_path_def predictor0_def version0_def DefaultModelPathInImage_def)
  with d(1) predictor_deploy_wired [of inf_world0 inference0 "Some version0" "predictor0 ''a''" "[]" "fst ?run" "snd ?run" d]
  have "\<exists>h1 rest. snd ?run = h1 @ CreateDeploy d # rest \<and> entry_there inf_world0 ''default'' ''mnist-a'' (dp_Selector d) [] h1"
    and m: "serves_model version0 ''/kubedl-model/mv'' (dp_Template d)"
    unfolding d(2,3) by simp_all
  then obtain h1 rest where run: "snd ?run = h1 @ CreateDeploy d # rest"
    and there: "entry_there inf_world0 ''default'' ''mnist-a'' (dp_Selector d) [] h1" by blast
  from there obtain svc where "h1 = [GetEntry ''default'' ''mnist-a'', CreateEntry svc]" "es_Name svc = ''mnist-a''"
    "es_Selector svc = dp_Selector d"
    by (auto simp: entry_there_def inf_world0_def)
  with run m show ?thesis by blast
qed

end
