(* ===== verification/Cache_Backend.thy ===== *)
theory Cache_Backend
  imports Job_Reconcile
begin

text \<open>
  The cache controller (\<open>controllers/cache/cachebackend_controller.go\<close>) and its engine Fluid
  (\<open>pkg/cache_backend/fluid/fluidcache.go\<close>, \<open>registry/registry.go\<close>). A cache backend is filled by a dataset and a
  runtime, waits for the volume claim that Fluid makes, and is deleted when no job has used it for a while.
  The API server, the clock and the parser of quotas are fields of \<open>cache_world\<close>.
\<close>

subsection \<open>Cache backends\<close>

record DataSource =
  das_Location :: string
  das_SubDirName :: string

record CacheLevel =
  lv_CachePath :: string
  lv_Quota :: string
  lv_MediumType :: string

record AlluxioRuntime =
  al_Replicas :: int
  al_TieredStorage :: "CacheLevel list"

record FluidEngine =
  fl_AlluxioRuntime :: "AlluxioRuntime option"

record CacheEngine =
  ce_Fluid :: "FluidEngine option"

datatype CacheStatus = CacheStatusUnset | PVCCreated | PVCCreating | CacheFailed | CacheCreating | CacheStatusOther string

record CacheBackendStatus =
  cbst_CacheEngine :: string
  cbst_CacheStatus :: CacheStatus
  cbst_UsedBy :: "string list"
  cbst_UsedNum :: int
  cbst_LastUsedTime :: "time option"

record CacheBackend =
  cbo_APIVersion :: string
  cbo_Kind :: string
  cbo_Name :: string
  cbo_Namespace :: string
  cbo_UID :: string
  cbo_Dataset :: "DataSource list option"
  cbo_CacheEngine :: "CacheEngine option"
  cbo_IdleTime :: int
  cbo_Status :: CacheBackendStatus

text \<open>The objects of Fluid: mounts are pairs of mount point and name, levels carry a parsed quota.\<close>

record fluid_dataset =
  fd_Name :: string
  fd_Namespace :: string
  fd_OwnerReferences :: "owner_ref list"
  fd_Mounts :: "(string \<times> string) list"

record fluid_runtime =
  fr_Name :: string
  fr_Namespace :: string
  fr_OwnerReferences :: "owner_ref list"
  fr_Replicas :: int
  fr_Levels :: "(string \<times> string \<times> quantity) list"

datatype cache_call =
    GetCacheBackend string string
  | UpdateCacheBackendStatus CacheBackend
  | DeleteCacheBackend CacheBackend
  | GetCacheClaim string string
  | GetDataset string string
  | CreateDataset fluid_dataset
  | GetRuntime string string
  | CreateRuntime fluid_runtime

type_synonym cache_hist = "cache_call list"

record cache_world =
  kw_backend :: "cache_hist \<Rightarrow> string \<Rightarrow> string \<Rightarrow> go_error + CacheBackend"
  kw_claim :: "cache_hist \<Rightarrow> string \<Rightarrow> string \<Rightarrow> go_error option"
  kw_dataset :: "cache_hist \<Rightarrow> string \<Rightarrow> string \<Rightarrow> go_error option"
  kw_runtime :: "cache_hist \<Rightarrow> string \<Rightarrow> string \<Rightarrow> go_error option"
  kw_write :: "cache_hist \<Rightarrow> cache_call \<Rightarrow> go_error option"
  kw_now :: "cache_hist \<Rightarrow> time"
  kw_quota :: "string \<Rightarrow> quantity option"

definition cache_write :: "cache_world \<Rightarrow> cache_call \<Rightarrow> cache_hist \<Rightarrow> go_error option \<times> cache_hist" where
  "cache_write W c h = (kw_write W h c, h @ [c])"

subsection \<open>The engine\<close>

definition cache_owner :: "CacheBackend \<Rightarrow> owner_ref" where
  "cache_owner cb = \<lparr>or_APIVersion = cbo_APIVersion cb, or_Kind = cbo_Kind cb, or_Name = cbo_Name cb, or_UID = cbo_UID cb,
     or_Controller = None, or_BlockOwnerDeletion = None\<rparr>"

definition createDataset ::
    "cache_world \<Rightarrow> DataSource list option \<Rightarrow> string \<Rightarrow> string \<Rightarrow> owner_ref \<Rightarrow> cache_hist \<Rightarrow> go_error option \<times> cache_hist" where
  "createDataset W dataset name namespace ref h =
     (case dataset of
        None \<Rightarrow> (Some (Panic ''nil pointer dereference''), h)
      | Some sources \<Rightarrow>
          cache_write W (CreateDataset \<lparr>fd_Name = name, fd_Namespace = namespace, fd_OwnerReferences = [ref],
            fd_Mounts = map (\<lambda>d. (das_Location d, das_SubDirName d)) sources\<rparr>) h)"

text \<open>\<open>resource.MustParse\<close> panics on a quota that is not a quantity.\<close>

fun cache_levels :: "cache_world \<Rightarrow> CacheLevel list \<Rightarrow> (string \<times> string \<times> quantity) list option" where
  "cache_levels W [] = Some []"
| "cache_levels W (l # ls) =
     (case kw_quota W (lv_Quota l) of
        None \<Rightarrow> None
      | Some q \<Rightarrow> map_option (Cons (lv_MediumType l, lv_CachePath l, q)) (cache_levels W ls))"

definition createAlluxioRuntime ::
    "cache_world \<Rightarrow> AlluxioRuntime option \<Rightarrow> string \<Rightarrow> string \<Rightarrow> owner_ref \<Rightarrow> cache_hist \<Rightarrow> go_error option \<times> cache_hist" where
  "createAlluxioRuntime W runtime name namespace ref h =
     (case runtime of
        None \<Rightarrow> (Some (Panic ''nil pointer dereference''), h)
      | Some r \<Rightarrow>
          (case cache_levels W (al_TieredStorage r) of
             None \<Rightarrow> (Some (Panic ''cannot parse quantity''), h)
           | Some levels \<Rightarrow>
               cache_write W (CreateRuntime \<lparr>fr_Name = name, fr_Namespace = namespace, fr_OwnerReferences = [ref],
                 fr_Replicas = al_Replicas r, fr_Levels = levels\<rparr>) h))"

definition ensure_dataset :: "cache_world \<Rightarrow> CacheBackend \<Rightarrow> cache_hist \<Rightarrow> go_error option \<times> cache_hist" where
  "ensure_dataset W cb h =
     (let h1 = h @ [GetDataset (cbo_Namespace cb) (cbo_Name cb)] in
      case kw_dataset W h (cbo_Namespace cb) (cbo_Name cb) of
        None \<Rightarrow> (None, h1)
      | Some e \<Rightarrow>
          (if IsNotFound e then createDataset W (cbo_Dataset cb) (cbo_Name cb) (cbo_Namespace cb) (cache_owner cb) h1
           else (Some e, h1)))"

definition ensure_runtime :: "cache_world \<Rightarrow> CacheBackend \<Rightarrow> FluidEngine \<Rightarrow> cache_hist \<Rightarrow> go_error option \<times> cache_hist" where
  "ensure_runtime W cb fluid h =
     (let h1 = h @ [GetRuntime (cbo_Namespace cb) (cbo_Name cb)] in
      case kw_runtime W h (cbo_Namespace cb) (cbo_Name cb) of
        None \<Rightarrow> (None, h1)
      | Some e \<Rightarrow>
          (if IsNotFound e
           then createAlluxioRuntime W (fl_AlluxioRuntime fluid) (cbo_Name cb) (cbo_Namespace cb) (cache_owner cb) h1
           else (Some e, h1)))"

definition CreateCacheJob :: "cache_world \<Rightarrow> CacheBackend \<Rightarrow> FluidEngine \<Rightarrow> cache_hist \<Rightarrow> go_error option \<times> cache_hist" where
  "CreateCacheJob W cb fluid h =
     (case ensure_dataset W cb h of
        (Some e, h1) \<Rightarrow> (Some e, h1)
      | (None, h1) \<Rightarrow> ensure_runtime W cb fluid h1)"

text \<open>The registry holds the engine Fluid under its name.\<close>

definition CacheBackendName :: "CacheEngine \<Rightarrow> go_error + string" where
  "CacheBackendName engine = (case ce_Fluid engine of Some f \<Rightarrow> Inr ''fluid'' | None \<Rightarrow> Inl (Err ''NotFound''))"

subsection \<open>Reconciliation\<close>

definition is_panic :: "go_error \<Rightarrow> bool" where
  "is_panic e = (case e of Panic s \<Rightarrow> True | _ \<Rightarrow> False)"

definition cache_requeue :: Result where "cache_requeue = no_result\<lparr>Requeue := True\<rparr>"

definition cache_after :: "int \<Rightarrow> Result" where "cache_after d = no_result\<lparr>RequeueAfter := d\<rparr>"

definition updateCacheBackendStatus ::
    "cache_world \<Rightarrow> CacheBackend \<Rightarrow> CacheBackendStatus \<Rightarrow> Result \<Rightarrow> cache_hist \<Rightarrow> outcome \<times> cache_hist" where
  "updateCacheBackendStatus W cb st ok h =
     (case cache_write W (UpdateCacheBackendStatus (cb\<lparr>cbo_Status := st\<rparr>)) h of
        (Some e, h1) \<Rightarrow> ((cache_requeue, Some e), h1)
      | (None, h1) \<Rightarrow> ((ok, None), h1))"

text \<open>The status as it is counted at the start.\<close>

definition counted_status :: "CacheBackendStatus \<Rightarrow> CacheBackendStatus" where
  "counted_status st =
     (let st1 = (if cbst_UsedBy st \<noteq> [] then st\<lparr>cbst_LastUsedTime := None\<rparr> else st) in
      st1\<lparr>cbst_UsedNum := int (length (cbst_UsedBy st))\<rparr>)"

definition idle_nanos :: "CacheBackend \<Rightarrow> int" where "idle_nanos cb = i64 (cbo_IdleTime cb * second)"

text \<open>
  The claim is there; it is being made; or the job that makes it is to be started. An error of the job
  is replaced by the result of the update that records it. The statuses are compared by
  \<open>DeepEqual\<close> on a pointer and a value, so they always differ.
\<close>

definition start_cache :: "cache_world \<Rightarrow> CacheBackend \<Rightarrow> CacheBackendStatus \<Rightarrow> cache_hist \<Rightarrow> outcome \<times> cache_hist" where
  "start_cache W cb st h =
     (case cbo_CacheEngine cb of
        None \<Rightarrow> ((no_result, None), h)
      | Some engine \<Rightarrow>
          (case ce_Fluid engine of
             None \<Rightarrow> ((cache_requeue, Some (Err ''NotFound'')), h)
           | Some fluid \<Rightarrow>
               (let st1 = st\<lparr>cbst_CacheEngine := ''fluid''\<rparr> in
                case CreateCacheJob W cb fluid h of
                  (Some e, h1) \<Rightarrow>
                    (if is_panic e then ((no_result, Some e), h1)
                     else updateCacheBackendStatus W cb (st1\<lparr>cbst_CacheStatus := CacheFailed\<rparr>) cache_requeue h1)
                | (None, h1) \<Rightarrow>
                    updateCacheBackendStatus W cb (st1\<lparr>cbst_CacheStatus := PVCCreating, cbst_LastUsedTime := None\<rparr>) no_result h1)))"

definition await_claim :: "cache_world \<Rightarrow> CacheBackend \<Rightarrow> CacheBackendStatus \<Rightarrow> cache_hist \<Rightarrow> outcome \<times> cache_hist" where
  "await_claim W cb st h =
     (let h1 = h @ [GetCacheClaim (cbo_Namespace cb) (cbo_Name cb)] in
      case kw_claim W h (cbo_Namespace cb) (cbo_Name cb) of
        None \<Rightarrow> updateCacheBackendStatus W cb (st\<lparr>cbst_CacheStatus := PVCCreated\<rparr>) (cache_after (10 * second)) h1
      | Some e \<Rightarrow>
          (if cbst_CacheStatus (cbo_Status cb) = PVCCreating then ((cache_requeue, None), h1)
           else start_cache W cb st h1))"

definition CacheBackend_Reconcile :: "cache_world \<Rightarrow> string \<Rightarrow> string \<Rightarrow> cache_hist \<Rightarrow> outcome \<times> cache_hist" where
  "CacheBackend_Reconcile W ns n h =
     (let h1 = h @ [GetCacheBackend ns n] in
      case kw_backend W h ns n of
        Inl e \<Rightarrow> ((no_result, if IsNotFound e then None else Some e), h1)
      | Inr cb \<Rightarrow>
          (let st = counted_status (cbo_Status cb) in
           if cbst_CacheStatus st = PVCCreated \<and> cbo_IdleTime cb \<noteq> 0 \<and> cbst_UsedBy st = []
           then (case cbst_LastUsedTime st of
                   None \<Rightarrow>
                     updateCacheBackendStatus W cb (st\<lparr>cbst_LastUsedTime := Some (kw_now W h1)\<rparr>)
                       (cache_after (idle_nanos cb)) h1
                 | Some lastUsed \<Rightarrow>
                     (if kw_now W h1 > lastUsed + idle_nanos cb
                      then (case cache_write W (DeleteCacheBackend cb) h1 of
                              (Some e, h2) \<Rightarrow> ((cache_requeue, Some e), h2)
                            | (None, h2) \<Rightarrow> ((no_result, None), h2))
                      else await_claim W cb st h1))
           else await_claim W cb st h1))"

subsection \<open>What a reconciliation writes\<close>

definition cache_updates :: "cache_hist \<Rightarrow> CacheBackendStatus list" where
  "cache_updates h = concat (map (\<lambda>c. case c of UpdateCacheBackendStatus cb \<Rightarrow> [cbo_Status cb] | _ \<Rightarrow> []) h)"

definition cache_deletes :: "cache_hist \<Rightarrow> CacheBackend list" where
  "cache_deletes h = concat (map (\<lambda>c. case c of DeleteCacheBackend cb \<Rightarrow> [cb] | _ \<Rightarrow> []) h)"

lemma cache_updates_simps [simp]:
  "cache_updates [] = []"
  "cache_updates (c # h) = (case c of UpdateCacheBackendStatus cb \<Rightarrow> [cbo_Status cb] | _ \<Rightarrow> []) @ cache_updates h"
  "cache_updates (h @ h') = cache_updates h @ cache_updates h'"
  by (simp_all add: cache_updates_def)

lemma cache_deletes_simps [simp]:
  "cache_deletes [] = []"
  "cache_deletes (c # h) = (case c of DeleteCacheBackend cb \<Rightarrow> [cb] | _ \<Rightarrow> []) @ cache_deletes h"
  "cache_deletes (h @ h') = cache_deletes h @ cache_deletes h'"
  by (simp_all add: cache_deletes_def)

definition only_creates :: "cache_hist \<Rightarrow> cache_hist \<Rightarrow> bool" where
  "only_creates h h' \<longleftrightarrow> (\<exists>cs. h' = h @ cs \<and> cache_updates cs = [] \<and> cache_deletes cs = [])"

lemma only_creates_call [simp, intro]: "cache_updates cs = [] \<Longrightarrow> cache_deletes cs = [] \<Longrightarrow> only_creates h (h @ cs)"
  by (auto simp: only_creates_def)

lemma only_creates_refl [simp]: "only_creates h h"
  using only_creates_call [of "[]" h] by simp

lemma only_creates_trans: "only_creates h h1 \<Longrightarrow> only_creates h1 h2 \<Longrightarrow> only_creates h h2"
  by (force simp: only_creates_def)

lemma ensure_dataset_creates: "ensure_dataset W cb h = (r, h') \<Longrightarrow> only_creates h h'"
  by (auto simp: ensure_dataset_def createDataset_def cache_write_def Let_def split: option.splits if_splits)

lemma ensure_runtime_creates: "ensure_runtime W cb fluid h = (r, h') \<Longrightarrow> only_creates h h'"
  by (auto simp: ensure_runtime_def createAlluxioRuntime_def cache_write_def Let_def split: option.splits if_splits)

lemma cache_job_creates: "CreateCacheJob W cb fluid h = (r, h') \<Longrightarrow> only_creates h h'"
  by (auto simp: CreateCacheJob_def split: prod.splits option.splits
      dest: ensure_dataset_creates ensure_runtime_creates intro: only_creates_trans)

lemma update_writes:
  "updateCacheBackendStatus W cb st ok h = (out, h') \<Longrightarrow> h' = h @ [UpdateCacheBackendStatus (cb\<lparr>cbo_Status := st\<rparr>)]"
  by (auto simp: updateCacheBackendStatus_def cache_write_def split: option.splits)

text \<open>What the status may become in one reconciliation of a backend with status \<open>st\<close> (counted).\<close>

inductive cache_step ::
    "cache_world \<Rightarrow> time \<Rightarrow> CacheBackend \<Rightarrow> CacheBackendStatus \<Rightarrow> CacheBackendStatus list \<Rightarrow> bool"
  for W now cb st where
  idle: "cache_step W now cb st []"
| unused: "cbst_UsedBy st = [] \<Longrightarrow> cbst_CacheStatus st = PVCCreated \<Longrightarrow> cache_step W now cb st [st\<lparr>cbst_LastUsedTime := Some now\<rparr>]"
| ready: "kw_claim W h (cbo_Namespace cb) (cbo_Name cb) = None \<Longrightarrow> cache_step W now cb st [st\<lparr>cbst_CacheStatus := PVCCreated\<rparr>]"
| failed: "cbst_CacheStatus (cbo_Status cb) \<noteq> PVCCreating \<Longrightarrow>
    cache_step W now cb st [st\<lparr>cbst_CacheEngine := ''fluid'', cbst_CacheStatus := CacheFailed\<rparr>]"
| started: "cbst_CacheStatus (cbo_Status cb) \<noteq> PVCCreating \<Longrightarrow>
    cache_step W now cb st [st\<lparr>cbst_CacheEngine := ''fluid'', cbst_CacheStatus := PVCCreating, cbst_LastUsedTime := None\<rparr>]"

lemma start_cache_step:
  assumes "start_cache W cb st h = (out, h')" "cbst_CacheStatus (cbo_Status cb) \<noteq> PVCCreating"
  shows "\<exists>cs. h' = h @ cs \<and> cache_deletes cs = [] \<and> cache_step W now cb st (cache_updates cs)"
proof (cases "\<exists>engine fluid. cbo_CacheEngine cb = Some engine \<and> ce_Fluid engine = Some fluid")
  case False
  with assms(1) show ?thesis by (auto simp: start_cache_def intro: cache_step.idle split: option.splits)
next
  case True
  then obtain engine fluid where e: "cbo_CacheEngine cb = Some engine" "ce_Fluid engine = Some fluid" by blast
  obtain r h1 where j: "CreateCacheJob W cb fluid h = (r, h1)" by (cases "CreateCacheJob W cb fluid h")
  from cache_job_creates [OF j] obtain cs where cs: "h1 = h @ cs" "cache_updates cs = []" "cache_deletes cs = []"
    by (auto simp: only_creates_def)
  have recorded: ?thesis if "updateCacheBackendStatus W cb st' ok h1 = (out, h')" "cache_step W now cb st [st']" for st' ok
    using update_writes [OF that(1)] that(2) cs by auto
  show ?thesis
  proof (cases r)
    case None
    with assms(1) e j have "updateCacheBackendStatus W cb
        (st\<lparr>cbst_CacheEngine := ''fluid'', cbst_CacheStatus := PVCCreating, cbst_LastUsedTime := None\<rparr>) no_result h1 = (out, h')"
      by (simp add: start_cache_def)
    then show ?thesis by (rule recorded) (rule cache_step.started [OF assms(2)])
  next
    case (Some x)
    show ?thesis
    proof (cases "is_panic x")
      case True
      with assms(1) e j Some cs show ?thesis by (auto simp: start_cache_def intro: cache_step.idle)
    next
      case False
      with assms(1) e j Some have "updateCacheBackendStatus W cb
          (st\<lparr>cbst_CacheEngine := ''fluid'', cbst_CacheStatus := CacheFailed\<rparr>) cache_requeue h1 = (out, h')"
        by (simp add: start_cache_def)
      then show ?thesis by (rule recorded) (rule cache_step.failed [OF assms(2)])
    qed
  qed
qed

lemma await_claim_step:
  assumes "await_claim W cb st h = (out, h')"
  shows "\<exists>cs. h' = h @ cs \<and> cache_deletes cs = [] \<and> cache_step W now cb st (cache_updates cs)"
proof (cases "kw_claim W h (cbo_Namespace cb) (cbo_Name cb)")
  case None
  with assms update_writes [of W cb "st\<lparr>cbst_CacheStatus := PVCCreated\<rparr>" "cache_after (10 * second)"
      "h @ [GetCacheClaim (cbo_Namespace cb) (cbo_Name cb)]" out h'] cache_step.ready [OF None]
  show ?thesis by (auto simp: await_claim_def)
next
  case (Some e)
  show ?thesis
  proof (cases "cbst_CacheStatus (cbo_Status cb) = PVCCreating")
    case True
    with assms Some show ?thesis by (auto simp: await_claim_def intro: cache_step.idle)
  next
    case False
    with assms Some have "start_cache W cb st (h @ [GetCacheClaim (cbo_Namespace cb) (cbo_Name cb)]) = (out, h')"
      by (simp add: await_claim_def)
    from start_cache_step [OF this False, of now] show ?thesis by auto
  qed
qed

definition idle_since :: "CacheBackend \<Rightarrow> time \<Rightarrow> bool" where
  "idle_since cb t \<longleftrightarrow> cbst_CacheStatus (cbo_Status cb) = PVCCreated \<and> cbo_IdleTime cb \<noteq> 0 \<and>
     cbst_UsedBy (cbo_Status cb) = [] \<and> cbst_LastUsedTime (cbo_Status cb) = Some t"

lemma counted_simps [simp]:
  "cbst_CacheStatus (counted_status st) = cbst_CacheStatus st"
  "cbst_UsedBy (counted_status st) = cbst_UsedBy st"
  "cbst_UsedNum (counted_status st) = int (length (cbst_UsedBy st))"
  "cbst_LastUsedTime (counted_status st) = (if cbst_UsedBy st = [] then cbst_LastUsedTime st else None)"
  by (simp_all add: counted_status_def)

lemma step_last_used:
  assumes "cache_step W now cb (counted_status st) us" "x \<in> set us" "cbst_LastUsedTime x = Some t"
  shows "cbst_UsedBy st = [] \<and> (cbst_LastUsedTime st = Some t \<or> t = now)"
  using assms by (auto simp: cache_step.simps split: if_splits)

lemma reconcile_cache_step:
  assumes "kw_backend W h ns n = Inr cb" "CacheBackend_Reconcile W ns n h = (out, h')"
  shows "\<exists>cs. h' = h @ GetCacheBackend ns n # cs \<and>
    cache_step W (kw_now W (h @ [GetCacheBackend ns n])) cb (counted_status (cbo_Status cb)) (cache_updates cs) \<and>
    (cache_deletes cs = [] \<or> cache_deletes cs = [cb] \<and>
       (\<exists>t. idle_since cb t \<and> kw_now W (h @ [GetCacheBackend ns n]) > t + idle_nanos cb))"
proof -
  let ?h = "h @ [GetCacheBackend ns n]" and ?st = "counted_status (cbo_Status cb)"
  have await: ?thesis if "await_claim W cb ?st ?h = (out, h')"
    using await_claim_step [OF that, of "kw_now W ?h"] by auto
  show ?thesis
  proof (cases "cbst_CacheStatus ?st = PVCCreated \<and> cbo_IdleTime cb \<noteq> 0 \<and> cbst_UsedBy ?st = []")
    case unused: True
    show ?thesis
    proof (cases "cbst_LastUsedTime ?st")
      case None
      with unused assms have "updateCacheBackendStatus W cb (?st\<lparr>cbst_LastUsedTime := Some (kw_now W ?h)\<rparr>)
          (cache_after (idle_nanos cb)) ?h = (out, h')" by (simp add: CacheBackend_Reconcile_def Let_def)
      from update_writes [OF this] unused show ?thesis
        by (auto intro: cache_step.unused)
    next
      case (Some t)
      with unused assms await show ?thesis
        by (auto simp: CacheBackend_Reconcile_def cache_write_def idle_since_def Let_def intro: cache_step.idle
            split: option.splits if_splits)
    qed
  next
    case False
    then have "CacheBackend_Reconcile W ns n h = await_claim W cb ?st ?h"
      using assms(1) by (auto simp: CacheBackend_Reconcile_def Let_def)
    with assms(2) have "await_claim W cb ?st ?h = (out, h')" by simp
    then show ?thesis by (rule await)
  qed
qed

text \<open>
  A reconciliation of a cache backend takes one step: it records since when the backend is unused, that
  its claim is there, or how the start of its job went, and nothing while the claim is being made. The number of users
  it writes is counted, and a backend in use has no time of last use.
\<close>

theorem cache_backend_step:
  assumes "kw_backend W h ns n = Inr cb" "CacheBackend_Reconcile W ns n h = (out, h')"
  shows "\<exists>cs. h' = h @ GetCacheBackend ns n # cs \<and>
    cache_step W (kw_now W (h @ [GetCacheBackend ns n])) cb (counted_status (cbo_Status cb)) (cache_updates cs) \<and>
    list_all (\<lambda>st. cbst_UsedBy st = cbst_UsedBy (cbo_Status cb) \<and> cbst_UsedNum st = int (length (cbst_UsedBy st)) \<and>
      (cbst_UsedBy st = [] \<or> cbst_LastUsedTime st = None)) (cache_updates cs)"
proof -
  from reconcile_cache_step [OF assms] obtain cs where cs: "h' = h @ GetCacheBackend ns n # cs"
    "cache_step W (kw_now W (h @ [GetCacheBackend ns n])) cb (counted_status (cbo_Status cb)) (cache_updates cs)" by blast
  from cs(2) have "list_all (\<lambda>st. cbst_UsedBy st = cbst_UsedBy (cbo_Status cb) \<and> cbst_UsedNum st = int (length (cbst_UsedBy st)) \<and>
      (cbst_UsedBy st = [] \<or> cbst_LastUsedTime st = None)) (cache_updates cs)"
    by (auto simp: cache_step.simps)
  with cs show ?thesis by blast
qed

subsection \<open>The life of a cache backend\<close>

text \<open>A server keeps the time of last use unless the controller updates it.\<close>

definition last_used_store :: "(cache_hist \<Rightarrow> time option) \<Rightarrow> bool" where
  "last_used_store stored \<longleftrightarrow>
     (\<forall>h cs. stored (h @ cs) = stored h \<or> stored (h @ cs) \<in> set (map cbst_LastUsedTime (cache_updates cs)))"

inductive cache_run :: "cache_world \<Rightarrow> string \<Rightarrow> string \<Rightarrow> cache_hist \<Rightarrow> bool" for W ns n where
  start: "cache_run W ns n []"
| request: "cache_run W ns n h \<Longrightarrow> CacheBackend_Reconcile W ns n h = (out, h') \<Longrightarrow> cache_run W ns n h'"

text \<open>At some earlier request, made at time \<open>t\<close>, the controller read that no job uses the backend.\<close>

definition seen_unused :: "cache_world \<Rightarrow> string \<Rightarrow> string \<Rightarrow> cache_hist \<Rightarrow> time \<Rightarrow> bool" where
  "seen_unused W ns n h t \<longleftrightarrow>
     (\<exists>h0 cs cb. h = h0 @ GetCacheBackend ns n # cs \<and> kw_backend W h0 ns n = Inr cb \<and> cbst_UsedBy (cbo_Status cb) = [] \<and>
        t = kw_now W (h0 @ [GetCacheBackend ns n]))"

lemma seen_unused_append: "seen_unused W ns n h t \<Longrightarrow> seen_unused W ns n (h @ cs) t"
  by (force simp: seen_unused_def)

lemma run_last_used:
  assumes "cache_run W ns n h" "last_used_store stored" "stored [] = None"
    and read: "\<forall>h cb. kw_backend W h ns n = Inr cb \<longrightarrow> cbst_LastUsedTime (cbo_Status cb) = stored h"
  shows "stored h = Some t \<longrightarrow> seen_unused W ns n h t"
  using assms(1)
proof induction
  case start
  then show ?case using assms(3) by simp
next
  case (request h out h')
  let ?g = "GetCacheBackend ns n"
  show ?case
  proof (cases "kw_backend W h ns n")
    case (Inl e)
    with request.hyps(2) have "h' = h @ [?g]" by (auto simp: CacheBackend_Reconcile_def)
    moreover have "stored (h @ [?g]) = stored h"
      using assms(2) [unfolded last_used_store_def, rule_format, of h "[?g]"] by simp
    ultimately show ?thesis using request.IH by (auto intro: seen_unused_append)
  next
    case (Inr cb)
    from reconcile_cache_step [OF Inr request.hyps(2)] obtain cs where cs: "h' = h @ ?g # cs"
      "cache_step W (kw_now W (h @ [?g])) cb (counted_status (cbo_Status cb)) (cache_updates cs)" by blast
    have "stored h' = stored h \<or> stored h' \<in> set (map cbst_LastUsedTime (cache_updates cs))"
      using assms(2) [unfolded last_used_store_def, rule_format, of h "?g # cs"] cs(1) by simp
    moreover have "seen_unused W ns n h' t" if "x \<in> set (cache_updates cs)" "cbst_LastUsedTime x = Some t" for x
      using step_last_used [OF cs(2) that]
    proof (elim conjE disjE)
      assume "cbst_LastUsedTime (cbo_Status cb) = Some t"
      with read Inr request.IH show ?thesis using seen_unused_append [of W ns n h t "?g # cs"] by (simp add: cs(1))
    next
      assume "cbst_UsedBy (cbo_Status cb) = []" "t = kw_now W (h @ [?g])"
      with Inr show ?thesis by (auto simp: cs(1) seen_unused_def)
    qed
    ultimately show ?thesis using request.IH by (auto simp: cs(1) intro: seen_unused_append)
  qed
qed

text \<open>
  C36. A cache backend is deleted only after it has been idle. The controller deletes it when it has an idle
  time, no job uses it now, and the controller had read, longer than the idle time ago, that no job used it.
\<close>

theorem cache_deleted_after_idle:
  assumes "cache_run W ns n h" "last_used_store stored" "stored [] = None"
    and "\<forall>h cb. kw_backend W h ns n = Inr cb \<longrightarrow> cbst_LastUsedTime (cbo_Status cb) = stored h"
    and "CacheBackend_Reconcile W ns n h = (out, h @ cs)" "cb \<in> set (cache_deletes cs)"
  shows "cbst_UsedBy (cbo_Status cb) = [] \<and> cbo_IdleTime cb \<noteq> 0 \<and>
    (\<exists>t. seen_unused W ns n h t \<and> kw_now W (h @ [GetCacheBackend ns n]) > t + idle_nanos cb)"
proof (cases "kw_backend W h ns n")
  case (Inl e)
  with assms(5,6) show ?thesis by (auto simp: CacheBackend_Reconcile_def)
next
  case (Inr b)
  from reconcile_cache_step [OF Inr assms(5)] assms(6) obtain t where
    "cb = b" "idle_since cb t" "kw_now W (h @ [GetCacheBackend ns n]) > t + idle_nanos cb" by auto
  moreover from this Inr assms(4) have "stored h = Some t" by (simp add: idle_since_def)
  ultimately show ?thesis using run_last_used [OF assms(1-4)] by (auto simp: idle_since_def)
qed

subsection \<open>Witnesses\<close>

text \<open>A server whose backend is ready and unused, and a clock that moves by one minute with every call.\<close>

definition cache_stored :: "cache_hist \<Rightarrow> time option" where
  "cache_stored h = last (None # map cbst_LastUsedTime (cache_updates h))"

definition cache_object :: "time option \<Rightarrow> CacheBackend" where
  "cache_object t = \<lparr>cbo_APIVersion = [], cbo_Kind = ''CacheBackend'', cbo_Name = ''c'', cbo_Namespace = ''default'', cbo_UID = ''u'',
     cbo_Dataset = None, cbo_CacheEngine = None, cbo_IdleTime = 30,
     cbo_Status = \<lparr>cbst_CacheEngine = ''fluid'', cbst_CacheStatus = PVCCreated, cbst_UsedBy = [], cbst_UsedNum = 0, cbst_LastUsedTime = t\<rparr>\<rparr>"

definition cache_world0 :: cache_world where
  "cache_world0 = \<lparr>kw_backend = (\<lambda>h ns n. Inr (cache_object (cache_stored h))), kw_claim = (\<lambda>h ns n. None),
     kw_dataset = (\<lambda>h ns n. None), kw_runtime = (\<lambda>h ns n. None), kw_write = (\<lambda>h c. None),
     kw_now = (\<lambda>h. 60 * second * int (length h)), kw_quota = (\<lambda>s. None)\<rparr>"

lemma cache_object_simps [simp]:
  "cbo_IdleTime (cache_object t) = 30" "idle_nanos (cache_object t) = 30 * second"
  "cbst_CacheStatus (cbo_Status (cache_object t)) = PVCCreated" "cbst_UsedBy (cbo_Status (cache_object t)) = []"
  "cbst_LastUsedTime (cbo_Status (cache_object t)) = t"
  by (simp_all add: cache_object_def idle_nanos_def i64_id in64_def second_def)

lemma cache_stored_store: "last_used_store cache_stored"
proof -
  have "cache_stored (h @ cs) = cache_stored h \<or> cache_stored (h @ cs) \<in> set (map cbst_LastUsedTime (cache_updates cs))" for h cs
  proof (cases "cache_updates cs = []")
    case False
    then have "last (map cbst_LastUsedTime (cache_updates cs)) \<in> set (map cbst_LastUsedTime (cache_updates cs))"
      by (intro last_in_set) simp
    moreover have "cache_stored (h @ cs) = last (map cbst_LastUsedTime (cache_updates cs))" using False by (simp add: cache_stored_def)
    ultimately show ?thesis by (intro disjI2) (simp only:)
  qed (simp add: cache_stored_def)
  then show ?thesis by (simp add: last_used_store_def)
qed

theorem cache_backend_step_witness:
  "length (cache_updates (snd (CacheBackend_Reconcile cache_world0 ''default'' ''c'' []))) \<le> 1"
proof -
  have "kw_backend cache_world0 [] ''default'' ''c'' = Inr (cache_object (cache_stored []))" by (simp add: cache_world0_def)
  from cache_backend_step [OF this prod.collapse [symmetric]]
  show ?thesis by (auto simp: cache_step.simps)
qed

theorem cache_deleted_after_idle_witness:
  "\<exists>t. seen_unused cache_world0 ''default'' ''c'' (snd (CacheBackend_Reconcile cache_world0 ''default'' ''c'' [])) t"
proof -
  let ?R = "CacheBackend_Reconcile cache_world0 ''default'' ''c''"
  let ?g = "GetCacheBackend ''default'' ''c''"
  let ?u = "UpdateCacheBackendStatus (cache_object (Some (60 * second)))"
  have one: "?R [] = ((cache_after (idle_nanos (cache_object None)), None), [?g, ?u])"
    by (simp add: CacheBackend_Reconcile_def cache_world0_def cache_object_def cache_stored_def counted_status_def
        updateCacheBackendStatus_def cache_write_def idle_nanos_def Let_def)
  have stored: "cache_stored [?g, ?u] = Some (60 * second)" by (simp add: cache_stored_def cache_object_def)
  from stored have two: "?R [?g, ?u] = ((no_result, None), [?g, ?u] @ [?g, DeleteCacheBackend (cache_object (Some (60 * second)))])"
    by (simp add: CacheBackend_Reconcile_def cache_world0_def cache_write_def Let_def) (simp add: second_def)
  have run: "cache_run cache_world0 ''default'' ''c'' [?g, ?u]"
    using cache_run.request [OF cache_run.start one] .
  have read: "\<forall>h cb. kw_backend cache_world0 h ''default'' ''c'' = Inr cb \<longrightarrow> cbst_LastUsedTime (cbo_Status cb) = cache_stored h"
    by (auto simp: cache_world0_def cache_object_def)
  have "cache_stored [] = None" by (simp add: cache_stored_def)
  from cache_deleted_after_idle [OF run cache_stored_store this read two, of "cache_object (Some (60 * second))"] one
  show ?thesis by auto
qed

end
