(* ===== verification/Notebook.thy ===== *)
theory Notebook
  imports Tensor_Board Model_Storage
begin

text \<open>
  The notebook controller (\<open>controllers/notebook/notebook_controller.go\<close>). A notebook is a pod with a Jupyter server,
  a service and an ingress, all named after it. The API server and the clock are fields of \<open>notebook_world\<close>; a created
  object and an updated notebook come back as the server has them afterwards.
\<close>

subsection \<open>Objects\<close>

datatype NotebookCondition = NotebookConditionUnset | NotebookCreated | NotebookRunning | NotebookTerminated

record Notebook =
  nb_APIVersion :: string
  nb_Kind :: string
  nb_Name :: string
  nb_Namespace :: string
  nb_UID :: string
  nb_Template :: pod_template
  nb_Condition :: NotebookCondition
  nb_Message :: string
  nb_LastTransitionTime :: time
  nb_Url :: string

text \<open>A pod with the user and the group it runs as.\<close>

record notebook_pod = pod +
  nbp_RunAs :: "(int \<times> int) option"

text \<open>
  An ingress with one path, the service and the port name it leads to, and the addresses of its load
  balancers (IP and host name).
\<close>

record notebook_ingress =
  ni_Name :: string
  ni_Namespace :: string
  ni_Labels :: smap
  ni_Annotations :: smap
  ni_OwnerReferences :: "owner_ref list"
  ni_Path :: string
  ni_Service :: string
  ni_PortName :: string
  ni_LoadBalancers :: "(string \<times> string) list"

datatype notebook_call =
    GetNotebook string string
  | GetNotebookPod string string
  | CreateNotebookPod notebook_pod
  | GetNotebookService string string
  | CreateNotebookService service
  | GetNotebookIngress string string
  | CreateNotebookIngress notebook_ingress
  | UpdateNotebookStatus Notebook
  | NotebookEvent string

type_synonym notebook_hist = "notebook_call list"
type_synonym 'a notebook_res = "(go_error + 'a) \<times> notebook_hist"

record notebook_world =
  nw_notebook :: "notebook_hist \<Rightarrow> string \<Rightarrow> string \<Rightarrow> go_error + Notebook"
  nw_pod :: "notebook_hist \<Rightarrow> string \<Rightarrow> string \<Rightarrow> go_error + notebook_pod"
  nw_service :: "notebook_hist \<Rightarrow> string \<Rightarrow> string \<Rightarrow> go_error + service"
  nw_ingress :: "notebook_hist \<Rightarrow> string \<Rightarrow> string \<Rightarrow> go_error + notebook_ingress"
  nw_create_pod :: "notebook_hist \<Rightarrow> notebook_pod \<Rightarrow> go_error + notebook_pod"
  nw_create_service :: "notebook_hist \<Rightarrow> service \<Rightarrow> go_error + service"
  nw_create_ingress :: "notebook_hist \<Rightarrow> notebook_ingress \<Rightarrow> go_error option"
  nw_update :: "notebook_hist \<Rightarrow> Notebook \<Rightarrow> go_error + Notebook"
  nw_now :: "notebook_hist \<Rightarrow> time"

definition NotebookNameLabel :: string where "NotebookNameLabel = ''notebook.kubedl.io/notebook-name''"
definition NotebookContainerName :: string where "NotebookContainerName = ''notebook''"
definition NotebookPortName :: string where "NotebookPortName = ''nb-port''"
definition NotebookDefaultPort :: int where "NotebookDefaultPort = 8888"

subsection \<open>Names, paths and owners\<close>

definition nbNamePrefix :: "string \<Rightarrow> string" where "nbNamePrefix name = ''nb-'' @ name"

definition ingress_path :: "string \<Rightarrow> string \<Rightarrow> string" where
  "ingress_path namespace name = path_Join [''/'', ''notebooks'', namespace, name]"

definition getIngressPath :: "service \<Rightarrow> string" where
  "getIngressPath svc = ingress_path (svc_Namespace svc) (svc_Name svc)"

definition generateNotebookArgsEnv :: "Notebook \<Rightarrow> string" where
  "generateNotebookArgsEnv nb =
     (let path = ingress_path (nb_Namespace nb) (nbNamePrefix (nb_Name nb)) in
      ''--LabApp.base_url='' @ path @ '' --NotebookApp.base_url='' @ path @ '' --ServerApp.base_url='' @ path @
      '' --ServerApp.allow_root=true'' @ '' '' @ ''--LabApp.token='' @ [CHR 0x27, CHR 0x27])"

definition addOwnerReferenceIfMissing :: "owner_ref list \<Rightarrow> Notebook \<Rightarrow> owner_ref list" where
  "addOwnerReferenceIfMissing refs nb =
     (if list_ex (\<lambda>r. or_Kind r = ''Notebook'' \<and> or_UID r = nb_UID nb) refs then refs
      else refs @ [\<lparr>or_APIVersion = nb_APIVersion nb, or_Kind = nb_Kind nb, or_Name = nb_Name nb, or_UID = nb_UID nb,
                    or_Controller = Some True, or_BlockOwnerDeletion = Some True\<rparr>])"

subsection \<open>The pod\<close>

fun env_text :: "env_value \<Rightarrow> string" where
  "env_text (EnvValue v) = v"
| "env_text (EnvFieldRef p) = []"
| "env_text (EnvValueAndRef v p) = v"

text \<open>
  For every variable \<open>NOTEBOOK_ARGS\<close> the arguments are put in front of the value of the variable whose index is that
  of the container.
\<close>

fun prepend_args :: "string \<Rightarrow> nat \<Rightarrow> string list \<Rightarrow> (string \<times> env_value) list \<Rightarrow> go_error + (string \<times> env_value) list" where
  "prepend_args args i [] env = Inr env"
| "prepend_args args i (name # names) env =
     (if name \<noteq> ''NOTEBOOK_ARGS'' then prepend_args args i names env
      else if i \<ge> length env then Inl (Panic ''index out of range'')
      else prepend_args args i names
             (env[i := (fst (env ! i), set_value (args @ '' '' @ env_text (snd (env ! i))) (snd (env ! i)))]))"

definition default_env :: "string list \<Rightarrow> string \<Rightarrow> string \<Rightarrow> (string \<times> env_value) list" where
  "default_env names name value = (if name \<in> set names then [] else [(name, EnvValue value)])"

definition juypter_env :: "Notebook \<Rightarrow> nat \<Rightarrow> (string \<times> env_value) list \<Rightarrow> go_error + (string \<times> env_value) list" where
  "juypter_env nb i env =
     (let names = map fst env; args = generateNotebookArgsEnv nb in
      map_sum id (\<lambda>env1. env1 @ default_env names ''JUPYTER_ENABLE_LAB'' ''yes'' @ default_env names ''NOTEBOOK_ARGS'' args @
          default_env names ''GRANT_SUDO'' ''yes'' @ default_env names ''JUPYTER_ALLOW_INSECURE_WRITES'' ''true'')
        (prepend_args args i names env))"

fun set_lab_env :: "Notebook \<Rightarrow> nat \<Rightarrow> container list \<Rightarrow> go_error + container list" where
  "set_lab_env nb i [] = Inl (Err ''pod does not have container named notebook'')"
| "set_lab_env nb i (c # cs) =
     (if ct_Name c = NotebookContainerName
      then map_sum id (\<lambda>env. c\<lparr>ct_Env := env\<rparr> # cs) (juypter_env nb i (ct_Env c))
      else map_sum id (Cons c) (set_lab_env nb (i + 1) cs))"

definition setJuypterLabEnv :: "Notebook \<Rightarrow> container list \<Rightarrow> go_error + container list" where
  "setJuypterLabEnv nb cs = (if cs = [] then Inl (Err ''container list is zero'') else set_lab_env nb 0 cs)"

text \<open>The first container is logged before the list of containers is checked.\<close>

definition new_notebook_pod :: "Notebook \<Rightarrow> go_error + notebook_pod" where
  "new_notebook_pod nb =
     (let t = nb_Template nb; spec = pt_Spec t in
      if ps_Containers spec = [] then Inl (Panic ''index out of range'')
      else case setJuypterLabEnv nb (ps_Containers spec) of
             Inl e \<Rightarrow> Inl e
           | Inr cs \<Rightarrow>
               Inr \<lparr>pod_Name = nbNamePrefix (nb_Name nb), pod_GenerateName = pt_GenerateName t, pod_Namespace = nb_Namespace nb,
                    pod_UID = [], pod_Labels = (pt_Labels t)(NotebookNameLabel \<mapsto> nb_Name nb),
                    pod_Annotations = pt_Annotations t, pod_Finalizers = pt_Finalizers t,
                    pod_OwnerReferences = addOwnerReferenceIfMissing (pt_OwnerReferences t) nb,
                    pod_DeletionTimestamp = None, pod_ResourceVersion = [], pod_Spec = spec\<lparr>ps_Containers := cs\<rparr>,
                    pod_Phase = PodPhaseOther [], pod_Reason = [], pod_StartTime = None, pod_ContainerStatuses = [],
                    pod_InitContainerStatuses = [], nbp_RunAs = Some (0, 0)\<rparr>)"

definition with_condition :: "Notebook \<Rightarrow> NotebookCondition \<Rightarrow> string \<Rightarrow> time \<Rightarrow> Notebook" where
  "with_condition nb c message t = nb\<lparr>nb_Condition := c, nb_Message := message, nb_LastTransitionTime := t\<rparr>"

definition update_status :: "notebook_world \<Rightarrow> Notebook \<Rightarrow> notebook_hist \<Rightarrow> Notebook notebook_res" where
  "update_status W nb h = (nw_update W h nb, h @ [UpdateNotebookStatus nb])"

definition requeue_error :: "(go_error + 'a) \<times> notebook_hist \<Rightarrow> (Result \<times> go_error + 'a) \<times> notebook_hist" where
  "requeue_error m = (map_sum (Pair (no_result\<lparr>Requeue := True\<rparr>)) id (fst m), snd m)"

definition plain_error :: "(go_error + 'a) \<times> notebook_hist \<Rightarrow> (Result \<times> go_error + 'a) \<times> notebook_hist" where
  "plain_error m = (map_sum (Pair no_result) id (fst m), snd m)"

text \<open>A step that ends the reconciliation with a result and an error.\<close>

definition nb_then ::
    "(Result \<times> go_error + 'a) \<times> notebook_hist \<Rightarrow> ('a \<Rightarrow> notebook_hist \<Rightarrow> (Result \<times> go_error + 'b) \<times> notebook_hist) \<Rightarrow>
     (Result \<times> go_error + 'b) \<times> notebook_hist" where
  "nb_then m k = (case fst m of Inl e \<Rightarrow> (Inl e, snd m) | Inr x \<Rightarrow> k x (snd m))"

definition sync_pod :: "notebook_world \<Rightarrow> Notebook \<Rightarrow> notebook_hist \<Rightarrow> (Result \<times> go_error + Notebook \<times> notebook_pod) \<times> notebook_hist" where
  "sync_pod W nb h =
     (let name = nbNamePrefix (nb_Name nb); h1 = h @ [GetNotebookPod (nb_Namespace nb) name] in
      case nw_pod W h (nb_Namespace nb) name of
        Inr p \<Rightarrow> (Inr (nb, p), h1)
      | Inl e \<Rightarrow>
          (if \<not> IsNotFound e then (Inl (no_result, e), h1)
           else nb_then (plain_error (new_notebook_pod nb, h1)) (\<lambda>p h1.
                nb_then (requeue_error (nw_create_pod W h1 p, h1 @ [CreateNotebookPod p])) (\<lambda>p1 h2.
                  (let h3 = h2 @ [NotebookEvent ''SuccessfulCreatedPod''] in
                   nb_then (plain_error (update_status W
                       (with_condition nb NotebookCreated (''created notebook pod '' @ pod_Name p1) (nw_now W h3)) h3))
                     (\<lambda>nb1 h4. (Inr (nb1, p1), h4)))))))"

subsection \<open>The condition\<close>

definition updateNotebookCondition :: "notebook_world \<Rightarrow> notebook_pod \<Rightarrow> Notebook \<Rightarrow> notebook_hist \<Rightarrow> (bool \<times> Notebook) notebook_res" where
  "updateNotebookCondition W p nb h =
     (case pod_Phase p of
        PodPending \<Rightarrow>
          (if nb_Condition nb = NotebookConditionUnset
           then andThen (update_status W (with_condition nb NotebookCreated (''created notebook pod '' @ pod_Name p) (nw_now W h)) h)
                  (\<lambda>nb1 h1. (Inr (True, nb1), h1))
           else (Inr (True, nb), h))
      | PodRunning \<Rightarrow>
          (if nb_Condition nb \<noteq> NotebookRunning
           then andThen (update_status W (with_condition nb NotebookRunning (''notebook pod '' @ pod_Name p @ '' is running'') (nw_now W h)) h)
                  (\<lambda>nb1 h1. (Inr (False, nb1), h1))
           else (Inr (False, nb), h))
      | PodUnknown \<Rightarrow> (Inr (False, nb), h)
      | PodPhaseOther s \<Rightarrow> (Inr (False, nb), h)
      | ph \<Rightarrow>
          (if nb_Condition nb \<noteq> NotebookTerminated
           then andThen (update_status W (with_condition nb NotebookTerminated
                    (''notebook pod '' @ pod_Name p @ '' terminated: '' @ (if ph = PodFailed then ''Failed'' else ''Succeeded'')) (nw_now W h)) h)
                  (\<lambda>nb1 h1. (Inr (False, nb1), h1))
           else (Inr (False, nb), h)))"

subsection \<open>Service and ingress\<close>

fun findNotebookPort :: "container list \<Rightarrow> int" where
  "findNotebookPort [] = NotebookDefaultPort"
| "findNotebookPort (c # cs) =
     (if ct_Name c = NotebookContainerName
      then (case find (\<lambda>q. cp_Name q = NotebookPortName) (ct_Ports c) of
              Some q \<Rightarrow> cp_ContainerPort q
            | None \<Rightarrow> findNotebookPort cs)
      else findNotebookPort cs)"

definition generateService :: "notebook_pod \<Rightarrow> Notebook \<Rightarrow> service" where
  "generateService p nb =
     (let labels = [NotebookNameLabel \<mapsto> nb_Name nb]; port = findNotebookPort (ps_Containers (pod_Spec p)) in
      \<lparr>svc_Name = nbNamePrefix (nb_Name nb), svc_Namespace = nb_Namespace nb, svc_UID = [], svc_Labels = labels,
       svc_OwnerReferences = addOwnerReferenceIfMissing [] nb, svc_DeletionTimestamp = None, svc_ResourceVersion = [],
       svc_ClusterIP = ''None'', svc_Selector = labels,
       svc_Ports = [\<lparr>sp_Name = NotebookPortName, sp_Port = port, sp_TargetPort = port\<rparr>]\<rparr>)"

definition generateIngress :: "service \<Rightarrow> Notebook \<Rightarrow> string \<Rightarrow> notebook_ingress" where
  "generateIngress svc nb ingressPath =
     \<lparr>ni_Name = nbNamePrefix (nb_Name nb), ni_Namespace = nb_Namespace nb, ni_Labels = svc_Labels svc,
      ni_Annotations = [''kubernetes.io/ingress.class'' \<mapsto> ''nginx''], ni_OwnerReferences = addOwnerReferenceIfMissing [] nb,
      ni_Path = ingressPath, ni_Service = svc_Name svc, ni_PortName = NotebookPortName, ni_LoadBalancers = []\<rparr>"

definition sync_service :: "notebook_world \<Rightarrow> Notebook \<Rightarrow> notebook_pod \<Rightarrow> notebook_hist \<Rightarrow> (Result \<times> go_error + service) \<times> notebook_hist" where
  "sync_service W nb p h =
     (let name = nbNamePrefix (nb_Name nb); h1 = h @ [GetNotebookService (nb_Namespace nb) name] in
      case nw_service W h (nb_Namespace nb) name of
        Inr svc \<Rightarrow> (Inr svc, h1)
      | Inl e \<Rightarrow>
          (if \<not> IsNotFound e then (Inl (no_result, e), h1)
           else let svc = generateService p nb in
                nb_then (requeue_error (nw_create_service W h1 svc, h1 @ [CreateNotebookService svc]))
                  (\<lambda>svc1 h2. (Inr svc1, h2 @ [NotebookEvent ''SuccessfulCreatedService'']))))"

text \<open>The result is the ingress that was read, which has no load balancers when it is only created now.\<close>

definition sync_nb_ingress :: "notebook_world \<Rightarrow> Notebook \<Rightarrow> service \<Rightarrow> notebook_hist \<Rightarrow> (Result \<times> go_error + (string \<times> string) list) \<times> notebook_hist" where
  "sync_nb_ingress W nb svc h =
     (let name = nbNamePrefix (nb_Name nb); h1 = h @ [GetNotebookIngress (nb_Namespace nb) name] in
      case nw_ingress W h (nb_Namespace nb) name of
        Inr ing \<Rightarrow> (Inr (ni_LoadBalancers ing), h1)
      | Inl e \<Rightarrow>
          (if \<not> IsNotFound e then (Inl (no_result, e), h1)
           else let ing = generateIngress svc nb (getIngressPath svc); h2 = h1 @ [CreateNotebookIngress ing] in
                case nw_create_ingress W h1 ing of
                  Some e' \<Rightarrow> (Inl (no_result\<lparr>Requeue := True\<rparr>, e'), h2)
                | None \<Rightarrow> (Inr [], h2 @ [NotebookEvent ''SuccessfulCreateIngress''])))"

definition notebook_url :: "string \<times> string \<Rightarrow> string \<Rightarrow> string" where
  "notebook_url lb path =
     ''http://'' @ (if fst lb \<noteq> [] then fst lb @ path @ ''/'' else if snd lb \<noteq> [] then snd lb @ path @ ''/'' else [])"

definition sync_url ::
    "notebook_world \<Rightarrow> Notebook \<Rightarrow> service \<Rightarrow> (string \<times> string) list \<Rightarrow> bool \<Rightarrow> notebook_hist \<Rightarrow> (Result \<times> go_error + bool) \<times> notebook_hist" where
  "sync_url W nb svc lbs again h =
     (if nb_Url nb \<noteq> [] then (Inr again, h)
      else case lbs of
             [] \<Rightarrow> (Inr True, h)
           | lb # rest \<Rightarrow>
               nb_then (plain_error (update_status W (nb\<lparr>nb_Url := notebook_url lb (getIngressPath svc)\<rparr>) h))
                 (\<lambda>nb1 h1. (Inr again, h1)))"

subsection \<open>Reconciliation\<close>

definition notebook_steps :: "notebook_world \<Rightarrow> Notebook \<Rightarrow> notebook_hist \<Rightarrow> (Result \<times> go_error + bool) \<times> notebook_hist" where
  "notebook_steps W nb h =
     nb_then (sync_pod W nb h) (\<lambda>(nb1, p) h1.
     nb_then (plain_error (updateNotebookCondition W p nb1 h1)) (\<lambda>(again, nb2) h2.
     nb_then (sync_service W nb2 p h2) (\<lambda>svc h3.
     nb_then (sync_nb_ingress W nb2 svc h3) (\<lambda>lbs h4. sync_url W nb2 svc lbs again h4))))"

definition Notebook_Reconcile :: "notebook_world \<Rightarrow> string \<Rightarrow> string \<Rightarrow> notebook_hist \<Rightarrow> outcome \<times> notebook_hist" where
  "Notebook_Reconcile W ns n h =
     (let h1 = h @ [GetNotebook ns n] in
      case nw_notebook W h ns n of
        Inl e \<Rightarrow> ((no_result, if IsNotFound e then None else Some e), h1)
      | Inr nb \<Rightarrow>
          (if nb_Condition nb = NotebookTerminated then ((no_result, None), h1)
           else case notebook_steps W nb h1 of
                  (Inl (result, e), h2) \<Rightarrow> ((result, Some e), h2)
                | (Inr again, h2) \<Rightarrow> ((no_result\<lparr>Requeue := again\<rparr>, None), h2)))"

subsection \<open>The environment of the notebook\<close>

lemma prepend_none: "''NOTEBOOK_ARGS'' \<notin> set names \<Longrightarrow> prepend_args args i names env = Inr env"
  by (induction names arbitrary: env) auto

lemma set_lab_env_container:
  "set_lab_env nb i cs = Inr cs' \<Longrightarrow> \<exists>c c' j. c \<in> set cs \<and> c' \<in> set cs' \<and> ct_Name c' = NotebookContainerName \<and>
     juypter_env nb j (ct_Env c) = Inr (ct_Env c')"
proof (induction cs arbitrary: i cs')
  case (Cons c cs)
  show ?case
  proof (cases "ct_Name c = NotebookContainerName")
    case True
    with Cons.prems obtain env where "juypter_env nb i (ct_Env c) = Inr env" "cs' = c\<lparr>ct_Env := env\<rparr> # cs"
      by (cases "juypter_env nb i (ct_Env c)") auto
    with True show ?thesis by (intro exI [where x = c] exI [where x = "c\<lparr>ct_Env := env\<rparr>"]) auto
  next
    case False
    with Cons.prems obtain ds where "set_lab_env nb (i + 1) cs = Inr ds" "cs' = c # ds"
      by (cases "set_lab_env nb (i + 1) cs") auto
    with Cons.IH show ?thesis by (metis list.set_intros(2))
  qed
qed simp

text \<open>The pod of a notebook is told the path under which the ingress of the notebook is to serve it.\<close>

definition pod_ok :: "Notebook \<Rightarrow> notebook_pod \<Rightarrow> bool" where
  "pod_ok nb p \<longleftrightarrow>
     pod_Name p = nbNamePrefix (nb_Name nb) \<and> pod_Namespace p = nb_Namespace nb \<and>
     pod_Labels p NotebookNameLabel = Some (nb_Name nb) \<and> nbp_RunAs p = Some (0, 0) \<and>
     list_ex (\<lambda>r. or_UID r = nb_UID nb) (pod_OwnerReferences p) \<and>
     (list_all (\<lambda>c. ''NOTEBOOK_ARGS'' \<notin> set (map fst (ct_Env c))) (ps_Containers (pt_Spec (nb_Template nb))) \<longrightarrow>
        list_ex (\<lambda>c. ct_Name c = NotebookContainerName \<and>
            (''NOTEBOOK_ARGS'', EnvValue (generateNotebookArgsEnv nb)) \<in> set (ct_Env c)) (ps_Containers (pod_Spec p)))"

lemma owner_added: "\<exists>r\<in>set (addOwnerReferenceIfMissing refs nb). or_UID r = nb_UID nb"
  by (auto simp: addOwnerReferenceIfMissing_def list_ex_iff)

lemma new_notebook_pod_ok:
  assumes "new_notebook_pod nb = Inr p"
  shows "pod_ok nb p"
proof -
  let ?cs = "ps_Containers (pt_Spec (nb_Template nb))"
  obtain cs where cs: "set_lab_env nb 0 ?cs = Inr cs" "ps_Containers (pod_Spec p) = cs"
    using assms by (auto simp: new_notebook_pod_def setJuypterLabEnv_def Let_def split: if_splits sum.splits)
  from set_lab_env_container [OF cs(1)] obtain c c' j where c: "c \<in> set ?cs" "c' \<in> set cs" "ct_Name c' = NotebookContainerName"
    "juypter_env nb j (ct_Env c) = Inr (ct_Env c')" by blast
  have "(''NOTEBOOK_ARGS'', EnvValue (generateNotebookArgsEnv nb)) \<in> set (ct_Env c')"
    if "''NOTEBOOK_ARGS'' \<notin> set (map fst (ct_Env c))"
  proof -
    from prepend_none [OF that] c(4) that have "ct_Env c' = ct_Env c @
        default_env (map fst (ct_Env c)) ''JUPYTER_ENABLE_LAB'' ''yes'' @
        [(''NOTEBOOK_ARGS'', EnvValue (generateNotebookArgsEnv nb))] @
        default_env (map fst (ct_Env c)) ''GRANT_SUDO'' ''yes'' @
        default_env (map fst (ct_Env c)) ''JUPYTER_ALLOW_INSECURE_WRITES'' ''true''"
      by (simp add: juypter_env_def default_env_def Let_def)
    then show ?thesis by simp
  qed
  with c cs assms show ?thesis
    by (auto simp: new_notebook_pod_def pod_ok_def owner_added Let_def list_all_iff list_ex_iff split: if_splits sum.splits)
qed

subsection \<open>What a reconciliation does\<close>

definition call_ok :: "Notebook \<Rightarrow> notebook_call \<Rightarrow> bool" where
  "call_ok nb c = (case c of
       CreateNotebookPod p \<Rightarrow> pod_ok nb p
     | CreateNotebookService s \<Rightarrow>
         svc_Name s = nbNamePrefix (nb_Name nb) \<and> svc_Namespace s = nb_Namespace nb \<and> svc_Selector s = [NotebookNameLabel \<mapsto> nb_Name nb]
     | CreateNotebookIngress i \<Rightarrow>
         ni_Name i = nbNamePrefix (nb_Name nb) \<and> ni_Namespace i = nb_Namespace nb \<and> ni_Service i = nbNamePrefix (nb_Name nb) \<and>
         ni_Path i = ingress_path (nb_Namespace nb) (nbNamePrefix (nb_Name nb))
     | _ \<Rightarrow> True)"

text \<open>The conditions among the writes of the status, and the condition that a pod in a phase calls for.\<close>

definition written_conditions :: "notebook_call list \<Rightarrow> NotebookCondition list" where
  "written_conditions cs = concat (map (\<lambda>c. case c of UpdateNotebookStatus nb \<Rightarrow> [nb_Condition nb] | _ \<Rightarrow> []) cs)"

lemma written_conditions_simps [simp]:
  "written_conditions [] = []"
  "written_conditions (c # cs) = (case c of UpdateNotebookStatus nb \<Rightarrow> [nb_Condition nb] | _ \<Rightarrow> []) @ written_conditions cs"
  "written_conditions (cs @ ds) = written_conditions cs @ written_conditions ds"
  by (simp_all add: written_conditions_def)

definition condition_due :: "NotebookCondition \<Rightarrow> pod_phase \<Rightarrow> NotebookCondition" where
  "condition_due c phase =
     (case phase of
        PodPending \<Rightarrow> if c = NotebookConditionUnset then NotebookCreated else c
      | PodRunning \<Rightarrow> NotebookRunning
      | PodFailed \<Rightarrow> NotebookTerminated
      | PodSucceeded \<Rightarrow> NotebookTerminated
      | _ \<Rightarrow> c)"

text \<open>
  The conditions that the calls after \<open>h\<close> write: with a pod, the condition its phase calls for, which is
  written if it is a new one; without one, none if no pod is made, and otherwise the pod is reported as
  created before its phase counts.
\<close>

definition conditions_follow :: "notebook_world \<Rightarrow> Notebook \<Rightarrow> notebook_hist \<Rightarrow> notebook_call list \<Rightarrow> bool" where
  "conditions_follow W nb h cs \<longleftrightarrow>
     (let name = nbNamePrefix (nb_Name nb); g = GetNotebookPod (nb_Namespace nb) name; ds = written_conditions cs in
      case nw_pod W h (nb_Namespace nb) name of
        Inr p \<Rightarrow> set ds \<subseteq> {condition_due (nb_Condition nb) (pod_Phase p)} \<and>
          (condition_due (nb_Condition nb) (pod_Phase p) \<noteq> nb_Condition nb \<longrightarrow> ds \<noteq> [])
      | Inl e \<Rightarrow> ds = [] \<and> (\<forall>q. CreateNotebookPod q \<in> set cs \<longrightarrow> isl (nw_create_pod W (h @ [g]) q)) \<or>
          (\<exists>q p rest ds'. cs = g # CreateNotebookPod q # rest \<and> nw_create_pod W (h @ [g]) q = Inr p \<and>
             ds = NotebookCreated # ds' \<and> set ds' \<subseteq> {condition_due NotebookCreated (pod_Phase p)}))"

text \<open>Among the calls an object of the notebook is read, and if it is not there it is created.\<close>

definition object_there ::
    "(notebook_hist \<Rightarrow> string \<Rightarrow> string \<Rightarrow> go_error + 'o) \<Rightarrow> (string \<Rightarrow> string \<Rightarrow> notebook_call) \<Rightarrow> ('o \<Rightarrow> notebook_call) \<Rightarrow>
     Notebook \<Rightarrow> notebook_hist \<Rightarrow> notebook_call list \<Rightarrow> bool" where
  "object_there read get create nb h cs \<longleftrightarrow>
     (\<exists>a b. cs = a @ get (nb_Namespace nb) (nbNamePrefix (nb_Name nb)) # b \<and>
        (case read (h @ a) (nb_Namespace nb) (nbNamePrefix (nb_Name nb)) of
           Inr x \<Rightarrow> True
         | Inl e \<Rightarrow> IsNotFound e \<and> (\<exists>x. create x \<in> set b)))"

definition objects_there :: "notebook_world \<Rightarrow> Notebook \<Rightarrow> notebook_hist \<Rightarrow> notebook_call list \<Rightarrow> bool" where
  "objects_there W nb h cs \<longleftrightarrow>
     object_there (nw_pod W) GetNotebookPod CreateNotebookPod nb h cs \<and>
     object_there (nw_service W) GetNotebookService CreateNotebookService nb h cs \<and>
     object_there (nw_ingress W) GetNotebookIngress CreateNotebookIngress nb h cs"

lemma object_there_now:
  assumes "case read h (nb_Namespace nb) (nbNamePrefix (nb_Name nb)) of Inr x \<Rightarrow> True | Inl e \<Rightarrow> IsNotFound e \<and> (\<exists>x. create x \<in> set b)"
  shows "object_there read get create nb h (get (nb_Namespace nb) (nbNamePrefix (nb_Name nb)) # b)"
  unfolding object_there_def using assms by (intro exI [of _ "[]"] exI [of _ b]) simp

lemma object_there_prefix:
  assumes "object_there read get create nb (h @ a) cs"
  shows "object_there read get create nb h (a @ cs)"
proof -
  let ?ns = "nb_Namespace nb" and ?n = "nbNamePrefix (nb_Name nb)"
  from assms obtain b d where "cs = b @ get ?ns ?n # d"
    "case read ((h @ a) @ b) ?ns ?n of Inr x \<Rightarrow> True | Inl e \<Rightarrow> IsNotFound e \<and> (\<exists>x. create x \<in> set d)"
    unfolding object_there_def by blast
  then show ?thesis unfolding object_there_def by (intro exI [of _ "a @ b"] exI [of _ d]) simp
qed

lemma object_there_suffix:
  assumes "object_there read get create nb h cs"
  shows "object_there read get create nb h (cs @ e)"
proof -
  let ?ns = "nb_Namespace nb" and ?n = "nbNamePrefix (nb_Name nb)"
  from assms obtain b d where "cs = b @ get ?ns ?n # d"
    "case read (h @ b) ?ns ?n of Inr x \<Rightarrow> True | Inl e \<Rightarrow> IsNotFound e \<and> (\<exists>x. create x \<in> set d)"
    unfolding object_there_def by blast
  then show ?thesis unfolding object_there_def
    by (intro exI [of _ b] exI [of _ "d @ e"]) (auto split: sum.splits)
qed

text \<open>The server gives back what it is sent and what it is asked for.\<close>

definition honest_server :: "notebook_world \<Rightarrow> bool" where
  "honest_server W \<longleftrightarrow>
     (\<forall>h x y. nw_update W h x = Inr y \<longrightarrow> y = x) \<and>
     (\<forall>h ns n s. nw_service W h ns n = Inr s \<longrightarrow> svc_Name s = n \<and> svc_Namespace s = ns) \<and>
     (\<forall>h s s'. nw_create_service W h s = Inr s' \<longrightarrow> svc_Name s' = svc_Name s \<and> svc_Namespace s' = svc_Namespace s)"

text \<open>Two states of a notebook in one reconciliation, and the calls of a part of it.\<close>

definition same_notebook :: "Notebook \<Rightarrow> Notebook \<Rightarrow> bool" where
  "same_notebook nb nb' \<longleftrightarrow> nb_Name nb' = nb_Name nb \<and> nb_Namespace nb' = nb_Namespace nb"

lemma same_notebook_refl [simp]: "same_notebook nb nb"
  by (simp add: same_notebook_def)

lemma same_notebook_trans: "same_notebook nb nb1 \<Longrightarrow> same_notebook nb1 nb2 \<Longrightarrow> same_notebook nb nb2"
  by (simp add: same_notebook_def)

lemma same_notebook_updated [simp]: "same_notebook nb (with_condition nb c m t)" "same_notebook nb (nb\<lparr>nb_Url := u\<rparr>)"
  by (simp_all add: same_notebook_def with_condition_def)

lemma same_object_there: "same_notebook nb nb' \<Longrightarrow> object_there read get create nb' h cs = object_there read get create nb h cs"
  by (simp add: same_notebook_def object_there_def)

lemma nb_then_cases:
  assumes "nb_then m k = (r, h')"
  obtains e where "m = (Inl e, h')" "r = Inl e" | x h1 where "m = (Inr x, h1)" "k x h1 = (r, h')"
  using assms by (cases m; cases "fst m") (auto simp: nb_then_def)

lemma plain_error_Inr [simp]: "plain_error m = (Inr x, h) \<longleftrightarrow> m = (Inr x, h)"
  by (cases m; cases "fst m") (auto simp: plain_error_def)

lemma snd_plain [simp]: "snd (plain_error m) = snd m" "snd (requeue_error m) = snd m"
  by (simp_all add: plain_error_def requeue_error_def)

lemma requeue_error_Inr [simp]: "requeue_error m = (Inr x, h) \<longleftrightarrow> m = (Inr x, h)"
  by (cases m; cases "fst m") (auto simp: requeue_error_def)

lemma error_Inl:
  "plain_error m = (Inl x, h) \<Longrightarrow> \<exists>e. m = (Inl e, h)"
  "requeue_error m = (Inl x, h) \<Longrightarrow> \<exists>e. m = (Inl e, h)"
  by (cases m; cases "fst m"; auto simp: plain_error_def requeue_error_def)+

text \<open>The pod: found, refused, or created and reported.\<close>

lemma sync_pod_effect:
  assumes "sync_pod W nb h = (r, h')" "honest_server W"
  shows "\<exists>cs. h' = h @ cs \<and> list_all (call_ok nb) cs \<and>
    (case nw_pod W h (nb_Namespace nb) (nbNamePrefix (nb_Name nb)) of
       Inr p \<Rightarrow> cs = [GetNotebookPod (nb_Namespace nb) (nbNamePrefix (nb_Name nb))] \<and> r = Inr (nb, p)
     | Inl e \<Rightarrow>
         isl r \<and> written_conditions cs = [] \<and> (\<forall>q. CreateNotebookPod q \<in> set cs \<longrightarrow>
           isl (nw_create_pod W (h @ [GetNotebookPod (nb_Namespace nb) (nbNamePrefix (nb_Name nb))]) q)) \<or>
         IsNotFound e \<and> (\<exists>q p rest. cs = GetNotebookPod (nb_Namespace nb) (nbNamePrefix (nb_Name nb)) # CreateNotebookPod q # rest \<and>
           nw_create_pod W (h @ [GetNotebookPod (nb_Namespace nb) (nbNamePrefix (nb_Name nb))]) q = Inr p \<and>
           written_conditions cs = [NotebookCreated] \<and>
           (\<forall>nb1 p1. r = Inr (nb1, p1) \<longrightarrow> p1 = p \<and> same_notebook nb nb1 \<and> nb_Condition nb1 = NotebookCreated)))"
proof -
  let ?name = "nbNamePrefix (nb_Name nb)" let ?g = "GetNotebookPod (nb_Namespace nb) ?name"
  have get: "call_ok nb ?g" by (simp add: call_ok_def)
  show ?thesis
  proof (cases "nw_pod W h (nb_Namespace nb) ?name")
    case (Inr p)
    with assms(1) get show ?thesis by (auto simp: sync_pod_def)
  next
    case (Inl e)
    show ?thesis
    proof (cases "IsNotFound e")
      case False
      with Inl assms(1) get show ?thesis by (auto simp: sync_pod_def)
    next
      case True
      with Inl assms(1) have "nb_then (plain_error (new_notebook_pod nb, h @ [?g])) (\<lambda>p h1.
          nb_then (requeue_error (nw_create_pod W h1 p, h1 @ [CreateNotebookPod p])) (\<lambda>p1 h2.
            (let h3 = h2 @ [NotebookEvent ''SuccessfulCreatedPod''] in
             nb_then (plain_error (update_status W
                 (with_condition nb NotebookCreated (''created notebook pod '' @ pod_Name p1) (nw_now W h3)) h3))
               (\<lambda>nb1 h4. (Inr (nb1, p1), h4))))) = (r, h')"
        by (simp add: sync_pod_def Let_def)
      then show ?thesis
      proof (cases rule: nb_then_cases)
        case (1 e')
        with error_Inl(1) [OF 1(1)] have "h' = h @ [?g]" by auto
        with 1 get Inl show ?thesis by auto
      next
        case (2 q h1)
        then have q: "call_ok nb (CreateNotebookPod q)" "h1 = h @ [?g]" by (auto simp: call_ok_def new_notebook_pod_ok)
        from 2(2) show ?thesis
        proof (cases rule: nb_then_cases)
          case (1 e')
          from error_Inl(2) [OF 1(1)] q have "h' = h @ [?g, CreateNotebookPod q]" "isl (nw_create_pod W (h @ [?g]) q)" by auto
          with 1 q get Inl show ?thesis by (intro exI [of _ "[?g, CreateNotebookPod q]"]) simp
        next
          case (2 p1 h2)
          let ?nb = "with_condition nb NotebookCreated (''created notebook pod '' @ pod_Name p1)
            (nw_now W (h2 @ [NotebookEvent ''SuccessfulCreatedPod'']))"
          let ?rest = "[NotebookEvent ''SuccessfulCreatedPod'', UpdateNotebookStatus ?nb]"
          have ok: "list_all (call_ok nb) ?rest" by (simp add: call_ok_def)
          have c: "nb_Condition ?nb = NotebookCreated" by (simp add: with_condition_def)
          from 2 q have h2: "h2 = h @ [?g, CreateNotebookPod q]" "nw_create_pod W (h @ [?g]) q = Inr p1" by simp_all
          from 2(2) have r: "h' = h2 @ ?rest" "\<forall>nb1 p2. r = Inr (nb1, p2) \<longrightarrow> p2 = p1 \<and> nb1 = ?nb"
            using assms(2)
            by (auto simp: nb_then_def plain_error_def update_status_def honest_server_def Let_def map_sum_def split: sum.splits)
          show ?thesis
            using Inl True q(1) get ok h2 r c
            by (intro exI [of _ "?g # CreateNotebookPod q # ?rest"]) auto
        qed
      qed
    qed
  qed
qed

lemma condition_effect:
  assumes "updateNotebookCondition W p nb1 h = (r, h')" "honest_server W"
  shows "\<exists>cs. h' = h @ cs \<and> list_all (call_ok nb) cs \<and>
    written_conditions cs =
      (if condition_due (nb_Condition nb1) (pod_Phase p) = nb_Condition nb1 then [] else [condition_due (nb_Condition nb1) (pod_Phase p)]) \<and>
    (\<forall>q. CreateNotebookPod q \<notin> set cs) \<and>
    (\<forall>again nb2. r = Inr (again, nb2) \<longrightarrow> same_notebook nb1 nb2 \<and> nb_Condition nb2 = condition_due (nb_Condition nb1) (pod_Phase p))"
proof -
  have upd: ?thesis
    if "andThen (update_status W (with_condition nb1 c message (nw_now W h)) h) (\<lambda>nb2 h1. (Inr (b, nb2), h1)) = (r, h')"
      "c = condition_due (nb_Condition nb1) (pod_Phase p)" "c \<noteq> nb_Condition nb1" for c message b
  proof -
    let ?nb = "with_condition nb1 c message (nw_now W h)"
    have "nb_Condition ?nb = c" by (simp add: with_condition_def)
    moreover have "call_ok nb (UpdateNotebookStatus ?nb)" by (simp add: call_ok_def)
    moreover have "h' = h @ [UpdateNotebookStatus ?nb]" "\<forall>again nb2. r = Inr (again, nb2) \<longrightarrow> nb2 = ?nb"
      using that(1) assms(2) by (auto simp: update_status_def andThen_def honest_server_def split: sum.splits)
    ultimately show ?thesis using that(2,3) by (intro exI [of _ "[UpdateNotebookStatus ?nb]"]) auto
  qed
  have none: ?thesis if "(Inr (b, nb1), h) = (r, h')" "condition_due (nb_Condition nb1) (pod_Phase p) = nb_Condition nb1" for b
    using that by (intro exI [of _ "[]"]) auto
  note def = updateNotebookCondition_def
  show ?thesis
  proof (cases "pod_Phase p")
    case PodPending
    show ?thesis
    proof (cases "nb_Condition nb1 = NotebookConditionUnset")
      case True
      with assms(1) PodPending have run: "andThen (update_status W (with_condition nb1 NotebookCreated
          (''created notebook pod '' @ pod_Name p) (nw_now W h)) h) (\<lambda>nb2 h1. (Inr (True, nb2), h1)) = (r, h')" by (simp add: def)
      show ?thesis by (rule upd [OF run]) (simp_all add: condition_due_def PodPending True)
    next
      case False
      with assms(1) PodPending have run: "(Inr (True, nb1), h) = (r, h')" by (simp add: def)
      show ?thesis by (rule none [OF run]) (simp add: condition_due_def PodPending False)
    qed
  next
    case PodRunning
    show ?thesis
    proof (cases "nb_Condition nb1 = NotebookRunning")
      case False
      with assms(1) PodRunning have run: "andThen (update_status W (with_condition nb1 NotebookRunning
          (''notebook pod '' @ pod_Name p @ '' is running'') (nw_now W h)) h) (\<lambda>nb2 h1. (Inr (False, nb2), h1)) = (r, h')" by (simp add: def)
      show ?thesis by (rule upd [OF run]) (use False in \<open>simp_all add: condition_due_def PodRunning\<close>)
    next
      case True
      with assms(1) PodRunning have run: "(Inr (False, nb1), h) = (r, h')" by (simp add: def)
      show ?thesis by (rule none [OF run]) (simp add: condition_due_def PodRunning True)
    qed
  next
    case PodSucceeded
    show ?thesis
    proof (cases "nb_Condition nb1 = NotebookTerminated")
      case False
      with assms(1) PodSucceeded have run: "andThen (update_status W (with_condition nb1 NotebookTerminated
          (''notebook pod '' @ pod_Name p @ '' terminated: '' @ ''Succeeded'') (nw_now W h)) h) (\<lambda>nb2 h1. (Inr (False, nb2), h1)) = (r, h')"
        by (simp add: def)
      show ?thesis by (rule upd [OF run]) (use False in \<open>simp_all add: condition_due_def PodSucceeded\<close>)
    next
      case True
      with assms(1) PodSucceeded have run: "(Inr (False, nb1), h) = (r, h')" by (simp add: def)
      show ?thesis by (rule none [OF run]) (simp add: condition_due_def PodSucceeded True)
    qed
  next
    case PodFailed
    show ?thesis
    proof (cases "nb_Condition nb1 = NotebookTerminated")
      case False
      with assms(1) PodFailed have run: "andThen (update_status W (with_condition nb1 NotebookTerminated
          (''notebook pod '' @ pod_Name p @ '' terminated: '' @ ''Failed'') (nw_now W h)) h) (\<lambda>nb2 h1. (Inr (False, nb2), h1)) = (r, h')"
        by (simp add: def)
      show ?thesis by (rule upd [OF run]) (use False in \<open>simp_all add: condition_due_def PodFailed\<close>)
    next
      case True
      with assms(1) PodFailed have run: "(Inr (False, nb1), h) = (r, h')" by (simp add: def)
      show ?thesis by (rule none [OF run]) (simp add: condition_due_def PodFailed True)
    qed
  next
    case PodUnknown
    with assms(1) have run: "(Inr (False, nb1), h) = (r, h')" by (simp add: def)
    show ?thesis by (rule none [OF run]) (simp add: condition_due_def PodUnknown)
  next
    case (PodPhaseOther ph)
    with assms(1) have run: "(Inr (False, nb1), h) = (r, h')" by (simp add: def)
    show ?thesis by (rule none [OF run]) (simp add: condition_due_def PodPhaseOther)
  qed
qed

lemma sync_service_effect:
  assumes "sync_service W nb2 p h = (r, h')" "honest_server W" "same_notebook nb nb2"
  shows "\<exists>cs. h' = h @ cs \<and> list_all (call_ok nb) cs \<and> written_conditions cs = [] \<and> (\<forall>q. CreateNotebookPod q \<notin> set cs) \<and>
    (\<forall>svc. r = Inr svc \<longrightarrow> svc_Name svc = nbNamePrefix (nb_Name nb) \<and> svc_Namespace svc = nb_Namespace nb \<and>
       object_there (nw_service W) GetNotebookService CreateNotebookService nb h cs)"
  using assms
  by (auto simp: sync_service_def nb_then_def requeue_error_def honest_server_def same_notebook_def generateService_def Let_def
      call_ok_def map_sum_def intro!: object_there_now split: sum.splits if_splits)

lemma sync_nb_ingress_effect:
  assumes "sync_nb_ingress W nb2 svc h = (r, h')" "same_notebook nb nb2"
    and "svc_Name svc = nbNamePrefix (nb_Name nb)" "svc_Namespace svc = nb_Namespace nb"
  shows "\<exists>cs. h' = h @ cs \<and> list_all (call_ok nb) cs \<and> written_conditions cs = [] \<and> (\<forall>q. CreateNotebookPod q \<notin> set cs) \<and>
    (\<not> isl r \<longrightarrow> object_there (nw_ingress W) GetNotebookIngress CreateNotebookIngress nb h cs)"
  using assms
  by (auto simp: sync_nb_ingress_def same_notebook_def generateIngress_def getIngressPath_def Let_def call_ok_def
      intro!: object_there_now split: sum.splits if_splits option.splits)

lemma sync_url_effect:
  assumes "sync_url W nb2 svc lbs again h = (r, h')"
  shows "\<exists>cs. h' = h @ cs \<and> list_all (call_ok nb) cs \<and> set (written_conditions cs) \<subseteq> {nb_Condition nb2} \<and>
    (\<forall>q. CreateNotebookPod q \<notin> set cs)"
  using assms
  by (auto simp: sync_url_def nb_then_def plain_error_def update_status_def Let_def call_ok_def map_sum_def
      split: sum.splits if_splits list.splits)

lemma after_pod_effect:
  assumes "nb_then (plain_error (updateNotebookCondition W p nb1 h)) (\<lambda>(again, nb2) h2.
      nb_then (sync_service W nb2 p h2) (\<lambda>svc h3.
      nb_then (sync_nb_ingress W nb2 svc h3) (\<lambda>lbs h4. sync_url W nb2 svc lbs again h4))) = (r, h')"
    and "honest_server W" "same_notebook nb nb1"
  defines "due \<equiv> condition_due (nb_Condition nb1) (pod_Phase p)"
  shows "\<exists>cs. h' = h @ cs \<and> list_all (call_ok nb) cs \<and> set (written_conditions cs) \<subseteq> {due} \<and>
    (due \<noteq> nb_Condition nb1 \<longrightarrow> written_conditions cs \<noteq> []) \<and> (\<forall>q. CreateNotebookPod q \<notin> set cs) \<and>
    (\<not> isl r \<longrightarrow> object_there (nw_service W) GetNotebookService CreateNotebookService nb h cs \<and>
       object_there (nw_ingress W) GetNotebookIngress CreateNotebookIngress nb h cs)"
  using assms(1)
proof (cases rule: nb_then_cases)
  case (1 e)
  from error_Inl(1) [OF 1(1)] obtain e' where "updateNotebookCondition W p nb1 h = (Inl e', h')" by blast
  from condition_effect [OF this assms(2), of nb] 1 show ?thesis unfolding due_def by fastforce
next
  case (2 y h2)
  obtain again nb2 where y: "y = (again, nb2)" by (cases y)
  from 2(1) y have "updateNotebookCondition W p nb1 h = (Inr (again, nb2), h2)" by simp
  from condition_effect [OF this assms(2), of nb] obtain cs2 where c2: "h2 = h @ cs2" "list_all (call_ok nb) cs2"
    "written_conditions cs2 = (if due = nb_Condition nb1 then [] else [due])" "\<forall>q. CreateNotebookPod q \<notin> set cs2"
    and nb2: "same_notebook nb1 nb2" "nb_Condition nb2 = due" unfolding due_def by auto
  have same: "same_notebook nb nb2" by (rule same_notebook_trans [OF assms(3) nb2(1)])
  from 2(2) [unfolded y prod.case] show ?thesis
  proof (cases rule: nb_then_cases)
    case (1 e)
    from sync_service_effect [OF 1(1) assms(2) same] obtain cs3 where "h' = h2 @ cs3" "list_all (call_ok nb) cs3"
      "written_conditions cs3 = []" "\<forall>q. CreateNotebookPod q \<notin> set cs3" by auto
    with c2 1 show ?thesis by (intro exI [of _ "cs2 @ cs3"]) simp
  next
    case (2 svc h3)
    from sync_service_effect [OF 2(1) assms(2) same] obtain cs3 where c3: "h3 = h2 @ cs3" "list_all (call_ok nb) cs3"
      "written_conditions cs3 = []" "\<forall>q. CreateNotebookPod q \<notin> set cs3"
      and svc: "svc_Name svc = nbNamePrefix (nb_Name nb)" "svc_Namespace svc = nb_Namespace nb"
        "object_there (nw_service W) GetNotebookService CreateNotebookService nb h2 cs3" by auto
    from 2(2) show ?thesis
    proof (cases rule: nb_then_cases)
      case (1 e)
      from sync_nb_ingress_effect [OF 1(1) same svc(1,2)] obtain cs4 where "h' = h3 @ cs4" "list_all (call_ok nb) cs4"
        "written_conditions cs4 = []" "\<forall>q. CreateNotebookPod q \<notin> set cs4" by auto
      with c2 c3 1 show ?thesis by (intro exI [of _ "cs2 @ cs3 @ cs4"]) simp
    next
      case (2 lbs h4)
      from sync_nb_ingress_effect [OF 2(1) same svc(1,2)] obtain cs4 where c4: "h4 = h3 @ cs4" "list_all (call_ok nb) cs4"
        "written_conditions cs4 = []" "\<forall>q. CreateNotebookPod q \<notin> set cs4"
        "object_there (nw_ingress W) GetNotebookIngress CreateNotebookIngress nb h3 cs4" by auto
      from sync_url_effect [OF 2(2), of nb] obtain cs5 where c5: "h' = h4 @ cs5" "list_all (call_ok nb) cs5"
        "set (written_conditions cs5) \<subseteq> {due}" "\<forall>q. CreateNotebookPod q \<notin> set cs5" unfolding nb2(2) by auto
      have "object_there (nw_service W) GetNotebookService CreateNotebookService nb h (cs2 @ cs3 @ cs4 @ cs5)"
        using object_there_prefix [OF object_there_suffix [OF svc(3) [unfolded c2(1)]]] by simp
      moreover have "object_there (nw_ingress W) GetNotebookIngress CreateNotebookIngress nb h ((cs2 @ cs3) @ cs4 @ cs5)"
        by (rule object_there_prefix [OF object_there_suffix]) (use c4(5) c2(1) c3(1) in simp)
      ultimately show ?thesis using c2 c3 c4 c5 by (intro exI [of _ "cs2 @ cs3 @ cs4 @ cs5"]) simp
    qed
  qed
qed

lemma notebook_steps_effect:
  assumes "notebook_steps W nb h = (r, h')" "honest_server W"
  shows "\<exists>cs. h' = h @ cs \<and> list_all (call_ok nb) cs \<and> conditions_follow W nb h cs \<and> (\<not> isl r \<longrightarrow> objects_there W nb h cs)"
proof -
  let ?ns = "nb_Namespace nb" and ?name = "nbNamePrefix (nb_Name nb)"
  let ?g = "GetNotebookPod ?ns ?name"
  obtain x h1 where pod: "sync_pod W nb h = (x, h1)" by (cases "sync_pod W nb h")
  from sync_pod_effect [OF pod assms(2)] obtain cs1 where c1: "h1 = h @ cs1" "list_all (call_ok nb) cs1"
    and read: "case nw_pod W h ?ns ?name of
       Inr p \<Rightarrow> cs1 = [?g] \<and> x = Inr (nb, p)
     | Inl e \<Rightarrow>
         isl x \<and> written_conditions cs1 = [] \<and> (\<forall>q. CreateNotebookPod q \<in> set cs1 \<longrightarrow> isl (nw_create_pod W (h @ [?g]) q)) \<or>
         IsNotFound e \<and> (\<exists>q p rest. cs1 = ?g # CreateNotebookPod q # rest \<and> nw_create_pod W (h @ [?g]) q = Inr p \<and>
           written_conditions cs1 = [NotebookCreated] \<and>
           (\<forall>nb1 p1. x = Inr (nb1, p1) \<longrightarrow> p1 = p \<and> same_notebook nb nb1 \<and> nb_Condition nb1 = NotebookCreated))"
    by blast
  note run = assms(1) [unfolded notebook_steps_def nb_then_def pod fst_conv snd_conv, folded nb_then_def]
  show ?thesis
  proof (cases x)
    case (Inl err)
    with run have r: "isl r" "h' = h1" by (auto simp: nb_then_def)
    have "conditions_follow W nb h cs1"
    proof (cases "nw_pod W h ?ns ?name")
      case no_pod: (Inl e)
      with read show ?thesis by (auto simp: conditions_follow_def Let_def)
    next
      case (Inr p)
      with read Inl show ?thesis by simp
    qed
    with c1 r show ?thesis by auto
  next
    case (Inr y)
    obtain nb1 p where y: "y = (nb1, p)" by (cases y)
    have same: "same_notebook nb nb1"
      using read by (cases "nw_pod W h ?ns ?name") (auto simp: Inr y)
    from run Inr y have "nb_then (plain_error (updateNotebookCondition W p nb1 h1)) (\<lambda>(again, nb2) h2.
      nb_then (sync_service W nb2 p h2) (\<lambda>svc h3.
      nb_then (sync_nb_ingress W nb2 svc h3) (\<lambda>lbs h4. sync_url W nb2 svc lbs again h4))) = (r, h')"
      by (simp add: nb_then_def)
    from after_pod_effect [OF this assms(2) same] obtain cs2 where c2: "h' = h1 @ cs2" "list_all (call_ok nb) cs2"
      "set (written_conditions cs2) \<subseteq> {condition_due (nb_Condition nb1) (pod_Phase p)}"
      "condition_due (nb_Condition nb1) (pod_Phase p) \<noteq> nb_Condition nb1 \<longrightarrow> written_conditions cs2 \<noteq> []"
      and there: "\<not> isl r \<Longrightarrow> object_there (nw_service W) GetNotebookService CreateNotebookService nb h1 cs2"
        "\<not> isl r \<Longrightarrow> object_there (nw_ingress W) GetNotebookIngress CreateNotebookIngress nb h1 cs2" by blast
    have "conditions_follow W nb h (cs1 @ cs2) \<and> object_there (nw_pod W) GetNotebookPod CreateNotebookPod nb h (cs1 @ cs2)"
    proof (cases "nw_pod W h ?ns ?name")
      case found: (Inr p')
      with read Inr y have "cs1 = [?g]" "nb1 = nb" "p = p'" by auto
      with found c2(3,4) show ?thesis
        by (auto simp: conditions_follow_def Let_def intro!: object_there_now)
    next
      case none: (Inl e)
      with read Inr y obtain q rest where q: "cs1 = ?g # CreateNotebookPod q # rest" "nw_create_pod W (h @ [?g]) q = Inr p"
        "written_conditions cs1 = [NotebookCreated]" "nb_Condition nb1 = NotebookCreated" "IsNotFound e" by auto
      have "conditions_follow W nb h (cs1 @ cs2)"
        unfolding conditions_follow_def Let_def none sum.case
        using q c2(3) by (intro disjI2 exI [of _ q] exI [of _ p] exI [of _ "rest @ cs2"] exI [of _ "written_conditions cs2"]) simp
      moreover have "object_there (nw_pod W) GetNotebookPod CreateNotebookPod nb h (cs1 @ cs2)"
        unfolding q(1) append_Cons by (rule object_there_now) (use none q(5) in auto)
      ultimately show ?thesis by blast
    qed
    moreover have "object_there (nw_service W) GetNotebookService CreateNotebookService nb h (cs1 @ cs2) \<and>
        object_there (nw_ingress W) GetNotebookIngress CreateNotebookIngress nb h (cs1 @ cs2)" if "\<not> isl r"
      using there [OF that] c1(1) by (simp add: object_there_prefix)
    ultimately show ?thesis using c1 c2(1,2) by (intro exI [of _ "cs1 @ cs2"]) (simp add: objects_there_def)
  qed
qed

text \<open>
  C37. A notebook is wired together and its condition follows its pod, if the server gives back what it
  is sent and what it is asked for. The pod, the service and the ingress that are created are named after the
  notebook; the service selects the pod by its label, and the ingress leads to the service on the path
  that Jupyter is told as its base URL, unless a container of the template sets \<open>NOTEBOOK_ARGS\<close> itself. A
  request that ends without an error has found or created all three. With a pod the
  condition that its phase calls for is written if it is new, and no other; a pod that is created is reported
  as created before its phase counts; without a pod no condition is written. A terminated notebook is only read.
\<close>

theorem notebook_wired:
  assumes "honest_server W" "nw_notebook W h ns n = Inr nb" "Notebook_Reconcile W ns n h = (out, h')"
  shows "\<exists>cs. h' = h @ GetNotebook ns n # cs \<and> list_all (call_ok nb) cs \<and>
    (if nb_Condition nb = NotebookTerminated then cs = []
     else conditions_follow W nb (h @ [GetNotebook ns n]) cs \<and>
       (snd out = None \<longrightarrow> objects_there W nb (h @ [GetNotebook ns n]) cs))"
proof (cases "nb_Condition nb = NotebookTerminated")
  case True
  with assms(2,3) show ?thesis by (auto simp: Notebook_Reconcile_def)
next
  case False
  obtain r h2 where s: "notebook_steps W nb (h @ [GetNotebook ns n]) = (r, h2)" by (cases "notebook_steps W nb (h @ [GetNotebook ns n])")
  with False assms(2,3) have "h' = h2" "snd out = None \<longleftrightarrow> \<not> isl r"
    by (cases r; auto simp: Notebook_Reconcile_def split: prod.splits)+
  with notebook_steps_effect [OF s assms(1)] False show ?thesis by auto
qed

subsection \<open>Witness\<close>

definition notebook0 :: Notebook where
  "notebook0 = \<lparr>nb_APIVersion = [], nb_Kind = ''Notebook'', nb_Name = ''lab'', nb_Namespace = ''default'', nb_UID = ''u'',
     nb_Template = plain_template ''notebook'', nb_Condition = NotebookConditionUnset, nb_Message = [], nb_LastTransitionTime = 0,
     nb_Url = []\<rparr>"

definition notebook_world0 :: notebook_world where
  "notebook_world0 = \<lparr>nw_notebook = (\<lambda>h ns n. Inr notebook0), nw_pod = (\<lambda>h ns n. Inl NotFound), nw_service = (\<lambda>h ns n. Inl NotFound),
     nw_ingress = (\<lambda>h ns n. Inl NotFound), nw_create_pod = (\<lambda>h p. Inr p), nw_create_service = (\<lambda>h s. Inr s),
     nw_create_ingress = (\<lambda>h i. None), nw_update = (\<lambda>h nb. Inr nb), nw_now = (\<lambda>h. 0)\<rparr>"

lemma there_created:
  assumes "object_there read get create nb h cs" "\<forall>h ns n. isl (read h ns n)"
  shows "\<exists>x. create x \<in> set cs"
proof -
  from assms(1) obtain a b where cs: "cs = a @ get (nb_Namespace nb) (nbNamePrefix (nb_Name nb)) # b"
    and r: "case read (h @ a) (nb_Namespace nb) (nbNamePrefix (nb_Name nb)) of
      Inr x \<Rightarrow> True | Inl e \<Rightarrow> IsNotFound e \<and> (\<exists>x. create x \<in> set b)" unfolding object_there_def by blast
  have "isl (read (h @ a) (nb_Namespace nb) (nbNamePrefix (nb_Name nb)))" using assms(2) by blast
  with r cs show ?thesis by (auto split: sum.splits)
qed

lemma world0_empty:
  "\<forall>h ns n. isl (nw_pod notebook_world0 h ns n)" "\<forall>h ns n. isl (nw_service notebook_world0 h ns n)"
  "\<forall>h ns n. isl (nw_ingress notebook_world0 h ns n)"
  by (simp_all add: notebook_world0_def)

text \<open>The first request for a notebook makes its pod, service and ingress.\<close>

theorem notebook_wired_witness:
  "\<exists>cs p s i. snd (Notebook_Reconcile notebook_world0 ''default'' ''lab'' []) = GetNotebook ''default'' ''lab'' # cs \<and>
     CreateNotebookPod p \<in> set cs \<and> CreateNotebookService s \<in> set cs \<and> CreateNotebookIngress i \<in> set cs \<and>
     pod_ok notebook0 p \<and> svc_Selector s = [NotebookNameLabel \<mapsto> ''lab''] \<and> ni_Service i = svc_Name s"
proof -
  have h: "honest_server notebook_world0" "nw_notebook notebook_world0 [] ''default'' ''lab'' = Inr notebook0"
    by (simp_all add: honest_server_def notebook_world0_def)
  have ok: "snd (fst (Notebook_Reconcile notebook_world0 ''default'' ''lab'' [])) = None" by code_simp
  have t: "nb_Condition notebook0 \<noteq> NotebookTerminated" by (simp add: notebook0_def)
  from notebook_wired [OF h prod.collapse [symmetric]] t ok obtain cs where
    cs: "snd (Notebook_Reconcile notebook_world0 ''default'' ''lab'' []) = GetNotebook ''default'' ''lab'' # cs"
      "list_all (call_ok notebook0) cs" "objects_there notebook_world0 notebook0 [GetNotebook ''default'' ''lab''] cs" by auto
  note there = cs(3) [unfolded objects_there_def]
  from there_created [OF there [THEN conjunct1] world0_empty(1)]
    there_created [OF there [THEN conjunct2, THEN conjunct1] world0_empty(2)]
    there_created [OF there [THEN conjunct2, THEN conjunct2] world0_empty(3)]
  obtain p s i where "CreateNotebookPod p \<in> set cs" "CreateNotebookService s \<in> set cs" "CreateNotebookIngress i \<in> set cs"
    by blast
  moreover from this cs(2) have "call_ok notebook0 (CreateNotebookPod p)" "call_ok notebook0 (CreateNotebookService s)"
    "call_ok notebook0 (CreateNotebookIngress i)" by (auto simp: list_all_iff)
  moreover have "nb_Name notebook0 = ''lab''" by (simp add: notebook0_def)
  ultimately show ?thesis using cs(1)
    by (intro exI [of _ cs] exI [of _ p] exI [of _ s] exI [of _ i]) (simp add: call_ok_def)
qed

text \<open>A template without containers crashes the controller before the check that is there for it.\<close>

lemma no_containers_panics:
  "ps_Containers (pt_Spec (nb_Template nb)) = [] \<Longrightarrow> new_notebook_pod nb = Inl (Panic ''index out of range'')"
  by (simp add: new_notebook_pod_def)

text \<open>
  The arguments of the user are looked for by the index of the container: with the notebook as the first container
  and \<open>NOTEBOOK_ARGS\<close> as its second variable, the base URL ends up in the first variable.
\<close>

lemma args_in_wrong_variable:
  "prepend_args ''--base_url=/x'' 0 [''PATH'', ''NOTEBOOK_ARGS''] [(''PATH'', EnvValue ''/bin''), (''NOTEBOOK_ARGS'', EnvValue ''--debug'')] =
   Inr [(''PATH'', EnvValue ''--base_url=/x /bin''), (''NOTEBOOK_ARGS'', EnvValue ''--debug'')]"
  by simp

end
