(* ===== verification/Persist_Objects.thy ===== *)
theory Persist_Objects
  imports Notebook Resource_Utils
begin

text \<open>
  The rows in which jobs, pods and notebooks are kept (\<open>pkg/storage/dmo/types.go\<close>) and the converters that make them
  (\<open>pkg/storage/dmo/converters\<close>). The JSON codecs and the clock are fields of \<open>convert_env\<close>. The columns
  \<open>gmt_modified\<close>, which the database library fills, are left out.
\<close>

subsection \<open>Objects as they are read\<close>

record stored_meta =
  sm_Name :: string
  sm_Namespace :: string
  sm_UID :: string
  sm_ResourceVersion :: string
  sm_Created :: time
  sm_Annotations :: smap

record stored_job =
  sj_Meta :: stored_meta
  sj_Kind :: string
  sj_Specs :: replica_specs
  sj_Status :: JobStatus

text \<open>The state of a container: when it was started, and how and when it ended.\<close>

record terminated_state =
  tm_Reason :: string
  tm_ExitCode :: int
  tm_Message :: string
  tm_StartedAt :: time
  tm_FinishedAt :: time

record container_state =
  st_Name :: string
  st_RunningSince :: "time option"
  st_TerminatedState :: "terminated_state option"

record stored_pod = pod +
  kp_Created :: time
  kp_PodIP :: string
  kp_HostIP :: string
  kp_States :: "container_state list"

record stored_notebook = Notebook +
  sn_ResourceVersion :: string
  sn_Created :: time
  sn_Annotations :: smap

record Tenancy =
  tn_Tenant :: string
  tn_User :: string
  tn_Region :: string

subsection \<open>Rows\<close>

text \<open>The states of a job that the store adds to those of the job API.\<close>

datatype row_status = Condition JobConditionType | JobStopped

definition PodStopped :: pod_phase where "PodStopped = PodPhaseOther ''Stopped''"

record job_row =
  jr_Name :: string
  jr_Namespace :: string
  jr_JobID :: string
  jr_Version :: string
  jr_Status :: row_status
  jr_Kind :: string
  jr_Resources :: string
  jr_DeployRegion :: "string option"
  jr_Tenant :: "string option"
  jr_Owner :: "string option"
  jr_Deleted :: "int option"
  jr_IsInEtcd :: "int option"
  jr_Remark :: "string option"
  jr_GmtCreated :: time
  jr_GmtJobRunning :: "time option"
  jr_GmtJobFinished :: "time option"

record pod_row =
  pr_PodName :: string
  pr_Namespace :: string
  pr_PodID :: string
  pr_Version :: string
  pr_Status :: pod_phase
  pr_Image :: string
  pr_JobID :: string
  pr_ReplicaType :: string
  pr_Resources :: string
  pr_HostIP :: "string option"
  pr_PodIP :: "string option"
  pr_DeployRegion :: "string option"
  pr_Deleted :: "int option"
  pr_IsInEtcd :: "int option"
  pr_Remark :: "string option"
  pr_GmtCreated :: time
  pr_GmtStarted :: "time option"
  pr_GmtFinished :: "time option"

record notebook_row =
  nr_Name :: string
  nr_Namespace :: string
  nr_NotebookID :: string
  nr_Version :: string
  nr_Status :: NotebookCondition
  nr_Url :: string
  nr_Resources :: string
  nr_DeployRegion :: "string option"
  nr_Tenant :: "string option"
  nr_Owner :: "string option"
  nr_Deleted :: "int option"
  nr_IsInEtcd :: "int option"
  nr_GmtCreated :: time
  nr_GmtRunning :: "time option"
  nr_GmtTerminated :: "time option"

record convert_env =
  ce_quota :: quota_lib
  ce_marshal_pod :: "resource_list \<times> resource_list \<Rightarrow> go_error + string"
  ce_marshal_job :: "(ReplicaType \<times> (resource_list \<times> resource_list) \<times> int) list \<Rightarrow> go_error + string"
  ce_tenancy :: "string \<Rightarrow> go_error + Tenancy"
  ce_zero_time :: time

subsection \<open>Resources\<close>

definition computePodResources :: "quota_lib \<Rightarrow> pod_spec \<Rightarrow> resource_list \<times> resource_list" where
  "computePodResources Q spec =
     (let init = MaximumContainersResources Q (ps_InitContainers spec); run = SumUpContainersResources Q (ps_Containers spec) in
      (ql_Max Q (fst init) (fst run), ql_Max Q (snd init) (snd run)))"

definition computeJobResources :: "quota_lib \<Rightarrow> replica_specs \<Rightarrow> (ReplicaType \<times> (resource_list \<times> resource_list) \<times> int) list" where
  "computeJobResources Q specs =
     map (\<lambda>(t, s). (t, computePodResources Q (pt_Spec (Template s)), case Replicas s of Some n \<Rightarrow> n | None \<Rightarrow> 0)) specs"

subsection \<open>Tenancy\<close>

definition AnnotationTenancyInfo :: string where "AnnotationTenancyInfo = KubeDLPrefix @ ''/tenancy''"

definition GetTenancy :: "convert_env \<Rightarrow> smap \<Rightarrow> go_error + Tenancy option" where
  "GetTenancy E annotations =
     (case annotations AnnotationTenancyInfo of
        Some t \<Rightarrow> map_sum id Some (ce_tenancy E t)
      | None \<Rightarrow> Inr None)"

text \<open>Tenant, owner and region of a row.\<close>

definition row_tenancy :: "convert_env \<Rightarrow> smap \<Rightarrow> string \<Rightarrow> string option \<times> string option \<times> string option" where
  "row_tenancy E annotations region =
     (let r = (if region \<noteq> [] then Some region else None) in
      case GetTenancy E annotations of
        Inr (Some tn) \<Rightarrow>
          (Some (tn_Tenant tn), Some (tn_User tn), if r = None \<and> tn_Region tn \<noteq> [] then Some (tn_Region tn) else r)
      | _ \<Rightarrow> (Some [], Some [], r))"

subsection \<open>Converters\<close>

definition RemarkEnableTensorBoard :: string where "RemarkEnableTensorBoard = ''EnableTensorBoard''"

definition ConvertJobToDMOJob :: "convert_env \<Rightarrow> stored_job \<Rightarrow> string \<Rightarrow> string \<Rightarrow> go_error + job_row" where
  "ConvertJobToDMOJob E job kind region =
     (let m = sj_Meta job; st = sj_Status job; (tenant, owner, deploy_region) = row_tenancy E (sm_Annotations m) region in
      case ce_marshal_job E (computeJobResources (ce_quota E) (sj_Specs job)) of
        Inl e \<Rightarrow> Inl e
      | Inr resources \<Rightarrow>
          Inr \<lparr>jr_Name = sm_Name m, jr_Namespace = sm_Namespace m, jr_JobID = sm_UID m, jr_Version = sm_ResourceVersion m,
               jr_Status = Condition (if Conditions st = [] then JobCreated else jc_Type (last (Conditions st))), jr_Kind = kind,
               jr_Resources = resources, jr_DeployRegion = deploy_region, jr_Tenant = tenant, jr_Owner = owner,
               jr_Deleted = Some 0, jr_IsInEtcd = Some 1,
               jr_Remark = (if sm_Annotations m AnnotationTensorBoardConfig \<noteq> None then Some RemarkEnableTensorBoard else None),
               jr_GmtCreated = sm_Created m, jr_GmtJobRunning = map_option jc_LastTransitionTime (GetCondition st JobRunning),
               jr_GmtJobFinished = CompletionTime st\<rparr>)"

text \<open>The container that stands for the pod: the first one, or a later one of the given name.\<close>

definition main_of :: "('a \<Rightarrow> string) \<Rightarrow> string \<Rightarrow> 'a \<Rightarrow> 'a list \<Rightarrow> 'a" where
  "main_of name wanted first rest = (case find (\<lambda>x. name x = wanted) rest of Some x \<Rightarrow> x | None \<Rightarrow> first)"

definition set_time :: "time \<Rightarrow> time option \<Rightarrow> bool" where
  "set_time zero t \<longleftrightarrow> t \<noteq> None \<and> t \<noteq> Some zero"

definition pod_times :: "convert_env \<Rightarrow> time \<Rightarrow> stored_pod \<Rightarrow> container_state \<Rightarrow> pod_row \<Rightarrow> pod_row" where
  "pod_times E now p c row =
     (let started = (\<lambda>t. if set_time (ce_zero_time E) t then t else Some (kp_Created p)) in
      case pod_Phase p of
        PodRunning \<Rightarrow> row\<lparr>pr_GmtStarted := started (st_RunningSince c)\<rparr>
      | PodPending \<Rightarrow> row
      | PodUnknown \<Rightarrow> row
      | PodPhaseOther s \<Rightarrow> row
      | ph \<Rightarrow>
          (let fin = map_option tm_FinishedAt (st_TerminatedState c) in
           row\<lparr>pr_GmtStarted := started (map_option tm_StartedAt (st_TerminatedState c)),
               pr_GmtFinished := (if set_time (ce_zero_time E) fin then fin else Some now),
               pr_Remark := (if ph = PodFailed
                  then map_option (\<lambda>t. ''Reason: '' @ tm_Reason t @ [CHR 0x0A] @ ''ExitCode: '' @ Itoa (tm_ExitCode t) @ [CHR 0x0A] @
                         ''Message: '' @ tm_Message t) (st_TerminatedState c)
                  else None)\<rparr>))"

definition ConvertPodToDMOPod :: "convert_env \<Rightarrow> time \<Rightarrow> stored_pod \<Rightarrow> string \<Rightarrow> string \<Rightarrow> go_error + pod_row" where
  "ConvertPodToDMOPod E now p defaultContainerName region =
     (let id = fst (ResolveDependentOwner (pod_OwnerReferences p)) in
      if id = [] then Inl (Err ''object has no dependent owner'')
      else case pod_Labels p ReplicaTypeLabel of
             None \<Rightarrow> Inl (Err ''object has no replica type label'')
           | Some rtype \<Rightarrow>
               (case ce_marshal_pod E (computePodResources (ce_quota E) (pod_Spec p)) of
                  Inl e \<Rightarrow> Inl e
                | Inr resources \<Rightarrow>
                    (let row = \<lparr>pr_PodName = pod_Name p, pr_Namespace = pod_Namespace p, pr_PodID = pod_UID p,
                           pr_Version = pod_ResourceVersion p, pr_Status = PodPhaseOther [], pr_Image = [], pr_JobID = id,
                           pr_ReplicaType = rtype, pr_Resources = resources,
                           pr_HostIP = (if kp_HostIP p \<noteq> [] then Some (kp_HostIP p) else None),
                           pr_PodIP = (if kp_PodIP p \<noteq> [] then Some (kp_PodIP p) else None),
                           pr_DeployRegion = (if region \<noteq> [] then Some region else None), pr_Deleted = Some 0, pr_IsInEtcd = Some 1,
                           pr_Remark = None, pr_GmtCreated = kp_Created p, pr_GmtStarted = None, pr_GmtFinished = None\<rparr> in
                     case ps_Containers (pod_Spec p) of
                       [] \<Rightarrow> Inr row
                     | c # cs \<Rightarrow>
                         (let row1 = row\<lparr>pr_Image := ct_Image (main_of ct_Name defaultContainerName c cs), pr_Status := PodUnknown\<rparr> in
                          case kp_States p of
                            [] \<Rightarrow> Inr row1
                          | s # ss \<Rightarrow>
                              Inr (pod_times E now p (main_of st_Name defaultContainerName s ss) (row1\<lparr>pr_Status := pod_Phase p\<rparr>))))))"

definition ConvertNotebookToDMONotebook :: "convert_env \<Rightarrow> stored_notebook \<Rightarrow> string \<Rightarrow> go_error + notebook_row" where
  "ConvertNotebookToDMONotebook E nb region =
     (let (tenant, owner, deploy_region) = row_tenancy E (sn_Annotations nb) region in
      case ce_marshal_pod E (computePodResources (ce_quota E) (pt_Spec (nb_Template nb))) of
        Inl e \<Rightarrow> Inl e
      | Inr resources \<Rightarrow>
          Inr \<lparr>nr_Name = nb_Name nb, nr_Namespace = nb_Namespace nb, nr_NotebookID = nb_UID nb, nr_Version = sn_ResourceVersion nb,
               nr_Status = nb_Condition nb, nr_Url = nb_Url nb, nr_Resources = resources, nr_DeployRegion = deploy_region,
               nr_Tenant = tenant, nr_Owner = owner, nr_Deleted = Some 0, nr_IsInEtcd = Some 1, nr_GmtCreated = sn_Created nb,
               nr_GmtRunning = (if nb_Condition nb = NotebookRunning then Some (nb_LastTransitionTime nb) else None),
               nr_GmtTerminated = (if nb_Condition nb = NotebookTerminated then Some (nb_LastTransitionTime nb) else None)\<rparr>)"

subsection \<open>Conversion keeps the object\<close>

lemma job_row_fields:
  assumes "ConvertJobToDMOJob E job kind region = Inr row"
  shows "jr_Name row = sm_Name (sj_Meta job)" "jr_Namespace row = sm_Namespace (sj_Meta job)" "jr_JobID row = sm_UID (sj_Meta job)"
    "jr_Version row = sm_ResourceVersion (sj_Meta job)" "jr_Deleted row = Some 0" "jr_IsInEtcd row = Some 1" "jr_Kind row = kind"
    "region \<noteq> [] \<Longrightarrow> jr_DeployRegion row = Some region" "\<exists>c. jr_Status row = Condition c"
  using assms by (auto simp: ConvertJobToDMOJob_def row_tenancy_def Let_def split: sum.splits option.splits prod.splits if_splits)

lemma pod_times_fields:
  "pr_PodName (pod_times E now p c row) = pr_PodName row" "pr_Namespace (pod_times E now p c row) = pr_Namespace row"
  "pr_PodID (pod_times E now p c row) = pr_PodID row" "pr_Version (pod_times E now p c row) = pr_Version row"
  "pr_DeployRegion (pod_times E now p c row) = pr_DeployRegion row"
  by (simp_all add: pod_times_def Let_def split: pod_phase.splits)

lemma pod_row_fields:
  assumes "ConvertPodToDMOPod E now p name region = Inr row"
  shows "pr_PodName row = pod_Name p" "pr_Namespace row = pod_Namespace p" "pr_PodID row = pod_UID p"
    "pr_Version row = pod_ResourceVersion p" "pr_DeployRegion row = (if region \<noteq> [] then Some region else None)"
  using assms
  by (auto simp: ConvertPodToDMOPod_def Let_def pod_times_fields split: if_splits option.splits sum.splits list.splits)

text \<open>
  The times of a row of a pod that has ended: it is started no earlier than never, and finished exactly
  when the pod has succeeded or failed.
\<close>

lemma pod_times_finished:
  assumes "pr_Status row = pod_Phase p" "pr_GmtFinished row = None"
  shows "pr_GmtFinished (pod_times E now p c row) \<noteq> None \<longleftrightarrow> pod_Phase p \<in> {PodSucceeded, PodFailed}"
    and "pod_Phase p \<in> {PodRunning, PodSucceeded, PodFailed} \<Longrightarrow> pr_GmtStarted (pod_times E now p c row) \<noteq> None"
    and "pr_Status (pod_times E now p c row) = pod_Phase p"
  using assms by (cases "pod_Phase p"; auto simp: pod_times_def set_time_def Let_def)+

lemma pod_row_cases:
  assumes "ConvertPodToDMOPod E now p name region = Inr row"
  shows "pr_Status row \<in> {PodPhaseOther [], PodUnknown} \<and> pr_GmtFinished row = None \<or>
    (\<exists>c row1. row = pod_times E now p c row1 \<and> pr_Status row1 = pod_Phase p \<and> pr_GmtFinished row1 = None)"
  using assms unfolding ConvertPodToDMOPod_def
  by (auto simp: Let_def split: if_splits option.splits sum.splits list.splits) force+

lemma pod_row_finished:
  assumes "ConvertPodToDMOPod E now p name region = Inr row"
  shows "pr_GmtFinished row \<noteq> None \<longleftrightarrow> pr_Status row \<in> {PodSucceeded, PodFailed}"
    and "pr_Status row \<in> {PodRunning, PodSucceeded, PodFailed} \<Longrightarrow> pr_GmtStarted row \<noteq> None"
  using pod_row_cases [OF assms] pod_times_finished by fastforce+

end
