(* ===== verification/Persist_Store.thy ===== *)
theory Persist_Store
  imports Persist_Objects Controller_Env
begin

text \<open>
  The MySQL object backend (\<open>pkg/storage/backends/objects/mysql/mysql.go\<close>) and the persist controllers that drive it
  (\<open>controllers/persist\<close>). The database library is a parameter: the answers to its calls are fields of \<open>persist_world\<close>,
  and \<open>lawful_jobs\<close> and \<open>lawful_pods\<close> state its documented behaviour: a condition or an update given by a
  struct leaves out the fields that have their zero value, and \<open>First\<close> takes the first match in the order of the primary key.
\<close>

subsection \<open>Calls\<close>

record row_query =
  qy_ID :: string
  qy_Namespace :: string
  qy_Name :: string
  qy_Kind :: string
  qy_Version :: string
  qy_Region :: "string option"

definition row_query0 :: row_query where
  "row_query0 = \<lparr>qy_ID = [], qy_Namespace = [], qy_Name = [], qy_Kind = [], qy_Version = [], qy_Region = None\<rparr>"

text \<open>The columns an update may set, with None for the zero value.\<close>

record job_changes =
  jch_Status :: row_status
  jch_Namespace :: string
  jch_Region :: "string option"
  jch_Version :: string
  jch_Deleted :: "int option"
  jch_IsInEtcd :: "int option"
  jch_GmtCreated :: "time option"
  jch_GmtJobRunning :: "time option"
  jch_GmtJobFinished :: "time option"

record pod_changes =
  pc_Version :: string
  pc_Status :: pod_phase
  pc_Image :: string
  pc_HostIP :: "string option"
  pc_PodIP :: "string option"
  pc_Deleted :: "int option"
  pc_IsInEtcd :: "int option"
  pc_Remark :: "string option"
  pc_GmtCreated :: "time option"
  pc_GmtStarted :: "time option"
  pc_GmtFinished :: "time option"

record notebook_changes =
  nch_Status :: NotebookCondition
  nch_Namespace :: string
  nch_Region :: "string option"
  nch_Version :: string
  nch_Deleted :: "int option"
  nch_IsInEtcd :: "int option"
  nch_GmtCreated :: "time option"
  nch_GmtRunning :: "time option"
  nch_GmtTerminated :: "time option"

datatype db_call =
    GetStoredJob string string
  | GetStoredPod string string
  | FirstJob row_query
  | CreateJobRow job_row
  | UpdateJobRows row_query job_changes
  | FirstPod row_query
  | CreatePodRow pod_row
  | UpdatePodRows row_query pod_changes
  | FirstNotebook row_query
  | UpdateNotebookRows row_query notebook_changes

type_synonym db_hist = "db_call list"
type_synonym 'a db_res = "(go_error + 'a) \<times> db_hist"

record persist_world =
  pw_job :: "db_hist \<Rightarrow> string \<Rightarrow> string \<Rightarrow> go_error + stored_job"
  pw_pod :: "db_hist \<Rightarrow> string \<Rightarrow> string \<Rightarrow> go_error + stored_pod"
  pw_first_job :: "db_hist \<Rightarrow> row_query \<Rightarrow> go_error + job_row"
  pw_first_pod :: "db_hist \<Rightarrow> row_query \<Rightarrow> go_error + pod_row"
  pw_first_notebook :: "db_hist \<Rightarrow> row_query \<Rightarrow> go_error + notebook_row"
  pw_exec :: "db_hist \<Rightarrow> db_call \<Rightarrow> go_error option"
  pw_now :: "db_hist \<Rightarrow> time"
  pw_convert :: convert_env

definition db_exec :: "persist_world \<Rightarrow> db_call \<Rightarrow> db_hist \<Rightarrow> unit db_res" where
  "db_exec W c h = (case pw_exec W h c of Some e \<Rightarrow> (Inl e, h @ [c]) | None \<Rightarrow> (Inr (), h @ [c]))"

definition region_query :: "string \<Rightarrow> string option" where
  "region_query region = (if region \<noteq> [] then Some region else None)"

subsection \<open>Jobs\<close>

definition parse_version :: "string \<Rightarrow> go_error + int" where
  "parse_version s = (case Atoi s of Some v \<Rightarrow> Inr v | None \<Rightarrow> Inl (Err ''invalid syntax''))"

text \<open>The times a change leaves alone: zero times and nil are not written.\<close>

definition time_column :: "time \<Rightarrow> time \<Rightarrow> time option" where
  "time_column zero t = (if t = zero then None else Some t)"

definition both_equal :: "int option \<Rightarrow> int option \<Rightarrow> bool" where
  "both_equal a b \<longleftrightarrow> a \<noteq> None \<and> a = b"

definition updateJob :: "persist_world \<Rightarrow> job_row \<Rightarrow> job_row \<Rightarrow> db_hist \<Rightarrow> unit db_res" where
  "updateJob W old new h =
     andThen (parse_version (jr_Version old), h) (\<lambda>oldVersion h.
     andThen (parse_version (jr_Version new), h) (\<lambda>newVersion h.
       (if oldVersion > newVersion then (Inr (), h)
        else if oldVersion = newVersion \<and> jr_Status old = jr_Status new \<and>
             both_equal (jr_IsInEtcd old) (jr_IsInEtcd new) \<and> both_equal (jr_Deleted old) (jr_Deleted new)
        then (Inr (), h)
        else let running = (if set_time (ce_zero_time (pw_convert W)) (jr_GmtJobRunning old) \<and> jr_GmtJobRunning new = None
                            then jr_GmtJobRunning old else jr_GmtJobRunning new) in
             db_exec W (UpdateJobRows
               (row_query0\<lparr>qy_Name := jr_Name old, qy_ID := jr_JobID old, qy_Version := jr_Version old, qy_Region := jr_DeployRegion old\<rparr>)
               \<lparr>jch_Status = jr_Status new, jch_Namespace = jr_Namespace new, jch_Region = jr_DeployRegion new, jch_Version = jr_Version new,
                jch_Deleted = jr_Deleted new, jch_IsInEtcd = jr_IsInEtcd new,
                jch_GmtCreated = time_column (ce_zero_time (pw_convert W)) (jr_GmtCreated new),
                jch_GmtJobRunning = running, jch_GmtJobFinished = jr_GmtJobFinished new\<rparr>) h)))"

definition createNewJob :: "persist_world \<Rightarrow> stored_job \<Rightarrow> string \<Rightarrow> string \<Rightarrow> db_hist \<Rightarrow> unit db_res" where
  "createNewJob W job kind region h =
     andThen (ConvertJobToDMOJob (pw_convert W) job kind region, h) (\<lambda>row. db_exec W (CreateJobRow row))"

definition SaveJob :: "persist_world \<Rightarrow> stored_job \<Rightarrow> string \<Rightarrow> string \<Rightarrow> db_hist \<Rightarrow> unit db_res" where
  "SaveJob W job kind region h =
     (let m = sj_Meta job;
          q = row_query0\<lparr>qy_ID := sm_UID m, qy_Namespace := sm_Namespace m, qy_Name := sm_Name m, qy_Region := region_query region\<rparr>;
          h1 = h @ [FirstJob q] in
      case pw_first_job W h q of
        Inl e \<Rightarrow> (if IsNotFound e then createNewJob W job kind region h1 else (Inl e, h1))
      | Inr old \<Rightarrow> andThen (ConvertJobToDMOJob (pw_convert W) job kind region, h1) (\<lambda>new. updateJob W old new))"

definition GetJob :: "persist_world \<Rightarrow> string \<Rightarrow> string \<Rightarrow> string \<Rightarrow> string \<Rightarrow> string \<Rightarrow> db_hist \<Rightarrow> job_row db_res" where
  "GetJob W ns name jobID kind region h =
     (let q = row_query0\<lparr>qy_ID := jobID, qy_Namespace := ns, qy_Name := name, qy_Kind := kind, qy_Region := region_query region\<rparr> in
      (pw_first_job W h q, h @ [FirstJob q]))"

text \<open>
  The new rows that stopping and deleting make have zero values in the other fields; the name is not among
  the changes.
\<close>

definition stopping :: "time \<Rightarrow> time \<Rightarrow> job_row \<Rightarrow> job_row" where
  "stopping zero now job =
     (let new = job\<lparr>jr_Namespace := [], jr_IsInEtcd := Some 0, jr_GmtCreated := zero, jr_GmtJobRunning := None\<rparr> in
      if jr_Status job \<in> {Condition JobRunning, Condition JobCreated, Condition JobRestarting}
      then new\<lparr>jr_Status := JobStopped, jr_GmtJobFinished := Some now\<rparr> else new)"

definition deleting :: "time \<Rightarrow> job_row \<Rightarrow> job_row" where
  "deleting zero job = job\<lparr>jr_Deleted := Some 1, jr_GmtCreated := zero, jr_GmtJobRunning := None\<rparr>"

definition StopJob :: "persist_world \<Rightarrow> string \<Rightarrow> string \<Rightarrow> string \<Rightarrow> string \<Rightarrow> string \<Rightarrow> db_hist \<Rightarrow> unit db_res" where
  "StopJob W ns name jobID kind region h =
     andThen (GetJob W ns name jobID kind region h) (\<lambda>job h1.
       updateJob W job (stopping (ce_zero_time (pw_convert W)) (pw_now W h1) job) h1)"

definition DeleteJobRow :: "persist_world \<Rightarrow> string \<Rightarrow> string \<Rightarrow> string \<Rightarrow> string \<Rightarrow> string \<Rightarrow> db_hist \<Rightarrow> unit db_res" where
  "DeleteJobRow W ns name jobID kind region h =
     andThen (GetJob W ns name jobID kind region h) (\<lambda>job h1.
       (if jr_IsInEtcd job = Some 1 then (Inl (Err ''job is still in etcd, must stop it first''), h1)
        else updateJob W job (deleting (ce_zero_time (pw_convert W)) job) h1))"

subsection \<open>Pods\<close>

definition createNewPod :: "persist_world \<Rightarrow> stored_pod \<Rightarrow> string \<Rightarrow> string \<Rightarrow> db_hist \<Rightarrow> unit db_res" where
  "createNewPod W p defaultContainerName region h =
     andThen (ConvertPodToDMOPod (pw_convert W) (pw_now W h) p defaultContainerName region, h) (\<lambda>row. db_exec W (CreatePodRow row))"

definition updatePod :: "persist_world \<Rightarrow> pod_row \<Rightarrow> pod_row \<Rightarrow> db_hist \<Rightarrow> unit db_res" where
  "updatePod W old new h =
     andThen (parse_version (pr_Version old), h) (\<lambda>oldVersion h.
     andThen (parse_version (pr_Version new), h) (\<lambda>newVersion h.
       (if oldVersion > newVersion then (Inr (), h)
        else let zero = ce_zero_time (pw_convert W);
                 started = (if set_time zero (pr_GmtStarted old) then pr_GmtStarted old else pr_GmtStarted new);
                 finished = (if set_time zero (pr_GmtFinished old) then pr_GmtFinished old else pr_GmtFinished new) in
             if pr_Version old = pr_Version new \<and> pr_Status old = pr_Status new \<and>
                both_equal (pr_GmtStarted old) started \<and> both_equal (pr_GmtFinished old) finished \<and>
                both_equal (pr_IsInEtcd old) (pr_IsInEtcd new) \<and> both_equal (pr_Deleted old) (pr_Deleted new)
             then (Inr (), h)
             else db_exec W (UpdatePodRows
                    (row_query0\<lparr>qy_ID := pr_PodID old, qy_Version := pr_Version old, qy_Region := pr_DeployRegion old\<rparr>)
                    \<lparr>pc_Version = pr_Version new, pc_Status = pr_Status new, pc_Image = pr_Image new, pc_HostIP = pr_HostIP new,
                     pc_PodIP = pr_PodIP new, pc_Deleted = pr_Deleted new, pc_IsInEtcd = pr_IsInEtcd new, pc_Remark = pr_Remark new,
                     pc_GmtCreated = time_column zero (pr_GmtCreated new), pc_GmtStarted = started, pc_GmtFinished = finished\<rparr>) h)))"

definition SavePod :: "persist_world \<Rightarrow> stored_pod \<Rightarrow> string \<Rightarrow> string \<Rightarrow> db_hist \<Rightarrow> unit db_res" where
  "SavePod W p defaultContainerName region h =
     (let q = row_query0\<lparr>qy_ID := pod_UID p, qy_Namespace := pod_Namespace p, qy_Name := pod_Name p, qy_Region := region_query region\<rparr>;
          h1 = h @ [FirstPod q] in
      case pw_first_pod W h q of
        Inl e \<Rightarrow> (if IsNotFound e then createNewPod W p defaultContainerName region h1 else (Inl e, h1))
      | Inr old \<Rightarrow>
          andThen (ConvertPodToDMOPod (pw_convert W) (pw_now W h1) p defaultContainerName region, h1) (\<lambda>new. updatePod W old new))"

definition StopPod :: "persist_world \<Rightarrow> string \<Rightarrow> string \<Rightarrow> string \<Rightarrow> db_hist \<Rightarrow> unit db_res" where
  "StopPod W ns name podID h =
     (let q = row_query0\<lparr>qy_ID := podID, qy_Namespace := ns, qy_Name := name\<rparr>; zero = ce_zero_time (pw_convert W) in
      andThen (pw_first_pod W h q, h @ [FirstPod q]) (\<lambda>old h1.
        (if pr_Status old \<in> {PodStopped, PodFailed, PodSucceeded} then (Inr (), h1)
         else let new = old\<lparr>pr_IsInEtcd := Some 0, pr_Image := [], pr_GmtCreated := zero\<rparr>;
                  new1 = (if pr_Status old \<in> {PodPending, PodRunning, PodUnknown}
                          then new\<lparr>pr_Status := PodStopped, pr_GmtFinished := Some (pw_now W h1),
                                   pr_GmtStarted := (if set_time zero (pr_GmtStarted old) then pr_GmtStarted old else Some (pr_GmtCreated old))\<rparr>
                          else new) in
              updatePod W old new1 h1)))"

subsection \<open>Notebooks\<close>

definition GetNotebook :: "persist_world \<Rightarrow> string \<Rightarrow> string \<Rightarrow> string \<Rightarrow> string \<Rightarrow> db_hist \<Rightarrow> notebook_row db_res" where
  "GetNotebook W ns name ID region h =
     (let q = row_query0\<lparr>qy_ID := ID, qy_Namespace := ns, qy_Name := name, qy_Region := region_query region\<rparr> in
      (pw_first_notebook W h q, h @ [FirstNotebook q]))"

definition updateNotebook :: "persist_world \<Rightarrow> notebook_row \<Rightarrow> notebook_row \<Rightarrow> db_hist \<Rightarrow> unit db_res" where
  "updateNotebook W old new h =
     andThen (parse_version (nr_Version old), h) (\<lambda>oldVersion h.
     andThen (parse_version (nr_Version new), h) (\<lambda>newVersion h.
       (if oldVersion > newVersion then (Inr (), h)
        else if oldVersion = newVersion \<and> nr_Status old = nr_Status new \<and>
             both_equal (nr_IsInEtcd old) (nr_IsInEtcd new) \<and> both_equal (nr_Deleted old) (nr_Deleted new)
        then (Inr (), h)
        else let zero = ce_zero_time (pw_convert W);
                 running = (if set_time zero (nr_GmtRunning old) \<and> nr_GmtRunning new = None then nr_GmtRunning old else nr_GmtRunning new) in
             db_exec W (UpdateNotebookRows
               (row_query0\<lparr>qy_Name := nr_Name old, qy_ID := nr_NotebookID old, qy_Version := nr_Version old, qy_Region := nr_DeployRegion old\<rparr>)
               \<lparr>nch_Status = nr_Status new, nch_Namespace = nr_Namespace new, nch_Region = nr_DeployRegion new, nch_Version = nr_Version new,
                nch_Deleted = nr_Deleted new, nch_IsInEtcd = nr_IsInEtcd new, nch_GmtCreated = time_column zero (nr_GmtCreated new),
                nch_GmtRunning = running, nch_GmtTerminated = nr_GmtTerminated new\<rparr>) h)))"

definition DeleteNotebook :: "persist_world \<Rightarrow> string \<Rightarrow> string \<Rightarrow> string \<Rightarrow> string \<Rightarrow> db_hist \<Rightarrow> unit db_res" where
  "DeleteNotebook W ns name ID region h =
     andThen (GetNotebook W ns name ID region h) (\<lambda>nb h1.
       (if nr_IsInEtcd nb = Some 1 then (Inl (Err ''notebook is still in etcd, must stop it first''), h1)
        else updateNotebook W nb (nb\<lparr>nr_Deleted := Some 1, nr_GmtCreated := ce_zero_time (pw_convert W), nr_GmtRunning := None\<rparr>) h1))"

subsection \<open>Keys of requests\<close>

definition IDName :: "string \<Rightarrow> string \<Rightarrow> string" where
  "IDName uid name = uid @ ''/'' @ name"

definition space :: "char \<Rightarrow> bool" where
  "space c \<longleftrightarrow> c \<in> {CHR '' '', CHR 0x09, CHR 0x0A, CHR 0x0B, CHR 0x0C, CHR 0x0D}"

definition TrimSpace :: "string \<Rightarrow> string" where
  "TrimSpace s = rev (dropWhile space (rev (dropWhile space s)))"

definition ParseIDName :: "string \<Rightarrow> go_error + string \<times> string" where
  "ParseIDName key =
     (case split_slash key of
        [uid, name] \<Rightarrow> Inr (TrimSpace uid, TrimSpace name)
      | _ \<Rightarrow> Inl (Err ''invalid key''))"

subsection \<open>Events\<close>

definition IsKubeDLManagedJobKind :: "string \<Rightarrow> bool" where
  "IsKubeDLManagedJobKind kind \<longleftrightarrow> kind \<in> {''TFJob'', ''PyTorchJob'', ''XDLJob'', ''XGBoostJob'', ''ElasticBatchJob''}"

definition controller_kind :: "owner_ref list \<Rightarrow> string" where
  "controller_kind refs = (case GetControllerOf refs of Some r \<Rightarrow> or_Kind r | None \<Rightarrow> [])"

definition IsKubeDLManagedPod :: "stored_pod \<Rightarrow> bool" where
  "IsKubeDLManagedPod p \<longleftrightarrow> IsKubeDLManagedJobKind (controller_kind (pod_OwnerReferences p)) \<and> pod_Labels p GroupNameLabel \<noteq> None"

text \<open>The requests (namespace and key) that an event on a pod adds to the queue; an update has two objects.\<close>

definition enqueue_pod :: "stored_pod list \<Rightarrow> (string \<times> string) list" where
  "enqueue_pod ps = map (\<lambda>p. (pod_Namespace p, IDName (pod_UID p) (pod_Name p))) (filter IsKubeDLManagedPod ps)"

definition enqueue_job :: "stored_meta list \<Rightarrow> (string \<times> string) list" where
  "enqueue_job ms = map (\<lambda>m. (sm_Namespace m, IDName (sm_UID m) (sm_Name m))) ms"

definition matchDefaultContainerName :: "string \<Rightarrow> string" where
  "matchDefaultContainerName kind =
     (if kind = ''TFJob'' then ''tensorflow'' else if kind = ''PyTorchJob'' then ''pytorch''
      else if kind = ''XDLJob'' then ''xdl'' else if kind = ''XGBoostJob'' then ''xgboostjob''
      else if kind = ''ElasticBatchJob'' then ''elasticbatch'' else [])"

subsection \<open>The controllers\<close>

definition persist_Delete :: "persist_world \<Rightarrow> string \<Rightarrow> string \<Rightarrow> string \<Rightarrow> string \<Rightarrow> string \<Rightarrow> db_hist \<Rightarrow> unit db_res" where
  "persist_Delete W region ns name kind jobID h =
     andThen (StopJob W ns name jobID kind region h) (\<lambda>_. DeleteJobRow W ns name jobID kind region)"

text \<open>
  The persist controllers of the six workloads differ in the type they read. A deleted job is looked up by its identity
  alone: namespace, name and kind are read from the object that was not found.
\<close>

definition persist_job :: "persist_world \<Rightarrow> string \<Rightarrow> string \<Rightarrow> string \<Rightarrow> db_hist \<Rightarrow> unit db_res" where
  "persist_job W region ns key h =
     andThen (ParseIDName key, h) (\<lambda>(uid, name) h.
       (let h1 = h @ [GetStoredJob ns name] in
        case pw_job W h ns name of
          Inl e \<Rightarrow> (if IsNotFound e then persist_Delete W region [] [] [] uid h1 else (Inl e, h1))
        | Inr job \<Rightarrow> SaveJob W job (sj_Kind job) region h1))"

definition persist_pod :: "persist_world \<Rightarrow> string \<Rightarrow> string \<Rightarrow> string \<Rightarrow> db_hist \<Rightarrow> unit db_res" where
  "persist_pod W region ns key h =
     andThen (ParseIDName key, h) (\<lambda>(uid, name) h.
       (let h1 = h @ [GetStoredPod ns name] in
        case pw_pod W h ns name of
          Inl e \<Rightarrow> (if IsNotFound e then StopPod W name ns uid h1 else (Inl e, h1))
        | Inr p \<Rightarrow> SavePod W p (matchDefaultContainerName (controller_kind (pod_OwnerReferences p))) region h1))"

text \<open>The requests of a list of namespaces and keys, whatever becomes of each.\<close>

fun persist_run :: "persist_world \<Rightarrow> string \<Rightarrow> (string \<times> string) list \<Rightarrow> db_hist \<Rightarrow> db_hist" where
  "persist_run W region [] h = h"
| "persist_run W region ((ns, key) # reqs) h = persist_run W region reqs (snd (persist_job W region ns key h))"

subsection \<open>Persisting events\<close>

record stored_event =
  se_Name :: string
  se_Namespace :: string
  se_ObjKind :: string
  se_ObjNamespace :: string
  se_ObjName :: string

text \<open>Events of jobs and of their pods are kept; an event of a pod that is gone counts as one of theirs.\<close>

definition isKubeDLManagedObject :: "(string \<Rightarrow> string \<Rightarrow> go_error + stored_pod) \<Rightarrow> stored_event \<Rightarrow> bool" where
  "isKubeDLManagedObject pod_of e \<longleftrightarrow> IsKubeDLManagedJobKind (se_ObjKind e) \<or>
     se_ObjKind e = ''Pod'' \<and>
     (case pod_of (se_ObjNamespace e) (se_ObjName e) of Inl err \<Rightarrow> IsNotFound err | Inr p \<Rightarrow> IsKubeDLManagedPod p)"

definition enqueue_event :: "(string \<Rightarrow> string \<Rightarrow> go_error + stored_pod) \<Rightarrow> stored_event list \<Rightarrow> (string \<times> string) list" where
  "enqueue_event pod_of es = map (\<lambda>e. (se_Namespace e, se_Name e)) (filter (isKubeDLManagedObject pod_of) es)"

text \<open>The answers of reading the event and of storing it; the result, and whether the event was handed to the store.\<close>

definition persist_event :: "go_error + stored_event \<Rightarrow> (stored_event \<Rightarrow> go_error option) \<Rightarrow> (go_error + unit) \<times> stored_event option" where
  "persist_event read save =
     (case read of
        Inl e \<Rightarrow> (if IsNotFound e then Inr () else Inl e, None)
      | Inr ev \<Rightarrow> (case save ev of Some e \<Rightarrow> Inl e | None \<Rightarrow> Inr (), Some ev))"

subsection \<open>The database\<close>

definition matching :: "string \<Rightarrow> string \<Rightarrow> bool" where
  "matching wanted value \<longleftrightarrow> wanted = [] \<or> value = wanted"

definition matching_region :: "string option \<Rightarrow> string option \<Rightarrow> bool" where
  "matching_region wanted value \<longleftrightarrow> wanted = None \<or> value = wanted"

definition job_matches :: "row_query \<Rightarrow> job_row \<Rightarrow> bool" where
  "job_matches q r \<longleftrightarrow> matching (qy_ID q) (jr_JobID r) \<and> matching (qy_Namespace q) (jr_Namespace r) \<and>
     matching (qy_Name q) (jr_Name r) \<and> matching (qy_Kind q) (jr_Kind r) \<and> matching (qy_Version q) (jr_Version r) \<and>
     matching_region (qy_Region q) (jr_DeployRegion r)"

definition pod_matches :: "row_query \<Rightarrow> pod_row \<Rightarrow> bool" where
  "pod_matches q r \<longleftrightarrow> matching (qy_ID q) (pr_PodID r) \<and> matching (qy_Namespace q) (pr_Namespace r) \<and>
     matching (qy_Name q) (pr_PodName r) \<and> matching (qy_Version q) (pr_Version r) \<and>
     matching_region (qy_Region q) (pr_DeployRegion r)"

definition over :: "'a option \<Rightarrow> 'a option \<Rightarrow> 'a option" where
  "over new old = (if new = None then old else new)"

definition change_job :: "job_changes \<Rightarrow> job_row \<Rightarrow> job_row" where
  "change_job c r = r\<lparr>
     jr_Namespace := (if jch_Namespace c = [] then jr_Namespace r else jch_Namespace c),
     jr_Version := (if jch_Version c = [] then jr_Version r else jch_Version c),
     jr_Status := jch_Status c, jr_DeployRegion := over (jch_Region c) (jr_DeployRegion r),
     jr_Deleted := over (jch_Deleted c) (jr_Deleted r), jr_IsInEtcd := over (jch_IsInEtcd c) (jr_IsInEtcd r),
     jr_GmtCreated := (case jch_GmtCreated c of Some t \<Rightarrow> t | None \<Rightarrow> jr_GmtCreated r),
     jr_GmtJobRunning := over (jch_GmtJobRunning c) (jr_GmtJobRunning r),
     jr_GmtJobFinished := over (jch_GmtJobFinished c) (jr_GmtJobFinished r)\<rparr>"

text \<open>The effect of a call that succeeds on the table of jobs, and on the table of pods, where an update changes matching rows only.\<close>

definition run_job_call :: "db_call \<Rightarrow> job_row list \<Rightarrow> job_row list" where
  "run_job_call c rows = (case c of
       CreateJobRow r \<Rightarrow> rows @ [r]
     | UpdateJobRows q ch \<Rightarrow> map (\<lambda>r. if job_matches q r then change_job ch r else r) rows
     | _ \<Rightarrow> rows)"

definition writes_pods :: "db_call \<Rightarrow> bool" where
  "writes_pods c = (case c of CreatePodRow r \<Rightarrow> True | UpdatePodRows q ch \<Rightarrow> True | _ \<Rightarrow> False)"

definition lawful_jobs :: "persist_world \<Rightarrow> (db_hist \<Rightarrow> job_row list) \<Rightarrow> bool" where
  "lawful_jobs W jobs \<longleftrightarrow>
     (\<forall>h q. (case find (job_matches q) (jobs h) of
               Some r \<Rightarrow> pw_first_job W h q = Inr r
             | None \<Rightarrow> pw_first_job W h q = Inl NotFound) \<or> (\<exists>e. pw_first_job W h q = Inl e \<and> \<not> IsNotFound e)) \<and>
     (\<forall>h c. jobs (h @ [c]) = (if pw_exec W h c = None then run_job_call c (jobs h) else jobs h))"

definition lawful_pods :: "persist_world \<Rightarrow> (db_hist \<Rightarrow> pod_row list) \<Rightarrow> bool" where
  "lawful_pods W pods \<longleftrightarrow>
     (\<forall>h q r. pw_first_pod W h q = Inr r \<longrightarrow> r \<in> set (pods h) \<and> pod_matches q r) \<and>
     (\<forall>h c. \<not> writes_pods c \<longrightarrow> pods (h @ [c]) = pods h)"

lemma lawful_first:
  "lawful_jobs W jobs \<Longrightarrow> pw_first_job W h q = Inr r \<Longrightarrow> find (job_matches q) (jobs h) = Some r"
  by (auto simp: lawful_jobs_def dest!: spec [where x = h] spec [where x = q] split: option.splits)

lemma lawful_missing:
  "lawful_jobs W jobs \<Longrightarrow> pw_first_job W h q = Inl NotFound \<Longrightarrow> find (job_matches q) (jobs h) = None"
  by (auto simp: lawful_jobs_def dest!: spec [where x = h] spec [where x = q] split: option.splits)

lemma lawful_read [simp]:
  assumes "lawful_jobs W jobs"
  shows "jobs (h @ [GetStoredJob ns n]) = jobs h" "jobs (h @ [FirstJob q]) = jobs h"
  using assms by (simp_all add: lawful_jobs_def run_job_call_def)

lemma lawful_exec:
  assumes "lawful_jobs W jobs" "db_exec W c h = (Inr x, h')"
  shows "jobs h' = run_job_call c (jobs h)"
  using assms by (auto simp: lawful_jobs_def db_exec_def split: option.splits)

lemma lawful_exec_any:
  assumes "lawful_jobs W jobs" "db_exec W c h = (r, h')"
  shows "jobs h' = run_job_call c (jobs h) \<or> jobs h' = jobs h"
  using assms by (auto simp: lawful_jobs_def db_exec_def split: option.splits)

subsection \<open>One row per job\<close>

definition replaced :: "job_row \<Rightarrow> job_row \<Rightarrow> job_row list \<Rightarrow> job_row list" where
  "replaced old new rows = map (\<lambda>r. if r = old then new else r) rows"

definition job_change :: "persist_world \<Rightarrow> job_row \<Rightarrow> job_row \<Rightarrow> job_changes" where
  "job_change W old new =
     (let zero = ce_zero_time (pw_convert W) in
      \<lparr>jch_Status = jr_Status new, jch_Namespace = jr_Namespace new, jch_Region = jr_DeployRegion new, jch_Version = jr_Version new,
       jch_Deleted = jr_Deleted new, jch_IsInEtcd = jr_IsInEtcd new, jch_GmtCreated = time_column zero (jr_GmtCreated new),
       jch_GmtJobRunning = (if set_time zero (jr_GmtJobRunning old) \<and> jr_GmtJobRunning new = None
         then jr_GmtJobRunning old else jr_GmtJobRunning new),
       jch_GmtJobFinished = jr_GmtJobFinished new\<rparr>)"

definition own_query :: "job_row \<Rightarrow> row_query" where
  "own_query old = row_query0\<lparr>qy_Name := jr_Name old, qy_ID := jr_JobID old, qy_Version := jr_Version old, qy_Region := jr_DeployRegion old\<rparr>"

lemma own_query_matches:
  assumes "distinct (map jr_JobID rows)" "old \<in> set rows" "r \<in> set rows" "jr_JobID old \<noteq> []"
  shows "job_matches (own_query old) r \<longleftrightarrow> r = old"
proof
  assume "job_matches (own_query old) r"
  then have "jr_JobID r = jr_JobID old" using assms(4) by (simp add: job_matches_def own_query_def row_query0_def matching_def)
  then show "r = old" using assms(1-3) by (auto simp: distinct_map inj_on_def)
next
  assume "r = old"
  then show "job_matches (own_query old) r"
    by (simp add: job_matches_def own_query_def row_query0_def matching_def matching_region_def)
qed

lemma updateJob_cases:
  assumes "updateJob W old new h = (r, h')"
  shows "h' = h \<and> (r = Inr () \<longrightarrow> (\<exists>v w. Atoi (jr_Version old) = Some v \<and> Atoi (jr_Version new) = Some w \<and>
       (w < v \<or> v = w \<and> jr_Status old = jr_Status new \<and> both_equal (jr_IsInEtcd old) (jr_IsInEtcd new) \<and>
          both_equal (jr_Deleted old) (jr_Deleted new)))) \<or>
    (\<exists>v w. Atoi (jr_Version old) = Some v \<and> Atoi (jr_Version new) = Some w \<and> v \<le> w \<and>
       db_exec W (UpdateJobRows (own_query old) (job_change W old new)) h = (r, h'))"
  using assms
  by (auto simp: updateJob_def andThen_def parse_version_def own_query_def job_change_def Let_def
      split: option.splits if_splits)

lemma update_rows:
  assumes "lawful_jobs W jobs" "updateJob W old new h = (r, h')"
    and "distinct (map jr_JobID (jobs h))" "old \<in> set (jobs h)" "jr_JobID old \<noteq> []"
  shows "jobs h' = jobs h \<or> jobs h' = replaced old (change_job (job_change W old new) old) (jobs h) \<and>
    (\<exists>v w. Atoi (jr_Version old) = Some v \<and> Atoi (jr_Version new) = Some w \<and> v \<le> w)"
  using updateJob_cases [OF assms(2)]
proof (elim disjE exE conjE)
  fix v w
  assume e: "db_exec W (UpdateJobRows (own_query old) (job_change W old new)) h = (r, h')"
    and v: "Atoi (jr_Version old) = Some v" "Atoi (jr_Version new) = Some w" "v \<le> w"
  have "run_job_call (UpdateJobRows (own_query old) (job_change W old new)) (jobs h) =
      replaced old (change_job (job_change W old new) old) (jobs h)"
    using own_query_matches [OF assms(3,4) _ assms(5)] by (auto simp: run_job_call_def replaced_def)
  with lawful_exec_any [OF assms(1) e] v show ?thesis by auto
qed simp

lemma replaced_ids [simp]: "jr_JobID new = jr_JobID old \<Longrightarrow> map jr_JobID (replaced old new rows) = map jr_JobID rows"
  by (auto simp: replaced_def)

lemma change_job_id [simp]: "jr_JobID (change_job c r) = jr_JobID r" "jr_Name (change_job c r) = jr_Name r"
  "jr_Kind (change_job c r) = jr_Kind r"
  by (simp_all add: change_job_def)

subsection \<open>Deleted jobs\<close>

definition stopped_row :: "job_row \<Rightarrow> bool" where
  "stopped_row r \<longleftrightarrow> jr_IsInEtcd r = Some 0 \<and> jr_Status r \<notin> {Condition JobRunning, Condition JobCreated, Condition JobRestarting}"

definition id_query :: "string \<Rightarrow> string \<Rightarrow> row_query" where
  "id_query uid region = row_query0\<lparr>qy_ID := uid, qy_Region := region_query region\<rparr>"

lemma find_replaced:
  assumes "find P rows = Some old" "P new" "distinct rows"
  shows "find P (replaced old new rows) = Some new"
  using assms by (induction rows) (auto simp: replaced_def split: if_splits)

lemma update_done:
  assumes "lawful_jobs W jobs" "updateJob W old new h = (Inr (), h')" "jr_Version new = jr_Version old"
    and "distinct (map jr_JobID (jobs h))" "old \<in> set (jobs h)" "jr_JobID old \<noteq> []"
  shows "jobs h' = jobs h \<and> jr_Status old = jr_Status new \<and> jr_IsInEtcd old = jr_IsInEtcd new \<and> jr_Deleted old = jr_Deleted new \<or>
    jobs h' = replaced old (change_job (job_change W old new) old) (jobs h)"
  using updateJob_cases [OF assms(2)]
proof (elim disjE exE conjE)
  fix v w
  assume e: "db_exec W (UpdateJobRows (own_query old) (job_change W old new)) h = (Inr (), h')"
  have "run_job_call (UpdateJobRows (own_query old) (job_change W old new)) (jobs h) =
      replaced old (change_job (job_change W old new) old) (jobs h)"
    using own_query_matches [OF assms(4,5) _ assms(6)] by (auto simp: run_job_call_def replaced_def)
  with lawful_exec [OF assms(1) e] show ?thesis by simp
qed (auto simp: both_equal_def assms(3))

lemma replaced_self [simp]: "replaced old old rows = rows"
  by (simp add: replaced_def cong: map_cong)

lemma distinct_ids: "distinct (map f xs) \<Longrightarrow> distinct xs"
  by (simp add: distinct_map)

lemma stopping_fields:
  "jr_Version (stopping zero now job) = jr_Version job" "jr_IsInEtcd (stopping zero now job) = Some 0"
  "jr_Namespace (stopping zero now job) = []" "jr_DeployRegion (stopping zero now job) = jr_DeployRegion job"
  "jr_Status (stopping zero now job) \<notin> {Condition JobRunning, Condition JobCreated, Condition JobRestarting}"
  by (simp_all add: stopping_def Let_def)

lemma deleting_fields:
  "jr_Version (deleting zero job) = jr_Version job" "jr_IsInEtcd (deleting zero job) = jr_IsInEtcd job"
  "jr_Namespace (deleting zero job) = jr_Namespace job" "jr_DeployRegion (deleting zero job) = jr_DeployRegion job"
  "jr_Status (deleting zero job) = jr_Status job" "jr_Deleted (deleting zero job) = Some 1"
  by (simp_all add: deleting_def)

lemma change_fields:
  "jr_Status (change_job (job_change W old new) r) = jr_Status new"
  "jr_IsInEtcd (change_job (job_change W old new) r) = over (jr_IsInEtcd new) (jr_IsInEtcd r)"
  "jr_Deleted (change_job (job_change W old new) r) = over (jr_Deleted new) (jr_Deleted r)"
  "jr_DeployRegion (change_job (job_change W old new) r) = over (jr_DeployRegion new) (jr_DeployRegion r)"
  "jr_Namespace (change_job (job_change W old new) r) = (if jr_Namespace new = [] then jr_Namespace r else jr_Namespace new)"
  "jr_Version (change_job (job_change W old new) r) = (if jr_Version new = [] then jr_Version r else jr_Version new)"
  by (simp_all add: change_job_def job_change_def Let_def)

lemma over_simps [simp]: "over (Some x) y = Some x" "over z z = z"
  by (auto simp: over_def)

lemma get_job_row:
  assumes "lawful_jobs W jobs" "GetJob W [] [] uid [] region h = (Inr old, h1)" "uid \<noteq> []"
  shows "find (job_matches (id_query uid region)) (jobs h) = Some old" "jr_JobID old = uid" "old \<in> set (jobs h)" "jobs h1 = jobs h"
proof -
  from assms(2) have g: "pw_first_job W h (id_query uid region) = Inr old" "h1 = h @ [FirstJob (id_query uid region)]"
    by (simp_all add: GetJob_def id_query_def row_query0_def Let_def)
  from lawful_first [OF assms(1) g(1)] show f: "find (job_matches (id_query uid region)) (jobs h) = Some old" .
  then show "old \<in> set (jobs h)" by (auto simp: find_Some_iff)
  from f have "job_matches (id_query uid region) old" by (auto simp: find_Some_iff)
  with assms(3) show "jr_JobID old = uid" by (simp add: job_matches_def id_query_def row_query0_def matching_def)
  from g(2) assms(1) show "jobs h1 = jobs h" by simp
qed

lemma stop_effect:
  assumes "lawful_jobs W jobs" "StopJob W [] [] uid [] region h = (Inr (), h')" "distinct (map jr_JobID (jobs h))" "uid \<noteq> []"
  shows "\<exists>old new. find (job_matches (id_query uid region)) (jobs h) = Some old \<and> jobs h' = replaced old new (jobs h) \<and>
    jr_JobID old = uid \<and> jr_JobID new = uid \<and> stopped_row new \<and> job_matches (id_query uid region) new"
proof -
  from assms(2) obtain old h1 where g: "GetJob W [] [] uid [] region h = (Inr old, h1)"
    and u: "updateJob W old (stopping (ce_zero_time (pw_convert W)) (pw_now W h1) old) h1 = (Inr (), h')" (is "updateJob _ _ ?new _ = _")
    unfolding StopJob_def andThen_eq_Inr by blast
  note r = get_job_row [OF assms(1) g assms(4)]
  have m: "job_matches (id_query uid region) old" using r(1) by (auto simp: find_Some_iff)
  have "jobs h' = jobs h1 \<and> jr_Status old = jr_Status ?new \<and> jr_IsInEtcd old = jr_IsInEtcd ?new \<and> jr_Deleted old = jr_Deleted ?new \<or>
    jobs h' = replaced old (change_job (job_change W old ?new) old) (jobs h1)"
    by (rule update_done [OF assms(1) u stopping_fields(1)]) (use assms(3,4) r in simp_all)
  then show ?thesis
  proof (elim disjE conjE)
    assume "jobs h' = jobs h1" "jr_Status old = jr_Status ?new" "jr_IsInEtcd old = jr_IsInEtcd ?new"
    with r m stopping_fields(2,5) [of "ce_zero_time (pw_convert W)" "pw_now W h1" old] show ?thesis
      by (intro exI [of _ old]) (simp add: stopped_row_def)
  next
    let ?row = "change_job (job_change W old ?new) old"
    assume "jobs h' = replaced old ?row (jobs h1)"
    moreover have "stopped_row ?row" unfolding stopped_row_def change_fields using stopping_fields(2,5) by simp
    moreover have "job_matches (id_query uid region) ?row" using m
      by (simp add: job_matches_def id_query_def row_query0_def matching_def change_fields stopping_fields)
    ultimately show ?thesis using r by (intro exI [of _ old] exI [of _ ?row]) simp
  qed
qed

lemma delete_effect:
  assumes "lawful_jobs W jobs" "DeleteJobRow W [] [] uid [] region h = (Inr (), h')" "distinct (map jr_JobID (jobs h))" "uid \<noteq> []"
    and "find (job_matches (id_query uid region)) (jobs h) = Some old" "stopped_row old"
  shows "\<exists>new. jobs h' = replaced old new (jobs h) \<and> jr_JobID new = uid \<and> stopped_row new \<and> jr_Deleted new = Some 1"
proof -
  from assms(2) obtain old' h1 where g: "GetJob W [] [] uid [] region h = (Inr old', h1)"
    and u: "(if jr_IsInEtcd old' = Some 1 then (Inl (Err ''job is still in etcd, must stop it first''), h1)
        else updateJob W old' (deleting (ce_zero_time (pw_convert W)) old') h1) = (Inr (), h')"
    unfolding DeleteJobRow_def andThen_eq_Inr by blast
  note r = get_job_row [OF assms(1) g assms(4)]
  let ?new = "deleting (ce_zero_time (pw_convert W)) old"
  from r(1) assms(5) have o: "old' = old" by simp
  with u assms(6) have u: "updateJob W old ?new h1 = (Inr (), h')" by (simp add: stopped_row_def)
  have "jobs h' = jobs h1 \<and> jr_Status old = jr_Status ?new \<and> jr_IsInEtcd old = jr_IsInEtcd ?new \<and> jr_Deleted old = jr_Deleted ?new \<or>
    jobs h' = replaced old (change_job (job_change W old ?new) old) (jobs h1)"
    by (rule update_done [OF assms(1) u deleting_fields(1)]) (use assms(3,4) r o in simp_all)
  then show ?thesis
  proof (elim disjE conjE)
    assume "jobs h' = jobs h1" "jr_Deleted old = jr_Deleted ?new"
    with r o assms(6) show ?thesis by (intro exI [of _ old]) (simp add: deleting_fields)
  next
    assume "jobs h' = replaced old (change_job (job_change W old ?new) old) (jobs h1)"
    with r o assms(6) show ?thesis
      by (intro exI [of _ "change_job (job_change W old ?new) old"]) (simp add: stopped_row_def change_fields deleting_fields)
  qed
qed

lemma replaced_twice:
  assumes "distinct (map jr_JobID rows)" "jr_JobID mid = jr_JobID old" "old \<in> set rows"
  shows "replaced mid new (replaced old mid rows) = replaced old new rows"
proof -
  have "r = old" if "r \<in> set rows" "r = mid" for r
    using assms that by (auto simp: distinct_map dest: inj_onD)
  then show ?thesis unfolding replaced_def map_map o_def by (intro map_cong refl) (simp, metis)
qed

text \<open>
  C39. A deleted job is recorded as deleted. When the controller is told of a job that is gone and succeeds,
  exactly the row of that job is changed: it is marked as deleted and no longer in etcd, and it is not
  running, created or restarting any more.
\<close>

theorem deleted_job_recorded:
  assumes "lawful_jobs W jobs" "distinct (map jr_JobID (jobs h))" "ParseIDName key = Inr (uid, name)" "uid \<noteq> []"
    and "pw_job W h ns name = Inl NotFound" "persist_job W region ns key h = (Inr (), h')"
  shows "\<exists>old new. old \<in> set (jobs h) \<and> jr_JobID old = uid \<and> jobs h' = replaced old new (jobs h) \<and> jr_JobID new = uid \<and>
    jr_Deleted new = Some 1 \<and> jr_IsInEtcd new = Some 0 \<and>
    jr_Status new \<notin> {Condition JobRunning, Condition JobCreated, Condition JobRestarting}"
proof -
  let ?h = "h @ [GetStoredJob ns name]"
  have same: "jobs ?h = jobs h" using assms(1) by simp
  from assms(3,5,6) have "persist_Delete W region [] [] [] uid ?h = (Inr (), h')" by (simp add: persist_job_def Let_def)
  then obtain h1 where s: "StopJob W [] [] uid [] region ?h = (Inr (), h1)" and d: "DeleteJobRow W [] [] uid [] region h1 = (Inr (), h')"
    by (auto simp: persist_Delete_def andThen_eq_Inr)
  from stop_effect [OF assms(1) s] assms(2,4) obtain old mid where f: "find (job_matches (id_query uid region)) (jobs h) = Some old"
    and j1: "jobs h1 = replaced old mid (jobs h)" and mid: "jr_JobID old = uid" "jr_JobID mid = uid" "stopped_row mid"
      "job_matches (id_query uid region) mid" unfolding same by blast
  have old: "old \<in> set (jobs h)" using f by (auto simp: find_Some_iff)
  have "find (job_matches (id_query uid region)) (jobs h1) = Some mid"
    using find_replaced [OF f mid(4)] distinct_ids [OF assms(2)] j1 by simp
  moreover have "distinct (map jr_JobID (jobs h1))" using assms(2) mid j1 by simp
  ultimately obtain new where "jobs h' = replaced mid new (jobs h1)" "jr_JobID new = uid" "stopped_row new" "jr_Deleted new = Some 1"
    using delete_effect [OF assms(1) d _ assms(4) _ mid(3)] by blast
  with replaced_twice [OF assms(2) _ old, of mid new] mid j1 old show ?thesis
    by (intro exI [of _ old] exI [of _ new]) (simp add: stopped_row_def)
qed

subsection \<open>Records of jobs over time\<close>

text \<open>Namespace and name of the job of an identity, as the API server answers; identities are never used again.\<close>

definition identified :: "(string \<Rightarrow> string \<times> string) \<Rightarrow> persist_world \<Rightarrow> bool" where
  "identified names W \<longleftrightarrow> (\<forall>h ns n job. pw_job W h ns n = Inr job \<longrightarrow>
     sm_UID (sj_Meta job) \<noteq> [] \<and> names (sm_UID (sj_Meta job)) = (sm_Namespace (sj_Meta job), sm_Name (sj_Meta job)))"

definition record_of :: "(string \<Rightarrow> string \<times> string) \<Rightarrow> string \<Rightarrow> job_row \<Rightarrow> bool" where
  "record_of names region r \<longleftrightarrow> jr_JobID r \<noteq> [] \<and> (region \<noteq> [] \<longrightarrow> jr_DeployRegion r = Some region) \<and>
     names (jr_JobID r) = (jr_Namespace r, jr_Name r)"

definition records_ok :: "(string \<Rightarrow> string \<times> string) \<Rightarrow> string \<Rightarrow> job_row list \<Rightarrow> bool" where
  "records_ok names region rows \<longleftrightarrow> distinct (map jr_JobID rows) \<and> (\<forall>r\<in>set rows. record_of names region r)"

definition version_kept :: "job_row \<Rightarrow> job_row \<Rightarrow> bool" where
  "version_kept r r' \<longleftrightarrow> (case Atoi (jr_Version r) of None \<Rightarrow> True
     | Some v \<Rightarrow> (case Atoi (jr_Version r') of None \<Rightarrow> False | Some v' \<Rightarrow> v \<le> v'))"

definition rows_kept :: "job_row list \<Rightarrow> job_row list \<Rightarrow> bool" where
  "rows_kept rows rows' \<longleftrightarrow> (\<forall>r\<in>set rows. \<exists>r'\<in>set rows'. jr_JobID r' = jr_JobID r \<and> version_kept r r')"

lemma version_kept_refl [simp]: "version_kept r r"
  by (simp add: version_kept_def split: option.splits)

lemma version_kept_trans: "version_kept a b \<Longrightarrow> version_kept b c \<Longrightarrow> version_kept a c"
  by (auto simp: version_kept_def split: option.splits)

lemma rows_kept_refl [simp]: "rows_kept rows rows"
  by (auto simp: rows_kept_def)

lemma rows_kept_trans: "rows_kept a b \<Longrightarrow> rows_kept b c \<Longrightarrow> rows_kept a c"
  unfolding rows_kept_def by (metis version_kept_trans)

lemma rows_kept_append [simp]: "rows_kept rows (rows @ new)"
  by (auto simp: rows_kept_def)

definition steady :: "(string \<Rightarrow> string \<times> string) \<Rightarrow> string \<Rightarrow> job_row list \<Rightarrow> job_row list \<Rightarrow> bool" where
  "steady names region rows rows' \<longleftrightarrow> (records_ok names region rows \<longrightarrow> records_ok names region rows' \<and> rows_kept rows rows')"

lemma steady_refl [simp]: "steady names region rows rows"
  by (simp add: steady_def)

lemma steady_trans: "steady names region a b \<Longrightarrow> steady names region b c \<Longrightarrow> steady names region a c"
  unfolding steady_def by (metis rows_kept_trans)

lemma replaced_rows:
  assumes "records_ok names region rows" "record_of names region new" "jr_JobID new = jr_JobID old" "version_kept old new"
  shows "records_ok names region (replaced old new rows)" "rows_kept rows (replaced old new rows)"
proof -
  from assms show "records_ok names region (replaced old new rows)"
    by (auto simp: records_ok_def) (auto simp: replaced_def split: if_splits)
  have "\<exists>r'\<in>set (replaced old new rows). jr_JobID r' = jr_JobID r \<and> version_kept r r'" if "r \<in> set rows" for r
    using that assms(3,4) by (intro bexI [of _ "if r = old then new else r"]) (auto simp: replaced_def)
  then show "rows_kept rows (replaced old new rows)" by (simp add: rows_kept_def)
qed

lemma update_steady:
  assumes "lawful_jobs W jobs" "updateJob W old new h = (r, h')" "old \<in> set (jobs h)"
    and "jr_Namespace new = [] \<or> jr_Namespace new = jr_Namespace old"
    and "region \<noteq> [] \<longrightarrow> jr_DeployRegion new = None \<or> jr_DeployRegion new = Some region"
  shows "steady names region (jobs h) (jobs h')"
  unfolding steady_def
proof
  assume ok: "records_ok names region (jobs h)"
  let ?row = "change_job (job_change W old new) old"
  from ok assms(3) have o: "record_of names region old" "distinct (map jr_JobID (jobs h))" by (auto simp: records_ok_def)
  then have "jobs h' = jobs h \<or> jobs h' = replaced old ?row (jobs h) \<and>
      (\<exists>v w. Atoi (jr_Version old) = Some v \<and> Atoi (jr_Version new) = Some w \<and> v \<le> w)"
    using update_rows [OF assms(1,2)] assms(3) by (auto simp: record_of_def)
  then show "records_ok names region (jobs h') \<and> rows_kept (jobs h) (jobs h')"
  proof (elim disjE conjE exE)
    fix v w
    assume r: "jobs h' = replaced old ?row (jobs h)" "Atoi (jr_Version old) = Some v" "Atoi (jr_Version new) = Some w" "v \<le> w"
    have "record_of names region ?row" using o(1) assms(4,5) by (auto simp: record_of_def change_fields over_def)
    moreover have "version_kept old ?row" using r by (simp add: version_kept_def change_fields)
    ultimately show ?thesis using replaced_rows [OF ok, of ?row old] r(1) by simp
  qed (use ok in simp)
qed

lemma andThen_cases:
  assumes "andThen m k = (r, h')"
  obtains (failed) e where "m = (Inl e, h')" | (passed) x h1 where "m = (Inr x, h1)" "k x h1 = (r, h')"
  using assms by (cases m; cases "fst m") (auto simp: andThen_def)

lemma get_steady:
  assumes "lawful_jobs W jobs" "GetJob W ns name uid kind region h = (g, h1)" "records_ok names region (jobs h)"
  shows "jobs h1 = jobs h"
    and "g = Inr old \<Longrightarrow> old \<in> set (jobs h) \<and> (region \<noteq> [] \<longrightarrow> jr_DeployRegion old = Some region)"
proof -
  let ?q = "row_query0\<lparr>qy_ID := uid, qy_Namespace := ns, qy_Name := name, qy_Kind := kind, qy_Region := region_query region\<rparr>"
  from assms(2) have g: "g = pw_first_job W h ?q" "h1 = h @ [FirstJob ?q]" by (simp_all add: GetJob_def Let_def)
  with assms(1) show "jobs h1 = jobs h" by simp
  assume "g = Inr old"
  with g lawful_first [OF assms(1)] have "find (job_matches ?q) (jobs h) = Some old" by simp
  then have "old \<in> set (jobs h)" by (auto simp: find_Some_iff)
  with assms(3) show "old \<in> set (jobs h) \<and> (region \<noteq> [] \<longrightarrow> jr_DeployRegion old = Some region)"
    by (auto simp: records_ok_def record_of_def)
qed

lemma stop_steady:
  assumes "lawful_jobs W jobs" "StopJob W ns name uid kind region h = (r, h')" "records_ok names region (jobs h)"
  shows "steady names region (jobs h) (jobs h')"
  using assms(2) unfolding StopJob_def
proof (cases rule: andThen_cases)
  case (failed e)
  from get_steady(1) [OF assms(1) failed assms(3)] show ?thesis by simp
next
  case (passed old h1)
  note g = get_steady [OF assms(1) passed(1) assms(3)]
  from update_steady [OF assms(1) passed(2), of region names] g(1) g(2) [OF refl] show ?thesis by (simp add: stopping_fields)
qed

lemma delete_steady:
  assumes "lawful_jobs W jobs" "DeleteJobRow W ns name uid kind region h = (r, h')" "records_ok names region (jobs h)"
  shows "steady names region (jobs h) (jobs h')"
  using assms(2) unfolding DeleteJobRow_def
proof (cases rule: andThen_cases)
  case (failed e)
  from get_steady(1) [OF assms(1) failed assms(3)] show ?thesis by simp
next
  case (passed old h1)
  note g = get_steady [OF assms(1) passed(1) assms(3)]
  show ?thesis
  proof (cases "jr_IsInEtcd old = Some 1")
    case True
    with passed(2) g(1) show ?thesis by simp
  next
    case False
    with passed(2) have "updateJob W old (deleting (ce_zero_time (pw_convert W)) old) h1 = (r, h')" by simp
    from update_steady [OF assms(1) this, of region names] g(1) g(2) [OF refl] show ?thesis by (simp add: deleting_fields)
  qed
qed

lemma create_steady:
  assumes "lawful_jobs W jobs" "createNewJob W job kind region h = (r, h')"
    and "names (sm_UID (sj_Meta job)) = (sm_Namespace (sj_Meta job), sm_Name (sj_Meta job))" "sm_UID (sj_Meta job) \<noteq> []"
    and "sm_UID (sj_Meta job) \<notin> jr_JobID ` set (jobs h)"
  shows "steady names region (jobs h) (jobs h')"
proof (cases "ConvertJobToDMOJob (pw_convert W) job kind region")
  case (Inr row)
  with assms(2) have "db_exec W (CreateJobRow row) h = (r, h')" by (simp add: createNewJob_def andThen_def)
  from lawful_exec_any [OF assms(1) this] have "jobs h' = jobs h @ [row] \<or> jobs h' = jobs h" by (simp add: run_job_call_def)
  with job_row_fields [OF Inr] assms(3-5) show ?thesis by (auto simp: steady_def records_ok_def record_of_def)
qed (use assms in \<open>auto simp: createNewJob_def andThen_def\<close>)

lemma save_steady:
  assumes "lawful_jobs W jobs" "SaveJob W job kind region h = (r, h')" "records_ok names region (jobs h)"
    and "names (sm_UID (sj_Meta job)) = (sm_Namespace (sj_Meta job), sm_Name (sj_Meta job))" "sm_UID (sj_Meta job) \<noteq> []"
  shows "steady names region (jobs h) (jobs h')"
proof -
  let ?m = "sj_Meta job"
  let ?q = "row_query0\<lparr>qy_ID := sm_UID ?m, qy_Namespace := sm_Namespace ?m, qy_Name := sm_Name ?m, qy_Region := region_query region\<rparr>"
  let ?h = "h @ [FirstJob ?q]"
  have same: "jobs ?h = jobs h" using assms(1) by simp
  show ?thesis
  proof (cases "pw_first_job W h ?q")
    case (Inr old)
    from lawful_first [OF assms(1) Inr] have o: "old \<in> set (jobs h)" "job_matches ?q old" by (auto simp: find_Some_iff)
    then have "jr_JobID old = sm_UID ?m" using assms(5) by (simp add: job_matches_def row_query0_def matching_def)
    with o assms(3,4) have ns: "jr_Namespace old = sm_Namespace ?m" by (auto simp: records_ok_def record_of_def)
    show ?thesis
    proof (cases "ConvertJobToDMOJob (pw_convert W) job kind region")
      case (Inr new)
      with \<open>pw_first_job W h ?q = Inr old\<close> assms(2) have "updateJob W old new ?h = (r, h')"
        by (simp add: SaveJob_def andThen_def Let_def)
      then show ?thesis using update_steady [OF assms(1), of old new ?h r h' region names] o job_row_fields [OF Inr] ns same by auto
    qed (use assms(1,2) Inr in \<open>auto simp: SaveJob_def andThen_def Let_def\<close>)
  next
    case (Inl e)
    show ?thesis
    proof (cases "IsNotFound e")
      case True
      then have "e = NotFound" by (cases e) simp_all
      with Inl lawful_missing [OF assms(1)] have none: "find (job_matches ?q) (jobs h) = None" by simp
      have "sm_UID ?m \<notin> jr_JobID ` set (jobs h)"
      proof
        assume "sm_UID ?m \<in> jr_JobID ` set (jobs h)"
        then obtain r where r: "r \<in> set (jobs h)" "jr_JobID r = sm_UID ?m" by auto
        with assms(3,4) have "job_matches ?q r"
          by (auto simp: records_ok_def record_of_def job_matches_def row_query0_def matching_def matching_region_def region_query_def)
        with none r(1) show False by (auto simp: find_None_iff)
      qed
      with True Inl assms(2) show ?thesis
        using create_steady [OF assms(1), of job kind region ?h r h' names] assms(4,5) same
        by (simp add: SaveJob_def Let_def)
    qed (use assms(1,2) Inl in \<open>auto simp: SaveJob_def Let_def\<close>)
  qed
qed

lemma persist_job_steady:
  assumes "lawful_jobs W jobs" "identified names W" "persist_job W region ns key h = (r, h')" "records_ok names region (jobs h)"
  shows "steady names region (jobs h) (jobs h')"
proof (cases "ParseIDName key")
  case (Inr p)
  obtain uid name where p: "p = (uid, name)" by (cases p)
  let ?h = "h @ [GetStoredJob ns name]"
  have same: "jobs ?h = jobs h" using assms(1) by simp
  show ?thesis
  proof (cases "pw_job W h ns name")
    case (Inr job)
    with \<open>ParseIDName key = Inr p\<close> p assms(3) have s: "SaveJob W job (sj_Kind job) region ?h = (r, h')"
      by (simp add: persist_job_def andThen_def Let_def)
    show ?thesis using save_steady [OF assms(1) s, of names] assms(2,4) Inr same by (auto simp: identified_def)
  next
    case (Inl e)
    show ?thesis
    proof (cases "IsNotFound e")
      case True
      obtain s h1 where s: "StopJob W [] [] uid [] region ?h = (s, h1)" by fastforce
      have st: "steady names region (jobs h) (jobs h1)" using stop_steady [OF assms(1) s, of names] assms(4) same by simp
      then have ok: "records_ok names region (jobs h1)" using assms(4) by (simp add: steady_def)
      from True Inl \<open>ParseIDName key = Inr p\<close> p assms(3) have "persist_Delete W region [] [] [] uid ?h = (r, h')"
        by (simp add: persist_job_def andThen_def Let_def)
      with s have "h' = h1 \<or> DeleteJobRow W [] [] uid [] region h1 = (r, h')" by (auto simp: persist_Delete_def andThen_def split: sum.splits)
      then show ?thesis using delete_steady [OF assms(1) _ ok] st steady_trans by blast
    qed (use assms(1,3) Inl p \<open>ParseIDName key = Inr p\<close> in \<open>auto simp: persist_job_def andThen_def Let_def\<close>)
  qed
qed (use assms in \<open>auto simp: persist_job_def andThen_def\<close>)

text \<open>
  C38. The records of jobs over any sequence of requests, failing calls included. Each identity keeps at most one row, a row never
  moves to another job, no row is lost, and its version never goes back to an older one.
\<close>

theorem job_records_kept:
  assumes "lawful_jobs W jobs" "identified names W" "records_ok names region (jobs h)"
  shows "records_ok names region (jobs (persist_run W region reqs h)) \<and> rows_kept (jobs h) (jobs (persist_run W region reqs h))"
proof -
  have "steady names region (jobs h) (jobs (persist_run W region reqs h))"
    using assms(3)
  proof (induction reqs arbitrary: h)
    case (Cons req reqs)
    obtain ns key where req: "req = (ns, key)" by (cases req)
    obtain r h1 where p: "persist_job W region ns key h = (r, h1)" by fastforce
    from persist_job_steady [OF assms(1,2) p Cons.prems] have st: "steady names region (jobs h) (jobs h1)" .
    with Cons.prems have "records_ok names region (jobs h1)" by (simp add: steady_def)
    from steady_trans [OF st Cons.IH [OF this]] show ?case by (simp add: req p)
  qed simp
  with assms(3) show ?thesis by (simp add: steady_def)
qed

subsection \<open>Deleted pods\<close>

definition own_row :: "string \<Rightarrow> string \<Rightarrow> string \<Rightarrow> pod_row \<Rightarrow> bool" where
  "own_row uid ns name r \<longleftrightarrow> (pr_PodID r = uid \<longrightarrow> pr_Namespace r = ns \<and> pr_PodName r = name)"

text \<open>
  The record of a deleted pod is not stopped. The controller passes name and namespace to the store the wrong
  way round: when the two differ and the rows of the pod have its own, no row is found, the request fails, and the rows stay as they were.
\<close>

theorem deleted_pod_not_stopped:
  assumes "lawful_pods W pods" "ParseIDName key = Inr (uid, name)" "pw_pod W h ns name = Inl NotFound"
    and "uid \<noteq> []" "ns \<noteq> []" "name \<noteq> []" "ns \<noteq> name"
    and "\<forall>r\<in>set (pods h). own_row uid ns name r"
  shows "isl (fst (persist_pod W region ns key h)) \<and> pods (snd (persist_pod W region ns key h)) = pods h"
proof -
  let ?h = "h @ [GetStoredPod ns name]" and ?q = "row_query0\<lparr>qy_ID := uid, qy_Namespace := name, qy_Name := ns\<rparr>"
  have read: "pods (k @ [c]) = pods k" if "\<not> writes_pods c" for k c
    using assms(1) that by (simp add: lawful_pods_def)
  have same: "pods ?h = pods h" "pods (?h @ [FirstPod ?q]) = pods h"
    using read [of "GetStoredPod ns name" h] read [of "FirstPod ?q" ?h] by (simp_all add: writes_pods_def)
  obtain e where "pw_first_pod W ?h ?q = Inl e"
  proof (cases "pw_first_pod W ?h ?q")
    case (Inr r)
    have "\<And>k q r. pw_first_pod W k q = Inr r \<Longrightarrow> r \<in> set (pods k) \<and> pod_matches q r" using assms(1) by (simp add: lawful_pods_def)
    from this [OF Inr] same(1) have "r \<in> set (pods h)" "pod_matches ?q r" by simp_all
    with assms(4-8) show thesis by (auto simp: pod_matches_def matching_def row_query0_def own_row_def)
  qed
  with assms(2,3) same show ?thesis by (simp add: persist_pod_def StopPod_def andThen_def Let_def)
qed

subsection \<open>Instances\<close>

text \<open>A database that keeps its rows in a list, where every write succeeds, and an API server that knows some jobs and no pods.\<close>

definition rows_after :: "job_row list \<Rightarrow> db_hist \<Rightarrow> job_row list" where
  "rows_after start h = foldl (\<lambda>rows c. run_job_call c rows) start h"

definition row_codec :: convert_env where
  "row_codec = \<lparr>ce_quota = quota0, ce_marshal_pod = (\<lambda>_. Inr []), ce_marshal_job = (\<lambda>_. Inr []),
     ce_tenancy = (\<lambda>_. Inl (Err [])), ce_zero_time = 0\<rparr>"

definition list_store :: "job_row list \<Rightarrow> pod_row list \<Rightarrow> (string \<Rightarrow> string \<Rightarrow> go_error + stored_job) \<Rightarrow> persist_world" where
  "list_store start pods jobs =
     \<lparr>pw_job = (\<lambda>h. jobs), pw_pod = (\<lambda>h ns n. Inl NotFound),
      pw_first_job = (\<lambda>h q. case find (job_matches q) (rows_after start h) of Some r \<Rightarrow> Inr r | None \<Rightarrow> Inl NotFound),
      pw_first_pod = (\<lambda>h q. case find (pod_matches q) pods of Some r \<Rightarrow> Inr r | None \<Rightarrow> Inl NotFound),
      pw_first_notebook = (\<lambda>h q. Inl NotFound), pw_exec = (\<lambda>h c. None), pw_now = (\<lambda>h. 7), pw_convert = row_codec\<rparr>"

lemma list_store_jobs: "lawful_jobs (list_store start pods jobs) (rows_after start)"
  by (simp add: lawful_jobs_def list_store_def rows_after_def split: option.splits)

lemma list_store_pods: "lawful_pods (list_store start pods jobs) (\<lambda>h. pods)"
  by (auto simp: lawful_pods_def list_store_def find_Some_iff split: option.splits)

definition running_row :: job_row where
  "running_row = \<lparr>jr_Name = ''j'', jr_Namespace = ''n'', jr_JobID = ''u'', jr_Version = ''4'', jr_Status = Condition JobRunning, jr_Kind = ''TFJob'',
     jr_Resources = [], jr_DeployRegion = None, jr_Tenant = None, jr_Owner = None, jr_Deleted = Some 0, jr_IsInEtcd = Some 1, jr_Remark = None,
     jr_GmtCreated = 1, jr_GmtJobRunning = Some 2, jr_GmtJobFinished = None\<rparr>"

definition running_pod_row :: pod_row where
  "running_pod_row = \<lparr>pr_PodName = ''p'', pr_Namespace = ''n'', pr_PodID = ''v'', pr_Version = ''4'', pr_Status = PodRunning, pr_Image = [],
     pr_JobID = ''u'', pr_ReplicaType = ''worker'', pr_Resources = [], pr_HostIP = None, pr_PodIP = None, pr_DeployRegion = None,
     pr_Deleted = Some 0, pr_IsInEtcd = Some 1, pr_Remark = None, pr_GmtCreated = 1, pr_GmtStarted = Some 2, pr_GmtFinished = None\<rparr>"

definition known_job :: stored_job where
  "known_job = \<lparr>sj_Meta = \<lparr>sm_Name = ''j'', sm_Namespace = ''n'', sm_UID = ''u'', sm_ResourceVersion = ''6'', sm_Created = 1, sm_Annotations = Map.empty\<rparr>,
     sj_Kind = ''TFJob'', sj_Specs = [], sj_Status = \<lparr>Conditions = [], ReplicaStatuses = [],
       StartTime = None, CompletionTime = None, LastReconcileTime = None, ModelVersionName = [], CacheBackendName = []\<rparr>\<rparr>"

theorem deleted_job_recorded_witness:
  "\<exists>old new. old = running_row \<and> jr_Deleted new = Some 1 \<and> jr_IsInEtcd new = Some 0 \<and>
    rows_after [running_row] (snd (persist_job (list_store [running_row] [] (\<lambda>ns n. Inl NotFound)) [] ''n'' ''u/j'' [])) = [new]"
proof -
  let ?W = "list_store [running_row] [] (\<lambda>ns n. Inl NotFound)" and ?jobs = "rows_after [running_row]"
  have "\<not> isl (fst (persist_job ?W [] ''n'' ''u/j'' []))" by code_simp
  then have r: "persist_job ?W [] ''n'' ''u/j'' [] = (Inr (), snd (persist_job ?W [] ''n'' ''u/j'' []))"
    by (metis old.unit.exhaust prod.collapse sum.collapse(2))
  have p: "ParseIDName ''u/j'' = Inr (''u'', ''j'')" by code_simp
  have n: "pw_job ?W [] ''n'' ''j'' = Inl NotFound" by (simp add: list_store_def)
  have s: "?jobs [] = [running_row]" by (simp add: rows_after_def)
  from deleted_job_recorded [OF list_store_jobs _ p _ n r] s show ?thesis
    by (auto simp: replaced_def)
qed

theorem job_records_kept_witness:
  "records_ok (\<lambda>u. (''n'', ''j'')) []
     (rows_after [running_row] (persist_run (list_store [running_row] [] (\<lambda>ns n. if n = ''j'' then Inr known_job else Inl NotFound)) []
        [(''n'', ''u/j''), (''n'', ''u/k''), (''n'', ''u/j'')] []))"
proof -
  let ?W = "list_store [running_row] [] (\<lambda>ns n. if n = ''j'' then Inr known_job else Inl NotFound)"
  have "identified (\<lambda>u. (''n'', ''j'')) ?W" by (simp add: identified_def list_store_def known_job_def)
  moreover have "records_ok (\<lambda>u. (''n'', ''j'')) [] (rows_after [running_row] [])"
    by (simp add: records_ok_def record_of_def rows_after_def running_row_def)
  ultimately show ?thesis using job_records_kept [OF list_store_jobs] by blast
qed

theorem deleted_pod_not_stopped_witness:
  "isl (fst (persist_pod (list_store [] [running_pod_row] (\<lambda>ns n. Inl NotFound)) [] ''n'' ''v/p'' []))"
proof -
  have "ParseIDName ''v/p'' = Inr (''v'', ''p'')" by code_simp
  moreover have "pw_pod (list_store [] [running_pod_row] (\<lambda>ns n. Inl NotFound)) [] ''n'' ''p'' = Inl NotFound" by (simp add: list_store_def)
  ultimately show ?thesis
    using deleted_pod_not_stopped [OF list_store_pods] by (simp add: own_row_def running_pod_row_def)
qed

end
