(* ===== verification/Console_Store.thy ===== *)
theory Console_Store
  imports Persist_Store "HOL-Library.List_Lexorder" "HOL-Library.Char_ord" "HOL-Library.Multiset"
begin

text \<open>
  The object backend of the console that reads from the API server
  (\<open>console/backend/pkg/storage/objects/apiserver/apiserver.go\<close>): lists of jobs with filters, order and pages, pods of a job,
  notebooks and workspaces. What the client answers is the record \<open>console_world\<close>; the answers to a workspace operation may
  depend on the calls before. Strings are compared by their bytes.
\<close>

subsection \<open>Stable sorting\<close>

text \<open>
  \<open>sort.SliceStable\<close>. For a strict weak order the result is determined: the elements in order, equivalent ones as
  they were.
\<close>

fun place :: "('a \<Rightarrow> 'a \<Rightarrow> bool) \<Rightarrow> 'a \<Rightarrow> 'a list \<Rightarrow> 'a list" where
  "place lt x [] = [x]"
| "place lt x (y # ys) = (if lt x y then x # y # ys else y # place lt x ys)"

definition SliceStable :: "('a \<Rightarrow> 'a \<Rightarrow> bool) \<Rightarrow> 'a list \<Rightarrow> 'a list" where
  "SliceStable lt xs = foldl (\<lambda>acc x. place lt x acc) [] xs"

lemma mset_place [simp]: "mset (place lt x ys) = add_mset x (mset ys)"
  by (induction ys) auto

lemma mset_SliceStable [simp]: "mset (SliceStable lt xs) = mset xs"
proof -
  have "mset (foldl (\<lambda>acc x. place lt x acc) acc xs) = mset acc + mset xs" for acc
    by (induction xs arbitrary: acc) auto
  then show ?thesis by (simp add: SliceStable_def)
qed

lemma length_SliceStable [simp]: "length (SliceStable lt xs) = length xs"
  using mset_SliceStable [of lt xs] by (metis size_mset)

locale weak_order =
  fixes lt :: "'a \<Rightarrow> 'a \<Rightarrow> bool"
  assumes asym: "lt a b \<Longrightarrow> \<not> lt b a"
    and split_lt: "lt a c \<Longrightarrow> lt a b \<or> lt b c"
begin

definition same :: "'a \<Rightarrow> 'a \<Rightarrow> bool" where
  "same a b \<longleftrightarrow> \<not> lt a b \<and> \<not> lt b a"

definition ordered :: "'a list \<Rightarrow> bool" where
  "ordered xs \<longleftrightarrow> sorted_wrt (\<lambda>a b. \<not> lt b a) xs"

lemma ordered_place:
  assumes "ordered ys"
  shows "ordered (place lt x ys)"
  using assms
proof (induction ys)
  case (Cons y ys)
  have in_place: "set (place lt x ys) = insert x (set ys)"
    by (metis mset_place set_mset_add_mset_insert set_mset_mset)
  have "\<not> lt z x" if "lt x y" "z \<in> set ys" for z
  proof
    assume "lt z x"
    with split_lt [of z x y] asym [OF that(1)] have "lt z y" by blast
    with that(2) Cons.prems show False by (simp add: ordered_def)
  qed
  moreover have "ordered (place lt x ys)" "\<forall>z\<in>set ys. \<not> lt z y" using Cons by (simp_all add: ordered_def)
  ultimately show ?case using in_place asym [of x y] Cons.prems by (simp add: ordered_def)
qed (simp add: ordered_def)

lemma ordered_SliceStable: "ordered (SliceStable lt xs)"
proof -
  have "ordered (foldl (\<lambda>acc x. place lt x acc) acc xs)" if "ordered acc" for acc
    using that by (induction xs arbitrary: acc) (auto intro: ordered_place)
  then show ?thesis by (simp add: SliceStable_def ordered_def)
qed

lemma filter_place:
  assumes "ordered ys"
  shows "filter (same a) (place lt x ys) = filter (same a) ys @ (if same a x then [x] else [])"
  using assms
proof (induction ys)
  case (Cons y ys)
  show ?case
  proof (cases "lt x y")
    case True
    have "\<not> same a z" if "same a x" "z \<in> set (y # ys)" for z
    proof -
      have "\<not> lt z y" using that(2) Cons.prems asym by (auto simp: ordered_def)
      with True split_lt [of x y z] have "lt x z" by blast
      with that(1) split_lt [of x z a] show ?thesis by (auto simp: same_def)
    qed
    then have "same a x \<Longrightarrow> filter (same a) (y # ys) = []" by (simp add: filter_empty_conv)
    with True show ?thesis by auto
  next
    case False
    with Cons show ?thesis by (auto simp: ordered_def)
  qed
qed simp

lemma SliceStable_stable: "filter (same a) (SliceStable lt xs) = filter (same a) xs"
proof -
  have "filter (same a) (foldl (\<lambda>acc x. place lt x acc) acc xs) = filter (same a) acc @ filter (same a) xs"
    if "ordered acc" for acc
    using that by (induction xs arbitrary: acc) (auto simp: filter_place ordered_place)
  from this [of "[]"] show ?thesis by (simp add: SliceStable_def ordered_def)
qed

end

subsection \<open>Queries\<close>

record QueryPagination =
  pg_PageNum :: int
  pg_PageSize :: int

record list_query =
  lq_Name :: string
  lq_Namespace :: string
  lq_Type :: string
  lq_Region :: string
  lq_Status :: string
  lq_StartTime :: time
  lq_EndTime :: time
  lq_Pagination :: "QueryPagination option"

record console_world =
  kw_kinds :: "string list"
  kw_jobs :: "string \<Rightarrow> string \<Rightarrow> go_error + stored_job list"
  kw_job :: "string \<Rightarrow> string \<Rightarrow> string \<Rightarrow> go_error + stored_job"
  kw_pods :: "string \<Rightarrow> string \<Rightarrow> go_error + stored_pod list"
  kw_notebooks :: "string \<Rightarrow> go_error + stored_notebook list"
  kw_now :: time
  kw_convert :: convert_env

fun status_text :: "row_status \<Rightarrow> string" where
  "status_text (Condition JobCreated) = ''Created''"
| "status_text (Condition JobQueuing) = ''Queuing''"
| "status_text (Condition JobRunning) = ''Running''"
| "status_text (Condition JobRestarting) = ''Restarting''"
| "status_text (Condition JobSucceeded) = ''Succeeded''"
| "status_text (Condition JobFailed) = ''Failed''"
| "status_text JobStopped = ''Stopped''"

fun notebook_text :: "NotebookCondition \<Rightarrow> string" where
  "notebook_text NotebookConditionUnset = []"
| "notebook_text NotebookCreated = ''Created''"
| "notebook_text NotebookRunning = ''Running''"
| "notebook_text NotebookTerminated = ''Terminated''"

definition EqualFold :: "string \<Rightarrow> string \<Rightarrow> bool" where
  "EqualFold a b \<longleftrightarrow> ToLower a = ToLower b"

fun string_contains :: "string \<Rightarrow> string \<Rightarrow> bool" where
  "string_contains [] sub \<longleftrightarrow> sub = []"
| "string_contains (c # cs) sub \<longleftrightarrow> take (length sub) (c # cs) = sub \<or> string_contains cs sub"

text \<open>An object counts as of the interval when it was created in it, or before and has not ended before it.\<close>

definition in_window :: "time \<Rightarrow> list_query \<Rightarrow> time \<Rightarrow> time option \<Rightarrow> bool" where
  "in_window zero q born ended \<longleftrightarrow>
     (if born < lq_StartTime q
      then \<not> set_time zero ended \<or> (case ended of Some t \<Rightarrow> lq_StartTime q < t | None \<Rightarrow> False)
      else born < lq_EndTime q)"

subsection \<open>Jobs\<close>

definition job_filter :: "time \<Rightarrow> list_query \<Rightarrow> job_row \<Rightarrow> bool" where
  "job_filter zero q r \<longleftrightarrow> in_window zero q (jr_GmtCreated r) (jr_GmtJobFinished r) \<and>
     (lq_Status q \<noteq> [] \<longrightarrow> EqualFold (status_text (jr_Status r)) (lq_Status q))"

fun list_loop :: "convert_env \<Rightarrow> string \<Rightarrow> list_query \<Rightarrow> stored_job list \<Rightarrow> go_error + job_row list" where
  "list_loop E kind q [] = Inr []"
| "list_loop E kind q (job # rest) =
     (if lq_Name q \<noteq> [] \<and> \<not> string_contains (sm_Name (sj_Meta job)) (lq_Name q) then list_loop E kind q rest
      else case ConvertJobToDMOJob E job kind (lq_Region q) of
             Inl e \<Rightarrow> Inl e
           | Inr r \<Rightarrow>
               (if job_filter (ce_zero_time E) q r then map_sum id (\<lambda>rs. r # rs) (list_loop E kind q rest) else list_loop E kind q rest))"

definition listJobsWithKind :: "console_world \<Rightarrow> string \<Rightarrow> list_query \<Rightarrow> go_error + job_row list" where
  "listJobsWithKind W kind q = case_sum Inl (list_loop (kw_convert W) kind q) (kw_jobs W kind (lq_Namespace q))"

fun kinds_loop :: "console_world \<Rightarrow> list_query \<Rightarrow> string list \<Rightarrow> job_row list \<Rightarrow> go_error + job_row list" where
  "kinds_loop W q [] acc = Inr acc"
| "kinds_loop W q (kind # kinds) acc =
     (case listJobsWithKind W kind q of Inl e \<Rightarrow> Inl e | Inr rs \<Rightarrow> kinds_loop W q kinds (acc @ rs))"

definition job_before :: "job_row \<Rightarrow> job_row \<Rightarrow> bool" where
  "job_before a b \<longleftrightarrow> (if jr_GmtCreated a = jr_GmtCreated b then jr_Name a < jr_Name b else jr_GmtCreated b < jr_GmtCreated a)"

interpretation job_order: weak_order job_before
  by unfold_locales (auto simp: job_before_def split: if_splits)

text \<open>A slice expression panics when its bounds are out of order or beyond the list.\<close>

definition paginate :: "QueryPagination option \<Rightarrow> 'a list \<Rightarrow> go_error + 'a list" where
  "paginate pagination rows =
     (case pagination of
        None \<Rightarrow> Inr rows
      | Some p \<Rightarrow>
          (let n = int (length rows) in
           if n \<le> 1 then Inr rows
           else let start0 = i64 (pg_PageSize p * i64 (pg_PageNum p - 1));
                    start1 = (if start0 < 0 then 0 else start0);
                    start = (if start1 > n - 1 then n - 1 else start1);
                    end_idx = min (i64 (start + pg_PageSize p)) n in
                if end_idx < start then Inl (Panic ''slice bounds out of range'')
                else Inr (take (nat (end_idx - start)) (drop (nat start) rows))))"

definition ListJobs :: "console_world \<Rightarrow> list_query \<Rightarrow> go_error + job_row list" where
  "ListJobs W q =
     (if lq_StartTime q = ce_zero_time (kw_convert W) \<or> lq_EndTime q = ce_zero_time (kw_convert W)
      then Inl (Err ''StartTime EndTime should not be empty'')
      else if lq_Type q \<noteq> [] \<and> lq_Type q \<notin> set (kw_kinds W) then Inl (Err ''unsupported job kind'')
      else case kinds_loop W q (if lq_Type q \<noteq> [] then [lq_Type q] else kw_kinds W) [] of
             Inl e \<Rightarrow> Inl e
           | Inr rows \<Rightarrow> paginate (lq_Pagination q) (SliceStable job_before rows))"

text \<open>The kinds the backend knows, with the request for one job.\<close>

definition console_kinds :: "string list" where
  "console_kinds = [''TFJob'', ''PyTorchJob'', ''XDLJob'', ''XGBoostJob'']"

definition console_GetJob :: "console_world \<Rightarrow> string \<Rightarrow> string \<Rightarrow> string \<Rightarrow> string \<Rightarrow> go_error + job_row" where
  "console_GetJob W ns name kind region =
     (case kw_job W kind ns name of
        Inl e \<Rightarrow> Inl e
      | Inr job \<Rightarrow> (if kind \<in> set console_kinds then ConvertJobToDMOJob (kw_convert W) job kind region
                   else Inl (Panic ''call of a nil function'')))"

text \<open>Stopping and deleting an object: what reading it and deleting it answer.\<close>

definition console_stop :: "go_error + 'a \<Rightarrow> ('a \<Rightarrow> go_error option) \<Rightarrow> go_error option" where
  "console_stop read delete = (case read of Inl e \<Rightarrow> if IsNotFound e then None else Some e | Inr x \<Rightarrow> delete x)"

subsection \<open>Pods\<close>

fun split_on :: "char \<Rightarrow> string \<Rightarrow> string list" where
  "split_on d [] = [[]]"
| "split_on d (c # cs) =
     (case split_on d cs of
        [] \<Rightarrow> [[c]]
      | p # ps \<Rightarrow> if c = d then [] # p # ps else (c # p) # ps)"

definition pod_index :: "pod_row \<Rightarrow> int option" where
  "pod_index r = Atoi (last (split_on (CHR ''-'') (pr_PodName r)))"

definition pod_before :: "pod_row \<Rightarrow> pod_row \<Rightarrow> bool" where
  "pod_before a b \<longleftrightarrow>
     (if pr_ReplicaType a \<noteq> pr_ReplicaType b then pr_ReplicaType a < pr_ReplicaType b
      else case pod_index a of
             None \<Rightarrow> False
           | Some i \<Rightarrow>
               (case pod_index b of
                  None \<Rightarrow> True
                | Some j \<Rightarrow> if i \<noteq> j then i < j else pr_GmtCreated a < pr_GmtCreated b))"

interpretation pod_order: weak_order pod_before
  by unfold_locales (auto simp: pod_before_def split: if_splits option.splits)

fun pods_loop :: "convert_env \<Rightarrow> time \<Rightarrow> stored_pod list \<Rightarrow> go_error + pod_row list" where
  "pods_loop E now [] = Inr []"
| "pods_loop E now (p # ps) =
     (case ConvertPodToDMOPod E now p [] [] of Inl e \<Rightarrow> Inl e | Inr r \<Rightarrow> map_sum id (\<lambda>rs. r # rs) (pods_loop E now ps))"

definition ListPods :: "console_world \<Rightarrow> string \<Rightarrow> string \<Rightarrow> go_error + pod_row list" where
  "ListPods W ns name =
     (case kw_pods W ns name of
        Inl e \<Rightarrow> Inl e
      | Inr ps \<Rightarrow> map_sum id (SliceStable pod_before) (pods_loop (kw_convert W) (kw_now W) ps))"

subsection \<open>Notebooks\<close>

text \<open>
  The rows point into the variable of the loop: after it, the times of all of them are those of the notebook
  that was looked at last.
\<close>

definition notebook_filter :: "time \<Rightarrow> list_query \<Rightarrow> notebook_row \<Rightarrow> bool" where
  "notebook_filter zero q r \<longleftrightarrow> in_window zero q (nr_GmtCreated r) (nr_GmtTerminated r) \<and>
     (lq_Status q \<noteq> [] \<longrightarrow> EqualFold (notebook_text (nr_Status r)) (lq_Status q))"

fun notebooks_loop :: "convert_env \<Rightarrow> list_query \<Rightarrow> stored_notebook list \<Rightarrow> go_error + notebook_row list" where
  "notebooks_loop E q [] = Inr []"
| "notebooks_loop E q (nb # rest) =
     (case ConvertNotebookToDMONotebook E nb (lq_Region q) of
        Inl e \<Rightarrow> Inl e
      | Inr r \<Rightarrow>
          (if notebook_filter (ce_zero_time E) q r then map_sum id (\<lambda>rs. r # rs) (notebooks_loop E q rest) else notebooks_loop E q rest))"

definition point_at :: "time \<Rightarrow> notebook_row \<Rightarrow> notebook_row" where
  "point_at t r = r\<lparr>nr_GmtRunning := map_option (\<lambda>_. t) (nr_GmtRunning r), nr_GmtTerminated := map_option (\<lambda>_. t) (nr_GmtTerminated r)\<rparr>"

definition ListNotebooks :: "console_world \<Rightarrow> list_query \<Rightarrow> go_error + notebook_row list" where
  "ListNotebooks W q =
     (case kw_notebooks W (lq_Namespace q) of
        Inl e \<Rightarrow> Inl e
      | Inr nbs \<Rightarrow>
          (if lq_StartTime q = ce_zero_time (kw_convert W) \<or> lq_EndTime q = ce_zero_time (kw_convert W)
           then Inl (Err ''StartTime EndTime should not be empty'')
           else map_sum id (map (point_at (nb_LastTransitionTime (last nbs)))) (notebooks_loop (kw_convert W) q nbs)))"

subsection \<open>Lists of jobs\<close>

text \<open>The row that a stored job of a kind has in the answer to a query, if it has one.\<close>

definition row_asked_for :: "convert_env \<Rightarrow> list_query \<Rightarrow> string \<Rightarrow> stored_job \<Rightarrow> job_row option" where
  "row_asked_for E q kind job =
     (if lq_Name q \<noteq> [] \<and> \<not> string_contains (sm_Name (sj_Meta job)) (lq_Name q) then None
      else case ConvertJobToDMOJob E job kind (lq_Region q) of
             Inl e \<Rightarrow> None
           | Inr r \<Rightarrow> if job_filter (ce_zero_time E) q r then Some r else None)"

definition rows_asked_for :: "console_world \<Rightarrow> list_query \<Rightarrow> string \<Rightarrow> job_row list" where
  "rows_asked_for W q kind =
     (case kw_jobs W kind (lq_Namespace q) of
        Inl e \<Rightarrow> []
      | Inr jobs \<Rightarrow> List.map_filter (row_asked_for (kw_convert W) q kind) jobs)"

lemma map_sum_Inr: "map_sum id f x = Inr y \<longleftrightarrow> (\<exists>z. x = Inr z \<and> y = f z)"
  by (cases x) auto

lemma list_loop_rows: "list_loop E kind q jobs = Inr rows \<Longrightarrow> rows = List.map_filter (row_asked_for E q kind) jobs"
proof (induction jobs arbitrary: rows)
  case (Cons job jobs)
  show ?case
  proof (cases "lq_Name q \<noteq> [] \<and> \<not> string_contains (sm_Name (sj_Meta job)) (lq_Name q)")
    case True
    with Cons.prems have "list_loop E kind q jobs = Inr rows" by simp
    from Cons.IH [OF this] True show ?thesis by (simp add: row_asked_for_def)
  next
    case False
    with Cons.prems obtain x where x: "ConvertJobToDMOJob E job kind (lq_Region q) = Inr x" by (auto split: sum.splits if_splits)
    show ?thesis
    proof (cases "job_filter (ce_zero_time E) q x")
      case True
      with False Cons.prems x obtain rs where rs: "list_loop E kind q jobs = Inr rs" "rows = x # rs" by (auto simp: map_sum_Inr)
      from Cons.IH [OF rs(1)] rs(2) True False x show ?thesis by (simp add: row_asked_for_def)
    next
      case no: False
      with False Cons.prems x have "list_loop E kind q jobs = Inr rows" by auto
      from Cons.IH [OF this] no False x show ?thesis by (simp add: row_asked_for_def)
    qed
  qed
qed simp

lemma listJobsWithKind_rows:
  assumes "listJobsWithKind W kind q = Inr rows"
  shows "rows = rows_asked_for W q kind"
  using assms list_loop_rows
  by (cases "kw_jobs W kind (lq_Namespace q)") (auto simp: listJobsWithKind_def rows_asked_for_def)

lemma kinds_loop_rows: "kinds_loop W q kinds acc = Inr rows \<Longrightarrow> rows = acc @ concat (map (rows_asked_for W q) kinds)"
proof (induction kinds arbitrary: acc)
  case (Cons kind kinds)
  then obtain rs where l: "listJobsWithKind W kind q = Inr rs" and k: "kinds_loop W q kinds (acc @ rs) = Inr rows"
    by (auto split: sum.splits)
  show ?case using Cons.IH [OF k] listJobsWithKind_rows [OF l] by simp
qed simp

lemma kinds_loop_reads:
  "kinds_loop W q kinds acc = Inr rows \<Longrightarrow> kind \<in> set kinds \<Longrightarrow> \<not> isl (kw_jobs W kind (lq_Namespace q))"
proof (induction kinds arbitrary: acc)
  case (Cons k kinds)
  then show ?case by (cases "kw_jobs W k (lq_Namespace q)") (auto simp: listJobsWithKind_def split: sum.splits)
qed simp

lemma job_order_text:
  "sorted_wrt (\<lambda>a b. jr_GmtCreated b < jr_GmtCreated a \<or> jr_GmtCreated a = jr_GmtCreated b \<and> jr_Name a \<le> jr_Name b)
     (SliceStable job_before rows)"
proof -
  have "sorted_wrt (\<lambda>a b. \<not> job_before b a) (SliceStable job_before rows)"
    using job_order.ordered_SliceStable [of rows] by (simp add: job_order.ordered_def)
  then show ?thesis by (rule sorted_wrt_mono_rel [rotated]) (auto simp: job_before_def split: if_splits)
qed

subsection \<open>Pages\<close>

definition page :: "nat \<Rightarrow> nat \<Rightarrow> QueryPagination" where
  "page num len = \<lparr>pg_PageNum = int num, pg_PageSize = int len\<rparr>"

lemma take_pages: "concat (map (\<lambda>k. take s (drop (s * k) rows)) [0..<m]) = take (s * m) rows"
proof (induction m)
  case (Suc m)
  have "take (s * Suc m) rows = take (s * m) rows @ take s (drop (s * m) rows)"
    using take_add [of "s * m" s rows] by (simp add: add.commute)
  with Suc show ?case by simp
qed simp

lemma paginate_within:
  assumes "1 < length rows" "0 < s" "s * k < length rows" "int (length rows) + int s < 2 ^ 63"
  shows "paginate (Some (page (Suc k) s)) rows = Inr (take s (drop (s * k) rows))"
proof -
  define j where "j = s * k"
  have j: "int s * int k = int j" "j < length rows" using assms(3) by (simp_all add: j_def)
  have "int k \<le> int j" using mult_right_mono [of 1 "int s" "int k"] assms(2) by (simp add: j_def)
  with j(2) assms(4) have b: "in64 (int k)" "in64 (int j)" "in64 (int j + int s)" by (simp_all add: in64_def)
  have n: "nat (min (int j + int s) (int (length rows)) - int j) = min s (length rows - j)" using j(2) by linarith
  have "\<not> min (int j + int s) (int (length rows)) < int j" using j(2) by linarith
  moreover have "\<not> int (length rows) \<le> 1" "\<not> int (length rows) - 1 < int j" using assms(1) j(2) by linarith+
  ultimately have "paginate (Some (page (Suc k) s)) rows = Inr (take (min s (length rows - j)) (drop j rows))"
    using b n by (simp add: paginate_def page_def Let_def i64_id j(1))
  then show ?thesis by (simp add: j_def [symmetric] min_def)
qed

lemma paginate_beyond:
  assumes "1 < length rows" "0 < s" "length rows \<le> s * k" "int s * int k < 2 ^ 63" "int (length rows) + int s < 2 ^ 63"
  shows "paginate (Some (page (Suc k) s)) rows = Inr [last rows]"
proof -
  have "int k \<le> int s * int k" using mult_right_mono [of 1 "int s" "int k"] assms(2) by simp
  with assms(4) have b: "in64 (int k)" "in64 (int s * int k)" by (simp_all add: in64_def)
  have "int (length rows) \<le> int s * int k" using assms(3) by (metis of_nat_le_iff of_nat_mult)
  moreover have "in64 (int (length rows) - 1 + int s)" using assms(1,2,5) by (simp add: in64_def)
  moreover have "drop (length rows - 1) rows = [last rows]" using assms(1)
    by (metis append_butlast_last_id append_eq_conv_conj length_butlast less_zeroE list.size(3))
  ultimately show ?thesis using assms(1,2) b
    by (simp add: paginate_def page_def Let_def i64_id nat_diff_distrib')
qed

text \<open>What page \<open>k + 1\<close> of size \<open>s\<close> shows of a list.\<close>

definition page_rows :: "nat \<Rightarrow> nat \<Rightarrow> 'a list \<Rightarrow> 'a list" where
  "page_rows k s rows =
     (if length rows \<le> 1 then rows else if s * k < length rows then take s (drop (s * k) rows) else [last rows])"

lemma paginate_page:
  assumes "0 < s" "int s * int k < 2 ^ 62" "int (length rows) + int s < 2 ^ 62"
  shows "paginate (Some (page (Suc k) s)) rows = Inr (page_rows k s rows)"
proof (cases "length rows \<le> 1")
  case True
  then show ?thesis by (simp add: paginate_def page_rows_def Let_def)
next
  case False
  then show ?thesis
    using paginate_within [of rows s k] paginate_beyond [of rows s k] assms
    by (cases "s * k < length rows") (simp_all add: page_rows_def)
qed

text \<open>
  C40. The console lists exactly the jobs that a query asks for. When a listing succeeds, every kind that
  was asked for could be read, and there is a list of all rows: it has, with their multiplicity, one row
  for each stored job of the kinds and the namespace, of a matching name and status, that was alive in the
  interval, later ones first and of the same time by name. Without pagination the answer is this list.
  With a page number and a positive page size whose product does not overflow, it is that page of the list;
  a list of at most one row is shown on every page, and a page beyond the end shows the last row.
\<close>

theorem list_jobs_exact:
  assumes "ListJobs W q = Inr rows"
  shows "\<exists>all.
    (\<forall>kind \<in> set (if lq_Type q \<noteq> [] then [lq_Type q] else kw_kinds W). \<not> isl (kw_jobs W kind (lq_Namespace q))) \<and>
    mset all = mset (concat (map (rows_asked_for W q) (if lq_Type q \<noteq> [] then [lq_Type q] else kw_kinds W))) \<and>
    sorted_wrt (\<lambda>a b. jr_GmtCreated b < jr_GmtCreated a \<or> jr_GmtCreated a = jr_GmtCreated b \<and> jr_Name a \<le> jr_Name b) all \<and>
    (lq_Pagination q = None \<longrightarrow> rows = all) \<and>
    (\<forall>k s. lq_Pagination q = Some (page (Suc k) s) \<and> 0 < s \<and> int s * int k < 2 ^ 62 \<and> int (length all) + int s < 2 ^ 62 \<longrightarrow>
       rows = page_rows k s all)"
proof -
  let ?kinds = "if lq_Type q \<noteq> [] then [lq_Type q] else kw_kinds W"
  from assms obtain found where k: "kinds_loop W q ?kinds [] = Inr found"
    and p: "paginate (lq_Pagination q) (SliceStable job_before found) = Inr rows"
    by (auto simp: ListJobs_def split: if_splits sum.splits)
  show ?thesis
  proof (intro exI [of _ "SliceStable job_before found"] conjI job_order_text)
    show "\<forall>kind \<in> set ?kinds. \<not> isl (kw_jobs W kind (lq_Namespace q))" using kinds_loop_reads [OF k] by blast
    show "mset (SliceStable job_before found) = mset (concat (map (rows_asked_for W q) ?kinds))"
      using kinds_loop_rows [OF k] by simp
    show "lq_Pagination q = None \<longrightarrow> rows = SliceStable job_before found" using p by (auto simp: paginate_def)
    show "\<forall>k s. lq_Pagination q = Some (page (Suc k) s) \<and> 0 < s \<and> int s * int k < 2 ^ 62 \<and>
        int (length (SliceStable job_before found)) + int s < 2 ^ 62 \<longrightarrow> rows = page_rows k s (SliceStable job_before found)"
    proof (intro allI impI, elim conjE)
      fix k s
      assume "lq_Pagination q = Some (page (Suc k) s)" "0 < s" "int s * int k < 2 ^ 62"
        "int (length (SliceStable job_before found)) + int s < 2 ^ 62"
      with paginate_page [OF this(2-4)] p show "rows = page_rows k s (SliceStable job_before found)" by simp
    qed
  qed
qed

text \<open>
  The pages of a list of jobs. With a positive page size, the pages one to the last together are the whole list;
  every page after them shows the last job again.
\<close>

theorem job_pages:
  assumes "ListJobs W (q\<lparr>lq_Pagination := None\<rparr>) = Inr rows" "1 < length rows" "0 < s" "int (length rows) + int s < 2 ^ 62"
  shows "(\<exists>pages. map (\<lambda>k. ListJobs W (q\<lparr>lq_Pagination := Some (page (Suc k) s)\<rparr>)) [0..<(length rows + s - 1) div s] = map Inr pages \<and>
      concat pages = rows) \<and>
    (\<forall>k. length rows \<le> s * k \<and> int s * int k < 2 ^ 63 \<longrightarrow>
      ListJobs W (q\<lparr>lq_Pagination := Some (page (Suc k) s)\<rparr>) = Inr [last rows])"
proof -
  let ?m = "(length rows + s - 1) div s" and ?list = "\<lambda>k. ListJobs W (q\<lparr>lq_Pagination := Some (page (Suc k) s)\<rparr>)"
  have jf: "job_filter z (q\<lparr>lq_Pagination := p\<rparr>) r = job_filter z q r" for z p r
    by (simp add: job_filter_def in_window_def split: option.split)
  have filters: "list_loop E kind (q\<lparr>lq_Pagination := p\<rparr>) jobs = list_loop E kind q jobs" for E kind p jobs
    by (induction jobs) (simp_all add: jf split: sum.split)
  have kinds: "kinds_loop W (q\<lparr>lq_Pagination := p\<rparr>) ks acc = kinds_loop W q ks acc" for p ks acc
  proof (induction ks arbitrary: acc)
    case (Cons kd ks)
    have "list_loop (kw_convert W) kd (q\<lparr>lq_Pagination := p\<rparr>) = list_loop (kw_convert W) kd q" using filters by blast
    with Cons show ?case by (simp add: listJobsWithKind_def split: sum.split)
  qed simp
  have list: "?list k = paginate (Some (page (Suc k) s)) rows" for k
    using assms(1) unfolding ListJobs_def kinds by (auto simp: paginate_def [of None] split: if_splits sum.splits)
  have "s * k < length rows" if "k < ?m" for k
  proof -
    have "s * k + s \<le> s * ?m" using that mult_le_mono2 [of "Suc k" ?m s] by simp
    also have "\<dots> \<le> length rows + s - 1" by simp
    finally show ?thesis using assms(2,3) by linarith
  qed
  then have "?list k = Inr (take s (drop (s * k) rows))" if "k < ?m" for k
    unfolding list using paginate_within [OF assms(2,3)] that assms(4) by simp
  then have "map ?list [0..<?m] = map Inr (map (\<lambda>k. take s (drop (s * k) rows)) [0..<?m])" by simp
  moreover have "concat (map (\<lambda>k. take s (drop (s * k) rows)) [0..<?m]) = rows"
  proof -
    define d e where "d = length rows + s - 1" and "e = s * (d div s)"
    have "d mod s < s" using assms(3) by (rule mod_less_divisor)
    moreover have "e + d mod s = d" unfolding e_def by (rule mult_div_mod_eq)
    moreover have "d + 1 = length rows + s" using assms(3) unfolding d_def by linarith
    ultimately have "length rows \<le> e" by linarith
    then have "length rows \<le> s * ?m" unfolding e_def d_def .
    then show ?thesis by (simp add: take_pages)
  qed
  ultimately have "\<exists>pages. map ?list [0..<?m] = map Inr pages \<and> concat pages = rows" 
    by (intro exI [of _ "map (\<lambda>k. take s (drop (s * k) rows)) [0..<?m]"] conjI)
  moreover have "?list k = Inr [last rows]" if "length rows \<le> s * k" "int s * int k < 2 ^ 63" for k
    unfolding list by (rule paginate_beyond [OF assms(2,3) that]) (use assms(4) in simp)
  ultimately show ?thesis by (intro conjI allI impI) simp_all
qed

subsection \<open>Times of notebooks\<close>

text \<open>
  All notebooks of a list that have started, and all that have ended, show the same time: that of the notebook the server
  named last, whether or not it is in the list.
\<close>

theorem notebook_times_shared:
  assumes "kw_notebooks W (lq_Namespace q) = Inr nbs" "ListNotebooks W q = Inr rows" "r \<in> set rows"
  shows "nr_GmtRunning r \<in> {None, Some (nb_LastTransitionTime (last nbs))} \<and>
    nr_GmtTerminated r \<in> {None, Some (nb_LastTransitionTime (last nbs))}"
  using assms by (auto simp: ListNotebooks_def map_sum_Inr point_at_def split: if_splits)

subsection \<open>Workspaces\<close>

record namespace_object =
  nso_Name :: string
  nso_Labels :: smap
  nso_Created :: time
  nso_Annotations :: smap

record ws_claim =
  wc_Name :: string
  wc_Namespace :: string
  wc_AccessModes :: "string list"
  wc_Storage :: string
  wc_StorageClassName :: string

datatype claim_phase = ClaimPending | ClaimBound | ClaimLost | ClaimPhaseOther string

datatype ws_call =
    GetNamespace string
  | CreateNamespace string "(string \<times> string) list"
  | GetWorkspaceClaim string string
  | CreateWorkspaceClaim ws_claim
  | DeleteNamespace string

type_synonym ws_hist = "ws_call list"

record workspace_world =
  ww_namespace :: "ws_hist \<Rightarrow> string \<Rightarrow> go_error + namespace_object"
  ww_namespaces :: "go_error + namespace_object list"
  ww_count :: "string \<Rightarrow> string \<Rightarrow> go_error + nat"
  ww_claim :: "ws_hist \<Rightarrow> string \<Rightarrow> string \<Rightarrow> go_error + claim_phase"
  ww_exec :: "ws_hist \<Rightarrow> ws_call \<Rightarrow> go_error option"
  ww_now :: time
  ww_format :: "time \<Rightarrow> string"
  ww_convert :: convert_env

record WorkspaceInfo =
  wi_Username :: string
  wi_Namespace :: string
  wi_Name :: string
  wi_Storage :: int
  wi_Status :: string
  wi_CreateTime :: string
  wi_DurationTime :: string

definition WorkspacePrefix :: string where "WorkspacePrefix = ''workspace-''"

definition WorkspaceKubeDLLabel :: string where "WorkspaceKubeDLLabel = ''kubedl.io/workspace-name''"

definition IsKubedlManagedNamespace :: "namespace_object \<Rightarrow> bool" where
  "IsKubedlManagedNamespace ns \<longleftrightarrow> nso_Labels ns WorkspaceKubeDLLabel \<noteq> None"

text \<open>A namespace belongs to no namespace: the claim is looked up under the empty one. Failed creations are only logged.\<close>

definition workspace_claim :: "WorkspaceInfo \<Rightarrow> string \<Rightarrow> ws_claim" where
  "workspace_claim ws name =
     \<lparr>wc_Name = name, wc_Namespace = wi_Name ws, wc_AccessModes = [''ReadOnlyMany''], wc_Storage = Itoa (wi_Storage ws) @ ''Gi'',
      wc_StorageClassName = ''my-azurefile''\<rparr>"

definition ensure_claim :: "workspace_world \<Rightarrow> WorkspaceInfo \<Rightarrow> string \<Rightarrow> ws_hist \<Rightarrow> go_error option \<times> ws_hist" where
  "ensure_claim W ws nsname h =
     (let name = WorkspacePrefix @ nsname; h1 = h @ [GetWorkspaceClaim [] name] in
      case ww_claim W h [] name of
        Inr ph \<Rightarrow> (None, h1)
      | Inl e \<Rightarrow> (if IsNotFound e then (None, h1 @ [CreateWorkspaceClaim (workspace_claim ws name)]) else (Some e, h1)))"

definition CreateWorkspace :: "workspace_world \<Rightarrow> WorkspaceInfo \<Rightarrow> ws_hist \<Rightarrow> go_error option \<times> ws_hist" where
  "CreateWorkspace W ws h =
     (let h1 = h @ [GetNamespace (wi_Name ws)] in
      case ww_namespace W h (wi_Name ws) of
        Inr ns \<Rightarrow> ensure_claim W ws (nso_Name ns) h1
      | Inl e \<Rightarrow>
          (if IsNotFound e
           then ensure_claim W ws (wi_Name ws) (h1 @ [CreateNamespace (wi_Name ws) [(WorkspaceKubeDLLabel, wi_Name ws)]])
           else (Some e, h1)))"

definition DeleteWorkspace :: "workspace_world \<Rightarrow> string \<Rightarrow> ws_hist \<Rightarrow> go_error option \<times> ws_hist" where
  "DeleteWorkspace W name h = (ww_exec W h (DeleteNamespace name), h @ [DeleteNamespace name])"

definition DetectWorkloadsInNS :: "workspace_world \<Rightarrow> string \<Rightarrow> string \<Rightarrow> bool" where
  "DetectWorkloadsInNS W ns kind \<longleftrightarrow> kind \<in> {''TFJob'', ''PyTorchJob'', ''Notebook''} \<and>
     (case ww_count W ns kind of Inl e \<Rightarrow> False | Inr n \<Rightarrow> n > 0)"

text \<open>
  \<open>GetTimeDiffer\<close>: a duration in days, hours, minutes and seconds. The code computes with floats; differences saturate
  at the largest duration.
\<close>

definition unit_text :: "int \<Rightarrow> char \<Rightarrow> string" where
  "unit_text n u = (if n > 0 then Itoa n @ [u] else [])"

definition GetTimeDiffer :: "time \<Rightarrow> time \<Rightarrow> string" where
  "GetTimeDiffer started ended =
     (let d = max (- (2 ^ 63)) (min (2 ^ 63 - 1) (ended - started));
          days = d div (86400 * 10 ^ 9); d1 = (if days > 0 then d - days * (86400 * 10 ^ 9) else d);
          hours = d1 div (3600 * 10 ^ 9); d2 = (if hours > 0 then d1 - hours * (3600 * 10 ^ 9) else d1);
          minutes = d2 div (60 * 10 ^ 9); d3 = (if minutes > 0 then d2 - minutes * (60 * 10 ^ 9) else d2)
      in unit_text days (CHR ''d'') @ unit_text hours (CHR ''h'') @ unit_text minutes (CHR ''m'') @ Itoa (go_div d3 (10 ^ 9)) @ ''s'')"

definition workspace_status :: "workspace_world \<Rightarrow> ws_hist \<Rightarrow> string \<Rightarrow> string" where
  "workspace_status W h name =
     (case ww_claim W h name (WorkspacePrefix @ name) of
        Inl e \<Rightarrow> ''Created''
      | Inr ClaimBound \<Rightarrow> ''Ready''
      | Inr (ClaimPhaseOther s) \<Rightarrow> []
      | Inr ph \<Rightarrow> ''Created'')"

fun workspaces_loop :: "workspace_world \<Rightarrow> namespace_object list \<Rightarrow> ws_hist \<Rightarrow> WorkspaceInfo list \<times> ws_hist" where
  "workspaces_loop W [] h = ([], h)"
| "workspaces_loop W (ns # rest) h =
     (let info = \<lparr>wi_Username = (case GetTenancy (ww_convert W) (nso_Annotations ns) of Inr (Some tn) \<Rightarrow> tn_User tn | _ \<Rightarrow> []),
                  wi_Namespace = nso_Name ns, wi_Name = nso_Name ns, wi_Storage = 0, wi_Status = workspace_status W h (nso_Name ns),
                  wi_CreateTime = ww_format W (nso_Created ns), wi_DurationTime = GetTimeDiffer (nso_Created ns) (ww_now W)\<rparr>;
          (infos, h1) = workspaces_loop W rest (h @ [GetWorkspaceClaim (nso_Name ns) (WorkspacePrefix @ nso_Name ns)])
      in (info # infos, h1))"

definition has_workloads :: "workspace_world \<Rightarrow> namespace_object \<Rightarrow> bool" where
  "has_workloads W ns \<longleftrightarrow> DetectWorkloadsInNS W (nso_Name ns) ''TFJob'' \<or> DetectWorkloadsInNS W (nso_Name ns) ''PyTorchJob'' \<or>
     DetectWorkloadsInNS W (nso_Name ns) ''Notebook'' \<or> IsKubedlManagedNamespace ns"

definition ListWorkspaces :: "workspace_world \<Rightarrow> ws_hist \<Rightarrow> (go_error + WorkspaceInfo list) \<times> ws_hist" where
  "ListWorkspaces W h =
     (case ww_namespaces W of
        Inl e \<Rightarrow> (Inl e, h)
      | Inr nss \<Rightarrow> apfst Inr (workspaces_loop W (filter (has_workloads W) nss) h))"

text \<open>
  Creating a workspace succeeds whatever becomes of the namespace and of the claim it asks for, as long as it can
  read that they are not there.
\<close>

theorem workspace_errors_dropped:
  assumes "ww_namespace W h (wi_Name ws) = Inl NotFound" "\<forall>h. ww_claim W h [] (WorkspacePrefix @ wi_Name ws) = Inl NotFound"
  shows "CreateWorkspace W ws h =
    (None, h @ [GetNamespace (wi_Name ws), CreateNamespace (wi_Name ws) [(WorkspaceKubeDLLabel, wi_Name ws)],
       GetWorkspaceClaim [] (WorkspacePrefix @ wi_Name ws), CreateWorkspaceClaim (workspace_claim ws (WorkspacePrefix @ wi_Name ws))])"
  using assms by (simp add: CreateWorkspace_def ensure_claim_def Let_def)

lemma workspaces_loop_names:
  "map wi_Name (fst (workspaces_loop W nss h)) = map nso_Name nss"
  "map wi_Namespace (fst (workspaces_loop W nss h)) = map nso_Name nss"
  by (induction nss arbitrary: h) (simp_all add: Let_def case_prod_beta)

lemma workspaces_listed:
  assumes "ListWorkspaces W h = (Inr infos, h')"
  shows "\<exists>nss. ww_namespaces W = Inr nss \<and> map wi_Name infos = map nso_Name (filter (has_workloads W) nss) \<and> map wi_Namespace infos = map wi_Name infos"
proof (cases "ww_namespaces W")
  case (Inr nss)
  with assms have "infos = fst (workspaces_loop W (filter (has_workloads W) nss) h)"
    by (cases "workspaces_loop W (filter (has_workloads W) nss) h") (auto simp: ListWorkspaces_def)
  with Inr workspaces_loop_names show ?thesis by simp
qed (use assms in \<open>simp add: ListWorkspaces_def\<close>)

subsection \<open>Instances\<close>

definition named_job :: "string \<Rightarrow> time \<Rightarrow> stored_job" where
  "named_job name t = known_job\<lparr>sj_Meta := (sj_Meta known_job)\<lparr>sm_Name := name, sm_UID := name, sm_Created := t\<rparr>\<rparr>"

definition sample_notebook :: "string \<Rightarrow> time \<Rightarrow> stored_notebook" where
  "sample_notebook name t =
     \<lparr>nb_APIVersion = [], nb_Kind = ''Notebook'', nb_Name = name, nb_Namespace = ''n'', nb_UID = name,
      nb_Template = nb_Template notebook0, nb_Condition = NotebookTerminated, nb_Message = [], nb_LastTransitionTime = t, nb_Url = [],
      sn_ResourceVersion = ''1'', sn_Created = 20, sn_Annotations = Map.empty\<rparr>"

definition sample_console :: console_world where
  "sample_console =
     \<lparr>kw_kinds = [''TFJob'', ''XDLJob''],
      kw_jobs = (\<lambda>kind ns. Inr (if kind = ''TFJob'' then [named_job ''a'' 20, named_job ''b'' 30] else [named_job ''c'' 25])),
      kw_job = (\<lambda>kind ns name. Inl NotFound), kw_pods = (\<lambda>ns name. Inr []),
      kw_notebooks = (\<lambda>ns. Inr [sample_notebook ''x'' 41, sample_notebook ''y'' 52]), kw_now = 60, kw_convert = row_codec\<rparr>"

definition sample_query :: list_query where
  "sample_query = \<lparr>lq_Name = [], lq_Namespace = [], lq_Type = [], lq_Region = [], lq_Status = [], lq_StartTime = 10, lq_EndTime = 50,
     lq_Pagination = None\<rparr>"

definition named_row :: "string \<Rightarrow> time \<Rightarrow> job_row" where
  "named_row name t = (case ConvertJobToDMOJob row_codec (named_job name t) ''TFJob'' [] of Inr r \<Rightarrow> r | Inl e \<Rightarrow> running_row)"

lemma named_rows:
  "ConvertJobToDMOJob row_codec (named_job name t) kind [] = Inr (named_row name t\<lparr>jr_Kind := kind\<rparr>)"
  "jr_Name (named_row name t) = name" "jr_GmtCreated (named_row name t) = t" "jr_GmtJobFinished (named_row name t) = None"
  by (simp_all add: named_row_def ConvertJobToDMOJob_def row_codec_def named_job_def known_job_def row_tenancy_def GetTenancy_def
      GetCondition_def Let_def)

lemma sample_keep: "t < 50 \<Longrightarrow> job_filter 0 (sample_query\<lparr>lq_Pagination := p\<rparr>) (named_row name t\<lparr>jr_Kind := kind\<rparr>)"
  by (simp add: job_filter_def sample_query_def in_window_def named_rows set_time_def)

lemma second_page:
  "\<exists>a. ListJobs sample_console (sample_query\<lparr>lq_Pagination := Some (page 2 2)\<rparr>) = Inr [a] \<and> jr_Name a = ''a''"
proof -
  let ?q = "sample_query\<lparr>lq_Pagination := Some (page 2 2)\<rparr>"
  have z: "ce_zero_time row_codec = 0" by (simp add: row_codec_def)
  have q: "lq_Name sample_query = []" "lq_Namespace sample_query = []" "lq_Region sample_query = []" "lq_Type sample_query = []"
    "lq_StartTime sample_query = 10" "lq_EndTime sample_query = 50" by (simp_all add: sample_query_def)
  have a: "kw_convert sample_console = row_codec" "kw_kinds sample_console = [''TFJob'', ''XDLJob'']" by (simp_all add: sample_console_def)
  have l1: "listJobsWithKind sample_console ''TFJob'' ?q = Inr [named_row ''a'' 20\<lparr>jr_Kind := ''TFJob''\<rparr>, named_row ''b'' 30\<lparr>jr_Kind := ''TFJob''\<rparr>]"
    by (simp add: listJobsWithKind_def sample_console_def q z named_rows sample_keep)
  have l2: "listJobsWithKind sample_console ''XDLJob'' ?q = Inr [named_row ''c'' 25\<lparr>jr_Kind := ''XDLJob''\<rparr>]"
    by (simp add: listJobsWithKind_def sample_console_def q z named_rows sample_keep)
  have p: "paginate (Some (page 2 2)) [x, y, w] = Inr [w]" for x y w :: job_row
    by (simp add: paginate_def page_def i64_def)
  show ?thesis
    by (simp add: ListJobs_def a l1 l2 q z p SliceStable_def job_before_def named_rows)
qed

lemma page_asked_for:
  "length (concat (map (rows_asked_for sample_console (sample_query\<lparr>lq_Pagination := p\<rparr>)) [''TFJob'', ''XDLJob''])) = 3"
proof -
  have z: "ce_zero_time row_codec = 0" by (simp add: row_codec_def)
  have q: "lq_Name sample_query = []" "lq_Region sample_query = []" by (simp_all add: sample_query_def)
  show ?thesis
    by (simp add: rows_asked_for_def row_asked_for_def sample_console_def q z named_rows sample_keep)
qed

lemma listed_names: "map_sum id (map jr_Name) (ListJobs sample_console sample_query) = Inr [''b'', ''c'', ''a'']"
proof -
  have z: "ce_zero_time row_codec = 0" by (simp add: row_codec_def)
  have keep: "job_filter 0 sample_query (named_row name t\<lparr>jr_Kind := kind\<rparr>)" if "t < 50" for name t kind
    using that by (simp add: job_filter_def sample_query_def in_window_def named_rows set_time_def)
  have q: "lq_Name sample_query = []" "lq_Namespace sample_query = []" "lq_Region sample_query = []" "lq_Type sample_query = []"
    "lq_StartTime sample_query = 10" "lq_EndTime sample_query = 50" "lq_Pagination sample_query = None"
    by (simp_all add: sample_query_def)
  have a: "kw_convert sample_console = row_codec" "kw_kinds sample_console = [''TFJob'', ''XDLJob'']" by (simp_all add: sample_console_def)
  have l1: "listJobsWithKind sample_console ''TFJob'' sample_query = Inr [named_row ''a'' 20\<lparr>jr_Kind := ''TFJob''\<rparr>, named_row ''b'' 30\<lparr>jr_Kind := ''TFJob''\<rparr>]"
    by (simp add: listJobsWithKind_def sample_console_def q z named_rows keep)
  have l2: "listJobsWithKind sample_console ''XDLJob'' sample_query = Inr [named_row ''c'' 25\<lparr>jr_Kind := ''XDLJob''\<rparr>]"
    by (simp add: listJobsWithKind_def sample_console_def q z named_rows keep)
  show ?thesis
    by (simp add: ListJobs_def a l1 l2 q z paginate_def SliceStable_def job_before_def named_rows)
qed

lemma listed_jobs:
  "\<exists>a b c. ListJobs sample_console sample_query = Inr [b, c, a] \<and> jr_Name b = ''b'' \<and> jr_Name c = ''c'' \<and> jr_Name a = ''a''"
proof -
  obtain rows where r: "ListJobs sample_console sample_query = Inr rows" "map jr_Name rows = [''b'', ''c'', ''a'']"
    using listed_names unfolding map_sum_Inr by metis
  then show ?thesis unfolding map_eq_Cons_conv by blast
qed

text \<open>Of the three jobs of the two kinds the second page of two shows the oldest one.\<close>

theorem list_jobs_exact_witness:
  "\<exists>all r. ListJobs sample_console (sample_query\<lparr>lq_Pagination := Some (page 2 2)\<rparr>) = Inr [r] \<and> jr_Name r = ''a'' \<and>
    length all = 3 \<and> mset all = mset (concat (map (rows_asked_for sample_console (sample_query\<lparr>lq_Pagination := Some (page 2 2)\<rparr>)) [''TFJob'', ''XDLJob''])) \<and>
    page_rows 1 2 all = [r]"
proof -
  let ?q = "sample_query\<lparr>lq_Pagination := Some (page 2 2)\<rparr>"
  obtain a where r: "ListJobs sample_console ?q = Inr [a]" "jr_Name a = ''a''" using second_page by blast
  have q: "lq_Type ?q = []" "kw_kinds sample_console = [''TFJob'', ''XDLJob'']" "lq_Pagination ?q = Some (page (Suc 1) 2)"
    by (simp_all add: sample_query_def sample_console_def numeral_2_eq_2)
  from list_jobs_exact [OF r(1)] obtain all where
    m: "mset all = mset (concat (map (rows_asked_for sample_console ?q) [''TFJob'', ''XDLJob'']))"
    and p: "int (length all) + 2 < 2 ^ 62 \<Longrightarrow> [a] = page_rows 1 2 all"
    unfolding q by (auto simp: q(1,2) page_def)
  have "length all = 3" using arg_cong [OF m, of size] page_asked_for by simp
  with m p r show ?thesis by (intro exI [of _ all] exI [of _ a]) simp
qed

theorem job_pages_witness:
  "\<exists>pages rows. map (\<lambda>k. ListJobs sample_console (sample_query\<lparr>lq_Pagination := Some (page (Suc k) 2)\<rparr>)) [0..<2] = map Inr pages \<and>
    concat pages = rows \<and> ListJobs sample_console sample_query = Inr rows \<and> length rows = 3"
proof -
  obtain a b c where r: "ListJobs sample_console sample_query = Inr [b, c, a]" using listed_jobs by blast
  have "sample_query\<lparr>lq_Pagination := None\<rparr> = sample_query" by (simp add: sample_query_def)
  with r have n: "ListJobs sample_console (sample_query\<lparr>lq_Pagination := None\<rparr>) = Inr [b, c, a]" by (simp only:)
  have m: "(length [b, c, a] + 2 - 1) div 2 = (2 :: nat)" "length [b, c, a] = 3" by simp_all
  have "\<exists>pages. map (\<lambda>k. ListJobs sample_console (sample_query\<lparr>lq_Pagination := Some (page (Suc k) 2)\<rparr>))
      [0..<(length [b, c, a] + 2 - 1) div 2] = map Inr pages \<and> concat pages = [b, c, a]"
    by (rule conjunct1 [OF job_pages [OF n]]) simp_all
  with r m show ?thesis unfolding m(1) by metis
qed

lemma sample_notebook_row:
  "\<exists>r. ConvertNotebookToDMONotebook row_codec (sample_notebook name t) [] = Inr r \<and> nr_Name r = name \<and> nr_GmtCreated r = 20 \<and>
    nr_GmtTerminated r = Some t \<and> nr_GmtRunning r = None"
proof -
  have "ce_marshal_pod row_codec x = Inr []" for x by (simp add: row_codec_def)
  then show ?thesis by (simp add: ConvertNotebookToDMONotebook_def row_tenancy_def GetTenancy_def Let_def sample_notebook_def)
qed

lemma listed_notebooks: "map_sum id (map (\<lambda>r. (nr_Name r, nr_GmtTerminated r))) (ListNotebooks sample_console sample_query) =
    Inr [(''x'', Some 52), (''y'', Some 52)]"
proof -
  have a: "kw_convert sample_console = row_codec" "ce_zero_time row_codec = 0"
    "kw_notebooks sample_console ns = Inr [sample_notebook ''x'' 41, sample_notebook ''y'' 52]"
    "nb_LastTransitionTime (sample_notebook name t) = t" for ns name t
    by (simp_all add: sample_console_def row_codec_def sample_notebook_def)
  obtain x where x: "ConvertNotebookToDMONotebook row_codec (sample_notebook ''x'' 41) [] = Inr x" "nr_Name x = ''x''" "nr_GmtCreated x = 20"
    "nr_GmtTerminated x = Some 41" using sample_notebook_row by blast
  obtain y where y: "ConvertNotebookToDMONotebook row_codec (sample_notebook ''y'' 52) [] = Inr y" "nr_Name y = ''y''" "nr_GmtCreated y = 20"
    "nr_GmtTerminated y = Some 52" using sample_notebook_row by blast
  have q: "lq_Status sample_query = []" "lq_Region sample_query = []" "lq_StartTime sample_query = 10" "lq_EndTime sample_query = 50"
    by (simp_all add: sample_query_def)
  show ?thesis by (simp add: ListNotebooks_def a q x y notebook_filter_def in_window_def point_at_def)
qed

theorem notebook_times_shared_witness:
  "\<exists>rows r. ListNotebooks sample_console sample_query = Inr rows \<and> r \<in> set rows \<and> nr_GmtTerminated r \<in> {None, Some 52}"
proof -
  have nbs: "kw_notebooks sample_console (lq_Namespace sample_query) = Inr [sample_notebook ''x'' 41, sample_notebook ''y'' 52]"
    and t: "nb_LastTransitionTime (last [sample_notebook ''x'' 41, sample_notebook ''y'' 52]) = 52"
    by (simp_all add: sample_console_def sample_notebook_def)
  obtain rows where r: "ListNotebooks sample_console sample_query = Inr rows"
      "map (\<lambda>r. (nr_Name r, nr_GmtTerminated r)) rows = [(''x'', Some 52), (''y'', Some 52)]"
    using listed_notebooks unfolding map_sum_Inr by metis
  then obtain x xs where "rows = x # xs" unfolding map_eq_Cons_conv by blast
  then have x: "x \<in> set rows" by simp
  from conjunct2 [OF notebook_times_shared [OF nbs r(1) x]] r(1) x show ?thesis unfolding t by blast
qed

end
