(* ===== verification/Spec2Isabelle.thy ===== *)
theory Spec2Isabelle
  imports Event_Handlers Gang_Contract Coord_Contract Cron_Contract Elastic_Contract Default_Laws Code_Sync
    Tensor_Board Elastic_Batch Mars_Ingress Workload_Safety
    Model_Version Inference Cache_Backend Notebook Console_Store
begin

text \<open>
  A verification development for KubeDL, a set of Kubernetes controllers for deep learning
  workloads. All file names below are relative to \<open>src/\<close>.

  \<^bold>\<open>The program.\<close> A training job names, per replica type, how many pods of which template it
  wants and how failures are handled. The generic job controller (\<open>pkg/job_controller\<close>) brings the
  cluster in line with the job: it creates, restarts and deletes pods and services, keeps the status
  of the job and enforces its run policy. The workloads (TensorFlow, PyTorch, XGBoost, XDL, MPI,
  Mars, ElasticDL, ElasticBatch) plug their status rules into it. A gang scheduler groups the pods
  of a job, the job coordinator holds new jobs back until their tenant has quota, and the cron
  controller starts jobs on a schedule. Beside the jobs there are controllers of their own for model
  versions, inferences, cache backends and notebooks; persist controllers copy jobs, pods and events into a
  database, and a console lists them.

  \<^bold>\<open>Conventions.\<close> Code outside the repository (the API server, the informer caches, the event
  recorder, the expectation cache, random numbers, the clock, JSON, resource quantities, parsed cron
  schedules) is a parameter: a field of the record \<open>outside\<close> of theory \<open>Cluster\<close>, or of the record (such as
  \<open>cron_world\<close> or \<open>mv_world\<close>) that a controller with calls of its own has in its theory. An answer may depend on the whole history of the calls made before, so a
  theorem for all \<open>outside\<close> holds for every behaviour of the other actors of the cluster. An operation
  returns an error or a value together with the extended history; \<open>Panic\<close> is a nil dereference, an
  index out of range or a failed type assertion. A Go map that the code ranges over is an association
  list whose order is the iteration order. A slice that is shifted while a loop ranges over its old
  header is a pair of array and length. Machine integers are \<open>int\<close> with the wrap-around written out
  where it matters. Metrics and log lines are left out, texts of messages and events shortened.

  \<^bold>\<open>Theories.\<close>
  \<^item> \<open>Prelude\<close>: signed machine integers, string functions, association lists, shared lemmas.
  \<^item> \<open>Api_Types\<close> (\<open>api/v1/types.go\<close>, \<open>constants.go\<close>): job status, replica specs, run policy.
  \<^item> \<open>Job_Conditions\<close> (\<open>pkg/util/status.go\<close>): the condition list of a job. It refines a machine on
    the set of true conditions, and every reachable status is well formed.
  \<^item> \<open>K8s_Util\<close> (\<open>pkg/util/k8sutil\<close>, \<open>pkg/util/train\<close>, \<open>job_controller/status.go\<close>): pod filters, exit
    codes, replica counts.
  \<^item> \<open>Cluster\<close>, \<open>Controls\<close> (\<open>pod_control.go\<close>, \<open>service_control.go\<close>): calls and histories, creation and
    deletion of pods and services.
  \<^item> \<open>Replica_Slices\<close>, \<open>Controller_Env\<close>: pods by replica index, with the locale \<open>slice_collector\<close>
    interpreted for pods and services; the state of the controller and its interfaces as records.
  \<^item> \<open>Dag_Sched\<close>, \<open>Host_Network\<close>, \<open>Semaphore\<close>, \<open>Failover\<close>, \<open>Event_Handlers\<close>: one theory per file of
    \<open>pkg/job_controller\<close>. The semaphore is a step relation of concurrent workers; the fan-out is shown
    to process every item once, within its tickets, and to end.
  \<^item> \<open>Pod_Reconcile\<close>, \<open>Service_Reconcile\<close>, \<open>Job_Resources\<close>, \<open>Job_Policies\<close>, \<open>Job_Reconcile\<close>: \<open>pod.go\<close>,
    \<open>service.go\<close>, \<open>service_ref_manager.go\<close>, \<open>job_controller.go\<close> and \<open>job.go\<close>, in the phases of the code.
  \<^item> \<open>Status_Contract\<close>, \<open>Framework_Status\<close>: the locale \<open>status_updater\<close> says what the controller relies
    on when it hands the status to a workload; the status rules of the eight workloads interpret it.
  \<^item> \<open>Reconcile_Safety\<close>, \<open>Job_Termination\<close>: the contract of the status rules of the workloads, and what a whole
    reconciliation writes and creates under any controller that keeps to its interface.
  \<^item> \<open>Resource_Utils\<close>, \<open>Gang_Sched\<close>, \<open>Gang_Contract\<close> (\<open>pkg/util/resource_utils\<close>, \<open>pkg/gang_schedule\<close>):
    resource requests and the three gang schedulers. The locale \<open>group_gang\<close>, interpreted for each of them, says
    that they read, create and delete pod groups of the job and do nothing else; it gives \<open>quiet_gang\<close>, on which
    the safety of the reconciliation with gangs rests.
  \<^item> \<open>Coord_Queue\<close>, \<open>Coord_Plugins\<close>, \<open>Coordinator\<close>, \<open>Coord_Events\<close>, \<open>Coord_Contract\<close>
    (\<open>pkg/jobcoordinator\<close>, \<open>eventhandler_helpers.go\<close>): queues, fair queue selection, quota and priority
    plugins, the scheduling cycle and the job watch. The locale \<open>quiet_plugins\<close> (interpreted on the
    configured plugins) carries the invariant of the coordinator; the locale \<open>simulation\<close>
    (interpreted on its steps) shows that it implements a set of waiting jobs with their work queues. The
    steps of \<open>EnqueueOrUpdate\<close>, between which the code holds no lock, are one operation.
  \<^item> \<open>Cron_Time\<close>, \<open>Cron_Controller\<close>, \<open>Cron_Contract\<close> (\<open>controllers/apps\<close>): schedule times, the active list,
    concurrency policies and the history of a cron.
  \<^item> \<open>Error_Fanout\<close>, \<open>Elastic_Scale\<close>, \<open>Elastic_Contract\<close> (\<open>controllers/pytorch/elastic_scale.go\<close>): elastic
    scaling of PyTorch jobs: the checkpoint protocol, the restart of stale pods, and the concurrent
    deletion of victim pods with its error channel as a step relation. What is assumed of the JSON encoding of
    a checkpoint holds for 32-bit versions and times in whole seconds, as \<open>ckpt_codec\<close> says.
  \<^item> \<open>Job_Defaults\<close>, \<open>Default_Laws\<close> (\<open>apis/training/v1alpha1/*_defaults.go\<close>): the defaults of the job
    objects. The locales \<open>port_defaults\<close> and \<open>spec_defaults\<close>, interpreted for every workload, show that
    completing a job is idempotent; completed specs are well formed and their default dependencies
    follow the order of reconciliation.
  \<^item> \<open>Cluster_Specs\<close>, \<open>Mpi_Job\<close>, \<open>Mars_Spec\<close>, \<open>Cluster_Laws\<close> (\<open>SetClusterSpec\<close> of the workloads): what a
    replica is told about its peers. PyTorch ranks number the processes of the job, which find each other at
    the address and port of the master; TensorFlow configurations name the services of the replicas;
    XGBoost ranks collide.
  \<^item> \<open>Code_Sync\<close> (\<open>pkg/code_sync\<close>): the init containers that fetch code.
  \<^item> \<open>Tensor_Board\<close> (\<open>pkg/tensorboard\<close>), \<open>Mars_Ingress\<close> (\<open>controllers/mars/ingress.go\<close>), \<open>Elastic_Batch\<close>
    (\<open>controllers/elasticbatch\<close>): the objects that workloads keep beside their replicas. A tensor board
    consists of at most one pod, service and ingress and is removed when its time to live is over.
  \<^item> \<open>Workload_Reconcile\<close>, \<open>Workload_Contract\<close> (the \<open>Reconcile\<close> methods of the eight workloads): one
    step of a controller, from reading the job to writing its status. The server is the record
    \<open>server\<close>: what it answers, how it stores a status and what other actors do between two steps.
    The locales \<open>job_reconciler\<close> and \<open>quiet_reconciler\<close>, interpreted for the workloads, carry the
    lifecycle of a job over arbitrarily many reconciliations: a finished job stays finished and its
    replicas are no longer created.
  \<^item> \<open>Workload_Safety\<close>: one reconciliation under the eight controllers. Each of them is shown to keep to the
    interface, so the results on \<open>job.go\<close> and \<open>pod.go\<close> hold for all of them: the status that is
    written, the pods that are created, and the failure of a job that exceeds a limit.
  \<^item> \<open>Model_Storage\<close>, \<open>Model_Version\<close> (\<open>controllers/model\<close>): the storage of a model and its providers, and the build
    of an image for every model version. Every request takes a step of a build machine that is tied to what the
    request reads: the claim of the version and its build pod. The phase of a version only moves forward.
  \<^item> \<open>Inference\<close> (\<open>controllers/serving\<close>): predictors, their services, model loading and the distribution of traffic.
  \<^item> \<open>Cache_Backend\<close> (\<open>controllers/cache\<close>, \<open>pkg/cache_backend\<close>), \<open>Notebook\<close> (\<open>controllers/notebook\<close>): caches, which are
    deleted only after they have been idle, and notebooks.
  \<^item> \<open>Persist_Objects\<close>, \<open>Persist_Store\<close> (\<open>controllers/persist\<close>, \<open>pkg/storage\<close>): rows of jobs, pods and notebooks, the
    operations of the MySQL backend on them, and the persist controllers. The database library is a parameter; its
    documented behaviour is stated by \<open>lawful_jobs\<close> and \<open>lawful_pods\<close>. Over any sequence of requests every job keeps one row
    whose version never goes back.
  \<^item> \<open>Console_Store\<close> (\<open>console/backend/pkg/storage/objects/apiserver\<close>): the lists the console shows. The locale \<open>weak_order\<close>,
    interpreted for the orders of jobs and pods, carries stable sorting.

  \<^bold>\<open>Loops.\<close> All loops but one are structural recursions over the data they range over. The search for
  missed activations of a cron may run forever for an arbitrary schedule; it is a partial function
  into \<open>option\<close>, shown to return for every schedule that moves forward. No fuel is used.

  \<^bold>\<open>Not modelled.\<close> Metrics (no influence on control decisions); the log service that keeps events and the list
  queries the MySQL backend composes in SQL; the routes, handlers and log-in of the console;
  generated clients and deep copies; process start-up and watch setup. The provider of a model's storage stays a
  parameter of the job controller; \<open>Model_Storage\<close> shows what the three providers make of it.
\<close>

end
